(* ===== verification/Prelude.thy ===== *)
theory Prelude
  imports Main "HOL-Library.Word"
begin

unbundle bit_operations_syntax

section \<open>Prelude: machine integers, outcomes, bytes\<close>

text \<open>
  Types and facts every component shares: Rust's unsigned integers as words, the outcome
  of a fallible Rust computation (\<open>Ok\<close>, \<open>Err\<close>, or a panic), checked addition and
  multiplication under the two build profiles, big-endian encoding of 16- and 32-bit
  integers, and facts on lists. The collections \<open>lock_simps\<close>, \<open>rtsp_simps\<close> and
  \<open>byte_simps\<close> gather the unfolding rules of the components.
\<close>

named_theorems lock_simps "unfolding rules of the lock manager"
named_theorems rtsp_simps "unfolding rules of the RTSP session and handler model"
named_theorems byte_simps "byte-level encoding facts"

type_synonym u8 = "8 word"
type_synonym u16 = "16 word"
type_synonym u32 = "32 word"
type_synonym u64 = "64 word"
type_synonym uuid = "128 word"
type_synonym bytes = "u8 list"

subsection \<open>Outcomes\<close>

text \<open>
  A Rust function returning \<open>Result\<close> that can also panic: \<open>Panic\<close> is an unwinding
  panic (overflow in a checked build, slicing a \<open>str\<close> off a character boundary).
\<close>

datatype ('e, 'a) outcome = Ok 'a | Err 'e | Panic

fun and_then :: "('e, 'a) outcome \<Rightarrow> ('a \<Rightarrow> ('e, 'b) outcome) \<Rightarrow> ('e, 'b) outcome" where
  "and_then (Ok a) f = f a"
| "and_then (Err e) f = Err e"
| "and_then Panic f = Panic"

definition ok_or :: "'e \<Rightarrow> 'a option \<Rightarrow> ('e, 'a) outcome" where
  "ok_or e x = (case x of None \<Rightarrow> Err e | Some a \<Rightarrow> Ok a)"

lemma ok_or_simps [simp]: "ok_or e None = Err e" "ok_or e (Some a) = Ok a"
  by (simp_all add: ok_or_def)

lemma and_then_Ok_iff [simp]:
  "and_then m f = Ok b \<longleftrightarrow> (\<exists>a. m = Ok a \<and> f a = Ok b)"
  by (cases m) auto

lemma and_then_Panic_iff:
  "and_then m f = Panic \<longleftrightarrow> m = Panic \<or> (\<exists>a. m = Ok a \<and> f a = Panic)"
  by (cases m) auto

lemma ok_or_eq_iff [simp]:
  "ok_or e x = Ok a \<longleftrightarrow> x = Some a" "ok_or e x \<noteq> Panic" "Panic \<noteq> ok_or e x"
  by (cases x; simp)+

subsection \<open>Arithmetic that can overflow\<close>

text \<open>
  Rust's \<open>+\<close> and \<open>*\<close> on an unsigned integer panic on overflow when the build has
  overflow checks (the dev and test profiles) and wrap around when it has not (the
  release profile). The first argument is the build's \<open>overflow-checks\<close> setting.
\<close>

definition add_ovf :: "bool \<Rightarrow> 'a::len word \<Rightarrow> 'a word \<Rightarrow> ('e, 'a word) outcome" where
  "add_ovf checks a b =
     (if unat a + unat b < 2 ^ LENGTH('a) then Ok (a + b)
      else if checks then Panic else Ok (a + b))"

definition mul_ovf :: "bool \<Rightarrow> 'a::len word \<Rightarrow> 'a word \<Rightarrow> ('e, 'a word) outcome" where
  "mul_ovf checks a b =
     (if unat a * unat b < 2 ^ LENGTH('a) then Ok (a * b)
      else if checks then Panic else Ok (a * b))"

lemma add_ovf_fits: "unat a + unat b < 2 ^ LENGTH('a) \<Longrightarrow> add_ovf c a (b :: 'a::len word) = Ok (a + b)"
  by (simp add: add_ovf_def)

lemma add_ovf_release [simp]: "add_ovf False a b = Ok (a + b)"
  by (simp add: add_ovf_def)

lemma mul_ovf_fits: "unat a * unat b < 2 ^ LENGTH('a) \<Longrightarrow> mul_ovf c a (b :: 'a::len word) = Ok (a * b)"
  by (simp add: mul_ovf_def)

lemma mul_ovf_release [simp]: "mul_ovf False a b = Ok (a * b)"
  by (simp add: mul_ovf_def)

subsection \<open>Big-endian bytes\<close>

definition u16_be :: "u16 \<Rightarrow> bytes" where
  "u16_be w = [ucast (drop_bit 8 w), ucast w]"

definition u32_be :: "u32 \<Rightarrow> bytes" where
  "u32_be w = [ucast (drop_bit 24 w), ucast (drop_bit 16 w), ucast (drop_bit 8 w), ucast w]"

definition u16_of_be :: "u8 \<Rightarrow> u8 \<Rightarrow> u16" where
  "u16_of_be a b = push_bit 8 (ucast a) OR ucast b"

definition u32_of_be :: "u8 \<Rightarrow> u8 \<Rightarrow> u8 \<Rightarrow> u8 \<Rightarrow> u32" where
  "u32_of_be a b c d =
     push_bit 24 (ucast a) OR push_bit 16 (ucast b) OR push_bit 8 (ucast c) OR ucast d"

lemma length_u16_be [simp]: "length (u16_be w) = 2"
  by (simp add: u16_be_def)

lemma length_u32_be [simp]: "length (u32_be w) = 4"
  by (simp add: u32_be_def)

lemma u16_of_be_u16_be [byte_simps]: "u16_of_be (u16_be w ! 0) (u16_be w ! 1) = w"
  unfolding u16_of_be_def u16_be_def
  by (rule bit_word_eqI) (auto simp: bit_simps)

lemma u32_of_be_u32_be [byte_simps]:
  "u32_of_be (u32_be w ! 0) (u32_be w ! 1) (u32_be w ! 2) (u32_be w ! 3) = w"
proof -
  have "u32_of_be (ucast (drop_bit 24 w)) (ucast (drop_bit 16 w)) (ucast (drop_bit 8 w)) (ucast w) = w"
    unfolding u32_of_be_def
  proof (rule bit_word_eqI)
    fix n assume "n < LENGTH(32)"
    then show "bit (push_bit 24 (ucast (ucast (drop_bit 24 w) :: u8) :: u32) OR
        push_bit 16 (ucast (ucast (drop_bit 16 w) :: u8)) OR
        push_bit 8 (ucast (ucast (drop_bit 8 w) :: u8)) OR ucast (ucast w :: u8)) n = bit w n"
      by (cases "24 \<le> n"; cases "16 \<le> n"; cases "8 \<le> n") (auto simp: bit_simps)
  qed
  then show ?thesis by (simp add: u32_be_def numeral_2_eq_2 numeral_3_eq_3)
qed

subsection \<open>Facts on lists\<close>

lemma find_Some_iff_ex: "find P xs = Some x \<Longrightarrow> x \<in> set xs \<and> P x"
  by (auto simp: find_Some_iff)

lemma find_None_all: "find P xs = None \<longleftrightarrow> (\<forall>x \<in> set xs. \<not> P x)"
  by (auto simp: find_None_iff)

text \<open>Rust's \<open>iter_mut().find(p)\<close> followed by a write: the first match is updated.\<close>

fun update_first :: "('a \<Rightarrow> bool) \<Rightarrow> ('a \<Rightarrow> 'a) \<Rightarrow> 'a list \<Rightarrow> 'a list" where
  "update_first p f [] = []"
| "update_first p f (x # xs) = (if p x then f x # xs else x # update_first p f xs)"

lemma length_update_first [simp]: "length (update_first p f xs) = length xs"
  by (induction xs) auto

lemma update_first_eq_Nil [simp]: "update_first p f xs = [] \<longleftrightarrow> xs = []"
  by (cases xs) auto

lemma map_update_first: "(\<And>x. g (f x) = g x) \<Longrightarrow> map g (update_first p f xs) = map g xs"
  by (induction xs) auto

lemma set_update_first: "x \<in> set (update_first p f xs) \<Longrightarrow> x \<in> set xs \<or> (\<exists>y \<in> set xs. p y \<and> x = f y)"
  by (induction xs) (auto split: if_splits)

lemma update_first_no_match: "\<forall>x \<in> set xs. \<not> p x \<Longrightarrow> update_first p f xs = xs"
  by (induction xs) auto

lemma fold_invariant:
  assumes "P s" and "\<And>x s. x \<in> set xs \<Longrightarrow> P s \<Longrightarrow> P (f x s)"
  shows "P (fold f xs s)"
  using assms by (induction xs arbitrary: s) auto

end
