(* ===== verification/Rust_Str.thy ===== *)
theory Rust_Str
  imports Prelude
begin

section \<open>Strings of the Rust standard library\<close>

text \<open>
  A Rust \<open>str\<close> is a sequence of bytes that is valid UTF-8; here it is a \<open>string\<close>,
  whose \<open>char\<close>s are bytes. \<open>utf8_valid\<close> is the check of \<open>str::from_utf8\<close>. The searches,
  splits and slices are those of \<open>core::str\<close> on bytes, which agree with the ones on
  code points for the patterns the code uses (ASCII, and UTF-8 is self-synchronising).
  \<open>trim\<close> removes every scalar of the Unicode property \<open>White_Space\<close>. \<open>to_lowercase\<close> lowers
  the ASCII letters; the other cased letters are left alone, which changes no lookup of the
  code: the keys and names it compares with are ASCII.
\<close>

subsection \<open>UTF-8\<close>

definition byte_in :: "nat \<Rightarrow> nat \<Rightarrow> char \<Rightarrow> bool" where
  "byte_in lo hi c = (lo \<le> of_char c \<and> of_char c \<le> hi)"

abbreviation is_cont :: "char \<Rightarrow> bool" where
  "is_cont \<equiv> byte_in 128 191"

fun utf8_valid :: "string \<Rightarrow> bool" where
  "utf8_valid [] = True"
| "utf8_valid (a # s) =
     (if byte_in 0 127 a then utf8_valid s
      else if byte_in 194 223 a then
        (case s of b # t \<Rightarrow> is_cont b \<and> utf8_valid t | _ \<Rightarrow> False)
      else if byte_in 224 239 a then
        (case s of b # c # t \<Rightarrow>
           (if of_char a = (224::nat) then byte_in 160 191 b
            else if of_char a = (237::nat) then byte_in 128 159 b else is_cont b)
           \<and> is_cont c \<and> utf8_valid t
         | _ \<Rightarrow> False)
      else if byte_in 240 244 a then
        (case s of b # c # d # t \<Rightarrow>
           (if of_char a = (240::nat) then byte_in 144 191 b
            else if of_char a = (244::nat) then byte_in 128 143 b else is_cont b)
           \<and> is_cont c \<and> is_cont d \<and> utf8_valid t
         | _ \<Rightarrow> False)
      else False)"

text \<open>\<open>str::is_char_boundary\<close>: the positions at which a slice may start or end.\<close>

definition is_char_boundary :: "string \<Rightarrow> nat \<Rightarrow> bool" where
  "is_char_boundary s i = (i = 0 \<or> i = length s \<or> (i < length s \<and> \<not> is_cont (s ! i)))"

definition is_ascii :: "string \<Rightarrow> bool" where
  "is_ascii s = (\<forall>c \<in> set s. byte_in 0 127 c)"

lemma utf8_valid_ascii: "is_ascii s \<Longrightarrow> utf8_valid s"
  by (induction s) (auto simp: is_ascii_def)

lemma is_ascii_append [simp]: "is_ascii (a @ b) \<longleftrightarrow> is_ascii a \<and> is_ascii b"
  by (auto simp: is_ascii_def)

lemma is_char_boundary_ascii:
  assumes "is_ascii s" and "i \<le> length s"
  shows "is_char_boundary s i"
proof (cases "i < length s")
  case True
  then have "byte_in 0 127 (s ! i)"
    using assms(1) by (auto simp: is_ascii_def)
  then have "\<not> is_cont (s ! i)" by (auto simp: byte_in_def)
  with True show ?thesis by (simp add: is_char_boundary_def)
qed (use assms(2) in \<open>simp add: is_char_boundary_def\<close>)

subsection \<open>Prefixes and searching\<close>

fun strip_prefix :: "string \<Rightarrow> string \<Rightarrow> string option" where
  "strip_prefix [] s = Some s"
| "strip_prefix (p # ps) [] = None"
| "strip_prefix (p # ps) (c # s) = (if p = c then strip_prefix ps s else None)"

definition starts_with :: "string \<Rightarrow> string \<Rightarrow> bool" where
  "starts_with p s = (strip_prefix p s \<noteq> None)"

text \<open>\<open>s.find(pat)\<close>: the least byte offset at which the pattern occurs.\<close>

fun find_from :: "nat \<Rightarrow> string \<Rightarrow> string \<Rightarrow> nat option" where
  "find_from i p [] = (if p = [] then Some i else None)"
| "find_from i p (c # s) =
     (if starts_with p (c # s) then Some i else find_from (Suc i) p s)"

definition str_find :: "string \<Rightarrow> string \<Rightarrow> nat option" where
  "str_find p s = find_from 0 p s"

definition str_contains :: "string \<Rightarrow> string \<Rightarrow> bool" where
  "str_contains p s = (str_find p s \<noteq> None)"

lemma strip_prefix_append [simp]: "strip_prefix p (p @ s) = Some s"
  by (induction p) auto

lemma strip_prefix_Some: "strip_prefix p s = Some r \<longleftrightarrow> s = p @ r"
  by (induction p s rule: strip_prefix.induct) auto

lemma starts_with_append [simp]: "starts_with p (p @ s)"
  by (simp add: starts_with_def)

lemma starts_with_iff: "starts_with p s \<longleftrightarrow> (\<exists>r. s = p @ r)"
  unfolding starts_with_def by (auto simp: not_None_eq strip_prefix_Some)

lemma find_from_Some:
  "find_from i p s = Some j \<Longrightarrow> i \<le> j \<and> j - i \<le> length s \<and> starts_with p (drop (j - i) s)"
proof (induction s arbitrary: i)
  case Nil
  then show ?case by (auto simp: starts_with_def split: if_splits)
next
  case (Cons c s)
  show ?case
  proof (cases "starts_with p (c # s)")
    case True
    with Cons.prems show ?thesis by simp
  next
    case False
    with Cons.prems have "find_from (Suc i) p s = Some j" by simp
    from Cons.IH [OF this] have "Suc i \<le> j" and "j - Suc i \<le> length s"
      and "starts_with p (drop (j - Suc i) s)" by auto
    moreover from \<open>Suc i \<le> j\<close> have "j - i = Suc (j - Suc i)" by simp
    ultimately show ?thesis by simp
  qed
qed

lemma str_find_Some: "str_find p s = Some j \<Longrightarrow> \<exists>a b. s = a @ p @ b \<and> length a = j"
proof -
  assume "str_find p s = Some j"
  then have "j \<le> length s" and "starts_with p (drop j s)"
    using find_from_Some [of 0 p s j] by (auto simp: str_find_def)
  then obtain b where "drop j s = p @ b" by (auto simp: starts_with_iff)
  then have "s = take j s @ p @ b" by (metis append_take_drop_id)
  with \<open>j \<le> length s\<close> show ?thesis by (metis length_take min.absorb2)
qed

text \<open>
  The first occurrence of a pattern lies at the end of a prefix when no character of the
  prefix can start the pattern.
\<close>

lemma find_from_skip:
  assumes "p \<noteq> []" and "hd p \<notin> set a"
  shows "find_from i p (a @ s) = find_from (i + length a) p s"
  using assms
proof (induction a arbitrary: i)
  case Nil
  then show ?case by simp
next
  case (Cons c a)
  then have "\<not> starts_with p (c # a @ s)"
    by (cases p) (auto simp: starts_with_def)
  with Cons show ?case by simp
qed

lemma find_from_here: "p \<noteq> [] \<Longrightarrow> find_from i p (p @ s) = Some i"
  by (cases p) (simp_all add: starts_with_iff)

lemma str_find_skip:
  "p \<noteq> [] \<Longrightarrow> hd p \<notin> set a \<Longrightarrow> str_find p (a @ p @ b) = Some (length a)"
  by (simp add: str_find_def find_from_skip find_from_here)

lemma str_find_absent: "p \<noteq> [] \<Longrightarrow> hd p \<notin> set s \<Longrightarrow> str_find p s = None"
  using find_from_skip [of p s 0 "[]"] by (simp add: str_find_def)

subsection \<open>Splitting\<close>

text \<open>\<open>split\<close>, \<open>split_once\<close> and \<open>splitn\<close> on a single-character pattern.\<close>

fun split_on :: "char \<Rightarrow> string \<Rightarrow> string list" where
  "split_on c [] = [[]]"
| "split_on c (x # s) =
     (if x = c then [] # split_on c s
      else (case split_on c s of [] \<Rightarrow> [[x]] | h # t \<Rightarrow> (x # h) # t))"

fun split_once :: "char \<Rightarrow> string \<Rightarrow> (string \<times> string) option" where
  "split_once c [] = None"
| "split_once c (x # s) =
     (if x = c then Some ([], s)
      else map_option (\<lambda>(a, b). (x # a, b)) (split_once c s))"

fun splitn :: "nat \<Rightarrow> char \<Rightarrow> string \<Rightarrow> string list" where
  "splitn 0 c s = []"
| "splitn (Suc 0) c s = [s]"
| "splitn (Suc (Suc n)) c s =
     (case split_once c s of None \<Rightarrow> [s] | Some (a, b) \<Rightarrow> a # splitn (Suc n) c b)"

lemma split_on_absent [simp]: "c \<notin> set s \<Longrightarrow> split_on c s = [s]"
  by (induction s) auto

lemma split_on_append [simp]: "c \<notin> set a \<Longrightarrow> split_on c (a @ c # b) = a # split_on c b"
  by (induction a) auto

lemma split_on_nonempty [simp]: "split_on c s \<noteq> []"
  by (cases s) (auto split: list.splits)

lemma split_once_append [simp]: "c \<notin> set a \<Longrightarrow> split_once c (a @ c # b) = Some (a, b)"
  by (induction a) auto

lemma split_once_absent [simp]: "c \<notin> set s \<Longrightarrow> split_once c s = None"
  by (induction s) auto

lemma split_once_Some: "split_once c s = Some (a, b) \<Longrightarrow> s = a @ c # b \<and> c \<notin> set a"
  by (induction s arbitrary: a) (auto split: if_splits)

text \<open>
  \<open>str::lines\<close>: \<open>split_inclusive\<close> on line feeds, then each line loses a final line feed
  and the carriage return before it. A carriage return that ends an unterminated last
  line stays.
\<close>

abbreviation LF :: char where "LF \<equiv> CHR 0x0A"
abbreviation CR :: char where "CR \<equiv> CHR 0x0D"
abbreviation CRLF :: string where "CRLF \<equiv> [CR, LF]"

fun split_inclusive :: "string \<Rightarrow> string list" where
  "split_inclusive [] = []"
| "split_inclusive (x # s) =
     (if x = LF then [x] # split_inclusive s
      else (case split_inclusive s of [] \<Rightarrow> [[x]] | h # t \<Rightarrow> (x # h) # t))"

definition strip_eol :: "string \<Rightarrow> string" where
  "strip_eol l =
     (if l \<noteq> [] \<and> last l = LF then
        (let b = butlast l in if b \<noteq> [] \<and> last b = CR then butlast b else b)
      else l)"

definition str_lines :: "string \<Rightarrow> string list" where
  "str_lines s = map strip_eol (split_inclusive s)"

lemma split_inclusive_line:
  "LF \<notin> set a \<Longrightarrow> split_inclusive (a @ LF # b) = (a @ [LF]) # split_inclusive b"
  by (induction a) auto

lemma split_inclusive_last: "LF \<notin> set a \<Longrightarrow> split_inclusive a = (if a = [] then [] else [a])"
  by (induction a) auto

lemma str_lines_Nil [simp]: "str_lines [] = []"
  by (simp add: str_lines_def)

lemma str_lines_crlf [simp]:
  assumes "LF \<notin> set a"
  shows "str_lines (a @ CR # LF # b) = a # str_lines b"
  using split_inclusive_line [of "a @ [CR]" b] assms
  by (simp add: str_lines_def strip_eol_def butlast_append)

lemma str_lines_last [simp]:
  assumes "LF \<notin> set a" and "a \<noteq> []"
  shows "str_lines a = [a]"
proof -
  from assms have "last a \<noteq> LF" by (metis last_in_set)
  with assms show ?thesis
    by (simp add: str_lines_def split_inclusive_last strip_eol_def)
qed

subsection \<open>Trimming\<close>

text \<open>The UTF-8 encodings of the scalars with the property \<open>White_Space\<close>.\<close>

definition white_space :: "string list" where
  "white_space =
     [[CHR 0x09], [CHR 0x0A], [CHR 0x0B], [CHR 0x0C], [CHR 0x0D], [CHR 0x20],
      [CHR 0xC2, CHR 0x85], [CHR 0xC2, CHR 0xA0], [CHR 0xE1, CHR 0x9A, CHR 0x80],
      [CHR 0xE2, CHR 0x80, CHR 0x80], [CHR 0xE2, CHR 0x80, CHR 0x81],
      [CHR 0xE2, CHR 0x80, CHR 0x82], [CHR 0xE2, CHR 0x80, CHR 0x83],
      [CHR 0xE2, CHR 0x80, CHR 0x84], [CHR 0xE2, CHR 0x80, CHR 0x85],
      [CHR 0xE2, CHR 0x80, CHR 0x86], [CHR 0xE2, CHR 0x80, CHR 0x87],
      [CHR 0xE2, CHR 0x80, CHR 0x88], [CHR 0xE2, CHR 0x80, CHR 0x89],
      [CHR 0xE2, CHR 0x80, CHR 0x8A], [CHR 0xE2, CHR 0x80, CHR 0xA8],
      [CHR 0xE2, CHR 0x80, CHR 0xA9], [CHR 0xE2, CHR 0x80, CHR 0xAF],
      [CHR 0xE2, CHR 0x81, CHR 0x9F], [CHR 0xE3, CHR 0x80, CHR 0x80]]"

function strip_seqs :: "string list \<Rightarrow> string \<Rightarrow> string" where
  "strip_seqs ws s =
     (case find (\<lambda>w. w \<noteq> [] \<and> starts_with w s) ws of
        None \<Rightarrow> s
      | Some w \<Rightarrow> strip_seqs ws (drop (length w) s))"
  by pat_completeness auto
termination
  by (relation "measure (\<lambda>(ws, s). length s)")
    (auto dest!: find_Some_iff_ex simp: starts_with_iff)

declare strip_seqs.simps [simp del]

definition trim_start :: "string \<Rightarrow> string" where
  "trim_start s = strip_seqs white_space s"

definition trim_end :: "string \<Rightarrow> string" where
  "trim_end s = rev (strip_seqs (map rev white_space) (rev s))"

definition trim :: "string \<Rightarrow> string" where
  "trim s = trim_end (trim_start s)"

text \<open>The printable ASCII characters other than the space.\<close>

abbreviation graphic :: "char \<Rightarrow> bool" where
  "graphic \<equiv> byte_in 33 126"

lemma strip_seqs_stop:
  assumes "\<forall>w \<in> set ws. w \<noteq> [] \<longrightarrow> s = [] \<or> hd w \<noteq> hd s"
  shows "strip_seqs ws s = s"
proof -
  have "find (\<lambda>w. w \<noteq> [] \<and> starts_with w s) ws = None"
    using assms by (fastforce simp: find_None_all starts_with_iff)
  then show ?thesis by (subst strip_seqs.simps) simp
qed

lemma white_space_hd:
  "w \<in> set white_space \<Longrightarrow> \<not> graphic (hd w) \<and> \<not> graphic (hd (rev w))"
proof -
  have "list_all (\<lambda>w. \<not> graphic (hd w) \<and> \<not> graphic (hd (rev w))) white_space"
    by (simp add: white_space_def byte_in_def)
  then show "w \<in> set white_space \<Longrightarrow> ?thesis" by (simp add: list_all_iff)
qed

lemma trim_start_graphic: "s = [] \<or> graphic (hd s) \<Longrightarrow> trim_start s = s"
  unfolding trim_start_def by (rule strip_seqs_stop) (auto dest: white_space_hd)

lemma trim_end_graphic:
  assumes "s = [] \<or> graphic (last s)"
  shows "trim_end s = s"
proof -
  have "s = [] \<or> graphic (hd (rev s))" using assms by (auto simp: hd_rev)
  then have "strip_seqs (map rev white_space) (rev s) = rev s"
    by (intro strip_seqs_stop) (auto dest: white_space_hd)
  then show ?thesis by (simp add: trim_end_def)
qed

lemma trim_graphic: "s = [] \<or> graphic (hd s) \<and> graphic (last s) \<Longrightarrow> trim s = s"
  by (auto simp: trim_def trim_start_graphic trim_end_graphic)

lemma trim_start_space [simp]: "trim_start (CHR '' '' # s) = trim_start s"
  unfolding trim_start_def by (subst strip_seqs.simps) (simp add: white_space_def starts_with_def)

lemma trim_start_leading_space: "trim (CHR '' '' # s) = trim s"
  by (simp add: trim_def)

subsection \<open>Case and decimals\<close>

definition ascii_lower :: "char \<Rightarrow> char" where
  "ascii_lower c = (if byte_in 65 90 c then char_of (of_char c + 32 :: nat) else c)"

definition to_lowercase :: "string \<Rightarrow> string" where
  "to_lowercase s = map ascii_lower s"

definition is_digit :: "char \<Rightarrow> bool" where
  "is_digit = byte_in 48 57"

text \<open>\<open>to_string\<close> and \<open>parse\<close> of the unsigned integer types (an optional plus sign,
  at least one digit, and a value in range).\<close>

fun show_nat :: "nat \<Rightarrow> string" where
  "show_nat n =
     (if n < 10 then [char_of (48 + n)] else show_nat (n div 10) @ [char_of (48 + n mod 10)])"

declare show_nat.simps [simp del]

fun dec_value :: "nat \<Rightarrow> string \<Rightarrow> nat option" where
  "dec_value acc [] = Some acc"
| "dec_value acc (c # s) =
     (if is_digit c then dec_value (acc * 10 + (of_char c - 48)) s else None)"

definition parse_uint :: "nat \<Rightarrow> string \<Rightarrow> nat option" where
  "parse_uint bits s =
     (let t = (case s of [] \<Rightarrow> [] | c # r \<Rightarrow> if c = CHR ''+'' then r else s)
      in if t = [] then None
         else (case dec_value 0 t of
                 None \<Rightarrow> None
               | Some n \<Rightarrow> if n < 2 ^ bits then Some n else None))"

definition show_word :: "'a::len word \<Rightarrow> string" where
  "show_word w = show_nat (unat w)"

definition parse_word :: "string \<Rightarrow> 'a::len word option" where
  "parse_word s = map_option of_nat (parse_uint LENGTH('a) s)"

lemma of_char_digit: "d < 10 \<Longrightarrow> of_char (char_of (48 + d :: nat)) = (48 + d :: nat)"
  unfolding of_char_of by simp

lemma is_digit_char_of: "d < 10 \<Longrightarrow> is_digit (char_of (48 + d :: nat))"
  unfolding is_digit_def byte_in_def by (simp only: of_char_digit) simp

lemma show_nat_digits: "c \<in> set (show_nat n) \<Longrightarrow> is_digit c"
proof (induction n rule: show_nat.induct)
  case (1 n)
  then show ?case
    by (cases "n < 10") (auto simp: show_nat.simps [of n] is_digit_char_of)
qed

lemma show_nat_nonempty [simp]: "show_nat n \<noteq> []"
  by (subst show_nat.simps) simp

lemma dec_value_append:
  "dec_value acc (a @ b) = (case dec_value acc a of None \<Rightarrow> None | Some v \<Rightarrow> dec_value v b)"
  by (induction a arbitrary: acc) auto

lemma dec_value_show_nat: "dec_value 0 (show_nat n) = Some n"
proof (induction n rule: show_nat.induct)
  case (1 n)
  then show ?case
    by (cases "n < 10")
      (simp_all add: show_nat.simps [of n] dec_value_append is_digit_char_of of_char_digit)
qed

lemma digit_graphic: "is_digit c \<Longrightarrow> graphic c"
  by (auto simp: is_digit_def byte_in_def)

lemma digit_neq:
  "is_digit c \<Longrightarrow> c \<noteq> CHR ''+'' \<and> c \<noteq> CHR ''-'' \<and> c \<noteq> CHR '';'' \<and> c \<noteq> CHR ''=''
     \<and> c \<noteq> CHR ''/'' \<and> c \<noteq> CHR ''?'' \<and> c \<noteq> CHR '' '' \<and> c \<noteq> CHR '':'' \<and> c \<noteq> LF \<and> c \<noteq> CR"
  by (auto simp: is_digit_def byte_in_def)

lemma show_nat_absent [simp]:
  "CHR ''-'' \<notin> set (show_nat n)" "CHR '';'' \<notin> set (show_nat n)" "CHR ''='' \<notin> set (show_nat n)"
  "CHR ''/'' \<notin> set (show_nat n)" "CHR ''?'' \<notin> set (show_nat n)" "CHR '' '' \<notin> set (show_nat n)"
  "CHR '':'' \<notin> set (show_nat n)" "LF \<notin> set (show_nat n)" "CR \<notin> set (show_nat n)"
  using show_nat_digits digit_neq by blast+

lemma show_nat_graphic_ends: "graphic (hd (show_nat n))" "graphic (last (show_nat n))"
  by (rule digit_graphic, rule show_nat_digits [of _ n], simp)+

lemma trim_show_nat [simp]: "trim (show_nat n) = show_nat n"
  by (simp add: trim_graphic show_nat_graphic_ends)

lemma ascii_lower_digit: "is_digit c \<Longrightarrow> ascii_lower c = c"
  by (auto simp: ascii_lower_def is_digit_def byte_in_def)

lemma to_lowercase_append [simp]: "to_lowercase (a @ b) = to_lowercase a @ to_lowercase b"
  by (simp add: to_lowercase_def)

lemma to_lowercase_Cons: "to_lowercase (c # s) = ascii_lower c # to_lowercase s"
  by (simp add: to_lowercase_def)

lemma to_lowercase_Nil [simp]: "to_lowercase [] = []"
  by (simp add: to_lowercase_def)

lemma to_lowercase_show_nat [simp]: "to_lowercase (show_nat n) = show_nat n"
  unfolding to_lowercase_def
  by (rule map_idI) (rule ascii_lower_digit, rule show_nat_digits)

lemma parse_uint_show_nat [simp]:
  assumes "n < 2 ^ bits"
  shows "parse_uint bits (show_nat n) = Some n"
proof -
  obtain c r where cr: "show_nat n = c # r" by (cases "show_nat n") auto
  then have "is_digit c" using show_nat_digits [of c n] by simp
  then have "c \<noteq> CHR ''+''" using digit_neq by blast
  then show ?thesis
    using assms dec_value_show_nat [of n] cr by (simp add: parse_uint_def)
qed

lemma parse_word_show_word [simp]: "parse_word (show_word w) = Some w"
proof -
  have "unat w < 2 ^ LENGTH('a)" by (rule unsigned_less)
  then show ?thesis by (simp add: parse_word_def show_word_def)
qed

lemma parse_uint_bound: "parse_uint bits s = Some n \<Longrightarrow> n < 2 ^ bits"
  by (auto simp: parse_uint_def Let_def split: option.splits if_splits list.splits)

text \<open>A string in single quotes, as the error messages print it.\<close>

definition quoted :: "string \<Rightarrow> string" where
  "quoted s = CHR 0x27 # s @ [CHR 0x27]"

text \<open>What is found stays found when more follows.\<close>

lemma find_from_append:
  "find_from i p s = Some j \<Longrightarrow> find_from i p (s @ t) = Some j"
proof (induction s arbitrary: i)
  case Nil
  then show ?case by (cases t) (auto simp: starts_with_def split: if_splits)
next
  case (Cons c s)
  show ?case
  proof (cases "starts_with p (c # s)")
    case True
    then obtain r where "c # s = p @ r" by (auto simp: starts_with_iff)
    then have "starts_with p ((c # s) @ t)" by (auto simp: starts_with_iff)
    then show ?thesis using Cons.prems True by simp
  next
    case False
    then have f: "find_from (Suc i) p s = Some j" using Cons.prems by simp
    show ?thesis
    proof (cases "starts_with p (c # s @ t)")
      case True
      then obtain r where r: "c # s @ t = p @ r" by (auto simp: starts_with_iff)
      obtain q where "s = take (j - Suc i) s @ p @ q"
        using find_from_Some [OF f] by (metis append_take_drop_id starts_with_iff)
      then have "length p \<le> length s" by (metis length_append le_add1 le_add2 le_trans)
      moreover have "c # s = take (length (c # s)) (p @ r)" unfolding r [symmetric] by simp
      moreover have "take (length (c # s)) p = p" if "length p \<le> length s" using that by simp
      ultimately have "c # s = p @ take (length (c # s) - length p) r" by (metis take_append)
      then have "starts_with p (c # s)" unfolding starts_with_iff by blast
      with False show ?thesis by simp
    qed (use Cons.IH [OF f] in simp)
  qed
qed

lemma str_find_append: "str_find p s = Some j \<Longrightarrow> str_find p (s @ t) = Some j"
  by (simp add: str_find_def find_from_append)

end
