(* ===== verification/Core_Types.thy ===== *)
theory Core_Types
  imports Rust_Str
begin

section \<open>Shared data: instances, locks, frames, events\<close>

text \<open>
  The data of \<open>crates/vscreen-core/src/instance.rs\<close>, \<open>frame.rs\<close> and \<open>event.rs\<close>.
  A \<open>Uuid\<close> is a 128-bit word; \<open>Uuid::new_v4()\<close> is an argument of the operation that draws
  one. A \<open>chrono::DateTime<Utc>\<close> is an integer number of nanoseconds; \<open>Utc::now()\<close> is an
  argument of the operation that reads the clock. An \<open>f64\<close> that is only passed through is
  a value of a type parameter.
\<close>

type_synonym instant = int

subsection \<open>Identifiers\<close>

type_synonym instance_id = string

definition is_ascii_alphanumeric :: "char \<Rightarrow> bool" where
  "is_ascii_alphanumeric c = (byte_in 48 57 c \<or> byte_in 65 90 c \<or> byte_in 97 122 c)"

definition is_url_safe :: "instance_id \<Rightarrow> bool" where
  "is_url_safe s =
     (s \<noteq> [] \<and> length s \<le> 128 \<and>
      list_all (\<lambda>b. is_ascii_alphanumeric b \<or> b = CHR ''-'' \<or> b = CHR ''_'' \<or> b = CHR ''.'') s)"

lemma is_url_safe_chars:
  assumes "is_url_safe s" and "c \<in> set s"
  shows "graphic c \<and> c \<noteq> CHR ''/'' \<and> c \<noteq> CHR ''?'' \<and> c \<noteq> CHR '':'' \<and> c \<noteq> CHR '' ''"
proof -
  from assms have "is_ascii_alphanumeric c \<or> c = CHR ''-'' \<or> c = CHR ''_'' \<or> c = CHR ''.''"
    by (auto simp: is_url_safe_def list_all_iff)
  then show ?thesis by (auto simp: is_ascii_alphanumeric_def byte_in_def)
qed

subsection \<open>Instance states\<close>

datatype degraded_reason =
    CdpDisconnected (reconnect_attempt: u32)
  | AudioSourceLost (reconnect_attempt: u32)
  | EncoderOverloaded (dropped_frames: u64)

datatype failure_reason =
    CdpReconnectExhausted
  | AudioSourcePermanentlyLost
  | InternalError string

datatype instance_state =
    Created
  | Starting
  | Running
  | Degraded degraded_reason instant
  | Failed failure_reason instant
  | Stopping
  | Stopped

fun is_terminal :: "instance_state \<Rightarrow> bool" where
  "is_terminal Stopped = True"
| "is_terminal (Failed _ _) = True"
| "is_terminal _ = False"

fun is_running :: "instance_state \<Rightarrow> bool" where
  "is_running Running = True"
| "is_running (Degraded _ _) = True"
| "is_running _ = False"

fun can_accept_peers :: "instance_state \<Rightarrow> bool" where
  "can_accept_peers Running = True"
| "can_accept_peers (Degraded _ _) = True"
| "can_accept_peers _ = False"

fun show_degraded_reason :: "degraded_reason \<Rightarrow> string" where
  "show_degraded_reason (CdpDisconnected n) = ''CDP disconnected (attempt '' @ show_word n @ '')''"
| "show_degraded_reason (AudioSourceLost n) = ''audio source lost (attempt '' @ show_word n @ '')''"
| "show_degraded_reason (EncoderOverloaded n) =
     ''encoder overloaded ('' @ show_word n @ '' frames dropped)''"

fun show_failure_reason :: "failure_reason \<Rightarrow> string" where
  "show_failure_reason CdpReconnectExhausted = ''CDP reconnect exhausted''"
| "show_failure_reason AudioSourcePermanentlyLost = ''audio source permanently lost''"
| "show_failure_reason (InternalError m) = ''internal error: '' @ m"

fun show_instance_state :: "instance_state \<Rightarrow> string" where
  "show_instance_state Created = ''created''"
| "show_instance_state Starting = ''starting''"
| "show_instance_state Running = ''running''"
| "show_instance_state (Degraded r _) = ''degraded ('' @ show_degraded_reason r @ '')''"
| "show_instance_state (Failed r _) = ''failed ('' @ show_failure_reason r @ '')''"
| "show_instance_state Stopping = ''stopping''"
| "show_instance_state Stopped = ''stopped''"

lemma terminal_not_running: "is_terminal s \<Longrightarrow> \<not> is_running s"
  by (cases s) auto

lemma accepts_iff_running: "can_accept_peers s = is_running s"
  by (cases s) auto

subsection \<open>Locks\<close>

type_synonym session_id = uuid
type_synonym lock_token = uuid

datatype lock_type = Exclusive | Observer

fun show_lock_type :: "lock_type \<Rightarrow> string" where
  "show_lock_type Exclusive = ''exclusive''"
| "show_lock_type Observer = ''observer''"

record lock_info =
  li_session_id :: session_id
  li_agent_name :: "string option"
  li_lock_type :: lock_type
  li_lock_token :: lock_token
  li_acquired_at :: instant
  li_expires_at :: instant
  li_auto_acquired :: bool

record wait_queue_entry =
  wq_session_id :: session_id
  wq_agent_name :: "string option"
  wq_requested_lock_type :: lock_type
  wq_queued_at :: instant

record lock_status =
  ls_instance_id :: instance_id
  ls_exclusive_holder :: "lock_info option"
  ls_observers :: "lock_info list"
  ls_wait_queue :: "wait_queue_entry list"

subsection \<open>Frames\<close>

datatype video_codec = Vp9 | H264

definition default_video_codec :: video_codec where
  "default_video_codec = H264"

fun show_video_codec :: "video_codec \<Rightarrow> string" where
  "show_video_codec Vp9 = ''vp9''"
| "show_video_codec H264 = ''h264''"

definition video_codec_from_str :: "string \<Rightarrow> (string, video_codec) outcome" where
  "video_codec_from_str s =
     (let l = to_lowercase s in
      if l = ''vp9'' then Ok Vp9
      else if l = ''h264'' \<or> l = ''h.264'' then Ok H264
      else Err (''unknown video codec: '' @ l))"

lemma video_codec_round_trip: "video_codec_from_str (show_video_codec c) = Ok c"
  by (cases c) (simp_all add: video_codec_from_str_def to_lowercase_def ascii_lower_def byte_in_def)

record rgb_frame =
  rgb_data :: bytes
  rgb_width :: u32
  rgb_height :: u32
  rgb_timestamp :: instant

text \<open>\<open>I420Buffer::y_size\<close> and \<open>uv_size\<close>: the products are computed in \<open>u32\<close>.\<close>

definition i420_y_size :: "bool \<Rightarrow> u32 \<Rightarrow> u32 \<Rightarrow> ('e, u64) outcome" where
  "i420_y_size checks width height =
     and_then (mul_ovf checks width height) (\<lambda>n. Ok (ucast n))"

definition i420_uv_size :: "bool \<Rightarrow> u32 \<Rightarrow> u32 \<Rightarrow> ('e, u64) outcome" where
  "i420_uv_size checks width height =
     and_then (add_ovf checks width 1) (\<lambda>w.
     and_then (add_ovf checks height 1) (\<lambda>h.
     and_then (mul_ovf checks (w div 2) (h div 2)) (\<lambda>n. Ok (ucast n))))"

record encoded_packet =
  ep_data :: bytes
  ep_is_keyframe :: bool
  ep_pts :: u64
  ep_duration :: "u64 option"
  ep_codec :: "video_codec option"

definition encoded_packet_new :: "bytes \<Rightarrow> bool \<Rightarrow> u64 \<Rightarrow> encoded_packet" where
  "encoded_packet_new d k p =
     \<lparr>ep_data = d, ep_is_keyframe = k, ep_pts = p, ep_duration = None, ep_codec = None\<rparr>"

definition encoded_packet_with_codec :: "bytes \<Rightarrow> bool \<Rightarrow> u64 \<Rightarrow> video_codec \<Rightarrow> encoded_packet" where
  "encoded_packet_with_codec d k p c =
     \<lparr>ep_data = d, ep_is_keyframe = k, ep_pts = p, ep_duration = None, ep_codec = Some c\<rparr>"

record 's audio_buffer =
  ab_samples :: "'s list"
  ab_channels :: u16
  ab_sample_rate :: u32
  ab_timestamp :: instant

definition num_frames :: "'s audio_buffer \<Rightarrow> nat" where
  "num_frames b =
     (if ab_channels b = 0 then 0 else length (ab_samples b) div unat (ab_channels b))"

subsection \<open>Input events\<close>

datatype 'f input_event =
    MouseMove 'f 'f u16 u8
  | MouseDown 'f 'f u8 u8
  | MouseUp 'f 'f u8 u8
  | Wheel 'f 'f 'f 'f u8
  | KeyDown string string u8
  | KeyUp string string u8
  | Paste string
  | BitrateHint u32

fun modifiers :: "'f input_event \<Rightarrow> u8" where
  "modifiers (MouseMove _ _ _ m) = m"
| "modifiers (MouseDown _ _ _ m) = m"
| "modifiers (MouseUp _ _ _ m) = m"
| "modifiers (Wheel _ _ _ _ m) = m"
| "modifiers (KeyDown _ _ m) = m"
| "modifiers (KeyUp _ _ m) = m"
| "modifiers (Paste _) = 0"
| "modifiers (BitrateHint _) = 0"

fun is_keyboard :: "'f input_event \<Rightarrow> bool" where
  "is_keyboard (KeyDown _ _ _) = True"
| "is_keyboard (KeyUp _ _ _) = True"
| "is_keyboard _ = False"

fun is_mouse :: "'f input_event \<Rightarrow> bool" where
  "is_mouse (MouseMove _ _ _ _) = True"
| "is_mouse (MouseDown _ _ _ _) = True"
| "is_mouse (MouseUp _ _ _ _) = True"
| "is_mouse (Wheel _ _ _ _ _) = True"
| "is_mouse _ = False"

end
