(* ===== verification/Errors.thy ===== *)
theory Errors
  imports Core_Types
begin

section \<open>The error taxonomy and its HTTP form\<close>

text \<open>
  \<open>crates/vscreen-core/src/error.rs\<close>: the errors of the domains, their messages (the
  \<open>#[error]\<close> attributes), the top-level error, and \<open>From<&VScreenError> for ApiError\<close>, which
  gives each error the status and the code of the HTTP response. Constructors that would
  clash with another type's carry the name of their domain.
\<close>

datatype cdp_error =
    ConnectionFailed string
  | ConnectionLost
  | CdpReconnectExhausted_after u32
  | Protocol string
  | Screencast string
  | InputDispatch string
  | WebSocket string
  | MessageTooLarge nat nat
  | CdpTimeout u64

datatype video_error =
    DecodeFailed string
  | FrameTooLarge nat nat
  | DecodeTimeout u64
  | ConversionFailed string
  | VideoEncodeFailed string
  | EncoderNotInitialized
  | InvalidResolution u32 u32

datatype audio_error =
    CaptureFailed string
  | SourceNotFound string
  | SourceLost
  | AudioEncodeFailed string
  | InvalidSampleRate u32
  | AudioReconnectExhausted u32

datatype transport_error =
    WebRtc string
  | Signaling string
  | RtpSend string
  | PeerNotFound string
  | MaxPeersReached u32 u32
  | DataChannel string
  | Ice string

datatype config_error =
    InvalidValue string string
  | OutOfRange string nat nat
  | ConfigParse string
  | ConfigFile string
  | MissingField string

datatype vscreen_error =
    Cdp cdp_error
  | Video video_error
  | Audio audio_error
  | Transport transport_error
  | Config config_error
  | InstanceNotFound string
  | InstanceAlreadyExists string
  | InvalidState string
  | InvalidConfig string
  | LimitExceeded string
  | NoSupervisor string
  | InstanceLockedMsg string
  | LockNotHeld string
  | LockTimeout string
  | ShuttingDown
  | ChannelClosed

subsection \<open>Messages\<close>

fun show_cdp_error :: "cdp_error \<Rightarrow> string" where
  "show_cdp_error (ConnectionFailed s) = ''connection failed: '' @ s"
| "show_cdp_error ConnectionLost = ''connection lost''"
| "show_cdp_error (CdpReconnectExhausted_after n) =
     ''reconnect exhausted after '' @ show_word n @ '' attempts''"
| "show_cdp_error (Protocol s) = ''protocol error: '' @ s"
| "show_cdp_error (Screencast s) = ''screencast error: '' @ s"
| "show_cdp_error (InputDispatch s) = ''input dispatch failed: '' @ s"
| "show_cdp_error (WebSocket s) = ''websocket error: '' @ s"
| "show_cdp_error (MessageTooLarge n m) =
     ''message too large: '' @ show_nat n @ '' bytes (max '' @ show_nat m @ '')''"
| "show_cdp_error (CdpTimeout ms) = ''request timed out after '' @ show_word ms @ ''ms''"

fun show_video_error :: "video_error \<Rightarrow> string" where
  "show_video_error (DecodeFailed s) = ''decode failed: '' @ s"
| "show_video_error (FrameTooLarge n m) =
     ''frame too large: '' @ show_nat n @ '' bytes (max '' @ show_nat m @ '')''"
| "show_video_error (DecodeTimeout ms) = ''decode timeout after '' @ show_word ms @ ''ms''"
| "show_video_error (ConversionFailed s) = ''color conversion failed: '' @ s"
| "show_video_error (VideoEncodeFailed s) = ''encode failed: '' @ s"
| "show_video_error EncoderNotInitialized = ''encoder not initialized''"
| "show_video_error (InvalidResolution w h) =
     ''invalid resolution: '' @ show_word w @ ''x'' @ show_word h"

fun show_audio_error :: "audio_error \<Rightarrow> string" where
  "show_audio_error (CaptureFailed s) = ''capture failed: '' @ s"
| "show_audio_error (SourceNotFound s) = ''source not found: '' @ s"
| "show_audio_error SourceLost = ''source lost''"
| "show_audio_error (AudioEncodeFailed s) = ''encode failed: '' @ s"
| "show_audio_error (InvalidSampleRate n) = ''invalid sample rate: '' @ show_word n"
| "show_audio_error (AudioReconnectExhausted n) =
     ''reconnect exhausted after '' @ show_word n @ '' attempts''"

fun show_transport_error :: "transport_error \<Rightarrow> string" where
  "show_transport_error (WebRtc s) = ''webrtc error: '' @ s"
| "show_transport_error (Signaling s) = ''signaling error: '' @ s"
| "show_transport_error (RtpSend s) = ''rtp send failed: '' @ s"
| "show_transport_error (PeerNotFound s) = ''peer not found: '' @ s"
| "show_transport_error (MaxPeersReached c m) =
     ''max peers reached: '' @ show_word c @ ''/'' @ show_word m"
| "show_transport_error (DataChannel s) = ''data channel error: '' @ s"
| "show_transport_error (Ice s) = ''ICE error: '' @ s"

fun show_config_error :: "config_error \<Rightarrow> string" where
  "show_config_error (InvalidValue field reason) = ''invalid value for '' @ field @ '': '' @ reason"
| "show_config_error (OutOfRange field lo hi) =
     field @ '' out of range (min='' @ show_nat lo @ '', max='' @ show_nat hi @ '')''"
| "show_config_error (ConfigParse s) = ''parse error: '' @ s"
| "show_config_error (ConfigFile s) = ''file error: '' @ s"
| "show_config_error (MissingField s) = ''missing required field: '' @ s"

fun show_vscreen_error :: "vscreen_error \<Rightarrow> string" where
  "show_vscreen_error (Cdp e) = ''CDP error: '' @ show_cdp_error e"
| "show_vscreen_error (Video e) = ''video error: '' @ show_video_error e"
| "show_vscreen_error (Audio e) = ''audio error: '' @ show_audio_error e"
| "show_vscreen_error (Transport e) = ''transport error: '' @ show_transport_error e"
| "show_vscreen_error (Config e) = ''config error: '' @ show_config_error e"
| "show_vscreen_error (InstanceNotFound s) = ''instance not found: '' @ s"
| "show_vscreen_error (InstanceAlreadyExists s) = ''instance already exists: '' @ s"
| "show_vscreen_error (InvalidState s) = ''invalid state transition: '' @ s"
| "show_vscreen_error (InvalidConfig s) = ''invalid config: '' @ s"
| "show_vscreen_error (LimitExceeded s) = ''limit exceeded: '' @ s"
| "show_vscreen_error (NoSupervisor s) = ''no supervisor running for instance: '' @ s"
| "show_vscreen_error (InstanceLockedMsg s) = ''instance locked by another session: '' @ s"
| "show_vscreen_error (LockNotHeld s) = ''lock not held: '' @ s"
| "show_vscreen_error (LockTimeout s) = ''lock wait timed out: '' @ s"
| "show_vscreen_error ShuttingDown = ''service is shutting down''"
| "show_vscreen_error ChannelClosed = ''channel closed''"

subsection \<open>The API error\<close>

datatype api_error_code =
    CodeInstanceNotFound
  | CodeInstanceAlreadyExists
  | CodeInstanceLocked
  | CodeLockNotHeld
  | CodeInvalidRequest
  | CodeInvalidState
  | CodeMaxInstancesReached
  | CodeMaxPeersReached
  | CodeServiceUnavailable
  | CodeCdpError
  | CodeTimeout
  | CodeInternalError

fun show_api_error_code :: "api_error_code \<Rightarrow> string" where
  "show_api_error_code CodeInstanceNotFound = ''INSTANCE_NOT_FOUND''"
| "show_api_error_code CodeInstanceAlreadyExists = ''INSTANCE_ALREADY_EXISTS''"
| "show_api_error_code CodeInstanceLocked = ''INSTANCE_LOCKED''"
| "show_api_error_code CodeLockNotHeld = ''LOCK_NOT_HELD''"
| "show_api_error_code CodeInvalidRequest = ''INVALID_REQUEST''"
| "show_api_error_code CodeInvalidState = ''INVALID_STATE''"
| "show_api_error_code CodeMaxInstancesReached = ''MAX_INSTANCES_REACHED''"
| "show_api_error_code CodeMaxPeersReached = ''MAX_PEERS_REACHED''"
| "show_api_error_code CodeServiceUnavailable = ''SERVICE_UNAVAILABLE''"
| "show_api_error_code CodeCdpError = ''CDP_ERROR''"
| "show_api_error_code CodeTimeout = ''TIMEOUT''"
| "show_api_error_code CodeInternalError = ''INTERNAL_ERROR''"

record api_error =
  api_status :: u16
  api_code :: api_error_code
  api_message :: string
  api_details :: "string option"

definition api :: "u16 \<Rightarrow> api_error_code \<Rightarrow> string \<Rightarrow> api_error" where
  "api status code message =
     \<lparr>api_status = status, api_code = code, api_message = message, api_details = None\<rparr>"

fun api_error_of :: "vscreen_error \<Rightarrow> api_error" where
  "api_error_of (InstanceNotFound i) = api 404 CodeInstanceNotFound (''instance not found: '' @ i)"
| "api_error_of (InstanceAlreadyExists i) =
     api 409 CodeInstanceAlreadyExists (''instance already exists: '' @ i)"
| "api_error_of (InstanceLockedMsg msg) = api 423 CodeInstanceLocked msg"
| "api_error_of (LockNotHeld msg) = api 409 CodeLockNotHeld msg"
| "api_error_of (LockTimeout msg) = api 408 CodeTimeout msg"
| "api_error_of (InvalidState reason) = api 400 CodeInvalidState reason"
| "api_error_of (InvalidConfig reason) = api 400 CodeInvalidRequest reason"
| "api_error_of (LimitExceeded reason) = api 429 CodeMaxInstancesReached reason"
| "api_error_of (NoSupervisor i) =
     api 503 CodeServiceUnavailable (''no supervisor running for instance: '' @ i)"
| "api_error_of ShuttingDown = api 503 CodeServiceUnavailable ''service is shutting down''"
| "api_error_of (Config e) = api 400 CodeInvalidRequest (show_config_error e)"
| "api_error_of (Cdp (CdpTimeout ms)) =
     api 504 CodeTimeout (''CDP request timed out after '' @ show_word ms @ ''ms'')"
| "api_error_of (Cdp e) = api 502 CodeCdpError (show_cdp_error e)"
| "api_error_of err =
     \<lparr>api_status = 500, api_code = CodeInternalError, api_message = ''internal error'',
      api_details = Some (show_vscreen_error err)\<rparr>"

definition show_api_error :: "api_error \<Rightarrow> string" where
  "show_api_error e = ''['' @ show_word (api_status e) @ ''] '' @ api_message e"

text \<open>The HTTP form of an error. Every error has a status of the 4xx or 5xx classes; the
  code determines the class of the status; only the errors of the video, audio and transport
  layers and a closed channel are internal, and these alone hide their text from the message
  and carry it in the details.\<close>

theorem api_error_classes:
  "(api_status (api_error_of e) \<in> {400, 404, 408, 409, 423, 429} \<or>
      api_status (api_error_of e) \<in> {500, 502, 503, 504}) \<and>
   (api_status (api_error_of e) = 500 \<longleftrightarrow> api_code (api_error_of e) = CodeInternalError) \<and>
   (api_code (api_error_of e) = CodeInternalError \<longleftrightarrow>
      (\<exists>x. e = Video x) \<or> (\<exists>x. e = Audio x) \<or> (\<exists>x. e = Transport x) \<or> e = ChannelClosed) \<and>
   api_details (api_error_of e) =
     (if api_code (api_error_of e) = CodeInternalError then Some (show_vscreen_error e) else None) \<and>
   (api_code (api_error_of e) = CodeInternalError \<longrightarrow> api_message (api_error_of e) = ''internal error'')"
  by (cases e rule: api_error_of.cases) (simp_all add: api_def)

lemma api_error_classes_witness:
  "api_message (api_error_of (Transport (MaxPeersReached 5 5))) = ''internal error''"
  using api_error_classes [of "Transport (MaxPeersReached 5 5)"] by simp

end
