(* ===== verification/Config.thy ===== *)
theory Config
  imports Errors
begin

section \<open>Configuration\<close>

text \<open>
  \<open>crates/vscreen-core/src/config.rs\<close>: the configuration records, their defaults (the values
  serde fills in for a missing field) and \<open>validate\<close>. Parsing TOML is the \<open>toml\<close> package's.
\<close>

record tls_config =
  cert_path :: string
  key_path :: string

record server_config =
  sc_listen :: string
  sc_auth_token :: "string option"
  sc_tls :: "tls_config option"

record turn_server =
  turn_url :: string
  turn_username :: string
  turn_credential :: string

record webrtc_config =
  stun_servers :: "string list"
  turn_servers :: "turn_server list"

record video_config =
  vc_width :: u32
  vc_height :: u32
  vc_framerate :: u32
  vc_bitrate_kbps :: u32
  vc_keyframe_interval :: u32
  vc_cpu_used :: u32
  vc_min_bitrate_kbps :: u32
  vc_max_bitrate_kbps :: u32
  vc_codec :: video_codec

record audio_config =
  ac_sample_rate :: u32
  ac_channels :: u16
  ac_bitrate_kbps :: u32
  ac_frame_duration_ms :: u32

record rtp_output_config =
  ro_address :: string
  ro_port :: u16
  ro_multicast :: bool

record defaults_config =
  dc_video :: video_config
  dc_audio :: audio_config
  dc_rtp_output :: "rtp_output_config option"

record limits_config =
  max_instances :: u32
  max_peers_per_instance :: u32
  frame_queue_depth :: u64
  max_frame_size_bytes :: u64

record logging_config =
  log_level :: string
  log_json :: bool

record app_config =
  app_server :: server_config
  app_webrtc :: webrtc_config
  app_defaults :: defaults_config
  app_limits :: limits_config
  app_logging :: logging_config

subsection \<open>Defaults\<close>

definition default_server :: server_config where
  "default_server = \<lparr>sc_listen = ''0.0.0.0:8450'', sc_auth_token = None, sc_tls = None\<rparr>"

definition default_webrtc :: webrtc_config where
  "default_webrtc =
     \<lparr>stun_servers = [''stun:stun.l.google.com:19302''], turn_servers = []\<rparr>"

definition default_video :: video_config where
  "default_video =
     \<lparr>vc_width = 1920, vc_height = 1080, vc_framerate = 30, vc_bitrate_kbps = 6000,
      vc_keyframe_interval = 60, vc_cpu_used = 8, vc_min_bitrate_kbps = 1000,
      vc_max_bitrate_kbps = 10000, vc_codec = default_video_codec\<rparr>"

definition default_audio :: audio_config where
  "default_audio =
     \<lparr>ac_sample_rate = 48000, ac_channels = 2, ac_bitrate_kbps = 128, ac_frame_duration_ms = 20\<rparr>"

definition default_defaults :: defaults_config where
  "default_defaults =
     \<lparr>dc_video = default_video, dc_audio = default_audio, dc_rtp_output = None\<rparr>"

definition default_limits :: limits_config where
  "default_limits =
     \<lparr>max_instances = 16, max_peers_per_instance = 8, frame_queue_depth = 3,
      max_frame_size_bytes = 2 * 1024 * 1024\<rparr>"

definition default_logging :: logging_config where
  "default_logging = \<lparr>log_level = ''info'', log_json = False\<rparr>"

definition default_app :: app_config where
  "default_app =
     \<lparr>app_server = default_server, app_webrtc = default_webrtc, app_defaults = default_defaults,
      app_limits = default_limits, app_logging = default_logging\<rparr>"

subsection \<open>Validation\<close>

definition validate :: "app_config \<Rightarrow> (config_error list, unit) outcome" where
  "validate c =
     (let fps = vc_framerate (dc_video (app_defaults c));
          depth = frame_queue_depth (app_limits c);
          errors =
            (if sc_listen (app_server c) = []
             then [InvalidValue ''server.listen'' ''must not be empty''] else []) @
            (if max_instances (app_limits c) = 0
             then [InvalidValue ''limits.max_instances'' ''must be > 0''] else []) @
            (if max_peers_per_instance (app_limits c) = 0
             then [InvalidValue ''limits.max_peers_per_instance'' ''must be > 0''] else []) @
            (if depth < 1 \<or> depth > 30
             then [OutOfRange ''limits.frame_queue_depth'' 1 30] else []) @
            (if fps = 0 \<or> fps > 60
             then [OutOfRange ''defaults.video.framerate'' 1 60] else []) @
            (if vc_bitrate_kbps (dc_video (app_defaults c)) = 0
             then [InvalidValue ''defaults.video.bitrate_kbps'' ''must be > 0''] else [])
      in if errors = [] then Ok () else Err errors)"

fun error_field :: "config_error \<Rightarrow> string" where
  "error_field (InvalidValue f _) = f"
| "error_field (OutOfRange f _ _) = f"
| "error_field (ConfigParse _) = []"
| "error_field (ConfigFile _) = []"
| "error_field (MissingField f) = f"

text \<open>Validation reports every offending field once. It succeeds exactly on configurations
  whose limits are in range; when it fails, the list of errors is not empty and names no
  field twice; and the defaults are valid.\<close>

theorem validate_correct:
  "(validate c = Ok () \<longleftrightarrow>
      sc_listen (app_server c) \<noteq> [] \<and> 0 < max_instances (app_limits c) \<and>
      0 < max_peers_per_instance (app_limits c) \<and>
      frame_queue_depth (app_limits c) \<in> {1..30} \<and>
      vc_framerate (dc_video (app_defaults c)) \<in> {1..60} \<and>
      0 < vc_bitrate_kbps (dc_video (app_defaults c))) \<and>
   (\<forall>es. validate c = Err es \<longrightarrow> es \<noteq> [] \<and> distinct (map error_field es)) \<and>
   validate c \<noteq> Panic \<and> validate default_app = Ok ()"
proof -
  have one: "1 \<le> w \<longleftrightarrow> w \<noteq> 0" for w :: "'a::len word"
    by (simp add: word_le_nat_alt unat_gt_0 Suc_le_eq)
  have "validate c = Ok () \<longleftrightarrow>
      sc_listen (app_server c) \<noteq> [] \<and> max_instances (app_limits c) \<noteq> 0 \<and>
      max_peers_per_instance (app_limits c) \<noteq> 0 \<and>
      \<not> (frame_queue_depth (app_limits c) < 1 \<or> frame_queue_depth (app_limits c) > 30) \<and>
      \<not> (vc_framerate (dc_video (app_defaults c)) = 0 \<or> vc_framerate (dc_video (app_defaults c)) > 60) \<and>
      vc_bitrate_kbps (dc_video (app_defaults c)) \<noteq> 0"
    by (simp add: validate_def Let_def)
  moreover have "validate c = Err es \<Longrightarrow> es \<noteq> [] \<and> distinct (map error_field es)" for es
    by (auto simp: validate_def Let_def split: if_splits)
  moreover have "validate c \<noteq> Panic" by (simp add: validate_def Let_def)
  moreover have "validate default_app = Ok ()"
    by (simp add: validate_def default_app_def default_server_def default_limits_def
        default_defaults_def default_video_def Let_def)
  ultimately show ?thesis
    by (auto simp: one word_neq_0_conv not_less)
qed

lemma validate_correct_witness:
  "validate (default_app\<lparr>app_server := default_server\<lparr>sc_listen := []\<rparr>\<rparr>) \<noteq> Ok ()"
  using validate_correct [of "default_app\<lparr>app_server := default_server\<lparr>sc_listen := []\<rparr>\<rparr>"] by simp

end
