(* ===== verification/Rtsp_Media.thy ===== *)
theory Rtsp_Media
  imports Core_Types Complex_Main
begin

section \<open>Quality tiers, stream health and session descriptions\<close>

text \<open>
  \<open>quality.rs\<close>, \<open>health.rs\<close> and \<open>sdp.rs\<close> of \<open>crates/vscreen-rtsp\<close>, with the media types of
  \<open>session.rs\<close> they mention. The two \<open>f64\<close> measurements a receiver reports are rational
  numbers: a loss is a count over 256, which a double holds exactly, and the jitter is only
  compared with 100. The counters are words: the release profile wraps around. The clock is
  an argument.
\<close>

subsection \<open>Quality tiers\<close>

datatype quality_tier = Low | Medium | Standard | High | Custom (custom_kbps: u32) (custom_channels: u16)

fun bitrate_bps :: "bool \<Rightarrow> quality_tier \<Rightarrow> (string, u32) outcome" where
  "bitrate_bps checks Low = Ok 32000"
| "bitrate_bps checks Medium = Ok 64000"
| "bitrate_bps checks Standard = Ok 128000"
| "bitrate_bps checks High = Ok 256000"
| "bitrate_bps checks (Custom kbps _) = mul_ovf checks kbps 1000"

fun bitrate_kbps :: "quality_tier \<Rightarrow> u32" where
  "bitrate_kbps Low = 32"
| "bitrate_kbps Medium = 64"
| "bitrate_kbps Standard = 128"
| "bitrate_kbps High = 256"
| "bitrate_kbps (Custom kbps _) = kbps"

fun tier_channels :: "quality_tier \<Rightarrow> u16" where
  "tier_channels Low = 1"
| "tier_channels Medium = 1"
| "tier_channels Standard = 2"
| "tier_channels High = 2"
| "tier_channels (Custom _ ch) = ch"

fun is_master :: "quality_tier \<Rightarrow> bool" where
  "is_master High = True"
| "is_master _ = False"

definition needs_transcode :: "quality_tier \<Rightarrow> bool" where
  "needs_transcode t = (\<not> is_master t)"

definition tier_from_name :: "string \<Rightarrow> quality_tier option" where
  "tier_from_name name =
     (let n = to_lowercase name in
      if n = ''low'' then Some Low
      else if n = ''medium'' \<or> n = ''med'' then Some Medium
      else if n = ''standard'' \<or> n = ''std'' then Some Standard
      else if n = ''high'' \<or> n = ''hq'' then Some High
      else None)"

definition tier_custom :: "u32 \<Rightarrow> u16 option \<Rightarrow> quality_tier" where
  "tier_custom kbps channels =
     Custom kbps (case channels of Some c \<Rightarrow> c | None \<Rightarrow> if kbps \<ge> 96 then 2 else 1)"

definition default_tier :: quality_tier where
  "default_tier = Standard"

fun show_tier :: "quality_tier \<Rightarrow> string" where
  "show_tier Low = ''low (32kbps mono)''"
| "show_tier Medium = ''medium (64kbps mono)''"
| "show_tier Standard = ''standard (128kbps stereo)''"
| "show_tier High = ''high (256kbps stereo)''"
| "show_tier (Custom kbps ch) =
     ''custom ('' @ show_word kbps @ ''kbps '' @ (if ch = 1 then ''mono'' else ''stereo'') @ '')''"

text \<open>Bit rates. The two accessors agree (a kilobit is a thousand bits) for every tier whose
  rate fits in 32 bits; a custom tier beyond 4294967 kbps panics in a build with overflow
  checks and reports a smaller rate in one without.\<close>

theorem bitrate_units:
  "if unat (bitrate_kbps t) \<le> 4294967
   then \<exists>bps. bitrate_bps checks t = Ok bps \<and> unat bps = 1000 * unat (bitrate_kbps t)
   else bitrate_bps True t = Panic \<and>
     (\<exists>bps. bitrate_bps False t = Ok bps \<and> unat bps < 1000 * unat (bitrate_kbps t))"
proof -
  have k: "unat (k * 1000 :: u32) = (1000 * unat k) mod 4294967296" for k :: u32
    by (simp add: unat_word_ariths mult.commute)
  have "\<exists>bps. bitrate_bps checks t = Ok bps \<and> unat bps = 1000 * unat (bitrate_kbps t)"
    if "unat (bitrate_kbps t) \<le> 4294967"
    using that by (cases t) (auto simp: mul_ovf_def k)
  moreover have "bitrate_bps True t = Panic \<and>
     (\<exists>bps. bitrate_bps False t = Ok bps \<and> unat bps < 1000 * unat (bitrate_kbps t))"
    if "\<not> unat (bitrate_kbps t) \<le> 4294967"
    using that by (cases t) (auto simp: mul_ovf_def k
        intro!: mod_less_divisor [THEN less_le_trans])
  ultimately show ?thesis by simp
qed

subsection \<open>Media\<close>

datatype media_type = VideoMedia | AudioMedia

fun show_media_type :: "media_type \<Rightarrow> string" where
  "show_media_type VideoMedia = ''video''"
| "show_media_type AudioMedia = ''audio''"

record media_config =
  mc_video :: bool
  mc_audio :: bool

definition default_media_config :: media_config where
  "default_media_config = \<lparr>mc_video = True, mc_audio = True\<rparr>"

definition audio_only :: media_config where
  "audio_only = \<lparr>mc_video = False, mc_audio = True\<rparr>"

subsection \<open>Stream health\<close>

datatype health_state = Healthy | DegradedHealth | FailedHealth

fun show_health_state :: "health_state \<Rightarrow> string" where
  "show_health_state Healthy = ''healthy''"
| "show_health_state DegradedHealth = ''degraded''"
| "show_health_state FailedHealth = ''failed''"

record stream_health =
  sh_state :: health_state
  sh_packets_sent :: u64
  sh_bytes_sent :: u64
  sh_client_packet_loss :: rat
  sh_client_jitter_ms :: rat
  sh_last_rtp_sent :: "instant option"
  sh_last_rtcp_received :: "instant option"
  sh_created_at :: instant
  sh_consecutive_stale :: u32

definition new_health :: "instant \<Rightarrow> stream_health" where
  "new_health now =
     \<lparr>sh_state = Healthy, sh_packets_sent = 0, sh_bytes_sent = 0, sh_client_packet_loss = 0,
      sh_client_jitter_ms = 0, sh_last_rtp_sent = None, sh_last_rtcp_received = None,
      sh_created_at = now, sh_consecutive_stale = 0\<rparr>"

text \<open>\<open>Instant::elapsed\<close> saturates at zero.\<close>

definition elapsed :: "instant \<Rightarrow> instant \<Rightarrow> int" where
  "elapsed now t = max 0 (now - t)"

definition health_uptime :: "instant \<Rightarrow> stream_health \<Rightarrow> int" where
  "health_uptime now h = elapsed now (sh_created_at h)"

definition record_packet_sent :: "instant \<Rightarrow> u64 \<Rightarrow> stream_health \<Rightarrow> stream_health" where
  "record_packet_sent now n h =
     h\<lparr>sh_packets_sent := sh_packets_sent h + 1, sh_bytes_sent := sh_bytes_sent h + n,
       sh_last_rtp_sent := Some now\<rparr>"

definition update_from_rtcp_rr :: "instant \<Rightarrow> rat \<Rightarrow> rat \<Rightarrow> stream_health \<Rightarrow> stream_health" where
  "update_from_rtcp_rr now packet_loss jitter_ms h =
     h\<lparr>sh_client_packet_loss := packet_loss, sh_client_jitter_ms := jitter_ms,
       sh_last_rtcp_received := Some now\<rparr>"

definition seconds :: "nat \<Rightarrow> int" where
  "seconds n = int n * 1000000000"

definition is_idle :: "instant \<Rightarrow> stream_health \<Rightarrow> bool" where
  "is_idle now h =
     (case sh_last_rtp_sent h of
        Some t \<Rightarrow> elapsed now t > seconds 10
      | None \<Rightarrow> elapsed now (sh_created_at h) > seconds 30)"

definition evaluate :: "instant \<Rightarrow> stream_health \<Rightarrow> stream_health" where
  "evaluate now h =
     (if is_idle now h then
        h\<lparr>sh_consecutive_stale := sh_consecutive_stale h + 1, sh_state := DegradedHealth\<rparr>
      else
        h\<lparr>sh_consecutive_stale := 0,
          sh_state :=
            (if sh_client_packet_loss h > 50 / 100 then FailedHealth
             else if sh_client_packet_loss h > 10 / 100 \<or> sh_client_jitter_ms h > 100
             then DegradedHealth
             else Healthy)\<rparr>)"

text \<open>Health is a function of the report and of recent traffic. A stream fails only while
  packets flow and the receiver reports more than half of them lost; a stale stream is
  degraded, never failed; evaluating touches neither the counters nor the measurements; and
  once a packet goes out to a receiver without losses or jitter, the next evaluation within ten
  seconds finds the stream healthy.\<close>

theorem evaluate_health:
  "(sh_state (evaluate now h) = FailedHealth \<longleftrightarrow>
      \<not> is_idle now h \<and> sh_client_packet_loss h > 1 / 2) \<and>
   (is_idle now h \<longrightarrow> sh_state (evaluate now h) = DegradedHealth) \<and>
   sh_packets_sent (evaluate now h) = sh_packets_sent h \<and>
   sh_bytes_sent (evaluate now h) = sh_bytes_sent h \<and>
   sh_client_packet_loss (evaluate now h) = sh_client_packet_loss h \<and>
   (sh_client_packet_loss h \<le> 1 / 10 \<and> sh_client_jitter_ms h \<le> 100 \<and> now \<le> t + seconds 10 \<longrightarrow>
      sh_state (evaluate now (record_packet_sent t n h)) = Healthy)"
  by (auto simp: evaluate_def is_idle_def record_packet_sent_def elapsed_def seconds_def)

lemma evaluate_health_witness:
  "sh_state (evaluate (seconds 5) (record_packet_sent 0 100 (new_health 0))) = Healthy"
  using evaluate_health [where h = "new_health 0" and now = "seconds 5" and t = 0 and n = 100]
  by (simp add: new_health_def seconds_def)

record aggregated_health =
  ah_total_sessions :: u32
  ah_healthy :: u32
  ah_degraded :: u32
  ah_failed :: u32
  ah_total_packets_sent :: u64
  ah_total_bytes_sent :: u64

subsection \<open>Session descriptions\<close>

text \<open>The server's address: whether it is an IPv6 one, and how it is printed.\<close>

record sdp_params =
  sp_instance_id :: string
  sp_is_ipv6 :: bool
  sp_server_ip :: string
  sp_session_version :: u64
  sp_tier :: quality_tier
  sp_ptime_ms :: u32
  sp_media :: media_config
  sp_video_codec :: video_codec
  sp_video_width :: u32
  sp_video_height :: u32
  sp_framerate :: u32

definition sdp_session :: "sdp_params \<Rightarrow> string list" where
  "sdp_session p =
     (let ver = (if sp_is_ipv6 p then ''IP6'' else ''IP4'') in
      [''v=0'',
       ''o=vscreen '' @ show_word (sp_session_version p) @ '' 1 IN '' @ ver @ '' '' @ sp_server_ip p,
       ''s=vscreen stream ('' @ sp_instance_id p @ '')'',
       ''c=IN '' @ ver @ '' '' @ sp_server_ip p,
       ''t=0 0''])"

definition sdp_video :: "sdp_params \<Rightarrow> string list" where
  "sdp_video p =
     [''m=video 0 RTP/AVP 96''] @
     (case sp_video_codec p of
        Vp9 \<Rightarrow>
          [''a=rtpmap:96 VP9/90000'',
           ''a=framesize:96 '' @ show_word (sp_video_width p) @ ''-'' @ show_word (sp_video_height p)]
      | H264 \<Rightarrow>
          [''a=rtpmap:96 H264/90000'',
           ''a=fmtp:96 profile-level-id=42c01f;packetization-mode=1'']) @
     [''a=framerate:'' @ show_word (sp_framerate p), ''a=control:trackID=0'']"

definition sdp_audio :: "sdp_params \<Rightarrow> u32 \<Rightarrow> string list" where
  "sdp_audio p bitrate =
     [''m=audio 0 RTP/AVP 111'',
      ''a=rtpmap:111 opus/48000/2'',
      ''a=fmtp:111 minptime=10;useinbandfec=1;maxaveragebitrate='' @ show_word bitrate,
      ''a=ptime:'' @ show_word (sp_ptime_ms p),
      ''a=control:trackID=1'']"

definition generate_sdp :: "bool \<Rightarrow> sdp_params \<Rightarrow> (string, string) outcome" where
  "generate_sdp checks p =
     and_then
       (if mc_audio (sp_media p)
        then and_then (bitrate_bps checks (sp_tier p)) (\<lambda>b. Ok (sdp_audio p b))
        else Ok [])
       (\<lambda>audio. Ok (concat (map (\<lambda>l. l @ CRLF)
          (sdp_session p @ (if mc_video (sp_media p) then sdp_video p else []) @ audio))))"

lemma str_lines_crlf_lines:
  "\<forall>l \<in> set ls. LF \<notin> set l \<Longrightarrow> str_lines (concat (map (\<lambda>l. l @ CRLF) ls)) = ls"
  by (induction ls) (simp_all)

lemma show_word_no_LF [simp]: "LF \<notin> set (show_word w)"
  unfolding show_word_def by simp

text \<open>A session description announces exactly the requested tracks. If neither the instance
  id nor the address has a line feed, its lines are the session lines followed by a video
  section exactly when video is asked for and an audio section exactly when audio is; so the
  control lines \<open>trackID=0\<close> and \<open>trackID=1\<close> occur once or not at all.\<close>

theorem generate_sdp_tracks:
  assumes "generate_sdp checks p = Ok sdp"
    and "LF \<notin> set (sp_instance_id p)" and "LF \<notin> set (sp_server_ip p)"
  shows "(\<exists>b. str_lines sdp = sdp_session p
      @ (if mc_video (sp_media p) then sdp_video p else [])
      @ (if mc_audio (sp_media p) then sdp_audio p b else [])) \<and>
    count_list (str_lines sdp) ''a=control:trackID=0'' = (if mc_video (sp_media p) then 1 else 0) \<and>
    count_list (str_lines sdp) ''a=control:trackID=1'' = (if mc_audio (sp_media p) then 1 else 0)"
proof -
  obtain audio b where audio: "audio = (if mc_audio (sp_media p) then sdp_audio p b else [])"
    and sdp: "sdp = concat (map (\<lambda>l. l @ CRLF)
          (sdp_session p @ (if mc_video (sp_media p) then sdp_video p else []) @ audio))"
    using assms(1) unfolding generate_sdp_def by (auto split: if_splits)
  have nl: "\<forall>l \<in> set (sdp_session p @ (if mc_video (sp_media p) then sdp_video p else []) @ audio). LF \<notin> set l"
    using assms(2,3) by (auto simp: audio sdp_session_def sdp_video_def sdp_audio_def Let_def
        split: video_codec.splits)
  have ls: "str_lines sdp = sdp_session p @ (if mc_video (sp_media p) then sdp_video p else []) @ audio"
    unfolding sdp by (rule str_lines_crlf_lines [OF nl])
  have s: "count_list (sdp_session p) ''a=control:trackID=0'' = 0"
      "count_list (sdp_session p) ''a=control:trackID=1'' = 0"
    by (simp_all add: sdp_session_def Let_def)
  have v: "count_list (sdp_video p) ''a=control:trackID=0'' = 1"
      "count_list (sdp_video p) ''a=control:trackID=1'' = 0"
    by (simp_all add: sdp_video_def split: video_codec.split)
  have a: "count_list (sdp_audio p b) ''a=control:trackID=0'' = 0"
      "count_list (sdp_audio p b) ''a=control:trackID=1'' = 1"
    by (simp_all add: sdp_audio_def)
  show ?thesis
    unfolding ls audio by (simp add: count_list_append s v a) blast
qed

definition sdp_example :: sdp_params where
  "sdp_example =
     \<lparr>sp_instance_id = ''dev'', sp_is_ipv6 = False, sp_server_ip = ''192.168.1.100'',
      sp_session_version = 1, sp_tier = Standard, sp_ptime_ms = 20, sp_media = audio_only,
      sp_video_codec = Vp9, sp_video_width = 1920, sp_video_height = 1080, sp_framerate = 30\<rparr>"

lemma generate_sdp_tracks_witness:
  "\<exists>sdp. generate_sdp True sdp_example = Ok sdp \<and>
     count_list (str_lines sdp) ''a=control:trackID=0'' = 0 \<and>
     count_list (str_lines sdp) ''a=control:trackID=1'' = 1"
proof -
  have "\<exists>sdp. generate_sdp True sdp_example = Ok sdp"
    by (simp add: generate_sdp_def sdp_example_def)
  then obtain sdp where s: "generate_sdp True sdp_example = Ok sdp" ..
  from generate_sdp_tracks [OF s] s show ?thesis
    by (simp add: sdp_example_def audio_only_def)
qed

end
