(* ===== verification/Dash_Map.thy ===== *)
theory Dash_Map
  imports Prelude "HOL-Library.AList"
begin

section \<open>Keyed tables\<close>

text \<open>
  The tables of the program (\<open>DashMap\<close> and \<open>std::collections::HashMap\<close>) hold at most one
  value per key and are iterated in an order the program does not rely on. The interface
  below says what the clients use: what a lookup returns after an insert and after a
  removal, and that the list of keys has no duplicates and is the domain. The program's
  tables are association lists; their order stands for the unspecified iteration order.
\<close>

locale kv_store =
  fixes empty :: "'m"
    and get :: "'k \<Rightarrow> 'm \<Rightarrow> 'v option"
    and insert :: "'k \<Rightarrow> 'v \<Rightarrow> 'm \<Rightarrow> 'm"
    and remove :: "'k \<Rightarrow> 'm \<Rightarrow> 'm"
    and keys :: "'m \<Rightarrow> 'k list"
    and invar :: "'m \<Rightarrow> bool"
  assumes get_empty: "get k empty = None"
    and get_insert: "get k' (insert k v m) = (if k' = k then Some v else get k' m)"
    and get_remove: "get k' (remove k m) = (if k' = k then None else get k' m)"
    and set_keys: "set (keys m) = {k. get k m \<noteq> None}"
    and distinct_keys: "invar m \<Longrightarrow> distinct (keys m)"
    and invar_empty: "invar empty"
    and invar_insert: "invar m \<Longrightarrow> invar (insert k v m)"
    and invar_remove: "invar m \<Longrightarrow> invar (remove k m)"
begin

lemma get_insert_same: "get k (insert k v m) = Some v"
  by (simp add: get_insert)

lemma get_insert_other: "k' \<noteq> k \<Longrightarrow> get k' (insert k v m) = get k' m"
  by (simp add: get_insert)

text \<open>Removing a list of keys one by one, as a sweep over the table does.\<close>

lemma get_remove_all: "get k (fold remove ks m) = (if k \<in> set ks then None else get k m)"
  by (induction ks arbitrary: m) (auto simp: get_remove)

lemma invar_remove_all: "invar m \<Longrightarrow> invar (fold remove ks m)"
  by (induction ks arbitrary: m) (auto intro: invar_remove)

lemma keys_remove_all: "set (keys (fold remove ks m)) = set (keys m) - set ks"
  by (auto simp: set_keys get_remove_all)

lemma remove_every_key: "keys (fold remove (keys m) m) = []"
  using keys_remove_all [of "keys m" m] by simp

lemma length_keys_insert:
  assumes "invar m"
  shows "length (keys (insert k v m)) =
    (if get k m = None then Suc (length (keys m)) else length (keys m))"
proof -
  have "set (keys (insert k v m)) = Set.insert k (set (keys m))"
    by (auto simp: set_keys get_insert)
  moreover have "length (keys (insert k v m)) = card (set (keys (insert k v m)))"
    and "length (keys m) = card (set (keys m))"
    using assms by (simp_all add: distinct_card distinct_keys invar_insert)
  moreover have "k \<in> set (keys m) \<longleftrightarrow> get k m \<noteq> None"
    by (simp add: set_keys)
  ultimately show ?thesis
    by (simp add: card_insert_if del: not_None_eq)
qed

end

subsection \<open>Association lists\<close>

type_synonym ('k, 'v) table = "('k \<times> 'v) list"

definition tab_get :: "'k \<Rightarrow> ('k, 'v) table \<Rightarrow> 'v option" where
  "tab_get k m = map_of m k"

definition tab_insert :: "'k \<Rightarrow> 'v \<Rightarrow> ('k, 'v) table \<Rightarrow> ('k, 'v) table" where
  "tab_insert k v m = AList.update k v m"

definition tab_remove :: "'k \<Rightarrow> ('k, 'v) table \<Rightarrow> ('k, 'v) table" where
  "tab_remove k m = AList.delete k m"

definition tab_keys :: "('k, 'v) table \<Rightarrow> 'k list" where
  "tab_keys m = map fst m"

definition tab_invar :: "('k, 'v) table \<Rightarrow> bool" where
  "tab_invar m = distinct (map fst m)"

interpretation tab: kv_store "[]" tab_get tab_insert tab_remove tab_keys tab_invar
proof unfold_locales
  fix k k' :: 'a and v :: 'b and m :: "('a, 'b) table"
  show "tab_get k' (tab_insert k v m) = (if k' = k then Some v else tab_get k' m)"
    by (simp add: tab_get_def tab_insert_def update_conv')
  show "tab_get k' (tab_remove k m) = (if k' = k then None else tab_get k' m)"
    by (simp add: tab_get_def tab_remove_def delete_conv')
  show "set (tab_keys m) = {k. tab_get k m \<noteq> None}"
    by (auto simp: tab_keys_def tab_get_def map_of_eq_None_iff)
  show "tab_invar m \<Longrightarrow> tab_invar (tab_insert k v m)"
    by (simp add: tab_invar_def tab_insert_def distinct_update)
  show "tab_invar m \<Longrightarrow> tab_invar (tab_remove k m)"
    by (simp add: tab_invar_def tab_remove_def distinct_delete)
qed (simp_all add: tab_get_def tab_keys_def tab_invar_def)

declare tab.get_insert [simp] tab.get_remove [simp] tab.get_empty [simp]
  tab.invar_insert [intro] tab.invar_remove [intro] tab.invar_empty [simp]

text \<open>\<open>iter_mut\<close>: every value is rewritten in place.\<close>

definition tab_map :: "('v \<Rightarrow> 'v) \<Rightarrow> ('k, 'v) table \<Rightarrow> ('k, 'v) table" where
  "tab_map f m = map (\<lambda>(k, v). (k, f v)) m"

lemma tab_get_map [simp]: "tab_get k (tab_map f m) = map_option f (tab_get k m)"
  by (induction m) (auto simp: tab_get_def tab_map_def)

lemma tab_invar_map [simp]: "tab_invar (tab_map f m) = tab_invar m"
  by (simp add: tab_invar_def tab_map_def comp_def case_prod_unfold)

lemma tab_get_in_set: "tab_get k m = Some v \<Longrightarrow> (k, v) \<in> set m"
  by (simp add: tab_get_def map_of_SomeD)

lemma tab_get_iff_in_set: "tab_invar m \<Longrightarrow> tab_get k m = Some v \<longleftrightarrow> (k, v) \<in> set m"
  by (simp add: tab_get_def tab_invar_def)

text \<open>A table all of whose values satisfy a predicate.\<close>

definition tab_all :: "('k \<Rightarrow> 'v \<Rightarrow> bool) \<Rightarrow> ('k, 'v) table \<Rightarrow> bool" where
  "tab_all P m = (\<forall>k v. tab_get k m = Some v \<longrightarrow> P k v)"

lemma tab_all_get: "tab_all P m \<Longrightarrow> tab_get k m = Some v \<Longrightarrow> P k v"
  by (simp add: tab_all_def)

lemma tab_all_empty [simp]: "tab_all P []"
  by (simp add: tab_all_def)

lemma tab_all_insert [intro]: "tab_all P m \<Longrightarrow> P k v \<Longrightarrow> tab_all P (tab_insert k v m)"
  by (simp add: tab_all_def)

lemma tab_all_remove [intro]: "tab_all P m \<Longrightarrow> tab_all P (tab_remove k m)"
  by (simp add: tab_all_def)

lemma tab_all_map: "tab_all P m \<Longrightarrow> (\<And>k v. P k v \<Longrightarrow> P k (f v)) \<Longrightarrow> tab_all P (tab_map f m)"
  by (auto simp: tab_all_def)

end
