(* ===== verification/Rtsp_Parser.thy ===== *)
theory Rtsp_Parser
  imports Rtsp_Media Dash_Map
begin

section \<open>RTSP messages\<close>

text \<open>
  \<open>crates/vscreen-rtsp/src/parser.rs\<close>: methods, requests, responses, the Transport header and
  the URL helpers. A request is parsed from bytes; a response is serialised to bytes. The
  header maps are tables, and the order in which \<open>serialize\<close> writes the extra headers is the
  table's, which stands for the unspecified order of a \<open>HashMap\<close>. Slicing a \<open>str\<close> inside a
  character panics. \<open>checks\<close> is the build's overflow-checks setting.
\<close>

datatype parse_error =
    Incomplete
  | InvalidRequestLine string
  | InvalidStatusLine string
  | UnknownMethod string
  | MissingCSeq
  | InvalidHeader string
  | InvalidTransport string
  | ContentLengthMismatch

subsection \<open>Methods\<close>

datatype rtsp_method = Options | Describe | Setup | Play | Pause | Teardown | GetParameter

definition method_parse :: "string \<Rightarrow> (parse_error, rtsp_method) outcome" where
  "method_parse s =
     (if s = ''OPTIONS'' then Ok Options
      else if s = ''DESCRIBE'' then Ok Describe
      else if s = ''SETUP'' then Ok Setup
      else if s = ''PLAY'' then Ok Play
      else if s = ''PAUSE'' then Ok Pause
      else if s = ''TEARDOWN'' then Ok Teardown
      else if s = ''GET_PARAMETER'' then Ok GetParameter
      else Err (UnknownMethod s))"

fun show_method :: "rtsp_method \<Rightarrow> string" where
  "show_method Options = ''OPTIONS''"
| "show_method Describe = ''DESCRIBE''"
| "show_method Setup = ''SETUP''"
| "show_method Play = ''PLAY''"
| "show_method Pause = ''PAUSE''"
| "show_method Teardown = ''TEARDOWN''"
| "show_method GetParameter = ''GET_PARAMETER''"

lemma method_parse_iff: "method_parse s = Ok m \<longleftrightarrow> s = show_method m"
  by (cases m) (auto simp: method_parse_def split: if_splits)

lemma show_method_no_space: "CHR '' '' \<notin> set (show_method m)"
  by (cases m) simp_all

subsection \<open>Requests\<close>

record rtsp_request =
  rq_method :: rtsp_method
  rq_url :: string
  rq_cseq :: u32
  rq_session :: "string option"
  rq_headers :: "(string, string) table"
  rq_body :: "string option"

definition split_header_body :: "string \<Rightarrow> string \<times> string option" where
  "split_header_body text =
     (case str_find (CRLF @ CRLF) text of
        Some pos \<Rightarrow>
          (let body = drop (pos + 4) text
           in (take pos text, if body = [] then None else Some body))
      | None \<Rightarrow> (text, None))"

fun parse_headers :: "(string, string) table \<Rightarrow> string list
    \<Rightarrow> (parse_error, (string, string) table) outcome" where
  "parse_headers acc [] = Ok acc"
| "parse_headers acc (line # lines) =
     (let trimmed = trim line in
      if trimmed = [] then parse_headers acc lines
      else case split_once (CHR '':'') trimmed of
             None \<Rightarrow> Err (InvalidHeader trimmed)
           | Some (key, v) \<Rightarrow>
               parse_headers (tab_insert (to_lowercase (trim key)) (trim v) acc) lines)"

definition parse_body ::
  "(string, string) table \<Rightarrow> string option \<Rightarrow> (parse_error, string option) outcome" where
  "parse_body headers body_section =
     (case tab_get ''content-length'' headers of
        None \<Rightarrow> Ok None
      | Some cl_str \<Rightarrow>
          and_then (ok_or (InvalidHeader ''invalid Content-Length'') (parse_uint 64 cl_str)) (\<lambda>cl.
            if 0 < cl then
              (let body_str = (case body_section of None \<Rightarrow> [] | Some b \<Rightarrow> b) in
               if length body_str < cl then Err Incomplete
               else if is_char_boundary body_str cl then Ok (Some (take cl body_str))
               else Panic)
            else Ok None))"

definition session_of_header :: "string \<Rightarrow> string" where
  "session_of_header s = trim (hd (split_on (CHR '';'') s))"

definition request_parse :: "string \<Rightarrow> (parse_error, rtsp_request) outcome" where
  "request_parse data =
     (if \<not> utf8_valid data then Err (InvalidRequestLine ''non-UTF-8 data'')
      else
        (let (header_section, body_section) = split_header_body data in
         case str_lines header_section of
           [] \<Rightarrow> Err (InvalidRequestLine ''empty'')
         | request_line # lines \<Rightarrow>
             (case splitn 3 (CHR '' '') request_line of
                [m, url, version] \<Rightarrow>
                  and_then (method_parse m) (\<lambda>meth.
                  and_then (parse_headers [] lines) (\<lambda>headers.
                  and_then (ok_or MissingCSeq (tab_get ''cseq'' headers)) (\<lambda>c.
                  and_then (ok_or MissingCSeq (parse_word c)) (\<lambda>cseq.
                  and_then (parse_body headers body_section) (\<lambda>body.
                    Ok \<lparr>rq_method = meth, rq_url = url, rq_cseq = cseq,
                        rq_session = map_option session_of_header (tab_get ''session'' headers),
                        rq_headers = headers, rq_body = body\<rparr>)))))
              | _ \<Rightarrow> Err (InvalidRequestLine request_line))))"

subsection \<open>Responses\<close>

record rtsp_response =
  rs_status :: u16
  rs_reason :: string
  rs_cseq :: u32
  rs_session :: "string option"
  rs_headers :: "(string, string) table"
  rs_body :: "string option"

definition response_new :: "u16 \<Rightarrow> string \<Rightarrow> u32 \<Rightarrow> rtsp_response" where
  "response_new status reason cseq =
     \<lparr>rs_status = status, rs_reason = reason, rs_cseq = cseq, rs_session = None,
      rs_headers = [], rs_body = None\<rparr>"

definition response_ok :: "u32 \<Rightarrow> rtsp_response" where
  "response_ok cseq = response_new 200 ''OK'' cseq"

definition not_found :: "u32 \<Rightarrow> rtsp_response" where
  "not_found cseq = response_new 404 ''Not Found'' cseq"

definition session_not_found :: "u32 \<Rightarrow> rtsp_response" where
  "session_not_found cseq = response_new 454 ''Session Not Found'' cseq"

definition unsupported_transport :: "u32 \<Rightarrow> rtsp_response" where
  "unsupported_transport cseq = response_new 461 ''Unsupported Transport'' cseq"

definition internal_error :: "u32 \<Rightarrow> rtsp_response" where
  "internal_error cseq = response_new 500 ''Internal Server Error'' cseq"

definition not_implemented :: "u32 \<Rightarrow> rtsp_response" where
  "not_implemented cseq = response_new 501 ''Not Implemented'' cseq"

definition header :: "string \<Rightarrow> string \<Rightarrow> rtsp_response \<Rightarrow> rtsp_response" where
  "header key v r = r\<lparr>rs_headers := tab_insert key v (rs_headers r)\<rparr>"

definition with_session :: "string \<Rightarrow> u32 \<Rightarrow> rtsp_response \<Rightarrow> rtsp_response" where
  "with_session sid timeout r =
     r\<lparr>rs_session := Some sid,
       rs_headers := tab_insert ''Session'' (sid @ '';timeout='' @ show_word timeout) (rs_headers r)\<rparr>"

definition set_body :: "string \<Rightarrow> string \<Rightarrow> rtsp_response \<Rightarrow> rtsp_response" where
  "set_body content_type body r =
     r\<lparr>rs_headers := tab_insert ''Content-Length'' (show_nat (length body))
                      (tab_insert ''Content-Type'' content_type (rs_headers r)),
       rs_body := Some body\<rparr>"

definition header_line :: "string \<times> string \<Rightarrow> string" where
  "header_line kv = fst kv @ '': '' @ snd kv"

definition response_lines :: "rtsp_response \<Rightarrow> string list" where
  "response_lines r =
     [''RTSP/1.0 '' @ show_word (rs_status r) @ '' '' @ rs_reason r,
      ''CSeq: '' @ show_word (rs_cseq r)] @
     (case rs_session r of
        None \<Rightarrow> []
      | Some s \<Rightarrow> if tab_get ''Session'' (rs_headers r) = None then [''Session: '' @ s] else []) @
     map header_line (rs_headers r)"

definition serialize :: "rtsp_response \<Rightarrow> string" where
  "serialize r =
     concat (map (\<lambda>l. l @ CRLF) (response_lines r)) @ CRLF @
     (case rs_body r of None \<Rightarrow> [] | Some b \<Rightarrow> b)"

subsection \<open>The Transport header\<close>

datatype transport_mode =
    UdpUnicast u16 u16
  | TcpInterleaved u8 u8

definition parse_port_pair ::
  "bool \<Rightarrow> string \<Rightarrow> string \<Rightarrow> string \<Rightarrow> (parse_error, ('a::len word \<times> 'a word)) outcome" where
  "parse_port_pair checks bad1 bad2 s =
     (let parts = split_on (CHR ''-'') s in
      and_then (ok_or (InvalidTransport bad1) (parse_word (hd parts))) (\<lambda>a.
      and_then
        (if 1 < length parts then ok_or (InvalidTransport bad2) (parse_word (parts ! 1))
         else add_ovf checks a 1)
        (\<lambda>b. Ok (a, b))))"

definition transport_parse :: "bool \<Rightarrow> string \<Rightarrow> (parse_error, transport_mode) outcome" where
  "transport_parse checks v =
     (let lower = to_lowercase v in
      if \<not> str_contains ''rtp/avp'' lower then Err (InvalidTransport ''missing RTP/AVP'')
      else if str_contains ''rtp/avp/tcp'' lower \<or> str_contains ''interleaved='' lower then
        (case find (\<lambda>p. starts_with ''interleaved='' (trim p)) (split_on (CHR '';'') lower) of
           None \<Rightarrow> Err (InvalidTransport ''TCP mode requires interleaved= parameter'')
         | Some p \<Rightarrow>
             (case strip_prefix ''interleaved='' (trim p) of
                None \<Rightarrow> Err (InvalidTransport ''TCP mode requires interleaved= parameter'')
              | Some ch \<Rightarrow>
                  and_then (parse_port_pair checks ''invalid interleaved channel''
                              ''invalid interleaved channel'' ch)
                    (\<lambda>(a, b). Ok (TcpInterleaved a b))))
      else
        (case find (\<lambda>p. starts_with ''client_port='' (to_lowercase (trim p))) (split_on (CHR '';'') v) of
           None \<Rightarrow> Err (InvalidTransport ''missing client_port'')
         | Some p \<Rightarrow>
             (case split_on (CHR ''='') p of
                _ # port_value # _ \<Rightarrow>
                  and_then (parse_port_pair checks ''invalid RTP port number''
                              ''invalid RTCP port number'' (trim port_value))
                    (\<lambda>(a, b). Ok (UdpUnicast a b))
              | _ \<Rightarrow> Err (InvalidTransport ''malformed client_port''))))"

fun is_tcp_interleaved :: "transport_mode \<Rightarrow> bool" where
  "is_tcp_interleaved (TcpInterleaved _ _) = True"
| "is_tcp_interleaved (UdpUnicast _ _) = False"

fun format_response :: "u16 \<Rightarrow> u16 \<Rightarrow> transport_mode \<Rightarrow> string" where
  "format_response srtp srtcp (UdpUnicast a b) =
     ''RTP/AVP;unicast;client_port='' @ show_word a @ ''-'' @ show_word b @
     '';server_port='' @ show_word srtp @ ''-'' @ show_word srtcp"
| "format_response srtp srtcp (TcpInterleaved a b) =
     ''RTP/AVP/TCP;unicast;interleaved='' @ show_word a @ ''-'' @ show_word b"

subsection \<open>URLs\<close>

definition extract_url_path :: "string \<Rightarrow> string" where
  "extract_url_path url =
     (let path_start = (case str_find ''://'' url of None \<Rightarrow> 0 | Some i \<Rightarrow> i + 3);
          after_host = drop path_start url;
          path = (case str_find ''/'' after_host of None \<Rightarrow> [] | Some i \<Rightarrow> drop i after_host)
      in hd (split_on (CHR ''?'') path))"

definition strip_slash :: "string \<Rightarrow> string" where
  "strip_slash path = (case strip_prefix ''/'' path of None \<Rightarrow> path | Some p \<Rightarrow> p)"

definition url_segments :: "string \<Rightarrow> string list" where
  "url_segments url = split_on (CHR ''/'') (strip_slash (extract_url_path url))"

definition extract_instance_id :: "string \<Rightarrow> string option" where
  "extract_instance_id url =
     (case url_segments url of
        a # b # _ \<Rightarrow> if (a = ''stream'' \<or> a = ''audio'') \<and> b \<noteq> [] then Some b else None
      | _ \<Rightarrow> None)"

definition is_audio_only_url :: "string \<Rightarrow> bool" where
  "is_audio_only_url url = starts_with ''audio/'' (strip_slash (extract_url_path url))"

definition extract_track_id :: "string \<Rightarrow> u8 option" where
  "extract_track_id url =
     (case strip_prefix ''trackID='' (last (url_segments url)) of
        None \<Rightarrow> None
      | Some id_str \<Rightarrow> parse_word id_str)"

definition extract_query_params :: "string \<Rightarrow> (string, string) table" where
  "extract_query_params url =
     (case str_find ''?'' url of
        None \<Rightarrow> []
      | Some q \<Rightarrow>
          fold (\<lambda>pair params.
                  case split_once (CHR ''='') pair of
                    None \<Rightarrow> params
                  | Some (key, v) \<Rightarrow> tab_insert (to_lowercase key) v params)
            (split_on (CHR ''&'') (drop (q + 1) url)) [])"

definition flag_value :: "string \<Rightarrow> bool" where
  "flag_value v = (v \<noteq> ''false'' \<and> v \<noteq> ''0'' \<and> v \<noteq> ''no'')"

definition parse_media_config :: "string \<Rightarrow> media_config" where
  "parse_media_config url =
     (if is_audio_only_url url then audio_only
      else
        (let params = extract_query_params url;
             flag = (\<lambda>k. case tab_get k params of None \<Rightarrow> True | Some v \<Rightarrow> flag_value v)
         in \<lparr>mc_video = flag ''video'', mc_audio = flag ''audio''\<rparr>))"

subsection \<open>Header blocks\<close>

definition clean_line :: "string \<Rightarrow> bool" where
  "clean_line l = (l \<noteq> [] \<and> CR \<notin> set l \<and> LF \<notin> set l)"

fun join_crlf :: "string list \<Rightarrow> string" where
  "join_crlf [] = []"
| "join_crlf [l] = l"
| "join_crlf (l # ls) = l @ CRLF @ join_crlf ls"

lemma concat_crlf: "ls \<noteq> [] \<Longrightarrow> concat (map (\<lambda>l. l @ CRLF) ls) = join_crlf ls @ CRLF"
  by (induction ls rule: join_crlf.induct) auto

lemma find_header_end:
  "ls \<noteq> [] \<Longrightarrow> \<forall>l \<in> set ls. clean_line l \<Longrightarrow>
   find_from i (CRLF @ CRLF) (join_crlf ls @ CRLF @ CRLF @ body) = Some (i + length (join_crlf ls))"
proof (induction ls arbitrary: i rule: join_crlf.induct)
  case (2 l)
  then show ?case
    using find_from_skip [of "CRLF @ CRLF" l i "CRLF @ CRLF @ body"]
    by (simp add: clean_line_def starts_with_iff)
next
  case (3 l l' ls)
  let ?rest = "join_crlf (l' # ls) @ CRLF @ CRLF @ body"
  have ne: "\<exists>c r. ?rest = c # r \<and> c \<noteq> CR"
    using 3 by (cases l'; cases ls) (auto simp: clean_line_def)
  then obtain c r where cr: "?rest = c # r" "c \<noteq> CR" by blast
  have "find_from i (CRLF @ CRLF) (l @ CRLF @ ?rest) = find_from (i + length l) (CRLF @ CRLF) (CRLF @ ?rest)"
    by (rule find_from_skip) (use 3 in \<open>auto simp: clean_line_def\<close>)
  also have "\<dots> = find_from (i + length l + 2) (CRLF @ CRLF) ?rest"
    unfolding cr by (simp add: starts_with_iff \<open>c \<noteq> CR\<close>)
  also have "\<dots> = Some (i + length l + 2 + length (join_crlf (l' # ls)))"
    using 3 by simp
  finally show ?case by simp
qed simp

lemma str_lines_join:
  "ls \<noteq> [] \<Longrightarrow> \<forall>l \<in> set ls. clean_line l \<Longrightarrow> str_lines (join_crlf ls) = ls"
  by (induction ls rule: join_crlf.induct) (auto simp: clean_line_def)

lemma split_header_block:
  assumes "ls \<noteq> []" and "\<forall>l \<in> set ls. clean_line l"
  shows "split_header_body (concat (map (\<lambda>l. l @ CRLF) ls) @ CRLF @ body) =
    (join_crlf ls, if body = [] then None else Some body)"
proof -
  have t: "concat (map (\<lambda>l. l @ CRLF) ls) @ CRLF @ body = join_crlf ls @ CRLF @ CRLF @ body"
    by (simp add: concat_crlf assms(1))
  have "str_find (CRLF @ CRLF) (join_crlf ls @ CRLF @ CRLF @ body) = Some (length (join_crlf ls))"
    using find_header_end [OF assms, of 0 body] by (simp add: str_find_def)
  then show ?thesis unfolding t by (simp add: split_header_body_def)
qed

text \<open>Framing of a response. If no header of a response has a line break, cutting the
  serialised bytes at the first empty line gives back the status line, the CSeq line and every
  header, in order, and the body.\<close>

theorem serialize_framing:
  assumes "\<forall>l \<in> set (response_lines r). clean_line l"
  shows "\<exists>head. split_header_body (serialize r) =
      (head, case rs_body r of None \<Rightarrow> None | Some b \<Rightarrow> if b = [] then None else Some b) \<and>
    str_lines head = response_lines r"
proof -
  have ne: "response_lines r \<noteq> []" by (simp add: response_lines_def)
  show ?thesis
    using split_header_block [OF ne assms, of "case rs_body r of None \<Rightarrow> [] | Some b \<Rightarrow> b"]
      str_lines_join [OF ne assms]
    by (auto simp: serialize_def split: option.splits)
qed

lemma serialize_framing_witness:
  "\<exists>head. split_header_body (serialize (set_body ''text/plain'' ''hi'' (response_ok 7))) = (head, Some ''hi'')"
proof -
  let ?r = "set_body ''text/plain'' ''hi'' (response_ok 7)"
  have "\<forall>l \<in> set (response_lines ?r). clean_line l"
    by (simp add: response_lines_def set_body_def response_ok_def response_new_def clean_line_def
        header_line_def tab_insert_def show_word_def)
  from serialize_framing [OF this] show ?thesis
    by (auto simp: set_body_def)
qed

subsection \<open>The Transport header, both ways\<close>

lemma show_word_no_digit: "\<not> is_digit c \<Longrightarrow> c \<notin> set (show_word w)"
  unfolding show_word_def using show_nat_digits by blast

lemma show_word_nonempty [simp]: "show_word w \<noteq> []"
  by (simp add: show_word_def)

lemma find_from_show_word [simp]:
  "p \<noteq> [] \<Longrightarrow> \<not> is_digit (hd p) \<Longrightarrow> find_from i p (show_word w @ s) = find_from (i + length (show_word w)) p s"
  "p \<noteq> [] \<Longrightarrow> \<not> is_digit (hd p) \<Longrightarrow> find_from i p (show_word w) = None"
  using find_from_skip [of p "show_word w" i "s"] find_from_skip [of p "show_word w" i "[]"]
  by (simp_all add: show_word_no_digit)

lemma split_on_show_word [simp]:
  "\<not> is_digit c \<Longrightarrow> split_on c (show_word w @ s) = (show_word w @ hd (split_on c s)) # tl (split_on c s)"
  "\<not> is_digit c \<Longrightarrow> split_on c (show_word w) = [show_word w]"
proof -
  have "c \<notin> set a \<Longrightarrow> split_on c (a @ s) = (a @ hd (split_on c s)) # tl (split_on c s)" for a
    by (induction a) auto
  then show "\<not> is_digit c \<Longrightarrow> split_on c (show_word w @ s) = (show_word w @ hd (split_on c s)) # tl (split_on c s)"
    by (simp add: show_word_no_digit)
  show "\<not> is_digit c \<Longrightarrow> split_on c (show_word w) = [show_word w]"
    by (simp add: show_word_no_digit)
qed

lemma to_lowercase_show_word [simp]: "to_lowercase (show_word w) = show_word w"
  by (simp add: show_word_def)

lemma last_show_word_graphic: "graphic (last (show_word w))" "graphic (hd (show_word w))"
  by (simp_all add: show_word_def show_nat_graphic_ends)

lemma trim_to_show_word [simp]:
  "graphic (hd (a @ show_word w)) \<Longrightarrow> trim (a @ show_word w) = a @ show_word w"
  by (rule trim_graphic) (simp add: last_show_word_graphic)

lemma lower_literals:
  "to_lowercase ''RTP/AVP;unicast;client_port='' = ''rtp/avp;unicast;client_port=''"
  "to_lowercase '';server_port='' = '';server_port=''" "to_lowercase ''-'' = ''-''"
  "to_lowercase ''RTP/AVP/TCP;unicast;interleaved='' = ''rtp/avp/tcp;unicast;interleaved=''"
  "to_lowercase ''RTP/AVP'' = ''rtp/avp''" "to_lowercase ''unicast'' = ''unicast''"
  "to_lowercase ''client_port='' = ''client_port=''"
  by code_simp+

lemma digit_literals:
  "\<not> is_digit (CHR ''r'')" "\<not> is_digit (CHR ''i'')" "\<not> is_digit (CHR '';'')" "\<not> is_digit (CHR ''-'')"
  "\<not> is_digit (CHR ''='')" "\<not> is_digit (CHR ''/'')" "\<not> is_digit (CHR ''?'')" "\<not> is_digit (CHR '':'')"
  by (simp_all add: is_digit_def byte_in_def)

lemma trim_literals: "trim ''rtp/avp/tcp'' = ''rtp/avp/tcp''" "trim ''unicast'' = ''unicast''"
  "trim ''RTP/AVP'' = ''RTP/AVP''"
  by (simp_all add: trim_graphic byte_in_def)

lemma parse_port_pair_show [simp]:
  "parse_port_pair checks e1 e2 (show_word a @ CHR ''-'' # show_word b) = Ok (a, b)"
  "parse_port_pair checks e1 e2 (show_word a) = and_then (add_ovf checks a 1) (\<lambda>b. Ok (a, b))"
  by (simp_all add: parse_port_pair_def digit_literals)

lemma transport_parse_udp:
  assumes "p = (show_word a @ CHR ''-'' # show_word b) \<or> p = show_word a"
    and "rest = [] \<or> rest = '';server_port='' @ show_word c @ ''-'' @ show_word d"
  shows "transport_parse checks (''RTP/AVP;unicast;client_port='' @ p @ rest) =
    and_then (parse_port_pair checks ''invalid RTP port number'' ''invalid RTCP port number'' p)
      (\<lambda>(a, b). Ok (UdpUnicast a b))"
proof -
  let ?v = "''RTP/AVP;unicast;client_port='' @ p @ rest"
  have low: "to_lowercase ?v = ''rtp/avp;unicast;client_port='' @ p @ rest"
  proof -
    have "to_lowercase p = p" "to_lowercase rest = rest"
      using assms by (auto simp: to_lowercase_Cons ascii_lower_def byte_in_def)
    then show ?thesis by (simp only: to_lowercase_append lower_literals)
  qed
  have c1: "str_contains ''rtp/avp'' (to_lowercase ?v)"
    unfolding low by (simp add: str_contains_def str_find_def starts_with_def)
  have c2: "\<not> str_contains ''rtp/avp/tcp'' (to_lowercase ?v)" "\<not> str_contains ''interleaved='' (to_lowercase ?v)"
    unfolding low using assms
    by (auto simp: str_contains_def str_find_def starts_with_def digit_literals)
  have sp: "split_on (CHR '';'') ?v = [''RTP/AVP'', ''unicast'', ''client_port='' @ p] @
      (if rest = [] then [] else [''server_port='' @ show_word c @ ''-'' @ show_word d])"
    using assms by (auto simp: digit_literals)
  have tr: "trim (''client_port='' @ p) = ''client_port='' @ p" "trim p = p"
    using assms(1) trim_to_show_word [of "''client_port='' @ show_word a @ ''-''" b]
      trim_to_show_word [of "''client_port=''" a] trim_to_show_word [of "show_word a @ ''-''" b]
      trim_to_show_word [of "[]" a] last_show_word_graphic(2) [of a]
    by (auto simp: byte_in_def hd_append)
  have "to_lowercase (''client_port='' @ p) = ''client_port='' @ p"
    using assms(1) by (auto simp: lower_literals to_lowercase_Cons ascii_lower_def byte_in_def char_of_def)
  then have fnd: "find (\<lambda>q. starts_with ''client_port='' (to_lowercase (trim q))) (split_on (CHR '';'') ?v) =
      Some (''client_port='' @ p)"
    unfolding sp using tr by (simp add: trim_literals lower_literals starts_with_def)
  have eq: "split_on (CHR ''='') p = [p]"
    using assms(1) by (auto simp: digit_literals)
  show ?thesis
    unfolding transport_parse_def Let_def fnd using c1 c2 tr eq by simp
qed

lemma transport_parse_tcp:
  assumes "p = (show_word a @ CHR ''-'' # show_word b) \<or> p = show_word a"
  shows "transport_parse checks (''RTP/AVP/TCP;unicast;interleaved='' @ p) =
    and_then (parse_port_pair checks ''invalid interleaved channel'' ''invalid interleaved channel'' p)
      (\<lambda>(a, b). Ok (TcpInterleaved a b))"
proof -
  let ?v = "''RTP/AVP/TCP;unicast;interleaved='' @ p"
  have low: "to_lowercase ?v = ''rtp/avp/tcp;unicast;interleaved='' @ p"
  proof -
    have "to_lowercase p = p"
      using assms by (auto simp: to_lowercase_Cons ascii_lower_def byte_in_def)
    then show ?thesis by (simp only: to_lowercase_append lower_literals)
  qed
  have c: "str_contains ''rtp/avp'' (to_lowercase ?v)" "str_contains ''rtp/avp/tcp'' (to_lowercase ?v)"
    unfolding low by (simp_all add: str_contains_def str_find_def starts_with_def)
  have sp: "split_on (CHR '';'') (to_lowercase ?v) = [''rtp/avp/tcp'', ''unicast'', ''interleaved='' @ p]"
    unfolding low using assms by (auto simp: digit_literals)
  have tr: "trim (''interleaved='' @ p) = ''interleaved='' @ p"
    using assms(1) trim_to_show_word [of "''interleaved='' @ show_word a @ ''-''" b]
      trim_to_show_word [of "''interleaved=''" a]
    by (auto simp: byte_in_def)
  have fnd: "find (\<lambda>q. starts_with ''interleaved='' (trim q)) (split_on (CHR '';'') (to_lowercase ?v)) =
      Some (''interleaved='' @ p)"
    unfolding sp using tr by (simp add: trim_literals starts_with_def)
  show ?thesis
    unfolding transport_parse_def Let_def fnd using c tr by simp
qed

text \<open>The Transport header survives a round trip: parsing the header the server writes in
  its response to SETUP, under either build profile, gives back the client's transport.\<close>

theorem transport_round_trip:
  "transport_parse checks (format_response server_rtp server_rtcp t) = Ok t"
proof (cases t)
  case (UdpUnicast a b)
  then show ?thesis
    using transport_parse_udp [of "show_word a @ CHR ''-'' # show_word b" a b
        "'';server_port='' @ show_word server_rtp @ ''-'' @ show_word server_rtcp" server_rtp server_rtcp checks]
    by simp
next
  case (TcpInterleaved a b)
  then show ?thesis
    using transport_parse_tcp [of "show_word a @ CHR ''-'' # show_word b" a b checks] by simp
qed

text \<open>A single client port. A header that names one port uses the next one for RTCP, except
  for 65535, where the addition overflows: a build with overflow checks panics and one
  without answers with RTCP port 0. The same holds of a single interleaved channel at 255.\<close>

theorem transport_single_port:
  "transport_parse checks (''RTP/AVP;unicast;client_port='' @ show_word p) =
     (if p \<noteq> 65535 then Ok (UdpUnicast p (p + 1))
      else if checks then Panic else Ok (UdpUnicast 65535 0)) \<and>
   transport_parse checks (''RTP/AVP/TCP;unicast;interleaved='' @ show_word c) =
     (if c \<noteq> 255 then Ok (TcpInterleaved c (c + 1))
      else if checks then Panic else Ok (TcpInterleaved 255 0))"
proof -
  have "p = 65535 \<longleftrightarrow> \<not> unat p + 1 < 65536"
  proof
    assume "\<not> unat p + 1 < 65536"
    moreover have "unat p < 2 ^ LENGTH(16)" by (rule unsigned_less)
    ultimately have "unat p = unat (65535 :: u16)" by simp
    then show "p = 65535" by (simp only: word_unat_eq_iff)
  qed simp
  then have p: "add_ovf checks p 1 = (if p \<noteq> 65535 then Ok (p + 1) else if checks then Panic else Ok 0)"
    by (auto simp: add_ovf_def)
  have "c = 255 \<longleftrightarrow> \<not> unat c + 1 < 256"
  proof
    assume "\<not> unat c + 1 < 256"
    moreover have "unat c < 2 ^ LENGTH(8)" by (rule unsigned_less)
    ultimately have "unat c = unat (255 :: u8)" by simp
    then show "c = 255" by (simp only: word_unat_eq_iff)
  qed simp
  then have c: "add_ovf checks c 1 = (if c \<noteq> 255 then Ok (c + 1) else if checks then Panic else Ok 0)"
    by (auto simp: add_ovf_def)
  show ?thesis
    using transport_parse_udp [of "show_word p" p 0 "[]" 0 0 checks]
      transport_parse_tcp [of "show_word c" c 0 checks]
    by (simp add: p c)
qed

subsection \<open>Requests, both ways\<close>

text \<open>The text of a request as a client writes it.\<close>

definition request_lines :: "rtsp_method \<Rightarrow> string \<Rightarrow> (string \<times> string) list \<Rightarrow> string list" where
  "request_lines m url hs = (show_method m @ '' '' @ url @ '' RTSP/1.0'') # map header_line hs"

definition request_text :: "rtsp_method \<Rightarrow> string \<Rightarrow> (string \<times> string) list \<Rightarrow> string \<Rightarrow> string" where
  "request_text m url hs body = concat (map (\<lambda>l. l @ CRLF) (request_lines m url hs)) @ CRLF @ body"

definition header_table :: "(string \<times> string) list \<Rightarrow> (string, string) table" where
  "header_table hs = fold (\<lambda>(k, v). tab_insert (to_lowercase k) v) hs []"

definition clean_header :: "string \<times> string \<Rightarrow> bool" where
  "clean_header kv =
     (fst kv \<noteq> [] \<and> graphic (hd (fst kv)) \<and> graphic (last (fst kv)) \<and> CHR '':'' \<notin> set (fst kv) \<and>
      snd kv \<noteq> [] \<and> graphic (hd (snd kv)) \<and> graphic (last (snd kv)) \<and>
      CR \<notin> set (fst kv) \<union> set (snd kv) \<and> LF \<notin> set (fst kv) \<union> set (snd kv))"

lemma parse_headers_clean:
  "\<forall>kv \<in> set hs. clean_header kv \<Longrightarrow>
   parse_headers acc (map header_line hs) = Ok (fold (\<lambda>(k, v). tab_insert (to_lowercase k) v) hs acc)"
proof (induction hs arbitrary: acc)
  case (Cons kv hs)
  obtain k v where kv: "kv = (k, v)" by fastforce
  with Cons.prems have c: "clean_header (k, v)" by simp
  have "trim (header_line (k, v)) = header_line (k, v)"
    by (rule trim_graphic) (use c in \<open>simp add: clean_header_def header_line_def\<close>)
  moreover have "split_once (CHR '':'') (header_line (k, v)) = Some (k, CHR '' '' # v)"
    using c by (simp add: clean_header_def header_line_def)
  moreover have "trim k = k" "trim (CHR '' '' # v) = v"
    using c by (simp_all add: trim_graphic clean_header_def trim_start_leading_space)
  moreover have "header_line (k, v) \<noteq> []" by (simp add: header_line_def)
  ultimately show ?case using Cons by (simp add: kv)
qed simp

lemma clean_request_lines:
  assumes "CR \<notin> set url" and "LF \<notin> set url" and "\<forall>kv \<in> set hs. clean_header kv"
  shows "\<forall>l \<in> set (request_lines m url hs). clean_line l"
proof -
  have "CR \<notin> set (show_method m) \<and> LF \<notin> set (show_method m)" by (cases m) simp_all
  then show ?thesis
    using assms by (auto simp: request_lines_def clean_line_def clean_header_def header_line_def)
qed

lemma request_parse_text:
  assumes "utf8_valid (request_text m url hs body)"
    and "CHR '' '' \<notin> set url" and "CR \<notin> set url" and "LF \<notin> set url"
    and "\<forall>kv \<in> set hs. clean_header kv"
    and "tab_get ''cseq'' (header_table hs) = Some (show_word cseq)"
  shows "request_parse (request_text m url hs body) =
    and_then (parse_body (header_table hs) (if body = [] then None else Some body)) (\<lambda>b.
      Ok \<lparr>rq_method = m, rq_url = url, rq_cseq = cseq,
          rq_session = map_option session_of_header (tab_get ''session'' (header_table hs)),
          rq_headers = header_table hs, rq_body = b\<rparr>)"
proof -
  have ne: "request_lines m url hs \<noteq> []" by (simp add: request_lines_def)
  note clean = clean_request_lines [OF assms(3,4,5), of m]
  have split: "split_header_body (request_text m url hs body) =
      (join_crlf (request_lines m url hs), if body = [] then None else Some body)"
    unfolding request_text_def by (rule split_header_block [OF ne clean])
  have lines: "str_lines (join_crlf (request_lines m url hs)) = request_lines m url hs"
    by (rule str_lines_join [OF ne clean])
  have line: "splitn 3 (CHR '' '') (show_method m @ '' '' @ url @ '' RTSP/1.0'') =
      [show_method m, url, ''RTSP/1.0'']"
    using assms(2) by (simp add: numeral_3_eq_3 show_method_no_space)
  show ?thesis
    using assms(1) split lines line assms(6) parse_headers_clean [OF assms(5), of "[]"]
    by (simp add: request_parse_def request_lines_def method_parse_iff [THEN iffD2] header_table_def)
qed

lemma request_parse_ascii:
  assumes "is_ascii (request_text m url hs body)"
    and "CHR '' '' \<notin> set url" and "CR \<notin> set url" and "LF \<notin> set url"
    and "\<forall>kv \<in> set hs. clean_header kv"
    and "tab_get ''cseq'' (header_table hs) = Some (show_word cseq)"
    and "tab_get ''content-length'' (header_table hs) =
      (if body = [] then None else Some (show_nat (length body)))"
    and "length body < 2 ^ 64"
  shows "request_parse (request_text m url hs body) =
    Ok \<lparr>rq_method = m, rq_url = url, rq_cseq = cseq,
        rq_session = map_option session_of_header (tab_get ''session'' (header_table hs)),
        rq_headers = header_table hs, rq_body = (if body = [] then None else Some body)\<rparr>"
proof -
  have body: "parse_body (header_table hs) (if body = [] then None else Some body) =
      Ok (if body = [] then None else Some body)"
  proof (cases "body = []")
    case False
    have "is_ascii body" using assms(1) by (simp add: request_text_def is_ascii_def)
    then have "is_char_boundary body (length body)" by (simp add: is_char_boundary_ascii)
    with False assms(7,8) show ?thesis by (simp add: parse_body_def)
  qed (use assms(7) in \<open>simp add: parse_body_def\<close>)
  show ?thesis
    using request_parse_text [OF utf8_valid_ascii [OF assms(1)] assms(2-6)] body by simp
qed

text \<open>C18: A request survives the wire. The text a client writes, with a method, a URL without
  spaces, headers without line breaks of which one is the CSeq, and a body announced by its
  Content-Length, parses to that method, URL, CSeq, header table (keys in lower case) and
  body.\<close>

theorem request_round_trip:
  assumes "is_ascii (request_text m url hs body)"
    and "CHR '' '' \<notin> set url" and "CR \<notin> set url" and "LF \<notin> set url"
    and "\<forall>kv \<in> set hs. clean_header kv"
    and "tab_get ''cseq'' (header_table hs) = Some (show_word cseq)"
    and "tab_get ''content-length'' (header_table hs) =
      (if body = [] then None else Some (show_nat (length body)))"
    and "length body < 2 ^ 64"
  shows "request_parse (request_text m url hs body) =
    Ok \<lparr>rq_method = m, rq_url = url, rq_cseq = cseq,
        rq_session = map_option session_of_header (tab_get ''session'' (header_table hs)),
        rq_headers = header_table hs, rq_body = (if body = [] then None else Some body)\<rparr>"
  using assms by (rule request_parse_ascii)

lemma request_round_trip_witness:
  "request_parse (request_text Describe ''rtsp://h/stream/dev'' [(''CSeq'', ''2'')] []) =
    Ok \<lparr>rq_method = Describe, rq_url = ''rtsp://h/stream/dev'', rq_cseq = 2, rq_session = None,
        rq_headers = [(''cseq'', ''2'')], rq_body = None\<rparr>"
proof -
  have h: "header_table [(''CSeq'', ''2'')] = [(''cseq'', ''2'')]" by code_simp
  have n: "show_word (2 :: u32) = ''2''" by code_simp
  have a: "is_ascii (request_text Describe ''rtsp://h/stream/dev'' [(''CSeq'', ''2'')] [])"
    by code_simp
  have c: "\<forall>kv \<in> set [(''CSeq'', ''2'')]. clean_header kv" by code_simp
  have t: "tab_get ''cseq'' [(''cseq'', ''2'')] = Some ''2''"
    "tab_get ''content-length'' [(''cseq'', ''2'')] = None"
    "tab_get ''session'' [(''cseq'', ''2'')] = None"
    by (simp_all add: tab_get_def)
  show ?thesis
    using request_round_trip [OF a _ _ _ c, of 2] by (simp add: h n t)
qed

lemma parse_headers_no_panic: "parse_headers acc ls \<noteq> Panic"
  by (induction acc ls rule: parse_headers.induct) (auto simp: Let_def split: option.splits)

lemma method_parse_no_panic: "method_parse s \<noteq> Panic"
  by (simp add: method_parse_def)

lemma parse_body_panic:
  assumes "parse_body hs b = Panic"
  shows "\<exists>body cl. b = Some body \<and> 0 < cl \<and> cl < length body \<and> is_cont (body ! cl)"
proof -
  obtain cl where cl: "0 < cl" "\<not> length (case b of None \<Rightarrow> [] | Some b \<Rightarrow> b) < cl"
      "\<not> is_char_boundary (case b of None \<Rightarrow> [] | Some b \<Rightarrow> b) cl"
    using assms by (auto simp: parse_body_def and_then_Panic_iff Let_def split: option.splits if_splits)
  then show ?thesis
    by (cases b) (auto simp: is_char_boundary_def)
qed

lemma request_parse_panic:
  assumes "request_parse data = Panic"
  shows "\<exists>body cl. snd (split_header_body data) = Some body \<and> 0 < cl \<and> cl < length body \<and> is_cont (body ! cl)"
proof -
  obtain hs where "parse_body hs (snd (split_header_body data)) = Panic"
    using assms parse_headers_no_panic method_parse_no_panic
    by (auto simp: request_parse_def and_then_Panic_iff split: prod.splits list.splits if_splits)
  from parse_body_panic [OF this] show ?thesis .
qed

lemma split_header_body_subset:
  "snd (split_header_body data) = Some body \<Longrightarrow> set body \<subseteq> set data"
  by (auto simp: split_header_body_def Let_def split: option.splits if_splits dest: in_set_dropD)

text \<open>A body of one two-byte character, announced as one byte long.\<close>

definition split_character_request :: string where
  "split_character_request =
     request_text Options ''*'' [(''CSeq'', ''1''), (''Content-Length'', ''1'')] [CHR 0xC3, CHR 0xA9]"

lemma split_character_request_panics:
  "utf8_valid split_character_request" "request_parse split_character_request = Panic"
proof -
  let ?hs = "[(''CSeq'', ''1''), (''Content-Length'', ''1'')]"
  show u: "utf8_valid split_character_request" by code_simp
  have h: "header_table ?hs = [(''cseq'', ''1''), (''content-length'', ''1'')]" by code_simp
  have n: "show_word (1 :: u32) = ''1''" by code_simp
  have c: "\<forall>kv \<in> set ?hs. clean_header kv" by code_simp
  have b: "parse_body [(''cseq'', ''1''), (''content-length'', ''1'')] (Some [CHR 0xC3, CHR 0xA9]) = Panic"
    by (simp add: parse_body_def tab_get_def parse_uint_def is_digit_def byte_in_def is_char_boundary_def)
  have t: "tab_get ''cseq'' (header_table ?hs) = Some (show_word (1 :: u32))"
    by (simp add: h n tab_get_def)
  show "request_parse split_character_request = Panic"
    using request_parse_text [OF u [unfolded split_character_request_def] _ _ _ c t]
    by (simp add: split_character_request_def h b)
qed

text \<open>When parsing panics. The parser panics only on a request whose Content-Length cuts a
  multi-byte character of its body in two; on ASCII input it never panics, and there is a valid
  UTF-8 request on which it does.\<close>

theorem request_parse_panics:
  "(request_parse data = Panic \<longrightarrow>
      (\<exists>body cl. snd (split_header_body data) = Some body \<and> 0 < cl \<and> cl < length body \<and> is_cont (body ! cl))) \<and>
   (is_ascii data \<longrightarrow> request_parse data \<noteq> Panic) \<and>
   (\<exists>bad. utf8_valid bad \<and> request_parse bad = Panic)"
proof (intro conjI impI)
  show "\<exists>body cl. snd (split_header_body data) = Some body \<and> 0 < cl \<and> cl < length body \<and> is_cont (body ! cl)"
    if "request_parse data = Panic" by (rule request_parse_panic [OF that])
  show "request_parse data \<noteq> Panic" if a: "is_ascii data"
  proof
    assume "request_parse data = Panic"
    then obtain body cl where b: "snd (split_header_body data) = Some body" "cl < length body" "is_cont (body ! cl)"
      using request_parse_panic by blast
    then have "body ! cl \<in> set data" using split_header_body_subset nth_mem by blast
    with a b(3) show False by (auto simp: is_ascii_def byte_in_def)
  qed
  show "\<exists>bad. utf8_valid bad \<and> request_parse bad = Panic"
    using split_character_request_panics by blast
qed

lemma request_parse_panics_witness:
  "request_parse ''OPTIONS * RTSP/1.0'' \<noteq> Panic"
proof -
  have "is_ascii ''OPTIONS * RTSP/1.0''" by code_simp
  with request_parse_panics [of "''OPTIONS * RTSP/1.0''"] show ?thesis by blast
qed

subsection \<open>URLs, both ways\<close>

text \<open>The URLs the server's documentation and its session descriptions give to clients.\<close>

definition rtsp_url :: "bool \<Rightarrow> string \<Rightarrow> instance_id \<Rightarrow> u8 option \<Rightarrow> string option \<Rightarrow> string" where
  "rtsp_url legacy host i track query =
     ''rtsp://'' @ host @ (if legacy then ''/audio/'' else ''/stream/'') @ i @
     (case track of None \<Rightarrow> [] | Some n \<Rightarrow> ''/trackID='' @ show_word n) @
     (case query of None \<Rightarrow> [] | Some q \<Rightarrow> ''?'' @ q)"

lemma url_safe_absent:
  assumes "is_url_safe i"
  shows "CHR ''/'' \<notin> set i" "CHR ''?'' \<notin> set i" "CHR ''='' \<notin> set i" "i \<noteq> []"
  using assms by (auto simp: is_url_safe_def list_all_iff is_ascii_alphanumeric_def byte_in_def)

lemma hd_split_query: "c \<notin> set a \<Longrightarrow> hd (split_on c (a @ (case q of None \<Rightarrow> [] | Some x \<Rightarrow> [c] @ x))) = a"
  by (cases q) simp_all

lemma url_path_of_rtsp_url:
  assumes "is_url_safe i" and "CHR ''/'' \<notin> set host"
  shows "extract_url_path (rtsp_url legacy host i track query) =
    (if legacy then ''/audio/'' else ''/stream/'') @ i @
    (case track of None \<Rightarrow> [] | Some n \<Rightarrow> ''/trackID='' @ show_word n)"
proof -
  let ?path = "(if legacy then ''/audio/'' else ''/stream/'') @ i @
    (case track of None \<Rightarrow> [] | Some n \<Rightarrow> ''/trackID='' @ show_word n)"
  let ?q = "case query of None \<Rightarrow> [] | Some q \<Rightarrow> [CHR ''?''] @ q"
  have url: "rtsp_url legacy host i track query = ''rtsp'' @ ''://'' @ host @ ?path @ ?q"
    by (simp add: rtsp_url_def)
  have f: "str_find ''://'' (rtsp_url legacy host i track query) = Some 4"
    unfolding url by (subst str_find_skip) simp_all
  have d: "drop 7 (rtsp_url legacy host i track query) = host @ ?path @ ?q"
    unfolding url by simp
  obtain r where r: "?path @ ?q = ''/'' @ r" by (cases legacy) auto
  have "str_find ''/'' (host @ ?path @ ?q) = Some (length host)"
    unfolding r by (rule str_find_skip) (use assms(2) in simp_all)
  moreover have "CHR ''?'' \<notin> set ?path"
    using url_safe_absent [OF assms(1)]
    by (auto simp: show_word_no_digit digit_literals split: option.splits)
  ultimately show ?thesis
    using f d hd_split_query [of "CHR ''?''" ?path query]
    by (simp add: extract_url_path_def)
qed

text \<open>The URL helpers read what the server's URLs say. For a URL-safe instance id, any host
  and any query string, the instance id and the track id are the ones in the path, and
  the URL counts as audio-only exactly if it has the legacy prefix, which then selects the
  audio track alone; without a query string the other URLs select both tracks.\<close>

theorem url_round_trip:
  assumes "is_url_safe i" and "CHR ''/'' \<notin> set host" and "CHR ''?'' \<notin> set host"
  shows "extract_instance_id (rtsp_url legacy host i track query) = Some i \<and>
    extract_track_id (rtsp_url legacy host i track query) = track \<and>
    is_audio_only_url (rtsp_url legacy host i track query) = legacy \<and>
    (legacy \<longrightarrow> parse_media_config (rtsp_url legacy host i track query) = audio_only) \<and>
    (\<not> legacy \<and> query = None \<longrightarrow>
      parse_media_config (rtsp_url legacy host i track query) = default_media_config)"
proof -
  let ?url = "rtsp_url legacy host i track query"
  note path = url_path_of_rtsp_url [OF assms(1,2), of legacy track query]
  note safe = url_safe_absent [OF assms(1)]
  have strip: "strip_slash (extract_url_path ?url) = (if legacy then ''audio/'' else ''stream/'') @ i @
    (case track of None \<Rightarrow> [] | Some n \<Rightarrow> ''/trackID='' @ show_word n)"
    unfolding path by (simp add: strip_slash_def)
  have segs: "url_segments ?url = [if legacy then ''audio'' else ''stream'', i] @
      (case track of None \<Rightarrow> [] | Some n \<Rightarrow> [''trackID='' @ show_word n])"
    unfolding url_segments_def strip using safe
    by (auto simp: digit_literals split: option.splits)
  have "strip_prefix ''trackID='' i = None"
  proof (rule ccontr)
    assume "strip_prefix ''trackID='' i \<noteq> None"
    then obtain r where "i = ''trackID='' @ r" by (auto simp: strip_prefix_Some)
    with safe show False by simp
  qed
  then have track: "extract_track_id ?url = track"
    unfolding extract_track_id_def segs by (auto split: option.splits)
  have inst: "extract_instance_id ?url = Some i"
    unfolding extract_instance_id_def segs using safe by simp
  have audio: "is_audio_only_url ?url = legacy"
    unfolding is_audio_only_url_def strip by (simp add: starts_with_def)
  have q: "parse_media_config ?url = default_media_config" if "\<not> legacy" "query = None"
  proof -
    have "CHR ''?'' \<notin> set ?url"
      using that assms(3) safe by (auto simp: rtsp_url_def show_word_no_digit digit_literals split: option.splits)
    then have "str_find ''?'' ?url = None" by (simp add: str_find_absent)
    with audio that show ?thesis
      by (simp add: parse_media_config_def extract_query_params_def default_media_config_def)
  qed
  have "parse_media_config ?url = audio_only" if legacy
    using audio that by (simp add: parse_media_config_def)
  then show ?thesis
    using inst track audio q by blast
qed

lemma url_round_trip_witness:
  "extract_track_id (rtsp_url False ''localhost:8554'' ''dev'' (Some 1) (Some ''quality=high'')) = Some 1"
proof -
  have "is_url_safe ''dev''" by code_simp
  from url_round_trip [OF this, of "''localhost:8554''"] show ?thesis by simp
qed

end
