(* ===== verification/Rtsp_Session.thy ===== *)
theory Rtsp_Session
  imports Rtsp_Parser
begin

section \<open>RTSP sessions and their manager\<close>

text \<open>
  \<open>crates/vscreen-rtsp/src/session.rs\<close>. A cancellation token and a spawned task are numbers;
  the manager's state records which tokens have been cancelled, which tasks have been spawned
  (for which session and track, under which token) and which aborted. A token of a session is
  a child of the manager's: it counts as cancelled too when the manager's is. The address of
  a client is its printed form.
\<close>

subsection \<open>Tracks\<close>

record track_info =
  ti_track_id :: u8
  ti_media_type :: media_type
  ti_client_rtp_port :: u16
  ti_client_rtcp_port :: u16
  ti_server_rtp_port :: u16
  ti_server_rtcp_port :: u16
  ti_interleaved_channels :: "(u8 \<times> u8) option"
  ti_rtp_task :: "nat option"
  ti_health :: stream_health

record track_info_serialized =
  ts_track_id :: u8
  ts_media_type :: media_type
  ts_client_rtp_port :: u16
  ts_server_rtp_port :: u16
  ts_packets_sent :: u64
  ts_bytes_sent :: u64
  ts_health_state :: health_state
  ts_client_packet_loss :: rat
  ts_client_jitter_ms :: rat

definition track_info_of :: "track_info \<Rightarrow> track_info_serialized" where
  "track_info_of t =
     \<lparr>ts_track_id = ti_track_id t, ts_media_type = ti_media_type t,
      ts_client_rtp_port = ti_client_rtp_port t, ts_server_rtp_port = ti_server_rtp_port t,
      ts_packets_sent = sh_packets_sent (ti_health t), ts_bytes_sent = sh_bytes_sent (ti_health t),
      ts_health_state = sh_state (ti_health t),
      ts_client_packet_loss = sh_client_packet_loss (ti_health t),
      ts_client_jitter_ms = sh_client_jitter_ms (ti_health t)\<rparr>"

subsection \<open>Sessions\<close>

datatype session_state = Ready | Playing | Paused

fun show_session_state :: "session_state \<Rightarrow> string" where
  "show_session_state Ready = ''ready''"
| "show_session_state Playing = ''playing''"
| "show_session_state Paused = ''paused''"

record rtsp_session =
  ss_id :: string
  ss_instance_id :: instance_id
  ss_state :: session_state
  ss_client_addr :: string
  ss_media_config :: media_config
  ss_quality :: quality_tier
  ss_tracks :: "track_info list"
  ss_created_at :: instant
  ss_last_activity :: instant
  ss_cancel :: nat

definition touch_session :: "instant \<Rightarrow> rtsp_session \<Rightarrow> rtsp_session" where
  "touch_session now s = s\<lparr>ss_last_activity := now\<rparr>"

definition is_expired :: "instant \<Rightarrow> int \<Rightarrow> rtsp_session \<Rightarrow> bool" where
  "is_expired now timeout s = (elapsed now (ss_last_activity s) > timeout)"

definition add_track ::
  "instant \<Rightarrow> u8 \<Rightarrow> media_type \<Rightarrow> u16 \<Rightarrow> u16 \<Rightarrow> u16 \<Rightarrow> u16 \<Rightarrow> rtsp_session \<Rightarrow> rtsp_session" where
  "add_track now track_id mt crtp crtcp srtp srtcp s =
     touch_session now
       (s\<lparr>ss_tracks := ss_tracks s @
           [\<lparr>ti_track_id = track_id, ti_media_type = mt, ti_client_rtp_port = crtp,
             ti_client_rtcp_port = crtcp, ti_server_rtp_port = srtp, ti_server_rtcp_port = srtcp,
             ti_interleaved_channels = None, ti_rtp_task = None, ti_health = new_health now\<rparr>]\<rparr>)"

definition add_interleaved_track ::
  "instant \<Rightarrow> u8 \<Rightarrow> media_type \<Rightarrow> u8 \<Rightarrow> u8 \<Rightarrow> rtsp_session \<Rightarrow> rtsp_session" where
  "add_interleaved_track now track_id mt rtp_ch rtcp_ch s =
     touch_session now
       (s\<lparr>ss_tracks := ss_tracks s @
           [\<lparr>ti_track_id = track_id, ti_media_type = mt, ti_client_rtp_port = 0,
             ti_client_rtcp_port = 0, ti_server_rtp_port = 0, ti_server_rtcp_port = 0,
             ti_interleaved_channels = Some (rtp_ch, rtcp_ch), ti_rtp_task = None,
             ti_health = new_health now\<rparr>]\<rparr>)"

definition track :: "u8 \<Rightarrow> rtsp_session \<Rightarrow> track_info option" where
  "track n s = find (\<lambda>t. ti_track_id t = n) (ss_tracks s)"

definition track_by_type :: "media_type \<Rightarrow> rtsp_session \<Rightarrow> track_info option" where
  "track_by_type mt s = find (\<lambda>t. ti_media_type t = mt) (ss_tracks s)"

definition has_rtp_tasks :: "rtsp_session \<Rightarrow> bool" where
  "has_rtp_tasks s = list_ex (\<lambda>t. ti_rtp_task t \<noteq> None) (ss_tracks s)"

definition play :: "instant \<Rightarrow> rtsp_session \<Rightarrow> rtsp_session \<times> (string + unit)" where
  "play now s =
     (case ss_state s of
        Playing \<Rightarrow> (s, Inr ())
      | _ \<Rightarrow> (touch_session now (s\<lparr>ss_state := Playing\<rparr>), Inr ()))"

definition pause :: "instant \<Rightarrow> rtsp_session \<Rightarrow> rtsp_session \<times> (string + unit)" where
  "pause now s =
     (case ss_state s of
        Playing \<Rightarrow> (touch_session now (s\<lparr>ss_state := Paused\<rparr>), Inr ())
      | Paused \<Rightarrow> (s, Inr ())
      | Ready \<Rightarrow> (s, Inl ''cannot pause: session not started''))"

fun health_rank :: "health_state \<Rightarrow> nat" where
  "health_rank Healthy = 0"
| "health_rank DegradedHealth = 1"
| "health_rank FailedHealth = 2"

text \<open>\<open>max_by_key\<close> returns the last of the maximal elements.\<close>

definition worst_health :: "health_state list \<Rightarrow> health_state" where
  "worst_health hs =
     (case hs of
        [] \<Rightarrow> Healthy
      | h # t \<Rightarrow> fold (\<lambda>x best. if health_rank best \<le> health_rank x then x else best) t h)"

record session_info =
  si_session_id :: string
  si_instance_id :: instance_id
  si_state :: session_state
  si_media_config :: media_config
  si_quality :: quality_tier
  si_client_addr :: string
  si_tracks :: "track_info_serialized list"
  si_packets_sent :: u64
  si_bytes_sent :: u64
  si_health_state :: health_state
  si_uptime :: int
  si_client_packet_loss :: rat
  si_client_jitter_ms :: rat

definition session_info_of :: "instant \<Rightarrow> rtsp_session \<Rightarrow> session_info" where
  "session_info_of now s =
     (let hs = map ti_health (ss_tracks s) in
      \<lparr>si_session_id = ss_id s, si_instance_id = ss_instance_id s, si_state = ss_state s,
       si_media_config = ss_media_config s, si_quality = ss_quality s,
       si_client_addr = ss_client_addr s, si_tracks = map track_info_of (ss_tracks s),
       si_packets_sent = sum_list (map sh_packets_sent hs),
       si_bytes_sent = sum_list (map sh_bytes_sent hs),
       si_health_state = worst_health (map sh_state hs),
       si_uptime = elapsed now (ss_created_at s),
       si_client_packet_loss = fold max (map sh_client_packet_loss hs) 0,
       si_client_jitter_ms = fold max (map sh_client_jitter_ms hs) 0\<rparr>)"

subsection \<open>The manager\<close>

record rtp_task =
  tk_session :: string
  tk_track :: u8
  tk_cancel :: nat

record rtsp_manager =
  sessions :: "(string, rtsp_session) table"
  session_timeout :: int
  root_cancelled :: bool
  next_token :: nat
  cancelled :: "nat set"
  spawned :: "rtp_task list"
  aborted :: "nat set"
  keyframe_requests :: "instance_id list"

definition manager_with_timeout :: "int \<Rightarrow> rtsp_manager" where
  "manager_with_timeout timeout =
     \<lparr>sessions = [], session_timeout = timeout, root_cancelled = False, next_token = 0,
      cancelled = {}, spawned = [], aborted = {}, keyframe_requests = []\<rparr>"

definition new_rtsp_manager :: rtsp_manager where
  "new_rtsp_manager = manager_with_timeout (seconds 120)"

definition is_cancelled :: "nat \<Rightarrow> rtsp_manager \<Rightarrow> bool" where
  "is_cancelled tok m = (root_cancelled m \<or> tok \<in> cancelled m)"

text \<open>\<open>cancel.child_token()\<close>, a write through a \<open>RefMut\<close>, and spawning a task.\<close>

definition child_token :: "rtsp_manager \<Rightarrow> nat \<times> rtsp_manager" where
  "child_token m = (next_token m, m\<lparr>next_token := next_token m + 1\<rparr>)"

definition put_session :: "string \<Rightarrow> rtsp_session \<Rightarrow> rtsp_manager \<Rightarrow> rtsp_manager" where
  "put_session k s m = m\<lparr>sessions := tab_insert k s (sessions m)\<rparr>"

definition get_session :: "string \<Rightarrow> rtsp_manager \<Rightarrow> rtsp_session option" where
  "get_session k m = tab_get k (sessions m)"

definition spawn_task :: "rtp_task \<Rightarrow> rtsp_manager \<Rightarrow> nat \<times> rtsp_manager" where
  "spawn_task t m = (length (spawned m), m\<lparr>spawned := spawned m @ [t]\<rparr>)"

text \<open>The session id is the printed form of a fresh UUID.\<close>

definition create_session ::
  "instant \<Rightarrow> string \<Rightarrow> instance_id \<Rightarrow> string \<Rightarrow> media_config \<Rightarrow> quality_tier
     \<Rightarrow> rtsp_manager \<Rightarrow> string \<times> rtsp_manager" where
  "create_session now sid i addr media quality m =
     (let (tok, m1) = child_token m
      in (sid, put_session sid
            \<lparr>ss_id = sid, ss_instance_id = i, ss_state = Ready, ss_client_addr = addr,
             ss_media_config = media, ss_quality = quality, ss_tracks = [], ss_created_at = now,
             ss_last_activity = now, ss_cancel = tok\<rparr> m1))"

definition touch :: "instant \<Rightarrow> string \<Rightarrow> rtsp_manager \<Rightarrow> rtsp_manager" where
  "touch now k m =
     (case get_session k m of
        None \<Rightarrow> m
      | Some s \<Rightarrow> put_session k (touch_session now s) m)"

text \<open>Cancelling a session's token and aborting and forgetting its tasks, as \<open>teardown\<close> and the
  PAUSE handler do.\<close>

definition task_list :: "rtsp_session \<Rightarrow> nat list" where
  "task_list s = List.map_filter ti_rtp_task (ss_tracks s)"

definition forget_tasks :: "rtsp_session \<Rightarrow> rtsp_session" where
  "forget_tasks s = s\<lparr>ss_tracks := map (\<lambda>t. t\<lparr>ti_rtp_task := None\<rparr>) (ss_tracks s)\<rparr>"

definition stop_tasks :: "rtsp_session \<Rightarrow> rtsp_manager \<Rightarrow> rtsp_manager" where
  "stop_tasks s m =
     m\<lparr>cancelled := insert (ss_cancel s) (cancelled m),
       aborted := aborted m \<union> set (task_list s)\<rparr>"

definition teardown :: "rtsp_session \<Rightarrow> rtsp_manager \<Rightarrow> rtsp_session \<times> rtsp_manager" where
  "teardown s m = (forget_tasks s, stop_tasks s m)"

definition remove_session :: "string \<Rightarrow> rtsp_manager \<Rightarrow> rtsp_manager \<times> rtsp_session option" where
  "remove_session k m =
     (case get_session k m of
        None \<Rightarrow> (m, None)
      | Some s \<Rightarrow>
          (let (s', m') = teardown s (m\<lparr>sessions := tab_remove k (sessions m)\<rparr>) in (m', Some s')))"

definition sessions_for_instance :: "instant \<Rightarrow> instance_id \<Rightarrow> rtsp_manager \<Rightarrow> session_info list" where
  "sessions_for_instance now i m =
     map (\<lambda>(_, s). session_info_of now s) (filter (\<lambda>(_, s). ss_instance_id s = i) (sessions m))"

definition all_sessions :: "instant \<Rightarrow> rtsp_manager \<Rightarrow> session_info list" where
  "all_sessions now m = map (\<lambda>(_, s). session_info_of now s) (sessions m)"

definition session_count :: "rtsp_manager \<Rightarrow> nat" where
  "session_count m = length (sessions m)"

definition session_count_for_instance :: "instance_id \<Rightarrow> rtsp_manager \<Rightarrow> nat" where
  "session_count_for_instance i m = length (filter (\<lambda>(_, s). ss_instance_id s = i) (sessions m))"

definition timeout_secs :: "rtsp_manager \<Rightarrow> u32" where
  "timeout_secs m = word_of_int (session_timeout m div 1000000000)"

definition count_track :: "track_info \<Rightarrow> aggregated_health \<Rightarrow> aggregated_health" where
  "count_track t agg =
     (let agg' = agg\<lparr>ah_total_packets_sent := ah_total_packets_sent agg + sh_packets_sent (ti_health t),
                     ah_total_bytes_sent := ah_total_bytes_sent agg + sh_bytes_sent (ti_health t)\<rparr>
      in case sh_state (ti_health t) of
           Healthy \<Rightarrow> agg'\<lparr>ah_healthy := ah_healthy agg' + 1\<rparr>
         | DegradedHealth \<Rightarrow> agg'\<lparr>ah_degraded := ah_degraded agg' + 1\<rparr>
         | FailedHealth \<Rightarrow> agg'\<lparr>ah_failed := ah_failed agg' + 1\<rparr>)"

definition count_session :: "instance_id \<Rightarrow> rtsp_session \<Rightarrow> aggregated_health \<Rightarrow> aggregated_health" where
  "count_session i s agg =
     (if ss_instance_id s \<noteq> i then agg
      else fold count_track (ss_tracks s) (agg\<lparr>ah_total_sessions := ah_total_sessions agg + 1\<rparr>))"

definition aggregated_health_of :: "instance_id \<Rightarrow> rtsp_manager \<Rightarrow> aggregated_health" where
  "aggregated_health_of i m =
     fold (\<lambda>(_, s). count_session i s) (sessions m)
       \<lparr>ah_total_sessions = 0, ah_healthy = 0, ah_degraded = 0, ah_failed = 0,
        ah_total_packets_sent = 0, ah_total_bytes_sent = 0\<rparr>"

definition remove_each :: "string list \<Rightarrow> rtsp_manager \<Rightarrow> rtsp_manager" where
  "remove_each ks m = fold (\<lambda>k m. fst (remove_session k m)) ks m"

definition reap_expired_sessions :: "instant \<Rightarrow> rtsp_manager \<Rightarrow> rtsp_manager" where
  "reap_expired_sessions now m =
     remove_each (map fst (filter (\<lambda>(_, s). is_expired now (session_timeout m) s) (sessions m))) m"

definition teardown_all :: "rtsp_manager \<Rightarrow> rtsp_manager" where
  "teardown_all m = remove_each (tab_keys (sessions m)) m"

text \<open>The end of \<open>run_reaper\<close>: the manager's token was cancelled.\<close>

definition shutdown :: "rtsp_manager \<Rightarrow> rtsp_manager" where
  "shutdown m = teardown_all (m\<lparr>root_cancelled := True\<rparr>)"

text \<open>A sender task writes the health of its stream back to its track.\<close>

definition track_health_update ::
  "string \<Rightarrow> u8 \<Rightarrow> stream_health \<Rightarrow> rtsp_manager \<Rightarrow> rtsp_manager" where
  "track_health_update k n h m =
     (case get_session k m of
        None \<Rightarrow> m
      | Some s \<Rightarrow>
          put_session k
            (s\<lparr>ss_tracks := update_first (\<lambda>t. ti_track_id t = n) (\<lambda>t. t\<lparr>ti_health := h\<rparr>) (ss_tracks s)\<rparr>) m)"

end
