(* ===== verification/Rtsp_Handler.thy ===== *)
theory Rtsp_Handler
  imports Rtsp_Session
begin

section \<open>The RTSP request handlers\<close>

text \<open>
  \<open>crates/vscreen-rtsp/src/handler.rs\<close>. A handler maps the manager's state and a request to
  the new state and a response; it panics only where the Transport parser or the bit rate
  does. The \<open>InstanceLookup\<close> of the embedding server is a parameter: whether an instance
  exists, whether its broadcasts can be subscribed to, and its video settings. So are the
  port pair the operating system gives (none on failure), the server's address, the clock
  and the fresh session id. The body of a spawned sender task is not run here: what it does
  to the manager are the steps \<open>touch\<close> and \<open>track_health_update\<close> of \<open>Rtsp_Session\<close>.
\<close>

record instance_lookup =
  lk_exists :: "instance_id \<Rightarrow> bool"
  lk_audio :: "instance_id \<Rightarrow> bool"
  lk_video :: "instance_id \<Rightarrow> bool"
  lk_resolution :: "instance_id \<Rightarrow> (u32 \<times> u32) option"
  lk_framerate :: "instance_id \<Rightarrow> u32 option"
  lk_codec :: "instance_id \<Rightarrow> video_codec"

record handler_context =
  hc_lookup :: instance_lookup
  hc_server_is_ipv6 :: bool
  hc_server_ip :: string
  hc_checks :: bool

type_synonym handled = "(string, rtsp_manager \<times> rtsp_response) outcome"

definition method_not_valid :: "u32 \<Rightarrow> rtsp_response" where
  "method_not_valid cseq = response_new 455 ''Method Not Valid in This State'' cseq"

definition resolve_quality_tier :: "(string, string) table \<Rightarrow> quality_tier" where
  "resolve_quality_tier params =
     (case Option.bind (tab_get ''tier'' params) tier_from_name of
        Some tier \<Rightarrow> tier
      | None \<Rightarrow>
          (case Option.bind (tab_get ''kbps'' params) parse_word of
             Some kbps \<Rightarrow> tier_custom kbps (Option.bind (tab_get ''channels'' params) parse_word)
           | None \<Rightarrow> High))"

definition handle_options :: "u32 \<Rightarrow> rtsp_response" where
  "handle_options cseq =
     header ''Public'' ''OPTIONS, DESCRIBE, SETUP, PLAY, PAUSE, TEARDOWN, GET_PARAMETER''
       (response_ok cseq)"

definition handle_describe :: "handler_context \<Rightarrow> rtsp_request \<Rightarrow> (string, rtsp_response) outcome" where
  "handle_describe ctx rq =
     (let cseq = rq_cseq rq; lk = hc_lookup ctx in
      case extract_instance_id (rq_url rq) of
        None \<Rightarrow> Ok (not_found cseq)
      | Some i \<Rightarrow>
          if \<not> lk_exists lk i then Ok (not_found cseq)
          else
            (let (w, h) = (case lk_resolution lk i of Some r \<Rightarrow> r | None \<Rightarrow> (1920, 1080)) in
             and_then (generate_sdp (hc_checks ctx)
                 \<lparr>sp_instance_id = i, sp_is_ipv6 = hc_server_is_ipv6 ctx,
                  sp_server_ip = hc_server_ip ctx, sp_session_version = 1,
                  sp_tier = resolve_quality_tier (extract_query_params (rq_url rq)),
                  sp_ptime_ms = 20, sp_media = parse_media_config (rq_url rq),
                  sp_video_codec = lk_codec lk i, sp_video_width = w, sp_video_height = h,
                  sp_framerate = (case lk_framerate lk i of Some f \<Rightarrow> f | None \<Rightarrow> 30)\<rparr>)
               (\<lambda>sdp. Ok (header ''Content-Base'' (rq_url rq)
                          (set_body ''application/sdp'' sdp (response_ok cseq))))))"

text \<open>The track a SETUP is for: by the id in the URL, or by the media the URL selects.\<close>

definition resolve_track :: "u8 option \<Rightarrow> media_config \<Rightarrow> (u8 \<times> media_type) option" where
  "resolve_track track_id media =
     (case track_id of
        Some n \<Rightarrow>
          if n = 0 then Some (0, VideoMedia)
          else if n = 1 then Some (1, AudioMedia)
          else None
      | None \<Rightarrow>
          if mc_audio media \<and> \<not> mc_video media then Some (1, AudioMedia)
          else if mc_video media \<and> \<not> mc_audio media then Some (0, VideoMedia)
          else Some (1, AudioMedia))"

definition add_track_to_session ::
  "instant \<Rightarrow> u8 \<Rightarrow> media_type \<Rightarrow> u16 \<Rightarrow> u16 \<Rightarrow> transport_mode \<Rightarrow> rtsp_session \<Rightarrow> rtsp_session" where
  "add_track_to_session now n mt srtp srtcp mode s =
     (case mode of
        UdpUnicast crtp crtcp \<Rightarrow> add_track now n mt crtp crtcp srtp srtcp s
      | TcpInterleaved a b \<Rightarrow> add_interleaved_track now n mt a b s)"

text \<open>The session part of SETUP: the status of a refusal, or the session's id.\<close>

definition setup_session ::
  "instant \<Rightarrow> string \<Rightarrow> rtsp_request \<Rightarrow> string \<Rightarrow> instance_id \<Rightarrow> u8 \<Rightarrow> media_type \<Rightarrow> u16 \<Rightarrow> u16
     \<Rightarrow> transport_mode \<Rightarrow> rtsp_manager \<Rightarrow> rtsp_manager \<times> (rtsp_response + string)" where
  "setup_session now fresh rq addr i n mt srtp srtcp mode m =
     (case rq_session rq of
        Some sid \<Rightarrow>
          (case get_session sid m of
             None \<Rightarrow> (m, Inl (session_not_found (rq_cseq rq)))
           | Some s \<Rightarrow>
               if ss_instance_id s \<noteq> i then (m, Inl (session_not_found (rq_cseq rq)))
               else if track n s \<noteq> None then (m, Inl (method_not_valid (rq_cseq rq)))
               else (put_session sid (add_track_to_session now n mt srtp srtcp mode s) m, Inr sid))
      | None \<Rightarrow>
          (let (sid, m1) = create_session now fresh i addr (parse_media_config (rq_url rq))
                             (resolve_quality_tier (extract_query_params (rq_url rq))) m
           in (case get_session sid m1 of
                 None \<Rightarrow> m1
               | Some s \<Rightarrow> put_session sid (add_track_to_session now n mt srtp srtcp mode s) m1,
               Inr sid)))"

definition handle_setup ::
  "handler_context \<Rightarrow> instant \<Rightarrow> string \<Rightarrow> (u16 \<times> u16) option \<Rightarrow> rtsp_request \<Rightarrow> string
     \<Rightarrow> rtsp_manager \<Rightarrow> handled" where
  "handle_setup ctx now fresh ports rq addr m =
     (let cseq = rq_cseq rq; lk = hc_lookup ctx in
      case extract_instance_id (rq_url rq) of
        None \<Rightarrow> Ok (m, not_found cseq)
      | Some i \<Rightarrow>
          if \<not> lk_exists lk i then Ok (m, not_found cseq)
          else
            (case tab_get ''transport'' (rq_headers rq) of
               None \<Rightarrow> Ok (m, unsupported_transport cseq)
             | Some transport_str \<Rightarrow>
                 (case transport_parse (hc_checks ctx) transport_str of
                    Panic \<Rightarrow> Panic
                  | Err _ \<Rightarrow> Ok (m, unsupported_transport cseq)
                  | Ok mode \<Rightarrow>
                      (case (if is_tcp_interleaved mode then Some (0, 0) else ports) of
                         None \<Rightarrow> Ok (m, internal_error cseq)
                       | Some (srtp, srtcp) \<Rightarrow>
                           (case resolve_track (extract_track_id (rq_url rq))
                                    (parse_media_config (rq_url rq)) of
                              None \<Rightarrow> Ok (m, not_found cseq)
                            | Some (n, mt) \<Rightarrow>
                                (case setup_session now fresh rq addr i n mt srtp srtcp mode m of
                                   (m', Inl resp) \<Rightarrow> Ok (m', resp)
                                 | (m', Inr sid) \<Rightarrow>
                                     Ok (m', header ''Transport'' (format_response srtp srtcp mode)
                                           (with_session sid (timeout_secs m') (response_ok cseq)))))))))"

text \<open>PLAY: each track without a task gets one, if its broadcast can be subscribed to.\<close>

definition can_subscribe :: "instance_lookup \<Rightarrow> instance_id \<Rightarrow> media_type \<Rightarrow> bool" where
  "can_subscribe lk i mt = (case mt of AudioMedia \<Rightarrow> lk_audio lk i | VideoMedia \<Rightarrow> lk_video lk i)"

fun start_tracks ::
  "instance_lookup \<Rightarrow> instance_id \<Rightarrow> string \<Rightarrow> nat \<Rightarrow> track_info list \<Rightarrow> rtsp_manager
     \<Rightarrow> track_info list \<times> rtsp_manager" where
  "start_tracks lk i sid tok [] m = ([], m)"
| "start_tracks lk i sid tok (t # ts) m =
     (if ti_rtp_task t = None \<and> can_subscribe lk i (ti_media_type t) then
        (let (n, m1) = spawn_task \<lparr>tk_session = sid, tk_track = ti_track_id t, tk_cancel = tok\<rparr> m;
             (ts', m2) = start_tracks lk i sid tok ts m1
         in (t\<lparr>ti_rtp_task := Some n\<rparr> # ts', m2))
      else
        (let (ts', m2) = start_tracks lk i sid tok ts m in (t # ts', m2)))"

definition request_keyframe :: "rtsp_session \<Rightarrow> rtsp_manager \<Rightarrow> rtsp_manager" where
  "request_keyframe s m =
     (if track_by_type VideoMedia s \<noteq> None
      then m\<lparr>keyframe_requests := keyframe_requests m @ [ss_instance_id s]\<rparr> else m)"

definition handle_play ::
  "handler_context \<Rightarrow> instant \<Rightarrow> rtsp_request \<Rightarrow> rtsp_manager \<Rightarrow> rtsp_manager \<times> rtsp_response" where
  "handle_play ctx now rq m =
     (let cseq = rq_cseq rq in
      case rq_session rq of
        None \<Rightarrow> (m, session_not_found cseq)
      | Some sid \<Rightarrow>
          (case get_session sid m of
             None \<Rightarrow> (m, session_not_found cseq)
           | Some s \<Rightarrow>
               (case play now s of
                  (s1, Inl e) \<Rightarrow> (put_session sid s1 m, method_not_valid cseq)
                | (s1, Inr _) \<Rightarrow>
                    (let (ts, m1) = start_tracks (hc_lookup ctx) (ss_instance_id s1) (ss_id s1)
                                      (ss_cancel s1) (ss_tracks s1) (request_keyframe s1 m);
                         m2 = put_session sid (s1\<lparr>ss_tracks := ts\<rparr>) m1
                     in (m2, with_session sid (timeout_secs m2) (response_ok cseq))))))"

definition handle_pause ::
  "instant \<Rightarrow> rtsp_request \<Rightarrow> rtsp_manager \<Rightarrow> rtsp_manager \<times> rtsp_response" where
  "handle_pause now rq m =
     (let cseq = rq_cseq rq in
      case rq_session rq of
        None \<Rightarrow> (m, session_not_found cseq)
      | Some sid \<Rightarrow>
          (case get_session sid m of
             None \<Rightarrow> (m, session_not_found cseq)
           | Some s \<Rightarrow>
               (case pause now s of
                  (s1, Inl e) \<Rightarrow> (put_session sid s1 m, method_not_valid cseq)
                | (s1, Inr _) \<Rightarrow>
                    (let m1 = stop_tasks s1 m;
                         (tok, m2) = child_token m1;
                         m3 = put_session sid ((forget_tasks s1)\<lparr>ss_cancel := tok\<rparr>) m2
                     in (m3, with_session sid (timeout_secs m3) (response_ok cseq))))))"

definition handle_teardown :: "rtsp_request \<Rightarrow> rtsp_manager \<Rightarrow> rtsp_manager \<times> rtsp_response" where
  "handle_teardown rq m =
     (case rq_session rq of
        None \<Rightarrow> (m, session_not_found (rq_cseq rq))
      | Some sid \<Rightarrow>
          (case remove_session sid m of
             (m', None) \<Rightarrow> (m', session_not_found (rq_cseq rq))
           | (m', Some _) \<Rightarrow> (m', response_ok (rq_cseq rq))))"

definition handle_get_parameter ::
  "instant \<Rightarrow> rtsp_request \<Rightarrow> rtsp_manager \<Rightarrow> rtsp_manager \<times> rtsp_response" where
  "handle_get_parameter now rq m =
     (case rq_session rq of
        None \<Rightarrow> (m, response_ok (rq_cseq rq))
      | Some sid \<Rightarrow> (touch now sid m, response_ok (rq_cseq rq)))"

definition handle_request ::
  "handler_context \<Rightarrow> instant \<Rightarrow> string \<Rightarrow> (u16 \<times> u16) option \<Rightarrow> rtsp_request \<Rightarrow> string
     \<Rightarrow> rtsp_manager \<Rightarrow> handled" where
  "handle_request ctx now fresh ports rq addr m =
     (case rq_method rq of
        Options \<Rightarrow> Ok (m, handle_options (rq_cseq rq))
      | Describe \<Rightarrow> and_then (handle_describe ctx rq) (\<lambda>resp. Ok (m, resp))
      | Setup \<Rightarrow> handle_setup ctx now fresh ports rq addr m
      | Play \<Rightarrow> Ok (handle_play ctx now rq m)
      | Pause \<Rightarrow> Ok (handle_pause now rq m)
      | Teardown \<Rightarrow> Ok (handle_teardown rq m)
      | GetParameter \<Rightarrow> Ok (handle_get_parameter now rq m))"

end
