(* ===== verification/Rtsp_Invariants.thy ===== *)
theory Rtsp_Invariants
  imports Rtsp_Handler
begin

section \<open>What the RTSP server guarantees\<close>

text \<open>
  The invariant of the session manager under every request, timer and shutdown: sessions are
  filed under their ids, tracks are distinct and of the right media, only a playing session
  has sender tasks, a session's token is live, and the tasks that run are exactly those the
  sessions' tracks hold. The rest are the effects of single requests.
\<close>

subsection \<open>Selectors\<close>

lemma get_put_session [simp]:
  "get_session k' (put_session k s m) = (if k' = k then Some s else get_session k' m)"
  by (simp add: get_session_def put_session_def)

lemma put_session_sel [simp]:
  "sessions (put_session k s m) = tab_insert k s (sessions m)"
  "session_timeout (put_session k s m) = session_timeout m"
  "root_cancelled (put_session k s m) = root_cancelled m"
  "next_token (put_session k s m) = next_token m"
  "cancelled (put_session k s m) = cancelled m"
  "spawned (put_session k s m) = spawned m"
  "aborted (put_session k s m) = aborted m"
  by (simp_all add: put_session_def)

lemma tab_insert_same: "tab_get k t = Some v \<Longrightarrow> tab_insert k v t = t"
  by (induction t) (auto simp: tab_get_def tab_insert_def split: if_splits)

lemma put_session_same: "get_session k m = Some s \<Longrightarrow> put_session k s m = m"
  by (simp add: put_session_def get_session_def tab_insert_same)

definition track_tasks :: "track_info list \<Rightarrow> (u8 \<times> nat) set" where
  "track_tasks ts = {(ti_track_id t, n) | t n. t \<in> set ts \<and> ti_rtp_task t = Some n}"

lemma track_tasks_simps [simp]:
  "track_tasks [] = {}"
  "track_tasks (t # ts) =
     (case ti_rtp_task t of None \<Rightarrow> {} | Some n \<Rightarrow> {(ti_track_id t, n)}) \<union> track_tasks ts"
  "track_tasks (ts @ us) = track_tasks ts \<union> track_tasks us"
  by (auto simp: track_tasks_def split: option.splits)

lemma task_list_track_tasks: "set (task_list s) = snd ` track_tasks (ss_tracks s)"
proof -
  have "set (List.map_filter ti_rtp_task ts) = snd ` track_tasks ts" for ts
    by (induction ts) (auto simp: map_filter_simps split: option.splits)
  then show ?thesis by (simp add: task_list_def)
qed

lemma no_tasks_iff: "track_tasks ts = {} \<longleftrightarrow> (\<forall>t \<in> set ts. ti_rtp_task t = None)"
  by (auto simp: track_tasks_def) (metis option.exhaust)

subsection \<open>The invariant\<close>

definition tracks_ok :: "track_info list \<Rightarrow> bool" where
  "tracks_ok ts =
     (distinct (map ti_track_id ts) \<and>
      list_all (\<lambda>t. (ti_track_id t, ti_media_type t) \<in> {(0, VideoMedia), (1, AudioMedia)}) ts)"

definition session_ok :: "rtsp_session \<Rightarrow> bool" where
  "session_ok s =
     (tracks_ok (ss_tracks s) \<and> (ss_state s \<noteq> Playing \<longrightarrow> track_tasks (ss_tracks s) = {}))"

definition runs :: "rtsp_manager \<Rightarrow> nat \<Rightarrow> bool" where
  "runs m n = (n < length (spawned m) \<and> n \<notin> aborted m)"

lemma runs_upd [simp]:
  "runs (put_session k s m) n = runs m n" "runs (m\<lparr>next_token := x\<rparr>) n = runs m n"
  "get_session k (m\<lparr>next_token := x\<rparr>) = get_session k m"
  "get_session k (m\<lparr>keyframe_requests := y\<rparr>) = get_session k m"
  by (simp_all add: runs_def get_session_def)

definition session_fits :: "rtsp_manager \<Rightarrow> string \<Rightarrow> rtsp_session \<Rightarrow> bool" where
  "session_fits m k s =
     (ss_id s = k \<and> session_ok s \<and> ss_cancel s < next_token m \<and> ss_cancel s \<notin> cancelled m \<and>
      (\<forall>i n. (i, n) \<in> track_tasks (ss_tracks s) \<longrightarrow>
         runs m n \<and> spawned m ! n = \<lparr>tk_session = k, tk_track = i, tk_cancel = ss_cancel s\<rparr>))"

definition tokens_distinct :: "rtsp_manager \<Rightarrow> bool" where
  "tokens_distinct m =
     (\<forall>k s k' s'. get_session k m = Some s \<and> get_session k' m = Some s' \<and> ss_cancel s = ss_cancel s'
        \<longrightarrow> k = k')"

definition owned :: "rtsp_manager \<Rightarrow> nat \<Rightarrow> bool" where
  "owned m n =
     (\<exists>s. get_session (tk_session (spawned m ! n)) m = Some s \<and> n \<in> snd ` track_tasks (ss_tracks s))"

definition rtsp_inv :: "rtsp_manager \<Rightarrow> bool" where
  "rtsp_inv m =
     (tab_invar (sessions m) \<and>
      (\<forall>k s. get_session k m = Some s \<longrightarrow> session_fits m k s) \<and>
      tokens_distinct m \<and>
      (\<forall>t \<in> cancelled m. t < next_token m) \<and>
      (\<forall>n \<in> aborted m. n < length (spawned m)) \<and>
      (\<forall>n. runs m n \<longrightarrow> owned m n))"

lemma rtsp_invI:
  assumes "tab_invar (sessions m)"
    and "\<And>k s. get_session k m = Some s \<Longrightarrow> session_fits m k s"
    and "\<And>k s k' s'. get_session k m = Some s \<Longrightarrow> get_session k' m = Some s' \<Longrightarrow>
      ss_cancel s = ss_cancel s' \<Longrightarrow> k = k'"
    and "\<And>t. t \<in> cancelled m \<Longrightarrow> t < next_token m"
    and "\<And>n. runs m n \<Longrightarrow> owned m n"
    and "\<And>n. n \<in> aborted m \<Longrightarrow> n < length (spawned m)"
  shows "rtsp_inv m"
  using assms by (auto simp: rtsp_inv_def tokens_distinct_def)

lemma rtsp_invD:
  assumes "rtsp_inv m"
  shows "tab_invar (sessions m)"
    and "get_session k m = Some s \<Longrightarrow> session_fits m k s"
    and "get_session k m = Some s \<Longrightarrow> get_session k' m = Some s' \<Longrightarrow> ss_cancel s = ss_cancel s' \<Longrightarrow> k = k'"
    and "t \<in> cancelled m \<Longrightarrow> t < next_token m"
    and "runs m n \<Longrightarrow> owned m n"
    and "n \<in> aborted m \<Longrightarrow> n < length (spawned m)"
  using assms unfolding rtsp_inv_def tokens_distinct_def by blast+

lemma session_fits_task:
  assumes "session_fits m k s" and "(i, n) \<in> track_tasks (ss_tracks s)"
  shows "runs m n" "tk_session (spawned m ! n) = k" "tk_track (spawned m ! n) = i"
    "tk_cancel (spawned m ! n) = ss_cancel s"
  using assms by (simp_all add: session_fits_def)

lemma rtsp_inv_new: "rtsp_inv (manager_with_timeout t)"
  by (rule rtsp_invI) (simp_all add: manager_with_timeout_def get_session_def runs_def)

text \<open>A manager that differs only outside the sessions, tokens and tasks.\<close>

lemma rtsp_inv_cong:
  assumes "rtsp_inv m" and "sessions m' = sessions m" "next_token m' = next_token m"
    "cancelled m' = cancelled m" "spawned m' = spawned m" "aborted m' = aborted m"
  shows "rtsp_inv m'"
proof -
  have "get_session k m' = get_session k m" "runs m' n = runs m n" for k n
    using assms by (simp_all add: get_session_def runs_def)
  with assms show ?thesis
    by (simp only: rtsp_inv_def session_fits_def tokens_distinct_def owned_def) blast
qed

text \<open>Rewriting a session without touching its tasks or its token.\<close>

lemma rtsp_inv_update:
  assumes m: "rtsp_inv m" and s: "get_session k m = Some s"
    and s': "ss_id s' = ss_id s" "ss_cancel s' = ss_cancel s" "session_ok s'"
      "track_tasks (ss_tracks s') = track_tasks (ss_tracks s)"
  shows "rtsp_inv (put_session k s' m)"
proof (rule rtsp_invI)
  let ?m = "put_session k s' m"
  show "tab_invar (sessions ?m)" using rtsp_invD(1) [OF m] by (simp add: tab.invar_insert)
  have r: "runs ?m n = runs m n" for n by (simp add: runs_def)
  show "session_fits ?m j x" if "get_session j ?m = Some x" for j x
    using that rtsp_invD(2) [OF m, of j] rtsp_invD(2) [OF m s] s'
    by (simp add: session_fits_def r split: if_splits)
  show "j = j'" if "get_session j ?m = Some x" "get_session j' ?m = Some x'" "ss_cancel x = ss_cancel x'"
    for j j' x x'
    using that rtsp_invD(3) [OF m] s s'(2) by (auto split: if_splits)
  show "t < next_token ?m" if "t \<in> cancelled ?m" for t
    using that rtsp_invD(4) [OF m] by simp
  show "owned ?m n" if "runs ?m n" for n
    using rtsp_invD(5) [OF m, of n] that s s'(4) by (auto simp: r owned_def)
  show "n < length (spawned ?m)" if "n \<in> aborted ?m" for n
    using that rtsp_invD(6) [OF m] by simp
qed

text \<open>Filing a new session under an unused id.\<close>

lemma rtsp_inv_create:
  assumes m: "rtsp_inv m" and f: "get_session k m = None"
    and s: "ss_id s = k" "session_ok s" "ss_cancel s = next_token m" "track_tasks (ss_tracks s) = {}"
  shows "rtsp_inv (put_session k s (m\<lparr>next_token := next_token m + 1\<rparr>))"
proof (rule rtsp_invI)
  let ?m = "put_session k s (m\<lparr>next_token := next_token m + 1\<rparr>)"
  have get: "get_session j ?m = (if j = k then Some s else get_session j m)" for j
    by (simp add: get_session_def)
  have r: "runs ?m n = runs m n" for n by (simp add: runs_def)
  have lt: "ss_cancel x < next_token m" if "get_session j m = Some x" for j x
    using rtsp_invD(2) [OF m that] by (simp add: session_fits_def)
  show "tab_invar (sessions ?m)" using rtsp_invD(1) [OF m] by (simp add: tab.invar_insert)
  show "session_fits ?m j x" if "get_session j ?m = Some x" for j x
    using that rtsp_invD(2) [OF m, of j] rtsp_invD(4) [OF m, of "next_token m"] s
    by (auto simp: session_fits_def r get split: if_splits)
  show "j = j'" if "get_session j ?m = Some x" "get_session j' ?m = Some x'" "ss_cancel x = ss_cancel x'"
    for j j' x x'
    using that rtsp_invD(3) [OF m] lt [of j] lt [of j'] s(3) by (auto simp: get split: if_splits)
  show "t < next_token ?m" if "t \<in> cancelled ?m" for t
    using that rtsp_invD(4) [OF m, of t] by simp
  show "owned ?m n" if "runs ?m n" for n
    using rtsp_invD(5) [OF m, of n] that f by (auto simp: r owned_def get)
  show "n < length (spawned ?m)" if "n \<in> aborted ?m" for n
    using that rtsp_invD(6) [OF m] by simp
qed

text \<open>Stopping the tasks of a session and replacing it, or removing it, under a new token.\<close>

lemma rtsp_inv_stop:
  assumes m: "rtsp_inv m" and s: "get_session k m = Some s"
    and m': "cancelled m' = insert (ss_cancel s) (cancelled m)"
      "aborted m' = aborted m \<union> snd ` track_tasks (ss_tracks s)" "spawned m' = spawned m"
      "next_token m \<le> next_token m'" "tab_invar (sessions m')"
    and get: "\<And>j. j \<noteq> k \<Longrightarrow> get_session j m' = get_session j m"
    and k: "get_session k m' = None \<or>
      (\<exists>s'. get_session k m' = Some s' \<and> ss_id s' = k \<and> session_ok s' \<and>
        track_tasks (ss_tracks s') = {} \<and> ss_cancel s' = next_token m \<and> next_token m < next_token m')"
  shows "rtsp_inv m'"
proof (rule rtsp_invI)
  note fits = rtsp_invD(2) [OF m]
  have tasks: "tk_session (spawned m ! n) = k" if "n \<in> snd ` track_tasks (ss_tracks s)" for n
    using session_fits_task(2) [OF fits [OF s]] that by auto
  have lt: "ss_cancel x < next_token m" if "get_session j m = Some x" for j x
    using fits [OF that] by (simp add: session_fits_def)
  have keep: "runs m' n" if "runs m n" "tk_session (spawned m ! n) \<noteq> k" for n
    using that tasks [of n] by (auto simp: runs_def m'(1-3))
  show "tab_invar (sessions m')" by (rule m'(5))
  show "session_fits m' j x" if x: "get_session j m' = Some x" for j x
  proof (cases "j = k")
    case True
    with x k have "ss_id x = k" "session_ok x" "track_tasks (ss_tracks x) = {}"
      "ss_cancel x = next_token m" "next_token m < next_token m'" by auto
    moreover have "next_token m \<notin> cancelled m'"
      using rtsp_invD(4) [OF m, of "next_token m"] lt [OF s] by (auto simp: m'(1-3))
    ultimately show ?thesis using True by (simp add: session_fits_def)
  next
    case False
    with x get have old: "get_session j m = Some x" by simp
    have "ss_cancel x \<noteq> ss_cancel s" using rtsp_invD(3) [OF m old s] False by blast
    moreover have "runs m' n" if "(i, n) \<in> track_tasks (ss_tracks x)" for i n
      using keep session_fits_task(1,2) [OF fits [OF old] that] False by simp
    ultimately show ?thesis
      using fits [OF old] m'(4) by (simp add: session_fits_def m'(1-3))
  qed
  show "j = j'" if "get_session j m' = Some x" "get_session j' m' = Some x'" "ss_cancel x = ss_cancel x'"
    for j j' x x'
    using that rtsp_invD(3) [OF m, of j x j' x'] k get [of j] get [of j'] lt [of j x] lt [of j' x']
    by (cases "j = k"; cases "j' = k") auto
  show "t < next_token m'" if "t \<in> cancelled m'" for t
    using that rtsp_invD(4) [OF m, of t] lt [OF s] m'(4) by (auto simp: m'(1-3))
  show "owned m' n" if n: "runs m' n" for n
  proof -
    from n have r: "runs m n" "n \<notin> snd ` track_tasks (ss_tracks s)" by (auto simp: runs_def m'(1-3))
    then obtain x where x: "get_session (tk_session (spawned m ! n)) m = Some x"
      "n \<in> snd ` track_tasks (ss_tracks x)"
      using rtsp_invD(5) [OF m r(1)] unfolding owned_def by blast
    with r(2) s have "tk_session (spawned m ! n) \<noteq> k" by auto
    with x get show ?thesis by (simp add: owned_def m'(1-3))
  qed
  show "n < length (spawned m')" if "n \<in> aborted m'" for n
    using that rtsp_invD(6) [OF m, of n] session_fits_task(1) [OF fits [OF s]]
    by (auto simp: m'(1-3) runs_def)
qed

lemma rtsp_inv_remove:
  assumes m: "rtsp_inv m"
  shows "rtsp_inv (fst (remove_session k m))"
proof (cases "get_session k m")
  case None
  with m show ?thesis by (simp add: remove_session_def)
next
  case (Some s)
  have eq: "fst (remove_session k m) = m\<lparr>sessions := tab_remove k (sessions m),
      cancelled := insert (ss_cancel s) (cancelled m),
      aborted := aborted m \<union> snd ` track_tasks (ss_tracks s)\<rparr>"
    using Some by (simp add: remove_session_def teardown_def stop_tasks_def task_list_track_tasks)
  show ?thesis
    by (rule rtsp_inv_stop [OF m Some])
      (simp_all add: eq tab.invar_remove rtsp_invD(1) [OF m] get_session_def)
qed

lemma rtsp_inv_remove_each: "rtsp_inv m \<Longrightarrow> rtsp_inv (remove_each ks m)"
  unfolding remove_each_def by (rule fold_invariant) (simp_all add: rtsp_inv_remove)

subsection \<open>The handlers keep the invariant\<close>

lemma touch_session_sel [simp]:
  "ss_id (touch_session now s) = ss_id s" "ss_cancel (touch_session now s) = ss_cancel s"
  "ss_tracks (touch_session now s) = ss_tracks s" "ss_state (touch_session now s) = ss_state s"
  "ss_instance_id (touch_session now s) = ss_instance_id s"
  by (simp_all add: touch_session_def)

lemma session_ok_touch [simp]: "session_ok (touch_session now s) = session_ok s"
  by (simp add: session_ok_def)

lemma rtsp_inv_touch: "rtsp_inv m \<Longrightarrow> rtsp_inv (touch now k m)"
  by (auto simp: touch_def intro!: rtsp_inv_update dest: rtsp_invD(2) [unfolded session_fits_def]
      split: option.splits)

lemma update_first_tracks:
  assumes "\<And>t. ti_track_id (f t) = ti_track_id t" "\<And>t. ti_media_type (f t) = ti_media_type t"
    "\<And>t. ti_rtp_task (f t) = ti_rtp_task t"
  shows "track_tasks (update_first p f ts) = track_tasks ts"
    and "tracks_ok (update_first p f ts) = tracks_ok ts"
proof -
  show "track_tasks (update_first p f ts) = track_tasks ts"
    by (induction ts) (simp_all add: assms split: option.split)
  have "list_all (\<lambda>t. Q (ti_track_id t) (ti_media_type t)) (update_first p f ts) =
      list_all (\<lambda>t. Q (ti_track_id t) (ti_media_type t)) ts" for Q
    by (induction ts) (simp_all add: assms)
  from this [of "\<lambda>a b. (a, b) \<in> {(0, VideoMedia), (1, AudioMedia)}"]
  show "tracks_ok (update_first p f ts) = tracks_ok ts"
    by (simp only: tracks_ok_def map_update_first [where g = ti_track_id and f = f, OF assms(1)])
qed

lemma rtsp_inv_health: "rtsp_inv m \<Longrightarrow> rtsp_inv (track_health_update k n h m)"
proof (cases "get_session k m")
  case (Some s)
  assume m: "rtsp_inv m"
  have "session_ok s" using rtsp_invD(2) [OF m Some] by (simp add: session_fits_def)
  with m Some show ?thesis
    by (auto simp: track_health_update_def session_ok_def update_first_tracks
        intro!: rtsp_inv_update [OF m Some])
qed (simp add: track_health_update_def)

lemma add_track_to_session_sel:
  "ss_id (add_track_to_session now n mt a b mode s) = ss_id s"
  "ss_cancel (add_track_to_session now n mt a b mode s) = ss_cancel s"
  "ss_state (add_track_to_session now n mt a b mode s) = ss_state s"
  "track_tasks (ss_tracks (add_track_to_session now n mt a b mode s)) = track_tasks (ss_tracks s)"
  "map ti_track_id (ss_tracks (add_track_to_session now n mt a b mode s)) =
     map ti_track_id (ss_tracks s) @ [n]"
  by (cases mode; simp add: add_track_to_session_def add_track_def add_interleaved_track_def)+

lemma session_ok_add_track:
  assumes "session_ok s" and "track n s = None" and "resolve_track tid media = Some (n, mt)"
  shows "session_ok (add_track_to_session now n mt a b mode s)"
proof -
  have new: "n \<notin> ti_track_id ` set (ss_tracks s)" "(n, mt) \<in> {(0, VideoMedia), (1, AudioMedia)}"
    using assms(2,3) by (auto simp: track_def find_None_all resolve_track_def split: option.splits if_splits)
  have "\<exists>t. ss_tracks (add_track_to_session now n mt a b mode s) = ss_tracks s @ [t] \<and>
      ti_track_id t = n \<and> ti_media_type t = mt \<and> ti_rtp_task t = None"
    by (cases mode) (simp_all add: add_track_to_session_def add_track_def add_interleaved_track_def)
  then show ?thesis
    using assms(1) new
    by (auto simp: session_ok_def tracks_ok_def add_track_to_session_sel(3))
qed

lemma rtsp_inv_setup_session:
  assumes m: "rtsp_inv m" and f: "get_session fresh m = None"
    and t: "resolve_track tid media = Some (n, mt)"
  shows "rtsp_inv (fst (setup_session now fresh rq addr i n mt a b mode m))"
proof (cases "rq_session rq")
  case None
  let ?s = "\<lparr>ss_id = fresh, ss_instance_id = i, ss_state = Ready, ss_client_addr = addr,
     ss_media_config = parse_media_config (rq_url rq),
     ss_quality = resolve_quality_tier (extract_query_params (rq_url rq)),
     ss_tracks = [], ss_created_at = now, ss_last_activity = now, ss_cancel = next_token m\<rparr>"
  let ?m = "put_session fresh ?s (m\<lparr>next_token := next_token m + 1\<rparr>)"
  have m1: "rtsp_inv ?m"
    by (rule rtsp_inv_create [OF m f]) (simp_all add: session_ok_def tracks_ok_def)
  have g: "get_session fresh ?m = Some ?s" by simp
  have "rtsp_inv (put_session fresh (add_track_to_session now n mt a b mode ?s) ?m)"
    by (rule rtsp_inv_update [OF m1 g]; (rule session_ok_add_track [OF _ _ t])?)
      (simp_all add: add_track_to_session_sel session_ok_def tracks_ok_def track_def)
  with None show ?thesis
    by (simp add: setup_session_def create_session_def child_token_def)
next
  case (Some sid)
  show ?thesis
  proof (cases "get_session sid m")
    case (Some s)
    have "session_ok s" using rtsp_invD(2) [OF m Some] by (simp add: session_fits_def)
    then have "rtsp_inv (put_session sid (add_track_to_session now n mt a b mode s) m)"
      if "track n s = None"
      using session_ok_add_track [OF _ that t]
      by (intro rtsp_inv_update [OF m Some]) (simp_all add: add_track_to_session_sel)
    with m Some \<open>rq_session rq = Some sid\<close> show ?thesis by (simp add: setup_session_def)
  qed (use m Some in \<open>simp add: setup_session_def\<close>)
qed

text \<open>The numbers the tasks of a list get when they are spawned after \<open>base\<close> others.\<close>

definition new_tasks :: "nat \<Rightarrow> rtp_task list \<Rightarrow> (u8 \<times> nat) set" where
  "new_tasks base new = (\<lambda>(n, t). (tk_track t, n)) ` set (enumerate base new)"

lemma new_tasks_simps [simp]:
  "new_tasks base [] = {}"
  "new_tasks base (t # new) = insert (tk_track t, base) (new_tasks (Suc base) new)"
  by (simp_all add: new_tasks_def)

lemma in_new_tasks:
  "(i, n) \<in> new_tasks base new \<longleftrightarrow> base \<le> n \<and> n < base + length new \<and> tk_track (new ! (n - base)) = i"
proof -
  have "(i, n) \<in> new_tasks base new \<longleftrightarrow> (\<exists>t. (n, t) \<in> set (enumerate base new) \<and> tk_track t = i)"
    unfolding new_tasks_def by force
  then show ?thesis by (auto simp: in_set_enumerate_eq)
qed

lemma start_tracks_spec:
  assumes "start_tracks lk i sid tok ts m = (ts', m')"
  shows "map ti_track_id ts' = map ti_track_id ts \<and> map ti_media_type ts' = map ti_media_type ts \<and>
    (\<exists>new. spawned m' = spawned m @ new \<and>
      m' = m\<lparr>spawned := spawned m @ new\<rparr> \<and>
      (\<forall>t \<in> set new. tk_session t = sid \<and> tk_cancel t = tok) \<and>
      track_tasks ts' = track_tasks ts \<union> new_tasks (length (spawned m)) new)"
  using assms
proof (induction ts arbitrary: m ts' m')
  case (Cons t ts)
  show ?case
  proof (cases "ti_rtp_task t = None \<and> can_subscribe lk i (ti_media_type t)")
    case True
    let ?t = "\<lparr>tk_session = sid, tk_track = ti_track_id t, tk_cancel = tok\<rparr>"
    let ?m1 = "m\<lparr>spawned := spawned m @ [?t]\<rparr>"
    obtain us m2 where r: "start_tracks lk i sid tok ts ?m1 = (us, m2)" by fastforce
    from Cons.prems True r have ts': "ts' = t\<lparr>ti_rtp_task := Some (length (spawned m))\<rparr> # us" "m' = m2"
      by (simp_all add: spawn_task_def)
    from Cons.IH [OF r] obtain new where
      ids: "map ti_track_id us = map ti_track_id ts" "map ti_media_type us = map ti_media_type ts"
      and new: "m2 = ?m1\<lparr>spawned := spawned ?m1 @ new\<rparr>"
        "\<forall>t \<in> set new. tk_session t = sid \<and> tk_cancel t = tok"
        "track_tasks us = track_tasks ts \<union> new_tasks (length (spawned ?m1)) new"
      by auto
    have "track_tasks ts' = track_tasks (t # ts) \<union> new_tasks (length (spawned m)) (?t # new)"
      using True by (simp add: ts' new(3))
    moreover have "m' = m\<lparr>spawned := spawned m @ (?t # new)\<rparr>" by (simp add: ts' new(1))
    ultimately show ?thesis
      using ids new(2) by (intro conjI exI [of _ "?t # new"]) (simp_all add: ts')
  next
    case False
    obtain us m2 where r: "start_tracks lk i sid tok ts m = (us, m2)" by fastforce
    from Cons.prems False r have ts': "ts' = t # us" "m' = m2" by auto
    from Cons.IH [OF r] obtain new where
      ids: "map ti_track_id us = map ti_track_id ts" "map ti_media_type us = map ti_media_type ts"
      and new: "m2 = m\<lparr>spawned := spawned m @ new\<rparr>"
        "\<forall>t \<in> set new. tk_session t = sid \<and> tk_cancel t = tok"
        "track_tasks us = track_tasks ts \<union> new_tasks (length (spawned m)) new"
      by auto
    then show ?thesis
      by (intro conjI exI [of _ new]) (simp_all add: ts' Un_assoc)
  qed
qed auto

lemma tracks_ok_cong:
  "map ti_track_id ts = map ti_track_id us \<Longrightarrow> map ti_media_type ts = map ti_media_type us \<Longrightarrow>
   tracks_ok ts = tracks_ok us"
proof -
  have z: "list_all (\<lambda>t. (ti_track_id t, ti_media_type t) \<in> S) ts \<longleftrightarrow>
      set (zip (map ti_track_id ts) (map ti_media_type ts)) \<subseteq> S" for ts S
    by (induction ts) auto
  assume "map ti_track_id ts = map ti_track_id us" "map ti_media_type ts = map ti_media_type us"
  then show ?thesis by (simp only: tracks_ok_def z)
qed

lemma rtsp_inv_play:
  assumes m: "rtsp_inv m"
  shows "rtsp_inv (fst (handle_play ctx now rq m))"
proof (cases "rq_session rq")
  case (Some sid)
  show ?thesis
  proof (cases "get_session sid m")
    case s: (Some s)
    define s1 where "s1 = fst (play now s)"
    have s1: "play now s = (s1, Inr ())" "ss_id s1 = ss_id s" "ss_cancel s1 = ss_cancel s"
      "ss_tracks s1 = ss_tracks s" "ss_state s1 = Playing"
      by (auto simp: s1_def play_def split: session_state.splits)
    define m0 where "m0 = request_keyframe s1 m"
    have m0: "rtsp_inv m0" "sessions m0 = sessions m" "spawned m0 = spawned m"
      using m by (auto simp: m0_def request_keyframe_def intro: rtsp_inv_cong)
    have s0: "get_session sid m0 = Some s" using s m0(2) by (simp add: get_session_def)
    note fits = rtsp_invD(2) [OF m0(1) s0]
    obtain ts m1 where st: "start_tracks (hc_lookup ctx) (ss_instance_id s1) (ss_id s1) (ss_cancel s1)
        (ss_tracks s1) m0 = (ts, m1)" by fastforce
    from start_tracks_spec [OF st] obtain new where
      ids: "map ti_track_id ts = map ti_track_id (ss_tracks s)"
        "map ti_media_type ts = map ti_media_type (ss_tracks s)"
      and m1: "m1 = m0\<lparr>spawned := spawned m0 @ new\<rparr>"
      and new: "\<forall>t \<in> set new. tk_session t = sid \<and> tk_cancel t = ss_cancel s"
      and tasks: "track_tasks ts = track_tasks (ss_tracks s) \<union> new_tasks (length (spawned m0)) new"
      using s1 fits by (auto simp: session_fits_def)
    let ?s2 = "s1\<lparr>ss_tracks := ts\<rparr>" and ?m2 = "put_session sid (s1\<lparr>ss_tracks := ts\<rparr>) m1"
    have eq: "fst (handle_play ctx now rq m) = ?m2"
      using Some s s1(1) st by (simp add: handle_play_def m0_def Let_def)
    have get: "get_session j m1 = get_session j m0" for j
      by (simp add: m1 get_session_def)
    have sp: "spawned m1 = spawned m0 @ new" "aborted m1 = aborted m0" "cancelled m1 = cancelled m0"
      "next_token m1 = next_token m0" by (simp_all add: m1)
    have old: "runs ?m2 n \<and> spawned ?m2 ! n = spawned m0 ! n" if "runs m0 n" for n
      using that by (simp add: runs_def sp nth_append)
    have young: "runs ?m2 n" "spawned ?m2 ! n = new ! (n - length (spawned m0))"
        "tk_session (spawned ?m2 ! n) = sid" "tk_cancel (spawned ?m2 ! n) = ss_cancel s"
      if "length (spawned m0) \<le> n" "n < length (spawned m0) + length new" for n
    proof -
      have i: "new ! (n - length (spawned m0)) \<in> set new" using that by simp
      show "runs ?m2 n" using that rtsp_invD(6) [OF m0(1), of n] by (auto simp: runs_def sp)
      show e: "spawned ?m2 ! n = new ! (n - length (spawned m0))" using that by (simp add: sp nth_append)
      show "tk_session (spawned ?m2 ! n) = sid" "tk_cancel (spawned ?m2 ! n) = ss_cancel s"
        unfolding e using i new by auto
    qed
    have task_eq: "t = \<lparr>tk_session = a, tk_track = b, tk_cancel = c\<rparr> \<longleftrightarrow>
        tk_session t = a \<and> tk_track t = b \<and> tk_cancel t = c" for t :: rtp_task and a b c
      by (cases t) auto
    show ?thesis unfolding eq
    proof (rule rtsp_invI)
      show "tab_invar (sessions ?m2)" using rtsp_invD(1) [OF m0(1)] by (simp add: m1 tab.invar_insert)
      show "session_fits ?m2 j x" if x: "get_session j ?m2 = Some x" for j x
      proof (cases "j = sid")
        case True
        have "session_ok ?s2"
          using fits tracks_ok_cong [OF ids] by (simp add: session_fits_def session_ok_def s1)
        moreover have "runs ?m2 n \<and> spawned ?m2 ! n = \<lparr>tk_session = sid, tk_track = i, tk_cancel = ss_cancel s\<rparr>"
          if "(i, n) \<in> track_tasks ts" for i n
        proof (cases "(i, n) \<in> track_tasks (ss_tracks s)")
          case True
          show ?thesis
            using old [OF session_fits_task(1) [OF fits True]] session_fits_task [OF fits True]
            by (simp add: task_eq)
        next
          case False
          with that tasks have n: "(i, n) \<in> new_tasks (length (spawned m0)) new" by auto
          then show ?thesis using young [of n] by (simp add: in_new_tasks task_eq)
        qed
        moreover have xs: "x = ?s2" using x True by (simp add: get)
        ultimately show ?thesis
          unfolding xs using True fits s1 by (simp add: session_fits_def sp)
      next
        case False
        with x have o: "get_session j m0 = Some x" by (simp add: get)
        note f = rtsp_invD(2) [OF m0(1) o]
        show ?thesis
          using f old [OF session_fits_task(1) [OF f]] by (simp add: session_fits_def sp)
      qed
      show "j = j'" if "get_session j ?m2 = Some x" "get_session j' ?m2 = Some x'" "ss_cancel x = ss_cancel x'"
        for j j' x x'
        using that rtsp_invD(3) [OF m0(1) s0, of j' x'] rtsp_invD(3) [OF m0(1) _ s0, of j x]
          rtsp_invD(3) [OF m0(1), of j x j' x'] s1(3)
        by (auto simp: get split: if_splits)
      show "t < next_token ?m2" if "t \<in> cancelled ?m2" for t
        using that rtsp_invD(4) [OF m0(1)] by (simp add: sp)
      show "n < length (spawned ?m2)" if "n \<in> aborted ?m2" for n
        using that rtsp_invD(6) [OF m0(1), of n] by (simp add: sp)
      show "owned ?m2 n" if n: "runs ?m2 n" for n
      proof (cases "n < length (spawned m0)")
        case True
        with n have "runs m0 n" by (simp add: runs_def sp)
        then obtain x where x: "get_session (tk_session (spawned m0 ! n)) m0 = Some x"
          "n \<in> snd ` track_tasks (ss_tracks x)"
          using rtsp_invD(5) [OF m0(1)] unfolding owned_def by blast
        then show ?thesis
          using old [OF \<open>runs m0 n\<close>] s0 tasks by (auto simp: owned_def get image_Un)
      next
        case False
        with n have r: "length (spawned m0) \<le> n" "n < length (spawned m0) + length new"
          by (simp_all add: runs_def sp)
        then have "(tk_track (new ! (n - length (spawned m0))), n) \<in> track_tasks ts"
          by (simp add: tasks in_new_tasks)
        then have "n \<in> snd ` track_tasks ts" by force
        then show ?thesis using young(3) [OF r] by (simp add: owned_def get)
      qed
    qed
  qed (use m Some in \<open>simp add: handle_play_def\<close>)
qed (use m in \<open>simp add: handle_play_def\<close>)

lemma rtsp_inv_pause:
  assumes m: "rtsp_inv m"
  shows "rtsp_inv (fst (handle_pause now rq m))"
proof (cases "rq_session rq")
  case (Some sid)
  show ?thesis
  proof (cases "get_session sid m")
    case s: (Some s)
    show ?thesis
    proof (cases "ss_state s")
      case Ready
      with Some s m show ?thesis by (simp add: handle_pause_def pause_def put_session_same)
    next
      case st: Playing
      have fits: "session_fits m sid s" by (rule rtsp_invD(2) [OF m s])
      show ?thesis
        by (rule rtsp_inv_stop [OF m s])
          (use Some s st fits rtsp_invD(1) [OF m] in
            \<open>auto simp: handle_pause_def pause_def stop_tasks_def child_token_def task_list_track_tasks
              forget_tasks_def session_fits_def session_ok_def tracks_ok_def comp_def list_all_iff
              track_tasks_def get_session_def Let_def intro!: tab.invar_insert\<close>)
    next
      case st: Paused
      have fits: "session_fits m sid s" by (rule rtsp_invD(2) [OF m s])
      show ?thesis
        by (rule rtsp_inv_stop [OF m s])
          (use Some s st fits rtsp_invD(1) [OF m] in
            \<open>auto simp: handle_pause_def pause_def stop_tasks_def child_token_def task_list_track_tasks
              forget_tasks_def session_fits_def session_ok_def tracks_ok_def comp_def list_all_iff
              track_tasks_def get_session_def Let_def intro!: tab.invar_insert\<close>)
    qed
  qed (use m Some in \<open>simp add: handle_pause_def\<close>)
qed (use m in \<open>simp add: handle_pause_def\<close>)

lemma rtsp_inv_request:
  assumes m: "rtsp_inv m" and f: "get_session fresh m = None"
    and r: "handle_request ctx now fresh ports rq addr m = Ok (m', resp)"
  shows "rtsp_inv m'"
proof (cases "rq_method rq")
  case Setup
  have "setup_session now fresh rq addr i n mt a b mode m = (m', x) \<Longrightarrow>
      resolve_track tid media = Some (n, mt) \<Longrightarrow> rtsp_inv m'" for i n mt a b mode tid media x
    using rtsp_inv_setup_session [OF m f] by (metis fst_conv)
  with m r Setup show ?thesis
    by (auto simp: handle_request_def handle_setup_def Let_def
        split: option.splits outcome.splits if_splits prod.splits sum.splits)
next
  case Teardown
  with m r rtsp_inv_remove [OF m] show ?thesis
    by (auto simp: handle_request_def handle_teardown_def split: option.splits prod.splits)
      (metis fst_conv)+
next
  case Play
  with r rtsp_inv_play [OF m] show ?thesis by (simp add: handle_request_def) (metis fst_conv)
next
  case Pause
  with r rtsp_inv_pause [OF m] show ?thesis by (simp add: handle_request_def) (metis fst_conv)
next
  case GetParameter
  with m r show ?thesis
    by (auto simp: handle_request_def handle_get_parameter_def rtsp_inv_touch split: option.splits)
qed (use m r in \<open>auto simp: handle_request_def\<close>)

subsection \<open>Runs of the server\<close>

text \<open>A request may come at any time, with a session id no session has; the sender tasks
  touch their session and report health; the reaper sweeps; the server shuts down.\<close>

inductive rtsp_step :: "rtsp_manager \<Rightarrow> rtsp_manager \<Rightarrow> bool" where
  step_request: "get_session fresh m = None \<Longrightarrow>
    handle_request ctx now fresh ports rq addr m = Ok (m', resp) \<Longrightarrow> rtsp_step m m'"
| step_touch: "rtsp_step m (touch now k m)"
| step_health: "rtsp_step m (track_health_update k n h m)"
| step_reap: "rtsp_step m (reap_expired_sessions now m)"
| step_shutdown: "rtsp_step m (shutdown m)"

inductive rtsp_reachable :: "rtsp_manager \<Rightarrow> bool" where
  rtsp_start: "rtsp_reachable (manager_with_timeout t)"
| rtsp_next: "rtsp_reachable m \<Longrightarrow> rtsp_step m m' \<Longrightarrow> rtsp_reachable m'"

inductive_cases rtsp_stepE: "rtsp_step m m'"

lemma rtsp_inv_step: "rtsp_step m m' \<Longrightarrow> rtsp_inv m \<Longrightarrow> rtsp_inv m'"
proof (induction rule: rtsp_step.induct)
  case (step_shutdown m)
  have "rtsp_inv (m\<lparr>root_cancelled := True\<rparr>)" by (rule rtsp_inv_cong [OF step_shutdown]) simp_all
  then show ?case by (simp add: shutdown_def teardown_all_def rtsp_inv_remove_each)
qed (auto simp: rtsp_inv_touch rtsp_inv_health reap_expired_sessions_def rtsp_inv_remove_each
    intro: rtsp_inv_request)

lemma rtsp_inv_reachable: "rtsp_reachable m \<Longrightarrow> rtsp_inv m"
  by (induction rule: rtsp_reachable.induct) (auto simp: rtsp_inv_new intro: rtsp_inv_step)

end
