(* ===== verification/Rtsp_Effects.thy ===== *)
theory Rtsp_Effects
  imports Rtsp_Invariants
begin

section \<open>What RTSP requests do\<close>

text \<open>
  Properties of the reachable states of the RTSP server, and of the single requests: what they
  answer, what they change when they are refused, and how PAUSE, TEARDOWN, the reaper and a
  shutdown stop the sender tasks.
\<close>

subsection \<open>Reachable states\<close>

text \<open>Sessions stay well formed. In every reachable state a session is filed under its id,
  its tracks have distinct ids, track 0 is video and track 1 audio and there is no other,
  and only a session that is playing has sender tasks.\<close>

theorem rtsp_sessions_well_formed:
  assumes "rtsp_reachable m" and "get_session k m = Some s"
  shows "ss_id s = k \<and> distinct (map ti_track_id (ss_tracks s)) \<and>
    (\<forall>t \<in> set (ss_tracks s). ti_track_id t = 0 \<and> ti_media_type t = VideoMedia \<or>
       ti_track_id t = 1 \<and> ti_media_type t = AudioMedia) \<and>
    (ss_state s \<noteq> Playing \<longrightarrow> (\<forall>t \<in> set (ss_tracks s). ti_rtp_task t = None))"
  using rtsp_invD(2) [OF rtsp_inv_reachable [OF assms(1)] assms(2)]
  by (auto simp: session_fits_def session_ok_def tracks_ok_def list_all_iff no_tasks_iff)

definition example_lookup :: instance_lookup where
  "example_lookup =
     \<lparr>lk_exists = (\<lambda>i. i = ''dev''), lk_audio = (\<lambda>_. True), lk_video = (\<lambda>_. True),
      lk_resolution = (\<lambda>_. Some (1280, 720)), lk_framerate = (\<lambda>_. None), lk_codec = (\<lambda>_. H264)\<rparr>"

definition example_context :: handler_context where
  "example_context =
     \<lparr>hc_lookup = example_lookup, hc_server_is_ipv6 = False, hc_server_ip = ''10.0.0.1'',
      hc_checks = True\<rparr>"

definition example_session :: rtsp_session where
  "example_session =
     \<lparr>ss_id = ''s1'', ss_instance_id = ''dev'', ss_state = Ready, ss_client_addr = ''c'',
      ss_media_config = default_media_config, ss_quality = High,
      ss_tracks = [\<lparr>ti_track_id = 1, ti_media_type = AudioMedia, ti_client_rtp_port = 0,
        ti_client_rtcp_port = 0, ti_server_rtp_port = 0, ti_server_rtcp_port = 0,
        ti_interleaved_channels = Some (0, 1), ti_rtp_task = None, ti_health = new_health 0\<rparr>],
      ss_created_at = 0, ss_last_activity = 0, ss_cancel = 0\<rparr>"

text \<open>A SETUP for the audio track of instance \<open>dev\<close>, interleaved on the control connection.\<close>

definition example_setup :: rtsp_request where
  "example_setup =
     \<lparr>rq_method = Setup, rq_url = rtsp_url False ''h'' ''dev'' (Some 1) None, rq_cseq = 3,
      rq_session = None,
      rq_headers = [(''transport'', format_response 0 0 (TcpInterleaved 0 1))], rq_body = None\<rparr>"

definition example_manager :: rtsp_manager where
  "example_manager =
     (manager_with_timeout (seconds 120))\<lparr>sessions := [(''s1'', example_session)], next_token := 1\<rparr>"

lemma example_setup_headers_run:
  assumes "tab_get ''transport'' hs = Some (format_response 0 0 (TcpInterleaved 0 1))"
  shows "\<exists>resp. handle_request example_context 0 ''s1'' None (example_setup\<lparr>rq_headers := hs\<rparr>) ''c''
     (manager_with_timeout (seconds 120)) = Ok (example_manager, resp)"
proof -
  have safe: "is_url_safe ''dev''" by code_simp
  let ?url = "rtsp_url False ''h'' ''dev'' (Some 1) None"
  have url: "extract_instance_id ?url = Some ''dev''" "extract_track_id ?url = Some 1"
    using url_path_of_rtsp_url [OF safe, of "''h''" False "Some 1" None]
    by (simp_all add: extract_instance_id_def extract_track_id_def url_segments_def strip_slash_def
        digit_literals)
  have q: "extract_query_params ?url = []"
  proof -
    have "CHR ''?'' \<notin> set ?url" by (simp add: rtsp_url_def show_word_no_digit digit_literals)
    then show ?thesis by (simp add: extract_query_params_def str_find_absent)
  qed
  have "\<not> is_audio_only_url ?url"
    using url_path_of_rtsp_url [OF safe, of "''h''" False "Some 1" None]
    by (simp add: is_audio_only_url_def strip_slash_def starts_with_def)
  with q have mc: "parse_media_config ?url = default_media_config"
    by (simp add: parse_media_config_def default_media_config_def)
  have tr: "transport_parse True (format_response 0 0 (TcpInterleaved 0 1)) = Ok (TcpInterleaved 0 1)"
    using transport_parse_tcp [OF disjI1 [OF refl], where a = "0 :: u8" and b = "1 :: u8" and checks = True] by simp
  have g: "tab_get k [] = None" "tab_get k [(k, v)] = Some v" for k :: string and v :: rtsp_session
    by (simp_all add: tab_get_def)
  show ?thesis
    using url q mc tr assms
    by (simp add: handle_request_def handle_setup_def example_setup_def example_context_def
        example_lookup_def resolve_track_def setup_session_def create_session_def
        child_token_def resolve_quality_tier_def add_track_to_session_def add_interleaved_track_def
        touch_session_def example_manager_def example_session_def put_session_def get_session_def
        manager_with_timeout_def tab_insert_def g)
qed

lemma example_setup_runs:
  "\<exists>resp. handle_request example_context 0 ''s1'' None example_setup ''c''
     (manager_with_timeout (seconds 120)) = Ok (example_manager, resp)"
  using example_setup_headers_run [of "rq_headers example_setup"]
  by (simp add: example_setup_def tab_get_def)

lemma example_manager_reachable: "rtsp_reachable example_manager"
proof -
  obtain resp where r: "handle_request example_context 0 ''s1'' None example_setup ''c''
     (manager_with_timeout (seconds 120)) = Ok (example_manager, resp)"
    using example_setup_runs by blast
  have f: "get_session ''s1'' (manager_with_timeout (seconds 120)) = None"
    by (simp add: get_session_def manager_with_timeout_def)
  show ?thesis by (rule rtsp_next [OF rtsp_start step_request [OF f r]])
qed

lemma example_manager_session: "get_session ''s1'' example_manager = Some example_session"
  by (simp add: example_manager_def get_session_def tab_get_def)

lemma rtsp_sessions_well_formed_witness: "ss_id example_session = ''s1''"
  using rtsp_sessions_well_formed [OF example_manager_reachable example_manager_session] by blast

text \<open>C13: No sender task is lost and none runs for a dead session. In every reachable state, a
  spawned task that was not aborted belongs to a track of a session that is still there; a
  task a track holds was not aborted and was spawned for that track under the session's
  current token; and that token has not been cancelled unless the whole server has.\<close>

theorem rtsp_tasks_owned:
  assumes "rtsp_reachable m"
  shows "(\<forall>n < length (spawned m). n \<notin> aborted m \<longrightarrow>
      (\<exists>s. get_session (tk_session (spawned m ! n)) m = Some s \<and>
        (\<exists>t \<in> set (ss_tracks s). ti_rtp_task t = Some n))) \<and>
    (\<forall>k s t n. get_session k m = Some s \<and> t \<in> set (ss_tracks s) \<and> ti_rtp_task t = Some n \<longrightarrow>
      n < length (spawned m) \<and> n \<notin> aborted m \<and>
      spawned m ! n = \<lparr>tk_session = k, tk_track = ti_track_id t, tk_cancel = ss_cancel s\<rparr> \<and>
      (is_cancelled (ss_cancel s) m \<longrightarrow> root_cancelled m))"
proof -
  note inv = rtsp_inv_reachable [OF assms]
  have "\<exists>s. get_session (tk_session (spawned m ! n)) m = Some s \<and>
      (\<exists>t \<in> set (ss_tracks s). ti_rtp_task t = Some n)" if "n < length (spawned m)" "n \<notin> aborted m" for n
  proof -
    have "owned m n" by (rule rtsp_invD(5) [OF inv]) (simp add: runs_def that)
    then show ?thesis unfolding owned_def track_tasks_def by auto
  qed
  moreover have "n < length (spawned m) \<and> n \<notin> aborted m \<and>
      spawned m ! n = \<lparr>tk_session = k, tk_track = ti_track_id t, tk_cancel = ss_cancel s\<rparr> \<and>
      (is_cancelled (ss_cancel s) m \<longrightarrow> root_cancelled m)"
    if "get_session k m = Some s" "t \<in> set (ss_tracks s)" "ti_rtp_task t = Some n" for k s t n
  proof -
    have "(ti_track_id t, n) \<in> track_tasks (ss_tracks s)" using that by (auto simp: track_tasks_def)
    with rtsp_invD(2) [OF inv that(1)] show ?thesis
      by (simp add: session_fits_def runs_def is_cancelled_def)
  qed
  ultimately show ?thesis by blast
qed

definition example_playing :: rtsp_manager where
  "example_playing = fst (handle_play example_context 1
     (example_setup\<lparr>rq_method := Play, rq_session := Some ''s1''\<rparr>) example_manager)"

lemma example_playing_reachable: "rtsp_reachable example_playing"
proof -
  let ?rq = "example_setup\<lparr>rq_method := Play, rq_session := Some ''s1''\<rparr>"
  have r: "handle_request example_context 1 ''s2'' None ?rq ''c'' example_manager =
      Ok (example_playing, snd (handle_play example_context 1 ?rq example_manager))"
    by (simp add: handle_request_def example_playing_def)
  have f: "get_session ''s2'' example_manager = None"
    by (simp add: example_manager_def get_session_def tab_get_def)
  show ?thesis by (rule rtsp_next [OF example_manager_reachable step_request [OF f r]])
qed

lemma example_playing_tasks:
  "spawned example_playing = [\<lparr>tk_session = ''s1'', tk_track = 1, tk_cancel = 0\<rparr>]"
  "aborted example_playing = {}"
  by (simp_all add: example_playing_def handle_play_def example_setup_def example_manager_session play_def
      Let_def) (simp_all add: example_session_def request_keyframe_def track_by_type_def
      example_context_def example_lookup_def can_subscribe_def spawn_task_def example_manager_def
      manager_with_timeout_def put_session_def touch_session_def)

lemma rtsp_tasks_owned_witness:
  "\<exists>s. get_session ''s1'' example_playing = Some s \<and> (\<exists>t. t \<in> set (ss_tracks s) \<and> ti_rtp_task t = Some 0)"
  using rtsp_tasks_owned [OF example_playing_reachable] by (auto simp: example_playing_tasks)

subsection \<open>Responses\<close>

lemma response_sel [simp]:
  "rs_cseq (header k v r) = rs_cseq r" "rs_status (header k v r) = rs_status r"
  "rs_cseq (with_session s t r) = rs_cseq r" "rs_status (with_session s t r) = rs_status r"
  "rs_cseq (set_body ct b r) = rs_cseq r" "rs_status (set_body ct b r) = rs_status r"
  "rs_cseq (response_new st re c) = c" "rs_status (response_new st re c) = st"
  by (simp_all add: header_def with_session_def set_body_def response_new_def)

lemmas response_defs = response_ok_def not_found_def session_not_found_def unsupported_transport_def
  internal_error_def method_not_valid_def handle_options_def

lemma setup_session_response:
  assumes "setup_session now fresh rq addr i n mt a b mode m = (m', Inl resp)"
  shows "rs_cseq resp = rq_cseq rq \<and> rs_status resp \<in> {454, 455} \<and> m' = m"
  using assms by (auto simp: setup_session_def response_defs split: option.splits if_splits prod.splits)

lemma handle_setup_response:
  assumes "handle_setup ctx now fresh ports rq addr m = Ok (m', resp)"
  shows "rs_cseq resp = rq_cseq rq \<and> rs_status resp \<in> {200, 404, 454, 455, 461, 500} \<and>
    (rs_status resp \<noteq> 200 \<longrightarrow> m' = m)"
  using assms setup_session_response
  by (auto simp: handle_setup_def Let_def response_defs
      split: option.splits if_splits outcome.splits prod.splits sum.splits) blast+

text \<open>Every response answers its request, and a refusal changes nothing. The response has
  the request's CSeq and one of seven statuses; unless the status is 200 the manager is as it
  was, whatever the method.\<close>

theorem response_matches_request:
  assumes "handle_request ctx now fresh ports rq addr m = Ok (m', resp)"
  shows "rs_cseq resp = rq_cseq rq \<and> rs_status resp \<in> {200, 404, 454, 455, 461, 500} \<and>
    (rs_status resp \<noteq> 200 \<longrightarrow> m' = m)"
proof (cases "rq_method rq")
  case Setup
  with assms handle_setup_response show ?thesis by (simp add: handle_request_def)
next
  case Describe
  with assms show ?thesis
    by (auto simp: handle_request_def handle_describe_def Let_def response_defs
        split: option.splits if_splits prod.splits)
next
  case Play
  with assms show ?thesis
    by (auto simp: handle_request_def handle_play_def play_def Let_def response_defs
        split: option.splits prod.splits session_state.splits)
next
  case Pause
  with assms show ?thesis
    by (auto simp: handle_request_def handle_pause_def pause_def Let_def response_defs put_session_same
        split: option.splits prod.splits session_state.splits)
next
  case Teardown
  with assms show ?thesis
    by (auto simp: handle_request_def handle_teardown_def response_defs remove_session_def
        split: option.splits prod.splits)
qed (use assms in \<open>auto simp: handle_request_def handle_get_parameter_def response_defs
    split: option.splits\<close>)

lemma response_matches_request_witness:
  "\<exists>m' resp. handle_request example_context 0 ''s1'' None example_setup ''c''
     (manager_with_timeout (seconds 120)) = Ok (m', resp) \<and> rs_cseq resp = 3"
proof -
  obtain resp where r: "handle_request example_context 0 ''s1'' None example_setup ''c''
     (manager_with_timeout (seconds 120)) = Ok (example_manager, resp)"
    using example_setup_runs by blast
  from response_matches_request [OF r] r show ?thesis
    by (auto simp: example_setup_def)
qed

subsection \<open>PAUSE\<close>

text \<open>PAUSE stops the stream and leaves it resumable. In a reachable state, a PAUSE of a
  session that is playing or paused answers 200, leaves it paused with its tracks but
  without tasks, aborts every task it had, cancels the token these ran under, and gives the
  session another token, which is not cancelled; the other sessions are untouched. A session
  that never played is refused with 455.\<close>

theorem pause_stops_tasks:
  assumes "rtsp_reachable m" and "get_session k m = Some s" and "rq_session rq = Some k"
    and "handle_pause now rq m = (m', resp)"
  shows "if ss_state s = Ready then rs_status resp = 455 \<and> m' = m
    else rs_status resp = 200 \<and>
      (\<exists>s'. get_session k m' = Some s' \<and> ss_state s' = Paused \<and>
        map ti_track_id (ss_tracks s') = map ti_track_id (ss_tracks s) \<and>
        (\<forall>t \<in> set (ss_tracks s'). ti_rtp_task t = None) \<and>
        ss_cancel s' \<noteq> ss_cancel s \<and> (is_cancelled (ss_cancel s') m' \<longrightarrow> root_cancelled m)) \<and>
      is_cancelled (ss_cancel s) m' \<and>
      (\<forall>t \<in> set (ss_tracks s). \<forall>n. ti_rtp_task t = Some n \<longrightarrow> n \<in> aborted m') \<and>
      (\<forall>j. j \<noteq> k \<longrightarrow> get_session j m' = get_session j m)"
proof (cases "ss_state s = Ready")
  case True
  with assms show ?thesis
    by (auto simp: handle_pause_def pause_def response_defs put_session_same)
next
  case False
  note inv = rtsp_inv_reachable [OF assms(1)]
  have lt: "ss_cancel s < next_token m" using rtsp_invD(2) [OF inv assms(2)] by (simp add: session_fits_def)
  have nc: "next_token m \<notin> cancelled m" using rtsp_invD(4) [OF inv, of "next_token m"] by auto
  have ab: "n \<in> set (task_list s)" if "t \<in> set (ss_tracks s)" "ti_rtp_task t = Some n" for t n
    using that by (auto simp: task_list_track_tasks track_tasks_def image_iff)
  define s1 where "s1 = fst (pause now s)"
  have s1: "pause now s = (s1, Inr ())" "ss_state s1 = Paused" "ss_tracks s1 = ss_tracks s"
    "ss_cancel s1 = ss_cancel s"
    using False by (cases "ss_state s"; simp add: s1_def pause_def)+
  have tl: "task_list s1 = task_list s" by (simp add: task_list_def s1)
  define m3 where "m3 = put_session k ((forget_tasks s1)\<lparr>ss_cancel := next_token m\<rparr>)
     ((stop_tasks s1 m)\<lparr>next_token := next_token m + 1\<rparr>)"
  have m': "m' = m3" "rs_status resp = 200"
    using assms(2-4) s1(1) by (auto simp: handle_pause_def child_token_def stop_tasks_def m3_def
        response_defs Let_def)
  have g: "get_session j m3 = (if j = k then Some ((forget_tasks s1)\<lparr>ss_cancel := next_token m\<rparr>)
      else get_session j m)" for j
    by (simp add: m3_def get_session_def put_session_def stop_tasks_def)
  have "is_cancelled tok m3 \<longleftrightarrow> is_cancelled tok m \<or> tok = ss_cancel s" for tok
    by (auto simp: m3_def is_cancelled_def stop_tasks_def s1)
  moreover have "n \<in> aborted m3" if "n \<in> set (task_list s)" for n
    using that by (simp add: m3_def stop_tasks_def tl)
  ultimately show ?thesis
    using False m' lt nc ab by (auto simp: g forget_tasks_def s1 is_cancelled_def comp_def)
qed

lemma pause_stops_tasks_witness:
  "rs_status (snd (handle_pause 5 (example_setup\<lparr>rq_session := Some ''s1''\<rparr>) example_manager)) = 455"
  using pause_stops_tasks [OF example_manager_reachable example_manager_session,
      of "example_setup\<lparr>rq_session := Some ''s1''\<rparr>" 5
        "fst (handle_pause 5 (example_setup\<lparr>rq_session := Some ''s1''\<rparr>) example_manager)"
        "snd (handle_pause 5 (example_setup\<lparr>rq_session := Some ''s1''\<rparr>) example_manager)"]
  by (simp add: example_session_def)

subsection \<open>Removal\<close>

lemma remove_session_effect:
  "get_session j (fst (remove_session k m)) = (if j = k then None else get_session j m)"
  "get_session k m = Some s \<Longrightarrow> is_cancelled (ss_cancel s) (fst (remove_session k m))"
  "get_session k m = Some s \<Longrightarrow> t \<in> set (ss_tracks s) \<Longrightarrow> ti_rtp_task t = Some n \<Longrightarrow>
     n \<in> aborted (fst (remove_session k m))"
proof -
  show "get_session j (fst (remove_session k m)) = (if j = k then None else get_session j m)"
    by (auto simp: remove_session_def teardown_def stop_tasks_def get_session_def split: option.split)
  assume s: "get_session k m = Some s"
  then show "is_cancelled (ss_cancel s) (fst (remove_session k m))"
    by (simp add: remove_session_def teardown_def stop_tasks_def is_cancelled_def)
  assume "t \<in> set (ss_tracks s)" "ti_rtp_task t = Some n"
  then have "n \<in> set (task_list s)" by (auto simp: task_list_track_tasks track_tasks_def image_iff)
  with s show "n \<in> aborted (fst (remove_session k m))"
    by (simp add: remove_session_def teardown_def stop_tasks_def)
qed

lemma remove_session_mono:
  "cancelled m \<subseteq> cancelled (fst (remove_session k m))" "aborted m \<subseteq> aborted (fst (remove_session k m))"
  by (auto simp: remove_session_def teardown_def stop_tasks_def split: option.splits)

lemma get_remove_each:
  "get_session j (remove_each ks m) = (if j \<in> set ks then None else get_session j m)"
proof (induction ks arbitrary: m)
  case (Cons k ks)
  have "remove_each (k # ks) m = remove_each ks (fst (remove_session k m))" by (simp add: remove_each_def)
  then show ?case using Cons by (simp add: remove_session_effect(1))
qed (simp add: remove_each_def)

lemma remove_each_stops:
  assumes "get_session k m = Some s" and "k \<in> set ks"
  shows "ss_cancel s \<in> cancelled (remove_each ks m) \<and>
    (\<forall>t \<in> set (ss_tracks s). \<forall>n. ti_rtp_task t = Some n \<longrightarrow> n \<in> aborted (remove_each ks m))"
  using assms
proof (induction ks arbitrary: m)
  case (Cons j ks)
  let ?m = "fst (remove_session j m)"
  have e: "remove_each (j # ks) m = remove_each ks ?m" by (simp add: remove_each_def)
  have mono: "cancelled ?m \<subseteq> cancelled (remove_each ks ?m) \<and> aborted ?m \<subseteq> aborted (remove_each ks ?m)"
    unfolding remove_each_def
    by (rule fold_invariant) (use remove_session_mono in blast)+
  show ?case
  proof (cases "j = k")
    case True
    have "ss_cancel s \<in> cancelled ?m"
      using Cons.prems(1) True by (simp add: remove_session_def teardown_def stop_tasks_def)
    with mono remove_session_effect(3) [OF Cons.prems(1)] True e show ?thesis by auto
  next
    case False
    with Cons.prems have "get_session k ?m = Some s" "k \<in> set ks"
      by (simp_all add: remove_session_effect(1))
    then show ?thesis unfolding e by (rule Cons.IH)
  qed
qed simp

text \<open>TEARDOWN ends a session for good. A TEARDOWN naming an existing session answers 200,
  removes it, cancels its token and aborts its tasks, and leaves every other session; a second
  TEARDOWN, like one naming no session or an unknown one, answers 454.\<close>

theorem teardown_removes_session:
  assumes "rq_session rq = Some k" and "get_session k m = Some s"
    and "handle_teardown rq m = (m', resp)"
  shows "rs_status resp = 200 \<and>
    (\<forall>j. get_session j m' = (if j = k then None else get_session j m)) \<and>
    is_cancelled (ss_cancel s) m' \<and>
    (\<forall>t \<in> set (ss_tracks s). \<forall>n. ti_rtp_task t = Some n \<longrightarrow> n \<in> aborted m') \<and>
    rs_status (snd (handle_teardown rq m')) = 454"
proof -
  obtain s' where r: "remove_session k m = (m', Some s')" "rs_status resp = 200"
    using assms by (auto simp: handle_teardown_def remove_session_def response_defs split: prod.splits)
  then have m': "m' = fst (remove_session k m)" by simp
  have "get_session k m' = None" unfolding m' by (simp add: remove_session_effect(1))
  then have "rs_status (snd (handle_teardown rq m')) = 454"
    using assms(1) by (simp add: handle_teardown_def remove_session_def response_defs)
  then show ?thesis
    using r(2) remove_session_effect [where k = k and m = m] assms(2) unfolding m' by blast
qed

lemma teardown_removes_session_witness:
  "rs_status (snd (handle_teardown (example_setup\<lparr>rq_session := Some ''s1''\<rparr>) example_manager)) = 200"
  using teardown_removes_session [OF _ example_manager_session,
      of "example_setup\<lparr>rq_session := Some ''s1''\<rparr>"
        "fst (handle_teardown (example_setup\<lparr>rq_session := Some ''s1''\<rparr>) example_manager)"
        "snd (handle_teardown (example_setup\<lparr>rq_session := Some ''s1''\<rparr>) example_manager)"]
  by simp

text \<open>The reaper removes the idle sessions and no other. In a reachable state a sweep keeps
  a session, unchanged, exactly if its last activity is not longer ago than the timeout; the
  tokens of the removed ones are cancelled and their tasks aborted.\<close>

theorem reap_removes_idle_sessions:
  assumes "rtsp_reachable m"
  shows "get_session k (reap_expired_sessions now m) =
      (case get_session k m of
         None \<Rightarrow> None
       | Some s \<Rightarrow> if elapsed now (ss_last_activity s) > session_timeout m then None else Some s) \<and>
    (\<forall>s. get_session k m = Some s \<and> elapsed now (ss_last_activity s) > session_timeout m \<longrightarrow>
       ss_cancel s \<in> cancelled (reap_expired_sessions now m) \<and>
       (\<forall>t \<in> set (ss_tracks s). \<forall>n. ti_rtp_task t = Some n \<longrightarrow>
          n \<in> aborted (reap_expired_sessions now m)))"
proof -
  let ?ks = "map fst (filter (\<lambda>(_, s). is_expired now (session_timeout m) s) (sessions m))"
  have inv: "tab_invar (sessions m)" by (rule rtsp_invD(1) [OF rtsp_inv_reachable [OF assms]])
  have mem: "k \<in> set ?ks \<longleftrightarrow> (\<exists>s. get_session k m = Some s \<and> is_expired now (session_timeout m) s)"
    by (force simp: get_session_def tab_get_iff_in_set [OF inv])
  show ?thesis
    using remove_each_stops [of k m _ ?ks] mem
    by (auto simp: reap_expired_sessions_def get_remove_each is_expired_def split: option.split)
qed

lemma reap_removes_idle_sessions_witness:
  "get_session ''s1'' (reap_expired_sessions (seconds 121) example_manager) = None"
  using reap_removes_idle_sessions [OF example_manager_reachable, of "''s1''" "seconds 121"]
  by (simp add: example_manager_session)
    (simp add: example_session_def example_manager_def manager_with_timeout_def elapsed_def seconds_def)

text \<open>A shutdown leaves nothing running: no session is left, and in a reachable state every
  task that was ever spawned is aborted.\<close>

theorem shutdown_stops_everything:
  assumes "rtsp_reachable m"
  shows "get_session k (shutdown m) = None \<and>
    (\<forall>n < length (spawned (shutdown m)). n \<in> aborted (shutdown m))"
proof -
  have none: "get_session j (shutdown m) = None" for j
    by (simp add: shutdown_def teardown_all_def get_remove_each tab.set_keys)
      (simp add: get_session_def)
  have "rtsp_inv (shutdown m)"
    by (rule rtsp_inv_reachable [OF rtsp_next [OF assms step_shutdown]])
  then have "\<not> runs (shutdown m) n" for n
    using rtsp_invD(5) [of "shutdown m" n] none by (auto simp: owned_def)
  with none show ?thesis by (auto simp: runs_def)
qed

lemma shutdown_stops_everything_witness: "get_session ''s1'' (shutdown example_manager) = None"
  using shutdown_stops_everything [OF example_manager_reachable] by blast

end
