(* ===== verification/Payload_Format.thy ===== *)
theory Payload_Format
  imports Prelude
begin

section \<open>Video payload formats\<close>

text \<open>
  What the RTP video stream (\<open>transport.rs\<close>) relies on in its packetizers: a payload format
  makes a frame into the payloads of RTP packets, always returns, keeps to a size limit, and
  loses nothing. The two packetizers of \<open>crates/vscreen-rtsp\<close>, for VP9 and H.264, are
  instances of the interface.
\<close>

subsection \<open>Interface: a payload format\<close>

text \<open>A format packs a frame into payloads of bounded size, from which a receiver's \<open>unpack\<close>
  gets the content of the frame back, for the frames and packetizer states it is meant for.
  \<open>pack_all\<close> packs the frames of a stream one after the other, with the state handed on.\<close>

fun pack_all :: "('s \<Rightarrow> 'f \<Rightarrow> ('s \<times> bytes list) option) \<Rightarrow> 's \<Rightarrow> 'f list \<Rightarrow> bytes list list option" where
  "pack_all pack s [] = Some []"
| "pack_all pack s (f # fs) =
     (case pack s f of
        None \<Rightarrow> None
      | Some (s', ps) \<Rightarrow> map_option ((#) ps) (pack_all pack s' fs))"

locale payload_format =
  fixes pack :: "'s \<Rightarrow> 'f \<Rightarrow> ('s \<times> bytes list) option"
    and limit :: "'s \<Rightarrow> nat"
    and usable :: "'s \<Rightarrow> bool"
    and valid :: "'f \<Rightarrow> bool"
    and unpack :: "bytes list \<Rightarrow> 'c"
    and content :: "'f \<Rightarrow> 'c"
  assumes returns: "usable s \<Longrightarrow> \<exists>s' ps. pack s f = Some (s', ps)"
    and keeps_usable: "usable s \<Longrightarrow> pack s f = Some (s', ps) \<Longrightarrow> usable s' \<and> limit s' = limit s"
    and bounded: "usable s \<Longrightarrow> pack s f = Some (s', ps) \<Longrightarrow> p \<in> set ps \<Longrightarrow> length p \<le> limit s"
    and reassembles: "usable s \<Longrightarrow> valid f \<Longrightarrow> pack s f = Some (s', ps) \<Longrightarrow> unpack ps = content f"
begin

lemma pack_all_reassembles:
  assumes "usable s" and "\<forall>f \<in> set fs. valid f"
  shows "\<exists>pss. pack_all pack s fs = Some pss \<and> map unpack pss = map content fs \<and>
    (\<forall>ps \<in> set pss. \<forall>p \<in> set ps. length p \<le> limit s)"
  using assms
proof (induction fs arbitrary: s)
  case (Cons f fs)
  obtain s' ps where p: "pack s f = Some (s', ps)" using returns [OF Cons.prems(1)] by blast
  have s': "usable s'" "limit s' = limit s" using keeps_usable [OF Cons.prems(1) p] by auto
  obtain pss where "pack_all pack s' fs = Some pss" "map unpack pss = map content fs"
    "\<forall>ps \<in> set pss. \<forall>p \<in> set ps. length p \<le> limit s'"
    using Cons.IH [OF s'(1)] Cons.prems(2) by auto
  with p s' bounded [OF Cons.prems(1) p] reassembles [OF Cons.prems(1) _ p] Cons.prems(2)
  show ?case by auto
qed simp

end

subsection \<open>Slices\<close>

text \<open>\<open>&data[a..b]\<close>\<close>

definition sub_list :: "nat \<Rightarrow> nat \<Rightarrow> 'a list \<Rightarrow> 'a list" where
  "sub_list a b xs = take (b - a) (drop a xs)"

lemma sub_list_append: "a \<le> b \<Longrightarrow> b \<le> c \<Longrightarrow> sub_list a b xs @ sub_list b c xs = sub_list a c xs"
proof -
  assume "a \<le> b" "b \<le> c"
  then have "c - a = (b - a) + (c - b)" "drop b xs = drop (b - a) (drop a xs)" by simp_all
  then show ?thesis unfolding sub_list_def by (simp only: take_add)
qed

lemma length_sub_list: "b \<le> length xs \<Longrightarrow> length (sub_list a b xs) = b - a"
  by (simp add: sub_list_def)

end
