(* ===== verification/Vp9_Packetizer.thy ===== *)
theory Vp9_Packetizer
  imports Payload_Format
begin

section \<open>The VP9 packetizer\<close>

text \<open>
  \<open>vp9_packetizer.rs\<close> of \<open>crates/vscreen-rtsp\<close>: the payload descriptor and the cutting of a
  frame. The loop that cuts makes no progress when a packet can hold nothing, so it is a
  partial function, which has no value when the loop does not end; that it returns is proved
  from the bound on the MTU the constructors establish.
\<close>

record vp9_packetizer =
  vp_picture_id :: u16
  vp_mtu :: nat
  vp_width :: u16
  vp_height :: u16

definition vp9_new :: "u16 \<Rightarrow> u16 \<Rightarrow> vp9_packetizer" where
  "vp9_new w h = \<lparr>vp_picture_id = 0, vp_mtu = 1200, vp_width = w, vp_height = h\<rparr>"

definition vp9_with_mtu :: "u16 \<Rightarrow> u16 \<Rightarrow> nat \<Rightarrow> vp9_packetizer" where
  "vp9_with_mtu w h mtu = \<lparr>vp_picture_id = 0, vp_mtu = max mtu 100, vp_width = w, vp_height = h\<rparr>"

definition vp9_set_resolution :: "u16 \<Rightarrow> u16 \<Rightarrow> vp9_packetizer \<Rightarrow> vp9_packetizer" where
  "vp9_set_resolution w h p = p\<lparr>vp_width := w, vp_height := h\<rparr>"

definition vp9_byte0 :: "bool \<Rightarrow> bool \<Rightarrow> bool \<Rightarrow> bool \<Rightarrow> u8" where
  "vp9_byte0 key start stop ss =
     push_bit 7 1 OR push_bit 6 (if key then 0 else 1) OR push_bit 5 0 OR push_bit 4 0 OR
     push_bit 3 (if start then 1 else 0) OR push_bit 2 (if stop then 1 else 0) OR
     push_bit 1 (if ss then 1 else 0) OR 0"

definition build_descriptor ::
  "vp9_packetizer \<Rightarrow> bool \<Rightarrow> bool \<Rightarrow> bool \<Rightarrow> bool \<Rightarrow> u16 \<Rightarrow> bytes" where
  "build_descriptor p key start stop ss pid =
     [vp9_byte0 key start stop ss, 0x80 OR ucast (drop_bit 8 pid AND 0x7F), ucast (pid AND 0xFF)] @
     (if ss then
        [0x10, ucast (drop_bit 8 (vp_width p)), ucast (vp_width p AND 0xFF),
         ucast (drop_bit 8 (vp_height p)), ucast (vp_height p AND 0xFF)]
      else [])"

definition continuation_max_payload :: "vp9_packetizer \<Rightarrow> bool \<Rightarrow> u16 \<Rightarrow> nat" where
  "continuation_max_payload p key pid = vp_mtu p - length (build_descriptor p key False True False pid)"

partial_function (option) vp9_rest ::
  "vp9_packetizer \<Rightarrow> bool \<Rightarrow> u16 \<Rightarrow> bytes \<Rightarrow> nat \<Rightarrow> bytes list \<Rightarrow> bytes list option" where
  "vp9_rest p key pid frame offset packets =
     (if offset < length frame then
        (let is_last = (length frame - offset \<le> continuation_max_payload p key pid);
             desc = build_descriptor p key False is_last False pid;
             max_payload = vp_mtu p - length desc;
             stop = min (offset + max_payload) (length frame)
         in vp9_rest p key pid frame stop (packets @ [desc @ sub_list offset stop frame]))
      else Some packets)"

definition vp9_packetize ::
  "vp9_packetizer \<Rightarrow> bytes \<Rightarrow> bool \<Rightarrow> (vp9_packetizer \<times> bytes list) option" where
  "vp9_packetize p frame key =
     (let pid = vp_picture_id p;
          p' = p\<lparr>vp_picture_id := (vp_picture_id p + 1) AND 0x7FFF\<rparr>;
          first = build_descriptor p' key True False key pid;
          first_max = vp_mtu p' - length first
      in if frame = [] then Some (p', [build_descriptor p' key True True True pid])
         else if length frame \<le> first_max then
           Some (p', [build_descriptor p' key True True key pid @ frame])
         else
           (let chunk = min first_max (length frame)
            in map_option (Pair p')
                 (vp9_rest p' key pid frame chunk [first @ sub_list 0 chunk frame])))"

text \<open>A receiver's side: the length of a descriptor is in its V bit.\<close>

definition vp9_strip :: "bytes \<Rightarrow> bytes" where
  "vp9_strip pkt = drop (if bit (hd pkt) 1 then 8 else 3) pkt"

definition vp9_unpack :: "bytes list \<Rightarrow> bytes" where
  "vp9_unpack ps = concat (map vp9_strip ps)"

lemma vp9_byte0_bits:
  "bit (vp9_byte0 key start stop ss) 1 = ss"
  "bit (vp9_byte0 key start stop ss) 2 = stop"
  "bit (vp9_byte0 key start stop ss) 3 = start"
  "bit (vp9_byte0 key start stop ss) 6 = (\<not> key)"
  "bit (vp9_byte0 key start stop ss) 7"
  unfolding vp9_byte0_def
  by (cases key; cases start; cases stop; cases ss; simp add: bit_simps)+

lemma length_build_descriptor [simp]: "length (build_descriptor p key start stop ss pid) = (if ss then 8 else 3)"
  by (simp add: build_descriptor_def)

lemma hd_build_descriptor [simp]:
  "hd (build_descriptor p key start stop ss pid @ x) = vp9_byte0 key start stop ss"
  "hd (build_descriptor p key start stop ss pid) = vp9_byte0 key start stop ss"
  by (simp_all add: build_descriptor_def)

lemma vp9_strip_descriptor [simp]:
  "vp9_strip (build_descriptor p key start stop ss pid @ x) = x"
  "vp9_strip (build_descriptor p key start stop ss pid) = []"
  using vp9_byte0_bits(1) [of key start stop ss] by (simp_all add: vp9_strip_def)

text \<open>What the loop appends: packets that carry on from the offset.\<close>

fun vp9_tail_ok :: "vp9_packetizer \<Rightarrow> bool \<Rightarrow> u16 \<Rightarrow> bytes list \<Rightarrow> bool" where
  "vp9_tail_ok p key pid [] \<longleftrightarrow> True"
| "vp9_tail_ok p key pid (pkt # ps) \<longleftrightarrow> length pkt \<le> vp_mtu p \<and>
     (\<exists>x. pkt = build_descriptor p key False (ps = []) False pid @ x) \<and> vp9_tail_ok p key pid ps"

text \<open>What a receiver reads in the descriptors of a frame: B on the first packet only, E on the
  last only, P on all packets of an inter frame, the same picture id on all.\<close>

definition vp9_pid :: "bytes \<Rightarrow> u16" where
  "vp9_pid q = push_bit 8 (ucast (q ! 1 AND 0x7F)) OR ucast (q ! 2)"

definition vp9_header_ok :: "bool \<Rightarrow> u16 \<Rightarrow> bool \<Rightarrow> bool \<Rightarrow> bytes \<Rightarrow> bool" where
  "vp9_header_ok key pid start stop q \<longleftrightarrow>
     bit (hd q) 3 = start \<and> bit (hd q) 2 = stop \<and> bit (hd q) 6 = (\<not> key) \<and> vp9_pid q = pid AND 0x7FFF"

lemma vp9_pid_descriptor:
  "vp9_pid (build_descriptor p key start stop ss pid @ x) = pid AND 0x7FFF"
proof -
  have m: "bit (0x7F :: int) k = (k < 7)" "bit (0xFF :: int) k = (k < 8)"
    "bit (0x7FFF :: int) k = (k < 15)" "bit (0x80 :: int) k = (k = 7)" for k
  proof -
    have "(0x7F :: int) = mask 7" "(0xFF :: int) = mask 8" "(0x7FFF :: int) = mask 15"
      "(0x80 :: int) = push_bit 7 1"
      by (simp_all add: mask_eq_exp_minus_1)
    then show "bit (0x7F :: int) k = (k < 7)" "bit (0xFF :: int) k = (k < 8)"
      "bit (0x7FFF :: int) k = (k < 15)" "bit (0x80 :: int) k = (k = 7)"
      by (simp_all only: bit_simps) auto
  qed
  show ?thesis
  proof (rule bit_word_eqI)
    fix n assume n: "n < LENGTH(16)"
    show "bit (vp9_pid (build_descriptor p key start stop ss pid @ x)) n = bit (pid AND 0x7FFF) n"
    proof (cases "n < 8")
      case True
      then show ?thesis
        by (auto simp: vp9_pid_def build_descriptor_def bit_or_iff bit_and_iff bit_push_bit_iff
          bit_ucast_iff m)
    next
      case False
      then show ?thesis using n
        by (auto simp: vp9_pid_def build_descriptor_def bit_or_iff bit_and_iff bit_push_bit_iff
          bit_ucast_iff bit_drop_bit_eq m)
    qed
  qed
qed

lemma vp9_header_descriptor [simp]:
  "vp9_header_ok key pid start stop (build_descriptor p key start stop ss pid @ x)"
  "vp9_header_ok key pid start stop (build_descriptor p key start stop ss pid)"
  using vp9_pid_descriptor [of p key start stop ss pid "[]"]
  by (simp_all add: vp9_header_ok_def vp9_byte0_bits vp9_pid_descriptor)

lemma vp9_tail_bounded: "vp9_tail_ok p key pid ps \<Longrightarrow> q \<in> set ps \<Longrightarrow> length q \<le> vp_mtu p"
  by (induction ps) auto

lemma vp9_tail_headers:
  "vp9_tail_ok p key pid ps \<Longrightarrow> j < length ps \<Longrightarrow>
     vp9_header_ok key pid False (j = length ps - 1) (ps ! j)"
proof (induction ps arbitrary: j)
  case (Cons q ps)
  show ?case
  proof (cases j)
    case 0
    then show ?thesis using Cons.prems vp9_header_descriptor by fastforce
  next
    case (Suc i)
    then have "(i = length ps - 1) \<longleftrightarrow> (j = length (q # ps) - 1)" using Cons.prems(2) by auto
    then show ?thesis using Cons.IH [of i] Cons.prems Suc by simp
  qed
qed simp

lemma vp9_rest_returns:
  assumes "3 < vp_mtu p" and "offset \<le> length frame"
  shows "\<exists>ps. vp9_rest p key pid frame offset acc = Some (acc @ ps) \<and>
    vp9_tail_ok p key pid ps \<and> concat (map vp9_strip ps) = sub_list offset (length frame) frame \<and>
    (offset < length frame \<longrightarrow> ps \<noteq> [])"
  using assms
proof (induction "length frame - offset" arbitrary: offset acc rule: less_induct)
  case less
  show ?case
  proof (cases "offset < length frame")
    case False
    then show ?thesis
      using less.prems by (subst vp9_rest.simps) (simp add: sub_list_def)
  next
    case True
    define is_last where "is_last = (length frame - offset \<le> vp_mtu p - 3)"
    define stop where "stop = min (offset + (vp_mtu p - 3)) (length frame)"
    let ?pkt = "build_descriptor p key False is_last False pid @ sub_list offset stop frame"
    have stop: "offset < stop" "stop \<le> length frame" using True less.prems by (auto simp: stop_def)
    have last: "is_last \<longleftrightarrow> stop = length frame" using stop by (auto simp: is_last_def stop_def)
    obtain ps where ps: "vp9_rest p key pid frame stop (acc @ [?pkt]) = Some ((acc @ [?pkt]) @ ps)"
      "vp9_tail_ok p key pid ps" "concat (map vp9_strip ps) = sub_list stop (length frame) frame"
      "stop < length frame \<longrightarrow> ps \<noteq> []"
      using less.hyps [of stop "acc @ [?pkt]"] stop less.prems(1) by (meson diff_less_mono2 less_le_trans)
    have "ps = []" if "\<not> stop < length frame"
    proof -
      have "vp9_rest p key pid frame stop (acc @ [?pkt]) = Some (acc @ [?pkt])"
        using that by (subst vp9_rest.simps) simp
      with ps(1) show ?thesis by simp
    qed
    then have e: "is_last \<longleftrightarrow> ps = []" using last ps(4) stop by auto
    have "length ?pkt \<le> vp_mtu p"
      using less.prems(1) stop by (simp add: length_sub_list) (simp add: stop_def)
    then have "vp9_tail_ok p key pid (?pkt # ps)"
      using ps(2) e by auto
    moreover have "concat (map vp9_strip (?pkt # ps)) = sub_list offset (length frame) frame"
      using ps(3) sub_list_append [of offset stop "length frame" frame] stop by simp
    moreover have "vp9_rest p key pid frame offset acc = Some (acc @ ?pkt # ps)"
      using True ps(1) by (subst vp9_rest.simps)
        (simp add: Let_def continuation_max_payload_def flip: is_last_def stop_def)
    ultimately show ?thesis by blast
  qed
qed

lemma vp9_packetize_spec:
  assumes "100 \<le> vp_mtu p"
  shows "\<exists>ps. vp9_packetize p f key =
      Some (p\<lparr>vp_picture_id := (vp_picture_id p + 1) AND 0x7FFF\<rparr>, ps) \<and>
    ps \<noteq> [] \<and> (\<forall>q \<in> set ps. length q \<le> vp_mtu p) \<and> vp9_unpack ps = f \<and>
    (\<forall>j < length ps. vp9_header_ok key (vp_picture_id p) (j = 0) (j = length ps - 1) (ps ! j))"
proof -
  define pid where "pid = vp_picture_id p"
  define p' where "p' = p\<lparr>vp_picture_id := (pid + 1) AND 0x7FFF\<rparr>"
  define n where "n = vp_mtu p - (if key then 8 else 3)"
  have m: "vp_mtu p' = vp_mtu p" by (simp add: p'_def)
  note d = vp9_packetize_def Let_def pid_def [symmetric] p'_def [symmetric] m
  show ?thesis
  proof (cases "length f \<le> n")
    case True
    then show ?thesis
      using assms by (simp add: d n_def vp9_unpack_def) auto
  next
    case False
    define first where "first = build_descriptor p' key True False key pid @ sub_list 0 n f"
    obtain ps where ps: "vp9_rest p' key pid f n [first] = Some ([first] @ ps)"
      "vp9_tail_ok p' key pid ps" "vp9_unpack ps = sub_list n (length f) f" "ps \<noteq> []"
      using vp9_rest_returns [of p' n f key pid "[first]"] False assms m
      by (auto simp: vp9_unpack_def)
    have n: "n = min n (length f)" "f \<noteq> []" using False by auto
    have "vp9_packetize p f key = Some (p', first # ps)"
      using False n ps(1) by (simp add: d first_def n_def [symmetric])
    moreover have "length first \<le> vp_mtu p"
      using False assms by (simp add: first_def length_sub_list n_def)
    then have "\<forall>q \<in> set (first # ps). length q \<le> vp_mtu p"
      using vp9_tail_bounded [OF ps(2)] m by auto
    moreover have "vp9_unpack (first # ps) = f"
      using ps(3) sub_list_append [of 0 n "length f" f] False
      by (simp add: vp9_unpack_def first_def) (simp add: sub_list_def)
    moreover have "vp9_header_ok key pid (j = 0) (j = length (first # ps) - 1) ((first # ps) ! j)"
      if "j < length (first # ps)" for j
    proof (cases j)
      case 0
      then show ?thesis using vp9_header_descriptor ps(4) by (simp add: first_def)
    next
      case (Suc i)
      then have "(i = length ps - 1) = (j = length (first # ps) - 1)" using that by auto
      then show ?thesis using vp9_tail_headers [OF ps(2), of i] that Suc by simp
    qed
    ultimately show ?thesis unfolding p'_def pid_def by blast
  qed
qed

interpretation vp9: payload_format
  "\<lambda>p f. vp9_packetize p (fst f) (snd f)" vp_mtu "\<lambda>p. 100 \<le> vp_mtu p" "\<lambda>_. True" vp9_unpack fst
proof
  fix s s' :: vp9_packetizer and f :: "bytes \<times> bool" and ps q
  assume u: "100 \<le> vp_mtu s"
  note spec = vp9_packetize_spec [OF u, of "fst f" "snd f"]
  show "\<exists>s' ps. vp9_packetize s (fst f) (snd f) = Some (s', ps)" using spec by blast
  assume e: "vp9_packetize s (fst f) (snd f) = Some (s', ps)"
  show "100 \<le> vp_mtu s' \<and> vp_mtu s' = vp_mtu s" using spec e u by auto
  show "vp9_unpack ps = fst f" using spec e by auto
  assume "q \<in> set ps"
  then show "length q \<le> vp_mtu s" using spec e by auto
qed

subsection \<open>Properties\<close>

text \<open>C20: Packets of a VP9 stream: with the MTU of either constructor, packetizing returns for
  every frame of a sequence, no payload exceeds the MTU, and the payloads of each frame without
  their descriptors are the frame.\<close>

theorem vp9_stream_reassembles:
  assumes "p = vp9_new w h \<or> p = vp9_with_mtu w h mtu"
  shows "\<exists>pss. pack_all (\<lambda>p f. vp9_packetize p (fst f) (snd f)) p fs = Some pss \<and>
    map vp9_unpack pss = map fst fs \<and> (\<forall>ps \<in> set pss. \<forall>q \<in> set ps. length q \<le> vp_mtu p)"
  using vp9.pack_all_reassembles [of p fs] assms by (auto simp: vp9_new_def vp9_with_mtu_def)

theorem vp9_stream_reassembles_witness:
  "\<exists>pss. pack_all (\<lambda>p f. vp9_packetize p (fst f) (snd f)) (vp9_new 640 480)
      [(replicate 3000 7, True), ([1, 2], False)] = Some pss \<and>
    map vp9_unpack pss = [replicate 3000 7, [1, 2]]"
  using vp9_stream_reassembles [of "vp9_new 640 480" 640 480 0
      "[(replicate 3000 7, True), ([1, 2], False)]"] by auto

text \<open>Descriptors of a VP9 frame: the B bit is set on the first packet only, the E bit on the
  last only, the P bit on all packets of an inter frame and none of a key frame, and all
  carry the picture id, which goes up by one modulo 32768 from frame to frame.\<close>

theorem vp9_descriptors:
  assumes "100 \<le> vp_mtu p" and "vp9_packetize p f key = Some (p', ps)"
  shows "ps \<noteq> [] \<and> p' = p\<lparr>vp_picture_id := (vp_picture_id p + 1) AND 0x7FFF\<rparr> \<and>
    (\<forall>j < length ps. vp9_header_ok key (vp_picture_id p) (j = 0) (j = length ps - 1) (ps ! j))"
  using vp9_packetize_spec [OF assms(1), of f key] assms(2) by auto

theorem vp9_descriptors_witness:
  "\<exists>p' ps. vp9_packetize (vp9_with_mtu 640 480 100) (replicate 300 7) True = Some (p', ps) \<and>
    ps \<noteq> [] \<and> vp_picture_id p' = 1"
proof -
  have u: "100 \<le> vp_mtu (vp9_with_mtu 640 480 100)" by (simp add: vp9_with_mtu_def)
  obtain p' ps where p: "vp9_packetize (vp9_with_mtu 640 480 100) (replicate 300 7) True = Some (p', ps)"
    using vp9_packetize_spec [OF u] by blast
  from vp9_descriptors [OF u p] p show ?thesis by (simp add: vp9_with_mtu_def)
qed

end
