(* ===== verification/H264_Packetizer.thy ===== *)
theory H264_Packetizer
  imports Payload_Format
begin

section \<open>The H.264 packetizer\<close>

text \<open>
  \<open>h264_packetizer.rs\<close> of \<open>crates/vscreen-rtsp\<close>: splitting an Annex B stream into NAL units
  and sending each as one payload or as FU-A fragments. The scanning loops always advance
  and are total functions; the loop that fragments is a partial function, as in
  \<open>Vp9_Packetizer\<close>.
\<close>

record h264_packetizer =
  hp_mtu :: nat

definition h264_new :: h264_packetizer where
  "h264_new = \<lparr>hp_mtu = 1200\<rparr>"

definition h264_with_mtu :: "nat \<Rightarrow> h264_packetizer" where
  "h264_with_mtu mtu = \<lparr>hp_mtu = max mtu 100\<rparr>"

definition start_code_3 :: bytes where
  "start_code_3 = [0x00, 0x00, 0x01]"

definition start_code_4 :: bytes where
  "start_code_4 = [0x00, 0x00, 0x00, 0x01]"

definition code_4_at :: "bytes \<Rightarrow> nat \<Rightarrow> bool" where
  "code_4_at data i \<longleftrightarrow> i + 4 \<le> length data \<and> sub_list i (i + 4) data = start_code_4"

definition code_3_at :: "bytes \<Rightarrow> nat \<Rightarrow> bool" where
  "code_3_at data i \<longleftrightarrow> i + 3 \<le> length data \<and> sub_list i (i + 3) data = start_code_3"

function first_code :: "bytes \<Rightarrow> nat \<Rightarrow> nat" where
  "first_code data i =
     (if i < length data then
        (if code_4_at data i then i + 4
         else if code_3_at data i then i + 3
         else first_code data (i + 1))
      else i)"
  by pat_completeness auto
termination by (relation "measure (\<lambda>(data, i). length data - i)") auto

function split_rest :: "bytes \<Rightarrow> nat \<Rightarrow> nat \<Rightarrow> bytes list \<Rightarrow> bytes list" where
  "split_rest data i nal_start nals =
     (if i < length data then
        (let found_4 = code_4_at data i;
             found_3 = (\<not> found_4 \<and> code_3_at data i)
         in if found_4 \<or> found_3 then
              (let nals' = (if nal_start < i then nals @ [sub_list nal_start i data] else nals);
                   i' = i + (if found_4 then 4 else 3)
               in split_rest data i' i' nals')
            else split_rest data (i + 1) nal_start nals)
      else if nal_start < length data then nals @ [drop nal_start data] else nals)"
  by pat_completeness auto
termination by (relation "measure (\<lambda>(data, i, _). length data - i)") (auto simp: Let_def)

definition split_annex_b :: "bytes \<Rightarrow> bytes list" where
  "split_annex_b data = (let i = first_code data 0 in split_rest data i i [])"

definition fu_header :: "u8 \<Rightarrow> bool \<Rightarrow> bool \<Rightarrow> u8" where
  "fu_header nal_type is_first is_last =
     nal_type OR (if is_first then 0x80 else 0) OR (if is_last then 0x40 else 0)"

partial_function (option) fu_fragments ::
  "u8 \<Rightarrow> u8 \<Rightarrow> nat \<Rightarrow> bytes \<Rightarrow> nat \<Rightarrow> bytes list \<Rightarrow> bytes list option" where
  "fu_fragments fu_indicator nal_type frag_max data offset payloads =
     (if offset < length data then
        (let chunk_size = min (length data - offset) frag_max;
             is_last = (length data \<le> offset + chunk_size);
             pkt = [fu_indicator, fu_header nal_type (offset = 0) is_last] @
               sub_list offset (offset + chunk_size) data
         in fu_fragments fu_indicator nal_type frag_max data (offset + chunk_size) (payloads @ [pkt]))
      else Some payloads)"

definition fragment_fu_a :: "bytes \<Rightarrow> nat \<Rightarrow> bytes list \<Rightarrow> bytes list option" where
  "fragment_fu_a nal max_payload payloads =
     (let nal_header = hd nal;
          f_nri = nal_header AND 0xE0;
          nal_type = nal_header AND 0x1F
      in fu_fragments (f_nri OR 28) nal_type (max_payload - 2) (tl nal) 0 payloads)"

fun h264_nals :: "nat \<Rightarrow> bytes list \<Rightarrow> bytes list \<Rightarrow> bytes list option" where
  "h264_nals max_payload [] payloads = Some payloads"
| "h264_nals max_payload (nal # nals) payloads =
     (if nal = [] then h264_nals max_payload nals payloads
      else if length nal \<le> max_payload then h264_nals max_payload nals (payloads @ [nal])
      else (case fragment_fu_a nal max_payload payloads of
          None \<Rightarrow> None
        | Some payloads' \<Rightarrow> h264_nals max_payload nals payloads'))"

definition h264_packetize :: "h264_packetizer \<Rightarrow> bytes \<Rightarrow> bytes list option" where
  "h264_packetize p annex_b = h264_nals (hp_mtu p - 12) (split_annex_b annex_b) []"

declare first_code.simps [simp del] split_rest.simps [simp del]

subsection \<open>Annex B\<close>

text \<open>The scan as a recursion on the remaining bytes, with the NAL unit read so far.\<close>

function annexb_scan :: "bytes \<Rightarrow> bytes \<Rightarrow> bytes list" where
  "annexb_scan cur xs =
     (if xs = [] then (if cur = [] then [] else [cur])
      else if take 4 xs = start_code_4 then (if cur = [] then [] else [cur]) @ annexb_scan [] (drop 4 xs)
      else if take 3 xs = start_code_3 then (if cur = [] then [] else [cur]) @ annexb_scan [] (drop 3 xs)
      else annexb_scan (cur @ [hd xs]) (tl xs))"
  by pat_completeness auto
termination
  by (relation "measure (\<lambda>(_, xs). length xs)") auto

declare annexb_scan.simps [simp del]

lemma code_4_at_drop: "code_4_at data i \<longleftrightarrow> take 4 (drop i data) = start_code_4"
  by (auto simp: code_4_at_def sub_list_def start_code_4_def dest: arg_cong [of _ _ length])

lemma code_3_at_drop: "code_3_at data i \<longleftrightarrow> take 3 (drop i data) = start_code_3"
  by (auto simp: code_3_at_def sub_list_def start_code_3_def dest: arg_cong [of _ _ length])

lemma split_rest_scan:
  "s \<le> i \<Longrightarrow> i \<le> length data \<Longrightarrow>
     split_rest data i s nals = nals @ annexb_scan (sub_list s i data) (drop i data)"
proof (induction data i s nals rule: split_rest.induct)
  case (1 data i s nals)
  show ?case
  proof (cases "i < length data")
    case False
    then show ?thesis using "1.prems"
      by (subst split_rest.simps, subst annexb_scan.simps) (auto simp: sub_list_def)
  next
    case True
    note code = code_4_at_drop [of data i] code_3_at_drop [of data i]
    show ?thesis
    proof (cases "code_4_at data i \<or> code_3_at data i")
      case False
      have "sub_list s i data @ [data ! i] = sub_list s (i + 1) data"
        using "1.prems" True by (simp add: sub_list_def Suc_diff_le take_Suc_conv_app_nth)
      then show ?thesis using "1.IH"(2) [OF True refl refl] False True "1.prems" code
        by (subst split_rest.simps, subst annexb_scan.simps) (simp add: hd_drop_conv_nth tl_drop drop_Suc)
    next
      case c: True
      let ?i' = "i + (if code_4_at data i then 4 else 3)"
      have "?i' \<le> length data" using c by (auto simp: code_4_at_def code_3_at_def)
      then show ?thesis using "1.IH"(1) [OF True refl refl] c True "1.prems" code
        by (subst split_rest.simps, subst annexb_scan.simps)
          (auto simp: Let_def sub_list_def add.commute)
    qed
  qed
qed

text \<open>A NAL unit that can stand in an Annex B stream: it has no start code inside, and does not
  end in a zero byte, which would run into the next start code.\<close>

fun has_code :: "bytes \<Rightarrow> bool" where
  "has_code [] = False"
| "has_code (x # xs) = (take 3 (x # xs) = start_code_3 \<or> has_code xs)"

definition annexb_clean :: "bytes \<Rightarrow> bool" where
  "annexb_clean nal \<longleftrightarrow> nal \<noteq> [] \<and> last nal \<noteq> 0 \<and> \<not> has_code nal"

definition annexb_join :: "(bytes \<times> bytes) list \<Rightarrow> bytes" where
  "annexb_join units = concat (map (\<lambda>(code, nal). code @ nal) units)"

lemma no_code_across:
  assumes "x \<noteq> []" "last x \<noteq> 0" "\<not> has_code x"
  shows "take 3 (x @ ys) \<noteq> start_code_3" "take 4 (x @ ys) \<noteq> start_code_4"
proof -
  consider a where "x = [a]" | a b where "x = [a, b]" | a b c where "x = [a, b, c]"
    | a b c d z where "x = a # b # c # d # z"
    using assms(1) by (metis list.exhaust)
  then have "take 3 (x @ ys) \<noteq> start_code_3 \<and> take 4 (x @ ys) \<noteq> start_code_4"
    by cases (use assms in \<open>auto simp: start_code_3_def start_code_4_def take_Cons'\<close>)
  then show "take 3 (x @ ys) \<noteq> start_code_3" "take 4 (x @ ys) \<noteq> start_code_4" by auto
qed

lemma annexb_scan_clean:
  assumes "x \<noteq> [] \<longrightarrow> last x \<noteq> 0" "\<not> has_code x"
  shows "annexb_scan cur (x @ ys) = annexb_scan (cur @ x) ys"
  using assms
proof (induction x arbitrary: cur)
  case (Cons b x)
  have "annexb_scan cur ((b # x) @ ys) = annexb_scan (cur @ [b]) (x @ ys)"
    using no_code_across [of "b # x" ys] Cons.prems by (subst annexb_scan.simps) auto
  also have "\<dots> = annexb_scan (cur @ b # x) ys"
    using Cons by (auto split: if_splits)
  finally show ?case .
qed simp

lemma annexb_scan_code:
  assumes "code = start_code_3 \<or> code = start_code_4"
  shows "annexb_scan cur (code @ ys) = (if cur = [] then [] else [cur]) @ annexb_scan [] ys"
  using assms by (subst annexb_scan.simps) (auto simp: start_code_3_def start_code_4_def)

lemma annexb_scan_join:
  assumes "\<forall>(code, nal) \<in> set units. code \<in> {start_code_3, start_code_4} \<and> annexb_clean nal"
  shows "annexb_scan cur (annexb_join units) = (if cur = [] then [] else [cur]) @ map snd units"
  using assms
proof (induction units arbitrary: cur)
  case Nil
  then show ?case by (subst annexb_scan.simps) (simp add: annexb_join_def)
next
  case (Cons u units)
  obtain code nal where u: "u = (code, nal)" by (cases u)
  have c: "code = start_code_3 \<or> code = start_code_4" "annexb_clean nal"
    using Cons.prems u by auto
  have "annexb_scan cur (annexb_join (u # units)) =
      annexb_scan cur (code @ nal @ annexb_join units)"
    by (simp add: annexb_join_def u)
  also have "\<dots> = (if cur = [] then [] else [cur]) @ annexb_scan nal (annexb_join units)"
    using c annexb_scan_clean [of nal "[]"] by (simp add: annexb_scan_code annexb_clean_def)
  also have "\<dots> = (if cur = [] then [] else [cur]) @ map snd (u # units)"
    using Cons.IH [of nal] Cons.prems c by (simp add: u annexb_clean_def)
  finally show ?case .
qed

lemma first_code_at_start:
  assumes "code = start_code_3 \<or> code = start_code_4"
  shows "first_code (code @ ys) 0 = length code"
  using assms by (subst first_code.simps)
    (auto simp: code_4_at_drop code_3_at_drop start_code_3_def start_code_4_def)

lemma split_join:
  assumes "\<forall>(code, nal) \<in> set units. code \<in> {start_code_3, start_code_4} \<and> annexb_clean nal"
  shows "split_annex_b (annexb_join units) = map snd units"
proof (cases units)
  case Nil
  then show ?thesis
    by (simp add: split_annex_b_def annexb_join_def first_code.simps split_rest.simps)
next
  case (Cons u us)
  obtain code nal where u: "u = (code, nal)" by (cases u)
  have c: "code = start_code_3 \<or> code = start_code_4" using assms Cons u by auto
  have j: "annexb_join units = code @ nal @ annexb_join us" by (simp add: annexb_join_def Cons u)
  have "split_annex_b (annexb_join units) = annexb_scan [] (nal @ annexb_join us)"
    using first_code_at_start [OF c] split_rest_scan [of "length code" "length code" "annexb_join units" "[]"] j
    by (simp add: split_annex_b_def sub_list_def)
  also have "\<dots> = annexb_scan nal (annexb_join us)"
    using annexb_scan_clean [of nal "[]"] assms Cons u by (auto simp: annexb_clean_def)
  also have "\<dots> = map snd units"
    using annexb_scan_join [of us nal] assms Cons u by (auto simp: annexb_clean_def)
  finally show ?thesis .
qed

lemma annexb_scan_nonempty: "nal \<in> set (annexb_scan cur xs) \<Longrightarrow> nal \<noteq> []"
proof (induction cur xs rule: annexb_scan.induct)
  case (1 cur xs)
  then show ?case
    by (subst (asm) annexb_scan.simps) (auto split: if_splits)
qed

lemma first_code_le: "i \<le> length data \<Longrightarrow> first_code data i \<le> length data"
proof (induction data i rule: first_code.induct)
  case (1 data i)
  then show ?case
    by (subst first_code.simps) (auto simp: code_4_at_def code_3_at_def)
qed

lemma split_annex_b_nonempty: "nal \<in> set (split_annex_b data) \<Longrightarrow> nal \<noteq> []"
  using split_rest_scan [of "first_code data 0" "first_code data 0" data "[]"]
    first_code_le [of 0 data] annexb_scan_nonempty
  by (auto simp: split_annex_b_def Let_def)

subsection \<open>Fragmentation\<close>

text \<open>A receiver: payloads of type 28 are fragments of a NAL unit, which begins at the one with
  the S bit and is complete after the one with the E bit.\<close>

fun h264_unpack :: "bytes \<Rightarrow> bytes list \<Rightarrow> bytes list" where
  "h264_unpack cur [] = []"
| "h264_unpack cur (q # qs) =
     (if hd q AND 0x1F \<noteq> 28 then q # h264_unpack cur qs
      else (let h = q ! 1;
                cur' = (if bit h 7 then [(hd q AND 0xE0) OR (h AND 0x1F)] else cur) @ drop 2 q
            in if bit h 6 then cur' # h264_unpack [] qs else h264_unpack cur' qs))"

lemma fu_bits:
  fixes h :: u8
  shows "((h AND 0xE0) OR 28) AND 0x1F = 28"
    and "((h AND 0xE0) OR 28) AND 0xE0 OR (fu_header (h AND 0x1F) s e AND 0x1F) = h"
    and "bit (fu_header (h AND 0x1F) s e) 7 = s"
    and "bit (fu_header (h AND 0x1F) s e) 6 = e"
proof -
  have n: "n < 8 \<Longrightarrow> n = 0 \<or> n = 1 \<or> n = 2 \<or> n = 3 \<or> n = 4 \<or> n = 5 \<or> n = 6 \<or> n = 7" for n :: nat
    by auto
  show "((h AND 0xE0) OR 28) AND 0x1F = 28"
    by (rule bit_word_eqI) (auto dest!: n simp: bit_simps)
  show "((h AND 0xE0) OR 28) AND 0xE0 OR (fu_header (h AND 0x1F) s e AND 0x1F) = h"
    by (rule bit_word_eqI) (auto dest!: n simp: bit_simps fu_header_def)
  show "bit (fu_header (h AND 0x1F) s e) 7 = s" "bit (fu_header (h AND 0x1F) s e) 6 = e"
    by (auto simp: bit_simps fu_header_def)
qed

lemma fu_fragments_returns:
  assumes "0 < frag_max" and "offset \<le> length data"
  shows "\<exists>ps. fu_fragments ((h AND 0xE0) OR 28) (h AND 0x1F) frag_max data offset acc = Some (acc @ ps) \<and>
    (\<forall>q \<in> set ps. length q \<le> frag_max + 2) \<and>
    (offset < length data \<longrightarrow> (\<forall>cur qs. h264_unpack cur (ps @ qs) =
      ((if offset = 0 then [h] else cur) @ drop offset data) # h264_unpack [] qs))"
  using assms
proof (induction "length data - offset" arbitrary: offset acc rule: less_induct)
  case less
  show ?case
  proof (cases "offset < length data")
    case False
    then show ?thesis by (subst fu_fragments.simps) simp
  next
    case True
    define chunk where "chunk = min (length data - offset) frag_max"
    define last where "last = (length data \<le> offset + chunk)"
    let ?pkt = "[(h AND 0xE0) OR 28, fu_header (h AND 0x1F) (offset = 0) last] @
      sub_list offset (offset + chunk) data"
    have c: "0 < chunk" "offset + chunk \<le> length data" using True less.prems by (auto simp: chunk_def)
    then have lt: "length data - (offset + chunk) < length data - offset" by simp
    obtain ps where ps: "fu_fragments ((h AND 0xE0) OR 28) (h AND 0x1F) frag_max data (offset + chunk)
        (acc @ [?pkt]) = Some ((acc @ [?pkt]) @ ps)" "\<forall>q \<in> set ps. length q \<le> frag_max + 2"
      "offset + chunk < length data \<longrightarrow> (\<forall>cur qs. h264_unpack cur (ps @ qs) =
        (cur @ drop (offset + chunk) data) # h264_unpack [] qs)"
      using less.hyps [OF lt less.prems(1) c(2), of "acc @ [?pkt]"] c(1) by auto
    have "fu_fragments ((h AND 0xE0) OR 28) (h AND 0x1F) frag_max data offset acc = Some (acc @ ?pkt # ps)"
      using True ps(1) by (subst fu_fragments.simps)
        (simp add: Let_def flip: chunk_def last_def)
    moreover have "\<forall>q \<in> set (?pkt # ps). length q \<le> frag_max + 2"
      using ps(2) c by (auto simp: length_sub_list chunk_def)
    moreover have "h264_unpack cur ((?pkt # ps) @ qs) =
        ((if offset = 0 then [h] else cur) @ drop offset data) # h264_unpack [] qs" for cur qs
    proof (cases last)
      case True
      then have l: "offset + chunk = length data" using c by (simp add: last_def)
      then have "ps = []" using ps(1) by (subst (asm) fu_fragments.simps) simp
      then show ?thesis using True l
        by (simp add: Let_def fu_bits sub_list_def)
    next
      case False
      then have l: "offset + chunk < length data" by (simp add: last_def)
      have "sub_list offset (offset + chunk) data @ drop (offset + chunk) data = drop offset data"
        by (simp add: sub_list_def flip: drop_drop add: add.commute)
      then show ?thesis using False l ps(3)
        by (simp add: Let_def fu_bits)
    qed
    ultimately show ?thesis by blast
  qed
qed

subsection \<open>Packets of a frame\<close>

text \<open>Type 28 is the type of a fragment, which an encoder never gives to a NAL unit.\<close>

definition sendable :: "bytes \<Rightarrow> bool" where
  "sendable annex_b \<longleftrightarrow> (\<forall>nal \<in> set (split_annex_b annex_b). hd nal AND 0x1F \<noteq> 28)"

lemma h264_nals_returns:
  assumes "3 \<le> m" and "\<forall>nal \<in> set nals. nal \<noteq> []"
  shows "\<exists>ps. h264_nals m nals acc = Some (acc @ ps) \<and> (\<forall>q \<in> set ps. length q \<le> m) \<and>
    ((\<forall>nal \<in> set nals. hd nal AND 0x1F \<noteq> 28) \<longrightarrow> h264_unpack [] ps = nals)"
  using assms(2)
proof (induction nals arbitrary: acc)
  case (Cons nal nals)
  show ?case
  proof (cases "length nal \<le> m")
    case True
    obtain ps where "h264_nals m nals (acc @ [nal]) = Some ((acc @ [nal]) @ ps)"
      "\<forall>q \<in> set ps. length q \<le> m"
      "(\<forall>nal \<in> set nals. hd nal AND 0x1F \<noteq> 28) \<longrightarrow> h264_unpack [] ps = nals"
      using Cons.IH [of "acc @ [nal]"] Cons.prems by auto
    then show ?thesis using True Cons.prems by (intro exI [of _ "nal # ps"]) auto
  next
    case False
    obtain fs where fs: "fragment_fu_a nal m acc = Some (acc @ fs)"
      "\<forall>q \<in> set fs. length q \<le> m"
      "\<forall>cur qs. h264_unpack cur (fs @ qs) = nal # h264_unpack [] qs"
    proof -
      have m: "Suc (Suc (m - 2)) = m" using assms(1) by simp
      have "0 < m - 2" "0 < length (tl nal)" "nal = hd nal # tl nal" using assms(1) False Cons.prems by auto
      then show ?thesis
        using fu_fragments_returns [of "m - 2" 0 "tl nal" "hd nal" acc] that m
        by (auto simp: fragment_fu_a_def Let_def)
    qed
    obtain ps where "h264_nals m nals (acc @ fs) = Some ((acc @ fs) @ ps)"
      "\<forall>q \<in> set ps. length q \<le> m"
      "(\<forall>nal \<in> set nals. hd nal AND 0x1F \<noteq> 28) \<longrightarrow> h264_unpack [] ps = nals"
      using Cons.IH [of "acc @ fs"] Cons.prems by auto
    then show ?thesis using False fs Cons.prems by (intro exI [of _ "fs @ ps"]) auto
  qed
qed simp

lemma h264_packetize_spec:
  assumes "100 \<le> hp_mtu p"
  shows "\<exists>ps. h264_packetize p f = Some ps \<and> (\<forall>q \<in> set ps. length q \<le> hp_mtu p - 12) \<and>
    (sendable f \<longrightarrow> h264_unpack [] ps = split_annex_b f)"
  using h264_nals_returns [of "hp_mtu p - 12" "split_annex_b f" "[]"] assms split_annex_b_nonempty
  by (auto simp: h264_packetize_def sendable_def)

interpretation h264: payload_format
  "\<lambda>p f. map_option (Pair p) (h264_packetize p f)" "\<lambda>p. hp_mtu p - 12" "\<lambda>p. 100 \<le> hp_mtu p"
  sendable "h264_unpack []" split_annex_b
proof
  fix s s' :: h264_packetizer and f ps q
  assume u: "100 \<le> hp_mtu s"
  note spec = h264_packetize_spec [OF u, of f]
  show "\<exists>s' ps. map_option (Pair s) (h264_packetize s f) = Some (s', ps)" using spec by auto
  assume e: "map_option (Pair s) (h264_packetize s f) = Some (s', ps)"
  show "100 \<le> hp_mtu s' \<and> hp_mtu s' - 12 = hp_mtu s - 12" using e u by auto
  show "q \<in> set ps \<Longrightarrow> length q \<le> hp_mtu s - 12" using spec e by auto
  show "sendable f \<Longrightarrow> h264_unpack [] ps = split_annex_b f" using spec e by auto
qed

subsection \<open>Properties\<close>

text \<open>Annex B: when NAL units without a start code inside and without a trailing zero byte
  are each put after a 3- or 4-byte start code, splitting the stream gives back exactly the
  units, in order.\<close>

theorem annex_b_round_trip:
  assumes "\<forall>(code, nal) \<in> set units. code \<in> {start_code_3, start_code_4} \<and> annexb_clean nal"
  shows "split_annex_b (annexb_join units) = map snd units"
  using assms by (rule split_join)

theorem annex_b_round_trip_witness:
  "split_annex_b (annexb_join [(start_code_4, [0x67, 0x42]), (start_code_3, [0x65, 0x00, 0xAA])]) =
     [[0x67, 0x42], [0x65, 0x00, 0xAA]]"
  using annex_b_round_trip [of "[(start_code_4, [0x67, 0x42]), (start_code_3, [0x65, 0x00, 0xAA])]"]
  by (simp add: annexb_clean_def start_code_3_def)

text \<open>C19: Packets of an H.264 stream: with the MTU of either constructor, packetizing returns for
  every frame of a sequence, no payload exceeds the MTU less the RTP header, and a receiver
  that puts fragments together gets exactly the NAL units of each frame, provided no unit has
  the type reserved for fragments.\<close>

theorem h264_stream_reassembles:
  assumes "\<forall>f \<in> set fs. sendable f" and "p = h264_new \<or> p = h264_with_mtu mtu"
  shows "\<exists>pss. pack_all (\<lambda>p f. map_option (Pair p) (h264_packetize p f)) p fs = Some pss \<and>
    map (h264_unpack []) pss = map split_annex_b fs \<and>
    (\<forall>ps \<in> set pss. \<forall>q \<in> set ps. length q \<le> hp_mtu p - 12)"
  using h264.pack_all_reassembles [of p fs] assms by (auto simp: h264_new_def h264_with_mtu_def)

theorem h264_stream_reassembles_witness:
  "\<exists>pss. pack_all (\<lambda>p f. map_option (Pair p) (h264_packetize p f)) (h264_with_mtu 100)
     [annexb_join [(start_code_4, 0x65 # replicate 150 0xAA)]] = Some pss \<and>
    map (h264_unpack []) pss = [[0x65 # replicate 150 0xAA]]"
proof -
  have h: "\<not> has_code (replicate n 0xAA)" for n
    by (induction n) (auto simp: start_code_3_def take_Cons')
  have s: "split_annex_b (annexb_join [(start_code_4, 0x65 # replicate 150 0xAA)]) =
      [0x65 # replicate 150 0xAA]"
    by (subst split_join) (simp_all add: annexb_clean_def start_code_3_def take_Cons' h)
  then show ?thesis
    using h264_stream_reassembles [of "[annexb_join [(start_code_4, 0x65 # replicate 150 0xAA)]]"
        "h264_with_mtu 100" 100]
    by (auto simp: sendable_def)
qed

end
