(* ===== verification/Rtp_Stream.thy ===== *)
theory Rtp_Stream
  imports Rtsp_Media Vp9_Packetizer H264_Packetizer
begin

section \<open>RTP streams\<close>

text \<open>
  \<open>transport.rs\<close> of \<open>crates/vscreen-rtsp\<close>: the audio and video streams of a session, their
  RTP packets and RTCP sender reports over UDP or interleaved in the RTSP connection, the
  parser of receiver reports and the allocation of a port pair. The sockets are outside the
  model: \<open>io sent w\<close> is the error, if any, of writing \<open>w\<close> after what \<open>sent\<close> holds, and a write
  that succeeds is appended to the sent. A write that fails appends nothing (a partial write
  of a TCP frame is not modelled). Readings of the clock are arguments.
\<close>

subsection \<open>Output\<close>

datatype rtp_output =
    Udp (client_rtp_addr: string) (client_rtcp_addr: string)
  | Tcp (rtp_channel: u8) (rtcp_channel: u8)

datatype wire = Datagram (wire_to: string) (wire_data: bytes) | Stream (wire_data: bytes)

type_synonym 'e io = "wire list \<Rightarrow> wire \<Rightarrow> 'e option"

definition interleaved_frame :: "u8 \<Rightarrow> bytes \<Rightarrow> bytes" where
  "interleaved_frame channel data = [0x24, channel] @ u16_be (of_nat (length data)) @ data"

fun rtp_wire :: "rtp_output \<Rightarrow> bytes \<Rightarrow> wire" where
  "rtp_wire (Udp rtp rtcp) data = Datagram rtp data"
| "rtp_wire (Tcp rtp_ch rtcp_ch) data = Stream (interleaved_frame rtp_ch data)"

fun rtcp_wire :: "rtp_output \<Rightarrow> bytes \<Rightarrow> wire" where
  "rtcp_wire (Udp rtp rtcp) data = Datagram rtcp data"
| "rtcp_wire (Tcp rtp_ch rtcp_ch) data = Stream (interleaved_frame rtcp_ch data)"

definition write_wire :: "'e io \<Rightarrow> wire \<Rightarrow> wire list \<Rightarrow> ('e, unit) outcome \<times> wire list" where
  "write_wire io w sent = (case io sent w of None \<Rightarrow> (Ok (), sent @ [w]) | Some e \<Rightarrow> (Err e, sent))"

definition output_send_rtp :: "'e io \<Rightarrow> rtp_output \<Rightarrow> bytes \<Rightarrow> wire list \<Rightarrow> ('e, unit) outcome \<times> wire list" where
  "output_send_rtp io out data = write_wire io (rtp_wire out data)"

definition output_send_rtcp :: "'e io \<Rightarrow> rtp_output \<Rightarrow> bytes \<Rightarrow> wire list \<Rightarrow> ('e, unit) outcome \<times> wire list" where
  "output_send_rtcp io out data = write_wire io (rtcp_wire out data)"

text \<open>The argument is the datagram waiting in the RTCP socket, if there is one; the socket cuts
  it to the buffer.\<close>

fun try_recv_rtcp :: "rtp_output \<Rightarrow> bytes option \<Rightarrow> bytes option" where
  "try_recv_rtcp (Udp rtp rtcp) None = None"
| "try_recv_rtcp (Udp rtp rtcp) (Some d) =
     (let buf = take 512 d in if 8 \<le> length buf then Some buf else None)"
| "try_recv_rtcp (Tcp rtp_ch rtcp_ch) d = None"

subsection \<open>Streams\<close>

record rtp_stream =
  rs_output :: rtp_output
  rs_ssrc :: u32
  rs_sequence_number :: u16
  rs_timestamp :: u32
  rs_health :: stream_health
  rs_cancelled :: bool
  rs_start_time :: instant
  rs_start_ntp :: u64

datatype video_packetizer = Vp9P vp9_packetizer | H264P h264_packetizer

record rtp_video_stream = rtp_stream +
  rv_timestamp_increment :: u32
  rv_packetizer :: video_packetizer
  rv_payload_type :: u8

definition audio_stream_new :: "rtp_output \<Rightarrow> u32 \<Rightarrow> instant \<Rightarrow> u64 \<Rightarrow> rtp_stream" where
  "audio_stream_new out ssrc now ntp =
     \<lparr>rs_output = out, rs_ssrc = ssrc, rs_sequence_number = 0, rs_timestamp = 0,
      rs_health = new_health now, rs_cancelled = False, rs_start_time = now, rs_start_ntp = ntp\<rparr>"

fun make_packetizer :: "video_codec \<Rightarrow> u16 \<Rightarrow> u16 \<Rightarrow> video_packetizer \<times> u8" where
  "make_packetizer Vp9 w h = (Vp9P (vp9_new w h), 96)"
| "make_packetizer H264 w h = (H264P h264_new, 96)"

definition video_stream_new ::
  "rtp_output \<Rightarrow> u32 \<Rightarrow> instant \<Rightarrow> u64 \<Rightarrow> u16 \<Rightarrow> u16 \<Rightarrow> u32 \<Rightarrow> video_codec \<Rightarrow> rtp_video_stream" where
  "video_stream_new out ssrc now ntp w h fps codec =
     (let (packetizer, payload_type) = make_packetizer codec w h in
     \<lparr>rs_output = out, rs_ssrc = ssrc, rs_sequence_number = 0, rs_timestamp = 0,
      rs_health = new_health now, rs_cancelled = False, rs_start_time = now, rs_start_ntp = ntp,
      rv_timestamp_increment = (if fps > 0 then 90000 div fps else 3000),
      rv_packetizer = packetizer, rv_payload_type = payload_type\<rparr>)"

subsection \<open>Audio packets\<close>

definition build_rtp_packet :: "rtp_stream \<Rightarrow> bytes \<Rightarrow> bytes" where
  "build_rtp_packet s payload =
     [push_bit 6 2, 111] @ u16_be (rs_sequence_number s) @ u32_be (rs_timestamp s) @
     u32_be (rs_ssrc s) @ payload"

definition send_rtp ::
  "'e io \<Rightarrow> instant \<Rightarrow> bytes \<Rightarrow> rtp_stream \<Rightarrow> wire list \<Rightarrow> ('e, unit) outcome \<times> rtp_stream \<times> wire list" where
  "send_rtp io now opus_data s sent =
     (let packet = build_rtp_packet s opus_data in
      case output_send_rtp io (rs_output s) packet sent of
        (Ok _, sent') \<Rightarrow>
          (Ok (), s\<lparr>rs_sequence_number := rs_sequence_number s + 1,
             rs_timestamp := rs_timestamp s + 960,
             rs_health := record_packet_sent now (of_nat (length packet)) (rs_health s)\<rparr>, sent')
      | (Err e, sent') \<Rightarrow> (Err e, s, sent')
      | (Panic, sent') \<Rightarrow> (Panic, s, sent'))"

subsection \<open>Video packets\<close>

fun video_packetize ::
  "video_packetizer \<Rightarrow> bytes \<Rightarrow> bool \<Rightarrow> (video_packetizer \<times> bytes list) option" where
  "video_packetize (Vp9P p) data key = map_option (\<lambda>(p', ps). (Vp9P p', ps)) (vp9_packetize p data key)"
| "video_packetize (H264P p) data key = map_option (\<lambda>ps. (H264P p, ps)) (h264_packetize p data)"

fun packetizer_set_resolution :: "u16 \<Rightarrow> u16 \<Rightarrow> video_packetizer \<Rightarrow> video_packetizer" where
  "packetizer_set_resolution w h (Vp9P p) = Vp9P (vp9_set_resolution w h p)"
| "packetizer_set_resolution w h (H264P p) = H264P p"

definition build_video_rtp_packet :: "rtp_video_stream \<Rightarrow> bytes \<Rightarrow> bool \<Rightarrow> bytes" where
  "build_video_rtp_packet s payload marker =
     [push_bit 6 2, (if marker then 0x80 else 0) OR rv_payload_type s] @
     u16_be (rs_sequence_number s) @ u32_be (rs_timestamp s) @ u32_be (rs_ssrc s) @ payload"

text \<open>The loop of \<open>send_frame\<close>: \<open>i\<close> counts the packets, and \<open>clock i\<close> is the time read after
  packet \<open>i\<close> was sent.\<close>

fun send_payloads ::
  "'e io \<Rightarrow> (nat \<Rightarrow> instant) \<Rightarrow> nat \<Rightarrow> nat \<Rightarrow> bytes list \<Rightarrow> rtp_video_stream \<Rightarrow> wire list \<Rightarrow>
   ('e, unit) outcome \<times> rtp_video_stream \<times> wire list" where
  "send_payloads io clock num i [] s sent = (Ok (), s, sent)"
| "send_payloads io clock num i (payload # payloads) s sent =
     (let packet = build_video_rtp_packet s payload (i = num - 1) in
      case output_send_rtp io (rs_output s) packet sent of
        (Ok _, sent') \<Rightarrow>
          send_payloads io clock num (i + 1) payloads
            (s\<lparr>rs_health := record_packet_sent (clock i) (of_nat (length packet)) (rs_health s),
               rs_sequence_number := rs_sequence_number s + 1\<rparr>) sent'
      | (Err e, sent') \<Rightarrow> (Err e, s, sent')
      | (Panic, sent') \<Rightarrow> (Panic, s, sent'))"

definition send_frame ::
  "'e io \<Rightarrow> (nat \<Rightarrow> instant) \<Rightarrow> bytes \<Rightarrow> bool \<Rightarrow> rtp_video_stream \<Rightarrow> wire list \<Rightarrow>
   (('e, unit) outcome \<times> rtp_video_stream \<times> wire list) option" where
  "send_frame io clock frame key s sent =
     (case video_packetize (rv_packetizer s) frame key of
        None \<Rightarrow> None
      | Some (p, payloads) \<Rightarrow>
          Some (case send_payloads io clock (length payloads) 0 payloads (s\<lparr>rv_packetizer := p\<rparr>) sent of
              (Ok _, s', sent') \<Rightarrow>
                (Ok (), s'\<lparr>rs_timestamp := rs_timestamp s' + rv_timestamp_increment s'\<rparr>, sent')
            | (Err e, s', sent') \<Rightarrow> (Err e, s', sent')
            | (Panic, s', sent') \<Rightarrow> (Panic, s', sent')))"

definition stream_set_resolution :: "u16 \<Rightarrow> u16 \<Rightarrow> rtp_video_stream \<Rightarrow> rtp_video_stream" where
  "stream_set_resolution w h s = s\<lparr>rv_packetizer := packetizer_set_resolution w h (rv_packetizer s)\<rparr>"

subsection \<open>RTCP\<close>

text \<open>Both streams build their sender report the same way; \<open>now\<close> is the reading of the clock.\<close>

definition build_sender_report :: "bool \<Rightarrow> instant \<Rightarrow> 'a rtp_stream_scheme \<Rightarrow> ('e, bytes) outcome" where
  "build_sender_report checks now s =
     (let gone = elapsed now (rs_start_time s);
          as_secs = of_int (gone div 1000000000) :: u64;
          subsec_millis = of_int (gone mod 1000000000 div 1000000) :: u32
      in and_then (add_ovf checks (rs_start_ntp s) as_secs) (\<lambda>secs.
         and_then (mul_ovf checks subsec_millis 4294967) (\<lambda>ntp_frac.
           Ok ([push_bit 6 2, 200] @ u16_be 6 @ u32_be (rs_ssrc s) @
             u32_be (ucast secs) @ u32_be ntp_frac @ u32_be (rs_timestamp s) @
             u32_be (ucast (sh_packets_sent (rs_health s))) @
             u32_be (ucast (sh_bytes_sent (rs_health s)))))))"

definition send_sender_report ::
  "bool \<Rightarrow> 'e io \<Rightarrow> instant \<Rightarrow> 'a rtp_stream_scheme \<Rightarrow> wire list \<Rightarrow> ('e, unit) outcome \<times> wire list" where
  "send_sender_report checks io now s sent =
     (case build_sender_report checks now s of
        Ok sr \<Rightarrow> output_send_rtcp io (rs_output s) sr sent
      | Err e \<Rightarrow> (Err e, sent)
      | Panic \<Rightarrow> (Panic, sent))"

record receiver_report =
  rr_ssrc :: u32
  rr_fraction_lost :: rat
  rr_cumulative_lost :: u32
  rr_jitter_ms :: rat

definition parse_receiver_report_with_clock :: "bytes \<Rightarrow> u32 \<Rightarrow> receiver_report option" where
  "parse_receiver_report_with_clock data clock_rate =
     (if length data < 32 then None
      else if data ! 1 \<noteq> 201 then None
      else
        (let ssrc = u32_of_be (data ! 8) (data ! 9) (data ! 10) (data ! 11);
             fraction_lost = of_nat (unat (data ! 12)) / 256;
             cumulative_lost = push_bit 16 (ucast (data ! 13)) OR push_bit 8 (ucast (data ! 14)) OR
               ucast (data ! 15);
             jitter_raw = u32_of_be (data ! 20) (data ! 21) (data ! 22) (data ! 23);
             jitter_ms = of_nat (unat jitter_raw) / of_nat (unat clock_rate) * 1000
         in Some \<lparr>rr_ssrc = ssrc, rr_fraction_lost = fraction_lost,
              rr_cumulative_lost = cumulative_lost, rr_jitter_ms = jitter_ms\<rparr>))"

definition parse_receiver_report :: "bytes \<Rightarrow> receiver_report option" where
  "parse_receiver_report data = parse_receiver_report_with_clock data 48000"

text \<open>\<open>try_receive_rtcp\<close> of the audio stream (clock rate 48000) and the video stream (90000).\<close>

definition try_receive_rtcp ::
  "u32 \<Rightarrow> instant \<Rightarrow> bytes option \<Rightarrow> 'a rtp_stream_scheme \<Rightarrow> receiver_report option \<times> 'a rtp_stream_scheme" where
  "try_receive_rtcp clock_rate now datagram s =
     (case try_recv_rtcp (rs_output s) datagram of
        None \<Rightarrow> (None, s)
      | Some data \<Rightarrow>
          (case parse_receiver_report_with_clock data clock_rate of
             None \<Rightarrow> (None, s)
           | Some rr \<Rightarrow>
               (Some rr, s\<lparr>rs_health :=
                  update_from_rtcp_rr now (rr_fraction_lost rr) (rr_jitter_ms rr) (rs_health s)\<rparr>)))"

subsection \<open>Port allocation\<close>

text \<open>The results of the socket calls are arguments: the port the first probe is given, whether
  the next port can be bound, and the port a second probe is given.\<close>

definition allocate_port_pair ::
  "bool \<Rightarrow> ('e, u16) outcome \<Rightarrow> (u16 \<Rightarrow> bool) \<Rightarrow> ('e, u16) outcome \<Rightarrow> ('e, u16 \<times> u16) outcome" where
  "allocate_port_pair checks probe can_bind probe2 =
     and_then probe (\<lambda>rtp_port.
       and_then (add_ovf checks rtp_port 1) (\<lambda>rtcp_port.
         if can_bind rtcp_port then Ok (rtp_port, rtcp_port)
         else and_then probe2 (\<lambda>rtcp_port. Ok (rtp_port, rtcp_port))))"

subsection \<open>Reading a packet back\<close>

record rtp_packet =
  rp_version :: u8
  rp_marker :: bool
  rp_payload_type :: u8
  rp_sequence_number :: u16
  rp_timestamp :: u32
  rp_ssrc :: u32
  rp_payload :: bytes

definition read_rtp :: "bytes \<Rightarrow> rtp_packet" where
  "read_rtp d =
     \<lparr>rp_version = drop_bit 6 (d ! 0), rp_marker = bit (d ! 1) 7, rp_payload_type = d ! 1 AND 0x7F,
      rp_sequence_number = u16_of_be (d ! 2) (d ! 3),
      rp_timestamp = u32_of_be (d ! 4) (d ! 5) (d ! 6) (d ! 7),
      rp_ssrc = u32_of_be (d ! 8) (d ! 9) (d ! 10) (d ! 11), rp_payload = drop 12 d\<rparr>"

lemma u16_be_read: "u16_of_be (ucast (drop_bit 8 w)) (ucast w) = w"
  using u16_of_be_u16_be [of w] by (simp add: u16_be_def)

lemma u32_be_read:
  "u32_of_be (ucast (drop_bit 24 w)) (ucast (drop_bit 16 w)) (ucast (drop_bit 8 w)) (ucast w) = w"
  using u32_of_be_u32_be [of w] by (simp add: u32_be_def numeral_2_eq_2 numeral_3_eq_3)

lemmas be_read = u16_be_read u32_be_read

lemma marker_bits:
  assumes "(pt :: u8) AND 0x7F = pt"
  shows "bit ((if m then 0x80 else 0) OR pt) 7 = m" and "((if m then 0x80 else 0) OR pt) AND 0x7F = pt"
proof -
  have "\<not> bit (pt AND 0x7F) 7" by (simp add: bit_simps)
  then have "\<not> bit pt 7" using assms by simp
  then show "bit ((if m then 0x80 else 0) OR pt) 7 = m" by (simp add: bit_simps)
  show "((if m then 0x80 else 0) OR pt) AND 0x7F = pt"
    using assms by (simp add: bit.conj_disj_distrib2)
qed

text \<open>A seven-bit payload type leaves room for the marker.\<close>

lemma read_video_packet:
  assumes "rv_payload_type s AND 0x7F = rv_payload_type s"
  shows "read_rtp (build_video_rtp_packet s payload marker) =
    \<lparr>rp_version = 2, rp_marker = marker, rp_payload_type = rv_payload_type s,
     rp_sequence_number = rs_sequence_number s, rp_timestamp = rs_timestamp s,
     rp_ssrc = rs_ssrc s, rp_payload = payload\<rparr>"
  using marker_bits [OF assms]
  by (simp add: read_rtp_def build_video_rtp_packet_def u16_be_def u32_be_def be_read)

lemma read_audio_packet:
  "read_rtp (build_rtp_packet s payload) =
    \<lparr>rp_version = 2, rp_marker = False, rp_payload_type = 111,
     rp_sequence_number = rs_sequence_number s, rp_timestamp = rs_timestamp s,
     rp_ssrc = rs_ssrc s, rp_payload = payload\<rparr>"
  by (simp add: read_rtp_def build_rtp_packet_def u16_be_def u32_be_def be_read)

subsection \<open>The packets of a frame\<close>

lemma write_wire_cases:
  obtains (sent) "write_wire io w sent = (Ok (), sent @ [w])"
  | (failed) e where "write_wire io w sent = (Err e, sent)"
  unfolding write_wire_def by (cases "io sent w") auto

definition frame_packet :: "rtp_video_stream \<Rightarrow> bytes list \<Rightarrow> nat \<Rightarrow> bytes" where
  "frame_packet s ps j =
     build_video_rtp_packet (s\<lparr>rs_sequence_number := rs_sequence_number s + of_nat j\<rparr>) (ps ! j)
       (j = length ps - 1)"

lemma build_video_rtp_packet_health [simp]:
  "build_video_rtp_packet (rs_health_update f s) p m = build_video_rtp_packet s p m"
  "build_video_rtp_packet (rs_sequence_number_update g (rs_health_update f s)) p m =
     build_video_rtp_packet (rs_sequence_number_update g s) p m"
  by (simp_all add: build_video_rtp_packet_def)

lemma send_payloads_spec:
  assumes "send_payloads io clock num i ps s sent = (r, s', sent')"
  shows "\<exists>k \<le> length ps.
    sent' = sent @ map (\<lambda>j. rtp_wire (rs_output s) (build_video_rtp_packet
      (s\<lparr>rs_sequence_number := rs_sequence_number s + of_nat j\<rparr>) (ps ! j) (i + j = num - 1))) [0..<k] \<and>
    (r = Ok () \<longleftrightarrow> k = length ps) \<and> r \<noteq> Panic \<and>
    s' = s\<lparr>rs_sequence_number := rs_sequence_number s + of_nat k, rs_health := rs_health s'\<rparr> \<and>
    sh_packets_sent (rs_health s') = sh_packets_sent (rs_health s) + of_nat k"
  using assms
proof (induction ps arbitrary: i s sent)
  case Nil
  then show ?case by auto
next
  case (Cons p ps)
  let ?pkt = "build_video_rtp_packet s p (i = num - 1)"
  let ?w = "rtp_wire (rs_output s) ?pkt"
  let ?s1 = "s\<lparr>rs_health := record_packet_sent (clock i) (of_nat (length ?pkt)) (rs_health s),
      rs_sequence_number := rs_sequence_number s + 1\<rparr>"
  show ?case
  proof (cases rule: write_wire_cases [of io ?w sent])
    case sent
    obtain k where k: "k \<le> length ps"
      "sent' = (sent @ [?w]) @ map (\<lambda>j. rtp_wire (rs_output s) (build_video_rtp_packet
         (s\<lparr>rs_sequence_number := rs_sequence_number s + 1 + of_nat j\<rparr>) (ps ! j) (i + 1 + j = num - 1))) [0..<k]"
      "r = Ok () \<longleftrightarrow> k = length ps" "r \<noteq> Panic"
      "s' = ?s1\<lparr>rs_sequence_number := rs_sequence_number s + 1 + of_nat k, rs_health := rs_health s'\<rparr>"
      "sh_packets_sent (rs_health s') = sh_packets_sent (rs_health s) + 1 + of_nat k"
      using Cons.IH [of "i + 1" ?s1 "sent @ [?w]"] Cons.prems sent
      by (auto simp: output_send_rtp_def Let_def record_packet_sent_def)
    have u: "[0..<Suc k] = 0 # map Suc [0..<k]" by (metis map_Suc_upt upt_conv_Cons zero_less_Suc)
    show ?thesis
      by (rule exI [of _ "Suc k"]) (use k in \<open>auto simp: u ac_simps simp del: upt_Suc\<close>)
  next
    case (failed e)
    then show ?thesis using Cons.prems
      by (intro exI [of _ 0]) (auto simp: output_send_rtp_def Let_def)
  qed
qed

lemma send_frame_spec:
  assumes "send_frame io clock f key s sent = Some (r, s', sent')"
    and "video_packetize (rv_packetizer s) f key = Some (p, ps)"
  shows "\<exists>k \<le> length ps.
    sent' = sent @ map (\<lambda>j. rtp_wire (rs_output s) (frame_packet s ps j)) [0..<k] \<and>
    (r = Ok () \<longleftrightarrow> k = length ps) \<and> r \<noteq> Panic \<and>
    s' = s\<lparr>rs_sequence_number := rs_sequence_number s + of_nat k, rs_health := rs_health s',
      rv_packetizer := p,
      rs_timestamp := rs_timestamp s + (if r = Ok () then rv_timestamp_increment s else 0)\<rparr> \<and>
    sh_packets_sent (rs_health s') = sh_packets_sent (rs_health s) + of_nat k"
proof -
  let ?s = "s\<lparr>rv_packetizer := p\<rparr>"
  obtain r1 s1 sent1 where l: "send_payloads io clock (length ps) 0 ps ?s sent = (r1, s1, sent1)"
    by (cases "send_payloads io clock (length ps) 0 ps ?s sent") auto
  have b: "build_video_rtp_packet (?s\<lparr>rs_sequence_number := n\<rparr>) = build_video_rtp_packet (s\<lparr>rs_sequence_number := n\<rparr>)" for n
    by (intro ext) (simp add: build_video_rtp_packet_def)
  obtain k where k: "k \<le> length ps"
    "sent1 = sent @ map (\<lambda>j. rtp_wire (rs_output s) (frame_packet s ps j)) [0..<k]"
    "r1 = Ok () \<longleftrightarrow> k = length ps" "r1 \<noteq> Panic"
    "s1 = ?s\<lparr>rs_sequence_number := rs_sequence_number s + of_nat k, rs_health := rs_health s1\<rparr>"
    "sh_packets_sent (rs_health s1) = sh_packets_sent (rs_health s) + of_nat k"
    using send_payloads_spec [OF l] by (auto simp: frame_packet_def b)
  show ?thesis
    by (rule exI [of _ k], use assms l k in \<open>cases r1; cases s; cases s1; cases s'\<close>)
      (auto simp: send_frame_def)
qed

subsection \<open>The packets of a stream\<close>

text \<open>The frames of a stream, sent one after the other until one fails; \<open>clock n\<close> is the clock
  while frame \<open>n\<close> is sent.\<close>

fun send_frames ::
  "'e io \<Rightarrow> (nat \<Rightarrow> nat \<Rightarrow> instant) \<Rightarrow> nat \<Rightarrow> (bytes \<times> bool) list \<Rightarrow> rtp_video_stream \<Rightarrow> wire list \<Rightarrow>
   (('e, unit) outcome \<times> rtp_video_stream \<times> wire list) option" where
  "send_frames io clock n [] s sent = Some (Ok (), s, sent)"
| "send_frames io clock n (f # fs) s sent =
     (case send_frame io (clock n) (fst f) (snd f) s sent of
        Some (Ok _, s', sent') \<Rightarrow> send_frames io clock (n + 1) fs s' sent'
      | r \<Rightarrow> r)"

definition wire_packet :: "wire \<Rightarrow> rtp_packet" where
  "wire_packet w = (case w of Datagram a d \<Rightarrow> read_rtp d | Stream d \<Rightarrow> read_rtp (drop 4 d))"

lemma wire_packet_rtp [simp]: "wire_packet (rtp_wire out d) = read_rtp d"
  by (cases out) (simp_all add: wire_packet_def interleaved_frame_def u16_be_def)

text \<open>What a receiver gets from the payloads of a frame, and what it should get.\<close>

fun video_unpack :: "video_codec \<Rightarrow> bytes list \<Rightarrow> bytes list" where
  "video_unpack Vp9 ps = [vp9_unpack ps]"
| "video_unpack H264 ps = h264_unpack [] ps"

fun video_content :: "video_codec \<Rightarrow> bytes \<Rightarrow> bytes list" where
  "video_content Vp9 f = [f]"
| "video_content H264 f = split_annex_b f"

fun packetizer_ok :: "video_codec \<Rightarrow> video_packetizer \<Rightarrow> bool" where
  "packetizer_ok Vp9 (Vp9P p) \<longleftrightarrow> vp_mtu p = 1200"
| "packetizer_ok H264 (H264P p) \<longleftrightarrow> hp_mtu p = 1200"
| "packetizer_ok _ _ \<longleftrightarrow> False"

lemma video_packetize_spec:
  assumes "packetizer_ok codec p"
  shows "\<exists>p' ps. video_packetize p f key = Some (p', ps) \<and> packetizer_ok codec p' \<and>
    (\<forall>q \<in> set ps. length q \<le> 1200) \<and>
    (codec = Vp9 \<or> sendable f \<longrightarrow> video_unpack codec ps = video_content codec f)"
proof (cases p)
  case (Vp9P v)
  then have v: "codec = Vp9" "vp_mtu v = 1200" using assms by (cases codec; simp)+
  then show ?thesis using vp9_packetize_spec [of v f key] Vp9P by auto
next
  case (H264P h)
  then have h: "codec = H264" "hp_mtu h = 1200" using assms by (cases codec; simp)+
  then obtain ps where "h264_packetize h f = Some ps" "\<forall>q \<in> set ps. length q \<le> 1188"
    "sendable f \<longrightarrow> h264_unpack [] ps = split_annex_b f"
    using h264_packetize_spec [of h f] by auto
  then show ?thesis using H264P h by fastforce
qed

lemma make_packetizer_ok: "packetizer_ok codec (fst (make_packetizer codec w h))"
  by (cases codec) (simp_all add: vp9_new_def h264_new_def)

text \<open>A frame sent over a link that works.\<close>

lemma send_frame_works:
  assumes "\<And>sent w. io sent w = None" and "packetizer_ok codec (rv_packetizer s)"
    and "rv_payload_type s = 96"
  obtains p ps s' where "video_packetize (rv_packetizer s) f key = Some (p, ps)"
    "send_frame io clock f key s sent =
       Some (Ok (), s', sent @ map (\<lambda>j. rtp_wire (rs_output s) (frame_packet s ps j)) [0..<length ps])"
    "rs_sequence_number s' = rs_sequence_number s + of_nat (length ps)"
    "rs_timestamp s' = rs_timestamp s + rv_timestamp_increment s"
    "packetizer_ok codec (rv_packetizer s')" "rv_payload_type s' = 96" "rs_output s' = rs_output s"
    "rv_timestamp_increment s' = rv_timestamp_increment s"
    "codec = Vp9 \<or> sendable f \<longrightarrow> video_unpack codec ps = video_content codec f"
proof -
  obtain p ps where p: "video_packetize (rv_packetizer s) f key = Some (p, ps)" "packetizer_ok codec p"
    "codec = Vp9 \<or> sendable f \<longrightarrow> video_unpack codec ps = video_content codec f"
    using video_packetize_spec [OF assms(2)] by blast
  have ok: "fst (send_payloads io clock num i qs st sent) = Ok ()" for num i qs st sent
    by (induction qs arbitrary: i st sent)
      (simp_all add: Let_def output_send_rtp_def write_wire_def assms(1))
  obtain s' sent' where f: "send_frame io clock f key s sent = Some (Ok (), s', sent')"
    using ok [of "length ps" 0 ps "s\<lparr>rv_packetizer := p\<rparr>" sent] p(1)
    by (cases "send_payloads io clock (length ps) 0 ps (s\<lparr>rv_packetizer := p\<rparr>) sent")
      (auto simp: send_frame_def)
  from send_frame_spec [OF f p(1)]
  have e: "sent' = sent @ map (\<lambda>j. rtp_wire (rs_output s) (frame_packet s ps j)) [0..<length ps]"
    "s' = s\<lparr>rs_sequence_number := rs_sequence_number s + of_nat (length ps), rs_health := rs_health s',
      rv_packetizer := p, rs_timestamp := rs_timestamp s + rv_timestamp_increment s\<rparr>"
    by auto
  show thesis
    by (rule that [OF p(1) f [unfolded e(1)] _ _ _ _ _ _ p(3)]; subst e(2); use p(2) assms(3) in simp)
qed

lemma read_frame_packet:
  assumes "rv_payload_type s = 96"
  shows "read_rtp (frame_packet s ps j) =
    \<lparr>rp_version = 2, rp_marker = (j = length ps - 1), rp_payload_type = 96,
     rp_sequence_number = rs_sequence_number s + of_nat j, rp_timestamp = rs_timestamp s,
     rp_ssrc = rs_ssrc s, rp_payload = ps ! j\<rparr>"
  using assms by (simp add: frame_packet_def read_video_packet)

lemma map_nth_upt: "map (\<lambda>j. xs ! j) [0..<length xs] = xs"
  by (simp add: map_nth)

lemma seq_append:
  "map (\<lambda>j. (a :: 'a::len word) + of_nat j) [0..<m] @ map (\<lambda>j. a + of_nat m + of_nat j) [0..<n] =
   map (\<lambda>j. a + of_nat j) [0..<m + n]"
proof -
  have "map (\<lambda>j. a + of_nat m + of_nat j) [0..<n] = map (\<lambda>j. a + of_nat j) (map (\<lambda>j. j + m) [0..<n])"
    by (simp add: ac_simps)
  also have "map (\<lambda>j. j + m) [0..<n] = [m..<m + n]" by (simp add: map_add_upt add.commute)
  finally show ?thesis by (simp flip: upt_add_eq_append map_append)
qed

lemma send_frames_deliver:
  assumes "\<And>sent w. io sent w = None" and "packetizer_ok codec (rv_packetizer s)"
    and "rv_payload_type s = 96" and "codec = Vp9 \<or> (\<forall>f \<in> set fs. sendable (fst f))"
  shows "\<exists>s' groups. send_frames io clock n fs s sent = Some (Ok (), s', sent @ concat groups) \<and>
    map (\<lambda>g. video_unpack codec (map (rp_payload \<circ> wire_packet) g)) groups =
      map (video_content codec \<circ> fst) fs \<and>
    map (rp_sequence_number \<circ> wire_packet) (concat groups) =
      map (\<lambda>j. rs_sequence_number s + of_nat j) [0..<length (concat groups)] \<and>
    (\<forall>i < length groups. \<forall>w \<in> set (groups ! i).
      rp_timestamp (wire_packet w) = rs_timestamp s + of_nat i * rv_timestamp_increment s)"
  using assms(2-4)
proof (induction fs arbitrary: n s sent)
  case Nil
  then show ?case by (intro exI [of _ s] exI [of _ "[]"]) simp
next
  case (Cons f fs)
  obtain p ps s1 where p: "video_packetize (rv_packetizer s) (fst f) (snd f) = Some (p, ps)"
    "send_frame io (clock n) (fst f) (snd f) s sent =
       Some (Ok (), s1, sent @ map (\<lambda>j. rtp_wire (rs_output s) (frame_packet s ps j)) [0..<length ps])"
    "rs_sequence_number s1 = rs_sequence_number s + of_nat (length ps)"
    "rs_timestamp s1 = rs_timestamp s + rv_timestamp_increment s"
    "packetizer_ok codec (rv_packetizer s1)" "rv_payload_type s1 = 96" "rs_output s1 = rs_output s"
    "rv_timestamp_increment s1 = rv_timestamp_increment s"
    "codec = Vp9 \<or> sendable (fst f) \<longrightarrow> video_unpack codec ps = video_content codec (fst f)"
    by (rule send_frame_works [OF assms(1) Cons.prems(1,2), where f = "fst f" and key = "snd f"])
  define g where "g = map (\<lambda>j. rtp_wire (rs_output s) (frame_packet s ps j)) [0..<length ps]"
  have g: "map wire_packet g = map (\<lambda>j. read_rtp (frame_packet s ps j)) [0..<length ps]"
    by (simp add: g_def)
  have gs: "map (rp_sequence_number \<circ> wire_packet) g = map (\<lambda>j. rs_sequence_number s + of_nat j) [0..<length ps]"
    "map (rp_payload \<circ> wire_packet) g = ps" "length g = length ps"
    "\<forall>w \<in> set g. rp_timestamp (wire_packet w) = rs_timestamp s"
    using Cons.prems(2) by (auto simp: g_def read_frame_packet map_nth_upt comp_def)
  have pr: "codec = Vp9 \<or> (\<forall>f \<in> set fs. sendable (fst f))" using Cons.prems(3) by auto
  obtain s' groups where r: "send_frames io clock (n + 1) fs s1 (sent @ g) = Some (Ok (), s', (sent @ g) @ concat groups)"
    "map (\<lambda>g. video_unpack codec (map (rp_payload \<circ> wire_packet) g)) groups = map (video_content codec \<circ> fst) fs"
    "map (rp_sequence_number \<circ> wire_packet) (concat groups) =
      map (\<lambda>j. rs_sequence_number s1 + of_nat j) [0..<length (concat groups)]"
    "\<forall>i < length groups. \<forall>w \<in> set (groups ! i).
      rp_timestamp (wire_packet w) = rs_timestamp s1 + of_nat i * rv_timestamp_increment s1"
    using Cons.IH [OF p(5,6) pr, of "n + 1" "sent @ g"] by blast
  have "rp_timestamp (wire_packet w) = rs_timestamp s + of_nat i * rv_timestamp_increment s"
    if i: "i < length (g # groups)" "w \<in> set ((g # groups) ! i)" for i w
  proof (cases i)
    case 0
    then show ?thesis using gs(4) i by simp
  next
    case (Suc m)
    then have "rp_timestamp (wire_packet w) = rs_timestamp s1 + of_nat m * rv_timestamp_increment s1"
      using r(4) i by simp
    then show ?thesis unfolding p(4,8) Suc by (simp add: distrib_right add.assoc)
  qed
  then have "\<forall>i < length (g # groups). \<forall>w \<in> set ((g # groups) ! i).
      rp_timestamp (wire_packet w) = rs_timestamp s + of_nat i * rv_timestamp_increment s"
    by blast
  moreover have "map (rp_sequence_number \<circ> wire_packet) (concat (g # groups)) =
      map (\<lambda>j. rs_sequence_number s + of_nat j) [0..<length (concat (g # groups))]"
    using r(3) gs(1,3) p(3) seq_append [of "rs_sequence_number s" "length ps" "length (concat groups)"]
    by simp
  moreover have "map (\<lambda>g. video_unpack codec (map (rp_payload \<circ> wire_packet) g)) (g # groups) =
      map (video_content codec \<circ> fst) (f # fs)"
    using r(2) gs(2) p(9) Cons.prems(3) by auto
  moreover have "send_frames io clock n (f # fs) s sent = Some (Ok (), s', sent @ concat (g # groups))"
    using p(2) r(1) by (simp add: g_def [symmetric])
  ultimately show ?case by blast
qed

subsection \<open>Properties\<close>

text \<open>Sending one video frame: the packets written are an initial part of the packets of the
  frame, all of them exactly if the result is \<open>Ok\<close>. Packet \<open>j\<close> has the marker exactly if it is
  the last of the frame, the stream's sequence number plus \<open>j\<close>, the one time stamp and SSRC of
  the stream, and payload \<open>j\<close>. Afterwards the sequence number counts the packets written, and
  the time stamp has gone on by one frame exactly if all were.\<close>

theorem send_frame_packets:
  assumes "rv_payload_type s = 96" and "send_frame io clock f key s sent = Some (r, s', sent')"
  shows "\<exists>p ps k. video_packetize (rv_packetizer s) f key = Some (p, ps) \<and> k \<le> length ps \<and>
    (r = Ok () \<longleftrightarrow> k = length ps) \<and> r \<noteq> Panic \<and>
    take (length sent) sent' = sent \<and>
    map wire_packet (drop (length sent) sent') =
      map (\<lambda>j. \<lparr>rp_version = 2, rp_marker = (j = length ps - 1), rp_payload_type = 96,
        rp_sequence_number = rs_sequence_number s + of_nat j, rp_timestamp = rs_timestamp s,
        rp_ssrc = rs_ssrc s, rp_payload = ps ! j\<rparr>) [0..<k] \<and>
    rs_sequence_number s' = rs_sequence_number s + of_nat k \<and>
    rs_timestamp s' = rs_timestamp s + (if r = Ok () then rv_timestamp_increment s else 0)"
proof -
  obtain p ps where p: "video_packetize (rv_packetizer s) f key = Some (p, ps)"
    using assms(2) by (auto simp: send_frame_def split: option.splits)
  obtain k where k: "k \<le> length ps" "r = Ok () \<longleftrightarrow> k = length ps" "r \<noteq> Panic"
    "sent' = sent @ map (\<lambda>j. rtp_wire (rs_output s) (frame_packet s ps j)) [0..<k]"
    "s' = s\<lparr>rs_sequence_number := rs_sequence_number s + of_nat k, rs_health := rs_health s',
      rv_packetizer := p,
      rs_timestamp := rs_timestamp s + (if r = Ok () then rv_timestamp_increment s else 0)\<rparr>"
    using send_frame_spec [OF assms(2) p] by blast
  have "rs_sequence_number s' = rs_sequence_number s + of_nat k"
    "rs_timestamp s' = rs_timestamp s + (if r = Ok () then rv_timestamp_increment s else 0)"
    by (subst k(5); simp)+
  then show ?thesis
    using p k(1-4) assms(1) by (intro exI [of _ p] exI [of _ ps] exI [of _ k])
      (simp add: read_frame_packet)
qed

definition example_stream :: rtp_video_stream where
  "example_stream = video_stream_new (Tcp 0 1) 7 0 0 640 480 30 Vp9"

theorem send_frame_packets_witness:
  "\<exists>s' sent'. send_frame (\<lambda>sent w. if sent = [] then None else Some ''closed'') (\<lambda>_. 0)
      (replicate 3000 5) True example_stream [] = Some (Err ''closed'', s', sent') \<and>
    rs_timestamp s' = 0"
proof -
  let ?io = "\<lambda>sent w. if sent = [] then None else Some ''closed''"
  let ?f = "replicate 3000 5 :: bytes"
  have s: "rv_payload_type example_stream = 96" "rv_packetizer example_stream = Vp9P (vp9_new 640 480)"
    "rs_timestamp example_stream = 0"
    by (simp_all add: example_stream_def video_stream_new_def)
  obtain p ps where p: "vp9_packetize (vp9_new 640 480) ?f True = Some (p, ps)" "ps \<noteq> []"
    "\<forall>q \<in> set ps. length q \<le> 1200" "vp9_unpack ps = ?f"
    using vp9_packetize_spec [of "vp9_new 640 480" ?f True] by (auto simp: vp9_new_def)
  have "length ps \<noteq> 1"
  proof
    assume "length ps = 1"
    then obtain q where q: "ps = [q]" by (cases ps) auto
    then have "?f = vp9_strip q" using p(4) by (simp add: vp9_unpack_def)
    then have "length ?f \<le> length q" unfolding vp9_strip_def by (simp only: length_drop)
    then show False using p(3) q by simp
  qed
  then obtain a b qs where ps: "ps = a # b # qs" using p(2) by (cases ps; cases "tl ps") auto
  obtain e s' sent' where f: "send_frame ?io (\<lambda>_. 0) ?f True example_stream [] = Some (Err e, s', sent')"
    "e = ''closed''"
    using p(1) ps by (simp add: send_frame_def s Let_def output_send_rtp_def write_wire_def)
  from send_frame_packets [OF s(1) f(1)] f s(3) show ?thesis by auto
qed

text \<open>A video stream over a link that works: for any sequence of frames, sending returns, and
  what was written falls into one group of packets per frame from which a receiver gets the
  content of the frame (the frame for VP9, its NAL units for H.264, unless one has the type
  reserved for fragments). Sequence numbers count up from 0 over the whole stream, and frame
  \<open>i\<close> has the time stamp \<open>i * (90000 div fps)\<close>, modulo the width of the fields.\<close>

theorem video_stream_delivers:
  assumes "codec = Vp9 \<or> (\<forall>f \<in> set fs. sendable (fst f))" and "0 < fps"
  shows "\<exists>s' groups.
    send_frames (\<lambda>_ _. None) clock 0 fs (video_stream_new out ssrc now ntp w h fps codec) [] =
      Some (Ok (), s', concat groups) \<and>
    map (\<lambda>g. video_unpack codec (map (rp_payload \<circ> wire_packet) g)) groups =
      map (video_content codec \<circ> fst) fs \<and>
    map (rp_sequence_number \<circ> wire_packet) (concat groups) = map of_nat [0..<length (concat groups)] \<and>
    (\<forall>i < length groups. \<forall>p \<in> set (groups ! i).
      rp_timestamp (wire_packet p) = of_nat i * (90000 div fps))"
proof -
  let ?s = "video_stream_new out ssrc now ntp w h fps codec"
  have s: "packetizer_ok codec (rv_packetizer ?s)" "rv_payload_type ?s = 96"
    "rs_sequence_number ?s = 0" "rs_timestamp ?s = 0" "rv_timestamp_increment ?s = 90000 div fps"
    using assms(2) by (cases codec; simp add: video_stream_new_def vp9_new_def h264_new_def)+
  show ?thesis
    using send_frames_deliver [of "\<lambda>_ _. None" codec ?s fs clock 0 "[]"] s assms(1) by simp
qed

theorem video_stream_delivers_witness:
  "\<exists>s' groups.
    send_frames (\<lambda>_ _. None) (\<lambda>_ _. 0) 0 [(replicate 3000 5, True), ([1, 2], False)]
      (video_stream_new (Udp ''c:1'' ''c:2'') 7 0 0 640 480 30 Vp9) [] = Some (Ok () :: (string, unit) outcome, s', concat groups) \<and>
    map (\<lambda>g. vp9_unpack (map (rp_payload \<circ> wire_packet) g)) groups = [replicate 3000 5, [1, 2]]"
proof -
  define fs :: "(bytes \<times> bool) list" where "fs = [(replicate 3000 5, True), ([1, 2], False)]"
  have e: "map (\<lambda>x. [f x]) gs = [[a], [b]] \<Longrightarrow> map f gs = [a, b]" for f :: "wire list \<Rightarrow> bytes" and gs a b
    by (auto simp: map_eq_Cons_conv)
  obtain s' groups where g: "send_frames (\<lambda>_ _. None) (\<lambda>_ _. 0) 0 fs
      (video_stream_new (Udp ''c:1'' ''c:2'') 7 0 0 640 480 30 Vp9) [] = Some (Ok () :: (string, unit) outcome, s', concat groups)"
    "map (\<lambda>g. video_unpack Vp9 (map (rp_payload \<circ> wire_packet) g)) groups = map (video_content Vp9 \<circ> fst) fs"
    using video_stream_delivers [of Vp9 fs 30 "\<lambda>_ _. 0" "Udp ''c:1'' ''c:2''" 7 0 0 640 480] by auto
  have "map (\<lambda>g. vp9_unpack (map (rp_payload \<circ> wire_packet) g)) groups = [replicate 3000 5, [1, 2]]"
    by (rule e) (use g(2) in \<open>simp add: fs_def\<close>)
  with g(1) show ?thesis
    by (intro exI [of _ s'] exI [of _ groups] conjI) (simp_all only: fs_def)
qed

lemma unat_of_int_le: "0 \<le> x \<Longrightarrow> unat (of_int x :: 'a::len word) \<le> nat x"
proof -
  assume "0 \<le> x"
  then have "(of_int x :: 'a word) = of_nat (nat x)" by simp
  then show ?thesis by (simp only: unat_of_nat mod_less_eq_dividend)
qed

definition read_u32 :: "nat \<Rightarrow> bytes \<Rightarrow> u32" where
  "read_u32 i d = u32_of_be (d ! i) (d ! (i + 1)) (d ! (i + 2)) (d ! (i + 3))"

text \<open>Sender reports: while the clock fits the NTP field, building a report neither overflows
  nor fails in either build, and gives 28 bytes, as its length field says, from which the
  SSRC, the time stamp of the stream and its packet and byte counts are read back.\<close>

theorem sender_report_valid:
  assumes "unat (rs_start_ntp s) + nat (elapsed now (rs_start_time s) div 1000000000) < 2 ^ 64"
  shows "\<exists>sr. build_sender_report checks now s = Ok sr \<and> length sr = 28 \<and>
    4 * (unat (u16_of_be (sr ! 2) (sr ! 3)) + 1) = length sr \<and>
    read_u32 4 sr = rs_ssrc s \<and> read_u32 16 sr = rs_timestamp s \<and>
    read_u32 20 sr = ucast (sh_packets_sent (rs_health s)) \<and>
    read_u32 24 sr = ucast (sh_bytes_sent (rs_health s))"
proof -
  let ?gone = "elapsed now (rs_start_time s)"
  let ?ms = "of_int (?gone mod 1000000000 div 1000000) :: u32"
  have g: "0 \<le> ?gone" by (simp add: elapsed_def)
  have "unat (of_int (?gone div 1000000000) :: u64) \<le> nat (?gone div 1000000000)"
    using g by (intro unat_of_int_le) (simp add: pos_imp_zdiv_nonneg_iff)
  then have secs: "add_ovf checks (rs_start_ntp s) (of_int (?gone div 1000000000)) =
      Ok (rs_start_ntp s + of_int (?gone div 1000000000))"
    using assms by (intro add_ovf_fits) simp
  have "?gone mod 1000000000 div 1000000 \<le> 999" "0 \<le> ?gone mod 1000000000 div 1000000"
    by simp_all
  then have "unat ?ms \<le> 999" using unat_of_int_le [of "?gone mod 1000000000 div 1000000", where ?'a = 32] by linarith
  then have frac: "mul_ovf checks ?ms 4294967 = Ok (?ms * 4294967)"
    by (intro mul_ovf_fits) simp
  show ?thesis
    unfolding build_sender_report_def Let_def secs frac
    by (simp add: read_u32_def u16_be_def u32_be_def be_read) (simp add: u16_of_be_def)
qed

theorem sender_report_valid_witness:
  "\<exists>sr. build_sender_report True 5500000000 example_stream = Ok sr \<and> length sr = 28 \<and> read_u32 4 sr = 7"
  using sender_report_valid [of example_stream 5500000000 True]
  by (auto simp: example_stream_def video_stream_new_def vp9_new_def elapsed_def)

text \<open>Receiver reports: a datagram is taken for one exactly if it has 32 bytes and the packet
  type 201. The fraction lost is less than one, the cumulative loss less than \<open>2^24\<close>, and the
  health of the stream takes over loss and jitter exactly when a report was read; a stream
  interleaved in TCP never reads any.\<close>

theorem receiver_report_bounds:
  "case try_receive_rtcp clock_rate now datagram s of
     (None, s') \<Rightarrow> s' = s \<and>
       (\<forall>d rtp rtcp. datagram = Some d \<and> length d \<le> 512 \<and> rs_output s = Udp rtp rtcp \<longrightarrow>
         length d < 32 \<or> d ! 1 \<noteq> 201)
   | (Some rr, s') \<Rightarrow>
       s' = s\<lparr>rs_health := update_from_rtcp_rr now (rr_fraction_lost rr) (rr_jitter_ms rr) (rs_health s)\<rparr> \<and>
       0 \<le> rr_fraction_lost rr \<and> rr_fraction_lost rr < 1 \<and> unat (rr_cumulative_lost rr) < 2 ^ 24 \<and>
       (\<exists>rtp rtcp d. rs_output s = Udp rtp rtcp \<and> datagram = Some d \<and> 32 \<le> length d \<and> d ! 1 = 201)"
proof -
  have c: "unat (push_bit 16 (ucast (a :: u8)) OR push_bit 8 (ucast (b :: u8)) OR ucast (c :: u8) :: u32) < 2 ^ 24"
    for a b c
  proof -
    have "take_bit 24 (push_bit 16 (ucast a) OR push_bit 8 (ucast b) OR ucast c :: u32) =
        push_bit 16 (ucast a) OR push_bit 8 (ucast b) OR ucast c"
      by (rule bit_word_eqI) (auto simp: bit_simps dest: bit_imp_le_length [where ?'a = 8])
    moreover have "unat (take_bit 24 w) < 2 ^ 24" for w :: u32
      unfolding unsigned_take_bit_eq by (rule take_bit_nat_less_exp)
    ultimately show ?thesis by metis
  qed
  have f: "0 \<le> (unsigned x :: rat)" "(unsigned x :: rat) < 256" for x :: u8
  proof -
    have "unat x < 2 ^ LENGTH(8)" by (rule unsigned_less)
    then have "(of_nat (unat x) :: rat) < of_nat 256" by (subst of_nat_less_iff) simp
    moreover have "(0 :: rat) \<le> of_nat (unat x)" by (rule of_nat_0_le_iff)
    ultimately show "0 \<le> (unsigned x :: rat)" "(unsigned x :: rat) < 256" by simp_all
  qed
  show ?thesis
  proof (cases "rs_output s")
    case (Tcp rtp_ch rtcp_ch)
    then show ?thesis by (simp add: try_receive_rtcp_def)
  next
    case (Udp rtp rtcp)
    then show ?thesis using c f
      by (cases datagram) (auto simp: try_receive_rtcp_def parse_receiver_report_with_clock_def Let_def)
  qed
qed

theorem receiver_report_bounds_witness:
  "try_receive_rtcp 90000 0 (Some (replicate 40 0))
     (example_stream\<lparr>rs_output := Udp ''c:1'' ''c:2''\<rparr>) =
   (None, example_stream\<lparr>rs_output := Udp ''c:1'' ''c:2''\<rparr>)"
  using receiver_report_bounds [where clock_rate = 90000 and now = 0 and
      datagram = "Some (replicate 40 0)" and s = "example_stream\<lparr>rs_output := Udp ''c:1'' ''c:2''\<rparr>"]
  by (auto split: prod.splits option.splits)

text \<open>Port pairs: RTCP gets the port after RTP when that can be bound and a second probe's
  port otherwise, except after port 65535, where the addition overflows: a checked build
  panics, and a release build goes on with port 0.\<close>

theorem allocate_port_pair_result:
  "allocate_port_pair checks (Ok p) can_bind (Ok q) =
     (if p = 65535 then
        (if checks then Panic else if can_bind 0 then Ok (65535, 0) else Ok (65535, q))
      else if can_bind (p + 1) then Ok (p, p + 1) else Ok (p, q))"
proof (cases "p = 65535")
  case True
  have z: "(65536 :: u16) = 0" by simp
  show ?thesis using True by (simp add: allocate_port_pair_def add_ovf_def z)
next
  case False
  then have "unat p \<noteq> unat (65535 :: u16)" by (metis word_unat_eq_iff)
  moreover have "unat p < 2 ^ LENGTH(16)" by (rule unsigned_less)
  ultimately have "unat p + unat (1 :: u16) < 2 ^ LENGTH(16)" by simp
  then show ?thesis using False by (simp add: allocate_port_pair_def add_ovf_fits)
qed

end
