(* ===== verification/Utf8_Lossy.thy ===== *)
theory Utf8_Lossy
  imports Rust_Str
begin

section \<open>Lossy decoding\<close>

text \<open>
  \<open>String::from_utf8_lossy\<close> of the standard library: valid sequences are kept, and each longest prefix of a sequence
  that cannot be completed is replaced by U+FFFD. \<open>utf8_chunk\<close> is the length of the first
  chunk and whether it is valid.
\<close>

definition second_ok :: "char \<Rightarrow> char \<Rightarrow> bool" where
  "second_ok a b =
     (if byte_in 194 223 a then is_cont b
      else if of_char a = (224 :: nat) then byte_in 160 191 b
      else if of_char a = (237 :: nat) then byte_in 128 159 b
      else if byte_in 225 239 a then is_cont b
      else if of_char a = (240 :: nat) then byte_in 144 191 b
      else if byte_in 241 243 a then is_cont b
      else of_char a = (244 :: nat) \<and> byte_in 128 143 b)"

definition seq_width :: "char \<Rightarrow> nat" where
  "seq_width a =
     (if byte_in 0 127 a then 1 else if byte_in 194 223 a then 2
      else if byte_in 224 239 a then 3 else if byte_in 240 244 a then 4 else 0)"

definition utf8_chunk :: "char \<Rightarrow> string \<Rightarrow> nat \<times> bool" where
  "utf8_chunk a s =
     (let w = seq_width a in
      if w \<le> 1 then (1, w = 1)
      else
        (case s of
           [] \<Rightarrow> (1, False)
         | b # s2 \<Rightarrow>
             if \<not> second_ok a b then (1, False)
             else if w = 2 then (2, True)
             else
               (case s2 of
                  [] \<Rightarrow> (2, False)
                | c # s3 \<Rightarrow>
                    if \<not> is_cont c then (2, False)
                    else if w = 3 then (3, True)
                    else
                      (case s3 of
                         [] \<Rightarrow> (3, False)
                       | d # _ \<Rightarrow> if is_cont d then (4, True) else (3, False)))))"

definition replacement :: string where
  "replacement = [CHR 0xEF, CHR 0xBF, CHR 0xBD]"

lemma utf8_chunk_pos: "1 \<le> fst (utf8_chunk a s)"
  by (auto simp: utf8_chunk_def Let_def split: list.split)

function utf8_lossy :: "string \<Rightarrow> string" where
  "utf8_lossy [] = []"
| "utf8_lossy (a # s) =
     (let (n, ok) = utf8_chunk a s in
      (if ok then take n (a # s) else replacement) @ utf8_lossy (drop n (a # s)))"
  by pat_completeness auto
termination
proof (relation "measure length")
  fix a s n ok x
  assume "x = utf8_chunk a s" "(n, ok) = x"
  then have "1 \<le> n" using utf8_chunk_pos [of a s] by (metis fst_conv)
  then show "(drop n (a # s), a # s) \<in> measure length" by simp
qed simp

lemma utf8_lossy_ascii: "is_ascii s \<Longrightarrow> utf8_lossy s = s"
  by (induction s) (simp_all add: is_ascii_def utf8_chunk_def seq_width_def)

text \<open>Valid text is kept.\<close>

lemma valid_chunk:
  assumes "utf8_valid (a # s)"
  obtains n where "utf8_chunk a s = (n, True)" and "utf8_valid (drop n (a # s))"
proof -
  consider (1) "byte_in 0 127 a" | (2) "byte_in 194 223 a" | (3) "byte_in 224 239 a" | (4) "byte_in 240 244 a"
    using assms by (auto split: if_splits)
  then show thesis
  proof cases
    case 1
    then have "seq_width a = 1" by (simp add: seq_width_def)
    then show thesis using that [of 1] 1 assms by (simp add: utf8_chunk_def)
  next
    case 2
    then have n: "\<not> byte_in 0 127 a" and w: "seq_width a = 2" by (simp_all add: byte_in_def seq_width_def)
    obtain b t where t: "s = b # t" "is_cont b" "utf8_valid t" using assms 2 n by (auto split: list.splits)
    then have "second_ok a b" using 2 by (simp add: second_ok_def)
    then show thesis using that [of 2] t w by (simp add: utf8_chunk_def)
  next
    case 3
    then have n: "\<not> byte_in 0 127 a" "\<not> byte_in 194 223 a" and w: "seq_width a = 3"
      by (simp_all add: byte_in_def seq_width_def)
    obtain b c t where t: "s = b # c # t" "is_cont c" "utf8_valid t"
      and b: "if of_char a = (224::nat) then byte_in 160 191 b
        else if of_char a = (237::nat) then byte_in 128 159 b else is_cont b"
      using assms 3 n by (auto split: list.splits)
    have "of_char a \<noteq> (224::nat) \<Longrightarrow> byte_in 225 239 a" using 3 by (simp add: byte_in_def)
    then have "second_ok a b" using 3 n b by (auto simp: second_ok_def split: if_splits)
    then show thesis using that [of 3] t w by (simp add: utf8_chunk_def)
  next
    case 4
    then have n: "\<not> byte_in 0 127 a" "\<not> byte_in 194 223 a" "\<not> byte_in 224 239 a" and w: "seq_width a = 4"
      and o: "of_char a \<noteq> (224::nat)" "of_char a \<noteq> (237::nat)" "\<not> byte_in 225 239 a"
      by (simp_all add: byte_in_def seq_width_def)
    obtain b c d t where t: "s = b # c # d # t" "is_cont c" "is_cont d" "utf8_valid t"
      and b: "if of_char a = (240::nat) then byte_in 144 191 b
        else if of_char a = (244::nat) then byte_in 128 143 b else is_cont b"
      using assms 4 n by (auto split: list.splits)
    have "of_char a \<noteq> (240::nat) \<Longrightarrow> of_char a \<noteq> (244::nat) \<Longrightarrow> byte_in 241 243 a" using 4 by (simp add: byte_in_def)
    then have "second_ok a b" using n o b by (auto simp: second_ok_def byte_in_def split: if_splits)
    then show thesis using that [of 4] t w by (simp add: utf8_chunk_def)
  qed
qed

lemma chunk_append:
  "utf8_chunk a s = (n, True) \<Longrightarrow> utf8_chunk a (s @ t) = (n, True) \<and> n \<le> Suc (length s)"
  by (auto simp: utf8_chunk_def Let_def split: if_splits list.splits)

lemma utf8_lossy_append: "utf8_valid s \<Longrightarrow> utf8_lossy (s @ t) = s @ utf8_lossy t"
proof (induction s rule: utf8_lossy.induct)
  case (2 a s)
  obtain n where n: "utf8_chunk a s = (n, True)" "utf8_valid (drop n (a # s))"
    using "2.prems" by (rule valid_chunk)
  have l: "utf8_chunk a (s @ t) = (n, True)" "n \<le> length (a # s)" using chunk_append [OF n(1)] by simp_all
  have "utf8_lossy (drop n (a # s) @ t) = drop n (a # s) @ utf8_lossy t"
    using "2.IH" [OF n(1) [symmetric] refl n(2)] .
  moreover have "utf8_lossy ((a # s) @ t) = take n (a # s) @ utf8_lossy (drop n (a # s) @ t)"
    using l by (simp add: Cons_eq_append_conv del: drop_append)
      (metis append_Cons diff_is_0_eq drop_0 drop_append length_Cons take_append take_0 append_Nil2)
  ultimately show ?case by (metis append.assoc append_take_drop_id)
qed simp

lemma utf8_lossy_valid: "utf8_valid s \<Longrightarrow> utf8_lossy s = s"
  using utf8_lossy_append [of s "[]"] by simp

lemma utf8_lossy_concat: "list_all utf8_valid ss \<Longrightarrow> utf8_lossy (concat ss) = concat ss"
  by (induction ss) (simp_all add: utf8_lossy_append)

end
