(* ===== verification/Rtsp_Server.thy ===== *)
theory Rtsp_Server
  imports Rtsp_Effects Utf8_Lossy
begin

section \<open>The RTSP server\<close>

text \<open>
  \<open>server.rs\<close> of \<open>crates/vscreen-rtsp\<close>: one connection is served by \<open>handle_connection\<close>, which
  cuts the bytes of the client into requests and interleaved frames, and the watchdog runs
  every ten seconds. \<open>connection_turn\<close> is one round of the loop on the bytes still to come
  (a connection that stays open but silent waits there; the end of the list is the end of the
  stream), \<open>serve_connection\<close> the loop up to the end of the stream. What a turn takes from
  outside, the clock, a fresh session id and a pair of ports, is its \<open>turn_env\<close>. A write to the
  socket succeeds. The shutdown signal, which ends a connection wherever it waits, is not
  among the turns.
\<close>

subsection \<open>Reading\<close>

text \<open>\<open>read_line\<close>: up to and with the first line feed; what is left of the stream if there is none.\<close>

fun read_line :: "string \<Rightarrow> string \<times> string" where
  "read_line [] = ([], [])"
| "read_line (c # s) = (if c = LF then ([c], s) else (let (l, r) = read_line s in (c # l, r)))"

lemma read_line_append: "fst (read_line s) @ snd (read_line s) = s"
  by (induction s) (auto simp: case_prod_beta)

lemma read_line_rest: "fst (read_line s) \<noteq> [] \<Longrightarrow> length (snd (read_line s)) < length s"
  using arg_cong [OF read_line_append [of s], of length] by (cases "fst (read_line s)") simp_all

lemma read_line_shorter: "read_line s = (l, r) \<Longrightarrow> l \<noteq> [] \<Longrightarrow> length r < length s"
  using read_line_rest [of s] by simp

lemma read_line_LF: "LF \<notin> set l \<Longrightarrow> read_line (l @ LF # r) = (l @ [LF], r)"
  by (induction l) auto

datatype 'a read_result = EndOfStream | ReadError | Got 'a

text \<open>The value of \<open>content_length\<close> after a line.\<close>

definition line_length :: "string \<Rightarrow> nat \<Rightarrow> nat" where
  "line_length line cl =
     (case strip_prefix ''content-length:'' (to_lowercase line) of
        None \<Rightarrow> cl
      | Some rest \<Rightarrow> (case parse_uint 64 (trim rest) of None \<Rightarrow> cl | Some n \<Rightarrow> n))"

text \<open>The lines up to the first empty one: what is put into \<open>request_buf\<close>, the announced length,
  and the rest of the stream.\<close>

function read_head :: "string \<Rightarrow> string \<Rightarrow> nat \<Rightarrow> (string \<times> nat \<times> string) read_result" where
  "read_head input buf cl =
     (let (line, rest) = read_line input in
      if line = [] then EndOfStream
      else if \<not> utf8_valid line then ReadError
      else
        (let cl' = line_length line cl; buf' = buf @ line in
         if line = CRLF \<or> line = [LF] then Got (buf', cl', rest)
         else read_head rest buf' cl'))"
  by pat_completeness auto
termination
  by (relation "measure (\<lambda>(input, _, _). length input)") (auto dest!: sym [of "(_, _)"] dest: read_line_shorter)

declare read_head.simps [simp del]

subsection \<open>A connection\<close>

record turn_env =
  te_now :: instant
  te_fresh :: string
  te_ports :: "(u16 \<times> u16) option"

record connection =
  cn_session :: "string option"
  cn_output :: string

definition new_connection :: connection where
  "new_connection = \<lparr>cn_session = None, cn_output = []\<rparr>"

text \<open>\<open>Crashed\<close> is a panic, which ends the task of the connection, and \<open>Aborted\<close> a failed
  allocation, which ends the process.\<close>

datatype turn_result =
    Next string connection rtsp_manager
  | Ended bool
  | Crashed
  | Aborted

definition write_response :: "rtsp_response \<Rightarrow> connection \<Rightarrow> connection" where
  "write_response resp cn = cn\<lparr>cn_output := cn_output cn @ serialize resp\<rparr>"

definition bad_request :: rtsp_response where
  "bad_request = response_new 400 ''Bad Request'' 0"

text \<open>A binary frame: \<open>$\<close>, the channel, the length, and that many bytes, which are dropped.\<close>

definition frame_turn :: "turn_env \<Rightarrow> string \<Rightarrow> connection \<Rightarrow> rtsp_manager \<Rightarrow> turn_result" where
  "frame_turn te input cn m =
     (if length input < 4 then Ended False
      else
        (let len = 256 * of_char (input ! 2) + of_char (input ! 3) in
         if length input - 4 < len then Ended False
         else Next (drop (4 + len) input) cn
           (case cn_session cn of None \<Rightarrow> m | Some sid \<Rightarrow> touch (te_now te) sid m)))"

definition answer_request ::
  "handler_context \<Rightarrow> string \<Rightarrow> turn_env \<Rightarrow> rtsp_request \<Rightarrow> connection \<Rightarrow> rtsp_manager
     \<Rightarrow> (connection \<times> rtsp_manager) option" where
  "answer_request ctx addr te rq cn m =
     (case handle_request ctx (te_now te) (te_fresh te) (te_ports te) rq addr m of
        Ok (m', resp) \<Rightarrow>
          Some (write_response resp
            (case rs_session resp of None \<Rightarrow> cn | Some sid \<Rightarrow> cn\<lparr>cn_session := Some sid\<rparr>), m')
      | _ \<Rightarrow> None)"

text \<open>A text request: \<open>head\<close> and \<open>cl\<close> are what \<open>read_head\<close> gave, \<open>rest\<close> what follows.\<close>

definition request_turn ::
  "handler_context \<Rightarrow> nat \<Rightarrow> string \<Rightarrow> turn_env \<Rightarrow> string \<Rightarrow> nat \<Rightarrow> string \<Rightarrow> connection \<Rightarrow> rtsp_manager
     \<Rightarrow> turn_result" where
  "request_turn ctx mem addr te head cl rest cn m =
     (if 2 ^ 63 \<le> cl then Crashed
      else if mem < cl then Aborted
      else if length rest < cl then Ended False
      else
        (case request_parse (head @ utf8_lossy (take cl rest)) of
           Panic \<Rightarrow> Crashed
         | Err _ \<Rightarrow> Next (drop cl rest) (write_response bad_request cn) m
         | Ok rq \<Rightarrow>
             (case answer_request ctx addr te rq cn m of
                None \<Rightarrow> Crashed
              | Some (cn', m') \<Rightarrow> Next (drop cl rest) cn' m')))"

text \<open>\<open>mem\<close> is the largest buffer that can be allocated.\<close>

definition connection_turn ::
  "handler_context \<Rightarrow> nat \<Rightarrow> string \<Rightarrow> turn_env \<Rightarrow> string \<Rightarrow> connection \<Rightarrow> rtsp_manager \<Rightarrow> turn_result" where
  "connection_turn ctx mem addr te input cn m =
     (case input of
        [] \<Rightarrow> Ended True
      | c # _ \<Rightarrow>
          if c = CHR 0x24 then frame_turn te input cn m
          else
            (case read_head input [] 0 of
               EndOfStream \<Rightarrow> Ended True
             | ReadError \<Rightarrow> Ended False
             | Got (head, cl, rest) \<Rightarrow> request_turn ctx mem addr te head cl rest cn m))"

lemma read_head_rest: "read_head input buf cl = Got (h, n, rest) \<Longrightarrow> length rest < length input"
proof (induction input buf cl rule: read_head.induct)
  case (1 input buf cl)
  obtain line r where l: "read_line input = (line, r)" by fastforce
  have ne: "line \<noteq> []" using 1(2) l by (auto simp: read_head.simps [of input buf cl])
  then have less: "length r < length input" using read_line_rest [of input] l by auto
  show ?case
  proof (cases "line = CRLF \<or> line = [LF]")
    case True
    then show ?thesis using 1(2) l ne less by (auto simp: read_head.simps [of input buf cl] Let_def split: if_splits)
  next
    case False
    then have "read_head r (buf @ line) (line_length line cl) = Got (h, n, rest)"
      using 1(2) l ne by (auto simp: read_head.simps [of input buf cl] Let_def split: if_splits)
    then have "length rest < length r"
      using 1(1) [OF l [symmetric] refl ne _ refl refl False] 1(2) l ne
      by (auto simp: read_head.simps [of input buf cl] split: if_splits)
    then show ?thesis using less by simp
  qed
qed

lemma connection_turn_consumes:
  assumes "connection_turn ctx mem addr te input cn m = Next rest cn' m'"
  shows "length rest < length input"
proof (cases input)
  case (Cons c s)
  show ?thesis
  proof (cases "c = CHR 0x24")
    case True
    then show ?thesis using assms Cons
      by (auto simp: connection_turn_def frame_turn_def Let_def split: if_splits)
  next
    case False
    then obtain h cl r where r: "read_head input [] 0 = Got (h, cl, r)"
        "request_turn ctx mem addr te h cl r cn m = Next rest cn' m'"
      using assms Cons by (auto simp: connection_turn_def split: read_result.splits)
    then have "length rest \<le> length r"
      by (auto simp: request_turn_def split: if_splits outcome.splits option.splits prod.splits)
    with read_head_rest [OF r(1)] show ?thesis by simp
  qed
qed (use assms in \<open>simp add: connection_turn_def\<close>)

text \<open>The loop: turn \<open>i\<close> has the environment \<open>env i\<close>. The result is how it ended, what the
  connection was then, and the sessions.\<close>

function serve_connection ::
  "handler_context \<Rightarrow> nat \<Rightarrow> string \<Rightarrow> (nat \<Rightarrow> turn_env) \<Rightarrow> nat \<Rightarrow> string \<Rightarrow> connection \<Rightarrow> rtsp_manager
     \<Rightarrow> turn_result \<times> connection \<times> rtsp_manager" where
  "serve_connection ctx mem addr env i input cn m =
     (case connection_turn ctx mem addr (env i) input cn m of
        Next rest cn' m' \<Rightarrow> serve_connection ctx mem addr env (Suc i) rest cn' m'
      | r \<Rightarrow> (r, cn, m))"
  by pat_completeness auto
termination
  by (relation "measure (\<lambda>(ctx, mem, addr, env, i, input, cn, m). length input)")
    (auto dest: connection_turn_consumes)

declare serve_connection.simps [simp del]

subsection \<open>Watchdog\<close>

definition evaluate_session :: "instant \<Rightarrow> string \<Rightarrow> rtsp_manager \<Rightarrow> rtsp_manager" where
  "evaluate_session now k m =
     (case get_session k m of
        None \<Rightarrow> m
      | Some s \<Rightarrow> put_session k
          (s\<lparr>ss_tracks := map (\<lambda>t. t\<lparr>ti_health := evaluate now (ti_health t)\<rparr>) (ss_tracks s)\<rparr>) m)"

definition watchdog_tick :: "instant \<Rightarrow> rtsp_manager \<Rightarrow> rtsp_manager" where
  "watchdog_tick now m =
     reap_expired_sessions now
       (fold (\<lambda>info. evaluate_session now (si_session_id info)) (all_sessions now m) m)"

subsection \<open>From bytes to requests\<close>

text \<open>What a client sends: requests as \<open>request_text\<close> writes them, and interleaved frames.\<close>

datatype client_item =
    Frame char string
  | Request rtsp_method string "(string \<times> string) list" string u32

fun item_text :: "client_item \<Rightarrow> string" where
  "item_text (Frame ch d) =
     CHR 0x24 # ch # char_of (length d div 256) # char_of (length d mod 256) # d"
| "item_text (Request meth url hs body cseq) = request_text meth url hs body"

fun item_ok :: "nat \<Rightarrow> client_item \<Rightarrow> bool" where
  "item_ok mem (Frame ch d) = (length d < 65536)"
| "item_ok mem (Request meth url hs body cseq) =
     (is_ascii (request_text meth url hs body) \<and>
      CHR '' '' \<notin> set url \<and> CR \<notin> set url \<and> LF \<notin> set url \<and> list_all clean_header hs \<and>
      tab_get ''cseq'' (header_table hs) = Some (show_word cseq) \<and>
      tab_get ''content-length'' (header_table hs) =
        (if body = [] then None else Some (show_nat (length body))) \<and>
      length body < 2 ^ 63 \<and> length body \<le> mem)"

definition item_request :: "rtsp_method \<Rightarrow> string \<Rightarrow> (string \<times> string) list \<Rightarrow> string \<Rightarrow> u32 \<Rightarrow> rtsp_request" where
  "item_request meth url hs body cseq =
     \<lparr>rq_method = meth, rq_url = url, rq_cseq = cseq,
      rq_session = map_option session_of_header (tab_get ''session'' (header_table hs)),
      rq_headers = header_table hs, rq_body = (if body = [] then None else Some body)\<rparr>"

text \<open>The server on items instead of bytes.\<close>

fun run_items ::
  "handler_context \<Rightarrow> string \<Rightarrow> (nat \<Rightarrow> turn_env) \<Rightarrow> nat \<Rightarrow> client_item list \<Rightarrow> connection \<Rightarrow> rtsp_manager
     \<Rightarrow> (connection \<times> rtsp_manager) option" where
  "run_items ctx addr env i [] cn m = Some (cn, m)"
| "run_items ctx addr env i (Frame ch d # its) cn m =
     run_items ctx addr env (Suc i) its cn
       (case cn_session cn of None \<Rightarrow> m | Some sid \<Rightarrow> touch (te_now (env i)) sid m)"
| "run_items ctx addr env i (Request meth url hs body cseq # its) cn m =
     (case answer_request ctx addr (env i) (item_request meth url hs body cseq) cn m of
        None \<Rightarrow> None
      | Some (cn', m') \<Rightarrow> run_items ctx addr env (Suc i) its cn' m')"

lemma read_head_lines:
  assumes "\<forall>l \<in> set ls. clean_line l \<and> is_ascii l"
  shows "read_head (concat (map (\<lambda>l. l @ CRLF) ls) @ CRLF @ r) buf cl =
    Got (buf @ concat (map (\<lambda>l. l @ CRLF) ls) @ CRLF, fold (\<lambda>l. line_length (l @ CRLF)) ls cl, r)"
  using assms
proof (induction ls arbitrary: buf cl)
  case Nil
  have "line_length CRLF cl = cl"
    by (simp add: line_length_def to_lowercase_def ascii_lower_def byte_in_def)
  moreover have "utf8_valid CRLF" by (simp add: byte_in_def)
  moreover have "read_line (CRLF @ r) = (CRLF, r)" by simp
  ultimately show ?case by (simp add: read_head.simps [of "CR # LF # r"])
next
  case (Cons l ls)
  let ?r = "concat (map (\<lambda>l. l @ CRLF) ls) @ CRLF @ r"
  have l: "l \<noteq> []" "LF \<notin> set l" "CR \<notin> set l" "is_ascii l" using Cons.prems by (auto simp: clean_line_def)
  have "read_line (l @ CRLF @ ?r) = (l @ CRLF, ?r)"
    using read_line_LF [of "l @ [CR]" ?r] l by simp
  moreover have "utf8_valid (l @ CRLF)"
    using l by (intro utf8_valid_ascii) (simp add: is_ascii_def byte_in_def)
  moreover have "l @ CRLF \<noteq> CRLF" "l @ CRLF \<noteq> [LF]" "l @ CRLF \<noteq> []"
    using l by (cases l; simp)+
  ultimately have "read_head (l @ CRLF @ ?r) buf cl = read_head ?r (buf @ l @ CRLF) (line_length (l @ CRLF) cl)"
    by (subst read_head.simps) simp
  then show ?case using Cons by simp
qed

lemma strip_rev_eol:
  "strip_seqs (map rev white_space) (LF # t) = strip_seqs (map rev white_space) t"
  "strip_seqs (map rev white_space) (CR # t) = strip_seqs (map rev white_space) t"
  by (subst strip_seqs.simps, simp add: white_space_def starts_with_def)+

lemma trim_number_line: "trim (CHR '' '' # show_nat n @ CRLF) = show_nat n"
  using trim_start_graphic [of "show_nat n @ CRLF"] trim_end_graphic [of "show_nat n"]
  by (simp add: trim_def trim_end_def strip_rev_eol show_nat_graphic_ends)

lemma colon_split:
  assumes "CHR '':'' \<notin> set p" and "CHR '':'' \<notin> set q"
  shows "strip_prefix (p @ '':'') (q @ CHR '':'' # r) = (if p = q then Some r else None)"
proof (cases "strip_prefix (p @ '':'') (q @ CHR '':'' # r)")
  case (Some x)
  then have "p @ CHR '':'' # x = q @ CHR '':'' # r" by (simp add: strip_prefix_Some)
  then have "split_once (CHR '':'') (p @ CHR '':'' # x) = split_once (CHR '':'') (q @ CHR '':'' # r)" by simp
  then show ?thesis using assms Some by simp
next
  case None
  then show ?thesis using strip_prefix_append [of "p @ '':''" r] by auto
qed

lemma colon_lowercase: "CHR '':'' \<notin> set k \<Longrightarrow> CHR '':'' \<notin> set (to_lowercase k)"
proof (induction k)
  case (Cons c k)
  have "ascii_lower c \<noteq> CHR '':''" if "c \<noteq> CHR '':''"
  proof (cases "byte_in 65 90 c")
    case True
    then have "of_char c + 32 \<noteq> (58 :: nat)" "of_char c + 32 < (256 :: nat)" by (auto simp: byte_in_def)
    then have "of_char (ascii_lower c) \<noteq> (of_char (CHR '':'') :: nat)"
      using True by (simp add: ascii_lower_def)
    then show ?thesis by auto
  qed (use that in \<open>simp add: ascii_lower_def\<close>)
  then show ?case using Cons by (auto simp: to_lowercase_Cons)
qed (simp add: to_lowercase_def)

lemma header_line_length:
  assumes "clean_header (k, v)"
  shows "to_lowercase k \<noteq> ''content-length'' \<Longrightarrow> line_length (header_line (k, v) @ CRLF) cl = cl"
    and "to_lowercase k = ''content-length'' \<Longrightarrow> v = show_nat n \<Longrightarrow> n < 2 ^ 64 \<Longrightarrow>
      line_length (header_line (k, v) @ CRLF) cl = n"
proof -
  have "CHR '':'' \<notin> set (to_lowercase k)" using assms colon_lowercase by (simp add: clean_header_def)
  then have *: "strip_prefix ''content-length:'' (to_lowercase (header_line (k, v) @ CRLF)) =
      (if to_lowercase k = ''content-length'' then Some (CHR '' '' # to_lowercase v @ CRLF) else None)"
    using colon_split [of "''content-length''" "to_lowercase k" "CHR '' '' # to_lowercase v @ CRLF"]
    by (auto simp: header_line_def to_lowercase_def ascii_lower_def byte_in_def)
  show "to_lowercase k \<noteq> ''content-length'' \<Longrightarrow> line_length (header_line (k, v) @ CRLF) cl = cl"
    using * by (simp add: line_length_def)
  show "to_lowercase k = ''content-length'' \<Longrightarrow> v = show_nat n \<Longrightarrow> n < 2 ^ 64 \<Longrightarrow>
      line_length (header_line (k, v) @ CRLF) cl = n"
    unfolding line_length_def * by (simp add: trim_number_line)
qed

lemma headers_length:
  assumes "list_all clean_header hs" and "n < 2 ^ 64"
    and "tab_get ''content-length'' (header_table hs) = (if n = 0 then None else Some (show_nat n))"
  shows "fold (\<lambda>l. line_length (l @ CRLF)) (map header_line hs) 0 = n"
  using assms
proof (induction hs rule: rev_induct)
  case Nil
  then show ?case by (simp add: header_table_def split: if_splits)
next
  case (snoc kv hs)
  obtain k v where kv: "kv = (k, v)" by fastforce
  have c: "clean_header (k, v)" using snoc.prems(1) kv by simp
  have table: "header_table (hs @ [kv]) = tab_insert (to_lowercase k) v (header_table hs)"
    by (simp add: header_table_def kv)
  show ?case
  proof (cases "to_lowercase k = ''content-length''")
    case True
    then have "v = show_nat n" using snoc.prems(3) by (simp add: table split: if_splits)
    then show ?thesis using header_line_length(2) [OF c True _ snoc.prems(2)] by (simp add: kv)
  next
    case False
    then have "tab_get ''content-length'' (header_table hs) = (if n = 0 then None else Some (show_nat n))"
      using snoc.prems(3) by (simp add: table)
    then show ?thesis using snoc header_line_length(1) [OF c False] by (simp add: kv)
  qed
qed

lemma request_line_length: "line_length ((show_method meth @ '' '' @ url @ '' RTSP/1.0'') @ CRLF) cl = cl"
  by (cases meth) (simp_all add: line_length_def to_lowercase_def ascii_lower_def byte_in_def)

lemma is_ascii_Cons: "is_ascii (c # s) \<longleftrightarrow> byte_in 0 127 c \<and> is_ascii s"
  by (simp add: is_ascii_def)

lemma is_ascii_concat: "is_ascii (concat xs) \<longleftrightarrow> (\<forall>x \<in> set xs. is_ascii x)"
  by (auto simp: is_ascii_def)

lemma read_head_headers:
  assumes "is_ascii url" and "CR \<notin> set url" and "LF \<notin> set url"
    and "list_all clean_header hs" and "list_all (is_ascii \<circ> header_line) hs"
  shows "read_head (request_text meth url hs [] @ r) [] 0 =
    Got (request_text meth url hs [], fold (\<lambda>l. line_length (l @ CRLF)) (map header_line hs) 0, r)"
proof -
  let ?ls = "request_lines meth url hs"
  have "is_ascii (show_method meth)" by (cases meth) (simp_all add: is_ascii_def byte_in_def)
  then have "\<forall>l \<in> set ?ls. is_ascii l"
    using assms(1,5) by (auto simp: request_lines_def list_all_iff) (simp add: is_ascii_def byte_in_def)+
  moreover have "\<forall>l \<in> set ?ls. clean_line l"
    using assms by (intro clean_request_lines) (simp_all add: list_all_iff)
  ultimately have "read_head (concat (map (\<lambda>l. l @ CRLF) ?ls) @ CRLF @ r) [] 0 =
      Got ([] @ concat (map (\<lambda>l. l @ CRLF) ?ls) @ CRLF, fold (\<lambda>l. line_length (l @ CRLF)) ?ls 0, r)"
    by (intro read_head_lines) blast
  then show ?thesis
    by (simp add: request_text_def request_lines_def request_line_length [simplified])
qed

lemma read_head_request:
  assumes "item_ok mem (Request meth url hs body cseq)"
  shows "read_head (request_text meth url hs body @ r) [] 0 =
    Got (request_text meth url hs [], length body, body @ r)"
proof -
  have "is_ascii (request_text meth url hs body)" using assms by simp
  then have "is_ascii url" "\<forall>h \<in> set hs. is_ascii (header_line h)"
    by (simp_all add: request_text_def request_lines_def is_ascii_concat is_ascii_Cons)
  then have "is_ascii url" "list_all (is_ascii \<circ> header_line) hs" by (simp_all add: list_all_iff)
  moreover have "fold (\<lambda>l. line_length (l @ CRLF)) (map header_line hs) 0 = length body"
    using headers_length [of hs "length body"] assms by simp
  ultimately show ?thesis
    using read_head_headers [of url hs meth "body @ r"] assms by (simp add: request_text_def)
qed

lemma request_text_hd: "\<exists>c s. request_text meth url hs body = c # s \<and> c \<noteq> CHR 0x24"
  by (cases meth) (auto simp: request_text_def request_lines_def)

lemma turn_request:
  assumes "item_ok mem (Request meth url hs body cseq)"
  shows "connection_turn ctx mem addr te (request_text meth url hs body @ r) cn m =
    (case answer_request ctx addr te (item_request meth url hs body cseq) cn m of
       None \<Rightarrow> Crashed
     | Some (cn', m') \<Rightarrow> Next r cn' m')"
proof -
  have body: "is_ascii body" using assms by (simp add: request_text_def is_ascii_def)
  have "request_parse (request_text meth url hs [] @ body) = Ok (item_request meth url hs body cseq)"
    using request_parse_ascii [of meth url hs body cseq] assms
    by (simp add: request_text_def item_request_def list_all_iff)
  then have "request_turn ctx mem addr te (request_text meth url hs []) (length body) (body @ r) cn m =
      (case answer_request ctx addr te (item_request meth url hs body cseq) cn m of
         None \<Rightarrow> Crashed
       | Some (cn', m') \<Rightarrow> Next r cn' m')"
    using assms body by (simp add: request_turn_def utf8_lossy_ascii split: option.split)
  then show ?thesis
    using request_text_hd [of meth url hs body] read_head_request [OF assms, of r]
    by (auto simp: connection_turn_def)
qed

lemma turn_frame:
  assumes "length d < 65536"
  shows "connection_turn ctx mem addr te (item_text (Frame ch d) @ r) cn m =
    Next r cn (case cn_session cn of None \<Rightarrow> m | Some sid \<Rightarrow> touch (te_now te) sid m)"
proof -
  have "(of_char (char_of (length d div 256)) :: nat) = length d div 256"
    "(of_char (char_of (length d)) :: nat) = length d mod 256"
    unfolding of_char_of using assms by auto
  moreover have "256 * (length d div 256) + length d mod 256 = length d" by simp
  moreover have "drop (4 + n) (c1 # c2 # c3 # c4 # s) = drop n s" for n c1 c2 c3 c4 and s :: string
    by (simp add: numeral_eq_Suc)
  ultimately show ?thesis
    by (simp add: connection_turn_def frame_turn_def Let_def)
qed

text \<open>C5: The byte stream of a connection is cut where the client meant it to be. Any sequence of
  requests, whose texts are ASCII and whose bodies are announced by their Content-Length, and
  of interleaved frames, sent one right after the other, is served as that sequence of
  requests: each is handled once, in order, with its own headers and body, its response is
  written before the next is read, and each frame only keeps the connection's session alive.\<close>

theorem connection_serves_items:
  assumes "list_all (item_ok mem) its" and "run_items ctx addr env i its cn m = Some (cn', m')"
  shows "serve_connection ctx mem addr env i (concat (map item_text its)) cn m = (Ended True, cn', m')"
  using assms
proof (induction its arbitrary: i cn m)
  case Nil
  then show ?case by (simp add: serve_connection.simps [of ctx mem addr env i "[]"] connection_turn_def)
next
  case (Cons it its)
  let ?r = "concat (map item_text its)"
  show ?case
  proof (cases it)
    case (Frame ch d)
    then show ?thesis using Cons turn_frame [of d ctx mem addr "env i" ch ?r cn m]
      by (simp add: serve_connection.simps [of ctx mem addr env i "item_text (Frame ch d) @ ?r"] del: item_text.simps)
  next
    case (Request meth url hs body cseq)
    then obtain cn1 m1 where a: "answer_request ctx addr (env i) (item_request meth url hs body cseq) cn m = Some (cn1, m1)"
        "run_items ctx addr env (Suc i) its cn1 m1 = Some (cn', m')"
      using Cons.prems(2) by (auto split: option.splits prod.splits)
    have "connection_turn ctx mem addr (env i) (item_text it @ ?r) cn m = Next ?r cn1 m1"
      using turn_request [of mem meth url hs body cseq ctx addr "env i" ?r cn m] Cons.prems(1) a(1) Request by simp
    then show ?thesis using Cons a(2)
      by (simp add: serve_connection.simps [of ctx mem addr env i "item_text it @ ?r"] del: item_text.simps)
  qed
qed

lemma connection_serves_items_witness:
  "\<exists>cn m. serve_connection example_context 100 ''10.0.0.1:554'' (\<lambda>i. \<lparr>te_now = int i, te_fresh = ''S'', te_ports = None\<rparr>) 0
       (concat (map item_text [Request Options ''*'' [(''CSeq'', ''7'')] [] 7, Frame (CHR 0x01) ''rr'']))
       new_connection new_rtsp_manager = (Ended True, cn, m) \<and>
     cn_output cn = serialize (handle_options 7)"
proof -
  let ?its = "[Request Options ''*'' [(''CSeq'', ''7'')] [] 7, Frame (CHR 0x01) ''rr'']"
  let ?env = "\<lambda>i. \<lparr>te_now = int i, te_fresh = ''S'', te_ports = None\<rparr>"
  have h: "header_table [(''CSeq'', ''7'')] = [(''cseq'', ''7'')]" by code_simp
  have n: "show_word (7 :: u32) = ''7''" by code_simp
  have a: "is_ascii (request_text Options ''*'' [(''CSeq'', ''7'')] [])" by code_simp
  have c: "clean_header (''CSeq'', ''7'')" by code_simp
  have ok: "list_all (item_ok 100) ?its"
    using a c by (simp add: h n tab_get_def)
  have r: "rs_session (handle_options 7) = None"
    by (simp add: handle_options_def response_ok_def response_new_def header_def)
  have run: "run_items example_context ''10.0.0.1:554'' ?env 0 ?its new_connection new_rtsp_manager =
      Some (write_response (handle_options 7) new_connection, new_rtsp_manager)"
    by (simp add: answer_request_def item_request_def handle_request_def r write_response_def new_connection_def)
  show ?thesis using connection_serves_items [OF ok run] by (simp add: write_response_def new_connection_def)
qed

lemma lower_content_length: "to_lowercase ''Content-Length'' = ''content-length''"
  by code_simp

lemma clean_content_length: "clean_header (''Content-Length'', show_nat n)"
  using show_nat_graphic_ends [of n] by (simp add: clean_header_def byte_in_def)

lemma is_ascii_show_nat [simp]: "is_ascii (show_nat n)"
  unfolding is_ascii_def using show_nat_digits by (fastforce simp: is_digit_def byte_in_def)

lemma ascii_content_length: "is_ascii (header_line (''Content-Length'', show_nat n))"
proof -
  have "is_ascii ''Content-Length: ''" by code_simp
  then show ?thesis
    using is_ascii_append [of "''Content-Length: ''" "show_nat n"] by (simp add: header_line_def)
qed

text \<open>A request can end the whole server: a Content-Length that is larger than the memory that
  can be allocated, and below \<open>2^63\<close>, aborts the process before any of the body was sent,
  whatever the method and the URL and without a session; from \<open>2^63\<close> on the task of the
  connection panics. The length is not limited before the buffer is allocated.\<close>

theorem content_length_aborts:
  assumes "is_ascii url" and "CR \<notin> set url" and "LF \<notin> set url" and "mem < n" and "n < 2 ^ 64"
  shows "connection_turn ctx mem addr te (request_text meth url [(''Content-Length'', show_nat n)] [] @ r) cn m =
    (if n < 2 ^ 63 then Aborted else Crashed)"
proof -
  let ?hs = "[(''Content-Length'', show_nat n)]"
  have "read_head (request_text meth url ?hs [] @ r) [] 0 = Got (request_text meth url ?hs [], n, r)"
    using read_head_headers [OF assms(1-3), of ?hs meth r]
      header_line_length(2) [OF clean_content_length lower_content_length refl assms(5)]
    by (simp add: clean_content_length ascii_content_length)
  then show ?thesis
    using request_text_hd [of meth url ?hs "[]"] assms(4)
    by (auto simp: connection_turn_def request_turn_def)
qed

lemma content_length_aborts_witness:
  "connection_turn example_context (2 ^ 40) ''10.0.0.1:554'' \<lparr>te_now = 0, te_fresh = ''S'', te_ports = None\<rparr>
     (request_text Options ''*'' [(''Content-Length'', show_nat (2 ^ 62))] []) new_connection new_rtsp_manager = Aborted"
  using content_length_aborts [of "''*''" "2 ^ 40" "2 ^ 62" example_context _ _ Options "[]"]
  by (simp add: is_ascii_def byte_in_def)

text \<open>A body that is not UTF-8 becomes longer when it is decoded, and its announced length then
  ends inside a replacement character.\<close>

lemma invalid_body_crashes:
  "connection_turn example_context 100 ''10.0.0.1:554'' te
     (request_text Options ''*'' [(''CSeq'', ''1''), (''Content-Length'', show_nat 1)] [] @ [CHR 0xFF])
     new_connection new_rtsp_manager = Crashed"
proof -
  let ?hs = "[(''CSeq'', ''1''), (''Content-Length'', show_nat 1)]"
  have lossy: "utf8_lossy [CHR 0xFF] = replacement"
    by (simp add: utf8_chunk_def seq_width_def byte_in_def)
  have n: "show_nat 1 = ''1''" by code_simp
  have c: "clean_header (''CSeq'', ''1'')" "is_ascii (header_line (''CSeq'', ''1''))" by code_simp+
  have low: "to_lowercase ''CSeq'' = ''cseq''" by code_simp
  have "read_head (request_text Options ''*'' ?hs [] @ [CHR 0xFF]) [] 0 =
      Got (request_text Options ''*'' ?hs [], 1, [CHR 0xFF])"
    using read_head_headers [of "''*''" ?hs Options "[CHR 0xFF]"] c
      header_line_length(1) [OF c(1)] header_line_length(2) [OF clean_content_length lower_content_length refl, of 1]
    by (simp add: clean_content_length ascii_content_length low) (simp add: is_ascii_def byte_in_def)
  moreover have "request_parse (request_text Options ''*'' ?hs [] @ replacement) = Panic"
  proof -
    have h: "header_table ?hs = [(''cseq'', ''1''), (''content-length'', ''1'')]" unfolding n by code_simp
    have u: "utf8_valid (request_text Options ''*'' ?hs replacement)" unfolding n by code_simp
    have t: "tab_get ''cseq'' (header_table ?hs) = Some (show_word (1 :: u32))" unfolding h by code_simp
    have b: "parse_body (header_table ?hs) (Some replacement) = Panic"
      unfolding h by (simp add: replacement_def parse_body_def tab_get_def parse_uint_def is_digit_def
        byte_in_def is_char_boundary_def)
    have "request_parse (request_text Options ''*'' ?hs replacement) = Panic"
      using request_parse_text [OF u _ _ _ _ t] c b by (simp add: clean_content_length replacement_def)
    then show ?thesis by (simp add: request_text_def)
  qed
  ultimately show ?thesis
    using request_text_hd [of Options "''*''" ?hs "[]"] lossy
    by (auto simp: connection_turn_def request_turn_def)
qed

subsection \<open>Several connections\<close>

text \<open>A server with its connections, each with the bytes still to come, and one manager.\<close>

record rtsp_server =
  rv_connections :: "(string, string \<times> connection) table"
  rv_manager :: rtsp_manager

inductive server_step :: "handler_context \<Rightarrow> nat \<Rightarrow> rtsp_server \<Rightarrow> rtsp_server \<Rightarrow> bool" for ctx mem where
  server_accept: "tab_get addr (rv_connections v) = None \<Longrightarrow>
    server_step ctx mem v (v\<lparr>rv_connections := tab_insert addr (input, new_connection) (rv_connections v)\<rparr>)"
| server_next: "tab_get addr (rv_connections v) = Some (input, cn) \<Longrightarrow>
    get_session (te_fresh te) (rv_manager v) = None \<Longrightarrow>
    connection_turn ctx mem addr te input cn (rv_manager v) = Next rest cn' m' \<Longrightarrow>
    server_step ctx mem v
      (v\<lparr>rv_connections := tab_insert addr (rest, cn') (rv_connections v), rv_manager := m'\<rparr>)"
| server_close: "tab_get addr (rv_connections v) = Some (input, cn) \<Longrightarrow>
    connection_turn ctx mem addr te input cn (rv_manager v) \<in> {Ended ok, Crashed} \<Longrightarrow>
    server_step ctx mem v (v\<lparr>rv_connections := tab_remove addr (rv_connections v)\<rparr>)"
| server_sender: "server_step ctx mem v (v\<lparr>rv_manager := touch now k (rv_manager v)\<rparr>)"
| server_health: "server_step ctx mem v (v\<lparr>rv_manager := track_health_update k n h (rv_manager v)\<rparr>)"
| server_watchdog: "server_step ctx mem v (v\<lparr>rv_manager := watchdog_tick now (rv_manager v)\<rparr>)"
| server_reap: "server_step ctx mem v (v\<lparr>rv_manager := reap_expired_sessions now (rv_manager v)\<rparr>)"

inductive server_reachable :: "handler_context \<Rightarrow> nat \<Rightarrow> rtsp_server \<Rightarrow> bool" for ctx mem where
  server_start: "server_reachable ctx mem \<lparr>rv_connections = [], rv_manager = new_rtsp_manager\<rparr>"
| server_more: "server_reachable ctx mem v \<Longrightarrow> server_step ctx mem v v' \<Longrightarrow> server_reachable ctx mem v'"

lemma rtsp_inv_evaluate: "rtsp_inv m \<Longrightarrow> rtsp_inv (evaluate_session now k m)"
proof (cases "get_session k m")
  case (Some s)
  assume m: "rtsp_inv m"
  let ?f = "\<lambda>t. t\<lparr>ti_health := evaluate now (ti_health t)\<rparr>"
  have s: "session_ok s" using rtsp_invD(2) [OF m Some] by (simp add: session_fits_def)
  have tasks: "track_tasks (map ?f ts) = track_tasks ts" for ts
    by (induction ts) (simp_all split: option.split)
  have "tracks_ok (map ?f ts) = tracks_ok ts" for ts
    by (simp add: tracks_ok_def comp_def list_all_iff)
  with s tasks show ?thesis
    by (auto simp: evaluate_session_def Some session_ok_def intro!: rtsp_inv_update [OF m Some])
qed (simp add: evaluate_session_def)

lemma rtsp_inv_watchdog: "rtsp_inv m \<Longrightarrow> rtsp_inv (watchdog_tick now m)"
proof -
  assume m: "rtsp_inv m"
  have "rtsp_inv (fold (\<lambda>info. evaluate_session now (si_session_id info)) infos m)" for infos
    using m by (induction infos arbitrary: m) (simp_all add: rtsp_inv_evaluate)
  then show ?thesis
    unfolding watchdog_tick_def reap_expired_sessions_def by (intro rtsp_inv_remove_each)
qed

lemma rtsp_inv_turn:
  assumes "connection_turn ctx mem addr te input cn m = Next rest cn' m'"
    and "rtsp_inv m" and "get_session (te_fresh te) m = None"
  shows "rtsp_inv m'"
proof (cases input)
  case (Cons c s)
  show ?thesis
  proof (cases "c = CHR 0x24")
    case True
    then show ?thesis using assms Cons
      by (auto simp: connection_turn_def frame_turn_def Let_def rtsp_inv_touch split: if_splits option.splits)
  next
    case False
    then obtain h cl r where "request_turn ctx mem addr te h cl r cn m = Next rest cn' m'"
      using assms(1) Cons by (auto simp: connection_turn_def split: read_result.splits)
    then consider "m' = m" | rq where "answer_request ctx addr te rq cn m = Some (cn', m')"
      by (auto simp: request_turn_def split: if_splits outcome.splits option.splits prod.splits)
    then show ?thesis
      using assms(2,3)
      by cases (auto simp: answer_request_def split: outcome.splits intro: rtsp_inv_request)
  qed
qed (use assms in \<open>simp add: connection_turn_def\<close>)

lemma server_step_inv: "server_step ctx mem v v' \<Longrightarrow> rtsp_inv (rv_manager v) \<Longrightarrow> rtsp_inv (rv_manager v')"
proof (induction rule: server_step.induct)
  case (server_next addr v input cn te rest cn' m')
  then show ?case using rtsp_inv_turn by simp
next
  case (server_reap v now)
  then show ?case by (simp add: reap_expired_sessions_def rtsp_inv_remove_each)
qed (simp_all add: rtsp_inv_touch rtsp_inv_health rtsp_inv_watchdog)

lemma server_inv: "server_reachable ctx mem v \<Longrightarrow> rtsp_inv (rv_manager v)"
proof (induction rule: server_reachable.induct)
  case server_start
  then show ?case by (simp add: new_rtsp_manager_def rtsp_inv_new)
qed (rule server_step_inv)

text \<open>C4: No client can break the server's sessions. Whatever bytes any number of clients send,
  in whatever order the connections, the senders, the watchdog and the reaper take their
  steps: every session is filed under its own id with tracks of the right media, at most one
  of each, and every task that runs belongs to a track of a session that is there and runs
  under its token, which has not been cancelled.\<close>

theorem server_sessions_safe:
  assumes "server_reachable ctx mem v"
  shows "(get_session k (rv_manager v) = Some s \<longrightarrow>
      ss_id s = k \<and> tracks_ok (ss_tracks s) \<and> ss_cancel s \<notin> cancelled (rv_manager v)) \<and>
    (n < length (spawned (rv_manager v)) \<and> n \<notin> aborted (rv_manager v) \<longrightarrow>
      (\<exists>s i. get_session (tk_session (spawned (rv_manager v) ! n)) (rv_manager v) = Some s \<and>
         (i, n) \<in> track_tasks (ss_tracks s) \<and> tk_cancel (spawned (rv_manager v) ! n) = ss_cancel s))"
proof (intro conjI impI)
  note inv = server_inv [OF assms]
  assume "get_session k (rv_manager v) = Some s"
  from rtsp_invD(2) [OF inv this]
  show "ss_id s = k" "tracks_ok (ss_tracks s)" "ss_cancel s \<notin> cancelled (rv_manager v)"
    by (simp_all add: session_fits_def session_ok_def)
next
  note inv = server_inv [OF assms]
  assume "n < length (spawned (rv_manager v)) \<and> n \<notin> aborted (rv_manager v)"
  then have "owned (rv_manager v) n" using rtsp_invD(5) [OF inv] by (simp add: runs_def)
  then obtain s i where s: "get_session (tk_session (spawned (rv_manager v) ! n)) (rv_manager v) = Some s"
      "(i, n) \<in> track_tasks (ss_tracks s)"
    by (auto simp: owned_def)
  have "\<forall>(i, n) \<in> track_tasks (ss_tracks s). tk_cancel (spawned (rv_manager v) ! n) = ss_cancel s"
    using rtsp_invD(2) [OF inv s(1)] unfolding session_fits_def by (fastforce split: prod.splits)
  then have "tk_cancel (spawned (rv_manager v) ! n) = ss_cancel s" using s(2) by blast
  with s show "\<exists>s i. get_session (tk_session (spawned (rv_manager v) ! n)) (rv_manager v) = Some s \<and>
      (i, n) \<in> track_tasks (ss_tracks s) \<and> tk_cancel (spawned (rv_manager v) ! n) = ss_cancel s" by blast
qed

text \<open>A server on which one client has sent the bytes of a SETUP.\<close>

definition example_setup_headers :: "(string \<times> string) list" where
  "example_setup_headers = [(''CSeq'', ''3''), (''Transport'', format_response 0 0 (TcpInterleaved 0 1))]"

definition example_turn :: turn_env where
  "example_turn = \<lparr>te_now = 0, te_fresh = ''s1'', te_ports = None\<rparr>"

lemma example_setup_turn:
  "\<exists>cn. connection_turn example_context 1000 ''c'' example_turn (request_text Setup (rq_url example_setup) example_setup_headers [] @ r)
     new_connection new_rtsp_manager = Next r cn example_manager"
proof -
  let ?rq = "item_request Setup (rq_url example_setup) example_setup_headers [] 3"
  have h: "header_table example_setup_headers =
      [(''cseq'', ''3''), (''transport'', format_response 0 0 (TcpInterleaved 0 1))]"
    unfolding example_setup_headers_def by code_simp
  have a: "is_ascii (request_text Setup (rq_url example_setup) example_setup_headers [])" by code_simp
  have c: "list_all clean_header example_setup_headers" by code_simp
  have u: "CHR '' '' \<notin> set (rq_url example_setup)" "CR \<notin> set (rq_url example_setup)" "LF \<notin> set (rq_url example_setup)"
    by code_simp+
  have n: "show_word (3 :: u32) = ''3''" by code_simp
  have ok: "item_ok 1000 (Request Setup (rq_url example_setup) example_setup_headers [] 3)"
    using a c u by (simp add: h n tab_get_def)
  have rq: "?rq = example_setup\<lparr>rq_headers := header_table example_setup_headers\<rparr>"
    by (simp add: item_request_def example_setup_def h tab_get_def)
  have "tab_get ''transport'' (header_table example_setup_headers) = Some (format_response 0 0 (TcpInterleaved 0 1))"
    by (simp add: h tab_get_def)
  then obtain resp where r: "handle_request example_context 0 ''s1'' None ?rq ''c''
      (manager_with_timeout (seconds 120)) = Ok (example_manager, resp)"
    unfolding rq using example_setup_headers_run by blast
  show ?thesis
    using turn_request [OF ok, of example_context "''c''" example_turn r new_connection new_rtsp_manager] r
    by (simp add: answer_request_def example_turn_def new_rtsp_manager_def)
qed

lemma server_sessions_safe_witness:
  "\<exists>cn. server_reachable example_context 1000 \<lparr>rv_connections = [(''c'', ([], cn))], rv_manager = example_manager\<rparr> \<and>
     tracks_ok (ss_tracks example_session)"
proof -
  let ?v = "\<lparr>rv_connections = [], rv_manager = new_rtsp_manager\<rparr>"
  let ?t = "request_text Setup (rq_url example_setup) example_setup_headers []"
  have "server_reachable example_context 1000 (?v\<lparr>rv_connections := tab_insert ''c'' (?t, new_connection) []\<rparr>)"
    using server_more [OF server_start server_accept [of "''c''" ?v example_context 1000 ?t]] by simp
  then have r: "server_reachable example_context 1000
      \<lparr>rv_connections = [(''c'', (?t, new_connection))], rv_manager = new_rtsp_manager\<rparr>" (is "server_reachable _ _ ?v1")
    by (simp add: tab_insert_def)
  obtain cn where t: "connection_turn example_context 1000 ''c'' example_turn ?t new_connection new_rtsp_manager =
      Next [] cn example_manager"
    using example_setup_turn [of "[]"] by auto
  have "server_step example_context 1000 ?v1
      (?v1\<lparr>rv_connections := tab_insert ''c'' ([], cn) (rv_connections ?v1), rv_manager := example_manager\<rparr>)"
    by (rule server_next [of _ _ ?t new_connection example_turn])
      (use t in \<open>simp_all add: tab_get_def example_turn_def get_session_def new_rtsp_manager_def manager_with_timeout_def\<close>)
  then have q: "server_reachable example_context 1000 \<lparr>rv_connections = [(''c'', ([], cn))], rv_manager = example_manager\<rparr>"
    using server_more [OF r] by (simp add: tab_insert_def)
  from server_sessions_safe [OF q, of "''s1''" example_session] q show ?thesis
    by (auto simp: example_manager_session)
qed

end
