(* ===== verification/Json.thy ===== *)
theory Json
  imports Complex_Main Rust_Str "HOL-Library.AList"
begin

section \<open>JSON values\<close>

text \<open>
  \<open>serde_json::Value\<close> as the code uses it: values with integer and floating point numbers told
  apart, as the accessors \<open>as_i64\<close> and \<open>as_u64\<close> do, floats being taken as rationals. An object
  is an association list in the order the code writes its members; the order is not observed.
  Turning text into values and back is the package's work, and is a parameter where it is used.
\<close>

datatype json =
    JNull
  | JBool bool
  | JInt int
  | JFloat rat
  | JStr string
  | JArr "json list"
  | JObj "(string \<times> json) list"

fun jget :: "string \<Rightarrow> json \<Rightarrow> json option" where
  "jget k (JObj m) = map_of m k"
| "jget k _ = None"

fun as_str :: "json \<Rightarrow> string option" where
  "as_str (JStr s) = Some s"
| "as_str _ = None"

fun as_bool :: "json \<Rightarrow> bool option" where
  "as_bool (JBool b) = Some b"
| "as_bool _ = None"

fun as_f64 :: "json \<Rightarrow> rat option" where
  "as_f64 (JInt i) = Some (of_int i)"
| "as_f64 (JFloat r) = Some r"
| "as_f64 _ = None"

fun as_i64 :: "json \<Rightarrow> int option" where
  "as_i64 (JInt i) = (if - (2 ^ 63) \<le> i \<and> i < 2 ^ 63 then Some i else None)"
| "as_i64 _ = None"

fun as_u64 :: "json \<Rightarrow> int option" where
  "as_u64 (JInt i) = (if 0 \<le> i \<and> i < 2 ^ 64 then Some i else None)"
| "as_u64 _ = None"

fun as_array :: "json \<Rightarrow> json list option" where
  "as_array (JArr xs) = Some xs"
| "as_array _ = None"

text \<open>\<open>value["key"] = v\<close> on an object.\<close>

fun jset :: "string \<Rightarrow> json \<Rightarrow> json \<Rightarrow> json" where
  "jset k v (JObj m) = JObj (AList.update k v m)"
| "jset k v j = j"

lemma jget_jset [simp]: "jget k (jset k' v (JObj m)) = (if k = k' then Some v else jget k (JObj m))"
  by (simp add: update_conv')

text \<open>\<open>value.get(k).and_then(f).unwrap_or(d)\<close>\<close>

definition field_or :: "'a \<Rightarrow> (json \<Rightarrow> 'a option) \<Rightarrow> string \<Rightarrow> json \<Rightarrow> 'a" where
  "field_or d f k j = (case Option.bind (jget k j) f of Some x \<Rightarrow> x | None \<Rightarrow> d)"

text \<open>A member that serde's \<open>skip_serializing_if = "Option::is_none"\<close> leaves out.\<close>

definition opt_member :: "string \<Rightarrow> json option \<Rightarrow> (string \<times> json) list" where
  "opt_member k v = (case v of None \<Rightarrow> [] | Some j \<Rightarrow> [(k, j)])"

lemma opt_member_simps [simp]: "opt_member k None = []" "opt_member k (Some j) = [(k, j)]"
  by (simp_all add: opt_member_def)

text \<open>serde's reading of an \<open>Option\<close> member: absent and null are \<open>None\<close>, and a value that does
  not fit is an error.\<close>

definition opt_field :: "(json \<Rightarrow> 'a option) \<Rightarrow> string \<Rightarrow> json \<Rightarrow> 'a option option" where
  "opt_field f k j =
     (case jget k j of
        None \<Rightarrow> Some None
      | Some JNull \<Rightarrow> Some None
      | Some v \<Rightarrow> map_option Some (f v))"

end
