(* ===== verification/Cdp_Protocol.thy ===== *)
theory Cdp_Protocol
  imports Json Core_Types Errors
begin

section \<open>The Chrome DevTools protocol\<close>

text \<open>
  \<open>protocol.rs\<close>, \<open>input.rs\<close> and \<open>screencast.rs\<close> of \<open>crates/vscreen-cdp\<close>: requests and messages,
  the translation of input events into requests, and the screencast manager. The JSON and
  base64 packages are the fields of \<open>cdp_env\<close>; their error texts are theirs too.
\<close>

subsection \<open>Requests and messages\<close>

record cdp_request =
  cq_id :: u64
  cq_method :: string
  cq_params :: "json option"

text \<open>The first argument is the value of the global counter.\<close>

definition next_message_id :: "u64 \<Rightarrow> u64 \<times> u64" where
  "next_message_id next_id = (next_id, next_id + 1)"

definition cdp_request_new :: "string \<Rightarrow> json option \<Rightarrow> u64 \<Rightarrow> cdp_request \<times> u64" where
  "cdp_request_new m p next_id =
     (let (i, next_id') = next_message_id next_id
      in (\<lparr>cq_id = i, cq_method = m, cq_params = p\<rparr>, next_id'))"

record cdp_error_payload =
  ce_code :: int
  ce_message :: string
  ce_data :: "string option"

record cdp_message =
  cm_id :: "u64 option"
  cm_method :: "string option"
  cm_result :: "json option"
  cm_error :: "cdp_error_payload option"
  cm_params :: "json option"

definition is_response :: "cdp_message \<Rightarrow> bool" where
  "is_response m = (cm_id m \<noteq> None)"

definition is_event :: "cdp_message \<Rightarrow> bool" where
  "is_event m = (cm_method m \<noteq> None \<and> cm_id m = None)"

definition u64_of_json :: "json \<Rightarrow> u64 option" where
  "u64_of_json j = map_option of_int (as_u64 j)"

definition u32_of_json :: "json \<Rightarrow> u32 option" where
  "u32_of_json j =
     (case as_u64 j of Some i \<Rightarrow> (if i < 2 ^ 32 then Some (of_int i) else None) | None \<Rightarrow> None)"

definition error_payload_of_json :: "json \<Rightarrow> cdp_error_payload option" where
  "error_payload_of_json j =
     (case (Option.bind (jget ''code'' j) as_i64, Option.bind (jget ''message'' j) as_str,
        opt_field as_str ''data'' j) of
        (Some c, Some m, Some d) \<Rightarrow> Some \<lparr>ce_code = c, ce_message = m, ce_data = d\<rparr>
      | _ \<Rightarrow> None)"

text \<open>The derived deserializer of \<open>CdpMessage\<close>, from a JSON object.\<close>

definition message_of_json :: "json \<Rightarrow> cdp_message option" where
  "message_of_json j =
     (case j of
        JObj _ \<Rightarrow>
          (case (opt_field u64_of_json ''id'' j, opt_field as_str ''method'' j,
             opt_field Some ''result'' j, opt_field error_payload_of_json ''error'' j,
             opt_field Some ''params'' j) of
             (Some i, Some m, Some r, Some e, Some p) \<Rightarrow>
               Some \<lparr>cm_id = i, cm_method = m, cm_result = r, cm_error = e, cm_params = p\<rparr>
           | _ \<Rightarrow> None)
      | _ \<Rightarrow> None)"

record cdp_env =
  parse_json :: "string \<Rightarrow> (string, json) outcome"
  base64_decode :: "string \<Rightarrow> (string, bytes) outcome"
  serde_text :: "json \<Rightarrow> string"

subsection \<open>Screencast\<close>

record start_screencast_params =
  sc_format :: string
  sc_max_width :: u32
  sc_max_height :: u32
  sc_every_nth_frame :: u32
  sc_quality :: u32

definition default_screencast_params :: start_screencast_params where
  "default_screencast_params =
     \<lparr>sc_format = ''jpeg'', sc_max_width = 1920, sc_max_height = 1080, sc_every_nth_frame = 1,
      sc_quality = 80\<rparr>"

definition word_json :: "'a::len word \<Rightarrow> json" where
  "word_json w = JInt (uint w)"

definition screencast_params_json :: "start_screencast_params \<Rightarrow> json" where
  "screencast_params_json p =
     JObj [(''format'', JStr (sc_format p)), (''maxWidth'', word_json (sc_max_width p)),
       (''maxHeight'', word_json (sc_max_height p)),
       (''everyNthFrame'', word_json (sc_every_nth_frame p)), (''quality'', word_json (sc_quality p))]"

record screencast_metadata =
  sm_offset_top :: rat
  sm_page_scale_factor :: rat
  sm_device_width :: rat
  sm_device_height :: rat
  sm_scroll_offset_x :: rat
  sm_scroll_offset_y :: rat
  sm_timestamp :: "rat option"

record screencast_frame_event =
  sf_data :: string
  sf_metadata :: screencast_metadata
  sf_session_id :: u32

definition metadata_of_json :: "json \<Rightarrow> screencast_metadata option" where
  "metadata_of_json j =
     (let f = (\<lambda>k. Option.bind (jget k j) as_f64) in
      case (f ''offsetTop'', f ''pageScaleFactor'', f ''deviceWidth'', f ''deviceHeight'',
        f ''scrollOffsetX'', f ''scrollOffsetY'', opt_field as_f64 ''timestamp'' j) of
        (Some t, Some s, Some w, Some h, Some x, Some y, Some ts) \<Rightarrow>
          Some \<lparr>sm_offset_top = t, sm_page_scale_factor = s, sm_device_width = w,
            sm_device_height = h, sm_scroll_offset_x = x, sm_scroll_offset_y = y, sm_timestamp = ts\<rparr>
      | _ \<Rightarrow> None)"

definition frame_event_of_json :: "json \<Rightarrow> screencast_frame_event option" where
  "frame_event_of_json j =
     (case (Option.bind (jget ''data'' j) as_str, Option.bind (jget ''metadata'' j) metadata_of_json,
        Option.bind (jget ''sessionId'' j) u32_of_json) of
        (Some d, Some m, Some s) \<Rightarrow> Some \<lparr>sf_data = d, sf_metadata = m, sf_session_id = s\<rparr>
      | _ \<Rightarrow> None)"

record raw_frame =
  rf_data :: bytes
  rf_timestamp :: instant
  rf_session_id :: u32

record screencast_manager =
  sg_generation :: u64
  sg_active :: bool

definition screencast_new :: screencast_manager where
  "screencast_new = \<lparr>sg_generation = 0, sg_active = False\<rparr>"

definition bump_generation :: "screencast_manager \<Rightarrow> u64 \<times> screencast_manager" where
  "bump_generation g = (let n = sg_generation g + 1 in (n, g\<lparr>sg_generation := n\<rparr>))"

definition start_request ::
  "start_screencast_params \<Rightarrow> screencast_manager \<Rightarrow> u64 \<Rightarrow> cdp_request \<times> screencast_manager \<times> u64" where
  "start_request p g next_id =
     (let (req, next_id') = cdp_request_new ''Page.startScreencast'' (Some (screencast_params_json p)) next_id
      in (req, g\<lparr>sg_active := True\<rparr>, next_id'))"

definition stop_request :: "screencast_manager \<Rightarrow> u64 \<Rightarrow> cdp_request \<times> screencast_manager \<times> u64" where
  "stop_request g next_id =
     (let (req, next_id') = cdp_request_new ''Page.stopScreencast'' None next_id
      in (req, g\<lparr>sg_active := False\<rparr>, next_id'))"

definition ack_request :: "u32 \<Rightarrow> u64 \<Rightarrow> cdp_request \<times> u64" where
  "ack_request session_id next_id =
     cdp_request_new ''Page.screencastFrameAck'' (Some (JObj [(''sessionId'', word_json session_id)])) next_id"

definition decode_frame ::
  "cdp_env \<Rightarrow> instant \<Rightarrow> screencast_manager \<Rightarrow> screencast_frame_event \<Rightarrow> u64 \<Rightarrow>
   (cdp_error, raw_frame option) outcome" where
  "decode_frame env now g ev frame_generation =
     (if frame_generation < sg_generation g then Ok None
      else
        (case base64_decode env (sf_data ev) of
           Err e \<Rightarrow> Err (Screencast (''base64 decode failed: '' @ e))
         | Panic \<Rightarrow> Panic
         | Ok d \<Rightarrow>
             if d = [] then Ok None
             else Ok (Some \<lparr>rf_data = d, rf_timestamp = now, rf_session_id = sf_session_id ev\<rparr>)))"

end
