(* ===== verification/Cdp_Input.thy ===== *)
theory Cdp_Input
  imports Cdp_Protocol
begin

section \<open>Input events as DevTools requests\<close>

text \<open>
  \<open>input.rs\<close> of \<open>crates/vscreen-cdp\<close>: each input event of a viewer or of the API becomes one
  request to the browser. A shift by 32 or more is an overflow, a panic in a checked build and
  a shift by the low five bits in a release build.
\<close>

definition to_cdp_modifiers :: "u8 \<Rightarrow> u32" where
  "to_cdp_modifiers m = ucast m"

definition button_name :: "u8 \<Rightarrow> string" where
  "button_name b =
     (if b = 0 then ''left'' else if b = 1 then ''middle'' else if b = 2 then ''right''
      else if b = 3 then ''back'' else if b = 4 then ''forward'' else ''none'')"

definition named_keys :: "(string \<times> u32) list" where
  "named_keys =
     [(''Backspace'', 8), (''Tab'', 9), (''Enter'', 13), (''Shift'', 16), (''Control'', 17),
      (''Alt'', 18), (''Pause'', 19), (''CapsLock'', 20), (''Escape'', 27), ('' '', 32),
      (''PageUp'', 33), (''PageDown'', 34), (''End'', 35), (''Home'', 36), (''ArrowLeft'', 37),
      (''ArrowUp'', 38), (''ArrowRight'', 39), (''ArrowDown'', 40), (''Insert'', 45),
      (''Delete'', 46), (''Meta'', 91), (''ContextMenu'', 93), (''F1'', 112), (''F2'', 113),
      (''F3'', 114), (''F4'', 115), (''F5'', 116), (''F6'', 117), (''F7'', 118), (''F8'', 119),
      (''F9'', 120), (''F10'', 121), (''F11'', 122), (''F12'', 123), (''NumLock'', 144),
      (''ScrollLock'', 145)]"

definition symbol_keys :: "(char \<times> u32) list" where
  "symbol_keys =
     [(CHR '';'', 186), (CHR '':'', 186), (CHR ''='', 187), (CHR ''+'', 187), (CHR '','', 188),
      (CHR ''<'', 188), (CHR ''-'', 189), (CHR ''_'', 189), (CHR ''.'', 190), (CHR ''>'', 190),
      (CHR ''/'', 191), (CHR ''?'', 191), (CHR 0x60, 192), (CHR ''~'', 192), (CHR ''['', 219),
      (CHR ''{'', 219), (CHR 0x5C, 220), (CHR ''|'', 220), (CHR '']'', 221), (CHR ''}'', 221),
      (CHR 0x27, 222), (CHR 0x22, 222)]"

definition char_to_vk :: "char \<Rightarrow> u32 option" where
  "char_to_vk c =
     (if byte_in 97 122 c then Some (of_char c - 32)
      else if byte_in 65 90 c \<or> byte_in 48 57 c then Some (of_char c)
      else map_of symbol_keys c)"

definition key_to_vk :: "string \<Rightarrow> u32 option" where
  "key_to_vk key =
     (case map_of named_keys key of
        Some vk \<Rightarrow> Some vk
      | None \<Rightarrow> (case key of [c] \<Rightarrow> char_to_vk c | _ \<Rightarrow> None))"

record mouse_params =
  mp_type :: string
  mp_x :: rat
  mp_y :: rat
  mp_button :: "string option"
  mp_buttons :: "u32 option"
  mp_click_count :: "u32 option"
  mp_delta_x :: "rat option"
  mp_delta_y :: "rat option"
  mp_modifiers :: u32

definition mouse_params_json :: "mouse_params \<Rightarrow> json" where
  "mouse_params_json p =
     JObj ([(''type'', JStr (mp_type p)), (''x'', JFloat (mp_x p)), (''y'', JFloat (mp_y p))] @
       opt_member ''button'' (map_option JStr (mp_button p)) @
       opt_member ''buttons'' (map_option word_json (mp_buttons p)) @
       opt_member ''clickCount'' (map_option word_json (mp_click_count p)) @
       opt_member ''deltaX'' (map_option JFloat (mp_delta_x p)) @
       opt_member ''deltaY'' (map_option JFloat (mp_delta_y p)) @
       [(''modifiers'', word_json (mp_modifiers p))])"

record key_params =
  kp_type :: string
  kp_key :: "string option"
  kp_code :: "string option"
  kp_text :: "string option"
  kp_modifiers :: u32
  kp_windows_virtual_key_code :: "u32 option"

definition key_params_json :: "key_params \<Rightarrow> json" where
  "key_params_json p =
     JObj ([(''type'', JStr (kp_type p))] @
       opt_member ''key'' (map_option JStr (kp_key p)) @
       opt_member ''code'' (map_option JStr (kp_code p)) @
       opt_member ''text'' (map_option JStr (kp_text p)) @
       [(''modifiers'', word_json (kp_modifiers p))] @
       opt_member ''windowsVirtualKeyCode'' (map_option word_json (kp_windows_virtual_key_code p)))"

definition shl_ovf :: "bool \<Rightarrow> u32 \<Rightarrow> u8 \<Rightarrow> ('e, u32) outcome" where
  "shl_ovf checks a b =
     (if unat b < 32 then Ok (push_bit (unat b) a)
      else if checks then Panic else Ok (push_bit (unat b mod 32) a))"

definition mouse_move_button :: "u16 \<Rightarrow> string option" where
  "mouse_move_button b =
     (if b AND 1 \<noteq> 0 then Some ''left'' else if b AND 2 \<noteq> 0 then Some ''right''
      else if b AND 4 \<noteq> 0 then Some ''middle'' else None)"

definition mouse_request :: "mouse_params \<Rightarrow> u64 \<Rightarrow> cdp_request \<times> u64" where
  "mouse_request p = cdp_request_new ''Input.dispatchMouseEvent'' (Some (mouse_params_json p))"

definition key_request :: "key_params \<Rightarrow> u64 \<Rightarrow> cdp_request \<times> u64" where
  "key_request p = cdp_request_new ''Input.dispatchKeyEvent'' (Some (key_params_json p))"

definition mouse_down_params :: "rat \<Rightarrow> rat \<Rightarrow> u8 \<Rightarrow> u8 \<Rightarrow> u32 \<Rightarrow> mouse_params" where
  "mouse_down_params x y b m buttons =
     \<lparr>mp_type = ''mousePressed'', mp_x = x, mp_y = y, mp_button = Some (button_name b),
      mp_buttons = Some buttons, mp_click_count = Some 1, mp_delta_x = None, mp_delta_y = None,
      mp_modifiers = to_cdp_modifiers m\<rparr>"

definition key_down_params :: "string \<Rightarrow> string \<Rightarrow> u8 \<Rightarrow> key_params" where
  "key_down_params key code m =
     (let is_printable = (length key = 1) in
      \<lparr>kp_type = (if is_printable then ''keyDown'' else ''rawKeyDown''), kp_key = Some key,
       kp_code = Some code, kp_text = (if is_printable then Some key else None),
       kp_modifiers = to_cdp_modifiers m, kp_windows_virtual_key_code = key_to_vk key\<rparr>)"

fun input_to_cdp :: "bool \<Rightarrow> rat input_event \<Rightarrow> u64 \<Rightarrow> ('e, cdp_request \<times> u64) outcome" where
  "input_to_cdp checks (MouseMove x y b m) n =
     Ok (mouse_request
       \<lparr>mp_type = ''mouseMoved'', mp_x = x, mp_y = y, mp_button = mouse_move_button b,
        mp_buttons = (if b > 0 then Some (ucast b) else None), mp_click_count = None,
        mp_delta_x = None, mp_delta_y = None, mp_modifiers = to_cdp_modifiers m\<rparr> n)"
| "input_to_cdp checks (MouseDown x y b m) n =
     and_then (shl_ovf checks 1 b) (\<lambda>buttons. Ok (mouse_request (mouse_down_params x y b m buttons) n))"
| "input_to_cdp checks (MouseUp x y b m) n =
     Ok (mouse_request
       \<lparr>mp_type = ''mouseReleased'', mp_x = x, mp_y = y, mp_button = Some (button_name b),
        mp_buttons = Some 0, mp_click_count = Some 1, mp_delta_x = None, mp_delta_y = None,
        mp_modifiers = to_cdp_modifiers m\<rparr> n)"
| "input_to_cdp checks (Wheel x y dx dy m) n =
     Ok (mouse_request
       \<lparr>mp_type = ''mouseWheel'', mp_x = x, mp_y = y, mp_button = None, mp_buttons = None,
        mp_click_count = None, mp_delta_x = Some dx, mp_delta_y = Some dy,
        mp_modifiers = to_cdp_modifiers m\<rparr> n)"
| "input_to_cdp checks (KeyDown key code m) n = Ok (key_request (key_down_params key code m) n)"
| "input_to_cdp checks (KeyUp key code m) n =
     Ok (key_request
       \<lparr>kp_type = ''keyUp'', kp_key = Some key, kp_code = Some code, kp_text = None,
        kp_modifiers = to_cdp_modifiers m, kp_windows_virtual_key_code = key_to_vk key\<rparr> n)"
| "input_to_cdp checks (Paste text) n =
     Ok (cdp_request_new ''Input.insertText'' (Some (JObj [(''text'', JStr text)])) n)"
| "input_to_cdp checks (BitrateHint kbps) n =
     Ok (cdp_request_new ''Runtime.evaluate'' (Some (JObj [(''expression'', JStr ''void 0'')])) n)"

subsection \<open>The buttons of a press\<close>

text \<open>The bit of each button in the \<open>buttons\<close> mask of the DevTools protocol, which
  \<open>mouse_move_button\<close> reads the same way.\<close>

definition protocol_mask :: "u8 \<Rightarrow> u32" where
  "protocol_mask b =
     (if b = 0 then 1 else if b = 1 then 4 else if b = 2 then 2 else if b = 3 then 8
      else if b = 4 then 16 else 0)"

text \<open>A press of a mouse button names the button and sets exactly one bit of the \<open>buttons\<close>
  mask. For left, back and forward it is the button's own bit, but the middle button sets the
  bit of the right one and the right button the bit of the middle one. A button number of 32
  or more panics in a checked build.\<close>

theorem mouse_down_buttons:
  "input_to_cdp checks (MouseDown x y b m) n =
     (if unat b < 32 then
        Ok (mouse_request (mouse_down_params x y b m (push_bit (unat b) 1)) n)
      else if checks then Panic
      else Ok (mouse_request (mouse_down_params x y b m (push_bit (unat b mod 32) 1)) n)) \<and>
   push_bit (unat (0 :: u8)) 1 = protocol_mask 0 \<and> push_bit (unat (3 :: u8)) 1 = protocol_mask 3 \<and>
   push_bit (unat (4 :: u8)) 1 = protocol_mask 4 \<and> push_bit (unat (1 :: u8)) 1 = protocol_mask 2 \<and>
   push_bit (unat (2 :: u8)) 1 = protocol_mask 1"
  by (simp add: shl_ovf_def protocol_mask_def)

text \<open>Keys: a key press carries the text to insert exactly when the key's name is one byte
  long. A character outside ASCII is longer, so its press is sent as a raw key without text
  and inserts nothing.\<close>

theorem key_down_text:
  assumes "input_to_cdp checks (KeyDown key code m) n = Ok (req, n')"
  shows "cq_method req = ''Input.dispatchKeyEvent'' \<and>
    (case Option.bind (cq_params req) (jget ''text'') of
       Some t \<Rightarrow> t = JStr key \<and> length key = 1 \<and>
         Option.bind (cq_params req) (jget ''type'') = Some (JStr ''keyDown'')
     | None \<Rightarrow> length key \<noteq> 1 \<and>
         Option.bind (cq_params req) (jget ''type'') = Some (JStr ''rawKeyDown''))"
  using assms
  by (cases "length key = 1"; cases "key_to_vk key")
    (auto simp: key_request_def key_down_params_def cdp_request_new_def next_message_id_def Let_def
      key_params_json_def)

theorem key_down_text_witness:
  "\<exists>req. input_to_cdp True (KeyDown [CHR 0xC3, CHR 0xA9] ''KeyE'' 0) 7 =
       (Ok (req, 8) :: (string, cdp_request \<times> u64) outcome) \<and>
     Option.bind (cq_params req) (jget ''text'') = None"
proof -
  obtain req where r: "input_to_cdp True (KeyDown [CHR 0xC3, CHR 0xA9] ''KeyE'' 0) 7 =
      (Ok (req, 8) :: (string, cdp_request \<times> u64) outcome)"
    by (simp add: key_request_def cdp_request_new_def next_message_id_def)
  from key_down_text [OF r] have "Option.bind (cq_params req) (jget ''text'') = None"
    by (simp split: option.splits)
  with r show ?thesis by blast
qed

end
