(* ===== verification/Cdp_Client.thy ===== *)
theory Cdp_Client
  imports Cdp_Input Dash_Map
begin

section \<open>The DevTools client\<close>

text \<open>
  \<open>client.rs\<close> of \<open>crates/vscreen-cdp\<close>: the connection to the browser with its table of pending
  requests, the loop that reads messages and reconnects, and the retry delays. The tasks of
  the client run side by side; each definition below is what one of them does between two
  points where it waits, and \<open>cdp_step\<close> puts them in any order. A call of
  \<open>send_command_and_wait\<close> that waits for its answer is an entry of \<open>cc_calls\<close>, which holds the
  local \<open>id\<close> of the call; an entry of \<open>cc_pending\<close> holds the sending half of its \<open>oneshot\<close>
  channel, here the name of the call. A task that waits for room in a full channel is a step
  that is not enabled.
\<close>

subsection \<open>State\<close>

datatype cdp_connection_state =
    Connecting | Connected | Reconnecting (reconnect_attempt: u32) | Disconnected

text \<open>Durations are in nanoseconds.\<close>

record retry_config =
  rc_initial_delay :: nat
  rc_max_delay :: nat
  rc_max_attempts :: u32
  rc_jitter :: bool

definition default_retry_config :: retry_config where
  "default_retry_config =
     \<lparr>rc_initial_delay = 100 * 10 ^ 6, rc_max_delay = 5 * 10 ^ 9, rc_max_attempts = 10,
      rc_jitter = True\<rparr>"

record request_channel =
  ch_open :: bool
  ch_queue :: "cdp_request list"

text \<open>Where the connection loop is: \<open>Retrying a\<close> at the head of the \<open>for\<close> loop with attempt \<open>a\<close>,
  \<open>Waiting a\<close> after it announced the attempt.\<close>

datatype loop_phase = NotStarted | Reading | Retrying nat | Waiting nat | Finished

type_synonym reply = "(cdp_error, cdp_message) outcome"

record cdp_client =
  cc_endpoint :: string
  cc_next_id :: u64
  cc_pending :: "(u64, nat) table"
  cc_calls :: "(nat, u64) table"
  cc_replies :: "(nat \<times> u64 \<times> reply) list"
  cc_channels :: "request_channel list"
  cc_written :: "cdp_request list"
  cc_state :: cdp_connection_state
  cc_phase :: loop_phase
  cc_generation :: u64
  cc_screencast :: screencast_manager
  cc_screencast_params :: "start_screencast_params option"
  cc_frames :: "raw_frame list"
  cc_retry :: retry_config
  cc_cancelled :: bool

text \<open>The last channel is the one in \<open>request_tx\<close>; earlier ones belong to write loops of
  connections that were lost. The receiver of the first is dropped at once.\<close>

definition cdp_client_new :: "string \<Rightarrow> retry_config \<Rightarrow> u64 \<Rightarrow> cdp_client" where
  "cdp_client_new endpoint rc next_id =
     \<lparr>cc_endpoint = endpoint, cc_next_id = next_id, cc_pending = [], cc_calls = [], cc_replies = [],
      cc_channels = [\<lparr>ch_open = False, ch_queue = []\<rparr>], cc_written = [],
      cc_state = Disconnected, cc_phase = NotStarted, cc_generation = 0,
      cc_screencast = screencast_new, cc_screencast_params = None, cc_frames = [], cc_retry = rc,
      cc_cancelled = False\<rparr>"

definition open_channel :: "cdp_client \<Rightarrow> cdp_client" where
  "open_channel s = s\<lparr>cc_channels := cc_channels s @ [\<lparr>ch_open = True, ch_queue = []\<rparr>]\<rparr>"

subsection \<open>Connecting\<close>

text \<open>\<open>connect\<close>, given the outcome of \<open>try_connect\<close>.\<close>

definition connect :: "(cdp_error, unit) outcome \<Rightarrow> cdp_client \<Rightarrow> (cdp_error, unit) outcome \<times> cdp_client" where
  "connect r s =
     (let s1 = s\<lparr>cc_state := Connecting\<rparr> in
      case r of
        Ok _ \<Rightarrow>
          (Ok (), (open_channel s1)\<lparr>cc_state := Connected, cc_phase := Reading,
             cc_generation := sg_generation (cc_screencast s)\<rparr>)
      | Err e \<Rightarrow> (Err e, s1)
      | Panic \<Rightarrow> (Panic, s1))"

subsection \<open>Requests\<close>

text \<open>\<open>send_request\<close>; \<open>None\<close> while the channel is full.\<close>

definition send_request :: "cdp_request \<Rightarrow> cdp_client \<Rightarrow> ((cdp_error, unit) outcome \<times> cdp_client) option" where
  "send_request req s =
     (let ch = last (cc_channels s) in
      if \<not> ch_open ch then Some (Err ConnectionLost, s)
      else if length (ch_queue ch) < 64 then
        Some (Ok (), s\<lparr>cc_channels := butlast (cc_channels s) @ [ch\<lparr>ch_queue := ch_queue ch @ [req]\<rparr>]\<rparr>)
      else None)"

text \<open>\<open>send_command\<close>, \<open>navigate\<close>, \<open>dispatch_input\<close>: a request nobody waits for.\<close>

definition send_command ::
  "string \<Rightarrow> json option \<Rightarrow> cdp_client \<Rightarrow> ((cdp_error, unit) outcome \<times> cdp_client) option" where
  "send_command m p s =
     (let (req, n) = cdp_request_new m p (cc_next_id s) in send_request req (s\<lparr>cc_next_id := n\<rparr>))"

definition navigate :: "string \<Rightarrow> cdp_client \<Rightarrow> ((cdp_error, unit) outcome \<times> cdp_client) option" where
  "navigate url = send_command ''Page.navigate'' (Some (JObj [(''url'', JStr url)]))"

definition dispatch_input ::
  "bool \<Rightarrow> rat input_event \<Rightarrow> cdp_client \<Rightarrow> ((cdp_error, unit) outcome \<times> cdp_client) option" where
  "dispatch_input checks ev s =
     (case input_to_cdp checks ev (cc_next_id s) of
        Ok (req, n) \<Rightarrow> send_request req (s\<lparr>cc_next_id := n\<rparr>)
      | Err e \<Rightarrow> Some (Err e, s)
      | Panic \<Rightarrow> Some (Panic, s))"

definition start_screencast ::
  "start_screencast_params \<Rightarrow> cdp_client \<Rightarrow> ((cdp_error, unit) outcome \<times> cdp_client) option" where
  "start_screencast p s =
     (let (req, g, n) = start_request p (cc_screencast s) (cc_next_id s)
      in send_request req (s\<lparr>cc_screencast_params := Some p, cc_screencast := g, cc_next_id := n\<rparr>))"

definition stop_screencast :: "cdp_client \<Rightarrow> ((cdp_error, unit) outcome \<times> cdp_client) option" where
  "stop_screencast s =
     (let (req, g, n) = stop_request (cc_screencast s) (cc_next_id s)
      in send_request req (s\<lparr>cc_screencast := g, cc_next_id := n\<rparr>))"

text \<open>\<open>send_command_and_wait\<close> up to the wait, for the call \<open>c\<close>.\<close>

definition begin_call :: "nat \<Rightarrow> string \<Rightarrow> json option \<Rightarrow> cdp_client \<Rightarrow> cdp_client option" where
  "begin_call c m p s =
     (let (req, n) = cdp_request_new m p (cc_next_id s);
          i = cq_id req;
          s1 = s\<lparr>cc_next_id := n, cc_pending := tab_insert i c (cc_pending s)\<rparr>
      in case send_request req s1 of
           None \<Rightarrow> None
         | Some (Ok _, s2) \<Rightarrow> Some (s2\<lparr>cc_calls := tab_insert c i (cc_calls s2)\<rparr>)
         | Some (Err e, s2) \<Rightarrow>
             Some (s2\<lparr>cc_pending := tab_remove i (cc_pending s2),
               cc_replies := cc_replies s2 @ [(c, i, Err e)]\<rparr>)
         | Some (Panic, s2) \<Rightarrow> Some s2)"

text \<open>What a waiting call makes of the message sent to it.\<close>

definition show_int :: "int \<Rightarrow> string" where
  "show_int i = (if i < 0 then ''-'' @ show_nat (nat (- i)) else show_nat (nat i))"

definition reply_of_message :: "cdp_message \<Rightarrow> reply" where
  "reply_of_message m =
     (case cm_error m of
        Some e \<Rightarrow> Err (Protocol (''CDP error '' @ show_int (ce_code e) @ '': '' @ ce_message e))
      | None \<Rightarrow> Ok m)"

definition finish_call :: "nat \<Rightarrow> reply \<Rightarrow> cdp_client \<Rightarrow> cdp_client" where
  "finish_call c r s =
     (case tab_get c (cc_calls s) of
        None \<Rightarrow> s
      | Some i \<Rightarrow> s\<lparr>cc_calls := tab_remove c (cc_calls s), cc_replies := cc_replies s @ [(c, i, r)]\<rparr>)"

definition call_timeout :: "nat \<Rightarrow> cdp_client \<Rightarrow> cdp_client" where
  "call_timeout c s =
     (case tab_get c (cc_calls s) of
        None \<Rightarrow> s
      | Some i \<Rightarrow> finish_call c (Err (CdpTimeout 15000)) (s\<lparr>cc_pending := tab_remove i (cc_pending s)\<rparr>))"

subsection \<open>Messages\<close>

definition handle_frame ::
  "cdp_env \<Rightarrow> instant \<Rightarrow> json \<Rightarrow> cdp_client \<Rightarrow> ((cdp_error, unit) outcome \<times> cdp_client) option" where
  "handle_frame env now params s =
     (case frame_event_of_json params of
        None \<Rightarrow> Some (Err (Screencast (serde_text env params)), s)
      | Some ev \<Rightarrow>
          (case decode_frame env now (cc_screencast s) ev (cc_generation s) of
             Err e \<Rightarrow> Some (Err e, s)
           | Panic \<Rightarrow> Some (Panic, s)
           | Ok frame \<Rightarrow>
               (let s1 = (case frame of None \<Rightarrow> s | Some f \<Rightarrow> s\<lparr>cc_frames := cc_frames s @ [f]\<rparr>);
                    (ack, n) = ack_request (sf_session_id ev) (cc_next_id s1)
                in map_option (\<lambda>(r, s2). (Ok (), s2)) (send_request ack (s1\<lparr>cc_next_id := n\<rparr>)))))"

definition handle_message ::
  "cdp_env \<Rightarrow> instant \<Rightarrow> string \<Rightarrow> cdp_client \<Rightarrow> ((cdp_error, unit) outcome \<times> cdp_client) option" where
  "handle_message env now text s =
     (case parse_json env text of
        Err e \<Rightarrow> Some (Err (Protocol e), s)
      | Panic \<Rightarrow> Some (Panic, s)
      | Ok j \<Rightarrow>
          (case message_of_json j of
             None \<Rightarrow> Some (Err (Protocol (serde_text env j)), s)
           | Some msg \<Rightarrow>
               (case Option.bind (cm_id msg) (\<lambda>i. tab_get i (cc_pending s)) of
                  Some c \<Rightarrow>
                    Some (Ok (), finish_call c (reply_of_message msg)
                      (s\<lparr>cc_pending := tab_remove (the (cm_id msg)) (cc_pending s)\<rparr>))
                | None \<Rightarrow>
                    if is_event msg \<and> cm_method msg = Some ''Page.screencastFrame'' then
                      (case cm_params msg of
                         None \<Rightarrow> Some (Ok (), s)
                       | Some params \<Rightarrow> handle_frame env now params s)
                    else Some (Ok (), s))))"

subsection \<open>Losing and regaining the connection\<close>

text \<open>The read side ended: \<open>pending_requests.clear()\<close> drops every sending half, and each waiting
  call sees that its sender is gone.\<close>

definition disconnect :: "cdp_client \<Rightarrow> cdp_client" where
  "disconnect s =
     s\<lparr>cc_pending := [], cc_calls := [],
       cc_replies := cc_replies s @ map (\<lambda>(c, i). (c, i, Err ConnectionLost)) (cc_calls s),
       cc_phase := Retrying 0\<rparr>"

definition retry_announce :: "nat \<Rightarrow> cdp_client \<Rightarrow> cdp_client" where
  "retry_announce attempt s =
     (if attempt < unat (rc_max_attempts (cc_retry s)) then
        s\<lparr>cc_state := Reconnecting (of_nat attempt + 1), cc_phase := Waiting attempt\<rparr>
      else s\<lparr>cc_state := Disconnected, cc_phase := Finished\<rparr>)"

definition reconnected :: "cdp_client \<Rightarrow> cdp_client option" where
  "reconnected s =
     (let s1 = (open_channel s)\<lparr>cc_state := Connected\<rparr>;
          (gen, g) = bump_generation (cc_screencast s1);
          s2 = s1\<lparr>cc_screencast := g, cc_generation := gen, cc_phase := Reading\<rparr>
      in case cc_screencast_params s2 of
           None \<Rightarrow> Some s2
         | Some p \<Rightarrow>
             (let (req, g', n) = start_request p (cc_screencast s2) (cc_next_id s2)
              in map_option snd (send_request req (s2\<lparr>cc_screencast := g', cc_next_id := n\<rparr>))))"

definition retry_failed :: "nat \<Rightarrow> cdp_client \<Rightarrow> cdp_client" where
  "retry_failed attempt s = s\<lparr>cc_phase := Retrying (attempt + 1)\<rparr>"

text \<open>The write loop of channel \<open>k\<close> sends the request at the head, or fails and drops the channel.\<close>

definition write_next :: "nat \<Rightarrow> bool \<Rightarrow> cdp_client \<Rightarrow> cdp_client" where
  "write_next k ok s =
     (let ch = cc_channels s ! k in
      case ch_queue ch of
        [] \<Rightarrow> s
      | req # q \<Rightarrow>
          if ok then s\<lparr>cc_channels := (cc_channels s)[k := ch\<lparr>ch_queue := q\<rparr>],
                 cc_written := cc_written s @ [req]\<rparr>
          else s\<lparr>cc_channels := (cc_channels s)[k := \<lparr>ch_open = False, ch_queue = []\<rparr>]\<rparr>)"

definition cdp_cancel :: "cdp_client \<Rightarrow> cdp_client" where
  "cdp_cancel s =
     s\<lparr>cc_cancelled := True,
       cc_phase := (if cc_phase s = NotStarted then NotStarted else Finished),
       cc_channels := map (\<lambda>_. \<lparr>ch_open = False, ch_queue = []\<rparr>) (cc_channels s)\<rparr>"

text \<open>\<open>s.rfind(pat)\<close>: the greatest byte offset at which the pattern occurs.\<close>

definition str_rfind :: "string \<Rightarrow> string \<Rightarrow> nat option" where
  "str_rfind p s =
     (case filter (\<lambda>i. starts_with p (drop i s)) [0..<Suc (length s)] of
        [] \<Rightarrow> None
      | is \<Rightarrow> Some (last is))"

definition endpoint_for_target :: "string \<Rightarrow> cdp_client \<Rightarrow> string" where
  "endpoint_for_target target s =
     (case str_rfind ''/devtools/page/'' (cc_endpoint s) of
        Some base \<Rightarrow> take base (cc_endpoint s) @ ''/devtools/page/'' @ target
      | None \<Rightarrow> cc_endpoint s @ ''/'' @ target)"

subsection \<open>Retry delays\<close>

text \<open>\<open>Duration::saturating_mul\<close>: the largest duration is \<open>2^64 - 1\<close> seconds and 999999999
  nanoseconds. The remainder of a division by a positive number is below it, so that the
  sums of \<open>u64\<close> cannot overflow.\<close>

definition duration_max :: nat where
  "duration_max = (2 ^ 64 - 1) * 10 ^ 9 + 999999999"

definition backoff_delay :: "u32 \<Rightarrow> retry_config \<Rightarrow> nat" where
  "backoff_delay attempt rc =
     (let factor = (if attempt < 32 then push_bit (unat attempt) 1 else - 1 :: u32);
          base = min (rc_initial_delay rc * unat factor) duration_max;
          delay = min base (rc_max_delay rc)
      in if rc_jitter rc then
           (let ms = of_nat (delay div 10 ^ 6) :: u64;
                jittered = ms div 2 + (ms div 2 * (ucast attempt + 1)) mod (ms div 2 + 1)
            in unat jittered * 10 ^ 6)
         else delay)"

subsection \<open>Steps\<close>

text \<open>The rules that take a request id require that the counter does not wrap: runs of fewer
  than \<open>2^64 - 1\<close> requests. The counter is global, so other clients of the process move it.\<close>

definition id_free :: "cdp_client \<Rightarrow> bool" where
  "id_free s \<longleftrightarrow> unat (cc_next_id s) + 2 < 2 ^ 64"

definition new_call :: "nat \<Rightarrow> cdp_client \<Rightarrow> bool" where
  "new_call c s \<longleftrightarrow> tab_get c (cc_calls s) = None \<and> c \<notin> fst ` set (cc_replies s)"

inductive cdp_step :: "cdp_env \<Rightarrow> bool \<Rightarrow> cdp_client \<Rightarrow> cdp_client \<Rightarrow> bool" for env checks where
  step_connect: "cc_phase s = NotStarted \<Longrightarrow> connect r s = (res, s') \<Longrightarrow> cdp_step env checks s s'"
| step_call: "id_free s \<Longrightarrow> new_call c s \<Longrightarrow> begin_call c m p s = Some s' \<Longrightarrow> cdp_step env checks s s'"
| step_command: "id_free s \<Longrightarrow> send_command m p s = Some (r, s') \<Longrightarrow> cdp_step env checks s s'"
| step_input: "id_free s \<Longrightarrow> dispatch_input checks ev s = Some (r, s') \<Longrightarrow> cdp_step env checks s s'"
| step_start: "id_free s \<Longrightarrow> start_screencast sp s = Some (r, s') \<Longrightarrow> cdp_step env checks s s'"
| step_stop: "id_free s \<Longrightarrow> stop_screencast s = Some (r, s') \<Longrightarrow> cdp_step env checks s s'"
| step_timeout: "cdp_step env checks s (call_timeout c s)"
| step_message: "cc_phase s = Reading \<Longrightarrow> id_free s \<Longrightarrow> handle_message env now text s = Some (r, s') \<Longrightarrow>
    cdp_step env checks s s'"
| step_disconnect: "cc_phase s = Reading \<Longrightarrow> cdp_step env checks s (disconnect s)"
| step_announce: "cc_phase s = Retrying a \<Longrightarrow> cdp_step env checks s (retry_announce a s)"
| step_reconnected: "cc_phase s = Waiting a \<Longrightarrow> id_free s \<Longrightarrow> reconnected s = Some s' \<Longrightarrow>
    cdp_step env checks s s'"
| step_failed: "cc_phase s = Waiting a \<Longrightarrow> cdp_step env checks s (retry_failed a s)"
| step_write: "k < length (cc_channels s) \<Longrightarrow> cdp_step env checks s (write_next k ok s)"
| step_other: "id_free s \<Longrightarrow> cdp_step env checks s (s\<lparr>cc_next_id := cc_next_id s + 1\<rparr>)"
| step_cancel: "cdp_step env checks s (cdp_cancel s)"

inductive cdp_reachable :: "cdp_env \<Rightarrow> bool \<Rightarrow> cdp_client \<Rightarrow> bool" for env checks where
  cdp_start: "cdp_reachable env checks (cdp_client_new endpoint rc n)"
| cdp_more: "cdp_reachable env checks s \<Longrightarrow> cdp_step env checks s s' \<Longrightarrow> cdp_reachable env checks s'"

end
