(* ===== verification/Cdp_Invariants.thy ===== *)
theory Cdp_Invariants
  imports Cdp_Client
begin

section \<open>Requests and replies of the DevTools client\<close>

text \<open>
  The invariant of the client over all interleavings of its tasks: waiting calls and pending
  requests correspond one to one, ids are never used twice, and a reply that was delivered
  carries the id of the call it was delivered to.
\<close>

definition paired :: "u64 \<Rightarrow> (u64, nat) table \<Rightarrow> (nat, u64) table \<Rightarrow> bool" where
  "paired n pending calls \<longleftrightarrow>
     (\<forall>i c. tab_get i pending = Some c \<longleftrightarrow> tab_get c calls = Some i) \<and>
     (\<forall>c i. tab_get c calls = Some i \<longrightarrow> unat i < unat n)"

definition answered_once :: "(nat, u64) table \<Rightarrow> (nat \<times> u64 \<times> reply) list \<Rightarrow> bool" where
  "answered_once calls replies \<longleftrightarrow>
     tab_invar calls \<and> distinct (map fst replies) \<and>
     (\<forall>c \<in> fst ` set replies. tab_get c calls = None)"

definition matching_reply :: "nat \<times> u64 \<times> reply \<Rightarrow> bool" where
  "matching_reply x = (case x of
     (c, i, Ok m) \<Rightarrow> cm_id m = Some i \<and> cm_error m = None | (c, i, _) \<Rightarrow> True)"

definition calls_ok ::
  "u64 \<Rightarrow> (u64, nat) table \<Rightarrow> (nat, u64) table \<Rightarrow> (nat \<times> u64 \<times> reply) list \<Rightarrow> bool" where
  "calls_ok n pending calls replies \<longleftrightarrow>
     paired n pending calls \<and> answered_once calls replies \<and> list_all matching_reply replies"

definition calls_inv :: "cdp_client \<Rightarrow> bool" where
  "calls_inv s \<longleftrightarrow> calls_ok (cc_next_id s) (cc_pending s) (cc_calls s) (cc_replies s)"

definition generation_inv :: "cdp_client \<Rightarrow> bool" where
  "generation_inv s \<longleftrightarrow> cc_phase s = NotStarted \<or> cc_generation s = sg_generation (cc_screencast s)"

definition cdp_inv :: "cdp_client \<Rightarrow> bool" where
  "cdp_inv s \<longleftrightarrow> calls_inv s \<and> generation_inv s"

lemma calls_ok_mono: "calls_ok n p c r \<Longrightarrow> unat n \<le> unat n' \<Longrightarrow> calls_ok n' p c r"
  unfolding calls_ok_def paired_def by (meson less_le_trans)

lemma paired_fresh:
  assumes "paired n p calls"
  shows "tab_get n p = None"
proof (cases "tab_get n p")
  case (Some c)
  then have "tab_get c calls = Some n" using assms by (simp add: paired_def)
  then show ?thesis using assms by (metis less_irrefl paired_def)
qed simp

lemma paired_insert:
  assumes "paired n p calls" and "unat n < unat n'" and "tab_get c calls = None"
  shows "paired n' (tab_insert n c p) (tab_insert c n calls)"
  unfolding paired_def
proof (intro conjI allI impI)
  fix i d
  have "tab_get d calls \<noteq> Some n" "tab_get i p \<noteq> Some c"
    using paired_fresh [OF assms(1)] assms(1,3) unfolding paired_def by force+
  then show "tab_get i (tab_insert n c p) = Some d \<longleftrightarrow> tab_get d (tab_insert c n calls) = Some i"
    using assms(1) unfolding paired_def by auto
next
  fix d i
  assume "tab_get d (tab_insert c n calls) = Some i"
  then have "i = n \<or> unat i < unat n" using assms(1) unfolding paired_def by (auto split: if_splits)
  then show "unat i < unat n'" using assms(2) by auto
qed

lemma paired_insert_remove:
  assumes "paired n p calls" and "unat n < unat n'"
  shows "paired n' (tab_remove n (tab_insert n c p)) calls"
proof -
  have e: "tab_get i (tab_remove n (tab_insert n c p)) = tab_get i p" for i
    using paired_fresh [OF assms(1)] by simp
  have "paired n' p calls" using assms unfolding paired_def by (meson less_trans)
  then show ?thesis unfolding paired_def e .
qed

lemma paired_remove:
  assumes "paired n p calls" and "tab_get c calls = Some i"
  shows "paired n (tab_remove i p) (tab_remove c calls)"
  unfolding paired_def
proof (intro conjI allI impI)
  fix j d
  have "tab_get i p = Some c" using assms by (simp add: paired_def)
  moreover have "tab_get j p = Some d \<longleftrightarrow> tab_get d calls = Some j" using assms(1) by (simp add: paired_def)
  ultimately show "tab_get j (tab_remove i p) = Some d \<longleftrightarrow> tab_get d (tab_remove c calls) = Some j"
    using assms(2) by auto
next
  fix d j
  assume "tab_get d (tab_remove c calls) = Some j"
  then show "unat j < unat n" using assms(1) unfolding paired_def by (auto split: if_splits)
qed

lemma paired_empty: "paired n [] []"
  by (simp add: paired_def)

lemma calls_ok_begin:
  assumes "calls_ok n p calls replies" and "unat n < unat n'" and "tab_get c calls = None"
    and "c \<notin> fst ` set replies"
  shows "calls_ok n' (tab_insert n c p) (tab_insert c n calls) replies"
  using assms paired_insert [of n p calls n' c] by (auto simp: calls_ok_def answered_once_def)

lemma calls_ok_refused:
  assumes "calls_ok n p calls replies" and "unat n < unat n'" and "tab_get c calls = None"
    and "c \<notin> fst ` set replies"
  shows "calls_ok n' (tab_remove n (tab_insert n c p)) calls (replies @ [(c, n, Err e)])"
  using assms paired_insert_remove [of n p calls n' c]
  by (auto simp: calls_ok_def answered_once_def matching_reply_def)

lemma calls_ok_finish:
  assumes "calls_ok n p calls replies" and "tab_get c calls = Some i" and "matching_reply (c, i, r)"
  shows "calls_ok n (tab_remove i p) (tab_remove c calls) (replies @ [(c, i, r)])"
proof -
  have "c \<notin> fst ` set replies" using assms(1,2) by (auto simp: calls_ok_def answered_once_def)
  then show ?thesis
    using assms paired_remove [of n p calls c i] by (auto simp: calls_ok_def answered_once_def)
qed

lemma calls_ok_lost:
  assumes "calls_ok n p calls replies"
  shows "calls_ok n [] [] (replies @ map (\<lambda>(c, i). (c, i, Err ConnectionLost)) calls)"
proof -
  have d: "distinct (map fst calls)" using assms by (simp add: calls_ok_def answered_once_def tab_invar_def)
  have "c \<notin> fst ` set replies" if "c \<in> fst ` set calls" for c
  proof -
    have "tab_get c calls \<noteq> None" using that by (simp add: tab_get_def map_of_eq_None_iff)
    moreover have "\<forall>c \<in> fst ` set replies. tab_get c calls = None"
      using assms unfolding calls_ok_def answered_once_def by simp
    ultimately show ?thesis by metis
  qed
  then have "distinct (map fst (replies @ map (\<lambda>(c, i). (c, i, Err ConnectionLost)) calls))"
    using assms d by (auto simp: calls_ok_def answered_once_def comp_def case_prod_unfold)
  then show ?thesis
    using assms paired_empty by (auto simp: calls_ok_def answered_once_def matching_reply_def list_all_iff)
qed

lemma id_free_next: "id_free s \<Longrightarrow> unat (cc_next_id s + 1) = unat (cc_next_id s) + 1"
  unfolding id_free_def by (subst unat_add_lem [THEN iffD1]) simp_all

lemma send_request_only:
  assumes "send_request req s = Some (r, s')"
  obtains chs where "s' = s\<lparr>cc_channels := chs\<rparr>"
proof -
  have "s' = s\<lparr>cc_channels := cc_channels s'\<rparr>"
    using assms by (auto simp: send_request_def Let_def split: if_splits)
  then show thesis by (rule that)
qed

subsection \<open>The invariant is kept\<close>

definition wait_free :: "cdp_client \<Rightarrow> cdp_client \<Rightarrow> bool" where
  "wait_free s s' \<longleftrightarrow>
     cc_pending s' = cc_pending s \<and> cc_calls s' = cc_calls s \<and> cc_replies s' = cc_replies s \<and>
     unat (cc_next_id s) \<le> unat (cc_next_id s') \<and> generation_inv s'"

text \<open>A step that answers no call and starts none.\<close>

lemma cdp_inv_wait_free: "cdp_inv s \<Longrightarrow> wait_free s s' \<Longrightarrow> cdp_inv s'"
  unfolding cdp_inv_def wait_free_def calls_inv_def using calls_ok_mono by metis

lemma wait_free_send:
  assumes "send_request req s1 = Some (r, s')" and "wait_free s s1"
  shows "wait_free s s'"
  using assms(2) by (rule_tac send_request_only [OF assms(1)]) (simp add: wait_free_def generation_inv_def)

lemma wait_free_refl: "cdp_inv s \<Longrightarrow> wait_free s s"
  by (simp add: wait_free_def cdp_inv_def)

lemma request_new_simps [simp]:
  "cdp_request_new m p n = (\<lparr>cq_id = n, cq_method = m, cq_params = p\<rparr>, n + 1)"
  by (simp add: cdp_request_new_def next_message_id_def)

lemma start_request_simps [simp]:
  "start_request p g n = (\<lparr>cq_id = n, cq_method = ''Page.startScreencast'',
     cq_params = Some (screencast_params_json p)\<rparr>, g\<lparr>sg_active := True\<rparr>, n + 1)"
  "stop_request g n = (\<lparr>cq_id = n, cq_method = ''Page.stopScreencast'', cq_params = None\<rparr>,
     g\<lparr>sg_active := False\<rparr>, n + 1)"
  by (simp_all add: start_request_def stop_request_def)

lemma wait_free_command:
  assumes "cdp_inv s" "id_free s" "send_command m p s = Some (r, s')"
  shows "wait_free s s'"
  using assms id_free_next [OF assms(2)]
  by (auto simp: send_command_def elim!: wait_free_send) (simp add: wait_free_def cdp_inv_def generation_inv_def)

lemma input_next_id:
  "input_to_cdp checks ev n = Ok (req, n') \<Longrightarrow> n' = n + 1"
  by (cases ev) (auto simp: mouse_request_def key_request_def)

lemma wait_free_input:
  assumes "cdp_inv s" "id_free s" "dispatch_input checks ev s = Some (r, s')"
  shows "wait_free s s'"
proof (cases "input_to_cdp checks ev (cc_next_id s) :: (cdp_error, cdp_request \<times> u64) outcome")
  case (Ok x)
  then have "snd x = cc_next_id s + 1"
    using input_next_id [of checks ev "cc_next_id s" "fst x" "snd x"] by simp
  then obtain req where x: "x = (req, cc_next_id s + 1)" by (cases x) auto
  have "wait_free s (s\<lparr>cc_next_id := cc_next_id s + 1\<rparr>)"
    using assms(1) id_free_next [OF assms(2)] by (simp add: wait_free_def cdp_inv_def generation_inv_def)
  then show ?thesis using assms(3) Ok x wait_free_send by (auto simp: dispatch_input_def)
qed (use assms wait_free_refl in \<open>auto simp: dispatch_input_def\<close>)

lemma wait_free_screencast:
  assumes "cdp_inv s" "id_free s"
  shows "start_screencast p s = Some (r, s') \<Longrightarrow> wait_free s s'"
    and "stop_screencast s = Some (r, s') \<Longrightarrow> wait_free s s'"
  using assms id_free_next [OF assms(2)]
  by (auto simp: start_screencast_def stop_screencast_def wait_free_def cdp_inv_def generation_inv_def
    elim!: send_request_only)

lemma cdp_inv_begin:
  assumes "cdp_inv s" "id_free s" "new_call c s" "begin_call c m p s = Some s'"
  shows "cdp_inv s'"
proof -
  let ?n = "cc_next_id s"
  let ?s1 = "s\<lparr>cc_next_id := ?n + 1, cc_pending := tab_insert ?n c (cc_pending s)\<rparr>"
  let ?req = "\<lparr>cq_id = ?n, cq_method = m, cq_params = p\<rparr>"
  obtain r s2 where r: "send_request ?req ?s1 = Some (r, s2)"
    using assms(4) by (auto simp: begin_call_def Let_def split: option.splits)
  obtain chs where s2: "s2 = ?s1\<lparr>cc_channels := chs\<rparr>" by (rule send_request_only [OF r])
  have n: "unat ?n < unat (?n + 1)" using id_free_next [OF assms(2)] by simp
  have c: "calls_ok ?n (cc_pending s) (cc_calls s) (cc_replies s)" "tab_get c (cc_calls s) = None"
    "c \<notin> fst ` set (cc_replies s)" "generation_inv s"
    using assms(1,3) by (simp_all add: cdp_inv_def calls_inv_def new_call_def)
  note b = calls_ok_begin [OF c(1) n c(2,3)] and f = calls_ok_refused [OF c(1) n c(2,3)]
  have "r \<noteq> Panic" using r by (auto simp: send_request_def Let_def split: if_splits)
  then show ?thesis
    using assms(4) r s2 b f c(4)
    by (cases r) (auto simp: begin_call_def Let_def cdp_inv_def calls_inv_def generation_inv_def)
qed

lemma cdp_inv_finish:
  assumes "cdp_inv s" "tab_get c (cc_calls s) = Some i" "matching_reply (c, i, r)"
  shows "cdp_inv (finish_call c r (s\<lparr>cc_pending := tab_remove i (cc_pending s)\<rparr>))"
  using assms calls_ok_finish
  by (auto simp: finish_call_def cdp_inv_def calls_inv_def generation_inv_def)

lemma cdp_inv_timeout: "cdp_inv s \<Longrightarrow> cdp_inv (call_timeout c s)"
  using cdp_inv_finish [of s c _ "Err (CdpTimeout 15000)"]
  by (auto simp: call_timeout_def matching_reply_def split: option.splits)

lemma wait_free_frame:
  assumes "cdp_inv s" "id_free s" "handle_frame env now params s = Some (r, s')"
  shows "wait_free s s'"
proof -
  have w: "wait_free s (s1\<lparr>cc_next_id := cc_next_id s + 1\<rparr>)" if "s1 = s \<or> s1 = s\<lparr>cc_frames := fs\<rparr>" for s1 fs
    using that assms(1) id_free_next [OF assms(2)] by (auto simp: wait_free_def cdp_inv_def generation_inv_def)
  show ?thesis
    using assms(3) wait_free_refl [OF assms(1)] w
    by (auto simp: handle_frame_def ack_request_def Let_def elim!: wait_free_send
      split: option.splits outcome.splits)
qed

lemma cdp_inv_message:
  assumes "cdp_inv s" "id_free s" "handle_message env now text s = Some (r, s')"
  shows "cdp_inv s'"
proof (cases "parse_json env text")
  case (Ok j)
  show ?thesis
  proof (cases "message_of_json j")
    case (Some msg)
    show ?thesis
    proof (cases "Option.bind (cm_id msg) (\<lambda>i. tab_get i (cc_pending s))")
      case None
      then have "handle_frame env now params s = Some (r, s') \<or> s' = s" if "cm_params msg = Some params" for params
        using assms(3) Ok Some that by (auto simp: handle_message_def split: if_splits)
      moreover have "cm_params msg = None \<Longrightarrow> s' = s"
        using assms(3) Ok Some None by (auto simp: handle_message_def split: if_splits)
      ultimately show ?thesis
        using cdp_inv_wait_free [OF assms(1)] wait_free_frame [OF assms(1,2)] assms(1)
        by (cases "cm_params msg") metis+
    next
      case (Some c)
      then obtain i where i: "cm_id msg = Some i" "tab_get i (cc_pending s) = Some c"
        by (cases "cm_id msg") auto
      then have "tab_get c (cc_calls s) = Some i"
        using assms(1) by (simp add: cdp_inv_def calls_inv_def calls_ok_def paired_def)
      moreover have "matching_reply (c, i, reply_of_message msg)"
        using i by (auto simp: matching_reply_def reply_of_message_def split: option.splits)
      moreover have "s' = finish_call c (reply_of_message msg) (s\<lparr>cc_pending := tab_remove i (cc_pending s)\<rparr>)"
        using assms(3) Ok \<open>message_of_json j = Some msg\<close> Some i by (simp add: handle_message_def)
      ultimately show ?thesis using cdp_inv_finish [OF assms(1)] by simp
    qed
  qed (use assms Ok in \<open>auto simp: handle_message_def\<close>)
qed (use assms in \<open>auto simp: handle_message_def\<close>)

lemma cdp_inv_disconnect: "cdp_inv s \<Longrightarrow> cc_phase s = Reading \<Longrightarrow> cdp_inv (disconnect s)"
  using calls_ok_lost
  by (auto simp: disconnect_def cdp_inv_def calls_inv_def generation_inv_def)

lemma wait_free_reconnected:
  assumes "cdp_inv s" "id_free s" "reconnected s = Some s'"
  shows "wait_free s s'"
  using assms id_free_next [OF assms(2)]
  by (auto simp: reconnected_def Let_def bump_generation_def open_channel_def wait_free_def
      generation_inv_def elim!: send_request_only split: option.splits)

lemma cdp_inv_step: "cdp_step env checks s s' \<Longrightarrow> cdp_inv s \<Longrightarrow> cdp_inv s'"
proof (induction rule: cdp_step.induct)
  case (step_connect s r res s')
  then show ?case
    by (cases r) (auto simp: connect_def Let_def open_channel_def cdp_inv_def calls_inv_def generation_inv_def)
next
  case (step_write k s ok)
  then show ?case
    by (auto simp: write_next_def Let_def cdp_inv_def calls_inv_def generation_inv_def split: list.splits)
next
  case (step_other s)
  then show ?case
    using cdp_inv_wait_free [OF step_other(2)] id_free_next [OF step_other(1)]
    by (simp add: wait_free_def cdp_inv_def generation_inv_def)
next
  case (step_announce s a)
  then show ?case by (simp add: retry_announce_def cdp_inv_def calls_inv_def generation_inv_def)
next
  case (step_failed s a)
  then show ?case by (simp add: retry_failed_def cdp_inv_def calls_inv_def generation_inv_def)
next
  case (step_cancel s)
  then show ?case by (auto simp: cdp_cancel_def cdp_inv_def calls_inv_def generation_inv_def)
next
  case (step_call s c m p s')
  show ?case by (rule cdp_inv_begin [OF step_call(4,1,2,3)])
next
  case (step_command s m p r s')
  show ?case by (rule cdp_inv_wait_free [OF step_command(3) wait_free_command [OF step_command(3,1,2)]])
next
  case (step_input s ev r s')
  show ?case by (rule cdp_inv_wait_free [OF step_input(3) wait_free_input [OF step_input(3,1,2)]])
next
  case (step_start s sp r s')
  show ?case by (rule cdp_inv_wait_free [OF step_start(3) wait_free_screencast(1) [OF step_start(3,1,2)]])
next
  case (step_stop s r s')
  show ?case by (rule cdp_inv_wait_free [OF step_stop(3) wait_free_screencast(2) [OF step_stop(3,1,2)]])
next
  case (step_timeout s c)
  then show ?case by (rule cdp_inv_timeout)
next
  case (step_message s now t r s')
  show ?case by (rule cdp_inv_message [OF step_message(4,2,3)])
next
  case (step_disconnect s)
  show ?case by (rule cdp_inv_disconnect [OF step_disconnect(2,1)])
next
  case (step_reconnected s a s')
  show ?case by (rule cdp_inv_wait_free [OF step_reconnected(4) wait_free_reconnected [OF step_reconnected(4,2,3)]])
qed

lemma cdp_inv_reachable: "cdp_reachable env checks s \<Longrightarrow> cdp_inv s"
proof (induction rule: cdp_reachable.induct)
  case (cdp_start endpoint rc n)
  show ?case
    by (simp add: cdp_client_new_def cdp_inv_def calls_inv_def generation_inv_def calls_ok_def
      paired_def answered_once_def)
qed (rule cdp_inv_step)

lemma decode_current:
  assumes "cdp_inv s" and "cc_phase s \<noteq> NotStarted" and "base64_decode env (sf_data ev) = Ok d"
  shows "decode_frame env now (cc_screencast s) ev (cc_generation s) =
    (if d = [] then Ok None
     else Ok (Some \<lparr>rf_data = d, rf_timestamp = now, rf_session_id = sf_session_id ev\<rparr>))"
  using assms by (simp add: cdp_inv_def generation_inv_def decode_frame_def)

subsection \<open>A run of the client\<close>

definition example_env :: cdp_env where
  "example_env =
     \<lparr>parse_json = (\<lambda>t. if t = ''answer'' then Ok (JObj [(''id'', JInt 1), (''result'', JObj [])]) else Err ''eof''),
      base64_decode = (\<lambda>t. if t = ''/w=='' then Ok [0xFF] else Err ''invalid byte''),
      serde_text = (\<lambda>_. ''missing field'')\<rparr>"

definition example_connected :: cdp_client where
  "example_connected =
     snd (connect (Ok ()) (cdp_client_new ''ws://h:9222/devtools/page/A'' default_retry_config 1))"

definition example_waiting :: cdp_client where
  "example_waiting = the (begin_call 0 ''Page.enable'' None example_connected)"

definition example_answered :: cdp_client where
  "example_answered = snd (the (handle_message example_env 0 ''answer'' example_waiting))"

lemmas example_states = example_connected_def connect_def cdp_client_new_def open_channel_def
  example_waiting_def begin_call_def send_request_def tab_insert_def tab_remove_def Let_def
  screencast_new_def

lemma example_connected_reachable: "cdp_reachable example_env True example_connected"
  using cdp_more [OF cdp_start step_connect [where r = "Ok ()"]]
  by (simp add: example_connected_def cdp_client_new_def prod_eq_iff)

lemma example_waiting_reachable: "cdp_reachable example_env True example_waiting"
proof -
  have "begin_call 0 ''Page.enable'' None example_connected = Some example_waiting"
    "id_free example_connected" "new_call 0 example_connected"
    by (simp_all add: example_states id_free_def new_call_def)
  then show ?thesis by (metis cdp_more [OF example_connected_reachable] step_call)
qed

lemma example_answered_reachable: "cdp_reachable example_env True example_answered"
proof -
  have "handle_message example_env 0 ''answer'' example_waiting = Some (Ok (), example_answered)"
    "id_free example_waiting" "cc_phase example_waiting = Reading"
    unfolding example_answered_def
    by (simp_all add: example_states id_free_def handle_message_def example_env_def message_of_json_def
      opt_field_def u64_of_json_def tab_get_def)
  then show ?thesis by (metis cdp_more [OF example_waiting_reachable] step_message)
qed

subsection \<open>Properties\<close>

text \<open>C6: Replies of the browser: in every reachable state of the client, a call that was answered
  with a message got the response that carries the call's own id, with no error in it; every
  call was answered at most once, and a call that still waits has not been answered.\<close>

theorem cdp_replies_correlated:
  assumes "cdp_reachable env checks s"
  shows "distinct (map fst (cc_replies s)) \<and>
    (\<forall>(c, i, r) \<in> set (cc_replies s). tab_get c (cc_calls s) = None \<and>
      (case r of Ok m \<Rightarrow> cm_id m = Some i \<and> cm_error m = None | _ \<Rightarrow> True))"
proof -
  have a: "answered_once (cc_calls s) (cc_replies s)" "list_all matching_reply (cc_replies s)"
    using cdp_inv_reachable [OF assms] by (simp_all add: cdp_inv_def calls_inv_def calls_ok_def)
  then have "matching_reply x" "tab_get (fst x) (cc_calls s) = None" if "x \<in> set (cc_replies s)" for x
    using that by (auto simp: list_all_iff answered_once_def)
  with a(1) show ?thesis
    by (fastforce simp: answered_once_def matching_reply_def split: outcome.splits)
qed

theorem cdp_replies_correlated_witness:
  "\<exists>m. cc_replies example_answered = [(0, 1, Ok m)] \<and> cm_id m = Some 1"
proof -
  obtain m where "cc_replies example_answered = [(0, 1, Ok m)]"
    unfolding example_answered_def
    by (simp add: example_states handle_message_def example_env_def message_of_json_def finish_call_def
      opt_field_def u64_of_json_def tab_get_def reply_of_message_def)
  with cdp_replies_correlated [OF example_answered_reachable] show ?thesis by simp
qed

text \<open>C14: No call waits for ever: in every reachable state, a call that waits is registered under
  its id, so that the response with this id answers it; a timeout answers it and leaves no
  trace of it; and losing the connection answers all waiting calls with \<open>ConnectionLost\<close>.\<close>

theorem cdp_calls_answerable:
  assumes "cdp_reachable env checks s" and "tab_get c (cc_calls s) = Some i"
  shows "tab_get i (cc_pending s) = Some c \<and>
    (\<forall>now t j msg. parse_json env t = Ok j \<and> message_of_json j = Some msg \<and> cm_id msg = Some i \<longrightarrow>
      (\<exists>s'. handle_message env now t s = Some (Ok (), s') \<and>
        (c, i, reply_of_message msg) \<in> set (cc_replies s') \<and> tab_get c (cc_calls s') = None)) \<and>
    (c, i, Err (CdpTimeout 15000)) \<in> set (cc_replies (call_timeout c s)) \<and>
    tab_get i (cc_pending (call_timeout c s)) = None \<and>
    (c, i, Err ConnectionLost) \<in> set (cc_replies (disconnect s)) \<and> cc_calls (disconnect s) = []"
proof -
  have p: "tab_get i (cc_pending s) = Some c"
    using cdp_inv_reachable [OF assms(1)] assms(2)
    by (simp add: cdp_inv_def calls_inv_def calls_ok_def paired_def)
  moreover have "handle_message env now t s =
      Some (Ok (), finish_call c (reply_of_message msg) (s\<lparr>cc_pending := tab_remove i (cc_pending s)\<rparr>))"
    if "parse_json env t = Ok j" "message_of_json j = Some msg" "cm_id msg = Some i" for now t j msg
    using that p by (simp add: handle_message_def)
  moreover have "(c, i, Err ConnectionLost) \<in> set (cc_replies (disconnect s))"
    using tab_get_in_set [OF assms(2)] by (force simp: disconnect_def)
  ultimately show ?thesis
    using assms(2) by (auto simp: call_timeout_def finish_call_def disconnect_def)
qed

theorem cdp_calls_answerable_witness:
  "tab_get 1 (cc_pending example_waiting) = Some 0 \<and>
   (0, 1, Err (CdpTimeout 15000)) \<in> set (cc_replies (call_timeout 0 example_waiting))"
proof -
  have "tab_get 0 (cc_calls example_waiting) = Some 1"
    by (simp add: example_states tab_get_def)
  from cdp_calls_answerable [OF example_waiting_reachable this] show ?thesis by simp
qed

text \<open>C7: Frames across reconnects: the loop always works with the current generation of the
  screencast, so that the test for stale frames never drops one in a reachable state; a frame
  is lost only when its data is empty.\<close>

theorem frames_never_stale:
  assumes "cdp_reachable env checks s" and "cc_phase s \<noteq> NotStarted"
    and "base64_decode env (sf_data ev) = Ok d"
  shows "decode_frame env now (cc_screencast s) ev (cc_generation s) =
    (if d = [] then Ok None
     else Ok (Some \<lparr>rf_data = d, rf_timestamp = now, rf_session_id = sf_session_id ev\<rparr>))"
  by (rule decode_current [OF cdp_inv_reachable [OF assms(1)] assms(2,3)])

theorem frames_never_stale_witness:
  "\<forall>m. decode_frame example_env 0 (cc_screencast example_connected)
     \<lparr>sf_data = ''/w=='', sf_metadata = m, sf_session_id = 3\<rparr> (cc_generation example_connected) =
   Ok (Some \<lparr>rf_data = [0xFF], rf_timestamp = 0, rf_session_id = 3\<rparr>)"
proof
  fix m
  have "cc_phase example_connected \<noteq> NotStarted"
    "base64_decode example_env (sf_data \<lparr>sf_data = ''/w=='', sf_metadata = m, sf_session_id = 3\<rparr>) = Ok [0xFF]"
    by (simp_all add: example_states example_env_def)
  from frames_never_stale [OF example_connected_reachable this]
  show "decode_frame example_env 0 (cc_screencast example_connected)
      \<lparr>sf_data = ''/w=='', sf_metadata = m, sf_session_id = 3\<rparr> (cc_generation example_connected) =
    Ok (Some \<lparr>rf_data = [0xFF], rf_timestamp = 0, rf_session_id = 3\<rparr>)" by simp
qed

text \<open>Acknowledging frames: a screencast event is acknowledged exactly if it can be read and
  its data decodes; otherwise the handler returns the error without an acknowledgement, and
  the browser, which waits for one, sends no further frame.\<close>

theorem frame_acknowledged:
  assumes "cdp_reachable env checks s" and "cc_phase s = Reading"
    and "handle_frame env now params s = Some (r, s')"
    and "ch_open (last (cc_channels s))"
  shows "ch_queue (last (cc_channels s')) = ch_queue (last (cc_channels s)) @
    (case frame_event_of_json params of
       None \<Rightarrow> []
     | Some ev \<Rightarrow>
         (case base64_decode env (sf_data ev) of
            Ok d \<Rightarrow> [fst (ack_request (sf_session_id ev) (cc_next_id s))]
          | _ \<Rightarrow> []))"
proof (cases "frame_event_of_json params")
  case None
  then show ?thesis using assms(3) by (auto simp: handle_frame_def)
next
  case (Some ev)
  note g = cdp_inv_reachable [OF assms(1)]
  show ?thesis
  proof (cases "base64_decode env (sf_data ev)")
    case (Ok d)
    have "\<exists>f. decode_frame env now (cc_screencast s) ev (cc_generation s) = Ok f"
      using decode_current [OF g _ Ok] assms(2) by auto
    then show ?thesis using assms(3,4) Some Ok
      by (auto simp: handle_frame_def ack_request_def Let_def send_request_def split: if_splits option.splits)
  next
    case (Err e)
    then show ?thesis using assms(2,3) Some g
      by (auto simp: handle_frame_def decode_frame_def cdp_inv_def generation_inv_def)
  next
    case Panic
    then show ?thesis using assms(2,3) Some g
      by (auto simp: handle_frame_def decode_frame_def cdp_inv_def generation_inv_def)
  qed
qed

theorem frame_acknowledged_witness:
  "\<exists>s'. handle_frame example_env 0 JNull example_connected = Some (Err (Screencast ''missing field''), s') \<and>
     ch_queue (last (cc_channels s')) = []"
proof -
  have f: "handle_frame example_env 0 JNull example_connected =
      Some (Err (Screencast ''missing field''), example_connected)"
    and r: "cc_phase example_connected = Reading" "ch_open (last (cc_channels example_connected))"
    and q: "ch_queue (last (cc_channels example_connected)) = []"
    by (simp_all add: example_states handle_frame_def frame_event_of_json_def example_env_def)
  have "frame_event_of_json JNull = None" by (simp add: frame_event_of_json_def)
  with frame_acknowledged [OF example_connected_reachable r(1) f r(2)] f q show ?thesis by simp
qed

subsection \<open>Reconnecting\<close>

text \<open>After a reconnect the client is connected with an empty new channel, the generation goes
  up by one, and the screencast is started again if it was ever started. This also happens
  when it was stopped in between, since stopping does not forget the parameters.\<close>

theorem reconnect_restarts_screencast:
  assumes "cc_screencast_params s = Some p" and "stop_screencast s = Some (r, s1)"
  shows "\<exists>s2. reconnected (s1\<lparr>cc_phase := Waiting a\<rparr>) = Some s2 \<and> cc_state s2 = Connected \<and>
    cc_phase s2 = Reading \<and> \<not> sg_active (cc_screencast s1) \<and> sg_active (cc_screencast s2) \<and>
    sg_generation (cc_screencast s2) = sg_generation (cc_screencast s1) + 1 \<and>
    map cq_method (ch_queue (last (cc_channels s2))) = [''Page.startScreencast'']"
proof -
  have q: "send_request \<lparr>cq_id = cc_next_id s, cq_method = ''Page.stopScreencast'', cq_params = None\<rparr>
      (s\<lparr>cc_screencast := (cc_screencast s)\<lparr>sg_active := False\<rparr>, cc_next_id := cc_next_id s + 1\<rparr>) = Some (r, s1)"
    using assms(2) by (simp add: stop_screencast_def)
  obtain chs where "s1 = s\<lparr>cc_screencast := (cc_screencast s)\<lparr>sg_active := False\<rparr>,
      cc_next_id := cc_next_id s + 1, cc_channels := chs\<rparr>"
    by (rule send_request_only [OF q])
  then show ?thesis using assms(1)
    by (simp add: reconnected_def Let_def bump_generation_def open_channel_def send_request_def)
qed

theorem reconnect_restarts_screencast_witness:
  "\<exists>s1 s2. stop_screencast (snd (the (start_screencast default_screencast_params example_connected))) =
      Some (Ok (), s1) \<and> reconnected (s1\<lparr>cc_phase := Waiting 0\<rparr>) = Some s2 \<and> sg_active (cc_screencast s2)"
proof -
  let ?s = "snd (the (start_screencast default_screencast_params example_connected))"
  have p: "cc_screencast_params ?s = Some default_screencast_params"
    by (simp add: example_states start_screencast_def)
  obtain s1 where s1: "stop_screencast ?s = Some (Ok (), s1)"
    by (simp add: example_states start_screencast_def stop_screencast_def)
  from reconnect_restarts_screencast [OF p s1, of 0] s1 show ?thesis by blast
qed

text \<open>One turn of the reconnection loop when no attempt succeeds.\<close>

definition failing_turn :: "cdp_client \<Rightarrow> cdp_client" where
  "failing_turn s =
     (case cc_phase s of
        Retrying a \<Rightarrow> retry_announce a s
      | Waiting a \<Rightarrow> retry_failed a s
      | _ \<Rightarrow> s)"

lemma failing_turns:
  "cc_phase s = Retrying 0 \<Longrightarrow> a \<le> unat (rc_max_attempts (cc_retry s)) \<Longrightarrow>
     (failing_turn ^^ (2 * a)) s =
       (if a = 0 then s else s\<lparr>cc_state := Reconnecting (of_nat a), cc_phase := Retrying a\<rparr>)"
proof (induction a)
  case (Suc a)
  have "(failing_turn ^^ (2 * Suc a)) s = failing_turn (failing_turn ((failing_turn ^^ (2 * a)) s))"
    by simp
  then show ?case using Suc
    by (auto simp: failing_turn_def retry_announce_def retry_failed_def add.commute)
qed simp

text \<open>Giving up: when the connection is lost and no attempt to connect succeeds, the client
  announces the attempts 1, 2, ... up to the configured maximum, one after the other, and
  is then disconnected for good.\<close>

theorem reconnect_gives_up:
  assumes "cc_phase s = Retrying 0"
  shows "(\<forall>a < unat (rc_max_attempts (cc_retry s)).
      cc_state ((failing_turn ^^ (2 * a + 1)) s) = Reconnecting (of_nat a + 1)) \<and>
    cc_state ((failing_turn ^^ (2 * unat (rc_max_attempts (cc_retry s)) + 1)) s) = Disconnected \<and>
    cc_phase ((failing_turn ^^ (2 * unat (rc_max_attempts (cc_retry s)) + 1)) s) = Finished"
proof -
  have "(failing_turn ^^ (2 * a + 1)) s = retry_announce a ((failing_turn ^^ (2 * a)) s)"
    if "a \<le> unat (rc_max_attempts (cc_retry s))" for a
    using failing_turns [OF assms that] assms by (simp add: failing_turn_def)
  then show ?thesis using failing_turns [OF assms] assms by (simp add: retry_announce_def)
qed

theorem reconnect_gives_up_witness:
  "cc_state ((failing_turn ^^ 21) (disconnect example_connected)) = Disconnected"
proof -
  have p: "cc_phase (disconnect example_connected) = Retrying 0"
    and n: "2 * unat (rc_max_attempts (cc_retry (disconnect example_connected))) + 1 = 21"
    by (simp_all add: disconnect_def example_states default_retry_config_def)
  from reconnect_gives_up [OF p] n show ?thesis by (simp only:)
qed

text \<open>Retry delays: no delay exceeds the configured maximum, with or without jitter, for every
  attempt number; without jitter it is the initial delay doubled per attempt, cut at the
  maximum, and with jitter at least half of that, to the millisecond.\<close>

theorem backoff_bounds:
  "backoff_delay a rc \<le> rc_max_delay rc \<and>
   backoff_delay a (rc\<lparr>rc_jitter := False\<rparr>) =
     min (min (rc_initial_delay rc * (if a < 32 then 2 ^ unat a else 2 ^ 32 - 1)) duration_max) (rc_max_delay rc) \<and>
   unat (of_nat (backoff_delay a (rc\<lparr>rc_jitter := False\<rparr>) div 10 ^ 6) div 2 :: u64) * 10 ^ 6 \<le>
     backoff_delay a (rc\<lparr>rc_jitter := True\<rparr>)"
proof -
  define d where "d = backoff_delay a (rc\<lparr>rc_jitter := False\<rparr>)"
  define ms where "ms = (of_nat (d div 10 ^ 6) :: u64)"
  define j where "j = ms div 2 + (ms div 2 * (ucast a + 1)) mod (ms div 2 + 1)"
  have f: "unat (if a < 32 then push_bit (unat a) 1 else - 1 :: u32) =
      (if a < 32 then 2 ^ unat a else 2 ^ 32 - 1)"
  proof (cases "a < 32")
    case True
    then have "unat a < 32" by (simp add: word_less_nat_alt)
    then have "unat (push_bit (unat a) 1 :: u32) = 2 ^ unat a"
      unfolding unsigned_push_bit_eq by (simp add: take_bit_nat_eq_self)
    then show ?thesis using True by simp
  next
    case False
    then show ?thesis by (simp add: unsigned_minus_1_eq_mask mask_eq_exp_minus_1)
  qed
  have d: "d = min (min (rc_initial_delay rc * (if a < 32 then 2 ^ unat a else 2 ^ 32 - 1)) duration_max) (rc_max_delay rc)"
    unfolding d_def backoff_delay_def Let_def f by simp
  have t: "backoff_delay a (rc\<lparr>rc_jitter := True\<rparr>) = unat j * 10 ^ 6"
    unfolding j_def ms_def d_def backoff_delay_def by (simp add: Let_def)
  have ms: "unat ms \<le> d div 10 ^ 6"
    unfolding ms_def by (simp only: unat_of_nat mod_less_eq_dividend)
  have h: "unat (ms div 2) = unat ms div 2" by (simp add: unat_div)
  have "unat ms < 2 ^ LENGTH(64)" by (rule unsigned_less)
  then have l: "unat (ms div 2) < 2 ^ 63" using h by simp
  then have s: "unat (ms div 2 + 1) = unat (ms div 2) + 1"
    by (subst unat_add_lem [THEN iffD1]) simp_all
  define r where "r = (ms div 2 * (ucast a + 1)) mod (ms div 2 + 1)"
  have "unat r < unat (ms div 2 + 1)"
    unfolding r_def unat_mod by (rule mod_less_divisor) (simp add: s)
  then have r: "unat r \<le> unat (ms div 2)" using s by simp
  then have "unat j = unat (ms div 2) + unat r"
    unfolding j_def r_def [symmetric] using l by (subst unat_add_lem [THEN iffD1]) simp_all
  then have j: "unat (ms div 2) \<le> unat j" "unat j \<le> unat ms" using r h by simp_all
  have "unat j * 10 ^ 6 \<le> d div 10 ^ 6 * 10 ^ 6" using j(2) ms by (intro mult_right_mono) simp_all
  then have "unat j * 10 ^ 6 \<le> d" using div_times_less_eq_dividend [of d "10 ^ 6"] by linarith
  moreover have "d \<le> rc_max_delay rc" using d by simp
  moreover have "backoff_delay a rc = (if rc_jitter rc then unat j * 10 ^ 6 else d)"
    unfolding t [symmetric] d_def by (cases rc) simp
  moreover have "unat (ms div 2) * 10 ^ 6 \<le> unat j * 10 ^ 6" using j(1) by simp
  ultimately show ?thesis unfolding d_def [symmetric] ms_def [symmetric] using d t by auto
qed

end
