(* ===== verification/Browser.thy ===== *)
theory Browser
  imports Cdp_Input
begin

section \<open>Programs that drive a browser\<close>

text \<open>
  What the methods of the DevTools client and of the supervisor do to the outside: commands
  nobody waits for, calls that wait for a reply, and sleeps. A program is given the browser
  and what was done so far, and returns its outcome and the events up to its end. The browser
  is a parameter: \<open>br_answer es e\<close> is the reply to \<open>e\<close> after \<open>es\<close>, which is the outcome of
  \<open>send_command\<close> or \<open>send_command_and_wait\<close> of \<open>Cdp_Client\<close>. \<open>br_show_f64\<close> is the standard
  library's printing of floats, and the JSON and base64 packages are the fields of \<open>cdp_env\<close>.
\<close>

datatype browser_event =
    Command string "json option"
  | Call string "json option"
  | Sleep nat

record browser = cdp_env +
  br_answer :: "browser_event list \<Rightarrow> browser_event \<Rightarrow> cdp_error + cdp_message"
  br_show_f64 :: "rat \<Rightarrow> string"
  br_json_string :: "string \<Rightarrow> string"

type_synonym ('e, 'a) prog = "browser \<Rightarrow> browser_event list \<Rightarrow> ('e, 'a) outcome \<times> browser_event list"

definition ret :: "'a \<Rightarrow> ('e, 'a) prog" where
  "ret a = (\<lambda>br es. (Ok a, es))"

definition lift :: "('e, 'a) outcome \<Rightarrow> ('e, 'a) prog" where
  "lift r = (\<lambda>br es. (r, es))"

text \<open>\<open>m.await?\<close> and what follows it.\<close>

definition seq :: "('e, 'a) prog \<Rightarrow> ('a \<Rightarrow> ('e, 'b) prog) \<Rightarrow> ('e, 'b) prog" where
  "seq m f = (\<lambda>br es.
     case m br es of
       (Ok a, es') \<Rightarrow> f a br es'
     | (Err e, es') \<Rightarrow> (Err e, es')
     | (Panic, es') \<Rightarrow> (Panic, es'))"

text \<open>\<open>let r = m.await;\<close> with the result kept as a value; a panic goes on unwinding.\<close>

definition attempt :: "('e, 'a) prog \<Rightarrow> ('f, ('e, 'a) outcome) prog" where
  "attempt m = (\<lambda>br es.
     case m br es of
       (Panic, es') \<Rightarrow> (Panic, es')
     | (r, es') \<Rightarrow> (Ok r, es'))"

fun map_err :: "('e \<Rightarrow> 'f) \<Rightarrow> ('e, 'a) outcome \<Rightarrow> ('f, 'a) outcome" where
  "map_err f (Ok a) = Ok a"
| "map_err f (Err e) = Err (f e)"
| "map_err f Panic = Panic"

definition with_err :: "('e \<Rightarrow> 'f) \<Rightarrow> ('e, 'a) prog \<Rightarrow> ('f, 'a) prog" where
  "with_err f m = (\<lambda>br es. case m br es of (r, es') \<Rightarrow> (map_err f r, es'))"

definition sleep :: "nat \<Rightarrow> ('e, unit) prog" where
  "sleep ms = (\<lambda>br es. (Ok (), es @ [Sleep ms]))"

definition command :: "string \<Rightarrow> json option \<Rightarrow> (cdp_error, unit) prog" where
  "command m p = (\<lambda>br es.
     (case br_answer br es (Command m p) of Inl e \<Rightarrow> Err e | Inr _ \<Rightarrow> Ok (), es @ [Command m p]))"

definition call_and_wait :: "string \<Rightarrow> json option \<Rightarrow> (cdp_error, cdp_message) prog" where
  "call_and_wait m p = (\<lambda>br es.
     (case br_answer br es (Call m p) of Inl e \<Rightarrow> Err e | Inr msg \<Rightarrow> Ok msg, es @ [Call m p]))"

fun foreach :: "('a \<Rightarrow> ('e, unit) prog) \<Rightarrow> 'a list \<Rightarrow> ('e, unit) prog" where
  "foreach f [] = ret ()"
| "foreach f (x # xs) = seq (f x) (\<lambda>_. foreach f xs)"

subsection \<open>What programs do\<close>

text \<open>A program only adds events, and each that it adds satisfies \<open>P\<close>.\<close>

definition emits :: "(browser_event \<Rightarrow> bool) \<Rightarrow> ('e, 'a) prog \<Rightarrow> bool" where
  "emits P m \<longleftrightarrow> (\<forall>br es. \<exists>xs. snd (m br es) = es @ xs \<and> list_all P xs)"

named_theorems emits_intros "how programs are put together from those that emit only certain events"

lemma emits_ret [emits_intros]: "emits P (ret a)"
  by (simp add: emits_def ret_def)

lemma emits_lift [emits_intros]: "emits P (lift r)"
  by (simp add: emits_def lift_def)

lemma emits_sleep [emits_intros]: "P (Sleep n) \<Longrightarrow> emits P (sleep n)"
  by (simp add: emits_def sleep_def)

lemma emits_command [emits_intros]: "P (Command m p) \<Longrightarrow> emits P (command m p)"
  by (simp add: emits_def command_def)

lemma emits_call [emits_intros]: "P (Call m p) \<Longrightarrow> emits P (call_and_wait m p)"
  by (simp add: emits_def call_and_wait_def)

lemma emits_seq [emits_intros]:
  assumes "emits P m" and "\<And>a. emits P (f a)"
  shows "emits P (seq m f)"
  unfolding emits_def
proof (intro allI)
  fix br es
  obtain r es' where m: "m br es = (r, es')" by (cases "m br es") auto
  obtain xs where xs: "es' = es @ xs" "list_all P xs" using assms(1) m unfolding emits_def by (metis snd_conv)
  show "\<exists>xs. snd (seq m f br es) = es @ xs \<and> list_all P xs"
  proof (cases r)
    case (Ok a)
    obtain ys where "snd (f a br es') = es' @ ys" "list_all P ys" using assms(2) unfolding emits_def by metis
    then show ?thesis using m xs Ok by (intro exI [of _ "xs @ ys"]) (simp add: seq_def)
  qed (use m xs in \<open>auto simp: seq_def\<close>)
qed

lemma emits_with_err [emits_intros]: "emits P m \<Longrightarrow> emits P (with_err f m)"
  by (auto simp: emits_def with_err_def split: prod.split) (metis snd_conv)

lemma emits_attempt [emits_intros]: "emits P m \<Longrightarrow> emits P (attempt m)"
  by (auto simp: emits_def attempt_def split: prod.split outcome.split) (metis snd_conv)+

lemma emits_foreach [emits_intros]: "(\<And>x. x \<in> set xs \<Longrightarrow> emits P (f x)) \<Longrightarrow> emits P (foreach f xs)"
  by (induction xs) (auto intro!: emits_intros)

lemma emits_if [emits_intros]: "emits P m \<Longrightarrow> emits P n \<Longrightarrow> emits P (if b then m else n)"
  by simp

lemma seq_Ok [simp]: "m br es = (Ok a, es') \<Longrightarrow> seq m f br es = f a br es'"
  by (simp add: seq_def)

lemma seq_Err [simp]: "m br es = (Err e, es') \<Longrightarrow> seq m f br es = (Err e, es')"
  by (simp add: seq_def)

lemma seq_ret [simp]: "seq (ret a) f = f a"
  by (simp add: seq_def ret_def)

lemma seq_Panic [simp]: "m br es = (Panic, es') \<Longrightarrow> seq m f br es = (Panic, es')"
  by (simp add: seq_def)

lemma lift_run [simp]: "lift r br es = (r, es)" "ret a br es = (Ok a, es)" "sleep n br es = (Ok (), es @ [Sleep n])"
  by (simp_all add: lift_def ret_def sleep_def)

lemma attempt_run: "m br es = (r, es') \<Longrightarrow> r \<noteq> Panic \<Longrightarrow> attempt m br es = (Ok r, es')"
  by (cases r) (simp_all add: attempt_def)

lemma call_run:
  "br_answer br es (Call m p) = Inl e \<Longrightarrow> call_and_wait m p br es = (Err e, es @ [Call m p])"
  "br_answer br es (Call m p) = Inr msg \<Longrightarrow> call_and_wait m p br es = (Ok msg, es @ [Call m p])"
  by (simp_all add: call_and_wait_def)

lemma command_run:
  "br_answer br es (Command m p) = Inl e \<Longrightarrow> command m p br es = (Err e, es @ [Command m p])"
  "br_answer br es (Command m p) = Inr msg \<Longrightarrow> command m p br es = (Ok (), es @ [Command m p])"
  by (simp_all add: command_def)

lemma call_cases:
  obtains r where "call_and_wait m p br es = (r, es @ [Call m p])" "r \<noteq> Panic"
  by (cases "br_answer br es (Call m p)") (auto simp: call_and_wait_def)

lemma seq_run:
  "m br es = (r, es') \<Longrightarrow> seq m f br es =
     (case r of Ok a \<Rightarrow> f a br es' | Err e \<Rightarrow> (Err e, es') | Panic \<Rightarrow> (Panic, es'))"
  by (cases r) simp_all

subsection \<open>Programs that only send\<close>

text \<open>A program that sends the events \<open>xs\<close>: all of them, or up to the first that the browser
  refuses, whose error it then returns, wrapped by \<open>f\<close>.\<close>

definition sends :: "(cdp_error \<Rightarrow> 'e) \<Rightarrow> ('e, unit) prog \<Rightarrow> browser_event list \<Rightarrow> bool" where
  "sends f m xs \<longleftrightarrow> (\<forall>br es. m br es = (Ok (), es @ xs) \<or>
     (\<exists>ys c zs e. xs = ys @ c # zs \<and> br_answer br (es @ ys) c = Inl e \<and> m br es = (Err (f e), es @ ys @ [c])))"

lemma sends_ret [simp]: "sends f (ret ()) []"
  by (simp add: sends_def)

lemma sends_sleep [simp]: "sends f (sleep n) [Sleep n]"
  by (simp add: sends_def)

lemma sends_command [simp]: "sends f (with_err f (command m p)) [Command m p]"
  by (auto simp: sends_def with_err_def command_def split: sum.split intro!: exI [of _ "[]"])

lemma sends_with_err: "sends f m xs \<Longrightarrow> sends (\<lambda>e. g (f e)) (with_err g m) xs"
  unfolding sends_def
proof (intro allI)
  fix br es
  assume *: "\<forall>br es. m br es = (Ok (), es @ xs) \<or>
     (\<exists>ys c zs e. xs = ys @ c # zs \<and> br_answer br (es @ ys) c = Inl e \<and> m br es = (Err (f e), es @ ys @ [c]))"
  from * [rule_format, of br es]
  show "with_err g m br es = (Ok (), es @ xs) \<or>
     (\<exists>ys c zs e. xs = ys @ c # zs \<and> br_answer br (es @ ys) c = Inl e \<and>
        with_err g m br es = (Err (g (f e)), es @ ys @ [c]))"
    by (elim disjE exE conjE) (force simp: with_err_def)+
qed

lemma sends_seq:
  assumes "sends f m xs" and "sends f n ys"
  shows "sends f (seq m (\<lambda>_. n)) (xs @ ys)"
  unfolding sends_def
proof (intro allI)
  fix br es
  consider (all) "m br es = (Ok (), es @ xs)"
    | (cut) us c vs e where "xs = us @ c # vs" "br_answer br (es @ us) c = Inl e"
        "m br es = (Err (f e), es @ us @ [c])"
    using assms(1) unfolding sends_def by blast
  then show "seq m (\<lambda>_. n) br es = (Ok (), es @ xs @ ys) \<or>
    (\<exists>us c vs e. xs @ ys = us @ c # vs \<and> br_answer br (es @ us) c = Inl e \<and>
       seq m (\<lambda>_. n) br es = (Err (f e), es @ us @ [c]))"
  proof cases
    case all
    consider (all2) "n br (es @ xs) = (Ok (), (es @ xs) @ ys)"
      | (cut2) us c vs e where "ys = us @ c # vs" "br_answer br ((es @ xs) @ us) c = Inl e"
          "n br (es @ xs) = (Err (f e), (es @ xs) @ us @ [c])"
      using assms(2) unfolding sends_def by blast
    then show ?thesis
    proof cases
      case all2
      then show ?thesis using all by simp
    next
      case cut2
      then show ?thesis using all
        by (intro disjI2 exI [of _ "xs @ us"] exI [of _ c] exI [of _ vs] exI [of _ e]) simp
    qed
  next
    case cut
    then show ?thesis by auto
  qed
qed

lemma sends_foreach:
  "(\<And>x. x \<in> set xs \<Longrightarrow> sends f (m x) (g x)) \<Longrightarrow> sends f (foreach m xs) (concat (map g xs))"
  by (induction xs) (auto intro!: sends_seq)

text \<open>The milliseconds slept.\<close>

fun slept :: "browser_event list \<Rightarrow> nat" where
  "slept [] = 0"
| "slept (Sleep n # es) = n + slept es"
| "slept (e # es) = slept es"

lemma slept_append [simp]: "slept (xs @ ys) = slept xs + slept ys"
  by (induction xs rule: slept.induct) auto

text \<open>A browser that takes every command and answers every call with the same result.\<close>

definition quiet_browser :: "json \<Rightarrow> browser" where
  "quiet_browser result =
     \<lparr>parse_json = (\<lambda>_. Err ''''), base64_decode = (\<lambda>_. Ok [0xFF]), serde_text = (\<lambda>_. ''''),
      br_answer = (\<lambda>_ _. Inr \<lparr>cm_id = Some 1, cm_method = None, cm_result = Some result,
        cm_error = None, cm_params = None\<rparr>),
      br_show_f64 = (\<lambda>_. ''''), br_json_string = quoted\<rparr>"

end
