(* ===== verification/Cdp_Calls.thy ===== *)
theory Cdp_Calls
  imports Browser
begin

section \<open>The calls of the DevTools client\<close>

text \<open>
  The methods of \<open>CdpClient\<close> (\<open>client.rs\<close>) that send a command, wait for its reply and take the
  value they need out of it. Scripts given to the browser are the strings of the source.
\<close>

subsection \<open>Screenshots\<close>

definition screenshot_params :: "string \<Rightarrow> u32 option \<Rightarrow> json" where
  "screenshot_params format quality =
     (let params = JObj [(''format'', JStr format), (''fromSurface'', JBool True)] in
      case quality of
        Some q \<Rightarrow> jset ''quality'' (word_json q) params
      | None \<Rightarrow> params)"

definition screenshot_data :: "cdp_message \<Rightarrow> (cdp_error, bytes) prog" where
  "screenshot_data response = (\<lambda>br.
     lift (case Option.bind (Option.bind (cm_result response) (jget ''data'')) as_str of
         None \<Rightarrow> Err (Protocol ''missing screenshot data in response'')
       | Some d \<Rightarrow> map_err (\<lambda>e. Protocol (''base64 decode failed: '' @ e)) (base64_decode br d)) br)"

definition cdp_capture_screenshot :: "string \<Rightarrow> u32 option \<Rightarrow> (cdp_error, bytes) prog" where
  "cdp_capture_screenshot format quality =
     seq (call_and_wait ''Page.captureScreenshot'' (Some (screenshot_params format quality)))
       screenshot_data"

definition cdp_capture_screenshot_clip_scaled ::
  "string \<Rightarrow> u32 option \<Rightarrow> (rat \<times> rat \<times> rat \<times> rat) option \<Rightarrow> rat \<Rightarrow> (cdp_error, bytes) prog" where
  "cdp_capture_screenshot_clip_scaled format quality clip scale =
     (let params = screenshot_params format quality;
          params' = (case clip of
              Some (x, y, w, h) \<Rightarrow>
                jset ''clip'' (JObj [(''x'', JFloat x), (''y'', JFloat y), (''width'', JFloat w),
                  (''height'', JFloat h), (''scale'', JFloat scale)]) params
            | None \<Rightarrow> params)
      in seq (call_and_wait ''Page.captureScreenshot'' (Some params')) screenshot_data)"

definition cdp_capture_screenshot_clip ::
  "string \<Rightarrow> u32 option \<Rightarrow> (rat \<times> rat \<times> rat \<times> rat) option \<Rightarrow> (cdp_error, bytes) prog" where
  "cdp_capture_screenshot_clip format quality clip =
     cdp_capture_screenshot_clip_scaled format quality clip 1"

subsection \<open>Scripts\<close>

text \<open>The value in the reply to \<open>Runtime.evaluate\<close>; \<open>label\<close> begins the message of an exception.\<close>

definition evaluation_result :: "string \<Rightarrow> cdp_message \<Rightarrow> (cdp_error, json) outcome" where
  "evaluation_result label response =
     (case cm_result response of
        None \<Rightarrow> Err (Protocol ''missing evaluation result'')
      | Some obj \<Rightarrow>
          (case jget ''exceptionDetails'' obj of
             Some exc \<Rightarrow>
               Err (Protocol (label @ '': '' @ field_or ''unknown JS error'' as_str ''text'' exc))
           | None \<Rightarrow>
               Ok (case Option.bind (jget ''result'' obj) (jget ''value'') of
                   Some v \<Rightarrow> v | None \<Rightarrow> JNull)))"

definition cdp_evaluate_js :: "string \<Rightarrow> (cdp_error, json) prog" where
  "cdp_evaluate_js expression =
     seq (call_and_wait ''Runtime.evaluate''
         (Some (JObj [(''expression'', JStr expression), (''returnByValue'', JBool True)])))
       (\<lambda>response. lift (evaluation_result ''JS exception'' response))"

definition cdp_evaluate_js_async :: "string \<Rightarrow> (cdp_error, json) prog" where
  "cdp_evaluate_js_async expression =
     seq (call_and_wait ''Runtime.evaluate''
         (Some (JObj [(''expression'', JStr expression), (''returnByValue'', JBool True),
           (''awaitPromise'', JBool True)])))
       (\<lambda>response. lift (evaluation_result ''JS exception'' response))"

definition cdp_evaluate_js_in_frame :: "string \<Rightarrow> string \<Rightarrow> (cdp_error, json) prog" where
  "cdp_evaluate_js_in_frame expression frame_id =
     seq (call_and_wait ''Page.createIsolatedWorld''
         (Some (JObj [(''frameId'', JStr frame_id), (''grantUniveralAccess'', JBool True)])))
       (\<lambda>world.
          case Option.bind (Option.bind (cm_result world) (jget ''executionContextId'')) as_i64 of
            None \<Rightarrow> lift (Err (Protocol ''failed to create isolated world for frame''))
          | Some context_id \<Rightarrow>
              seq (call_and_wait ''Runtime.evaluate''
                  (Some (JObj [(''expression'', JStr expression), (''contextId'', JInt context_id),
                    (''returnByValue'', JBool True)])))
                (\<lambda>response. lift (evaluation_result ''JS exception in frame'' response)))"

definition cdp_get_frame_tree :: "(cdp_error, json) prog" where
  "cdp_get_frame_tree =
     seq (call_and_wait ''Page.getFrameTree'' None)
       (\<lambda>response. ret (case cm_result response of Some r \<Rightarrow> r | None \<Rightarrow> JNull))"

subsection \<open>Screenshots of the whole page\<close>

text \<open>\<open>r as u32\<close>: towards zero, and to the nearest bound outside the range.\<close>

definition f64_as_int :: "int \<Rightarrow> int \<Rightarrow> rat \<Rightarrow> int" where
  "f64_as_int lo hi r = max lo (min hi (if r < 0 then \<lceil>r\<rceil> else \<lfloor>r\<rfloor>))"

definition f64_as_u32 :: "rat \<Rightarrow> u32" where
  "f64_as_u32 r = of_int (f64_as_int 0 (2 ^ 32 - 1) r)"

definition metrics_override :: "rat \<Rightarrow> rat \<Rightarrow> json" where
  "metrics_override w h =
     JObj [(''width'', word_json (f64_as_u32 w)), (''height'', word_json (f64_as_u32 h)),
       (''deviceScaleFactor'', JInt 1), (''mobile'', JBool False),
       (''screenWidth'', word_json (f64_as_u32 w)), (''screenHeight'', word_json (f64_as_u32 h))]"

definition dimensions_js :: string where
  "dimensions_js = ''JSON.stringify({w: Math.max(document.documentElement.scrollWidth, document.body.scrollWidth), h: Math.max(document.documentElement.scrollHeight, document.body.scrollHeight)})''"

definition capture_at_size :: "string \<Rightarrow> u32 option \<Rightarrow> rat \<Rightarrow> rat \<Rightarrow> (cdp_error, bytes) prog" where
  "capture_at_size format quality w h =
     seq (attempt (cdp_evaluate_js ''window.scrollTo(0, 0)'')) (\<lambda>_ :: (cdp_error, json) outcome.
     seq (sleep 100) (\<lambda>_.
     seq (call_and_wait ''Emulation.setDeviceMetricsOverride'' (Some (metrics_override w h))) (\<lambda>_.
     seq (sleep 300) (\<lambda>_.
     seq (attempt (call_and_wait ''Page.captureScreenshot''
         (Some (screenshot_params format quality)))) (\<lambda>response.
     seq (attempt (call_and_wait ''Emulation.clearDeviceMetricsOverride'' None))
       (\<lambda>_ :: (cdp_error, cdp_message) outcome.
     seq (lift response) screenshot_data))))))"

definition cdp_capture_full_page :: "string \<Rightarrow> u32 option \<Rightarrow> (cdp_error, bytes) prog" where
  "cdp_capture_full_page format quality =
     seq (cdp_evaluate_js dimensions_js) (\<lambda>dims.
       case as_str dims of
         None \<Rightarrow> lift (Err (Protocol ''unexpected type for document dimensions''))
       | Some dims_str \<Rightarrow>
           (\<lambda>br. seq (lift (map_err (\<lambda>e. Protocol (''failed to parse dimensions: '' @ e))
               (parse_json br dims_str))) (\<lambda>obj.
             capture_at_size format quality
               (min (field_or 1920 as_f64 ''w'' obj) 16384)
               (min (field_or 1080 as_f64 ''h'' obj) 16384)) br))"

subsection \<open>Tabs\<close>

definition cdp_create_target :: "string \<Rightarrow> (cdp_error, string) prog" where
  "cdp_create_target url =
     seq (call_and_wait ''Target.createTarget'' (Some (JObj [(''url'', JStr url)])))
       (\<lambda>response. lift (ok_or (Protocol ''missing targetId in response'')
         (Option.bind (Option.bind (cm_result response) (jget ''targetId'')) as_str)))"

definition cdp_close_target :: "string \<Rightarrow> (cdp_error, unit) prog" where
  "cdp_close_target target_id =
     seq (call_and_wait ''Target.closeTarget'' (Some (JObj [(''targetId'', JStr target_id)])))
       (\<lambda>_. ret ())"

definition cdp_dispatch_input :: "bool \<Rightarrow> rat input_event \<Rightarrow> (cdp_error, unit) prog" where
  "cdp_dispatch_input checks ev =
     seq (lift (input_to_cdp checks ev 0)) (\<lambda>(req, _). command (cq_method req) (cq_params req))"

subsection \<open>Properties\<close>

definition resizes :: "browser_event \<Rightarrow> bool" where
  "resizes e = (case e of Call m p \<Rightarrow> m = ''Emulation.setDeviceMetricsOverride'' | _ \<Rightarrow> False)"

lemma evaluation_result_no_panic [simp]: "evaluation_result l m \<noteq> Panic"
  by (auto simp: evaluation_result_def split: option.splits)

definition eval_event :: "string \<Rightarrow> browser_event" where
  "eval_event expression =
     Call ''Runtime.evaluate'' (Some (JObj [(''expression'', JStr expression), (''returnByValue'', JBool True)]))"

lemma evaluate_js_run:
  obtains r where "cdp_evaluate_js x br es = (r, es @ [eval_event x])" "r \<noteq> Panic"
proof -
  let ?p = "Some (JObj [(''expression'', JStr x), (''returnByValue'', JBool True)])"
  obtain r where r: "call_and_wait ''Runtime.evaluate'' ?p br es = (r, es @ [eval_event x])" "r \<noteq> Panic"
    unfolding eval_event_def by (rule call_cases)
  then show thesis
    using that by (cases r) (auto simp: cdp_evaluate_js_def seq_def)
qed

text \<open>The events of a capture at a size, after the ones in \<open>es\<close>.\<close>

lemma capture_at_size_events:
  fixes w h br es and format :: string and quality :: "u32 option"
  defines "pre \<equiv> [eval_event ''window.scrollTo(0, 0)'', Sleep 100]"
    and "resize \<equiv> Call ''Emulation.setDeviceMetricsOverride'' (Some (metrics_override w h))"
    and "shot \<equiv> Call ''Page.captureScreenshot'' (Some (screenshot_params format quality))"
    and "reset \<equiv> Call ''Emulation.clearDeviceMetricsOverride'' None"
  shows "case br_answer br (es @ pre) resize of
      Inl e \<Rightarrow> capture_at_size format quality w h br es = (Err e, es @ pre @ [resize])
    | Inr m \<Rightarrow> snd (capture_at_size format quality w h br es) =
        es @ pre @ [resize, Sleep 300, shot, reset]"
proof -
  have top: "\<exists>r. attempt (cdp_evaluate_js ''window.scrollTo(0, 0)'') br es =
      (Ok r, es @ [eval_event ''window.scrollTo(0, 0)''])"
    by (rule evaluate_js_run [of "''window.scrollTo(0, 0)''" br es]) (auto intro: attempt_run)
  have call: "\<exists>r. attempt (call_and_wait m p) br es' = (Ok r, es' @ [Call m p])" for m p es'
    by (rule call_cases [of m p br es']) (auto intro: attempt_run)
  obtain r where r: "attempt (cdp_evaluate_js ''window.scrollTo(0, 0)'') br es =
      (Ok r :: (cdp_error, (cdp_error, json) outcome) outcome, es @ [eval_event ''window.scrollTo(0, 0)''])"
    using top by blast
  show ?thesis
  proof (cases "br_answer br (es @ pre) resize")
    case (Inl e)
    then show ?thesis
      by (simp add: capture_at_size_def seq_def r pre_def resize_def call_run(1))
  next
    case (Inr m)
    obtain r1 where r1: "attempt (call_and_wait ''Page.captureScreenshot'' (Some (screenshot_params format quality)))
        br (es @ pre @ [resize, Sleep 300]) =
        (Ok r1 :: (cdp_error, (cdp_error, cdp_message) outcome) outcome, es @ pre @ [resize, Sleep 300, shot])"
      using call [of "''Page.captureScreenshot''" "Some (screenshot_params format quality)"
        "es @ pre @ [resize, Sleep 300]"] by (auto simp: shot_def)
    obtain r2 where r2: "attempt (call_and_wait ''Emulation.clearDeviceMetricsOverride'' None)
        br (es @ pre @ [resize, Sleep 300, shot]) =
        (Ok r2 :: (cdp_error, (cdp_error, cdp_message) outcome) outcome, es @ pre @ [resize, Sleep 300, shot, reset])"
      using call [of "''Emulation.clearDeviceMetricsOverride''" None "es @ pre @ [resize, Sleep 300, shot]"]
      by (auto simp: reset_def)
    show ?thesis using Inr r1 r2
      by (cases r1) (simp_all add: capture_at_size_def seq_def r pre_def resize_def call_run(2)
        screenshot_data_def)
  qed
qed

lemma eval_event_no_resize [simp]: "\<not> resizes (eval_event x)" "\<not> resizes (Sleep n)"
  by (simp_all add: resizes_def eval_event_def)

text \<open>A screenshot of the whole page gives the browser its viewport back: whatever the browser
  answers, either the viewport was never resized, or the resize was refused, the program ended
  at once and returned the error, or the last thing it did was to clear the override, also
  when the screenshot failed.\<close>

theorem full_page_restores_viewport:
  "\<exists>xs. snd (cdp_capture_full_page format quality br es) = es @ xs \<and>
    (list_all (\<lambda>e. \<not> resizes e) xs \<or>
     (\<exists>ys p e. xs = ys @ [Call ''Emulation.setDeviceMetricsOverride'' p] \<and>
        list_all (\<lambda>e. \<not> resizes e) ys \<and> fst (cdp_capture_full_page format quality br es) = Err e) \<or>
     (\<exists>ys p zs. xs = ys @ [Call ''Emulation.setDeviceMetricsOverride'' p] @ zs @
          [Call ''Emulation.clearDeviceMetricsOverride'' None] \<and>
        list_all (\<lambda>e. \<not> resizes e) (ys @ zs)))"
proof -
  obtain r where r: "cdp_evaluate_js dimensions_js br es = (r, es @ [eval_event dimensions_js])" "r \<noteq> Panic"
    by (rule evaluate_js_run)
  note full = cdp_capture_full_page_def seq_def r(1)
  consider (stop) "snd (cdp_capture_full_page format quality br es) = es @ [eval_event dimensions_js]"
    | (shoot) w h where "cdp_capture_full_page format quality br es =
        capture_at_size format quality w h br (es @ [eval_event dimensions_js])"
  proof (cases r)
    case (Ok dims)
    show ?thesis
    proof (cases "as_str dims")
      case (Some d)
      show ?thesis
      proof (cases "parse_json br d")
        case (Ok obj)
        then show ?thesis using that(2) \<open>r = Ok dims\<close> Some by (auto simp: full)
      qed (use that(1) Ok Some in \<open>auto simp: full\<close>)
    qed (use that(1) Ok in \<open>auto simp: full\<close>)
  qed (use that(1) r in \<open>auto simp: full\<close>)
  then show ?thesis
  proof cases
    case stop
    then show ?thesis by (intro exI [of _ "[eval_event dimensions_js]"]) simp
  next
    case (shoot w h)
    let ?ys = "[eval_event dimensions_js, eval_event ''window.scrollTo(0, 0)'', Sleep 100]"
    let ?set = "Call ''Emulation.setDeviceMetricsOverride'' (Some (metrics_override w h))"
    let ?zs = "[Sleep 300, Call ''Page.captureScreenshot'' (Some (screenshot_params format quality))]"
    note ev = capture_at_size_events [where br = br and es = "es @ [eval_event dimensions_js]" and w = w
      and h = h and format = format and quality = quality]
    show ?thesis
    proof (cases "br_answer br (es @ ?ys) ?set")
      case (Inl e)
      then have "cdp_capture_full_page format quality br es = (Err e, es @ ?ys @ [?set])"
        using shoot ev by simp
      then show ?thesis
        by (intro exI [of _ "?ys @ [?set]"] conjI disjI2 disjI1 exI [of _ ?ys]) (auto simp del: append_Cons)
    next
      case (Inr m)
      then have "snd (cdp_capture_full_page format quality br es) =
          es @ ?ys @ [?set] @ ?zs @ [Call ''Emulation.clearDeviceMetricsOverride'' None]"
        using shoot ev by simp
      then show ?thesis
        by (rule_tac exI [of _ "?ys @ [?set] @ ?zs @ [Call ''Emulation.clearDeviceMetricsOverride'' None]"],
            rule_tac conjI, assumption, rule_tac disjI2, rule_tac disjI2, rule_tac exI [of _ ?ys],
            rule_tac exI [of _ "Some (metrics_override w h)"], rule_tac exI [of _ ?zs])
          (simp add: resizes_def eval_event_def)
    qed
  qed
qed

end
