(* ===== verification/Memory.thy ===== *)
theory Memory
  imports Json Core_Types
begin

section \<open>Bounded histories\<close>

text \<open>
  \<open>memory.rs\<close> of \<open>crates/vscreen-server\<close>: the screenshot history, the action log and the console
  buffer of an instance. All
  drop their oldest entry when they are full. \<open>now\<close> is the reading of the clock in
  milliseconds.
\<close>

subsection \<open>Interface: a log that keeps the latest entries\<close>

text \<open>\<open>stamp x s\<close> is the entry that \<open>x\<close> becomes in state \<open>s\<close>.\<close>

locale bounded_log =
  fixes push :: "'x \<Rightarrow> 's \<Rightarrow> 's"
    and stamp :: "'x \<Rightarrow> 's \<Rightarrow> 'a"
    and items :: "'s \<Rightarrow> 'a list"
    and cap :: "'s \<Rightarrow> nat"
  assumes items_push: "items (push x s) =
      (if cap s \<le> length (items s) then tl (items s) else items s) @ [stamp x s]"
    and cap_push: "cap (push x s) = cap s"
begin

text \<open>The entries of a whole history, none dropped.\<close>

fun history :: "'x list \<Rightarrow> 's \<Rightarrow> 'a list" where
  "history [] s = []"
| "history (x # xs) s = stamp x s # history xs (push x s)"

lemma length_history [simp]: "length (history xs s) = length xs"
  by (induction xs arbitrary: s) auto

text \<open>A log with room for no entry holds one all the same, from the first push on.\<close>

definition room :: "'s \<Rightarrow> nat" where
  "room s = max 1 (cap s)"

lemma items_push_room:
  "items (push x s) = (if room s \<le> length (items s) then tl (items s) else items s) @ [stamp x s]"
  unfolding room_def items_push by (cases "items s") auto

lemma room_push: "room (push x s) = room s"
  by (simp add: room_def cap_push)

lemma length_items_push: "length (items s) \<le> room s \<Longrightarrow> length (items (push x s)) \<le> room s"
  unfolding items_push_room by (auto simp: room_def)

text \<open>A log holds the latest entries of its history.\<close>

lemma keeps_latest:
  assumes "length (items s) \<le> room s"
  shows "items (fold push xs s) =
    drop (length (items s) + length xs - room s) (items s @ history xs s)"
  using assms
proof (induction xs arbitrary: s)
  case (Cons x xs)
  have b: "length (items (push x s)) \<le> room (push x s)"
    using length_items_push [OF Cons.prems] by (simp add: room_push)
  have "items (fold push (x # xs) s) =
      drop (length (items (push x s)) + length xs - room s) (items (push x s) @ history xs (push x s))"
    using Cons.IH [OF b] by (simp add: room_push)
  also have "\<dots> = drop (length (items s) + length (x # xs) - room s) (items s @ history (x # xs) s)"
  proof (cases "room s \<le> length (items s)")
    case True
    then have "items s \<noteq> []" "length (items s) = room s" using Cons.prems by (auto simp: room_def)
    then show ?thesis by (cases "items s") (auto simp: items_push_room)
  next
    case False
    then show ?thesis by (simp add: items_push_room)
  qed
  finally show ?case .
qed simp

lemma keeps_latest_from_empty:
  assumes "items s = []"
  shows "items (fold push xs s) = drop (length xs - max 1 (cap s)) (history xs s)"
  using keeps_latest [of s xs] assms by (simp add: room_def)

end

subsection \<open>Screenshot history\<close>

record screenshot_entry =
  se_timestamp_ms :: u64
  se_url :: string
  se_action_label :: string
  se_scroll_y :: rat
  se_viewport_height :: u32
  se_full_page :: bool
  se_data :: bytes

record screenshot_history =
  sy_entries :: "screenshot_entry list"
  sy_max_entries :: nat

definition screenshot_history_new :: "nat \<Rightarrow> screenshot_history" where
  "screenshot_history_new n = \<lparr>sy_entries = [], sy_max_entries = n\<rparr>"

text \<open>\<open>push_back\<close> on a queue that drops its front when it holds \<open>max_entries\<close>.\<close>

definition push_bounded :: "nat \<Rightarrow> 'a \<Rightarrow> 'a list \<Rightarrow> 'a list" where
  "push_bounded n x xs = (if n \<le> length xs then tl xs else xs) @ [x]"

definition screenshot_push :: "screenshot_entry \<Rightarrow> screenshot_history \<Rightarrow> screenshot_history" where
  "screenshot_push e h = h\<lparr>sy_entries := push_bounded (sy_max_entries h) e (sy_entries h)\<rparr>"

record screenshot_entry_meta =
  st_index :: nat
  st_timestamp_ms :: u64
  st_url :: string
  st_action_label :: string
  st_scroll_y :: rat
  st_full_page :: bool

definition screenshot_list :: "screenshot_history \<Rightarrow> screenshot_entry_meta list" where
  "screenshot_list h =
     map (\<lambda>(i, e). \<lparr>st_index = i, st_timestamp_ms = se_timestamp_ms e, st_url = se_url e,
       st_action_label = se_action_label e, st_scroll_y = se_scroll_y e, st_full_page = se_full_page e\<rparr>)
     (enumerate 0 (sy_entries h))"

definition screenshot_get :: "nat \<Rightarrow> screenshot_history \<Rightarrow> screenshot_entry option" where
  "screenshot_get i h = (if i < length (sy_entries h) then Some (sy_entries h ! i) else None)"

definition screenshot_latest :: "screenshot_history \<Rightarrow> screenshot_entry option" where
  "screenshot_latest h = (if sy_entries h = [] then None else Some (last (sy_entries h)))"

definition screenshot_get_range :: "nat \<Rightarrow> nat \<Rightarrow> screenshot_history \<Rightarrow> screenshot_entry list" where
  "screenshot_get_range start count h = take count (drop start (sy_entries h))"

definition screenshot_clear :: "screenshot_history \<Rightarrow> screenshot_history" where
  "screenshot_clear h = h\<lparr>sy_entries := []\<rparr>"

interpretation screenshots: bounded_log screenshot_push "\<lambda>e h. e" sy_entries sy_max_entries
  by unfold_locales (simp_all add: screenshot_push_def push_bounded_def)

subsection \<open>Action log\<close>

record action_fields =
  ae_timestamp_ms :: u64
  ae_tool_name :: string
  ae_params_summary :: string
  ae_result_summary :: string
  ae_url_before :: string
  ae_url_after :: string
  ae_screenshot_index :: "nat option"

record action_entry = action_fields +
  ae_id :: u64

record action_log =
  al_entries :: "action_entry list"
  al_max_entries :: nat
  al_next_id :: u64

definition action_log_new :: "nat \<Rightarrow> action_log" where
  "action_log_new n = \<lparr>al_entries = [], al_max_entries = n, al_next_id = 1\<rparr>"

definition action_entry_of :: "action_fields \<Rightarrow> action_log \<Rightarrow> action_entry" where
  "action_entry_of f l = action_fields.extend f \<lparr>ae_id = al_next_id l\<rparr>"

text \<open>\<open>next_id += 1\<close> overflows after \<open>2^64 - 1\<close> actions only; the model wraps.\<close>

definition action_record :: "action_fields \<Rightarrow> action_log \<Rightarrow> u64 \<times> action_log" where
  "action_record f l =
     (al_next_id l,
      l\<lparr>al_next_id := al_next_id l + 1,
        al_entries := push_bounded (al_max_entries l) (action_entry_of f l) (al_entries l)\<rparr>)"

definition action_last_n :: "nat \<Rightarrow> action_log \<Rightarrow> action_entry list" where
  "action_last_n n l = drop (length (al_entries l) - n) (al_entries l)"

definition action_line :: "action_entry \<Rightarrow> string" where
  "action_line e =
     ''#'' @ show_word (ae_id e) @ '': '' @ ae_tool_name e @ '' '' @ [CHR 0xE2, CHR 0x80, CHR 0x94] @
     '' '' @ ae_result_summary e"

fun join_lines :: "string list \<Rightarrow> string" where
  "join_lines [] = []"
| "join_lines [l] = l"
| "join_lines (l # ls) = l @ [CHR 0x0A] @ join_lines ls"

definition action_summary :: "action_log \<Rightarrow> string" where
  "action_summary l =
     (if al_entries l = [] then ''No actions recorded yet.''
      else join_lines (map action_line (al_entries l)))"

definition action_clear :: "action_log \<Rightarrow> action_log" where
  "action_clear l = l\<lparr>al_entries := []\<rparr>"

interpretation actions: bounded_log "\<lambda>f l. snd (action_record f l)" action_entry_of al_entries al_max_entries
  by unfold_locales (simp_all add: action_record_def push_bounded_def)

subsection \<open>Console buffer\<close>

record console_entry =
  co_timestamp_ms :: u64
  co_level :: string
  co_text :: string

record console_buffer =
  cb_entries :: "console_entry list"
  cb_max_entries :: nat

definition console_buffer_new :: "nat \<Rightarrow> console_buffer" where
  "console_buffer_new n = \<lparr>cb_entries = [], cb_max_entries = n\<rparr>"

definition console_push :: "console_entry \<Rightarrow> console_buffer \<Rightarrow> console_buffer" where
  "console_push e b = b\<lparr>cb_entries := push_bounded (cb_max_entries b) e (cb_entries b)\<rparr>"

definition filter_by_level :: "string \<Rightarrow> console_buffer \<Rightarrow> console_entry list" where
  "filter_by_level level b = filter (\<lambda>e. co_level e = level) (cb_entries b)"

definition console_clear :: "console_buffer \<Rightarrow> console_buffer" where
  "console_clear b = b\<lparr>cb_entries := []\<rparr>"

interpretation console: bounded_log console_push "\<lambda>e b. e" cb_entries cb_max_entries
  by unfold_locales (simp_all add: console_push_def push_bounded_def)

subsection \<open>Properties\<close>

lemma screenshots_history: "screenshots.history es h = es"
  by (induction es arbitrary: h) auto

lemma console_history: "console.history es b = es"
  by (induction es arbitrary: b) auto

lemma actions_history:
  "actions.history fs l =
     map (\<lambda>(i, f). action_fields.extend f \<lparr>ae_id = al_next_id l + of_nat i\<rparr>) (enumerate 0 fs)"
proof (induction fs arbitrary: l)
  case (Cons f fs)
  have "map (\<lambda>(i, f). action_fields.extend f \<lparr>ae_id = al_next_id l + 1 + of_nat i\<rparr>) (enumerate 0 fs) =
      map (\<lambda>(i, f). action_fields.extend f \<lparr>ae_id = al_next_id l + of_nat i\<rparr>) (enumerate (Suc 0) fs)"
    by (rule nth_equalityI) (simp_all add: nth_enumerate_eq add.assoc)
  moreover have "al_next_id (snd (action_record f l)) = al_next_id l + 1"
    by (simp add: action_record_def)
  ultimately show ?case
    unfolding actions.history.simps Cons.IH by (simp add: action_entry_of_def)
qed simp

text \<open>The histories of an instance hold exactly the latest entries, in order: after any
  sequence of pushes on a new history, the last \<open>n\<close> of them for a bound of \<open>n\<close> (and the last
  one for a bound of 0). The action log numbers its entries from 1 without gaps, so that the
  entries dropped are those with the smallest numbers.\<close>

theorem histories_keep_latest:
  "sy_entries (fold screenshot_push es (screenshot_history_new n)) = drop (length es - max 1 n) es \<and>
   cb_entries (fold console_push cs (console_buffer_new n)) = drop (length cs - max 1 n) cs \<and>
   al_entries (fold (\<lambda>f l. snd (action_record f l)) fs (action_log_new n)) =
     drop (length fs - max 1 n)
       (map (\<lambda>(i, f). action_fields.extend f \<lparr>ae_id = 1 + of_nat i\<rparr>) (enumerate 0 fs))"
  using screenshots.keeps_latest_from_empty [of "screenshot_history_new n" es]
    console.keeps_latest_from_empty [of "console_buffer_new n" cs]
    actions.keeps_latest_from_empty [of "action_log_new n" fs]
  by (simp add: screenshots_history console_history actions_history screenshot_history_new_def
    console_buffer_new_def action_log_new_def)

end
