(* ===== verification/Supervisor.thy ===== *)
theory Supervisor
  imports Cdp_Calls Cdp_Client Memory Config "HOL-Library.Sublist"
begin

section \<open>The supervisor of an instance\<close>

text \<open>
  \<open>supervisor.rs\<close> of \<open>crates/vscreen-server\<close>: one supervisor per instance holds the DevTools
  client, the cursor position, the histories and the channels to the encoder. Its methods are
  programs over the browser (\<open>Browser\<close>); each holds the client's lock from its first call to
  its last, so that its events are not mixed with those of another method. The relay of peer
  input and the video task are given as what they do for one event. The capture of audio, the
  encoder and the RTP sender are the packages' and appear as the outcomes of their start.
\<close>

subsection \<open>Cursor position\<close>

text \<open>\<open>i32\<close> values are words read by \<open>sint\<close>; \<open>x as u32 as u64\<close> extends with zeros.\<close>

type_synonym i32 = "32 word"

definition f64_as_i32 :: "rat \<Rightarrow> i32" where
  "f64_as_i32 r = of_int (f64_as_int (- (2 ^ 31)) (2 ^ 31 - 1) r)"

definition pack_cursor :: "i32 \<Rightarrow> i32 \<Rightarrow> u64" where
  "pack_cursor x y = push_bit 32 (ucast x) OR ucast y"

definition unpack_cursor :: "u64 \<Rightarrow> i32 \<times> i32" where
  "unpack_cursor v = (ucast (drop_bit 32 v), ucast v)"

definition cursor_update :: "rat \<Rightarrow> rat \<Rightarrow> u64" where
  "cursor_update x y = pack_cursor (f64_as_i32 x) (f64_as_i32 y)"

lemma unpack_pack [simp]: "unpack_cursor (pack_cursor x y) = (x, y)"
proof -
  have "\<not> bit y (32 + n)" for n
    using bit_imp_le_length [of y "32 + n"] by auto
  then show ?thesis
    unfolding unpack_cursor_def pack_cursor_def by (auto intro!: bit_word_eqI simp: bit_simps)
qed

subsection \<open>State\<close>

record instance_config =
  ic_instance_id :: instance_id
  ic_cdp_endpoint :: string
  ic_pulse_source :: string
  ic_display :: "string option"
  ic_video :: video_config
  ic_audio :: audio_config
  ic_rtp_output :: "rtp_output_config option"

datatype supervisor_task = VideoTask | AudioTask | RtpTask | InputTask | RepaintTask

text \<open>The channel of bitrate hints holds at most 8.\<close>

record supervisor =
  sv_cancelled :: bool
  sv_endpoint :: string
  sv_bitrate_hints :: "u32 list"
  sv_keyframe :: bool
  sv_cursor :: u64
  sv_tasks :: "supervisor_task list"
  sv_screenshots :: screenshot_history
  sv_actions :: action_log
  sv_console :: console_buffer
  sv_video_width :: u32
  sv_video_height :: u32
  sv_video_framerate :: u32
  sv_video_codec :: video_codec

definition supervisor_new :: "instance_config \<Rightarrow> supervisor_task list \<Rightarrow> supervisor" where
  "supervisor_new config tasks =
     \<lparr>sv_cancelled = False, sv_endpoint = ic_cdp_endpoint config, sv_bitrate_hints = [],
      sv_keyframe = False, sv_cursor = pack_cursor 0 0, sv_tasks = tasks,
      sv_screenshots = screenshot_history_new 20, sv_actions = action_log_new 100,
      sv_console = console_buffer_new 200, sv_video_width = vc_width (ic_video config),
      sv_video_height = vc_height (ic_video config),
      sv_video_framerate = vc_framerate (ic_video config),
      sv_video_codec = vc_codec (ic_video config)\<rparr>"

subsection \<open>Start and stop\<close>

definition stealth_script :: string where
  "stealth_script = join_lines
      ['''',
       ''(function() {'',
       ''    // 1. Override navigator.webdriver to undefined'',
       ''    Object.defineProperty(navigator, 'webdriver', {'',
       ''        get: () => undefined,'',
       ''        configurable: true'',
       ''    });'',
       '''',
       ''    // 2. Add chrome runtime object (missing in headless, detected by reCAPTCHA)'',
       ''    if (!window.chrome) {'',
       ''        window.chrome = {'',
       ''            runtime: {'',
       ''                onMessage: { addListener: function() {}, removeListener: function() {} },'',
       ''                sendMessage: function() {},'',
       ''                connect: function() { return { onMessage: { addListener: function() {} } }; }'',
       ''            },'',
       ''            loadTimes: function() { return {}; },'',
       ''            csi: function() { return {}; }'',
       ''        };'',
       ''    }'',
       '''',
       ''    // 3. Set realistic navigator.plugins (headless has empty plugins array)'',
       ''    Object.defineProperty(navigator, 'plugins', {'',
       ''        get: () => {'',
       ''            return ['',
       ''                { name: 'Chrome PDF Plugin', filename: 'internal-pdf-viewer', description: 'Portable Document Format' },'',
       ''                { name: 'Chrome PDF Viewer', filename: 'mhjfbmdgcfjbbpaeojofohoefgiehjai', description: '' @ [CHR 0x27, CHR 0x27] @ '' },'',
       ''                { name: 'Native Client', filename: 'internal-nacl-plugin', description: '' @ [CHR 0x27, CHR 0x27] @ '' }'',
       ''            ];'',
       ''        },'',
       ''        configurable: true'',
       ''    });'',
       '''',
       ''    // 4. Set realistic navigator.languages'',
       ''    Object.defineProperty(navigator, 'languages', {'',
       ''        get: () => ['en-US', 'en'],'',
       ''        configurable: true'',
       ''    });'',
       '''',
       ''    // 5. Override permissions query (headless returns \"denied\" for notifications)'',
       ''    if (navigator.permissions) {'',
       ''        const originalQuery = navigator.permissions.query;'',
       ''        navigator.permissions.query = (parameters) => {'',
       ''            if (parameters.name === 'notifications') {'',
       ''                return Promise.resolve({ state: 'default', onchange: null });'',
       ''            }'',
       ''            return originalQuery.call(navigator.permissions, parameters);'',
       ''        };'',
       ''    }'',
       '''',
       ''    // 6. Fix webgl renderer (some bots check for \"SwiftShader\" in renderer string)'',
       ''    const getParameter = WebGLRenderingContext.prototype.getParameter;'',
       ''    WebGLRenderingContext.prototype.getParameter = function(parameter) {'',
       ''        if (parameter === 37445) return 'Intel Inc.';        // UNMASKED_VENDOR_WEBGL'',
       ''        if (parameter === 37446) return 'Intel Iris OpenGL Engine'; // UNMASKED_RENDERER_WEBGL'',
       ''        return getParameter.call(this, parameter);'',
       ''    };'',
       ''})();'',
       '''']"

definition start_screencast_request :: "instance_config \<Rightarrow> start_screencast_params" where
  "start_screencast_request config =
     \<lparr>sc_format = ''jpeg'', sc_max_width = vc_width (ic_video config),
      sc_max_height = vc_height (ic_video config), sc_every_nth_frame = 1, sc_quality = 80\<rparr>"

text \<open>The browser's part of \<open>InstanceSupervisor::start\<close>, given the outcome of connecting.\<close>

definition start_browser :: "instance_config \<Rightarrow> (cdp_error, unit) outcome \<Rightarrow> (vscreen_error, unit) prog" where
  "start_browser config dialled =
     seq (with_err Cdp (lift dialled)) (\<lambda>_.
     seq (with_err Cdp (call_and_wait ''Page.enable'' None)) (\<lambda>_.
     seq (with_err Cdp (call_and_wait ''Page.addScriptToEvaluateOnNewDocument''
         (Some (JObj [(''source'', JStr stealth_script)])))) (\<lambda>_.
     with_err Cdp (command ''Page.startScreencast''
       (Some (screencast_params_json (start_screencast_request config)))))))"

text \<open>What the encode thread answers, \<open>None\<close> when it exits first.\<close>

definition video_readiness :: "(string + unit) option \<Rightarrow> (vscreen_error, unit) outcome" where
  "video_readiness r =
     (case r of
        Some (Inr _) \<Rightarrow> Ok ()
      | Some (Inl e) \<Rightarrow> Err (InvalidState (''video pipeline failed to initialize: '' @ e))
      | None \<Rightarrow> Err (InvalidState ''video pipeline thread exited before signaling readiness''))"

text \<open>The tasks of a supervisor; \<open>rtp_ok\<close> tells whether an RTP sender can be made. An audio
  pipeline that fails is only logged.\<close>

definition supervisor_tasks :: "instance_config \<Rightarrow> bool \<Rightarrow> supervisor_task list" where
  "supervisor_tasks config rtp_ok =
     [VideoTask, AudioTask] @ (if ic_rtp_output config \<noteq> None \<and> rtp_ok then [RtpTask] else []) @
     [InputTask, RepaintTask]"

definition supervisor_start ::
  "instance_config \<Rightarrow> (cdp_error, unit) outcome \<Rightarrow> (string + unit) option \<Rightarrow> bool
     \<Rightarrow> (vscreen_error, supervisor) prog" where
  "supervisor_start config dialled video_ready rtp_ok =
     seq (start_browser config dialled) (\<lambda>_.
     seq (lift (video_readiness video_ready)) (\<lambda>_.
     ret (supervisor_new config (supervisor_tasks config rtp_ok))))"

definition supervisor_stop :: "supervisor \<Rightarrow> supervisor" where
  "supervisor_stop sv = sv\<lparr>sv_cancelled := True, sv_tasks := []\<rparr>"

subsection \<open>Video task\<close>

record encode_command =
  en_data :: bytes
  en_force_keyframe :: bool
  en_bitrate_hint :: "u32 option"

definition request_keyframe_sv :: "supervisor \<Rightarrow> supervisor" where
  "request_keyframe_sv sv = sv\<lparr>sv_keyframe := True\<rparr>"

text \<open>One round of the video task: \<open>newer\<close> are the frames in the channel behind \<open>frame\<close>.\<close>

definition video_round :: "raw_frame \<Rightarrow> raw_frame list \<Rightarrow> supervisor \<Rightarrow> encode_command \<times> supervisor" where
  "video_round frame newer sv =
     (\<lparr>en_data = rf_data (last (frame # newer)), en_force_keyframe = sv_keyframe sv,
       en_bitrate_hint =
         (if sv_bitrate_hints sv = [] then None else Some (last (sv_bitrate_hints sv)))\<rparr>,
      sv\<lparr>sv_keyframe := False, sv_bitrate_hints := []\<rparr>)"

subsection \<open>Input relay\<close>

fun track_cursor :: "rat input_event \<Rightarrow> supervisor \<Rightarrow> supervisor" where
  "track_cursor (MouseMove x y _ _) sv = sv\<lparr>sv_cursor := cursor_update x y\<rparr>"
| "track_cursor (MouseDown x y _ _) sv = sv\<lparr>sv_cursor := cursor_update x y\<rparr>"
| "track_cursor (MouseUp x y _ _) sv = sv\<lparr>sv_cursor := cursor_update x y\<rparr>"
| "track_cursor (Wheel x y _ _ _) sv = sv\<lparr>sv_cursor := cursor_update x y\<rparr>"
| "track_cursor _ sv = sv"

definition try_send_hint :: "u32 \<Rightarrow> supervisor \<Rightarrow> supervisor" where
  "try_send_hint kbps sv =
     (if length (sv_bitrate_hints sv) < 8
      then sv\<lparr>sv_bitrate_hints := sv_bitrate_hints sv @ [kbps]\<rparr> else sv)"

text \<open>The relay of one peer event; an error of the dispatch is logged. A panic ends the task.\<close>

definition relay_input :: "bool \<Rightarrow> rat input_event \<Rightarrow> supervisor \<Rightarrow> (cdp_error, supervisor) prog" where
  "relay_input checks ev sv =
     (case ev of
        BitrateHint kbps \<Rightarrow> ret (try_send_hint kbps sv)
      | _ \<Rightarrow> seq (attempt (cdp_dispatch_input checks ev)) (\<lambda>_ :: (cdp_error, unit) outcome.
               ret (track_cursor ev sv)))"

text \<open>The repaint ticker's command, every two seconds.\<close>

definition repaint_params :: json where
  "repaint_params =
     JObj [(''expression'', JStr (''(function(){if(window.__vs)return;window.__vs=1;var c=document.createElement('canvas');c.width=2;c.height=2;c.style.cssText='position:fixed;bottom:0;right:0;width:1px;height:1px;pointer-events:none;z-index:2147483647;opacity:0.01';document.documentElement.appendChild(c);var x=c.getContext('2d'),f=0;function t(){x.fillStyle='rgb('+(f%256)+',0,0)';x.fillRect(0,0,2,2);f++;requestAnimationFrame(t)}t();})()'')), (''returnByValue'', JBool False)]"

definition repaint_tick :: "(cdp_error, unit) prog" where
  "repaint_tick =
     seq (attempt (command ''Runtime.evaluate'' (Some repaint_params)))
       (\<lambda>_ :: (cdp_error, unit) outcome. ret ())"

subsection \<open>Calls\<close>

definition sup_navigate :: "string \<Rightarrow> (vscreen_error, unit) prog" where
  "sup_navigate url = with_err Cdp (command ''Page.navigate'' (Some (JObj [(''url'', JStr url)])))"

definition sup_capture_screenshot :: "string \<Rightarrow> u32 option \<Rightarrow> (vscreen_error, bytes) prog" where
  "sup_capture_screenshot format quality = with_err Cdp (cdp_capture_screenshot format quality)"

definition sup_capture_full_page :: "string \<Rightarrow> u32 option \<Rightarrow> (vscreen_error, bytes) prog" where
  "sup_capture_full_page format quality = with_err Cdp (cdp_capture_full_page format quality)"

definition sup_capture_clip ::
  "string \<Rightarrow> u32 option \<Rightarrow> (rat \<times> rat \<times> rat \<times> rat) option \<Rightarrow> (vscreen_error, bytes) prog" where
  "sup_capture_clip format quality clip = with_err Cdp (cdp_capture_screenshot_clip format quality clip)"

definition capture_vision_screenshot :: "supervisor \<Rightarrow> (vscreen_error, bytes) prog" where
  "capture_vision_screenshot sv =
     with_err Cdp (cdp_capture_screenshot_clip_scaled ''jpeg'' (Some 60)
       (Some (0, 0, of_int (uint (sv_video_width sv)), of_int (uint (sv_video_height sv)))) (1 / 2))"

text \<open>The rest of a sequence of screenshots: \<open>n\<close> are left to take.\<close>

fun take_screenshots :: "nat \<Rightarrow> u64 \<Rightarrow> string \<Rightarrow> u32 option \<Rightarrow> (vscreen_error, bytes list) prog" where
  "take_screenshots 0 interval format quality = ret []"
| "take_screenshots (Suc n) interval format quality =
     seq (sup_capture_screenshot format quality) (\<lambda>img.
     seq (if n = 0 then ret () else sleep (unat interval)) (\<lambda>_.
     seq (take_screenshots n interval format quality) (\<lambda>imgs. ret (img # imgs))))"

definition capture_screenshot_sequence ::
  "u32 \<Rightarrow> u64 \<Rightarrow> string \<Rightarrow> u32 option \<Rightarrow> (vscreen_error, bytes list) prog" where
  "capture_screenshot_sequence count interval format quality =
     take_screenshots (unat count) interval format quality"

definition dispatch_api_input :: "bool \<Rightarrow> rat input_event \<Rightarrow> (vscreen_error, unit) prog" where
  "dispatch_api_input checks ev = with_err Cdp (cdp_dispatch_input checks ev)"

definition send_cdp_command :: "string \<Rightarrow> json option \<Rightarrow> (vscreen_error, unit) prog" where
  "send_cdp_command m p = with_err Cdp (command m p)"

definition send_cdp_command_and_wait :: "string \<Rightarrow> json option \<Rightarrow> (vscreen_error, json) prog" where
  "send_cdp_command_and_wait m p =
     seq (with_err Cdp (call_and_wait m p))
       (\<lambda>msg. ret (case cm_result msg of Some r \<Rightarrow> r | None \<Rightarrow> JNull))"

definition sup_evaluate_js :: "string \<Rightarrow> (vscreen_error, json) prog" where
  "sup_evaluate_js expression = with_err Cdp (cdp_evaluate_js expression)"

definition sup_evaluate_js_async :: "string \<Rightarrow> (vscreen_error, json) prog" where
  "sup_evaluate_js_async expression = with_err Cdp (cdp_evaluate_js_async expression)"

definition sup_evaluate_js_in_frame :: "string \<Rightarrow> string \<Rightarrow> (vscreen_error, json) prog" where
  "sup_evaluate_js_in_frame expression frame_id =
     with_err Cdp (cdp_evaluate_js_in_frame expression frame_id)"

definition sup_get_frame_tree :: "(vscreen_error, json) prog" where
  "sup_get_frame_tree = with_err Cdp cdp_get_frame_tree"

definition get_page_info :: "(vscreen_error, json) prog" where
  "get_page_info = sup_evaluate_js
     ''({url: location.href, title: document.title, viewport: {width: window.innerWidth, height: window.innerHeight}, scrollX: Math.round(window.scrollX), scrollY: Math.round(window.scrollY)})''"

text \<open>An error, or a value that is no string, gives the empty string.\<close>

definition current_url :: "(vscreen_error, string) prog" where
  "current_url =
     seq (attempt (sup_evaluate_js ''location.href'')) (\<lambda>r.
       ret (case r of
           Ok v \<Rightarrow> (case as_str v of Some s \<Rightarrow> s | None \<Rightarrow> '''')
         | _ \<Rightarrow> ''''))"

subsection \<open>Page coordinates\<close>

definition viewport_js :: string where
  "viewport_js = ''JSON.stringify({scrollX:window.scrollX,scrollY:window.scrollY,innerW:window.innerWidth,innerH:window.innerHeight})''"

definition scroll_js :: "browser \<Rightarrow> rat \<Rightarrow> rat \<Rightarrow> string" where
  "scroll_js br x y =
     ''window.scrollTo('' @ br_show_f64 br x @ '', '' @ br_show_f64 br y @
     ''); JSON.stringify({x:window.scrollX,y:window.scrollY})''"

text \<open>Whether a coordinate lies in the viewport, 50 pixels from its edges, and where to scroll.\<close>

definition in_view :: "rat \<Rightarrow> rat \<Rightarrow> rat \<Rightarrow> bool" where
  "in_view p scroll inner \<longleftrightarrow> scroll + 50 \<le> p \<and> p \<le> scroll + inner - 50"

definition scroll_target :: "rat \<Rightarrow> rat \<Rightarrow> rat \<Rightarrow> rat" where
  "scroll_target p scroll inner = (if in_view p scroll inner then scroll else max (p - inner / 2) 0)"

definition scroll_to :: "rat \<Rightarrow> rat \<Rightarrow> rat \<Rightarrow> rat \<Rightarrow> (vscreen_error, rat \<times> rat) prog" where
  "scroll_to px py tx ty = (\<lambda>br.
     seq (sup_evaluate_js (scroll_js br tx ty)) (\<lambda>r.
       let text' = (case as_str r of Some s \<Rightarrow> s | None \<Rightarrow> ''{}'');
           obj = (case parse_json br text' of Ok j \<Rightarrow> j | _ \<Rightarrow> JNull)
       in seq (sleep 50) (\<lambda>_.
            ret (px - field_or tx as_f64 ''x'' obj, py - field_or ty as_f64 ''y'' obj))) br)"

definition scroll_into_view_and_translate :: "rat \<Rightarrow> rat \<Rightarrow> (vscreen_error, rat \<times> rat) prog" where
  "scroll_into_view_and_translate px py = (\<lambda>br.
     seq (sup_evaluate_js viewport_js) (\<lambda>info.
     seq (lift (map_err (\<lambda>e. InvalidState (''viewport info parse failed: '' @ e))
         (parse_json br (case as_str info of Some s \<Rightarrow> s | None \<Rightarrow> ''{}'')))) (\<lambda>obj.
       let sx = field_or 0 as_f64 ''scrollX'' obj;
           sy = field_or 0 as_f64 ''scrollY'' obj;
           w = field_or 1920 as_f64 ''innerW'' obj;
           h = field_or 940 as_f64 ''innerH'' obj
       in if in_view px sx w \<and> in_view py sy h then ret (px - sx, py - sy)
          else scroll_to px py (scroll_target px sx w) (scroll_target py sy h))) br)"

subsection \<open>Console\<close>

definition enable_console_js :: string where
  "enable_console_js = join_lines
      [''(function() {'',
       ''    if (window.__vscreen_console) return 'already_enabled';'',
       ''    window.__vscreen_console = [];'',
       ''    const MAX = 200;'',
       ''    ['log','warn','error','info'].forEach(level => {'',
       ''        const orig = console[level];'',
       ''        console[level] = function() {'',
       ''            const text = Array.from(arguments).map(a => {'',
       ''                try { return typeof a === 'string' ? a : JSON.stringify(a); }'',
       ''                catch(_) { return String(a); }'',
       ''            }).join(' ');'',
       ''            window.__vscreen_console.push({level, text, t: Date.now()});'',
       ''            if (window.__vscreen_console.length > MAX) window.__vscreen_console.shift();'',
       ''            return orig.apply(console, arguments);'',
       ''        };'',
       ''    });'',
       ''    return 'enabled';'',
       ''})()'']"

definition sync_console_js :: string where
  "sync_console_js = join_lines
      [''(function() {'',
       ''    const msgs = window.__vscreen_console || [];'',
       ''    window.__vscreen_console = [];'',
       ''    return JSON.stringify(msgs);'',
       ''})()'']"

definition enable_console_capture :: "(vscreen_error, unit) prog" where
  "enable_console_capture = seq (sup_evaluate_js enable_console_js) (\<lambda>_. ret ())"

definition console_entry_of :: "u64 \<Rightarrow> json \<Rightarrow> console_entry" where
  "console_entry_of now j =
     \<lparr>co_timestamp_ms = now, co_level = field_or ''log'' as_str ''level'' j,
      co_text = field_or '''' as_str ''text'' j\<rparr>"

definition sync_console_messages :: "u64 \<Rightarrow> supervisor \<Rightarrow> (vscreen_error, supervisor) prog" where
  "sync_console_messages now sv = (\<lambda>br.
     seq (sup_evaluate_js sync_console_js) (\<lambda>result.
       ret (case as_str result of
           None \<Rightarrow> sv
         | Some text' \<Rightarrow>
             (case parse_json br text' of
                Ok (JArr entries) \<Rightarrow>
                  sv\<lparr>sv_console := fold (\<lambda>j. console_push (console_entry_of now j)) entries (sv_console sv)\<rparr>
              | _ \<Rightarrow> sv))) br)"

subsection \<open>Temporary tabs\<close>

record ephemeral_tab =
  et_target_id :: string
  et_endpoint :: string
  et_retry :: retry_config

text \<open>\<open>dial\<close> gives the outcome of connecting to an endpoint.\<close>

definition create_ephemeral_tab ::
  "(string \<Rightarrow> (cdp_error, unit) outcome) \<Rightarrow> cdp_client \<Rightarrow> string \<Rightarrow> (vscreen_error, ephemeral_tab) prog" where
  "create_ephemeral_tab dial c url =
     seq (with_err Cdp (cdp_create_target url)) (\<lambda>tid.
       let ws_url = endpoint_for_target tid c in
       seq (with_err Cdp (lift (dial ws_url))) (\<lambda>_.
         ret \<lparr>et_target_id = tid, et_endpoint = ws_url,
              et_retry = default_retry_config\<lparr>rc_max_attempts := 3\<rparr>\<rparr>))"

definition close_ephemeral_tab :: "ephemeral_tab \<Rightarrow> (vscreen_error, unit) prog" where
  "close_ephemeral_tab tab = with_err Cdp (cdp_close_target (et_target_id tab))"

subsection \<open>Properties\<close>

lemma with_err_run [simp]: "m br es = (r, es') \<Longrightarrow> with_err f m br es = (map_err f r, es')"
  by (simp add: with_err_def)

lemma sint_f64_as_i32: "sint (f64_as_i32 r) = f64_as_int (- (2 ^ 31)) (2 ^ 31 - 1) r"
  unfolding f64_as_i32_def f64_as_int_def 
  by (simp add: signed_of_int signed_take_bit_int_eq_self_iff)

lemma f64_as_int_in_range:
  "of_int lo \<le> r \<Longrightarrow> r \<le> of_int hi \<Longrightarrow> f64_as_int lo hi r = (if r < 0 then \<lceil>r\<rceil> else \<lfloor>r\<rfloor>)"
  unfolding f64_as_int_def by (auto simp: le_floor_iff floor_le_iff ceiling_le_iff le_ceiling_iff)

lemma input_to_cdp_no_err [simp]: "input_to_cdp checks ev n \<noteq> Err e"
  by (cases ev) (auto simp: shl_ovf_def split: if_splits)

fun event_position :: "rat input_event \<Rightarrow> (rat \<times> rat) option" where
  "event_position (MouseMove x y _ _) = Some (x, y)"
| "event_position (MouseDown x y _ _) = Some (x, y)"
| "event_position (MouseUp x y _ _) = Some (x, y)"
| "event_position (Wheel x y _ _ _) = Some (x, y)"
| "event_position _ = None"

lemma track_cursor_position:
  "track_cursor ev sv = (case event_position ev of Some (x, y) \<Rightarrow> sv\<lparr>sv_cursor := cursor_update x y\<rparr> | None \<Rightarrow> sv)"
  by (cases ev) simp_all

text \<open>The relay of peer input. A bitrate hint is queued for the encoder, unless eight are
  waiting, and sends nothing to the browser. Any other event that does not panic is sent as
  one command, and a mouse event moves the cursor, as it is reported later, to its position
  cut towards zero and kept within 32 bits; every other event leaves the cursor where it was.\<close>

theorem relay_input_effect:
  assumes "relay_input checks ev sv br es = (Ok sv', es')"
  shows "case ev of
      BitrateHint k \<Rightarrow> es' = es \<and>
        sv' = (if length (sv_bitrate_hints sv) < 8
               then sv\<lparr>sv_bitrate_hints := sv_bitrate_hints sv @ [k]\<rparr> else sv)
    | _ \<Rightarrow> (\<exists>req n. input_to_cdp checks ev 0 = (Ok (req, n) :: (cdp_error, cdp_request \<times> u64) outcome) \<and>
        es' = es @ [Command (cq_method req) (cq_params req)]) \<and>
        (case event_position ev of
           None \<Rightarrow> sv' = sv
         | Some (x, y) \<Rightarrow> sv' = sv\<lparr>sv_cursor := sv_cursor sv'\<rparr> \<and>
             map_prod sint sint (unpack_cursor (sv_cursor sv')) =
               (f64_as_int (- (2 ^ 31)) (2 ^ 31 - 1) x, f64_as_int (- (2 ^ 31)) (2 ^ 31 - 1) y))"
proof (cases "\<exists>k. ev = BitrateHint k")
  case True
  then show ?thesis using assms by (auto simp: relay_input_def try_send_hint_def)
next
  case False
  have run: "relay_input checks ev sv = seq (attempt (cdp_dispatch_input checks ev))
      (\<lambda>_ :: (cdp_error, unit) outcome. ret (track_cursor ev sv))"
    using False by (cases ev) (simp_all add: relay_input_def)
  have sv': "sv' = track_cursor ev sv"
    using assms unfolding run by (auto simp: seq_def split: prod.splits outcome.splits)
  obtain req n where req: "input_to_cdp checks ev 0 = (Ok (req, n) :: (cdp_error, cdp_request \<times> u64) outcome)"
      and es': "es' = es @ [Command (cq_method req) (cq_params req)]"
    using assms unfolding run
    by (cases "input_to_cdp checks ev 0 :: (cdp_error, cdp_request \<times> u64) outcome")
      (auto simp: cdp_dispatch_input_def seq_def attempt_def command_def split: sum.splits)
  show ?thesis
    using False req es' by (cases ev) (auto simp: sv' cursor_update_def sint_f64_as_i32)
qed

definition example_config :: instance_config where
  "example_config =
     \<lparr>ic_instance_id = ''dev'', ic_cdp_endpoint = ''ws://127.0.0.1:9222/devtools/page/A'',
      ic_pulse_source = ''dev.monitor'', ic_display = None, ic_video = default_video,
      ic_audio = default_audio, ic_rtp_output = None\<rparr>"

lemma relay_input_effect_witness:
  "\<exists>sv'. relay_input True (MouseDown (1507 / 10) (- 20) 0 0) (supervisor_new example_config []) (quiet_browser JNull) [] =
       (Ok sv', [Command ''Input.dispatchMouseEvent''
         (Some (mouse_params_json (mouse_down_params (1507 / 10) (- 20) 0 0 1)))]) \<and>
     map_prod sint sint (unpack_cursor (sv_cursor sv')) = (150, - 20)"
proof -
  let ?ev = "MouseDown (1507 / 10) (- 20) 0 0 :: rat input_event"
  let ?sv = "supervisor_new example_config []"
  have r: "relay_input True ?ev ?sv (quiet_browser JNull) [] = (Ok (track_cursor ?ev ?sv),
      [Command ''Input.dispatchMouseEvent''
         (Some (mouse_params_json (mouse_down_params (1507 / 10) (- 20) 0 0 1)))])"
    by (simp add: relay_input_def cdp_dispatch_input_def seq_def attempt_def command_def quiet_browser_def
      shl_ovf_def mouse_request_def cdp_request_new_def next_message_id_def)
  have "\<lfloor>1507 / 10 :: rat\<rfloor> = 150" by (rule floor_unique) simp_all
  with relay_input_effect [OF r] have "map_prod sint sint (unpack_cursor (sv_cursor (track_cursor ?ev ?sv))) = (150, - 20)"
    by (simp add: f64_as_int_def)
  with r show ?thesis by blast
qed

text \<open>A sequence of screenshots.\<close>

definition shot_event :: "string \<Rightarrow> u32 option \<Rightarrow> browser_event" where
  "shot_event format quality = Call ''Page.captureScreenshot'' (Some (screenshot_params format quality))"

fun sequence_events :: "nat \<Rightarrow> u64 \<Rightarrow> browser_event \<Rightarrow> browser_event list" where
  "sequence_events 0 interval shot = []"
| "sequence_events (Suc 0) interval shot = [shot]"
| "sequence_events (Suc n) interval shot = shot # Sleep (unat interval) # sequence_events n interval shot"

lemma capture_screenshot_run:
  obtains r where "sup_capture_screenshot format quality br es = (r, es @ [shot_event format quality])"
proof -
  have "\<exists>r. cdp_capture_screenshot format quality br es = (r, es @ [shot_event format quality])"
    unfolding cdp_capture_screenshot_def shot_event_def seq_def call_and_wait_def screenshot_data_def
    by (auto split: sum.split)
  then show thesis using that by (auto simp: sup_capture_screenshot_def)
qed

lemma take_screenshots_events:
  "\<exists>xs. snd (take_screenshots n interval format quality br es) = es @ xs \<and>
     prefix xs (sequence_events n interval (shot_event format quality)) \<and>
     (\<forall>imgs. fst (take_screenshots n interval format quality br es) = Ok imgs \<longrightarrow>
        length imgs = n \<and> xs = sequence_events n interval (shot_event format quality))"
proof (induction n arbitrary: es)
  case (Suc n)
  obtain r where r: "sup_capture_screenshot format quality br es = (r, es @ [shot_event format quality])"
    by (rule capture_screenshot_run)
  define es1 where "es1 = (es @ [shot_event format quality]) @ (if n = 0 then [] else [Sleep (unat interval)])"
  have pause: "(if n = 0 then ret () else sleep (unat interval)) br (es @ [shot_event format quality]) =
      (Ok () :: (vscreen_error, unit) outcome, es1)"
    by (simp add: es1_def)
  obtain xs r2 where xs: "take_screenshots n interval format quality br es1 = (r2, es1 @ xs)"
      "prefix xs (sequence_events n interval (shot_event format quality))"
      "\<And>imgs. r2 = Ok imgs \<Longrightarrow> length imgs = n \<and> xs = sequence_events n interval (shot_event format quality)"
    using Suc.IH [of es1] by (metis prod.collapse)
  have evs: "sequence_events (Suc n) interval (shot_event format quality) =
      drop (length es) es1 @ sequence_events n interval (shot_event format quality)"
    by (cases n) (simp_all add: es1_def)
  show ?case
  proof (cases r)
    case (Ok img)
    have "take_screenshots (Suc n) interval format quality br es =
        (case r2 of Ok imgs \<Rightarrow> Ok (img # imgs) | Err e \<Rightarrow> Err e | Panic \<Rightarrow> Panic, es1 @ xs)"
      using r Ok pause xs(1) by (cases r2) simp_all
    moreover have "es1 @ xs = es @ (drop (length es) es1 @ xs)"
      by (simp add: es1_def)
    ultimately show ?thesis
      using xs(2,3) evs by (intro exI [of _ "drop (length es) es1 @ xs"]) (auto split: outcome.split)
  next
    case (Err e)
    then show ?thesis using r
      by (cases n) (auto intro!: exI [of _ "[shot_event format quality]"])
  next
    case Panic
    then show ?thesis using r
      by (cases n) (auto intro!: exI [of _ "[shot_event format quality]"])
  qed
qed simp

text \<open>A sequence of screenshots takes exactly the number asked for, one after the other with
  the interval between each two, and none for a count of 0; if one fails nothing more is taken.\<close>

theorem screenshot_sequence_events:
  "\<exists>xs. snd (capture_screenshot_sequence count interval format quality br es) = es @ xs \<and>
     prefix xs (sequence_events (unat count) interval (shot_event format quality)) \<and>
     (case fst (capture_screenshot_sequence count interval format quality br es) of
        Ok imgs \<Rightarrow> length imgs = unat count \<and>
          xs = sequence_events (unat count) interval (shot_event format quality)
      | _ \<Rightarrow> True)"
  using take_screenshots_events [of "unat count" interval format quality br es]
  unfolding capture_screenshot_sequence_def by (auto split: outcome.split)

text \<open>Page coordinates are brought into the viewport. Given what the page answers about its
  viewport, and that a page asked to scroll does so, the translated point plus the scroll offset
  is the point of the page, and it lies inside the viewport, whatever its size.\<close>

theorem scroll_translates:
  fixes px py :: rat and obj obj2 :: json
  defines "sx \<equiv> field_or 0 as_f64 ''scrollX'' obj" and "sy \<equiv> field_or 0 as_f64 ''scrollY'' obj"
    and "w \<equiv> field_or 1920 as_f64 ''innerW'' obj" and "h \<equiv> field_or 940 as_f64 ''innerH'' obj"
  defines "tx \<equiv> scroll_target px sx w" and "ty \<equiv> scroll_target py sy h"
  assumes "0 \<le> px" "0 \<le> py" "0 \<le> w" "0 \<le> h"
    and view: "sup_evaluate_js viewport_js br es = (Ok (JStr t), es1)" "parse_json br t = Ok obj"
    and scrolls: "sup_evaluate_js (scroll_js br tx ty) br es1 = (Ok (JStr u), es2)" "parse_json br u = Ok obj2"
      "field_or tx as_f64 ''x'' obj2 = tx" "field_or ty as_f64 ''y'' obj2 = ty"
  shows "\<exists>x y es'. scroll_into_view_and_translate px py br es = (Ok (x, y), es') \<and>
    x + tx = px \<and> y + ty = py \<and> 0 \<le> x \<and> x \<le> w \<and> 0 \<le> y \<and> y \<le> h"
proof -
  have inside: "0 \<le> p - scroll_target p s i \<and> p - scroll_target p s i \<le> i" if "0 \<le> p" "0 \<le> i" for p s i
    using that by (auto simp: scroll_target_def in_view_def max_def field_simps)
  have *: "scroll_to px py tx ty br es1 = (Ok (px - tx, py - ty), es2 @ [Sleep 50])"
    using scrolls by (simp add: scroll_to_def)
  have "\<exists>es'. scroll_into_view_and_translate px py br es = (Ok (px - tx, py - ty), es')"
    using view * by (auto simp: scroll_into_view_and_translate_def Let_def simp flip: sx_def sy_def w_def h_def tx_def ty_def)
      (auto simp: tx_def ty_def scroll_target_def)
  then show ?thesis
    using inside [of px w sx] inside [of py h sy] assms(7-10) by (auto simp: tx_def ty_def)
qed

definition example_page :: browser where
  "example_page = (quiet_browser (JObj [(''result'', JObj [(''value'', JStr ''page'')])]))
     \<lparr>parse_json := (\<lambda>_. Ok (JObj [(''innerW'', JInt 1000), (''innerH'', JInt 800), (''x'', JInt 0), (''y'', JInt 2600)]))\<rparr>"

lemma scroll_translates_witness:
  "\<exists>es'. scroll_into_view_and_translate 500 3000 example_page [] = (Ok (500, 400), es')"
proof -
  have js: "sup_evaluate_js s example_page es = (Ok (JStr ''page''), es @ [eval_event s])" for s es
    by (simp add: sup_evaluate_js_def cdp_evaluate_js_def seq_def call_and_wait_def example_page_def
      quiet_browser_def evaluation_result_def eval_event_def with_err_def)
  let ?obj = "JObj [(''innerW'', JInt 1000), (''innerH'', JInt 800), (''x'', JInt 0), (''y'', JInt 2600)]"
  have t: "scroll_target 500 (field_or 0 as_f64 ''scrollX'' ?obj) (field_or 1920 as_f64 ''innerW'' ?obj) = 0"
    "scroll_target 3000 (field_or 0 as_f64 ''scrollY'' ?obj) (field_or 940 as_f64 ''innerH'' ?obj) = 2600"
    by (simp_all add: scroll_target_def in_view_def field_or_def)
  have p: "parse_json example_page s = Ok ?obj" for s
    by (simp add: example_page_def)
  have "\<exists>x y es'. scroll_into_view_and_translate 500 3000 example_page [] = (Ok (x, y), es') \<and>
      x + 0 = 500 \<and> y + 2600 = 3000"
    using scroll_translates [of 500 3000, OF _ _ _ _ js p js p, unfolded t]
    by (auto simp: field_or_def)
  then show ?thesis by auto
qed

text \<open>A new tab whose connection fails stays open: its target was created, the caller gets only
  the error, and no call closes the target.\<close>

lemma failed_tab_stays_open:
  assumes "cdp_create_target url br es = (Ok tid, es1)" and "dial (endpoint_for_target tid c) = Err e"
  shows "create_ephemeral_tab dial c url br es = (Err (Cdp e), es1)"
  using assms by (simp add: create_ephemeral_tab_def Let_def)

end
