(* ===== verification/Screenshot_Watcher.thy ===== *)
theory Screenshot_Watcher
  imports Supervisor
begin

section \<open>The screenshot watcher\<close>

text \<open>
  \<open>screenshot_watcher.rs\<close> of \<open>crates/vscreen-server\<close>: a region of the page is captured again and
  again and cut into the cells of a grid; a cell counts as changed when its average hash
  differs from the one of the previous capture in more than five bits. Decoding, cropping and
  encoding of images is done by the package \<open>image\<close> and is the parameter \<open>image_env\<close>.
  \<open>watch_round\<close> is one turn of \<open>watcher_loop\<close> up to the end of its pause; the stop of the
  watcher, which is looked at between the turns, and the broadcast of the events are left out.
\<close>

subsection \<open>Hashes\<close>

record cell_data =
  cd_pixels :: bytes
  cd_width :: u32
  cd_height :: u32

text \<open>A \<open>for\<close> loop whose body can panic.\<close>

fun fold_ok :: "('a \<Rightarrow> 's \<Rightarrow> ('e, 's) outcome) \<Rightarrow> 'a list \<Rightarrow> 's \<Rightarrow> ('e, 's) outcome" where
  "fold_ok f [] s = Ok s"
| "fold_ok f (x # xs) s = and_then (f x s) (fold_ok f xs)"

text \<open>The inner loop's body: \<open>sy\<close> is the row of the block. The arrays are \<open>small\<close> and \<open>counts\<close>.\<close>

definition add_pixel ::
  "bool \<Rightarrow> cell_data \<Rightarrow> u32 \<Rightarrow> nat \<Rightarrow> u32 \<Rightarrow> u32 list \<times> u32 list \<Rightarrow> (unit, u32 list \<times> u32 list) outcome" where
  "add_pixel checks cell y sy x acc =
     and_then (mul_ovf checks x 8) (\<lambda>x8.
     let idx = sy * 8 + unat (x8 div cd_width cell) in
     and_then (mul_ovf checks y (cd_width cell)) (\<lambda>yw.
     and_then (add_ovf checks yw x) (\<lambda>p.
     if length (cd_pixels cell) \<le> unat p \<or> length (fst acc) \<le> idx then Panic
     else
       and_then (add_ovf checks (fst acc ! idx) (ucast (cd_pixels cell ! unat p))) (\<lambda>s.
       and_then (add_ovf checks (snd acc ! idx) 1) (\<lambda>c.
       Ok ((fst acc)[idx := s], (snd acc)[idx := c]))))))"

definition add_row ::
  "bool \<Rightarrow> cell_data \<Rightarrow> u32 \<Rightarrow> u32 list \<times> u32 list \<Rightarrow> (unit, u32 list \<times> u32 list) outcome" where
  "add_row checks cell y acc =
     and_then (mul_ovf checks y 8) (\<lambda>y8.
     fold_ok (add_pixel checks cell y (unat (y8 div cd_height cell)))
       (map of_nat [0..<unat (cd_width cell)]) acc)"

definition block_average :: "u32 \<Rightarrow> u32 \<Rightarrow> u8" where
  "block_average s c = (if 0 < c then ucast (s div c) else 0)"

text \<open>The sum of 64 bytes fits in 32 bits.\<close>

definition mean_of :: "u8 list \<Rightarrow> u32" where
  "mean_of avg_pixels = sum_list (map ucast avg_pixels) div 64"

definition hash_bits :: "u8 list \<Rightarrow> u64" where
  "hash_bits avg_pixels =
     fold (\<lambda>i hash. if mean_of avg_pixels < ucast (avg_pixels ! i) then or hash (push_bit i 1) else hash)
       [0..<length avg_pixels] 0"

definition average_hash :: "bool \<Rightarrow> cell_data \<Rightarrow> (unit, u64) outcome" where
  "average_hash checks cell =
     and_then
       (fold_ok (add_row checks cell) (map of_nat [0..<unat (cd_height cell)])
         (replicate 64 0, replicate 64 0)) (\<lambda>(small, counts).
     Ok (hash_bits (map2 block_average small counts)))"

definition hamming_distance :: "u64 \<Rightarrow> u64 \<Rightarrow> u32" where
  "hamming_distance a b = of_nat (length (filter (bit (xor a b)) [0..<64]))"

subsection \<open>Watching\<close>

record grid_dims =
  gd_rows :: u32
  gd_cols :: u32

record grid_change_event =
  gc_changed_cells :: "nat list"
  gc_full_screenshot :: bytes
  gc_cell_crops :: "(nat, bytes) table"

text \<open>A gray image is what \<open>load_from_memory\<close> and \<open>to_luma8\<close> give, of the size \<open>im_size\<close>;
  \<open>im_crop\<close> are the pixels of a part of it, and \<open>im_encode\<close> the PNG encoder.\<close>

record 'img image_env =
  im_load :: "bytes \<Rightarrow> 'img option"
  im_size :: "'img \<Rightarrow> u32 \<times> u32"
  im_crop :: "'img \<Rightarrow> u32 \<Rightarrow> u32 \<Rightarrow> u32 \<Rightarrow> u32 \<Rightarrow> bytes"
  im_encode :: "bytes \<Rightarrow> u32 \<Rightarrow> u32 \<Rightarrow> bytes option"

definition div_ok :: "u32 \<Rightarrow> u32 \<Rightarrow> (unit, u32) outcome" where
  "div_ok a b = (if b = 0 then Panic else Ok (a div b))"

text \<open>The products are at most the width and the height.\<close>

definition split_into_cells ::
  "'img image_env \<Rightarrow> bytes \<Rightarrow> grid_dims \<Rightarrow> (unit, cell_data list option) outcome" where
  "split_into_cells ie png grid =
     (case im_load ie png of
        None \<Rightarrow> Ok None
      | Some img \<Rightarrow>
          (let (w, h) = im_size ie img in
           and_then (div_ok w (gd_cols grid)) (\<lambda>cell_w.
           and_then (div_ok h (gd_rows grid)) (\<lambda>cell_h.
           Ok (Some (concat (map (\<lambda>row. map (\<lambda>col.
             \<lparr>cd_pixels = im_crop ie img (of_nat col * cell_w) (of_nat row * cell_h) cell_w cell_h,
              cd_width = cell_w, cd_height = cell_h\<rparr>)
             [0..<unat (gd_cols grid)]) [0..<unat (gd_rows grid)])))))))"

definition encode_cell_png :: "'img image_env \<Rightarrow> cell_data \<Rightarrow> bytes option" where
  "encode_cell_png ie cell = im_encode ie (cd_pixels cell) (cd_width cell) (cd_height cell)"

record watcher =
  wt_prev_hashes :: "u64 list"
  wt_first_run :: bool

definition total_cells :: "bool \<Rightarrow> grid_dims \<Rightarrow> (unit, nat) outcome" where
  "total_cells checks grid = and_then (mul_ovf checks (gd_rows grid) (gd_cols grid)) (\<lambda>n. Ok (unat n))"

definition new_watcher :: "nat \<Rightarrow> watcher" where
  "new_watcher n = \<lparr>wt_prev_hashes = replicate n 0, wt_first_run = True\<rparr>"

definition changed_cells :: "watcher \<Rightarrow> nat \<Rightarrow> u64 list \<Rightarrow> nat list" where
  "changed_cells w n current =
     filter (\<lambda>i. wt_first_run w \<or> 5 < hamming_distance (wt_prev_hashes w ! i) (current ! i)) [0..<n]"

text \<open>\<open>cells.iter().map(average_hash).collect()\<close>\<close>

fun map_ok :: "('a \<Rightarrow> ('e, 'b) outcome) \<Rightarrow> 'a list \<Rightarrow> ('e, 'b list) outcome" where
  "map_ok f [] = Ok []"
| "map_ok f (x # xs) = and_then (f x) (\<lambda>y. and_then (map_ok f xs) (\<lambda>ys. Ok (y # ys)))"

text \<open>What a turn does with a screenshot.\<close>

definition watch_screenshot ::
  "bool \<Rightarrow> 'img image_env \<Rightarrow> grid_dims \<Rightarrow> bytes \<Rightarrow> watcher
     \<Rightarrow> (unit, grid_change_event option \<times> watcher) outcome" where
  "watch_screenshot checks ie grid png w =
     and_then (total_cells checks grid) (\<lambda>n.
     and_then (split_into_cells ie png grid) (\<lambda>r.
     case r of
       None \<Rightarrow> Ok (None, w)
     | Some cells \<Rightarrow>
         and_then (map_ok (average_hash checks) cells) (\<lambda>current.
         let changed = changed_cells w n current;
             crops = List.map_filter (\<lambda>i. map_option (Pair i) (encode_cell_png ie (cells ! i))) changed
         in Ok (if changed = [] then None
                else Some \<lparr>gc_changed_cells = changed, gc_full_screenshot = png, gc_cell_crops = crops\<rparr>,
              \<lparr>wt_prev_hashes = current, wt_first_run = False\<rparr>))))"

definition capture_clip :: "rat \<times> rat \<times> rat \<times> rat \<Rightarrow> (unit, bytes option) prog" where
  "capture_clip clip =
     seq (attempt (sup_capture_clip ''png'' None (Some clip))) (\<lambda>r.
     ret (case r of Ok b \<Rightarrow> Some b | _ \<Rightarrow> None))"

definition watch_round ::
  "bool \<Rightarrow> 'img image_env \<Rightarrow> rat \<times> rat \<times> rat \<times> rat \<Rightarrow> grid_dims \<Rightarrow> u64 \<Rightarrow> watcher
     \<Rightarrow> (unit, grid_change_event option \<times> watcher) prog" where
  "watch_round checks ie clip grid interval w =
     seq (capture_clip clip) (\<lambda>shot.
     seq (case shot of None \<Rightarrow> ret (None, w) | Some png \<Rightarrow> lift (watch_screenshot checks ie grid png w)) (\<lambda>r.
     seq (sleep (unat interval)) (\<lambda>_. ret r)))"


subsection \<open>What a hash is\<close>

text \<open>The pixels of block \<open>i\<close> of the eight by eight blocks of a cell, and the averages.\<close>

definition in_block :: "cell_data \<Rightarrow> nat \<Rightarrow> nat \<times> nat \<Rightarrow> bool" where
  "in_block cell i p =
     (fst p * 8 div unat (cd_height cell) * 8 + snd p * 8 div unat (cd_width cell) = i)"

definition pixel :: "cell_data \<Rightarrow> nat \<times> nat \<Rightarrow> nat" where
  "pixel cell p = unat (cd_pixels cell ! (fst p * unat (cd_width cell) + snd p))"

definition block_pixels :: "cell_data \<Rightarrow> nat \<Rightarrow> nat list" where
  "block_pixels cell i =
     map (pixel cell) (filter (in_block cell i)
       (concat (map (\<lambda>y. map (Pair y) [0..<unat (cd_width cell)]) [0..<unat (cd_height cell)])))"

definition average :: "nat list \<Rightarrow> nat" where
  "average ns = (if ns = [] then 0 else sum_list ns div length ns)"

definition mean_average :: "cell_data \<Rightarrow> nat" where
  "mean_average cell = (\<Sum>j\<leftarrow>[0..<64]. average (block_pixels cell j)) div 64"

text \<open>The two arrays after the pixels of a list of points.\<close>

definition tally :: "cell_data \<Rightarrow> (nat \<times> nat) list \<Rightarrow> u32 list \<times> u32 list" where
  "tally cell ps =
     (map (\<lambda>i. of_nat (sum_list (map (pixel cell) (filter (in_block cell i) ps)))) [0..<64],
      map (\<lambda>i. of_nat (length (filter (in_block cell i) ps))) [0..<64])"

lemma tally_Nil: "tally cell [] = (replicate 64 0, replicate 64 0)"
  by (simp add: tally_def map_replicate_const)

lemma pixel_bound: "pixel cell p \<le> 255"
  using unsigned_less [of "cd_pixels cell ! (fst p * unat (cd_width cell) + snd p)", where ?'a = nat]
  by (simp add: pixel_def)

lemma sum_pixels_bound: "sum_list (map (pixel cell) ps) \<le> 255 * length ps"
proof (induction ps)
  case (Cons p ps)
  then show ?case using pixel_bound [of cell p] by simp
qed simp

lemma block_row_less: "y < h \<Longrightarrow> y * 8 div h < (8 :: nat)"
  by (simp add: div_less_iff_less_mult)

lemma map_upt_update:
  "i < n \<Longrightarrow> (map f [0..<n])[i := v] = map (\<lambda>j. if j = i then v else f j) [0..<n]"
  by (rule nth_equalityI) (auto simp: nth_list_update)

lemma unat_of_nat_eq: "n < 2 ^ LENGTH('a) \<Longrightarrow> unat (of_nat n :: 'a::len word) = n"
  by (simp add: unat_of_nat)

lemma add_ovf_of_nat:
  "a + b < 2 ^ LENGTH('a) \<Longrightarrow> add_ovf c (of_nat a) (of_nat b :: 'a::len word) = Ok (of_nat (a + b))"
  by (simp add: add_ovf_fits unat_of_nat_eq)

lemma mul_ovf_of_nat:
  "a * b < 2 ^ LENGTH('a) \<Longrightarrow> a < 2 ^ LENGTH('a) \<Longrightarrow> b < 2 ^ LENGTH('a) \<Longrightarrow>
     mul_ovf c (of_nat a) (of_nat b :: 'a::len word) = Ok (of_nat (a * b))"
  by (simp add: mul_ovf_fits unat_of_nat_eq)

lemma cell_index_less: "y < h \<Longrightarrow> x < w \<Longrightarrow> y * w + x < h * (w :: nat)"
  using mult_le_mono1 [of "Suc y" h w] by simp

lemma add_pixel_tally:
  assumes y: "y < unat (cd_height cell)" and x: "x < unat (cd_width cell)"
    and px: "length (cd_pixels cell) = unat (cd_height cell) * unat (cd_width cell)"
    and fits: "255 * (unat (cd_height cell) * unat (cd_width cell)) < 2 ^ 32"
    and ps: "length ps < unat (cd_height cell) * unat (cd_width cell)"
  shows "add_pixel checks cell (of_nat y) (y * 8 div unat (cd_height cell)) (of_nat x) (tally cell ps) =
    Ok (tally cell (ps @ [(y, x)]))"
proof -
  let ?w = "unat (cd_width cell)" and ?h = "unat (cd_height cell)"
  let ?i = "y * 8 div ?h * 8 + x * 8 div ?w"
  have wpos: "0 < ?w" "0 < ?h" using x y by auto
  have "?w \<le> ?h * ?w" "?h \<le> ?h * ?w" using wpos by simp_all
  moreover have "255 * (?h * ?w) < 4294967296" using fits by simp
  ultimately have w: "?w < 20000000" "?h < 20000000" "?h * ?w < 20000000" by linarith+
  have i: "?i < 64" using block_row_less [OF y] block_row_less [OF x] by simp
  have idx: "y * ?w + x < ?h * ?w" by (rule cell_index_less [OF y x])
  have x8: "mul_ovf checks (of_nat x) 8 = Ok (of_nat (x * 8) :: u32)" 
    using mul_ovf_of_nat [of x 8, where 'a = 32] x w by simp
  have "unat (of_nat (x * 8) div cd_width cell) = x * 8 div ?w"
    using x w by (simp add: unat_div unat_of_nat_eq del: of_nat_mult)
  note x8' = this
  have yw: "mul_ovf checks (of_nat y) (cd_width cell) = Ok (of_nat (y * ?w) :: u32)"
    using mul_ovf_of_nat [of y ?w, where 'a = 32] idx y w by simp
  have p: "add_ovf checks (of_nat (y * ?w)) (of_nat x) = Ok (of_nat (y * ?w + x) :: u32)"
    using add_ovf_of_nat [of "y * ?w" x, where 'a = 32] idx w by simp
  have up: "unat (of_nat (y * ?w + x) :: u32) = y * ?w + x" using idx w by (simp add: unat_of_nat_eq del: of_nat_add of_nat_mult)
  have b: "in_block cell j (y, x) \<longleftrightarrow> j = ?i" for j by (auto simp: in_block_def)
  have n: "length (filter (in_block cell ?i) ps) \<le> length ps" by simp
  have "sum_list (map (pixel cell) (filter (in_block cell ?i) ps)) \<le> 255 * length ps"
    using sum_pixels_bound [of cell "filter (in_block cell ?i) ps"] n by (meson le_trans mult_le_mono2)
  then have sum: "sum_list (map (pixel cell) (filter (in_block cell ?i) ps)) + pixel cell (y, x) < 2 ^ 32"
    using pixel_bound [of cell "(y, x)"] ps fits by simp
  have px_word: "ucast (cd_pixels cell ! (y * ?w + x)) = (of_nat (pixel cell (y, x)) :: u32)"
    by (simp add: pixel_def)
  have s: "add_ovf checks (fst (tally cell ps) ! ?i) (ucast (cd_pixels cell ! (y * ?w + x))) =
      Ok (of_nat (sum_list (map (pixel cell) (filter (in_block cell ?i) ps)) + pixel cell (y, x)))"
    using add_ovf_of_nat [where 'a = 32 and c = checks] sum i by (simp add: tally_def px_word del: of_nat_add)
  have c: "add_ovf checks (snd (tally cell ps) ! ?i) 1 = Ok (of_nat (length (filter (in_block cell ?i) ps) + 1))"
    using add_ovf_of_nat [of "length (filter (in_block cell ?i) ps)" 1, where 'a = 32] i n ps w by (simp add: tally_def)
  have len: "length (fst (tally cell ps)) = 64" by (simp add: tally_def)
  have upd: "(fst (tally cell ps))[?i := of_nat (sum_list (map (pixel cell) (filter (in_block cell ?i) ps)) + pixel cell (y, x))] =
      fst (tally cell (ps @ [(y, x)]))"
    "(snd (tally cell ps))[?i := of_nat (length (filter (in_block cell ?i) ps) + 1)] = snd (tally cell (ps @ [(y, x)]))"
    unfolding tally_def fst_conv snd_conv map_upt_update [OF i] by (auto simp: b)
  show ?thesis
    unfolding add_pixel_def x8 and_then.simps Let_def x8' yw p up s c len upd
    using idx i px by simp
qed


lemma fold_ok_tally:
  assumes "\<And>x ps. x \<in> set xs \<Longrightarrow> length ps + m x \<le> n \<Longrightarrow> f (g x) (tally cell ps) = Ok (tally cell (ps @ new x))"
    and "\<And>x. x \<in> set xs \<Longrightarrow> length (new x) = m x"
    and "length ps + sum_list (map m xs) \<le> n"
  shows "fold_ok f (map g xs) (tally cell ps) = Ok (tally cell (ps @ concat (map new xs)))"
  using assms
proof (induction xs arbitrary: ps)
  case (Cons x xs)
  have "f (g x) (tally cell ps) = Ok (tally cell (ps @ new x))" using Cons.prems(3) by (intro Cons.prems(1)) simp_all
  moreover have "fold_ok f (map g xs) (tally cell (ps @ new x)) = Ok (tally cell ((ps @ new x) @ concat (map new xs)))"
    using Cons.prems by (intro Cons.IH) simp_all
  ultimately show ?case by simp
qed simp

lemma add_row_tally:
  assumes y: "y < unat (cd_height cell)" and w: "0 < unat (cd_width cell)"
    and px: "length (cd_pixels cell) = unat (cd_height cell) * unat (cd_width cell)"
    and fits: "255 * (unat (cd_height cell) * unat (cd_width cell)) < 2 ^ 32"
    and ps: "length ps + unat (cd_width cell) \<le> unat (cd_height cell) * unat (cd_width cell)"
  shows "add_row checks cell (of_nat y) (tally cell ps) =
    Ok (tally cell (ps @ map (Pair y) [0..<unat (cd_width cell)]))"
proof -
  let ?w = "unat (cd_width cell)" and ?h = "unat (cd_height cell)"
  have "?h \<le> ?h * ?w" using w by simp
  moreover have "255 * (?h * ?w) < 4294967296" using fits by simp
  ultimately have h: "?h < 20000000" by linarith
  have y8: "mul_ovf checks (of_nat y) 8 = Ok (of_nat (y * 8) :: u32)"
    using mul_ovf_of_nat [of y 8, where 'a = 32] y h by simp
  have "unat (of_nat (y * 8) div cd_height cell) = y * 8 div ?h"
    using y h by (simp add: unat_div unat_of_nat_eq del: of_nat_mult)
  moreover have "fold_ok (add_pixel checks cell (of_nat y) (y * 8 div ?h)) (map of_nat [0..<?w]) (tally cell ps) =
      Ok (tally cell (ps @ concat (map (\<lambda>x. [(y, x)]) [0..<?w])))"
    by (rule fold_ok_tally [where m = "\<lambda>_. 1" and n = "?h * ?w"])
      (use y px fits ps in \<open>simp_all add: add_pixel_tally sum_list_triv\<close>)
  ultimately show ?thesis
    by (simp add: add_row_def y8 concat_map_singleton del: of_nat_mult)
qed

lemma average_hash_tally:
  assumes "0 < unat (cd_width cell)"
    and "length (cd_pixels cell) = unat (cd_height cell) * unat (cd_width cell)"
    and "255 * (unat (cd_height cell) * unat (cd_width cell)) < 2 ^ 32"
  shows "fold_ok (add_row checks cell) (map of_nat [0..<unat (cd_height cell)]) (replicate 64 0, replicate 64 0) =
    Ok (tally cell (concat (map (\<lambda>y. map (Pair y) [0..<unat (cd_width cell)]) [0..<unat (cd_height cell)])))"
proof -
  have "fold_ok (add_row checks cell) (map of_nat [0..<unat (cd_height cell)]) (tally cell []) =
    Ok (tally cell ([] @ concat (map (\<lambda>y. map (Pair y) [0..<unat (cd_width cell)]) [0..<unat (cd_height cell)])))"
    by (rule fold_ok_tally [where m = "\<lambda>_. unat (cd_width cell)"
          and n = "unat (cd_height cell) * unat (cd_width cell)"])
      (use assms in \<open>simp_all add: add_row_tally sum_list_triv\<close>)
  then show ?thesis by (simp add: tally_Nil)
qed

lemma block_average_of_nat:
  assumes "sum_list (map (pixel cell) ps) < 2 ^ 32" and "length ps < 2 ^ 32"
  shows "unat (block_average (of_nat (sum_list (map (pixel cell) ps))) (of_nat (length ps))) =
    average (map (pixel cell) ps)"
proof (cases "ps = []")
  case False
  let ?s = "sum_list (map (pixel cell) ps)"
  have l: "0 < length ps" using False by simp
  have "?s div length ps \<le> 255"
    using sum_pixels_bound [of cell ps] l by (metis div_le_mono div_mult_self_is_m)
  moreover have "unat (of_nat ?s div of_nat (length ps) :: u32) = ?s div length ps"
    using assms by (simp add: unat_div unat_of_nat_eq)
  moreover have "(0 :: u32) < of_nat (length ps)"
    using assms(2) l by (simp add: word_less_nat_alt unat_of_nat_eq)
  ultimately show ?thesis
    using False by (simp add: block_average_def average_def unsigned_ucast_eq take_bit_eq_mod)
qed (simp add: block_average_def average_def)

lemma bit_hash_fold:
  assumes "n \<le> 64" and "i < 64"
  shows "bit (fold (\<lambda>i hash. if P i then or hash (push_bit i 1) else hash) [0..<n] (0 :: u64)) i \<longleftrightarrow> i < n \<and> P i"
  using assms(1)
proof (induction n)
  case (Suc n)
  then show ?case using assms(2)
    by (auto simp: bit_or_iff bit_push_bit_iff bit_1_iff bit_exp_iff less_Suc_eq)
qed simp

lemma average_bound: "average (block_pixels cell i) \<le> 255"
proof (cases "block_pixels cell i = []")
  case False
  then have "0 < length (block_pixels cell i)" by simp
  moreover have "sum_list (block_pixels cell i) \<le> 255 * length (block_pixels cell i)"
    unfolding block_pixels_def using sum_pixels_bound by (metis length_map)
  ultimately show ?thesis unfolding average_def by (metis div_le_mono div_mult_self_is_m bot_nat_0.extremum)
qed (simp add: average_def)

lemma unat_ucast_byte: "unat (ucast (b :: u8) :: u32) = unat b"
  using unsigned_less [of b, where ?'a = nat] by (simp add: unsigned_ucast_eq take_bit_eq_mod)

lemma unat_sum_bytes:
  "255 * length bs < 2 ^ 32 \<Longrightarrow> unat (sum_list (map ucast bs) :: u32) = sum_list (map unat (bs :: u8 list))"
proof (induction bs)
  case (Cons b bs)
  have b: "unat b \<le> 255" using unsigned_less [of b, where ?'a = nat] by simp
  have "sum_list (map unat bs) \<le> 255 * length bs" for bs :: "u8 list"
  proof (induction bs)
    case (Cons b bs)
    then show ?case using unsigned_less [of b, where ?'a = nat] by simp
  qed simp
  then have "sum_list (map unat bs) \<le> 255 * length bs" .
  then have "unat b + sum_list (map unat bs) < 2 ^ 32" using b Cons.prems by simp
  then show ?case using Cons by (simp add: unat_word_ariths unat_ucast_byte)
qed simp

lemma average_hash_runs:
  assumes "0 < unat (cd_width cell)"
    and "length (cd_pixels cell) = unat (cd_height cell) * unat (cd_width cell)"
    and "255 * (unat (cd_height cell) * unat (cd_width cell)) < 2 ^ 32"
  shows "\<exists>hash. average_hash checks cell = Ok hash \<and>
    (\<forall>i < 64. bit hash i = (mean_average cell < average (block_pixels cell i)))"
proof -
  let ?ps = "concat (map (\<lambda>y. map (Pair y) [0..<unat (cd_width cell)]) [0..<unat (cd_height cell)])"
  define avgs where "avgs = map2 block_average (fst (tally cell ?ps)) (snd (tally cell ?ps))"
  have n: "length ?ps = unat (cd_height cell) * unat (cd_width cell)"
    by (simp add: length_concat comp_def sum_list_triv)
  have len: "length avgs = 64" by (simp add: avgs_def tally_def)
  have avg: "unat (avgs ! i) = average (block_pixels cell i)" if i: "i < 64" for i
  proof -
    let ?f = "filter (in_block cell i) ?ps"
    have "length ?f \<le> length ?ps" by (rule length_filter_le)
    then have "255 * length ?f < 2 ^ 32" using assms(3) n by linarith
    moreover have "sum_list (map (pixel cell) ?f) \<le> 255 * length ?f" by (rule sum_pixels_bound)
    ultimately have "sum_list (map (pixel cell) ?f) < 2 ^ 32" "length ?f < 2 ^ 32" by linarith+
    from block_average_of_nat [OF this] show ?thesis
      using i by (simp add: avgs_def tally_def block_pixels_def)
  qed
  have "map unat avgs = map (\<lambda>j. average (block_pixels cell j)) [0..<64]"
    by (rule nth_equalityI) (simp_all add: len avg)
  then have "unat (mean_of avgs) = mean_average cell"
    using unat_sum_bytes [of avgs] len by (simp add: mean_of_def mean_average_def unat_div)
  then have "mean_of avgs < ucast (avgs ! i) \<longleftrightarrow> mean_average cell < average (block_pixels cell i)" if "i < 64" for i
    using avg [OF that] by (simp add: word_less_nat_alt unat_ucast_byte)
  moreover have "average_hash checks cell = Ok (hash_bits avgs)"
    by (simp add: average_hash_def average_hash_tally [OF assms] avgs_def case_prod_beta)
  ultimately show ?thesis
    unfolding hash_bits_def by (intro exI [of _ "hash_bits avgs"]) (simp add: hash_bits_def bit_hash_fold len)
qed


text \<open>C24: The hash of a cell is what it is meant to be. For a cell with all its pixels, of fewer than
  16.8 million, the loops over the 32-bit arrays neither overflow nor leave their bounds, and bit
  \<open>i\<close> of the hash says whether the average of block \<open>i\<close> of the eight by eight blocks is above
  the mean of the averages of all blocks.\<close>

theorem average_hash_correct:
  assumes "0 < unat (cd_width cell)"
    and "length (cd_pixels cell) = unat (cd_height cell) * unat (cd_width cell)"
    and "255 * (unat (cd_height cell) * unat (cd_width cell)) < 2 ^ 32"
  shows "\<exists>hash. average_hash checks cell = Ok hash \<and>
    (\<forall>i < 64. bit hash i = (mean_average cell < average (block_pixels cell i)))"
  using assms by (rule average_hash_runs)

text \<open>A cell of two by two pixels, the upper right one of which is bright.\<close>

definition example_cell :: cell_data where
  "example_cell = \<lparr>cd_pixels = [0, 200, 0, 0], cd_width = 2, cd_height = 2\<rparr>"

lemma average_hash_correct_witness:
  "\<exists>hash. average_hash True example_cell = Ok hash \<and> bit hash 4 \<and> \<not> bit hash 0"
proof -
  have c: "0 < unat (cd_width example_cell)"
    "length (cd_pixels example_cell) = unat (cd_height example_cell) * unat (cd_width example_cell)"
    "255 * (unat (cd_height example_cell) * unat (cd_width example_cell)) < 2 ^ 32"
    by (simp_all add: example_cell_def)
  obtain hash where h: "average_hash True example_cell = Ok hash"
    "\<forall>i < 64. bit hash i = (mean_average example_cell < average (block_pixels example_cell i))"
    using average_hash_correct [OF c, of True] by blast
  have "mean_average example_cell = 3" "average (block_pixels example_cell 4) = 200"
    "average (block_pixels example_cell 0) = 0"
    by code_simp+
  with h show ?thesis by auto
qed

subsection \<open>Which changes are reported\<close>

lemma hamming_distance_zero: "hamming_distance a b = 0 \<longleftrightarrow> a = b"
proof
  assume h: "hamming_distance a b = 0"
  have "length (filter (bit (xor a b)) [0..<64]) \<le> length [0..<64]" by (rule length_filter_le)
  then have "length (filter (bit (xor a b)) [0..<64]) < 2 ^ LENGTH(32)" by simp
  from unat_of_nat_eq [OF this] h have "filter (bit (xor a b)) [0..<64] = []"
    by (simp add: hamming_distance_def)
  then have "bit a i = bit b i" if "i < 64" for i
    using that by (auto simp: filter_empty_conv bit_xor_iff)
  then show "a = b" by (intro bit_word_eqI) simp
qed (simp add: hamming_distance_def)

definition screenshot_hashes ::
  "bool \<Rightarrow> 'img image_env \<Rightarrow> grid_dims \<Rightarrow> bytes \<Rightarrow> (unit, u64 list option) outcome" where
  "screenshot_hashes checks ie grid png =
     and_then (split_into_cells ie png grid) (\<lambda>r.
     case r of
       None \<Rightarrow> Ok None
     | Some cells \<Rightarrow> and_then (map_ok (average_hash checks) cells) (\<lambda>hs. Ok (Some hs)))"

fun watch_all ::
  "bool \<Rightarrow> 'img image_env \<Rightarrow> grid_dims \<Rightarrow> bytes list \<Rightarrow> watcher
     \<Rightarrow> (unit, grid_change_event option list \<times> watcher) outcome" where
  "watch_all checks ie grid [] w = Ok ([], w)"
| "watch_all checks ie grid (png # pngs) w =
     and_then (watch_screenshot checks ie grid png w) (\<lambda>(ev, w').
     and_then (watch_all checks ie grid pngs w') (\<lambda>(evs, w'').
     Ok (ev # evs, w'')))"

text \<open>The hashes of the screenshots that could be decoded.\<close>

definition decoded :: "bool \<Rightarrow> 'img image_env \<Rightarrow> grid_dims \<Rightarrow> bytes list \<Rightarrow> u64 list list" where
  "decoded checks ie grid =
     List.map_filter (\<lambda>png. case screenshot_hashes checks ie grid png of Ok r \<Rightarrow> r | _ \<Rightarrow> None)"

lemma watch_screenshot_run:
  assumes "watch_screenshot checks ie grid png w = Ok (ev, w')" and "total_cells checks grid = Ok n"
  shows "\<exists>r. screenshot_hashes checks ie grid png = Ok r \<and>
    (case r of
       None \<Rightarrow> ev = None \<and> w' = w
     | Some current \<Rightarrow>
         map_option gc_changed_cells ev =
           (if changed_cells w n current = [] then None else Some (changed_cells w n current)) \<and>
         w' = \<lparr>wt_prev_hashes = current, wt_first_run = False\<rparr>)"
proof -
  obtain r where r: "split_into_cells ie png grid = Ok r"
    using assms by (auto simp: watch_screenshot_def)
  show ?thesis
  proof (cases r)
    case None
    then show ?thesis using assms r by (simp add: watch_screenshot_def screenshot_hashes_def)
  next
    case (Some cells)
    then obtain current where "map_ok (average_hash checks) cells = Ok current"
      using assms r by (auto simp: watch_screenshot_def)
    then show ?thesis using assms r Some
      by (auto simp: watch_screenshot_def screenshot_hashes_def Let_def split: if_splits)
  qed
qed

lemma watch_all_state:
  assumes "watch_all checks ie grid pngs w = Ok (evs, w')" and "total_cells checks grid = Ok n"
  shows "w' = (if decoded checks ie grid pngs = [] then w
    else \<lparr>wt_prev_hashes = last (decoded checks ie grid pngs), wt_first_run = False\<rparr>)"
  using assms(1)
proof (induction pngs arbitrary: w evs)
  case (Cons png pngs)
  then obtain ev w1 evs1 where s: "watch_screenshot checks ie grid png w = Ok (ev, w1)"
      "watch_all checks ie grid pngs w1 = Ok (evs1, w')"
    by auto
  from watch_screenshot_run [OF s(1) assms(2)] Cons.IH [OF s(2)] show ?case
    by (auto simp: decoded_def map_filter_simps split: option.splits)
qed (simp add: decoded_def map_filter_simps)

text \<open>The watcher reports a cell exactly when its hash has moved by more than five bits since the
  last screenshot that could be decoded; the first such screenshot reports every cell, one
  that cannot be decoded reports nothing and is forgotten, and no event is sent for no cell.\<close>

theorem watcher_reports:
  assumes "watch_all checks ie grid pngs (new_watcher n) = Ok (evs, w)"
    and "total_cells checks grid = Ok n"
    and "watch_screenshot checks ie grid png w = Ok (ev, w')"
  shows "map_option gc_changed_cells ev =
    (case screenshot_hashes checks ie grid png of
       Ok (Some current) \<Rightarrow>
         (let cells =
            (if decoded checks ie grid pngs = [] then [0..<n]
             else filter (\<lambda>i. 5 < hamming_distance (last (decoded checks ie grid pngs) ! i) (current ! i)) [0..<n])
          in if cells = [] then None else Some cells)
     | _ \<Rightarrow> None)"
proof -
  have w: "w = (if decoded checks ie grid pngs = [] then new_watcher n
      else \<lparr>wt_prev_hashes = last (decoded checks ie grid pngs), wt_first_run = False\<rparr>)"
    by (rule watch_all_state [OF assms(1,2)])
  have "changed_cells w n current =
      (if decoded checks ie grid pngs = [] then [0..<n]
       else filter (\<lambda>i. 5 < hamming_distance (last (decoded checks ie grid pngs) ! i) (current ! i)) [0..<n])" for current
    by (simp add: w changed_cells_def new_watcher_def)
  with watch_screenshot_run [OF assms(3,2)] show ?thesis
    by (auto simp: Let_def split: option.splits)
qed

text \<open>Images one pixel high and sixteen wide.\<close>

definition example_images :: "bytes image_env" where
  "example_images =
     \<lparr>im_load = (\<lambda>png. if png = [] then None else Some png), im_size = (\<lambda>_. (16, 1)),
      im_crop = (\<lambda>img x y w h. take (unat w) (drop (unat x) img)), im_encode = (\<lambda>px w h. Some px)\<rparr>"

definition example_grid :: grid_dims where
  "example_grid = \<lparr>gd_rows = 1, gd_cols = 2\<rparr>"

definition row_cell :: "u8 \<Rightarrow> cell_data" where
  "row_cell b = \<lparr>cd_pixels = replicate 8 b, cd_width = 8, cd_height = 1\<rparr>"

lemma row_cell_hash:
  "\<exists>hash. average_hash True (row_cell 9) = Ok hash \<and> (\<forall>i < 64. bit hash i = (i < 8))"
  "\<exists>hash. average_hash True (row_cell 0) = Ok hash \<and> (\<forall>i < 64. \<not> bit hash i)"
proof -
  have c: "0 < unat (cd_width (row_cell b))"
    "length (cd_pixels (row_cell b)) = unat (cd_height (row_cell b)) * unat (cd_width (row_cell b))"
    "255 * (unat (cd_height (row_cell b)) * unat (cd_width (row_cell b))) < 2 ^ 32" for b
    by (simp_all add: row_cell_def)
  have avgs: "map (\<lambda>i. average (block_pixels (row_cell 9) i)) [0..<64] = replicate 8 9 @ replicate 56 0"
    "map (\<lambda>i. average (block_pixels (row_cell 0) i)) [0..<64] = replicate 64 0"
    by code_simp+
  have nth: "average (block_pixels cell i) = map (\<lambda>i. average (block_pixels cell i)) [0..<64] ! i" if "i < 64" for cell i
    using that by simp
  have "mean_average (row_cell 9) = 1" "mean_average (row_cell 0) = 0"
    unfolding mean_average_def avgs by (simp_all add: sum_list_replicate)
  moreover have "average (block_pixels (row_cell 9) i) = (if i < 8 then 9 else 0)" if "i < 64" for i
    unfolding nth [OF that] avgs using that by (simp add: nth_append)
  moreover have "average (block_pixels (row_cell 0) i) = 0" if "i < 64" for i
    unfolding nth [OF that] avgs using that by simp
  ultimately show "\<exists>hash. average_hash True (row_cell 9) = Ok hash \<and> (\<forall>i < 64. bit hash i = (i < 8))"
    "\<exists>hash. average_hash True (row_cell 0) = Ok hash \<and> (\<forall>i < 64. \<not> bit hash i)"
    using average_hash_runs [OF c, of True 9] average_hash_runs [OF c, of True 0] by force+
qed

lemma example_cells:
  "length img = 16 \<Longrightarrow> split_into_cells example_images img example_grid =
     Ok (Some [\<lparr>cd_pixels = take 8 img, cd_width = 8, cd_height = 1\<rparr>,
               \<lparr>cd_pixels = take 8 (drop 8 img), cd_width = 8, cd_height = 1\<rparr>])"
  by (auto simp: split_into_cells_def example_images_def example_grid_def div_ok_def upt_rec)

text \<open>The left cell goes dark after a screenshot that could not be decoded.\<close>

lemma watcher_reports_witness:
  "\<exists>evs w ev w'. watch_all True example_images example_grid [replicate 16 9, []] (new_watcher 2) = Ok (evs, w) \<and>
     watch_screenshot True example_images example_grid (replicate 8 0 @ replicate 8 9) w = Ok (ev, w') \<and>
     map_option gc_changed_cells ev = Some [0]"
proof -
  obtain b d where h: "average_hash True (row_cell 9) = Ok b" "average_hash True (row_cell 0) = Ok d"
      "\<forall>i < 64. bit b i = (i < 8)" "\<forall>i < 64. \<not> bit d i"
    using row_cell_hash by blast
  have "filter (bit (xor b d)) [0..<64] = filter (\<lambda>i. i < 8) [0..<64]"
    using h(3,4) by (intro filter_cong) (simp_all add: bit_xor_iff)
  also have "\<dots> = [0..<8]" by code_simp
  finally have dist: "hamming_distance b d = 8" by (simp add: hamming_distance_def)
  have same: "hamming_distance b b = 0" by (simp add: hamming_distance_zero)
  have t: "total_cells True example_grid = Ok 2" by (simp add: total_cells_def example_grid_def mul_ovf_def)
  have none: "split_into_cells example_images [] example_grid = Ok None"
    by (simp add: split_into_cells_def example_images_def)
  have hashes: "screenshot_hashes True example_images example_grid (replicate 16 9) = Ok (Some [b, b])"
    "screenshot_hashes True example_images example_grid (replicate 8 0 @ replicate 8 9) = Ok (Some [d, b])"
    "screenshot_hashes True example_images example_grid [] = Ok None"
    using h(1,2) by (simp_all add: screenshot_hashes_def example_cells none row_cell_def)
  have dec: "decoded True example_images example_grid [replicate 16 9, []] = [[b, b]]"
    by (simp add: decoded_def map_filter_simps hashes)
  obtain evs w where w: "watch_all True example_images example_grid [replicate 16 9, []] (new_watcher 2) = Ok (evs, w)"
    using h(1) by (simp add: watch_screenshot_def t example_cells none row_cell_def Let_def)
  obtain ev w' where s: "watch_screenshot True example_images example_grid (replicate 8 0 @ replicate 8 9) w = Ok (ev, w')"
    using h(1,2) by (simp add: watch_screenshot_def t example_cells row_cell_def Let_def)
  have "map_option gc_changed_cells ev = Some [0]"
    using watcher_reports [OF w t s] by (simp add: hashes dec dist same upt_rec)
  with w s show ?thesis by blast
qed

end
