(* ===== verification/Tool_Advisor.thy ===== *)
theory Tool_Advisor
  imports Memory
begin

section \<open>The tool advisor\<close>

text \<open>
  \<open>mcp/advisor.rs\<close> of \<open>crates/vscreen-server\<close>: the advisor remembers the last twenty tool calls
  and adds a hint to the result of a call that repeats a pattern another tool covers. \<open>call_tool\<close>
  is the dispatcher of \<open>mcp/mod.rs\<close>; the tool it calls is represented by its result. Each
  list of calls has the oldest first.
\<close>

subsection \<open>State and texts\<close>

record tool_call_record =
  tr_tool_name :: string
  tr_args_snapshot :: "json option"

record tool_advisor =
  ta_recent_calls :: "tool_call_record list"
  ta_layer1_tip_shown :: bool

definition tool_advisor_new :: tool_advisor where
  "tool_advisor_new = \<lparr>ta_recent_calls = [], ta_layer1_tip_shown = False\<rparr>"

definition layer1_tools :: "string list" where
  "layer1_tools =
     [''vscreen_browse'', ''vscreen_observe'', ''vscreen_interact'', ''vscreen_extract'',
      ''vscreen_synthesize'', ''vscreen_solve_challenge'']"

definition click_tools :: "string list" where
  "click_tools =
     [''vscreen_click'', ''vscreen_click_element'', ''vscreen_click_and_navigate'', ''vscreen_batch_click'']"

definition layer1_tip :: string where
  "layer1_tip =
       ''Tip: vscreen_browse, vscreen_interact, and vscreen_observe handle most tasks in '' @
       ''a single call. Try these before using individual tools.''"

definition interact_hint :: string where
  "interact_hint =
       ''Advisor: vscreen_interact performs click + wait + screenshot in one call.''"

definition captcha_hint :: string where
  "captcha_hint =
       ''Advisor: Multiple clipped screenshots on small regions may indicate a CAPTCHA '' @
       ''grid. Use vscreen_solve_captcha for reCAPTCHA challenges.''"

definition full_page_hint :: string where
  "full_page_hint =
       ''Advisor: You are scrolling and screenshotting repeatedly. Use '' @
       ''vscreen_screenshot(full_page=true) to capture the entire page in one call.''"

definition scroll_hint :: string where
  "scroll_hint =
       ''Advisor: You have scrolled multiple times. Consider using '' @
       ''vscreen_screenshot(full_page=true) to see the entire page, or '' @
       ''vscreen_scroll_to_element(selector) to jump directly to a specific element.''"

definition find_hint :: string where
  "find_hint =
       ''Advisor: You recently used find_elements/find_by_text. Use '' @
       ''vscreen_scroll_to_element(selector) to bring a specific element into view '' @
       ''instead of manual scroll deltas.''"

definition wait_hint :: string where
  "wait_hint =
       ''Advisor: You have used multiple fixed-duration waits. Consider using '' @
       ''vscreen_wait(condition=\"text\", text=...), vscreen_wait(condition=\"selector\", '' @
       ''selector=...), or vscreen_wait(condition=\"network\") instead of fixed waits.''"

definition page_info_hint :: string where
  "page_info_hint =
       ''Advisor: Use vscreen_get_page_info to get page title, URL, and viewport instead '' @
       ''of executing JavaScript.''"

definition extract_text_hint :: string where
  "extract_text_hint =
       ''Advisor: Use vscreen_extract_text to get all visible page text instead of '' @
       ''executing JavaScript.''"

definition synthesis_hint :: string where
  "synthesis_hint =
       ''Advisor: Use vscreen_synthesize or vscreen_synthesis_manage instead of fetch() '' @
       ''for synthesis API calls.''"

subsection \<open>Recording\<close>

text \<open>The one argument that matters later, in an object, if there is one.\<close>

definition build_args_snapshot :: "string \<Rightarrow> json \<Rightarrow> json option" where
  "build_args_snapshot tool args =
     (case args of
        JObj _ \<Rightarrow>
          (let key =
             (if tool = ''vscreen_wait'' then ''condition''
              else if tool = ''vscreen_execute_js'' then ''expression''
              else if tool = ''vscreen_screenshot'' then ''clip'' else [])
           in case (if key = [] then None else jget key args) of
                Some v \<Rightarrow> Some (JObj [(key, v)])
              | None \<Rightarrow>
                  if tool = ''vscreen_wait'' \<and> jget ''duration_ms'' args \<noteq> None
                  then Some (JObj [(''condition'', JStr ''duration'')]) else None)
      | _ \<Rightarrow> None)"

definition advisor_record :: "tool_call_record \<Rightarrow> tool_advisor \<Rightarrow> tool_advisor" where
  "advisor_record c a =
     a\<lparr>ta_recent_calls :=
       (if 20 \<le> length (ta_recent_calls a) then tl (ta_recent_calls a) else ta_recent_calls a) @ [c]\<rparr>"

interpretation advisor_window: bounded_log advisor_record "\<lambda>c a. c" ta_recent_calls "\<lambda>_. 20"
  by unfold_locales (simp_all add: advisor_record_def)

subsection \<open>Patterns\<close>

text \<open>The last \<open>n\<close> calls, the latest first.\<close>

definition recent :: "nat \<Rightarrow> tool_advisor \<Rightarrow> tool_call_record list" where
  "recent n a = take n (rev (ta_recent_calls a))"

definition check_layer1_promotion :: "string \<Rightarrow> tool_advisor \<Rightarrow> string option \<times> tool_advisor" where
  "check_layer1_promotion tool a =
     (if ta_layer1_tip_shown a then (None, a)
      else if list_ex (\<lambda>r. tr_tool_name r \<in> set layer1_tools) (ta_recent_calls a) then (None, a)
      else if 5 \<le> length (ta_recent_calls a) \<and> tool \<notin> set layer1_tools
      then (Some layer1_tip, a\<lparr>ta_layer1_tip_shown := True\<rparr>)
      else (None, a))"

definition check_click_wait_screenshot :: "tool_advisor \<Rightarrow> string option" where
  "check_click_wait_screenshot a =
     (let rs = recent 4 a in
      if length rs < 4 then None
      else if list_ex (\<lambda>r. tr_tool_name r \<in> set click_tools) rs \<and>
        list_ex (\<lambda>r. tr_tool_name r = ''vscreen_wait'') rs \<and>
        list_ex (\<lambda>r. tr_tool_name r = ''vscreen_screenshot'') rs
      then Some interact_hint
      else None)"

definition small_clip :: "tool_call_record \<Rightarrow> bool" where
  "small_clip r =
     (case Option.bind (tr_args_snapshot r) (jget ''clip'') of
        None \<Rightarrow> False
      | Some clip \<Rightarrow> field_or 0 as_f64 ''width'' clip < 200 \<or> field_or 0 as_f64 ''height'' clip < 200)"

definition check_repeated_iframe_screenshots :: "tool_advisor \<Rightarrow> string option" where
  "check_repeated_iframe_screenshots a =
     (if 3 \<le> length (filter small_clip
          (filter (\<lambda>r. tr_tool_name r = ''vscreen_screenshot'') (recent 6 a)))
      then Some captcha_hint else None)"

text \<open>\<open>recent.windows(2)\<close>\<close>

fun windows2 :: "'a list \<Rightarrow> ('a \<times> 'a) list" where
  "windows2 (x # y # xs) = (x, y) # windows2 (y # xs)"
| "windows2 _ = []"

definition check_screenshot_patterns :: "json \<Rightarrow> tool_advisor \<Rightarrow> string option" where
  "check_screenshot_patterns args a =
     (if jget ''clip'' args \<noteq> None \<or> field_or False as_bool ''full_page'' args then None
      else if 2 \<le> length (filter (\<lambda>(r, s). tr_tool_name r = ''vscreen_screenshot'' \<and>
          tr_tool_name s = ''vscreen_scroll'') (windows2 (recent 8 a)))
      then Some full_page_hint else None)"

definition check_scroll_patterns :: "tool_advisor \<Rightarrow> string option" where
  "check_scroll_patterns a =
     (if 2 \<le> length (filter (\<lambda>r. tr_tool_name r = ''vscreen_scroll'') (recent 6 a)) then Some scroll_hint
      else if list_ex (\<lambda>r. tr_tool_name r = ''vscreen_find'') (recent 6 a) then Some find_hint
      else None)"

definition wait_condition :: "tool_call_record \<Rightarrow> string" where
  "wait_condition r =
     (case Option.bind (Option.bind (tr_args_snapshot r) (jget ''condition'')) as_str of
        None \<Rightarrow> ''duration''
      | Some c \<Rightarrow> c)"

definition check_wait_patterns :: "json \<Rightarrow> tool_advisor \<Rightarrow> string option" where
  "check_wait_patterns args a =
     (let condition =
        (case Option.bind (jget ''condition'' args) as_str of
           Some c \<Rightarrow> Some c
         | None \<Rightarrow> if jget ''duration_ms'' args \<noteq> None then Some ''duration'' else None)
      in if condition \<noteq> Some ''duration'' then None
         else if 2 \<le> length (filter (\<lambda>r. wait_condition r = ''duration'')
             (filter (\<lambda>r. tr_tool_name r = ''vscreen_wait'') (recent 6 a)))
         then Some wait_hint else None)"

text \<open>Letters outside ASCII have no lower case that matters for these searches.\<close>

definition check_js_patterns :: "json \<Rightarrow> string option" where
  "check_js_patterns args =
     (let e = to_lowercase (field_or [] as_str ''expression'' args) in
      if str_contains ''document.title'' e \<or> str_contains ''document.url'' e \<or>
        str_contains ''location.href'' e \<or> str_contains ''window.location'' e
      then Some page_info_hint
      else if str_contains ''innertext'' e \<or> str_contains ''textcontent'' e \<or> str_contains ''document.body'' e
      then Some extract_text_hint
      else if str_contains ''fetch'' e \<and> str_contains ''/api/pages'' e then Some synthesis_hint
      else None)"

fun or_else :: "'a option \<Rightarrow> 'a option \<Rightarrow> 'a option" where
  "or_else None y = y"
| "or_else (Some x) y = Some x"

definition pattern_hint :: "string \<Rightarrow> json \<Rightarrow> tool_advisor \<Rightarrow> string option" where
  "pattern_hint tool args a =
     (if tool = ''vscreen_screenshot'' then
        or_else (or_else (check_click_wait_screenshot a) (check_screenshot_patterns args a))
          (check_repeated_iframe_screenshots a)
      else if tool = ''vscreen_scroll'' then check_scroll_patterns a
      else if tool = ''vscreen_wait'' then
        or_else (check_click_wait_screenshot a) (check_wait_patterns args a)
      else if tool = ''vscreen_execute_js'' then check_js_patterns args
      else if tool \<in> set click_tools then check_click_wait_screenshot a
      else None)"

definition check_anti_patterns :: "string \<Rightarrow> json \<Rightarrow> tool_advisor \<Rightarrow> string option \<times> tool_advisor" where
  "check_anti_patterns tool args a =
     (case pattern_hint tool args a of
        Some h \<Rightarrow> (Some h, a)
      | None \<Rightarrow> check_layer1_promotion tool a)"

subsection \<open>The dispatcher\<close>

text \<open>A result is an error or the texts of its content.\<close>

type_synonym 'e tool_result = "'e + string list"

record 'e tool_call =
  tc_name :: string
  tc_arguments :: "(string \<times> json) list option"
  tc_result :: "'e tool_result"

definition call_tool :: "'e tool_call \<Rightarrow> tool_advisor \<Rightarrow> 'e tool_result \<times> tool_advisor" where
  "call_tool c a =
     (let args = (case tc_arguments c of None \<Rightarrow> JNull | Some m \<Rightarrow> JObj m);
          (hint, a1) = check_anti_patterns (tc_name c) args a;
          a2 = advisor_record \<lparr>tr_tool_name = tc_name c, tr_args_snapshot = build_args_snapshot (tc_name c) args\<rparr> a1
      in (case tc_result c of
            Inl e \<Rightarrow> Inl e
          | Inr content \<Rightarrow>
              Inr (content @
                (case hint of None \<Rightarrow> [] | Some h \<Rightarrow> [LF # LF # ''---'' @ LF # h])),
          a2))"

fun call_tools :: "'e tool_call list \<Rightarrow> tool_advisor \<Rightarrow> 'e tool_result list \<times> tool_advisor" where
  "call_tools [] a = ([], a)"
| "call_tools (c # cs) a =
     (let (r, a1) = call_tool c a; (rs, a2) = call_tools cs a1 in (r # rs, a2))"


subsection \<open>What a client sees\<close>

definition args_value :: "'e tool_call \<Rightarrow> json" where
  "args_value c = (case tc_arguments c of None \<Rightarrow> JNull | Some m \<Rightarrow> JObj m)"

definition record_of :: "'e tool_call \<Rightarrow> tool_call_record" where
  "record_of c = \<lparr>tr_tool_name = tc_name c, tr_args_snapshot = build_args_snapshot (tc_name c) (args_value c)\<rparr>"

definition hint_for :: "'e tool_call \<Rightarrow> tool_advisor \<Rightarrow> string option" where
  "hint_for c a = fst (check_anti_patterns (tc_name c) (args_value c) a)"

text \<open>The hints of a sequence of calls, and a result with its hint.\<close>

fun hints :: "'e tool_call list \<Rightarrow> tool_advisor \<Rightarrow> string option list" where
  "hints [] a = []"
| "hints (c # cs) a = hint_for c a # hints cs (snd (call_tool c a))"

fun with_hint :: "'e tool_result \<Rightarrow> string option \<Rightarrow> 'e tool_result" where
  "with_hint (Inr content) (Some h) = Inr (content @ [LF # LF # ''---'' @ LF # h])"
| "with_hint r _ = r"

lemma pattern_hint_not_tip: "pattern_hint tool args a \<noteq> Some layer1_tip"
proof -
  have "or_else x y \<noteq> Some t" if "x \<noteq> Some t" "y \<noteq> Some t" for x y and t :: string
    using that by (cases x) simp_all
  moreover have "check_click_wait_screenshot a \<noteq> Some layer1_tip" "check_screenshot_patterns args a \<noteq> Some layer1_tip"
    "check_repeated_iframe_screenshots a \<noteq> Some layer1_tip" "check_scroll_patterns a \<noteq> Some layer1_tip"
    "check_wait_patterns args a \<noteq> Some layer1_tip" "check_js_patterns args \<noteq> Some layer1_tip"
    by (simp_all add: check_click_wait_screenshot_def check_screenshot_patterns_def
      check_repeated_iframe_screenshots_def check_scroll_patterns_def check_wait_patterns_def
      check_js_patterns_def Let_def interact_hint_def full_page_hint_def captcha_hint_def scroll_hint_def
      find_hint_def wait_hint_def page_info_hint_def extract_text_hint_def synthesis_hint_def layer1_tip_def)
  ultimately show ?thesis by (simp add: pattern_hint_def)
qed

lemma check_anti_patterns_state:
  "snd (check_anti_patterns tool args a) =
     a\<lparr>ta_layer1_tip_shown := ta_layer1_tip_shown a \<or> fst (check_anti_patterns tool args a) = Some layer1_tip\<rparr>"
  using pattern_hint_not_tip [of tool args a]
  by (auto simp: check_anti_patterns_def check_layer1_promotion_def split: option.split)

lemma tip_needs_flag: "hint_for c a = Some layer1_tip \<Longrightarrow> \<not> ta_layer1_tip_shown a"
  using pattern_hint_not_tip [of "tc_name c" "args_value c" a]
  by (auto simp: hint_for_def check_anti_patterns_def check_layer1_promotion_def split: option.splits)

lemma call_tool_state:
  "snd (call_tool c a) = advisor_record (record_of c)
     (a\<lparr>ta_layer1_tip_shown := ta_layer1_tip_shown a \<or> hint_for c a = Some layer1_tip\<rparr>)"
  using check_anti_patterns_state [of "tc_name c" "args_value c" a]
  by (simp add: call_tool_def Let_def case_prod_beta record_of_def args_value_def hint_for_def)

lemma call_tool_result: "fst (call_tool c a) = with_hint (tc_result c) (hint_for c a)"
  by (cases "tc_result c"; cases "hint_for c a")
    (simp_all add: call_tool_def Let_def case_prod_beta args_value_def hint_for_def)

lemma tip_shown_call: "ta_layer1_tip_shown (snd (call_tool c a)) \<longleftrightarrow>
    ta_layer1_tip_shown a \<or> hint_for c a = Some layer1_tip"
  by (simp add: call_tool_state advisor_record_def)

lemma no_second_tip: "ta_layer1_tip_shown a \<Longrightarrow> Some layer1_tip \<notin> set (hints cs a)"
proof (induction cs arbitrary: a)
  case (Cons c cs)
  then have "hint_for c a \<noteq> Some layer1_tip" using tip_needs_flag by blast
  then show ?case using Cons by (auto simp: tip_shown_call)
qed simp

lemma one_tip: "length (filter (\<lambda>h. h = Some layer1_tip) (hints cs a)) \<le> 1"
proof (induction cs arbitrary: a)
  case (Cons c cs)
  show ?case
  proof (cases "hint_for c a = Some layer1_tip")
    case True
    then have "Some layer1_tip \<notin> set (hints cs (snd (call_tool c a)))"
      by (intro no_second_tip) (simp add: tip_shown_call)
    then have "filter (\<lambda>h. h = Some layer1_tip) (hints cs (snd (call_tool c a))) = []"
      by (auto simp: filter_empty_conv)
    then show ?thesis by simp
  qed (use Cons in simp)
qed simp

lemma call_tools_results: "fst (call_tools cs a) = map2 with_hint (map tc_result cs) (hints cs a)"
  by (induction cs arbitrary: a) (simp_all add: case_prod_beta Let_def call_tool_result)

lemma call_tools_window:
  "ta_recent_calls (snd (call_tools cs a)) = ta_recent_calls (fold advisor_record (map record_of cs) a)"
proof -
  have flag: "ta_recent_calls (fold advisor_record rs a) = ta_recent_calls (fold advisor_record rs b)"
    if "ta_recent_calls a = ta_recent_calls b" for rs a b
    using that by (induction rs arbitrary: a b) (simp_all add: advisor_record_def)
  show ?thesis
  proof (induction cs arbitrary: a)
    case (Cons c cs)
    have "ta_recent_calls (fold advisor_record (map record_of cs) (snd (call_tool c a))) =
        ta_recent_calls (fold advisor_record (map record_of cs) (advisor_record (record_of c) a))"
      by (rule flag) (simp add: call_tool_state advisor_record_def)
    then show ?case using Cons by (simp add: case_prod_beta Let_def)
  qed simp
qed

lemma advisor_history: "advisor_window.history cs a = cs"
  by (induction cs arbitrary: a) auto

text \<open>The advisor adds to the results and takes nothing away. Over any sequence of tool calls each
  result is the tool's own, with at most one hint after its content, and an error is passed on
  unchanged; the tip about the high-level tools is given at most once; and what the advisor
  knows at the end are the last twenty calls.\<close>

theorem advisor_hints_added:
  "fst (call_tools cs tool_advisor_new) = map2 with_hint (map tc_result cs) (hints cs tool_advisor_new) \<and>
   length (filter (\<lambda>h. h = Some layer1_tip) (hints cs tool_advisor_new)) \<le> 1 \<and>
   ta_recent_calls (snd (call_tools cs tool_advisor_new)) = drop (length cs - 20) (map record_of cs)"
  using advisor_window.keeps_latest_from_empty [of tool_advisor_new "map record_of cs"]
    one_tip [of cs tool_advisor_new]
  by (simp add: call_tools_results call_tools_window advisor_history tool_advisor_new_def)

text \<open>When the tip is due on a call that fails, the error is all the client gets, and the tip is not
  given again.\<close>

lemma tip_lost_on_error:
  assumes "hint_for c a = Some layer1_tip" and "tc_result c = Inl e"
  shows "fst (call_tool c a) = Inl e \<and> Some layer1_tip \<notin> set (hints cs (snd (call_tool c a)))"
  using assms no_second_tip [of "snd (call_tool c a)" cs] by (simp add: call_tool_result tip_shown_call)

end
