(* ===== verification/Vision.thy ===== *)
theory Vision
  imports Utf8_Lossy Json
begin

section \<open>The vision service\<close>

text \<open>
  \<open>vision.rs\<close> of \<open>crates/vscreen-server\<close>: the client of an external vision model. The model
  answers in a stream of chunks of bytes, which is cut into lines, each a JSON value with a
  piece of the answer; the answer is searched for a JSON object. HTTP and JSON are the
  packages': \<open>ve_get\<close> says whether an address answers a GET with success, \<open>ve_post\<close> is what a
  POST gives, \<open>ve_parse\<close> the JSON parser, and \<open>ve_elapsed n\<close> the time in milliseconds since the
  start of the stream when its \<open>n\<close>-th line has been read. The structures serde fills from a line
  are read from JSON objects only. The depth of braces, an \<open>i32\<close>, is an integer here: an
  answer has fewer than \<open>2\<^sup>3\<^sup>1\<close> of them. Times are in nanoseconds.
\<close>

subsection \<open>Configuration and answers\<close>

datatype api_format = Ollama | OpenAi

record vision_config =
  vs_url :: string
  vs_model :: string
  vs_api_format :: "api_format option"

record click_target =
  ck_x :: rat
  ck_y :: rat
  ck_description :: "string option"
  ck_confidence :: "rat option"

record vision_response =
  vr_text :: string
  vr_click_target :: "click_target option"
  vr_found :: bool

datatype vision_error = VisionUnreachable string | RequestFailed string | VisionParseError string

record http_reply =
  hp_success :: bool
  hp_status :: string
  hp_text :: string
  hp_chunks :: "(string + string) list"

record vision_env =
  ve_parse :: "string \<Rightarrow> json option"
  ve_get :: "string \<Rightarrow> bool"
  ve_post :: "string \<Rightarrow> json \<Rightarrow> string + http_reply"
  ve_elapsed :: "nat \<Rightarrow> nat"

record vision_state =
  vn_config :: vision_config
  vn_detected_format :: "api_format option"
  vn_available :: "(bool \<times> int) option"

definition vision_new :: "vision_config \<Rightarrow> vision_state" where
  "vision_new config = \<lparr>vn_config = config, vn_detected_format = None, vn_available = None\<rparr>"

subsection \<open>Availability and format\<close>

definition ends_with :: "string \<Rightarrow> string \<Rightarrow> bool" where
  "ends_with p s = starts_with (rev p) (rev s)"

text \<open>\<open>url.trim_end_matches('/')\<close>\<close>

definition trim_slashes :: "string \<Rightarrow> string" where
  "trim_slashes url = rev (dropWhile (\<lambda>c. c = CHR ''/'') (rev url))"

definition probe_availability :: "vision_env \<Rightarrow> vision_state \<Rightarrow> bool" where
  "probe_availability env v =
     (let base = trim_slashes (vs_url (vn_config v)) in
      ve_get env (base @ ''/api/tags'') \<or> ve_get env (base @ ''/v1/models'') \<or> ve_get env base)"

text \<open>The answer is kept for thirty seconds; \<open>now\<close> is the time of the look at it, \<open>later\<close> that of
  storing a new one.\<close>

definition is_available :: "vision_env \<Rightarrow> int \<Rightarrow> int \<Rightarrow> vision_state \<Rightarrow> bool \<times> vision_state" where
  "is_available env now later v =
     (let probe = (let result = probe_availability env v in (result, v\<lparr>vn_available := Some (result, later)\<rparr>)) in
      case vn_available v of
        None \<Rightarrow> probe
      | Some (result, since) \<Rightarrow> if max 0 (now - since) < 30 * 10 ^ 9 then (result, v) else probe)"

definition detect_format :: "vision_env \<Rightarrow> vision_state \<Rightarrow> api_format" where
  "detect_format env v =
     (let url = vs_url (vn_config v) in
      if str_contains ''/v1/'' url \<or> ends_with ''/chat/completions'' url then OpenAi
      else if ve_get env (trim_slashes url @ ''/api/tags'') then Ollama
      else if ve_get env (trim_slashes url @ ''/v1/models'') then OpenAi
      else Ollama)"

definition resolve_format :: "vision_env \<Rightarrow> vision_state \<Rightarrow> api_format \<times> vision_state" where
  "resolve_format env v =
     (case vs_api_format (vn_config v) of
        Some f \<Rightarrow> (f, v)
      | None \<Rightarrow>
          (case vn_detected_format v of
             Some f \<Rightarrow> (f, v)
           | None \<Rightarrow> (let f = detect_format env v in (f, v\<lparr>vn_detected_format := Some f\<rparr>))))"

subsection \<open>Streams of lines\<close>

text \<open>A step on a line gives the value the whole call returns, or the new state.\<close>

datatype ('s, 'r) progress = Going 's | Stop 'r

text \<open>The inner loop: the complete lines of \<open>buf\<close>.\<close>

function drain :: "(string \<Rightarrow> 's \<Rightarrow> ('s, 'r) progress) \<Rightarrow> string \<Rightarrow> 's \<Rightarrow> (string \<times> 's, 'r) progress" where
  "drain step buf s =
     (case str_find [CHR 0x0A] buf of
        None \<Rightarrow> Going (buf, s)
      | Some p \<Rightarrow>
          (let line = trim (take p buf); rest = drop (Suc p) buf in
           if line = [] then drain step rest s
           else (case step line s of Going s' \<Rightarrow> drain step rest s' | Stop r \<Rightarrow> Stop r)))"
  by pat_completeness auto

lemma str_find_less: "str_find [c] s = Some p \<Longrightarrow> p < length s"
  unfolding str_find_def using find_from_Some [of 0 "[c]" s p] by (auto simp: starts_with_iff)
    (metis drop_eq_Nil leI list.distinct(1))

termination drain
  by (relation "measure (\<lambda>(_, buf, _). length buf)") (auto dest!: str_find_less)

declare drain.simps [simp del]

fun stream ::
  "(string \<Rightarrow> 's \<Rightarrow> ('s, vision_error + string) progress) \<Rightarrow> (string + string) list \<Rightarrow> string \<Rightarrow> 's
     \<Rightarrow> ('s, vision_error + string) progress" where
  "stream step [] buf s = Going s"
| "stream step (Inl e # cs) buf s = Stop (Inl (RequestFailed e))"
| "stream step (Inr chunk # cs) buf s =
     (case drain step (buf @ utf8_lossy chunk) s of
        Going (buf', s') \<Rightarrow> stream step cs buf' s'
      | Stop r \<Rightarrow> Stop r)"

text \<open>\<open>serde\<close>'s reading of an optional field: the outer option is a value of the wrong type.\<close>

definition opt_of :: "(json \<Rightarrow> 'a option) \<Rightarrow> string \<Rightarrow> json \<Rightarrow> 'a option option" where
  "opt_of f k j =
     (case jget k j of
        None \<Rightarrow> Some None
      | Some JNull \<Rightarrow> Some None
      | Some v \<Rightarrow> map_option Some (f v))"

fun is_object :: "json \<Rightarrow> bool" where
  "is_object (JObj _) = True"
| "is_object _ = False"

record ollama_message =
  om_content :: "string option"
  om_thinking :: "string option"

definition ollama_message_of :: "json \<Rightarrow> ollama_message option" where
  "ollama_message_of j =
     (if is_object j then
        (case (opt_of as_str ''content'' j, opt_of as_str ''thinking'' j) of
           (Some c, Some t) \<Rightarrow> Some \<lparr>om_content = c, om_thinking = t\<rparr>
         | _ \<Rightarrow> None)
      else None)"

record ollama_chunk =
  oc_message :: "ollama_message option"
  oc_done :: "bool option"

definition ollama_chunk_of :: "json \<Rightarrow> ollama_chunk option" where
  "ollama_chunk_of j =
     (if is_object j then
        (case (opt_of ollama_message_of ''message'' j, opt_of as_bool ''done'' j) of
           (Some m, Some d) \<Rightarrow> Some \<lparr>oc_message = m, oc_done = d\<rparr>
         | _ \<Rightarrow> None)
      else None)"

definition error_text :: "json option \<Rightarrow> string option" where
  "error_text val = Option.bind (Option.bind val (jget ''error'')) as_str"

definition content_of_chunk :: "ollama_chunk \<Rightarrow> string" where
  "content_of_chunk c =
     (case Option.bind (oc_message c) om_content of None \<Rightarrow> [] | Some t \<Rightarrow> t)"

text \<open>A line of \<open>call_ollama\<close>; the state is the text so far.\<close>

definition ollama_line :: "vision_env \<Rightarrow> string \<Rightarrow> string \<Rightarrow> (string, vision_error + string) progress" where
  "ollama_line env line full =
     (let val = ve_parse env line in
      case error_text val of
        Some err \<Rightarrow> Stop (Inl (RequestFailed (''Ollama error: '' @ err)))
      | None \<Rightarrow>
          (case Option.bind val ollama_chunk_of of
             None \<Rightarrow> Going full
           | Some c \<Rightarrow>
               (let full' = full @ content_of_chunk c in
                if oc_done c = Some True then Stop (Inr full') else Going full')))"

definition ollama_body :: "vision_state \<Rightarrow> string \<Rightarrow> string \<Rightarrow> json" where
  "ollama_body v image_b64 prompt =
     JObj [(''model'', JStr (vs_model (vn_config v))),
           (''messages'', JArr
             [JObj [(''role'', JStr ''system''),
                    (''content'', JStr ''You are a visual analysis assistant. Respond with the requested JSON object.'')],
              JObj [(''role'', JStr ''user''), (''content'', JStr prompt), (''images'', JArr [JStr image_b64])]]),
           (''format'', JStr ''json''), (''stream'', JBool True),
           (''options'', JObj [(''temperature'', JFloat (1 / 10))])]"

text \<open>What the three calls do with the outcome of their POST.\<close>

definition read_reply ::
  "(string \<Rightarrow> 's \<Rightarrow> ('s, vision_error + string) progress) \<Rightarrow> ('s \<Rightarrow> string) \<Rightarrow> 's \<Rightarrow> string + http_reply
     \<Rightarrow> vision_error + string" where
  "read_reply step text_of s reply =
     (case reply of
        Inl e \<Rightarrow> Inl (RequestFailed e)
      | Inr r \<Rightarrow>
          if \<not> hp_success r then Inl (RequestFailed (''HTTP '' @ hp_status r @ '': '' @ hp_text r))
          else
            (case stream step (hp_chunks r) [] s of
               Going s' \<Rightarrow> Inr (text_of s')
             | Stop q \<Rightarrow> q))"

definition ollama_url :: "vision_state \<Rightarrow> string" where
  "ollama_url v = trim_slashes (vs_url (vn_config v)) @ ''/api/chat''"

definition call_ollama :: "vision_env \<Rightarrow> vision_state \<Rightarrow> string \<Rightarrow> string \<Rightarrow> vision_error + string" where
  "call_ollama env v image_b64 prompt =
     read_reply (ollama_line env) id [] (ve_post env (ollama_url v) (ollama_body v image_b64 prompt))"

subsection \<open>The object in an answer\<close>

text \<open>The scan for a brace and its match: position, depth, the start, and whether it is in a string or
  behind a backslash.\<close>

fun scan :: "nat \<Rightarrow> int \<Rightarrow> nat option \<Rightarrow> bool \<Rightarrow> bool \<Rightarrow> string \<Rightarrow> (nat \<times> nat) option" where
  "scan i depth start in_string escape [] = None"
| "scan i depth start in_string escape (c # s) =
     (if escape then scan (Suc i) depth start in_string False s
      else if in_string then
        (if c = CHR 0x5C then scan (Suc i) depth start True True s
         else scan (Suc i) depth start (c \<noteq> CHR 0x22) False s)
      else if c = CHR 0x22 \<and> 0 < depth then scan (Suc i) depth start True False s
      else if c = CHR ''{'' then
        scan (Suc i) (depth + 1) (if depth = 0 then Some i else start) False False s
      else if c = CHR ''}'' then
        (case start of
           Some b \<Rightarrow> if depth - 1 = 0 then Some (b, i) else scan (Suc i) (depth - 1) start False False s
         | None \<Rightarrow> scan (Suc i) (depth - 1) start False False s)
      else scan (Suc i) depth start False False s)"

definition scan_object :: "string \<Rightarrow> string option" where
  "scan_object txt = map_option (\<lambda>(b, e). take (Suc e - b) (drop b txt)) (scan 0 0 None False False txt)"

abbreviation fence :: string where
  "fence \<equiv> [CHR 0x60, CHR 0x60, CHR 0x60]"

text \<open>The trimmed text between a mark and the next fence.\<close>

definition fenced :: "string \<Rightarrow> string \<Rightarrow> string option" where
  "fenced mark txt =
     Option.bind (str_find mark txt) (\<lambda>p.
       let after = drop (p + length mark) txt in
       map_option (\<lambda>e. trim (take e after)) (str_find fence after))"

definition extract_json :: "string \<Rightarrow> string option" where
  "extract_json txt =
     (case fenced (fence @ ''json'') txt of
        Some block \<Rightarrow> Some block
      | None \<Rightarrow>
          (case fenced fence txt of
             Some block \<Rightarrow> if starts_with ''{'' block then Some block else scan_object txt
           | None \<Rightarrow> scan_object txt))"

text \<open>The words of an answer in prose that say that nothing was found.\<close>

definition prose_found :: "string \<Rightarrow> bool" where
  "prose_found txt =
     (let t = to_lowercase txt in
      \<not> str_contains ''not found'' t \<and> \<not> str_contains ''no '' t \<and>
      \<not> str_contains ''\"found\": false'' t \<and> \<not> str_contains ''found: false'' t)"

definition parse_response :: "vision_env \<Rightarrow> string \<Rightarrow> vision_response" where
  "parse_response env txt =
     (case Option.bind (extract_json txt) (ve_parse env) of
        Some parsed \<Rightarrow>
          \<lparr>vr_text = txt,
           vr_click_target =
             (case (Option.bind (jget ''x'' parsed) as_f64, Option.bind (jget ''y'' parsed) as_f64) of
                (Some x, Some y) \<Rightarrow>
                  Some \<lparr>ck_x = x, ck_y = y, ck_description = Option.bind (jget ''description'' parsed) as_str,
                    ck_confidence = Option.bind (jget ''confidence'' parsed) as_f64\<rparr>
              | _ \<Rightarrow> None),
           vr_found = field_or True as_bool ''found'' parsed\<rparr>
      | None \<Rightarrow> \<lparr>vr_text = txt, vr_click_target = None, vr_found = prose_found txt\<rparr>)"

subsection \<open>The fast call and the other format\<close>

record fast_state =
  fa_full :: string
  fa_thinking :: nat
  fa_lines :: nat

text \<open>A line of \<open>call_ollama_fast\<close>: it ends early with an object, or when the model only thinks.\<close>

definition fast_line ::
  "vision_env \<Rightarrow> nat \<Rightarrow> string \<Rightarrow> fast_state \<Rightarrow> (fast_state, vision_error + string) progress" where
  "fast_line env timeout_ms line s0 =
     (let s = s0\<lparr>fa_lines := Suc (fa_lines s0)\<rparr>; val = ve_parse env line in
      case error_text val of
        Some err \<Rightarrow> Stop (Inl (RequestFailed (''Ollama error: '' @ err)))
      | None \<Rightarrow>
          (case Option.bind val ollama_chunk_of of
             None \<Rightarrow> Going s
           | Some c \<Rightarrow>
               (let thought = (case Option.bind (oc_message c) om_thinking of None \<Rightarrow> False | Some t \<Rightarrow> t \<noteq> []);
                    s' = s\<lparr>fa_thinking := (if thought then Suc (fa_thinking s) else fa_thinking s),
                           fa_full := fa_full s @ content_of_chunk c\<rparr>
                in if fa_full s' = [] \<and> 500 < fa_thinking s' \<and>
                     max (timeout_ms * 75 div 100) 15000 < ve_elapsed env (fa_lines s')
                   then Stop (Inl (RequestFailed ''model stuck in thinking phase, no content produced''))
                   else if fa_full s' \<noteq> [] \<and> extract_json (fa_full s') \<noteq> None then Stop (Inr (fa_full s'))
                   else if oc_done c = Some True then Stop (Inr (fa_full s'))
                   else Going s')))"

definition call_ollama_fast ::
  "vision_env \<Rightarrow> vision_state \<Rightarrow> string \<Rightarrow> string \<Rightarrow> nat \<Rightarrow> vision_error + string" where
  "call_ollama_fast env v image_b64 prompt timeout_ms =
     read_reply (fast_line env timeout_ms) fa_full \<lparr>fa_full = [], fa_thinking = 0, fa_lines = 0\<rparr>
       (ve_post env (ollama_url v) (ollama_body v image_b64 prompt))"

fun or_empty :: "string option \<Rightarrow> string" where
  "or_empty None = []"
| "or_empty (Some s) = s"

text \<open>The pieces of text in a chunk of the OpenAI format; a value of the wrong type anywhere spoils
  the chunk.\<close>

definition delta_of :: "json \<Rightarrow> string option" where
  "delta_of j = (if is_object j then map_option or_empty (opt_of as_str ''content'' j) else None)"

definition choice_of :: "json \<Rightarrow> string option" where
  "choice_of j =
     (if is_object j then map_option or_empty (opt_of delta_of ''delta'' j) else None)"

fun all_some :: "'a option list \<Rightarrow> 'a list option" where
  "all_some [] = Some []"
| "all_some (None # xs) = None"
| "all_some (Some x # xs) = map_option ((#) x) (all_some xs)"

definition openai_chunk_of :: "json \<Rightarrow> string option" where
  "openai_chunk_of j =
     (if is_object j then
        map_option or_empty
          (opt_of (\<lambda>v. Option.bind (as_array v) (\<lambda>cs. map_option concat (all_some (map choice_of cs)))) ''choices'' j)
      else None)"

definition openai_line :: "vision_env \<Rightarrow> string \<Rightarrow> string \<Rightarrow> (string, vision_error + string) progress" where
  "openai_line env line full =
     (if line = ''data: [DONE]'' then Going full
      else
        (let json_str = (case strip_prefix ''data: '' line of Some s \<Rightarrow> s | None \<Rightarrow> line) in
         Going (full @
           (case Option.bind (ve_parse env json_str) openai_chunk_of of None \<Rightarrow> [] | Some t \<Rightarrow> t))))"

definition openai_url :: "vision_state \<Rightarrow> string" where
  "openai_url v =
     (let base = trim_slashes (vs_url (vn_config v)) in
      if ends_with ''/chat/completions'' base then base
      else if ends_with ''/v1'' base then base @ ''/chat/completions''
      else base @ ''/v1/chat/completions'')"

definition openai_body :: "vision_state \<Rightarrow> string \<Rightarrow> string \<Rightarrow> json" where
  "openai_body v image_b64 prompt =
     JObj [(''model'', JStr (vs_model (vn_config v))),
           (''messages'', JArr
             [JObj [(''role'', JStr ''user''),
                    (''content'', JArr
                      [JObj [(''type'', JStr ''text''), (''text'', JStr prompt)],
                       JObj [(''type'', JStr ''image_url''),
                             (''image_url'', JObj [(''url'', JStr (''data:image/png;base64,'' @ image_b64))])]])]]),
           (''stream'', JBool True), (''temperature'', JFloat (1 / 10)), (''max_tokens'', JInt 256)]"

definition call_openai :: "vision_env \<Rightarrow> vision_state \<Rightarrow> string \<Rightarrow> string \<Rightarrow> vision_error + string" where
  "call_openai env v image_b64 prompt =
     read_reply (openai_line env) id [] (ve_post env (openai_url v) (openai_body v image_b64 prompt))"

subsection \<open>Analysing a screenshot\<close>

definition analyze :: "vision_env \<Rightarrow> string \<Rightarrow> string \<Rightarrow> vision_state \<Rightarrow> (vision_error + vision_response) \<times> vision_state" where
  "analyze env image_b64 prompt v =
     (let (format, v') = resolve_format env v;
          answer = (case format of
              Ollama \<Rightarrow> call_ollama env v' image_b64 prompt
            | OpenAi \<Rightarrow> call_openai env v' image_b64 prompt)
      in (case answer of Inl e \<Rightarrow> Inl e | Inr t \<Rightarrow> Inr (parse_response env t), v'))"

definition analyze_fast ::
  "vision_env \<Rightarrow> string \<Rightarrow> string \<Rightarrow> nat \<Rightarrow> vision_state \<Rightarrow> (vision_error + vision_response) \<times> vision_state" where
  "analyze_fast env image_b64 prompt timeout_ms v =
     (let (format, v') = resolve_format env v;
          answer = (case format of
              Ollama \<Rightarrow> call_ollama_fast env v' image_b64 prompt timeout_ms
            | OpenAi \<Rightarrow> call_openai env v' image_b64 prompt)
      in (case answer of Inl e \<Rightarrow> Inl e | Inr t \<Rightarrow> Inr (parse_response env t), v'))"

subsection \<open>Chunks\<close>

lemma drain_append:
  "drain step (a @ b) s =
     (case drain step a s of
        Going (rest, s') \<Rightarrow> drain step (rest @ b) s'
      | Stop r \<Rightarrow> Stop r)"
proof (induction step a s rule: drain.induct)
  case (1 step buf s)
  show ?case
  proof (cases "str_find [CHR 0x0A] buf")
    case None
    then show ?thesis by (simp add: drain.simps [of step buf s])
  next
    case (Some p)
    have f: "str_find [CHR 0x0A] (buf @ b) = Some p" by (rule str_find_append [OF Some])
    have p: "p < length buf" by (rule str_find_less [OF Some])
    then have t: "take p (buf @ b) = take p buf" "drop (Suc p) (buf @ b) = drop (Suc p) buf @ b" by simp_all
    have here: "drain step (buf @ b) s =
        (if trim (take p buf) = [] then drain step (drop (Suc p) buf @ b) s
         else (case step (trim (take p buf)) s of Going s' \<Rightarrow> drain step (drop (Suc p) buf @ b) s' | Stop r \<Rightarrow> Stop r))"
      by (subst drain.simps) (simp only: f option.case Let_def t)
    show ?thesis
    proof (cases "trim (take p buf) = []")
      case True
      then show ?thesis
        unfolding here using "1.IH"(1) [OF Some refl refl] by (simp add: drain.simps [of step buf s] Some)
    next
      case False
      then show ?thesis
        unfolding here using "1.IH"(2) [OF Some refl refl False]
        by (cases "step (trim (take p buf)) s") (simp_all add: drain.simps [of step buf s] Some)
    qed
  qed
qed

lemma drain_rest: "drain step a s = Going (rest, s') \<Longrightarrow> drain step rest s' = Going (rest, s')"
proof (induction step a s rule: drain.induct)
  case (1 step buf s)
  show ?case
  proof (cases "str_find [CHR 0x0A] buf")
    case None
    then have "drain step buf s = Going (buf, s)" by (simp add: drain.simps [of step buf s])
    then show ?thesis using "1.prems" by auto
  next
    case (Some p)
    show ?thesis
    proof (cases "trim (take p buf) = []")
      case True
      then show ?thesis using "1.IH"(1) [OF Some refl refl] "1.prems" by (simp add: drain.simps [of step buf s] Some)
    next
      case False
      then show ?thesis using "1.IH"(2) [OF Some refl refl False] "1.prems"
        by (cases "step (trim (take p buf)) s") (simp_all add: drain.simps [of step buf s] Some)
    qed
  qed
qed

lemma stream_chunks:
  assumes "list_all utf8_valid cs" and "drain step buf s = Going (buf, s)"
  shows "stream step (map Inr cs) buf s =
    (case drain step (buf @ concat cs) s of Going (_, s') \<Rightarrow> Going s' | Stop r \<Rightarrow> Stop r)"
  using assms
proof (induction cs arbitrary: buf s)
  case (Cons c cs)
  then have c: "utf8_lossy c = c" by (simp add: utf8_lossy_valid)
  show ?case
  proof (cases "drain step (buf @ c) s")
    case (Going x)
    obtain rest s' where x: "x = (rest, s')" by (cases x)
    have "drain step rest s' = Going (rest, s')" using drain_rest Going x by metis
    with Cons have "stream step (map Inr cs) rest s' =
        (case drain step (rest @ concat cs) s' of Going (_, s') \<Rightarrow> Going s' | Stop r \<Rightarrow> Stop r)"
      by simp
    then show ?thesis using c Going x drain_append [of step "buf @ c" "concat cs" s] by simp
  next
    case (Stop r)
    then show ?thesis using c drain_append [of step "buf @ c" "concat cs" s] by simp
  qed
qed simp

lemma one_chunk:
  assumes "list_all utf8_valid cs"
  shows "stream step (map Inr cs) [] s = stream step [Inr (concat cs)] [] s"
proof -
  have "drain step [] s = Going ([], s)" by (simp add: drain.simps [of step "[]"] str_find_def starts_with_def)
  from stream_chunks [OF assms this] show ?thesis
    by (simp add: utf8_lossy_concat [OF assms] split: progress.split prod.split)
qed

lemma read_reply_one_chunk:
  assumes "list_all utf8_valid cs"
  shows "read_reply step f s (Inr \<lparr>hp_success = ok, hp_status = status, hp_text = body, hp_chunks = map Inr cs\<rparr>) =
    read_reply step f s (Inr \<lparr>hp_success = ok, hp_status = status, hp_text = body, hp_chunks = [Inr (concat cs)]\<rparr>)"
  unfolding read_reply_def by (simp add: one_chunk [OF assms] del: stream.simps)

lemma lines_of_env:
  "ollama_line (env\<lparr>ve_post := post\<rparr>) = ollama_line env"
  "fast_line (env\<lparr>ve_post := post\<rparr>) = fast_line env"
  "openai_line (env\<lparr>ve_post := post\<rparr>) = openai_line env"
  "ve_post (env\<lparr>ve_post := post\<rparr>) = post"
  by (cases env, intro ext, simp only: ollama_line_def fast_line_def openai_line_def vision_env.simps)+

text \<open>C26: How an answer is cut into chunks does not matter, as long as no character is cut: if every
  chunk is valid UTF-8, each of the three calls answers as it does when all of them come in one.\<close>

theorem chunks_do_not_matter:
  assumes "list_all utf8_valid cs"
    and "\<forall>u b. ve_post env u b = Inr \<lparr>hp_success = ok, hp_status = status, hp_text = body, hp_chunks = map Inr cs\<rparr>"
    and "env' = env\<lparr>ve_post := (\<lambda>u b. Inr \<lparr>hp_success = ok, hp_status = status, hp_text = body, hp_chunks = [Inr (concat cs)]\<rparr>)\<rparr>"
  shows "call_ollama env v img prompt = call_ollama env' v img prompt \<and>
    call_ollama_fast env v img prompt ms = call_ollama_fast env' v img prompt ms \<and>
    call_openai env v img prompt = call_openai env' v img prompt"
  unfolding call_ollama_def call_ollama_fast_def call_openai_def
  by (simp add: assms(2,3) lines_of_env read_reply_one_chunk [OF assms(1)] del: stream.simps)


text \<open>A service that answers each POST with the given chunks, and reads two lines.\<close>

definition example_vision :: "(string + string) list \<Rightarrow> vision_env" where
  "example_vision chunks =
     \<lparr>ve_parse = (\<lambda>t.
        if t = ''a'' then Some (JObj [(''message'', JObj [(''content'', JStr ''say {}'')])])
        else if t = ''b'' then Some (JObj [(''message'', JObj [(''content'', JStr '' more'')]), (''done'', JBool True)])
        else None),
      ve_get = (\<lambda>_. True),
      ve_post = (\<lambda>_ _. Inr \<lparr>hp_success = True, hp_status = [], hp_text = [], hp_chunks = chunks\<rparr>),
      ve_elapsed = (\<lambda>n. n)\<rparr>"

definition example_client :: vision_state where
  "example_client = vision_new \<lparr>vs_url = ''http://v'', vs_model = ''m'', vs_api_format = Some Ollama\<rparr>"

lemma chunks_do_not_matter_witness:
  "call_ollama (example_vision (map Inr [''a'', [CHR 0x0A, CHR ''b''], [CHR 0x0A]])) example_client [] [] =
   call_ollama (example_vision [Inr [CHR ''a'', CHR 0x0A, CHR ''b'', CHR 0x0A]]) example_client [] []"
proof -
  have v: "list_all utf8_valid [''a'', [CHR 0x0A, CHR ''b''], [CHR 0x0A]]" by code_simp
  have e: "example_vision [Inr (concat [''a'', [CHR 0x0A, CHR ''b''], [CHR 0x0A]])] =
      example_vision (map Inr [''a'', [CHR 0x0A, CHR ''b''], [CHR 0x0A]])
        \<lparr>ve_post := (\<lambda>u b. Inr \<lparr>hp_success = True, hp_status = [], hp_text = [],
          hp_chunks = [Inr (concat [''a'', [CHR 0x0A, CHR ''b''], [CHR 0x0A]])]\<rparr>)\<rparr>"
    by (simp add: example_vision_def)
  have "call_ollama (example_vision (map Inr [''a'', [CHR 0x0A, CHR ''b''], [CHR 0x0A]])) example_client [] [] =
      call_ollama (example_vision [Inr (concat [''a'', [CHR 0x0A, CHR ''b''], [CHR 0x0A]])]) example_client [] []"
    by (rule chunks_do_not_matter [OF v _ e, THEN conjunct1]) (simp add: example_vision_def)
  then show ?thesis by simp
qed

subsection \<open>The lines of an answer\<close>

text \<open>The lines of a stream do not depend on what is done with them.\<close>

function full_lines :: "string \<Rightarrow> string list \<times> string" where
  "full_lines buf =
     (case str_find [CHR 0x0A] buf of
        None \<Rightarrow> ([], buf)
      | Some p \<Rightarrow>
          (let (ls, rest) = full_lines (drop (Suc p) buf); line = trim (take p buf) in
           (if line = [] then ls else line # ls, rest)))"
  by pat_completeness auto
termination full_lines
  by (relation "measure length") (auto dest!: str_find_less)

declare full_lines.simps [simp del]

fun lines_of :: "(string + string) list \<Rightarrow> string \<Rightarrow> string list \<times> string option" where
  "lines_of [] buf = ([], None)"
| "lines_of (Inl e # cs) buf = ([], Some e)"
| "lines_of (Inr chunk # cs) buf =
     (let (ls, rest) = full_lines (buf @ utf8_lossy chunk); (more, err) = lines_of cs rest in (ls @ more, err))"

fun run_lines :: "(string \<Rightarrow> 's \<Rightarrow> ('s, 'r) progress) \<Rightarrow> string list \<Rightarrow> 's \<Rightarrow> ('s, 'r) progress" where
  "run_lines step [] s = Going s"
| "run_lines step (l # ls) s = (case step l s of Going s' \<Rightarrow> run_lines step ls s' | Stop r \<Rightarrow> Stop r)"

lemma run_lines_append:
  "run_lines step (ls @ ms) s = (case run_lines step ls s of Going s' \<Rightarrow> run_lines step ms s' | Stop r \<Rightarrow> Stop r)"
  by (induction ls arbitrary: s) (auto split: progress.split)

lemma drain_run_lines:
  "drain step buf s =
     (case run_lines step (fst (full_lines buf)) s of Going s' \<Rightarrow> Going (snd (full_lines buf), s') | Stop r \<Rightarrow> Stop r)"
proof (induction step buf s rule: drain.induct)
  case (1 step buf s)
  show ?case
  proof (cases "str_find [CHR 0x0A] buf")
    case None
    then show ?thesis by (simp add: drain.simps [of step buf s] full_lines.simps [of buf])
  next
    case (Some p)
    let ?more = "full_lines (drop (Suc p) buf)"
    have c: "full_lines buf = (if trim (take p buf) = [] then ?more else (trim (take p buf) # fst ?more, snd ?more))"
      by (simp add: full_lines.simps [of buf] Some split: prod.split)
    show ?thesis
    proof (cases "trim (take p buf) = []")
      case True
      then show ?thesis using "1.IH"(1) [OF Some refl refl]
        by (simp add: drain.simps [of step buf s] c Some split: progress.split)
    next
      case False
      then show ?thesis using "1.IH"(2) [OF Some refl refl False]
        by (cases "step (trim (take p buf)) s")
          (simp_all add: drain.simps [of step buf s] c Some split: progress.split)
    qed
  qed
qed

lemma stream_run_lines:
  "stream step cs buf s =
     (case run_lines step (fst (lines_of cs buf)) s of
        Going s' \<Rightarrow> (case snd (lines_of cs buf) of None \<Rightarrow> Going s' | Some e \<Rightarrow> Stop (Inl (RequestFailed e)))
      | Stop r \<Rightarrow> Stop r)"
  by (induction step cs buf s rule: stream.induct)
    (auto simp: drain_run_lines run_lines_append split: progress.splits prod.splits option.splits)

subsection \<open>Ending early\<close>

lemma find_from_prefix: "find_from i (p @ q) s = Some j \<Longrightarrow> \<exists>k. find_from i p s = Some k"
proof (induction s arbitrary: i)
  case Nil
  then show ?case by (auto split: if_splits)
next
  case (Cons c s)
  then show ?case by (cases "starts_with p (c # s)") (auto simp: starts_with_iff split: if_splits)
qed

lemma extract_json_plain: "\<not> str_contains fence txt \<Longrightarrow> extract_json txt = scan_object txt"
proof -
  assume "\<not> str_contains fence txt"
  then have none: "str_find fence txt = None" by (simp add: str_contains_def)
  then have "str_find (fence @ ''json'') txt = None"
    using find_from_prefix [of 0 fence "''json''" "txt"] by (cases "str_find (fence @ ''json'') txt") (auto simp: str_find_def)
  with none show ?thesis by (simp add: extract_json_def fenced_def del: append.simps)
qed

lemma scan_append: "scan i d st q e s = Some r \<Longrightarrow> scan i d st q e (s @ t) = Some r"
  by (induction i d st q e s rule: scan.induct) (auto split: if_splits option.splits)

lemma scan_less: "scan i d st q e s = Some (b, f) \<Longrightarrow> f < i + length s"
  by (induction i d st q e s rule: scan.induct) (auto split: if_splits option.splits)

lemma scan_object_append: "scan_object s = Some w \<Longrightarrow> scan_object (s @ t) = Some w"
  using scan_append [of 0 0 None False False s _ t] scan_less [of 0 0 None False False s]
  by (fastforce simp: scan_object_def)

lemma find_from_contains: "find_from i p (a @ p @ b) \<noteq> None"
proof (induction a arbitrary: i)
  case Nil
  then show ?case by (cases "p @ b") (auto simp: starts_with_iff, metis)
qed (auto simp: starts_with_iff)

lemma str_contains_append: "str_contains p s \<Longrightarrow> str_contains p (s @ t)"
  using str_find_Some [of p s] find_from_contains [of 0 p]
  by (fastforce simp: str_contains_def str_find_def)

text \<open>A run's text, and the lines of the ordinary call against those of the fast one.\<close>

fun text_of_run :: "(string, vision_error + string) progress \<Rightarrow> string option" where
  "text_of_run (Going f) = Some f"
| "text_of_run (Stop (Inr f)) = Some f"
| "text_of_run (Stop (Inl e)) = None"

lemma ollama_grows:
  "text_of_run (run_lines (ollama_line env) ls f) = Some g \<Longrightarrow> \<exists>more. g = f @ more"
proof (induction ls arbitrary: f)
  case (Cons l ls)
  consider e where "ollama_line env l f = Stop (Inl e)" | more where "ollama_line env l f = Stop (Inr (f @ more))"
    | more where "ollama_line env l f = Going (f @ more)"
    by (cases "error_text (ve_parse env l)"; cases "Option.bind (ve_parse env l) ollama_chunk_of")
      (simp_all add: ollama_line_def Let_def split: if_splits, metis append_Nil2)
  then show ?case using Cons by cases (auto dest: Cons.IH)
qed simp

lemma fast_against_ordinary:
  "case run_lines (fast_line env ms) ls s of
     Going s' \<Rightarrow> run_lines (ollama_line env) ls (fa_full s) = Going (fa_full s')
   | Stop (Inl e) \<Rightarrow> True
   | Stop (Inr t) \<Rightarrow> run_lines (ollama_line env) ls (fa_full s) = Stop (Inr t) \<or>
       extract_json t \<noteq> None \<and>
       (\<forall>g. text_of_run (run_lines (ollama_line env) ls (fa_full s)) = Some g \<longrightarrow> (\<exists>more. g = t @ more))"
proof (induction ls arbitrary: s)
  case (Cons l ls)
  show ?case
  proof (cases "error_text (ve_parse env l)")
    case (Some err)
    then show ?thesis by (simp add: fast_line_def Let_def)
  next
    case None
    show ?thesis
    proof (cases "Option.bind (ve_parse env l) ollama_chunk_of")
      case none: None
      have "fast_line env ms l s = Going (s\<lparr>fa_lines := Suc (fa_lines s)\<rparr>)"
        "ollama_line env l (fa_full s) = Going (fa_full s)"
        using None none by (simp_all add: fast_line_def ollama_line_def Let_def)
      then show ?thesis using Cons [of "s\<lparr>fa_lines := Suc (fa_lines s)\<rparr>"]
        by (simp split: progress.splits sum.splits)
    next
      case (Some c)
      let ?f = "fa_full s @ content_of_chunk c"
      have o: "ollama_line env l (fa_full s) = (if oc_done c = Some True then Stop (Inr ?f) else Going ?f)"
        using None Some by (simp add: ollama_line_def Let_def)
      have "(\<exists>e. fast_line env ms l s = Stop (Inl e)) \<or>
          fast_line env ms l s = Stop (Inr ?f) \<and> (extract_json ?f \<noteq> None \<or> oc_done c = Some True) \<or>
          (\<exists>s'. fast_line env ms l s = Going s' \<and> fa_full s' = ?f \<and> oc_done c \<noteq> Some True)"
        using None Some by (simp add: fast_line_def Let_def)
      then consider e where "fast_line env ms l s = Stop (Inl e)"
        | "fast_line env ms l s = Stop (Inr ?f)" "extract_json ?f \<noteq> None"
        | "fast_line env ms l s = Stop (Inr ?f)" "oc_done c = Some True"
        | s' where "fast_line env ms l s = Going s'" "fa_full s' = ?f" "oc_done c \<noteq> Some True"
        by blast
      then show ?thesis
      proof cases
        case 2
        then show ?thesis using ollama_grows [of env ls ?f] by (auto simp: o)
      next
        case 4
        then show ?thesis using Cons [of s'] by (simp add: o split: progress.splits sum.splits)
      qed (simp_all add: o split: progress.splits sum.splits)
    qed
  qed
qed simp

text \<open>C25: Ending early loses nothing: if both calls on the same answer succeed, and it holds no
  code fence, the object found in the text of the fast call is the one found in the whole text.\<close>

theorem early_end_same_object:
  assumes "call_ollama env v img prompt = Inr whole" and "call_ollama_fast env v img prompt ms = Inr part"
    and "\<not> str_contains fence whole"
  shows "extract_json part = extract_json whole \<and> (\<exists>more. whole = part @ more)"
proof -
  obtain r where r: "ve_post env (ollama_url v) (ollama_body v img prompt) = Inr r" "hp_success r"
    using assms(1) by (auto simp: call_ollama_def read_reply_def split: sum.splits if_splits)
  let ?ls = "fst (lines_of (hp_chunks r) [])"
  let ?s = "\<lparr>fa_full = [], fa_thinking = 0, fa_lines = 0\<rparr>"
  have slow: "text_of_run (run_lines (ollama_line env) ?ls []) = Some whole"
    using assms(1) r by (auto simp: call_ollama_def read_reply_def stream_run_lines split: progress.splits option.splits)
  have "(\<exists>s'. run_lines (fast_line env ms) ?ls ?s = Going s' \<and> fa_full s' = part) \<or>
      run_lines (fast_line env ms) ?ls ?s = Stop (Inr part)"
    using assms(2) r by (auto simp: call_ollama_fast_def read_reply_def stream_run_lines split: progress.splits option.splits)
  then have "part = whole \<or> extract_json part \<noteq> None \<and> (\<exists>more. whole = part @ more)"
    using slow fast_against_ordinary [where env = env and ms = ms and ls = ?ls and s = ?s] by (auto split: sum.splits)
  then show ?thesis
  proof
    assume early: "extract_json part \<noteq> None \<and> (\<exists>more. whole = part @ more)"
    then obtain more where more: "whole = part @ more" by blast
    then have "\<not> str_contains fence part" using assms(3) str_contains_append by blast
    with early more assms(3) show ?thesis
      using scan_object_append [of part _ more] by (auto simp: extract_json_plain)
  qed simp
qed

lemma early_end_same_object_witness:
  "extract_json ''say {}'' = extract_json ''say {} more''"
proof -
  let ?env = "example_vision [Inr [CHR ''a'', CHR 0x0A, CHR ''b'', CHR 0x0A]]"
  have "call_ollama ?env example_client [] [] = Inr ''say {} more''" by code_simp
  moreover have "call_ollama_fast ?env example_client [] [] 1000 = Inr ''say {}''" by code_simp
  moreover have "\<not> str_contains fence ''say {} more''" by code_simp
  ultimately show ?thesis using early_end_same_object by blast
qed

subsection \<open>Objects in prose\<close>

text \<open>The inside of a JSON string: no quote but behind a backslash.\<close>

inductive string_inside :: "string \<Rightarrow> bool" where
  "string_inside []"
| "c \<noteq> CHR 0x22 \<Longrightarrow> c \<noteq> CHR 0x5C \<Longrightarrow> string_inside s \<Longrightarrow> string_inside (c # s)"
| "string_inside s \<Longrightarrow> string_inside (CHR 0x5C # c # s)"

text \<open>The inside of an object: text without quotes and braces, strings, and objects.\<close>

inductive object_inside :: "string \<Rightarrow> bool" where
  "object_inside []"
| "c \<notin> {CHR 0x22, CHR ''{'', CHR ''}''} \<Longrightarrow> object_inside s \<Longrightarrow> object_inside (c # s)"
| "string_inside q \<Longrightarrow> object_inside s \<Longrightarrow> object_inside (CHR 0x22 # q @ CHR 0x22 # s)"
| "object_inside a \<Longrightarrow> object_inside s \<Longrightarrow> object_inside (CHR ''{'' # a @ CHR ''}'' # s)"

lemma scan_string:
  "string_inside q \<Longrightarrow> scan i d st True False (q @ CHR 0x22 # s) = scan (Suc (i + length q)) d st False False s"
  by (induction q arbitrary: i rule: string_inside.induct) auto

lemma scan_inside:
  "object_inside a \<Longrightarrow> 0 < d \<Longrightarrow>
     scan i d (Some b) False False (a @ s) = scan (i + length a) d (Some b) False False s"
proof (induction a arbitrary: i d s rule: object_inside.induct)
  case (3 q a)
  then show ?case by (simp add: scan_string add.assoc)
qed (simp_all add: add.assoc)

lemma scan_before:
  "CHR ''{'' \<notin> set pre \<Longrightarrow> CHR ''}'' \<notin> set pre \<Longrightarrow>
     scan i 0 None False False (pre @ s) = scan (i + length pre) 0 None False False s"
  by (induction pre arbitrary: i) auto

text \<open>An object in prose is found whatever strings and objects it holds: with no brace before it
  and no code fence in the text, \<open>extract_json\<close> returns exactly it.\<close>

theorem extract_json_finds_object:
  assumes "object_inside a" and "CHR ''{'' \<notin> set pre" and "CHR ''}'' \<notin> set pre"
    and "\<not> str_contains fence (pre @ CHR ''{'' # a @ CHR ''}'' # post)"
  shows "extract_json (pre @ CHR ''{'' # a @ CHR ''}'' # post) = Some (CHR ''{'' # a @ [CHR ''}''])"
  using assms by (simp add: extract_json_plain scan_object_def scan_before scan_inside)

lemma extract_json_finds_object_witness:
  "extract_json (''I see '' @ CHR ''{'' # [CHR 0x22, CHR ''}'', CHR 0x22] @ CHR ''}'' # ''.'') =
    Some (CHR ''{'' # [CHR 0x22, CHR ''}'', CHR 0x22] @ [CHR ''}''])"
proof (rule extract_json_finds_object)
  have "string_inside [CHR ''}'']" by (intro string_inside.intros) simp_all
  then have "object_inside (CHR 0x22 # [CHR ''}''] @ CHR 0x22 # [])" by (intro object_inside.intros)
  then show "object_inside [CHR 0x22, CHR ''}'', CHR 0x22]" by simp
  show "\<not> str_contains fence (''I see '' @ CHR ''{'' # [CHR 0x22, CHR ''}'', CHR 0x22] @ CHR ''}'' # ''.'')"
    by code_simp
qed simp_all

text \<open>A closing brace before the object hides it.\<close>

lemma stray_brace_hides_object: "extract_json '':} {}'' = None"
  by code_simp

end
