(* ===== verification/Lock_Manager.thy ===== *)
theory Lock_Manager
  imports Core_Types Dash_Map
begin

section \<open>The instance lock manager\<close>

text \<open>
  \<open>crates/vscreen-server/src/lock_manager.rs\<close>: leases on browser instances, exclusive or
  shared by observers, with a queue of waiters per instance. Each method of
  \<open>InstanceLockManager\<close> is a function on the manager's state; it runs under the entry of the
  instance's lock state, so it is one atomic step, and successive reads of the clock inside
  one method return the same value. A waiter's oneshot sender is the number of its channel;
  promoting a waiter yields the list of channels that were sent on (the code ignores whether
  the receiver still exists). A time to live is a number of nanoseconds.
\<close>

subsection \<open>State\<close>

record wait_entry =
  we_session_id :: session_id
  we_agent_name :: "string option"
  we_requested_lock_type :: lock_type
  we_queued_at :: instant
  we_notify :: nat

record instance_lock_state =
  exclusive :: "lock_info option"
  observers :: "lock_info list"
  wait_queue :: "wait_entry list"

record lock_manager =
  locks :: "(instance_id, instance_lock_state) table"
  active_sessions :: "session_id set"

datatype lock_error =
    InstanceLocked session_id "string option" instant
  | NotHeld instance_id
  | Timeout instance_id

definition new_state :: instance_lock_state where
  "new_state = \<lparr>exclusive = None, observers = [], wait_queue = []\<rparr>"

definition is_empty_state :: "instance_lock_state \<Rightarrow> bool" where
  "is_empty_state s = (exclusive s = None \<and> observers s = [] \<and> wait_queue s = [])"

definition to_status :: "instance_id \<Rightarrow> instance_lock_state \<Rightarrow> lock_status" where
  "to_status i s =
     \<lparr>ls_instance_id = i,
      ls_exclusive_holder = exclusive s,
      ls_observers = observers s,
      ls_wait_queue =
        map (\<lambda>w. \<lparr>wq_session_id = we_session_id w, wq_agent_name = we_agent_name w,
                  wq_requested_lock_type = we_requested_lock_type w,
                  wq_queued_at = we_queued_at w\<rparr>) (wait_queue s)\<rparr>"

definition new_manager :: lock_manager where
  "new_manager = \<lparr>locks = [], active_sessions = {}\<rparr>"

text \<open>\<open>self.locks.entry(id).or_insert_with(InstanceLockState::new)\<close>\<close>

definition entry_or_new :: "lock_manager \<Rightarrow> instance_id \<Rightarrow> instance_lock_state" where
  "entry_or_new m i = (case tab_get i (locks m) of None \<Rightarrow> new_state | Some s \<Rightarrow> s)"

definition put_state :: "instance_id \<Rightarrow> instance_lock_state \<Rightarrow> lock_manager \<Rightarrow> lock_manager" where
  "put_state i s m = m\<lparr>locks := tab_insert i s (locks m)\<rparr>"

definition drop_state :: "instance_id \<Rightarrow> lock_manager \<Rightarrow> lock_manager" where
  "drop_state i m = m\<lparr>locks := tab_remove i (locks m)\<rparr>"

definition with_locks :: "(instance_id, instance_lock_state) table \<Rightarrow> lock_manager \<Rightarrow> lock_manager" where
  "with_locks t m = m\<lparr>locks := t\<rparr>"

text \<open>
  \<open>chrono::Duration::from_std(ttl).unwrap_or(seconds(120))\<close>: a time to live beyond
  \<open>i64::MAX\<close> milliseconds falls back to two minutes.
\<close>

definition lease_nanos :: "nat \<Rightarrow> int" where
  "lease_nanos ttl =
     (if ttl \<le> 9223372036854775807 * 1000000 then int ttl else 120 * 1000000000)"

definition expiry :: "instant \<Rightarrow> nat \<Rightarrow> instant" where
  "expiry now ttl = now + lease_nanos ttl"

subsection \<open>Acquiring\<close>

text \<open>Renewal inside \<open>acquire_inner\<close>: new expiry, and the agent name if one is given.\<close>

definition renew_info :: "instant \<Rightarrow> nat \<Rightarrow> string option \<Rightarrow> lock_info \<Rightarrow> lock_info" where
  "renew_info now ttl agent l =
     (let l' = l\<lparr>li_expires_at := expiry now ttl\<rparr>
      in if agent \<noteq> None then l'\<lparr>li_agent_name := agent\<rparr> else l')"

definition locked_by :: "lock_info \<Rightarrow> lock_error" where
  "locked_by l = InstanceLocked (li_session_id l) (li_agent_name l) (li_expires_at l)"

definition fresh_info ::
  "instant \<Rightarrow> lock_token \<Rightarrow> session_id \<Rightarrow> string option \<Rightarrow> lock_type \<Rightarrow> nat \<Rightarrow> bool \<Rightarrow> lock_info" where
  "fresh_info now tok sid agent lt ttl auto =
     \<lparr>li_session_id = sid, li_agent_name = agent, li_lock_type = lt, li_lock_token = tok,
      li_acquired_at = now, li_expires_at = expiry now ttl, li_auto_acquired = auto\<rparr>"

text \<open>The holder named in a refusal: \<open>exclusive.as_ref().or(observers.first())\<close>.\<close>

definition blocker :: "instance_lock_state \<Rightarrow> lock_info option" where
  "blocker s =
     (case exclusive s of
        Some e \<Rightarrow> Some e
      | None \<Rightarrow> (case observers s of [] \<Rightarrow> None | b # _ \<Rightarrow> Some b))"

definition is_self_upgrade :: "session_id \<Rightarrow> instance_lock_state \<Rightarrow> bool" where
  "is_self_upgrade sid s =
     (exclusive s = None \<and>
      (case observers s of [ob] \<Rightarrow> li_session_id ob = sid | _ \<Rightarrow> False))"

text \<open>The \<open>match lock_type\<close> of \<open>acquire_inner\<close>, reached when nothing was renewed.\<close>

definition grant ::
  "lock_info \<Rightarrow> session_id \<Rightarrow> lock_type \<Rightarrow> instance_lock_state
     \<Rightarrow> instance_lock_state \<times> (lock_error + lock_info)" where
  "grant info sid lt s =
     (case lt of
        Exclusive \<Rightarrow>
          (case blocker s of
             None \<Rightarrow> (s\<lparr>exclusive := Some info\<rparr>, Inr info)
           | Some b \<Rightarrow>
               if is_self_upgrade sid s
               then (s\<lparr>observers := [], exclusive := Some info\<rparr>, Inr info)
               else (s, Inl (locked_by b)))
      | Observer \<Rightarrow>
          (case exclusive s of
             Some exc \<Rightarrow> (s, Inl (locked_by exc))
           | None \<Rightarrow> (s\<lparr>observers := observers s @ [info]\<rparr>, Inr info)))"

text \<open>An observer renews its own lease; otherwise the request is granted or refused.\<close>

definition acquire_not_holder ::
  "instant \<Rightarrow> lock_token \<Rightarrow> session_id \<Rightarrow> string option \<Rightarrow> lock_type \<Rightarrow> nat \<Rightarrow> bool
     \<Rightarrow> instance_lock_state \<Rightarrow> instance_lock_state \<times> (lock_error + lock_info)" where
  "acquire_not_holder now tok sid agent lt ttl auto s =
     (case (if lt = Observer then find (\<lambda>ob. li_session_id ob = sid) (observers s) else None) of
        Some ob \<Rightarrow>
          (s\<lparr>observers := update_first (\<lambda>ob. li_session_id ob = sid)
                             (renew_info now ttl agent) (observers s)\<rparr>,
           Inr (renew_info now ttl agent ob))
      | None \<Rightarrow> grant (fresh_info now tok sid agent lt ttl auto) sid lt s)"

definition acquire_state ::
  "instant \<Rightarrow> lock_token \<Rightarrow> session_id \<Rightarrow> string option \<Rightarrow> lock_type \<Rightarrow> nat \<Rightarrow> bool
     \<Rightarrow> instance_lock_state \<Rightarrow> instance_lock_state \<times> (lock_error + lock_info)" where
  "acquire_state now tok sid agent lt ttl auto s =
     (case exclusive s of
        Some exc \<Rightarrow>
          if li_session_id exc = sid then
            (s\<lparr>exclusive := Some (renew_info now ttl agent exc)\<rparr>,
             Inr (renew_info now ttl agent exc))
          else acquire_not_holder now tok sid agent lt ttl auto s
      | None \<Rightarrow> acquire_not_holder now tok sid agent lt ttl auto s)"

definition acquire_inner ::
  "instant \<Rightarrow> lock_token \<Rightarrow> instance_id \<Rightarrow> session_id \<Rightarrow> string option \<Rightarrow> lock_type \<Rightarrow> nat \<Rightarrow> bool
     \<Rightarrow> lock_manager \<Rightarrow> lock_manager \<times> (lock_error + lock_info)" where
  "acquire_inner now tok i sid agent lt ttl auto m =
     (let (s, r) = acquire_state now tok sid agent lt ttl auto (entry_or_new m i)
      in (put_state i s m, r))"

definition acquire ::
  "instant \<Rightarrow> lock_token \<Rightarrow> instance_id \<Rightarrow> session_id \<Rightarrow> string option \<Rightarrow> lock_type \<Rightarrow> nat
     \<Rightarrow> lock_manager \<Rightarrow> lock_manager \<times> (lock_error + lock_info)" where
  "acquire now tok i sid agent lt ttl m = acquire_inner now tok i sid agent lt ttl False m"

definition acquire_auto ::
  "instant \<Rightarrow> lock_token \<Rightarrow> instance_id \<Rightarrow> session_id \<Rightarrow> lock_type \<Rightarrow> nat
     \<Rightarrow> lock_manager \<Rightarrow> lock_manager \<times> (lock_error + lock_info)" where
  "acquire_auto now tok i sid lt ttl m = acquire_inner now tok i sid None lt ttl True m"

subsection \<open>The wait queue\<close>

text \<open>
  The loop of \<open>try_promote\<close> over the queue: waiters are popped and notified from the
  front; an exclusive waiter stops the loop, before being popped if there are observers,
  after being popped if there are none. The result is the rest of the queue and the
  channels notified.
\<close>

fun promote_loop :: "bool \<Rightarrow> wait_entry list \<Rightarrow> wait_entry list \<times> nat list" where
  "promote_loop observed [] = ([], [])"
| "promote_loop observed (w # q) =
     (case we_requested_lock_type w of
        Exclusive \<Rightarrow> if observed then (w # q, []) else (q, [we_notify w])
      | Observer \<Rightarrow> (let (q', ns) = promote_loop observed q in (q', we_notify w # ns)))"

definition try_promote :: "instance_lock_state \<Rightarrow> instance_lock_state \<times> nat list" where
  "try_promote s =
     (if exclusive s \<noteq> None then (s, [])
      else (let (q, ns) = promote_loop (observers s \<noteq> []) (wait_queue s)
            in (s\<lparr>wait_queue := q\<rparr>, ns)))"

definition enqueue_state :: "wait_entry \<Rightarrow> instance_lock_state \<Rightarrow> instance_lock_state" where
  "enqueue_state w s = s\<lparr>wait_queue := wait_queue s @ [w]\<rparr>"

definition purge_queue :: "session_id \<Rightarrow> instance_lock_state \<Rightarrow> instance_lock_state" where
  "purge_queue sid s = s\<lparr>wait_queue := filter (\<lambda>w. we_session_id w \<noteq> sid) (wait_queue s)\<rparr>"

definition remove_from_queue :: "instance_id \<Rightarrow> session_id \<Rightarrow> lock_manager \<Rightarrow> lock_manager" where
  "remove_from_queue i sid m =
     (case tab_get i (locks m) of
        None \<Rightarrow> m
      | Some s \<Rightarrow> put_state i (purge_queue sid s) m)"

text \<open>
  \<open>acquire_or_wait\<close> is four atomic steps, between which other sessions run: the immediate
  attempt, which answers or is refused; entering the queue (the entry is locked anew);
  after the await, a second attempt if the waiter was notified, or leaving the queue on a
  timeout or a dropped sender.
\<close>

datatype wait_progress = Answered "lock_error + lock_info" | Blocked

definition acquire_or_wait_try ::
  "instant \<Rightarrow> lock_token \<Rightarrow> instance_id \<Rightarrow> session_id \<Rightarrow> string option \<Rightarrow> lock_type \<Rightarrow> nat
     \<Rightarrow> lock_manager \<Rightarrow> lock_manager \<times> wait_progress" where
  "acquire_or_wait_try now tok i sid agent lt ttl m =
     (let (m1, r) = acquire now tok i sid agent lt ttl m
      in (m1, case r of
                Inr info \<Rightarrow> Answered (Inr info)
              | Inl (InstanceLocked _ _ _) \<Rightarrow> Blocked
              | Inl e \<Rightarrow> Answered (Inl e)))"

definition acquire_or_wait_enqueue ::
  "instant \<Rightarrow> nat \<Rightarrow> instance_id \<Rightarrow> session_id \<Rightarrow> string option \<Rightarrow> lock_type
     \<Rightarrow> lock_manager \<Rightarrow> lock_manager" where
  "acquire_or_wait_enqueue now chan i sid agent lt m =
     put_state i
       (enqueue_state
          \<lparr>we_session_id = sid, we_agent_name = agent, we_requested_lock_type = lt,
           we_queued_at = now, we_notify = chan\<rparr>
          (entry_or_new m i)) m"

definition acquire_or_wait_notified ::
  "instant \<Rightarrow> lock_token \<Rightarrow> instance_id \<Rightarrow> session_id \<Rightarrow> string option \<Rightarrow> lock_type \<Rightarrow> nat
     \<Rightarrow> lock_manager \<Rightarrow> lock_manager \<times> (lock_error + lock_info)" where
  "acquire_or_wait_notified now tok i sid agent lt ttl m = acquire now tok i sid agent lt ttl m"

definition acquire_or_wait_timeout ::
  "instance_id \<Rightarrow> session_id \<Rightarrow> lock_manager \<Rightarrow> lock_manager \<times> (lock_error + lock_info)" where
  "acquire_or_wait_timeout i sid m = (remove_from_queue i sid m, Inl (Timeout i))"

subsection \<open>Releasing and renewing\<close>

definition matches :: "session_id \<Rightarrow> lock_token option \<Rightarrow> lock_info \<Rightarrow> bool" where
  "matches sid token l =
     (li_session_id l = sid \<or> (case token of None \<Rightarrow> False | Some t \<Rightarrow> li_lock_token l = t))"

text \<open>The lock state after dropping the matching leases, and whether any was dropped.\<close>

definition release_state ::
  "session_id \<Rightarrow> lock_token option \<Rightarrow> instance_lock_state \<Rightarrow> instance_lock_state \<times> bool" where
  "release_state sid token s =
     (let held = (case exclusive s of None \<Rightarrow> False | Some e \<Rightarrow> matches sid token e);
          obs = filter (\<lambda>ob. \<not> matches sid token ob) (observers s)
      in (s\<lparr>exclusive := (if held then None else exclusive s), observers := obs\<rparr>,
          held \<or> length obs < length (observers s)))"

definition release_with_token ::
  "instance_id \<Rightarrow> session_id \<Rightarrow> lock_token option \<Rightarrow> lock_manager
     \<Rightarrow> lock_manager \<times> nat list \<times> (lock_error + bool)" where
  "release_with_token i sid token m =
     (let (s, released) = release_state sid token (entry_or_new m i) in
      if \<not> released then (put_state i s m, [], Inl (NotHeld i))
      else
        (let (s', ns) = try_promote s
         in (if is_empty_state s' then drop_state i m else put_state i s' m,
             ns, Inr (ns \<noteq> []))))"

definition release ::
  "instance_id \<Rightarrow> session_id \<Rightarrow> lock_manager \<Rightarrow> lock_manager \<times> nat list \<times> (lock_error + bool)" where
  "release i sid m = release_with_token i sid None m"

definition renew_state ::
  "instant \<Rightarrow> session_id \<Rightarrow> lock_token option \<Rightarrow> nat \<Rightarrow> instance_lock_state
     \<Rightarrow> instance_lock_state \<times> lock_info option" where
  "renew_state now sid token ttl s =
     (let upd = (\<lambda>l. l\<lparr>li_expires_at := expiry now ttl\<rparr>);
          renew_observer =
            (case find (matches sid token) (observers s) of
               Some ob \<Rightarrow>
                 (s\<lparr>observers := update_first (matches sid token) upd (observers s)\<rparr>, Some (upd ob))
             | None \<Rightarrow> (s, None))
      in case exclusive s of
           Some exc \<Rightarrow>
             if matches sid token exc then (s\<lparr>exclusive := Some (upd exc)\<rparr>, Some (upd exc))
             else renew_observer
         | None \<Rightarrow> renew_observer)"

definition renew_with_token ::
  "instant \<Rightarrow> instance_id \<Rightarrow> session_id \<Rightarrow> lock_token option \<Rightarrow> nat \<Rightarrow> lock_manager
     \<Rightarrow> lock_manager \<times> (lock_error + lock_info)" where
  "renew_with_token now i sid token ttl m =
     (case tab_get i (locks m) of
        None \<Rightarrow> (m, Inl (NotHeld i))
      | Some s \<Rightarrow>
          (let (s', r) = renew_state now sid token ttl s
           in (put_state i s' m, case r of None \<Rightarrow> Inl (NotHeld i) | Some l \<Rightarrow> Inr l)))"

definition renew ::
  "instant \<Rightarrow> instance_id \<Rightarrow> session_id \<Rightarrow> nat \<Rightarrow> lock_manager
     \<Rightarrow> lock_manager \<times> (lock_error + lock_info)" where
  "renew now i sid ttl m = renew_with_token now i sid None ttl m"

subsection \<open>Checking and reporting\<close>

definition check_access_with_token ::
  "instance_id \<Rightarrow> session_id \<Rightarrow> lock_token option \<Rightarrow> lock_type \<Rightarrow> lock_manager \<Rightarrow> lock_error + unit" where
  "check_access_with_token i sid token required m =
     (case tab_get i (locks m) of
        None \<Rightarrow> Inl (NotHeld i)
      | Some s \<Rightarrow>
          (case required of
             Exclusive \<Rightarrow>
               (case exclusive s of
                  Some exc \<Rightarrow> if matches sid token exc then Inr () else Inl (locked_by exc)
                | None \<Rightarrow> Inl (NotHeld i))
           | Observer \<Rightarrow>
               (case exclusive s of
                  Some exc \<Rightarrow> if matches sid token exc then Inr () else Inl (locked_by exc)
                | None \<Rightarrow>
                    if list_ex (matches sid token) (observers s) then Inr ()
                    else Inl (NotHeld i))))"

definition check_access ::
  "instance_id \<Rightarrow> session_id \<Rightarrow> lock_type \<Rightarrow> lock_manager \<Rightarrow> lock_error + unit" where
  "check_access i sid required m = check_access_with_token i sid None required m"

definition state_held_by :: "session_id \<Rightarrow> instance_lock_state \<Rightarrow> bool" where
  "state_held_by sid s =
     ((case exclusive s of None \<Rightarrow> False | Some e \<Rightarrow> li_session_id e = sid) \<or>
      list_ex (\<lambda>ob. li_session_id ob = sid) (observers s))"

definition is_held_by :: "instance_id \<Rightarrow> session_id \<Rightarrow> lock_manager \<Rightarrow> bool" where
  "is_held_by i sid m =
     (case tab_get i (locks m) of None \<Rightarrow> False | Some s \<Rightarrow> state_held_by sid s)"

definition is_auto_acquired :: "instance_id \<Rightarrow> lock_manager \<Rightarrow> bool" where
  "is_auto_acquired i m =
     (case tab_get i (locks m) of
        None \<Rightarrow> False
      | Some s \<Rightarrow>
          (case exclusive s of
             Some exc \<Rightarrow> li_auto_acquired exc
           | None \<Rightarrow> list_all li_auto_acquired (observers s) \<and> observers s \<noteq> []))"

definition status :: "instance_id \<Rightarrow> lock_manager \<Rightarrow> lock_status" where
  "status i m =
     (case tab_get i (locks m) of
        Some s \<Rightarrow> to_status i s
      | None \<Rightarrow> \<lparr>ls_instance_id = i, ls_exclusive_holder = None, ls_observers = [], ls_wait_queue = []\<rparr>)"

definition status_all :: "lock_manager \<Rightarrow> lock_status list" where
  "status_all m = map (\<lambda>(i, s). to_status i s) (locks m)"

subsection \<open>Sessions and expiry\<close>

definition register_session :: "session_id \<Rightarrow> lock_manager \<Rightarrow> lock_manager" where
  "register_session sid m = m\<lparr>active_sessions := insert sid (active_sessions m)\<rparr>"

definition is_session_active :: "session_id \<Rightarrow> lock_manager \<Rightarrow> bool" where
  "is_session_active sid m = (sid \<in> active_sessions m)"

text \<open>The snapshot of the keys is released one by one, then every queue is purged.\<close>

definition release_each :: "session_id \<Rightarrow> instance_id \<Rightarrow> lock_manager \<times> nat list \<Rightarrow> lock_manager \<times> nat list" where
  "release_each sid i = (\<lambda>(m, ns). let (m', ns', _) = release i sid m in (m', ns @ ns'))"

definition release_all_for_session :: "session_id \<Rightarrow> lock_manager \<Rightarrow> lock_manager \<times> nat list" where
  "release_all_for_session sid m =
     (let (m', ns) = fold (release_each sid) (tab_keys (locks m)) (m, [])
      in (with_locks (tab_map (purge_queue sid) (locks m')) m', ns))"

definition unregister_session :: "session_id \<Rightarrow> lock_manager \<Rightarrow> lock_manager \<times> nat list" where
  "unregister_session sid m =
     release_all_for_session sid (m\<lparr>active_sessions := active_sessions m - {sid}\<rparr>)"

text \<open>The sweep of the reaper over one instance, then over the snapshot of the keys.\<close>

definition reap_state :: "instant \<Rightarrow> instance_lock_state \<Rightarrow> instance_lock_state \<times> nat list" where
  "reap_state now s =
     (let (s1, ns1) =
            (case exclusive s of
               Some exc \<Rightarrow>
                 if li_expires_at exc \<le> now then try_promote (s\<lparr>exclusive := None\<rparr>) else (s, [])
             | None \<Rightarrow> (s, []));
          obs = filter (\<lambda>ob. \<not> li_expires_at ob \<le> now) (observers s1);
          s2 = s1\<lparr>observers := obs\<rparr>;
          (s3, ns2) = (if length obs < length (observers s1) then try_promote s2 else (s2, []))
      in (s3, ns1 @ ns2))"

definition reap_each :: "instant \<Rightarrow> instance_id \<Rightarrow> lock_manager \<times> nat list \<Rightarrow> lock_manager \<times> nat list" where
  "reap_each now i = (\<lambda>(m, ns).
     case tab_get i (locks m) of
       None \<Rightarrow> (m, ns)
     | Some s \<Rightarrow>
         (let (s', ns') = reap_state now s
          in (if is_empty_state s' then drop_state i m else put_state i s' m, ns @ ns')))"

definition reap_expired :: "instant \<Rightarrow> lock_manager \<Rightarrow> lock_manager \<times> nat list" where
  "reap_expired now m = fold (reap_each now) (tab_keys (locks m)) (m, [])"

end
