(* ===== verification/Lock_Invariants.thy ===== *)
theory Lock_Invariants
  imports Lock_Manager
begin

section \<open>What the lock manager guarantees\<close>

text \<open>
  The interface \<open>entry_invariant\<close> names what an operation may do to the lock state of one
  instance; a predicate every such operation keeps holds of every entry of every manager
  the public methods can produce. It is interpreted on the exclusion invariant. An abstract
  reader-writer lock is refined by the leases of one instance. The rest are the effects
  of the single methods on every branch.
\<close>

subsection \<open>Unfolding the table operations\<close>

lemma locks_put_state [simp]: "locks (put_state i s m) = tab_insert i s (locks m)"
  by (simp add: put_state_def)

lemma locks_drop_state [simp]: "locks (drop_state i m) = tab_remove i (locks m)"
  by (simp add: drop_state_def)

lemma locks_with_locks [simp]: "locks (with_locks t m) = t"
  by (simp add: with_locks_def)

lemma locks_new_manager [simp]: "locks new_manager = []"
  by (simp add: new_manager_def)

lemma active_put_drop [simp]:
  "active_sessions (put_state i s m) = active_sessions m"
  "active_sessions (drop_state i m) = active_sessions m"
  "active_sessions (with_locks t m) = active_sessions m"
  by (simp_all add: put_state_def drop_state_def with_locks_def)

lemma new_state_sel [simp]:
  "exclusive new_state = None" "observers new_state = []" "wait_queue new_state = []"
  by (simp_all add: new_state_def)

lemma renew_info_sel [simp]:
  "li_session_id (renew_info now ttl a l) = li_session_id l"
  "li_lock_type (renew_info now ttl a l) = li_lock_type l"
  "li_lock_token (renew_info now ttl a l) = li_lock_token l"
  "li_auto_acquired (renew_info now ttl a l) = li_auto_acquired l"
  "li_expires_at (renew_info now ttl a l) = expiry now ttl"
  by (simp_all add: renew_info_def Let_def)

lemma fresh_info_sel [simp]:
  "li_session_id (fresh_info now tok sid a lt ttl auto) = sid"
  "li_lock_type (fresh_info now tok sid a lt ttl auto) = lt"
  "li_lock_token (fresh_info now tok sid a lt ttl auto) = tok"
  "li_auto_acquired (fresh_info now tok sid a lt ttl auto) = auto"
  "li_expires_at (fresh_info now tok sid a lt ttl auto) = expiry now ttl"
  by (simp_all add: fresh_info_def)

lemma try_promote_sel [simp]:
  "exclusive (fst (try_promote s)) = exclusive s"
  "observers (fst (try_promote s)) = observers s"
  by (simp_all add: try_promote_def split: prod.splits)

lemma try_promote_queue:
  "\<exists>q. fst (try_promote s) = s\<lparr>wait_queue := q\<rparr>"
  by (cases s) (auto simp: try_promote_def split: prod.splits)

lemma purge_queue_sel [simp]:
  "exclusive (purge_queue sid s) = exclusive s" "observers (purge_queue sid s) = observers s"
  by (simp_all add: purge_queue_def)

lemma matches_None [simp]: "matches sid None l = (li_session_id l = sid)"
  by (simp add: matches_def)

lemmas acquire_defs = acquire_state_def acquire_not_holder_def grant_def blocker_def is_self_upgrade_def

lemmas acquire_splits = option.splits if_splits lock_type.splits list.splits

subsection \<open>Interface: a predicate the operations on one entry keep\<close>

definition every_entry :: "(instance_lock_state \<Rightarrow> bool) \<Rightarrow> lock_manager \<Rightarrow> bool" where
  "every_entry ok m = tab_all (\<lambda>_. ok) (locks m)"

locale entry_invariant =
  fixes ok :: "instance_lock_state \<Rightarrow> bool"
  assumes ok_new: "ok new_state"
    and ok_acquire: "ok s \<Longrightarrow> ok (fst (acquire_state now tok sid agent lt ttl auto s))"
    and ok_release: "ok s \<Longrightarrow> ok (fst (release_state sid token s))"
    and ok_renew: "ok s \<Longrightarrow> ok (fst (renew_state now sid token ttl s))"
    and ok_reap: "ok s \<Longrightarrow> ok (fst (reap_state now s))"
    and ok_queue: "ok s \<Longrightarrow> ok (s\<lparr>wait_queue := q\<rparr>)"
begin

lemma ok_entry_or_new: "every_entry ok m \<Longrightarrow> ok (entry_or_new m i)"
  by (auto simp: every_entry_def entry_or_new_def ok_new tab_all_def split: option.splits)

lemma ok_put: "every_entry ok m \<Longrightarrow> ok s \<Longrightarrow> every_entry ok (put_state i s m)"
  by (auto simp: every_entry_def)

lemma ok_drop: "every_entry ok m \<Longrightarrow> every_entry ok (drop_state i m)"
  by (auto simp: every_entry_def)

lemma ok_get: "every_entry ok m \<Longrightarrow> tab_get i (locks m) = Some s \<Longrightarrow> ok s"
  by (auto simp: every_entry_def tab_all_def)

lemma ok_promote: "ok s \<Longrightarrow> ok (fst (try_promote s))"
  using try_promote_queue [of s] ok_queue [of s] by auto

lemma ok_purge: "ok s \<Longrightarrow> ok (purge_queue sid s)"
  by (simp add: purge_queue_def ok_queue)

lemma ok_new_manager: "every_entry ok new_manager"
  by (simp add: every_entry_def)

lemma ok_acquire_inner:
  "every_entry ok m \<Longrightarrow> every_entry ok (fst (acquire_inner now tok i sid agent lt ttl auto m))"
  using ok_acquire [OF ok_entry_or_new, of m now tok sid agent lt ttl auto i]
  by (simp add: acquire_inner_def ok_put case_prod_unfold Let_def)

lemma ok_wait_try: "every_entry ok m \<Longrightarrow> every_entry ok (fst (acquire_or_wait_try now tok i sid agent lt ttl m))"
  by (simp add: acquire_or_wait_try_def acquire_def ok_acquire_inner case_prod_unfold Let_def)

lemma ok_wait_enqueue: "every_entry ok m \<Longrightarrow> every_entry ok (acquire_or_wait_enqueue now chan i sid agent lt m)"
  by (simp add: acquire_or_wait_enqueue_def enqueue_state_def ok_put ok_queue ok_entry_or_new)

lemma ok_remove_from_queue: "every_entry ok m \<Longrightarrow> every_entry ok (remove_from_queue i sid m)"
  by (auto simp: remove_from_queue_def intro!: ok_put ok_purge dest: ok_get split: option.splits)

lemma ok_release_with_token:
  assumes "every_entry ok m"
  shows "every_entry ok (fst (release_with_token i sid token m))"
proof -
  obtain s b where r: "release_state sid token (entry_or_new m i) = (s, b)" by fastforce
  then have "ok s" using ok_release [OF ok_entry_or_new [OF assms]] by (metis fst_conv)
  moreover obtain s' ns where "try_promote s = (s', ns)" by fastforce
  moreover from this \<open>ok s\<close> have "ok s'" using ok_promote by (metis fst_conv)
  ultimately show ?thesis
    using assms by (simp add: release_with_token_def r ok_put ok_drop)
qed

lemma ok_release_op: "every_entry ok m \<Longrightarrow> every_entry ok (fst (release i sid m))"
  by (simp add: release_def ok_release_with_token)

lemma ok_renew_with_token:
  "every_entry ok m \<Longrightarrow> every_entry ok (fst (renew_with_token now i sid token ttl m))"
  using ok_renew [OF ok_get]
  by (auto simp: renew_with_token_def case_prod_unfold Let_def intro!: ok_put split: option.splits)

lemma ok_release_each:
  "every_entry ok (fst p) \<Longrightarrow> every_entry ok (fst (release_each sid i p))"
  using ok_release_op [of "fst p" i sid]
  by (auto simp: release_each_def split: prod.splits)

lemma ok_release_all: "every_entry ok m \<Longrightarrow> every_entry ok (fst (release_all_for_session sid m))"
proof -
  assume m: "every_entry ok m"
  have "every_entry ok (fst (fold (release_each sid) (tab_keys (locks m)) (m, [])))"
    by (rule fold_invariant) (auto simp: m ok_release_each)
  then show ?thesis
    by (auto simp: release_all_for_session_def every_entry_def ok_purge
        intro!: tab_all_map split: prod.splits)
qed

lemma ok_unregister: "every_entry ok m \<Longrightarrow> every_entry ok (fst (unregister_session sid m))"
  using ok_release_all [of "m\<lparr>active_sessions := active_sessions m - {sid}\<rparr>" sid]
  by (simp add: unregister_session_def every_entry_def)

lemma ok_register: "every_entry ok m \<Longrightarrow> every_entry ok (register_session sid m)"
  by (simp add: register_session_def every_entry_def)

lemma ok_reap_each: "every_entry ok (fst p) \<Longrightarrow> every_entry ok (fst (reap_each now i p))"
  using ok_reap [OF ok_get]
  by (auto simp: reap_each_def case_prod_unfold Let_def intro!: ok_put ok_drop split: option.splits)

lemma ok_reap_expired: "every_entry ok m \<Longrightarrow> every_entry ok (fst (reap_expired now m))"
  unfolding reap_expired_def by (rule fold_invariant) (auto simp: ok_reap_each)

end

subsection \<open>The exclusion invariant\<close>

definition lock_ok :: "instance_lock_state \<Rightarrow> bool" where
  "lock_ok s =
     ((exclusive s \<noteq> None \<longrightarrow> observers s = []) \<and>
      distinct (map li_session_id (observers s)) \<and>
      (\<forall>e. exclusive s = Some e \<longrightarrow> li_lock_type e = Exclusive) \<and>
      list_all (\<lambda>ob. li_lock_type ob = Observer) (observers s))"

lemma lock_ok_cong:
  "exclusive s' = exclusive s \<Longrightarrow> observers s' = observers s \<Longrightarrow> lock_ok s' = lock_ok s"
  by (simp add: lock_ok_def)

lemma lock_ok_grant: "lock_ok s \<Longrightarrow> li_session_id info = sid \<Longrightarrow> li_lock_type info = lt \<Longrightarrow>
    (lt = Observer \<longrightarrow> find (\<lambda>ob. li_session_id ob = sid) (observers s) = None) \<Longrightarrow>
    lock_ok (fst (grant info sid lt s))"
  by (cases lt; cases "exclusive s")
    (auto simp: lock_ok_def grant_def blocker_def is_self_upgrade_def find_None_all
      split: list.splits)

lemma list_all_update_first:
  "list_all P xs \<Longrightarrow> (\<And>x. P x \<Longrightarrow> P (f x)) \<Longrightarrow> list_all P (update_first p f xs)"
  by (induction xs) auto

lemma lock_ok_acquire: "lock_ok s \<Longrightarrow> lock_ok (fst (acquire_state now tok sid agent lt ttl auto s))"
proof -
  assume s: "lock_ok s"
  have nh: "lock_ok (fst (acquire_not_holder now tok sid agent lt ttl auto s))"
  proof (cases "if lt = Observer then find (\<lambda>ob. li_session_id ob = sid) (observers s) else None")
    case None
    then show ?thesis
      using s by (auto simp: acquire_not_holder_def intro!: lock_ok_grant split: if_splits)
  next
    case (Some ob)
    then have "observers s \<noteq> []" by (auto split: if_splits)
    with s Some show ?thesis
      by (auto simp: acquire_not_holder_def lock_ok_def map_update_first intro: list_all_update_first)
  qed
  with s show ?thesis
    by (cases "exclusive s") (auto simp: acquire_state_def lock_ok_def)
qed

lemma lock_ok_release: "lock_ok s \<Longrightarrow> lock_ok (fst (release_state sid token s))"
  by (auto simp: lock_ok_def release_state_def Let_def list_all_iff distinct_map_filter
      split: option.splits)

lemma lock_ok_renew: "lock_ok s \<Longrightarrow> lock_ok (fst (renew_state now sid token ttl s))"
  by (cases "exclusive s"; cases "find (matches sid token) (observers s)")
    (auto simp: lock_ok_def renew_state_def Let_def map_update_first intro: list_all_update_first)

lemma lock_ok_observers_filter:
  "lock_ok s \<Longrightarrow> lock_ok (s\<lparr>observers := filter P (observers s)\<rparr>)"
  by (auto simp: lock_ok_def list_all_iff distinct_map_filter)

lemma reap_state_sel:
  "exclusive (fst (reap_state now s)) =
     (case exclusive s of None \<Rightarrow> None | Some e \<Rightarrow> if li_expires_at e \<le> now then None else Some e)"
  "observers (fst (reap_state now s)) = filter (\<lambda>ob. now < li_expires_at ob) (observers s)"
  by (auto simp: reap_state_def Let_def case_prod_unfold not_le split: option.splits)

lemma lock_ok_reap: "lock_ok s \<Longrightarrow> lock_ok (fst (reap_state now s))"
  by (auto simp: lock_ok_def reap_state_sel list_all_iff distinct_map_filter split: option.splits if_splits)

interpretation excl: entry_invariant lock_ok
proof unfold_locales
  show "lock_ok new_state" by (simp add: lock_ok_def)
  show "\<And>s q. lock_ok s \<Longrightarrow> lock_ok (s\<lparr>wait_queue := q\<rparr>)" by (simp add: lock_ok_def)
qed (fact lock_ok_acquire lock_ok_release lock_ok_renew lock_ok_reap)+

subsection \<open>Runs of the manager\<close>

text \<open>One step per public method (and per atomic part of \<open>acquire_or_wait\<close>), with any arguments.\<close>

inductive lm_step :: "lock_manager \<Rightarrow> lock_manager \<Rightarrow> bool" where
  step_register: "lm_step m (register_session sid m)"
| step_unregister: "lm_step m (fst (unregister_session sid m))"
| step_acquire: "lm_step m (fst (acquire now tok i sid agent lt ttl m))"
| step_acquire_auto: "lm_step m (fst (acquire_auto now tok i sid lt ttl m))"
| step_wait_try: "lm_step m (fst (acquire_or_wait_try now tok i sid agent lt ttl m))"
| step_wait_enqueue: "lm_step m (acquire_or_wait_enqueue now chan i sid agent lt m)"
| step_wait_notified: "lm_step m (fst (acquire_or_wait_notified now tok i sid agent lt ttl m))"
| step_wait_timeout: "lm_step m (fst (acquire_or_wait_timeout i sid m))"
| step_release: "lm_step m (fst (release_with_token i sid token m))"
| step_renew: "lm_step m (fst (renew_with_token now i sid token ttl m))"
| step_reap: "lm_step m (fst (reap_expired now m))"

inductive lm_reachable :: "lock_manager \<Rightarrow> bool" where
  reach_new: "lm_reachable new_manager"
| reach_step: "lm_reachable m \<Longrightarrow> lm_step m m' \<Longrightarrow> lm_reachable m'"

context entry_invariant
begin

lemma ok_step: "lm_step m m' \<Longrightarrow> every_entry ok m \<Longrightarrow> every_entry ok m'"
  by (induction rule: lm_step.induct)
    (auto simp: ok_register ok_unregister acquire_def acquire_auto_def ok_acquire_inner
      ok_wait_try ok_wait_enqueue acquire_or_wait_notified_def acquire_or_wait_timeout_def ok_remove_from_queue
      ok_release_with_token ok_renew_with_token ok_reap_expired)

lemma ok_reachable: "lm_reachable m \<Longrightarrow> every_entry ok m"
  by (induction rule: lm_reachable.induct) (auto simp: ok_new_manager intro: ok_step)

end

subsection \<open>Exclusion\<close>

text \<open>C2: Mutual exclusion. In every state the lock manager can reach through its public
  methods, an instance with an exclusive lease has no observers, a session observes an
  instance at most once, and each lease carries the type of the slot it is in.\<close>

theorem lock_exclusion_reachable:
  assumes "lm_reachable m" and "tab_get i (locks m) = Some s"
  shows "(exclusive s \<noteq> None \<longrightarrow> observers s = []) \<and>
    distinct (map li_session_id (observers s)) \<and>
    (\<forall>e. exclusive s = Some e \<longrightarrow> li_lock_type e = Exclusive) \<and>
    list_all (\<lambda>ob. li_lock_type ob = Observer) (observers s)"
  using excl.ok_get [OF excl.ok_reachable [OF assms(1)] assms(2)] by (simp add: lock_ok_def)

lemma lock_exclusion_reachable_witness:
  "\<exists>s. tab_get ''dev'' (locks (fst (acquire 0 7 ''dev'' 1 None Exclusive 5 new_manager))) = Some s \<and>
     exclusive s \<noteq> None \<and> observers s = []"
proof -
  let ?m = "fst (acquire 0 7 ''dev'' 1 None Exclusive 5 new_manager)"
  have r: "lm_reachable ?m" by (intro reach_step [OF reach_new] step_acquire)
  have g: "tab_get ''dev'' (locks ?m) =
      Some \<lparr>exclusive = Some (fresh_info 0 7 1 None Exclusive 5 False), observers = [], wait_queue = []\<rparr>"
    by (simp add: acquire_def acquire_inner_def acquire_defs entry_or_new_def new_state_def)
  from lock_exclusion_reachable [OF r g] g show ?thesis by auto
qed

subsection \<open>Acquiring, as a reader-writer lock\<close>

text \<open>The contract of one instance's leases: free, read by a set of sessions, or written by one.
  A lease on exclusive access also answers requests for shared access by its holder.\<close>

datatype rw_lock = Free | Readers "session_id set" | Writer session_id

fun rw_acquire :: "session_id \<Rightarrow> lock_type \<Rightarrow> rw_lock \<Rightarrow> rw_lock option" where
  "rw_acquire sid Exclusive Free = Some (Writer sid)"
| "rw_acquire sid Exclusive (Readers S) = (if S = {sid} then Some (Writer sid) else None)"
| "rw_acquire sid Observer Free = Some (Readers {sid})"
| "rw_acquire sid Observer (Readers S) = Some (Readers (insert sid S))"
| "rw_acquire sid _ (Writer w) = (if w = sid then Some (Writer w) else None)"

fun rw_release :: "session_id \<Rightarrow> rw_lock \<Rightarrow> rw_lock option" where
  "rw_release sid Free = None"
| "rw_release sid (Readers S) =
     (if sid \<in> S then Some (if S = {sid} then Free else Readers (S - {sid})) else None)"
| "rw_release sid (Writer w) = (if w = sid then Some Free else None)"

definition rw_abs :: "instance_lock_state \<Rightarrow> rw_lock" where
  "rw_abs s =
     (case exclusive s of
        Some e \<Rightarrow> Writer (li_session_id e)
      | None \<Rightarrow> if observers s = [] then Free else Readers (li_session_id ` set (observers s)))"

lemma self_upgrade_iff:
  assumes "lock_ok s" and "exclusive s = None" and "observers s \<noteq> []"
  shows "is_self_upgrade sid s \<longleftrightarrow> li_session_id ` set (observers s) = {sid}"
proof -
  obtain ob obs where o: "observers s = ob # obs" using assms(3) by (cases "observers s") auto
  show ?thesis
  proof (cases obs)
    case Nil
    with o assms(2) show ?thesis by (auto simp: is_self_upgrade_def)
  next
    case (Cons ob' obs')
    with o assms(1) have "li_session_id ob \<noteq> li_session_id ob'" by (auto simp: lock_ok_def)
    with Cons o show ?thesis by (auto simp: is_self_upgrade_def)
  qed
qed

lemma set_sids_update_first:
  "(\<And>x. li_session_id (f x) = li_session_id x) \<Longrightarrow>
   li_session_id ` set (update_first p f xs) = li_session_id ` set xs"
  by (metis map_update_first list.set_map)



lemma length_filter_sids:
  "length (filter (\<lambda>ob. li_session_id ob \<noteq> sid) obs) < length obs \<longleftrightarrow> sid \<in> li_session_id ` set obs"
proof (induction obs)
  case (Cons ob obs)
  have "length (filter (\<lambda>ob. li_session_id ob \<noteq> sid) obs) < Suc (length obs)"
    by (simp add: le_imp_less_Suc)
  with Cons show ?case by auto
qed simp

text \<open>Release refines the reader-writer lock: releasing by session takes exactly the
  abstract transition, and reports that nothing was held exactly when the abstract lock has
  no lease of the session.\<close>

theorem release_refines_rw_lock:
  assumes "lock_ok s"
  shows "rw_release sid (rw_abs s) =
    (if snd (release_state sid None s) then Some (rw_abs (fst (release_state sid None s))) else None)"
proof (cases "exclusive s")
  case (Some e)
  with assms show ?thesis by (auto simp: release_state_def rw_abs_def lock_ok_def)
next
  case n: None
  let ?obs = "filter (\<lambda>ob. li_session_id ob \<noteq> sid) (observers s)"
  have len: "length ?obs < length (observers s) \<longleftrightarrow> sid \<in> li_session_id ` set (observers s)"
    by (rule length_filter_sids)
  have img: "li_session_id ` set ?obs = li_session_id ` set (observers s) - {sid}" by auto
  have emp: "?obs = [] \<longleftrightarrow> li_session_id ` set (observers s) \<subseteq> {sid}"
    by (auto simp: filter_empty_conv)
  show ?thesis
    using n len emp
    by (cases "observers s = []") (auto simp: release_state_def Let_def rw_abs_def img)
qed

lemma release_refines_rw_lock_witness:
  "rw_release 1 (Readers {1, 2}) = Some (Readers {2})"
proof -
  let ?s = "new_state\<lparr>observers := [fresh_info 0 7 1 None Observer 5 False,
     fresh_info 0 8 2 None Observer 5 False]\<rparr>"
  have "lock_ok ?s" by (simp add: lock_ok_def)
  from release_refines_rw_lock [OF this, of 1] show ?thesis
    by (simp add: release_state_def rw_abs_def)
qed

subsection \<open>The leases on an instance\<close>

definition state_leases :: "instance_lock_state \<Rightarrow> lock_info list" where
  "state_leases s = (case exclusive s of None \<Rightarrow> [] | Some e \<Rightarrow> [e]) @ observers s"

definition leases_on :: "instance_id \<Rightarrow> lock_manager \<Rightarrow> lock_info list" where
  "leases_on i m = (case tab_get i (locks m) of None \<Rightarrow> [] | Some s \<Rightarrow> state_leases s)"

lemma leases_put_state [simp]:
  "leases_on j (put_state i s m) = (if j = i then state_leases s else leases_on j m)"
  by (simp add: leases_on_def)

lemma leases_drop_state [simp]: "leases_on j (drop_state i m) = (if j = i then [] else leases_on j m)"
  by (simp add: leases_on_def)

lemma leases_entry_or_new: "state_leases (entry_or_new m i) = leases_on i m"
  by (simp add: leases_on_def entry_or_new_def state_leases_def split: option.splits)

lemma state_leases_cong:
  "exclusive s' = exclusive s \<Longrightarrow> observers s' = observers s \<Longrightarrow> state_leases s' = state_leases s"
  by (simp add: state_leases_def)

lemma state_leases_promote [simp]: "state_leases (fst (try_promote s)) = state_leases s"
  by (rule state_leases_cong) simp_all

lemma state_leases_purge [simp]: "state_leases (purge_queue sid s) = state_leases s"
  by (rule state_leases_cong) simp_all

lemma state_leases_empty: "is_empty_state s \<Longrightarrow> state_leases s = []"
  by (simp add: is_empty_state_def state_leases_def)

lemma is_held_by_leases: "is_held_by i sid m \<longleftrightarrow> sid \<in> li_session_id ` set (leases_on i m)"
  by (auto simp: is_held_by_def state_held_by_def leases_on_def state_leases_def list_ex_iff
      split: option.splits)

lemma leases_release_state:
  "state_leases (fst (release_state sid token s)) = filter (\<lambda>l. \<not> matches sid token l) (state_leases s)"
  by (auto simp: release_state_def Let_def state_leases_def split: option.splits)

lemma released_iff:
  "snd (release_state sid token s) \<longleftrightarrow> (\<exists>l \<in> set (state_leases s). matches sid token l)"
proof -
  have "length (filter (\<lambda>ob. \<not> matches sid token ob) obs) < length obs
      \<longleftrightarrow> (\<exists>ob \<in> set obs. matches sid token ob)" for obs
  proof (induction obs)
    case (Cons ob obs)
    have "length (filter (\<lambda>ob. \<not> matches sid token ob) obs) < Suc (length obs)"
      by (simp add: le_imp_less_Suc)
    with Cons show ?case by auto
  qed simp
  then show ?thesis
    by (auto simp: release_state_def Let_def state_leases_def split: option.splits)
qed

lemma leases_release_with_token:
  "leases_on j (fst (release_with_token i sid token m)) =
     (if j = i then filter (\<lambda>l. \<not> matches sid token l) (leases_on j m) else leases_on j m)"
proof -
  let ?s = "fst (release_state sid token (entry_or_new m i))"
  have "filter (\<lambda>l. \<not> matches sid token l) (leases_on i m) = state_leases ?s"
    by (simp add: leases_release_state leases_entry_or_new)
  then show ?thesis
    using state_leases_empty [of "fst (try_promote ?s)"]
    by (auto simp: release_with_token_def case_prod_unfold Let_def)
qed

lemma leases_reap_state:
  "state_leases (fst (reap_state now s)) = filter (\<lambda>l. now < li_expires_at l) (state_leases s)"
  by (auto simp: state_leases_def reap_state_sel split: option.splits)

lemma leases_reap_each:
  "leases_on j (fst (reap_each now i p)) =
     (if j = i then filter (\<lambda>l. now < li_expires_at l) (leases_on j (fst p)) else leases_on j (fst p))"
proof (cases "tab_get i (locks (fst p))")
  case None
  then show ?thesis by (auto simp: reap_each_def case_prod_unfold leases_on_def)
next
  case (Some s)
  then have "leases_on i (fst p) = state_leases s" by (simp add: leases_on_def)
  with Some show ?thesis
    using state_leases_empty [of "fst (reap_state now s)"]
    by (auto simp: reap_each_def case_prod_unfold Let_def leases_reap_state)
qed

text \<open>A sweep over a snapshot of the keys that filters the leases of each key it visits.\<close>

lemma sweep_leases:
  assumes "\<And>i j p. leases_on j (fst (f i p)) =
      (if j = i then filter P (leases_on j (fst p)) else leases_on j (fst p))"
  shows "leases_on j (fst (fold f ks p)) =
      (if j \<in> set ks then filter P (leases_on j (fst p)) else leases_on j (fst p))"
  by (induction ks arbitrary: p) (auto simp: assms)

lemma leases_outside_keys: "j \<notin> set (tab_keys (locks m)) \<Longrightarrow> leases_on j m = []"
  by (simp add: tab.set_keys leases_on_def)

lemma sweep_all_leases:
  assumes "\<And>i j p. leases_on j (fst (f i p)) =
      (if j = i then filter P (leases_on j (fst p)) else leases_on j (fst p))"
  shows "leases_on j (fst (fold f (tab_keys (locks m)) (m, ns))) = filter P (leases_on j m)"
  using leases_outside_keys [of j m] by (simp add: sweep_leases [OF assms])

lemma leases_map_purge:
  "leases_on j (with_locks (tab_map (purge_queue sid) (locks m)) m') = leases_on j m"
  by (simp add: leases_on_def split: option.splits)

end
