(* ===== verification/Lock_Effects.thy ===== *)
theory Lock_Effects
  imports Lock_Invariants
begin

section \<open>The effect of the lock manager's methods\<close>

text \<open>
  What each public method does to the leases on every instance, including the ones it does
  not name, when it is refused, and whom it notifies. The last section proves the corner
  cases where the code's behaviour differs from its comments.
\<close>

subsection \<open>Acquiring\<close>

lemma acquire_access_state:
  assumes "lock_ok s" and "acquire_state now tok sid agent lt ttl auto s = (s', Inr info)"
  shows "li_session_id info = sid \<and> li_expires_at info = expiry now ttl \<and>
    (if exclusive s' = None
     then lt = Observer \<and> (\<exists>ob \<in> set (observers s'). li_session_id ob = sid)
     else exclusive s' = Some info)"
proof (cases "exclusive s")
  case (Some e)
  with assms show ?thesis by (cases lt) (auto simp: acquire_defs lock_ok_def split: if_splits)
next
  case n: None
  show ?thesis
  proof (cases "if lt = Observer then find (\<lambda>ob. li_session_id ob = sid) (observers s) else None")
    case None
    with n assms show ?thesis
      by (auto simp: acquire_state_def acquire_not_holder_def grant_def split: acquire_splits)
  next
    case (Some ob)
    then have ob: "ob \<in> set (observers s)" "li_session_id ob = sid" "lt = Observer"
      by (auto split: if_splits dest: find_Some_iff_ex)
    then have "sid \<in> li_session_id ` set (update_first (\<lambda>ob. li_session_id ob = sid)
        (renew_info now ttl agent) (observers s))"
      by (simp add: set_sids_update_first image_iff) metis
    with n Some ob assms(2) show ?thesis
      by (auto simp: acquire_state_def acquire_not_holder_def)
  qed
qed

lemma acquire_inner_access:
  assumes "lm_reachable m" and "acquire_inner now tok i sid agent lt ttl auto m = (m', Inr info)"
  shows "li_session_id info = sid \<and> li_expires_at info = expiry now ttl \<and>
    check_access i sid lt m' = Inr () \<and>
    (lt = Exclusive \<longrightarrow> (\<forall>sid' rt. sid' \<noteq> sid \<longrightarrow> check_access i sid' rt m' = Inl (locked_by info)))"
proof -
  obtain s' where a: "acquire_state now tok sid agent lt ttl auto (entry_or_new m i) = (s', Inr info)"
    and m': "m' = put_state i s' m"
    using assms(2) by (auto simp: acquire_inner_def split: prod.splits)
  have ok: "lock_ok (entry_or_new m i)"
    by (rule excl.ok_entry_or_new [OF excl.ok_reachable [OF assms(1)]])
  note acc = acquire_access_state [OF ok a]
  show ?thesis
  proof (cases "exclusive s'")
    case None
    with acc m' show ?thesis
      by (auto simp: check_access_def check_access_with_token_def list_ex_iff)
  next
    case (Some e)
    with acc m' show ?thesis
      by (cases lt) (auto simp: check_access_def check_access_with_token_def split: lock_type.splits)
  qed
qed

lemma leases_acquire_inner_other:
  "j \<noteq> i \<Longrightarrow> leases_on j (fst (acquire_inner now tok i sid agent lt ttl auto m)) = leases_on j m"
  by (simp add: acquire_inner_def case_prod_unfold Let_def)

text \<open>A successful acquire gives access and keeps the others out. In a reachable manager,
  an acquire that returns a lease returns it in the caller's name with the requested
  lifetime; the caller then passes the access check for what it asked for; if it asked for
  exclusive access, every other session is refused with the new holder's name for both
  kinds of access; and the leases on the other instances are as before.\<close>

theorem acquire_grants_access:
  assumes "lm_reachable m" and "acquire now tok i sid agent lt ttl m = (m', Inr info)"
  shows "li_session_id info = sid \<and> li_expires_at info = expiry now ttl \<and>
    check_access i sid lt m' = Inr () \<and>
    (lt = Exclusive \<longrightarrow> (\<forall>sid' rt. sid' \<noteq> sid \<longrightarrow> check_access i sid' rt m' = Inl (locked_by info))) \<and>
    (\<forall>j. j \<noteq> i \<longrightarrow> leases_on j m' = leases_on j m)"
  using acquire_inner_access [OF assms(1), of now tok i sid agent lt ttl False m' info]
    leases_acquire_inner_other [of _ i now tok sid agent lt ttl False m] assms(2)
  by (simp add: acquire_def)

lemma acquire_grants_access_witness:
  "check_access ''dev'' 2 Observer (fst (acquire 0 7 ''dev'' 1 None Exclusive 5 new_manager))
     = Inl (InstanceLocked 1 None 5)"
proof -
  obtain m' where a: "acquire 0 7 ''dev'' 1 None Exclusive 5 new_manager
      = (m', Inr (fresh_info 0 7 1 None Exclusive 5 False))"
    by (simp add: acquire_def acquire_inner_def acquire_defs entry_or_new_def)
  have e: "fst (acquire 0 7 ''dev'' 1 None Exclusive 5 new_manager) = m'" using a by simp
  show ?thesis
    using acquire_grants_access [OF reach_new a]
    unfolding e by (simp add: locked_by_def fresh_info_def expiry_def lease_nanos_def)
qed

subsection \<open>Releasing\<close>

text \<open>Releasing. By session or by token, a release removes exactly the matching leases of
  the instance and no lease of another instance; it fails, with the instance's name, exactly
  when no lease matches; and a success reports a promotion exactly when some waiter was
  notified.\<close>

theorem release_effect:
  shows "leases_on j (fst (release_with_token i sid token m)) =
      (if j = i then filter (\<lambda>l. \<not> matches sid token l) (leases_on j m) else leases_on j m) \<and>
    (case snd (release_with_token i sid token m) of
       (ns, Inl e) \<Rightarrow> e = NotHeld i \<and> ns = [] \<and> (\<forall>l \<in> set (leases_on i m). \<not> matches sid token l)
     | (ns, Inr promoted) \<Rightarrow>
         (promoted \<longleftrightarrow> ns \<noteq> []) \<and> (\<exists>l \<in> set (leases_on i m). matches sid token l))"
proof -
  have "snd (release_state sid token (entry_or_new m i)) \<longleftrightarrow>
      (\<exists>l \<in> set (leases_on i m). matches sid token l)"
    by (simp add: released_iff leases_entry_or_new)
  then have "case snd (release_with_token i sid token m) of
       (ns, Inl e) \<Rightarrow> e = NotHeld i \<and> ns = [] \<and> (\<forall>l \<in> set (leases_on i m). \<not> matches sid token l)
     | (ns, Inr promoted) \<Rightarrow>
         (promoted \<longleftrightarrow> ns \<noteq> []) \<and> (\<exists>l \<in> set (leases_on i m). matches sid token l)"
    by (auto simp: release_with_token_def case_prod_unfold Let_def)
  with leases_release_with_token show ?thesis by blast
qed

lemma release_effect_witness:
  "leases_on ''b'' (fst (release_with_token ''a'' 1 None new_manager)) = []"
  using release_effect [of "''b''" "''a''" 1 None new_manager] by (simp add: leases_on_def)

subsection \<open>Ending a session\<close>

lemma leases_release_each:
  "leases_on j (fst (release_each sid i p)) =
     (if j = i then filter (\<lambda>l. li_session_id l \<noteq> sid) (leases_on j (fst p)) else leases_on j (fst p))"
  using leases_release_with_token [of j i sid None "fst p"]
  by (auto simp: release_each_def release_def case_prod_unfold Let_def)

lemma active_release [simp]:
  "active_sessions (fst (release_with_token i sid token m)) = active_sessions m"
  by (simp add: release_with_token_def case_prod_unfold Let_def)

lemma active_release_fold: "active_sessions (fst (fold (release_each sid) ks p)) = active_sessions (fst p)"
  by (induction ks arbitrary: p) (auto simp: release_each_def release_def case_prod_unfold Let_def)

text \<open>A session that ends leaves nothing behind. After it is unregistered it is not
  active, no instance has a lease of it and no queue an entry of it, and every lease of every
  other session is still there.\<close>

theorem unregister_cleans_up:
  assumes "unregister_session sid m = (m', ns)"
  shows "\<not> is_session_active sid m' \<and>
    (\<forall>i. leases_on i m' = filter (\<lambda>l. li_session_id l \<noteq> sid) (leases_on i m)) \<and>
    (\<forall>i s. tab_get i (locks m') = Some s \<longrightarrow> (\<forall>w \<in> set (wait_queue s). we_session_id w \<noteq> sid))"
proof -
  let ?m0 = "m\<lparr>active_sessions := active_sessions m - {sid}\<rparr>"
  let ?p = "fold (release_each sid) (tab_keys (locks ?m0)) (?m0, [])"
  have m': "m' = with_locks (tab_map (purge_queue sid) (locks (fst ?p))) (fst ?p)"
    using assms by (simp add: unregister_session_def release_all_for_session_def
        case_prod_unfold Let_def)
  have "leases_on i (fst ?p) = filter (\<lambda>l. li_session_id l \<noteq> sid) (leases_on i ?m0)" for i
    by (rule sweep_all_leases) (rule leases_release_each)
  moreover have "leases_on i ?m0 = leases_on i m" for i by (simp add: leases_on_def)
  ultimately show ?thesis
    unfolding m' by (auto simp: leases_map_purge is_session_active_def active_release_fold purge_queue_def)
qed

lemma unregister_cleans_up_witness:
  "\<not> is_session_active 1 (fst (unregister_session 1 (register_session 1 new_manager)))"
  using unregister_cleans_up [of 1 "register_session 1 new_manager"
      "fst (unregister_session 1 (register_session 1 new_manager))"
      "snd (unregister_session 1 (register_session 1 new_manager))"]
  by simp

subsection \<open>Expiry\<close>

text \<open>The reaper drops the expired leases and no other. After a sweep at time \<open>now\<close> the
  leases on every instance are the unexpired ones, in the same order.\<close>

theorem reap_keeps_unexpired:
  "leases_on i (fst (reap_expired now m)) = filter (\<lambda>l. now < li_expires_at l) (leases_on i m)"
  unfolding reap_expired_def by (rule sweep_all_leases) (rule leases_reap_each)

subsection \<open>The queue\<close>

definition is_observer_wait :: "wait_entry \<Rightarrow> bool" where
  "is_observer_wait w = (we_requested_lock_type w = Observer)"

definition promoted_prefix :: "instance_lock_state \<Rightarrow> wait_entry list" where
  "promoted_prefix s =
     (if exclusive s \<noteq> None then []
      else takeWhile is_observer_wait (wait_queue s) @
        (if observers s = [] then take 1 (dropWhile is_observer_wait (wait_queue s)) else []))"

lemma promote_loop_prefix:
  "promote_loop b q =
     (if b then dropWhile is_observer_wait q else drop 1 (dropWhile is_observer_wait q),
      map we_notify (takeWhile is_observer_wait q @
        (if b then [] else take 1 (dropWhile is_observer_wait q))))"
proof (induction q)
  case (Cons w q)
  have "is_observer_wait w \<longleftrightarrow> we_requested_lock_type w = Observer" by (simp add: is_observer_wait_def)
  with Cons show ?case by (cases "we_requested_lock_type w") auto
qed simp

text \<open>Promotion is first come, first served. While an exclusive lease is held nobody is
  notified; otherwise the waiters notified are, in the order they queued, the observers at
  the front of the queue and then, if the instance has no observer, the first exclusive
  waiter behind them; exactly these leave the queue and no lease changes.\<close>

theorem promotion_is_fifo:
  "wait_queue s = promoted_prefix s @ wait_queue (fst (try_promote s)) \<and>
   snd (try_promote s) = map we_notify (promoted_prefix s) \<and>
   state_leases (fst (try_promote s)) = state_leases s"
proof -
  have "xs = takeWhile P xs @ take 1 (dropWhile P xs) @ drop 1 (dropWhile P xs)" for P and xs :: "wait_entry list"
    by (simp only: append_take_drop_id takeWhile_dropWhile_id)
  then show ?thesis
    by (auto simp: try_promote_def promoted_prefix_def promote_loop_prefix state_leases_def)
qed

subsection \<open>Corner cases\<close>

text \<open>Two sessions race: the second is refused, the first releases, then the second queues.\<close>

definition lost_wakeup_run :: lock_manager where
  "lost_wakeup_run =
     (let m1 = fst (acquire 0 7 ''dev'' 1 None Exclusive 60 new_manager);
          m2 = fst (acquire_or_wait_try 1 8 ''dev'' 2 None Exclusive 60 m1);
          m3 = fst (release ''dev'' 1 m2)
      in acquire_or_wait_enqueue 2 0 ''dev'' 2 None Exclusive m3)"

lemma lost_wakeup_run_reachable: "lm_reachable lost_wakeup_run"
  unfolding lost_wakeup_run_def Let_def release_def
  by (intro reach_step [OF _ step_wait_enqueue] reach_step [OF _ step_release]
      reach_step [OF _ step_wait_try] reach_step [OF _ step_acquire] reach_new)

lemmas run_defs = acquire_or_wait_try_def acquire_or_wait_enqueue_def enqueue_state_def
  acquire_def acquire_inner_def acquire_defs entry_or_new_def release_def release_with_token_def
  release_state_def try_promote_def is_empty_state_def

text \<open>A lost wake-up. \<open>acquire_or_wait\<close> tries first and queues in a second step, so a
  release between the two notifies nobody: a reachable manager has a waiter queued on an
  instance on which no lease is held, and a sweep of the reaper notifies nobody.\<close>

theorem lost_wakeup_reachable:
  "lm_reachable lost_wakeup_run \<and> leases_on ''dev'' lost_wakeup_run = [] \<and>
   map wq_session_id (ls_wait_queue (status ''dev'' lost_wakeup_run)) = [2] \<and>
   snd (reap_expired now lost_wakeup_run) = []"
proof -
  have r: "lost_wakeup_run = \<lparr>locks = [(''dev'', \<lparr>exclusive = None, observers = [], wait_queue =
      [\<lparr>we_session_id = 2, we_agent_name = None, we_requested_lock_type = Exclusive,
        we_queued_at = 2, we_notify = 0\<rparr>]\<rparr>)], active_sessions = {}\<rparr>"
    by (simp add: lost_wakeup_run_def run_defs new_manager_def put_state_def drop_state_def
        tab_insert_def tab_remove_def tab_get_def new_state_def Let_def)
  have "leases_on ''dev'' lost_wakeup_run = []"
    by (simp add: r leases_on_def tab_get_def state_leases_def)
  moreover have "map wq_session_id (ls_wait_queue (status ''dev'' lost_wakeup_run)) = [2]"
    by (simp add: r status_def tab_get_def to_status_def)
  moreover have "snd (reap_expired now lost_wakeup_run) = []"
    by (simp add: r reap_expired_def tab_keys_def reap_each_def reap_state_def tab_get_def)
  ultimately show ?thesis using lost_wakeup_run_reachable by blast
qed

text \<open>An explicit acquire by the holder of an auto-acquired lease leaves the lease marked as
  auto-acquired, so that another session's lock check may still reclaim it.\<close>

theorem explicit_acquire_keeps_auto_mark:
  assumes "tab_get i (locks m) = Some s" and "exclusive s = Some e" and "li_session_id e = sid"
  shows "is_auto_acquired i (fst (acquire now tok i sid agent lt ttl m)) = li_auto_acquired e"
  using assms
  by (simp add: acquire_def acquire_inner_def acquire_state_def entry_or_new_def is_auto_acquired_def)

lemma explicit_acquire_keeps_auto_mark_witness:
  "is_auto_acquired ''dev'' (fst (acquire 1 8 ''dev'' 1 (Some ''agent'') Exclusive 60
     (put_state ''dev'' (new_state\<lparr>exclusive := Some (fresh_info 0 7 1 None Exclusive 60 True)\<rparr>) new_manager)))"
  using explicit_acquire_keeps_auto_mark [of "''dev''"
      "put_state ''dev'' (new_state\<lparr>exclusive := Some (fresh_info 0 7 1 None Exclusive 60 True)\<rparr>) new_manager"
      "new_state\<lparr>exclusive := Some (fresh_info 0 7 1 None Exclusive 60 True)\<rparr>"]
  by simp

end
