(* ===== verification/Lock_Gate.thy ===== *)
theory Lock_Gate
  imports Lock_Effects
begin

section \<open>The lock check in front of every tool\<close>

text \<open>
  \<open>crates/vscreen-server/src/mcp/mod.rs\<close>: every MCP tool first calls \<open>require_lock\<close>, which
  passes a session that already has access, acquires the lock for it if nobody is in the way,
  and takes over leases that were themselves acquired automatically. \<open>vscreen_lock\<close> is the
  explicit tool. The calls on the lock manager inside one check run in sequence; a refusal
  is the lock manager's error, which \<open>lock_error_to_mcp\<close> turns into a message.
  \<open>Uuid::parse_str\<close>, which reads a lock token, is a parameter.
\<close>

subsection \<open>Definitions\<close>

definition parse_lock_type :: "string \<Rightarrow> lock_type option" where
  "parse_lock_type s =
     (if s = ''exclusive'' then Some Exclusive
      else if s = ''observer'' then Some Observer
      else None)"

definition auto_acquire ::
  "instant \<Rightarrow> lock_token \<Rightarrow> instance_id \<Rightarrow> session_id \<Rightarrow> lock_type \<Rightarrow> lock_manager
     \<Rightarrow> lock_manager \<times> (lock_error + unit)" where
  "auto_acquire now tok i sid lt m =
     (let (m', r) = acquire_auto now tok i sid lt (120 * 1000000000) m
      in (m', case r of Inr _ \<Rightarrow> Inr () | Inl e \<Rightarrow> Inl e))"

definition reclaim_observer :: "instance_id \<Rightarrow> lock_info \<Rightarrow> lock_manager \<Rightarrow> lock_manager" where
  "reclaim_observer i ob m =
     (if li_auto_acquired ob \<or> \<not> is_session_active (li_session_id ob) m
      then fst (release i (li_session_id ob) m) else m)"

definition reclaim :: "instance_id \<Rightarrow> lock_manager \<Rightarrow> lock_manager" where
  "reclaim i m =
     (let st = status i m;
          m1 = (case ls_exclusive_holder st of
                  Some exc \<Rightarrow>
                    if li_auto_acquired exc then fst (release i (li_session_id exc) m) else m
                | None \<Rightarrow> m)
      in fold (reclaim_observer i) (ls_observers st) m1)"

text \<open>The part of \<open>require_lock\<close> after the first check and acquisition failed.\<close>

definition require_lock_reclaim ::
  "instant \<Rightarrow> lock_token \<Rightarrow> instance_id \<Rightarrow> session_id \<Rightarrow> lock_type \<Rightarrow> lock_manager
     \<Rightarrow> lock_manager \<times> (lock_error + unit)" where
  "require_lock_reclaim now tok i sid required m =
     (if is_auto_acquired i m then
        (let (m', r) = auto_acquire now tok i sid required (reclaim i m)
         in case r of
              Inr _ \<Rightarrow> (m', Inr ())
            | Inl _ \<Rightarrow> (m', check_access i sid required m'))
      else (m, check_access i sid required m))"

definition require_lock ::
  "bool \<Rightarrow> instant \<Rightarrow> lock_token \<Rightarrow> lock_token \<Rightarrow> instance_id \<Rightarrow> session_id \<Rightarrow> lock_type
     \<Rightarrow> lock_manager \<Rightarrow> lock_manager \<times> (lock_error + unit)" where
  "require_lock single_agent_mode now tok1 tok2 i sid required m =
     (if single_agent_mode then (m, Inr ())
      else case check_access i sid required m of
             Inr _ \<Rightarrow> (m, Inr ())
           | Inl (NotHeld _) \<Rightarrow>
               (let (m', r) = auto_acquire now tok1 i sid required m
                in case r of
                     Inr _ \<Rightarrow> (m', Inr ())
                   | Inl _ \<Rightarrow> require_lock_reclaim now tok2 i sid required m')
           | Inl _ \<Rightarrow> require_lock_reclaim now tok2 i sid required m)"

definition require_exclusive where
  "require_exclusive single now tok1 tok2 i sid m = require_lock single now tok1 tok2 i sid Exclusive m"

definition require_observer_or_exclusive where
  "require_observer_or_exclusive single now tok1 tok2 i sid m =
     require_lock single now tok1 tok2 i sid Observer m"

subsection \<open>The explicit tool\<close>

record lock_params =
  lp_action :: string
  lp_instance_id :: "string option"
  lp_lock_type :: string
  lp_agent_name :: "string option"
  lp_ttl_seconds :: u64
  lp_wait_timeout_seconds :: u64
  lp_lock_token :: "string option"

record status_view =
  sv_status :: lock_status
  you_hold_exclusive :: bool
  you_hold_observer :: bool
  your_queue_position :: "nat option"

datatype lock_reply =
    LockAcquired lock_info
  | LockWaiting
  | LockReleased bool
  | LockRenewed lock_info
  | LockStatuses "status_view list"
  | LockRefused lock_error
  | InvalidParams string

fun position :: "('a \<Rightarrow> bool) \<Rightarrow> 'a list \<Rightarrow> nat option" where
  "position p [] = None"
| "position p (x # xs) = (if p x then Some 0 else map_option Suc (position p xs))"

definition status_view_of :: "session_id \<Rightarrow> lock_status \<Rightarrow> status_view" where
  "status_view_of sid st =
     \<lparr>sv_status = st,
      you_hold_exclusive =
        (case ls_exclusive_holder st of None \<Rightarrow> False | Some h \<Rightarrow> li_session_id h = sid),
      you_hold_observer = list_ex (\<lambda>ob. li_session_id ob = sid) (ls_observers st),
      your_queue_position = position (\<lambda>w. wq_session_id w = sid) (ls_wait_queue st)\<rparr>"

definition ttl_nanos :: "u64 \<Rightarrow> nat" where
  "ttl_nanos secs = max (unat secs) 1 * 1000000000"

definition lock_reply_of :: "lock_error + lock_info \<Rightarrow> lock_reply" where
  "lock_reply_of r = (case r of Inr info \<Rightarrow> LockAcquired info | Inl e \<Rightarrow> LockRefused e)"

definition vscreen_lock ::
  "(string \<Rightarrow> lock_token option) \<Rightarrow> instant \<Rightarrow> lock_token \<Rightarrow> session_id \<Rightarrow> lock_params
     \<Rightarrow> lock_manager \<Rightarrow> lock_manager \<times> lock_reply" where
  "vscreen_lock parse_token now tok sid p m =
     (let action = to_lowercase (lp_action p);
          token = Option.bind (lp_lock_token p) parse_token
      in if action = ''acquire'' then
           (case lp_instance_id p of
              None \<Rightarrow> (m, InvalidParams (''instance_id required for action '' @ quoted ''acquire''))
            | Some i \<Rightarrow>
                (case parse_lock_type (lp_lock_type p) of
                   None \<Rightarrow>
                     (m, InvalidParams (''invalid lock_type '' @ quoted (lp_lock_type p) @
                        '': must be '' @ quoted ''exclusive'' @ '' or '' @ quoted ''observer''))
                 | Some lt \<Rightarrow>
                     if 0 < lp_wait_timeout_seconds p then
                       (let (m', w) = acquire_or_wait_try now tok i sid (lp_agent_name p) lt
                                        (ttl_nanos (lp_ttl_seconds p)) m
                        in (m', case w of Answered r \<Rightarrow> lock_reply_of r | Blocked \<Rightarrow> LockWaiting))
                     else
                       (let (m', r) = acquire now tok i sid (lp_agent_name p) lt
                                        (ttl_nanos (lp_ttl_seconds p)) m
                        in (m', lock_reply_of r))))
         else if action = ''release'' then
           (case lp_instance_id p of
              None \<Rightarrow> (m, InvalidParams (''instance_id required for action '' @ quoted ''release''))
            | Some i \<Rightarrow>
                (let (m', _, r) = release_with_token i sid token m
                 in (m', case r of Inr promoted \<Rightarrow> LockReleased promoted | Inl e \<Rightarrow> LockRefused e)))
         else if action = ''renew'' then
           (case lp_instance_id p of
              None \<Rightarrow> (m, InvalidParams (''instance_id required for action '' @ quoted ''renew''))
            | Some i \<Rightarrow>
                (let (m', r) = renew_with_token now i sid token (ttl_nanos (lp_ttl_seconds p)) m
                 in (m', case r of Inr info \<Rightarrow> LockRenewed info | Inl e \<Rightarrow> LockRefused e)))
         else if action = ''status'' then
           (m, LockStatuses (map (status_view_of sid)
                 (case lp_instance_id p of Some i \<Rightarrow> [status i m] | None \<Rightarrow> status_all m)))
         else (m, InvalidParams (''invalid action '' @ quoted (lp_action p) @ '': must be '' @
                 quoted ''acquire'' @ '', '' @ quoted ''release'' @ '', '' @ quoted ''renew'' @
                 '', or '' @ quoted ''status'')))"

text \<open>Dropping the guard of a session.\<close>

definition session_guard_drop :: "session_id \<Rightarrow> lock_manager \<Rightarrow> lock_manager" where
  "session_guard_drop sid m = fst (unregister_session sid m)"

subsection \<open>Access and leases\<close>

definition conflicting :: "session_id \<Rightarrow> lock_type \<Rightarrow> lock_info \<Rightarrow> bool" where
  "conflicting sid required l =
     (li_session_id l \<noteq> sid \<and> (li_lock_type l = Exclusive \<or> required = Exclusive))"

lemma state_leases_cases:
  "exclusive s = Some e \<Longrightarrow> lock_ok s \<Longrightarrow> state_leases s = [e] \<and> li_lock_type e = Exclusive"
  "exclusive s = None \<Longrightarrow> state_leases s = observers s"
  by (auto simp: state_leases_def lock_ok_def)

lemma acquire_state_ok_iff:
  assumes "lock_ok s"
  shows "(\<exists>info. snd (acquire_state now tok sid agent lt ttl auto s) = Inr info) \<longleftrightarrow>
    (\<forall>l \<in> set (state_leases s). \<not> conflicting sid lt l)"
proof (cases "exclusive s")
  case (Some e)
  with assms show ?thesis
    by (cases lt) (auto simp: acquire_defs state_leases_cases conflicting_def lock_ok_def)
next
  case n: None
  note obs = state_leases_cases(2) [OF n]
  show ?thesis
  proof (cases lt)
    case Observer
    have "\<forall>l \<in> set (observers s). li_lock_type l = Observer"
      using assms by (simp add: lock_ok_def list_all_iff)
    with n Observer obs show ?thesis
      by (auto simp: acquire_state_def acquire_not_holder_def grant_def conflicting_def
          split: option.splits)
  next
    case Exclusive
    with n obs self_upgrade_iff [OF assms n, of sid] show ?thesis
      by (cases "observers s")
        (auto simp: acquire_state_def acquire_not_holder_def grant_def blocker_def conflicting_def)
  qed
qed

lemma acquire_inner_ok_iff:
  assumes "lm_reachable m"
  shows "(\<exists>info. snd (acquire_inner now tok i sid agent lt ttl auto m) = Inr info) \<longleftrightarrow>
    (\<forall>l \<in> set (leases_on i m). \<not> conflicting sid lt l)"
  using acquire_state_ok_iff [OF excl.ok_entry_or_new [OF excl.ok_reachable [OF assms], of i],
      of now tok sid agent lt ttl auto]
  by (simp add: acquire_inner_def case_prod_unfold Let_def leases_entry_or_new)

lemma check_access_ok_iff:
  assumes "lm_reachable m"
  shows "check_access i sid rt m = Inr () \<longleftrightarrow>
    (\<exists>l \<in> set (leases_on i m). li_session_id l = sid \<and> (rt = Exclusive \<longrightarrow> li_lock_type l = Exclusive))"
proof (cases "tab_get i (locks m)")
  case None
  then show ?thesis by (simp add: check_access_def check_access_with_token_def leases_on_def)
next
  case (Some s)
  have ok: "lock_ok s" by (rule excl.ok_get [OF excl.ok_reachable [OF assms] Some])
  from Some have l: "leases_on i m = state_leases s" by (simp add: leases_on_def)
  show ?thesis
  proof (cases "exclusive s")
    case None
    with ok show ?thesis
      by (cases rt) (auto simp: check_access_def check_access_with_token_def Some l
          state_leases_cases lock_ok_def list_ex_iff list_all_iff)
  next
    case (Some e)
    with ok \<open>tab_get i (locks m) = Some s\<close> show ?thesis
      by (cases rt) (auto simp: check_access_def check_access_with_token_def l state_leases_cases)
  qed
qed

lemma is_auto_acquired_iff:
  assumes "lm_reachable m"
  shows "is_auto_acquired i m \<longleftrightarrow>
    leases_on i m \<noteq> [] \<and> (\<forall>l \<in> set (leases_on i m). li_auto_acquired l)"
proof (cases "tab_get i (locks m)")
  case (Some s)
  then show ?thesis
    using excl.ok_get [OF excl.ok_reachable [OF assms] Some]
    by (cases "exclusive s")
      (auto simp: is_auto_acquired_def leases_on_def state_leases_cases list_all_iff)
qed (simp add: is_auto_acquired_def leases_on_def)

subsection \<open>Automatic acquisition\<close>

lemma filter_update_first_others:
  "(\<And>x. p x \<Longrightarrow> \<not> q x \<and> \<not> q (f x)) \<Longrightarrow> filter q (update_first p f xs) = filter q xs"
  by (induction xs) auto

lemma acquire_state_others:
  assumes "lock_ok s"
  shows "filter (\<lambda>l. li_session_id l \<noteq> sid)
      (state_leases (fst (acquire_state now tok sid agent lt ttl auto s))) =
    filter (\<lambda>l. li_session_id l \<noteq> sid) (state_leases s)"
proof (cases "exclusive s")
  case (Some e)
  with assms show ?thesis
    by (cases lt) (auto simp: acquire_defs state_leases_def lock_ok_def)
next
  case n: None
  show ?thesis
  proof (cases "if lt = Observer then find (\<lambda>ob. li_session_id ob = sid) (observers s) else None")
    case None
    with n show ?thesis
      by (auto simp: acquire_state_def acquire_not_holder_def grant_def blocker_def
          is_self_upgrade_def state_leases_def split: lock_type.splits list.splits)
  next
    case (Some ob)
    with n show ?thesis
      by (auto simp: acquire_state_def acquire_not_holder_def state_leases_def
          intro!: filter_update_first_others)
  qed
qed

lemma auto_acquire_sel:
  "fst (auto_acquire now tok i sid lt m) =
     fst (acquire_inner now tok i sid None lt (120 * 1000000000) True m)"
  "snd (auto_acquire now tok i sid lt m) = Inr () \<longleftrightarrow>
     (\<exists>info. snd (acquire_inner now tok i sid None lt (120 * 1000000000) True m) = Inr info)"
  by (auto simp: auto_acquire_def acquire_auto_def case_prod_unfold Let_def split: sum.splits)

lemma auto_acquire_ok_iff:
  assumes "lm_reachable m"
  shows "snd (auto_acquire now tok i sid lt m) = Inr () \<longleftrightarrow>
    (\<forall>l \<in> set (leases_on i m). \<not> conflicting sid lt l)"
  unfolding auto_acquire_sel by (rule acquire_inner_ok_iff [OF assms])

lemma auto_acquire_reachable:
  assumes "lm_reachable m"
  shows "lm_reachable (fst (auto_acquire now tok i sid lt m))"
  using reach_step [OF assms step_acquire_auto, of now tok i sid lt "120 * 1000000000"]
  by (simp add: auto_acquire_sel acquire_auto_def)

lemma auto_acquire_access:
  assumes "lm_reachable m" and "snd (auto_acquire now tok i sid lt m) = Inr ()"
  shows "check_access i sid lt (fst (auto_acquire now tok i sid lt m)) = Inr ()"
proof -
  obtain info where
    "acquire_inner now tok i sid None lt (120 * 1000000000) True m =
      (fst (auto_acquire now tok i sid lt m), Inr info)"
    using assms(2) unfolding auto_acquire_sel by (metis prod.collapse)
  from acquire_inner_access [OF assms(1) this] show ?thesis by simp
qed

lemma auto_acquire_others:
  assumes "lm_reachable m"
  shows "filter (\<lambda>l. li_session_id l \<noteq> sid) (leases_on j (fst (auto_acquire now tok i sid lt m))) =
    filter (\<lambda>l. li_session_id l \<noteq> sid) (leases_on j m)"
  using acquire_state_others [OF excl.ok_entry_or_new [OF excl.ok_reachable [OF assms], of i],
      of sid now tok None lt "120 * 1000000000" True]
  by (auto simp: auto_acquire_sel acquire_inner_def case_prod_unfold Let_def leases_entry_or_new)

lemma auto_acquire_fail:
  assumes "lm_reachable m" and "snd (auto_acquire now tok i sid lt m) \<noteq> Inr ()"
  shows "leases_on j (fst (auto_acquire now tok i sid lt m)) = leases_on j m"
proof -
  let ?r = "acquire_state now tok sid None lt (120 * 1000000000) True (entry_or_new m i)"
  have "\<forall>info. snd ?r \<noteq> Inr info"
    using assms(2) by (simp add: auto_acquire_sel acquire_inner_def case_prod_unfold Let_def)
  then have "fst ?r = entry_or_new m i"
    by (auto simp: acquire_state_def acquire_not_holder_def grant_def
        split: option.splits if_splits lock_type.splits)
  then show ?thesis
    by (simp add: auto_acquire_sel acquire_inner_def case_prod_unfold Let_def leases_entry_or_new)
qed

subsection \<open>Reclaiming\<close>

lemma reachable_release: "lm_reachable m \<Longrightarrow> lm_reachable (fst (release i sid m))"
  unfolding release_def by (erule reach_step) (rule step_release)

lemma reachable_reclaim: "lm_reachable m \<Longrightarrow> lm_reachable (reclaim i m)"
proof -
  assume m: "lm_reachable m"
  have f: "lm_reachable m1 \<Longrightarrow> lm_reachable (fold (reclaim_observer i) obs m1)" for m1 obs
    by (rule fold_invariant) (simp_all add: reclaim_observer_def reachable_release)
  show ?thesis
    using m by (simp add: reclaim_def Let_def reachable_release f split: option.split)
qed

lemma leases_release: "leases_on j (fst (release i sid m)) =
    (if j = i then filter (\<lambda>l. li_session_id l \<noteq> sid) (leases_on j m) else leases_on j m)"
  by (simp add: release_def leases_release_with_token)

lemma leases_reclaim_observers:
  "list_all li_auto_acquired obs \<Longrightarrow>
   leases_on j (fold (reclaim_observer i) obs m) =
     (if j = i then filter (\<lambda>l. li_session_id l \<notin> li_session_id ` set obs) (leases_on j m)
      else leases_on j m)"
proof (induction obs arbitrary: m)
  case (Cons ob obs)
  let ?m = "fst (release i (li_session_id ob) m)"
  have "leases_on j (fold (reclaim_observer i) (ob # obs) m) = leases_on j (fold (reclaim_observer i) obs ?m)"
    using Cons.prems by (simp add: reclaim_observer_def)
  also have "\<dots> = (if j = i then filter (\<lambda>l. li_session_id l \<notin> li_session_id ` set obs) (leases_on j ?m)
      else leases_on j ?m)"
    using Cons by simp
  also have "\<dots> = (if j = i then filter (\<lambda>l. li_session_id l \<notin> li_session_id ` set (ob # obs)) (leases_on j m)
      else leases_on j m)"
    by (simp add: leases_release)
  finally show ?case .
qed simp

lemma reclaim_all_auto:
  assumes "lm_reachable m" and "is_auto_acquired i m"
  shows "leases_on j (reclaim i m) = (if j = i then [] else leases_on j m)"
proof -
  from assms obtain s where s: "tab_get i (locks m) = Some s"
    by (auto simp: is_auto_acquired_def split: option.splits)
  have ok: "lock_ok s" by (rule excl.ok_get [OF excl.ok_reachable [OF assms(1)] s])
  have auto_all: "\<forall>l \<in> set (state_leases s). li_auto_acquired l"
    using is_auto_acquired_iff [OF assms(1), of i] assms(2) s by (simp add: leases_on_def)
  have l: "leases_on i m = state_leases s" using s by (simp add: leases_on_def)
  show ?thesis
  proof (cases "exclusive s")
    case (Some e)
    with ok auto_all l s show ?thesis
      by (auto simp: reclaim_def status_def to_status_def leases_release state_leases_cases lock_ok_def)
  next
    case None
    with auto_all l s show ?thesis
      by (auto simp: reclaim_def status_def to_status_def leases_reclaim_observers
          state_leases_cases list_all_iff)
  qed
qed

subsection \<open>What the check guarantees\<close>

lemma require_lock_reclaim_cases:
  assumes "lm_reachable m"
  shows "snd (require_lock_reclaim now tok i sid required m) = Inr () \<longleftrightarrow>
      is_auto_acquired i m \<or> check_access i sid required m = Inr ()"
    and "snd (require_lock_reclaim now tok i sid required m) = Inr () \<Longrightarrow>
      check_access i sid required (fst (require_lock_reclaim now tok i sid required m)) = Inr ()"
    and "filter (\<lambda>l. li_session_id l \<noteq> sid \<and> \<not> li_auto_acquired l)
        (leases_on j (fst (require_lock_reclaim now tok i sid required m))) =
      filter (\<lambda>l. li_session_id l \<noteq> sid \<and> \<not> li_auto_acquired l) (leases_on j m)"
    and "lm_reachable (fst (require_lock_reclaim now tok i sid required m))"
proof -
  let ?a = "auto_acquire now tok i sid required (reclaim i m)"
  have r: "lm_reachable (reclaim i m)" by (rule reachable_reclaim [OF assms])
  have ok: "snd ?a = Inr ()" if "is_auto_acquired i m"
    using reclaim_all_auto [OF assms that, of i] auto_acquire_ok_iff [OF r] by simp
  have eq: "require_lock_reclaim now tok i sid required m =
      (if is_auto_acquired i m then (fst ?a, Inr ()) else (m, check_access i sid required m))"
    using ok by (auto simp: require_lock_reclaim_def case_prod_unfold Let_def split: sum.splits)
  show "snd (require_lock_reclaim now tok i sid required m) = Inr () \<longleftrightarrow>
      is_auto_acquired i m \<or> check_access i sid required m = Inr ()"
    by (simp add: eq)
  show "snd (require_lock_reclaim now tok i sid required m) = Inr () \<Longrightarrow>
      check_access i sid required (fst (require_lock_reclaim now tok i sid required m)) = Inr ()"
    using auto_acquire_access [OF r ok] by (auto simp: eq split: if_splits)
  show "lm_reachable (fst (require_lock_reclaim now tok i sid required m))"
    by (simp add: eq assms auto_acquire_reachable [OF r])
  show "filter (\<lambda>l. li_session_id l \<noteq> sid \<and> \<not> li_auto_acquired l)
        (leases_on j (fst (require_lock_reclaim now tok i sid required m))) =
      filter (\<lambda>l. li_session_id l \<noteq> sid \<and> \<not> li_auto_acquired l) (leases_on j m)"
  proof (cases "is_auto_acquired i m")
    case True
    have "filter (\<lambda>l. \<not> li_auto_acquired l) (filter (\<lambda>l. li_session_id l \<noteq> sid) (leases_on j (fst ?a))) =
        filter (\<lambda>l. \<not> li_auto_acquired l) (filter (\<lambda>l. li_session_id l \<noteq> sid) (leases_on j (reclaim i m)))"
      by (simp only: auto_acquire_others [OF r])
    then show ?thesis
      using True is_auto_acquired_iff [OF assms, of i]
      by (auto simp: eq conj_commute reclaim_all_auto [OF assms True] filter_empty_conv)
  qed (simp add: eq)
qed

lemma no_access_of_conflict:
  assumes "lm_reachable m" and "l \<in> set (leases_on i m)" and "conflicting sid required l"
  shows "check_access i sid required m \<noteq> Inr ()"
proof -
  have "\<not> (l' \<in> set (leases_on i m) \<and> li_session_id l' = sid \<and>
      (required = Exclusive \<longrightarrow> li_lock_type l' = Exclusive))" for l'
  proof (cases "tab_get i (locks m)")
    case (Some s)
    then show ?thesis
      using assms(2,3) excl.ok_get [OF excl.ok_reachable [OF assms(1)] Some]
      by (cases "exclusive s"; cases required)
        (auto simp: leases_on_def state_leases_cases conflicting_def lock_ok_def list_all_iff)
  qed (simp add: leases_on_def)
  then show ?thesis using check_access_ok_iff [OF assms(1), of i sid required] by blast
qed

text \<open>C9: When a tool call passes. Outside single-agent mode, the lock check of a reachable
  manager succeeds exactly when no other session's lease conflicts with what is required
  (an exclusive one always does, a shared one when exclusive access is required) or every
  lease on the instance was acquired automatically.\<close>

theorem require_lock_ok_iff:
  assumes "lm_reachable m"
  shows "snd (require_lock False now tok1 tok2 i sid required m) = Inr () \<longleftrightarrow>
    (\<forall>l \<in> set (leases_on i m). \<not> conflicting sid required l) \<or>
    (\<forall>l \<in> set (leases_on i m). li_auto_acquired l)"
proof -
  let ?free = "\<forall>l \<in> set (leases_on i m). \<not> conflicting sid required l"
  let ?a = "auto_acquire now tok1 i sid required m"
  note ok = auto_acquire_ok_iff [OF assms, of now tok1 i sid required]
  have ra: "lm_reachable (fst ?a)" by (rule auto_acquire_reachable [OF assms])
  have no: "check_access i sid required m' \<noteq> Inr ()"
    if "\<not> ?free" "lm_reachable m'" "leases_on i m' = leases_on i m" for m'
    using that no_access_of_conflict [OF that(2)] by metis
  have free_locked: "\<not> ?free" if "check_access i sid required m = Inl e" "\<nexists>x. e = NotHeld x" for e
  proof (cases "tab_get i (locks m)")
    case (Some s)
    then show ?thesis
      using that excl.ok_get [OF excl.ok_reachable [OF assms] Some]
      by (cases "exclusive s"; cases required)
        (auto simp: check_access_def check_access_with_token_def leases_on_def state_leases_cases
          conflicting_def split: if_splits)
  qed (use that in \<open>auto simp: check_access_def check_access_with_token_def\<close>)
  have auto_same: "is_auto_acquired i m' \<longleftrightarrow> (\<forall>l \<in> set (leases_on i m). li_auto_acquired l)"
    if "\<not> ?free" "lm_reachable m'" "leases_on i m' = leases_on i m" for m'
    using that is_auto_acquired_iff [OF that(2), of i] by auto
  show ?thesis
  proof (cases "check_access i sid required m")
    case (Inr u)
    then have "?free" using no [OF _ assms refl] by auto
    with Inr show ?thesis by (simp add: require_lock_def)
  next
    case (Inl e)
    show ?thesis
    proof (cases "snd ?a = Inr () \<and> (\<exists>x. e = NotHeld x)")
      case True
      with Inl ok show ?thesis by (auto simp: require_lock_def case_prod_unfold Let_def)
    next
      case False
      with ok free_locked [OF Inl] have nf: "\<not> ?free" by blast
      then have fail: "snd ?a \<noteq> Inr ()" using ok by blast
      define m' where "m' = (if \<exists>x. e = NotHeld x then fst ?a else m)"
      have m': "lm_reachable m'" "leases_on i m' = leases_on i m"
        using ra assms auto_acquire_fail [OF assms fail] by (auto simp: m'_def)
      have eq: "require_lock False now tok1 tok2 i sid required m =
          require_lock_reclaim now tok2 i sid required m'"
        using Inl fail by (auto simp: require_lock_def m'_def case_prod_unfold Let_def
            split: lock_error.splits sum.splits)
      show ?thesis
        unfolding eq using require_lock_reclaim_cases(1) [OF m'(1), of now tok2 i sid required]
          no [OF nf m'] auto_same [OF nf m'] nf
        by blast
    qed
  qed
qed

lemma require_lock_ok_iff_witness:
  "snd (require_lock False 0 7 8 ''dev'' 1 Exclusive new_manager) = Inr ()"
  using require_lock_ok_iff [OF reach_new, of 0 7 8 "''dev''" 1 Exclusive]
  by (simp add: leases_on_def)

lemma require_lock_access:
  assumes "lm_reachable m" and "require_lock False now tok1 tok2 i sid required m = (m', r)"
  shows "(r = Inr () \<longrightarrow> check_access i sid required m' = Inr ()) \<and>
    filter (\<lambda>l. li_session_id l \<noteq> sid \<and> \<not> li_auto_acquired l) (leases_on j m') =
      filter (\<lambda>l. li_session_id l \<noteq> sid \<and> \<not> li_auto_acquired l) (leases_on j m)"
proof -
  let ?a = "auto_acquire now tok1 i sid required m"
  have ra: "lm_reachable (fst ?a)" by (rule auto_acquire_reachable [OF assms(1)])
  have "filter (\<lambda>l. \<not> li_auto_acquired l) (filter (\<lambda>l. li_session_id l \<noteq> sid) (leases_on j (fst ?a))) =
      filter (\<lambda>l. \<not> li_auto_acquired l) (filter (\<lambda>l. li_session_id l \<noteq> sid) (leases_on j m))"
    by (simp only: auto_acquire_others [OF assms(1)])
  then have oth: "filter (\<lambda>l. li_session_id l \<noteq> sid \<and> \<not> li_auto_acquired l) (leases_on j (fst ?a)) =
      filter (\<lambda>l. li_session_id l \<noteq> sid \<and> \<not> li_auto_acquired l) (leases_on j m)"
    by (simp add: conj_commute)
  have eq: "(m', r) =
      (if check_access i sid required m = Inr () then (m, Inr ())
       else if \<exists>x. check_access i sid required m = Inl (NotHeld x)
       then (if snd ?a = Inr () then (fst ?a, Inr ())
             else require_lock_reclaim now tok2 i sid required (fst ?a))
       else require_lock_reclaim now tok2 i sid required m)"
    unfolding assms(2) [symmetric]
    by (auto simp: require_lock_def case_prod_unfold Let_def split: sum.splits lock_error.splits)
  note rc = require_lock_reclaim_cases(2) [where now = now and tok = tok2 and i = i and sid = sid and required = required]
    require_lock_reclaim_cases(3) [where now = now and tok = tok2 and i = i and sid = sid and required = required and j = j]
  consider "(m', r) = (m, Inr ())" "check_access i sid required m = Inr ()"
    | "(m', r) = (fst ?a, Inr ())" "snd ?a = Inr ()"
    | "(m', r) = require_lock_reclaim now tok2 i sid required (fst ?a)"
    | "(m', r) = require_lock_reclaim now tok2 i sid required m"
    using eq by presburger
  then show ?thesis
  proof cases
    case 2
    then show ?thesis
      using auto_acquire_access [OF assms(1), of now tok1 i sid required] oth by simp
  next
    case 3
    then show ?thesis using rc [OF ra] oth by (simp add: prod_eq_iff)
  next
    case 4
    then show ?thesis using rc [OF assms(1)] by (simp add: prod_eq_iff)
  qed simp
qed

text \<open>C8: What a passing check leaves behind. When the lock check of a reachable manager
  succeeds outside single-agent mode, the session passes the access check afterwards, and
  whether it succeeds or not, every lease another session acquired explicitly is still in
  place on every instance.\<close>

theorem require_lock_grants_access:
  assumes "lm_reachable m" and "require_lock False now tok1 tok2 i sid required m = (m', r)"
  shows "(r = Inr () \<longrightarrow> check_access i sid required m' = Inr ()) \<and>
    filter (\<lambda>l. li_session_id l \<noteq> sid \<and> \<not> li_auto_acquired l) (leases_on j m') =
      filter (\<lambda>l. li_session_id l \<noteq> sid \<and> \<not> li_auto_acquired l) (leases_on j m)"
  by (rule require_lock_access [OF assms])

lemma require_lock_grants_access_witness:
  "check_access ''dev'' 1 Exclusive (fst (require_lock False 0 7 8 ''dev'' 1 Exclusive new_manager)) = Inr ()"
proof -
  have "snd (require_lock False 0 7 8 ''dev'' 1 Exclusive new_manager) = Inr ()"
    by (simp add: require_lock_def check_access_def check_access_with_token_def auto_acquire_def
        acquire_auto_def acquire_inner_def acquire_defs entry_or_new_def)
  with require_lock_grants_access [OF reach_new, of 0 7 8 "''dev''" 1 Exclusive
      "fst (require_lock False 0 7 8 ''dev'' 1 Exclusive new_manager)"
      "snd (require_lock False 0 7 8 ''dev'' 1 Exclusive new_manager)" "''dev''"]
  show ?thesis by (metis prod.collapse)
qed

end
