(* ===== verification/App_State.thy ===== *)
theory App_State
  imports Supervisor Lock_Manager Rtsp_Handler
begin

section \<open>The shared state of the server\<close>

text \<open>
  \<open>state.rs\<close> of \<open>crates/vscreen-server\<close>: the registry of instances, the supervisors that run
  them, and what every handler shares. Both tables are \<open>DashMap\<close>s. An entry of the registry
  holds the two ends of a watch channel that its clones share; the model keeps the value of
  the channel in the registry. \<open>create\<close> looks at the number of entries and later inserts
  under the lock of one entry, so it is two steps.
\<close>

subsection \<open>Registry\<close>

record instance_entry =
  ie_config :: instance_config
  ie_state :: instance_state

type_synonym registry = "(instance_id, instance_entry) table"

definition registry_len :: "registry \<Rightarrow> nat" where
  "registry_len r = length (tab_keys r)"

definition create_check :: "u32 \<Rightarrow> instance_config \<Rightarrow> registry \<Rightarrow> vscreen_error + unit" where
  "create_check cap config r =
     (let i = ic_instance_id config in
      if \<not> is_url_safe i then
        Inl (InvalidConfig (''instance ID '' @ [CHR 0x27] @ i @ [CHR 0x27] @
          '' is not URL-safe (only alphanumeric, hyphens, underscores, dots allowed; 1-128 chars)''))
      else if unat cap \<le> registry_len r then
        Inl (LimitExceeded (''max instances ('' @ show_word cap @ '') reached''))
      else Inr ())"

definition create_insert :: "instance_config \<Rightarrow> registry \<Rightarrow> registry \<times> (vscreen_error + instance_entry)" where
  "create_insert config r =
     (let i = ic_instance_id config; entry = \<lparr>ie_config = config, ie_state = Created\<rparr> in
      case tab_get i r of
        Some _ \<Rightarrow> (r, Inl (InstanceAlreadyExists i))
      | None \<Rightarrow> (tab_insert i entry r, Inr entry))"

definition registry_create ::
  "instance_config \<Rightarrow> u32 \<Rightarrow> registry \<Rightarrow> registry \<times> (vscreen_error + instance_entry)" where
  "registry_create config cap r =
     (case create_check cap config r of
        Inl e \<Rightarrow> (r, Inl e)
      | Inr _ \<Rightarrow> create_insert config r)"

definition registry_remove :: "instance_id \<Rightarrow> registry \<Rightarrow> registry \<times> (vscreen_error + instance_entry)" where
  "registry_remove i r =
     (case tab_get i r of
        None \<Rightarrow> (r, Inl (InstanceNotFound i))
      | Some e \<Rightarrow> (tab_remove i r, Inr e))"

definition registry_get :: "instance_id \<Rightarrow> registry \<Rightarrow> vscreen_error + instance_entry" where
  "registry_get i r =
     (case tab_get i r of None \<Rightarrow> Inl (InstanceNotFound i) | Some e \<Rightarrow> Inr e)"

definition list_ids :: "registry \<Rightarrow> instance_id list" where
  "list_ids r = tab_keys r"

text \<open>\<open>entry.state_tx.send(state)\<close>\<close>

definition send_state :: "instance_id \<Rightarrow> instance_state \<Rightarrow> registry \<Rightarrow> registry" where
  "send_state i st r =
     (case tab_get i r of None \<Rightarrow> r | Some e \<Rightarrow> tab_insert i (e\<lparr>ie_state := st\<rparr>) r)"

subsection \<open>Application state\<close>

text \<open>The vision client is known by its address.\<close>

record app_state =
  as_config :: app_config
  as_registry :: registry
  as_cancelled :: bool
  as_supervisors :: "(instance_id, supervisor) table"
  as_lock_manager :: lock_manager
  as_single_agent_mode :: bool
  as_rtsp_manager :: "rtsp_manager option"
  as_rtsp_port :: u16
  as_vision_url :: "string option"
  as_synthesis_url :: "string option"

definition app_state_new :: "app_config \<Rightarrow> app_state" where
  "app_state_new config =
     \<lparr>as_config = config, as_registry = [], as_cancelled = False, as_supervisors = [],
      as_lock_manager = new_manager, as_single_agent_mode = False, as_rtsp_manager = None,
      as_rtsp_port = 0, as_vision_url = None, as_synthesis_url = None\<rparr>"

definition set_supervisor :: "instance_id \<Rightarrow> supervisor \<Rightarrow> app_state \<Rightarrow> app_state" where
  "set_supervisor i sv st = st\<lparr>as_supervisors := tab_insert i sv (as_supervisors st)\<rparr>"

definition get_supervisor :: "instance_id \<Rightarrow> app_state \<Rightarrow> supervisor option" where
  "get_supervisor i st = tab_get i (as_supervisors st)"

text \<open>The supervisor that was removed is stopped; it is returned for those who still hold it.\<close>

definition remove_supervisor :: "instance_id \<Rightarrow> app_state \<Rightarrow> app_state \<times> supervisor option" where
  "remove_supervisor i st =
     (case tab_get i (as_supervisors st) of
        None \<Rightarrow> (st, None)
      | Some sv \<Rightarrow> (st\<lparr>as_supervisors := tab_remove i (as_supervisors st)\<rparr>, Some (supervisor_stop sv)))"

text \<open>Shared access to a supervisor that changes it.\<close>

definition with_supervisor :: "instance_id \<Rightarrow> (supervisor \<Rightarrow> supervisor) \<Rightarrow> app_state \<Rightarrow> app_state" where
  "with_supervisor i f st =
     (case tab_get i (as_supervisors st) of
        None \<Rightarrow> st
      | Some sv \<Rightarrow> set_supervisor i (f sv) st)"

text \<open>What the RTSP server asks of the application.\<close>

definition instance_lookup_of :: "app_state \<Rightarrow> instance_lookup" where
  "instance_lookup_of st =
     \<lparr>lk_exists = (\<lambda>i. tab_get i (as_registry st) \<noteq> None),
      lk_audio = (\<lambda>i. get_supervisor i st \<noteq> None),
      lk_video = (\<lambda>i. get_supervisor i st \<noteq> None),
      lk_resolution = (\<lambda>i. map_option (\<lambda>sv. (sv_video_width sv, sv_video_height sv)) (get_supervisor i st)),
      lk_framerate = (\<lambda>i. map_option sv_video_framerate (get_supervisor i st)),
      lk_codec = (\<lambda>i. case get_supervisor i st of Some sv \<Rightarrow> sv_video_codec sv | None \<Rightarrow> default_video_codec)\<rparr>"

definition lookup_request_keyframe :: "instance_id \<Rightarrow> app_state \<Rightarrow> app_state" where
  "lookup_request_keyframe i = with_supervisor i request_keyframe_sv"

subsection \<open>Creating and removing side by side\<close>

text \<open>A state is the list of creations that have passed the check and not yet inserted, and the
  registry; at most \<open>k\<close> creations are under way at a time.\<close>

inductive registry_step ::
  "nat \<Rightarrow> u32 \<Rightarrow> instance_config list \<times> registry \<Rightarrow> instance_config list \<times> registry \<Rightarrow> bool"
  for k cap where
  step_check: "length pend < k \<Longrightarrow> create_check cap c r = Inr () \<Longrightarrow>
    registry_step k cap (pend, r) (c # pend, r)"
| step_insert: "c \<in> set pend \<Longrightarrow>
    registry_step k cap (pend, r) (remove1 c pend, fst (create_insert c r))"
| step_remove: "registry_step k cap (pend, r) (pend, fst (registry_remove i r))"
| step_state: "registry_step k cap (pend, r) (pend, send_state i st r)"

inductive registry_reachable :: "nat \<Rightarrow> u32 \<Rightarrow> instance_config list \<times> registry \<Rightarrow> bool"
  for k cap where
  registry_start: "registry_reachable k cap ([], [])"
| registry_more: "registry_reachable k cap s \<Longrightarrow> registry_step k cap s s' \<Longrightarrow>
    registry_reachable k cap s'"

definition registry_inv :: "registry \<Rightarrow> bool" where
  "registry_inv r \<longleftrightarrow> tab_invar r \<and>
     tab_all (\<lambda>i e. is_url_safe i \<and> ic_instance_id (ie_config e) = i) r"

lemma registry_len_insert:
  "tab_invar r \<Longrightarrow> registry_len (tab_insert i e r) =
     (if tab_get i r = None then Suc (registry_len r) else registry_len r)"
  unfolding registry_len_def by (rule tab.length_keys_insert)

lemma registry_len_remove: "registry_len (tab_remove i r) \<le> registry_len r"
  unfolding registry_len_def tab_keys_def tab_remove_def
  by (simp add: length_delete_le)

lemma registry_inv_insert:
  "registry_inv r \<Longrightarrow> is_url_safe (ic_instance_id c) \<Longrightarrow> registry_inv (fst (create_insert c r))"
  unfolding registry_inv_def create_insert_def Let_def by (auto split: option.split)

lemma registry_inv_remove: "registry_inv r \<Longrightarrow> registry_inv (fst (registry_remove i r))"
  unfolding registry_inv_def registry_remove_def by (auto split: option.split)

lemma registry_inv_send: "registry_inv r \<Longrightarrow> registry_inv (send_state i st r)"
  unfolding registry_inv_def send_state_def
  by (auto split: option.split dest: tab_all_get intro!: tab_all_insert)

lemma registry_len_steps:
  "tab_invar r \<Longrightarrow> registry_len (fst (create_insert c r)) \<le> Suc (registry_len r)"
  "registry_len (fst (registry_remove i r)) \<le> registry_len r"
  "tab_invar r \<Longrightarrow> registry_len (send_state i st r) = registry_len r"
  by (simp_all add: create_insert_def registry_remove_def send_state_def Let_def registry_len_insert
    registry_len_remove split: option.split)

lemma create_check_ok:
  "create_check cap c r = Inr () \<Longrightarrow> is_url_safe (ic_instance_id c) \<and> registry_len r < unat cap"
  by (simp add: create_check_def Let_def split: if_splits)

lemma registry_bound:
  assumes "registry_reachable k cap (pend, r)"
  shows "registry_inv r \<and> length pend \<le> k \<and> (\<forall>c\<in>set pend. is_url_safe (ic_instance_id c)) \<and>
    registry_len r + length pend \<le> unat cap + (k - 1)"
  using assms
proof (induction "(pend, r)" arbitrary: pend r rule: registry_reachable.induct)
  case registry_start
  then show ?case by (simp add: registry_inv_def registry_len_def tab_keys_def)
next
  case (registry_more s)
  obtain pend0 r0 where s: "s = (pend0, r0)" by (cases s)
  have IH: "registry_inv r0" "length pend0 \<le> k" "\<And>c. c \<in> set pend0 \<Longrightarrow> is_url_safe (ic_instance_id c)"
      "registry_len r0 + length pend0 \<le> unat cap + (k - 1)"
    using registry_more(2) [OF s] by blast+
  have inv: "tab_invar r0" using IH(1) by (simp add: registry_inv_def)
  from registry_more(3) show ?case
    unfolding s
  proof cases
    case (step_check c)
    note ok = create_check_ok [OF step_check(4)]
    have "registry_len r + length pend \<le> unat cap + (k - 1)" "length pend \<le> k"
      using conjunct2 [OF ok] step_check(1-3) by (simp_all only: list.size)
    moreover have "\<forall>c\<in>set pend. is_url_safe (ic_instance_id c)" using ok step_check(1) IH(3) by simp
    ultimately show ?thesis using IH(1) step_check(2) by blast
  next
    case (step_insert c)
    have "Suc (length pend) = length pend0"
      using length_pos_if_in_set [OF step_insert(3)] step_insert(1,3) by (simp add: length_remove1)
    then have "registry_len r + length pend \<le> unat cap + (k - 1)" "length pend \<le> k"
      using IH(2,4) registry_len_steps(1) [OF inv, of c, folded step_insert(2)] by linarith+
    moreover have "\<forall>c\<in>set pend. is_url_safe (ic_instance_id c)"
      using step_insert(1) IH(3) by (meson notin_set_remove1)
    moreover have "registry_inv r"
      using registry_inv_insert [OF IH(1) IH(3) [OF step_insert(3)]] step_insert(2) by simp
    ultimately show ?thesis by blast
  next
    case (step_remove i)
    then have "registry_len r + length pend \<le> unat cap + (k - 1)"
      using IH(4) registry_len_steps(2) [of i r0] by (simp only:)
    then show ?thesis using IH step_remove registry_inv_remove [OF IH(1)] by blast
  next
    case (step_state i st)
    then have "registry_len r + length pend \<le> unat cap + (k - 1)"
      using IH(4) registry_len_steps(3) [OF inv, of i st] by (simp only:)
    then show ?thesis using IH step_state registry_inv_send [OF IH(1)] by blast
  qed
qed

text \<open>C17: The registry files every instance under its own, URL-safe identifier, and keeps to the
  limit on instances as long as creations do not overlap; with up to \<open>k\<close> of them under way at
  a time it can exceed the limit by \<open>k - 1\<close>, and by no more.\<close>

theorem registry_capacity:
  assumes "registry_reachable k cap (pend, r)" and "0 < k"
  shows "tab_invar r \<and> registry_len r \<le> unat cap + (k - 1) \<and>
    (tab_get i r = Some e \<longrightarrow> is_url_safe i \<and> ic_instance_id (ie_config e) = i)"
  using registry_bound [OF assms(1)] by (auto simp: registry_inv_def dest: tab_all_get)

definition example_instance :: "instance_id \<Rightarrow> instance_config" where
  "example_instance i = example_config\<lparr>ic_instance_id := i\<rparr>"

lemma registry_capacity_witness:
  "\<exists>r. registry_reachable 2 1 ([], r) \<and> registry_len r = 2 \<and>
     registry_len r \<le> unat (1 :: u32) + (2 - 1)"
proof -
  let ?a = "example_instance ''a''" and ?b = "example_instance ''b''"
  let ?r1 = "fst (create_insert ?a [])"
  let ?r = "fst (create_insert ?b ?r1)"
  have ids: "ic_instance_id ?a = ''a''" "ic_instance_id ?b = ''b''"
    by (simp_all add: example_instance_def)
  have ne: "?b \<noteq> ?a"
    using ids by (intro notI, drule_tac arg_cong [of _ _ ic_instance_id]) simp
  have ok: "create_check 1 ?a [] = Inr ()" "create_check 1 ?b [] = Inr ()"
    by (simp_all add: create_check_def example_instance_def registry_len_def tab_keys_def is_url_safe_def
      is_ascii_alphanumeric_def byte_in_def)
  have "registry_reachable 2 1 ([?a], [])"
    using registry_more [OF registry_start step_check [of "[]" 2 1 ?a "[]"]] ok by simp
  then have "registry_reachable 2 1 ([?b, ?a], [])"
    using registry_more [OF _ step_check [of "[?a]" 2 1 ?b "[]"]] ok by simp
  then have "registry_reachable 2 1 ([?b], ?r1)"
    using registry_more [OF _ step_insert [of ?a "[?b, ?a]" 2 1 "[]"]] ne by simp
  then have *: "registry_reachable 2 1 ([], ?r)"
    using registry_more [OF _ step_insert [of ?b "[?b]" 2 1 ?r1]] by simp
  have "registry_len ?r = 2"
    by (simp add: create_insert_def ids registry_len_def tab_keys_def tab_get_def tab_insert_def Let_def)
  then show ?thesis using * registry_capacity [OF *] by auto
qed

end
