(* ===== verification/Mcp_Base.thy ===== *)
theory Mcp_Base
  imports Lock_Gate App_State
begin

section \<open>Tools of the MCP server\<close>

text \<open>
  What the tools of \<open>crates/vscreen-server/src/mcp\<close> share, from \<open>mcp/mod.rs\<close>: a tool checks the
  lock, finds the supervisor, drives the browser, and records the action with a screenshot in
  the instance's histories. A tool whose loop may run on without end is a \<open>run\<close>, which returns
  \<open>None\<close> then. \<open>mcp_env\<close> holds what is outside: the vision service, the printing of floats, of
  JSON, of session ids, of times and of strings with \<open>{:?}\<close>, base64, and the clock; \<open>me_clock es\<close> is the time in
  milliseconds after the browser events \<open>es\<close>. The interface \<open>tool_family\<close> says what a group of
  tools promises about locks.
\<close>

subsection \<open>Environment and errors\<close>

record vision_client =
  vi_available :: "browser_event list \<Rightarrow> bool"
  vi_analyze :: "browser_event list \<Rightarrow> bytes \<Rightarrow> string \<Rightarrow> string + string"

record mcp_env =
  me_checks :: bool
  me_session :: session_id
  me_now :: instant
  me_tokens :: "lock_token \<times> lock_token"
  me_time_ms :: u64
  me_vision :: "vision_client option"
  me_show_rounded :: "rat \<Rightarrow> string"
  me_json :: "json \<Rightarrow> string"
  me_pretty :: "json \<Rightarrow> string"
  me_base64 :: "bytes \<Rightarrow> string"
  me_show_session :: "session_id \<Rightarrow> string"
  me_show_time :: "instant \<Rightarrow> string"
  me_clock :: "browser_event list \<Rightarrow> nat"
  me_debug :: "string \<Rightarrow> string"

datatype mcp_error =
    Invalid_Params string
  | Internal_Error string
  | Invalid_Request string

text \<open>\<open>lock_error_to_mcp\<close>; times are in nanoseconds.\<close>

definition lock_error_to_mcp :: "mcp_env \<Rightarrow> instance_id \<Rightarrow> lock_error \<Rightarrow> mcp_error" where
  "lock_error_to_mcp env i e = Invalid_Request
     (case e of
        InstanceLocked holder agent expires \<Rightarrow>
          join_lines
            [''Instance '' @ quoted i @ '' is exclusively locked by session '' @ quoted (me_show_session env holder) @
               (case agent of None \<Rightarrow> [] | Some n \<Rightarrow> '' (agent: '' @ quoted n @ '')'') @ ''.'',
             ''Lock expires in '' @ show_int (max 0 ((expires - me_now env) div 10 ^ 9)) @ ''s (at '' @
               me_show_time env expires @ '').'',
             ''To use this instance, either:'',
             ''  1. Wait for the lock to expire or be released'',
             ''  2. Call vscreen_lock with action='' @ quoted ''acquire'' @ '' and wait_timeout_seconds to queue'',
             ''  3. Call vscreen_lock with action='' @ quoted ''status'' @ '' to check current status'']
      | NotHeld _ \<Rightarrow>
          join_lines
            [''No lock held on instance '' @ quoted i @ '' by this session.'',
             ''Call vscreen_lock with action='' @ quoted ''acquire'' @ '' to acquire a lock before using this tool.'']
      | Timeout _ \<Rightarrow> ''Timed out waiting for lock on instance '' @ quoted i @ ''.'')"

text \<open>What a result holds: texts, and images in base64 with their type.\<close>

datatype content = Says string | Image string string

definition internal :: "vscreen_error \<Rightarrow> mcp_error" where
  "internal e = Internal_Error (show_vscreen_error e)"

type_synonym 'a run = "browser \<Rightarrow> browser_event list \<Rightarrow> ((mcp_error, 'a) outcome \<times> browser_event list) option"

definition returns :: "(mcp_error, 'a) prog \<Rightarrow> 'a run" where
  "returns m = (\<lambda>br es. Some (m br es))"

definition and_run :: "'a run \<Rightarrow> ('a \<Rightarrow> 'b run) \<Rightarrow> 'b run" where
  "and_run m f = (\<lambda>br es.
     case m br es of
       None \<Rightarrow> None
     | Some (Ok a, es') \<Rightarrow> f a br es'
     | Some (Err e, es') \<Rightarrow> Some (Err e, es')
     | Some (Panic, es') \<Rightarrow> Some (Panic, es'))"

text \<open>\<open>s.chars().take(n)\<close>: a character ends where the next does not continue it.\<close>

fun take_chars :: "nat \<Rightarrow> string \<Rightarrow> string" where
  "take_chars n [] = []"
| "take_chars n (c # s) =
     (if is_cont c then c # take_chars n s
      else case n of 0 \<Rightarrow> [] | Suc k \<Rightarrow> c # take_chars k s)"

fun or_default :: "'a \<Rightarrow> 'a option \<Rightarrow> 'a" where
  "or_default d None = d"
| "or_default d (Some x) = x"

definition text_or :: "string \<Rightarrow> json \<Rightarrow> string" where
  "text_or d j = (case as_str j of Some s \<Rightarrow> s | None \<Rightarrow> d)"

text \<open>\<open>serde_json::from_str(s).unwrap_or_default()\<close>\<close>

definition parse_or_null :: "browser \<Rightarrow> string \<Rightarrow> json" where
  "parse_or_null br s = (case parse_json br s of Ok j \<Rightarrow> j | _ \<Rightarrow> JNull)"

definition str_member :: "string \<Rightarrow> json \<Rightarrow> string option" where
  "str_member k j = Option.bind (jget k j) as_str"

definition mcp_js :: "string \<Rightarrow> (mcp_error, json) prog" where
  "mcp_js expression = with_err internal (sup_evaluate_js expression)"

definition mcp_input :: "mcp_env \<Rightarrow> rat input_event \<Rightarrow> (mcp_error, unit) prog" where
  "mcp_input env ev = with_err internal (dispatch_api_input (me_checks env) ev)"

definition mcp_command :: "string \<Rightarrow> json \<Rightarrow> (mcp_error, unit) prog" where
  "mcp_command m p = with_err internal (send_cdp_command m (Some p))"

definition mcp_mouse :: "json \<Rightarrow> (mcp_error, unit) prog" where
  "mcp_mouse p = mcp_command ''Input.dispatchMouseEvent'' p"

definition translate :: "rat \<Rightarrow> rat \<Rightarrow> (mcp_error, rat \<times> rat) prog" where
  "translate x y = with_err internal (scroll_into_view_and_translate x y)"

subsection \<open>Histories and vision\<close>

text \<open>The page's address is read after the action, and stands for before and after.\<close>

definition log_action ::
  "mcp_env \<Rightarrow> string \<Rightarrow> string \<Rightarrow> string \<Rightarrow> string \<Rightarrow> nat option \<Rightarrow> supervisor \<Rightarrow> supervisor" where
  "log_action env tool params result url index sv =
     sv\<lparr>sv_actions := snd (action_record
       \<lparr>ae_timestamp_ms = me_time_ms env, ae_tool_name = tool, ae_params_summary = params,
        ae_result_summary = result, ae_url_before = url, ae_url_after = url,
        ae_screenshot_index = index\<rparr> (sv_actions sv))\<rparr>"

definition push_screenshot ::
  "mcp_env \<Rightarrow> bytes \<Rightarrow> string \<Rightarrow> string \<Rightarrow> supervisor \<Rightarrow> supervisor" where
  "push_screenshot env data url label sv =
     sv\<lparr>sv_screenshots := screenshot_push
       \<lparr>se_timestamp_ms = me_time_ms env, se_url = url, se_action_label = label, se_scroll_y = 0,
        se_viewport_height = 940, se_full_page = False, se_data = data\<rparr> (sv_screenshots sv)\<rparr>"

definition record_action ::
  "mcp_env \<Rightarrow> string \<Rightarrow> string \<Rightarrow> string \<Rightarrow> supervisor \<Rightarrow> (mcp_error, supervisor) prog" where
  "record_action env tool params result sv =
     seq (attempt (sup_evaluate_js ''location.href'')) (\<lambda>r.
     let url = (case r of Ok v \<Rightarrow> text_or [] v | _ \<Rightarrow> []) in
     seq (attempt (sup_capture_screenshot ''jpeg'' (Some 40))) (\<lambda>shot.
     ret (case shot of
            Ok data \<Rightarrow>
              (let sv1 = push_screenshot env data url (tool @ ''('' @ params @ '')'') sv in
               log_action env tool params result url
                 (Some (length (sy_entries (sv_screenshots sv1)) - 1)) sv1)
          | _ \<Rightarrow> log_action env tool params result url None sv)))"

definition verify_click :: string where
  "verify_click = join_lines
      [''You are analyzing a browser screenshot taken AFTER a click action was performed. Briefly describe what you see on the page.'',
       '''',
       ''Return a JSON object:'',
       ''{\"description\": \"<brief description of the current page state>\"}'',
       '''',
       ''Focus on: what page/content is shown, any video playing, any overlays/dialogs visible, any errors. Keep the description under 50 words.'']"

text \<open>\<open>vision_verify_action\<close> as these tools call it, without a screenshot from before the action.\<close>

definition vision_verify_action :: "mcp_env \<Rightarrow> supervisor \<Rightarrow> string \<Rightarrow> (mcp_error, string option) prog" where
  "vision_verify_action env sv prompt = (\<lambda>br es.
     case me_vision env of
       None \<Rightarrow> (Ok None, es)
     | Some v \<Rightarrow>
         if \<not> vi_available v es then (Ok None, es)
         else
           (case capture_vision_screenshot sv br es of
              (Ok shot, es1) \<Rightarrow>
                (case vi_analyze v es1 shot prompt of
                   Inl _ \<Rightarrow> (Ok None, es1)
                 | Inr t \<Rightarrow>
                     (let summary = take_chars 300 t
                      in (Ok (if summary = [] then None else Some summary), es1)))
            | (Err _, es1) \<Rightarrow> (Ok None, es1)
            | (Panic, es1) \<Rightarrow> (Panic, es1)))"

definition vision_suffix :: "mcp_env \<Rightarrow> supervisor \<Rightarrow> (mcp_error, string) prog" where
  "vision_suffix env sv =
     seq (vision_verify_action env sv verify_click) (\<lambda>a.
     ret (case a of None \<Rightarrow> [] | Some a \<Rightarrow> LF # ''Vision: '' @ a))"

definition page_js :: string where
  "page_js = ''JSON.stringify({url: location.href, title: document.title})''"

definition after_wait :: "u64 option \<Rightarrow> (mcp_error, string) prog" where
  "after_wait wait =
     (case wait of
        None \<Rightarrow> ret []
      | Some ms \<Rightarrow>
          seq (sleep (unat ms)) (\<lambda>_.
          seq (attempt (sup_evaluate_js page_js)) (\<lambda>r. \<lambda>br.
          ret (case r of
                 Ok info \<Rightarrow>
                   (case as_str info of
                      None \<Rightarrow> []
                    | Some s \<Rightarrow>
                        (case parse_json br s of
                           Ok page \<Rightarrow>
                             LF # ''After '' @ show_word ms @ ''ms '' @ [CHR 0xE2, CHR 0x80, CHR 0x94] @ '' URL: '' @
                             field_or ''?'' as_str ''url'' page @ LF # ''Title: '' @ field_or ''?'' as_str ''title'' page
                         | _ \<Rightarrow> []))
               | _ \<Rightarrow> []) br)))"

subsection \<open>A tool behind its lock\<close>

text \<open>A tool behind the lock: \<open>refuse\<close> is an error found between the lock check and the look for
  the supervisor.\<close>

definition run_tool ::
  "mcp_env \<Rightarrow> lock_type \<Rightarrow> instance_id \<Rightarrow> mcp_error option \<Rightarrow> (supervisor \<Rightarrow> ('a \<times> supervisor) run)
     \<Rightarrow> app_state \<Rightarrow> browser \<Rightarrow> browser_event list
     \<Rightarrow> (app_state \<times> (mcp_error, 'a) outcome \<times> browser_event list) option" where
  "run_tool env required i refuse body st br es =
     (let (lm, access) = require_lock (as_single_agent_mode st) (me_now env) (fst (me_tokens env))
            (snd (me_tokens env)) i (me_session env) required (as_lock_manager st);
          st1 = st\<lparr>as_lock_manager := lm\<rparr>
      in case access of
           Inl e \<Rightarrow> Some (st1, Err (lock_error_to_mcp env i e), es)
         | Inr _ \<Rightarrow>
             (case refuse of
                Some e \<Rightarrow> Some (st1, Err e, es)
              | None \<Rightarrow>
                  (case get_supervisor i st1 of
                     None \<Rightarrow> Some (st1, Err (Invalid_Params (''no supervisor for instance: '' @ i)), es)
                   | Some sv \<Rightarrow>
                       (case body sv br es of
                          None \<Rightarrow> None
                        | Some (Ok (msg, sv'), es') \<Rightarrow> Some (set_supervisor i sv' st1, Ok msg, es')
                        | Some (Err e, es') \<Rightarrow> Some (st1, Err e, es')
                        | Some (Panic, es') \<Rightarrow> Some (st1, Panic, es')))))"

subsection \<open>Recording\<close>

lemma sup_evaluate_run:
  obtains r where "sup_evaluate_js x br es = (r, es @ [eval_event x])" "r \<noteq> Panic"
proof -
  obtain r where "cdp_evaluate_js x br es = (r, es @ [eval_event x])" "r \<noteq> Panic" by (rule evaluate_js_run)
  then show thesis by (intro that [of "map_err Cdp r"]) (cases r; simp add: sup_evaluate_js_def with_err_def)+
qed

text \<open>On a browser that answers everything with nothing, an action is recorded without a screenshot.\<close>

lemma quiet_record_action:
  "record_action env tool params result sv (quiet_browser JNull) es =
     (Ok (log_action env tool params result [] None sv),
      es @ [eval_event ''location.href'', shot_event ''jpeg'' (Some 40)])"
proof -
  let ?br = "quiet_browser JNull"
  have js: "sup_evaluate_js x ?br es = (Ok JNull, es @ [eval_event x])" for x es
    by (simp add: sup_evaluate_js_def cdp_evaluate_js_def seq_def call_and_wait_def
      quiet_browser_def evaluation_result_def eval_event_def with_err_def)
  have shot: "\<exists>e. sup_capture_screenshot ''jpeg'' (Some 40) ?br es = (Err e, es @ [shot_event ''jpeg'' (Some 40)])" for es
    by (simp add: sup_capture_screenshot_def cdp_capture_screenshot_def seq_def call_and_wait_def
      quiet_browser_def screenshot_data_def shot_event_def with_err_def)
  obtain e where "sup_capture_screenshot ''jpeg'' (Some 40) ?br (es @ [eval_event ''location.href'']) =
      (Err e, (es @ [eval_event ''location.href'']) @ [shot_event ''jpeg'' (Some 40)])"
    using shot by blast
  then show ?thesis
    by (simp add: record_action_def seq_def attempt_def js text_or_def)
qed

subsection \<open>The lock and the browser\<close>

lemma exclusive_access_alone:
  "check_access i sid Exclusive m = Inr () \<Longrightarrow> sid' \<noteq> sid \<Longrightarrow> check_access i sid' lt m \<noteq> Inr ()"
  by (auto simp: check_access_def check_access_with_token_def split: option.splits if_splits lock_type.split)

lemma run_tool_cases:
  assumes "run_tool env required i refuse body st br es = Some (st', r, es')"
  obtains (refused) e lm where "require_lock (as_single_agent_mode st) (me_now env) (fst (me_tokens env))
      (snd (me_tokens env)) i (me_session env) required (as_lock_manager st) = (lm, Inl e)"
      "st' = st\<lparr>as_lock_manager := lm\<rparr>" "es' = es"
    | (passed) lm where "require_lock (as_single_agent_mode st) (me_now env) (fst (me_tokens env))
      (snd (me_tokens env)) i (me_session env) required (as_lock_manager st) = (lm, Inr ())"
      "as_lock_manager st' = lm" "as_registry st' = as_registry st"
      "\<forall>j. j \<noteq> i \<longrightarrow> get_supervisor j st' = get_supervisor j st"
proof -
  obtain lm a where l: "require_lock (as_single_agent_mode st) (me_now env) (fst (me_tokens env))
      (snd (me_tokens env)) i (me_session env) required (as_lock_manager st) = (lm, a)" by fastforce
  show thesis
  proof (cases a)
    case (Inl e)
    then show thesis using assms l by (intro refused) (auto simp: run_tool_def)
  next
    case (Inr u)
    show thesis
    proof (rule passed)
      show "require_lock (as_single_agent_mode st) (me_now env) (fst (me_tokens env))
          (snd (me_tokens env)) i (me_session env) required (as_lock_manager st) = (lm, Inr ())"
        using l Inr by simp
    qed (use assms l Inr in \<open>auto simp: run_tool_def set_supervisor_def get_supervisor_def Let_def
        split: option.splits prod.splits outcome.splits\<close>)
  qed
qed

subsection \<open>Families of tools\<close>

text \<open>What was done in the browser; a pause is not.\<close>

definition acts :: "browser_event list \<Rightarrow> browser_event list" where
  "acts es = filter (\<lambda>e. case e of Sleep _ \<Rightarrow> False | _ \<Rightarrow> True) es"

text \<open>A call of a tool that needs no lock at most waits; any other is one behind the lock it names.\<close>

locale tool_family =
  fixes call :: "mcp_env \<Rightarrow> instance_id \<Rightarrow> 't \<Rightarrow> app_state \<Rightarrow> browser \<Rightarrow> browser_event list
      \<Rightarrow> (app_state \<times> (mcp_error, 'a) outcome \<times> browser_event list) option"
    and lock_of :: "'t \<Rightarrow> lock_type"
  assumes behind_lock: "call env i t st br es = Some (st', r, es') \<Longrightarrow>
      st' = st \<and> acts es' = acts es \<or>
      (\<exists>refuse body. run_tool env (lock_of t) i refuse body st br es = Some (st', r, es'))"
begin

lemma acts_under_lock:
  assumes "lm_reachable (as_lock_manager st)" and "\<not> as_single_agent_mode st"
    and "call env i t st br es = Some (st', r, es')"
  shows "((acts es' \<noteq> acts es \<or> get_supervisor i st' \<noteq> get_supervisor i st) \<longrightarrow>
      check_access i (me_session env) (lock_of t) (as_lock_manager st') = Inr () \<and>
      (lock_of t = Exclusive \<longrightarrow>
        (\<forall>sid lt. sid \<noteq> me_session env \<longrightarrow> check_access i sid lt (as_lock_manager st') \<noteq> Inr ()))) \<and>
    (j \<noteq> i \<longrightarrow> get_supervisor j st' = get_supervisor j st) \<and> as_registry st' = as_registry st \<and>
    filter (\<lambda>l. li_session_id l \<noteq> me_session env \<and> \<not> li_auto_acquired l) (leases_on j (as_lock_manager st')) =
      filter (\<lambda>l. li_session_id l \<noteq> me_session env \<and> \<not> li_auto_acquired l) (leases_on j (as_lock_manager st))"
  using behind_lock [OF assms(3)]
proof
  assume "\<exists>refuse body. run_tool env (lock_of t) i refuse body st br es = Some (st', r, es')"
  then obtain refuse body where "run_tool env (lock_of t) i refuse body st br es = Some (st', r, es')" by blast
  then show ?thesis
  proof (cases rule: run_tool_cases)
    case (refused e lm)
    with require_lock_access [OF assms(1), of "me_now env" "fst (me_tokens env)" "snd (me_tokens env)" i
        "me_session env" "lock_of t" lm "Inl e" j] assms(2)
    show ?thesis by (simp add: get_supervisor_def)
  next
    case (passed lm)
    with require_lock_access [OF assms(1), of "me_now env" "fst (me_tokens env)" "snd (me_tokens env)" i
        "me_session env" "lock_of t" lm "Inr ()" j] assms(2)
    show ?thesis by (auto simp: get_supervisor_def dest: exclusive_access_alone)
  qed
qed auto

end

subsection \<open>An example\<close>

definition example_mcp :: mcp_env where
  "example_mcp =
     \<lparr>me_checks = True, me_session = 1, me_now = 0, me_tokens = (7, 8), me_time_ms = 0, me_vision = None,
      me_show_rounded = (\<lambda>_. []), me_json = (\<lambda>_. []), me_pretty = (\<lambda>_. []), me_base64 = (\<lambda>_. []),
      me_show_session = (\<lambda>_. []), me_show_time = (\<lambda>_. []), me_clock = (\<lambda>es. 200 * length es), me_debug = (\<lambda>_. [])\<rparr>"

definition example_mcp_state :: app_state where
  "example_mcp_state = (app_state_new default_app)\<lparr>as_supervisors := [(''dev'', supervisor_new example_config [])]\<rparr>"

subsection \<open>Counting evaluations\<close>

text \<open>The scripts that were evaluated.\<close>

definition evaluations :: "browser_event list \<Rightarrow> nat" where
  "evaluations es = length (filter (\<lambda>e. case e of Call m _ \<Rightarrow> m = ''Runtime.evaluate'' | _ \<Rightarrow> False) es)"

lemma evaluations_simps [simp]:
  "evaluations [] = 0" "evaluations (xs @ ys) = evaluations xs + evaluations ys"
  "evaluations (Sleep n # es) = evaluations es" "evaluations (eval_event x # es) = Suc (evaluations es)"
  by (simp_all add: evaluations_def eval_event_def)

text \<open>A pause of 200 ms leaves one question less until the deadline.\<close>

lemma polls_left:
  fixes a b d :: nat
  assumes "a < d" and "a + 200 \<le> b"
  shows "Suc ((d - b + 199) div 200) \<le> (d - a + 199) div 200"
proof (cases "d \<le> b")
  case True
  have "200 \<le> d - a + 199" using assms(1) by simp
  then have "200 div 200 \<le> (d - a + 199) div 200" by (rule div_le_mono)
  then show ?thesis using True by simp
next
  case False
  then have "(d - b + 199) + 200 \<le> d - a + 199" using assms(2) by simp
  then have "((d - b + 199) + 200) div 200 \<le> (d - a + 199) div 200" by (rule div_le_mono)
  moreover have "((d - b + 199) + 200) div 200 = Suc ((d - b + 199) div 200)"
    by (subst div_add_self2) simp_all
  ultimately show ?thesis by (simp only:)
qed

lemma mcp_js_run:
  obtains r where "mcp_js x br es = (r, es @ [eval_event x])" "r \<noteq> Panic"
proof -
  obtain r where "sup_evaluate_js x br es = (r, es @ [eval_event x])" "r \<noteq> Panic" by (rule sup_evaluate_run)
  then show thesis by (intro that [of "map_err internal r"]) (cases r; simp add: mcp_js_def with_err_def)+
qed

end
