(* ===== verification/Mcp_Frames.thy ===== *)
theory Mcp_Frames
  imports Mcp_Base
begin

section \<open>Frames of a page\<close>

text \<open>
  The search of child frames in \<open>mcp/mod.rs\<close> and the helpers of \<open>mcp/captcha.rs\<close>
  (\<open>crates/vscreen-server\<close>): looking at the frames of a page, and the geometry of a reCAPTCHA
  grid. A frame is a JSON value from the browser's frame tree. Positions are rationals; the
  conditions of the geometry are exact on floats as well, except at their bounds.
\<close>

subsection \<open>The frame tree\<close>

definition child_frames :: "json \<Rightarrow> json list option" where
  "child_frames tree =
     Option.bind (jget ''childFrames'' (case jget ''frameTree'' tree of Some t \<Rightarrow> t | None \<Rightarrow> tree)) as_array"

definition frame_field :: "string \<Rightarrow> json \<Rightarrow> string" where
  "frame_field k child =
     (case Option.bind (Option.bind (jget ''frame'' child) (jget k)) as_str of Some s \<Rightarrow> s | None \<Rightarrow> [])"

subsection \<open>Searching child frames\<close>

definition frame_rect_js :: "string \<Rightarrow> string" where
  "frame_rect_js url = (let clean = filter (\<lambda>c. c \<noteq> CHR 0x22) url in
     ''(function(){const f=document.querySelector('iframe[src*=\"'' @ clean @ ''\"]')||document.querySelectorAll('iframe')[0];if(!f)return null;const r=f.getBoundingClientRect();return JSON.stringify({x:r.left+window.scrollX,y:r.top+window.scrollY})})()'')"

text \<open>The position of the frame in its parent; the origin if it cannot be found.\<close>

definition frame_offset :: "string \<Rightarrow> ('e, rat \<times> rat) prog" where
  "frame_offset url = (\<lambda>br.
     seq (attempt (sup_evaluate_js (frame_rect_js url))) (\<lambda>r.
     ret (case r of
            Ok v \<Rightarrow>
              (let o' = parse_or_null br (text_or ''{}'' v)
               in (field_or 0 as_f64 ''x'' o', field_or 0 as_f64 ''y'' o'))
          | _ \<Rightarrow> (0, 0))) br)"

definition shift_member :: "string \<Rightarrow> rat \<Rightarrow> json \<Rightarrow> json" where
  "shift_member k d el =
     (case Option.bind (jget k el) as_f64 of Some v \<Rightarrow> jset k (JFloat (v + d)) el | None \<Rightarrow> el)"

definition shift_element :: "rat \<times> rat \<Rightarrow> json \<Rightarrow> json" where
  "shift_element off el = shift_member ''y'' (snd off) (shift_member ''x'' (fst off) el)"

text \<open>\<open>js\<close> is the script for a frame. Only the frames of the list are searched, not their children.\<close>

fun search_frames :: "(string \<Rightarrow> string) \<Rightarrow> json list \<Rightarrow> ('e, json list) prog" where
  "search_frames js [] = ret []"
| "search_frames js (child # cs) =
     (let fid = frame_field ''id'' child in
      if fid = [] then search_frames js cs
      else (\<lambda>br.
        seq (frame_offset (frame_field ''url'' child)) (\<lambda>off.
        seq (attempt (sup_evaluate_js_in_frame (js fid) fid)) (\<lambda>r.
        seq (search_frames js cs) (\<lambda>more.
        ret ((case r of
                Ok v \<Rightarrow>
                  (case parse_json br (text_or ''[]'' v) of
                     Ok (JArr els) \<Rightarrow> map (shift_element off) els
                   | _ \<Rightarrow> [])
              | _ \<Rightarrow> []) @ more)))) br))"

definition frame_elements_js :: "string \<Rightarrow> string \<Rightarrow> string" where
  "frame_elements_js sel frame_id =
     (''JSON.stringify(Array.from(document.querySelectorAll('' @ sel @ (join_lines
        ['')).slice(0, 30).map(el => {'',
         ''    const r = el.getBoundingClientRect();'',
         ''    return {'',
         ''        tag: el.tagName.toLowerCase(),'',
         ''        text: (el.innerText || el.textContent || '' @ [CHR 0x27, CHR 0x27] @ '').substring(0, 200).trim(),'',
         ''        x: Math.round(r.left + r.width / 2 + window.scrollX),'',
         ''        y: Math.round(r.top + r.height / 2 + window.scrollY),'',
         ''        width: Math.round(r.width),'',
         ''        height: Math.round(r.height),'',
         ''        visible: r.width > 0 && r.height > 0 && r.top > -9000 && r.left > -9000,'',
         ''        frame_id: \"'']) @ frame_id @ (join_lines
        [''\",'',
         ''    };'',
         ''}))'']))"

definition find_elements_in_frames :: "json \<Rightarrow> string \<Rightarrow> ('e, json list) prog" where
  "find_elements_in_frames tree sel_json =
     (case child_frames tree of
        None \<Rightarrow> ret []
      | Some frames \<Rightarrow> search_frames (frame_elements_js sel_json) frames)"

definition frame_match_js :: "string \<Rightarrow> bool \<Rightarrow> string" where
  "frame_match_js search_json exact =
     (if exact then ''(el.innerText || '' @ [CHR 0x27, CHR 0x27] @ '').trim() === '' @ search_json
      else ''(el.innerText || '' @ [CHR 0x27, CHR 0x27] @ '').toLowerCase().includes('' @ search_json @ ''.toLowerCase())'')"

definition frame_text_js :: "string \<Rightarrow> bool \<Rightarrow> string \<Rightarrow> string" where
  "frame_text_js search_json exact frame_id =
     (let match_fn = frame_match_js search_json exact in
      (join_lines
        [''JSON.stringify((function() {'',
         ''    const results = [];'',
         ''    const walker = document.createTreeWalker(document.body || document.documentElement, NodeFilter.SHOW_ELEMENT);'',
         ''    let el;'',
         ''    while ((el = walker.nextNode()) && results.length < 20) {'',
         ''        if ('']) @ match_fn @ (join_lines
        ['') {'',
         ''            const r = el.getBoundingClientRect();'',
         ''            if (r.width > 0 && r.height > 0 && r.top > -9000 && r.left > -9000) {'',
         ''                results.push({'',
         ''                    tag: el.tagName.toLowerCase(),'',
         ''                    text: (el.innerText || '' @ [CHR 0x27, CHR 0x27] @ '').substring(0, 200).trim(),'',
         ''                    x: Math.round(r.left + r.width / 2 + window.scrollX),'',
         ''                    y: Math.round(r.top + r.height / 2 + window.scrollY),'',
         ''                    width: Math.round(r.width),'',
         ''                    height: Math.round(r.height),'',
         ''                    frame_id: \"'']) @ frame_id @ (join_lines
        [''\",'',
         ''                });'',
         ''            }'',
         ''        }'',
         ''    }'',
         ''    return results;'',
         ''})())'']))"

definition find_text_in_frames :: "json \<Rightarrow> string \<Rightarrow> bool \<Rightarrow> ('e, json list) prog" where
  "find_text_in_frames tree search_json exact =
     (case child_frames tree of
        None \<Rightarrow> ret []
      | Some frames \<Rightarrow> search_frames (frame_text_js search_json exact) frames)"

subsection \<open>State of a reCAPTCHA\<close>

definition anchor_check_js :: string where
  "anchor_check_js = (join_lines
        [''(function(){'',
         ''                    const anchor = document.getElementById('recaptcha-anchor');'',
         ''                    if (anchor && anchor.getAttribute('aria-checked') === 'true') return 'solved';'',
         ''                    return 'unsolved';'',
         ''                })()''])"

fun solved_in :: "json list \<Rightarrow> ('e, bool) prog" where
  "solved_in [] = ret False"
| "solved_in (child # cs) =
     (let url = frame_field ''url'' child; fid = frame_field ''id'' child in
      if \<not> str_contains ''recaptcha'' url \<or> \<not> str_contains ''anchor'' url \<or> fid = [] then solved_in cs
      else
        seq (attempt (sup_evaluate_js_in_frame anchor_check_js fid)) (\<lambda>r.
        case r of
          Ok v \<Rightarrow> if text_or [] v = ''solved'' then ret True else solved_in cs
        | _ \<Rightarrow> solved_in cs))"

definition captcha_is_solved :: "('e, bool) prog" where
  "captcha_is_solved =
     seq (attempt sup_get_frame_tree) (\<lambda>r.
     case r of
       Ok tree \<Rightarrow> (case child_frames tree of None \<Rightarrow> ret False | Some frames \<Rightarrow> solved_in frames)
     | _ \<Rightarrow> ret False)"

definition captcha_iframes_js :: string where
  "captcha_iframes_js = (join_lines
        [''JSON.stringify(Array.from(document.querySelectorAll('iframe')).map(f => {'',
         ''            const r = f.getBoundingClientRect();'',
         ''            return {'',
         ''                title: f.title || '' @ [CHR 0x27, CHR 0x27] @ '','',
         ''                src: f.src || '' @ [CHR 0x27, CHR 0x27] @ '','',
         ''                x: r.left + window.scrollX,'',
         ''                y: r.top + window.scrollY,'',
         ''                width: r.width,'',
         ''                height: r.height,'',
         ''                visible: r.width > 0 && r.height > 0 && r.top > -9000,'',
         ''            };'',
         ''        }))''])"

text \<open>The bounds of an iframe if it is the challenge: position, width and height.\<close>

definition challenge_bounds :: "json \<Rightarrow> (rat \<times> rat \<times> rat \<times> rat) option" where
  "challenge_bounds f =
     (if field_or False as_bool ''visible'' f \<and>
         (str_contains ''challenge'' (field_or [] as_str ''title'' f) \<or>
          str_contains ''bframe'' (field_or [] as_str ''src'' f))
      then
        (case (Option.bind (jget ''x'' f) as_f64, Option.bind (jget ''y'' f) as_f64,
               Option.bind (jget ''width'' f) as_f64, Option.bind (jget ''height'' f) as_f64) of
           (Some x, Some y, Some w, Some h) \<Rightarrow> if 100 < w \<and> 100 < h then Some (x, y, w, h) else None
         | _ \<Rightarrow> None)
      else None)"

fun find_map :: "('a \<Rightarrow> 'b option) \<Rightarrow> 'a list \<Rightarrow> 'b option" where
  "find_map f [] = None"
| "find_map f (x # xs) = (case f x of Some y \<Rightarrow> Some y | None \<Rightarrow> find_map f xs)"

definition find_captcha_challenge_iframe :: "('e, (rat \<times> rat \<times> rat \<times> rat) option) prog" where
  "find_captcha_challenge_iframe = (\<lambda>br.
     seq (attempt (sup_evaluate_js captcha_iframes_js)) (\<lambda>r.
     ret (case r of
            Ok v \<Rightarrow>
              (case parse_json br (text_or ''[]'' v) of
                 Ok (JArr iframes) \<Rightarrow> find_map challenge_bounds iframes
               | _ \<Rightarrow> None)
          | _ \<Rightarrow> None)) br)"

definition expired_js :: string where
  "expired_js = (join_lines
        [''document.body.innerText.includes('Verification challenge expired') ||'',
         ''                     document.body.innerText.includes('challenge expired')''])"

definition frame_expired_js :: string where
  "frame_expired_js = ''document.body.innerText.includes('expired') || document.body.innerText.includes('Expired')''"

fun expired_in :: "json list \<Rightarrow> ('e, bool) prog" where
  "expired_in [] = ret False"
| "expired_in (child # cs) =
     (let url = frame_field ''url'' child; fid = frame_field ''id'' child in
      if \<not> str_contains ''recaptcha'' url \<or> fid = [] then expired_in cs
      else
        seq (attempt (sup_evaluate_js_in_frame frame_expired_js fid)) (\<lambda>r.
        case r of
          Ok v \<Rightarrow> if as_bool v = Some True then ret True else expired_in cs
        | _ \<Rightarrow> expired_in cs))"

definition captcha_check_expired :: "('e, bool) prog" where
  "captcha_check_expired =
     seq (attempt (sup_evaluate_js expired_js)) (\<lambda>r.
     if (case r of Ok v \<Rightarrow> as_bool v = Some True | _ \<Rightarrow> False) then ret True
     else
       seq (attempt sup_get_frame_tree) (\<lambda>t.
       case t of
         Ok tree \<Rightarrow> (case child_frames tree of None \<Rightarrow> ret False | Some frames \<Rightarrow> expired_in frames)
       | _ \<Rightarrow> ret False))"

definition bframe_id :: "json \<Rightarrow> string option" where
  "bframe_id child =
     (let url = frame_field ''url'' child; fid = frame_field ''id'' child in
      if str_contains ''recaptcha'' url \<and> str_contains ''bframe'' url \<and> fid \<noteq> [] then Some fid else None)"

definition find_captcha_bframe_id :: "('e, string option) prog" where
  "find_captcha_bframe_id =
     seq (attempt sup_get_frame_tree) (\<lambda>t.
     ret (case t of Ok tree \<Rightarrow> Option.bind (child_frames tree) (find_map bframe_id) | _ \<Rightarrow> None))"

definition challenge_state_js :: string where
  "challenge_state_js = (join_lines
        [''(function(){'',
         ''            var header = document.querySelector('.rc-imageselect-desc-wrapper, .rc-imageselect-desc, .rc-imageselect-desc-no-canonical');'',
         ''            var headerText = header ? header.innerText.trim() : '' @ [CHR 0x27, CHR 0x27] @ '';'',
         ''            var hasNewImages = headerText.toLowerCase().includes('also check the new images') ||'',
         ''                               headerText.toLowerCase().includes('check the new images');'',
         ''            var tiles = document.querySelectorAll('.rc-imageselect-tile');'',
         ''            var animating = 0;'',
         ''            tiles.forEach(function(t) {'',
         ''                var style = window.getComputedStyle(t);'',
         ''                if (style.transition && style.transition !== 'none' && style.transition !== 'all 0s ease 0s') {'',
         ''                    var td = t.querySelector('.rc-image-tile-33, .rc-image-tile-44, .rc-image-tile-11');'',
         ''                    if (td && td.classList.contains('rc-image-tile-33')) animating++;'',
         ''                }'',
         ''            });'',
         ''            var dynamicTiles = document.querySelectorAll('.rc-imageselect-dynamic-selected');'',
         ''            return JSON.stringify({'',
         ''                has_new_images: hasNewImages,'',
         ''                tiles_animating: animating,'',
         ''                dynamic_selected: dynamicTiles.length,'',
         ''                header_text: headerText,'',
         ''                is_dynamic: document.querySelectorAll('.rc-imageselect-dynamic-selected, .rc-imageselect-tileselected').length > 0 || hasNewImages'',
         ''            });'',
         ''        })()''])"

definition captcha_challenge_state :: "string \<Rightarrow> ('e, json option) prog" where
  "captcha_challenge_state fid = (\<lambda>br.
     seq (attempt (sup_evaluate_js_in_frame challenge_state_js fid)) (\<lambda>r.
     ret (case r of
            Ok v \<Rightarrow> (case parse_json br (text_or ''{}'' v) of Ok j \<Rightarrow> Some j | _ \<Rightarrow> None)
          | _ \<Rightarrow> None)) br)"

definition settled :: "json option \<Rightarrow> bool" where
  "settled state =
     (case state of
        None \<Rightarrow> False
      | Some j \<Rightarrow> field_or 0 as_u64 ''tiles_animating'' j = 0 \<and> field_or 0 as_u64 ''dynamic_selected'' j = 0)"

text \<open>\<open>wait_for_tile_animation\<close>; \<open>deadline\<close> is its start and \<open>max_wait\<close>.\<close>

partial_function (option) wait_tiles ::
  "(browser_event list \<Rightarrow> nat) \<Rightarrow> nat \<Rightarrow> string \<Rightarrow> browser \<Rightarrow> browser_event list
     \<Rightarrow> ((mcp_error, unit) outcome \<times> browser_event list) option" where
  "wait_tiles clock deadline fid br es =
     (if deadline \<le> clock es then Some (Ok (), es)
      else
        (case captcha_challenge_state fid br (es @ [Sleep 200]) of
           (Ok state, es1) \<Rightarrow> if settled state then Some (Ok (), es1) else wait_tiles clock deadline fid br es1
         | (Err e, es1) \<Rightarrow> Some (Err e, es1)
         | (Panic, es1) \<Rightarrow> Some (Panic, es1)))"

definition wait_for_tile_animation :: "mcp_env \<Rightarrow> string \<Rightarrow> nat \<Rightarrow> unit run" where
  "wait_for_tile_animation env fid max_wait =
     (\<lambda>br es. wait_tiles (me_clock env) (me_clock env es + max_wait) fid br es)"

subsection \<open>The grid\<close>

definition grid_size :: "rat \<Rightarrow> rat \<Rightarrow> nat" where
  "grid_size w grid_h =
     (if 95 < w / 4 \<and> 95 < grid_h / 4 then
        (if 120 < grid_h / 3 \<and> 120 < w / 3 then 3 else 4)
      else 3)"

definition compute_grid_positions :: "rat \<Rightarrow> rat \<Rightarrow> rat \<Rightarrow> rat \<Rightarrow> (rat \<times> rat) list" where
  "compute_grid_positions x y w h =
     (let grid_h = h - 95 - 65; grid_y = y + 95; n = grid_size w grid_h;
          tile_w = w / of_nat n; tile_h = grid_h / of_nat n
      in concat (map (\<lambda>row. map (\<lambda>col.
           (x + of_nat col * tile_w + tile_w / 2, grid_y + of_nat row * tile_h + tile_h / 2)) [0..<n]) [0..<n]))"

definition compute_verify_button :: "rat \<Rightarrow> rat \<Rightarrow> rat \<Rightarrow> rat \<Rightarrow> rat \<times> rat" where
  "compute_verify_button x y w h = (x + w - 50, y + h - 30)"

subsection \<open>Waiting for the tiles\<close>

lemma challenge_state_run:
  obtains s xs where "captcha_challenge_state fid br es = (Ok s, es @ xs)" "evaluations xs \<le> 1"
proof -
  let ?world = "Call ''Page.createIsolatedWorld''
    (Some (JObj [(''frameId'', JStr fid), (''grantUniveralAccess'', JBool True)]))"
  obtain w where w: "call_and_wait ''Page.createIsolatedWorld''
      (Some (JObj [(''frameId'', JStr fid), (''grantUniveralAccess'', JBool True)])) br es = (w, es @ [?world])" "w \<noteq> Panic"
    by (rule call_cases)
  have run: "\<exists>r xs. cdp_evaluate_js_in_frame challenge_state_js fid br es = (r, es @ xs) \<and> r \<noteq> Panic \<and> evaluations xs \<le> 1"
  proof (cases w)
    case (Ok world)
    show ?thesis
    proof (cases "Option.bind (Option.bind (cm_result world) (jget ''executionContextId'')) as_i64")
      case None
      then show ?thesis using w Ok by (simp add: cdp_evaluate_js_in_frame_def seq_def w(1) lift_def evaluations_def)
    next
      case (Some c)
      let ?p = "Some (JObj [(''expression'', JStr challenge_state_js), (''contextId'', JInt c), (''returnByValue'', JBool True)])"
      obtain a where a: "call_and_wait ''Runtime.evaluate'' ?p br (es @ [?world]) =
          (a, (es @ [?world]) @ [Call ''Runtime.evaluate'' ?p])" "a \<noteq> Panic" by (rule call_cases)
      then show ?thesis using w Ok Some
        by (cases a) (simp_all add: cdp_evaluate_js_in_frame_def seq_def w(1) a(1) lift_def
          evaluations_def evaluation_result_def split: option.splits)
    qed
  qed (use w in \<open>simp_all add: cdp_evaluate_js_in_frame_def seq_def w(1) evaluations_def\<close>)
  then obtain r xs where "cdp_evaluate_js_in_frame challenge_state_js fid br es = (r, es @ xs)" "r \<noteq> Panic" "evaluations xs \<le> 1"
    by blast
  then show thesis
    by (intro that [of "case r of Ok v \<Rightarrow> (case parse_json br (text_or ''{}'' v) of Ok j \<Rightarrow> Some j | _ \<Rightarrow> None) | _ \<Rightarrow> None" xs])
      (cases r; simp add: captcha_challenge_state_def sup_evaluate_js_in_frame_def with_err_def attempt_def seq_def ret_def)+
qed

text \<open>Waiting for the tiles ends without failing, after at most one question per 200 ms of the
  time allowed, if the clock does not run backwards and a pause takes as long as it was asked to.\<close>

theorem tiles_wait_ends:
  assumes "\<forall>es e. me_clock env es \<le> me_clock env (es @ [e])"
    and "\<forall>es n. me_clock env es + n \<le> me_clock env (es @ [Sleep n])"
  shows "\<exists>xs. wait_for_tile_animation env fid max_wait br es = Some (Ok (), es @ xs) \<and>
    evaluations xs \<le> (max_wait + 199) div 200"
proof -
  have le: "me_clock env es \<le> me_clock env (es @ xs)" for es xs
  proof (induction xs rule: rev_induct)
    case (snoc e xs)
    then show ?case using assms(1) [rule_format, of "es @ xs" e] by simp
  qed simp
  have "\<exists>xs. wait_tiles (me_clock env) d fid br es = Some (Ok (), es @ xs) \<and>
      evaluations xs \<le> (d - me_clock env es + 199) div 200" for d es
  proof (induction "d - me_clock env es" arbitrary: es rule: less_induct)
    case less
    show ?case
    proof (cases "d \<le> me_clock env es")
      case False
      obtain s ys where s: "captcha_challenge_state fid br (es @ [Sleep 200]) = (Ok s :: (mcp_error, json option) outcome, (es @ [Sleep 200]) @ ys)" "evaluations ys \<le> 1"
        by (rule challenge_state_run)
      let ?es = "(es @ [Sleep 200]) @ ys"
      have c: "me_clock env es + 200 \<le> me_clock env ?es"
        using assms(2) le [of "es @ [Sleep 200]" ys] by (meson le_trans)
      have "Suc ((d - me_clock env ?es + 199) div 200) \<le> (d - me_clock env es + 199) div 200"
        using c False by (intro polls_left) simp_all
      moreover have "1 \<le> (d - me_clock env es + 199) div 200" using False by simp
      moreover have "d - me_clock env ?es < d - me_clock env es" using c False by linarith
      then obtain zs where zs: "wait_tiles (me_clock env) d fid br ?es = Some (Ok (), ?es @ zs)"
          "evaluations zs \<le> (d - me_clock env ?es + 199) div 200"
        using less [of ?es] by blast
      moreover have "wait_tiles (me_clock env) d fid br es =
          (if settled s then Some (Ok (), ?es) else wait_tiles (me_clock env) d fid br ?es)"
        using False s(1) by (subst wait_tiles.simps) simp
      ultimately show ?thesis using s(2) zs
        by (intro exI [of _ "if settled s then Sleep 200 # ys else Sleep 200 # ys @ zs"]) auto
    qed (simp add: wait_tiles.simps [of "me_clock env" d fid br es])
  qed
  from this [of "me_clock env es + max_wait" es] show ?thesis by (simp add: wait_for_tile_animation_def)
qed

lemma tiles_wait_ends_witness:
  "\<exists>es'. wait_for_tile_animation (example_mcp\<lparr>me_clock := slept\<rparr>) ''f'' 1000 (quiet_browser JNull) [] = Some (Ok (), es') \<and>
     evaluations es' \<le> 5"
  using tiles_wait_ends [of "example_mcp\<lparr>me_clock := slept\<rparr>" "''f''" 1000 "quiet_browser JNull" "[]"] by auto

subsection \<open>The geometry of the grid\<close>

text \<open>The condition for four columns cannot hold: a width above 380 has thirds above 120.\<close>

lemma grid_size_is_3: "grid_size w g = 3"
  by (simp add: grid_size_def)

lemma three: "[0..<3] = [0, 1, 2::nat]" by (simp add: upt_rec)

text \<open>The grid always has three rows of three tiles, row by row; the positions are the centres
  of nine equal cells that tile the frame between its header of 95 and its footer of 65. In a frame
  higher than these, every position is inside that area, so none is on the button to verify, which is
  in the footer.\<close>

theorem captcha_grid_centres:
  "length (compute_grid_positions x y w h) = 9 \<and>
   (\<forall>r<3. \<forall>c<3. compute_grid_positions x y w h ! (3 * r + c) =
      (x + w * (of_nat c + 1/2) / 3, y + 95 + (h - 160) * (of_nat r + 1/2) / 3)) \<and>
   (0 < w \<longrightarrow> 160 < h \<longrightarrow>
      (\<forall>p \<in> set (compute_grid_positions x y w h).
         x < fst p \<and> fst p < x + w \<and> y + 95 < snd p \<and> snd p < y + h - 65 \<and>
         snd p < snd (compute_verify_button x y w h) - 35))"
proof (intro conjI impI ballI allI)
  have grid: "compute_grid_positions x y w h =
      map (\<lambda>(r, c). (x + w * (of_nat c + 1/2) / 3, y + 95 + (h - 160) * (of_nat r + 1/2) / 3))
        [(0, 0), (0, 1), (0, 2), (1, 0), (1, 1), (1, 2), (2, 0), (2, 1), (2, 2::nat)]"
    by (simp add: compute_grid_positions_def grid_size_is_3 Let_def three field_simps)
  show "length (compute_grid_positions x y w h) = 9" by (simp add: grid)
  show "compute_grid_positions x y w h ! (3 * r + c) =
      (x + w * (of_nat c + 1/2) / 3, y + 95 + (h - 160) * (of_nat r + 1/2) / 3)" if "r < 3" "c < 3" for r c
  proof -
    from that have "r \<in> {0, 1, 2}" "c \<in> {0, 1, 2}" by auto
    then show ?thesis by (auto simp: grid)
  qed
  fix p
  assume "0 < w" "160 < h" and p: "p \<in> set (compute_grid_positions x y w h)"
  then show "x < fst p" "fst p < x + w" "y + 95 < snd p" "snd p < y + h - 65"
      "snd p < snd (compute_verify_button x y w h) - 35"
    by (auto simp: grid compute_verify_button_def field_simps)
qed

lemma captcha_grid_centres_witness:
  "\<forall>p \<in> set (compute_grid_positions 85 84 400 580). 179 < snd p \<and> snd p < 599"
  using captcha_grid_centres [of 85 84 400 580] by auto

text \<open>A frame between 100 and 160 high is accepted as the challenge, though no tile can be in it:
  the positions are then above the lower end of the header.\<close>

lemma low_frame_accepted:
  "challenge_bounds (JObj [(''src'', JStr ''bframe''), (''visible'', JBool True), (''x'', JInt 0), (''y'', JInt 0),
       (''width'', JInt 300), (''height'', JInt 120)]) = Some (0, 0, 300, 120) \<and>
   (\<forall>p \<in> set (compute_grid_positions 0 0 300 120). snd p < 95)"
  by (simp add: challenge_bounds_def field_or_def str_contains_def str_find_def starts_with_def compute_grid_positions_def grid_size_is_3 three Let_def)

subsection \<open>Only direct children\<close>

text \<open>A frame inside another child frame is never searched.\<close>

lemma nested_frame_missed:
  "find_elements_in_frames
     (JObj [(''childFrames'', JArr [JObj [(''childFrames'', JArr [JObj [(''frame'', JObj [(''id'', JStr ''inner'')])]])]])])
     sel br es = (Ok [], es)"
  by (simp add: find_elements_in_frames_def child_frames_def frame_field_def ret_def)

end
