(* ===== verification/Channels.thy ===== *)
theory Channels
  imports Prelude
begin

section \<open>Channels\<close>

text \<open>
  The channels of \<open>tokio::sync\<close>: a bounded queue (\<open>mpsc\<close>) as the messages not yet received and
  whether the receiver is gone, and what a receiver of a broadcast gets.
\<close>

record 'a mpsc =
  mq_items :: "'a list"
  mq_capacity :: nat
  mq_closed :: bool

datatype send_result = Sent | Full | Closed

definition mpsc_new :: "nat \<Rightarrow> 'a mpsc" where
  "mpsc_new n = \<lparr>mq_items = [], mq_capacity = n, mq_closed = False\<rparr>"

definition try_send :: "'a \<Rightarrow> 'a mpsc \<Rightarrow> send_result \<times> 'a mpsc" where
  "try_send x q =
     (if mq_closed q then (Closed, q)
      else if length (mq_items q) < mq_capacity q then (Sent, q\<lparr>mq_items := mq_items q @ [x]\<rparr>)
      else (Full, q))"

datatype 'a received = Got 'a | Lagged u64 | ClosedRx

lemma mpsc_new_simps [simp]:
  "mq_items (mpsc_new n) = []" "mq_capacity (mpsc_new n) = n" "\<not> mq_closed (mpsc_new n)"
  by (simp_all add: mpsc_new_def)

lemma try_send_keeps [simp]:
  "mq_capacity (snd (try_send x q)) = mq_capacity q" "mq_closed (snd (try_send x q)) = mq_closed q"
  by (simp_all add: try_send_def)

text \<open>Sends while nothing is received: what is full stays as it is.\<close>

lemma try_send_all:
  assumes "\<not> mq_closed q" and "length (mq_items q) \<le> mq_capacity q"
  shows "fold (\<lambda>x q. snd (try_send x q)) xs q = q\<lparr>mq_items := take (mq_capacity q) (mq_items q @ xs)\<rparr>"
  using assms
proof (induction xs arbitrary: q)
  case (Cons x xs)
  let ?q = "snd (try_send x q)"
  have "\<not> mq_closed ?q" "length (mq_items ?q) \<le> mq_capacity ?q"
    using Cons.prems by (auto simp: try_send_def)
  then show ?case using Cons.IH [of ?q] Cons.prems by (auto simp: try_send_def take_Cons')
qed simp

end
