(* ===== verification/Wire_Messages.thy ===== *)
theory Wire_Messages
  imports Channels Core_Types Errors Json Utf8_Lossy
begin

section \<open>Messages of a peer\<close>

text \<open>
  What a browser peer and the server say to each other: the signalling messages of
  \<open>webrtc_session/signaling.rs\<close>, the input events of \<open>event.rs\<close> as they travel over the data
  channel, and \<open>webrtc_session/data_channel.rs\<close>, which hands them on through a bounded channel
  (\<open>crates/vscreen-transport\<close> and \<open>crates/vscreen-core\<close>). What serde derives for an enum with a tag
  is written out on JSON values; JSON as text is the package's work and is a parameter.
\<close>

subsection \<open>Enums with a tag\<close>

text \<open>JSON as text: reading, printing, and the message of a value that does not fit the type.\<close>

record serde =
  sj_parse :: "string \<Rightarrow> string + json"
  sj_misfit :: "json \<Rightarrow> string"
  sj_print :: "json \<Rightarrow> string"

definition from_json :: "(json \<Rightarrow> 'a option) \<Rightarrow> serde \<Rightarrow> string \<Rightarrow> string + 'a" where
  "from_json of_json sj text =
     (case sj_parse sj text of
        Inl e \<Rightarrow> Inl e
      | Inr j \<Rightarrow> (case of_json j of None \<Rightarrow> Inl (sj_misfit sj j) | Some a \<Rightarrow> Inr a))"

text \<open>A field that the type knows must not be given twice.\<close>

definition once :: "string list \<Rightarrow> (string \<times> json) list \<Rightarrow> bool" where
  "once ks m = list_all (\<lambda>k. length (filter (\<lambda>p. fst p = k) m) \<le> 1) ks"

text \<open>The tag, and the rest of the value. serde also takes an array that starts with the tag.\<close>

fun tagged :: "string \<Rightarrow> json \<Rightarrow> (string \<times> json) option" where
  "tagged k (JObj m) =
     (if once [k] m then map_option (\<lambda>t. (t, JObj m)) (Option.bind (map_of m k) as_str) else None)"
| "tagged k (JArr (JStr t # xs)) = Some (t, JArr xs)"
| "tagged k _ = None"

fun fields_of :: "string list \<Rightarrow> json \<Rightarrow> json option" where
  "fields_of ks (JObj m) = (if once ks m then Some (JObj m) else None)"
| "fields_of ks (JArr xs) = (if length xs = length ks then Some (JObj (zip ks xs)) else None)"
| "fields_of ks _ = None"

fun as_word :: "json \<Rightarrow> 'a::len word option" where
  "as_word (JInt i) = (if 0 \<le> i \<and> i < 2 ^ LENGTH('a) then Some (word_of_int i) else None)"
| "as_word _ = None"

definition field :: "(json \<Rightarrow> 'a option) \<Rightarrow> string \<Rightarrow> json \<Rightarrow> 'a option" where
  "field f k j = Option.bind (jget k j) f"

definition field_default :: "'a \<Rightarrow> (json \<Rightarrow> 'a option) \<Rightarrow> string \<Rightarrow> json \<Rightarrow> 'a option" where
  "field_default d f k j = (case jget k j of None \<Rightarrow> Some d | Some v \<Rightarrow> f v)"

definition json_word :: "'a::len word \<Rightarrow> json" where
  "json_word w = JInt (uint w)"

definition json_option :: "('a \<Rightarrow> json) \<Rightarrow> 'a option \<Rightarrow> json" where
  "json_option f v = (case v of None \<Rightarrow> JNull | Some a \<Rightarrow> f a)"

lemma as_word_json [simp]: "as_word (json_word w) = Some w"
proof -
  have "uint w < 2 ^ LENGTH('a)" by (rule uint_lt2p)
  then show ?thesis by (simp add: json_word_def)
qed

lemma opt_field_json:
  assumes "map_of m k = Some (json_option g v)" and "\<And>a. f (g a) = Some a" and "\<And>a. g a \<noteq> JNull"
  shows "opt_field f k (JObj m) = Some v"
proof (cases v)
  case (Some a)
  then show ?thesis using assms(1) assms(2) [of a] assms(3) [of a] by (cases "g a") (simp_all add: opt_field_def json_option_def)
qed (use assms(1) in \<open>simp add: opt_field_def json_option_def\<close>)

subsection \<open>Signalling messages\<close>

datatype signaling_message =
    OfferMsg string
  | AnswerMsg string
  | IceCandidate string "u16 option" "string option"
  | IceComplete
  | ErrorMsg string string
  | ConnectedMsg string
  | DisconnectedMsg string
  | ClipboardMsg string

definition message_of :: "json \<Rightarrow> signaling_message option" where
  "message_of j = Option.bind (tagged ''type'' j) (\<lambda>(t, c).
     if t = ''offer'' then
       Option.bind (fields_of [''sdp''] c) (\<lambda>f. map_option OfferMsg (field as_str ''sdp'' f))
     else if t = ''answer'' then
       Option.bind (fields_of [''sdp''] c) (\<lambda>f. map_option AnswerMsg (field as_str ''sdp'' f))
     else if t = ''ice_candidate'' then
       Option.bind (fields_of [''candidate'', ''sdpMLineIndex'', ''sdpMid''] c) (\<lambda>f.
       Option.bind (field as_str ''candidate'' f) (\<lambda>cand.
       Option.bind (opt_field as_word ''sdpMLineIndex'' f) (\<lambda>line.
       map_option (IceCandidate cand line) (opt_field as_str ''sdpMid'' f))))
     else if t = ''ice_complete'' then map_option (\<lambda>_. IceComplete) (fields_of [] c)
     else if t = ''error'' then
       Option.bind (fields_of [''code'', ''message''] c) (\<lambda>f.
       Option.bind (field as_str ''code'' f) (\<lambda>code. map_option (ErrorMsg code) (field as_str ''message'' f)))
     else if t = ''connected'' then
       Option.bind (fields_of [''peer_id''] c) (\<lambda>f. map_option ConnectedMsg (field as_str ''peer_id'' f))
     else if t = ''disconnected'' then
       Option.bind (fields_of [''reason''] c) (\<lambda>f. map_option DisconnectedMsg (field as_str ''reason'' f))
     else if t = ''clipboard'' then
       Option.bind (fields_of [''text''] c) (\<lambda>f. map_option ClipboardMsg (field as_str ''text'' f))
     else None)"

fun message_json :: "signaling_message \<Rightarrow> json" where
  "message_json (OfferMsg sdp) = JObj [(''type'', JStr ''offer''), (''sdp'', JStr sdp)]"
| "message_json (AnswerMsg sdp) = JObj [(''type'', JStr ''answer''), (''sdp'', JStr sdp)]"
| "message_json (IceCandidate c line mid) =
     JObj [(''type'', JStr ''ice_candidate''), (''candidate'', JStr c),
       (''sdpMLineIndex'', json_option json_word line), (''sdpMid'', json_option JStr mid)]"
| "message_json IceComplete = JObj [(''type'', JStr ''ice_complete'')]"
| "message_json (ErrorMsg c m) = JObj [(''type'', JStr ''error''), (''code'', JStr c), (''message'', JStr m)]"
| "message_json (ConnectedMsg p) = JObj [(''type'', JStr ''connected''), (''peer_id'', JStr p)]"
| "message_json (DisconnectedMsg r) = JObj [(''type'', JStr ''disconnected''), (''reason'', JStr r)]"
| "message_json (ClipboardMsg t) = JObj [(''type'', JStr ''clipboard''), (''text'', JStr t)]"

definition message_from_json :: "serde \<Rightarrow> string \<Rightarrow> string + signaling_message" where
  "message_from_json = from_json message_of"

definition message_to_json :: "serde \<Rightarrow> signaling_message \<Rightarrow> string" where
  "message_to_json sj m = sj_print sj (message_json m)"

subsection \<open>Input events\<close>

definition input_of :: "json \<Rightarrow> rat input_event option" where
  "input_of j = Option.bind (tagged ''t'' j) (\<lambda>(t, c).
     if t = ''mm'' then
       Option.bind (fields_of [''x'', ''y'', ''b'', ''m''] c) (\<lambda>f.
       Option.bind (field as_f64 ''x'' f) (\<lambda>x. Option.bind (field as_f64 ''y'' f) (\<lambda>y.
       Option.bind (field_default 0 as_word ''b'' f) (\<lambda>b. map_option (MouseMove x y b) (field as_word ''m'' f)))))
     else if t = ''md'' then
       Option.bind (fields_of [''x'', ''y'', ''b'', ''m''] c) (\<lambda>f.
       Option.bind (field as_f64 ''x'' f) (\<lambda>x. Option.bind (field as_f64 ''y'' f) (\<lambda>y.
       Option.bind (field as_word ''b'' f) (\<lambda>b. map_option (MouseDown x y b) (field as_word ''m'' f)))))
     else if t = ''mu'' then
       Option.bind (fields_of [''x'', ''y'', ''b'', ''m''] c) (\<lambda>f.
       Option.bind (field as_f64 ''x'' f) (\<lambda>x. Option.bind (field as_f64 ''y'' f) (\<lambda>y.
       Option.bind (field as_word ''b'' f) (\<lambda>b. map_option (MouseUp x y b) (field as_word ''m'' f)))))
     else if t = ''wh'' then
       Option.bind (fields_of [''x'', ''y'', ''dx'', ''dy'', ''m''] c) (\<lambda>f.
       Option.bind (field as_f64 ''x'' f) (\<lambda>x. Option.bind (field as_f64 ''y'' f) (\<lambda>y.
       Option.bind (field as_f64 ''dx'' f) (\<lambda>dx. Option.bind (field as_f64 ''dy'' f) (\<lambda>dy.
       map_option (Wheel x y dx dy) (field as_word ''m'' f))))))
     else if t = ''kd'' then
       Option.bind (fields_of [''key'', ''code'', ''m''] c) (\<lambda>f.
       Option.bind (field as_str ''key'' f) (\<lambda>key. Option.bind (field as_str ''code'' f) (\<lambda>code.
       map_option (KeyDown key code) (field as_word ''m'' f))))
     else if t = ''ku'' then
       Option.bind (fields_of [''key'', ''code'', ''m''] c) (\<lambda>f.
       Option.bind (field as_str ''key'' f) (\<lambda>key. Option.bind (field as_str ''code'' f) (\<lambda>code.
       map_option (KeyUp key code) (field as_word ''m'' f))))
     else if t = ''paste'' then
       Option.bind (fields_of [''text''] c) (\<lambda>f. map_option Paste (field as_str ''text'' f))
     else if t = ''br'' then
       Option.bind (fields_of [''kbps''] c) (\<lambda>f. map_option BitrateHint (field as_word ''kbps'' f))
     else None)"

fun input_json :: "rat input_event \<Rightarrow> json" where
  "input_json (MouseMove x y b m) =
     JObj [(''t'', JStr ''mm''), (''x'', JFloat x), (''y'', JFloat y), (''b'', json_word b), (''m'', json_word m)]"
| "input_json (MouseDown x y b m) =
     JObj [(''t'', JStr ''md''), (''x'', JFloat x), (''y'', JFloat y), (''b'', json_word b), (''m'', json_word m)]"
| "input_json (MouseUp x y b m) =
     JObj [(''t'', JStr ''mu''), (''x'', JFloat x), (''y'', JFloat y), (''b'', json_word b), (''m'', json_word m)]"
| "input_json (Wheel x y dx dy m) =
     JObj [(''t'', JStr ''wh''), (''x'', JFloat x), (''y'', JFloat y), (''dx'', JFloat dx), (''dy'', JFloat dy),
       (''m'', json_word m)]"
| "input_json (KeyDown k c m) =
     JObj [(''t'', JStr ''kd''), (''key'', JStr k), (''code'', JStr c), (''m'', json_word m)]"
| "input_json (KeyUp k c m) =
     JObj [(''t'', JStr ''ku''), (''key'', JStr k), (''code'', JStr c), (''m'', json_word m)]"
| "input_json (Paste t) = JObj [(''t'', JStr ''paste''), (''text'', JStr t)]"
| "input_json (BitrateHint k) = JObj [(''t'', JStr ''br''), (''kbps'', json_word k)]"

subsection \<open>Errors of UTF-8\<close>

text \<open>\<open>str::from_utf8\<close>: up to where the text is valid, and the length of what is not, unless the
  text just ends too early.\<close>

function utf8_error :: "nat \<Rightarrow> string \<Rightarrow> (nat \<times> nat option) option" where
  "utf8_error i [] = None"
| "utf8_error i (a # s) =
     (let (n, ok) = utf8_chunk a s in
      if ok then utf8_error (i + n) (drop n (a # s))
      else Some (i, if n < seq_width a \<and> n = length (a # s) then None else Some n))"
  by pat_completeness auto
termination
proof (relation "measure (length \<circ> snd)")
  fix i a s n ok x
  assume "x = utf8_chunk a s" "(n, ok) = x"
  then have "1 \<le> n" using utf8_chunk_pos [of a s] by (metis fst_conv)
  then show "((i + n, drop n (a # s)), i, a # s) \<in> measure (length \<circ> snd)" by simp
qed simp

definition show_utf8_error :: "nat \<times> nat option \<Rightarrow> string" where
  "show_utf8_error e =
     (case snd e of
        Some n \<Rightarrow> ''invalid utf-8 sequence of '' @ show_nat n @ '' bytes from index '' @ show_nat (fst e)
      | None \<Rightarrow> ''incomplete utf-8 byte sequence from index '' @ show_nat (fst e))"

subsection \<open>The input data channel\<close>

type_synonym peer_id = uuid
type_synonym peer_input = "peer_id \<times> rat input_event"

definition parse_input_message :: "serde \<Rightarrow> string \<Rightarrow> transport_error + rat input_event" where
  "parse_input_message sj data =
     (case utf8_error 0 data of
        Some e \<Rightarrow> Inl (DataChannel (''invalid UTF-8: '' @ show_utf8_error e))
      | None \<Rightarrow>
          (case from_json input_of sj data of
             Inl e \<Rightarrow> Inl (DataChannel (''parse error: '' @ e))
           | Inr ev \<Rightarrow> Inr ev))"

definition dc_handle_message ::
  "serde \<Rightarrow> peer_id \<Rightarrow> string \<Rightarrow> peer_input mpsc \<Rightarrow> (transport_error + unit) \<times> peer_input mpsc" where
  "dc_handle_message sj peer data q =
     (case parse_input_message sj data of
        Inl e \<Rightarrow> (Inl e, q)
      | Inr ev \<Rightarrow>
          (case try_send (peer, ev) q of
             (Sent, q') \<Rightarrow> (Inr (), q')
           | (Full, q') \<Rightarrow> (Inr (), q')
           | (Closed, q') \<Rightarrow> (Inl (DataChannel ''input channel closed''), q')))"

subsection \<open>Round trips\<close>

text \<open>A type that travels: what was written is read back.\<close>

locale wire_type =
  fixes enc :: "'a \<Rightarrow> json" and dec :: "json \<Rightarrow> 'a option"
  assumes dec_enc: "dec (enc a) = Some a"
begin

lemma enc_inject: "enc a = enc b \<longleftrightarrow> a = b"
  by (metis dec_enc option.inject)

text \<open>If the package reads the text it printed, the value comes back from the text.\<close>

lemma text_round_trip:
  assumes "sj_parse sj (sj_print sj (enc a)) = Inr (enc a)"
  shows "from_json dec sj (sj_print sj (enc a)) = Inr a"
  by (simp add: from_json_def assms dec_enc)

end

named_theorems wire_simps "reading what was written"

lemmas [wire_simps] = once_def field_def field_default_def opt_field_def

lemma message_round_trip: "message_of (message_json m) = Some m"
proof (cases m)
  case (IceCandidate c line mid)
  let ?m = "[(''type'', JStr ''ice_candidate''), (''candidate'', JStr c),
    (''sdpMLineIndex'', json_option json_word line), (''sdpMid'', json_option JStr mid)]"
  have "opt_field as_word ''sdpMLineIndex'' (JObj ?m) = Some line"
    by (rule opt_field_json [where g = json_word]) (simp, rule as_word_json, simp add: json_word_def)
  moreover have "opt_field as_str ''sdpMid'' (JObj ?m) = Some mid"
    by (rule opt_field_json [where g = JStr]) simp_all
  ultimately show ?thesis by (simp add: IceCandidate message_of_def once_def field_def)
qed (simp_all add: message_of_def wire_simps)

lemma input_round_trip: "input_of (input_json e) = Some e"
  by (cases e) (simp_all add: input_of_def wire_simps)

interpretation message: wire_type message_json message_of
  by unfold_locales (rule message_round_trip)

interpretation input: wire_type input_json input_of
  by unfold_locales (rule input_round_trip)



subsection \<open>UTF-8 and the input channel\<close>

lemma utf8_error_valid: "utf8_valid s \<Longrightarrow> utf8_error i s = None"
proof (induction i s rule: utf8_error.induct)
  case (2 i a s)
  obtain n where n: "utf8_chunk a s = (n, True)" "utf8_valid (drop n (a # s))"
    using "2.prems" by (rule valid_chunk)
  then show ?case using "2.IH" by simp
qed simp

text \<open>The events that can be read from a list of messages.\<close>

fun readable :: "serde \<Rightarrow> string list \<Rightarrow> rat input_event list" where
  "readable sj [] = []"
| "readable sj (d # ds) = (case parse_input_message sj d of Inl _ \<Rightarrow> readable sj ds | Inr ev \<Rightarrow> ev # readable sj ds)"

text \<open>The input channel drops what is new, never what is old: while nothing is received from it, an
  open channel holds what it held and then the events that can be read, in order and with their
  peer, as far as its capacity goes. An event that does not fit is dropped without an error, and
  one that cannot be read is an error and changes nothing.\<close>

theorem input_channel_keeps_first:
  assumes "\<not> mq_closed q" and "length (mq_items q) \<le> mq_capacity q"
  shows "mq_items (fold (\<lambda>d q. snd (dc_handle_message sj peer d q)) ds q) =
      take (mq_capacity q) (mq_items q @ map (Pair peer) (readable sj ds)) \<and>
    (isl (fst (dc_handle_message sj peer d q)) \<longleftrightarrow> isl (parse_input_message sj d)) \<and>
    (isl (parse_input_message sj d) \<longrightarrow> snd (dc_handle_message sj peer d q) = q)"
proof (intro conjI)
  show "mq_items (fold (\<lambda>d q. snd (dc_handle_message sj peer d q)) ds q) =
      take (mq_capacity q) (mq_items q @ map (Pair peer) (readable sj ds))"
    using assms
  proof (induction ds arbitrary: q)
    case (Cons d ds)
    let ?q = "snd (dc_handle_message sj peer d q)"
    have "\<not> mq_closed ?q" "length (mq_items ?q) \<le> mq_capacity ?q" "mq_capacity ?q = mq_capacity q"
      using Cons.prems by (auto simp: dc_handle_message_def try_send_def split: sum.split)
    moreover have "take (mq_capacity q) (mq_items ?q @ map (Pair peer) (readable sj ds)) =
        take (mq_capacity q) (mq_items q @ map (Pair peer) (readable sj (d # ds)))"
      using Cons.prems by (auto simp: take_Cons' dc_handle_message_def try_send_def split: sum.split)
    ultimately show ?case using Cons.IH [of ?q] by simp
  qed simp
qed (use assms in \<open>auto simp: dc_handle_message_def try_send_def split: sum.split\<close>)

lemma input_channel_keeps_first_witness:
  "mq_items (fold (\<lambda>d q. snd (dc_handle_message \<lparr>sj_parse = (\<lambda>_. Inr (input_json (Paste ''x''))), sj_misfit = (\<lambda>_. []),
      sj_print = (\<lambda>_. [])\<rparr> 7 d q)) [''a'', ''b''] (mpsc_new 1)) = [(7, Paste ''x'')]"
proof -
  let ?sj = "\<lparr>sj_parse = (\<lambda>_. Inr (input_json (Paste ''x''))), sj_misfit = (\<lambda>_. []), sj_print = (\<lambda>_. [])\<rparr>"
  have "parse_input_message ?sj d = Inr (Paste ''x'')" if "utf8_valid d" for d
    by (simp add: parse_input_message_def utf8_error_valid [OF that] from_json_def input_round_trip del: input_json.simps)
  then have "readable ?sj [''a'', ''b''] = [Paste ''x'', Paste ''x'']" by (simp add: byte_in_def)
  then show ?thesis using input_channel_keeps_first [of "mpsc_new 1" ?sj 7 "[''a'', ''b'']" "[]"]
    by (simp add: mpsc_new_def)
qed

end
