(* ===== verification/Peer_Session.thy ===== *)
theory Peer_Session
  imports Wire_Messages
begin

section \<open>WebRTC sessions\<close>

text \<open>
  \<open>webrtc_session/session.rs\<close> (\<open>crates/vscreen-transport\<close>): the server's side of one peer
  connection. The connection itself is an object of the WebRTC package: the model keeps what was
  asked of it, in order, and a parameter answers each request with a value or the text of an
  error. Identifiers are printed, and the names of the codecs given, by the packages too.
\<close>

subsection \<open>The connection\<close>

record ice_init =
  ii_candidate :: string
  ii_mid :: "string option"
  ii_line :: "u16 option"
  ii_fragment :: "string option"

record track_capability =
  tc_mime_type :: string
  tc_clock_rate :: u32
  tc_channels :: u16
  tc_fmtp :: string
  tc_feedback :: "string list"

record sample =
  sm_data :: bytes
  sm_time :: nat
  sm_duration_ms :: u64
  sm_packet_timestamp :: u32
  sm_dropped :: u16
  sm_padding :: u16

datatype pc_op =
    RegisterCodecs
  | RegisterInterceptors
  | NewConnection "string list"
  | AddTrack track_capability string string
  | ParseOffer string
  | SetRemote string
  | AddCandidate ice_init
  | CreateAnswer
  | SetLocal string
  | WriteVideo sample
  | WriteAudio sample
  | ClosePc

record rtc =
  rtc_answer :: "pc_op list \<Rightarrow> pc_op \<Rightarrow> string + string"
  rtc_mime_h264 :: string
  rtc_mime_vp9 :: string
  rtc_mime_opus :: string
  rtc_show_peer :: "peer_id \<Rightarrow> string"

subsection \<open>The session\<close>

datatype peer_session_state = NewPeer | ConnectingPeer | ConnectedPeer | DisconnectedPeer | FailedPeer

record peer_session =
  ps_peer_id :: peer_id
  ps_state :: peer_session_state
  ps_ops :: "pc_op list"
  ps_ice_buffer :: "signaling_message list"
  ps_remote_set :: bool
  ps_audio_timestamp :: u32

definition video_capability :: "rtc \<Rightarrow> video_codec \<Rightarrow> track_capability" where
  "video_capability rtc codec =
     (let (mime, fmtp) = (case codec of
            H264 \<Rightarrow> (rtc_mime_h264 rtc, ''level-asymmetry-allowed=1;packetization-mode=1;profile-level-id=42e01f'')
          | Vp9 \<Rightarrow> (rtc_mime_vp9 rtc, []))
      in \<lparr>tc_mime_type = mime, tc_clock_rate = 90000, tc_channels = 0, tc_fmtp = fmtp, tc_feedback = []\<rparr>)"

definition audio_capability :: "rtc \<Rightarrow> track_capability" where
  "audio_capability rtc =
     \<lparr>tc_mime_type = rtc_mime_opus rtc, tc_clock_rate = 48000, tc_channels = 2,
      tc_fmtp = ''minptime=10;useinbandfec=1'', tc_feedback = []\<rparr>"

text \<open>The requests that set a connection up, each with the start of its error.\<close>

definition setup_ops :: "rtc \<Rightarrow> video_codec \<Rightarrow> (string \<times> pc_op) list" where
  "setup_ops rtc codec =
     [(''register codecs: '', RegisterCodecs),
      (''register interceptors: '', RegisterInterceptors),
      (''create peer connection: '', NewConnection [''stun:stun.l.google.com:19302'']),
      (''add video track: '', AddTrack (video_capability rtc codec) ''video'' ''vscreen''),
      (''add audio track: '', AddTrack (audio_capability rtc) ''audio'' ''vscreen'')]"

fun run_setup :: "rtc \<Rightarrow> (string \<times> pc_op) list \<Rightarrow> pc_op list \<Rightarrow> transport_error + pc_op list" where
  "run_setup rtc [] ops = Inr ops"
| "run_setup rtc ((m, r) # rs) ops =
     (case rtc_answer rtc ops r of
        Inl e \<Rightarrow> Inl (WebRtc (m @ e))
      | Inr _ \<Rightarrow> run_setup rtc rs (ops @ [r]))"

text \<open>\<open>PeerSession::new\<close>; its channel for outgoing messages holds 128.\<close>

definition peer_session_new ::
  "rtc \<Rightarrow> peer_id \<Rightarrow> video_codec \<Rightarrow> transport_error + (peer_session \<times> signaling_message mpsc)" where
  "peer_session_new rtc peer codec =
     (case run_setup rtc (setup_ops rtc codec) [] of
        Inl e \<Rightarrow> Inl e
      | Inr ops \<Rightarrow>
          Inr (\<lparr>ps_peer_id = peer, ps_state = NewPeer, ps_ops = ops, ps_ice_buffer = [],
                ps_remote_set = False, ps_audio_timestamp = 0\<rparr>, mpsc_new 128))"

definition pc_call :: "rtc \<Rightarrow> pc_op \<Rightarrow> peer_session \<Rightarrow> (string + string) \<times> peer_session" where
  "pc_call rtc r s = (rtc_answer rtc (ps_ops s) r, s\<lparr>ps_ops := ps_ops s @ [r]\<rparr>)"

text \<open>What the connection calls back: a candidate of this side goes to the outgoing messages, unless
  they are full.\<close>

definition on_ice_candidate :: "(string + ice_init) option \<Rightarrow> signaling_message mpsc \<Rightarrow> signaling_message mpsc" where
  "on_ice_candidate c q =
     (case c of
        Some (Inr i) \<Rightarrow> snd (try_send (IceCandidate (ii_candidate i) (ii_line i) (ii_mid i)) q)
      | _ \<Rightarrow> q)"

subsection \<open>Signalling\<close>

definition init_of :: "string \<Rightarrow> u16 option \<Rightarrow> string option \<Rightarrow> ice_init" where
  "init_of cand line mid = \<lparr>ii_candidate = cand, ii_mid = mid, ii_line = line, ii_fragment = None\<rparr>"

text \<open>The candidates that came before the offer; an error of one is logged.\<close>

fun apply_buffered :: "rtc \<Rightarrow> signaling_message list \<Rightarrow> peer_session \<Rightarrow> peer_session" where
  "apply_buffered rtc [] s = s"
| "apply_buffered rtc (IceCandidate cand line mid # ms) s =
     apply_buffered rtc ms (snd (pc_call rtc (AddCandidate (init_of cand line mid)) s))"
| "apply_buffered rtc (_ # ms) s = apply_buffered rtc ms s"

definition handle_offer ::
  "rtc \<Rightarrow> string \<Rightarrow> peer_session \<Rightarrow> (transport_error + signaling_message option) \<times> peer_session" where
  "handle_offer rtc sdp s0 =
     (case pc_call rtc (ParseOffer sdp) (s0\<lparr>ps_state := ConnectingPeer\<rparr>) of
        (Inl e, s) \<Rightarrow> (Inl (Signaling (''parse offer: '' @ e)), s)
      | (Inr _, s) \<Rightarrow>
     (case pc_call rtc (SetRemote sdp) s of
        (Inl e, s) \<Rightarrow> (Inl (Signaling (''set remote description: '' @ e)), s)
      | (Inr _, s) \<Rightarrow>
          (let s = apply_buffered rtc (ps_ice_buffer s) (s\<lparr>ps_remote_set := True, ps_ice_buffer := []\<rparr>)
           in
     (case pc_call rtc CreateAnswer s of
        (Inl e, s) \<Rightarrow> (Inl (Signaling (''create answer: '' @ e)), s)
      | (Inr answer, s) \<Rightarrow>
     (case pc_call rtc (SetLocal answer) s of
        (Inl e, s) \<Rightarrow> (Inl (Signaling (''set local description: '' @ e)), s)
      | (Inr _, s) \<Rightarrow> (Inr (Some (AnswerMsg answer)), s))))))"

definition handle_ice_candidate ::
  "rtc \<Rightarrow> string \<Rightarrow> u16 option \<Rightarrow> string option \<Rightarrow> peer_session \<Rightarrow> (transport_error + unit) \<times> peer_session" where
  "handle_ice_candidate rtc cand line mid s =
     (if \<not> ps_remote_set s then
        (Inr (), s\<lparr>ps_ice_buffer := ps_ice_buffer s @ [IceCandidate cand line mid]\<rparr>)
      else
        (case pc_call rtc (AddCandidate (init_of cand line mid)) s of
           (Inl e, s) \<Rightarrow> (Inl (Ice (''add candidate: '' @ e)), s)
         | (Inr _, s) \<Rightarrow> (Inr (), s)))"

definition handle_signaling ::
  "rtc \<Rightarrow> signaling_message \<Rightarrow> peer_session \<Rightarrow> (transport_error + signaling_message option) \<times> peer_session" where
  "handle_signaling rtc m s =
     (case m of
        OfferMsg sdp \<Rightarrow> handle_offer rtc sdp s
      | IceCandidate cand line mid \<Rightarrow>
          (case handle_ice_candidate rtc cand line mid s of
             (Inl e, s) \<Rightarrow> (Inl e, s)
           | (Inr _, s) \<Rightarrow> (Inr None, s))
      | IceComplete \<Rightarrow> (Inr None, s)
      | _ \<Rightarrow> (Inl (Signaling (''unexpected message type from peer '' @ rtc_show_peer rtc (ps_peer_id s))), s))"

subsection \<open>Media\<close>

definition duration_or :: "u64 \<Rightarrow> encoded_packet \<Rightarrow> u64" where
  "duration_or d packet = (case ep_duration packet of Some n \<Rightarrow> n | None \<Rightarrow> d)"

definition write_video :: "rtc \<Rightarrow> nat \<Rightarrow> encoded_packet \<Rightarrow> peer_session \<Rightarrow> (transport_error + unit) \<times> peer_session" where
  "write_video rtc now packet s =
     (case pc_call rtc (WriteVideo \<lparr>sm_data = ep_data packet, sm_time = now, sm_duration_ms = duration_or 33 packet,
          sm_packet_timestamp = 0, sm_dropped = 0, sm_padding = 0\<rparr>) s of
        (Inl e, s) \<Rightarrow> (Inl (WebRtc (''write video: '' @ e)), s)
      | (Inr _, s) \<Rightarrow> (Inr (), s))"

text \<open>\<open>checks\<close> is the build's setting for overflow checks.\<close>

definition write_audio ::
  "bool \<Rightarrow> rtc \<Rightarrow> nat \<Rightarrow> encoded_packet \<Rightarrow> peer_session \<Rightarrow> (transport_error, unit) outcome \<times> peer_session" where
  "write_audio checks rtc now packet s =
     (let duration_ms = duration_or 20 packet in
      case mul_ovf checks 48000 (ucast duration_ms) :: (transport_error, u32) outcome of
        Ok samples \<Rightarrow>
          (case pc_call rtc (WriteAudio \<lparr>sm_data = ep_data packet, sm_time = now, sm_duration_ms = duration_ms,
               sm_packet_timestamp = ps_audio_timestamp s, sm_dropped = 0, sm_padding = 0\<rparr>)
             (s\<lparr>ps_audio_timestamp := ps_audio_timestamp s + samples div 1000\<rparr>) of
             (Inl e, s) \<Rightarrow> (Err (WebRtc (''write audio: '' @ e)), s)
           | (Inr _, s) \<Rightarrow> (Ok (), s))
      | Err e \<Rightarrow> (Err e, s)
      | Panic \<Rightarrow> (Panic, s))"

definition set_connected :: "peer_session \<Rightarrow> peer_session" where
  "set_connected s = s\<lparr>ps_state := ConnectedPeer\<rparr>"

definition set_disconnected :: "peer_session \<Rightarrow> peer_session" where
  "set_disconnected s = s\<lparr>ps_state := DisconnectedPeer\<rparr>"

definition close_session :: "rtc \<Rightarrow> peer_session \<Rightarrow> peer_session" where
  "close_session rtc s = snd (pc_call rtc ClosePc s)"

subsection \<open>Everything that happens to a session\<close>

datatype session_event = Signal signaling_message | Video nat encoded_packet | Audio nat encoded_packet

fun session_event_step :: "bool \<Rightarrow> rtc \<Rightarrow> session_event \<Rightarrow> peer_session \<Rightarrow> peer_session" where
  "session_event_step checks rtc (Signal m) s = snd (handle_signaling rtc m s)"
| "session_event_step checks rtc (Video now p) s = snd (write_video rtc now p s)"
| "session_event_step checks rtc (Audio now p) s = snd (write_audio checks rtc now p s)"

definition run_session :: "bool \<Rightarrow> rtc \<Rightarrow> session_event list \<Rightarrow> peer_session \<Rightarrow> peer_session" where
  "run_session checks rtc evs s = fold (session_event_step checks rtc) evs s"

fun candidates_in :: "session_event list \<Rightarrow> ice_init list" where
  "candidates_in [] = []"
| "candidates_in (Signal (IceCandidate c l m) # evs) = init_of c l m # candidates_in evs"
| "candidates_in (_ # evs) = candidates_in evs"

fun buffered :: "signaling_message list \<Rightarrow> ice_init list" where
  "buffered [] = []"
| "buffered (IceCandidate c l m # ms) = init_of c l m # buffered ms"
| "buffered (_ # ms) = buffered ms"

fun added :: "pc_op list \<Rightarrow> ice_init list" where
  "added [] = []"
| "added (AddCandidate i # ops) = i # added ops"
| "added (_ # ops) = added ops"

fun audio_times :: "pc_op list \<Rightarrow> u32 list" where
  "audio_times [] = []"
| "audio_times (WriteAudio x # ops) = sm_packet_timestamp x # audio_times ops"
| "audio_times (_ # ops) = audio_times ops"

fun audio_durations :: "session_event list \<Rightarrow> nat list" where
  "audio_durations [] = []"
| "audio_durations (Audio _ p # evs) = unat (duration_or 20 p) # audio_durations evs"
| "audio_durations (_ # evs) = audio_durations evs"

lemma candidates_in_append [simp]: "candidates_in (xs @ ys) = candidates_in xs @ candidates_in ys"
  by (induction xs rule: candidates_in.induct) simp_all

lemma buffered_append [simp]: "buffered (xs @ ys) = buffered xs @ buffered ys"
  by (induction xs rule: buffered.induct) simp_all

lemma added_append [simp]: "added (xs @ ys) = added xs @ added ys"
  by (induction xs rule: added.induct) simp_all

lemma audio_times_append [simp]: "audio_times (xs @ ys) = audio_times xs @ audio_times ys"
  by (induction xs rule: audio_times.induct) simp_all

lemma audio_durations_append [simp]: "audio_durations (xs @ ys) = audio_durations xs @ audio_durations ys"
  by (induction xs rule: audio_durations.induct) simp_all

subsection \<open>Candidates\<close>

text \<open>The connection has accepted a remote description; and every candidate was added after that.\<close>

definition remote_accepted :: "rtc \<Rightarrow> pc_op list \<Rightarrow> bool" where
  "remote_accepted rtc ops =
     (\<exists>as sdp bs v. ops = as @ SetRemote sdp # bs \<and> rtc_answer rtc as (SetRemote sdp) = Inr v)"

definition added_late :: "rtc \<Rightarrow> pc_op list \<Rightarrow> bool" where
  "added_late rtc ops = (\<forall>as i bs. ops = as @ AddCandidate i # bs \<longrightarrow> remote_accepted rtc as)"

lemma remote_accepted_snoc [simp]:
  "remote_accepted rtc (ops @ [r]) \<longleftrightarrow>
     remote_accepted rtc ops \<or> (\<exists>sdp v. r = SetRemote sdp \<and> rtc_answer rtc ops r = Inr v)"
proof
  assume "remote_accepted rtc (ops @ [r])"
  then obtain as sdp bs v where "ops @ [r] = as @ SetRemote sdp # bs" and v: "rtc_answer rtc as (SetRemote sdp) = Inr v"
    by (auto simp: remote_accepted_def)
  then show "remote_accepted rtc ops \<or> (\<exists>sdp v. r = SetRemote sdp \<and> rtc_answer rtc ops r = Inr v)"
    by (cases bs rule: rev_cases) (auto simp: remote_accepted_def)
next
  assume "remote_accepted rtc ops \<or> (\<exists>sdp v. r = SetRemote sdp \<and> rtc_answer rtc ops r = Inr v)"
  then show "remote_accepted rtc (ops @ [r])" by (fastforce simp: remote_accepted_def)
qed

lemma added_late_snoc [simp]:
  "added_late rtc (ops @ [r]) \<longleftrightarrow> added_late rtc ops \<and> (\<forall>i. r = AddCandidate i \<longrightarrow> remote_accepted rtc ops)"
proof (intro iffI conjI allI impI)
  assume late: "added_late rtc (ops @ [r])"
  then show "added_late rtc ops" by (auto simp: added_late_def)
  fix i
  assume "r = AddCandidate i"
  then show "remote_accepted rtc ops" using late by (auto simp: added_late_def)
next
  assume late: "added_late rtc ops \<and> (\<forall>i. r = AddCandidate i \<longrightarrow> remote_accepted rtc ops)"
  show "added_late rtc (ops @ [r])"
    unfolding added_late_def
  proof (intro allI impI)
    fix as i bs
    assume "ops @ [r] = as @ AddCandidate i # bs"
    then show "remote_accepted rtc as" using late by (cases bs rule: rev_cases) (auto simp: added_late_def)
  qed
qed

definition session_inv :: "rtc \<Rightarrow> ice_init list \<Rightarrow> peer_session \<Rightarrow> bool" where
  "session_inv rtc received s \<longleftrightarrow>
     added (ps_ops s) @ buffered (ps_ice_buffer s) = received \<and>
     (ps_remote_set s \<longleftrightarrow> remote_accepted rtc (ps_ops s)) \<and>
     (ps_remote_set s \<longrightarrow> ps_ice_buffer s = []) \<and> added_late rtc (ps_ops s)"

text \<open>A request that is neither a remote description nor a candidate leaves all of this as it is.\<close>

lemma pc_call_inv:
  assumes "session_inv rtc received s" and "\<forall>sdp. r \<noteq> SetRemote sdp" and "\<forall>i. r \<noteq> AddCandidate i"
  shows "session_inv rtc received (snd (pc_call rtc r s))"
proof -
  have "added [r] = []" using assms(3) by (cases r) simp_all
  then show ?thesis using assms by (auto simp: session_inv_def pc_call_def)
qed

lemma session_inv_simps [simp]:
  "session_inv rtc received (s\<lparr>ps_state := x\<rparr>) = session_inv rtc received s"
  "session_inv rtc received (s\<lparr>ps_audio_timestamp := t\<rparr>) = session_inv rtc received s"
  by (simp_all add: session_inv_def)

lemma apply_buffered_effect:
  assumes "remote_accepted rtc (ps_ops s)" and "added_late rtc (ps_ops s)"
  shows "added (ps_ops (apply_buffered rtc ms s)) = added (ps_ops s) @ buffered ms"
    and "remote_accepted rtc (ps_ops (apply_buffered rtc ms s))"
    and "added_late rtc (ps_ops (apply_buffered rtc ms s))"
    and "ps_remote_set (apply_buffered rtc ms s) = ps_remote_set s"
    and "ps_ice_buffer (apply_buffered rtc ms s) = ps_ice_buffer s"
  using assms by (induction rtc ms s rule: apply_buffered.induct) (simp_all add: pc_call_def)

lemma handle_offer_inv:
  assumes "session_inv rtc received s"
  shows "session_inv rtc received (snd (handle_offer rtc sdp s))"
proof -
  define s1 where "s1 = snd (pc_call rtc (ParseOffer sdp) (s\<lparr>ps_state := ConnectingPeer\<rparr>))"
  define s2 where "s2 = snd (pc_call rtc (SetRemote sdp) s1)"
  define s3 where "s3 = apply_buffered rtc (ps_ice_buffer s2) (s2\<lparr>ps_remote_set := True, ps_ice_buffer := []\<rparr>)"
  have inv1: "session_inv rtc received s1" unfolding s1_def by (rule pc_call_inv) (use assms in simp_all)
  have inv2: "session_inv rtc received s2" if "rtc_answer rtc (ps_ops s1) (SetRemote sdp) = Inl e" for e
    using inv1 that by (auto simp: s2_def pc_call_def session_inv_def)
  have inv3: "session_inv rtc received s3" if "rtc_answer rtc (ps_ops s1) (SetRemote sdp) = Inr v" for v
  proof -
    have "remote_accepted rtc (ps_ops s2)" using that by (auto simp: s2_def pc_call_def)
    moreover have "added_late rtc (ps_ops s2)" "added (ps_ops s2) @ buffered (ps_ice_buffer s2) = received"
      using inv1 by (auto simp: s2_def pc_call_def session_inv_def)
    ultimately show ?thesis
      using apply_buffered_effect [of rtc "s2\<lparr>ps_remote_set := True, ps_ice_buffer := []\<rparr>" "ps_ice_buffer s2"]
      by (simp add: s3_def session_inv_def)
  qed
  have inv4: "session_inv rtc received (snd (pc_call rtc CreateAnswer s3))"
    "session_inv rtc received (snd (pc_call rtc (SetLocal a) (snd (pc_call rtc CreateAnswer s3))))"
    if "rtc_answer rtc (ps_ops s1) (SetRemote sdp) = Inr v" for v a
    using inv3 [OF that] by (simp_all add: pc_call_inv)
  have s: "pc_call rtc (ParseOffer sdp) (s\<lparr>ps_state := ConnectingPeer\<rparr>) =
        (rtc_answer rtc (ps_ops s) (ParseOffer sdp), s1)"
    "pc_call rtc (SetRemote sdp) s1 = (rtc_answer rtc (ps_ops s1) (SetRemote sdp), s2)"
    by (simp_all add: s1_def s2_def pc_call_def)
  show ?thesis
    using inv1 inv2 inv4 unfolding handle_offer_def s s3_def [symmetric]
    by (auto simp: Let_def s s3_def [symmetric] split: sum.split prod.split)
      (metis snd_conv)+
qed

lemma handle_signaling_inv:
  assumes "session_inv rtc received s"
  shows "session_inv rtc (received @ candidates_in [Signal m]) (snd (handle_signaling rtc m s))"
proof (cases m)
  case (IceCandidate c l i)
  show ?thesis using assms
    by (auto simp: IceCandidate handle_signaling_def handle_ice_candidate_def pc_call_def session_inv_def split: sum.split)
qed (use assms handle_offer_inv [OF assms] in \<open>simp_all add: handle_signaling_def\<close>)

lemma event_inv:
  assumes "session_inv rtc received s"
  shows "session_inv rtc (received @ candidates_in [e]) (session_event_step checks rtc e s)"
proof (cases e)
  case (Signal m)
  then show ?thesis using handle_signaling_inv [OF assms] by simp
next
  case (Video now p)
  have "session_inv rtc received (snd (pc_call rtc (WriteVideo x) s))" for x by (rule pc_call_inv [OF assms]) simp_all
  then show ?thesis by (simp add: Video write_video_def pc_call_def split: sum.split)
next
  case (Audio now p)
  have "session_inv rtc received (snd (pc_call rtc (WriteAudio x) (s\<lparr>ps_audio_timestamp := t\<rparr>)))" for x t
    by (rule pc_call_inv) (use assms in simp_all)
  then show ?thesis using assms by (simp add: Audio write_audio_def Let_def pc_call_def split: sum.split outcome.split)
qed

lemma run_inv: "session_inv rtc received s \<Longrightarrow>
    session_inv rtc (received @ candidates_in evs) (run_session checks rtc evs s)"
  by (induction evs rule: rev_induct) (simp_all add: run_session_def event_inv flip: append_assoc)


lemma setup_effect:
  assumes "peer_session_new rtc peer codec = Inr (s, q)"
  shows "session_inv rtc [] s" and "audio_times (ps_ops s) = []" and "ps_audio_timestamp s = 0"
    and "ps_state s = NewPeer" and "q = mpsc_new 128" and "ps_peer_id s = peer"
proof -
  have ops: "ps_ops s = map snd (setup_ops rtc codec)"
    and s: "s = \<lparr>ps_peer_id = peer, ps_state = NewPeer, ps_ops = ps_ops s, ps_ice_buffer = [], ps_remote_set = False,
      ps_audio_timestamp = 0\<rparr>" "q = mpsc_new 128"
    using assms by (auto simp: peer_session_new_def setup_ops_def split: sum.splits)
  have "session_inv rtc [] \<lparr>ps_peer_id = peer, ps_state = NewPeer, ps_ops = ([] :: pc_op list), ps_ice_buffer = [],
      ps_remote_set = False, ps_audio_timestamp = 0\<rparr>"
    by (simp add: session_inv_def remote_accepted_def added_late_def)
  moreover have "session_inv rtc [] (s\<lparr>ps_ops := xs\<rparr>)" if "list_all (\<lambda>r. (\<forall>x. r \<noteq> SetRemote x) \<and> (\<forall>x. r \<noteq> AddCandidate x)) xs" for xs
    using that
  proof (induction xs rule: rev_induct)
    case Nil
    show ?case by (subst s(1)) (simp add: session_inv_def remote_accepted_def added_late_def)
  next
    case (snoc r xs)
    then have "session_inv rtc [] (snd (pc_call rtc r (s\<lparr>ps_ops := xs\<rparr>)))" by (intro pc_call_inv) simp_all
    then show ?case by (simp add: pc_call_def)
  qed
  then have "session_inv rtc [] (s\<lparr>ps_ops := ps_ops s\<rparr>)" by (simp add: ops setup_ops_def del: peer_session.surjective)
  then show "session_inv rtc [] s" by simp
  show "audio_times (ps_ops s) = []" by (simp add: ops setup_ops_def)
  show "ps_audio_timestamp s = 0" "ps_state s = NewPeer" "q = mpsc_new 128" "ps_peer_id s = peer"
    using s by (metis peer_session.select_convs)+
qed

text \<open>No ICE candidate of a peer is lost, repeated or reordered. Whatever the peer sends and the
  connection answers, and whatever media is sent in between, the candidates handed to the
  connection, followed by those kept back, are exactly the candidates received, in order; none is
  handed over before the connection has accepted a remote description, and none is kept back
  after that.\<close>

theorem candidates_delivered:
  assumes "peer_session_new rtc peer codec = Inr (s0, q)"
    and "s = run_session checks rtc evs s0"
  shows "added (ps_ops s) @ buffered (ps_ice_buffer s) = candidates_in evs \<and>
    added_late rtc (ps_ops s) \<and>
    (remote_accepted rtc (ps_ops s) \<longrightarrow> added (ps_ops s) = candidates_in evs)"
proof -
  have "session_inv rtc ([] @ candidates_in evs) s" unfolding assms(2) by (rule run_inv [OF setup_effect(1) [OF assms(1)]])
  then show ?thesis by (auto simp: session_inv_def)
qed

text \<open>A connection that accepts everything.\<close>

definition kind_rtc :: rtc where
  "kind_rtc = \<lparr>rtc_answer = (\<lambda>_ _. Inr ''ok''), rtc_mime_h264 = [], rtc_mime_vp9 = [], rtc_mime_opus = [],
     rtc_show_peer = (\<lambda>_. ''p'')\<rparr>"

lemma kind_session:
  obtains s q where "peer_session_new kind_rtc peer codec = Inr (s, q)"
  by (simp add: peer_session_new_def setup_ops_def kind_rtc_def)

lemma candidates_delivered_witness:
  "\<exists>s0 q. peer_session_new kind_rtc 1 H264 = Inr (s0, q) \<and>
     added (ps_ops (run_session True kind_rtc
       [Signal (IceCandidate ''a'' None None), Signal (OfferMsg ''o''), Signal (IceCandidate ''b'' None None)] s0)) =
     [init_of ''a'' None None, init_of ''b'' None None]"
proof -
  obtain s0 q where s0: "peer_session_new kind_rtc 1 H264 = Inr (s0, q)" by (rule kind_session)
  let ?evs = "[Signal (IceCandidate ''a'' None None), Signal (OfferMsg ''o''), Signal (IceCandidate ''b'' None None)]"
  have "ps_ice_buffer s0 = []" "\<not> ps_remote_set s0"
    using s0 by (auto simp: peer_session_new_def split: sum.splits)
  then have "ps_ice_buffer (run_session True kind_rtc ?evs s0) = []"
    by (simp add: run_session_def handle_signaling_def handle_ice_candidate_def handle_offer_def pc_call_def kind_rtc_def Let_def)
  then show ?thesis using candidates_delivered [OF s0 refl, of True ?evs] s0 by auto
qed

subsection \<open>Audio timestamps\<close>

lemma apply_buffered_audio:
  "audio_times (ps_ops (apply_buffered rtc ms s)) = audio_times (ps_ops s)"
  "ps_audio_timestamp (apply_buffered rtc ms s) = ps_audio_timestamp s"
  "ps_state (apply_buffered rtc ms s) = ps_state s"
  by (induction rtc ms s rule: apply_buffered.induct) (simp_all add: pc_call_def)

lemma offer_audio:
  "audio_times (ps_ops (snd (handle_offer rtc sdp s))) = audio_times (ps_ops s)"
  "ps_audio_timestamp (snd (handle_offer rtc sdp s)) = ps_audio_timestamp s"
  "ps_state (snd (handle_offer rtc sdp s)) = ConnectingPeer"
  by (simp_all add: handle_offer_def pc_call_def Let_def apply_buffered_audio split: sum.split)

lemma signaling_audio:
  "audio_times (ps_ops (snd (handle_signaling rtc m s))) = audio_times (ps_ops s)"
  "ps_audio_timestamp (snd (handle_signaling rtc m s)) = ps_audio_timestamp s"
  "ps_state (snd (handle_signaling rtc m s)) \<in> {ps_state s, ConnectingPeer}"
  by (cases m; simp add: handle_signaling_def handle_ice_candidate_def pc_call_def offer_audio split: sum.split)+

lemma samples_of_duration:
  assumes "unat d < 89479"
  shows "mul_ovf checks 48000 (ucast (d :: u64)) = (Ok (48000 * ucast d) :: (transport_error, u32) outcome)"
    and "(48000 * ucast d :: u32) div 1000 = of_nat (48 * unat d)"
proof -
  have u: "unat (ucast d :: u32) = unat d" using assms by (simp add: unsigned_ucast_eq take_bit_nat_eq_self)
  show "mul_ovf checks 48000 (ucast d) = (Ok (48000 * ucast d) :: (transport_error, u32) outcome)"
    by (rule mul_ovf_fits) (use u assms in simp)
  have "unat (48000 * ucast d :: u32) = 48000 * unat d"
    using assms by (simp add: unat_word_ariths u)
  then have "unat ((48000 * ucast d :: u32) div 1000) = 48 * unat d" by (simp add: unat_div)
  then show "(48000 * ucast d :: u32) div 1000 = of_nat (48 * unat d)" by (metis of_nat_unat ucast_id)
qed

text \<open>The audio clock. While no packet lasts longer than 89.478 s, the samples given to the audio
  track carry, whatever else happens to the session and whether or not the track takes them, the
  time at 48 kHz of all packets before them, modulo \<open>2 ^ 32\<close>, and no packet panics. \<close>

theorem audio_clock:
  assumes "peer_session_new rtc peer codec = Inr (s0, q)"
    and "\<forall>d \<in> set (audio_durations evs). d < 89479"
  shows "audio_times (ps_ops (run_session checks rtc evs s0)) =
    map (\<lambda>k. of_nat (48 * sum_list (take k (audio_durations evs)))) [0..<length (audio_durations evs)] \<and>
    (unat (duration_or 20 packet) < 89479 \<longrightarrow>
      fst (write_audio checks rtc now packet (run_session checks rtc evs s0)) \<noteq> Panic)"
proof (rule conjI)
  have "audio_times (ps_ops (run_session checks rtc evs s0)) =
      map (\<lambda>k. of_nat (48 * sum_list (take k (audio_durations evs)))) [0..<length (audio_durations evs)] \<and>
      ps_audio_timestamp (run_session checks rtc evs s0) = of_nat (48 * sum_list (audio_durations evs))"
    using assms(2)
  proof (induction evs rule: rev_induct)
    case Nil
    show ?case using setup_effect [OF assms(1)] by (simp add: run_session_def)
  next
    case (snoc e evs)
    let ?s = "run_session checks rtc evs s0"
    have run: "run_session checks rtc (evs @ [e]) s0 = session_event_step checks rtc e ?s" by (simp add: run_session_def)
    show ?case
    proof (cases e)
      case (Signal m)
      then show ?thesis unfolding run using snoc by (simp add: signaling_audio)
    next
      case (Video now p)
      then show ?thesis unfolding run using snoc by (simp add: write_video_def pc_call_def split: sum.split)
    next
      case (Audio now p)
      let ?d = "duration_or 20 p"
      have d: "unat ?d < 89479" using snoc.prems by (simp add: Audio)
      have "audio_times (ps_ops (session_event_step checks rtc e ?s)) = audio_times (ps_ops ?s) @ [ps_audio_timestamp ?s]"
        "ps_audio_timestamp (session_event_step checks rtc e ?s) = ps_audio_timestamp ?s + of_nat (48 * unat ?d)"
        by (simp_all add: Audio write_audio_def Let_def samples_of_duration [OF d] pc_call_def split: sum.split)
      then show ?thesis unfolding run using snoc by (simp add: Audio distrib_left)
    qed
  qed
  then show "audio_times (ps_ops (run_session checks rtc evs s0)) =
      map (\<lambda>k. of_nat (48 * sum_list (take k (audio_durations evs)))) [0..<length (audio_durations evs)]" ..
  show "unat (duration_or 20 packet) < 89479 \<longrightarrow>
      fst (write_audio checks rtc now packet (run_session checks rtc evs s0)) \<noteq> Panic"
    by (simp add: write_audio_def Let_def samples_of_duration pc_call_def split: sum.split)
qed

lemma audio_clock_witness:
  "\<exists>s0 q. peer_session_new kind_rtc 1 H264 = Inr (s0, q) \<and>
     audio_times (ps_ops (run_session True kind_rtc
       [Audio 0 (encoded_packet_new [] False 0), Signal IceComplete, Audio 0 (encoded_packet_new [] False 0)] s0)) = [0, 960]"
proof -
  obtain s0 q where s0: "peer_session_new kind_rtc 1 H264 = Inr (s0, q)" by (rule kind_session)
  let ?evs = "[Audio 0 (encoded_packet_new [] False 0), Signal IceComplete, Audio 0 (encoded_packet_new [] False 0)]"
  have "audio_durations ?evs = [20, 20]" by (simp add: duration_or_def encoded_packet_new_def)
  then show ?thesis using audio_clock [OF s0, of ?evs True "encoded_packet_new [] False 0" 0] s0
    by (intro exI [of _ s0] exI [of _ q]) simp
qed

text \<open>A longer packet overflows: a build with overflow checks panics.\<close>

lemma long_packet_panics:
  "fst (write_audio True rtc now (encoded_packet_new [] False 0\<lparr>ep_duration := Some 89479\<rparr>) s) = Panic"
  by (simp add: write_audio_def duration_or_def mul_ovf_def)

subsection \<open>The state of a session\<close>

text \<open>Nothing that happens to a session makes it connected: \<open>set_connected\<close> is never called.\<close>

lemma run_session_state:
  "ps_state s \<in> {NewPeer, ConnectingPeer} \<Longrightarrow> ps_state (run_session checks rtc evs s) \<in> {NewPeer, ConnectingPeer}"
proof (induction evs rule: rev_induct)
  case (snoc e evs)
  let ?s = "run_session checks rtc evs s"
  have "ps_state (session_event_step checks rtc e ?s) \<in> {NewPeer, ConnectingPeer}"
    using snoc signaling_audio(3) [of rtc "case e of Signal m \<Rightarrow> m | _ \<Rightarrow> IceComplete" ?s]
    by (cases e) (auto simp: write_video_def write_audio_def Let_def pc_call_def split: sum.split outcome.split)
  then show ?case by (simp add: run_session_def)
qed (simp add: run_session_def)

text \<open>Nor is the connection closed.\<close>

lemma apply_buffered_open: "ClosePc \<in> set (ps_ops (apply_buffered rtc ms s)) \<longleftrightarrow> ClosePc \<in> set (ps_ops s)"
  by (induction rtc ms s rule: apply_buffered.induct) (simp_all add: pc_call_def)

lemma event_open: "ClosePc \<in> set (ps_ops (session_event_step checks rtc e s)) \<longleftrightarrow> ClosePc \<in> set (ps_ops s)"
proof (cases e)
  case (Signal m)
  have "ClosePc \<in> set (ps_ops (snd (handle_offer rtc sdp s))) \<longleftrightarrow> ClosePc \<in> set (ps_ops s)" for sdp
    by (simp add: handle_offer_def pc_call_def Let_def apply_buffered_open split: sum.split)
  then show ?thesis
    by (cases m) (simp_all add: Signal handle_signaling_def handle_ice_candidate_def pc_call_def split: sum.split)
qed (simp_all add: write_video_def write_audio_def Let_def pc_call_def split: sum.split outcome.split)

lemma run_session_open: "ClosePc \<in> set (ps_ops (run_session checks rtc evs s)) \<longleftrightarrow> ClosePc \<in> set (ps_ops s)"
  by (induction evs rule: rev_induct) (simp_all add: run_session_def event_open)

lemma new_session_open: "peer_session_new rtc peer codec = Inr (s, q) \<Longrightarrow> ClosePc \<notin> set (ps_ops s)"
  by (auto simp: peer_session_new_def setup_ops_def split: sum.splits)

end
