(* ===== verification/Ws_Signal.thy ===== *)
theory Ws_Signal
  imports Peer_Session App_State "HOL-Library.Sublist"
begin

section \<open>Signalling over a WebSocket\<close>

text \<open>
  \<open>ws.rs\<close> (\<open>crates/vscreen-server\<close>): the connection of one peer. A loop waits for the first of
  six sources in a fixed order: shutdown, messages of the WebRTC connection, video, audio,
  clipboard, the client. A turn of the loop gets what the sources have ready; between turns the
  connection's callbacks run and the rest of the server moves on.
\<close>

record ws_env =
  we_rtc :: rtc
  we_serde :: serde
  we_checks :: bool
  we_now :: nat
  we_send_ok :: "string list \<Rightarrow> bool"

text \<open>\<open>wc_texts\<close> are the texts given to the socket, \<open>wc_video\<close>, \<open>wc_audio\<close> and \<open>wc_clipboard\<close> say
  whether there is a receiver, and \<open>wc_gauge\<close> is what the peer adds to \<open>vscreen_active_peers\<close>.\<close>

record ws_conn =
  wc_session :: peer_session
  wc_signals :: "signaling_message mpsc"
  wc_input :: "peer_input mpsc"
  wc_video :: bool
  wc_audio :: bool
  wc_clipboard :: bool
  wc_texts :: "string list"
  wc_gauge :: int

subsection \<open>Opening\<close>

text \<open>\<open>ws_signal\<close>: the message a peer is turned away with.\<close>

definition ws_signal :: "instance_id \<Rightarrow> app_state \<Rightarrow> signaling_message option" where
  "ws_signal i st =
     (case registry_get i (as_registry st) of
        Inr entry \<Rightarrow>
          (if \<not> can_accept_peers (ie_state entry) \<and> ie_state entry \<noteq> Created
           then Some (ErrorMsg ''INVALID_STATE'' (''instance '' @ i @ '' is in state: '' @ show_instance_state (ie_state entry)))
           else None)
      | Inl _ \<Rightarrow> Some (ErrorMsg ''INSTANCE_NOT_FOUND'' (''instance '' @ i @ '' not found'')))"

definition say :: "ws_env \<Rightarrow> signaling_message \<Rightarrow> string" where
  "say env m = message_to_json (we_serde env) m"

text \<open>The start of \<open>handle_signaling\<close>: the texts sent, what is left on the gauge, and the connection.
  \<open>input\<close> is the input channel of the supervisor; without one the channel has no receiver.\<close>

definition ws_open ::
  "ws_env \<Rightarrow> peer_id \<Rightarrow> instance_id \<Rightarrow> peer_input mpsc \<Rightarrow> app_state \<Rightarrow> string list \<times> int \<times> ws_conn option" where
  "ws_open env peer i input st =
     (case registry_get i (as_registry st) of
        Inl _ \<Rightarrow>
          ([say env (ErrorMsg ''INSTANCE_NOT_FOUND'' (''instance '' @ i @ '' was removed during WebSocket upgrade''))], 0, None)
      | Inr _ \<Rightarrow>
          (let sv = get_supervisor i st;
               codec = (case sv of Some v \<Rightarrow> sv_video_codec v | None \<Rightarrow> default_video_codec);
               tx = (case sv of Some _ \<Rightarrow> input | None \<Rightarrow> (mpsc_new 100)\<lparr>mq_closed := True\<rparr>)
           in
           case peer_session_new (we_rtc env) peer codec of
             Inl e \<Rightarrow> ([say env (ErrorMsg ''SESSION_ERROR'' (show_transport_error e))], 0, None)
           | Inr (s, q) \<Rightarrow>
               (let texts = [say env (ConnectedMsg (rtc_show_peer (we_rtc env) peer))] in
                (texts, 1,
                 Some \<lparr>wc_session = s, wc_signals = q, wc_input = tx, wc_video = sv \<noteq> None, wc_audio = sv \<noteq> None,
                   wc_clipboard = sv \<noteq> None, wc_texts = texts, wc_gauge = 1\<rparr>))))"

subsection \<open>A turn of the loop\<close>

datatype client_message = ClientText string | CloseFrame | OtherFrame | SocketError | EndOfStream

record ws_ready =
  rd_video :: "encoded_packet received option"
  rd_audio :: "encoded_packet received option"
  rd_clipboard :: "string received option"
  rd_client :: "client_message option"

datatype ws_branch =
    OnShutdown
  | OnSignal signaling_message
  | OnVideo "encoded_packet received"
  | OnAudio "encoded_packet received"
  | OnClipboard "string received"
  | OnClient client_message

text \<open>The first source that is ready; none if the loop has to wait.\<close>

definition select :: "ws_ready \<Rightarrow> app_state \<Rightarrow> ws_conn \<Rightarrow> ws_branch option" where
  "select r st c =
     (if as_cancelled st then Some OnShutdown
      else if mq_items (wc_signals c) \<noteq> [] then Some (OnSignal (hd (mq_items (wc_signals c))))
      else if wc_video c \<and> rd_video r \<noteq> None then map_option OnVideo (rd_video r)
      else if wc_audio c \<and> rd_audio r \<noteq> None then map_option OnAudio (rd_audio r)
      else if wc_clipboard c \<and> rd_clipboard r \<noteq> None then map_option OnClipboard (rd_clipboard r)
      else map_option OnClient (rd_client r))"

datatype ws_flow = GoesOn | Breaks | Panics

text \<open>\<open>socket.send\<close>, and \<open>let _ = socket.send\<close>.\<close>

definition ws_send :: "ws_env \<Rightarrow> signaling_message \<Rightarrow> ws_conn \<Rightarrow> bool \<times> ws_conn" where
  "ws_send env m c =
     (let texts = wc_texts c @ [say env m] in (we_send_ok env texts, c\<lparr>wc_texts := texts\<rparr>))"

definition ws_tell :: "ws_env \<Rightarrow> signaling_message \<Rightarrow> ws_conn \<Rightarrow> ws_conn" where
  "ws_tell env m c = snd (ws_send env m c)"

definition on_signal :: "ws_env \<Rightarrow> signaling_message \<Rightarrow> ws_conn \<Rightarrow> ws_flow \<times> ws_conn" where
  "on_signal env m c =
     (case ws_send env m (c\<lparr>wc_signals := (wc_signals c)\<lparr>mq_items := tl (mq_items (wc_signals c))\<rparr>\<rparr>) of
        (ok, c) \<Rightarrow> (if ok then GoesOn else Breaks, c))"

definition on_video :: "ws_env \<Rightarrow> encoded_packet received \<Rightarrow> ws_conn \<Rightarrow> ws_flow \<times> ws_conn" where
  "on_video env v c =
     (case v of
        Got p \<Rightarrow> (GoesOn, c\<lparr>wc_session := snd (write_video (we_rtc env) (we_now env) p (wc_session c))\<rparr>)
      | Lagged n \<Rightarrow> (GoesOn, c)
      | ClosedRx \<Rightarrow> (GoesOn, c\<lparr>wc_video := False\<rparr>))"

definition on_audio :: "ws_env \<Rightarrow> encoded_packet received \<Rightarrow> ws_conn \<Rightarrow> ws_flow \<times> ws_conn" where
  "on_audio env v c =
     (case v of
        Got p \<Rightarrow>
          (case write_audio (we_checks env) (we_rtc env) (we_now env) p (wc_session c) of
             (r, s) \<Rightarrow> (if r = Panic then Panics else GoesOn, c\<lparr>wc_session := s\<rparr>))
      | Lagged n \<Rightarrow> (GoesOn, c)
      | ClosedRx \<Rightarrow> (GoesOn, c\<lparr>wc_audio := False\<rparr>))"

definition on_clipboard :: "ws_env \<Rightarrow> string received \<Rightarrow> ws_conn \<Rightarrow> ws_flow \<times> ws_conn" where
  "on_clipboard env v c =
     (case v of
        Got t \<Rightarrow> (case ws_send env (ClipboardMsg t) c of (ok, c) \<Rightarrow> (if ok then GoesOn else Breaks, c))
      | Lagged n \<Rightarrow> (GoesOn, c)
      | ClosedRx \<Rightarrow> (GoesOn, c\<lparr>wc_clipboard := False\<rparr>))"

text \<open>A signalling message of the client.\<close>

definition on_message ::
  "ws_env \<Rightarrow> instance_id \<Rightarrow> signaling_message \<Rightarrow> app_state \<Rightarrow> ws_conn \<Rightarrow> ws_flow \<times> app_state \<times> ws_conn" where
  "on_message env i m st c =
     (case handle_signaling (we_rtc env) m (wc_session c) of
        (Inr (Some response), s) \<Rightarrow>
          (case ws_send env response (c\<lparr>wc_session := s\<rparr>) of
             (False, c) \<Rightarrow> (Breaks, st, c)
           | (True, c) \<Rightarrow>
               (GoesOn, (case response of AnswerMsg _ \<Rightarrow> lookup_request_keyframe i st | _ \<Rightarrow> st), c))
      | (Inr None, s) \<Rightarrow> (GoesOn, st, c\<lparr>wc_session := s\<rparr>)
      | (Inl e, s) \<Rightarrow>
          (GoesOn, st, ws_tell env (ErrorMsg ''SIGNALING_ERROR'' (show_transport_error e)) (c\<lparr>wc_session := s\<rparr>)))"

definition on_client ::
  "ws_env \<Rightarrow> instance_id \<Rightarrow> client_message \<Rightarrow> app_state \<Rightarrow> ws_conn \<Rightarrow> ws_flow \<times> app_state \<times> ws_conn" where
  "on_client env i m st c =
     (case m of
        ClientText t \<Rightarrow>
          (case message_from_json (we_serde env) t of
             Inr sm \<Rightarrow> on_message env i sm st c
           | Inl e \<Rightarrow> (GoesOn, st, ws_tell env (ErrorMsg ''PARSE_ERROR'' e) c))
      | OtherFrame \<Rightarrow> (GoesOn, st, c)
      | _ \<Rightarrow> (Breaks, st, c))"

definition ws_turn ::
  "ws_env \<Rightarrow> instance_id \<Rightarrow> ws_ready \<Rightarrow> app_state \<Rightarrow> ws_conn \<Rightarrow> ws_flow \<times> app_state \<times> ws_conn" where
  "ws_turn env i r st c =
     (case select r st c of
        None \<Rightarrow> (GoesOn, st, c)
      | Some OnShutdown \<Rightarrow> (Breaks, st, ws_tell env (DisconnectedMsg ''server shutting down'') c)
      | Some (OnSignal m) \<Rightarrow> (case on_signal env m c of (t, c) \<Rightarrow> (t, st, c))
      | Some (OnVideo v) \<Rightarrow> (case on_video env v c of (t, c) \<Rightarrow> (t, st, c))
      | Some (OnAudio v) \<Rightarrow> (case on_audio env v c of (t, c) \<Rightarrow> (t, st, c))
      | Some (OnClipboard v) \<Rightarrow> (case on_clipboard env v c of (t, c) \<Rightarrow> (t, st, c))
      | Some (OnClient m) \<Rightarrow> on_client env i m st c)"

text \<open>After the loop.\<close>

definition ws_close :: "ws_env \<Rightarrow> ws_conn \<Rightarrow> ws_conn" where
  "ws_close env c =
     c\<lparr>wc_session := set_disconnected (close_session (we_rtc env) (wc_session c)), wc_gauge := wc_gauge c - 1\<rparr>"

subsection \<open>The life of a connection\<close>

text \<open>Turns of the loop, the callbacks of the WebRTC connection (\<open>on_ice_candidate\<close> and the data
  channel's \<open>on_message\<close>), and what the rest of the server does in between: it changes its state,
  and takes from the input channel or drops its receiver.\<close>

datatype ws_event =
    Turn ws_ready
  | LocalCandidate "(string + ice_init) option"
  | ChannelData string
  | World app_state "peer_input list" bool

definition ws_event_step ::
  "ws_env \<Rightarrow> instance_id \<Rightarrow> ws_event \<Rightarrow> app_state \<Rightarrow> ws_conn \<Rightarrow> ws_flow \<times> app_state \<times> ws_conn" where
  "ws_event_step env i e st c =
     (case e of
        Turn r \<Rightarrow> ws_turn env i r st c
      | LocalCandidate cand \<Rightarrow> (GoesOn, st, c\<lparr>wc_signals := on_ice_candidate cand (wc_signals c)\<rparr>)
      | ChannelData d \<Rightarrow>
          (GoesOn, st, c\<lparr>wc_input := snd (dc_handle_message (we_serde env) (ps_peer_id (wc_session c)) d (wc_input c))\<rparr>)
      | World st' items gone \<Rightarrow>
          (GoesOn, st', c\<lparr>wc_input := (wc_input c)\<lparr>mq_items := items, mq_closed := mq_closed (wc_input c) \<or> gone\<rparr>\<rparr>))"

fun ws_run ::
  "ws_env \<Rightarrow> instance_id \<Rightarrow> ws_event list \<Rightarrow> app_state \<Rightarrow> ws_conn \<Rightarrow> ws_flow \<times> app_state \<times> ws_conn" where
  "ws_run env i [] st c = (GoesOn, st, c)"
| "ws_run env i (e # es) st c =
     (case ws_event_step env i e st c of
        (GoesOn, st', c') \<Rightarrow> ws_run env i es st' c'
      | (Breaks, st', c') \<Rightarrow> (Breaks, st', ws_close env c')
      | (Panics, st', c') \<Rightarrow> (Panics, st', c'))"

subsection \<open>What the session sees\<close>

text \<open>What a turn does to the session, and a whole run.\<close>

definition session_events :: "ws_env \<Rightarrow> ws_event \<Rightarrow> app_state \<Rightarrow> ws_conn \<Rightarrow> session_event list" where
  "session_events env e st c =
     (case e of
        Turn r \<Rightarrow>
          (case select r st c of
             Some (OnVideo (Got p)) \<Rightarrow> [Video (we_now env) p]
           | Some (OnAudio (Got p)) \<Rightarrow> [Audio (we_now env) p]
           | Some (OnClient (ClientText t)) \<Rightarrow>
               (case message_from_json (we_serde env) t of Inr m \<Rightarrow> [Signal m] | Inl _ \<Rightarrow> [])
           | _ \<Rightarrow> [])
      | _ \<Rightarrow> [])"

fun heard :: "ws_env \<Rightarrow> instance_id \<Rightarrow> ws_event list \<Rightarrow> app_state \<Rightarrow> ws_conn \<Rightarrow> session_event list" where
  "heard env i [] st c = []"
| "heard env i (e # es) st c =
     session_events env e st c @
     (case ws_event_step env i e st c of (GoesOn, st', c') \<Rightarrow> heard env i es st' c' | _ \<Rightarrow> [])"

lemma step_session:
  assumes "ws_event_step env i e st c = (t, st', c')"
  shows "wc_session c' = run_session (we_checks env) (we_rtc env) (session_events env e st c) (wc_session c)"
    and "wc_gauge c' = wc_gauge c"
proof -
  have turn: "wc_session c' = run_session (we_checks env) (we_rtc env) (session_events env (Turn r) st c) (wc_session c) \<and>
      wc_gauge c' = wc_gauge c" if e: "e = Turn r" for r
  proof (cases "select r st c")
    case None
    then show ?thesis using assms by (simp add: e ws_event_step_def ws_turn_def session_events_def run_session_def)
  next
    case (Some b)
    then show ?thesis using assms
      by (cases b)
        (auto simp: e ws_event_step_def ws_turn_def session_events_def run_session_def ws_tell_def ws_send_def Let_def
          on_signal_def on_video_def on_audio_def on_clipboard_def on_client_def on_message_def
          split: received.splits client_message.splits sum.splits prod.splits option.splits bool.splits)
  qed
  show "wc_session c' = run_session (we_checks env) (we_rtc env) (session_events env e st c) (wc_session c)"
    using turn assms by (cases e) (auto simp: ws_event_step_def session_events_def run_session_def)
  show "wc_gauge c' = wc_gauge c"
    using turn assms by (cases e) (auto simp: ws_event_step_def)
qed

lemma run_session_append [simp]:
  "run_session checks rtc (xs @ ys) s = run_session checks rtc ys (run_session checks rtc xs s)"
  by (simp add: run_session_def)

lemma run_heard:
  assumes "ws_run env i es st c = (t, st', c')"
  shows "\<exists>c1. wc_session c1 = run_session (we_checks env) (we_rtc env) (heard env i es st c) (wc_session c) \<and>
    wc_gauge c1 = wc_gauge c \<and> c' = (if t = Breaks then ws_close env c1 else c1)"
  using assms
proof (induction es arbitrary: st c)
  case Nil
  then show ?case by (auto simp: run_session_def)
next
  case (Cons e es)
  obtain u st1 c1 where s: "ws_event_step env i e st c = (u, st1, c1)" by (cases "ws_event_step env i e st c") auto
  show ?case
  proof (cases u)
    case GoesOn
    then have "ws_run env i es st1 c1 = (t, st', c')" using Cons.prems s by simp
    from Cons.IH [OF this] obtain c2 where
      "wc_session c2 = run_session (we_checks env) (we_rtc env) (heard env i es st1 c1) (wc_session c1)"
      "wc_gauge c2 = wc_gauge c1" "c' = (if t = Breaks then ws_close env c2 else c2)" by blast
    then show ?thesis by (intro exI [of _ c2]) (simp add: s GoesOn step_session [OF s])
  qed (use Cons.prems step_session [OF s] s in auto)
qed

lemma opened:
  assumes "ws_open env peer i input st = (texts, g, Some c)"
  obtains codec where "peer_session_new (we_rtc env) peer codec = Inr (wc_session c, wc_signals c)"
    and "wc_gauge c = 1" and "g = 1" and "wc_texts c = texts"
proof -
  show thesis
    using assms by (intro that) (auto simp: ws_open_def Let_def split: sum.splits prod.splits)
qed

subsection \<open>An example\<close>

definition example_ws :: ws_env where
  "example_ws =
     \<lparr>we_rtc = kind_rtc,
      we_serde = \<lparr>sj_parse = (\<lambda>_. Inr (message_json (IceCandidate ''a'' None None))), sj_misfit = (\<lambda>_. []), sj_print = (\<lambda>_. [])\<rparr>,
      we_checks = True, we_now = 0, we_send_ok = (\<lambda>_. True)\<rparr>"

definition example_world :: app_state where
  "example_world = (app_state_new default_app)\<lparr>as_registry := [(''dev'', \<lparr>ie_config = example_config, ie_state = Running\<rparr>)]\<rparr>"

definition example_ws_turn :: "client_message \<Rightarrow> ws_event" where
  "example_ws_turn m = Turn \<lparr>rd_video = None, rd_audio = None, rd_clipboard = None, rd_client = Some m\<rparr>"

lemma example_opens:
  obtains c where "ws_open example_ws 1 ''dev'' (mpsc_new 100) example_world = ([[]], 1, Some c)"
    and "\<not> ps_remote_set (wc_session c)" and "mq_items (wc_signals c) = []"
  by (simp add: ws_open_def example_world_def registry_get_def tab_get_def peer_session_new_def setup_ops_def example_ws_def
    kind_rtc_def say_def message_to_json_def get_supervisor_def app_state_new_def Let_def mpsc_new_def)

lemma example_heard:
  assumes "\<not> ps_remote_set (wc_session c)" and "mq_items (wc_signals c) = []"
  shows "heard example_ws ''dev'' [example_ws_turn (ClientText ''x''), example_ws_turn CloseFrame] example_world c =
      [Signal (IceCandidate ''a'' None None)]"
    and "\<exists>st' c'. ws_run example_ws ''dev'' [example_ws_turn (ClientText ''x''), example_ws_turn CloseFrame] example_world c =
      (Breaks, st', c')"
  using assms
  by (simp_all add: example_ws_turn_def session_events_def select_def ws_event_step_def ws_turn_def on_client_def
    on_message_def message_from_json_def from_json_def message_round_trip example_ws_def handle_signaling_def
    handle_ice_candidate_def example_world_def app_state_new_def del: message_json.simps)

text \<open>C16: Over the whole life of a signalling connection no ICE candidate that was read from the client is
  lost, repeated or reordered: the candidates handed to the WebRTC connection, followed by those
  kept back, are those of the messages read, in order, whatever else the loop, the callbacks and
  the rest of the server do; and none is handed over before a remote description is accepted.\<close>

theorem ws_candidates_delivered:
  assumes "ws_open env peer i input st = (texts, g, Some c)"
    and "ws_run env i es st0 c = (t, st', c')"
  shows "added (ps_ops (wc_session c')) @ buffered (ps_ice_buffer (wc_session c')) = candidates_in (heard env i es st0 c) \<and>
    added_late (we_rtc env) (ps_ops (wc_session c'))"
proof -
  obtain codec where new: "peer_session_new (we_rtc env) peer codec = Inr (wc_session c, wc_signals c)"
    using assms(1) by (rule opened)
  obtain c1 where c1: "wc_session c1 = run_session (we_checks env) (we_rtc env) (heard env i es st0 c) (wc_session c)"
      "c' = (if t = Breaks then ws_close env c1 else c1)"
    using run_heard [OF assms(2)] by blast
  have "session_inv (we_rtc env) ([] @ candidates_in (heard env i es st0 c)) (wc_session c1)"
    unfolding c1(1) by (rule run_inv [OF setup_effect(1) [OF new]])
  then show ?thesis
    using c1(2) by (auto simp: ws_close_def close_session_def set_disconnected_def pc_call_def session_inv_def)
qed

lemma ws_candidates_delivered_witness:
  "\<exists>c st' c'. ws_run example_ws ''dev'' [example_ws_turn (ClientText ''x''), example_ws_turn CloseFrame] example_world c =
      (Breaks, st', c') \<and>
     added (ps_ops (wc_session c')) @ buffered (ps_ice_buffer (wc_session c')) = [init_of ''a'' None None]"
proof -
  obtain c where c: "ws_open example_ws 1 ''dev'' (mpsc_new 100) example_world = ([[]], 1, Some c)"
      "\<not> ps_remote_set (wc_session c)" "mq_items (wc_signals c) = []" by (rule example_opens)
  obtain st' c' where r: "ws_run example_ws ''dev'' [example_ws_turn (ClientText ''x''), example_ws_turn CloseFrame] example_world c =
      (Breaks, st', c')" using example_heard(2) [OF c(2,3)] by blast
  have "added (ps_ops (wc_session c')) @ buffered (ps_ice_buffer (wc_session c')) = [init_of ''a'' None None]"
    using ws_candidates_delivered [OF c(1) r] unfolding example_heard(1) [OF c(2,3)] by simp
  with r show ?thesis by blast
qed

text \<open>A signalling connection cleans up after itself. While its loop runs it counts as one active peer,
  its WebRTC connection is open and its session new or connecting; once the loop has ended it does
  not count any more, and the WebRTC connection has been closed exactly once, as the last thing
  done to it. A shutdown of the server ends the loop at its next turn, whatever else is ready.\<close>

theorem ws_cleans_up:
  assumes "ws_open env peer i input st = (texts, g, Some c)"
    and "ws_run env i es st0 c = (t, st', c')"
  shows "(t = GoesOn \<longrightarrow> wc_gauge c' = 1 \<and> ClosePc \<notin> set (ps_ops (wc_session c')) \<and>
      ps_state (wc_session c') \<in> {NewPeer, ConnectingPeer} \<and>
      (as_cancelled st' \<longrightarrow> fst (ws_turn env i r st' c') = Breaks)) \<and>
    (t = Breaks \<longrightarrow> wc_gauge c' = 0 \<and> ps_state (wc_session c') = DisconnectedPeer \<and>
      (\<exists>ops. ps_ops (wc_session c') = ops @ [ClosePc] \<and> ClosePc \<notin> set ops))"
proof -
  obtain codec where new: "peer_session_new (we_rtc env) peer codec = Inr (wc_session c, wc_signals c)" and g: "wc_gauge c = 1"
    using assms(1) by (rule opened)
  obtain c1 where c1: "wc_session c1 = run_session (we_checks env) (we_rtc env) (heard env i es st0 c) (wc_session c)"
      "wc_gauge c1 = wc_gauge c" "c' = (if t = Breaks then ws_close env c1 else c1)"
    using run_heard [OF assms(2)] by blast
  have "ClosePc \<notin> set (ps_ops (wc_session c1))"
    unfolding c1(1) using new_session_open [OF new] by (simp add: run_session_open)
  moreover have "ps_state (wc_session c1) \<in> {NewPeer, ConnectingPeer}"
    unfolding c1(1) by (rule run_session_state) (simp add: setup_effect [OF new])
  ultimately show ?thesis
    using c1(2,3) g
    by (auto simp: ws_close_def close_session_def set_disconnected_def pc_call_def ws_turn_def select_def)
qed

lemma ws_cleans_up_witness:
  "\<exists>c st' c'. ws_run example_ws ''dev'' [example_ws_turn (ClientText ''x''), example_ws_turn CloseFrame] example_world c =
      (Breaks, st', c') \<and> wc_gauge c' = 0 \<and> ps_state (wc_session c') = DisconnectedPeer"
proof -
  obtain c where c: "ws_open example_ws 1 ''dev'' (mpsc_new 100) example_world = ([[]], 1, Some c)"
      "\<not> ps_remote_set (wc_session c)" "mq_items (wc_signals c) = []" by (rule example_opens)
  obtain st' c' where r: "ws_run example_ws ''dev'' [example_ws_turn (ClientText ''x''), example_ws_turn CloseFrame] example_world c =
      (Breaks, st', c')" using example_heard(2) [OF c(2,3)] by blast
  have "wc_gauge c' = 0 \<and> ps_state (wc_session c') = DisconnectedPeer" using ws_cleans_up [OF c(1) r] by blast
  with r show ?thesis by blast
qed

subsection \<open>What the client is sent\<close>

lemma step_texts:
  assumes "ws_event_step env i e st c = (t, st', c')"
  shows "\<exists>ms. wc_texts c' = wc_texts c @ map (say env) ms"
proof -
  have "wc_texts c' = wc_texts c \<or> (\<exists>m. wc_texts c' = wc_texts c @ [say env m])"
  proof (cases e)
    case (Turn r)
    show ?thesis
    proof (cases "select r st c")
      case (Some b)
      then show ?thesis using assms
        by (cases b)
          (auto simp: Turn ws_event_step_def ws_turn_def ws_tell_def ws_send_def Let_def
            on_signal_def on_video_def on_audio_def on_clipboard_def on_client_def on_message_def
            split: received.splits client_message.splits sum.splits prod.splits option.splits bool.splits)
    qed (use assms in \<open>simp add: Turn ws_event_step_def ws_turn_def\<close>)
  qed (use assms in \<open>auto simp: ws_event_step_def\<close>)
  then show ?thesis by (metis append_Nil2 list.map(1,2))
qed

text \<open>Every text sent is a signalling message.\<close>

lemma ws_sends_messages:
  assumes "ws_open env peer i input st = (texts, g, Some c)" and "ws_run env i es st0 c = (t, st', c')"
  shows "\<exists>ms. wc_texts c' = map (say env) ms"
proof -
  have "\<exists>ms. wc_texts c' = wc_texts c @ map (say env) ms"
    using assms(2)
  proof (induction es arbitrary: st0 c)
    case (Cons e es)
    obtain u st1 c1 where s: "ws_event_step env i e st0 c = (u, st1, c1)" by (cases "ws_event_step env i e st0 c") auto
    obtain ms where ms: "wc_texts c1 = wc_texts c @ map (say env) ms" using step_texts [OF s] by blast
    show ?case
    proof (cases u)
      case GoesOn
      then have "ws_run env i es st1 c1 = (t, st', c')" using Cons.prems s by simp
      then show ?thesis using Cons.IH ms by (metis append.assoc map_append)
    qed (use Cons.prems s ms in \<open>auto simp: ws_close_def\<close>)
  qed (metis append_Nil2 list.map(1) prod.inject ws_run.simps(1))
  moreover have "wc_texts c = map (say env) [ConnectedMsg (rtc_show_peer (we_rtc env) peer)]"
    using assms(1) by (auto simp: ws_open_def Let_def split: sum.splits)
  ultimately show ?thesis by (metis map_append)
qed

subsection \<open>The application state\<close>

text \<open>All that a turn does to the rest of the server is to ask for a key frame.\<close>

lemma turn_state:
  assumes "ws_turn env i r st c = (t, st', c')"
  shows "st' = st \<or> st' = lookup_request_keyframe i st"
proof (cases "select r st c")
  case (Some b)
  then show ?thesis using assms
    by (cases b)
      (auto simp: ws_turn_def ws_tell_def ws_send_def Let_def on_client_def on_message_def
        split: client_message.splits sum.splits prod.splits option.splits bool.splits signaling_message.splits)
qed (use assms in \<open>simp add: ws_turn_def\<close>)

end
