(* ===== verification/Opus_Codec.thy ===== *)
theory Opus_Codec
  imports Config Errors Rtsp_Media
begin

section \<open>Opus encoding and transcoding\<close>

text \<open>
  \<open>encode.rs\<close> (\<open>crates/vscreen-audio\<close>) and \<open>transcoder.rs\<close> (\<open>crates/vscreen-rtsp\<close>). The codec is
  libopus: the model keeps what was asked of it and a parameter answers, with the text of an error
  or with bytes or samples. Samples are rationals.
\<close>

subsection \<open>The codec library\<close>

datatype codec_op =
    NewEncoder u32 u16
  | NewDecoder u32 u16
  | SetBitrate "32 word"
  | EncodeFloat "rat list"
  | ReadPacket bytes
  | DecodeFloat bytes nat

text \<open>\<open>oc_done\<close> answers requests whose value does not matter; \<open>oc_encode\<close> gives the bytes written to
  the output buffer, \<open>oc_decode\<close> the interleaved samples written to a buffer.\<close>

record opus =
  oc_done :: "codec_op list \<Rightarrow> codec_op \<Rightarrow> string + unit"
  oc_encode :: "codec_op list \<Rightarrow> rat list \<Rightarrow> string + bytes"
  oc_decode :: "codec_op list \<Rightarrow> bytes \<Rightarrow> nat \<Rightarrow> string + rat list"

definition max_opus_frame_size :: nat where
  "max_opus_frame_size = 4000"

text \<open>\<open>&buf[..len]\<close> of the output buffer.\<close>

definition output_slice :: "bytes \<Rightarrow> ('e, bytes) outcome" where
  "output_slice b = (if length b \<le> max_opus_frame_size then Ok b else Panic)"

definition channels_from_count :: "u16 \<Rightarrow> audio_error + unit" where
  "channels_from_count ch =
     (if ch = 1 \<or> ch = 2 then Inr () else Inl (AudioEncodeFailed (''unsupported channel count: '' @ show_word ch)))"

definition sample_rate_from_hz :: "u32 \<Rightarrow> audio_error + unit" where
  "sample_rate_from_hz hz =
     (if hz \<in> {48000, 24000, 16000, 12000, 8000} then Inr () else Inl (InvalidSampleRate hz))"

subsection \<open>The encoder\<close>

record opus_encoder =
  oe_inner :: "codec_op list"
  oe_config :: audio_config
  oe_frame_count :: u64
  oe_samples_per_frame :: nat

text \<open>\<open>config.bitrate_kbps as i32 * 1000\<close>, on a signed integer.\<close>

definition bitrate_i32 :: "bool \<Rightarrow> u32 \<Rightarrow> ('e, 32 word) outcome" where
  "bitrate_i32 checks kbps =
     (let r = sint kbps * 1000 in
      if - (2 ^ 31) \<le> r \<and> r < 2 ^ 31 \<or> \<not> checks then Ok (word_of_int r) else Panic)"

definition samples_per_frame :: "audio_config \<Rightarrow> nat" where
  "samples_per_frame config =
     unat (ac_sample_rate config) * unat (ac_frame_duration_ms config) div 1000 * unat (ac_channels config)"

text \<open>A new inner encoder; \<open>what\<close> starts the message of a failure.\<close>

definition inner_encoder ::
  "bool \<Rightarrow> opus \<Rightarrow> string \<Rightarrow> audio_config \<Rightarrow> (audio_error, codec_op list) outcome" where
  "inner_encoder checks lib what config =
     (case sample_rate_from_hz (ac_sample_rate config) of
        Inl e \<Rightarrow> Err e
      | Inr _ \<Rightarrow>
     (case channels_from_count (ac_channels config) of
        Inl e \<Rightarrow> Err e
      | Inr _ \<Rightarrow>
          (let new = NewEncoder (ac_sample_rate config) (ac_channels config) in
           case oc_done lib [] new of
             Inl e \<Rightarrow> Err (AudioEncodeFailed (what @ e))
           | Inr _ \<Rightarrow>
               and_then (bitrate_i32 checks (ac_bitrate_kbps config)) (\<lambda>b.
               case oc_done lib [new] (SetBitrate b) of
                 Inl e \<Rightarrow> Err (AudioEncodeFailed (''set bitrate: '' @ e))
               | Inr _ \<Rightarrow> Ok [new, SetBitrate b]))))"

definition opus_encoder_new :: "bool \<Rightarrow> opus \<Rightarrow> audio_config \<Rightarrow> (audio_error, opus_encoder) outcome" where
  "opus_encoder_new checks lib config =
     and_then (inner_encoder checks lib ''opus init: '' config) (\<lambda>inner.
     Ok \<lparr>oe_inner = inner, oe_config = config, oe_frame_count = 0, oe_samples_per_frame = samples_per_frame config\<rparr>)"

definition encoder_reconfigure ::
  "bool \<Rightarrow> opus \<Rightarrow> audio_config \<Rightarrow> opus_encoder \<Rightarrow> (audio_error, unit) outcome \<times> opus_encoder" where
  "encoder_reconfigure checks lib config enc =
     (case inner_encoder checks lib ''opus reinit: '' config of
        Ok inner \<Rightarrow>
          (Ok (), enc\<lparr>oe_inner := inner, oe_config := config, oe_samples_per_frame := samples_per_frame config\<rparr>)
      | Err e \<Rightarrow> (Err e, enc)
      | Panic \<Rightarrow> (Panic, enc))"

definition encode_audio ::
  "opus \<Rightarrow> rat audio_buffer \<Rightarrow> opus_encoder \<Rightarrow> (audio_error, encoded_packet) outcome \<times> opus_encoder" where
  "encode_audio lib buf enc =
     (if length (ab_samples buf) < oe_samples_per_frame enc then
        (Err (AudioEncodeFailed (''buffer too small: '' @ show_nat (length (ab_samples buf)) @ '' < '' @
          show_nat (oe_samples_per_frame enc))), enc)
      else
        (let input = take (oe_samples_per_frame enc) (ab_samples buf);
             enc1 = enc\<lparr>oe_inner := oe_inner enc @ [EncodeFloat input]\<rparr>
         in
         case oc_encode lib (oe_inner enc) input of
           Inl e \<Rightarrow> (Err (AudioEncodeFailed (''opus encode: '' @ e)), enc1)
         | Inr out \<Rightarrow>
             (case output_slice out of
                Ok data \<Rightarrow>
                  (Ok \<lparr>ep_data = data, ep_is_keyframe = oe_frame_count enc = 0, ep_pts = oe_frame_count enc,
                      ep_duration = Some (ucast (ac_frame_duration_ms (oe_config enc))), ep_codec = None\<rparr>,
                   enc1\<lparr>oe_frame_count := oe_frame_count enc + 1\<rparr>)
              | Err e \<Rightarrow> (Err e, enc1)
              | Panic \<Rightarrow> (Panic, enc1))))"

subsection \<open>The transcoder\<close>

record opus_transcoder =
  ot_decoder :: "codec_op list"
  ot_encoder :: "codec_op list"
  ot_tier :: quality_tier
  ot_pcm :: "rat list"
  ot_downmix :: "rat list"
  ot_frame_count :: u64

definition frame_samples :: nat where
  "frame_samples = 48000 * 20 div 1000"

definition opus_transcoder_new :: "bool \<Rightarrow> opus \<Rightarrow> quality_tier \<Rightarrow> (audio_error, opus_transcoder) outcome" where
  "opus_transcoder_new checks lib tier =
     (case oc_done lib [] (NewDecoder 48000 2) of
        Inl e \<Rightarrow> Err (AudioEncodeFailed (''opus decoder init: '' @ e))
      | Inr _ \<Rightarrow>
     (case channels_from_count (tier_channels tier) of
        Inl e \<Rightarrow> Err e
      | Inr _ \<Rightarrow>
          (let new = NewEncoder 48000 (tier_channels tier) in
           case oc_done lib [] new of
             Inl e \<Rightarrow> Err (AudioEncodeFailed (''opus encoder init: '' @ e))
           | Inr _ \<Rightarrow>
               (case bitrate_bps checks tier of
                  Panic \<Rightarrow> Panic
                | Err e \<Rightarrow> Panic
                | Ok b \<Rightarrow>
                    (case oc_done lib [new] (SetBitrate b) of
                       Inl e \<Rightarrow> Err (AudioEncodeFailed (''set bitrate: '' @ e))
                     | Inr _ \<Rightarrow>
                         Ok \<lparr>ot_decoder = [NewDecoder 48000 2], ot_encoder = [new, SetBitrate b], ot_tier = tier,
                            ot_pcm = replicate (frame_samples * 2) 0,
                            ot_downmix = replicate (frame_samples * unat (tier_channels tier)) 0,
                            ot_frame_count = 0\<rparr>)))))"

text \<open>The loop \<open>for i in 0..n\<close> that averages left and right; \<open>k\<close> rounds are left. An index out of
  bounds panics.\<close>

fun downmix_loop :: "nat \<Rightarrow> nat \<Rightarrow> rat list \<Rightarrow> rat list \<Rightarrow> ('e, rat list) outcome" where
  "downmix_loop i 0 pcm out = Ok out"
| "downmix_loop i (Suc k) pcm out =
     (if i * 2 + 1 < length pcm \<and> i < length out
      then downmix_loop (Suc i) k pcm (out[i := (pcm ! (i * 2) + pcm ! (i * 2 + 1)) * (1 / 2)])
      else Panic)"

text \<open>\<open>&buf[..n]\<close>\<close>

definition slice_to :: "nat \<Rightarrow> 'a list \<Rightarrow> ('e, 'a list) outcome" where
  "slice_to n xs = (if n \<le> length xs then Ok (take n xs) else Panic)"

definition overwrite :: "'a list \<Rightarrow> 'a list \<Rightarrow> 'a list" where
  "overwrite xs buf = xs @ drop (length xs) buf"

definition transcode ::
  "opus \<Rightarrow> encoded_packet \<Rightarrow> opus_transcoder \<Rightarrow> (audio_error, encoded_packet) outcome \<times> opus_transcoder" where
  "transcode lib packet t =
     (case oc_done lib (ot_decoder t) (ReadPacket (ep_data packet)) of
        Inl e \<Rightarrow> (Err (AudioEncodeFailed (''opus packet: '' @ e)), t)
      | Inr _ \<Rightarrow>
     (let t1 = t\<lparr>ot_decoder := ot_decoder t @ [DecodeFloat (ep_data packet) (length (ot_pcm t))]\<rparr> in
      case oc_decode lib (ot_decoder t) (ep_data packet) (length (ot_pcm t)) of
        Inl e \<Rightarrow> (Err (AudioEncodeFailed (''opus decode: '' @ e)), t1)
      | Inr samples \<Rightarrow>
          (let decoded = length samples div 2; t2 = t1\<lparr>ot_pcm := overwrite samples (ot_pcm t)\<rparr> in
           case (if tier_channels (ot_tier t) = 1
                 then and_then (downmix_loop 0 decoded (ot_pcm t2) (ot_downmix t)) (\<lambda>out.
                      and_then (slice_to decoded out) (\<lambda>input. Ok (input, out)))
                 else and_then (slice_to (decoded * 2) (ot_pcm t2)) (\<lambda>input. Ok (input, ot_downmix t))) of
             Panic \<Rightarrow> (Panic, t2)
           | Err e \<Rightarrow> (Err e, t2)
           | Ok (input, out) \<Rightarrow>
               (let t3 = t2\<lparr>ot_downmix := out, ot_encoder := ot_encoder t @ [EncodeFloat input]\<rparr> in
                case oc_encode lib (ot_encoder t) input of
                  Inl e \<Rightarrow> (Err (AudioEncodeFailed (''opus re-encode: '' @ e)), t3)
                | Inr b \<Rightarrow>
                    (case output_slice b of
                       Ok data \<Rightarrow>
                         (Ok \<lparr>ep_data = data, ep_is_keyframe = ep_is_keyframe packet, ep_pts = ot_frame_count t,
                             ep_duration = ep_duration packet, ep_codec = None\<rparr>,
                          t3\<lparr>ot_frame_count := ot_frame_count t + 1\<rparr>)
                     | Err e \<Rightarrow> (Err e, t3)
                     | Panic \<Rightarrow> (Panic, t3))))))"

subsection \<open>Averaging left and right\<close>

definition averages :: "rat list \<Rightarrow> rat list" where
  "averages s = map (\<lambda>i. (s ! (2 * i) + s ! (2 * i + 1)) / 2) [0..<length s div 2]"

lemma downmix_loop_result:
  assumes "2 * (i + k) \<le> length pcm" and "i + k \<le> length out"
  shows "downmix_loop i k pcm out =
    Ok (take i out @ map (\<lambda>j. (pcm ! (2 * j) + pcm ! (2 * j + 1)) / 2) [i..<i + k] @ drop (i + k) out)"
  using assms
proof (induction k arbitrary: i out)
  case (Suc k)
  let ?v = "(pcm ! (2 * i) + pcm ! (2 * i + 1)) / 2"
  have "[i..<i + Suc k] = i # [Suc i..<Suc i + k]" by (subst upt_conv_Cons) simp_all
  moreover have "take (Suc i) (out[i := ?v]) = take i out @ [?v]"
    using Suc.prems by (simp add: take_Suc_conv_app_nth)
  ultimately show ?case using Suc.IH [of "Suc i" "out[i := ?v]"] Suc.prems by (simp add: mult.commute)
qed simp

lemma take_overwrite: "take (length xs) (overwrite xs buf) = xs"
  by (simp add: overwrite_def)

lemma averages_overwrite:
  assumes "2 * k = length xs"
  shows "map (\<lambda>j. (overwrite xs buf ! (2 * j) + overwrite xs buf ! (2 * j + 1)) / 2) [0..<k] = averages xs"
proof -
  have "k = length xs div 2" using assms by simp
  then show ?thesis using assms by (auto simp: averages_def overwrite_def nth_append)
qed

text \<open>What libopus documents: it writes no more than the buffer it is given holds, and whole pairs of
  samples for a stereo stream.\<close>

definition opus_bounded :: "opus \<Rightarrow> bool" where
  "opus_bounded lib \<longleftrightarrow>
     (\<forall>ops x b. oc_encode lib ops x = Inr b \<longrightarrow> length b \<le> max_opus_frame_size) \<and>
     (\<forall>ops d n s. oc_decode lib ops d n = Inr s \<longrightarrow> length s \<le> n \<and> even (length s))"

definition transcoder_ok :: "opus_transcoder \<Rightarrow> bool" where
  "transcoder_ok t \<longleftrightarrow>
     length (ot_pcm t) = 2 * frame_samples \<and>
     length (ot_downmix t) = frame_samples * unat (tier_channels (ot_tier t))"

lemma transcoder_new_ok: "opus_transcoder_new checks lib tier = Ok t \<Longrightarrow> transcoder_ok t \<and> ot_tier t = tier"
  by (auto simp: opus_transcoder_new_def transcoder_ok_def Let_def split: sum.splits outcome.splits)

definition encoder_input :: "quality_tier \<Rightarrow> rat list \<Rightarrow> rat list" where
  "encoder_input tier s = (if tier_channels tier = 1 then averages s else s)"

lemma transcode_step:
  assumes "opus_bounded lib" and "transcoder_ok t"
  shows "fst (transcode lib p t) \<noteq> Panic" and "transcoder_ok (snd (transcode lib p t))"
    and "ot_tier (snd (transcode lib p t)) = ot_tier t"
    and "oc_done lib (ot_decoder t) (ReadPacket (ep_data p)) = Inr u \<Longrightarrow>
      oc_decode lib (ot_decoder t) (ep_data p) (2 * frame_samples) = Inr s \<Longrightarrow>
      ot_encoder (snd (transcode lib p t)) = ot_encoder t @ [EncodeFloat (encoder_input (ot_tier t) s)]"
proof -
  have pcm: "length (ot_pcm t) = 2 * frame_samples" using assms(2) by (simp add: transcoder_ok_def)
  have mix: "downmix_loop 0 (length s div 2) (overwrite s (ot_pcm t)) (ot_downmix t) =
      Ok (averages s @ drop (length s div 2) (ot_downmix t))"
    "slice_to (length s div 2) (averages s @ drop (length s div 2) (ot_downmix t)) = Ok (averages s)"
    "length (averages s) = length s div 2"
    if "length s \<le> 2 * frame_samples" "even (length s)" "tier_channels (ot_tier t) = 1" for s
  proof -
    have "length (ot_downmix t) = frame_samples" using assms(2) that(3) by (simp add: transcoder_ok_def)
    then have "2 * (0 + length s div 2) \<le> length (overwrite s (ot_pcm t))" "0 + length s div 2 \<le> length (ot_downmix t)"
      using that by (simp_all add: overwrite_def)
    from downmix_loop_result [OF this] averages_overwrite [of "length s div 2" s] that(2)
    show "downmix_loop 0 (length s div 2) (overwrite s (ot_pcm t)) (ot_downmix t) =
      Ok (averages s @ drop (length s div 2) (ot_downmix t))" by simp
    show len: "length (averages s) = length s div 2" by (simp add: averages_def)
    show "slice_to (length s div 2) (averages s @ drop (length s div 2) (ot_downmix t)) = Ok (averages s)"
      by (simp add: slice_to_def len)
  qed
  have whole: "slice_to (length s) (overwrite s (ot_pcm t)) = Ok s" for s
    by (simp add: slice_to_def overwrite_def)
  have small: "length s \<le> 2 * frame_samples \<and> even (length s)" if "oc_decode lib ops d (2 * frame_samples) = Inr s" for ops d s
    using assms(1) that by (simp add: opus_bounded_def)
  have out: "output_slice b = Ok b" if "oc_encode lib ops x = Inr b" for ops x b
    using assms(1) that by (simp add: opus_bounded_def output_slice_def)
  let ?all = "fst (transcode lib p t) \<noteq> Panic \<and> transcoder_ok (snd (transcode lib p t)) \<and>
    ot_tier (snd (transcode lib p t)) = ot_tier t \<and>
    (\<forall>u s. oc_done lib (ot_decoder t) (ReadPacket (ep_data p)) = Inr u \<longrightarrow>
      oc_decode lib (ot_decoder t) (ep_data p) (2 * frame_samples) = Inr s \<longrightarrow>
      ot_encoder (snd (transcode lib p t)) = ot_encoder t @ [EncodeFloat (encoder_input (ot_tier t) s)])"
  have ?all
  proof (cases "oc_done lib (ot_decoder t) (ReadPacket (ep_data p))")
    case read: (Inr u)
    show ?thesis
    proof (cases "oc_decode lib (ot_decoder t) (ep_data p) (2 * frame_samples)")
      case dec: (Inr s)
      note s = small [OF dec]
      have len: "length (overwrite s (ot_pcm t)) = 2 * frame_samples" using s pcm by (simp add: overwrite_def)
      show ?thesis
      proof (cases "tier_channels (ot_tier t) = 1")
        case True
        have "length (averages s @ drop (length s div 2) (ot_downmix t)) = frame_samples * unat (tier_channels (ot_tier t))"
          using s True assms(2) div_le_dividend [of "length s" 2] by (auto simp: mix transcoder_ok_def)
        then show ?thesis
          using s len by (cases "oc_encode lib (ot_encoder t) (averages s)")
            (simp_all add: transcode_def Let_def pcm read dec True mix out encoder_input_def transcoder_ok_def)
      next
        case False
        then show ?thesis
          using s len assms(2) by (cases "oc_encode lib (ot_encoder t) s")
            (simp_all add: transcode_def Let_def pcm read dec whole out encoder_input_def transcoder_ok_def)
      qed
    qed (use assms(2) in \<open>simp add: transcode_def Let_def pcm read transcoder_ok_def\<close>)
  qed (use assms(2) in \<open>simp add: transcode_def\<close>)
  then show "fst (transcode lib p t) \<noteq> Panic" "transcoder_ok (snd (transcode lib p t))"
    "ot_tier (snd (transcode lib p t)) = ot_tier t"
    "oc_done lib (ot_decoder t) (ReadPacket (ep_data p)) = Inr u \<Longrightarrow>
      oc_decode lib (ot_decoder t) (ep_data p) (2 * frame_samples) = Inr s \<Longrightarrow>
      ot_encoder (snd (transcode lib p t)) = ot_encoder t @ [EncodeFloat (encoder_input (ot_tier t) s)]"
    by blast+
qed

definition transcode_all :: "opus \<Rightarrow> encoded_packet list \<Rightarrow> opus_transcoder \<Rightarrow> opus_transcoder" where
  "transcode_all lib ps t = fold (\<lambda>p t. snd (transcode lib p t)) ps t"

lemma transcode_all_ok:
  assumes "opus_bounded lib" and "transcoder_ok t"
  shows "transcoder_ok (transcode_all lib ps t) \<and> ot_tier (transcode_all lib ps t) = ot_tier t"
  using assms(2) by (induction ps arbitrary: t) (simp_all add: transcode_all_def transcode_step [OF assms(1)])

text \<open>C23: Transcoding does what it is meant to, for every tier and after any packets: if libopus keeps
  within the buffers it is given, no index or slice leaves its bounds, and what is encoded again is
  the decoded stream, for a mono tier the average of its two channels, sample by sample.\<close>

theorem transcode_correct:
  assumes "opus_bounded lib" and "opus_transcoder_new checks lib tier = Ok t0" and "t = transcode_all lib ps t0"
  shows "fst (transcode lib p t) \<noteq> Panic \<and>
    (\<forall>s. oc_done lib (ot_decoder t) (ReadPacket (ep_data p)) = Inr () \<and>
         oc_decode lib (ot_decoder t) (ep_data p) 1920 = Inr s \<longrightarrow>
       (\<exists>input. ot_encoder (snd (transcode lib p t)) = ot_encoder t @ [EncodeFloat input] \<and>
         (if tier_channels tier = 1
          then length input = length s div 2 \<and> (\<forall>i < length input. input ! i = (s ! (2 * i) + s ! (2 * i + 1)) / 2)
          else input = s)))"
proof -
  have ok: "transcoder_ok t" "ot_tier t = tier"
    using transcode_all_ok [OF assms(1), of t0 ps] transcoder_new_ok [OF assms(2)] assms(3) by auto
  have n: "2 * frame_samples = 1920" by (simp add: frame_samples_def)
  have "length (averages s) = length s div 2 \<and>
      (\<forall>i < length (averages s). averages s ! i = (s ! (2 * i) + s ! (2 * i + 1)) / 2)" for s
    by (simp add: averages_def)
  then show ?thesis
    using transcode_step(1,4) [OF assms(1) ok(1), of p, unfolded n] by (auto simp: ok(2) encoder_input_def)
qed

text \<open>A library that decodes two pairs of samples.\<close>

definition example_opus :: opus where
  "example_opus = \<lparr>oc_done = (\<lambda>_ _. Inr ()), oc_encode = (\<lambda>_ _. Inr [7]), oc_decode = (\<lambda>_ _ n. if 4 \<le> n then Inr [1, 3, 5, 9] else Inl [])\<rparr>"

lemma transcode_correct_witness:
  "\<exists>t. opus_transcoder_new True example_opus Low = Ok t \<and>
     ot_encoder (snd (transcode example_opus (encoded_packet_new [] False 0) t)) = ot_encoder t @ [EncodeFloat [2, 7]]"
proof -
  have lib: "opus_bounded example_opus"
    by (auto simp: opus_bounded_def example_opus_def max_opus_frame_size_def split: if_splits)
  obtain t where t: "opus_transcoder_new True example_opus Low = Ok t"
    by (simp add: opus_transcoder_new_def example_opus_def channels_from_count_def)
  have "t = transcode_all example_opus [] t" by (simp add: transcode_all_def)
  from transcode_correct [OF lib t this, of "encoded_packet_new [] False 0"] obtain input where
    i: "ot_encoder (snd (transcode example_opus (encoded_packet_new [] False 0) t)) = ot_encoder t @ [EncodeFloat input]"
      "length input = 2" "\<forall>i < length input. input ! i = ([1, 3, 5, 9] ! (2 * i) + [1, 3, 5, 9] ! (2 * i + 1)) / 2"
    by (auto simp: example_opus_def)
  have "input = [2, 7]" using i(2,3) by (intro nth_equalityI) (auto simp: less_Suc_eq numeral_2_eq_2)
  then show ?thesis using t i(1) by blast
qed

text \<open>The buffers are made for packets of 20 ms. libopus refuses a packet that has more samples than
  fit, so of a stream with longer packets, which the configuration allows, no packet is ever
  transcoded.\<close>

lemma long_packets_fail:
  assumes "\<And>ops d n. n < 2 * pairs d \<Longrightarrow> isl (oc_decode lib ops d n)"
    and "transcoder_ok t" and "960 < pairs (ep_data p)"
  shows "\<exists>e. fst (transcode lib p t) = Err e"
proof -
  have "length (ot_pcm t) < 2 * pairs (ep_data p)"
    using assms(2,3) by (simp add: transcoder_ok_def frame_samples_def)
  then have "isl (oc_decode lib (ot_decoder t) (ep_data p) (length (ot_pcm t)))" by (rule assms(1))
  then show ?thesis by (auto simp: transcode_def Let_def isl_def split: sum.split)
qed

end
