(* ===== verification/Audio_Pipeline.thy ===== *)
theory Audio_Pipeline
  imports Opus_Codec Channels Rtp_Stream
begin

section \<open>From capture to multicast\<close>

text \<open>
  The way of the audio: \<open>capture.rs\<close> and \<open>pipeline.rs\<close> (\<open>crates/vscreen-audio\<close>) capture buffers,
  encode and broadcast them, and \<open>rtp/sender.rs\<close> (\<open>crates/vscreen-transport\<close>) sends the packets to a
  fixed address. Of the two capture loops the one without PulseAudio is modelled. Starting a
  thread, parsing an address and the socket are parameters.
\<close>

subsection \<open>Capture\<close>

definition silence :: "audio_config \<Rightarrow> instant \<Rightarrow> rat audio_buffer" where
  "silence config now =
     \<lparr>ab_samples = replicate (samples_per_frame config) 0, ab_channels = ac_channels config,
      ab_sample_rate = ac_sample_rate config, ab_timestamp = now\<rparr>"

text \<open>A round of \<open>silence_loop\<close>: whether it goes on, and the channel.\<close>

definition silence_round ::
  "audio_config \<Rightarrow> instant \<Rightarrow> bool \<Rightarrow> rat audio_buffer mpsc \<Rightarrow> bool \<times> rat audio_buffer mpsc" where
  "silence_round config now cancelled q =
     (if cancelled then (False, q)
      else
        (case try_send (silence config now) q of
           (Closed, q) \<Rightarrow> (False, q)
         | (_, q) \<Rightarrow> (True, q)))"

subsection \<open>The pipeline\<close>

datatype capture_state = IdleCapture | Capturing | LostCapture | StoppedCapture

text \<open>\<open>ap_capture\<close> is the handle of the capture thread with its flag to stop.\<close>

record audio_pipeline =
  ap_config :: audio_config
  ap_source :: string
  ap_state :: capture_state
  ap_capture :: "bool option"
  ap_encoding :: bool

text \<open>\<open>AudioPipeline::start\<close>, with the encoder its task gets and the flag of the thread, if one was
  started: a handle that is dropped sets it.\<close>

definition pipeline_start ::
  "bool \<Rightarrow> opus \<Rightarrow> string + unit \<Rightarrow> string \<Rightarrow> audio_config
     \<Rightarrow> (audio_error, audio_pipeline \<times> opus_encoder) outcome \<times> bool option" where
  "pipeline_start checks lib spawn source config =
     (case spawn of
        Inl e \<Rightarrow> (Err (CaptureFailed (''thread spawn: '' @ e)), None)
      | Inr _ \<Rightarrow>
          (case opus_encoder_new checks lib config of
             Ok enc \<Rightarrow>
               (Ok (\<lparr>ap_config = config, ap_source = source, ap_state = Capturing, ap_capture = Some False,
                  ap_encoding = True\<rparr>, enc), Some False)
           | Err e \<Rightarrow> (Err e, Some True)
           | Panic \<Rightarrow> (Panic, Some True)))"

definition pipeline_stop :: "audio_pipeline \<Rightarrow> audio_pipeline" where
  "pipeline_stop p = p\<lparr>ap_capture := None, ap_encoding := False, ap_state := StoppedCapture\<rparr>"

text \<open>\<open>encode_loop\<close>: the packets broadcast for the buffers received, and whether the task panicked.\<close>

fun encode_loop ::
  "opus \<Rightarrow> rat audio_buffer list \<Rightarrow> opus_encoder \<Rightarrow> encoded_packet list \<times> opus_encoder \<times> bool" where
  "encode_loop lib [] enc = ([], enc, False)"
| "encode_loop lib (b # bs) enc =
     (case encode_audio lib b enc of
        (Ok p, enc1) \<Rightarrow> (case encode_loop lib bs enc1 of (ps, enc2, panicked) \<Rightarrow> (p # ps, enc2, panicked))
      | (Err e, enc1) \<Rightarrow> encode_loop lib bs enc1
      | (Panic, enc1) \<Rightarrow> ([], enc1, True))"

subsection \<open>The RTP sender\<close>

record rtp_sender =
  rx_target :: string
  rx_bound :: bool
  rx_packets_sent :: u64
  rx_sequence_number :: u16
  rx_ssrc :: u32

text \<open>\<open>parse\<close> reads a socket address and \<open>ssrc\<close> is the random number.\<close>

definition rtp_sender_new ::
  "(string \<Rightarrow> string + unit) \<Rightarrow> u32 \<Rightarrow> rtp_output_config \<Rightarrow> transport_error + rtp_sender" where
  "rtp_sender_new parse ssrc config =
     (let target = ro_address config @ '':'' @ show_word (ro_port config) in
      case parse target of
        Inl e \<Rightarrow> Inl (RtpSend (''invalid address: '' @ e))
      | Inr _ \<Rightarrow> Inr \<lparr>rx_target = target, rx_bound = False, rx_packets_sent = 0, rx_sequence_number = 0, rx_ssrc = ssrc\<rparr>)"

definition sender_bind :: "string + unit \<Rightarrow> rtp_sender \<Rightarrow> (transport_error + unit) \<times> rtp_sender" where
  "sender_bind socket s =
     (case socket of
        Inl e \<Rightarrow> (Inl (RtpSend (''bind failed: '' @ e)), s)
      | Inr _ \<Rightarrow> (Inr (), s\<lparr>rx_bound := True\<rparr>))"

text \<open>\<open>build_rtp_packet\<close>; \<open>checks\<close> is the build's setting for overflow checks.\<close>

definition build_sender_packet :: "bool \<Rightarrow> encoded_packet \<Rightarrow> rtp_sender \<Rightarrow> (transport_error, bytes) outcome" where
  "build_sender_packet checks packet s =
     and_then (mul_ovf checks (ep_pts packet) 48000) (\<lambda>t.
     Ok ([0x80, (if ep_is_keyframe packet then 0x80 else 0) OR 111] @ u16_be (rx_sequence_number s) @
       u32_be (ucast (t div 1000)) @ u32_be (rx_ssrc s) @ ep_data packet))"

text \<open>\<open>net\<close> is the socket: what was sent so far and the datagram give an error or nothing.\<close>

definition sender_send ::
  "bool \<Rightarrow> (bytes list \<Rightarrow> bytes \<Rightarrow> string + unit) \<Rightarrow> encoded_packet \<Rightarrow> rtp_sender \<Rightarrow> bytes list
     \<Rightarrow> (transport_error, unit) outcome \<times> rtp_sender \<times> bytes list" where
  "sender_send checks net packet s sent =
     (if \<not> rx_bound s then (Err (RtpSend ''socket not bound''), s, sent)
      else
        (case build_sender_packet checks packet s of
           Err e \<Rightarrow> (Err e, s, sent)
         | Panic \<Rightarrow> (Panic, s, sent)
         | Ok d \<Rightarrow>
             (case net sent d of
                Inl e \<Rightarrow> (Err (RtpSend (''send failed: '' @ e)), s, sent)
              | Inr _ \<Rightarrow>
                  (Ok (), s\<lparr>rx_packets_sent := rx_packets_sent s + 1, rx_sequence_number := rx_sequence_number s + 1\<rparr>,
                   sent @ [d]))))"

text \<open>The RTP output task of \<open>supervisor.rs\<close> on the packets it receives; an error is logged.\<close>

fun rtp_output_task ::
  "bool \<Rightarrow> (bytes list \<Rightarrow> bytes \<Rightarrow> string + unit) \<Rightarrow> encoded_packet received list \<Rightarrow> rtp_sender \<Rightarrow> bytes list
     \<Rightarrow> rtp_sender \<times> bytes list" where
  "rtp_output_task checks net [] s sent = (s, sent)"
| "rtp_output_task checks net (r # rs) s sent =
     (case r of
        Got p \<Rightarrow>
          (case sender_send checks net p s sent of
             (Panic, s', sent') \<Rightarrow> (s', sent')
           | (_, s', sent') \<Rightarrow> rtp_output_task checks net rs s' sent')
      | Lagged n \<Rightarrow> rtp_output_task checks net rs s sent
      | ClosedRx \<Rightarrow> (s, sent))"

subsection \<open>What is broadcast\<close>

lemma encode_audio_result:
  assumes "opus_bounded lib"
  shows "(\<exists>p. encode_audio lib b enc = (Ok p, snd (encode_audio lib b enc)) \<and>
        ep_pts p = oe_frame_count enc \<and> ep_is_keyframe p = (oe_frame_count enc = 0) \<and>
        ep_duration p = Some (ucast (ac_frame_duration_ms (oe_config enc))) \<and>
        oe_frame_count (snd (encode_audio lib b enc)) = oe_frame_count enc + 1 \<or>
      (\<exists>e. encode_audio lib b enc = (Err e, snd (encode_audio lib b enc))) \<and>
        oe_frame_count (snd (encode_audio lib b enc)) = oe_frame_count enc) \<and>
    oe_config (snd (encode_audio lib b enc)) = oe_config enc"
  using assms by (auto simp: encode_audio_def Let_def output_slice_def opus_bounded_def split: sum.split)

lemma encode_loop_packets:
  assumes "opus_bounded lib" and "oe_frame_count enc = of_nat n" and "encode_loop lib bs enc = (ps, enc', panicked)"
  shows "\<not> panicked \<and> map ep_pts ps = map (\<lambda>k. of_nat (n + k)) [0..<length ps] \<and>
    (\<forall>p \<in> set ps. ep_is_keyframe p = (ep_pts p = 0) \<and>
       ep_duration p = Some (ucast (ac_frame_duration_ms (oe_config enc))))"
  using assms(2,3)
proof (induction bs arbitrary: enc n ps enc' panicked)
  case (Cons b bs)
  let ?enc = "snd (encode_audio lib b enc)"
  obtain qs enc2 pan where rest: "encode_loop lib bs ?enc = (qs, enc2, pan)" by (cases "encode_loop lib bs ?enc") auto
  from encode_audio_result [OF assms(1), of b enc] show ?case
  proof (elim conjE disjE exE)
    fix p
    assume p: "encode_audio lib b enc = (Ok p, ?enc)" "ep_pts p = oe_frame_count enc"
      "ep_is_keyframe p = (oe_frame_count enc = 0)"
      "ep_duration p = Some (ucast (ac_frame_duration_ms (oe_config enc)))" "oe_frame_count ?enc = oe_frame_count enc + 1"
      and c: "oe_config ?enc = oe_config enc"
    have out: "ps = p # qs" "panicked = pan" using Cons.prems(2) p(1) rest by (auto split: prod.splits)
    have "oe_frame_count ?enc = of_nat (Suc n)" using p(5) Cons.prems(1) by simp
    from Cons.IH [OF this rest] have IH: "\<not> pan" "map ep_pts qs = map (\<lambda>k. of_nat (Suc n + k)) [0..<length qs]"
      "\<forall>p \<in> set qs. ep_is_keyframe p = (ep_pts p = 0) \<and> ep_duration p = Some (ucast (ac_frame_duration_ms (oe_config enc)))"
      using c by auto
    have "map (\<lambda>k. of_nat (n + k) :: u64) [0..<Suc (length qs)] = of_nat n # map (\<lambda>k. of_nat (Suc n + k)) [0..<length qs]"
      by (simp add: upt_conv_Cons map_Suc_upt [symmetric] o_def del: upt_Suc)
    then show ?thesis using IH p Cons.prems(1) out by simp
  next
    fix e
    assume "encode_audio lib b enc = (Err e, ?enc)" "oe_frame_count ?enc = oe_frame_count enc" "oe_config ?enc = oe_config enc"
    then show ?thesis using Cons.IH [of ?enc n ps enc' panicked] Cons.prems by (auto split: prod.splits)
  qed
qed simp

subsection \<open>What is sent\<close>

lemma sender_timestamp:
  assumes "k < 2 ^ 32"
  shows "mul_ovf checks (of_nat k :: u64) 48000 = (Ok (of_nat (48000 * k)) :: (transport_error, u64) outcome)"
    and "ucast (of_nat (48000 * k) div 1000 :: u64) = (of_nat (48 * k) :: u32)"
proof -
  have k: "unat (of_nat k :: u64) = k" using assms by (simp add: unat_of_nat)
  show "mul_ovf checks (of_nat k :: u64) 48000 = (Ok (of_nat (48000 * k)) :: (transport_error, u64) outcome)"
    by (subst mul_ovf_fits) (use k assms in \<open>simp_all add: mult.commute\<close>)
  have "unat (of_nat (48000 * k) :: u64) = 48000 * k" using assms by (simp add: unat_of_nat del: of_nat_mult)
  then have "unat (of_nat (48000 * k) div 1000 :: u64) = 48 * k" by (simp add: unat_div del: of_nat_mult)
  then show "ucast (of_nat (48000 * k) div 1000 :: u64) = (of_nat (48 * k) :: u32)"
    by (metis of_nat_unat)
qed

lemma read_sender_packet:
  assumes "ep_pts p = of_nat k" and "k < 2 ^ 32"
  obtains d where "build_sender_packet checks p s = Ok d"
    and "read_rtp d = \<lparr>rp_version = 2, rp_marker = ep_is_keyframe p, rp_payload_type = 111,
      rp_sequence_number = rx_sequence_number s, rp_timestamp = of_nat (48 * k), rp_ssrc = rx_ssrc s, rp_payload = ep_data p\<rparr>"
proof -
  have m: "bit ((if ep_is_keyframe p then 0x80 else 0) OR (111 :: u8)) 7 = ep_is_keyframe p"
    "((if ep_is_keyframe p then 0x80 else 0) OR (111 :: u8)) AND 0x7F = 111"
    by (rule marker_bits; simp)+
  let ?d = "[0x80, (if ep_is_keyframe p then 0x80 else 0) OR 111] @ u16_be (rx_sequence_number s) @
      u32_be (of_nat (48 * k)) @ u32_be (rx_ssrc s) @ ep_data p"
  have "build_sender_packet checks p s = Ok ?d"
    using sender_timestamp [OF assms(2)] assms(1) by (simp add: build_sender_packet_def del: of_nat_mult)
  moreover have "read_rtp ?d = \<lparr>rp_version = 2, rp_marker = ep_is_keyframe p, rp_payload_type = 111,
      rp_sequence_number = rx_sequence_number s, rp_timestamp = of_nat (48 * k), rp_ssrc = rx_ssrc s, rp_payload = ep_data p\<rparr>"
    using m by (simp add: read_rtp_def u16_be_def u32_be_def be_read del: of_nat_mult)
  ultimately show thesis by (rule that)
qed

lemma output_task_sends:
  assumes net: "net = (\<lambda>_ _. Inr ())" and "rx_bound s" and "rx_sequence_number s = of_nat n"
    and "map ep_pts ps = map (\<lambda>k. of_nat (n + k)) [0..<length ps]" and "n + length ps \<le> 2 ^ 32"
    and "rtp_output_task checks net (map Got ps) s sent = (s', sent')"
  shows "\<exists>ds. sent' = sent @ ds \<and> map read_rtp ds =
    map (\<lambda>k. \<lparr>rp_version = 2, rp_marker = ep_is_keyframe (ps ! k), rp_payload_type = 111, rp_sequence_number = of_nat (n + k),
      rp_timestamp = of_nat (48 * (n + k)), rp_ssrc = rx_ssrc s, rp_payload = ep_data (ps ! k)\<rparr>) [0..<length ps]"
  using assms(2-)
proof (induction ps arbitrary: s n sent)
  case (Cons p ps)
  have pts: "ep_pts p = of_nat n" "map ep_pts ps = map (\<lambda>k. of_nat (Suc n + k)) [0..<length ps]"
    using Cons.prems(3) by (simp_all add: upt_conv_Cons map_Suc_upt [symmetric] o_def del: upt_Suc)
  have n: "n < 2 ^ 32" using Cons.prems(4) by simp
  obtain d where d: "build_sender_packet checks p s = Ok d" "read_rtp d =
      \<lparr>rp_version = 2, rp_marker = ep_is_keyframe p, rp_payload_type = 111, rp_sequence_number = rx_sequence_number s,
       rp_timestamp = of_nat (48 * n), rp_ssrc = rx_ssrc s, rp_payload = ep_data p\<rparr>"
    by (rule read_sender_packet [OF pts(1) n])
  let ?s = "s\<lparr>rx_packets_sent := rx_packets_sent s + 1, rx_sequence_number := rx_sequence_number s + 1\<rparr>"
  have "rtp_output_task checks net (map Got ps) ?s (sent @ [d]) = (s', sent')"
    using Cons.prems(1,5) d(1) net by (simp add: sender_send_def)
  then obtain ds where "sent' = (sent @ [d]) @ ds" "map read_rtp ds =
      map (\<lambda>k. \<lparr>rp_version = 2, rp_marker = ep_is_keyframe (ps ! k), rp_payload_type = 111, rp_sequence_number = of_nat (Suc n + k),
        rp_timestamp = of_nat (48 * (Suc n + k)), rp_ssrc = rx_ssrc ?s, rp_payload = ep_data (ps ! k)\<rparr>) [0..<length ps]"
    using Cons.IH [of ?s "Suc n" "sent @ [d]"] Cons.prems pts(2) by auto
  then show ?case using d(2) Cons.prems(2)
    by (intro exI [of _ "d # ds"]) (simp add: upt_conv_Cons map_Suc_upt [symmetric] o_def del: upt_Suc of_nat_mult)
qed simp

text \<open>C39: From capture to the wire. The encoder's task sends one packet for each buffer it can encode and
  never panics; while the socket takes them and nothing is lost on the way, the datagrams are valid
  RTP: consecutive sequence numbers, the first marked, each with the encoded data. But the clock is
  wrong: the packets are numbered, not timed, so each advances the timestamp by 48, one
  millisecond, whatever the length of a frame.\<close>

theorem multicast_packets:
  assumes "opus_bounded lib" and "opus_encoder_new checks lib config = Ok enc"
    and "encode_loop lib bs enc = (ps, enc', panicked)" and "length ps \<le> 2 ^ 32"
    and "rtp_sender_new parse ssrc out = Inr s0" and "\<And>x d. net x d = Inr ()"
    and "rtp_output_task checks net (map Got ps) (snd (sender_bind (Inr ()) s0)) [] = (s, sent)"
  shows "\<not> panicked \<and> map read_rtp sent =
      map (\<lambda>k. \<lparr>rp_version = 2, rp_marker = (k = 0), rp_payload_type = 111, rp_sequence_number = of_nat k,
        rp_timestamp = of_nat (48 * k), rp_ssrc = ssrc, rp_payload = ep_data (ps ! k)\<rparr>) [0..<length ps] \<and>
    (\<forall>p \<in> set ps. ep_duration p = Some (ucast (ac_frame_duration_ms config)))"
proof -
  have enc: "oe_frame_count enc = of_nat 0" "oe_config enc = config"
    using assms(2) by (auto simp: opus_encoder_new_def)
  from encode_loop_packets [OF assms(1) enc(1) assms(3)] have ps: "\<not> panicked"
    "map ep_pts ps = map (\<lambda>k. of_nat (0 + k)) [0..<length ps]"
    "\<forall>p \<in> set ps. ep_is_keyframe p = (ep_pts p = 0) \<and> ep_duration p = Some (ucast (ac_frame_duration_ms config))"
    using enc(2) by auto
  have net: "net = (\<lambda>_ _. Inr ())" using assms(6) by (intro ext) simp
  let ?s = "snd (sender_bind (Inr ()) s0)"
  have s: "rx_bound ?s" "rx_sequence_number ?s = of_nat 0" "rx_ssrc ?s = ssrc"
    using assms(5) by (auto simp: rtp_sender_new_def sender_bind_def Let_def split: sum.splits)
  have key: "ep_is_keyframe (ps ! k) = (k = 0)" if "k < length ps" for k
  proof -
    have "k < 2 ^ 32" using that assms(4) by (rule less_le_trans)
    then have "k < 2 ^ 64" by (rule less_trans) simp
    then have "unat (of_nat k :: u64) = k" by (simp add: unat_of_nat)
    then have "(of_nat k = (0 :: u64)) = (k = 0)" by (simp only: word_unat_eq_iff unat_0)
    moreover have "ep_pts (ps ! k) = of_nat k" using arg_cong [OF ps(2), of "\<lambda>xs. xs ! k"] that by simp
    ultimately show ?thesis using ps(3) that by simp
  qed
  have "map read_rtp sent =
      map (\<lambda>k. \<lparr>rp_version = 2, rp_marker = ep_is_keyframe (ps ! k), rp_payload_type = 111, rp_sequence_number = of_nat (0 + k),
        rp_timestamp = of_nat (48 * (0 + k)), rp_ssrc = rx_ssrc ?s, rp_payload = ep_data (ps ! k)\<rparr>) [0..<length ps]"
    using output_task_sends [OF net s(1,2) ps(2) _ assms(7)] assms(4) by auto
  also have "\<dots> = map (\<lambda>k. \<lparr>rp_version = 2, rp_marker = (k = 0), rp_payload_type = 111, rp_sequence_number = of_nat k,
        rp_timestamp = of_nat (48 * k), rp_ssrc = ssrc, rp_payload = ep_data (ps ! k)\<rparr>) [0..<length ps]"
    by (rule map_cong) (simp_all add: key s(3) del: of_nat_mult)
  finally show ?thesis using ps(1,3) by blast
qed

text \<open>Three buffers, the second of which is empty.\<close>

definition example_audio :: audio_config where
  "example_audio = \<lparr>ac_sample_rate = 8000, ac_channels = 1, ac_bitrate_kbps = 32, ac_frame_duration_ms = 1\<rparr>"

definition example_buffers :: "rat audio_buffer list" where
  "example_buffers = [silence example_audio 0, (silence example_audio 0)\<lparr>ab_samples := []\<rparr>, silence example_audio 1]"

lemma multicast_packets_witness:
  "\<exists>enc ps enc' s0 s sent. opus_encoder_new True example_opus example_audio = Ok enc \<and>
     encode_loop example_opus example_buffers enc = (ps, enc', False) \<and>
     rtp_output_task True (\<lambda>_ _. Inr ()) (map Got ps) (snd (sender_bind (Inr ()) s0)) [] = (s, sent) \<and>
     map rp_timestamp (map read_rtp sent) = [0, 48]"
proof -
  have lib: "opus_bounded example_opus"
    by (auto simp: opus_bounded_def example_opus_def max_opus_frame_size_def split: if_splits)
  have spf: "samples_per_frame example_audio = 8" by (simp add: samples_per_frame_def example_audio_def)
  obtain enc where enc: "opus_encoder_new True example_opus example_audio = Ok enc" "oe_samples_per_frame enc = 8"
    using spf by (simp add: opus_encoder_new_def inner_encoder_def example_opus_def example_audio_def
      sample_rate_from_hz_def channels_from_count_def bitrate_i32_def)
  obtain ps enc' where ps: "encode_loop example_opus example_buffers enc = (ps, enc', False)" "length ps = 2"
    by (simp add: example_buffers_def silence_def spf encode_audio_def enc(2) example_opus_def output_slice_def
      max_opus_frame_size_def Let_def)
  obtain s0 where s0: "rtp_sender_new (\<lambda>_. Inr ()) 5 \<lparr>ro_address = ''::1'', ro_port = 5004, ro_multicast = True\<rparr> = Inr s0"
    by (simp add: rtp_sender_new_def)
  obtain s sent where run: "rtp_output_task True (\<lambda>_ _. Inr ()) (map Got ps) (snd (sender_bind (Inr ()) s0)) [] = (s, sent)"
    by (cases "rtp_output_task True (\<lambda>_ _. Inr ()) (map Got ps) (snd (sender_bind (Inr ()) s0)) []")
  have "length ps \<le> 2 ^ 32" using ps(2) by simp
  from multicast_packets [OF lib enc(1) ps(1) this s0 _ run] ps(2)
  have "map rp_timestamp (map read_rtp sent) = [0, 48]" by (simp add: upt_conv_Cons)
  with enc(1) ps(1) run show ?thesis by (intro exI conjI) assumption+
qed

end
