(* ===== verification/F64.thy ===== *)
theory F64
  imports Complex_Main "HOL-Library.Log_Nat"
begin

section \<open>Doubles\<close>

text \<open>
  Arithmetic of \<open>f64\<close> on values that stay in the normal range: a double is a rational, and each
  operation rounds its exact result to 53 significant bits, a tie to the even neighbour.
\<close>

definition round_even :: "rat \<Rightarrow> int" where
  "round_even x =
     (let n = \<lfloor>x\<rfloor>; d = x - of_int n in
      if d < 1 / 2 \<or> d = 1 / 2 \<and> even n then n else n + 1)"

text \<open>The exponent of the leading bit of a positive number.\<close>

definition f64_exponent :: "rat \<Rightarrow> int" where
  "f64_exponent x =
     (if 1 \<le> x then int (floorlog 2 (nat \<lfloor>x\<rfloor>)) - 1 else - int (floorlog 2 (nat \<lceil>1 / x\<rceil> - 1)))"

definition f64_round :: "rat \<Rightarrow> rat" where
  "f64_round x =
     (if x = 0 then 0
      else (let u = power_int 2 (f64_exponent \<bar>x\<bar> - 52) in of_int (round_even (x / u)) * u))"

definition f64_add :: "rat \<Rightarrow> rat \<Rightarrow> rat" where
  "f64_add a b = f64_round (a + b)"

definition f64_sub :: "rat \<Rightarrow> rat \<Rightarrow> rat" where
  "f64_sub a b = f64_round (a - b)"

definition f64_mul :: "rat \<Rightarrow> rat \<Rightarrow> rat" where
  "f64_mul a b = f64_round (a * b)"

definition clamp :: "rat \<Rightarrow> rat \<Rightarrow> rat \<Rightarrow> rat" where
  "clamp lo hi x = (if x < lo then lo else if hi < x then hi else x)"

subsection \<open>The error of an operation\<close>

lemma round_even_error: "\<bar>of_int (round_even x) - x\<bar> \<le> 1 / 2"
  unfolding round_even_def Let_def by (auto simp: abs_if) linarith+

lemma f64_exponent_le:
  assumes "0 < x"
  shows "power_int 2 (f64_exponent x) \<le> x"
proof (cases "1 \<le> x")
  case True
  let ?n = "nat \<lfloor>x\<rfloor>"
  have n: "0 < ?n" using True by simp
  then have "2 ^ (floorlog 2 ?n - 1) \<le> ?n" using floorlog_bounds [of ?n 2] by simp
  then have "(2 :: rat) ^ (floorlog 2 ?n - 1) \<le> of_nat ?n"
    by (metis of_nat_le_iff of_nat_numeral of_nat_power)
  moreover have "of_nat ?n \<le> x" using True by simp
  moreover have "floorlog 2 ?n \<noteq> 0" using n unfolding floorlog_eq_zero_iff by simp
  then have "int (floorlog 2 ?n) - 1 = int (floorlog 2 ?n - 1)" by linarith
  then have "power_int 2 (f64_exponent x) = (2 :: rat) ^ (floorlog 2 ?n - 1)"
    unfolding f64_exponent_def if_P [OF True] by (simp only: power_int_of_nat)
  ultimately show ?thesis by linarith
next
  case False
  let ?n = "nat \<lceil>1 / x\<rceil>" let ?k = "floorlog 2 (?n - 1)"
  have "1 < 1 / x" using False assms by simp
  then have n: "2 \<le> ?n" by linarith
  then have "0 < ?n - 1" by linarith
  then have "?n - 1 < 2 ^ ?k" using floorlog_bounds [of "?n - 1" 2] by simp
  then have "?n \<le> 2 ^ ?k" by linarith
  then have "(of_nat ?n :: rat) \<le> 2 ^ ?k" by (metis of_nat_le_iff of_nat_numeral of_nat_power)
  moreover have "1 / x \<le> of_nat ?n" by linarith
  ultimately have "1 / x \<le> 2 ^ ?k" by linarith
  then have "1 / 2 ^ ?k \<le> x" using assms by (simp add: field_simps)
  then show ?thesis using False by (simp add: f64_exponent_def power_int_minus field_simps)
qed

lemma f64_round_error: "\<bar>f64_round x - x\<bar> \<le> \<bar>x\<bar> / 2 ^ 53"
proof (cases "x = 0")
  case False
  define u :: rat where "u = power_int 2 (f64_exponent \<bar>x\<bar> - 52)"
  have u: "0 < u" by (simp add: u_def)
  have "u * 2 ^ 52 = power_int 2 (f64_exponent \<bar>x\<bar>)" by (simp add: u_def power_int_diff)
  also have "\<dots> \<le> \<bar>x\<bar>" by (rule f64_exponent_le) (use False in simp)
  finally have le: "u * 2 ^ 52 \<le> \<bar>x\<bar>" .
  have "f64_round x - x = (of_int (round_even (x / u)) - x / u) * u"
    using False u by (simp add: f64_round_def u_def [symmetric] Let_def left_diff_distrib)
  then have "\<bar>f64_round x - x\<bar> = \<bar>of_int (round_even (x / u)) - x / u\<bar> * u" using u by (simp add: abs_mult)
  also have "\<dots> \<le> 1 / 2 * u" by (rule mult_right_mono [OF round_even_error]) (use u in simp)
  also have "\<dots> \<le> \<bar>x\<bar> / 2 ^ 53" using le by simp
  finally show ?thesis .
qed (simp add: f64_round_def)

lemma f64_round_error_le: "\<bar>x\<bar> \<le> m \<Longrightarrow> \<bar>f64_round x - x\<bar> \<le> m / 2 ^ 53"
  by (rule order_trans [OF f64_round_error divide_right_mono]) simp_all

text \<open>Steps of a sum of products whose factors are at most 255.\<close>

lemma f64_mul_error:
  assumes "\<bar>k\<bar> \<le> 1" and "0 \<le> r" and "r \<le> 255"
  shows "\<bar>f64_mul (f64_round k) r - k * r\<bar> \<le> 1 / 10 ^ 12"
proof -
  let ?c = "f64_round k"
  have c: "\<bar>?c - k\<bar> \<le> 1 / 2 ^ 53" by (rule f64_round_error_le [OF assms(1)])
  have "\<bar>(?c - k) * r\<bar> \<le> 1 / 2 ^ 53 * 255"
    unfolding abs_mult by (rule mult_mono) (use c assms in auto)
  then have cr: "\<bar>?c * r - k * r\<bar> \<le> 255 / 2 ^ 53" by (simp add: left_diff_distrib)
  have "\<bar>k * r\<bar> \<le> 1 * 255" unfolding abs_mult by (rule mult_mono) (use assms in auto)
  moreover have "(255 :: rat) / 2 ^ 53 \<le> 1" "(255 :: rat) / 2 ^ 53 + 256 / 2 ^ 53 \<le> 1 / 10 ^ 12" by simp_all
  ultimately have "\<bar>?c * r\<bar> \<le> 256" "255 / 2 ^ 53 + 256 / 2 ^ 53 \<le> (1 :: rat) / 10 ^ 12" using cr by linarith+
  then show ?thesis using cr f64_round_error_le [of "?c * r" 256] unfolding f64_mul_def by linarith
qed

lemma f64_add_error:
  assumes "\<bar>a - x\<bar> \<le> e" and "\<bar>b - y\<bar> \<le> d" and "\<bar>x + y\<bar> \<le> 512" and "e + d \<le> 1"
  shows "\<bar>f64_add a b - (x + y)\<bar> \<le> e + d + 1 / 10 ^ 12"
proof -
  have "\<bar>a + b\<bar> \<le> 513" using assms by linarith
  then have "\<bar>f64_round (a + b) - (a + b)\<bar> \<le> 513 / 2 ^ 53" by (rule f64_round_error_le)
  also have "\<dots> \<le> (1 :: rat) / 10 ^ 12" by simp
  finally show ?thesis using assms unfolding f64_add_def by linarith
qed

lemma f64_sub_add: "f64_sub a b = f64_add a (- b)"
  by (simp add: f64_sub_def f64_add_def)

lemma clamp_error: "lo \<le> hi \<Longrightarrow> \<bar>a - x\<bar> \<le> e \<Longrightarrow> \<bar>clamp lo hi a - clamp lo hi x\<bar> \<le> e"
  by (auto simp: clamp_def)

lemma clamp_bounds: "lo \<le> hi \<Longrightarrow> lo \<le> clamp lo hi x \<and> clamp lo hi x \<le> hi"
  by (auto simp: clamp_def)

end
