(* ===== verification/Video_Frames.thy ===== *)
theory Video_Frames
  imports Core_Types Errors F64
begin

section \<open>Frames on their way to the encoder\<close>

text \<open>
  \<open>convert.rs\<close>, \<open>decode.rs\<close> and the padding of \<open>pipeline.rs\<close> (\<open>crates/vscreen-video\<close>): a JPEG
  becomes an RGB frame, is padded to even sizes and converted to planes. The JPEG decoder is a
  parameter. Loops over buffers are loops over lists whose accesses out of bounds panic;
  \<open>checks\<close> is the build's setting for overflow checks.
\<close>

subsection \<open>Loops\<close>

text \<open>\<open>for i in a..a + k\<close>\<close>

fun for_range :: "nat \<Rightarrow> nat \<Rightarrow> (nat \<Rightarrow> 's \<Rightarrow> ('e, 's) outcome) \<Rightarrow> 's \<Rightarrow> ('e, 's) outcome" where
  "for_range a 0 f s = Ok s"
| "for_range a (Suc k) f s = and_then (f a s) (for_range (Suc a) k f)"

lemma for_range_states:
  "(\<And>i. a \<le> i \<Longrightarrow> i < a + k \<Longrightarrow> f i (S i) = Ok (S (Suc i))) \<Longrightarrow> for_range a k f (S a) = Ok (S (a + k))"
  by (induction k arbitrary: a) simp_all

subsection \<open>Decoding\<close>

definition max_frame_size :: nat where
  "max_frame_size = 2 * 1024 * 1024"

text \<open>The JPEG package: the error of the headers, the dimensions if there are any, the pixels.\<close>

record jpeg =
  jp_headers :: "bytes \<Rightarrow> string + unit"
  jp_dimensions :: "bytes \<Rightarrow> (nat \<times> nat) option"
  jp_decode :: "bytes \<Rightarrow> string + bytes"

definition decode_jpeg :: "jpeg \<Rightarrow> bytes \<Rightarrow> instant \<Rightarrow> (video_error, rgb_frame) outcome" where
  "decode_jpeg jp data now =
     (if max_frame_size < length data then Err (FrameTooLarge (length data) max_frame_size)
      else if data = [] then Err (DecodeFailed ''empty input'')
      else
        (case jp_headers jp data of
           Inl e \<Rightarrow> Err (DecodeFailed (''header: '' @ e))
         | Inr _ \<Rightarrow>
        (case jp_dimensions jp data of
           None \<Rightarrow> Err (DecodeFailed ''no dimensions after header decode'')
         | Some (w, h) \<Rightarrow>
             (let width = of_nat w; height = of_nat h in
              if width = 0 \<or> height = 0 then Err (InvalidResolution width height)
              else
                (case jp_decode jp data of
                   Inl e \<Rightarrow> Err (DecodeFailed (''pixels: '' @ e))
                 | Inr pixels \<Rightarrow>
                     Ok \<lparr>rgb_data = pixels, rgb_width = width, rgb_height = height, rgb_timestamp = now\<rparr>)))))"

subsection \<open>Padding\<close>

text \<open>\<open>dst[d..d + n].copy_from_slice(&src[s..s + n])\<close>\<close>

definition copy_slice :: "nat \<Rightarrow> nat \<Rightarrow> nat \<Rightarrow> 'a list \<Rightarrow> 'a list \<Rightarrow> ('e, 'a list) outcome" where
  "copy_slice n s d src dst =
     (if s + n \<le> length src \<and> d + n \<le> length dst
      then Ok (take d dst @ take n (drop s src) @ drop (d + n) dst) else Panic)"

definition to_even :: "bool \<Rightarrow> u32 \<Rightarrow> ('e, u32) outcome" where
  "to_even checks n = and_then (add_ovf checks n 1) (\<lambda>m. Ok (m AND NOT 1))"

definition pad_to_even :: "bool \<Rightarrow> rgb_frame \<Rightarrow> ('e, rgb_frame) outcome" where
  "pad_to_even checks frame =
     and_then (to_even checks (rgb_width frame)) (\<lambda>target_w.
     and_then (to_even checks (rgb_height frame)) (\<lambda>target_h.
     if target_w = rgb_width frame \<and> target_h = rgb_height frame then Ok frame
     else
       and_then (mul_ovf checks (rgb_width frame) 3) (\<lambda>old_stride.
       and_then (mul_ovf checks target_w 3) (\<lambda>new_stride.
         (let old = unat old_stride; new = unat new_stride; padded = replicate (new * unat target_h) 0 in
          and_then (for_range 0 (unat (rgb_height frame))
              (\<lambda>row. copy_slice old (row * old) (row * new) (rgb_data frame)) padded) (\<lambda>data.
          Ok (frame\<lparr>rgb_data := data, rgb_width := target_w, rgb_height := target_h\<rparr>)))))))"

subsection \<open>Conversion to planes\<close>

record i420_buffer =
  yb_y :: bytes
  yb_u :: bytes
  yb_v :: bytes
  yb_width :: u32
  yb_height :: u32
  yb_timestamp :: instant

text \<open>The coefficients of BT.601; \<open>x as u8\<close> of a double between 0 and 255.\<close>

definition as_u8 :: "rat \<Rightarrow> u8" where
  "as_u8 x = of_int \<lfloor>clamp 0 255 x\<rfloor>"

definition coefficient :: "rat \<Rightarrow> u8 \<Rightarrow> rat" where
  "coefficient k p = f64_mul (f64_round k) (of_nat (unat p))"

definition luma :: "u8 \<Rightarrow> u8 \<Rightarrow> u8 \<Rightarrow> u8" where
  "luma r g b =
     as_u8 (f64_add (f64_add (coefficient (299 / 1000) r) (coefficient (587 / 1000) g)) (coefficient (114 / 1000) b))"

definition chroma_u :: "u8 \<Rightarrow> u8 \<Rightarrow> u8 \<Rightarrow> u8" where
  "chroma_u r g b =
     as_u8 (f64_add (f64_add (f64_sub (coefficient (- (169 / 1000)) r) (coefficient (331 / 1000) g))
       (coefficient (500 / 1000) b)) 128)"

definition chroma_v :: "u8 \<Rightarrow> u8 \<Rightarrow> u8 \<Rightarrow> u8" where
  "chroma_v r g b =
     as_u8 (f64_add (f64_sub (f64_sub (coefficient (500 / 1000) r) (coefficient (419 / 1000) g))
       (coefficient (81 / 1000) b)) 128)"

type_synonym planes = "bytes \<times> bytes \<times> bytes"

text \<open>The body of the inner loop.\<close>

definition convert_pixel :: "bytes \<Rightarrow> nat \<Rightarrow> nat \<Rightarrow> nat \<Rightarrow> planes \<Rightarrow> ('e, planes) outcome" where
  "convert_pixel rgb w row col p =
     (case p of (y, u, v) \<Rightarrow>
      (let idx = (row * w + col) * 3; uv_w = (w + 1) div 2 in
       if length rgb \<le> idx + 2 \<or> length y \<le> row * w + col then Panic
       else
         (let r = rgb ! idx; g = rgb ! (idx + 1); b = rgb ! (idx + 2); y' = y[row * w + col := luma r g b] in
          if row mod 2 = 0 \<and> col mod 2 = 0 then
            (let uv_idx = row div 2 * uv_w + col div 2 in
             if length u \<le> uv_idx \<or> length v \<le> uv_idx then Panic
             else Ok (y', u[uv_idx := chroma_u r g b], v[uv_idx := chroma_v r g b]))
          else Ok (y', u, v))))"

definition rgb_to_i420_sw :: "bytes \<Rightarrow> u32 \<Rightarrow> u32 \<Rightarrow> planes \<Rightarrow> ('e, planes) outcome" where
  "rgb_to_i420_sw rgb width height =
     for_range 0 (unat height) (\<lambda>row. for_range 0 (unat width) (\<lambda>col. convert_pixel rgb (unat width) row col))"

definition rgb_to_i420 :: "bool \<Rightarrow> rgb_frame \<Rightarrow> (video_error, i420_buffer) outcome" where
  "rgb_to_i420 checks frame =
     (let width = rgb_width frame; height = rgb_height frame in
      if width = 0 \<or> height = 0 then Err (InvalidResolution width height)
      else
        and_then (mul_ovf checks width height) (\<lambda>pixels.
        and_then (mul_ovf checks pixels 3) (\<lambda>expected.
        if length (rgb_data frame) < unat expected then
          Err (ConversionFailed (''RGB buffer too small: '' @ show_nat (length (rgb_data frame)) @ '' < '' @ show_word expected))
        else
          and_then (i420_y_size checks width height) (\<lambda>y_size.
          and_then (i420_uv_size checks width height) (\<lambda>uv_size.
          and_then (rgb_to_i420_sw (rgb_data frame) width height
              (replicate (unat y_size) 0, replicate (unat uv_size) 0, replicate (unat uv_size) 0)) (\<lambda>(y, u, v).
          Ok \<lparr>yb_y = y, yb_u = u, yb_v = v, yb_width = width, yb_height = height,
             yb_timestamp = rgb_timestamp frame\<rparr>))))))"

subsection \<open>Colours\<close>

definition exact_luma :: "u8 \<Rightarrow> u8 \<Rightarrow> u8 \<Rightarrow> rat" where
  "exact_luma r g b =
     299 / 1000 * of_nat (unat r) + 587 / 1000 * of_nat (unat g) + 114 / 1000 * of_nat (unat b)"

definition exact_u :: "u8 \<Rightarrow> u8 \<Rightarrow> u8 \<Rightarrow> rat" where
  "exact_u r g b =
     - (169 / 1000) * of_nat (unat r) - 331 / 1000 * of_nat (unat g) + 500 / 1000 * of_nat (unat b) + 128"

definition exact_v :: "u8 \<Rightarrow> u8 \<Rightarrow> u8 \<Rightarrow> rat" where
  "exact_v r g b =
     500 / 1000 * of_nat (unat r) - 419 / 1000 * of_nat (unat g) - 81 / 1000 * of_nat (unat b) + 128"

text \<open>\<open>n\<close> is \<open>x\<close> rounded down, up to a billionth.\<close>

definition truncates :: "u8 \<Rightarrow> rat \<Rightarrow> bool" where
  "truncates n x \<longleftrightarrow> of_nat (unat n) \<le> x + 1 / 10 ^ 9 \<and> x - 1 / 10 ^ 9 < of_nat (unat n) + 1"

lemma as_u8_truncates:
  assumes "\<bar>x - z\<bar> \<le> 1 / 10 ^ 9"
  shows "truncates (as_u8 x) (clamp 0 255 z)"
proof -
  let ?c = "clamp 0 255 x"
  have c: "0 \<le> ?c" "?c \<le> 255" using clamp_bounds [of 0 255 x] by simp_all
  then have f: "0 \<le> \<lfloor>?c\<rfloor>" "\<lfloor>?c\<rfloor> < 256" by linarith+
  then have "unat (as_u8 x) = nat \<lfloor>?c\<rfloor>" by (simp add: as_u8_def unsigned_of_int take_bit_int_eq_self)
  then have "(of_nat (unat (as_u8 x)) :: rat) = of_int \<lfloor>?c\<rfloor>" using f(1) by simp
  moreover have "\<bar>?c - clamp 0 255 z\<bar> \<le> 1 / 10 ^ 9" by (rule clamp_error [OF _ assms]) simp
  ultimately show ?thesis unfolding truncates_def by linarith
qed

lemma byte_range: "0 \<le> (of_nat (unat (p :: u8)) :: rat)" "(of_nat (unat p) :: rat) \<le> 255"
proof -
  have "unat p < 2 ^ LENGTH(8)" by (rule unsigned_less)
  then have "(of_nat (unat p) :: rat) \<le> of_nat 255" by (subst of_nat_le_iff) simp
  then show "(of_nat (unat p) :: rat) \<le> 255" by simp
qed (rule of_nat_0_le_iff)

lemma coefficient_error: "\<bar>k\<bar> \<le> 1 \<Longrightarrow> \<bar>coefficient k p - k * of_nat (unat p)\<bar> \<le> 1 / 10 ^ 12"
  unfolding coefficient_def by (rule f64_mul_error) (rule byte_range | assumption)+

lemma coefficient_error_minus: "\<bar>k\<bar> \<le> 1 \<Longrightarrow> \<bar>- coefficient k p - - (k * of_nat (unat p))\<bar> \<le> 1 / 10 ^ 12"
  using coefficient_error [of k p] by linarith

text \<open>The errors of a sum of three terms, and of a fourth.\<close>

lemma sum3_error:
  assumes "\<bar>a - x\<bar> \<le> 1 / 10 ^ 12" and "\<bar>b - y\<bar> \<le> 1 / 10 ^ 12" and "\<bar>c - z\<bar> \<le> 1 / 10 ^ 12"
    and "\<bar>x + y\<bar> \<le> 512" and "\<bar>x + y + z\<bar> \<le> 512"
  shows "\<bar>f64_add (f64_add a b) c - (x + y + z)\<bar> \<le> 5 / 10 ^ 12"
proof -
  have "\<bar>f64_add a b - (x + y)\<bar> \<le> 1 / 10 ^ 12 + 1 / 10 ^ 12 + 1 / 10 ^ 12"
    by (rule f64_add_error [OF assms(1,2,4)]) simp
  then have "\<bar>f64_add (f64_add a b) c - (x + y + z)\<bar> \<le> (1 / 10 ^ 12 + 1 / 10 ^ 12 + 1 / 10 ^ 12) + 1 / 10 ^ 12 + 1 / 10 ^ 12"
    by (rule f64_add_error [OF _ assms(3,5)]) simp
  then show ?thesis by simp
qed

lemma sum4_error:
  assumes "\<bar>s - t\<bar> \<le> 5 / 10 ^ 12" and "\<bar>t + 128\<bar> \<le> 512"
  shows "\<bar>f64_add s 128 - (t + 128)\<bar> \<le> 1 / 10 ^ 9"
proof -
  have "\<bar>f64_add s 128 - (t + 128)\<bar> \<le> 5 / 10 ^ 12 + 0 + 1 / 10 ^ 12"
    by (rule f64_add_error [OF assms(1) _ assms(2)]) simp_all
  also have "\<dots> \<le> 1 / 10 ^ 9" by simp
  finally show ?thesis .
qed

text \<open>C22: Colours. The doubles compute BT.601: each plane's value is the exact one, limited to a byte's
  range and rounded down, up to a billionth; only the exact luma needs no limit.\<close>

theorem colours_truncate:
  "truncates (luma r g b) (exact_luma r g b) \<and> exact_luma r g b = clamp 0 255 (exact_luma r g b) \<and>
   truncates (chroma_u r g b) (clamp 0 255 (exact_u r g b)) \<and>
   truncates (chroma_v r g b) (clamp 0 255 (exact_v r g b))"
proof (intro conjI)
  note range = byte_range [of r] byte_range [of g] byte_range [of b]
  show limit: "exact_luma r g b = clamp 0 255 (exact_luma r g b)"
    using range unfolding exact_luma_def clamp_def by simp
  have "\<bar>f64_add (f64_add (coefficient (299 / 1000) r) (coefficient (587 / 1000) g)) (coefficient (114 / 1000) b) -
      exact_luma r g b\<bar> \<le> 5 / 10 ^ 12"
    unfolding exact_luma_def by (rule sum3_error; ((rule coefficient_error, simp) | (insert range, linarith)))
  also have "\<dots> \<le> (1 :: rat) / 10 ^ 9" by simp
  finally show "truncates (luma r g b) (exact_luma r g b)"
    unfolding luma_def by (subst limit) (rule as_u8_truncates)
  have "\<bar>f64_add (f64_add (coefficient (- (169 / 1000)) r) (- coefficient (331 / 1000) g)) (coefficient (500 / 1000) b) -
      (- (169 / 1000) * of_nat (unat r) + - (331 / 1000 * of_nat (unat g)) + 500 / 1000 * of_nat (unat b))\<bar> \<le> 5 / 10 ^ 12"
    by (rule sum3_error; ((rule coefficient_error, simp) | (rule coefficient_error_minus, simp) | (insert range, linarith)))
  from sum4_error [OF this] show "truncates (chroma_u r g b) (clamp 0 255 (exact_u r g b))"
    unfolding chroma_u_def f64_sub_add exact_u_def using range by (intro as_u8_truncates) linarith
  have "\<bar>f64_add (f64_add (coefficient (500 / 1000) r) (- coefficient (419 / 1000) g)) (- coefficient (81 / 1000) b) -
      (500 / 1000 * of_nat (unat r) + - (419 / 1000 * of_nat (unat g)) + - (81 / 1000 * of_nat (unat b)))\<bar> \<le> 5 / 10 ^ 12"
    by (rule sum3_error; ((rule coefficient_error, simp) | (rule coefficient_error_minus, simp) | (insert range, linarith)))
  from sum4_error [OF this] show "truncates (chroma_v r g b) (clamp 0 255 (exact_v r g b))"
    unfolding chroma_v_def f64_sub_add exact_v_def using range by (intro as_u8_truncates) linarith
qed

subsection \<open>The loops of the conversion\<close>

definition at_pixel :: "(u8 \<Rightarrow> u8 \<Rightarrow> u8 \<Rightarrow> u8) \<Rightarrow> bytes \<Rightarrow> nat \<Rightarrow> u8" where
  "at_pixel f rgb n = f (rgb ! (3 * n)) (rgb ! (3 * n + 1)) (rgb ! (3 * n + 2))"

text \<open>The top left pixel of the block of an entry of the chroma planes.\<close>

definition block_pixel :: "nat \<Rightarrow> nat \<Rightarrow> nat" where
  "block_pixel w k = 2 * (k div ((w + 1) div 2)) * w + 2 * (k mod ((w + 1) div 2))"

text \<open>The planes after \<open>n\<close> pixels.\<close>

definition planes_after :: "bytes \<Rightarrow> nat \<Rightarrow> nat \<Rightarrow> nat \<Rightarrow> planes" where
  "planes_after rgb w h n =
     (map (\<lambda>i. if i < n then at_pixel luma rgb i else 0) [0..<w * h],
      map (\<lambda>k. if block_pixel w k < n then at_pixel chroma_u rgb (block_pixel w k) else 0)
        [0..<(w + 1) div 2 * ((h + 1) div 2)],
      map (\<lambda>k. if block_pixel w k < n then at_pixel chroma_v rgb (block_pixel w k) else 0)
        [0..<(w + 1) div 2 * ((h + 1) div 2)])"

lemma map_upt_replace:
  assumes "k < n" and "\<And>i. i < n \<Longrightarrow> i \<noteq> k \<Longrightarrow> f i = g i" and "g k = v"
  shows "(map f [0..<n])[k := v] = map g [0..<n]"
  using assms by (intro nth_equalityI) (auto simp: nth_list_update)

text \<open>A block belongs to one pixel, whose row and column are even.\<close>

lemma block_pixel_eq:
  assumes "0 < w" and "col < w"
  shows "block_pixel w k = row * w + col \<longleftrightarrow>
    even row \<and> even col \<and> k = row div 2 * ((w + 1) div 2) + col div 2"
proof -
  let ?v = "(w + 1) div 2"
  have v: "0 < ?v" using assms(1) by simp
  have m: "2 * (k mod ?v) < w" for k
  proof -
    have "k mod ?v < ?v" using v by (rule mod_less_divisor)
    then show ?thesis by linarith
  qed
  show ?thesis
  proof
    assume eq: "block_pixel w k = row * w + col"
    have "row = (row * w + col) div w" "col = (row * w + col) mod w" using assms by simp_all
    moreover have "(2 * (k div ?v) * w + 2 * (k mod ?v)) div w = 2 * (k div ?v)"
      "(2 * (k div ?v) * w + 2 * (k mod ?v)) mod w = 2 * (k mod ?v)" using m [of k] assms(1) by simp_all
    ultimately have rc: "row = 2 * (k div ?v)" "col = 2 * (k mod ?v)" using eq unfolding block_pixel_def by metis+
    then have "row div 2 * ?v + col div 2 = k div ?v * ?v + k mod ?v" by simp
    also have "\<dots> = k" by (rule div_mult_mod_eq)
    finally show "even row \<and> even col \<and> k = row div 2 * ?v + col div 2" using rc by simp
  next
    assume k: "even row \<and> even col \<and> k = row div 2 * ?v + col div 2"
    have "col div 2 < ?v" using assms(2) by linarith
    then have "k div ?v = row div 2" "k mod ?v = col div 2" using k v by simp_all
    then show "block_pixel w k = row * w + col" using k by (auto simp: block_pixel_def elim!: evenE)
  qed
qed

lemma convert_pixel_at:
  "convert_pixel rgb w row col (y, u, v) =
     (let n = row * w + col; k = row div 2 * ((w + 1) div 2) + col div 2; y' = y[n := at_pixel luma rgb n] in
      if length rgb \<le> 3 * n + 2 \<or> length y \<le> n then Panic
      else if even row \<and> even col then
        if length u \<le> k \<or> length v \<le> k then Panic
        else Ok (y', u[k := at_pixel chroma_u rgb n], v[k := at_pixel chroma_v rgb n])
      else Ok (y', u, v))"
  by (simp add: convert_pixel_def at_pixel_def Let_def mult.commute even_iff_mod_2_eq_zero)

lemma convert_pixel_step:
  assumes "row < h" and "col < w" and "3 * (w * h) \<le> length rgb"
  shows "convert_pixel rgb w row col (planes_after rgb w h (row * w + col)) =
    Ok (planes_after rgb w h (row * w + Suc col))"
proof -
  define n where "n = row * w + col"
  define uv where "uv = row div 2 * ((w + 1) div 2) + col div 2"
  let ?v = "(w + 1) div 2"
  have "row * w + col < row * w + w" using assms(2) by simp
  also have "\<dots> = Suc row * w" by simp
  also have "\<dots> \<le> h * w" using assms(1) by (intro mult_le_mono1) simp
  finally have n: "n < w * h" by (simp add: n_def mult.commute)
  have y: "(map (\<lambda>i. if i < n then at_pixel luma rgb i else 0) [0..<w * h])[n := at_pixel luma rgb n] =
      map (\<lambda>i. if i < Suc n then at_pixel luma rgb i else 0) [0..<w * h]"
    by (rule map_upt_replace [OF n]) auto
  have block: "block_pixel w k < Suc n \<longleftrightarrow> block_pixel w k < n \<or> even row \<and> even col \<and> k = uv" for k
    using block_pixel_eq [of w col k row] assms(2) by (auto simp: less_Suc_eq n_def uv_def)
  have uv_less: "uv < ?v * ((h + 1) div 2)" if "even row" "even col"
  proof -
    have "col div 2 < ?v" "Suc (row div 2) \<le> (h + 1) div 2" using that assms by (auto elim!: evenE)
    then have "row div 2 * ?v + col div 2 < Suc (row div 2) * ?v" by simp
    also have "\<dots> \<le> (h + 1) div 2 * ?v" by (rule mult_le_mono1) fact
    finally show ?thesis by (simp add: uv_def mult.commute)
  qed
  have chroma: "(map (\<lambda>k. if block_pixel w k < n then at_pixel f rgb (block_pixel w k) else 0) [0..<?v * ((h + 1) div 2)])
        [uv := at_pixel f rgb n] =
      map (\<lambda>k. if block_pixel w k < Suc n then at_pixel f rgb (block_pixel w k) else 0) [0..<?v * ((h + 1) div 2)]"
    if "even row" "even col" for f
    using block block_pixel_eq [of w col uv row] that assms(2) by (intro map_upt_replace [OF uv_less]) (auto simp: n_def uv_def)
  have "Suc n * 3 \<le> w * h * 3" by (rule mult_le_mono1) (use n in simp)
  then have idx: "\<not> length rgb \<le> 3 * n + 2" using assms(3) by simp
  have goal: "row * w + Suc col = Suc n" by (simp add: n_def)
  show ?thesis
  proof (cases "even row \<and> even col")
    case True
    then show ?thesis
      unfolding planes_after_def convert_pixel_at Let_def goal n_def [symmetric] uv_def [symmetric]
      using idx n uv_less y chroma [of chroma_u] chroma [of chroma_v] by simp
  next
    case False
    have "block_pixel w k < Suc n \<longleftrightarrow> block_pixel w k < n" for k using block False by blast
    then show ?thesis
      unfolding planes_after_def convert_pixel_at Let_def goal n_def [symmetric] uv_def [symmetric] if_not_P [OF False]
      using idx n y by simp
  qed
qed

lemma rgb_to_i420_sw_result:
  assumes "3 * (unat width * unat height) \<le> length rgb"
  shows "rgb_to_i420_sw rgb width height (planes_after rgb (unat width) (unat height) 0) =
    Ok (planes_after rgb (unat width) (unat height) (unat width * unat height))"
proof -
  let ?w = "unat width" and ?h = "unat height"
  let ?S = "planes_after rgb ?w ?h"
  have row: "for_range 0 ?w (\<lambda>col. convert_pixel rgb ?w row col) (?S (row * ?w)) = Ok (?S (Suc row * ?w))" if "row < ?h" for row
  proof -
    have "for_range 0 ?w (\<lambda>col. convert_pixel rgb ?w row col) (?S (row * ?w + 0)) = Ok (?S (row * ?w + (0 + ?w)))"
      by (rule for_range_states [where S = "\<lambda>col. ?S (row * ?w + col)"]) (rule convert_pixel_step [OF that _ assms], simp)
    then show ?thesis by (simp add: add.commute)
  qed
  have "for_range 0 ?h (\<lambda>row. for_range 0 ?w (\<lambda>col. convert_pixel rgb ?w row col)) (?S (0 * ?w)) = Ok (?S ((0 + ?h) * ?w))"
    by (rule for_range_states [where S = "\<lambda>row. ?S (row * ?w)"]) (use row in simp)
  then show ?thesis by (simp add: rgb_to_i420_sw_def mult.commute)
qed

lemma block_pixel_less:
  assumes "0 < w" and "0 < h" and "k < (w + 1) div 2 * ((h + 1) div 2)"
  shows "block_pixel w k < w * h"
proof -
  let ?v = "(w + 1) div 2"
  have v: "0 < ?v" using assms(1) by simp
  have "k mod ?v < ?v" using v by (rule mod_less_divisor)
  then have m: "2 * (k mod ?v) < w" by linarith
  have "k div ?v < (h + 1) div 2" using assms(3) by (simp add: less_mult_imp_div_less mult.commute)
  then have "Suc (2 * (k div ?v)) \<le> h" using assms(2) by linarith
  then have "Suc (2 * (k div ?v)) * w \<le> h * w" by (rule mult_le_mono1)
  then show ?thesis using m unfolding block_pixel_def by (simp add: mult.commute)
qed

lemma unat_mult_fits: "unat (a :: 'a::len word) * unat b < 2 ^ LENGTH('a) \<Longrightarrow> unat (a * b) = unat a * unat b"
  by (simp add: unat_word_ariths)

lemma unat_Suc_fits:
  "unat (a :: u32) < 2 ^ 32 - 1 \<Longrightarrow> unat (a + 1) = unat a + 1"
  "unat (a :: u32) < 2 ^ 32 - 1 \<Longrightarrow> add_ovf c a 1 = Ok (a + 1)"
  by (simp_all add: unat_word_ariths add_ovf_def)

text \<open>The sizes of the planes, while three bytes a pixel fit 32 bits.\<close>

lemma i420_sizes:
  fixes W H :: u32
  assumes "W \<noteq> 0" and "H \<noteq> 0" and "3 * (unat W * unat H) < 2 ^ 32"
  defines "w \<equiv> unat W" and "h \<equiv> unat H"
  shows "0 < w" and "0 < h"
    and "mul_ovf checks W H = Ok (W * H)" and "unat (W * H) = w * h"
    and "i420_y_size checks W H = Ok (ucast (W * H))" and "unat (ucast (W * H) :: u64) = w * h"
    and "i420_uv_size checks W H = Ok (ucast ((W + 1) div 2 * ((H + 1) div 2)))"
    and "unat (ucast ((W + 1) div 2 * ((H + 1) div 2)) :: u64) = (w + 1) div 2 * ((h + 1) div 2)"
proof -
  show pos: "0 < w" "0 < h" using assms(1,2) unfolding w_def h_def by (simp_all add: unat_gt_0)
  have small: "3 * (w * h) < 4294967296" using assms(3) by (simp add: w_def h_def)
  have wh: "w \<le> w * h" "h \<le> w * h" using pos by simp_all
  have fits: "unat W * unat H < 2 ^ LENGTH(32)" using small by (simp add: w_def h_def)
  show "mul_ovf checks W H = Ok (W * H)" by (rule mul_ovf_fits [OF fits])
  show area: "unat (W * H) = w * h" using unat_mult_fits [OF fits] by (simp add: w_def h_def)
  show "i420_y_size checks W H = Ok (ucast (W * H))" by (simp add: i420_y_size_def mul_ovf_fits [OF fits])
  show "unat (ucast (W * H) :: u64) = w * h"
    using area small by (simp add: unsigned_ucast_eq take_bit_nat_eq_self)
  have "w < 4294967295" "h < 4294967295" using small wh by linarith+
  then have less: "unat W < 2 ^ 32 - 1" and less': "unat H < 2 ^ 32 - 1" by (simp_all add: w_def h_def)
  let ?uv = "(W + 1) div 2 * ((H + 1) div 2)"
  have halves: "unat ((W + 1) div 2) = (w + 1) div 2" "unat ((H + 1) div 2) = (h + 1) div 2"
    using unat_Suc_fits(1) [OF less] unat_Suc_fits(1) [OF less'] by (simp_all add: unat_div w_def h_def)
  have "(w + 1) div 2 * ((h + 1) div 2) \<le> w * h" by (rule mult_le_mono) (use pos in linarith)+
  then have uv_small: "unat ((W + 1) div 2) * unat ((H + 1) div 2) < 2 ^ LENGTH(32)" using halves small by simp
  then show "i420_uv_size checks W H = Ok (ucast ?uv)"
    by (simp add: i420_uv_size_def unat_Suc_fits(2) [OF less] unat_Suc_fits(2) [OF less'] mul_ovf_fits)
  show "unat (ucast ?uv :: u64) = (w + 1) div 2 * ((h + 1) div 2)"
    using unat_mult_fits [OF uv_small] uv_small halves by (simp add: unsigned_ucast_eq take_bit_nat_eq_self)
qed

text \<open>C21: Converting a frame. If its size fits the sums of the code and its data is complete, converting it
  neither overflows nor leaves a buffer, in either build: the luma plane has the luma of every
  pixel, and the chroma planes have, for each block of two by two pixels, also at odd edges, the
  chroma of its top left pixel.\<close>

theorem conversion_correct:
  assumes "rgb_width frame \<noteq> 0" and "rgb_height frame \<noteq> 0"
    and "3 * (unat (rgb_width frame) * unat (rgb_height frame)) < 2 ^ 32"
    and "3 * (unat (rgb_width frame) * unat (rgb_height frame)) \<le> length (rgb_data frame)"
  defines "w \<equiv> unat (rgb_width frame)" and "h \<equiv> unat (rgb_height frame)" and "rgb \<equiv> rgb_data frame"
  shows "rgb_to_i420 checks frame =
    Ok \<lparr>yb_y = map (at_pixel luma rgb) [0..<w * h],
       yb_u = map (\<lambda>k. at_pixel chroma_u rgb (block_pixel w k)) [0..<(w + 1) div 2 * ((h + 1) div 2)],
       yb_v = map (\<lambda>k. at_pixel chroma_v rgb (block_pixel w k)) [0..<(w + 1) div 2 * ((h + 1) div 2)],
       yb_width = rgb_width frame, yb_height = rgb_height frame, yb_timestamp = rgb_timestamp frame\<rparr>"
proof -
  let ?W = "rgb_width frame" and ?H = "rgb_height frame"
  note sizes = i420_sizes [OF assms(1-3), folded w_def h_def]
  have bytes: "mul_ovf checks (?W * ?H) 3 = (Ok (?W * ?H * 3) :: (video_error, u32) outcome)" "unat (?W * ?H * 3) = 3 * (w * h)"
  proof -
    have fits: "unat (?W * ?H) * unat (3 :: u32) < 2 ^ LENGTH(32)" using sizes(4) assms(3) by (simp add: w_def h_def)
    show "mul_ovf checks (?W * ?H) 3 = (Ok (?W * ?H * 3) :: (video_error, u32) outcome)" by (rule mul_ovf_fits [OF fits])
    show "unat (?W * ?H * 3) = 3 * (w * h)" using unat_mult_fits [OF fits] sizes(4) by simp
  qed
  have start: "(replicate (w * h) 0, replicate ((w + 1) div 2 * ((h + 1) div 2)) 0, replicate ((w + 1) div 2 * ((h + 1) div 2)) 0) =
      planes_after rgb w h 0"
    by (simp add: planes_after_def map_replicate_const)
  have sw: "rgb_to_i420_sw rgb ?W ?H (planes_after rgb w h 0) = Ok (planes_after rgb w h (w * h))"
    unfolding w_def h_def by (rule rgb_to_i420_sw_result) (use assms(4) in \<open>simp add: rgb_def\<close>)
  have final: "planes_after rgb w h (w * h) = (map (at_pixel luma rgb) [0..<w * h],
      map (\<lambda>k. at_pixel chroma_u rgb (block_pixel w k)) [0..<(w + 1) div 2 * ((h + 1) div 2)],
      map (\<lambda>k. at_pixel chroma_v rgb (block_pixel w k)) [0..<(w + 1) div 2 * ((h + 1) div 2)])"
    unfolding planes_after_def using block_pixel_less [OF sizes(1,2)] by simp
  have enough: "\<not> length rgb < unat (?W * ?H * 3)" using bytes(2) assms(4) by (simp add: w_def h_def rgb_def)
  show ?thesis
    unfolding rgb_to_i420_def Let_def sizes(3,5,7) bytes(1) and_then.simps if_not_P [OF enough] sizes(6,8) start
      rgb_def [symmetric] sw final
    using assms(1,2) by simp
qed

text \<open>A frame of one row with three pixels.\<close>

lemma conversion_correct_witness:
  "\<exists>b. rgb_to_i420 True \<lparr>rgb_data = [1, 2, 3, 4, 5, 6, 7, 8, 9], rgb_width = 3, rgb_height = 1, rgb_timestamp = 0\<rparr> = Ok b \<and>
     yb_y b = [luma 1 2 3, luma 4 5 6, luma 7 8 9] \<and> yb_u b = [chroma_u 1 2 3, chroma_u 7 8 9]"
proof -
  let ?f = "\<lparr>rgb_data = [1, 2, 3, 4, 5, 6, 7, 8, 9], rgb_width = 3, rgb_height = 1, rgb_timestamp = 0\<rparr> :: rgb_frame"
  have upt: "[0..<3] = [0, 1, 2::nat]" "[0..<2] = [0, 1::nat]" by (simp_all add: upt_rec)
  show ?thesis using conversion_correct [of ?f True] by (simp add: at_pixel_def block_pixel_def upt)
qed

subsection \<open>Padding is what it says\<close>

lemma to_even_fits:
  assumes "unat n < 2 ^ 32 - 1"
  obtains m where "to_even checks n = Ok m" and "unat m = unat n + unat n mod 2"
proof -
  let ?m = "n + 1 :: u32"
  have "?m AND NOT 1 = 2 * (?m div 2)" using unset_bit_0 [of ?m] by (simp add: unset_bit_eq_and_not)
  moreover have "unat (2 * (?m div 2)) = 2 * (unat ?m div 2)"
  proof -
    have "2 * (unat ?m div 2) \<le> unat ?m" by simp
    also have "\<dots> < 2 ^ LENGTH(32)" by (rule unsigned_less)
    finally show ?thesis by (simp add: unat_word_ariths unat_div)
  qed
  moreover have "2 * (unat ?m div 2) = unat n + unat n mod 2" unfolding unat_Suc_fits(1) [OF assms] by presburger
  ultimately show thesis using that [of "?m AND NOT 1"] by (simp add: to_even_def unat_Suc_fits(2) [OF assms])
qed

text \<open>The rows copied so far, each followed by black.\<close>

definition padded_rows :: "nat \<Rightarrow> nat \<Rightarrow> nat \<Rightarrow> bytes \<Rightarrow> nat \<Rightarrow> bytes" where
  "padded_rows old new rows data n =
     concat (map (\<lambda>row. take old (drop (row * old) data) @ replicate (new - old) 0) [0..<n]) @
     replicate ((rows - n) * new) 0"

lemma copy_row_step:
  assumes "old \<le> new" and "n < h" and "h \<le> rows" and "h * old \<le> length data"
  shows "copy_slice old (n * old) (n * new) data (padded_rows old new rows data n) =
    Ok (padded_rows old new rows data (Suc n))"
proof -
  let ?row = "\<lambda>row. take old (drop (row * old) data) @ replicate (new - old) 0"
  let ?done = "concat (map ?row [0..<n])"
  have fits: "row * old + old \<le> length data" if "row < h" for row
  proof -
    have "Suc row * old \<le> h * old" by (rule mult_le_mono1) (use that in simp)
    then show ?thesis using assms(4) by simp
  qed
  have row: "length (?row row) = new" if "row < h" for row using fits [OF that] assms(1) by simp
  have "length ?done = n * new"
  proof -
    have "map (length \<circ> ?row) [0..<n] = map (\<lambda>_. new) [0..<n]" by (rule map_cong) (use row assms(2) in auto)
    then show ?thesis by (simp add: length_concat comp_def sum_list_triv map_replicate_const sum_list_replicate)
  qed
  moreover have "(rows - n) * new = new + (rows - Suc n) * new"
    using assms(2,3) by (metis Suc_diff_Suc less_le_trans mult_Suc)
  ultimately show ?thesis
    using fits [OF assms(2)] assms(1) by (simp add: copy_slice_def padded_rows_def replicate_add)
qed

lemma nth_concat_rows:
  assumes "\<And>row. row < n \<Longrightarrow> length (f row) = k" and "row < n" and "j < k"
  shows "concat (map f [0..<n]) ! (row * k + j) = f row ! j"
  using assms
proof (induction n)
  case (Suc n)
  have len: "length (concat (map f [0..<n])) = n * k"
  proof -
    have "map (length \<circ> f) [0..<n] = map (\<lambda>_. k) [0..<n]" by (rule map_cong) (use Suc.prems(1) in auto)
    then show ?thesis by (simp add: length_concat comp_def map_replicate_const sum_list_replicate)
  qed
  show ?case
  proof (cases "row < n")
    case True
    have "row * k + j < Suc row * k" using Suc.prems(3) by simp
    also have "\<dots> \<le> n * k" by (rule mult_le_mono1) (use True in simp)
    finally show ?thesis using Suc True len by (simp add: nth_append)
  next
    case False
    then show ?thesis using Suc.prems len by (simp add: nth_append less_Suc_eq)
  qed
qed simp

lemma padded_rows_nth:
  assumes "h \<le> rows" and "h * old \<le> length data" and "old \<le> new" and "row < rows" and "j < new"
  shows "padded_rows old new rows data h ! (row * new + j) =
    (if row < h \<and> j < old then data ! (row * old + j) else 0)"
proof -
  let ?row = "\<lambda>row. take old (drop (row * old) data) @ replicate (new - old) 0"
  have fits: "row * old + old \<le> length data" if "row < h" for row
  proof -
    have "Suc row * old \<le> h * old" by (rule mult_le_mono1) (use that in simp)
    then show ?thesis using assms(2) by simp
  qed
  have len: "length (?row row) = new" if "row < h" for row using fits [OF that] assms(3) by simp
  have total: "length (concat (map ?row [0..<h])) = h * new"
  proof -
    have "map (length \<circ> ?row) [0..<h] = map (\<lambda>_. new) [0..<h]" by (rule map_cong) (use len in auto)
    then show ?thesis by (simp add: length_concat comp_def map_replicate_const sum_list_replicate)
  qed
  show ?thesis
  proof (cases "row < h")
    case True
    have "row * new + j < Suc row * new" using assms(5) by simp
    also have "\<dots> \<le> h * new" by (rule mult_le_mono1) (use True in simp)
    finally have "padded_rows old new rows data h ! (row * new + j) = ?row row ! j"
      using nth_concat_rows [of h ?row new row j] len True assms(5) total by (simp add: padded_rows_def nth_append)
    then show ?thesis using True fits [OF True] assms(5) by (simp add: nth_append)
  next
    case False
    have le: "h * new \<le> row * new" by (rule mult_le_mono1) (use False in simp)
    have "row * new + j - h * new < (rows - h) * new"
    proof -
      have "Suc row * new \<le> rows * new" by (rule mult_le_mono1) (use assms(4) in simp)
      then have "row * new + j < rows * new" using assms(5) by simp
      then show ?thesis unfolding diff_mult_distrib by (rule diff_less_mono) (rule trans_le_add1 [OF le])
    qed
    then show ?thesis using total False trans_le_add1 [OF le, of j] by (simp add: padded_rows_def nth_append)
  qed
qed

lemma padded_rows_length:
  assumes "h \<le> rows" and "h * old \<le> length data" and "old \<le> new"
  shows "length (padded_rows old new rows data h) = rows * new"
proof -
  have "map (length \<circ> (\<lambda>row. take old (drop (row * old) data) @ replicate (new - old) 0)) [0..<h] = map (\<lambda>_. new) [0..<h]"
  proof (rule map_cong)
    fix row
    assume "row \<in> set [0..<h]"
    then have "Suc row * old \<le> h * old" by (intro mult_le_mono1) simp
    then show "(length \<circ> (\<lambda>row. take old (drop (row * old) data) @ replicate (new - old) 0)) row = new"
      using assms(2,3) by simp
  qed simp
  then show ?thesis
    using assms(1)
    by (simp add: padded_rows_def length_concat comp_def map_replicate_const sum_list_replicate diff_mult_distrib add_diff_inverse_nat mult_le_mono1)
qed

text \<open>Padding a frame. If a row of bytes fits 32 bits and the data is complete, padding neither panics
  nor overflows; both sizes become even by adding at most one; every pixel stays where it was, and
  what was added is black.\<close>

theorem padding_correct:
  assumes "3 * (unat (rgb_width frame) + 1) < 2 ^ 32" and "unat (rgb_height frame) + 1 < 2 ^ 32"
    and "3 * (unat (rgb_width frame) * unat (rgb_height frame)) \<le> length (rgb_data frame)"
  defines "w \<equiv> unat (rgb_width frame)" and "h \<equiv> unat (rgb_height frame)"
  shows "\<exists>padded. pad_to_even checks frame = (Ok padded :: (video_error, rgb_frame) outcome) \<and>
    unat (rgb_width padded) = w + w mod 2 \<and> unat (rgb_height padded) = h + h mod 2 \<and>
    rgb_timestamp padded = rgb_timestamp frame \<and>
    3 * (unat (rgb_width padded) * unat (rgb_height padded)) \<le> length (rgb_data padded) \<and>
    (\<forall>row < unat (rgb_height padded). \<forall>col < unat (rgb_width padded). \<forall>c < 3.
       rgb_data padded ! (3 * (row * unat (rgb_width padded) + col) + c) =
         (if row < h \<and> col < w then rgb_data frame ! (3 * (row * w + col) + c) else 0))"
proof -
  obtain tw where tw: "to_even checks (rgb_width frame) = (Ok tw :: (video_error, u32) outcome)" "unat tw = w + w mod 2"
    using to_even_fits [of "rgb_width frame" checks] assms(1) unfolding w_def by auto
  obtain th where th: "to_even checks (rgb_height frame) = (Ok th :: (video_error, u32) outcome)" "unat th = h + h mod 2"
    using to_even_fits [of "rgb_height frame" checks] assms(2) unfolding h_def by auto
  show ?thesis
  proof (cases "tw = rgb_width frame \<and> th = rgb_height frame")
    case True
    then have "unat (rgb_width frame) = w" "unat (rgb_height frame) = h" by (simp_all add: w_def h_def)
    moreover from True have "pad_to_even checks frame = (Ok frame :: (video_error, rgb_frame) outcome)"
      using tw(1) th(1) by (simp add: pad_to_even_def)
    ultimately show ?thesis using True tw(2) th(2) assms(3) by (intro exI [of _ frame]) simp
  next
    case False
    let ?old = "3 * w" and ?new = "3 * unat tw"
    have strides: "mul_ovf checks (rgb_width frame) 3 = (Ok (rgb_width frame * 3) :: (video_error, u32) outcome)"
      "unat (rgb_width frame * 3) = ?old"
      "mul_ovf checks tw 3 = (Ok (tw * 3) :: (video_error, u32) outcome)" "unat (tw * 3) = ?new"
      using assms(1) tw(2) by (simp_all add: mul_ovf_fits unat_mult_fits w_def)
    have size: "?old \<le> ?new" "h \<le> unat th" "h * ?old \<le> length (rgb_data frame)"
      using tw(2) th(2) assms(3) by (simp_all add: w_def h_def mult.commute mult.left_commute)
    let ?P = "padded_rows ?old ?new (unat th) (rgb_data frame)"
    have start: "replicate (?new * unat th) 0 = ?P 0" by (simp add: padded_rows_def mult.commute)
    have loop: "for_range 0 h (\<lambda>row. copy_slice ?old (row * ?old) (row * ?new) (rgb_data frame)) (?P 0) =
        (Ok (?P (0 + h)) :: (video_error, bytes) outcome)"
      by (rule for_range_states) (rule copy_row_step [OF size(1) _ size(2,3)], simp)
    have pad: "pad_to_even checks frame =
        (Ok (frame\<lparr>rgb_data := ?P h, rgb_width := tw, rgb_height := th\<rparr>) :: (video_error, rgb_frame) outcome)"
      unfolding pad_to_even_def tw(1) th(1) and_then.simps if_not_P [OF False] strides Let_def start h_def [symmetric] loop add_0 ..
    have pixel: "?P h ! (3 * (row * unat tw + col) + c) = (if row < h \<and> col < w then rgb_data frame ! (3 * (row * w + col) + c) else 0)"
      if "row < unat th" "col < unat tw" "c < 3" for row col c
    proof -
      have "3 * col + c < ?new" "3 * col + c < ?old \<longleftrightarrow> col < w" using that by linarith+
      then show ?thesis using padded_rows_nth [OF size(2,3,1) that(1), of "3 * col + c"]
        by (simp add: distrib_left mult.left_commute add.assoc)
    qed
    have "length (?P h) = unat th * ?new" by (rule padded_rows_length [OF size(2,3,1)])
    with pixel pad show ?thesis
      by (intro exI [of _ "frame\<lparr>rgb_data := ?P h, rgb_width := tw, rgb_height := th\<rparr>"]) (simp add: tw(2) th(2))
  qed
qed

lemma padding_correct_witness:
  "\<exists>padded. pad_to_even True \<lparr>rgb_data = [1, 2, 3], rgb_width = 1, rgb_height = 1, rgb_timestamp = 0\<rparr> =
      (Ok padded :: (video_error, rgb_frame) outcome) \<and>
     unat (rgb_width padded) = 2 \<and> unat (rgb_height padded) = 2 \<and> rgb_data padded ! 2 = 3 \<and> rgb_data padded ! 3 = 0"
proof -
  let ?f = "\<lparr>rgb_data = [1, 2, 3], rgb_width = 1, rgb_height = 1, rgb_timestamp = 0\<rparr> :: rgb_frame"
  obtain padded where p: "pad_to_even True ?f = (Ok padded :: (video_error, rgb_frame) outcome)"
      "unat (rgb_width padded) = 2" "unat (rgb_height padded) = 2"
      "\<forall>row < 2. \<forall>col < 2. \<forall>c < 3. rgb_data padded ! (3 * (row * 2 + col) + c) =
        (if row < 1 \<and> col < 1 then [1, 2, 3] ! (3 * (row * 1 + col) + c) else 0)"
    using padding_correct [of ?f True] by auto
  have q: "rgb_data padded ! (3 * (row * 2 + col) + c) =
      (if row < 1 \<and> col < 1 then [1, 2, 3] ! (3 * (row * 1 + col) + c) else 0)" if "row < 2" "col < 2" "c < 3" for row col c
    using p(4) that by blast
  have "rgb_data padded ! 2 = 3" "rgb_data padded ! 3 = 0" using q [of 0 0 2] q [of 0 1 0] by (simp_all add: numeral_2_eq_2)
  then show ?thesis using p by auto
qed

end
