(* ===== verification/Video_Pipeline.thy ===== *)
theory Video_Pipeline
  imports Video_Frames Supervisor
begin

section \<open>The video pipeline\<close>

text \<open>
  \<open>encode.rs\<close>, \<open>h264_encode.rs\<close> and \<open>pipeline.rs\<close> (\<open>crates/vscreen-video\<close>), and the encode thread
  of \<open>supervisor.rs\<close> (\<open>crates/vscreen-server\<close>): commands with JPEG data become encoded packets. The
  codec libraries are parameters that answer each call with the text of an error or with data;
  an encoder keeps what was asked of its library since it was set up.
\<close>

subsection \<open>VP9\<close>

record vpx_cfg =
  vg_w :: u32
  vg_h :: u32
  vg_timebase_num :: int
  vg_timebase_den :: "32 word"
  vg_target_bitrate :: u32
  vg_threads :: nat
  vg_lag_in_frames :: nat
  vg_kf_max_dist :: u32
  vg_cpu_used :: u32

record vpx_frame =
  vf_is_frame :: bool
  vf_data :: bytes
  vf_key :: bool

record vpx =
  vx_iface :: bool
  vx_default :: "string + unit"
  vx_init :: "vpx_cfg \<Rightarrow> string + unit"
  vx_wrap :: "u32 \<Rightarrow> u32 \<Rightarrow> bytes \<Rightarrow> bool"
  vx_encode :: "vpx_cfg \<Rightarrow> (int \<times> bytes \<times> bool) list \<Rightarrow> string + vpx_frame list"

definition vpx_cfg_of :: "video_config \<Rightarrow> vpx_cfg" where
  "vpx_cfg_of config =
     \<lparr>vg_w = vc_width config, vg_h = vc_height config, vg_timebase_num = 1, vg_timebase_den = vc_framerate config,
      vg_target_bitrate = vc_bitrate_kbps config, vg_threads = 8, vg_lag_in_frames = 0,
      vg_kf_max_dist = vc_keyframe_interval config, vg_cpu_used = vc_cpu_used config\<rparr>"

record vpx_ctx =
  vt_cfg :: vpx_cfg
  vt_calls :: "(int \<times> bytes \<times> bool) list"
  vt_width :: u32
  vt_height :: u32

definition vpx_ctx_new :: "vpx \<Rightarrow> video_config \<Rightarrow> (video_error, vpx_ctx) outcome" where
  "vpx_ctx_new lib config =
     (if \<not> vx_iface lib then Err (VideoEncodeFailed ''vpx_codec_vp9_cx returned null'')
      else
        (case vx_default lib of
           Inl e \<Rightarrow> Err (VideoEncodeFailed (''config default: '' @ e))
         | Inr _ \<Rightarrow>
        (case vx_init lib (vpx_cfg_of config) of
           Inl e \<Rightarrow> Err (VideoEncodeFailed (''enc init: '' @ e))
         | Inr _ \<Rightarrow>
             Ok \<lparr>vt_cfg = vpx_cfg_of config, vt_calls = [], vt_width = vc_width config, vt_height = vc_height config\<rparr>)))"

definition max_encoded_size :: nat where
  "max_encoded_size = 64 * 1024 * 1024"

text \<open>The packets of one call; a frame that is too large ends the loop with an error.\<close>

fun collect_frames :: "vpx_frame list \<Rightarrow> (video_error, (bytes \<times> bool) list) outcome" where
  "collect_frames [] = Ok []"
| "collect_frames (f # fs) =
     (if \<not> vf_is_frame f then collect_frames fs
      else if max_encoded_size < length (vf_data f) then
        Err (VideoEncodeFailed (''encoded frame size '' @ show_nat (length (vf_data f)) @ '' exceeds maximum '' @
          show_nat max_encoded_size))
      else and_then (collect_frames fs) (\<lambda>rest. Ok ((vf_data f, vf_key f) # rest)))"

definition vpx_encode ::
  "vpx \<Rightarrow> int \<Rightarrow> bytes \<Rightarrow> bool \<Rightarrow> vpx_ctx \<Rightarrow> (video_error, (bytes \<times> bool) list) outcome \<times> vpx_ctx" where
  "vpx_encode lib pts data force c =
     (let expected = unat (vt_width c) * unat (vt_height c) * 3 div 2 in
      if length data < expected then
        (Err (VideoEncodeFailed (''I420 buffer too small: got '' @ show_nat (length data) @ '' bytes, need at least '' @
          show_nat expected)), c)
      else if \<not> vx_wrap lib (vt_width c) (vt_height c) data then (Err (VideoEncodeFailed ''vpx_img_wrap failed''), c)
      else
        (let c' = c\<lparr>vt_calls := vt_calls c @ [(pts, data, force)]\<rparr> in
         case vx_encode lib (vt_cfg c) (vt_calls c') of
           Inl e \<Rightarrow> (Err (VideoEncodeFailed (''encode: '' @ e)), c')
         | Inr fs \<Rightarrow> (collect_frames fs, c')))"

record vp9_encoder =
  v9_ctx :: vpx_ctx
  v9_config :: video_config
  v9_frame_count :: u64
  v9_keyframe :: bool
  v9_buf :: bytes

text \<open>The check of the size both encoders make.\<close>

definition check_size :: "video_config \<Rightarrow> video_error + unit" where
  "check_size config =
     (if vc_width config = 0 \<or> vc_height config = 0 \<or> vc_width config mod 2 \<noteq> 0 \<or> vc_height config mod 2 \<noteq> 0
      then Inl (InvalidResolution (vc_width config) (vc_height config)) else Inr ())"

definition i420_size :: "bool \<Rightarrow> video_config \<Rightarrow> (video_error, nat) outcome" where
  "i420_size checks config =
     and_then (i420_y_size checks (vc_width config) (vc_height config)) (\<lambda>y.
     and_then (i420_uv_size checks (vc_width config) (vc_height config)) (\<lambda>uv.
     Ok (unat y + 2 * unat uv)))"

definition vp9_encoder_new :: "bool \<Rightarrow> vpx \<Rightarrow> video_config \<Rightarrow> (video_error, vp9_encoder) outcome" where
  "vp9_encoder_new checks lib config =
     (case check_size config of
        Inl e \<Rightarrow> Err e
      | Inr _ \<Rightarrow>
          and_then (vpx_ctx_new lib config) (\<lambda>ctx.
          and_then (i420_size checks config) (\<lambda>n.
          Ok \<lparr>v9_ctx = ctx, v9_config = config, v9_frame_count = 0, v9_keyframe = True, v9_buf = replicate n 0\<rparr>)))"

text \<open>\<open>resize(n, 0)\<close>\<close>

definition resize :: "nat \<Rightarrow> bytes \<Rightarrow> bytes" where
  "resize n b = take n b @ replicate (n - length b) 0"

definition vp9_reconfigure ::
  "bool \<Rightarrow> vpx \<Rightarrow> video_config \<Rightarrow> vp9_encoder \<Rightarrow> (video_error, unit) outcome \<times> vp9_encoder" where
  "vp9_reconfigure checks lib config enc =
     (case check_size config of
        Inl e \<Rightarrow> (Err e, enc)
      | Inr _ \<Rightarrow>
     (case vpx_ctx_new lib config of
        Err e \<Rightarrow> (Err e, enc)
      | Panic \<Rightarrow> (Panic, enc)
      | Ok ctx \<Rightarrow>
     (case i420_size checks config of
        Err e \<Rightarrow> (Err e, enc\<lparr>v9_ctx := ctx\<rparr>)
      | Panic \<Rightarrow> (Panic, enc\<lparr>v9_ctx := ctx\<rparr>)
      | Ok n \<Rightarrow>
          (Ok (), enc\<lparr>v9_ctx := ctx, v9_buf := resize n (v9_buf enc), v9_config := config, v9_keyframe := True\<rparr>))))"

definition flatten_i420 :: "i420_buffer \<Rightarrow> bytes \<Rightarrow> (video_error, bytes) outcome" where
  "flatten_i420 frame buf =
     and_then (copy_slice (length (yb_y frame)) 0 0 (yb_y frame) buf) (\<lambda>buf.
     and_then (copy_slice (length (yb_u frame)) 0 (length (yb_y frame)) (yb_u frame) buf) (\<lambda>buf.
     copy_slice (length (yb_v frame)) 0 (length (yb_y frame) + length (yb_u frame)) (yb_v frame) buf))"

text \<open>\<open>Some(1000 / u64::from(framerate))\<close>: dividing by zero panics.\<close>

definition frame_duration :: "video_config \<Rightarrow> (video_error, u64) outcome" where
  "frame_duration config =
     (if vc_framerate config = 0 then Panic else Ok (1000 div ucast (vc_framerate config)))"

definition vp9_encode ::
  "vpx \<Rightarrow> i420_buffer \<Rightarrow> vp9_encoder \<Rightarrow> (video_error, encoded_packet) outcome \<times> vp9_encoder" where
  "vp9_encode lib frame enc =
     (if yb_width frame \<noteq> vc_width (v9_config enc) \<or> yb_height frame \<noteq> vc_height (v9_config enc)
      then (Err (InvalidResolution (yb_width frame) (yb_height frame)), enc)
      else
        (case flatten_i420 frame (v9_buf enc) of
           Err e \<Rightarrow> (Err e, enc)
         | Panic \<Rightarrow> (Panic, enc)
         | Ok buf \<Rightarrow>
             (let pts = (if unat (v9_frame_count enc) < 2 ^ 63 then int (unat (v9_frame_count enc)) else 0) in
              case vpx_encode lib pts buf (v9_keyframe enc) (v9_ctx enc) of
                (Err e, ctx) \<Rightarrow> (Err e, enc\<lparr>v9_buf := buf, v9_keyframe := False, v9_ctx := ctx\<rparr>)
              | (Panic, ctx) \<Rightarrow> (Panic, enc\<lparr>v9_buf := buf, v9_keyframe := False, v9_ctx := ctx\<rparr>)
              | (Ok fs, ctx) \<Rightarrow>
                  (let enc' = enc\<lparr>v9_buf := buf, v9_keyframe := False, v9_ctx := ctx\<rparr>;
                       data = concat (map fst fs);
                       key = (if data = [] then v9_frame_count enc = 0 else list_ex snd fs)
                   in
                   case frame_duration (v9_config enc) of
                     Ok d \<Rightarrow>
                       (Ok \<lparr>ep_data = data, ep_is_keyframe = key, ep_pts = v9_frame_count enc, ep_duration = Some d,
                           ep_codec = Some Vp9\<rparr>, enc'\<lparr>v9_frame_count := v9_frame_count enc + 1\<rparr>)
                   | Err e \<Rightarrow> (Err e, enc')
                   | Panic \<Rightarrow> (Panic, enc')))))"

subsection \<open>H.264\<close>

text \<open>openh264: what is asked of an encoder, each frame with whether it was forced to be an intra frame.\<close>

record openh264 =
  oh_init :: "u32 \<Rightarrow> u32 \<Rightarrow> string + unit"
  oh_encode :: "u32 \<times> u32 \<Rightarrow> (i420_buffer \<times> bool) list \<Rightarrow> string + (bool \<times> bytes)"

record h264_encoder =
  h4_settings :: "u32 \<times> u32"
  h4_calls :: "(i420_buffer \<times> bool) list"
  h4_config :: video_config
  h4_frame_count :: u64
  h4_keyframe :: bool

text \<open>\<open>build_encoder\<close>: bits per second and frame rate.\<close>

definition build_encoder :: "bool \<Rightarrow> openh264 \<Rightarrow> video_config \<Rightarrow> (video_error, u32 \<times> u32) outcome" where
  "build_encoder checks lib config =
     and_then (mul_ovf checks (vc_bitrate_kbps config) 1000) (\<lambda>bps.
     case oh_init lib bps (vc_framerate config) of
       Inl e \<Rightarrow> Err (VideoEncodeFailed (''openh264 init: '' @ e))
     | Inr _ \<Rightarrow> Ok (bps, vc_framerate config))"

definition h264_encoder_new :: "bool \<Rightarrow> openh264 \<Rightarrow> video_config \<Rightarrow> (video_error, h264_encoder) outcome" where
  "h264_encoder_new checks lib config =
     (case check_size config of
        Inl e \<Rightarrow> Err e
      | Inr _ \<Rightarrow>
          and_then (build_encoder checks lib config) (\<lambda>settings.
          Ok \<lparr>h4_settings = settings, h4_calls = [], h4_config = config, h4_frame_count = 0, h4_keyframe = True\<rparr>))"

definition h264_reconfigure ::
  "bool \<Rightarrow> openh264 \<Rightarrow> video_config \<Rightarrow> h264_encoder \<Rightarrow> (video_error, unit) outcome \<times> h264_encoder" where
  "h264_reconfigure checks lib config enc =
     (case check_size config of
        Inl e \<Rightarrow> (Err e, enc)
      | Inr _ \<Rightarrow>
          (case build_encoder checks lib config of
             Err e \<Rightarrow> (Err e, enc)
           | Panic \<Rightarrow> (Panic, enc)
           | Ok settings \<Rightarrow>
               (Ok (), enc\<lparr>h4_settings := settings, h4_calls := [], h4_config := config, h4_keyframe := True\<rparr>)))"

definition h264_encode ::
  "openh264 \<Rightarrow> i420_buffer \<Rightarrow> h264_encoder \<Rightarrow> (video_error, encoded_packet) outcome \<times> h264_encoder" where
  "h264_encode lib frame enc =
     (if yb_width frame \<noteq> vc_width (h4_config enc) \<or> yb_height frame \<noteq> vc_height (h4_config enc)
      then (Err (InvalidResolution (yb_width frame) (yb_height frame)), enc)
      else
        (let enc' = enc\<lparr>h4_keyframe := False, h4_calls := h4_calls enc @ [(frame, h4_keyframe enc)]\<rparr> in
         case oh_encode lib (h4_settings enc) (h4_calls enc') of
           Inl e \<Rightarrow> (Err (VideoEncodeFailed (''openh264 encode: '' @ e)), enc')
         | Inr (key, data) \<Rightarrow>
             (case frame_duration (h4_config enc) of
                Ok d \<Rightarrow>
                  (Ok \<lparr>ep_data = data, ep_is_keyframe = key, ep_pts = h4_frame_count enc, ep_duration = Some d,
                      ep_codec = Some H264\<rparr>, enc'\<lparr>h4_frame_count := h4_frame_count enc + 1\<rparr>)
              | Err e \<Rightarrow> (Err e, enc')
              | Panic \<Rightarrow> (Panic, enc'))))"

subsection \<open>The encoder of a pipeline\<close>

record video_libs =
  vl_jpeg :: jpeg
  vl_vpx :: vpx
  vl_h264 :: openh264

datatype video_encoder = Vp9Enc vp9_encoder | H264Enc h264_encoder

definition make_encoder :: "bool \<Rightarrow> video_libs \<Rightarrow> video_config \<Rightarrow> video_codec \<Rightarrow> (video_error, video_encoder) outcome" where
  "make_encoder checks libs config codec =
     (case codec of
        Vp9 \<Rightarrow> and_then (vp9_encoder_new checks (vl_vpx libs) config) (\<lambda>e. Ok (Vp9Enc e))
      | H264 \<Rightarrow> and_then (h264_encoder_new checks (vl_h264 libs) config) (\<lambda>e. Ok (H264Enc e)))"

fun encode_frame ::
  "video_libs \<Rightarrow> i420_buffer \<Rightarrow> video_encoder \<Rightarrow> (video_error, encoded_packet) outcome \<times> video_encoder" where
  "encode_frame libs frame (Vp9Enc e) = map_prod id Vp9Enc (vp9_encode (vl_vpx libs) frame e)"
| "encode_frame libs frame (H264Enc e) = map_prod id H264Enc (h264_encode (vl_h264 libs) frame e)"

fun encoder_request_keyframe :: "video_encoder \<Rightarrow> video_encoder" where
  "encoder_request_keyframe (Vp9Enc e) = Vp9Enc (e\<lparr>v9_keyframe := True\<rparr>)"
| "encoder_request_keyframe (H264Enc e) = H264Enc (e\<lparr>h4_keyframe := True\<rparr>)"

fun encoder_reconfigure_to ::
  "bool \<Rightarrow> video_libs \<Rightarrow> video_config \<Rightarrow> video_encoder \<Rightarrow> (video_error, unit) outcome \<times> video_encoder" where
  "encoder_reconfigure_to checks libs config (Vp9Enc e) = map_prod id Vp9Enc (vp9_reconfigure checks (vl_vpx libs) config e)"
| "encoder_reconfigure_to checks libs config (H264Enc e) = map_prod id H264Enc (h264_reconfigure checks (vl_h264 libs) config e)"

subsection \<open>The pipeline\<close>

record video_pipeline =
  vp_encoder :: video_encoder
  vp_codec :: video_codec
  vp_config :: video_config
  vp_frames_processed :: u64
  vp_frames_dropped :: u64

definition pipeline_with_codec ::
  "bool \<Rightarrow> video_libs \<Rightarrow> video_config \<Rightarrow> video_codec \<Rightarrow> (video_error, video_pipeline) outcome" where
  "pipeline_with_codec checks libs config codec =
     and_then (make_encoder checks libs config codec) (\<lambda>e.
     Ok \<lparr>vp_encoder = e, vp_codec = codec, vp_config = config, vp_frames_processed = 0, vp_frames_dropped = 0\<rparr>)"

definition pipeline_reconfigure ::
  "bool \<Rightarrow> video_libs \<Rightarrow> video_config \<Rightarrow> video_pipeline \<Rightarrow> (video_error, unit) outcome \<times> video_pipeline" where
  "pipeline_reconfigure checks libs config p =
     (case encoder_reconfigure_to checks libs config (vp_encoder p) of
        (Ok _, e) \<Rightarrow> (Ok (), p\<lparr>vp_encoder := e, vp_config := config\<rparr>)
      | (r, e) \<Rightarrow> (r, p\<lparr>vp_encoder := e\<rparr>))"

text \<open>\<open>reconfigure_bitrate\<close>; an error is logged, a panic is not caught.\<close>

definition reconfigure_bitrate :: "bool \<Rightarrow> video_libs \<Rightarrow> u32 \<Rightarrow> video_pipeline \<Rightarrow> (video_error, unit) outcome \<times> video_pipeline" where
  "reconfigure_bitrate checks libs kbps p =
     (case pipeline_reconfigure checks libs ((vp_config p)\<lparr>vc_bitrate_kbps := kbps\<rparr>) p of
        (Panic, p') \<Rightarrow> (Panic, p')
      | (_, p') \<Rightarrow> (Ok (), p'))"

definition pipeline_request_keyframe :: "video_pipeline \<Rightarrow> video_pipeline" where
  "pipeline_request_keyframe p = p\<lparr>vp_encoder := encoder_request_keyframe (vp_encoder p)\<rparr>"

definition record_drop :: "video_pipeline \<Rightarrow> video_pipeline" where
  "record_drop p = p\<lparr>vp_frames_dropped := vp_frames_dropped p + 1\<rparr>"

text \<open>The end of \<open>process\<close>, once the encoder has the size of the frame.\<close>

definition convert_and_encode ::
  "bool \<Rightarrow> video_libs \<Rightarrow> rgb_frame \<Rightarrow> video_pipeline \<Rightarrow> (video_error, encoded_packet) outcome \<times> video_pipeline" where
  "convert_and_encode checks libs frame p =
     (case rgb_to_i420 checks frame of
        Err e \<Rightarrow> (Err e, p)
      | Panic \<Rightarrow> (Panic, p)
      | Ok i420 \<Rightarrow>
          (case encode_frame libs i420 (vp_encoder p) of
             (Ok packet, e) \<Rightarrow> (Ok packet, p\<lparr>vp_encoder := e, vp_frames_processed := vp_frames_processed p + 1\<rparr>)
           | (r, e) \<Rightarrow> (r, p\<lparr>vp_encoder := e\<rparr>)))"

definition process ::
  "bool \<Rightarrow> video_libs \<Rightarrow> instant \<Rightarrow> bytes \<Rightarrow> video_pipeline \<Rightarrow> (video_error, encoded_packet) outcome \<times> video_pipeline" where
  "process checks libs now jpeg p =
     (case and_then (decode_jpeg (vl_jpeg libs) jpeg now) (pad_to_even checks) of
        Err e \<Rightarrow> (Err e, p)
      | Panic \<Rightarrow> (Panic, p)
      | Ok frame \<Rightarrow>
          (if rgb_width frame \<noteq> vc_width (vp_config p) \<or> rgb_height frame \<noteq> vc_height (vp_config p) then
             (case pipeline_reconfigure checks libs
                 ((vp_config p)\<lparr>vc_width := rgb_width frame, vc_height := rgb_height frame\<rparr>) p of
                (Ok _, p') \<Rightarrow> convert_and_encode checks libs frame p'
              | (Err e, p') \<Rightarrow> (Err e, p')
              | (Panic, p') \<Rightarrow> (Panic, p'))
           else convert_and_encode checks libs frame p))"

subsection \<open>The encode thread\<close>

text \<open>One command: whether the thread panicked, the packet broadcast, and the pipeline.\<close>

definition encode_round ::
  "bool \<Rightarrow> video_libs \<Rightarrow> instant \<Rightarrow> encode_command \<Rightarrow> video_pipeline \<Rightarrow> bool \<times> encoded_packet option \<times> video_pipeline" where
  "encode_round checks libs now cmd p0 =
     (case (case en_bitrate_hint cmd of Some kbps \<Rightarrow> reconfigure_bitrate checks libs kbps p0 | None \<Rightarrow> (Ok (), p0)) of
        (Panic, p) \<Rightarrow> (True, None, p)
      | (_, p) \<Rightarrow>
          (let p = (if en_force_keyframe cmd then pipeline_request_keyframe p else p) in
           case process checks libs now (en_data cmd) p of
             (Ok packet, p) \<Rightarrow> (False, Some packet, p)
           | (Err e, p) \<Rightarrow> (False, None, record_drop p)
           | (Panic, p) \<Rightarrow> (True, None, p)))"

fun encode_thread ::
  "bool \<Rightarrow> video_libs \<Rightarrow> (instant \<times> encode_command) list \<Rightarrow> video_pipeline \<Rightarrow> bool \<times> encoded_packet list \<times> video_pipeline" where
  "encode_thread checks libs [] p = (False, [], p)"
| "encode_thread checks libs ((now, cmd) # cmds) p =
     (case encode_round checks libs now cmd p of
        (True, _, p) \<Rightarrow> (True, [], p)
      | (False, packet, p) \<Rightarrow>
          (case encode_thread checks libs cmds p of
             (panicked, packets, p) \<Rightarrow> (panicked, (case packet of Some x \<Rightarrow> [x] | None \<Rightarrow> []) @ packets, p)))"

subsection \<open>What the pipeline relies on\<close>

text \<open>A size the sums of the code can hold; and what the JPEG package documents: a decoded image has
  three bytes for each pixel, and neither side is longer than 16384.\<close>

definition size_fits :: "u32 \<Rightarrow> u32 \<Rightarrow> bool" where
  "size_fits w h \<longleftrightarrow> w \<noteq> 0 \<and> h \<noteq> 0 \<and> 3 * (unat w * unat h) < 2 ^ 32"

definition jpeg_documented :: "jpeg \<Rightarrow> bool" where
  "jpeg_documented jp \<longleftrightarrow>
     (\<forall>data w h pixels. jp_dimensions jp data = Some (w, h) \<and> jp_decode jp data = Inr pixels \<longrightarrow>
        w \<le> 16384 \<and> h \<le> 16384 \<and> length pixels = 3 * (w * h))"

lemma decoded_frame:
  assumes "jpeg_documented jp" and "decode_jpeg jp data now = Ok f"
  shows "rgb_width f \<noteq> 0" and "rgb_height f \<noteq> 0" and "unat (rgb_width f) \<le> 16384" and "unat (rgb_height f) \<le> 16384"
    and "length (rgb_data f) = 3 * (unat (rgb_width f) * unat (rgb_height f))"
proof -
  obtain w h where d: "jp_dimensions jp data = Some (w, h)" "jp_decode jp data = Inr (rgb_data f)"
      "rgb_width f = of_nat w" "rgb_height f = of_nat h" "rgb_width f \<noteq> 0" "rgb_height f \<noteq> 0"
    using assms(2) by (auto simp: decode_jpeg_def Let_def split: if_splits sum.splits option.splits)
  then have l: "w \<le> 16384" "h \<le> 16384" "length (rgb_data f) = 3 * (w * h)"
    using assms(1) unfolding jpeg_documented_def by blast+
  then have "unat (of_nat w :: u32) = w" "unat (of_nat h :: u32) = h" by (simp_all add: unat_of_nat)
  then show "rgb_width f \<noteq> 0" "rgb_height f \<noteq> 0" "unat (rgb_width f) \<le> 16384" "unat (rgb_height f) \<le> 16384"
    "length (rgb_data f) = 3 * (unat (rgb_width f) * unat (rgb_height f))"
    using d l by simp_all
qed

lemma decode_jpeg_no_panic: "decode_jpeg jp data now \<noteq> Panic"
  by (simp add: decode_jpeg_def Let_def split: sum.split option.split)

text \<open>A frame as the encoder gets it: even sizes that fit, and complete data.\<close>

definition frame_ready :: "rgb_frame \<Rightarrow> bool" where
  "frame_ready f \<longleftrightarrow> size_fits (rgb_width f) (rgb_height f) \<and>
     3 * (unat (rgb_width f) * unat (rgb_height f)) \<le> length (rgb_data f)"

lemma padded_frame:
  assumes "jpeg_documented jp" and "decode_jpeg jp data now = Ok f"
  obtains g where "pad_to_even checks f = (Ok g :: (video_error, rgb_frame) outcome)" and "frame_ready g"
proof -
  note d = decoded_frame [OF assms]
  obtain g where g: "pad_to_even checks f = (Ok g :: (video_error, rgb_frame) outcome)"
      "unat (rgb_width g) = unat (rgb_width f) + unat (rgb_width f) mod 2"
      "unat (rgb_height g) = unat (rgb_height f) + unat (rgb_height f) mod 2"
      "3 * (unat (rgb_width g) * unat (rgb_height g)) \<le> length (rgb_data g)"
    using padding_correct [of f checks] d by auto
  have pos: "0 < unat (rgb_width f)" "0 < unat (rgb_height f)" using d(1,2) by (simp_all add: unat_gt_0)
  then have "rgb_width g \<noteq> 0" "rgb_height g \<noteq> 0" using g(2,3) by auto
  moreover have "unat (rgb_width g) \<le> 16385" "unat (rgb_height g) \<le> 16385" using g(2,3) d(3,4) by linarith+
  then have "unat (rgb_width g) * unat (rgb_height g) \<le> 16385 * 16385" by (rule mult_le_mono)
  ultimately have "frame_ready g" using g(4) by (simp add: frame_ready_def size_fits_def)
  with g(1) show thesis by (rule that)
qed

subsection \<open>An encoder that fits its configuration\<close>

definition plane_bytes :: "u32 \<Rightarrow> u32 \<Rightarrow> nat" where
  "plane_bytes w h = unat w * unat h + 2 * ((unat w + 1) div 2 * ((unat h + 1) div 2))"

definition config_ok :: "bool \<Rightarrow> video_config \<Rightarrow> bool" where
  "config_ok checks config \<longleftrightarrow>
     size_fits (vc_width config) (vc_height config) \<and> vc_framerate config \<noteq> 0 \<and>
     (checks \<longrightarrow> unat (vc_bitrate_kbps config) * 1000 < 2 ^ 32)"

fun encoder_ok :: "video_config \<Rightarrow> video_encoder \<Rightarrow> bool" where
  "encoder_ok config (Vp9Enc e) =
     (v9_config e = config \<and> length (v9_buf e) = plane_bytes (vc_width config) (vc_height config))"
| "encoder_ok config (H264Enc e) = (h4_config e = config)"

fun encoder_frames :: "video_encoder \<Rightarrow> u64" where
  "encoder_frames (Vp9Enc e) = v9_frame_count e"
| "encoder_frames (H264Enc e) = h4_frame_count e"

lemma i420_size_fits:
  assumes "size_fits (vc_width config) (vc_height config)"
  shows "i420_size checks config = Ok (plane_bytes (vc_width config) (vc_height config))"
proof -
  note fits = assms [unfolded size_fits_def]
  note sizes = i420_sizes [OF conjunct1 [OF fits] conjunct1 [OF conjunct2 [OF fits]] conjunct2 [OF conjunct2 [OF fits]]]
  show ?thesis by (simp only: i420_size_def sizes and_then.simps plane_bytes_def)
qed

lemma build_encoder_no_panic:
  "(checks \<longrightarrow> unat (vc_bitrate_kbps config) * 1000 < 2 ^ 32) \<Longrightarrow> build_encoder checks lib config \<noteq> Panic"
  by (auto simp: build_encoder_def mul_ovf_def split: sum.split)

lemma vpx_ctx_new_no_panic: "vpx_ctx_new lib config \<noteq> Panic"
  by (simp add: vpx_ctx_new_def split: sum.split)

lemma reconfigured_encoder:
  assumes "config_ok checks config" and "encoder_ok old e" and "encoder_reconfigure_to checks libs config e = (r, e')"
  shows "r \<noteq> Panic" and "encoder_ok (if r = Ok () then config else old) e'" and "encoder_frames e' = encoder_frames e"
proof -
  have size: "i420_size checks config = Ok (plane_bytes (vc_width config) (vc_height config))"
    using assms(1) by (intro i420_size_fits) (simp add: config_ok_def)
  have build: "build_encoder checks (vl_h264 libs) config \<noteq> Panic"
    using assms(1) by (intro build_encoder_no_panic) (simp add: config_ok_def)
  have "r \<noteq> Panic \<and> encoder_ok (if r = Ok () then config else old) e' \<and> encoder_frames e' = encoder_frames e"
  proof (cases e)
    case (Vp9Enc v)
    then show ?thesis
      using assms(2,3) vpx_ctx_new_no_panic [of "vl_vpx libs" config]
      by (cases "check_size config"; cases "vpx_ctx_new (vl_vpx libs) config")
        (auto simp: vp9_reconfigure_def size resize_def)
  next
    case (H264Enc h)
    then show ?thesis
      using assms(2,3) build
      by (cases "check_size config"; cases "build_encoder checks (vl_h264 libs) config")
        (auto simp: h264_reconfigure_def)
  qed
  then show "r \<noteq> Panic" "encoder_ok (if r = Ok () then config else old) e'" "encoder_frames e' = encoder_frames e"
    by blast+
qed

lemma new_encoder:
  assumes "config_ok checks config" and "make_encoder checks libs config codec = Ok e"
  shows "encoder_ok config e" and "encoder_frames e = 0"
proof -
  have size: "i420_size checks config = Ok (plane_bytes (vc_width config) (vc_height config))"
    using assms(1) by (intro i420_size_fits) (simp add: config_ok_def)
  show "encoder_ok config e" "encoder_frames e = 0"
    using assms(2) by (cases codec; auto simp: make_encoder_def vp9_encoder_new_def h264_encoder_new_def size split: sum.splits)+
qed

subsection \<open>Encoding never panics\<close>

definition planes_fit :: "i420_buffer \<Rightarrow> bool" where
  "planes_fit b \<longleftrightarrow> length (yb_y b) + length (yb_u b) + length (yb_v b) = plane_bytes (yb_width b) (yb_height b)"

lemma flatten_i420_fits:
  assumes "length (yb_y b) + length (yb_u b) + length (yb_v b) \<le> length buf"
  obtains out where "flatten_i420 b buf = Ok out" and "length out = length buf"
proof -
  have "flatten_i420 b buf = Ok (yb_y b @ yb_u b @ yb_v b @ drop (length (yb_y b) + length (yb_u b) + length (yb_v b)) buf)"
    using assms by (simp add: flatten_i420_def copy_slice_def ac_simps)
  then show thesis by (rule that) (use assms in simp)
qed

lemma converted_frame:
  assumes "frame_ready f"
  obtains b where "rgb_to_i420 checks f = Ok b" and "yb_width b = rgb_width f" and "yb_height b = rgb_height f" and "planes_fit b"
proof -
  note r = assms [unfolded frame_ready_def size_fits_def]
  show thesis
    by (rule that [OF conversion_correct]) (use r in \<open>simp_all add: planes_fit_def plane_bytes_def\<close>)
qed

lemma collect_frames_no_panic: "collect_frames fs \<noteq> Panic"
proof (induction fs)
  case (Cons f fs)
  then show ?case by (cases "collect_frames fs") simp_all
qed simp

lemma vpx_encode_no_panic: "fst (vpx_encode lib pts data force c) \<noteq> Panic"
  by (simp add: vpx_encode_def Let_def collect_frames_no_panic split: sum.split)

lemma frame_duration_ok: "vc_framerate config \<noteq> 0 \<Longrightarrow> \<exists>d. frame_duration config = Ok d"
  by (simp add: frame_duration_def)

text \<open>A packet has the number of its frame as its time stamp; a call that fails does not count.\<close>

definition counts_packet :: "u64 \<Rightarrow> (video_error, encoded_packet) outcome \<Rightarrow> u64 \<Rightarrow> bool" where
  "counts_packet n r n' \<longleftrightarrow> (case r of Ok packet \<Rightarrow> ep_pts packet = n \<and> n' = n + 1 | Err e \<Rightarrow> n' = n | Panic \<Rightarrow> False)"

lemma encode_frame_counts:
  assumes "encoder_ok config e" and "vc_framerate config \<noteq> 0"
    and "yb_width b = vc_width config" and "yb_height b = vc_height config" and "planes_fit b"
    and "encode_frame libs b e = (r, e')"
  shows "counts_packet (encoder_frames e) r (encoder_frames e')" and "encoder_ok config e'"
proof -
  obtain d where d: "frame_duration config = Ok d" using frame_duration_ok [OF assms(2)] by blast
  have "counts_packet (encoder_frames e) r (encoder_frames e') \<and> encoder_ok config e'"
  proof (cases e)
    case (Vp9Enc v)
    then have v: "v9_config v = config" "length (v9_buf v) = plane_bytes (vc_width config) (vc_height config)"
      using assms(1) by simp_all
    obtain out where out: "flatten_i420 b (v9_buf v) = Ok out" "length out = length (v9_buf v)"
      by (rule flatten_i420_fits [of b "v9_buf v"]) (use assms(3-5) v(2) in \<open>simp_all add: planes_fit_def\<close>)
    let ?pts = "if unat (v9_frame_count v) < 2 ^ 63 then int (unat (v9_frame_count v)) else 0"
    obtain q c where q: "vpx_encode (vl_vpx libs) ?pts out (v9_keyframe v) (v9_ctx v) = (q, c)" by fastforce
    have "q \<noteq> Panic" using vpx_encode_no_panic [of "vl_vpx libs" ?pts out "v9_keyframe v" "v9_ctx v"] unfolding q by simp
    then show ?thesis
      using assms(3,4,6) Vp9Enc v out q d
      by (cases q) (auto simp: vp9_encode_def counts_packet_def Let_def)
  next
    case (H264Enc h)
    then show ?thesis
      using assms(1,3,4,6) d
      by (cases "oh_encode (vl_h264 libs) (h4_settings h) (h4_calls h @ [(b, h4_keyframe h)])")
        (auto simp: h264_encode_def counts_packet_def Let_def)
  qed
  then show "counts_packet (encoder_frames e) r (encoder_frames e')" "encoder_ok config e'" by blast+
qed

subsection \<open>The encode thread survives\<close>

definition pipeline_inv :: "bool \<Rightarrow> video_pipeline \<Rightarrow> bool" where
  "pipeline_inv checks p \<longleftrightarrow>
     config_ok checks (vp_config p) \<and> encoder_ok (vp_config p) (vp_encoder p) \<and>
     vp_frames_processed p = encoder_frames (vp_encoder p)"

lemma pipeline_reconfigure_inv:
  assumes "config_ok checks config" and "pipeline_inv checks p" and "pipeline_reconfigure checks libs config p = (r, p')"
  shows "r \<noteq> Panic" and "pipeline_inv checks p'" and "r = Ok () \<Longrightarrow> vp_config p' = config"
    and "vp_frames_processed p' = vp_frames_processed p" and "vp_frames_dropped p' = vp_frames_dropped p"
proof -
  obtain q e where e: "encoder_reconfigure_to checks libs config (vp_encoder p) = (q, e)" by fastforce
  note kept = reconfigured_encoder [OF assms(1) _ e, of "vp_config p"]
  have old: "config_ok checks (vp_config p)" "encoder_ok (vp_config p) (vp_encoder p)"
    "vp_frames_processed p = encoder_frames (vp_encoder p)"
    using assms(2) by (simp_all add: pipeline_inv_def)
  have "r \<noteq> Panic \<and> pipeline_inv checks p' \<and> (r = Ok () \<longrightarrow> vp_config p' = config) \<and>
      vp_frames_processed p' = vp_frames_processed p \<and> vp_frames_dropped p' = vp_frames_dropped p"
    using assms(1,3) e kept [OF old(2)] old
    by (cases q) (auto simp: pipeline_reconfigure_def pipeline_inv_def)
  then show "r \<noteq> Panic" "pipeline_inv checks p'" "r = Ok () \<Longrightarrow> vp_config p' = config"
    "vp_frames_processed p' = vp_frames_processed p" "vp_frames_dropped p' = vp_frames_dropped p"
    by blast+
qed

lemma convert_and_encode_counts:
  assumes "pipeline_inv checks p" and "frame_ready f"
    and "rgb_width f = vc_width (vp_config p)" and "rgb_height f = vc_height (vp_config p)"
    and "convert_and_encode checks libs f p = (r, p')"
  shows "pipeline_inv checks p'" and "counts_packet (vp_frames_processed p) r (vp_frames_processed p')"
    and "vp_frames_dropped p' = vp_frames_dropped p"
proof -
  obtain b where b: "rgb_to_i420 checks f = Ok b" "yb_width b = rgb_width f" "yb_height b = rgb_height f" "planes_fit b"
    by (rule converted_frame [OF assms(2)])
  obtain q e where e: "encode_frame libs b (vp_encoder p) = (q, e)" by fastforce
  have old: "config_ok checks (vp_config p)" "encoder_ok (vp_config p) (vp_encoder p)" "vc_framerate (vp_config p) \<noteq> 0"
    "vp_frames_processed p = encoder_frames (vp_encoder p)"
    using assms(1) by (simp_all add: pipeline_inv_def config_ok_def)
  note counted = encode_frame_counts [OF old(2,3) _ _ b(4) e]
  have "counts_packet (encoder_frames (vp_encoder p)) q (encoder_frames e)" "encoder_ok (vp_config p) e"
    using counted b(2,3) assms(3,4) by simp_all
  then have "pipeline_inv checks p' \<and> counts_packet (vp_frames_processed p) r (vp_frames_processed p') \<and>
      vp_frames_dropped p' = vp_frames_dropped p"
    using assms(5) b(1) e old by (cases q) (auto simp: convert_and_encode_def pipeline_inv_def counts_packet_def)
  then show "pipeline_inv checks p'" "counts_packet (vp_frames_processed p) r (vp_frames_processed p')"
    "vp_frames_dropped p' = vp_frames_dropped p"
    by blast+
qed

lemma process_counts:
  assumes "jpeg_documented (vl_jpeg libs)" and "pipeline_inv checks p" and "process checks libs now data p = (r, p')"
  shows "pipeline_inv checks p' \<and> counts_packet (vp_frames_processed p) r (vp_frames_processed p') \<and>
    vp_frames_dropped p' = vp_frames_dropped p"
proof (cases "decode_jpeg (vl_jpeg libs) data now")
  case (Ok f)
  obtain g where g: "pad_to_even checks f = (Ok g :: (video_error, rgb_frame) outcome)" "frame_ready g"
    by (rule padded_frame [OF assms(1) Ok])
  let ?config = "(vp_config p)\<lparr>vc_width := rgb_width g, vc_height := rgb_height g\<rparr>"
  show ?thesis
  proof (cases "rgb_width g \<noteq> vc_width (vp_config p) \<or> rgb_height g \<noteq> vc_height (vp_config p)")
    case True
    obtain q p1 where q: "pipeline_reconfigure checks libs ?config p = (q, p1)" by fastforce
    have "config_ok checks ?config" using assms(2) g(2) by (simp add: pipeline_inv_def config_ok_def frame_ready_def)
    note kept = pipeline_reconfigure_inv [OF this assms(2) q]
    show ?thesis
    proof (cases q)
      case (Ok u)
      then have new: "rgb_width g = vc_width (vp_config p1)" "rgb_height g = vc_height (vp_config p1)" using kept(3) by simp_all
      have "convert_and_encode checks libs g p1 = (r, p')"
        using assms(3) \<open>decode_jpeg (vl_jpeg libs) data now = Ok f\<close> g(1) True q Ok by (simp add: process_def)
      then show ?thesis using convert_and_encode_counts [OF kept(2) g(2) new] kept(4,5) by simp
    next
      case (Err e)
      then show ?thesis using assms(3) Ok g(1) True q kept(2,4,5) by (auto simp: process_def counts_packet_def)
    next
      case Panic
      then show ?thesis using kept(1) by simp
    qed
  next
    case False
    then have "convert_and_encode checks libs g p = (r, p')" using assms(3) Ok g(1) by (simp add: process_def)
    then show ?thesis using convert_and_encode_counts [OF assms(2) g(2) _ _] False by blast
  qed
next
  case (Err e)
  then show ?thesis using assms(2,3) by (auto simp: process_def counts_packet_def)
next
  case Panic
  then show ?thesis using decode_jpeg_no_panic by metis
qed

text \<open>A hint that the H.264 encoder can multiply by 1000.\<close>

definition hint_fits :: "bool \<Rightarrow> encode_command \<Rightarrow> bool" where
  "hint_fits checks cmd \<longleftrightarrow>
     (case en_bitrate_hint cmd of Some kbps \<Rightarrow> checks \<longrightarrow> unat kbps * 1000 < 2 ^ 32 | None \<Rightarrow> True)"

lemma hinted_inv:
  assumes "pipeline_inv checks p" and "checks \<longrightarrow> unat kbps * 1000 < 2 ^ 32"
    and "reconfigure_bitrate checks libs kbps p = (r, p')"
  shows "r \<noteq> Panic \<and> pipeline_inv checks p' \<and> vp_frames_processed p' = vp_frames_processed p \<and>
    vp_frames_dropped p' = vp_frames_dropped p"
proof -
  obtain q p1 where q: "pipeline_reconfigure checks libs ((vp_config p)\<lparr>vc_bitrate_kbps := kbps\<rparr>) p = (q, p1)" by fastforce
  have "config_ok checks ((vp_config p)\<lparr>vc_bitrate_kbps := kbps\<rparr>)"
    using assms(1,2) by (simp add: pipeline_inv_def config_ok_def)
  from pipeline_reconfigure_inv [OF this assms(1) q] show ?thesis
    using assms(3) q by (cases q) (auto simp: reconfigure_bitrate_def)
qed

lemma keyframe_inv: "pipeline_inv checks (pipeline_request_keyframe p) = pipeline_inv checks p"
  by (cases "vp_encoder p") (simp_all add: pipeline_inv_def pipeline_request_keyframe_def)

lemma record_drop_inv: "pipeline_inv checks (record_drop p) = pipeline_inv checks p"
  by (simp add: pipeline_inv_def record_drop_def)

lemma encode_round_counts:
  assumes "jpeg_documented (vl_jpeg libs)" and "pipeline_inv checks p" and "hint_fits checks cmd"
    and "encode_round checks libs now cmd p = (panicked, packet, p')"
  shows "\<not> panicked" and "pipeline_inv checks p'"
    and "case packet of
        Some x \<Rightarrow> ep_pts x = vp_frames_processed p \<and> vp_frames_processed p' = vp_frames_processed p + 1 \<and>
          vp_frames_dropped p' = vp_frames_dropped p
      | None \<Rightarrow> vp_frames_processed p' = vp_frames_processed p \<and> vp_frames_dropped p' = vp_frames_dropped p + 1"
proof -
  obtain q p1 where q: "(case en_bitrate_hint cmd of Some kbps \<Rightarrow> reconfigure_bitrate checks libs kbps p | None \<Rightarrow> (Ok (), p)) = (q, p1)"
    by fastforce
  have hinted: "q \<noteq> Panic" "pipeline_inv checks p1" "vp_frames_processed p1 = vp_frames_processed p"
    "vp_frames_dropped p1 = vp_frames_dropped p"
    using q assms(2,3) hinted_inv [OF assms(2)] by (auto simp: hint_fits_def split: option.splits)
  let ?p2 = "if en_force_keyframe cmd then pipeline_request_keyframe p1 else p1"
  have p2: "pipeline_inv checks ?p2" "vp_frames_processed ?p2 = vp_frames_processed p" "vp_frames_dropped ?p2 = vp_frames_dropped p"
    using hinted keyframe_inv [of checks p1] by (simp_all add: pipeline_request_keyframe_def)
  obtain r p3 where r: "process checks libs now (en_data cmd) ?p2 = (r, p3)" by fastforce
  note counted = process_counts [OF assms(1) p2(1) r, unfolded p2(2,3)]
  have round: "(panicked, packet, p') =
      (case r of Ok x \<Rightarrow> (False, Some x, p3) | Err e \<Rightarrow> (False, None, record_drop p3) | Panic \<Rightarrow> (True, None, p3))"
    using assms(4) q hinted(1) r by (cases q; cases r) (simp_all add: encode_round_def Let_def)
  have "\<not> panicked \<and> pipeline_inv checks p' \<and> (case packet of
        Some x \<Rightarrow> ep_pts x = vp_frames_processed p \<and> vp_frames_processed p' = vp_frames_processed p + 1 \<and>
          vp_frames_dropped p' = vp_frames_dropped p
      | None \<Rightarrow> vp_frames_processed p' = vp_frames_processed p \<and> vp_frames_dropped p' = vp_frames_dropped p + 1)"
    using round counted record_drop_inv [of checks p3]
    by (cases r) (simp_all add: counts_packet_def record_drop_def)
  then show "\<not> panicked" "pipeline_inv checks p'" "case packet of
        Some x \<Rightarrow> ep_pts x = vp_frames_processed p \<and> vp_frames_processed p' = vp_frames_processed p + 1 \<and>
          vp_frames_dropped p' = vp_frames_dropped p
      | None \<Rightarrow> vp_frames_processed p' = vp_frames_processed p \<and> vp_frames_dropped p' = vp_frames_dropped p + 1"
    by blast+
qed

lemma encode_thread_counts:
  assumes "jpeg_documented (vl_jpeg libs)" and "pipeline_inv checks p" and "\<forall>(now, cmd) \<in> set cmds. hint_fits checks cmd"
    and "encode_thread checks libs cmds p = (panicked, packets, p')"
  shows "\<not> panicked \<and> map ep_pts packets = map (\<lambda>i. vp_frames_processed p + of_nat i) [0..<length packets] \<and>
    vp_frames_processed p' = vp_frames_processed p + of_nat (length packets) \<and>
    length packets \<le> length cmds \<and>
    vp_frames_dropped p' = vp_frames_dropped p + of_nat (length cmds - length packets)"
  using assms(2-)
proof (induction cmds arbitrary: p packets)
  case (Cons c cmds)
  obtain now cmd where c: "c = (now, cmd)" by fastforce
  obtain pk packet p1 where one: "encode_round checks libs now cmd p = (pk, packet, p1)" by (metis prod_cases3)
  have "hint_fits checks cmd" using Cons.prems(2) c by simp
  note counted = encode_round_counts [OF assms(1) Cons.prems(1) this one]
  obtain panicked' rest p2 where rest: "encode_thread checks libs cmds p1 = (panicked', rest, p2)" by (metis prod_cases3)
  have "\<forall>(now, cmd) \<in> set cmds. hint_fits checks cmd" using Cons.prems(2) by simp
  have eq: "panicked = panicked'" "p' = p2" "packets = (case packet of Some x \<Rightarrow> [x] | None \<Rightarrow> []) @ rest"
    using Cons.prems(3) c one rest counted(1) by simp_all
  note IH = Cons.IH [OF counted(2) \<open>\<forall>(now, cmd) \<in> set cmds. hint_fits checks cmd\<close>, of rest]
  have IH': "\<not> panicked' \<and> map ep_pts rest = map (\<lambda>i. vp_frames_processed p1 + of_nat i) [0..<length rest] \<and>
    vp_frames_processed p2 = vp_frames_processed p1 + of_nat (length rest) \<and>
    length rest \<le> length cmds \<and>
    vp_frames_dropped p2 = vp_frames_dropped p1 + of_nat (length cmds - length rest)"
    by (rule IH [unfolded eq]) (rule rest)
  show ?case
  proof (cases packet)
    case None
    then show ?thesis using IH' counted(3) eq by (simp add: Suc_diff_le)
  next
    case (Some x)
    have "map (\<lambda>i. vp_frames_processed p + 1 + of_nat i) [0..<length rest] =
        map (\<lambda>i. vp_frames_processed p + of_nat i) (map Suc [0..<length rest])"
      by (simp add: o_def add.assoc)
    then show ?thesis
      using IH' counted(3) eq Some
      by (simp add: upt_conv_Cons map_Suc_upt [symmetric] add.assoc del: upt_Suc map_map)
  qed
qed simp

text \<open>C15: The encode thread lives. If the JPEG package returns what it documents, the configured size fits
  the sums of the code, the frame rate is not 0 and the hints can be multiplied by 1000, then the
  thread survives any sequence of commands, in either build and whatever the codec answers: every
  command gives one packet or counts as dropped, and the packets are numbered from 0 without a
  gap, also across changes of size and bit rate.\<close>

theorem video_thread_lives:
  assumes "jpeg_documented (vl_jpeg libs)" and "config_ok checks config"
    and "\<forall>(now, cmd) \<in> set cmds. hint_fits checks cmd"
    and "pipeline_with_codec checks libs config codec = Ok p"
    and "encode_thread checks libs cmds p = (panicked, packets, p')"
  shows "\<not> panicked \<and> map ep_pts packets = map of_nat [0..<length packets] \<and>
    vp_frames_processed p' = of_nat (length packets) \<and>
    length packets \<le> length cmds \<and> vp_frames_dropped p' = of_nat (length cmds - length packets)"
proof -
  obtain e where e: "make_encoder checks libs config codec = Ok e"
    "p = \<lparr>vp_encoder = e, vp_codec = codec, vp_config = config, vp_frames_processed = 0, vp_frames_dropped = 0\<rparr>"
    using assms(4) by (cases "make_encoder checks libs config codec") (simp_all add: pipeline_with_codec_def)
  have "pipeline_inv checks p" using new_encoder [OF assms(2) e(1)] assms(2) e(2) by (simp add: pipeline_inv_def)
  from encode_thread_counts [OF assms(1) this assms(3,5)] e(2) show ?thesis by simp
qed

definition tiny_libs :: video_libs where
  "tiny_libs =
     \<lparr>vl_jpeg = \<lparr>jp_headers = (\<lambda>_. Inr ()), jp_dimensions = (\<lambda>d. if length d < 3 then None else Some (1, 1)),
         jp_decode = (\<lambda>d. Inr (take 3 d))\<rparr>,
      vl_vpx = \<lparr>vx_iface = False, vx_default = Inr (), vx_init = (\<lambda>_. Inr ()), vx_wrap = (\<lambda>_ _ _. True),
         vx_encode = (\<lambda>_ _. Inr [])\<rparr>,
      vl_h264 = \<lparr>oh_init = (\<lambda>_ _. Inr ()), oh_encode = (\<lambda>_ calls. Inr (length calls = 1, yb_y (fst (last calls))))\<rparr>\<rparr>"

definition tiny_config :: video_config where
  "tiny_config = \<lparr>vc_width = 2, vc_height = 2, vc_framerate = 30, vc_bitrate_kbps = 100, vc_keyframe_interval = 60,
     vc_cpu_used = 0, vc_min_bitrate_kbps = 50, vc_max_bitrate_kbps = 200, vc_codec = H264\<rparr>"

lemma tiny_jpeg_documented: "jpeg_documented (vl_jpeg tiny_libs)"
  by (auto simp: jpeg_documented_def tiny_libs_def split: if_splits)

lemma tiny_pipeline:
  "pipeline_with_codec True tiny_libs tiny_config H264 =
     Ok \<lparr>vp_encoder = H264Enc \<lparr>h4_settings = (100000, 30), h4_calls = [], h4_config = tiny_config, h4_frame_count = 0,
           h4_keyframe = True\<rparr>,
         vp_codec = H264, vp_config = tiny_config, vp_frames_processed = 0, vp_frames_dropped = 0\<rparr>"
  by (simp add: pipeline_with_codec_def make_encoder_def h264_encoder_new_def check_size_def build_encoder_def mul_ovf_def
    tiny_libs_def tiny_config_def)

lemma video_thread_lives_witness:
  "case pipeline_with_codec True tiny_libs tiny_config H264 of
     Ok p \<Rightarrow>
       (case encode_thread True tiny_libs
          [(0, \<lparr>en_data = [1, 2, 3], en_force_keyframe = False, en_bitrate_hint = None\<rparr>),
           (1, \<lparr>en_data = [], en_force_keyframe = True, en_bitrate_hint = Some 80\<rparr>)] p of
        (panicked, packets, p') \<Rightarrow> \<not> panicked \<and> map ep_pts packets = map of_nat [0..<length packets])
   | _ \<Rightarrow> False"
proof -
  let ?cmds = "[(0, \<lparr>en_data = [1, 2, 3], en_force_keyframe = False, en_bitrate_hint = None\<rparr>),
    (1, \<lparr>en_data = [], en_force_keyframe = True, en_bitrate_hint = Some 80\<rparr>)] :: (instant \<times> encode_command) list"
  obtain p where p: "pipeline_with_codec True tiny_libs tiny_config H264 = Ok p" using tiny_pipeline by blast
  obtain panicked packets p' where run: "encode_thread True tiny_libs ?cmds p = (panicked, packets, p')" by (metis prod_cases3)
  have "config_ok True tiny_config" by (simp add: config_ok_def size_fits_def tiny_config_def)
  moreover have "\<forall>(now, cmd) \<in> set ?cmds. hint_fits True cmd" by (simp add: hint_fits_def)
  ultimately show ?thesis using video_thread_lives [OF tiny_jpeg_documented _ _ p run] p run by simp
qed

subsection \<open>Requests for a keyframe\<close>

text \<open>The frame after a request is forced to be a keyframe. The flag is taken before the library is
  called, so a request is lost when the call fails.\<close>

lemma requested_keyframe_forced:
  assumes "yb_width b = vc_width (h4_config e)" and "yb_height b = vc_height (h4_config e)"
    and "encode_frame libs b (encoder_request_keyframe (H264Enc e)) = (r, H264Enc e')"
  shows "last (h4_calls e') = (b, True)" and "\<not> h4_keyframe e'"
  using assms
  by (auto simp: h264_encode_def Let_def frame_duration_def split: sum.splits prod.splits if_splits)

text \<open>A hint of 4294968 kbps and more is too large for the bits per second of the H.264 encoder: with
  overflow checks it ends the encode thread.\<close>

lemma hint_overflow:
  assumes "vp_encoder p = H264Enc e" and "check_size (vp_config p) = Inr ()"
    and "en_bitrate_hint cmd = Some kbps" and "2 ^ 32 \<le> unat kbps * 1000"
  shows "encode_thread True libs ((now, cmd) # cmds) p = (True, [], p)"
proof -
  have "check_size ((vp_config p)\<lparr>vc_bitrate_kbps := kbps\<rparr>) = Inr ()" using assms(2) by (simp add: check_size_def split: if_splits)
  then show ?thesis
    using assms(1,3,4)
    by (simp add: encode_round_def reconfigure_bitrate_def pipeline_reconfigure_def h264_reconfigure_def build_encoder_def
      mul_ovf_def)
qed

end
