(* ===== verification/Host.thy ===== *)
theory Host
  imports Json Cdp_Client
begin

section \<open>Programs that run others\<close>

text \<open>
  The parts of \<open>crates/vscreen\<close> that start and stop processes work on a host: a record of what the
  operating system answers, each answer depending on what was asked and done before. A script
  takes the host and the operations so far and gives its result with the operations after it, or
  nothing when it does not end.
\<close>

datatype host_op =
    Output string "string list"
  | Spawn string "string list" "(string \<times> string) list"
  | Try_Wait nat
  | Kill_Child nat
  | Reap nat
  | Exists string
  | Read_File string
  | Write_File string string
  | Remove_File string
  | Bind nat
  | Thread_Sleep nat
  | Ask string

record command_output =
  co_success :: bool
  co_stdout :: string
  co_stderr :: string

record host =
  ho_output :: "host_op list \<Rightarrow> string \<Rightarrow> string list \<Rightarrow> string + command_output"
  ho_spawn :: "host_op list \<Rightarrow> string \<Rightarrow> string + nat"
  ho_try_wait :: "host_op list \<Rightarrow> nat \<Rightarrow> unit + bool"
  ho_exists :: "host_op list \<Rightarrow> string \<Rightarrow> bool"
  ho_read :: "host_op list \<Rightarrow> string \<Rightarrow> string option"
  ho_writes :: "host_op list \<Rightarrow> string \<Rightarrow> bool"
  ho_binds :: "host_op list \<Rightarrow> nat \<Rightarrow> bool"
  ho_ask :: "host_op list \<Rightarrow> string \<Rightarrow> string + string"
  ho_status :: "nat \<Rightarrow> string"
  ho_clock :: "host_op list \<Rightarrow> nat"
  ho_pid :: nat

type_synonym 'a script = "host \<Rightarrow> host_op list \<Rightarrow> ('a \<times> host_op list) option"

definition finish :: "'a \<Rightarrow> 'a script" where
  "finish a = (\<lambda>h os. Some (a, os))"

definition follow :: "'a script \<Rightarrow> ('a \<Rightarrow> 'b script) \<Rightarrow> 'b script" where
  "follow m f = (\<lambda>h os. case m h os of None \<Rightarrow> None | Some (a, os') \<Rightarrow> f a h os')"

definition act :: "(host \<Rightarrow> host_op list \<Rightarrow> 'a) \<Rightarrow> host_op \<Rightarrow> 'a script" where
  "act answer x = (\<lambda>h os. Some (answer h os, os @ [x]))"

definition output_of :: "string \<Rightarrow> string list \<Rightarrow> (string + command_output) script" where
  "output_of prog args = act (\<lambda>h os. ho_output h os prog args) (Output prog args)"

text \<open>A command whose result is thrown away.\<close>

definition run_command :: "string \<Rightarrow> string list \<Rightarrow> unit script" where
  "run_command prog args = act (\<lambda>h os. ()) (Output prog args)"

definition file_exists :: "string \<Rightarrow> bool script" where
  "file_exists p = act (\<lambda>h os. ho_exists h os p) (Exists p)"

definition read_file :: "string \<Rightarrow> string option script" where
  "read_file p = act (\<lambda>h os. ho_read h os p) (Read_File p)"

definition remove_file :: "string \<Rightarrow> unit script" where
  "remove_file p = act (\<lambda>h os. ()) (Remove_File p)"

definition can_bind :: "nat \<Rightarrow> bool script" where
  "can_bind port = act (\<lambda>h os. ho_binds h os port) (Bind port)"

definition pause_for :: "nat \<Rightarrow> unit script" where
  "pause_for ms = act (\<lambda>h os. ()) (Thread_Sleep ms)"

text \<open>The \<open>?\<close> of the source, and a loop over a list.\<close>

definition or_fail :: "('e + 'a) script \<Rightarrow> ('a \<Rightarrow> ('e + 'b) script) \<Rightarrow> ('e + 'b) script" where
  "or_fail m f = follow m (\<lambda>r. case r of Inl e \<Rightarrow> finish (Inl e) | Inr a \<Rightarrow> f a)"

fun each :: "('x \<Rightarrow> unit script) \<Rightarrow> 'x list \<Rightarrow> unit script" where
  "each f [] = finish ()"
| "each f (x # xs) = follow (f x) (\<lambda>_. each f xs)"

subsection \<open>Numbers and words\<close>

text \<open>\<open>parse::<i32>\<close> and \<open>split_whitespace\<close>.\<close>

definition parse_i32 :: "string \<Rightarrow> int option" where
  "parse_i32 s =
     (case s of
        [] \<Rightarrow> None
      | c # t \<Rightarrow>
          if c = CHR ''-'' then
            (if t = [] then None
             else (case dec_value 0 t of None \<Rightarrow> None | Some n \<Rightarrow> if n \<le> 2 ^ 31 then Some (- int n) else None))
          else map_option int (parse_uint 31 s))"

fun take_word :: "string \<Rightarrow> string \<times> string" where
  "take_word [] = ([], [])"
| "take_word (c # s) =
     (if list_ex (\<lambda>w. starts_with w (c # s)) white_space then ([], c # s)
      else (let (w, r) = take_word s in (c # w, r)))"

lemma take_word_append: "take_word s = (w, r) \<Longrightarrow> s = w @ r"
  by (induction s arbitrary: w r) (auto split: if_splits prod.splits)

lemma strip_seqs_length: "length (strip_seqs ws s) \<le> length s"
proof (induction ws s rule: strip_seqs.induct)
  case (1 ws s)
  show ?case
  proof (cases "find (\<lambda>w. w \<noteq> [] \<and> starts_with w s) ws")
    case (Some w)
    then have "strip_seqs ws s = strip_seqs ws (drop (length w) s)" by (subst strip_seqs.simps) simp
    moreover have "length (strip_seqs ws (drop (length w) s)) \<le> length (drop (length w) s)" using 1 [OF Some] .
    ultimately show ?thesis by simp
  qed (subst strip_seqs.simps, simp)
qed

lemma strip_seqs_stops: "strip_seqs ws s = c # t \<Longrightarrow> w \<in> set ws \<Longrightarrow> w \<noteq> [] \<Longrightarrow> \<not> starts_with w (c # t)"
proof (induction ws s rule: strip_seqs.induct)
  case (1 ws s)
  show ?case
  proof (cases "find (\<lambda>w. w \<noteq> [] \<and> starts_with w s) ws")
    case None
    then have "s = c # t" using 1(2) by (subst (asm) strip_seqs.simps) simp
    then show ?thesis using None 1(3,4) by (auto simp: find_None_iff)
  next
    case (Some w')
    then have "strip_seqs ws (drop (length w') s) = c # t" using 1(2) by (subst (asm) strip_seqs.simps) simp
    then show ?thesis using 1(1) [OF Some] 1(3,4) by blast
  qed
qed

function split_whitespace :: "string \<Rightarrow> string list" where
  "split_whitespace s =
     (case trim_start s of
        [] \<Rightarrow> []
      | c # t \<Rightarrow> (let (w, r) = take_word (c # t) in w # split_whitespace r))"
  by pat_completeness auto
termination
proof (relation "measure length")
  fix s c t x w r
  assume s: "trim_start s = c # t" and x: "x = take_word (c # t)" "(w, r) = x"
  have "\<not> starts_with v (c # t)" if "v \<in> set white_space" for v
    using that strip_seqs_stops [of white_space s c t v] s by (auto simp: trim_start_def white_space_def)
  then have "w \<noteq> []" using x by (auto simp: list_ex_iff split: if_splits prod.splits)
  moreover have "c # t = w @ r" using take_word_append [of "c # t" w r] x by simp
  then have "length (c # t) = length w + length r" by (metis length_append)
  ultimately have "length r < length (c # t)" by (cases w) auto
  also have "\<dots> \<le> length s" using strip_seqs_length [of white_space s] s by (simp add: trim_start_def)
  finally show "(r, s) \<in> measure length" by simp
qed simp

declare split_whitespace.simps [simp del]

subsection \<open>Runs\<close>

named_theorems script_defs

lemmas [script_defs] =
  follow_def act_def finish_def output_of_def run_command_def file_exists_def read_file_def remove_file_def can_bind_def
  pause_for_def or_fail_def

text \<open>A script that ends on a host, having done nothing that is not allowed.\<close>

definition runs_with :: "host \<Rightarrow> (host_op \<Rightarrow> bool) \<Rightarrow> 'a script \<Rightarrow> bool" where
  "runs_with h allowed m \<longleftrightarrow> (\<forall>os. \<exists>a os'. m h os = Some (a, os @ os') \<and> list_all allowed os')"

named_theorems runs_intros

lemma runs_finish [runs_intros]: "runs_with h P (finish a)"
  by (simp add: runs_with_def finish_def)

lemma runs_act [runs_intros]: "P x \<Longrightarrow> runs_with h P (act f x)"
  by (simp add: runs_with_def act_def)

lemma runs_follow [runs_intros]:
  assumes "runs_with h P m" and "\<And>a. runs_with h P (f a)"
  shows "runs_with h P (follow m f)"
  unfolding runs_with_def
proof
  fix os
  obtain a xs where m: "m h os = Some (a, os @ xs)" "list_all P xs" using assms(1) unfolding runs_with_def by blast
  obtain b ys where f: "f a h (os @ xs) = Some (b, (os @ xs) @ ys)" "list_all P ys"
    using assms(2) unfolding runs_with_def by blast
  show "\<exists>a os'. follow m f h os = Some (a, os @ os') \<and> list_all P os'"
    using m f by (intro exI [of _ b] exI [of _ "xs @ ys"]) (simp add: follow_def)
qed

lemma runs_or_fail [runs_intros]:
  "runs_with h P m \<Longrightarrow> (\<And>a. runs_with h P (f a)) \<Longrightarrow> runs_with h P (or_fail m f)"
  unfolding or_fail_def by (rule runs_follow) (auto intro: runs_finish split: sum.split)

lemma runs_each [runs_intros]: "(\<And>x. x \<in> set xs \<Longrightarrow> runs_with h P (f x)) \<Longrightarrow> runs_with h P (each f xs)"
  by (induction xs) (auto intro: runs_intros)

lemma runs_if [runs_intros]: "runs_with h P m \<Longrightarrow> runs_with h P n \<Longrightarrow> runs_with h P (if b then m else n)"
  by simp

lemma runs_option [runs_intros]:
  "runs_with h P n \<Longrightarrow> (\<And>a. runs_with h P (m a)) \<Longrightarrow> runs_with h P (case v of None \<Rightarrow> n | Some a \<Rightarrow> m a)"
  by (cases v) simp_all

lemma runs_sum [runs_intros]:
  "(\<And>e. runs_with h P (n e)) \<Longrightarrow> (\<And>a. runs_with h P (m a)) \<Longrightarrow> runs_with h P (case v of Inl e \<Rightarrow> n e | Inr a \<Rightarrow> m a)"
  by (cases v) simp_all

lemma runs_prod [runs_intros]: "(\<And>a b. runs_with h P (m a b)) \<Longrightarrow> runs_with h P (case v of (a, b) \<Rightarrow> m a b)"
  by (cases v) simp

lemma runs_ops [runs_intros]:
  "P (Output p as) \<Longrightarrow> runs_with h P (output_of p as)" "P (Output p as) \<Longrightarrow> runs_with h P (run_command p as)"
  "P (Exists q) \<Longrightarrow> runs_with h P (file_exists q)" "P (Read_File q) \<Longrightarrow> runs_with h P (read_file q)"
  "P (Remove_File q) \<Longrightarrow> runs_with h P (remove_file q)" "P (Bind n) \<Longrightarrow> runs_with h P (can_bind n)"
  "P (Thread_Sleep n) \<Longrightarrow> runs_with h P (pause_for n)"
  unfolding output_of_def run_command_def file_exists_def read_file_def remove_file_def can_bind_def pause_for_def
  by (rule runs_act, assumption)+

end
