(* ===== verification/Mcp_Proxy.thy ===== *)
theory Mcp_Proxy
  imports Rust_Str Utf8_Lossy
begin

section \<open>The proxy between standard input and an MCP server\<close>

text \<open>
  \<open>mcp_proxy.rs\<close> of \<open>crates/vscreen\<close>. The proxy posts each line it reads to the server and writes
  what the server answers to standard output, one line per message; a second task listens for
  notifications. The HTTP client is a parameter: the server is a function from the requests it
  has got so far to its answer to the last one. What is written has its line feed left out. A
  line that cannot be written is lost, as are messages for the log.
\<close>

subsection \<open>Event streams\<close>

text \<open>What the body of an answer brings: bytes, or an error of the connection.\<close>

datatype chunk = Chunk string | Broken

definition data_line :: "string \<Rightarrow> string option" where
  "data_line l =
     (case strip_prefix ''data:'' l of
        None \<Rightarrow> None
      | Some d \<Rightarrow> (let d' = trim d in if d' = [] then None else Some d'))"

definition event_data :: "string \<Rightarrow> string list" where
  "event_data block = List.map_filter data_line (str_lines block)"

text \<open>The events that are complete, and what is left in the buffer.\<close>

function take_events :: "string \<Rightarrow> string list \<times> string" where
  "take_events buffer =
     (case str_find [LF, LF] buffer of
        None \<Rightarrow> ([], buffer)
      | Some pos \<Rightarrow>
          (let (out, rest) = take_events (drop (pos + 2) buffer) in (event_data (take pos buffer) @ out, rest)))"
  by pat_completeness auto
termination
  by (relation "measure length") (auto dest!: str_find_Some)

declare take_events.simps [simp del]

fun sse_loop :: "string \<Rightarrow> chunk list \<Rightarrow> string list \<times> string" where
  "sse_loop buffer [] = ([], buffer)"
| "sse_loop buffer (Broken # cs) = ([], buffer)"
| "sse_loop buffer (Chunk c # cs) =
     (if utf8_valid c then
        (let (out, rest) = take_events (buffer @ c); (out', rest') = sse_loop rest cs in (out @ out', rest'))
      else sse_loop buffer cs)"

definition handle_sse_response :: "chunk list \<Rightarrow> string list" where
  "handle_sse_response cs =
     (let (out, rest) = sse_loop [] cs in out @ (if rest \<noteq> [] then event_data rest else []))"

subsection \<open>Requests\<close>

record proxy_request =
  pq_method :: string
  pq_session :: "string option"
  pq_body :: string

record proxy_answer =
  pa_status :: nat
  pa_session :: "string option"
  pa_content_type :: "string option"
  pa_chunks :: "chunk list"
  pa_text :: "string option"

type_synonym proxy_server = "proxy_request list \<Rightarrow> string + proxy_answer"

text \<open>\<open>replace\<close> of one character by another.\<close>

definition failed_post :: "string \<Rightarrow> string" where
  "failed_post e =
     ''{\"jsonrpc\":\"2.0\",\"error\":{\"code\":-32603,\"message\":\"proxy POST failed: '' @
     map (\<lambda>c. if c = CHR 0x22 then CHR 0x27 else c) e @ ''\"},\"id\":null}''"

definition answer_lines :: "proxy_answer \<Rightarrow> string list" where
  "answer_lines a =
     (if pa_status a = 202 then []
      else if str_contains ''text/event-stream'' (case pa_content_type a of Some t \<Rightarrow> t | None \<Rightarrow> [])
      then handle_sse_response (pa_chunks a)
      else (case pa_text a of
              Some body \<Rightarrow> (let b = trim body in if b = [] then [] else [b])
            | None \<Rightarrow> []))"

text \<open>One line of the input: the session and the requests after it, and what is written.\<close>

definition proxy_line ::
  "proxy_server \<Rightarrow> string \<Rightarrow> string option \<times> proxy_request list \<Rightarrow> (string option \<times> proxy_request list) \<times> string list" where
  "proxy_line server line s =
     (case s of (sid, reqs) \<Rightarrow>
      let trimmed = trim line in
      if trimmed = [] then (s, [])
      else
        (let reqs' = reqs @ [\<lparr>pq_method = ''POST'', pq_session = sid, pq_body = trimmed\<rparr>] in
         case server reqs' of
           Inl e \<Rightarrow> ((sid, reqs'), [failed_post e])
         | Inr a \<Rightarrow>
             ((case pa_session a of Some new_sid \<Rightarrow> Some new_sid | None \<Rightarrow> sid, reqs'), answer_lines a)))"

text \<open>The input is a list of lines that ends with its end, or with an error of reading.\<close>

datatype input_line = Line string | Read_Error string

fun stdio_loop ::
  "proxy_server \<Rightarrow> input_line list \<Rightarrow> string option \<times> proxy_request list \<Rightarrow>
     (string option \<times> proxy_request list) \<times> string list \<times> (string + unit)" where
  "stdio_loop server [] s = (s, [], Inr ())"
| "stdio_loop server (Read_Error e # ls) s = (s, [], Inl (''stdin read error: '' @ e))"
| "stdio_loop server (Line l # ls) s =
     (let (s', out) = proxy_line server l s; (s'', out', r) = stdio_loop server ls s' in (s'', out @ out', r))"

text \<open>Listening for notifications; the server's answer to the GET is given.\<close>

definition run_sse_listener :: "string + proxy_answer \<Rightarrow> string list \<times> (string + unit)" where
  "run_sse_listener answer =
     (case answer of
        Inl e \<Rightarrow> ([], Inl (''SSE GET failed: '' @ e))
      | Inr a \<Rightarrow>
          if \<not> (200 \<le> pa_status a \<and> pa_status a < 300) then
            ([], if pa_status a = 405 then Inr () else Inl (''SSE GET returned '' @ show_nat (pa_status a)))
          else (handle_sse_response (pa_chunks a), Inr ()))"

subsection \<open>Both tasks\<close>

text \<open>The two tasks share standard output, behind a mutex that is held for one line. The listener starts once a
  session is known, with the one it sees then, \<open>listen sid\<close> being the answer to it; it is aborted
  when the input ends.\<close>

record proxy =
  px_input :: "string list"
  px_session :: "string option"
  px_requests :: "proxy_request list"
  px_answers :: "string list"
  px_listening :: "string option"
  px_notes :: "string list"
  px_written :: "string list"

definition proxy_start :: "string list \<Rightarrow> proxy" where
  "proxy_start input =
     \<lparr>px_input = input, px_session = None, px_requests = [], px_answers = [], px_listening = None,
      px_notes = [], px_written = []\<rparr>"

inductive proxy_step ::
  "proxy_server \<Rightarrow> (string \<Rightarrow> string + proxy_answer) \<Rightarrow> proxy \<Rightarrow> proxy \<Rightarrow> bool" for server listen where
  proxy_reads: "px_answers p = [] \<Longrightarrow> px_input p = l # ls \<Longrightarrow>
    proxy_line server l (px_session p, px_requests p) = ((sid, reqs), out) \<Longrightarrow>
    proxy_step server listen p
      (p\<lparr>px_input := ls, px_session := sid, px_requests := reqs, px_answers := out\<rparr>)"
| proxy_answers: "px_answers p = l # out \<Longrightarrow>
    proxy_step server listen p (p\<lparr>px_answers := out, px_written := px_written p @ [l]\<rparr>)"
| proxy_listens: "px_listening p = None \<Longrightarrow> px_session p = Some sid \<Longrightarrow>
    proxy_step server listen p (p\<lparr>px_listening := Some sid, px_notes := fst (run_sse_listener (listen sid))\<rparr>)"
| proxy_notes: "px_notes p = l # ms \<Longrightarrow>
    proxy_step server listen p (p\<lparr>px_notes := ms, px_written := px_written p @ [l]\<rparr>)"

inductive proxy_reachable ::
  "proxy_server \<Rightarrow> (string \<Rightarrow> string + proxy_answer) \<Rightarrow> string list \<Rightarrow> proxy \<Rightarrow> bool" for server listen input where
  proxy_new: "proxy_reachable server listen input (proxy_start input)"
| proxy_next: "proxy_reachable server listen input p \<Longrightarrow> proxy_step server listen p p' \<Longrightarrow>
    proxy_reachable server listen input p'"

section \<open>Properties\<close>

subsection \<open>Cutting a stream into chunks\<close>

lemma take_events_append:
  "take_events (a @ b) = (let (out, rest) = take_events a; (out', rest') = take_events (rest @ b) in (out @ out', rest'))"
proof (induction a rule: take_events.induct)
  case (1 a)
  show ?case
  proof (cases "str_find [LF, LF] a")
    case None
    then have "take_events a = ([], a)" by (subst take_events.simps) simp
    then show ?thesis by (simp add: case_prod_unfold)
  next
    case (Some pos)
    then have le: "pos + 2 \<le> length a" by (auto dest!: str_find_Some)
    have "take_events (a @ b) =
        (let (out, rest) = take_events (drop (pos + 2) a @ b) in (event_data (take pos a) @ out, rest))"
      using str_find_append [OF Some, of b] le by (subst take_events.simps) simp
    moreover have "take_events a =
        (let (out, rest) = take_events (drop (pos + 2) a) in (event_data (take pos a) @ out, rest))"
      using Some by (subst take_events.simps) simp
    ultimately show ?thesis using 1 [OF Some] by (simp add: case_prod_unfold Let_def)
  qed
qed

lemma utf8_valid_append: "utf8_valid a \<Longrightarrow> utf8_valid b \<Longrightarrow> utf8_valid (a @ b)"
  by (induction a rule: utf8_valid.induct) (auto split: if_splits list.splits)

lemma utf8_valid_concat: "list_all utf8_valid cs \<Longrightarrow> utf8_valid (concat cs)"
  by (induction cs) (simp_all add: utf8_valid_append)

lemma take_events_rest: "take_events (snd (take_events a)) = ([], snd (take_events a))"
proof (induction a rule: take_events.induct)
  case (1 a)
  show ?case
  proof (cases "str_find [LF, LF] a")
    case None
    then have "take_events a = ([], a)" by (subst take_events.simps) simp
    then show ?thesis by simp
  next
    case (Some pos)
    then have "snd (take_events a) = snd (take_events (drop (pos + 2) a))"
      by (subst take_events.simps) (simp add: case_prod_unfold Let_def)
    then show ?thesis using 1 [OF Some] by simp
  qed
qed

lemma sse_loop_valid:
  "list_all utf8_valid cs \<Longrightarrow> take_events buffer = ([], buffer) \<Longrightarrow>
   sse_loop buffer (map Chunk cs) = take_events (buffer @ concat cs)"
proof (induction cs arbitrary: buffer)
  case (Cons c cs)
  obtain out rest where e: "take_events (buffer @ c) = (out, rest)" by (cases "take_events (buffer @ c)") simp
  have r: "take_events rest = ([], rest)" using take_events_rest [of "buffer @ c"] e by simp
  show ?case
    using Cons e r take_events_append [of "buffer @ c" "concat cs"] by (simp add: case_prod_unfold Let_def)
qed simp


text \<open>It does not matter how a stream is cut into chunks, as long as no character is cut: what is written is
  what would be written if the stream came in one piece.\<close>

theorem proxy_stream_chunks:
  assumes "list_all utf8_valid cs"
  shows "handle_sse_response (map Chunk cs) = handle_sse_response [Chunk (concat cs)]"
proof -
  have "take_events [] = ([], [])" by (subst take_events.simps) (simp add: str_find_def)
  then show ?thesis
    using sse_loop_valid [OF assms, of "[]"] sse_loop_valid [of "[concat cs]" "[]"] utf8_valid_concat [OF assms]
    by (simp add: handle_sse_response_def del: sse_loop.simps)
qed

text \<open>A chunk that begins or ends inside a character is left out as a whole, with every event in it.\<close>

lemma cut_character_lost: "\<not> utf8_valid c \<Longrightarrow> sse_loop buffer (Chunk c # cs) = sse_loop buffer cs"
  by simp

subsection \<open>Messages of a stream\<close>

text \<open>An event as a server sends it: other lines, then its data, and an empty line.\<close>

definition sse_event :: "string list \<Rightarrow> string \<Rightarrow> string" where
  "sse_event hs m = concat (map (\<lambda>h. h @ [LF]) hs) @ ''data: '' @ m @ [LF, LF]"

definition clean_event :: "string list \<times> string \<Rightarrow> bool" where
  "clean_event e =
     (snd e \<noteq> [] \<and> LF \<notin> set (snd e) \<and> graphic (hd (snd e)) \<and> graphic (last (snd e)) \<and> (\<forall>h \<in> set (fst e). h \<noteq> [] \<and> LF \<notin> set h \<and> CR \<notin> set h \<and> \<not> starts_with ''data:'' h))"

lemma find_double:
  "LF \<notin> set h \<Longrightarrow> c \<noteq> LF \<Longrightarrow> find_from i [LF, LF] (h @ LF # c # s) = find_from (i + length h + 1) [LF, LF] (c # s)"
  by (subst find_from_skip) (simp_all add: starts_with_def)

lemma find_event_end:
  assumes "\<forall>h \<in> set hs. h \<noteq> [] \<and> LF \<notin> set h" and "l \<noteq> []" and "LF \<notin> set l"
  shows "find_from i [LF, LF] (concat (map (\<lambda>h. h @ [LF]) hs) @ l @ LF # LF # s) =
    Some (i + length (concat (map (\<lambda>h. h @ [LF]) hs) @ l))"
  using assms(1)
proof (induction hs arbitrary: i)
  case Nil
  then show ?case using assms(3) by (simp add: find_from_skip starts_with_def)
next
  case (Cons h hs)
  let ?t = "concat (map (\<lambda>h. h @ [LF]) hs) @ l @ LF # LF # s"
  obtain c t where t: "?t = c # t" "c \<noteq> LF"
    using Cons.prems assms(2,3) by (cases hs; cases l; cases "hd hs") auto
  have "find_from i [LF, LF] (h @ LF # ?t) = find_from (i + length h + 1) [LF, LF] ?t"
    unfolding t(1) by (rule find_double) (use Cons.prems t in auto)
  then show ?case using Cons by simp
qed

lemma str_lines_LF: "LF \<notin> set a \<Longrightarrow> CR \<notin> set a \<Longrightarrow> str_lines (a @ LF # b) = a # str_lines b"
proof -
  assume a: "LF \<notin> set a" "CR \<notin> set a"
  then have "a = [] \<or> last a \<noteq> CR" by (metis last_in_set)
  then show ?thesis using a by (auto simp: str_lines_def split_inclusive_line strip_eol_def butlast_append Let_def)
qed

lemma event_data_block:
  assumes "clean_event (hs, m)"
  shows "event_data (concat (map (\<lambda>h. h @ [LF]) hs) @ ''data: '' @ m) = [m]"
proof -
  have m: "m \<noteq> []" "LF \<notin> set m" "trim m = m" using assms by (auto simp: clean_event_def trim_graphic)
  have "str_lines (concat (map (\<lambda>h. h @ [LF]) hs) @ ''data: '' @ m) = hs @ [''data: '' @ m]"
    using assms
  proof (induction hs)
    case Nil
    then show ?case using m by (simp add: str_lines_last)
  next
    case (Cons h hs)
    then have "clean_event (hs, m)" "LF \<notin> set h" "CR \<notin> set h" by (auto simp: clean_event_def)
    then show ?case using Cons.IH by (simp add: str_lines_LF)
  qed
  moreover have "data_line h = None" if "h \<in> set hs" for h
    using that assms by (auto simp: clean_event_def data_line_def starts_with_def)
  then have "List.map_filter data_line hs = []" by (auto simp: List.map_filter_def filter_empty_conv)
  moreover have "data_line (''data: '' @ m) = Some m" using m by (simp add: data_line_def trim_start_leading_space)
  ultimately show ?thesis by (simp add: event_data_def List.map_filter_def)
qed

lemma take_event:
  assumes "clean_event (hs, m)"
  shows "take_events (sse_event hs m @ s) = (m # fst (take_events s), snd (take_events s))"
proof -
  define b where "b = concat (map (\<lambda>h. h @ [LF]) hs) @ ''data: '' @ m"
  have f: "str_find [LF, LF] (b @ [LF, LF] @ s) = Some (length b)"
    using find_event_end [of hs "''data: '' @ m" 0 s] assms by (auto simp: str_find_def clean_event_def b_def)
  have e: "sse_event hs m @ s = b @ [LF, LF] @ s" by (simp add: sse_event_def b_def)
  have d: "event_data b = [m]" unfolding b_def by (rule event_data_block [OF assms])
  show ?thesis unfolding e using f d by (subst take_events.simps) (simp add: case_prod_unfold Let_def)
qed

text \<open>Every message of a stream is written, once, in order and as it is, whatever other lines its events have
  and however the stream is cut between characters.\<close>

theorem stream_delivers:
  assumes "list_all clean_event es" and "list_all utf8_valid cs"
    and "concat cs = concat (map (\<lambda>(hs, m). sse_event hs m) es)"
  shows "handle_sse_response (map Chunk cs) = map snd es"
proof -
  have e: "take_events [] = ([], [])" by (subst take_events.simps) (simp add: str_find_def)
  have "take_events (concat (map (\<lambda>(hs, m). sse_event hs m) es)) = (map snd es, [])"
    using assms(1)
  proof (induction es)
    case (Cons x es)
    then show ?case by (cases x) (simp add: take_event)
  qed (simp add: e)
  then show ?thesis
    using sse_loop_valid [OF assms(2) e] assms(3) by (simp add: handle_sse_response_def)
qed

lemma stream_delivers_witness:
  "handle_sse_response [Chunk (''event: message'' @ LF # ''data: {'' ), Chunk (''}'' @ [LF, LF])] = [''{}'']"
proof -
  have "concat [''event: message'' @ LF # ''data: {'', ''}'' @ [LF, LF]] =
      concat (map (\<lambda>(hs, m). sse_event hs m) [([''event: message''], ''{}'')])"
    by (simp add: sse_event_def)
  moreover have "list_all clean_event [([''event: message''], ''{}'')]"
    by (simp add: clean_event_def byte_in_def starts_with_def)
  moreover have "list_all utf8_valid [''event: message'' @ LF # ''data: {'', ''}'' @ [LF, LF]]"
    by (simp add: byte_in_def)
  ultimately show ?thesis using stream_delivers by fastforce
qed

subsection \<open>Requests and sessions\<close>

text \<open>The session the last answer with one gave.\<close>

definition known :: "proxy_server \<Rightarrow> string option \<Rightarrow> proxy_request list \<Rightarrow> nat \<Rightarrow> string option" where
  "known server sid reqs k =
     fold (\<lambda>i s. case server (take (Suc i) reqs) of
         Inl _ \<Rightarrow> s
       | Inr a \<Rightarrow> (case pa_session a of Some t \<Rightarrow> Some t | None \<Rightarrow> s)) [0..<k] sid"

lemma known_append: "k \<le> length reqs \<Longrightarrow> known server sid (reqs @ rs) k = known server sid reqs k"
  unfolding known_def by (rule fold_cong) auto

lemma stdio_loop_runs:
  assumes "stdio_loop server (map Line ls) (sid, reqs) = ((sid', reqs'), out, r)"
    and "sid = known server None reqs (length reqs)"
    and "\<forall>k < length reqs. pq_session (reqs ! k) = known server None reqs k"
  shows "r = Inr () \<and> map pq_body reqs' = map pq_body reqs @ filter (\<lambda>b. b \<noteq> []) (map trim ls) \<and>
    (\<forall>k < length reqs'. pq_session (reqs' ! k) = known server None reqs' k)"
  using assms
proof (induction ls arbitrary: sid reqs out)
  case (Cons l ls)
  obtain sid1 reqs1 out1 where p: "proxy_line server l (sid, reqs) = ((sid1, reqs1), out1)"
    by (metis prod.collapse)
  then obtain out2 where l: "stdio_loop server (map Line ls) (sid1, reqs1) = ((sid', reqs'), out2, r)"
    using Cons.prems(1) by (auto split: prod.splits)
  show ?case
  proof (cases "trim l = []")
    case True
    then have "sid1 = sid" "reqs1 = reqs" using p by (simp_all add: proxy_line_def)
    then show ?thesis using Cons.IH [OF l] Cons.prems(2,3) True by simp
  next
    case False
    let ?r = "\<lparr>pq_method = ''POST'', pq_session = sid, pq_body = trim l\<rparr>"
    have q: "reqs1 = reqs @ [?r]" and s: "sid1 = known server None reqs1 (length reqs1)"
      using p False Cons.prems(2) known_append [of "length reqs" reqs server None "[?r]"]
      by (auto simp: proxy_line_def Let_def known_def split: sum.splits option.splits)
    have "pq_session (reqs1 ! k) = known server None reqs1 k" if "k < length reqs1" for k
      using that Cons.prems(2,3) known_append [of k reqs server None "[?r]"] unfolding q
      by (cases "k = length reqs") (auto simp: nth_append)
    then show ?thesis using Cons.IH [OF l s] q False by simp
  qed
qed simp

text \<open>Each line of the input that is not blank is posted, once and in order, with the session the server named
  last; the loop ends with the input, whatever the server answers.\<close>

theorem proxy_posts_all:
  "\<exists>sid reqs out. stdio_loop server (map Line ls) (None, []) = ((sid, reqs), out, Inr ()) \<and>
     map pq_body reqs = filter (\<lambda>b. b \<noteq> []) (map trim ls) \<and>
     (\<forall>k < length reqs. pq_session (reqs ! k) = known server None reqs k)"
proof -
  obtain sid reqs out r where "stdio_loop server (map Line ls) (None, []) = ((sid, reqs), out, r)"
    by (metis prod.collapse)
  from stdio_loop_runs [OF this] this show ?thesis by (simp add: known_def)
qed

text \<open>A failed request is answered without its identifier, and an error with a backslash or a line break in its text
  is copied into the JSON text as it is.\<close>

lemma failed_post_null: "\<exists>e. LF \<in> set (failed_post e)"
  by (intro exI [of _ "[LF]"]) (simp add: failed_post_def)

subsection \<open>Both tasks together\<close>

lemma shuffles_snoc: "zs \<in> shuffles xs ys \<Longrightarrow> zs @ [z] \<in> shuffles (xs @ [z]) ys"
proof (induction zs arbitrary: xs ys)
  case (Cons w zs)
  then consider xs' where "xs = w # xs'" "zs \<in> shuffles xs' ys" | ys' where "ys = w # ys'" "zs \<in> shuffles xs ys'"
    by (cases xs; cases ys) (auto simp: Cons_in_shuffles_iff)
  then show ?case by cases (auto dest: Cons.IH intro: Cons_in_shuffles_leftI Cons_in_shuffles_rightI)
qed simp

lemma stdio_loop_snoc:
  "stdio_loop server (map Line ls @ [Line l]) s =
     (case stdio_loop server (map Line ls) s of (s', out, r) \<Rightarrow>
        case proxy_line server l s' of (s'', out') \<Rightarrow> (s'', out @ out', Inr ()))"
proof (induction ls arbitrary: s)
  case Nil
  then show ?case by (simp add: case_prod_unfold Let_def)
next
  case (Cons k ls)
  then show ?case by (simp add: case_prod_unfold Let_def)
qed

text \<open>C38: Standard output mixes whole lines of the two tasks and nothing else: at every moment it is an interleaving of
  the first lines of what the requests so far are answered with and the first lines of what the
  listener receives, each in its order.\<close>

theorem proxy_interleaves:
  assumes "proxy_reachable server listen input p"
  shows "\<exists>ls xs ys. input = ls @ px_input p \<and>
    stdio_loop server (map Line ls) (None, []) = ((px_session p, px_requests p), xs @ px_answers p, Inr ()) \<and>
    ys @ px_notes p = (case px_listening p of None \<Rightarrow> [] | Some sid \<Rightarrow> fst (run_sse_listener (listen sid))) \<and>
    px_written p \<in> shuffles xs ys"
  using assms
proof induction
  case proxy_new
  then show ?case by (intro exI [of _ "[]"]) (simp add: proxy_start_def)
next
  case (proxy_next p p')
  then obtain ls xs ys where i: "input = ls @ px_input p"
    "stdio_loop server (map Line ls) (None, []) = ((px_session p, px_requests p), xs @ px_answers p, Inr ())"
    "ys @ px_notes p = (case px_listening p of None \<Rightarrow> [] | Some sid \<Rightarrow> fst (run_sse_listener (listen sid)))"
    "px_written p \<in> shuffles xs ys"
    by blast
  from proxy_next.hyps(2) show ?case
  proof cases
    case (proxy_reads l rest sid reqs out)
    then show ?thesis
      using i by - (rule exI [of _ "ls @ [l]"], rule exI [of _ xs], rule exI [of _ ys], simp add: stdio_loop_snoc)
  next
    case (proxy_answers l out)
    then show ?thesis
      using i shuffles_snoc [OF i(4), of l] by - (rule exI [of _ ls], rule exI [of _ "xs @ [l]"], rule exI [of _ ys], simp)
  next
    case (proxy_listens sid)
    then show ?thesis using i by - (rule exI [of _ ls], rule exI [of _ xs], rule exI [of _ "[]"], simp)
  next
    case (proxy_notes l ms)
    then show ?thesis
      using i shuffles_snoc [of "px_written p" ys xs l] shuffles_commutes [of xs]
      by - (rule exI [of _ ls], rule exI [of _ xs], rule exI [of _ "ys @ [l]"], auto)
  qed
qed

text \<open>A server that answers one message in text.\<close>

definition example_server :: proxy_server where
  "example_server reqs =
     Inr \<lparr>pa_status = 200, pa_session = Some ''s'', pa_content_type = Some ''application/json'', pa_chunks = [],
          pa_text = Some ''{}''\<rparr>"

lemma proxy_interleaves_witness:
  "\<exists>p ls xs ys. proxy_reachable example_server (\<lambda>_. Inl ''refused'') [''x''] p \<and> [''x''] = ls @ px_input p \<and>
     px_session p = Some ''s'' \<and> px_written p \<in> shuffles xs ys"
proof -
  let ?p = "(proxy_start [''x''])\<lparr>px_input := [], px_session := Some ''s'',
    px_requests := [\<lparr>pq_method = ''POST'', pq_session = None, pq_body = trim ''x''\<rparr>], px_answers := [''{}'']\<rparr>"
  have t: "trim ''x'' = ''x''" "trim ''{}'' = ''{}''" by (simp_all add: trim_graphic byte_in_def)
  have "proxy_line example_server ''x'' (None, []) =
      ((Some ''s'', [\<lparr>pq_method = ''POST'', pq_session = None, pq_body = trim ''x''\<rparr>]), [''{}''])"
    by (simp add: proxy_line_def example_server_def answer_lines_def str_contains_def str_find_def starts_with_def t)
  then have "proxy_step example_server (\<lambda>_. Inl ''refused'') (proxy_start [''x'']) ?p"
    by (intro proxy_reads) (simp_all add: proxy_start_def)
  then have r: "proxy_reachable example_server (\<lambda>_. Inl ''refused'') [''x''] ?p"
    by (rule proxy_next [OF proxy_new])
  show ?thesis using proxy_interleaves [OF r] r by fastforce
qed

end
