(* ===== verification/Dev_Fetch.thy ===== *)
theory Dev_Fetch
  imports Json Mcp_Proxy
begin

section \<open>Asking Chromium for its address\<close>

text \<open>
  The end of \<open>dev.rs\<close> (\<open>crates/vscreen\<close>): a GET over a plain socket, whose answer is looked at after
  each read, and the address of the debugger in it. The reads of the socket are a list: bytes, of
  which none mean the end, or an error; parsing JSON is a parameter.
\<close>

subsection \<open>Definitions\<close>

text \<open>The first line that gives a length.\<close>

definition length_of_line :: "string \<Rightarrow> nat option" where
  "length_of_line l =
     (case strip_prefix ''content-length:'' (to_lowercase l) of
        None \<Rightarrow> None
      | Some v \<Rightarrow> parse_uint 64 (trim v))"

fun content_length :: "string list \<Rightarrow> nat option" where
  "content_length [] = None"
| "content_length (l # ls) = (case length_of_line l of Some n \<Rightarrow> Some n | None \<Rightarrow> content_length ls)"

definition try_extract_body :: "string \<Rightarrow> string option" where
  "try_extract_body buf =
     (case str_find [CR, LF, CR, LF] buf of
        None \<Rightarrow> None
      | Some header_end \<Rightarrow>
          (let headers = take header_end buf; body = drop (header_end + 4) buf in
           if \<not> utf8_valid headers then None
           else
             (case content_length (str_lines headers) of
                Some cl \<Rightarrow>
                  if cl \<le> length body then (if utf8_valid (take cl body) then Some (take cl body) else None)
                  else None
              | None \<Rightarrow>
                  if \<not> utf8_valid body then None
                  else
                    (let trimmed = trim body in
                     if trimmed \<noteq> [] \<and> (last trimmed = CHR '']'' \<or> last trimmed = CHR ''}'') then Some trimmed
                     else None))))"

fun read_response :: "string \<Rightarrow> (string + string) list \<Rightarrow> string + string" where
  "read_response buf [] = (case try_extract_body buf of Some b \<Rightarrow> Inr b | None \<Rightarrow> Inl ''no HTTP body'')"
| "read_response buf (Inl e # rs) = Inl (''read: '' @ e)"
| "read_response buf (Inr [] # rs) = (case try_extract_body buf of Some b \<Rightarrow> Inr b | None \<Rightarrow> Inl ''no HTTP body'')"
| "read_response buf (Inr (c # cs) # rs) =
     (case try_extract_body (buf @ c # cs) of
        Some b \<Rightarrow> Inr b
      | None \<Rightarrow> read_response (buf @ c # cs) rs)"

definition host_and_path :: "string \<Rightarrow> string \<times> string" where
  "host_and_path url =
     (let parts = splitn 2 CHR ''/'' (case strip_prefix ''http://'' url of Some u \<Rightarrow> u | None \<Rightarrow> url) in
      (hd parts, case tl parts of p # _ \<Rightarrow> p | [] \<Rightarrow> ''/''))"

definition get_request :: "string \<Rightarrow> string" where
  "get_request url =
     (case host_and_path url of (host_port, path) \<Rightarrow>
      ''GET /'' @ path @ '' HTTP/1.1'' @ CRLF @ ''Host: '' @ host_port @ CRLF @ ''Connection: close'' @ CRLF @ CRLF)"

text \<open>\<open>dial\<close> connects, sends the request and gives the reads, or an error.\<close>

definition fetch_http_get :: "(string \<Rightarrow> string \<Rightarrow> string + (string + string) list) \<Rightarrow> string \<Rightarrow> string + string" where
  "fetch_http_get dial url =
     (case dial (fst (host_and_path url)) (get_request url) of
        Inl e \<Rightarrow> Inl e
      | Inr reads \<Rightarrow> read_response [] reads)"

definition reqwest_cdp_endpoint :: "(string \<Rightarrow> string + json list) \<Rightarrow> string + string \<Rightarrow> string + string" where
  "reqwest_cdp_endpoint parse response =
     (case response of
        Inl e \<Rightarrow> Inl e
      | Inr txt \<Rightarrow>
          (case parse txt of
             Inl e \<Rightarrow> Inl (''parse CDP json: '' @ e)
           | Inr entries \<Rightarrow>
               (case Option.bind (case entries of e # _ \<Rightarrow> jget ''webSocketDebuggerUrl'' e | [] \<Rightarrow> None) as_str of
                  Some url \<Rightarrow> Inr url
                | None \<Rightarrow> Inl ''no webSocketDebuggerUrl in CDP response'')))"

subsection \<open>Properties\<close>

lemma find_in_prefix:
  assumes "str_find p (a @ b) = Some n"
  shows "str_find p a = None \<or> str_find p a = Some n"
  using assms str_find_append [of p a _ b] by (cases "str_find p a") auto

lemma body_of_whole:
  assumes "str_find [CR, LF, CR, LF] (h @ [CR, LF, CR, LF] @ body) = Some (length h)"
    and "utf8_valid h" "content_length (str_lines h) = Some (length body)" "utf8_valid body"
  shows "try_extract_body (h @ [CR, LF, CR, LF] @ body) = Some body"
  using assms by (simp add: try_extract_body_def)

lemma no_body_of_part:
  assumes "str_find [CR, LF, CR, LF] (h @ [CR, LF, CR, LF] @ body) = Some (length h)"
    and "utf8_valid h" "content_length (str_lines h) = Some (length body)"
    and "h @ [CR, LF, CR, LF] @ body = a @ b" and "b \<noteq> []"
  shows "try_extract_body a = None"
proof (cases "str_find [CR, LF, CR, LF] a")
  case None
  then show ?thesis by (simp add: try_extract_body_def)
next
  case (Some n)
  then have n: "n = length h" using find_in_prefix [of "[CR, LF, CR, LF]" a b] assms(1,4) by auto
  obtain x y where "a = x @ [CR, LF, CR, LF] @ y" "length x = length h"
    using str_find_Some [OF Some] n by blast
  then have a: "a = h @ [CR, LF, CR, LF] @ y" and "body = y @ b" using assms(4) by auto
  then have "length y < length body" using assms(5) by simp
  then show ?thesis using Some n assms(2,3) unfolding a by (simp add: try_extract_body_def)
qed

text \<open>An answer that gives its length is read completely and no further, however it arrives: the result is its body.\<close>

theorem answer_read:
  assumes "str_find [CR, LF, CR, LF] (h @ [CR, LF, CR, LF] @ body) = Some (length h)"
    and "utf8_valid h" and "content_length (str_lines h) = Some (length body)" and "utf8_valid body"
    and "concat cs = h @ [CR, LF, CR, LF] @ body" and "[] \<notin> set cs"
  shows "read_response [] (map Inr cs @ rs) = Inr body"
proof -
  have "read_response a (map Inr cs @ rs) = Inr body"
    if "a @ concat cs = h @ [CR, LF, CR, LF] @ body" "[] \<notin> set cs" "cs \<noteq> []" for a cs
    using that
  proof (induction cs arbitrary: a)
    case (Cons c cs)
    obtain x xs where c: "c = x # xs" using Cons.prems(2) by (cases c) auto
    show ?case
    proof (cases "cs = []")
      case True
      then show ?thesis using Cons.prems(1) body_of_whole [OF assms(1-4)] c by simp
    next
      case False
      then have "concat cs \<noteq> []" using Cons.prems(2) by (cases cs) auto
      then have "try_extract_body (a @ c) = None"
        using no_body_of_part [OF assms(1-3), of "a @ c" "concat cs"] Cons.prems(1) by simp
      then show ?thesis using Cons.IH [of "a @ c"] Cons.prems False c by simp
    qed
  qed simp
  from this [of "[]" cs] show ?thesis using assms(5,6) by (cases cs) auto
qed

definition example_head :: string where
  "example_head = ''HTTP/1.1 200 OK'' @ CRLF @ ''Content-Length: 2''"

lemma answer_read_witness:
  "read_response [] [Inr (example_head @ [CR, LF]), Inr [CR, LF, CHR ''[''], Inr '']''] = Inr ''[]''"
proof -
  have "read_response [] (map Inr [example_head @ [CR, LF], [CR, LF, CHR ''[''], '']''] @ []) = Inr ''[]''"
  proof (rule answer_read [of example_head])
    show "content_length (str_lines example_head) = Some (length ''[]'')"
    proof -
      have lower: "to_lowercase ''HTTP/1.1 200 OK'' = ''http/1.1 200 ok''"
        "to_lowercase ''Content-Length: 2'' = ''content-length: 2''"
        by code_simp+
      show ?thesis
        by (simp add: example_head_def str_lines_def strip_eol_def length_of_line_def lower parse_uint_def
          trim_start_leading_space trim_graphic is_digit_def byte_in_def)
    qed
  qed (simp_all add: example_head_def str_find_def starts_with_def byte_in_def)
  then show ?thesis by simp
qed

text \<open>Without a length, the answer counts as complete as soon as what has arrived ends in a bracket: half of it is
  taken for all.\<close>

lemma half_taken:
  "read_response [] [Inr (''HTTP/1.1 200 OK'' @ [CR, LF, CR, LF] @ ''[{}''), Inr '', {}]''] = Inr ''[{}''"
proof -
  let ?b = "''HTTP/1.1 200 OK'' @ [CR, LF, CR, LF] @ ''[{}''"
  have f: "str_find [CR, LF, CR, LF] ?b = Some 15" by (simp add: str_find_def starts_with_def)
  have "str_lines ''HTTP/1.1 200 OK'' = [''HTTP/1.1 200 OK'']" by (rule str_lines_last) simp_all
  moreover have "length_of_line ''HTTP/1.1 200 OK'' = None"
    by (simp add: length_of_line_def to_lowercase_def ascii_lower_def byte_in_def)
  ultimately have c: "content_length (str_lines ''HTTP/1.1 200 OK'') = None" by simp
  have "trim ''[{}'' = ''[{}''" by (rule trim_graphic) (simp add: byte_in_def)
  then have "try_extract_body ?b = Some ''[{}''"
    using c unfolding try_extract_body_def f by (simp add: byte_in_def)
  then show ?thesis by simp
qed

end
