(* ===== verification/Dev_Env.thy ===== *)
theory Dev_Env
  imports Host Dev_Fetch
begin

section \<open>The development environment\<close>

text \<open>
  \<open>dev.rs\<close> of \<open>crates/vscreen\<close>: an X server, a sink for sound and a browser, started for tests and
  stopped with everything they left behind. An environment that goes out of scope is stopped, so
  each error in \<open>start\<close> after the checks ends with \<open>dev_stop\<close>. What \<open>fetch_http_get\<close> answers within
  its two seconds is the host's answer to \<open>Ask\<close>; messages for the log are left out.
\<close>

subsection \<open>Ending processes\<close>

definition neg_pgid :: "nat \<Rightarrow> string" where
  "neg_pgid pid = CHR ''-'' # show_nat pid"

definition force_kill :: "nat \<Rightarrow> unit script" where
  "force_kill pid =
     follow (run_command ''kill'' [''-9'', ''--'', neg_pgid pid]) (\<lambda>_.
     follow (act (\<lambda>h os. ()) (Kill_Child pid)) (\<lambda>_. act (\<lambda>h os. ()) (Reap pid)))"

text \<open>The process is looked at every 100 ms until it has ended or the time is over.\<close>

partial_function (option) await_exit :: "nat \<Rightarrow> nat \<Rightarrow> nat \<Rightarrow> host \<Rightarrow> host_op list \<Rightarrow> (unit \<times> host_op list) option" where
  "await_exit pid start timeout h os =
     (case ho_try_wait h os pid of
        Inr exited \<Rightarrow>
          (if exited then Some ((), os @ [Try_Wait pid])
           else if ho_clock h (os @ [Try_Wait pid]) - start < timeout
           then await_exit pid start timeout h (os @ [Try_Wait pid, Thread_Sleep 100])
           else force_kill pid h (os @ [Try_Wait pid]))
      | Inl e \<Rightarrow> force_kill pid h (os @ [Try_Wait pid]))"

text \<open>The two functions have the same body.\<close>

definition stop_child_gracefully :: "nat \<Rightarrow> nat \<Rightarrow> unit script" where
  "stop_child_gracefully pid timeout =
     follow (run_command ''kill'' [''-TERM'', ''--'', neg_pgid pid]) (\<lambda>_ h os. await_exit pid (ho_clock h os) timeout h os)"

definition stop_process_tree :: "nat \<Rightarrow> nat \<Rightarrow> unit script" where
  "stop_process_tree pid timeout =
     follow (run_command ''kill'' [''-TERM'', ''--'', neg_pgid pid]) (\<lambda>_ h os. await_exit pid (ho_clock h os) timeout h os)"

subsection \<open>Sweeping a display\<close>

definition sink_of :: "nat \<Rightarrow> string" where
  "sink_of disp = ''vscreen_dev_'' @ show_nat disp"

definition profile_of :: "nat \<Rightarrow> string" where
  "profile_of disp = ''/tmp/vscreen-chrome-profile-'' @ show_nat disp"

text \<open>What a command printed when it succeeded.\<close>

definition on_success :: "string \<Rightarrow> string list \<Rightarrow> (string \<Rightarrow> unit script) \<Rightarrow> unit script" where
  "on_success prog args f =
     follow (output_of prog args) (\<lambda>r. case r of
         Inr q \<Rightarrow> if co_success q then f (co_stdout q) else finish ()
       | Inl e \<Rightarrow> finish ())"

definition unload_line :: "nat \<Rightarrow> string \<Rightarrow> unit script" where
  "unload_line disp l =
     (if str_contains ''module-null-sink'' l \<and> str_contains (sink_of disp) l then
        (case split_whitespace l of
           module_id # _ \<Rightarrow> run_command ''pactl'' [''unload-module'', module_id]
         | [] \<Rightarrow> finish ())
      else finish ())"

definition remove_if_there :: "string \<Rightarrow> unit script" where
  "remove_if_there p = follow (file_exists p) (\<lambda>e. if e then remove_file p else finish ())"

definition cleanup_stale_processes_for_display :: "nat \<Rightarrow> unit script" where
  "cleanup_stale_processes_for_display disp =
     follow (on_success ''pgrep'' [''-f'', ''Xvfb :'' @ show_nat disp] (\<lambda>pids h.
       each (\<lambda>p. if p \<noteq> show_nat (ho_pid h) then run_command ''kill'' [''-9'', p] else finish ())
         (split_whitespace pids) h)) (\<lambda>_.
     follow (on_success ''pgrep'' [''-f'', profile_of disp] (\<lambda>pids.
       each (\<lambda>p. run_command ''kill'' [''-9'', p]) (split_whitespace pids))) (\<lambda>_.
     follow (on_success ''pactl'' [''list'', ''short'', ''modules''] (\<lambda>listing.
       each (unload_line disp) (str_lines listing))) (\<lambda>_.
     follow (pause_for 500) (\<lambda>_.
     follow (remove_if_there (''/tmp/.X'' @ show_nat disp @ ''-lock'')) (\<lambda>_.
     remove_if_there (''/tmp/.X11-unix/X'' @ show_nat disp))))))"

subsection \<open>Conflicts\<close>

definition pid_file_path :: "nat \<Rightarrow> string" where
  "pid_file_path display = ''/tmp/vscreen-dev-'' @ show_nat display @ ''.pid''"

text \<open>What the first line with the state says.\<close>

fun not_zombie :: "string list \<Rightarrow> bool" where
  "not_zombie [] = False"
| "not_zombie (l # ls) =
     (if starts_with ''State:'' l then \<not> str_contains ''Z (zombie)'' l \<and> \<not> str_contains ''Z ('' l else not_zombie ls)"

definition is_process_alive :: "int \<Rightarrow> bool script" where
  "is_process_alive pid =
     follow (output_of ''kill'' [''-0'', show_int pid]) (\<lambda>r.
     if (case r of Inr q \<Rightarrow> co_success q | Inl e \<Rightarrow> False) then
       follow (read_file (''/proc/'' @ show_int pid @ ''/status'')) (\<lambda>c.
       finish (case c of None \<Rightarrow> False | Some txt \<Rightarrow> not_zombie (str_lines txt)))
     else finish False)"

text \<open>The process a file names, when there is such a file.\<close>

definition pid_in :: "string \<Rightarrow> int option script" where
  "pid_in path =
     follow (file_exists path) (\<lambda>there.
     if there then follow (read_file path) (\<lambda>c. finish (Option.bind c (\<lambda>txt. parse_i32 (trim txt))))
     else finish None)"

definition check_display_available :: "nat \<Rightarrow> (string + unit) script" where
  "check_display_available disp =
     follow (pid_in (''/tmp/.X'' @ show_nat disp @ ''-lock'')) (\<lambda>p.
     case p of
       None \<Rightarrow> finish (Inr ())
     | Some pid \<Rightarrow>
         follow (is_process_alive pid) (\<lambda>alive.
         if alive then
           finish (Inl (''X11 display :'' @ show_nat disp @ '' is already in use (Xvfb PID '' @ show_int pid @
             ''). Use --dev-display to choose a different display, or stop the other instance.''))
         else follow (cleanup_stale_processes_for_display disp) (\<lambda>_. finish (Inr ()))))"

definition check_port_available :: "nat \<Rightarrow> (string + unit) script" where
  "check_port_available port =
     follow (can_bind port) (\<lambda>free.
     finish (if free then Inr ()
       else Inl (''CDP port '' @ show_nat port @
         '' is already in use. Use --dev-cdp-port to choose a different port, or stop the other instance.'')))"

definition running_message :: "nat \<Rightarrow> int \<Rightarrow> string" where
  "running_message disp pid =
     ''vscreen dev already running on display :'' @ show_nat disp @ '' (PID '' @ show_int pid @
     ''). Use --mcp-sse to connect to the existing server, or stop it first.''"

definition check_pid_file :: "nat \<Rightarrow> (string + unit) script" where
  "check_pid_file disp =
     follow (pid_in (pid_file_path disp)) (\<lambda>p.
     case p of
       None \<Rightarrow> finish (Inr ())
     | Some pid \<Rightarrow>
         follow (is_process_alive pid) (\<lambda>alive.
         if alive then finish (Inl (running_message disp pid))
         else
           follow (cleanup_stale_processes_for_display disp) (\<lambda>_.
           follow (remove_file (pid_file_path disp)) (\<lambda>_. finish (Inr ())))))"

subsection \<open>Starting and stopping\<close>

record dev_env =
  dv_display :: nat
  dv_cdp_port :: nat
  dv_xvfb :: "nat option"
  dv_chromium :: "nat option"
  dv_pulse_module_id :: "nat option"
  dv_cdp_endpoint :: "string option"
  dv_sink_name :: string
  dv_pid_file :: "string option"
  dv_ignore_cert_errors :: bool

definition monitor_source :: "dev_env \<Rightarrow> string" where
  "monitor_source e = dv_sink_name e @ ''.monitor''"

definition when_some :: "'a option \<Rightarrow> ('a \<Rightarrow> unit script) \<Rightarrow> unit script" where
  "when_some v f = (case v of None \<Rightarrow> finish () | Some a \<Rightarrow> f a)"

definition dev_stop :: "dev_env \<Rightarrow> dev_env script" where
  "dev_stop e =
     follow (when_some (dv_chromium e) (\<lambda>pid. stop_process_tree pid 3000)) (\<lambda>_.
     follow (when_some (dv_pulse_module_id e) (\<lambda>n. run_command ''pactl'' [''unload-module'', show_nat n])) (\<lambda>_.
     follow (when_some (dv_xvfb e) (\<lambda>pid. stop_child_gracefully pid 2000)) (\<lambda>_.
     follow (when_some (dv_pid_file e) remove_file) (\<lambda>_.
     follow (cleanup_stale_processes_for_display (dv_display e)) (\<lambda>_.
     finish (e\<lparr>dv_chromium := None, dv_pulse_module_id := None, dv_xvfb := None, dv_pid_file := None\<rparr>))))))"

text \<open>A part of the start: the environment after it, and whether it failed.\<close>

type_synonym starting = "(dev_env \<times> (string + unit)) script"

definition spawned_by :: "string \<Rightarrow> string list \<Rightarrow> (string \<times> string) list \<Rightarrow> (string + nat) script" where
  "spawned_by prog args env = act (\<lambda>h os. ho_spawn h os prog) (Spawn prog args env)"

definition start_xvfb :: "dev_env \<Rightarrow> starting" where
  "start_xvfb e =
     follow (spawned_by ''Xvfb''
       [CHR '':'' # show_nat (dv_display e), ''-screen'', ''0'', ''1920x1080x24'', ''-ac'', ''-nolisten'', ''tcp''] []) (\<lambda>r.
     finish (case r of
         Inl err \<Rightarrow> (e, Inl (''failed to start Xvfb: '' @ err))
       | Inr pid \<Rightarrow> (e\<lparr>dv_xvfb := Some pid\<rparr>, Inr ())))"

definition create_pulse_sink :: "dev_env \<Rightarrow> starting" where
  "create_pulse_sink e =
     follow (output_of ''pactl''
       [''load-module'', ''module-null-sink'', ''sink_name='' @ dv_sink_name e,
        ''sink_properties=device.description='' @ dv_sink_name e]) (\<lambda>r.
     finish (case r of
         Inl err \<Rightarrow> (e, Inl (''failed to run pactl: '' @ err))
       | Inr q \<Rightarrow>
           if \<not> co_success q then (e, Inr ())
           else (case parse_uint 32 (trim (co_stdout q)) of
               Some n \<Rightarrow> (e\<lparr>dv_pulse_module_id := Some n\<rparr>, Inr ())
             | None \<Rightarrow> (e, Inr ()))))"

fun find_browser :: "string list \<Rightarrow> (string + string) script" where
  "find_browser [] = finish (Inl ''no supported browser found (chromium, chromium-browser, google-chrome)'')"
| "find_browser (n # ns) =
     follow (output_of ''which'' [n]) (\<lambda>r.
     if (case r of Inr q \<Rightarrow> co_success q | Inl e \<Rightarrow> False) then finish (Inr n) else find_browser ns)"

definition browsers :: "string list" where
  "browsers = [''chromium'', ''chromium-browser'', ''google-chrome'', ''google-chrome-stable'']"

definition browser_args :: "dev_env \<Rightarrow> string list" where
  "browser_args e =
     [''--remote-debugging-port='' @ show_nat (dv_cdp_port e), ''--user-data-dir='' @ profile_of (dv_display e),
      ''--no-sandbox'', ''--disable-gpu'', ''--use-gl=angle'', ''--use-angle=swiftshader'', ''--window-size=1920,1080'',
      ''--window-position=0,0'', ''--no-first-run'', ''--disable-default-apps'', ''--disable-extensions'',
      ''--disable-translate'', ''--disable-sync'', ''--autoplay-policy=no-user-gesture-required'',
      ''--force-color-profile=srgb'', ''--disable-background-timer-throttling'', ''--disable-renderer-backgrounding'',
      ''--disable-backgrounding-occluded-windows'', ''--disable-blink-features=AutomationControlled'',
      ''--user-agent=Mozilla/5.0 (X11; Linux x86_64) AppleWebKit/537.36 (KHTML, like Gecko) Chrome/131.0.0.0 Safari/537.36''] @
     (if dv_ignore_cert_errors e then [''--ignore-certificate-errors''] else []) @ [''about:blank'']"

text \<open>The address is asked for at most so many more times.\<close>

fun await_cdp :: "string \<Rightarrow> nat \<Rightarrow> (string + string) script" where
  "await_cdp url 0 = finish (Inl ''CDP endpoint never became available'')"
| "await_cdp url (Suc n) =
     follow (pause_for 500) (\<lambda>_.
     follow (act (\<lambda>h os. ho_ask h os url) (Ask url)) (\<lambda>r.
     case r of
       Inr endpoint \<Rightarrow> finish (Inr endpoint)
     | Inl err \<Rightarrow>
         if n = 0 then finish (Inl (''failed to get CDP endpoint after 30 attempts: '' @ err)) else await_cdp url n))"

definition launch_chromium :: "dev_env \<Rightarrow> starting" where
  "launch_chromium e =
     follow (find_browser browsers) (\<lambda>b.
     case b of
       Inl err \<Rightarrow> finish (e, Inl err)
     | Inr browser \<Rightarrow>
         follow (spawned_by browser (browser_args e)
           ((''DISPLAY'', CHR '':'' # show_nat (dv_display e)) #
            (if dv_pulse_module_id e \<noteq> None then [(''PULSE_SINK'', dv_sink_name e)] else []))) (\<lambda>r.
         case r of
           Inl err \<Rightarrow> finish (e, Inl (''failed to launch '' @ browser @ '': '' @ err))
         | Inr pid \<Rightarrow>
             follow (await_cdp (''http://127.0.0.1:'' @ show_nat (dv_cdp_port e) @ ''/json'') 30) (\<lambda>q.
             finish (case q of
                 Inl err \<Rightarrow> (e\<lparr>dv_chromium := Some pid\<rparr>, Inl err)
               | Inr endpoint \<Rightarrow> (e\<lparr>dv_chromium := Some pid, dv_cdp_endpoint := Some endpoint\<rparr>, Inr ())))))"

text \<open>A part whose failure drops the environment.\<close>

definition or_drop :: "starting \<Rightarrow> (dev_env \<Rightarrow> (string + dev_env) script) \<Rightarrow> (string + dev_env) script" where
  "or_drop m f =
     follow m (\<lambda>er. case er of
         (e, Inl err) \<Rightarrow> follow (dev_stop e) (\<lambda>_. finish (Inl err))
       | (e, Inr _) \<Rightarrow> f e)"

definition new_dev_env :: "nat \<Rightarrow> nat \<Rightarrow> bool \<Rightarrow> dev_env" where
  "new_dev_env display cdp_port ignore_cert_errors =
     \<lparr>dv_display = display, dv_cdp_port = cdp_port, dv_xvfb = None, dv_chromium = None, dv_pulse_module_id = None,
      dv_cdp_endpoint = None, dv_sink_name = sink_of display, dv_pid_file = None,
      dv_ignore_cert_errors = ignore_cert_errors\<rparr>"

definition write_pid_file :: "dev_env \<Rightarrow> (string + dev_env) script" where
  "write_pid_file e = (\<lambda>h os.
     let path = pid_file_path (dv_display e) in
     follow (act (\<lambda>h os. ho_writes h os path) (Write_File path (show_nat (ho_pid h)))) (\<lambda>written.
     finish (Inr (if written then e\<lparr>dv_pid_file := Some path\<rparr> else e))) h os)"

definition dev_start :: "nat \<Rightarrow> nat \<Rightarrow> bool \<Rightarrow> (string + dev_env) script" where
  "dev_start display cdp_port ignore_cert_errors =
     or_fail (check_pid_file display) (\<lambda>_.
     or_fail (check_display_available display) (\<lambda>_.
     or_fail (check_port_available cdp_port) (\<lambda>_.
     or_drop (start_xvfb (new_dev_env display cdp_port ignore_cert_errors)) (\<lambda>e1.
     follow (pause_for 500) (\<lambda>_.
     or_drop (create_pulse_sink e1) (\<lambda>e2.
     or_drop (launch_chromium e2) write_pid_file))))))"

section \<open>Properties\<close>

subsection \<open>An environment that runs is left alone\<close>

text \<open>When the file of a display names a process that is alive, starting fails with a message that names it, after two
  looks at files, a test signal and a look at the state of the process: nothing is started, killed,
  removed or unloaded.\<close>

theorem running_instance_untouched:
  assumes "ho_exists h os (pid_file_path d)"
    and "ho_read h (os @ [Exists (pid_file_path d)]) (pid_file_path d) = Some txt" and "parse_i32 (trim txt) = Some pid"
    and "ho_output h (os @ [Exists (pid_file_path d), Read_File (pid_file_path d)]) ''kill'' [''-0'', show_int pid] = Inr q"
      "co_success q"
    and "ho_read h (os @ [Exists (pid_file_path d), Read_File (pid_file_path d), Output ''kill'' [''-0'', show_int pid]])
        (''/proc/'' @ show_int pid @ ''/status'') = Some st" "not_zombie (str_lines st)"
  shows "dev_start d port ignore_certs h os = Some (Inl (running_message d pid),
    os @ [Exists (pid_file_path d), Read_File (pid_file_path d), Output ''kill'' [''-0'', show_int pid],
      Read_File (''/proc/'' @ show_int pid @ ''/status'')])"
  using assms by (simp add: dev_start_def check_pid_file_def pid_in_def is_process_alive_def script_defs)

subsection \<open>Stopping ends\<close>

definition passes :: "host \<Rightarrow> bool" where
  "passes h \<longleftrightarrow> (\<forall>os x. ho_clock h os \<le> ho_clock h (os @ [x])) \<and>
     (\<forall>os n. ho_clock h os + n \<le> ho_clock h (os @ [Thread_Sleep n]))"

fun not_spawn :: "host_op \<Rightarrow> bool" where
  "not_spawn (Spawn _ _ _) = False"
| "not_spawn _ = True"

lemma runs_force_kill [runs_intros]: "runs_with h not_spawn (force_kill pid)"
  unfolding force_kill_def by (intro runs_intros) simp_all

lemma await_exit_runs:
  assumes "passes h"
  shows "\<exists>xs. await_exit pid start timeout h os = Some ((), os @ xs) \<and> list_all not_spawn xs"
proof (induction "start + timeout - ho_clock h os" arbitrary: os rule: less_induct)
  case less
  let ?os1 = "os @ [Try_Wait pid]"
  have kill: "\<exists>xs. force_kill pid h ?os1 = Some ((), os @ xs) \<and> list_all not_spawn xs"
  proof -
    obtain a xs where "force_kill pid h ?os1 = Some (a, ?os1 @ xs)" "list_all not_spawn xs"
      using runs_force_kill [of h pid] unfolding runs_with_def by blast
    then show ?thesis by (intro exI [of _ "Try_Wait pid # xs"]) simp
  qed
  show ?case
  proof (cases "ho_try_wait h os pid")
    case (Inl u)
    then show ?thesis using kill by (subst await_exit.simps) simp
  next
    case (Inr exited)
    show ?thesis
    proof (cases "\<not> exited \<and> ho_clock h ?os1 - start < timeout")
      case True
      let ?os2 = "os @ [Try_Wait pid, Thread_Sleep 100]"
      have "ho_clock h os \<le> ho_clock h ?os1" "ho_clock h ?os1 + 100 \<le> ho_clock h (?os1 @ [Thread_Sleep 100])"
        using assms unfolding passes_def by blast+
      then have "start + timeout - ho_clock h ?os2 < start + timeout - ho_clock h os"
        using True [THEN conjunct2] by simp
      from less [OF this] obtain xs where "await_exit pid start timeout h ?os2 = Some ((), ?os2 @ xs)" "list_all not_spawn xs"
        by blast
      then show ?thesis using Inr True
        by (subst await_exit.simps) (simp add: exI [of _ "Try_Wait pid # Thread_Sleep 100 # xs"])
    next
      case False
      then show ?thesis using Inr kill by (subst await_exit.simps) (auto intro: exI [of _ "[Try_Wait pid]"])
    qed
  qed
qed

definition term_signal :: "nat \<Rightarrow> host_op" where
  "term_signal pid = Output ''kill'' [''-TERM'', ''--'', neg_pgid pid]"

text \<open>A script that ends and does at least the given operations, without starting a process.\<close>

definition does :: "host \<Rightarrow> host_op set \<Rightarrow> 'a script \<Rightarrow> bool" where
  "does h X m \<longleftrightarrow> (\<forall>os. \<exists>a xs. m h os = Some (a, os @ xs) \<and> list_all not_spawn xs \<and> X \<subseteq> set xs)"

lemma does_runs: "runs_with h not_spawn m \<Longrightarrow> does h {} m"
  by (simp add: does_def runs_with_def)

lemma does_follow:
  assumes "does h X m" and "\<And>a. does h Y (f a)"
  shows "does h (X \<union> Y) (follow m f)"
  unfolding does_def
proof
  fix os
  obtain a xs where m: "m h os = Some (a, os @ xs)" "list_all not_spawn xs" "X \<subseteq> set xs"
    using assms(1) unfolding does_def by blast
  obtain b ys where f: "f a h (os @ xs) = Some (b, (os @ xs) @ ys)" "list_all not_spawn ys" "Y \<subseteq> set ys"
    using assms(2) unfolding does_def by blast
  show "\<exists>a zs. follow m f h os = Some (a, os @ zs) \<and> list_all not_spawn zs \<and> X \<union> Y \<subseteq> set zs"
    using m f by (intro exI [of _ b] exI [of _ "xs @ ys"]) (auto simp: follow_def)
qed

lemma does_stop:
  assumes "passes h"
  shows "does h {term_signal pid} (stop_child_gracefully pid t)" "does h {term_signal pid} (stop_process_tree pid t)"
proof -
  have "does h {term_signal pid} (follow (run_command ''kill'' [''-TERM'', ''--'', neg_pgid pid])
      (\<lambda>_ h os. await_exit pid (ho_clock h os) t h os))"
    unfolding does_def
  proof
    fix os
    let ?os = "os @ [term_signal pid]"
    obtain xs where "await_exit pid (ho_clock h ?os) t h ?os = Some ((), ?os @ xs)" "list_all not_spawn xs"
      using await_exit_runs [OF assms] by blast
    then show "\<exists>a xs. follow (run_command ''kill'' [''-TERM'', ''--'', neg_pgid pid])
        (\<lambda>_ h os. await_exit pid (ho_clock h os) t h os) h os = Some (a, os @ xs) \<and>
        list_all not_spawn xs \<and> {term_signal pid} \<subseteq> set xs"
      by (intro exI [of _ "()"] exI [of _ "term_signal pid # xs"]) (simp add: script_defs term_signal_def)
  qed
  then show "does h {term_signal pid} (stop_child_gracefully pid t)" "does h {term_signal pid} (stop_process_tree pid t)"
    by (simp_all add: stop_child_gracefully_def stop_process_tree_def)
qed

lemma runs_success [runs_intros]:
  "P (Output p as) \<Longrightarrow> (\<And>t. runs_with h P (f t)) \<Longrightarrow> runs_with h P (on_success p as f)"
  unfolding on_success_def by (intro runs_intros)

lemma runs_sweep [runs_intros]: "runs_with h not_spawn (cleanup_stale_processes_for_display d)"
proof -
  have unload: "runs_with h not_spawn (unload_line d l)" for l
    unfolding unload_line_def by (cases "split_whitespace l") (auto intro!: runs_intros)
  have xvfb: "runs_with h not_spawn (\<lambda>h. each (\<lambda>p. if p \<noteq> show_nat (ho_pid h) then run_command ''kill'' [''-9'', p] else finish ()) ps h)" for ps
  proof -
    have "runs_with h not_spawn (each (\<lambda>p. if p \<noteq> me then run_command ''kill'' [''-9'', p] else finish ()) ps)" for me
      by (intro runs_intros) simp
    then show ?thesis by (simp add: runs_with_def)
  qed
  have there: "runs_with h not_spawn (remove_if_there p)" for p
    unfolding remove_if_there_def by (intro runs_intros) simp_all
  show ?thesis
    unfolding cleanup_stale_processes_for_display_def
    by (intro runs_follow runs_success xvfb unload there runs_each runs_ops) simp_all
qed

definition held :: "dev_env \<Rightarrow> nat set" where
  "held e = set_option (dv_xvfb e) \<union> set_option (dv_chromium e)"

lemma does_when_some: "(\<And>a. does h {F a} (f a)) \<Longrightarrow> does h (F ` set_option v) (when_some v f)"
  by (cases v) (simp_all add: when_some_def does_def finish_def)

lemma runs_when_some [runs_intros]: "(\<And>a. runs_with h P (f a)) \<Longrightarrow> runs_with h P (when_some v f)"
  unfolding when_some_def by (intro runs_intros)

lemma does_dev_stop:
  assumes "passes h"
  shows "does h (term_signal ` held e) (dev_stop e)"
proof -
  let ?C = "term_signal ` set_option (dv_chromium e)" and ?X = "term_signal ` set_option (dv_xvfb e)"
  have quiet: "runs_with h not_spawn (when_some (dv_pulse_module_id e) (\<lambda>n. run_command ''pactl'' [''unload-module'', show_nat n]))"
    "runs_with h not_spawn (when_some (dv_pid_file e) remove_file)"
    by (intro runs_intros; simp)+
  have "does h (?C \<union> ({} \<union> (?X \<union> ({} \<union> ({} \<union> {}))))) (dev_stop e)"
    unfolding dev_stop_def
    by (rule does_follow does_when_some does_stop [OF assms] quiet [THEN does_runs] runs_sweep [THEN does_runs]
          runs_finish [THEN does_runs])+
  moreover have "?C \<union> ({} \<union> (?X \<union> ({} \<union> ({} \<union> {})))) = term_signal ` held e"
    unfolding held_def by blast
  ultimately show ?thesis by simp
qed

text \<open>Stopping an environment ends, whatever its processes do, and leaves nothing of it; each process group gets the
  signal to end.\<close>

theorem dev_stop_ends:
  assumes "passes h"
  shows "\<exists>e' xs. dev_stop e h os = Some (e', os @ xs) \<and> held e' = {} \<and> dv_pid_file e' = None \<and>
    term_signal ` held e \<subseteq> set xs"
proof -
  obtain e' xs where s: "dev_stop e h os = Some (e', os @ xs)" "term_signal ` held e \<subseteq> set xs"
    using does_dev_stop [OF assms, of e] unfolding does_def by blast
  then have "e' = e\<lparr>dv_chromium := None, dv_pulse_module_id := None, dv_xvfb := None, dv_pid_file := None\<rparr>"
    by (auto simp: dev_stop_def follow_def finish_def split: option.splits)
  then show ?thesis using s by (simp add: held_def)
qed

text \<open>A host on which nothing runs and no program can be found, with a clock that only pauses move.\<close>

definition paused :: "host_op list \<Rightarrow> nat" where
  "paused os = sum_list (map (\<lambda>x. case x of Thread_Sleep n \<Rightarrow> n | _ \<Rightarrow> 0) os)"

definition bare_host :: host where
  "bare_host =
     \<lparr>ho_output = (\<lambda>os p as. Inl ''No such file or directory''), ho_spawn = (\<lambda>os p. if p = ''Xvfb'' then Inr 7 else Inl ''none''),
      ho_try_wait = (\<lambda>os pid. Inr False), ho_exists = (\<lambda>os p. False), ho_read = (\<lambda>os p. None),
      ho_writes = (\<lambda>os p. False), ho_binds = (\<lambda>os n. True), ho_ask = (\<lambda>os u. Inl ''connection refused''),
      ho_status = (\<lambda>pid. ''exit status: 1''), ho_clock = paused, ho_pid = 1\<rparr>"

lemma bare_host_passes: "passes bare_host"
  by (simp add: passes_def bare_host_def paused_def)

theorem dev_stop_ends_witness:
  "\<exists>e' xs. dev_stop ((new_dev_env 99 9222 False)\<lparr>dv_xvfb := Some 7\<rparr>) bare_host [] = Some (e', xs) \<and>
     held e' = {} \<and> term_signal 7 \<in> set xs"
  using dev_stop_ends [OF bare_host_passes, of "(new_dev_env 99 9222 False)\<lparr>dv_xvfb := Some 7\<rparr>" "[]"]
  by (auto simp: held_def new_dev_env_def)

definition busy_host :: host where
  "busy_host = bare_host\<lparr>ho_exists := (\<lambda>os p. True),
     ho_read := (\<lambda>os p. Some (if p = pid_file_path 99 then show_nat 42 else ''State: S (sleeping)'')),
     ho_output := (\<lambda>os p as. Inr \<lparr>co_success = True, co_stdout = [], co_stderr = []\<rparr>)\<rparr>"

text \<open>The number a start writes is the one the next start reads.\<close>

lemma pid_round_trip: "n < 2 ^ 31 \<Longrightarrow> parse_i32 (trim (show_nat n)) = Some (int n)"
proof -
  assume n: "n < 2 ^ 31"
  obtain c r where cr: "show_nat n = c # r" by (cases "show_nat n") auto
  then have "is_digit c" using show_nat_digits [of c n] by simp
  then have "c \<noteq> CHR ''-''" by (auto simp: is_digit_def byte_in_def)
  then have "parse_i32 (show_nat n) = map_option int (parse_uint 31 (show_nat n))" by (simp add: parse_i32_def cr)
  then show ?thesis using n by simp
qed

lemma busy_texts: "not_zombie (str_lines ''State: S (sleeping)'')"
  by (simp add: starts_with_def str_contains_def str_find_def)

lemma busy_paths: "''/proc/'' @ show_int p @ ''/status'' \<noteq> pid_file_path d"
  by (simp add: pid_file_path_def)

theorem running_instance_untouched_witness:
  "\<exists>xs. dev_start 99 9222 False busy_host [] = Some (Inl (running_message 99 42), xs) \<and> length xs = 4"
  using running_instance_untouched [of busy_host "[]" 99 "show_nat 42" 42 "\<lparr>co_success = True, co_stdout = [], co_stderr = []\<rparr>"
      "''State: S (sleeping)''" 9222 False] busy_texts busy_paths [of 42 99] pid_round_trip [of 42]
  by (simp add: busy_host_def)

subsection \<open>Starting keeps or ends what it started\<close>

fun started :: "host \<Rightarrow> host_op list \<Rightarrow> host_op list \<Rightarrow> nat list" where
  "started h os [] = []"
| "started h os (x # xs) =
     (case x of Spawn p _ _ \<Rightarrow> (case ho_spawn h os p of Inr pid \<Rightarrow> [pid] | Inl e \<Rightarrow> []) | _ \<Rightarrow> []) @ started h (os @ [x]) xs"

lemma started_append: "started h os (xs @ ys) = started h os xs @ started h (os @ xs) ys"
  by (induction xs arbitrary: os) simp_all

lemma started_none: "list_all not_spawn xs \<Longrightarrow> started h os xs = []"
  by (induction xs arbitrary: os) (auto split: host_op.splits)

text \<open>A script that ends with an environment that holds the given processes and those it started, or that fails and has
  told all of them to end; and a part of the start, by what it adds to the environment.\<close>

definition accounts :: "host \<Rightarrow> nat set \<Rightarrow> (string + dev_env) script \<Rightarrow> bool" where
  "accounts h S m \<longleftrightarrow> (\<forall>os. \<exists>r xs. m h os = Some (r, os @ xs) \<and>
     (case r of Inl err \<Rightarrow> term_signal ` (S \<union> set (started h os xs)) \<subseteq> set xs
      | Inr e \<Rightarrow> held e = S \<union> set (started h os xs)))"

definition adds :: "host \<Rightarrow> nat set \<Rightarrow> (dev_env \<Rightarrow> bool) \<Rightarrow> starting \<Rightarrow> bool" where
  "adds h S Q m \<longleftrightarrow> (\<forall>os. \<exists>e r xs. m h os = Some ((e, r), os @ xs) \<and> held e = S \<union> set (started h os xs) \<and> Q e)"

lemma accounts_or_drop:
  assumes "passes h" "adds h S Q m" and f: "\<And>e. Q e \<Longrightarrow> accounts h (held e) (f e)"
  shows "accounts h S (or_drop m f)"
  unfolding accounts_def
proof
  fix os
  obtain e r xs where m: "m h os = Some ((e, r), os @ xs)" "held e = S \<union> set (started h os xs)" "Q e"
    using assms(2) unfolding adds_def by blast
  show "\<exists>r xs. or_drop m f h os = Some (r, os @ xs) \<and>
     (case r of Inl err \<Rightarrow> term_signal ` (S \<union> set (started h os xs)) \<subseteq> set xs
      | Inr e \<Rightarrow> held e = S \<union> set (started h os xs))"
  proof (cases r)
    case (Inl err)
    obtain u ys where "dev_stop e h (os @ xs) = Some (u, (os @ xs) @ ys)" "list_all not_spawn ys"
        "term_signal ` held e \<subseteq> set ys"
      using does_dev_stop [OF assms(1), of e] unfolding does_def by blast
    then show ?thesis using m Inl
      by - (rule exI [of _ "Inl err"], rule exI [of _ "xs @ ys"],
        auto simp: or_drop_def follow_def finish_def started_append started_none)
  next
    case (Inr u)
    obtain q ys where "f e h (os @ xs) = Some (q, (os @ xs) @ ys)"
        "case q of Inl err \<Rightarrow> term_signal ` (held e \<union> set (started h (os @ xs) ys)) \<subseteq> set ys
         | Inr e' \<Rightarrow> held e' = held e \<union> set (started h (os @ xs) ys)"
      using f [OF m(3)] unfolding accounts_def by blast
    then show ?thesis using m Inr
      by - (rule exI [of _ q], rule exI [of _ "xs @ ys"],
        auto simp: or_drop_def follow_def started_append split: sum.splits)
  qed
qed

lemma accounts_follow:
  assumes "runs_with h not_spawn m" and "\<And>a. accounts h S (f a)"
  shows "accounts h S (follow m f)"
  unfolding accounts_def
proof
  fix os
  obtain a xs where m: "m h os = Some (a, os @ xs)" "list_all not_spawn xs" using assms(1) unfolding runs_with_def by blast
  obtain q ys where "f a h (os @ xs) = Some (q, (os @ xs) @ ys)"
      "case q of Inl err \<Rightarrow> term_signal ` (S \<union> set (started h (os @ xs) ys)) \<subseteq> set ys
       | Inr e' \<Rightarrow> held e' = S \<union> set (started h (os @ xs) ys)"
    using assms(2) unfolding accounts_def by blast
  then show "\<exists>r xs. follow m f h os = Some (r, os @ xs) \<and>
     (case r of Inl err \<Rightarrow> term_signal ` (S \<union> set (started h os xs)) \<subseteq> set xs
      | Inr e \<Rightarrow> held e = S \<union> set (started h os xs))"
    using m by - (rule exI [of _ q], rule exI [of _ "xs @ ys"],
      auto simp: follow_def started_append started_none split: sum.splits)
qed

lemma accounts_or_fail:
  assumes "runs_with h not_spawn m" and "\<And>a. accounts h {} (f a)"
  shows "accounts h {} (or_fail m f)"
  unfolding or_fail_def
proof (rule accounts_follow [OF assms(1)])
  fix r
  show "accounts h {} (case r of Inl e \<Rightarrow> finish (Inl e) | Inr a \<Rightarrow> f a)"
    using assms(2) by (cases r) (simp_all add: accounts_def finish_def)
qed

lemma runs_pid_in [runs_intros]: "runs_with h not_spawn (pid_in path)"
  unfolding pid_in_def by (intro runs_intros) simp_all

lemma runs_alive [runs_intros]: "runs_with h not_spawn (is_process_alive pid)"
  unfolding is_process_alive_def by (intro runs_intros) simp_all

lemma runs_checks:
  "runs_with h not_spawn (check_pid_file d)" "runs_with h not_spawn (check_display_available d)"
  "runs_with h not_spawn (check_port_available n)"
  unfolding check_pid_file_def check_display_available_def check_port_available_def
  by (intro runs_intros; simp)+

lemma adds_start_xvfb: "adds h {} (\<lambda>e. dv_chromium e = None) (start_xvfb (new_dev_env d n c))"
  unfolding adds_def
proof
  fix os
  show "\<exists>e r xs. start_xvfb (new_dev_env d n c) h os = Some ((e, r), os @ xs) \<and>
      held e = {} \<union> set (started h os xs) \<and> dv_chromium e = None"
    by (cases "ho_spawn h os ''Xvfb''")
      (auto simp: start_xvfb_def spawned_by_def script_defs new_dev_env_def held_def)
qed

lemma adds_create_pulse_sink:
  "dv_chromium e = None \<Longrightarrow> adds h (held e) (\<lambda>e. dv_chromium e = None) (create_pulse_sink e)"
  unfolding adds_def create_pulse_sink_def
  by (auto simp: script_defs held_def split: sum.split option.split)

lemma runs_find_browser: "runs_with h not_spawn (find_browser ns)"
  by (induction ns) (auto intro!: runs_intros)

lemma runs_await_cdp: "runs_with h not_spawn (await_cdp url n)"
  by (induction n) (auto intro!: runs_intros)

lemma adds_launch_chromium:
  assumes "dv_chromium e = None"
  shows "adds h (held e) (\<lambda>_. True) (launch_chromium e)"
  unfolding adds_def
proof
  fix os
  let ?url = "''http://127.0.0.1:'' @ show_nat (dv_cdp_port e) @ ''/json''"
  let ?env = "(''DISPLAY'', CHR '':'' # show_nat (dv_display e)) #
    (if dv_pulse_module_id e \<noteq> None then [(''PULSE_SINK'', dv_sink_name e)] else [])"
  obtain b xs where b: "find_browser browsers h os = Some (b, os @ xs)" "list_all not_spawn xs"
    using runs_find_browser unfolding runs_with_def by blast
  show "\<exists>e' r xs. launch_chromium e h os = Some ((e', r), os @ xs) \<and> held e' = held e \<union> set (started h os xs) \<and> True"
  proof (cases b)
    case (Inl err)
    then show ?thesis using b
      by - (rule exI [of _ e], rule exI [of _ "Inl err"], rule exI [of _ xs],
        simp add: launch_chromium_def follow_def finish_def started_none)
  next
    case browser: (Inr browser)
    let ?x = "Spawn browser (browser_args e) ?env"
    show ?thesis
    proof (cases "ho_spawn h (os @ xs) browser")
      case (Inl err)
      then show ?thesis using b browser
        by - (rule exI [of _ e], rule exI [of _ "Inl (''failed to launch '' @ browser @ '': '' @ err)"],
          rule exI [of _ "xs @ [?x]"],
          simp add: launch_chromium_def spawned_by_def act_def follow_def finish_def started_append started_none)
    next
      case (Inr pid)
      obtain q ys where q: "await_cdp ?url 30 h (os @ xs @ [?x]) = Some (q, (os @ xs @ [?x]) @ ys)" "list_all not_spawn ys"
        using runs_await_cdp unfolding runs_with_def by blast
      obtain e' r where e': "(e', r) = (case q of Inl err \<Rightarrow> (e\<lparr>dv_chromium := Some pid\<rparr>, Inl err)
          | Inr endpoint \<Rightarrow> (e\<lparr>dv_chromium := Some pid, dv_cdp_endpoint := Some endpoint\<rparr>, Inr ()))"
        by (metis surj_pair)
      then have "held e' = held e \<union> {pid}" using assms by (auto simp: held_def split: sum.splits)
      then show ?thesis using b browser Inr q e'
        by - (rule exI [of _ e'], rule exI [of _ r], rule exI [of _ "xs @ [?x] @ ys"],
          simp add: launch_chromium_def spawned_by_def act_def follow_def finish_def started_append started_none)
    qed
  qed
qed

lemma does_accounts:
  assumes "passes h"
  shows "accounts h {} (dev_start d port ic)"
proof -
  have wf: "accounts h (held e) (write_pid_file e)" for e
    unfolding accounts_def write_pid_file_def by (auto simp: script_defs held_def Let_def)
  show ?thesis
    unfolding dev_start_def
    by (intro accounts_or_fail runs_checks
          accounts_or_drop [OF assms adds_start_xvfb] accounts_follow [OF runs_ops(7)]
          accounts_or_drop [OF assms adds_create_pulse_sink] accounts_or_drop [OF assms adds_launch_chromium] wf)
      simp_all
qed

text \<open>A start always ends. Either the environment it gives holds exactly the processes that it started, or it fails and
  every process that it started has been told to end.\<close>

theorem start_accounts:
  assumes "passes h"
  shows "\<exists>r xs. dev_start d port ic h os = Some (r, os @ xs) \<and>
    (case r of Inl err \<Rightarrow> term_signal ` set (started h os xs) \<subseteq> set xs | Inr e \<Rightarrow> held e = set (started h os xs))"
  using does_accounts [OF assms, of d port ic] unfolding accounts_def Un_empty_left by (rule spec)

theorem start_accounts_witness:
  "\<exists>r xs. dev_start 99 9222 False bare_host [] = Some (r, xs) \<and>
    (case r of Inl err \<Rightarrow> term_signal ` set (started bare_host [] xs) \<subseteq> set xs | Inr e \<Rightarrow> held e = set (started bare_host [] xs))"
  using start_accounts [OF bare_host_passes, of 99 9222 False "[]"] by simp

text \<open>The sweep of one display also takes the sinks of the displays whose numbers begin with it.\<close>

lemma sweep_other_display:
  "unload_line 9 ''7 module-null-sink sink_name=vscreen_dev_99'' h os =
     Some ((), os @ [Output ''pactl'' [''unload-module'', ''7'']])"
proof -
  have n: "sink_of 9 = ''vscreen_dev_9''" unfolding sink_of_def by code_simp
  show ?thesis
    unfolding unload_line_def n
    by (simp add: str_contains_def str_find_def starts_with_def split_whitespace.simps trim_start_graphic byte_in_def white_space_def script_defs)
qed

end
