(* ===== verification/Synthesis_Env.thy ===== *)
theory Synthesis_Env
  imports Dev_Env
begin

section \<open>The server for synthesized pages\<close>

text \<open>
  \<open>synthesis.rs\<close> of \<open>crates/vscreen\<close>: the web server of \<open>tools/synthesis\<close>, started as \<open>pnpm\<close> and
  stopped with all processes below it. Whether a request to it succeeds is the host's answer to
  \<open>Ask\<close>. A child whose handle goes out of scope is killed (\<open>kill_on_drop\<close>), which reaches that process
  alone. Its number is always known when it is stopped, since no wait has seen its end by then.
\<close>

subsection \<open>Where the project is\<close>

record project_paths =
  pp_exe_dir :: "string option"
  pp_cwd :: "string option"
  pp_canonical :: "string \<Rightarrow> string option"

definition join_path :: "string \<Rightarrow> string \<Rightarrow> string" where
  "join_path d x = d @ CHR ''/'' # x"

definition project_candidates :: "project_paths \<Rightarrow> string list" where
  "project_candidates pp =
     (case pp_exe_dir pp of Some d \<Rightarrow> [join_path d ''../../tools/synthesis''] | None \<Rightarrow> []) @ [''tools/synthesis''] @
     (case pp_cwd pp of Some d \<Rightarrow> [join_path d ''tools/synthesis''] | None \<Rightarrow> [])"

definition resolved :: "project_paths \<Rightarrow> string \<Rightarrow> string" where
  "resolved pp c = (case pp_canonical pp c of Some p \<Rightarrow> p | None \<Rightarrow> c)"

fun first_project :: "project_paths \<Rightarrow> string list \<Rightarrow> (string + string) script" where
  "first_project pp [] =
     finish (Inl ''cannot find tools/synthesis/ directory. Run vscreen from the project anc or set the working directory.'')"
| "first_project pp (c # cs) =
     follow (file_exists (join_path (resolved pp c) ''package.json'')) (\<lambda>there.
     if there then finish (Inr (resolved pp c)) else first_project pp cs)"

definition find_project_dir :: "project_paths \<Rightarrow> (string + string) script" where
  "find_project_dir pp = first_project pp (project_candidates pp)"

subsection \<open>The port\<close>

definition lsof :: "nat \<Rightarrow> string list" where
  "lsof port = [''-ti'', CHR '':'' # show_nat port]"

definition kill_process_tree_on_port :: "nat \<Rightarrow> unit script" where
  "kill_process_tree_on_port port =
     on_success ''lsof'' (lsof port) (\<lambda>pids.
       each (\<lambda>p. if trim p = [] then finish () else run_command ''kill'' [''-9'', trim p]) (split_whitespace pids))"

text \<open>The first process on the port that belongs to such a server is killed.\<close>

fun kill_stale :: "string list \<Rightarrow> bool script" where
  "kill_stale [] = finish False"
| "kill_stale (p # ps) =
     (case parse_uint 32 p of
        None \<Rightarrow> kill_stale ps
      | Some pid \<Rightarrow>
          follow (output_of ''ps'' [''-p'', show_nat pid, ''-o'', ''comm='']) (\<lambda>c.
          case c of
            Inl e \<Rightarrow> kill_stale ps
          | Inr q \<Rightarrow>
              (let name = trim (co_stdout q) in
               if str_contains ''node'' name \<or> str_contains ''pnpm'' name \<or> str_contains ''vite'' name then
                 follow (run_command ''kill'' [''-9'', show_nat pid]) (\<lambda>_. finish True)
               else kill_stale ps)))"

definition try_kill_stale_synthesis :: "nat \<Rightarrow> bool script" where
  "try_kill_stale_synthesis port =
     follow (output_of ''lsof'' (lsof port)) (\<lambda>r.
     case r of
       Inr q \<Rightarrow> if co_success q then kill_stale (split_whitespace (co_stdout q)) else finish False
     | Inl e \<Rightarrow> finish False)"

definition synthesis_port_available :: "nat \<Rightarrow> (string + unit) script" where
  "synthesis_port_available port =
     follow (can_bind port) (\<lambda>free.
     if free then finish (Inr ())
     else
       follow (try_kill_stale_synthesis port) (\<lambda>killed.
       if killed then
         follow (pause_for 1000) (\<lambda>_.
         follow (can_bind port) (\<lambda>free'.
         finish (if free' then Inr () else Inl (''port '' @ show_nat port @ '' is already in use (could not reclaim)''))))
       else finish (Inl (''port '' @ show_nat port @ '' is already in use''))))"

subsection \<open>Processes below a process\<close>

text \<open>What the answer to \<open>pgrep -P\<close> names, but for the anc.\<close>

definition pids_in :: "string + command_output \<Rightarrow> nat list" where
  "pids_in r =
     (case r of
        Inr q \<Rightarrow> if co_success q then List.map_filter (parse_uint 32) (split_whitespace (co_stdout q)) else []
      | Inl e \<Rightarrow> [])"

definition pgrep_children :: "nat \<Rightarrow> host_op" where
  "pgrep_children parent = Output ''pgrep'' [''-P'', show_nat parent]"

partial_function (option) collect_loop ::
  "nat \<Rightarrow> nat list \<Rightarrow> nat list \<Rightarrow> host \<Rightarrow> host_op list \<Rightarrow> (nat list \<times> host_op list) option" where
  "collect_loop anc queue found h os =
     (if queue = [] then Some (found, os)
      else
        (let parent = last queue;
             kids = filter (\<lambda>p. p \<noteq> anc) (pids_in (ho_output h os ''pgrep'' [''-P'', show_nat parent]))
         in collect_loop anc (butlast queue @ kids) (found @ kids) h (os @ [pgrep_children parent])))"

definition collect_descendant_pids :: "nat \<Rightarrow> nat list script" where
  "collect_descendant_pids anc = collect_loop anc [anc] []"

subsection \<open>Starting and stopping\<close>

record synthesis_env =
  se_child :: "nat option"
  se_port :: nat
  se_host :: string
  se_project_dir :: string
  se_base_url :: string

definition drop_child :: "nat \<Rightarrow> unit script" where
  "drop_child pid = act (\<lambda>h os. ()) (Kill_Child pid)"

fun poll_until_ready :: "string \<Rightarrow> nat \<Rightarrow> nat \<Rightarrow> bool script" where
  "poll_until_ready url pid 0 = finish False"
| "poll_until_ready url pid (Suc n) =
     follow (pause_for 500) (\<lambda>_.
     follow (act (\<lambda>h os. ho_try_wait h os pid) (Try_Wait pid)) (\<lambda>w.
     if w = Inr True then finish False
     else
       follow (act (\<lambda>h os. ho_ask h os url) (Ask url)) (\<lambda>r.
       case r of Inr _ \<Rightarrow> finish True | Inl _ \<Rightarrow> poll_until_ready url pid n)))"

definition synthesis_url :: "string \<Rightarrow> nat \<Rightarrow> string" where
  "synthesis_url host port = ''https://'' @ host @ CHR '':'' # show_nat port"

text \<open>The handle of the child goes out of scope when the server does not become ready.\<close>

definition synthesis_unready :: "nat \<Rightarrow> (string + synthesis_env) script" where
  "synthesis_unready pid = (\<lambda>h.
     follow (act (\<lambda>h os. ho_try_wait h os pid) (Try_Wait pid)) (\<lambda>w.
     follow (drop_child pid) (\<lambda>_.
     finish (Inl (if w = Inr True then ''synthesis server exited with code '' @ ho_status h pid
       else ''synthesis server failed to become ready within 30s'')))) h)"

definition synthesis_start :: "project_paths \<Rightarrow> string \<Rightarrow> nat \<Rightarrow> (string + synthesis_env) script" where
  "synthesis_start pp host port =
     or_fail (find_project_dir pp) (\<lambda>dir.
     follow (file_exists (join_path dir ''node_modules'')) (\<lambda>there.
     if \<not> there then finish (Inl (''node_modules not found in '' @ dir @ ''. Run 'pnpm install' first.''))
     else
       or_fail (synthesis_port_available port) (\<lambda>_.
       follow (spawned_by ''pnpm'' [''dev'', ''--host'', host, ''--port'', show_nat port] []) (\<lambda>r.
       case r of
         Inl e \<Rightarrow> finish (Inl (''failed to spawn synthesis server: '' @ e))
       | Inr pid \<Rightarrow>
           follow (poll_until_ready (synthesis_url host port @ ''/api/pages'') pid 60) (\<lambda>ready.
           if ready then
             finish (Inr \<lparr>se_child = Some pid, se_port = port, se_host = host, se_project_dir = dir,
               se_base_url = synthesis_url host port\<rparr>)
           else synthesis_unready pid)))))"

definition signal_all :: "string \<Rightarrow> nat list \<Rightarrow> unit script" where
  "signal_all sig pids = each (\<lambda>p. run_command ''kill'' [sig, show_nat p]) pids"

definition synthesis_stop :: "synthesis_env \<Rightarrow> synthesis_env script" where
  "synthesis_stop e =
     (case se_child e of
        None \<Rightarrow> finish e
      | Some pid \<Rightarrow>
          follow (collect_descendant_pids pid) (\<lambda>below.
          let tree_pids = below @ [pid] in
          follow (signal_all ''-TERM'' tree_pids) (\<lambda>_.
          follow (pause_for 500) (\<lambda>_.
          follow (signal_all ''-9'' tree_pids) (\<lambda>_.
          follow (kill_process_tree_on_port (se_port e)) (\<lambda>_.
          follow (drop_child pid) (\<lambda>_. finish (e\<lparr>se_child := None\<rparr>))))))))"

section \<open>Properties\<close>

subsection \<open>All processes below\<close>

text \<open>A host that answers \<open>pgrep -P\<close> by a fixed table of children, in which no process is below itself.\<close>

definition children_are :: "host \<Rightarrow> (nat \<Rightarrow> nat list) \<Rightarrow> bool" where
  "children_are h ch \<longleftrightarrow> (\<forall>os p. pids_in (ho_output h os ''pgrep'' [''-P'', show_nat p]) = ch p)"

definition below :: "(nat \<Rightarrow> nat list) \<Rightarrow> (nat \<times> nat) set" where
  "below ch = {(q, p). q \<in> set (ch p)}"

lemma collect_loop_step:
  assumes "children_are h ch"
  shows "collect_loop anc (queue @ [p]) found h os =
    collect_loop anc (queue @ filter (\<lambda>q. q \<noteq> anc) (ch p)) (found @ filter (\<lambda>q. q \<noteq> anc) (ch p)) h (os @ [pgrep_children p])"
  using assms by (subst collect_loop.simps) (simp add: children_are_def Let_def)

text \<open>Working off the processes at the end of the queue finds what is below them.\<close>

lemma collect_all_below:
  assumes h: "children_are h ch" and "wf (below ch)"
  shows "(p, anc) \<in> (below ch)\<^sup>* \<Longrightarrow> \<exists>ds xs. collect_loop anc (queue @ [p]) found h os =
      collect_loop anc queue (found @ ds) h (os @ xs) \<and> set ds = {q. (q, p) \<in> (below ch)\<^sup>+} \<and>
      (\<forall>x \<in> set xs. \<exists>q. x = pgrep_children q)"
proof (induction p arbitrary: queue found os rule: wf_induct_rule [OF assms(2)])
  case (1 p)
  have many: "\<exists>es xs. collect_loop anc (queue @ qs) fs h os' = collect_loop anc queue (fs @ es) h (os' @ xs) \<and>
      set es = {q. \<exists>k \<in> set qs. (q, k) \<in> (below ch)\<^sup>+} \<and> (\<forall>x \<in> set xs. \<exists>q. x = pgrep_children q)"
    if "set qs \<subseteq> set (ch p)" for qs fs os'
    using that
  proof (induction qs arbitrary: fs os' rule: rev_induct)
    case Nil
    show ?case by (rule exI [of _ "[]"], rule exI [of _ "[]"]) simp
  next
    case (snoc k qs)
    then have k: "(k, p) \<in> below ch" and qs: "set qs \<subseteq> set (ch p)" by (simp_all add: below_def)
    from k "1.prems" have "(k, anc) \<in> (below ch)\<^sup>*" by (rule converse_rtrancl_into_rtrancl)
    then obtain ds xs where one: "collect_loop anc ((queue @ qs) @ [k]) fs h os' =
        collect_loop anc (queue @ qs) (fs @ ds) h (os' @ xs)" "set ds = {q. (q, k) \<in> (below ch)\<^sup>+}"
        "\<forall>x \<in> set xs. \<exists>q. x = pgrep_children q"
      using "1.IH" [OF k] by blast
    obtain es ys where rest: "collect_loop anc (queue @ qs) (fs @ ds) h (os' @ xs) =
        collect_loop anc queue ((fs @ ds) @ es) h ((os' @ xs) @ ys)"
        "set es = {q. \<exists>k \<in> set qs. (q, k) \<in> (below ch)\<^sup>+}" "\<forall>x \<in> set ys. \<exists>q. x = pgrep_children q"
      using snoc.IH [OF qs, of "fs @ ds" "os' @ xs"] by blast
    show ?case
      using one rest by - (rule exI [of _ "ds @ es"], rule exI [of _ "xs @ ys"], auto)
  qed
  have kids: "filter (\<lambda>q. q \<noteq> anc) (ch p) = ch p"
  proof -
    have "q \<noteq> anc" if "q \<in> set (ch p)" for q
    proof
      assume "q = anc"
      then have "(anc, anc) \<in> (below ch)\<^sup>+"
        using that "1.prems" by (auto simp: below_def intro: rtrancl_into_trancl2)
      then show False using assms(2) by (meson wf_acyclic acyclic_def)
    qed
    then show ?thesis by (simp add: filter_id_conv)
  qed
  obtain es xs where m: "collect_loop anc (queue @ ch p) (found @ ch p) h (os @ [pgrep_children p]) =
      collect_loop anc queue ((found @ ch p) @ es) h ((os @ [pgrep_children p]) @ xs)"
      "set es = {q. \<exists>k \<in> set (ch p). (q, k) \<in> (below ch)\<^sup>+}" "\<forall>x \<in> set xs. \<exists>q. x = pgrep_children q"
    using many [of "ch p" "found @ ch p" "os @ [pgrep_children p]"] by blast
  have "{q. (q, p) \<in> (below ch)\<^sup>+} = set (ch p) \<union> {q. \<exists>k \<in> set (ch p). (q, k) \<in> (below ch)\<^sup>+}"
    by (auto simp: below_def elim: tranclE intro: trancl_into_trancl)
  then show ?case
    using collect_loop_step [OF h, of anc queue p found os] m kids
    by - (rule exI [of _ "ch p @ es"], rule exI [of _ "pgrep_children p # xs"], auto)
qed

lemma signal_all_ops:
  "signal_all sig ps h os = Some ((), os @ map (\<lambda>p. Output ''kill'' [sig, show_nat p]) ps)"
  by (induction ps arbitrary: os) (simp_all add: signal_all_def script_defs)

lemma runs_on_port: "runs_with h not_spawn (kill_process_tree_on_port port)"
  unfolding kill_process_tree_on_port_def by (intro runs_success runs_each runs_if runs_ops runs_finish) simp_all

lemma tree_children_told:
  assumes "children_are h ch" and "wf (below ch)" and "se_child e = Some pid"
  shows "\<exists>tree ps rest. synthesis_stop e h os = Some (e\<lparr>se_child := None\<rparr>,
      os @ ps @ map (\<lambda>p. Output ''kill'' [''-TERM'', show_nat p]) tree @ [Thread_Sleep 500] @
        map (\<lambda>p. Output ''kill'' [''-9'', show_nat p]) tree @ rest) \<and>
    set tree = {q. (q, pid) \<in> (below ch)\<^sup>*} \<and> (\<forall>x \<in> set ps. \<exists>q. x = pgrep_children q) \<and>
    list_all not_spawn rest"
proof -
  obtain ds ps where c: "collect_descendant_pids pid h os = Some (ds, os @ ps)" "set ds = {q. (q, pid) \<in> (below ch)\<^sup>+}"
      "\<forall>x \<in> set ps. \<exists>q. x = pgrep_children q"
  proof -
    obtain ds ps where d: "collect_loop pid ([] @ [pid]) [] h os = collect_loop pid [] ([] @ ds) h (os @ ps)"
        "set ds = {q. (q, pid) \<in> (below ch)\<^sup>+}" "\<forall>x \<in> set ps. \<exists>q. x = pgrep_children q"
      using collect_all_below [OF assms(1,2), of pid pid "[]" "[]" os] by blast
    have "collect_loop pid [] ds h (os @ ps) = Some (ds, os @ ps)" by (subst collect_loop.simps) simp
    then show thesis using d that by (simp add: collect_descendant_pids_def)
  qed
  let ?tree = "ds @ [pid]"
  let ?os = "os @ ps @ map (\<lambda>p. Output ''kill'' [''-TERM'', show_nat p]) ?tree @ [Thread_Sleep 500] @
    map (\<lambda>p. Output ''kill'' [''-9'', show_nat p]) ?tree"
  obtain u rest where r: "kill_process_tree_on_port (se_port e) h ?os = Some (u, ?os @ rest)" "list_all not_spawn rest"
    using runs_on_port [of h "se_port e"] unfolding runs_with_def by blast
  have "set ?tree = {q. (q, pid) \<in> (below ch)\<^sup>*}" using c(2) by (auto simp: rtrancl_eq_or_trancl)
  then show ?thesis
    using c r assms(3)
    by - (rule exI [of _ ?tree], rule exI [of _ ps], rule exI [of _ "rest @ [Kill_Child pid]"],
      simp add: synthesis_stop_def follow_def signal_all_ops pause_for_def act_def drop_child_def finish_def)
qed

text \<open>Stopping asks every process of the tree, and no other, to end, and half a second later kills each of them; what
  else it kills is on the port.\<close>

theorem tree_told_to_end:
  assumes "children_are h ch" and "wf (below ch)" and "se_child e = Some pid"
  shows "\<exists>tree ps rest. synthesis_stop e h os = Some (e\<lparr>se_child := None\<rparr>,
      os @ ps @ map (\<lambda>p. Output ''kill'' [''-TERM'', show_nat p]) tree @ [Thread_Sleep 500] @
        map (\<lambda>p. Output ''kill'' [''-9'', show_nat p]) tree @ rest) \<and>
    set tree = {q. (q, pid) \<in> (below ch)\<^sup>*} \<and> (\<forall>x \<in> set ps. \<exists>q. x = pgrep_children q) \<and>
    list_all not_spawn rest"
  using tree_children_told [OF assms] .

text \<open>A host with the tree 1, below it 2 and 3, below 2 again 4.\<close>

definition tree_host :: host where
  "tree_host = bare_host\<lparr>ho_output := (\<lambda>os p as.
     if p \<noteq> ''pgrep'' then Inl ''none''
     else Inr \<lparr>co_success = True, co_stdout =
       (if as = [''-P'', show_nat 1] then ''2 3'' else if as = [''-P'', show_nat 2] then ''4'' else []), co_stderr = []\<rparr>)\<rparr>"

definition tree_table :: "nat \<Rightarrow> nat list" where
  "tree_table p = (if p = 1 then [2, 3] else if p = 2 then [4] else [])"

lemma split_numbers:
  "split_whitespace ''2 3'' = [''2'', ''3'']" "split_whitespace ''4'' = [''4'']" "split_whitespace [] = []"
  by (simp_all add: split_whitespace.simps trim_start_def strip_seqs.simps white_space_def starts_with_def)

lemma show_nat_inject: "show_nat m = show_nat n \<longleftrightarrow> m = n"
  by (metis dec_value_show_nat option.inject)

lemma parsed_numbers: "parse_uint 32 ''2'' = Some 2" "parse_uint 32 ''3'' = Some 3" "parse_uint 32 ''4'' = Some 4"
  by (simp_all add: parse_uint_def is_digit_def byte_in_def)

lemma tree_host_children: "children_are tree_host tree_table"
  unfolding children_are_def
proof (intro allI)
  fix os p
  show "pids_in (ho_output tree_host os ''pgrep'' [''-P'', show_nat p]) = tree_table p"
    by (cases "p = 1"; cases "p = 2")
      (simp_all add: tree_host_def tree_table_def pids_in_def split_numbers show_nat_inject parsed_numbers map_filter_simps)
qed

theorem tree_told_to_end_witness:
  "\<exists>tree ps rest. synthesis_stop \<lparr>se_child = Some 1, se_port = 5174, se_host = ''h'', se_project_dir = ''d'', se_base_url = ''u''\<rparr>
      tree_host [] = Some (\<lparr>se_child = None, se_port = 5174, se_host = ''h'', se_project_dir = ''d'', se_base_url = ''u''\<rparr>,
      ps @ map (\<lambda>p. Output ''kill'' [''-TERM'', show_nat p]) tree @ rest) \<and> {1, 2, 3, 4} \<subseteq> set tree"
proof -
  let ?e = "\<lparr>se_child = Some 1, se_port = 5174, se_host = ''h'', se_project_dir = ''d'', se_base_url = ''u''\<rparr>"
  have "below tree_table = {(2, 1), (3, 1), (4, 2)}" by (auto simp: below_def tree_table_def split: if_splits)
  moreover have "wf {(2, 1), (3, 1), (4, 2 :: nat)}" by (rule wf_subset [OF wf_measure [of "\<lambda>n. 4 - n"]]) auto
  ultimately have wf: "wf (below tree_table)" and b: "(2, 1) \<in> below tree_table" "(3, 1) \<in> below tree_table" "(4, 2) \<in> below tree_table"
    by simp_all
  then have "(2, 1) \<in> (below tree_table)\<^sup>*" "(3, 1) \<in> (below tree_table)\<^sup>*" "(4, 1) \<in> (below tree_table)\<^sup>*"
    by (auto intro: rtrancl_into_rtrancl converse_rtrancl_into_rtrancl)
  moreover obtain tree ps rest where "synthesis_stop ?e tree_host [] = Some (?e\<lparr>se_child := None\<rparr>,
      [] @ ps @ map (\<lambda>p. Output ''kill'' [''-TERM'', show_nat p]) tree @ [Thread_Sleep 500] @
        map (\<lambda>p. Output ''kill'' [''-9'', show_nat p]) tree @ rest)"
      "set tree = {q. (q, 1) \<in> (below tree_table)\<^sup>*}"
    using tree_told_to_end [OF tree_host_children wf, of ?e 1 "[]"] by auto
  ultimately show ?thesis
    by - (rule exI [of _ tree], rule exI [of _ ps],
      rule exI [of _ "Thread_Sleep 500 # map (\<lambda>p. Output ''kill'' [''-9'', show_nat p]) tree @ rest"], simp)
qed

subsection \<open>A start that fails\<close>

text \<open>When the server does not become ready, the one process that was started is killed, and none below it.\<close>

lemma unready_leaves_children:
  "\<exists>e. synthesis_unready pid h os = Some (Inl e, os @ [Try_Wait pid, Kill_Child pid])"
  by (simp add: synthesis_unready_def drop_child_def script_defs)

text \<open>What is said of the result, the processes started and the operations of a script, whenever it is run.\<close>

definition yields :: "host \<Rightarrow> 'a script \<Rightarrow> ('a \<Rightarrow> nat set \<Rightarrow> host_op set \<Rightarrow> bool) \<Rightarrow> bool" where
  "yields h m Q \<longleftrightarrow> (\<forall>os. \<exists>a xs. m h os = Some (a, os @ xs) \<and> Q a (set (started h os xs)) (set xs))"

lemma yields_follow:
  assumes "yields h m P" and "\<And>a. yields h (f a) (\<lambda>b S' X'. \<forall>S X. P a S X \<longrightarrow> Q b (S \<union> S') (X \<union> X'))"
  shows "yields h (follow m f) Q"
  unfolding yields_def
proof
  fix os
  obtain a xs where m: "m h os = Some (a, os @ xs)" "P a (set (started h os xs)) (set xs)"
    using assms(1) unfolding yields_def by blast
  obtain b ys where "f a h (os @ xs) = Some (b, (os @ xs) @ ys)"
      "\<forall>S X. P a S X \<longrightarrow> Q b (S \<union> set (started h (os @ xs) ys)) (X \<union> set ys)"
    using assms(2) unfolding yields_def by blast
  then show "\<exists>b xs. follow m f h os = Some (b, os @ xs) \<and> Q b (set (started h os xs)) (set xs)"
    using m by - (rule exI [of _ b], rule exI [of _ "xs @ ys"], simp add: follow_def started_append)
qed

lemma yields_quiet: "runs_with h not_spawn m \<Longrightarrow> yields h m (\<lambda>a S X. S = {})"
  unfolding yields_def runs_with_def by (metis started_none list.set(1))

lemma yields_mono: "yields h m P \<Longrightarrow> (\<And>a S X. P a S X \<Longrightarrow> Q a S X) \<Longrightarrow> yields h m Q"
  unfolding yields_def by metis

lemma yields_finish: "Q a {} {} \<Longrightarrow> yields h (finish a) Q"
  by (simp add: yields_def finish_def)

definition synthesis_kept :: "string + synthesis_env \<Rightarrow> nat set \<Rightarrow> host_op set \<Rightarrow> bool" where
  "synthesis_kept r S X \<longleftrightarrow> (case r of Inl e \<Rightarrow> Kill_Child ` S \<subseteq> X | Inr e \<Rightarrow> S = set_option (se_child e))"

lemma synthesis_kept_mono: "synthesis_kept r S X \<Longrightarrow> synthesis_kept r S (Y \<union> X)"
  by (auto simp: synthesis_kept_def split: sum.splits)

lemma kept_follow:
  assumes "runs_with h not_spawn m" and "\<And>a. yields h (f a) synthesis_kept"
  shows "yields h (follow m f) synthesis_kept"
proof (rule yields_follow [OF yields_quiet [OF assms(1)]])
  fix a
  show "yields h (f a) (\<lambda>b S' X'. \<forall>S X. S = {} \<longrightarrow> synthesis_kept b (S \<union> S') (X \<union> X'))"
    using assms(2) by (rule yields_mono) (simp add: synthesis_kept_mono)
qed

lemma kept_or_fail:
  assumes "runs_with h not_spawn m" and "\<And>a. yields h (f a) synthesis_kept"
  shows "yields h (or_fail m f) synthesis_kept"
  unfolding or_fail_def
proof (rule kept_follow [OF assms(1)])
  fix r
  show "yields h (case r of Inl e \<Rightarrow> finish (Inl e) | Inr a \<Rightarrow> f a) synthesis_kept"
    using assms(2) by (cases r) (auto intro!: yields_finish simp: synthesis_kept_def)
qed

lemma runs_find_project: "runs_with h not_spawn (find_project_dir pp)"
proof -
  have "runs_with h not_spawn (first_project pp cs)" for cs
    by (induction cs) (auto intro!: runs_intros)
  then show ?thesis by (simp add: find_project_dir_def)
qed

lemma runs_port: "runs_with h not_spawn (synthesis_port_available port)"
proof -
  have "runs_with h not_spawn (kill_stale ps)" for ps
  proof (induction ps)
    case (Cons p ps)
    then show ?case
      by (cases "parse_uint 32 p") (auto intro!: runs_intros simp: Let_def split: sum.split)
  qed (simp add: runs_finish)
  then have "runs_with h not_spawn (try_kill_stale_synthesis port)"
    unfolding try_kill_stale_synthesis_def by (intro runs_intros) simp_all
  then show ?thesis unfolding synthesis_port_available_def by (intro runs_intros) simp_all
qed

lemma runs_poll: "runs_with h not_spawn (poll_until_ready url pid n)"
  by (induction n) (auto intro!: runs_intros)

text \<open>Starting ends. Either the environment holds the one process that was started, or each process that was started is
  killed.\<close>

theorem synthesis_start_accounts: "yields h (synthesis_start pp host port) synthesis_kept"
proof -
  let ?args = "[''dev'', ''--host'', host, ''--port'', show_nat port]"
  let ?go = "\<lambda>dir r. case r of
      Inl e \<Rightarrow> finish (Inl (''failed to spawn synthesis server: '' @ e))
    | Inr pid \<Rightarrow>
        follow (poll_until_ready (synthesis_url host port @ ''/api/pages'') pid 60) (\<lambda>ready.
        if ready then
          finish (Inr \<lparr>se_child = Some pid, se_port = port, se_host = host, se_project_dir = dir,
            se_base_url = synthesis_url host port\<rparr>)
        else synthesis_unready pid)"
  have "yields h (follow (spawned_by ''pnpm'' ?args []) (?go dir)) synthesis_kept" for dir
    unfolding yields_def
  proof
    fix os
    let ?x = "Spawn ''pnpm'' ?args []"
    show "\<exists>a xs. follow (spawned_by ''pnpm'' ?args []) (?go dir) h os = Some (a, os @ xs) \<and>
        synthesis_kept a (set (started h os xs)) (set xs)"
    proof (cases "ho_spawn h os ''pnpm''")
      case (Inl e)
      then show ?thesis
        by - (rule exI [of _ "Inl (''failed to spawn synthesis server: '' @ e)"], rule exI [of _ "[?x]"],
          simp add: spawned_by_def script_defs synthesis_kept_def)
    next
      case (Inr pid)
      obtain ready ys where y: "poll_until_ready (synthesis_url host port @ ''/api/pages'') pid 60 h (os @ [?x]) =
          Some (ready, (os @ [?x]) @ ys)" "list_all not_spawn ys"
        using runs_poll unfolding runs_with_def by blast
      show ?thesis
      proof (cases ready)
        case True
        then show ?thesis using y Inr
          by - (rule exI [of _ "Inr \<lparr>se_child = Some pid, se_port = port, se_host = host, se_project_dir = dir,
              se_base_url = synthesis_url host port\<rparr>"], rule exI [of _ "?x # ys"],
            simp add: spawned_by_def act_def follow_def finish_def synthesis_kept_def started_none)
      next
        case False
        obtain e where u: "synthesis_unready pid h (os @ ?x # ys) = Some (Inl e, (os @ ?x # ys) @ [Try_Wait pid, Kill_Child pid])"
          using unready_leaves_children by blast
        show ?thesis using y Inr False u
          by - (rule exI [of _ "Inl e"], rule exI [of _ "?x # ys @ [Try_Wait pid, Kill_Child pid]"],
            simp add: spawned_by_def act_def follow_def synthesis_kept_def started_none started_append)
      qed
    qed
  qed
  then show ?thesis
    unfolding synthesis_start_def
    by (intro kept_or_fail kept_follow runs_find_project runs_port runs_ops)
      (auto intro!: kept_or_fail runs_port yields_finish simp: synthesis_kept_def)
qed

end
