(* ===== verification/Mcp_Docs.thy ===== *)
theory Mcp_Docs
  imports Mcp_Base
begin

section \<open>Texts of the MCP server\<close>

text \<open>
  \<open>mcp/docs.rs\<close> of \<open>crates/vscreen-server\<close> and the tables of \<open>mcp/mod.rs\<close>: the patterns of
  tasks \<open>vscreen_plan\<close> looks for, the documents and the help texts that \<open>vscreen_help\<close> and the
  resources give, and the prompts. Texts are bytes of UTF-8, one list element per line.
\<close>

subsection \<open>Patterns of tasks\<close>

record task_pattern =
  tp_name :: string
  tp_keywords :: "string list"
  tp_negative_keywords :: "string list"
  tp_recommendation :: string

definition task_read_page_text :: task_pattern where
  "task_read_page_text =
     \<lparr>tp_name = ''Read page text'',
      tp_keywords = [''read text'', ''read the text'', ''read all'', ''get text'', ''page content'', ''what does the page say'', ''extract text'', ''page text'', ''all text'', ''visible text'', ''text on the page'', ''text content''],
      tp_negative_keywords = [''click'', ''fill'', ''screenshot''],
      tp_recommendation = (join_lines
        [''1. `vscreen_extract_text(instance_id)` '' @ [CHR 0xE2, CHR 0x80, CHR 0x94] @ '' returns all visible text without screenshots'',
         ''- Optionally pass `selector` to extract from a specific element'',
         ''- Much faster and more accurate than screenshot + OCR''])\<rparr>"

definition task_see_the_full_page :: task_pattern where
  "task_see_the_full_page =
     \<lparr>tp_name = ''See the full page'',
      tp_keywords = [''full page'', ''whole page'', ''entire page'', ''see everything'', ''overview'', ''what is on the page'', ''see the page''],
      tp_negative_keywords = [],
      tp_recommendation = (join_lines
        [''1. `vscreen_screenshot(instance_id, full_page=true)` '' @ [CHR 0xE2, CHR 0x80, CHR 0x94] @ '' captures the entire scrollable document in one image'',
         ''- Do NOT scroll + screenshot repeatedly'',
         ''- Use `clip={x,y,width,height}` to zoom into a specific region''])\<rparr>"

definition task_find_and_click_a_button_link :: task_pattern where
  "task_find_and_click_a_button_link =
     \<lparr>tp_name = ''Find and click a button/link'',
      tp_keywords = [''click'', ''press'', ''tap'', ''button'', ''link'', ''sign in'', ''submit'', ''login'', ''log in''],
      tp_negative_keywords = [''fill'', ''form'', ''type'', ''captcha''],
      tp_recommendation = (join_lines
        [''1. `vscreen_click_element(instance_id, text=\"Button Text\")` '' @ [CHR 0xE2, CHR 0x80, CHR 0x94] @ '' finds and clicks by visible text (main frame, with retries)'',
         ''OR: `vscreen_click_element(instance_id, selector=\"button.submit\")` '' @ [CHR 0xE2, CHR 0x80, CHR 0x94] @ '' by CSS selector'',
         ''- For iframe elements: `vscreen_find_by_text(text=\"...\", include_iframes=true)` then `vscreen_click(x, y)`'',
         ''- For click + navigation: `vscreen_click_and_navigate(text=\"Link Text\")`''])\<rparr>"

definition task_fill_a_form :: task_pattern where
  "task_fill_a_form =
     \<lparr>tp_name = ''Fill a form'',
      tp_keywords = [''fill'', ''form'', ''enter'', ''type'', ''input'', ''field'', ''username'', ''password'', ''email''],
      tp_negative_keywords = [''captcha''],
      tp_recommendation = (join_lines
        [''1. `vscreen_find_input(instance_id, placeholder=\"...\")` or `vscreen_find_input(label=\"...\")` '' @ [CHR 0xE2, CHR 0x80, CHR 0x94] @ '' discover form fields'',
         ''2. `vscreen_fill(instance_id, selector=\"input[name='field']\", value=\"...\")` '' @ [CHR 0xE2, CHR 0x80, CHR 0x94] @ '' clear + fill each field'',
         ''3. `vscreen_click_element(instance_id, text=\"Submit\")` '' @ [CHR 0xE2, CHR 0x80, CHR 0x94] @ '' submit the form'',
         ''- Use `vscreen_screenshot` after submit to verify''])\<rparr>"

definition task_navigate_and_extract_data :: task_pattern where
  "task_navigate_and_extract_data =
     \<lparr>tp_name = ''Navigate and extract data'',
      tp_keywords = [''navigate'', ''go to'', ''open'', ''visit'', ''load''],
      tp_negative_keywords = [],
      tp_recommendation = (join_lines
        [''1. `vscreen_navigate(instance_id, url=\"...\", wait_until=\"load\")` '' @ [CHR 0xE2, CHR 0x80, CHR 0x94] @ '' load the page'',
         ''2. `vscreen_dismiss_dialogs(instance_id)` '' @ [CHR 0xE2, CHR 0x80, CHR 0x94] @ '' clear cookie consent / GDPR overlays'',
         ''3. `vscreen_extract_text(instance_id)` '' @ [CHR 0xE2, CHR 0x80, CHR 0x94] @ '' get all text content'',
         ''OR: `vscreen_screenshot(instance_id, full_page=true)` '' @ [CHR 0xE2, CHR 0x80, CHR 0x94] @ '' see the visual layout''])\<rparr>"

definition task_wait_for_dynamic_content :: task_pattern where
  "task_wait_for_dynamic_content =
     \<lparr>tp_name = ''Wait for dynamic content'',
      tp_keywords = [''wait'', ''loading'', ''spinner'', ''appear'', ''show up'', ''dynamic'', ''ajax'', ''async''],
      tp_negative_keywords = [],
      tp_recommendation = (join_lines
        [''Use targeted waits instead of fixed delays:'',
         ''- `vscreen_wait_for_text(instance_id, text=\"...\")` '' @ [CHR 0xE2, CHR 0x80, CHR 0x94] @ '' wait for specific text to appear'',
         ''- `vscreen_wait_for_selector(instance_id, selector=\"...\")` '' @ [CHR 0xE2, CHR 0x80, CHR 0x94] @ '' wait for an element to exist'',
         ''- `vscreen_wait_for_url(instance_id, url_contains=\"...\")` '' @ [CHR 0xE2, CHR 0x80, CHR 0x94] @ '' wait for navigation'',
         ''- `vscreen_wait_for_network_idle(instance_id)` '' @ [CHR 0xE2, CHR 0x80, CHR 0x94] @ '' wait for all network requests to complete'',
         ''Do NOT use `vscreen_wait(5000)` loops.''])\<rparr>"

definition task_find_an_element :: task_pattern where
  "task_find_an_element =
     \<lparr>tp_name = ''Find an element'',
      tp_keywords = [''find'', ''locate'', ''where is'', ''search for'', ''element''],
      tp_negative_keywords = [''click'', ''fill'', ''text content''],
      tp_recommendation = (join_lines
        [''- By visible text: `vscreen_find_by_text(instance_id, text=\"Sign In\")`'',
         ''- By CSS selector: `vscreen_find_elements(instance_id, selector=\"button.primary\")`'',
         ''- Set `include_iframes=true` when elements might be inside iframes'',
         ''- For semantic structure: `vscreen_accessibility_tree(instance_id)`''])\<rparr>"

definition task_solve_captcha :: task_pattern where
  "task_solve_captcha =
     \<lparr>tp_name = ''Solve CAPTCHA'',
      tp_keywords = [''captcha'', ''recaptcha'', ''verify'', ''robot''],
      tp_negative_keywords = [],
      tp_recommendation = (join_lines
        [''1. `vscreen_solve_captcha(instance_id)` '' @ [CHR 0xE2, CHR 0x80, CHR 0x94] @ '' fully automated reCAPTCHA v2 solving'',
         ''- Handles checkbox click, tile selection, verification, retries'',
         ''- Requires vision LLM (--vision-url)'',
         ''- For manual workflow: `vscreen_help(topic=\"captcha\")`''])\<rparr>"

definition task_dismiss_popups_overlays :: task_pattern where
  "task_dismiss_popups_overlays =
     \<lparr>tp_name = ''Dismiss popups/overlays'',
      tp_keywords = [''dismiss'', ''close'', ''popup'', ''overlay'', ''cookie'', ''consent'', ''banner'', ''gdpr'', ''dialog''],
      tp_negative_keywords = [],
      tp_recommendation = (join_lines
        [''1. `vscreen_dismiss_dialogs(instance_id)` '' @ [CHR 0xE2, CHR 0x80, CHR 0x94] @ '' auto-detects and dismisses cookie consent, GDPR, privacy dialogs'',
         ''- Supports OneTrust, CookieBot, Didomi, Quantcast, TrustArc, and many more'',
         ''- For video ads: `vscreen_dismiss_ads(instance_id)`''])\<rparr>"

definition task_scroll_to_content :: task_pattern where
  "task_scroll_to_content =
     \<lparr>tp_name = ''Scroll to content'',
      tp_keywords = [''scroll'', ''below'', ''bottom'', ''down'', ''more content''],
      tp_negative_keywords = [],
      tp_recommendation = (join_lines
        [''- To see below-fold content: `vscreen_screenshot(instance_id, full_page=true)` '' @ [CHR 0xE2, CHR 0x80, CHR 0x94] @ '' captures everything'',
         ''- To bring a specific element into view: `vscreen_scroll_to_element(instance_id, selector=\"#target\")`'',
         ''- Do NOT use `vscreen_scroll` + screenshot loops''])\<rparr>"

definition task_get_page_metadata :: task_pattern where
  "task_get_page_metadata =
     \<lparr>tp_name = ''Get page metadata'',
      tp_keywords = [''url'', ''title'', ''page info'', ''current page'', ''what page''],
      tp_negative_keywords = [''text'', ''content'', ''extract''],
      tp_recommendation = (join_lines
        [''1. `vscreen_get_page_info(instance_id)` '' @ [CHR 0xE2, CHR 0x80, CHR 0x94] @ '' returns URL, title, viewport dimensions, scroll position'',
         ''- Do NOT use `vscreen_execute_js(\"document.title\")` for this''])\<rparr>"

definition task_work_with_iframes :: task_pattern where
  "task_work_with_iframes =
     \<lparr>tp_name = ''Work with iframes'',
      tp_keywords = [''iframe'', ''frame'', ''embed'', ''widget'', ''recaptcha iframe''],
      tp_negative_keywords = [''captcha solve''],
      tp_recommendation = (join_lines
        [''1. `vscreen_list_frames(instance_id)` '' @ [CHR 0xE2, CHR 0x80, CHR 0x94] @ '' discover all iframes with bounding rects'',
         ''2. `vscreen_find_by_text(text=\"...\", include_iframes=true)` '' @ [CHR 0xE2, CHR 0x80, CHR 0x94] @ '' find elements inside iframes'',
         ''3. `vscreen_click(x, y)` '' @ [CHR 0xE2, CHR 0x80, CHR 0x94] @ '' click using page-space coordinates from find tools'',
         ''- `vscreen_click_element` does NOT search iframes'',
         ''- Use `vscreen_screenshot(clip={x,y,w,h})` to zoom into an iframe region''])\<rparr>"

definition task_navigate_between_pages :: task_pattern where
  "task_navigate_between_pages =
     \<lparr>tp_name = ''Navigate between pages'',
      tp_keywords = [''back'', ''forward'', ''history'', ''previous page'', ''go back'', ''next page''],
      tp_negative_keywords = [],
      tp_recommendation = (join_lines
        [''- `vscreen_go_back(instance_id)` '' @ [CHR 0xE2, CHR 0x80, CHR 0x94] @ '' browser back button'',
         ''- `vscreen_go_forward(instance_id)` '' @ [CHR 0xE2, CHR 0x80, CHR 0x94] @ '' browser forward button'',
         ''- `vscreen_reload(instance_id)` '' @ [CHR 0xE2, CHR 0x80, CHR 0x94] @ '' refresh the page''])\<rparr>"

definition task_take_multiple_screenshots :: task_pattern where
  "task_take_multiple_screenshots =
     \<lparr>tp_name = ''Take multiple screenshots'',
      tp_keywords = [''animation'', ''transition'', ''sequence'', ''recording'', ''multiple screenshots'', ''over time''],
      tp_negative_keywords = [],
      tp_recommendation = (join_lines
        [''1. `vscreen_screenshot_sequence(instance_id, count=5, interval_ms=1000)` '' @ [CHR 0xE2, CHR 0x80, CHR 0x94] @ '' capture N screenshots at regular intervals'',
         ''- Useful for observing animations, transitions, or verifying timed actions''])\<rparr>"

definition task_identify_unlabeled_elements :: task_pattern where
  "task_identify_unlabeled_elements =
     \<lparr>tp_name = ''Identify unlabeled elements'',
      tp_keywords = [''icon'', ''unlabeled'', ''no text'', ''what is this button'', ''describe''],
      tp_negative_keywords = [],
      tp_recommendation = (join_lines
        [''1. `vscreen_describe_elements(instance_id)` '' @ [CHR 0xE2, CHR 0x80, CHR 0x94] @ '' uses vision LLM to identify icon-only buttons and unlabeled UI elements'',
         ''- Requires --vision-url'',
         ''- Try `vscreen_find_elements` or `vscreen_find_by_text` first for labeled elements''])\<rparr>"

definition task_patterns :: "task_pattern list" where
  "task_patterns =
     [task_read_page_text,
      task_see_the_full_page,
      task_find_and_click_a_button_link,
      task_fill_a_form,
      task_navigate_and_extract_data,
      task_wait_for_dynamic_content,
      task_find_an_element,
      task_solve_captcha,
      task_dismiss_popups_overlays,
      task_scroll_to_content,
      task_get_page_metadata,
      task_work_with_iframes,
      task_navigate_between_pages,
      task_take_multiple_screenshots,
      task_identify_unlabeled_elements]"

subsection \<open>Documents\<close>

definition server_instructions :: string where
  "server_instructions = join_lines
      [''# vscreen MCP Server'',
       '''',
       ''Control headless Chromium browser instances for AI-driven web automation.'',
       '''',
       ''## Core Workflow'',
       '''',
       ''1. **Discover** '' @ [CHR 0xE2, CHR 0x80, CHR 0x94] @ '' Call `vscreen_list_instances` to find available browser instances. Each returns an `instance_id` (e.g., \"dev\") used in all subsequent calls.'',
       ''2. **Navigate** '' @ [CHR 0xE2, CHR 0x80, CHR 0x94] @ '' Call `vscreen_navigate(instance_id, url, wait_until=\"load\")` to load a page. Returns the final URL and page title.'',
       ''3. **Observe** '' @ [CHR 0xE2, CHR 0x80, CHR 0x94] @ '' Call `vscreen_screenshot(instance_id)` to capture the current page. Use `clip: {x, y, width, height}` to zoom into a specific region.'',
       ''4. **Discover Elements** '' @ [CHR 0xE2, CHR 0x80, CHR 0x94] @ '' Call `vscreen_find_elements(selector)` or `vscreen_find_by_text(text)` to locate interactive elements. Returns page-space coordinates you can pass directly to click/hover.'',
       ''5. **Act** '' @ [CHR 0xE2, CHR 0x80, CHR 0x94] @ '' Call `vscreen_click(x, y)`, `vscreen_type(text)`, `vscreen_fill(selector, value)`, etc. to interact with the page.'',
       ''6. **Verify** '' @ [CHR 0xE2, CHR 0x80, CHR 0x94] @ '' Take another screenshot to confirm the action had the desired effect.'',
       ''7. **Repeat** steps 3-6 as needed.'',
       '''',
       ''## Coordinate System'',
       '''',
       ''All coordinates are in **page-space** (absolute position on the full page, not viewport-relative). The system automatically scrolls elements into view before clicking. Coordinates returned by `vscreen_find_elements` and `vscreen_find_by_text` can be passed directly to `vscreen_click` without any translation.'',
       '''',
       ''## Iframe Handling'',
       '''',
       ''Cross-origin iframes (e.g., reCAPTCHA, embedded widgets) require special handling:'',
       ''- Use `vscreen_list_frames` to discover all iframes and their bounding rectangles.'',
       ''- Use `vscreen_find_elements(include_iframes=true)` or `vscreen_find_by_text(include_iframes=true)` to search inside iframes. Returned coordinates are already translated to page-space.'',
       ''- Click iframe elements using the returned page-space coordinates with `vscreen_click`.'',
       ''- The `frame_id` in results identifies which iframe contains each element.'',
       '''',
       ''## Connection Modes'',
       '''',
       ''vscreen supports multiple ways to connect:'',
       '''',
       ''- **SSE direct (recommended for Cursor)**: Start the server with `vscreen --dev --mcp-sse 0.0.0.0:8451`, then configure your MCP client with `{\"url\": \"http://localhost:8451/mcp\"}`. The server runs independently and survives client reconnections.'',
       ''- **Stdio proxy**: For MCP clients that only support subprocess spawning, use `vscreen --mcp-stdio-proxy http://localhost:8451/mcp`. This lightweight proxy forwards messages to an existing SSE server without starting its own dev environment.'',
       ''- **Stdio direct**: `vscreen --mcp-stdio --dev` starts a full server in subprocess mode. Not recommended when another vscreen instance is already running (causes resource conflicts).'',
       '''',
       ''**Best practice**: Start the server once with `--dev --mcp-sse`, then connect via SSE URL or stdio proxy.'',
       '''',
       ''## Instance Locking'',
       '''',
       ''- **Single-agent mode** (default with `--mcp-stdio`): Locks are auto-acquired. No explicit locking needed.'',
       ''- **Multi-agent mode**: Call `vscreen_instance_lock(lock_type=\"exclusive\")` before interacting. Release with `vscreen_instance_unlock` when done.'',
       '''',
       ''## Tool Categories'',
       '''',
       ''- **Observation** (read-only): `vscreen_screenshot`, `vscreen_find_elements`, `vscreen_find_by_text`, `vscreen_get_page_info`, `vscreen_list_frames`, `vscreen_extract_text`, `vscreen_accessibility_tree`, `vscreen_screenshot_annotated`, `vscreen_describe_elements`'',
       ''- **Input Actions**: `vscreen_click`, `vscreen_type`, `vscreen_fill`, `vscreen_key_press`, `vscreen_key_combo`, `vscreen_scroll`, `vscreen_drag`, `vscreen_hover`, `vscreen_batch_click`, `vscreen_click_element`, `vscreen_select_option`, `vscreen_scroll_to_element`'',
       ''- **Navigation**: `vscreen_navigate`, `vscreen_go_back`, `vscreen_go_forward`, `vscreen_reload`'',
       ''- **Synchronization**: `vscreen_wait`, `vscreen_wait_for_idle`, `vscreen_wait_for_text`, `vscreen_wait_for_selector`, `vscreen_wait_for_url`, `vscreen_wait_for_network_idle`'',
       ''- **Memory & Context**: `vscreen_history_list`, `vscreen_history_get`, `vscreen_session_log`, `vscreen_session_summary`, `vscreen_console_log`'',
       ''- **Cookie & Storage**: `vscreen_get_cookies`, `vscreen_set_cookie`, `vscreen_get_storage`, `vscreen_set_storage`'',
       ''- **Utility**: `vscreen_dismiss_dialogs`, `vscreen_execute_js`, `vscreen_help`'',
       '''',
       ''## Tool Selection Rules'',
       '''',
       ''OBSERVE the full page:'',
       ''- NEVER scroll + screenshot repeatedly. Use `vscreen_screenshot(full_page=true)` for the entire document in one call.'',
       ''- Use `vscreen_screenshot(clip={x,y,width,height})` to zoom into a specific region at full resolution.'',
       '''',
       ''READ page content:'',
       ''- NEVER screenshot to read text. Use `vscreen_extract_text` for all visible text in one call.'',
       ''- Use `vscreen_get_page_info` for URL, title, viewport '' @ [CHR 0xE2, CHR 0x80, CHR 0x94] @ '' not `vscreen_execute_js(\"document.title\")`.'',
       '''',
       ''FIND elements:'',
       ''- Use `vscreen_find_by_text` when you know the visible label (e.g. \"Sign In\").'',
       ''- Use `vscreen_find_elements` when you have a CSS selector.'',
       ''- Use `vscreen_accessibility_tree` for semantic page structure.'',
       ''- Set `include_iframes=true` when elements might be inside iframes.'',
       '''',
       ''CLICK elements:'',
       ''- Main frame by text/selector: prefer `vscreen_click_element` (has retries + wait built-in).'',
       ''- By coordinates (from find tools) or inside iframes: use `vscreen_click`.'',
       ''- Rapid multi-click (CAPTCHA tiles): use `vscreen_batch_click`.'',
       ''- Click + expect navigation: use `vscreen_click_and_navigate`.'',
       '''',
       ''WAIT for changes:'',
       ''- NEVER use `vscreen_wait(5000)` + screenshot loops. Use:'',
       ''  - `vscreen_wait_for_text` when expecting specific text to appear.'',
       ''  - `vscreen_wait_for_selector` when expecting an element to appear.'',
       ''  - `vscreen_wait_for_url` when expecting navigation.'',
       ''  - `vscreen_wait_for_network_idle` when waiting for async data loads.'',
       '''',
       ''SCROLL:'',
       ''- To bring an element into view: use `vscreen_scroll_to_element` (not manual scroll deltas).'',
       ''- To capture below-fold content: use `vscreen_screenshot(full_page=true)` instead of scrolling.'',
       '''',
       ''PLAN complex tasks:'',
       ''- Call `vscreen_plan(task=\"...\")` before multi-step workflows to get the optimal tool sequence.'',
       '''',
       ''## Error Recovery'',
       '''',
       ''- If a click doesn't produce the expected result, take a screenshot and re-analyze.'',
       ''- If an element isn't found, try `include_iframes: true`, a broader CSS selector, or `vscreen_wait_for_selector` first.'',
       ''- If a page has a cookie consent overlay, call `vscreen_dismiss_dialogs` first.'',
       ''- Call `vscreen_help(topic)` for detailed guidance on any tool or workflow.'',
       '''']"

definition doc_quickstart :: string where
  "doc_quickstart = join_lines
      [''# vscreen Quick Start Guide'',
       '''',
       ''## 1. Discover Instances'',
       '''',
       ''```json'',
       ''// Call vscreen_list_instances (no arguments)'',
       ''// Returns: [{\"instance_id\": \"dev\", \"state\": {\"state\": \"running\"}, ...}]'',
       ''```'',
       '''',
       ''## 2. Navigate to a Page'',
       '''',
       ''```json'',
       ''// Call vscreen_navigate'',
       ''{\"instance_id\": \"dev\", \"url\": \"https://example.com\", \"wait_until\": \"load\"}'',
       ''// Returns: \"Navigated to https://example.com'' @ [CHR 0x5C] @ ''nTitle: Example Domain\"'',
       ''```'',
       '''',
       ''`wait_until` options:'',
       ''- `\"load\"` '' @ [CHR 0xE2, CHR 0x80, CHR 0x94] @ '' Wait for the load event (recommended default)'',
       ''- `\"domcontentloaded\"` '' @ [CHR 0xE2, CHR 0x80, CHR 0x94] @ '' Wait for DOM ready (faster, but images may not be loaded)'',
       ''- `\"networkidle\"` '' @ [CHR 0xE2, CHR 0x80, CHR 0x94] @ '' Wait until network is quiet for 500ms (slowest, most complete)'',
       ''- `\"none\"` '' @ [CHR 0xE2, CHR 0x80, CHR 0x94] @ '' Don't wait at all'',
       '''',
       ''## 3. Take a Screenshot'',
       '''',
       ''```json'',
       ''// Call vscreen_screenshot'',
       ''{\"instance_id\": \"dev\"}'',
       ''// Returns: base64-encoded PNG image'',
       ''```'',
       '''',
       ''Options:'',
       ''- `format`: `\"png\"` (default), `\"jpeg\"`, `\"webp\"`'',
       ''- `quality`: 0-100 (for jpeg/webp)'',
       ''- `full_page`: true to capture the entire scrollable page'',
       ''- `clip`: `{\"x\": 100, \"y\": 200, \"width\": 400, \"height\": 300}` to capture a region'',
       '''',
       ''## 4. Find Elements'',
       '''',
       ''```json'',
       ''// By CSS selector:'',
       ''{\"instance_id\": \"dev\", \"selector\": \"button.submit\", \"include_iframes\": true}'',
       ''// Returns: [{\"tag\": \"button\", \"text\": \"Submit\", \"x\": 150, \"y\": 400, \"width\": 100, \"height\": 40, ...}]'',
       '''',
       ''// By visible text:'',
       ''{\"instance_id\": \"dev\", \"text\": \"Sign In\", \"include_iframes\": true}'',
       ''// Returns: [{\"tag\": \"a\", \"text\": \"Sign In\", \"x\": 800, \"y\": 20, \"width\": 60, \"height\": 20, ...}]'',
       ''```'',
       '''',
       ''## 5. Click an Element'',
       '''',
       ''```json'',
       ''// Use coordinates from find_elements/find_by_text:'',
       ''{\"instance_id\": \"dev\", \"x\": 150, \"y\": 400}'',
       ''// The system auto-scrolls the element into view before clicking.'',
       ''```'',
       '''',
       ''## 6. Type Text'',
       '''',
       ''```json'',
       ''// Type into the focused element:'',
       ''{\"instance_id\": \"dev\", \"text\": \"Hello World\"}'',
       '''',
       ''// Or fill a specific input field (clears first):'',
       ''{\"instance_id\": \"dev\", \"selector\": \"input[name='email']\", \"value\": \"user@example.com\"}'',
       ''```'',
       '''',
       ''## 7. Verify Results'',
       '''',
       ''Take another screenshot after each action to confirm it worked as expected.'',
       '''']"

definition doc_captcha :: string where
  "doc_captcha = join_lines
      [''# Solving reCAPTCHA Challenges'',
       '''',
       ''## Automated (Recommended)'',
       '''',
       ''Use `vscreen_solve_captcha` for fully automated reCAPTCHA v2 solving:'',
       '''',
       ''```json'',
       ''{\"instance_id\": \"dev\"}'',
       ''```'',
       '''',
       ''This tool:'',
       ''1. Finds the \"I'm not a robot\" checkbox in the reCAPTCHA iframe'',
       ''2. Clicks it to trigger the image challenge'',
       ''3. Uses vision LLM to identify which tiles match the target object'',
       ''4. Clicks all matching tiles + VERIFY in rapid succession via batch click'',
       ''5. Handles multi-round challenges (reCAPTCHA often requires 2-5 rounds)'',
       ''6. Retries with page reload if the challenge expires'',
       '''',
       ''Parameters:'',
       ''- `instance_id` (required): The browser instance'',
       ''- `max_attempts` (default: 3): Max page-reload retry cycles'',
       '''',
       ''Returns: `{solved: bool, rounds: N, attempts: N, details: [...]}`'',
       '''',
       ''**Requires** `--vision-url` to be configured.'',
       '''',
       ''## Manual Workflow (Fallback)'',
       '''',
       ''If vision LLM is not available or for non-reCAPTCHA CAPTCHAs:'',
       '''',
       ''1. `vscreen_find_by_text(\"I'm not a robot\", include_iframes=true)` '' @ [CHR 0xE2, CHR 0x80, CHR 0x94] @ '' Find checkbox'',
       ''2. `vscreen_click(x, y)` '' @ [CHR 0xE2, CHR 0x80, CHR 0x94] @ '' Click the checkbox center coordinates'',
       ''3. `vscreen_wait(3000)` '' @ [CHR 0xE2, CHR 0x80, CHR 0x94] @ '' Wait for challenge'',
       ''4. `vscreen_screenshot(clip={challenge_iframe_bounds})` '' @ [CHR 0xE2, CHR 0x80, CHR 0x94] @ '' Capture tiles'',
       ''5. Identify correct tiles visually'',
       ''6. `vscreen_batch_click(points=[...tiles, verify_btn], delay_between_ms=150)` '' @ [CHR 0xE2, CHR 0x80, CHR 0x94] @ '' Click all at once'',
       ''7. `vscreen_screenshot` '' @ [CHR 0xE2, CHR 0x80, CHR 0x94] @ '' Check result'',
       '''',
       ''### Grid Coordinates Reference'',
       '''',
       ''Challenge iframe is typically at (85, 84, 400x580). Tile centers:'',
       '''',
       ''**3x3 grid** (9 separate images):'',
       ''```'',
       ''Tile 1: (152, 249)  Tile 2: (285, 249)  Tile 3: (418, 249)'',
       ''Tile 4: (152, 389)  Tile 5: (285, 389)  Tile 6: (418, 389)'',
       ''Tile 7: (152, 529)  Tile 8: (285, 529)  Tile 9: (418, 529)'',
       ''```'',
       '''',
       ''**4x4 grid** (single image split into tiles):'',
       ''```'',
       ''Tile 1:  (135, 237)  Tile 2:  (235, 237)  Tile 3:  (335, 237)  Tile 4:  (435, 237)'',
       ''Tile 5:  (135, 342)  Tile 6:  (235, 342)  Tile 7:  (335, 342)  Tile 8:  (435, 342)'',
       ''Tile 9:  (135, 447)  Tile 10: (235, 447)  Tile 11: (335, 447)  Tile 12: (435, 447)'',
       ''Tile 13: (135, 552)  Tile 14: (235, 552)  Tile 15: (335, 552)  Tile 16: (435, 552)'',
       ''```'',
       '''',
       ''**VERIFY/SKIP button**: ~(435, 634)'',
       '''',
       ''### Important Notes'',
       '''',
       ''- Use `vscreen_batch_click` '' @ [CHR 0xE2, CHR 0x80, CHR 0x94] @ '' individual clicks are too slow for the 2-minute timer'',
       ''- After challenge transitions, `find_elements` may return stale tiles; use hardcoded positions'',
       ''- Always reload the page after a timeout (don't re-click the expired checkbox)'',
       ''- reCAPTCHA may require 2-5 rounds of image selection'',
       '''']"

definition doc_workflows :: string where
  "doc_workflows = join_lines
      [''# Common Workflows'',
       '''',
       ''## Solving reCAPTCHA'',
       '''',
       ''Use `vscreen_solve_captcha(instance_id)` for automated solving, or see `vscreen_help(topic=\"captcha\")` for the full manual workflow and grid coordinate reference.'',
       '''',
       ''## Handling Cookie Consent Dialogs'',
       '''',
       ''1. First try `vscreen_dismiss_dialogs(instance_id)` '' @ [CHR 0xE2, CHR 0x80, CHR 0x94] @ '' Handles OneTrust, CookieBot, and common patterns'',
       ''2. If that fails: `vscreen_find_by_text(\"Accept\")` or `vscreen_find_by_text(\"I agree\")`'',
       ''3. `vscreen_click` on the found button'',
       ''4. Cookies persist across navigations (browser profile is saved)'',
       '''',
       ''## Extracting Article Text'',
       '''',
       ''1. `vscreen_navigate(url, wait_until=\"load\")` '' @ [CHR 0xE2, CHR 0x80, CHR 0x94] @ '' Load the article'',
       ''2. `vscreen_dismiss_dialogs` '' @ [CHR 0xE2, CHR 0x80, CHR 0x94] @ '' Clear any overlays'',
       ''3. `vscreen_extract_text` '' @ [CHR 0xE2, CHR 0x80, CHR 0x94] @ '' Get all visible text from the page'',
       ''4. Or for structured extraction: `vscreen_find_elements(\"article, main, .content\")` then `vscreen_execute_js` with a custom text extraction script'',
       '''',
       ''## Filling Forms'',
       '''',
       ''1. `vscreen_find_elements(\"input, select, textarea\")` '' @ [CHR 0xE2, CHR 0x80, CHR 0x94] @ '' Discover all form fields'',
       ''2. For each text input: `vscreen_fill(selector=\"input[name='fieldname']\", value=\"value\")`'',
       ''3. For dropdowns: `vscreen_select_option(selector=\"select[name='country']\", value=\"US\")`'',
       ''4. For checkboxes/radios: `vscreen_click` at the element coordinates'',
       ''5. Submit: `vscreen_find_elements(\"button[type='submit'], input[type='submit']\")` then `vscreen_click`'',
       '''',
       ''## Multi-Page Navigation'',
       '''',
       ''1. `vscreen_navigate(url)` '' @ [CHR 0xE2, CHR 0x80, CHR 0x94] @ '' Start at the first page'',
       ''2. Process the page content'',
       ''3. `vscreen_find_by_text(\"Next\")` or `vscreen_find_elements(\"a.next, [rel='next']\")` '' @ [CHR 0xE2, CHR 0x80, CHR 0x94] @ '' Find pagination'',
       ''4. `vscreen_click` the next button'',
       ''5. `vscreen_wait_for_url` or `vscreen_wait_for_idle` '' @ [CHR 0xE2, CHR 0x80, CHR 0x94] @ '' Wait for navigation to complete'',
       ''6. Repeat from step 2'',
       '''',
       ''## Taking Sequential Screenshots'',
       '''',
       ''```json'',
       ''{\"instance_id\": \"dev\", \"count\": 3, \"interval_ms\": 1000}'',
       ''```'',
       ''Returns 3 screenshots taken 1 second apart '' @ [CHR 0xE2, CHR 0x80, CHR 0x94] @ '' useful for observing animations, loading sequences, or dynamic content.'',
       '''']"

definition doc_coordinates :: string where
  "doc_coordinates = join_lines
      [''# Coordinate System'',
       '''',
       ''## Page-Space Coordinates'',
       '''',
       ''All vscreen coordinates use **page-space** '' @ [CHR 0xE2, CHR 0x80, CHR 0x94] @ '' the absolute position on the full document, measured from the top-left corner (0, 0) of the page.'',
       '''',
       ''- `vscreen_click(x, y)` '' @ [CHR 0xE2, CHR 0x80, CHR 0x94] @ '' x and y are page-space. The system automatically scrolls to make the point visible before dispatching the click.'',
       ''- `vscreen_find_elements` '' @ [CHR 0xE2, CHR 0x80, CHR 0x94] @ '' Returns `x`, `y`, `width`, `height` in page-space.'',
       ''- `vscreen_find_by_text` '' @ [CHR 0xE2, CHR 0x80, CHR 0x94] @ '' Returns `x`, `y`, `width`, `height` in page-space.'',
       ''- `vscreen_screenshot(clip)` '' @ [CHR 0xE2, CHR 0x80, CHR 0x94] @ '' The clip rectangle uses page-space coordinates.'',
       '''',
       ''## Iframe Coordinate Translation'',
       '''',
       ''When `include_iframes: true` is used with `vscreen_find_elements` or `vscreen_find_by_text`, elements inside iframes have their coordinates automatically translated to page-space. The returned `x` and `y` values account for the iframe's position on the page, so you can pass them directly to `vscreen_click`.'',
       '''',
       ''## Click Target Calculation'',
       '''',
       ''To click the center of a found element:'',
       ''```'',
       ''click_x = element.x + element.width / 2'',
       ''click_y = element.y + element.height / 2'',
       ''```'',
       '''',
       ''## Full-Page Screenshots'',
       '''',
       ''When `full_page: true` is used, the screenshot captures the entire scrollable page. The resulting image may be much larger than the viewport (1920x1080). Coordinates from a full-page screenshot are still in page-space and can be used directly with `vscreen_click`.'',
       '''',
       ''## Viewport Size'',
       '''',
       ''The default viewport is **1920x1080**. Elements visible without scrolling have y-coordinates between 0 and 1080.'',
       '''']"

definition doc_iframes :: string where
  "doc_iframes = join_lines
      [''# Working with Iframes'',
       '''',
       ''## Overview'',
       '''',
       ''Many web pages embed cross-origin content in iframes (reCAPTCHA, ads, embedded widgets, payment forms). These iframes have separate DOM trees that are not accessible via normal `vscreen_execute_js` calls.'',
       '''',
       ''## Discovering Iframes'',
       '''',
       ''Call `vscreen_list_frames` to get:'',
       ''1. The complete frame tree (parent-child relationships)'',
       ''2. Bounding rectangles for each iframe on the page'',
       ''3. Frame IDs, names, URLs, and visibility status'',
       '''',
       ''Example response includes:'',
       ''```json'',
       ''{\"src\": \"https://www.google.com/recaptcha/...\", \"name\": \"a-xyz\", \"title\": \"reCAPTCHA\",'',
       '' \"x\": 33, \"y\": 336, \"width\": 304, \"height\": 78, \"visible\": true}'',
       ''```'',
       '''',
       ''## Finding Elements in Iframes'',
       '''',
       ''Use `include_iframes: true` on search tools:'',
       '''',
       ''```json'',
       ''// vscreen_find_elements'',
       ''{\"instance_id\": \"dev\", \"selector\": \"button\", \"include_iframes\": true}'',
       '''',
       ''// vscreen_find_by_text'',
       ''{\"instance_id\": \"dev\", \"text\": \"I'm not a robot\", \"include_iframes\": true}'',
       ''```'',
       '''',
       ''Results include a `frame_id` field identifying which frame contains each element, and coordinates are already translated to page-space.'',
       '''',
       ''## Clicking Iframe Elements'',
       '''',
       ''Simply use the page-space coordinates from search results:'',
       ''```json'',
       ''// Element found at {\"x\": 86, \"y\": 337, \"frame_id\": \"ABC123\"}'',
       ''// Click directly using those coordinates:'',
       ''{\"instance_id\": \"dev\", \"x\": 120, \"y\": 370}'',
       ''```'',
       '''',
       ''## Limitations'',
       '''',
       ''- `vscreen_execute_js` runs only in the main frame'',
       ''- `vscreen_click_element` searches only the main frame (use `vscreen_find_by_text` + `vscreen_click` for iframe elements)'',
       ''- `vscreen_screenshot_annotated` only annotates main-frame elements'',
       '''']"

definition doc_locking :: string where
  "doc_locking = join_lines
      [''# Instance Locking'',
       '''',
       ''## When Do You Need Locking?'',
       '''',
       ''- **Single-agent mode** (e.g., `--mcp-stdio` spawned by one client): Locks are auto-acquired transparently. You don't need to call any lock tools.'',
       ''- **Multi-agent mode** (e.g., `--mcp-sse` with multiple clients): Explicit locking prevents agents from interfering with each other.'',
       '''',
       ''## Lock Types'',
       '''',
       ''- **`exclusive`** '' @ [CHR 0xE2, CHR 0x80, CHR 0x94] @ '' Full control. Only one session can hold an exclusive lock. Required for any input action (click, type, navigate, etc.).'',
       ''- **`observer`** '' @ [CHR 0xE2, CHR 0x80, CHR 0x94] @ '' Read-only access. Multiple observers can coexist with each other, but not with an exclusive lock. Allows screenshots, find_elements, get_page_info, etc.'',
       '''',
       ''## Workflow'',
       '''',
       ''```'',
       ''1. vscreen_instance_lock(instance_id=\"dev\", lock_type=\"exclusive\")'',
       ''   '' @ [CHR 0xE2, CHR 0x86, CHR 0x92] @ '' Returns: lock_token (save this for unlock/renew)'',
       '''',
       ''2. ... perform your actions ...'',
       '''',
       ''3. vscreen_instance_lock_renew(instance_id=\"dev\", lock_token=\"...\", ttl_seconds=300)'',
       ''   '' @ [CHR 0xE2, CHR 0x86, CHR 0x92] @ '' Extends the lock if your task takes longer than expected'',
       '''',
       ''4. vscreen_instance_unlock(instance_id=\"dev\", lock_token=\"...\")'',
       ''   '' @ [CHR 0xE2, CHR 0x86, CHR 0x92] @ '' Release the lock when done'',
       ''```'',
       '''',
       ''## Lock Parameters'',
       '''',
       ''- `ttl_seconds` (default: 300) '' @ [CHR 0xE2, CHR 0x80, CHR 0x94] @ '' Lock automatically expires after this many seconds'',
       ''- `wait_timeout_seconds` (default: 0) '' @ [CHR 0xE2, CHR 0x80, CHR 0x94] @ '' If the instance is already locked, wait this many seconds for it to become available (0 = fail immediately)'',
       ''- `lock_token` '' @ [CHR 0xE2, CHR 0x80, CHR 0x94] @ '' Returned on lock acquisition; required for unlock and renew'',
       '''',
       ''## Checking Lock Status'',
       '''',
       ''```json'',
       ''// All instances:'',
       ''vscreen_instance_lock_status()'',
       '''',
       ''// Specific instance:'',
       ''vscreen_instance_lock_status(instance_id=\"dev\")'',
       ''```'',
       '''']"

definition doc_troubleshooting :: string where
  "doc_troubleshooting = join_lines
      [''# Troubleshooting'',
       '''',
       ''## \"Element not found\"'',
       '''',
       ''- Try `include_iframes: true` '' @ [CHR 0xE2, CHR 0x80, CHR 0x94] @ '' the element may be inside an iframe'',
       ''- Use a broader CSS selector (e.g., `button` instead of `button.specific-class`)'',
       ''- The element may not be loaded yet '' @ [CHR 0xE2, CHR 0x80, CHR 0x94] @ '' use `vscreen_wait_for_selector(selector, timeout_ms=10000)` first'',
       ''- The element may be below the fold '' @ [CHR 0xE2, CHR 0x80, CHR 0x94] @ '' it still has page-space coordinates, so `vscreen_find_elements` will find it'',
       '''',
       ''## \"Click doesn't seem to work\"'',
       '''',
       ''- Take a `vscreen_screenshot` to verify the coordinates visually'',
       ''- The element may be behind an overlay (cookie consent, modal). Use `vscreen_dismiss_dialogs` first'',
       ''- The element may be inside an iframe '' @ [CHR 0xE2, CHR 0x80, CHR 0x94] @ '' use `vscreen_find_by_text(include_iframes=true)` to get correct page-space coordinates'',
       ''- Try `vscreen_click_element(selector=\".button\")` for main-frame elements'',
       '''',
       ''## \"InstanceLocked\" error'',
       '''',
       ''- Another MCP session holds the lock'',
       ''- Check with `vscreen_instance_lock_status(instance_id)`'',
       ''- In single-agent mode, this shouldn't happen '' @ [CHR 0xE2, CHR 0x80, CHR 0x94] @ '' it may indicate a stale session'',
       ''- Wait for the lock: `vscreen_instance_lock(wait_timeout_seconds=30)`'',
       '''',
       ''## \"Timeout waiting for text/selector\"'',
       '''',
       ''- The content may be dynamically loaded after the page \"load\" event'',
       ''- Increase `timeout_ms` (default is 10000ms / 10 seconds)'',
       ''- Use `vscreen_wait_for_network_idle` to wait for all AJAX requests to complete first'',
       ''- Check the page with `vscreen_screenshot` to see current state'',
       '''',
       ''## \"Cookie consent blocking content\"'',
       '''',
       ''- Call `vscreen_dismiss_dialogs(instance_id)` '' @ [CHR 0xE2, CHR 0x80, CHR 0x94] @ '' handles OneTrust, CookieBot, and common patterns'',
       ''- If that doesn't work: `vscreen_find_by_text(\"Accept all\")` then `vscreen_click`'',
       ''- Cookies persist across navigations within the same instance'',
       '''',
       ''## \"JavaScript returns null/undefined\"'',
       '''',
       ''- The DOM element may not exist yet '' @ [CHR 0xE2, CHR 0x80, CHR 0x94] @ '' use `vscreen_wait_for_selector` first'',
       ''- `vscreen_execute_js` runs in the **main frame only** '' @ [CHR 0xE2, CHR 0x80, CHR 0x94] @ '' it cannot access iframe content'',
       ''- Wrap your expression in a try-catch: `\"try { ... } catch(e) { e.message }\"`'',
       '''',
       ''## \"Page looks different than expected\"'',
       '''',
       ''- Take a `vscreen_screenshot(full_page=true)` to see the entire page'',
       ''- The page may have responsive breakpoints '' @ [CHR 0xE2, CHR 0x80, CHR 0x94] @ '' viewport is 1920x1080'',
       ''- Dynamic content may have changed '' @ [CHR 0xE2, CHR 0x80, CHR 0x94] @ '' use `vscreen_screenshot_sequence` to watch for changes'',
       '''',
       ''## \"Connection closed\" or MCP disconnects'',
       '''',
       ''- **If using `--mcp-stdio --dev`**: The stdio subprocess starts a full dev environment. If another vscreen instance is already running, resources conflict (Xvfb display, CDP port, HTTP port), causing crashes.'',
       ''- **Fix**: Switch to SSE mode. Start the server once: `vscreen --dev --mcp-sse 0.0.0.0:8451`. Then configure your MCP client with `{\"url\": \"http://localhost:8451/mcp\"}`.'',
       ''- **Alternative**: Use the stdio proxy: `vscreen --mcp-stdio-proxy http://localhost:8451/mcp`. This is lightweight and can be freely restarted without affecting the server.'',
       '''',
       ''## \"Display :99 already in use\" or \"CDP port in use\"'',
       '''',
       ''- Another vscreen instance is running on the same display or CDP port.'',
       ''- Use `--dev-display N` to choose a different X11 display number.'',
       ''- Use `--dev-cdp-port N` to choose a different Chrome DevTools Protocol port.'',
       ''- Or stop the existing instance first.'',
       '''',
       ''## \"vscreen dev already running (PID ...)\"'',
       '''',
       ''- vscreen writes a PID file to prevent duplicate instances.'',
       ''- Stop the existing instance or connect to it via SSE/proxy.'',
       ''- If the PID file is stale (process crashed), vscreen will clean it up automatically on next start.'',
       '''']"

definition doc_tool_selection :: string where
  "doc_tool_selection = join_lines
      [''# Tool Selection Guide'',
       '''',
       ''Choosing the right tool avoids unnecessary round-trips and gives better results.'',
       '''',
       ''## Observing the Page'',
       '''',
       ''| Goal | Best Tool | NOT This |'',
       ''|------|-----------|----------|'',
       ''| See the full page | `vscreen_screenshot(full_page=true)` | scroll + screenshot repeatedly |'',
       ''| Read page text | `vscreen_extract_text` | screenshot + OCR |'',
       ''| Zoom into a region | `vscreen_screenshot(clip={x,y,w,h})` | full screenshot + cropping |'',
       ''| Page title/URL/viewport | `vscreen_get_page_info` | `vscreen_execute_js(\"document.title\")` |'',
       ''| Identify interactive elements | `vscreen_screenshot_annotated` | manual screenshot + guessing |'',
       '''',
       ''## Finding Elements'',
       '''',
       ''| Goal | Best Tool |'',
       ''|------|-----------|'',
       ''| Know the visible text | `vscreen_find_by_text(text=\"Sign In\")` |'',
       ''| Know the CSS selector | `vscreen_find_elements(selector=\"button.submit\")` |'',
       ''| Element is inside an iframe | add `include_iframes=true` to find tools |'',
       ''| Need semantic structure | `vscreen_accessibility_tree` |'',
       ''| Icon-only/unlabeled buttons | `vscreen_describe_elements` (requires vision LLM) |'',
       '''',
       ''## Clicking Elements'',
       '''',
       ''| Goal | Best Tool |'',
       ''|------|-----------|'',
       ''| Click by text (main frame) | `vscreen_click_element(text=\"Submit\")` |'',
       ''| Click by selector (main frame) | `vscreen_click_element(selector=\"#btn\")` |'',
       ''| Click in iframe or with coordinates | `vscreen_click(x, y)` |'',
       ''| Click + wait for navigation | `vscreen_click_and_navigate(text=\"Next\")` |'',
       ''| Click many tiles rapidly | `vscreen_batch_click(points=['' @ ''[x1,y1],[x2,y2]])` |'',
       '''',
       ''## Waiting for Changes'',
       '''',
       ''| Goal | Best Tool | NOT This |'',
       ''|------|-----------|----------|'',
       ''| Text appears | `vscreen_wait_for_text(text=\"Success\")` | `vscreen_wait(5000)` loop |'',
       ''| Element appears | `vscreen_wait_for_selector(selector=\".result\")` | `vscreen_wait(5000)` loop |'',
       ''| Page navigates | `vscreen_wait_for_url(url_contains=\"/dashboard\")` | `vscreen_wait(5000)` loop |'',
       ''| Data loads (AJAX) | `vscreen_wait_for_network_idle` | `vscreen_wait(5000)` loop |'',
       ''| Brief pause after action | `vscreen_wait(500)` | '' @ [CHR 0xE2, CHR 0x80, CHR 0x94] @ '' this is fine for short pauses |'',
       '''',
       ''## Scrolling'',
       '''',
       ''| Goal | Best Tool | NOT This |'',
       ''|------|-----------|----------|'',
       ''| See below-fold content | `vscreen_screenshot(full_page=true)` | scroll + screenshot loop |'',
       ''| Bring element into view | `vscreen_scroll_to_element(selector)` | `vscreen_scroll(x, y, delta_y)` |'',
       ''| Precise pixel scroll needed | `vscreen_scroll(x, y, delta_y=120)` | '' @ [CHR 0xE2, CHR 0x80, CHR 0x94] @ '' this is the right tool |'',
       '''',
       ''## Planning'',
       '''',
       ''Call `vscreen_plan(task=\"describe your goal\")` before multi-step workflows to get'',
       ''the optimal tool sequence and avoid anti-patterns.'',
       '''']"

definition doc_tools_header :: string where
  "doc_tools_header = join_lines
      [''# Tool Reference'',
       '''',
       ''All tools accept `instance_id` as their first parameter (the browser instance to operate on).'',
       ''Use `vscreen_list_instances` to discover available instances.'',
       '''',
       ''## Observation Tools (Read-Only)'',
       '''',
       ''These tools do not modify page state and can be called freely.'',
       '''',
       ''| Tool | Description |'',
       ''|------|-------------|'',
       ''| `vscreen_list_instances` | List all browser instances and their states |'',
       ''| `vscreen_screenshot` | Capture page screenshot (png/jpeg/webp, optional clip region) |'',
       ''| `vscreen_screenshot_sequence` | Capture multiple screenshots at intervals |'',
       ''| `vscreen_screenshot_annotated` | Screenshot with numbered bounding boxes on elements |'',
       ''| `vscreen_get_page_info` | Get page title, URL, and viewport dimensions |'',
       ''| `vscreen_find_elements` | Find elements by CSS selector (supports iframe search) |'',
       ''| `vscreen_find_by_text` | Find elements by visible text (supports iframe search) |'',
       ''| `vscreen_list_frames` | List all frames/iframes with bounding rectangles |'',
       ''| `vscreen_extract_text` | Extract all visible text from the page |'',
       ''| `vscreen_accessibility_tree` | Get the accessibility tree (structured page representation) |'',
       ''| `vscreen_describe_elements` | Identify unlabeled icon-only elements using vision LLM |'',
       ''| `vscreen_get_cookies` | Get cookies for the current page |'',
       ''| `vscreen_get_storage` | Get localStorage or sessionStorage values |'',
       ''| `vscreen_history_list` | List screenshot history entries |'',
       ''| `vscreen_history_get` | Get a specific historical screenshot |'',
       ''| `vscreen_session_log` | Get recent action log |'',
       ''| `vscreen_session_summary` | Get session summary (action count, duration) |'',
       ''| `vscreen_console_log` | Get captured browser console messages |'',
       ''| `vscreen_instance_lock_status` | Check lock status |'',
       '''',
       ''## Input Action Tools'',
       '''',
       ''These tools modify page state (click, type, scroll, etc.).'',
       '''',
       ''| Tool | Description |'',
       ''|------|-------------|'',
       ''| `vscreen_click` | Click at page-space coordinates (auto-scrolls) |'',
       ''| `vscreen_double_click` | Double-click at coordinates |'',
       ''| `vscreen_type` | Type text into the focused element |'',
       ''| `vscreen_fill` | Clear and fill an input field by CSS selector |'',
       ''| `vscreen_key_press` | Press a single key (e.g., \"Enter\", \"Escape\", \"Tab\") |'',
       ''| `vscreen_key_combo` | Press a key combination (e.g., [\"Control\", \"a\"]) |'',
       ''| `vscreen_scroll` | Scroll by pixel delta |'',
       ''| `vscreen_drag` | Drag from one point to another |'',
       ''| `vscreen_hover` | Hover at coordinates |'',
       ''| `vscreen_click_element` | Click element by CSS selector or visible text (with retries + wait_after_ms) |'',
       ''| `vscreen_click_and_navigate` | Click element and wait for URL change (with <a> fallback) |'',
       ''| `vscreen_batch_click` | Click multiple points rapidly in one call (for timed challenges) |'',
       ''| `vscreen_select_option` | Select a dropdown option by value or label |'',
       ''| `vscreen_scroll_to_element` | Scroll an element into view by CSS selector |'',
       '''',
       ''## Navigation Tools'',
       '''',
       ''| Tool | Description |'',
       ''|------|-------------|'',
       ''| `vscreen_navigate` | Navigate to a URL with optional wait condition |'',
       ''| `vscreen_go_back` | Navigate back in browser history |'',
       ''| `vscreen_go_forward` | Navigate forward in browser history |'',
       ''| `vscreen_reload` | Reload the current page |'',
       '''',
       ''## Synchronization Tools'',
       '''',
       ''| Tool | Description |'',
       ''|------|-------------|'',
       ''| `vscreen_wait` | Wait a fixed number of milliseconds |'',
       ''| `vscreen_wait_for_idle` | Wait for no screencast frames for a duration |'',
       ''| `vscreen_wait_for_text` | Wait for specific text to appear on the page |'',
       ''| `vscreen_wait_for_selector` | Wait for a CSS selector to match an element |'',
       ''| `vscreen_wait_for_url` | Wait for the URL to match a pattern |'',
       ''| `vscreen_wait_for_network_idle` | Wait for network activity to stop |'',
       '''',
       ''## Utility Tools'',
       '''',
       ''| Tool | Description |'',
       ''|------|-------------|'',
       ''| `vscreen_execute_js` | Execute JavaScript in the main frame |'',
       ''| `vscreen_find_input` | Find text inputs by placeholder, aria-label, label, role, or name |'',
       ''| `vscreen_dismiss_dialogs` | Auto-dismiss cookie consent, GDPR, and privacy dialogs |'',
       ''| `vscreen_dismiss_ads` | Dismiss video platform ad overlays (YouTube skip, etc.) |'',
       ''| `vscreen_set_cookie` | Set a browser cookie |'',
       ''| `vscreen_set_storage` | Set a localStorage or sessionStorage value |'',
       ''| `vscreen_plan` | Get recommended tool sequence for a task (call before multi-step workflows) |'',
       ''| `vscreen_help` | Get contextual documentation about any tool or topic |'',
       '''']"

subsection \<open>Help for one tool\<close>

text \<open>Each entry has the name of a tool, what it does, and its parameters.\<close>

definition tool_help_texts :: "(string \<times> string \<times> string) list" where
  "tool_help_texts =
     [(''vscreen_list_instances'', ''List all browser instances'',
       (join_lines
         [''Parameters: none'',
          ''Returns: Array of {instance_id, state, locked_by, supervisor_running}'',
          ''Use this first to discover available instances.''])),
      (''vscreen_screenshot'', ''Capture a screenshot'',
       (join_lines
         [''Parameters:'',
          ''  instance_id: string (required)'',
          ''  format: \"png\" | \"jpeg\" | \"webp\" (default: \"png\")'',
          ''  quality: number 0-100 (for jpeg/webp only)'',
          ''  full_page: bool (default: false) '' @ [CHR 0xE2, CHR 0x80, CHR 0x94] @ '' capture entire scrollable page'',
          ''  clip: {x, y, width, height} (optional) '' @ [CHR 0xE2, CHR 0x80, CHR 0x94] @ '' capture only a specific region'',
          ''  annotate: bool (default: false) '' @ [CHR 0xE2, CHR 0x80, CHR 0x94] @ '' overlay numbered bounding boxes on interactive elements'',
          ''  annotate_selector: string (optional) '' @ [CHR 0xE2, CHR 0x80, CHR 0x94] @ '' CSS selector for annotation targets'',
          ''  sequence_count + sequence_interval_ms: capture multiple screenshots at intervals'',
          ''Returns: Base64-encoded image(s)'',
          ''Example: {\"instance_id\": \"dev\", \"full_page\": true} or {\"instance_id\": \"dev\", \"annotate\": true}''])),
      (''vscreen_navigate'', ''Navigate the browser (goto/back/forward/reload)'',
       (join_lines
         [''Parameters:'',
          ''  instance_id: string (required)'',
          ''  action: \"goto\" (default) | \"back\" | \"forward\" | \"reload\"'',
          ''  url: string (required for action=\"goto\")'',
          ''  wait_until: \"load\" | \"domcontentloaded\" | \"networkidle\" | \"none\" (for goto, default: \"load\")'',
          ''Example: {\"instance_id\": \"dev\", \"url\": \"https://example.com\"} or {\"instance_id\": \"dev\", \"action\": \"back\"}''])),
      (''vscreen_click'', ''Click at page-space coordinates'',
       (join_lines
         [''Parameters:'',
          ''  instance_id: string (required)'',
          ''  x: number (required) '' @ [CHR 0xE2, CHR 0x80, CHR 0x94] @ '' page-space X coordinate'',
          ''  y: number (required) '' @ [CHR 0xE2, CHR 0x80, CHR 0x94] @ '' page-space Y coordinate'',
          ''  button: 0 | 1 | 2 (default: 0) '' @ [CHR 0xE2, CHR 0x80, CHR 0x94] @ '' 0=left, 1=middle, 2=right'',
          ''Auto-scrolls the target into view before clicking.'',
          ''Coordinates from vscreen_find can be used directly.''])),
      (''vscreen_double_click'', ''Double-click at coordinates'',
       (join_lines
         [''Parameters:'',
          ''  instance_id: string (required)'',
          ''  x: number (required)'',
          ''  y: number (required)'',
          ''Auto-scrolls the target into view.''])),
      (''vscreen_type'', ''Type text into the currently focused element'',
       (join_lines
         [''Parameters:'',
          ''  instance_id: string (required)'',
          ''  text: string (required) '' @ [CHR 0xE2, CHR 0x80, CHR 0x94] @ '' text to type character by character'',
          ''To focus an element first, click on it with vscreen_click.'',
          ''For clearing and filling a field, use vscreen_fill instead.''])),
      (''vscreen_fill'', ''Clear and fill an input field by CSS selector'',
       (join_lines
         [''Parameters:'',
          ''  instance_id: string (required)'',
          ''  selector: string (required) '' @ [CHR 0xE2, CHR 0x80, CHR 0x94] @ '' CSS selector for the input (e.g., \"input[name='email']\")'',
          ''  value: string (required) '' @ [CHR 0xE2, CHR 0x80, CHR 0x94] @ '' value to fill'',
          ''Clears existing content first, then types the new value.'',
          ''Example: {\"instance_id\": \"dev\", \"selector\": \"#username\", \"value\": \"user@example.com\"}''])),
      (''vscreen_key_press'', ''Press a single key'',
       (join_lines
         [''Parameters:'',
          ''  instance_id: string (required)'',
          ''  key: string (required) '' @ [CHR 0xE2, CHR 0x80, CHR 0x94] @ '' DOM key name'',
          ''Key names: \"Enter\", \"Tab\", \"Escape\", \"Backspace\", \"Delete\", \"ArrowUp\", \"ArrowDown\", \"ArrowLeft\", \"ArrowRight\", \"Home\", \"End\", \"PageUp\", \"PageDown\", \"F1\"-\"F12\", \"Space\"''])),
      (''vscreen_key_combo'', ''Press a key combination'',
       (join_lines
         [''Parameters:'',
          ''  instance_id: string (required)'',
          ''  keys: [string, string, ...] (required) '' @ [CHR 0xE2, CHR 0x80, CHR 0x94] @ '' keys to press simultaneously'',
          ''Order matters: modifier keys first, then the main key.'',
          ''Examples: [\"Control\", \"a\"], [\"Control\", \"c\"], [\"Alt\", \"Tab\"], [\"Control\", \"Shift\", \"i\"]''])),
      (''vscreen_scroll'', ''Scroll by pixel delta'',
       (join_lines
         [''Parameters:'',
          ''  instance_id: string (required)'',
          ''  x: number (required) '' @ [CHR 0xE2, CHR 0x80, CHR 0x94] @ '' page position to scroll at'',
          ''  y: number (required) '' @ [CHR 0xE2, CHR 0x80, CHR 0x94] @ '' page position to scroll at'',
          ''  delta_x: number (default: 0) '' @ [CHR 0xE2, CHR 0x80, CHR 0x94] @ '' horizontal scroll pixels'',
          ''  delta_y: number (default: 0) '' @ [CHR 0xE2, CHR 0x80, CHR 0x94] @ '' vertical scroll pixels (positive = scroll down)''])),
      (''vscreen_drag'', ''Drag from one point to another'',
       (join_lines
         [''Parameters:'',
          ''  instance_id: string (required)'',
          ''  start_x, start_y: numbers '' @ [CHR 0xE2, CHR 0x80, CHR 0x94] @ '' drag start coordinates'',
          ''  end_x, end_y: numbers '' @ [CHR 0xE2, CHR 0x80, CHR 0x94] @ '' drag end coordinates'',
          ''  steps: number (default: 10) '' @ [CHR 0xE2, CHR 0x80, CHR 0x94] @ '' interpolation steps''])),
      (''vscreen_hover'', ''Hover at coordinates'',
       (join_lines
         [''Parameters:'',
          ''  instance_id: string (required)'',
          ''  x: number (required)'',
          ''  y: number (required)'',
          ''Triggers CSS :hover states and JavaScript mouseover/mouseenter events.''])),
      (''vscreen_batch_click'', ''Click multiple points rapidly in one call'',
       (join_lines
         [''Parameters:'',
          ''  instance_id: string (required)'',
          ''  points: ['' @ ''[x1,y1], [x2,y2], ...] (required) '' @ [CHR 0xE2, CHR 0x80, CHR 0x94] @ '' array of [x, y] coordinate pairs'',
          ''  delay_between_ms: number (default: 50) '' @ [CHR 0xE2, CHR 0x80, CHR 0x94] @ '' milliseconds between clicks'',
          ''Ideal for timed challenges like reCAPTCHA tile grids where individual MCP round-trips would be too slow.'',
          ''Example: {\"instance_id\": \"dev\", \"points\": ['' @ ''[135,224],[135,324],[135,424]], \"delay_between_ms\": 200}''])),
      (''vscreen_click_element'', ''Click element by CSS selector or visible text'',
       (join_lines
         [''Parameters:'',
          ''  instance_id: string (required)'',
          ''  selector: string (optional) '' @ [CHR 0xE2, CHR 0x80, CHR 0x94] @ '' CSS selector'',
          ''  text: string (optional) '' @ [CHR 0xE2, CHR 0x80, CHR 0x94] @ '' visible text to match'',
          ''  index: number (default: 0) '' @ [CHR 0xE2, CHR 0x80, CHR 0x94] @ '' which match to click (if multiple)'',
          ''  button: 0 | 1 | 2 (default: 0)'',
          ''Note: Searches MAIN FRAME ONLY. For iframe elements, use vscreen_find(by='text', include_iframes=true) then vscreen_click.''])),
      (''vscreen_find'', ''Find elements on the page'',
       (join_lines
         [''Parameters:'',
          ''  instance_id: string (required)'',
          ''  by: \"selector\" | \"text\" | \"input\" (required) '' @ [CHR 0xE2, CHR 0x80, CHR 0x94] @ '' search mode'',
          ''  selector: string (for by=\"selector\") '' @ [CHR 0xE2, CHR 0x80, CHR 0x94] @ '' CSS selector'',
          ''  text: string (for by=\"text\") '' @ [CHR 0xE2, CHR 0x80, CHR 0x94] @ '' visible text to search for'',
          ''  exact: bool (for by=\"text\", default: false)'',
          ''  include_iframes: bool (default: false) '' @ [CHR 0xE2, CHR 0x80, CHR 0x94] @ '' search inside iframes'',
          ''  placeholder, aria_label, label, role, name, input_type (for by=\"input\") '' @ [CHR 0xE2, CHR 0x80, CHR 0x94] @ '' at least one required'',
          ''Returns: Element metadata with bounding boxes in page coordinates. Use with vscreen_click.'',
          ''Example: {\"instance_id\": \"dev\", \"by\": \"text\", \"text\": \"Sign In\"}''])),
      (''vscreen_wait'', ''Wait for a condition (duration/idle/text/selector/url/network)'',
       (join_lines
         [''Parameters:'',
          ''  condition: \"duration\" (default) | \"idle\" | \"text\" | \"selector\" | \"url\" | \"network\"'',
          ''  instance_id: string (required except for condition=\"duration\")'',
          ''  duration_ms: number (for condition=\"duration\")'',
          ''  text: string (for condition=\"text\")'',
          ''  selector: string (for condition=\"selector\")'',
          ''  url_contains: string (for condition=\"url\")'',
          ''  timeout_ms: number (default: 10000)'',
          ''  interval_ms: number (default: 250)'',
          ''  idle_ms: number (for idle/network, default: 500)'',
          ''Example: {\"duration_ms\": 2000} or {\"instance_id\": \"dev\", \"condition\": \"text\", \"text\": \"Welcome\"}''])),
      (''vscreen_get_page_info'', ''Get page title, URL, viewport, and scroll position'',
       (join_lines
         [''Parameters:'',
          ''  instance_id: string (required)'',
          ''Returns: {url, title, viewport: {width, height}, scrollX, scrollY}''])),
      (''vscreen_extract_text'', ''Extract all visible text from the page'',
       (join_lines
         [''Parameters:'',
          ''  instance_id: string (required)'',
          ''Returns: All visible text content from the page body.''])),
      (''vscreen_execute_js'', ''Execute JavaScript in the MAIN frame'',
       (join_lines
         [''Parameters:'',
          ''  instance_id: string (required)'',
          ''  expression: string (required) '' @ [CHR 0xE2, CHR 0x80, CHR 0x94] @ '' JavaScript to evaluate'',
          ''Returns: The expression result as JSON.'',
          ''Runs in the MAIN FRAME ONLY '' @ [CHR 0xE2, CHR 0x80, CHR 0x94] @ '' cannot access iframe content.'',
          ''Example: {\"instance_id\": \"dev\", \"expression\": \"document.title\"}''])),
      (''vscreen_list_frames'', ''List all frames including iframes'',
       (join_lines
         [''Parameters:'',
          ''  instance_id: string (required)'',
          ''Returns: Frame tree (parent-child) + iframe bounding rectangles with page-space coordinates.'',
          ''Each iframe includes: src, name, title, x, y, width, height, visible.'',
          ''Use the bounding rect with vscreen_screenshot(clip=...) to zoom into an iframe.''])),
      (''vscreen_dismiss_dialogs'', ''Auto-dismiss cookie consent, privacy, and GDPR dialogs'',
       (join_lines
         [''Parameters:'',
          ''  instance_id: string (required)'',
          ''Checks for OneTrust, CookieBot, Didomi, Quantcast, TrustArc, and many other consent frameworks.'',
          ''Also matches common button text patterns in multiple languages.'',
          ''Returns which dialog was dismissed or 'no dialog found'.'',
          ''Call this after navigating to a new page if you expect consent overlays.''])),
      (''vscreen_solve_captcha'', ''Automatically solve reCAPTCHA v2 image challenges'',
       (join_lines
         [''Parameters:'',
          ''  instance_id: string (required)'',
          ''  max_attempts: number (default: 3) '' @ [CHR 0xE2, CHR 0x80, CHR 0x94] @ '' max page-reload retry cycles'',
          ''Finds the reCAPTCHA checkbox, clicks it, uses vision LLM to identify tiles, clicks them + VERIFY.'',
          ''Handles multi-round challenges, retries, and timeouts internally.'',
          ''Returns: {solved: bool, rounds: N, attempts: N, details: [...]}'',
          ''Requires vision LLM (--vision-url).'',
          ''See `vscreen_help(topic=\"captcha\")` for the manual workflow fallback.''])),
      (''vscreen_click_and_navigate'', ''Click an element and wait for navigation'',
       (join_lines
         [''Parameters:'',
          ''  instance_id: string (required)'',
          ''  selector: string (optional) '' @ [CHR 0xE2, CHR 0x80, CHR 0x94] @ '' CSS selector'',
          ''  text: string (optional) '' @ [CHR 0xE2, CHR 0x80, CHR 0x94] @ '' visible text match'',
          ''  timeout_ms: number (default: 5000) '' @ [CHR 0xE2, CHR 0x80, CHR 0x94] @ '' how long to wait for URL change'',
          ''  fallback_to_link: bool (default: true) '' @ [CHR 0xE2, CHR 0x80, CHR 0x94] @ '' try nearest <a> href if click doesn't navigate'',
          ''Clicks the element, waits for URL change. If URL doesn't change and fallback_to_link is true, tries direct navigation via the nearest <a> tag's href.'',
          ''Ideal for SPA navigation (YouTube, React apps) where clicks trigger pushState.''])),
      (''vscreen_dismiss_ads'', ''Dismiss video platform ad overlays'',
       (join_lines
         [''Parameters:'',
          ''  instance_id: string (required)'',
          ''  timeout_ms: number (default: 15000) '' @ [CHR 0xE2, CHR 0x80, CHR 0x94] @ '' how long to wait for skip button'',
          ''Detects and dismisses YouTube skip buttons, pre-roll ad overlays, and generic close buttons.'',
          ''Handles localized skip button text (English, German, French, Spanish, Portuguese, Russian).'',
          ''Waits and polls for skip button to appear since video ads have a countdown.''])),
      (''vscreen_select_option'', ''Select a dropdown option'',
       (join_lines
         [''Parameters:'',
          ''  instance_id: string (required)'',
          ''  selector: string (required) '' @ [CHR 0xE2, CHR 0x80, CHR 0x94] @ '' CSS selector for the <select> element'',
          ''  value: string (optional) '' @ [CHR 0xE2, CHR 0x80, CHR 0x94] @ '' option value attribute to select'',
          ''  label: string (optional) '' @ [CHR 0xE2, CHR 0x80, CHR 0x94] @ '' visible text of the option to select'',
          ''Provide either value OR label, not both.''])),
      (''vscreen_scroll_to_element'', ''Scroll an element into view'',
       (join_lines
         [''Parameters:'',
          ''  instance_id: string (required)'',
          ''  selector: string (required) '' @ [CHR 0xE2, CHR 0x80, CHR 0x94] @ '' CSS selector'',
          ''  block: \"center\" | \"start\" | \"end\" | \"nearest\" (default: \"center\")''])),
      (''vscreen_accessibility_tree'', ''Get the accessibility tree'',
       (join_lines
         [''Parameters:'',
          ''  instance_id: string (required)'',
          ''Returns: Structured accessibility tree representation of the page.''])),
      (''vscreen_describe_elements'', ''Identify unlabeled UI elements using vision'',
       (join_lines
         [''Parameters:'',
          ''  instance_id: string (required)'',
          ''  selector: string (default: \"button, [role='button'], a, input, select\") '' @ [CHR 0xE2, CHR 0x80, CHR 0x94] @ '' CSS selector'',
          ''  include_labeled: bool (default: false) '' @ [CHR 0xE2, CHR 0x80, CHR 0x94] @ '' if true, describes ALL elements'',
          ''Uses vision LLM to identify icon-only buttons and other elements that lack text/aria-label.'',
          ''Returns: Array of elements with AI-generated descriptions: {tag, x, y, width, height, icon, action, label}'',
          ''Requires vision LLM to be configured (--vision-url).''])),
      (''vscreen_storage'', ''Read/write cookies and web storage'',
       (join_lines
         [''Parameters:'',
          ''  instance_id: string (required)'',
          ''  type: \"cookie\" | \"local\" | \"session\" (required)'',
          ''  action: \"get\" | \"set\" (required)'',
          ''  key: string (for local/session '' @ [CHR 0xE2, CHR 0x80, CHR 0x94] @ '' get/set)'',
          ''  value: string (for set)'',
          ''  name: string (for cookie set)'',
          ''  domain, path: string (optional, for cookie set)'',
          ''Example: {\"instance_id\": \"dev\", \"type\": \"cookie\", \"action\": \"get\"} or {\"instance_id\": \"dev\", \"type\": \"local\", \"action\": \"set\", \"key\": \"theme\", \"value\": \"dark\"}''])),
      (''vscreen_history'', ''Manage screenshot history'',
       (join_lines
         [''Parameters:'',
          ''  instance_id: string (required)'',
          ''  action: \"list\" | \"get\" | \"range\" | \"clear\" (required)'',
          ''  index: number (for action=\"get\", 0 = oldest)'',
          ''  from, count: numbers (for action=\"range\")'',
          ''Example: {\"instance_id\": \"dev\", \"action\": \"list\"} or {\"instance_id\": \"dev\", \"action\": \"get\", \"index\": 0}''])),
      (''vscreen_session_log'', ''Get recent action log'',
       (join_lines
         [''Parameters:'',
          ''  instance_id: string (required)'',
          ''  last_n: number (optional) '' @ [CHR 0xE2, CHR 0x80, CHR 0x94] @ '' number of recent actions to return''])),
      (''vscreen_session_summary'', ''Get session summary'',
       (join_lines
         [''Parameters:'',
          ''  instance_id: string (required)'',
          ''Returns: Action count, duration, screenshot count, and other session metrics.''])),
      (''vscreen_console_log'', ''Get captured browser console messages'',
       (join_lines
         [''Parameters:'',
          ''  instance_id: string (required)'',
          ''  last_n: number (optional) '' @ [CHR 0xE2, CHR 0x80, CHR 0x94] @ '' number of recent messages''])),
      (''vscreen_console_clear'', ''Clear captured console messages'',
       (join_lines
         [''Parameters:'',
          ''  instance_id: string (required)''])),
      (''vscreen_lock'', ''Manage instance locks'',
       (join_lines
         [''Parameters:'',
          ''  action: \"acquire\" | \"release\" | \"renew\" | \"status\" (required)'',
          ''  instance_id: string (required for acquire/release/renew; optional for status '' @ [CHR 0xE2, CHR 0x80, CHR 0x94] @ '' omit for all instances)'',
          ''  lock_type: \"exclusive\" | \"observer\" (for acquire, default: \"exclusive\")'',
          ''  agent_name: string (optional, for acquire)'',
          ''  ttl_seconds: number (for acquire/renew, default: 120)'',
          ''  wait_timeout_seconds: number (for acquire, default: 0 = fail immediately)'',
          ''  lock_token: string (for release/renew if session changed)'',
          ''Example: {\"action\": \"acquire\", \"instance_id\": \"dev\"} or {\"action\": \"status\"}'',
          ''In single-agent mode, locks are auto-acquired.''])),
      (''vscreen_plan'', ''Get the recommended tool sequence for a task'',
       (join_lines
         [''Parameters:'',
          ''  task: string (required) '' @ [CHR 0xE2, CHR 0x80, CHR 0x94] @ '' short description of what to accomplish'',
          ''Example: vscreen_plan(task=\"read all text on the page\")'',
          ''Returns: step-by-step tool recommendations with parameters.'',
          ''Call BEFORE starting multi-step workflows for optimal tool selection.''])),
      (''vscreen_help'', ''Get contextual documentation (this tool)'',
       (join_lines
         [''Parameters:'',
          ''  topic: string (required) '' @ [CHR 0xE2, CHR 0x80, CHR 0x94] @ '' tool name or concept'',
          ''Topics: quickstart, workflows, coordinates, iframes, locking, tools, tool-selection, troubleshooting, or any vscreen_* tool name.'']))]"

definition get_tool_help :: "string \<Rightarrow> string" where
  "get_tool_help tool_name =
     (case find (\<lambda>(n, _). n = tool_name) tool_help_texts of
        Some (name, desc, details) \<Rightarrow> ''# '' @ name @ LF # LF # desc @ LF # LF # details
      | None \<Rightarrow>
          ''Unknown tool: '' @ quoted tool_name @ LF # LF # ''Available tools:'' @ LF #
          join_lines (map fst tool_help_texts))"

subsection \<open>Resources\<close>

text \<open>A resource: its address, name, title and description.\<close>

definition resources :: "(string \<times> string \<times> string \<times> string) list" where
  "resources =
     [(''vscreen://docs/quickstart'',
       ''Quick Start Guide'',
       ''Getting started with vscreen MCP'',
       ''Step-by-step guide to navigating, observing, and interacting with web pages.''),
      (''vscreen://docs/workflows'',
       ''Common Workflows'',
       ''Recipes for common tasks'',
       ''reCAPTCHA solving, cookie consent, article extraction, form filling, multi-page navigation.''),
      (''vscreen://docs/coordinates'',
       ''Coordinate System'',
       ''How coordinates work'',
       ''Page-space coordinates, iframe translation, viewport size, click target calculation.''),
      (''vscreen://docs/iframes'',
       ''Iframe Handling'',
       ''Working with cross-origin iframes'',
       ''Discovering iframes, finding elements across frames, clicking iframe content.''),
      (''vscreen://docs/locking'',
       ''Instance Locking'',
       ''Multi-agent lock management'',
       ''Lock types, single vs multi-agent mode, lock workflow, TTL and renewal.''),
      (''vscreen://docs/tools-reference'',
       ''Tool Reference'',
       ''Complete tool listing by category'',
       ''All available tools organized by category with descriptions.''),
      (''vscreen://docs/troubleshooting'',
       ''Troubleshooting'',
       ''Solutions to common problems'',
       ''Element not found, click doesn't work, timeouts, cookie consent, JavaScript errors.''),
      (''vscreen://docs/tool-selection'',
       ''Tool Selection Guide'',
       ''Which tool to use for what task'',
       ''Decision tables for observing, finding, clicking, waiting, scrolling. Avoid anti-patterns.'')]"

definition resource_text :: "string \<Rightarrow> string option" where
  "resource_text uri =
     (if uri = ''vscreen://docs/quickstart'' then Some doc_quickstart
      else if uri = ''vscreen://docs/workflows'' then Some doc_workflows
      else if uri = ''vscreen://docs/coordinates'' then Some doc_coordinates
      else if uri = ''vscreen://docs/iframes'' then Some doc_iframes
      else if uri = ''vscreen://docs/locking'' then Some doc_locking
      else if uri = ''vscreen://docs/tools-reference'' then Some doc_tools_header
      else if uri = ''vscreen://docs/troubleshooting'' then Some doc_troubleshooting
      else if uri = ''vscreen://docs/tool-selection'' then Some doc_tool_selection
      else None)"

subsection \<open>Prompts\<close>

text \<open>A prompt: its name, title and description, and its arguments, each with its description and whether it is required.\<close>

definition prompts :: "(string \<times> string \<times> string \<times> (string \<times> string \<times> bool) list) list" where
  "prompts =
     [(''navigate_and_observe'', ''Navigate and Observe'',
       ''Step-by-step workflow for navigating to a URL and gathering information about the page.'',
       [(''url'', ''The URL to navigate to'', True), (''instance_id'', ''Instance ID (default: 'dev')'', False)]),
      (''solve_captcha'', ''Solve reCAPTCHA'',
       ''Complete workflow for solving Google reCAPTCHA challenges including iframe discovery, checkbox clicking, tile selection, and verification.'',
       [(''instance_id'', ''Instance ID (default: 'dev')'', False)]),
      (''extract_article'', ''Extract Article Content'',
       ''Workflow for navigating to a news article URL and extracting its full text content, handling cookie consent dialogs.'',
       [(''url'', ''The article URL'', True), (''instance_id'', ''Instance ID (default: 'dev')'', False)]),
      (''fill_form'', ''Fill Web Form'',
       ''Workflow for discovering form fields on a page and filling them with values.'',
       [(''instance_id'', ''Instance ID (default: 'dev')'', False)]),
      (''interact_with_iframe'', ''Interact with Iframe Content'',
       ''Workflow for discovering, locating, and interacting with elements inside cross-origin iframes.'',
       [(''instance_id'', ''Instance ID (default: 'dev')'', False)])]"

definition navigate_and_observe_prompt :: "string \<Rightarrow> string \<Rightarrow> string" where
  "navigate_and_observe_prompt url instance_id =
     ''Navigate to '' @ url @ '' on instance '' @ [CHR 0x27] @ instance_id @ (join_lines
        [ [CHR 0x27] @ '' and report what you see.'',
         '''',
         ''Follow these steps:'',
         ''1. Call `vscreen_navigate` with instance_id=\"'']) @ instance_id @ ''\", url=\"'' @ url @ (join_lines
        [''\", wait_until=\"load\"'',
         ''2. Call `vscreen_screenshot` with instance_id=\"'']) @ instance_id @ (join_lines
        [''\" to see the page'',
         ''3. Call `vscreen_dismiss_dialogs` with instance_id=\"'']) @ instance_id @ (join_lines
        [''\" to clear any overlays'',
         ''4. If a dialog was dismissed, take another screenshot'',
         ''5. Call `vscreen_get_page_info` for title and URL'',
         ''6. Call `vscreen_extract_text` for the page content'',
         ''7. Summarize what you found''])"

definition solve_captcha_prompt :: "string \<Rightarrow> string" where
  "solve_captcha_prompt instance_id =
     ''Solve the reCAPTCHA on instance '' @ [CHR 0x27] @ instance_id @ (join_lines
        [ [CHR 0x27] @ ''.'',
         '''',
         ''Follow these steps precisely:'',
         '''',
         ''**Step 1: Discover the reCAPTCHA iframe**'',
         ''Call `vscreen_list_frames(instance_id=\"'']) @ instance_id @ (join_lines
        [''\")`. Look for an iframe with title containing 'reCAPTCHA' or URL containing 'recaptcha/api2/anchor'. Note its bounding rect (x, y, width, height).'',
         '''',
         ''**Step 2: Find and click the checkbox**'',
         ''Call `vscreen_find_by_text(instance_id=\"'']) @ instance_id @ (join_lines
        [''\", text=\"I'm not a robot\", include_iframes=true)`. Look for the result with tag 'label' or the smallest containing div. Click approximately 28px left of the text x-coordinate at the text y-center: `vscreen_click(x=text.x - 28, y=text.y + text.height/2)`.'',
         '''',
         ''**Step 3: Check for challenge**'',
         ''Call `vscreen_wait(duration_ms=3000)` then `vscreen_screenshot(instance_id=\"'']) @ instance_id @ (join_lines
        [''\")`. If a green checkmark appears, you're done! If a tile grid challenge appeared, continue.'',
         '''',
         ''**Step 4: Analyze the challenge**'',
         ''Call `vscreen_list_frames` again '' @ [CHR 0xE2, CHR 0x80, CHR 0x94] @ '' the challenge iframe (title containing 'challenge expires') should now be visible. Use `vscreen_screenshot(instance_id=\"'']) @ instance_id @ (join_lines
        [''\", clip=challenge_iframe_bounds)` for a close-up of the challenge grid. Identify which tiles match the prompt (e.g., 'traffic lights', 'crosswalks').'',
         '''',
         ''**Step 5: Click tiles**'',
         ''Calculate tile centers based on the challenge iframe bounds. For a 4x4 grid with iframe at (ix, iy, w, h): header is ~90px, grid is ~(h-150)px. Each cell is grid_size/4 pixels. Cell(row,col) center = (ix + col*cell_w + cell_w/2, iy + 90 + row*cell_h + cell_h/2). Call `vscreen_batch_click(instance_id=\"'']) @ instance_id @ (join_lines
        [''\", points=['' @ ''[x1,y1],[x2,y2],...], delay_between_ms=200)` with ALL correct tiles in one call.'',
         '''',
         ''**Step 6: Verify**'',
         ''Call `vscreen_find_by_text(instance_id=\"'']) @ instance_id @ ''\", text=\"VERIFY\", include_iframes=true)`. Click the button center. Wait 3 seconds, take a screenshot to confirm the green checkmark.''"

definition extract_article_prompt :: "string \<Rightarrow> string \<Rightarrow> string" where
  "extract_article_prompt url instance_id =
     ''Extract the article text from '' @ url @ '' on instance '' @ [CHR 0x27] @ instance_id @ (join_lines
        [ [CHR 0x27] @ ''.'',
         '''',
         ''Follow these steps:'',
         ''1. Call `vscreen_navigate(instance_id=\"'']) @ instance_id @ ''\", url=\"'' @ url @ (join_lines
        [''\", wait_until=\"load\")`'',
         ''2. Call `vscreen_dismiss_dialogs(instance_id=\"'']) @ instance_id @ (join_lines
        [''\")` to handle cookie consent'',
         ''3. Call `vscreen_wait(duration_ms=1000)` for dynamic content to load'',
         ''4. Call `vscreen_extract_text(instance_id=\"'']) @ instance_id @ (join_lines
        [''\")` for the full page text'',
         ''5. If the text is too noisy, try: `vscreen_find_elements(instance_id=\"'']) @ instance_id @ (join_lines
        [''\", selector=\"article, main, [role=main], .article-body, .story-body\")` to find the article container, then use `vscreen_execute_js` to extract just that element's innerText'',
         ''6. Return the extracted article title and body text''])"

definition fill_form_prompt :: "string \<Rightarrow> string" where
  "fill_form_prompt instance_id =
     ''Fill the form on instance '' @ [CHR 0x27] @ instance_id @ (join_lines
        [ [CHR 0x27] @ ''.'',
         '''',
         ''Follow these steps:'',
         ''1. Call `vscreen_screenshot(instance_id=\"'']) @ instance_id @ (join_lines
        [''\")` to see the form'',
         ''2. Call `vscreen_find_elements(instance_id=\"'']) @ instance_id @ (join_lines
        [''\", selector=\"input, select, textarea\")` to discover all fields'',
         ''3. For text inputs: `vscreen_fill(instance_id=\"'']) @ instance_id @ (join_lines
        [''\", selector=\"input[name='fieldname']\", value=\"value\")`'',
         ''4. For dropdowns: `vscreen_select_option(instance_id=\"'']) @ instance_id @ (join_lines
        [''\", selector=\"select[name='field']\", value=\"option_value\")`'',
         ''5. For checkboxes/radios: click at the element's coordinates'',
         ''6. To submit: `vscreen_find_elements(instance_id=\"'']) @ instance_id @ (join_lines
        [''\", selector=\"button[type='submit'], input[type='submit']\")` then click'',
         ''7. Take a screenshot to verify submission result''])"

definition interact_with_iframe_prompt :: "string \<Rightarrow> string" where
  "interact_with_iframe_prompt instance_id =
     ''Interact with iframe content on instance '' @ [CHR 0x27] @ instance_id @ (join_lines
        [ [CHR 0x27] @ ''.'',
         '''',
         ''Cross-origin iframes have separate DOM trees. Here's how to work with them:'',
         '''',
         ''1. Call `vscreen_list_frames(instance_id=\"'']) @ instance_id @ (join_lines
        [''\")` to discover all iframes.'',
         ''Note the iframe's bounding rect (x, y, width, height) and visibility.'',
         '''',
         ''2. To find elements inside iframes, use:'',
         ''`vscreen_find_elements(instance_id=\"'']) @ instance_id @ (join_lines
        [''\", selector=\"button\", include_iframes=true)`'',
         ''or `vscreen_find_by_text(instance_id=\"'']) @ instance_id @ (join_lines
        [''\", text=\"Click me\", include_iframes=true)`'',
         ''Results include a `frame_id` and page-space coordinates.'',
         '''',
         ''3. Click using the returned page-space coordinates:'',
         ''`vscreen_click(instance_id=\"'']) @ instance_id @ (join_lines
        [''\", x=result.x + result.width/2, y=result.y + result.height/2)`'',
         '''',
         ''4. To zoom into an iframe for analysis:'',
         ''`vscreen_screenshot(instance_id=\"'']) @ instance_id @ (join_lines
        [''\", clip={\"x\": iframe.x, \"y\": iframe.y, \"width\": iframe.width, \"height\": iframe.height})`'',
         '''',
         ''Limitations:'',
         ''- `vscreen_execute_js` runs in the main frame only'',
         ''- `vscreen_click_element` searches the main frame only'',
         ''- Use `vscreen_find_by_text` + `vscreen_click` for iframe elements instead''])"

text \<open>The description and the message of a prompt.\<close>

definition prompt_text :: "string \<Rightarrow> string \<Rightarrow> string \<Rightarrow> (string \<times> string) option" where
  "prompt_text name url instance_id =
     (if name = ''navigate_and_observe'' then Some (''Navigate to a URL and gather information'', navigate_and_observe_prompt url instance_id)
      else if name = ''solve_captcha'' then Some (''Step-by-step reCAPTCHA solving workflow'', solve_captcha_prompt instance_id)
      else if name = ''extract_article'' then Some (''Extract article content from a URL'', extract_article_prompt url instance_id)
      else if name = ''fill_form'' then Some (''Discover and fill form fields'', fill_form_prompt instance_id)
      else if name = ''interact_with_iframe'' then Some (''Interact with cross-origin iframe content'', interact_with_iframe_prompt instance_id)
      else None)"

end
