(* ===== verification/Http_Handlers.thy ===== *)
theory Http_Handlers
  imports App_State
begin

section \<open>The HTTP handlers\<close>

text \<open>
  \<open>handlers.rs\<close>, \<open>router.rs\<close> and \<open>middleware.rs\<close> of \<open>crates/vscreen-server\<close>. A request is what
  axum's extractors hand to a handler; \<open>path_of\<close> is its route. A handler that drives a browser
  is a program of \<open>Browser\<close> that ends in a response; the others read or change the state.
  Bodies that the derived serializers print are kept as values. The clock, the printing of time
  stamps and base64 are the fields of \<open>http_env\<close>.
\<close>

subsection \<open>Responses\<close>

datatype http_body =
    NoBody
  | JsonBody json
  | ErrorBody api_error
  | DataBody string bytes
  | TextBody string string
  | ScreenshotsBody "screenshot_entry_meta list"
  | ActionsBody "action_entry list"
  | ConsoleBody "console_entry list"
  | StreamsBody "session_info list"
  | StreamBody session_info
  | SessionsBody "session_info list"
  | HealthBody aggregated_health

record http_response =
  hr_status :: u16
  hr_body :: http_body

definition json_response :: "json \<Rightarrow> http_response" where
  "json_response j = \<lparr>hr_status = 200, hr_body = JsonBody j\<rparr>"

definition ok_response :: http_response where
  "ok_response = json_response (JObj [(''ok'', JBool True)])"

text \<open>\<open>StatusCode::from_u16\<close> takes 100 to 999.\<close>

definition error_response :: "vscreen_error \<Rightarrow> http_response" where
  "error_response e =
     (let a = api_error_of e in
      \<lparr>hr_status = (if 100 \<le> api_status a \<and> api_status a < 1000 then api_status a else 500),
       hr_body = ErrorBody a\<rparr>)"

definition http_not_found :: http_response where
  "http_not_found = \<lparr>hr_status = 404, hr_body = NoBody\<rparr>"

definition require_supervisor :: "app_state \<Rightarrow> instance_id \<Rightarrow> http_response + supervisor" where
  "require_supervisor st i =
     (case registry_get i (as_registry st) of
        Inl _ \<Rightarrow> Inl (error_response (InstanceNotFound i))
      | Inr _ \<Rightarrow>
          (case get_supervisor i st of
             None \<Rightarrow> Inl (error_response (NoSupervisor i))
           | Some sv \<Rightarrow> Inr sv))"

text \<open>The end of most handlers: the answer, or the error as a response.\<close>

definition respond :: "(vscreen_error, 'a) prog \<Rightarrow> ('a \<Rightarrow> http_response) \<Rightarrow> (vscreen_error, http_response) prog" where
  "respond m f = (\<lambda>br es.
     case m br es of
       (Ok a, es') \<Rightarrow> (Ok (f a), es')
     | (Err e, es') \<Rightarrow> (Ok (error_response e), es')
     | (Panic, es') \<Rightarrow> (Panic, es'))"

record http_env =
  he_checks :: bool
  he_now :: instant
  he_show_time :: "instant \<Rightarrow> string"
  he_base64 :: "bytes \<Rightarrow> string"

subsection \<open>Instances\<close>

record create_request =
  cr_instance_id :: string
  cr_cdp_endpoint :: string
  cr_pulse_source :: string
  cr_display :: "string option"
  cr_video :: "video_config option"
  cr_audio :: "audio_config option"
  cr_rtp_output :: "rtp_output_config option"

definition config_of_request :: "create_request \<Rightarrow> instance_config" where
  "config_of_request b =
     \<lparr>ic_instance_id = cr_instance_id b, ic_cdp_endpoint = cr_cdp_endpoint b,
      ic_pulse_source = cr_pulse_source b, ic_display = cr_display b,
      ic_video = (case cr_video b of Some v \<Rightarrow> v | None \<Rightarrow> default_video),
      ic_audio = (case cr_audio b of Some a \<Rightarrow> a | None \<Rightarrow> default_audio),
      ic_rtp_output = cr_rtp_output b\<rparr>"

definition create_instance :: "create_request \<Rightarrow> app_state \<Rightarrow> app_state \<times> http_response" where
  "create_instance b st =
     (let config = config_of_request b in
      case registry_create config (max_instances (app_limits (as_config st))) (as_registry st) of
        (r, Inr _) \<Rightarrow>
          (st\<lparr>as_registry := r\<rparr>,
           \<lparr>hr_status = 201, hr_body = JsonBody (JObj [(''instance_id'', JStr (ic_instance_id config)),
             (''state'', JStr ''created'')])\<rparr>)
      | (r, Inl e) \<Rightarrow> (st\<lparr>as_registry := r\<rparr>, error_response e))"

definition delete_instance :: "instance_id \<Rightarrow> app_state \<Rightarrow> app_state \<times> http_response" where
  "delete_instance i st =
     (case registry_remove i (as_registry st) of
        (r, Inr _) \<Rightarrow>
          (fst (remove_supervisor i (st\<lparr>as_registry := r\<rparr>)), \<lparr>hr_status = 204, hr_body = NoBody\<rparr>)
      | (r, Inl e) \<Rightarrow> (st, error_response e))"

text \<open>The derived serializer of \<open>InstanceState\<close>, tagged by its member \<open>state\<close>.\<close>

fun degraded_reason_json :: "degraded_reason \<Rightarrow> json" where
  "degraded_reason_json (CdpDisconnected n) =
     JObj [(''type'', JStr ''cdp_disconnected''), (''reconnect_attempt'', word_json n)]"
| "degraded_reason_json (AudioSourceLost n) =
     JObj [(''type'', JStr ''audio_source_lost''), (''reconnect_attempt'', word_json n)]"
| "degraded_reason_json (EncoderOverloaded n) =
     JObj [(''type'', JStr ''encoder_overloaded''), (''dropped_frames'', word_json n)]"

fun failure_reason_json :: "failure_reason \<Rightarrow> json" where
  "failure_reason_json CdpReconnectExhausted = JObj [(''type'', JStr ''cdp_reconnect_exhausted'')]"
| "failure_reason_json AudioSourcePermanentlyLost =
     JObj [(''type'', JStr ''audio_source_permanently_lost'')]"
| "failure_reason_json (InternalError m) =
     JObj [(''type'', JStr ''internal_error''), (''message'', JStr m)]"

fun instance_state_json :: "(instant \<Rightarrow> string) \<Rightarrow> instance_state \<Rightarrow> json" where
  "instance_state_json sh Created = JObj [(''state'', JStr ''created'')]"
| "instance_state_json sh Starting = JObj [(''state'', JStr ''starting'')]"
| "instance_state_json sh Running = JObj [(''state'', JStr ''running'')]"
| "instance_state_json sh (Degraded r t) =
     JObj [(''state'', JStr ''degraded''), (''reason'', degraded_reason_json r), (''since'', JStr (sh t))]"
| "instance_state_json sh (Failed r t) =
     JObj [(''state'', JStr ''failed''), (''reason'', failure_reason_json r), (''since'', JStr (sh t))]"
| "instance_state_json sh Stopping = JObj [(''state'', JStr ''stopping'')]"
| "instance_state_json sh Stopped = JObj [(''state'', JStr ''stopped'')]"

definition instance_json :: "http_env \<Rightarrow> app_state \<Rightarrow> instance_id \<Rightarrow> instance_entry \<Rightarrow> json" where
  "instance_json env st i e =
     JObj ([(''instance_id'', JStr i), (''state'', instance_state_json (he_show_time env) (ie_state e)),
        (''supervisor_running'', JBool (get_supervisor i st \<noteq> None))] @
       (if as_rtsp_port st > 0 then
          [(''rtsp_url'', JStr (''rtsp://{host}:'' @ show_word (as_rtsp_port st) @ ''/stream/'' @ i))]
        else []))"

definition list_instances :: "http_env \<Rightarrow> app_state \<Rightarrow> http_response" where
  "list_instances env st =
     json_response (JObj [(''instances'', JArr (List.map_filter
       (\<lambda>i. case registry_get i (as_registry st) of
           Inr e \<Rightarrow> Some (instance_json env st i e)
         | Inl _ \<Rightarrow> None) (list_ids (as_registry st))))])"

definition instance_health :: "http_env \<Rightarrow> instance_id \<Rightarrow> app_state \<Rightarrow> http_response" where
  "instance_health env i st =
     (case registry_get i (as_registry st) of
        Inr e \<Rightarrow> json_response (JObj [(''instance_id'', JStr i),
          (''state'', instance_state_json (he_show_time env) (ie_state e)),
          (''healthy'', JBool (is_running (ie_state e)))])
      | Inl e \<Rightarrow> error_response e)"

record runtime_video_config =
  rv_bitrate_kbps :: "u32 option"
  rv_framerate :: "u32 option"
  rv_cpu_used :: "u32 option"

text \<open>The new settings are logged and go nowhere.\<close>

definition patch_video_config :: "instance_id \<Rightarrow> runtime_video_config \<Rightarrow> app_state \<Rightarrow> http_response" where
  "patch_video_config i body st =
     (case registry_get i (as_registry st) of
        Inr _ \<Rightarrow> json_response (JObj [(''instance_id'', JStr i), (''applied'', JBool True)])
      | Inl e \<Rightarrow> error_response e)"

definition server_health :: "app_state \<Rightarrow> http_response" where
  "server_health st =
     json_response (JObj [(''status'', JStr ''ok''), (''instances'', JInt (int (registry_len (as_registry st))))])"

definition sdp_text :: string where
  "sdp_text = concat (map (\<lambda>l. l @ [CHR 0x0D, CHR 0x0A])
     [''v=0'', ''o=- 0 0 IN IP4 127.0.0.1'', ''s=vscreen audio'', ''c=IN IP4 239.0.0.1'', ''t=0 0'',
      ''m=audio 5004 RTP/AVP 111'', ''a=rtpmap:111 opus/48000/2'', ''a=fmtp:111 minptime=10;useinbandfec=1''])"

definition instance_sdp :: "instance_id \<Rightarrow> app_state \<Rightarrow> http_response" where
  "instance_sdp i st =
     (case registry_get i (as_registry st) of
        Inr _ \<Rightarrow> \<lparr>hr_status = 200, hr_body = TextBody ''application/sdp'' sdp_text\<rparr>
      | Inl _ \<Rightarrow> error_response (InstanceNotFound i))"

subsection \<open>Navigation and screenshots\<close>

definition navigate_instance :: "instance_id \<Rightarrow> string \<Rightarrow> (vscreen_error, http_response) prog" where
  "navigate_instance i url = respond (sup_navigate url)
     (\<lambda>_. json_response (JObj [(''instance_id'', JStr i), (''url'', JStr url), (''navigated'', JBool True)]))"

definition content_type_of :: "string \<Rightarrow> string" where
  "content_type_of format =
     (if format = ''jpeg'' then ''image/jpeg'' else if format = ''webp'' then ''image/webp'' else ''image/png'')"

definition screenshot :: "string \<Rightarrow> u32 option \<Rightarrow> bool \<Rightarrow> (vscreen_error, http_response) prog" where
  "screenshot format quality full_page =
     respond (if full_page then sup_capture_full_page format quality
              else sup_capture_screenshot format quality)
       (\<lambda>data. \<lparr>hr_status = 200, hr_body = DataBody (content_type_of format) data\<rparr>)"

definition screenshot_sequence ::
  "http_env \<Rightarrow> u32 \<Rightarrow> u64 \<Rightarrow> string \<Rightarrow> u32 option \<Rightarrow> (vscreen_error, http_response) prog" where
  "screenshot_sequence env count interval format quality =
     respond (capture_screenshot_sequence count interval format quality)
       (\<lambda>images. json_response (JObj [(''images'', JArr (map (\<lambda>img. JStr (he_base64 env img)) images)),
          (''format'', JStr format), (''count'', JInt (int (length images)))]))"

subsection \<open>Input\<close>

definition input_dispatch :: "bool \<Rightarrow> rat input_event \<Rightarrow> (vscreen_error, http_response) prog" where
  "input_dispatch checks ev = respond (dispatch_api_input checks ev) (\<lambda>_. ok_response)"

definition mouse_event :: "json \<Rightarrow> (vscreen_error, unit) prog" where
  "mouse_event params = send_cdp_command ''Input.dispatchMouseEvent'' (Some params)"

record click_request =
  ck_x :: rat
  ck_y :: rat
  ck_button :: "u8 option"
  ck_double :: "bool option"
  ck_page_coords :: bool

definition click_button_name :: "u8 \<Rightarrow> string" where
  "click_button_name b = (if b = 1 then ''middle'' else if b = 2 then ''right'' else ''left'')"

definition move_json :: "rat \<Rightarrow> rat \<Rightarrow> json" where
  "move_json x y =
     JObj [(''type'', JStr ''mouseMoved''), (''x'', JFloat x), (''y'', JFloat y), (''modifiers'', JInt 0)]"

definition button_json :: "string \<Rightarrow> rat \<Rightarrow> rat \<Rightarrow> string \<Rightarrow> u32 \<Rightarrow> int \<Rightarrow> json" where
  "button_json ty x y button buttons count =
     JObj [(''type'', JStr ty), (''x'', JFloat x), (''y'', JFloat y), (''button'', JStr button),
       (''buttons'', word_json buttons), (''clickCount'', JInt count), (''modifiers'', JInt 0)]"

text \<open>The two events of one click; \<open>1u32 << btn\<close> is computed for the press.\<close>

definition click_events :: "bool \<Rightarrow> rat \<Rightarrow> rat \<Rightarrow> u8 \<Rightarrow> int \<Rightarrow> (vscreen_error, unit) prog" where
  "click_events checks x y b count =
     seq (lift (shl_ovf checks 1 b)) (\<lambda>mask.
     seq (mouse_event (button_json ''mousePressed'' x y (click_button_name b) mask count)) (\<lambda>_.
     mouse_event (button_json ''mouseReleased'' x y (click_button_name b) 0 count)))"

definition page_point :: "bool \<Rightarrow> rat \<Rightarrow> rat \<Rightarrow> (vscreen_error, rat \<times> rat) prog" where
  "page_point page_coords x y =
     (if page_coords then scroll_into_view_and_translate x y else ret (x, y))"

definition input_click :: "bool \<Rightarrow> click_request \<Rightarrow> (vscreen_error, http_response) prog" where
  "input_click checks body =
     (let b = (case ck_button body of Some b \<Rightarrow> b | None \<Rightarrow> 0) in
      respond
        (seq (page_point (ck_page_coords body) (ck_x body) (ck_y body)) (\<lambda>(x, y).
         seq (mouse_event (move_json x y)) (\<lambda>_.
         seq (click_events checks x y b 1) (\<lambda>_.
         if ck_double body = Some True then click_events checks x y b 2 else ret ()))))
        (\<lambda>_. ok_response))"

definition input_type :: "bool \<Rightarrow> string \<Rightarrow> (vscreen_error, http_response) prog" where
  "input_type checks txt = respond (dispatch_api_input checks (Paste txt)) (\<lambda>_. ok_response)"

record modifier_request =
  mo_ctrl :: bool
  mo_shift :: bool
  mo_alt :: bool
  mo_meta :: bool

definition to_bitmask :: "modifier_request \<Rightarrow> u8" where
  "to_bitmask m =
     (if mo_alt m then 1 else 0) OR (if mo_ctrl m then 2 else 0) OR (if mo_meta m then 4 else 0) OR
     (if mo_shift m then 8 else 0)"

record key_request_body =
  kr_key :: string
  kr_code :: "string option"
  kr_modifiers :: "modifier_request option"

definition input_key :: "bool \<Rightarrow> key_request_body \<Rightarrow> (vscreen_error, http_response) prog" where
  "input_key checks body =
     (let m = (case kr_modifiers body of None \<Rightarrow> 0 | Some mo \<Rightarrow> to_bitmask mo);
          code = (case kr_code body of Some c \<Rightarrow> c | None \<Rightarrow> kr_key body)
      in respond
           (seq (dispatch_api_input checks (KeyDown (kr_key body) code m)) (\<lambda>_.
            dispatch_api_input checks (KeyUp (kr_key body) code m)))
           (\<lambda>_. ok_response))"

definition input_scroll :: "bool \<Rightarrow> rat \<Rightarrow> rat \<Rightarrow> rat \<Rightarrow> rat \<Rightarrow> (vscreen_error, http_response) prog" where
  "input_scroll checks x y dx dy =
     respond (dispatch_api_input checks (Wheel x y dx dy 0)) (\<lambda>_. ok_response)"

record drag_request =
  dr_from_x :: rat
  dr_from_y :: rat
  dr_to_x :: rat
  dr_to_y :: rat
  dr_steps :: u32
  dr_duration_ms :: u64

definition default_drag_steps :: u32 where
  "default_drag_steps = 10"

definition default_drag_duration :: u64 where
  "default_drag_duration = 300"

definition drag_button_json :: "string \<Rightarrow> rat \<Rightarrow> rat \<Rightarrow> int \<Rightarrow> json" where
  "drag_button_json ty x y buttons =
     JObj [(''type'', JStr ty), (''x'', JFloat x), (''y'', JFloat y), (''button'', JStr ''left''),
       (''buttons'', JInt buttons), (''clickCount'', JInt 1), (''modifiers'', JInt 0)]"

definition drag_move_json :: "rat \<Rightarrow> rat \<Rightarrow> json" where
  "drag_move_json x y =
     JObj [(''type'', JStr ''mouseMoved''), (''x'', JFloat x), (''y'', JFloat y), (''button'', JStr ''left''),
       (''buttons'', JInt 1), (''modifiers'', JInt 0)]"

definition drag_point :: "drag_request \<Rightarrow> nat \<Rightarrow> nat \<Rightarrow> rat \<times> rat" where
  "drag_point b steps i =
     (let t = of_nat i / of_nat steps in
      (dr_from_x b + (dr_to_x b - dr_from_x b) * t, dr_from_y b + (dr_to_y b - dr_from_y b) * t))"

definition drag_step :: "drag_request \<Rightarrow> nat \<Rightarrow> nat \<Rightarrow> nat \<Rightarrow> (vscreen_error, unit) prog" where
  "drag_step b steps delay i =
     (let (x, y) = drag_point b steps i in
      seq (mouse_event (drag_move_json x y)) (\<lambda>_. sleep delay))"

definition input_drag :: "drag_request \<Rightarrow> (vscreen_error, http_response) prog" where
  "input_drag b =
     (let steps = unat (max (dr_steps b) 1);
          delay = unat (dr_duration_ms b) div steps
      in respond
           (seq (mouse_event (move_json (dr_from_x b) (dr_from_y b))) (\<lambda>_.
            seq (mouse_event (drag_button_json ''mousePressed'' (dr_from_x b) (dr_from_y b) 1)) (\<lambda>_.
            seq (foreach (drag_step b steps delay) [1..<Suc steps]) (\<lambda>_.
            mouse_event (drag_button_json ''mouseReleased'' (dr_to_x b) (dr_to_y b) 0)))))
           (\<lambda>_. ok_response))"

definition input_hover :: "bool \<Rightarrow> rat \<Rightarrow> rat \<Rightarrow> bool \<Rightarrow> (vscreen_error, http_response) prog" where
  "input_hover checks x y page_coords =
     respond
       (seq (page_point page_coords x y) (\<lambda>(x, y). dispatch_api_input checks (MouseMove x y 0 0)))
       (\<lambda>_. ok_response)"

subsection \<open>The page\<close>

definition page_info :: "(vscreen_error, http_response) prog" where
  "page_info = respond get_page_info json_response"

definition exec_js :: "string \<Rightarrow> (vscreen_error, http_response) prog" where
  "exec_js expression =
     respond (sup_evaluate_js expression) (\<lambda>r. json_response (JObj [(''result'', r)]))"

definition find_js :: "browser \<Rightarrow> string \<Rightarrow> string" where
  "find_js br selector =
     ''JSON.stringify(Array.from(document.querySelectorAll('' @ br_json_string br selector @ join_lines
      ['')).slice(0, 50).map(el => {'',
       ''    const r = el.getBoundingClientRect();'',
       ''    return {'',
       ''        tag: el.tagName.toLowerCase(),'',
       ''        text: (el.innerText || el.textContent || '' @ [CHR 0x27, CHR 0x27] @ '').substring(0, 200).trim(),'',
       ''        x: Math.round(r.left + window.scrollX),'',
       ''        y: Math.round(r.top + window.scrollY),'',
       ''        width: Math.round(r.width),'',
       ''        height: Math.round(r.height),'',
       ''        visible: r.width > 0 && r.height > 0,'',
       ''    };'',
       ''}))'']"

definition find_elements :: "string \<Rightarrow> (vscreen_error, http_response) prog" where
  "find_elements selector = (\<lambda>br.
     respond (sup_evaluate_js (find_js br selector)) (\<lambda>result.
       let txt = (case as_str result of Some s \<Rightarrow> s | None \<Rightarrow> ''[]'');
           parsed = (case parse_json br txt of Ok j \<Rightarrow> j | _ \<Rightarrow> JNull)
       in json_response (JObj [(''elements'', parsed)])) br)"

definition extract_text :: "string option \<Rightarrow> (vscreen_error, http_response) prog" where
  "extract_text selector = (\<lambda>br.
     respond (sup_evaluate_js
         (case selector of
            Some sel \<Rightarrow> ''(function() { const el = document.querySelector('' @ br_json_string br sel @
              ''); return el ? el.innerText : null; })()''
          | None \<Rightarrow> ''document.body.innerText''))
       (\<lambda>result. json_response (JObj [(''text'',
          JStr (case as_str result of Some s \<Rightarrow> s | None \<Rightarrow> ''''))])) br)"

definition go_back :: "(vscreen_error, http_response) prog" where
  "go_back = respond (sup_evaluate_js ''history.back()'') (\<lambda>_. ok_response)"

definition go_forward :: "(vscreen_error, http_response) prog" where
  "go_forward = respond (sup_evaluate_js ''history.forward()'') (\<lambda>_. ok_response)"

definition reload :: "(vscreen_error, http_response) prog" where
  "reload = respond (send_cdp_command ''Page.reload'' (Some (JObj [(''ignoreCache'', JBool False)])))
     (\<lambda>_. ok_response)"

end
