(* ===== verification/Http_Server.thy ===== *)
theory Http_Server
  imports Http_Handlers "HOL-Library.Sublist"
begin

section \<open>The HTTP server\<close>

text \<open>
  The rest of \<open>handlers.rs\<close> (histories, console, RTSP sessions), the routes of \<open>router.rs\<close> and
  the token check of \<open>middleware.rs\<close>, put together: \<open>serve\<close> answers one request. Requests run
  one at a time here; what a handler does to a browser is interleaved with other work at the
  level of \<open>Cdp_Client\<close>. \<open>enc\<close> is the percent-encoding of a path segment.
\<close>

subsection \<open>Histories and console\<close>

definition history_list :: "supervisor \<Rightarrow> http_response" where
  "history_list sv = \<lparr>hr_status = 200, hr_body = ScreenshotsBody (screenshot_list (sv_screenshots sv))\<rparr>"

definition history_get :: "nat \<Rightarrow> supervisor \<Rightarrow> http_response" where
  "history_get index sv =
     (case screenshot_get index (sv_screenshots sv) of
        Some e \<Rightarrow> \<lparr>hr_status = 200, hr_body = DataBody ''image/jpeg'' (se_data e)\<rparr>
      | None \<Rightarrow> \<lparr>hr_status = 404, hr_body =
          JsonBody (JObj [(''error'', JStr ''no screenshot at that index'')])\<rparr>)"

definition history_clear :: "supervisor \<Rightarrow> supervisor" where
  "history_clear sv = sv\<lparr>sv_screenshots := screenshot_clear (sv_screenshots sv)\<rparr>"

definition session_log :: "supervisor \<Rightarrow> http_response" where
  "session_log sv = \<lparr>hr_status = 200, hr_body = ActionsBody (al_entries (sv_actions sv))\<rparr>"

definition session_summary :: "supervisor \<Rightarrow> http_response" where
  "session_summary sv = json_response (JObj [(''summary'', JStr (action_summary (sv_actions sv)))])"

definition console_log :: "string option \<Rightarrow> supervisor \<Rightarrow> http_response" where
  "console_log level sv =
     \<lparr>hr_status = 200, hr_body = ConsoleBody
        (case level of
           Some l \<Rightarrow> filter_by_level l (sv_console sv)
         | None \<Rightarrow> cb_entries (sv_console sv))\<rparr>"

definition console_clear_sv :: "supervisor \<Rightarrow> supervisor" where
  "console_clear_sv sv = sv\<lparr>sv_console := console_clear (sv_console sv)\<rparr>"

definition cursor_position :: "supervisor \<Rightarrow> http_response" where
  "cursor_position sv =
     (let (x, y) = unpack_cursor (sv_cursor sv) in
      json_response (JObj [(''x'', JInt (sint x)), (''y'', JInt (sint y))]))"

subsection \<open>RTSP sessions\<close>

definition rtsp_not_running :: http_response where
  "rtsp_not_running =
     \<lparr>hr_status = 503, hr_body = JsonBody (JObj [(''error'', JStr ''RTSP server not running'')])\<rparr>"

definition audio_streams :: "http_env \<Rightarrow> instance_id \<Rightarrow> app_state \<Rightarrow> http_response" where
  "audio_streams env i st =
     (case as_rtsp_manager st of
        None \<Rightarrow> rtsp_not_running
      | Some m \<Rightarrow> \<lparr>hr_status = 200, hr_body = StreamsBody (sessions_for_instance (he_now env) i m)\<rparr>)"

definition audio_stream_info :: "http_env \<Rightarrow> instance_id \<Rightarrow> string \<Rightarrow> app_state \<Rightarrow> http_response" where
  "audio_stream_info env i sid st =
     (case as_rtsp_manager st of
        None \<Rightarrow> rtsp_not_running
      | Some m \<Rightarrow>
          (case get_session sid m of
             Some s \<Rightarrow>
               (let info = session_info_of (he_now env) s in
                if si_instance_id info \<noteq> i then http_not_found
                else \<lparr>hr_status = 200, hr_body = StreamBody info\<rparr>)
           | None \<Rightarrow> http_not_found))"

definition audio_stream_teardown :: "string \<Rightarrow> app_state \<Rightarrow> app_state \<times> http_response" where
  "audio_stream_teardown sid st =
     (case as_rtsp_manager st of
        None \<Rightarrow> (st, rtsp_not_running)
      | Some m \<Rightarrow>
          (case remove_session sid m of
             (m', Some _) \<Rightarrow> (st\<lparr>as_rtsp_manager := Some m'\<rparr>, ok_response)
           | (m', None) \<Rightarrow> (st, http_not_found)))"

definition audio_health :: "instance_id \<Rightarrow> app_state \<Rightarrow> http_response" where
  "audio_health i st =
     (case as_rtsp_manager st of
        None \<Rightarrow> rtsp_not_running
      | Some m \<Rightarrow> \<lparr>hr_status = 200, hr_body = HealthBody (aggregated_health_of i m)\<rparr>)"

definition rtsp_all_sessions :: "http_env \<Rightarrow> app_state \<Rightarrow> http_response" where
  "rtsp_all_sessions env st =
     (case as_rtsp_manager st of
        None \<Rightarrow> rtsp_not_running
      | Some m \<Rightarrow> \<lparr>hr_status = 200, hr_body = SessionsBody (all_sessions (he_now env) m)\<rparr>)"

definition rtsp_health :: "app_state \<Rightarrow> http_response" where
  "rtsp_health st =
     (case as_rtsp_manager st of
        None \<Rightarrow> rtsp_not_running
      | Some m \<Rightarrow> json_response (JObj [(''status'', JStr ''running''),
          (''total_sessions'', JInt (int (session_count m))), (''timeout_secs'', word_json (timeout_secs m))]))"

subsection \<open>Requests\<close>

datatype browser_op =
    Navigate string
  | TakeScreenshot string "u32 option" bool
  | TakeSequence u32 u64 string "u32 option"
  | Dispatch "rat input_event"
  | Click click_request
  | TypeText string
  | PressKey key_request_body
  | Scroll rat rat rat rat
  | Drag drag_request
  | Hover rat rat bool
  | PageInfo
  | Exec string
  | Find string
  | ExtractText "string option"
  | GoBack
  | GoForward
  | Reload

datatype state_op =
    Cursor
  | HistoryList
  | HistoryGet nat
  | HistoryClear
  | SessionLog
  | SessionSummary
  | ConsoleLog "string option"
  | ConsoleClear
  | AudioStreams
  | AudioStreamInfo string
  | AudioStreamTeardown string
  | AudioHealth

datatype api_request =
    GetHealth
  | GetMetrics
  | CreateInstance create_request
  | ListInstances
  | DeleteInstance instance_id
  | InstanceHealth instance_id
  | PatchVideo instance_id runtime_video_config
  | GetSdp instance_id
  | OnBrowser instance_id browser_op
  | OnState instance_id state_op
  | RtspSessions
  | RtspHealth

fun browser_handler :: "http_env \<Rightarrow> instance_id \<Rightarrow> browser_op \<Rightarrow> (vscreen_error, http_response) prog" where
  "browser_handler env i (Navigate url) = navigate_instance i url"
| "browser_handler env i (TakeScreenshot f q full) = screenshot f q full"
| "browser_handler env i (TakeSequence n ms f q) = screenshot_sequence env n ms f q"
| "browser_handler env i (Dispatch ev) = input_dispatch (he_checks env) ev"
| "browser_handler env i (Click b) = input_click (he_checks env) b"
| "browser_handler env i (TypeText t) = input_type (he_checks env) t"
| "browser_handler env i (PressKey b) = input_key (he_checks env) b"
| "browser_handler env i (Scroll x y dx dy) = input_scroll (he_checks env) x y dx dy"
| "browser_handler env i (Drag b) = input_drag b"
| "browser_handler env i (Hover x y page) = input_hover (he_checks env) x y page"
| "browser_handler env i PageInfo = page_info"
| "browser_handler env i (Exec s) = exec_js s"
| "browser_handler env i (Find s) = find_elements s"
| "browser_handler env i (ExtractText s) = extract_text s"
| "browser_handler env i GoBack = go_back"
| "browser_handler env i GoForward = go_forward"
| "browser_handler env i Reload = reload"

fun state_handler ::
  "http_env \<Rightarrow> instance_id \<Rightarrow> supervisor \<Rightarrow> state_op \<Rightarrow> app_state \<Rightarrow> app_state \<times> http_response" where
  "state_handler env i sv Cursor st = (st, cursor_position sv)"
| "state_handler env i sv HistoryList st = (st, history_list sv)"
| "state_handler env i sv (HistoryGet n) st = (st, history_get n sv)"
| "state_handler env i sv HistoryClear st = (with_supervisor i history_clear st, ok_response)"
| "state_handler env i sv SessionLog st = (st, session_log sv)"
| "state_handler env i sv SessionSummary st = (st, session_summary sv)"
| "state_handler env i sv (ConsoleLog l) st = (st, console_log l sv)"
| "state_handler env i sv ConsoleClear st = (with_supervisor i console_clear_sv st, ok_response)"
| "state_handler env i sv AudioStreams st = (st, audio_streams env i st)"
| "state_handler env i sv (AudioStreamInfo sid) st = (st, audio_stream_info env i sid st)"
| "state_handler env i sv (AudioStreamTeardown sid) st = audio_stream_teardown sid st"
| "state_handler env i sv AudioHealth st = (st, audio_health i st)"

text \<open>\<open>metrics\<close> is what the recorder renders. The browser is the one of the instance named.\<close>

fun handle_api ::
  "http_env \<Rightarrow> string \<Rightarrow> api_request \<Rightarrow> app_state \<Rightarrow> (vscreen_error, app_state \<times> http_response) prog" where
  "handle_api env metrics GetHealth st = ret (st, server_health st)"
| "handle_api env metrics GetMetrics st =
     ret (st, \<lparr>hr_status = 200, hr_body = TextBody ''text/plain; version=0.0.4'' metrics\<rparr>)"
| "handle_api env metrics (CreateInstance b) st = ret (create_instance b st)"
| "handle_api env metrics ListInstances st = ret (st, list_instances env st)"
| "handle_api env metrics (DeleteInstance i) st = ret (delete_instance i st)"
| "handle_api env metrics (InstanceHealth i) st = ret (st, instance_health env i st)"
| "handle_api env metrics (PatchVideo i b) st = ret (st, patch_video_config i b st)"
| "handle_api env metrics (GetSdp i) st = ret (st, instance_sdp i st)"
| "handle_api env metrics (OnBrowser i op) st =
     (case require_supervisor st i of
        Inl r \<Rightarrow> ret (st, r)
      | Inr _ \<Rightarrow> seq (browser_handler env i op) (\<lambda>r. ret (st, r)))"
| "handle_api env metrics (OnState i op) st =
     (case require_supervisor st i of
        Inl r \<Rightarrow> ret (st, r)
      | Inr sv \<Rightarrow> ret (state_handler env i sv op st))"
| "handle_api env metrics RtspSessions st = ret (st, rtsp_all_sessions env st)"
| "handle_api env metrics RtspHealth st = ret (st, rtsp_health st)"

subsection \<open>Routes and the token check\<close>

fun browser_route :: "browser_op \<Rightarrow> string" where
  "browser_route (Navigate _) = ''/navigate''"
| "browser_route (TakeScreenshot _ _ _) = ''/screenshot''"
| "browser_route (TakeSequence _ _ _ _) = ''/screenshot/sequence''"
| "browser_route (Dispatch _) = ''/input''"
| "browser_route (Click _) = ''/input/click''"
| "browser_route (TypeText _) = ''/input/type''"
| "browser_route (PressKey _) = ''/input/key''"
| "browser_route (Scroll _ _ _ _) = ''/input/scroll''"
| "browser_route (Drag _) = ''/input/drag''"
| "browser_route (Hover _ _ _) = ''/input/hover''"
| "browser_route PageInfo = ''/page''"
| "browser_route (Exec _) = ''/exec''"
| "browser_route (Find _) = ''/find''"
| "browser_route (ExtractText _) = ''/extract-text''"
| "browser_route GoBack = ''/go-back''"
| "browser_route GoForward = ''/go-forward''"
| "browser_route Reload = ''/reload''"

fun state_route :: "(string \<Rightarrow> string) \<Rightarrow> state_op \<Rightarrow> string" where
  "state_route enc Cursor = ''/cursor''"
| "state_route enc HistoryList = ''/history''"
| "state_route enc (HistoryGet n) = ''/history/'' @ show_nat n"
| "state_route enc HistoryClear = ''/history''"
| "state_route enc SessionLog = ''/session''"
| "state_route enc SessionSummary = ''/session/summary''"
| "state_route enc (ConsoleLog _) = ''/console''"
| "state_route enc ConsoleClear = ''/console''"
| "state_route enc AudioStreams = ''/audio/streams''"
| "state_route enc (AudioStreamInfo sid) = ''/audio/streams/'' @ enc sid"
| "state_route enc (AudioStreamTeardown sid) = ''/audio/streams/'' @ enc sid"
| "state_route enc AudioHealth = ''/audio/health''"

fun path_of :: "(string \<Rightarrow> string) \<Rightarrow> api_request \<Rightarrow> string" where
  "path_of enc GetHealth = ''/health''"
| "path_of enc GetMetrics = ''/metrics''"
| "path_of enc (CreateInstance _) = ''/instances''"
| "path_of enc ListInstances = ''/instances''"
| "path_of enc (DeleteInstance i) = ''/instances/'' @ enc i"
| "path_of enc (InstanceHealth i) = ''/instances/'' @ enc i @ ''/health''"
| "path_of enc (PatchVideo i _) = ''/instances/'' @ enc i @ ''/video''"
| "path_of enc (GetSdp i) = ''/instances/'' @ enc i @ ''/sdp''"
| "path_of enc (OnBrowser i op) = ''/instances/'' @ enc i @ browser_route op"
| "path_of enc (OnState i op) = ''/instances/'' @ enc i @ state_route enc op"
| "path_of enc RtspSessions = ''/rtsp/sessions''"
| "path_of enc RtspHealth = ''/rtsp/health''"

text \<open>The query string and the \<open>Authorization\<close> header, where it is visible ASCII.\<close>

record http_meta =
  hm_query :: "string option"
  hm_authorization :: "string option"

definition authorized :: "app_state \<Rightarrow> string \<Rightarrow> http_meta \<Rightarrow> bool" where
  "authorized st path meta =
     (case sc_auth_token (app_server (as_config st)) of
        None \<Rightarrow> True
      | Some token \<Rightarrow>
          if path = ''/health'' \<or> path = ''/metrics'' then True
          else if starts_with ''/signal/'' path then
            (case hm_query meta of
               None \<Rightarrow> False
             | Some query \<Rightarrow> list_ex (\<lambda>p. strip_prefix ''token='' p = Some token) (split_on (CHR 0x26) query))
          else
            (case hm_authorization meta of
               None \<Rightarrow> False
             | Some auth \<Rightarrow> strip_prefix ''Bearer '' auth = Some token))"

definition unauthorized :: http_response where
  "unauthorized = \<lparr>hr_status = 401, hr_body = TextBody '''' ''{\"error\":\"unauthorized\"}''\<rparr>"

definition serve ::
  "http_env \<Rightarrow> string \<Rightarrow> (string \<Rightarrow> string) \<Rightarrow> http_meta \<Rightarrow> api_request \<Rightarrow> app_state
     \<Rightarrow> (vscreen_error, app_state \<times> http_response) prog" where
  "serve env metrics enc meta r st =
     (if authorized st (path_of enc r) meta then handle_api env metrics r st
      else ret (st, unauthorized))"

subsection \<open>Access\<close>

lemma path_of_exempt: "path_of enc r = ''/health'' \<or> path_of enc r = ''/metrics'' \<longleftrightarrow> r = GetHealth \<or> r = GetMetrics"
  by (cases r) auto

lemma path_of_signal: "\<not> starts_with ''/signal/'' (path_of enc r)"
  by (cases r) (auto simp: starts_with_def)


lemma registry_get_iff: "(\<exists>e. registry_get i r = Inr e) \<longleftrightarrow> tab_get i r \<noteq> None"
  by (auto simp: registry_get_def split: option.split)

lemma require_supervisor_iff:
  "require_supervisor st i =
     (if tab_get i (as_registry st) = None then Inl (error_response (InstanceNotFound i))
      else case get_supervisor i st of
          None \<Rightarrow> Inl (error_response (NoSupervisor i))
        | Some sv \<Rightarrow> Inr sv)"
  by (auto simp: require_supervisor_def registry_get_def split: option.split)

fun instance_of :: "api_request \<Rightarrow> instance_id option" where
  "instance_of (OnBrowser i _) = Some i"
| "instance_of (OnState i _) = Some i"
| "instance_of _ = None"

text \<open>Requests to an instance. Driving a browser, reading or clearing its histories and its
  streams needs a registered instance with a running supervisor: without the instance the
  answer is 404, without the supervisor 503, the state is unchanged and no browser is touched.
  No other request touches a browser at all.\<close>

theorem api_requires_supervisor:
  "case instance_of r of
     None \<Rightarrow> snd (handle_api env metrics r st br es) = es
   | Some i \<Rightarrow>
       if tab_get i (as_registry st) = None then
         handle_api env metrics r st br es = (Ok (st, error_response (InstanceNotFound i)), es) \<and>
         hr_status (error_response (InstanceNotFound i)) = 404
       else if get_supervisor i st = None then
         handle_api env metrics r st br es = (Ok (st, error_response (NoSupervisor i)), es) \<and>
         hr_status (error_response (NoSupervisor i)) = 503
       else (case r of
           OnBrowser _ op \<Rightarrow> handle_api env metrics r st br es =
             seq (browser_handler env i op) (\<lambda>x. ret (st, x)) br es
         | _ \<Rightarrow> snd (handle_api env metrics r st br es) = es)"
  by (cases r) (auto simp: require_supervisor_iff error_response_def api_def Let_def split: option.split)

text \<open>What a request leaves alone.\<close>

fun names :: "api_request \<Rightarrow> instance_id option" where
  "names (CreateInstance b) = Some (cr_instance_id b)"
| "names (DeleteInstance i) = Some i"
| "names (OnBrowser i _) = Some i"
| "names (OnState i _) = Some i"
| "names _ = None"

lemma create_insert_other: "j \<noteq> ic_instance_id c \<Longrightarrow> tab_get j (fst (create_insert c r)) = tab_get j r"
  by (simp add: create_insert_def Let_def split: option.split)

lemma create_instance_other:
  assumes "j \<noteq> cr_instance_id b"
  shows "tab_get j (as_registry (fst (create_instance b st))) = tab_get j (as_registry st)"
proof -
  have "ic_instance_id (config_of_request b) = cr_instance_id b" by (simp add: config_of_request_def)
  with assms create_insert_other show ?thesis
    by (auto simp: create_instance_def registry_create_def Let_def split: prod.split sum.split)
      (metis fst_conv)+
qed

lemma delete_instance_other:
  "j \<noteq> i \<Longrightarrow> tab_get j (as_registry (fst (delete_instance i st))) = tab_get j (as_registry st) \<and>
     get_supervisor j (fst (delete_instance i st)) = get_supervisor j st"
  by (auto simp: delete_instance_def registry_remove_def remove_supervisor_def get_supervisor_def
    split: option.split)

lemma with_supervisor_other:
  "j \<noteq> i \<Longrightarrow> get_supervisor j (with_supervisor i f st) = get_supervisor j st"
  "as_registry (with_supervisor i f st) = as_registry st"
  by (auto simp: with_supervisor_def set_supervisor_def get_supervisor_def split: option.split)

lemma get_supervisor_rtsp [simp]: "get_supervisor j (st\<lparr>as_rtsp_manager := m\<rparr>) = get_supervisor j st"
  by (simp add: get_supervisor_def)

lemma state_handler_other:
  "as_registry (fst (state_handler env i sv op st)) = as_registry st \<and>
   (j \<noteq> i \<longrightarrow> get_supervisor j (fst (state_handler env i sv op st)) = get_supervisor j st)"
  by (cases op) (auto simp: with_supervisor_other audio_stream_teardown_def
    split: option.split prod.split)


text \<open>Deleting an instance. It answers 204 exactly if the instance is registered; afterwards the
  instance has neither an entry nor a supervisor, so that every request to it is answered 404,
  and it is answered 404 already when the instance is not registered.\<close>

theorem delete_instance_effect:
  "case delete_instance i st of (st', resp) \<Rightarrow>
     tab_get i (as_registry st') = None \<and>
     (if tab_get i (as_registry st) = None then st' = st \<and> hr_status resp = 404
      else hr_status resp = 204 \<and> get_supervisor i st' = None) \<and>
     handle_api env metrics (OnBrowser i op) st' br es = (Ok (st', error_response (InstanceNotFound i)), es)"
  by (auto simp: delete_instance_def registry_remove_def remove_supervisor_def get_supervisor_def
    error_response_def api_def Let_def require_supervisor_iff split: option.split)

text \<open>Tearing down a stream does not look at the instance in the path: with a running
  supervisor of any instance, a session of another one is torn down, though asking for its
  details under the same path is answered 404.\<close>

theorem teardown_ignores_instance:
  assumes "require_supervisor st i = Inr sv" and "as_rtsp_manager st = Some m"
    and "get_session sid m = Some s" and "ss_instance_id s \<noteq> i"
  shows "handle_api env metrics (OnState i (AudioStreamInfo sid)) st br es = (Ok (st, http_not_found), es) \<and>
    (\<exists>st' m'. handle_api env metrics (OnState i (AudioStreamTeardown sid)) st br es = (Ok (st', ok_response), es) \<and>
      as_rtsp_manager st' = Some m' \<and> get_session sid m' = None \<and> ss_cancel s \<in> cancelled m')"
  using assms
  by (auto simp: audio_stream_info_def session_info_of_def Let_def audio_stream_teardown_def remove_session_def
    teardown_def stop_tasks_def get_session_def)


subsection \<open>Sequences of input\<close>

lemma sends_mouse_event [simp]: "sends Cdp (mouse_event p) [Command ''Input.dispatchMouseEvent'' (Some p)]"
  by (simp add: mouse_event_def send_cdp_command_def)

text \<open>The response of a handler that sends events: success after all of them, or the error of the
  first refused.\<close>

definition answers :: "(vscreen_error, http_response) prog \<Rightarrow> browser_event list \<Rightarrow> bool" where
  "answers h xs \<longleftrightarrow> (\<forall>br es. h br es = (Ok ok_response, es @ xs) \<or>
     (\<exists>ys c zs e. xs = ys @ c # zs \<and> br_answer br (es @ ys) c = Inl e \<and>
        h br es = (Ok (error_response (Cdp e)), es @ ys @ [c])))"

lemma answers_respond: "sends Cdp m xs \<Longrightarrow> answers (respond m (\<lambda>_. ok_response)) xs"
  unfolding answers_def respond_def
proof (intro allI)
  fix br es
  assume "sends Cdp m xs"
  then show "(case m br es of (Ok a, es') \<Rightarrow> (Ok ok_response, es') | (Err e, es') \<Rightarrow> (Ok (error_response e), es')
        | (Panic, es') \<Rightarrow> (Panic, es')) = (Ok ok_response, es @ xs) \<or>
      (\<exists>ys c zs e. xs = ys @ c # zs \<and> br_answer br (es @ ys) c = Inl e \<and>
        (case m br es of (Ok a, es') \<Rightarrow> (Ok ok_response, es') | (Err e, es') \<Rightarrow> (Ok (error_response e), es')
          | (Panic, es') \<Rightarrow> (Panic, es')) = (Ok (error_response (Cdp e)), es @ ys @ [c]))"
    unfolding sends_def by (drule_tac spec [of _ br], drule_tac spec [of _ es]) (elim disjE exE conjE; force)
qed

abbreviation mouse :: "json \<Rightarrow> browser_event" where
  "mouse p \<equiv> Command ''Input.dispatchMouseEvent'' (Some p)"

definition one_click :: "rat \<Rightarrow> rat \<Rightarrow> u8 \<Rightarrow> int \<Rightarrow> browser_event list" where
  "one_click x y b count =
     [mouse (button_json ''mousePressed'' x y (click_button_name b) (push_bit (unat b) 1) count),
      mouse (button_json ''mouseReleased'' x y (click_button_name b) 0 count)]"

lemma sends_click: "unat b < 32 \<Longrightarrow> sends Cdp (click_events checks x y b count) (one_click x y b count)"
  unfolding click_events_def one_click_def
  using sends_seq [OF sends_mouse_event sends_mouse_event] by (simp add: shl_ovf_def lift_def seq_def)

text \<open>A click moves the mouse to the point, presses and releases the button there once, and for
  a double click a second time with click count 2; it answers success after exactly these
  events, and stops with the browser's error at the first that is refused. A button number of
  32 or more panics in a checked build after the move. The mask of the press has the bit of
  the right button for the middle one, and the other way round.\<close>

theorem click_events_sent:
  assumes "\<not> ck_page_coords body" and "b = (case ck_button body of Some b \<Rightarrow> b | None \<Rightarrow> 0)"
  shows "(unat b < 32 \<longrightarrow> answers (input_click checks body)
      ([mouse (move_json (ck_x body) (ck_y body))] @ one_click (ck_x body) (ck_y body) b 1 @
       (if ck_double body = Some True then one_click (ck_x body) (ck_y body) b 2 else []))) \<and>
    (\<not> unat b < 32 \<and> checks \<and> br_answer br es (mouse (move_json (ck_x body) (ck_y body))) = Inr msg \<longrightarrow>
      input_click checks body br es = (Panic, es @ [mouse (move_json (ck_x body) (ck_y body))])) \<and>
    push_bit (unat (1 :: u8)) 1 = protocol_mask 2 \<and> push_bit (unat (2 :: u8)) 1 = protocol_mask 1"
proof (intro conjI impI)
  assume b: "unat b < 32"
  let ?second = "if ck_double body = Some True then click_events checks (ck_x body) (ck_y body) b 2 else ret ()"
  have second: "sends Cdp ?second (if ck_double body = Some True then one_click (ck_x body) (ck_y body) b 2 else [])"
    using sends_click [OF b] by simp
  then show "answers (input_click checks body)
      ([mouse (move_json (ck_x body) (ck_y body))] @ one_click (ck_x body) (ck_y body) b 1 @
       (if ck_double body = Some True then one_click (ck_x body) (ck_y body) b 2 else []))"
    unfolding input_click_def Let_def page_point_def assms(2) [symmetric]
    using sends_seq [OF sends_mouse_event sends_seq [OF sends_click [OF b] second]] assms(1)
    by (intro answers_respond) simp
next
  assume "\<not> unat b < 32 \<and> checks \<and> br_answer br es (mouse (move_json (ck_x body) (ck_y body))) = Inr msg"
  then show "input_click checks body br es = (Panic, es @ [mouse (move_json (ck_x body) (ck_y body))])"
    using assms
    by (simp add: input_click_def Let_def page_point_def respond_def seq_def mouse_event_def send_cdp_command_def
      command_def with_err_def click_events_def shl_ovf_def lift_def)
qed (simp_all add: protocol_mask_def)

text \<open>The events of a drag.\<close>

definition drag_events :: "drag_request \<Rightarrow> nat \<Rightarrow> nat \<Rightarrow> browser_event list" where
  "drag_events b steps delay =
     [mouse (move_json (dr_from_x b) (dr_from_y b)),
      mouse (drag_button_json ''mousePressed'' (dr_from_x b) (dr_from_y b) 1)] @
     concat (map (\<lambda>i. [mouse (case drag_point b steps i of (x, y) \<Rightarrow> drag_move_json x y), Sleep delay])
       [1..<Suc steps]) @
     [mouse (drag_button_json ''mouseReleased'' (dr_to_x b) (dr_to_y b) 0)]"

lemma slept_moves: "slept (concat (map (\<lambda>i. [mouse (f i), Sleep d]) is)) = length is * d"
  by (induction "is") auto

text \<open>A drag presses at the start, moves in equal steps (at least one) with the button held,
  the last of them exactly to the end, and releases there; all its pauses together are no
  longer than the duration asked for. It stops at the first event that is refused, so a move
  that is refused leaves the button pressed.\<close>

theorem drag_events_sent:
  fixes b :: drag_request
  defines "steps \<equiv> unat (max (dr_steps b) 1)"
  defines "delay \<equiv> unat (dr_duration_ms b) div steps"
  shows "answers (input_drag b) (drag_events b steps delay) \<and> 1 \<le> steps \<and>
    drag_point b steps steps = (dr_to_x b, dr_to_y b) \<and>
    slept (drag_events b steps delay) \<le> unat (dr_duration_ms b)"
proof (intro conjI)
  have "max (dr_steps b) 1 \<noteq> 0"
    by (metis max.cobounded2 word_le_0_iff zero_neq_one)
  then show pos: "1 \<le> steps"
    unfolding steps_def by (metis One_nat_def Suc_leI unat_gt_0)
  show "drag_point b steps steps = (dr_to_x b, dr_to_y b)"
    using pos by (simp add: drag_point_def)
  have step: "sends Cdp (drag_step b steps delay i)
      [mouse (case drag_point b steps i of (x, y) \<Rightarrow> drag_move_json x y), Sleep delay]" for i
    unfolding drag_step_def
    using sends_seq [OF sends_mouse_event sends_sleep] by (simp split: prod.split)
  show "answers (input_drag b) (drag_events b steps delay)"
    unfolding input_drag_def Let_def drag_events_def append.assoc append_Cons [of _ "[_]"]
      steps_def [symmetric] delay_def [symmetric]
    using sends_seq [OF sends_mouse_event sends_seq [OF sends_mouse_event sends_seq [OF
      sends_foreach [of "[1..<Suc steps]", OF step] sends_mouse_event]]]
    by (intro answers_respond) simp
  have "slept (drag_events b steps delay) = steps * delay"
    unfolding drag_events_def slept_append slept_moves by simp
  then show "slept (drag_events b steps delay) \<le> unat (dr_duration_ms b)"
    unfolding delay_def by simp
qed

subsection \<open>Examples\<close>

definition http_example_env :: http_env where
  "http_example_env = \<lparr>he_checks = True, he_now = 0, he_show_time = (\<lambda>_. []), he_base64 = (\<lambda>_. [])\<rparr>"

definition example_app :: app_state where
  "example_app = (app_state_new default_app)
     \<lparr>as_registry := [(''dev'', \<lparr>ie_config = example_config, ie_state = Running\<rparr>)],
      as_supervisors := [(''dev'', supervisor_new example_config [])],
      as_rtsp_manager :=
        Some (snd (create_session 0 ''S'' ''other'' ''10.0.0.1:554'' audio_only default_tier new_rtsp_manager))\<rparr>"

lemma example_app_simps [simp]:
  "tab_get i (as_registry example_app) =
     (if i = ''dev'' then Some \<lparr>ie_config = example_config, ie_state = Running\<rparr> else None)"
  "get_supervisor i example_app = (if i = ''dev'' then Some (supervisor_new example_config []) else None)"
  by (simp_all add: example_app_def tab_get_def get_supervisor_def)


lemma teardown_ignores_instance_witness:
  "\<exists>st' m'. handle_api http_example_env [] (OnState ''dev'' (AudioStreamTeardown ''S'')) example_app (quiet_browser JNull) [] =
       (Ok (st', ok_response), []) \<and> as_rtsp_manager st' = Some m' \<and> get_session ''S'' m' = None"
proof -
  let ?m = "snd (create_session 0 ''S'' ''other'' ''10.0.0.1:554'' audio_only default_tier new_rtsp_manager)"
  obtain s where s: "get_session ''S'' ?m = Some s" "ss_instance_id s = ''other''"
    by (simp add: create_session_def child_token_def put_session_def get_session_def new_rtsp_manager_def
      manager_with_timeout_def)
  have "require_supervisor example_app ''dev'' = Inr (supervisor_new example_config [])"
    and "as_rtsp_manager example_app = Some ?m"
    by (simp_all add: require_supervisor_iff, simp add: example_app_def)
  from teardown_ignores_instance [OF this s(1), of http_example_env "[]" "quiet_browser JNull" "[]"] s(2)
  show ?thesis by auto
qed

lemma click_events_sent_witness:
  "\<exists>es. input_click True \<lparr>ck_x = 5, ck_y = 7, ck_button = Some 1, ck_double = None, ck_page_coords = False\<rparr>
       (quiet_browser JNull) [] = (Ok ok_response, es) \<and> length es = 3"
proof -
  let ?b = "\<lparr>ck_x = 5, ck_y = 7, ck_button = Some 1, ck_double = None, ck_page_coords = False\<rparr>"
  from click_events_sent [of ?b 1 True "quiet_browser JNull" "[]"]
  have "answers (input_click True ?b) ([mouse (move_json 5 7)] @ one_click 5 7 1 1)"
    by simp
  then show ?thesis
    unfolding answers_def by (drule_tac spec [of _ "quiet_browser JNull"], drule_tac spec [of _ "[]"])
      (auto simp: quiet_browser_def one_click_def)
qed

lemma drag_events_sent_witness:
  "answers (input_drag \<lparr>dr_from_x = 0, dr_from_y = 0, dr_to_x = 9, dr_to_y = 3, dr_steps = 0, dr_duration_ms = 70\<rparr>)
     (drag_events \<lparr>dr_from_x = 0, dr_from_y = 0, dr_to_x = 9, dr_to_y = 3, dr_steps = 0, dr_duration_ms = 70\<rparr> 1 70)"
  using drag_events_sent [of "\<lparr>dr_from_x = 0, dr_from_y = 0, dr_to_x = 9, dr_to_y = 3, dr_steps = 0, dr_duration_ms = 70\<rparr>"]
  by (simp add: max_def)

end
