(* ===== verification/Mcp_Core.thy ===== *)
theory Mcp_Core
  imports Mcp_Docs Http_Server Tool_Advisor Rtsp_Effects
begin

section \<open>Instances, streams, plans and help\<close>

text \<open>
  The core tools of \<open>mcp/mod.rs\<close> (\<open>crates/vscreen-server\<close>) next to \<open>vscreen_lock\<close>, the resources and
  prompts, and the life of an MCP session. None of these tools asks for a lock. \<open>router.call\<close> and
  the schemas of the tools are the work of the \<open>rmcp\<close> package.
\<close>

subsection \<open>An MCP session\<close>

text \<open>The names the macros of \<open>rmcp\<close> register, in the order of the functions.\<close>

definition core_tools :: "string list" where
  "core_tools =
     [''vscreen_list_instances'', ''vscreen_lock'', ''vscreen_audio_streams'',
      ''vscreen_audio_stream_info'', ''vscreen_audio_health'', ''vscreen_rtsp_teardown'',
      ''vscreen_plan'', ''vscreen_help'']"

definition navigation_tools :: "string list" where
  "navigation_tools =
     [''vscreen_navigate'', ''vscreen_wait'']"

definition interaction_tools :: "string list" where
  "interaction_tools =
     [''vscreen_click'', ''vscreen_type'', ''vscreen_key_press'', ''vscreen_key_combo'',
      ''vscreen_scroll'', ''vscreen_drag'', ''vscreen_hover'', ''vscreen_get_cursor_position'',
      ''vscreen_fill'', ''vscreen_select_option'', ''vscreen_scroll_to_element'',
      ''vscreen_dismiss_dialogs'', ''vscreen_dismiss_ads'', ''vscreen_solve_captcha'']"

definition observation_tools :: "string list" where
  "observation_tools =
     [''vscreen_screenshot'', ''vscreen_find'', ''vscreen_extract_text'',
      ''vscreen_accessibility_tree'', ''vscreen_describe_elements'', ''vscreen_get_page_info'',
      ''vscreen_list_frames'', ''vscreen_execute_js'']"

definition session_tools :: "string list" where
  "session_tools =
     [''vscreen_history'', ''vscreen_session_log'', ''vscreen_session_summary'',
      ''vscreen_console_log'', ''vscreen_console_clear'', ''vscreen_storage'']"

definition synthesis_tools :: "string list" where
  "synthesis_tools =
     [''vscreen_synthesis_manage'', ''vscreen_synthesis_scrape'',
      ''vscreen_synthesis_scrape_and_create'']"

definition workflow_tools :: "string list" where
  "workflow_tools =
     [''vscreen_browse'', ''vscreen_observe'', ''vscreen_extract'']"

definition workflow_interact_tools :: "string list" where
  "workflow_interact_tools =
     [''vscreen_interact'', ''vscreen_synthesize'', ''vscreen_solve_challenge'']"

definition tool_router :: "string list" where
  "tool_router =
     core_tools @ navigation_tools @ interaction_tools @ observation_tools @ session_tools @ synthesis_tools @
     workflow_tools @ workflow_interact_tools"

record mcp_server =
  ms_session :: session_id
  ms_tools :: "string list"
  ms_advisor :: tool_advisor

text \<open>\<open>new\<close> takes a fresh identifier. The guard of a session is dropped by \<open>Lock_Gate.session_guard_drop\<close>.\<close>

definition mcp_server_with_session_id :: "session_id \<Rightarrow> app_state \<Rightarrow> app_state \<times> mcp_server" where
  "mcp_server_with_session_id sid st =
     (st\<lparr>as_lock_manager := register_session sid (as_lock_manager st)\<rparr>,
      \<lparr>ms_session = sid, ms_tools = tool_router, ms_advisor = tool_advisor_new\<rparr>)"

definition mcp_server_new :: "session_id \<Rightarrow> app_state \<Rightarrow> app_state \<times> mcp_server" where
  "mcp_server_new fresh st = mcp_server_with_session_id fresh st"

definition mcp_server_drop :: "mcp_server \<Rightarrow> app_state \<Rightarrow> app_state" where
  "mcp_server_drop s st = st\<lparr>as_lock_manager := session_guard_drop (ms_session s) (as_lock_manager st)\<rparr>"

definition list_tools :: "mcp_server \<Rightarrow> string list" where
  "list_tools s = ms_tools s"

definition get_tool :: "mcp_server \<Rightarrow> string \<Rightarrow> string option" where
  "get_tool s name = find (\<lambda>t. t = name) (ms_tools s)"

subsection \<open>Instances\<close>

definition holder_json :: "mcp_env \<Rightarrow> lock_info \<Rightarrow> json" where
  "holder_json env h =
     JObj [(''session_id'', JStr (me_show_session env (li_session_id h))),
       (''agent_name'', case li_agent_name h of None \<Rightarrow> JNull | Some n \<Rightarrow> JStr n),
       (''lock_type'', JStr (show_lock_type (li_lock_type h))),
       (''expires_at'', JStr (me_show_time env (li_expires_at h)))]"

definition you_hold_lock :: "session_id \<Rightarrow> lock_status \<Rightarrow> bool" where
  "you_hold_lock sid s =
     ((case ls_exclusive_holder s of None \<Rightarrow> False | Some h \<Rightarrow> li_session_id h = sid) \<or>
      list_ex (\<lambda>ob. li_session_id ob = sid) (ls_observers s))"

definition listed_instance :: "mcp_env \<Rightarrow> app_state \<Rightarrow> instance_id \<Rightarrow> instance_entry \<Rightarrow> json" where
  "listed_instance env st i e =
     (let s = status i (as_lock_manager st);
          obj = JObj [(''instance_id'', JStr i), (''state'', instance_state_json (me_show_time env) (ie_state e)),
            (''supervisor_running'', JBool (get_supervisor i st \<noteq> None)),
            (''locked_by'', case ls_exclusive_holder s of None \<Rightarrow> JNull | Some h \<Rightarrow> holder_json env h),
            (''observer_count'', JInt (int (length (ls_observers s)))),
            (''queue_depth'', JInt (int (length (ls_wait_queue s)))),
            (''you_hold_lock'', JBool (you_hold_lock (me_session env) s))]
      in if 0 < as_rtsp_port st
         then jset ''rtsp_url'' (JStr (''rtsp://{host}:'' @ show_word (as_rtsp_port st) @ ''/stream/'' @ i)) obj
         else obj)"

definition listed_instances :: "mcp_env \<Rightarrow> app_state \<Rightarrow> json list" where
  "listed_instances env st =
     List.map_filter (\<lambda>i. case registry_get i (as_registry st) of
         Inr e \<Rightarrow> Some (listed_instance env st i e)
       | Inl _ \<Rightarrow> None) (list_ids (as_registry st))"

definition vscreen_list_instances :: "mcp_env \<Rightarrow> app_state \<Rightarrow> (mcp_error, content list) outcome" where
  "vscreen_list_instances env st = Ok [Says (me_pretty env (JArr (listed_instances env st)))]"

subsection \<open>Streams\<close>

text \<open>The derived serializers. A session lasts for so many seconds, a tier of one's own is an object.\<close>

fun tier_json :: "quality_tier \<Rightarrow> json" where
  "tier_json Low = JStr ''low''"
| "tier_json Medium = JStr ''medium''"
| "tier_json Standard = JStr ''standard''"
| "tier_json High = JStr ''high''"
| "tier_json (Custom k c) = JObj [(''custom'', JObj [(''kbps'', word_json k), (''channels'', word_json c)])]"

definition track_json :: "track_info_serialized \<Rightarrow> json" where
  "track_json t =
     JObj [(''track_id'', word_json (ts_track_id t)), (''media_type'', JStr (show_media_type (ts_media_type t))),
       (''client_rtp_port'', word_json (ts_client_rtp_port t)), (''server_rtp_port'', word_json (ts_server_rtp_port t)),
       (''packets_sent'', word_json (ts_packets_sent t)), (''bytes_sent'', word_json (ts_bytes_sent t)),
       (''health_state'', JStr (show_health_state (ts_health_state t))),
       (''client_packet_loss'', JFloat (ts_client_packet_loss t)), (''client_jitter_ms'', JFloat (ts_client_jitter_ms t))]"

definition session_info_json :: "session_info \<Rightarrow> json" where
  "session_info_json s =
     JObj [(''session_id'', JStr (si_session_id s)), (''instance_id'', JStr (si_instance_id s)),
       (''state'', JStr (show_session_state (si_state s))),
       (''media_config'', JObj [(''video'', JBool (mc_video (si_media_config s))), (''audio'', JBool (mc_audio (si_media_config s)))]),
       (''quality'', tier_json (si_quality s)), (''client_addr'', JStr (si_client_addr s)),
       (''tracks'', JArr (map track_json (si_tracks s))), (''packets_sent'', word_json (si_packets_sent s)),
       (''bytes_sent'', word_json (si_bytes_sent s)), (''health_state'', JStr (show_health_state (si_health_state s))),
       (''uptime_secs'', JFloat (of_int (si_uptime s) / 10 ^ 9)), (''client_packet_loss'', JFloat (si_client_packet_loss s)),
       (''client_jitter_ms'', JFloat (si_client_jitter_ms s))]"

definition health_json :: "aggregated_health \<Rightarrow> json" where
  "health_json h =
     JObj [(''total_sessions'', word_json (ah_total_sessions h)), (''healthy'', word_json (ah_healthy h)),
       (''degraded'', word_json (ah_degraded h)), (''failed'', word_json (ah_failed h)),
       (''total_packets_sent'', word_json (ah_total_packets_sent h)), (''total_bytes_sent'', word_json (ah_total_bytes_sent h))]"

definition rtsp_manager_of :: "app_state \<Rightarrow> (mcp_error, rtsp_manager) outcome" where
  "rtsp_manager_of st = ok_or (Internal_Error ''RTSP server not running'') (as_rtsp_manager st)"

definition vscreen_audio_streams ::
  "mcp_env \<Rightarrow> instance_id \<Rightarrow> app_state \<Rightarrow> (mcp_error, content list) outcome" where
  "vscreen_audio_streams env i st =
     and_then (rtsp_manager_of st) (\<lambda>m.
     let ss = sessions_for_instance (me_now env) i m in
     Ok [Says (if ss = [] then
         ''No active RTSP sessions for instance '' @ quoted i @ ''.'' @ LF # LF #
         ''RTSP URL: rtsp://SERVER:8554/stream/'' @ i @ LF # ''Audio-only: rtsp://SERVER:8554/audio/'' @ i @
         LF # ''Disable video: rtsp://SERVER:8554/stream/'' @ i @ ''?video=false''
       else
         show_nat (length ss) @ '' active RTSP session(s) for instance '' @ quoted i @ '':'' @
         LF # me_pretty env (JArr (map session_info_json ss)))])"

definition vscreen_audio_stream_info ::
  "mcp_env \<Rightarrow> instance_id \<Rightarrow> string \<Rightarrow> app_state \<Rightarrow> (mcp_error, content list) outcome" where
  "vscreen_audio_stream_info env i sid st =
     and_then (rtsp_manager_of st) (\<lambda>m.
     and_then (ok_or (Invalid_Params (''RTSP session '' @ quoted sid @ '' not found'')) (get_session sid m)) (\<lambda>s.
     let info = session_info_of (me_now env) s in
     if si_instance_id info \<noteq> i then
       Err (Invalid_Params (''Session '' @ quoted sid @ '' belongs to instance '' @ quoted (si_instance_id info) @
         '', not '' @ quoted i))
     else Ok [Says (me_pretty env (session_info_json info))]))"

definition vscreen_audio_health ::
  "mcp_env \<Rightarrow> instance_id \<Rightarrow> app_state \<Rightarrow> (mcp_error, content list) outcome" where
  "vscreen_audio_health env i st =
     and_then (rtsp_manager_of st) (\<lambda>m.
     Ok [Says (me_pretty env (health_json (aggregated_health_of i m)))])"

text \<open>A sum of counters beyond 64 bits panics in a checked build, after the session was removed.\<close>

definition word_sum :: "bool \<Rightarrow> 'a::len word list \<Rightarrow> ('e, 'a word) outcome" where
  "word_sum checks ws = fold (\<lambda>w r. and_then r (\<lambda>n. add_ovf checks n w)) ws (Ok 0)"

definition vscreen_rtsp_teardown ::
  "mcp_env \<Rightarrow> instance_id \<Rightarrow> string \<Rightarrow> app_state \<Rightarrow> app_state \<times> (mcp_error, content list) outcome" where
  "vscreen_rtsp_teardown env i sid st =
     (case as_rtsp_manager st of
        None \<Rightarrow> (st, Err (Internal_Error ''RTSP server not running''))
      | Some m \<Rightarrow>
          (case remove_session sid m of
             (m', Some s) \<Rightarrow>
               (st\<lparr>as_rtsp_manager := Some m'\<rparr>,
                if ss_instance_id s \<noteq> i then
                  Ok [Says (''Warning: session '' @ quoted sid @ '' was for instance '' @ quoted (ss_instance_id s) @
                    '', not '' @ quoted i @ ''. It has been torn down regardless.'')]
                else
                  and_then (word_sum (me_checks env) (map (\<lambda>t. sh_packets_sent (ti_health t)) (ss_tracks s))) (\<lambda>packets.
                  and_then (word_sum (me_checks env) (map (\<lambda>t. sh_bytes_sent (ti_health t)) (ss_tracks s))) (\<lambda>size.
                  Ok [Says (''RTSP session '' @ quoted sid @ '' torn down. Packets sent: '' @ show_word packets @
                    '', bytes sent: '' @ show_word size)])))
           | (m', None) \<Rightarrow> (st, Err (Invalid_Params (''RTSP session '' @ quoted sid @ '' not found'')))))"

subsection \<open>Plans\<close>

definition pattern_matches :: "string \<Rightarrow> task_pattern \<Rightarrow> bool" where
  "pattern_matches task p =
     (list_ex (\<lambda>kw. str_contains kw task) (tp_keywords p) \<and>
      \<not> list_ex (\<lambda>nk. str_contains nk task) (tp_negative_keywords p))"

definition recommendations :: "string \<Rightarrow> task_pattern list" where
  "recommendations task = filter (pattern_matches (to_lowercase task)) task_patterns"

definition option_text :: "nat \<Rightarrow> nat \<times> task_pattern \<Rightarrow> string" where
  "option_text many ip =
     (if 1 < many then ''### Option '' @ show_nat (fst ip + 1) @ [CHR '' '', CHR 0xE2, CHR 0x80, CHR 0x94, CHR '' ''] @
        tp_name (snd ip) @ [LF] else []) @
     tp_recommendation (snd ip) @ [LF, LF]"

definition no_plan :: "string \<Rightarrow> string" where
  "no_plan task =
     join_lines
       [''No specific tool plan found for: \"'' @ task @ ''\"'',
        '''',
        ''General workflow:'',
        ''1. `vscreen_screenshot(full_page=true)` '' @ [CHR 0xE2, CHR 0x80, CHR 0x94] @ '' see the entire page'',
        ''2. `vscreen_find_by_text(text=\"...\")` or `vscreen_find_elements(selector=\"...\")` '' @ [CHR 0xE2, CHR 0x80, CHR 0x94] @ '' locate elements'',
        ''3. `vscreen_click(x, y)` or `vscreen_click_element(text=\"...\")` '' @ [CHR 0xE2, CHR 0x80, CHR 0x94] @ '' interact'',
        ''4. `vscreen_screenshot` '' @ [CHR 0xE2, CHR 0x80, CHR 0x94] @ '' verify result'',
        '''',
        ''Tip: Call `vscreen_help(topic=\"tools\")` for the full tool reference.'']"

definition vscreen_plan :: "string \<Rightarrow> (mcp_error, content list) outcome" where
  "vscreen_plan task =
     (let ps = recommendations task in
      Ok [Says (if ps = [] then no_plan task
        else ''Recommended plan for: \"'' @ task @ ''\"'' @ [LF, LF] @ concat (map (option_text (length ps)) (enumerate 0 ps)))])"

subsection \<open>Help\<close>

definition unknown_topic :: "string \<Rightarrow> string" where
  "unknown_topic topic =
     (let dash = [CHR '' '', CHR 0xE2, CHR 0x80, CHR 0x94, CHR '' ''] in
      join_lines
        [''Unknown topic: '' @ quoted topic,
         '''',
         ''Available topics:'',
         ''- quickstart'' @ dash @ ''Getting started guide'',
         ''- workflows'' @ dash @ ''Common task recipes (cookies, forms, scraping)'',
         ''- captcha'' @ dash @ ''Solving reCAPTCHA challenges (automated & manual)'',
         ''- coordinates'' @ dash @ ''How the coordinate system works'',
         ''- iframes'' @ dash @ ''Working with cross-origin iframes'',
         ''- locking'' @ dash @ ''Multi-agent instance lock management'',
         ''- tools'' @ dash @ ''Complete tool reference by category'',
         ''- tool-selection'' @ dash @ ''Which tool to use for what task'',
         ''- troubleshooting'' @ dash @ ''Common issues and solutions'',
         ''- Any tool name (e.g., vscreen_batch_click)'' @ dash @ ''Detailed tool usage'',
         '''',
         ''Tip: You can also use `list_resources` to browse documentation resources.''])"

definition help_topics :: "(string list \<times> string) list" where
  "help_topics =
     [([''quickstart'', ''start'', ''getting-started'', ''getting_started''], doc_quickstart),
      ([''workflows'', ''workflow'', ''recipes'', ''cookies'', ''cookie'', ''forms'', ''form''], doc_workflows),
      ([''captcha'', ''recaptcha'', ''captcha-solve'', ''solve-captcha''], doc_captcha),
      ([''coordinates'', ''coords'', ''coordinate'', ''position'', ''positions''], doc_coordinates),
      ([''iframes'', ''iframe'', ''frames'', ''frame''], doc_iframes),
      ([''locking'', ''lock'', ''locks'', ''multi-agent'', ''multi_agent''], doc_locking),
      ([''tools'', ''reference'', ''tool-reference'', ''tool_reference'', ''all''], doc_tools_header),
      ([''troubleshooting'', ''troubleshoot'', ''errors'', ''error'', ''help'', ''debug''], doc_troubleshooting),
      ([''tool-selection'', ''tool_selection'', ''selection'', ''choosing'', ''which-tool'', ''which_tool'',
        ''best-tool'', ''best_tool'', ''advisor''], doc_tool_selection)]"

definition vscreen_help :: "string \<Rightarrow> (mcp_error, content list) outcome" where
  "vscreen_help topic_param =
     (let topic = to_lowercase (trim topic_param) in
      Ok [Says (case find (\<lambda>(ts, _). topic \<in> set ts) help_topics of
          Some (_, doc) \<Rightarrow> doc
        | None \<Rightarrow> if starts_with ''vscreen_'' topic then get_tool_help topic else unknown_topic topic_param)])"

subsection \<open>Resources and prompts\<close>

text \<open>What a resource is read as: its address, which is the one asked for, its type and its text.\<close>

definition read_resource :: "string \<Rightarrow> (mcp_error, string \<times> string \<times> string) outcome" where
  "read_resource uri =
     (case resource_text uri of
        Some txt \<Rightarrow> Ok (uri, ''text/markdown'', txt)
      | None \<Rightarrow> Err (Invalid_Params (''Unknown resource: '' @ uri)))"

definition argument :: "string \<Rightarrow> string \<Rightarrow> json option \<Rightarrow> string" where
  "argument key otherwise arguments =
     (case Option.bind (Option.bind arguments (jget key)) as_str of Some s \<Rightarrow> s | None \<Rightarrow> otherwise)"

definition get_prompt :: "string \<Rightarrow> json option \<Rightarrow> (mcp_error, string \<times> string) outcome" where
  "get_prompt name arguments =
     (let instance_id = argument ''instance_id'' ''dev'' arguments; url = argument ''url'' [] arguments in
      case prompt_text name url instance_id of
        Some p \<Rightarrow> Ok p
      | None \<Rightarrow> Err (Invalid_Params (''Unknown prompt: '' @ name)))"

subsection \<open>Requests without a stale event\<close>

text \<open>The middleware in front of the MCP service; headers are named in lower case.\<close>

definition strip_last_event_id :: "string \<Rightarrow> (string \<times> string) list \<Rightarrow> (string \<times> string) list" where
  "strip_last_event_id meth headers =
     (if meth = ''GET'' then filter (\<lambda>(n, _). n \<noteq> ''last-event-id'') headers else headers)"

section \<open>Properties\<close>

subsection \<open>Documents\<close>

text \<open>The lists the server gives out are complete: a resource can be read exactly when it is listed, and
  is answered under the address that was asked for; a prompt can be got exactly when it is listed,
  whatever its arguments. Everything else is refused with the name that is not known.\<close>

theorem documents_complete:
  "((\<exists>r. read_resource uri = Ok r) \<longleftrightarrow> uri \<in> fst ` set resources) \<and>
   (uri \<notin> fst ` set resources \<longleftrightarrow> read_resource uri = Err (Invalid_Params (''Unknown resource: '' @ uri))) \<and>
   ((\<exists>p. get_prompt name arguments = Ok p) \<longleftrightarrow> name \<in> fst ` set prompts) \<and>
   (name \<notin> fst ` set prompts \<longleftrightarrow> get_prompt name arguments = Err (Invalid_Params (''Unknown prompt: '' @ name)))"
proof -
  have r: "resource_text uri \<noteq> None \<longleftrightarrow> uri \<in> fst ` set resources"
    unfolding resource_text_def resources_def by simp
  have p: "prompt_text name url i \<noteq> None \<longleftrightarrow> name \<in> fst ` set prompts" for url i
    unfolding prompt_text_def prompts_def by simp
  show ?thesis
    using r p [of "argument ''url'' [] arguments" "argument ''instance_id'' ''dev'' arguments"]
    by (auto simp: read_resource_def get_prompt_def Let_def split: option.split)
qed

subsection \<open>Which tools have help\<close>

text \<open>The tools \<open>vscreen_help\<close> does not know although the server has them.\<close>

definition without_help :: "string list" where
  "without_help = filter (\<lambda>t. t \<notin> set (map fst tool_help_texts)) tool_router"

text \<open>The tools it explains although the server does not have them.\<close>

definition without_tool :: "string list" where
  "without_tool = filter (\<lambda>t. t \<notin> set tool_router) (map fst tool_help_texts)"

lemmas router_defs =
  tool_router_def core_tools_def navigation_tools_def interaction_tools_def observation_tools_def session_tools_def
  synthesis_tools_def workflow_tools_def workflow_interact_tools_def

lemma help_names:
  "map fst tool_help_texts =
     [''vscreen_list_instances'', ''vscreen_screenshot'', ''vscreen_navigate'', ''vscreen_click'',
      ''vscreen_double_click'', ''vscreen_type'', ''vscreen_fill'', ''vscreen_key_press'',
      ''vscreen_key_combo'', ''vscreen_scroll'', ''vscreen_drag'', ''vscreen_hover'',
      ''vscreen_batch_click'', ''vscreen_click_element'', ''vscreen_find'', ''vscreen_wait'',
      ''vscreen_get_page_info'', ''vscreen_extract_text'', ''vscreen_execute_js'',
      ''vscreen_list_frames'', ''vscreen_dismiss_dialogs'', ''vscreen_solve_captcha'',
      ''vscreen_click_and_navigate'', ''vscreen_dismiss_ads'', ''vscreen_select_option'',
      ''vscreen_scroll_to_element'', ''vscreen_accessibility_tree'', ''vscreen_describe_elements'',
      ''vscreen_storage'', ''vscreen_history'', ''vscreen_session_log'', ''vscreen_session_summary'',
      ''vscreen_console_log'', ''vscreen_console_clear'', ''vscreen_lock'', ''vscreen_plan'',
      ''vscreen_help'']"
  unfolding tool_help_texts_def by simp

lemma router_names:
  "tool_router =
     [''vscreen_list_instances'', ''vscreen_lock'', ''vscreen_audio_streams'',
      ''vscreen_audio_stream_info'', ''vscreen_audio_health'', ''vscreen_rtsp_teardown'',
      ''vscreen_plan'', ''vscreen_help'', ''vscreen_navigate'', ''vscreen_wait'', ''vscreen_click'',
      ''vscreen_type'', ''vscreen_key_press'', ''vscreen_key_combo'', ''vscreen_scroll'',
      ''vscreen_drag'', ''vscreen_hover'', ''vscreen_get_cursor_position'', ''vscreen_fill'',
      ''vscreen_select_option'', ''vscreen_scroll_to_element'', ''vscreen_dismiss_dialogs'',
      ''vscreen_dismiss_ads'', ''vscreen_solve_captcha'', ''vscreen_screenshot'', ''vscreen_find'',
      ''vscreen_extract_text'', ''vscreen_accessibility_tree'', ''vscreen_describe_elements'',
      ''vscreen_get_page_info'', ''vscreen_list_frames'', ''vscreen_execute_js'', ''vscreen_history'',
      ''vscreen_session_log'', ''vscreen_session_summary'', ''vscreen_console_log'',
      ''vscreen_console_clear'', ''vscreen_storage'', ''vscreen_synthesis_manage'',
      ''vscreen_synthesis_scrape'', ''vscreen_synthesis_scrape_and_create'', ''vscreen_browse'',
      ''vscreen_observe'', ''vscreen_extract'', ''vscreen_interact'', ''vscreen_synthesize'',
      ''vscreen_solve_challenge'']"
  by (simp add: router_defs)

lemma without_help_names:
  "without_help =
     [''vscreen_audio_streams'', ''vscreen_audio_stream_info'', ''vscreen_audio_health'',
      ''vscreen_rtsp_teardown'', ''vscreen_get_cursor_position'', ''vscreen_synthesis_manage'',
      ''vscreen_synthesis_scrape'', ''vscreen_synthesis_scrape_and_create'', ''vscreen_browse'',
      ''vscreen_observe'', ''vscreen_extract'', ''vscreen_interact'', ''vscreen_synthesize'',
      ''vscreen_solve_challenge'']"
  unfolding without_help_def help_names router_names by simp

lemma without_tool_names:
  "without_tool =
     [''vscreen_double_click'', ''vscreen_batch_click'', ''vscreen_click_element'',
      ''vscreen_click_and_navigate'']"
  unfolding without_tool_def help_names router_names by simp

lemma router_distinct: "distinct tool_router"
  unfolding router_names by simp

text \<open>Names of tools consist of lower case letters and underscores, so that reading a topic leaves them as they are.\<close>

definition plain_name :: "string \<Rightarrow> bool" where
  "plain_name t \<longleftrightarrow> t \<noteq> [] \<and> list_all (\<lambda>c. byte_in 97 122 c \<or> c = CHR ''_'') t"

lemma plain_topic: "plain_name t \<Longrightarrow> to_lowercase (trim t) = t"
proof -
  assume t: "plain_name t"
  then have c: "byte_in 97 122 c \<or> c = CHR ''_''" if "c \<in> set t" for c
    using that by (auto simp: plain_name_def list_all_iff)
  have "graphic c" if "c \<in> set t" for c using c [OF that] by (auto simp: byte_in_def)
  then have "trim t = t" using t by (intro trim_graphic) (simp add: plain_name_def)
  moreover have "ascii_lower c = c" if "c \<in> set t" for c using c [OF that] by (auto simp: ascii_lower_def byte_in_def)
  ultimately show "to_lowercase (trim t) = t" by (simp add: to_lowercase_def map_idI)
qed

lemma missing_plain: "t \<in> set without_help \<Longrightarrow> plain_name t \<and> starts_with ''vscreen_'' t"
proof -
  have "list_all (\<lambda>t. plain_name t \<and> starts_with ''vscreen_'' t) without_help"
    unfolding without_help_names by (simp add: plain_name_def byte_in_def starts_with_def)
  then show "t \<in> set without_help \<Longrightarrow> plain_name t \<and> starts_with ''vscreen_'' t" by (simp add: list_all_iff)
qed

lemma no_topic: "starts_with ''vscreen_'' t \<Longrightarrow> find (\<lambda>(ts, _). t \<in> set ts) help_topics = None"
proof -
  have "list_all (\<lambda>(ts, _). list_all (\<lambda>x. \<not> starts_with ''vscreen_'' x) ts) help_topics"
    unfolding help_topics_def by (simp add: starts_with_def)
  then show "starts_with ''vscreen_'' t \<Longrightarrow> find (\<lambda>(ts, _). t \<in> set ts) help_topics = None"
    by (auto simp: find_None_iff list_all_iff)
qed

text \<open>Of the 47 tools of the server 14 have no help: asked for one of them, \<open>vscreen_help\<close> answers that there
  is no such tool. It explains four tools that do not exist.\<close>

theorem help_incomplete:
  "length tool_router = 47 \<and> distinct tool_router \<and> length without_help = 14 \<and> length without_tool = 4 \<and>
   (\<forall>t \<in> set without_help. vscreen_help t = Ok [Says (''Unknown tool: '' @ quoted t @ LF # LF #
     ''Available tools:'' @ LF # join_lines (map fst tool_help_texts))])"
proof -
  have "vscreen_help t = Ok [Says (''Unknown tool: '' @ quoted t @ LF # LF #
      ''Available tools:'' @ LF # join_lines (map fst tool_help_texts))]" if "t \<in> set without_help" for t
  proof -
    have "t \<notin> set (map fst tool_help_texts)" using that by (simp add: without_help_def)
    then have "find (\<lambda>(n, _). n = t) tool_help_texts = None" by (force simp: find_None_iff)
    then show ?thesis
      using missing_plain [OF that] no_topic [of t] plain_topic [of t] by (simp add: vscreen_help_def get_tool_help_def)
  qed
  then show ?thesis
    using router_distinct by (simp add: without_help_names without_tool_names) (simp add: router_names)
qed

lemma help_incomplete_witness:
  "vscreen_help ''vscreen_browse'' = Ok [Says (''Unknown tool: '' @ quoted ''vscreen_browse'' @ LF # LF #
     ''Available tools:'' @ LF # join_lines (map fst tool_help_texts))]"
proof -
  have "''vscreen_browse'' \<in> set without_help" by (simp add: without_help_names)
  then show ?thesis using help_incomplete by blast
qed

text \<open>A plan may recommend a tool that does not exist.\<close>

lemmas matching_defs = pattern_matches_def str_contains_def str_find_def starts_with_def

lemma spinner_matches:
  "pattern_matches ''wait for the spinner'' task_wait_for_dynamic_content"
  by (simp add: matching_defs task_wait_for_dynamic_content_def)

lemma spinner_matches_not:
  "\<not> pattern_matches ''wait for the spinner'' task_read_page_text"
  "\<not> pattern_matches ''wait for the spinner'' task_see_the_full_page"
  "\<not> pattern_matches ''wait for the spinner'' task_find_and_click_a_button_link"
  "\<not> pattern_matches ''wait for the spinner'' task_fill_a_form"
  "\<not> pattern_matches ''wait for the spinner'' task_navigate_and_extract_data"
  "\<not> pattern_matches ''wait for the spinner'' task_find_an_element"
  "\<not> pattern_matches ''wait for the spinner'' task_solve_captcha"
  "\<not> pattern_matches ''wait for the spinner'' task_dismiss_popups_overlays"
  "\<not> pattern_matches ''wait for the spinner'' task_scroll_to_content"
  "\<not> pattern_matches ''wait for the spinner'' task_get_page_metadata"
  "\<not> pattern_matches ''wait for the spinner'' task_work_with_iframes"
  "\<not> pattern_matches ''wait for the spinner'' task_navigate_between_pages"
  "\<not> pattern_matches ''wait for the spinner'' task_take_multiple_screenshots"
  "\<not> pattern_matches ''wait for the spinner'' task_identify_unlabeled_elements"
  by (simp_all add: matching_defs task_read_page_text_def task_see_the_full_page_def task_find_and_click_a_button_link_def task_fill_a_form_def
      task_navigate_and_extract_data_def task_find_an_element_def task_solve_captcha_def task_dismiss_popups_overlays_def
      task_scroll_to_content_def task_get_page_metadata_def task_work_with_iframes_def task_navigate_between_pages_def
      task_take_multiple_screenshots_def task_identify_unlabeled_elements_def)

lemma plan_names_missing_tool:
  "recommendations ''wait for the spinner'' = [task_wait_for_dynamic_content] \<and>
   str_contains ''vscreen_wait_for_text'' (tp_recommendation task_wait_for_dynamic_content) \<and>
   ''vscreen_wait_for_text'' \<notin> set tool_router"
proof (intro conjI)
  have lower: "to_lowercase ''wait for the spinner'' = ''wait for the spinner''"
    by (simp add: to_lowercase_def ascii_lower_def byte_in_def)
  show "recommendations ''wait for the spinner'' = [task_wait_for_dynamic_content]"
    unfolding recommendations_def lower task_patterns_def by (simp only: filter.simps spinner_matches spinner_matches_not if_True if_False not_True_eq_False simp_thms)
  show "str_contains ''vscreen_wait_for_text'' (tp_recommendation task_wait_for_dynamic_content)"
    by (simp add: matching_defs task_wait_for_dynamic_content_def)
  show "''vscreen_wait_for_text'' \<notin> set tool_router" unfolding router_names by simp
qed

subsection \<open>The list of instances\<close>

lemma held_iff:
  "jget ''you_hold_lock'' (listed_instance env st i e) =
    Some (JBool (is_held_by i (me_session env) (as_lock_manager st)))"
  "jget ''instance_id'' (listed_instance env st i e) = Some (JStr i)"
  by (auto simp: listed_instance_def Let_def you_hold_lock_def status_def is_held_by_def state_held_by_def to_status_def
      split: option.split)

lemma held_may_look:
  assumes "lm_reachable m"
  shows "is_held_by i sid m \<longleftrightarrow> check_access i sid Observer m = Inr ()"
proof (cases "tab_get i (locks m)")
  case (Some s)
  have "lock_ok s" using excl.ok_get [OF excl.ok_reachable [OF assms] Some] .
  then show ?thesis using Some
    by (auto simp: check_access_def check_access_with_token_def is_held_by_def state_held_by_def lock_ok_def
        matches_def list_ex_iff split: option.split)
qed (simp add: is_held_by_def check_access_def check_access_with_token_def)

lemma listed_all:
  assumes "tab_invar (as_registry st)"
  obtains f where "listed_instances env st = map (\<lambda>i. listed_instance env st i (f i)) (list_ids (as_registry st))"
proof
  have "\<exists>e. tab_get i (as_registry st) = Some e" if "i \<in> set (list_ids (as_registry st))" for i
    using that by (auto simp: list_ids_def tab_keys_def tab_get_iff_in_set [OF assms])
  then show "listed_instances env st =
      map (\<lambda>i. listed_instance env st i (the (tab_get i (as_registry st)))) (list_ids (as_registry st))"
    unfolding listed_instances_def List.map_filter_def
    by (force simp: registry_get_def comp_def intro!: map_cong filter_True split: option.splits)
qed



subsection \<open>Streams\<close>

text \<open>What the list of streams and the question about one stream say agrees: a stream is listed for an instance
  exactly when one may ask for it under that instance.\<close>

lemma streams_agree:
  assumes "rtsp_inv m" and "as_rtsp_manager st = Some m"
  shows "(\<exists>info \<in> set (sessions_for_instance (me_now env) i m). si_session_id info = sid) \<longleftrightarrow>
    (\<exists>r. vscreen_audio_stream_info env i sid st = Ok r)"
proof -
  have ids: "ss_id s = k" if "(k, s) \<in> set (sessions m)" for k s
    using that rtsp_invD(1,2) [OF assms(1)] tab_get_iff_in_set [of "sessions m" k s]
    by (auto simp: session_fits_def get_session_def)
  have "(\<exists>info \<in> set (sessions_for_instance (me_now env) i m). si_session_id info = sid) \<longleftrightarrow>
      (\<exists>k s. (k, s) \<in> set (sessions m) \<and> ss_instance_id s = i \<and> ss_id s = sid)"
    by (auto simp: sessions_for_instance_def session_info_of_def Let_def)
  also have "\<dots> \<longleftrightarrow> (\<exists>s. (sid, s) \<in> set (sessions m) \<and> ss_instance_id s = i)" using ids by metis
  also have "\<dots> \<longleftrightarrow> (\<exists>s. get_session sid m = Some s \<and> ss_instance_id s = i)"
    using tab_get_iff_in_set [OF rtsp_invD(1) [OF assms(1)]] by (simp add: get_session_def)
  also have "\<dots> \<longleftrightarrow> (\<exists>r. vscreen_audio_stream_info env i sid st = Ok r)"
    using assms(2) by (auto simp: vscreen_audio_stream_info_def rtsp_manager_of_def ok_or_def session_info_of_def Let_def
        split: option.split)
  finally show ?thesis .
qed

lemma and_then_Err: "and_then m f = Err e \<longleftrightarrow> m = Err e \<or> (\<exists>a. m = Ok a \<and> f a = Err e)"
  by (cases m) auto

lemma word_sum_no_error: "(word_sum checks ws :: ('e, 'a::len word) outcome) \<noteq> Err e"
proof -
  have "fold (\<lambda>w r. and_then r (\<lambda>n. add_ovf checks n w)) ws a = Err e \<Longrightarrow> a = Err e" for a :: "('e, 'a word) outcome"
  proof (induction ws arbitrary: a)
    case (Cons w ws)
    then have "and_then a (\<lambda>n. add_ovf checks n w) = Err e" by simp
    then show ?case by (cases a) (auto simp: add_ovf_def split: if_splits)
  qed simp
  then show ?thesis by (auto simp: word_sum_def)
qed

text \<open>Tearing a stream down takes its identifier alone, and no lock: whichever instance is named, the session
  is removed, its token cancelled and its tasks aborted, and every other session stays; the
  instance only decides what is reported.\<close>

theorem teardown_regardless:
  assumes "as_rtsp_manager st = Some m" and "get_session sid m = Some s"
    and "vscreen_rtsp_teardown env i sid st = (st', r)"
  shows "\<exists>m'. st' = st\<lparr>as_rtsp_manager := Some m'\<rparr> \<and>
    (\<forall>j. get_session j m' = (if j = sid then None else get_session j m)) \<and> is_cancelled (ss_cancel s) m' \<and>
    (\<forall>t \<in> set (ss_tracks s). \<forall>n. ti_rtp_task t = Some n \<longrightarrow> n \<in> aborted m') \<and> (\<forall>e. r \<noteq> Err e)"
proof -
  obtain m' s' where q: "remove_session sid m = (m', Some s')"
    using assms(2) by (auto simp: remove_session_def teardown_def)
  then have m': "m' = fst (remove_session sid m)" by simp
  have e: "st' = st\<lparr>as_rtsp_manager := Some m'\<rparr>"
    using assms(3) unfolding vscreen_rtsp_teardown_def assms(1) option.case q prod.case by simp
  have r: "r \<noteq> Err e" for e
    using assms(3) unfolding vscreen_rtsp_teardown_def assms(1) option.case q prod.case
    by (auto simp: and_then_Err word_sum_no_error split: if_splits)
  show ?thesis using e r remove_session_effect [where k = sid and m = m, folded m'] assms(2) by blast
qed

text \<open>The session of \<open>example_app\<close> belongs to another instance.\<close>

lemma teardown_regardless_witness:
  "\<exists>st' m' t. vscreen_rtsp_teardown example_mcp ''dev'' ''S'' example_app = (st', Ok [Says t]) \<and>
     as_rtsp_manager st' = Some m' \<and> get_session ''S'' m' = None"
proof -
  let ?m = "snd (create_session 0 ''S'' ''other'' ''10.0.0.1:554'' audio_only default_tier new_rtsp_manager)"
  obtain s where s: "get_session ''S'' ?m = Some s" "ss_instance_id s = ''other''"
    by (simp add: create_session_def child_token_def put_session_def get_session_def new_rtsp_manager_def
      manager_with_timeout_def)
  have m: "as_rtsp_manager example_app = Some ?m" by (simp add: example_app_def)
  obtain st' t where c: "vscreen_rtsp_teardown example_mcp ''dev'' ''S'' example_app = (st', Ok [Says t])"
    using s by (auto simp: vscreen_rtsp_teardown_def m remove_session_def teardown_def forget_tasks_def)
  show ?thesis using teardown_regardless [OF m s(1) c] c by auto
qed

end
