(* ===== verification/Startup.thy ===== *)
theory Startup
  imports Synthesis_Env Mcp_Core
begin

section \<open>The program\<close>

text \<open>
  \<open>main.rs\<close> of \<open>crates/vscreen\<close>, built without the feature \<open>tls\<close>: from the arguments (which \<open>clap\<close>
  parses) to the servers, each with its copy of the state, and to the end. The parts of the state that
  are shared by reference hold the same in every copy when the servers start; the plain members are
  those of the moment of the copy. What starting a supervisor gives, and how the HTTP server ends, are
  parameters; the first page of the development browser and the log are left out.
\<close>

subsection \<open>Arguments\<close>

record cli =
  cl_config :: "string option"
  cl_listen :: "string option"
  cl_log_level :: string
  cl_log_json :: bool
  cl_dev :: bool
  cl_dev_url :: "string option"
  cl_dev_display :: nat
  cl_dev_cdp_port :: nat
  cl_mcp_stdio :: bool
  cl_mcp_sse :: "string option"
  cl_mcp_stdio_proxy :: "string option"
  cl_mcp_single_agent :: bool
  cl_rtsp_port :: u16
  cl_no_rtsp :: bool
  cl_video_codec :: string
  cl_vision_url :: "string option"
  cl_vision_model :: string
  cl_synthesis :: bool
  cl_synthesis_port :: nat
  cl_synthesis_host :: string

definition cli_defaults :: cli where
  "cli_defaults =
     \<lparr>cl_config = None, cl_listen = None, cl_log_level = ''info'', cl_log_json = False, cl_dev = False, cl_dev_url = None,
      cl_dev_display = 99, cl_dev_cdp_port = 9222, cl_mcp_stdio = False, cl_mcp_sse = None,
      cl_mcp_stdio_proxy = None, cl_mcp_single_agent = False, cl_rtsp_port = 8554, cl_no_rtsp = False,
      cl_video_codec = ''h264'', cl_vision_url = None, cl_vision_model = ''qwen3-vl:8b'', cl_synthesis = False, cl_synthesis_port = 5174,
      cl_synthesis_host = ''0.0.0.0''\<rparr>"

text \<open>What \<open>main\<close> does with the arguments; \<open>load\<close> reads a configuration file.\<close>

datatype program =
    Fails string
  | Run_Proxy string
  | Run_Server app_config video_codec

definition overridden :: "cli \<Rightarrow> app_config \<Rightarrow> app_config" where
  "overridden c config =
     (let config' = (case cl_listen c of
            Some l \<Rightarrow> config\<lparr>app_server := (app_server config)\<lparr>sc_listen := l\<rparr>\<rparr>
          | None \<Rightarrow> config)
      in config'\<lparr>app_logging := \<lparr>log_level = cl_log_level c, log_json = cl_log_json c\<rparr>\<rparr>)"

definition main_program :: "(string \<Rightarrow> string + app_config) \<Rightarrow> cli \<Rightarrow> program" where
  "main_program load c =
     (case (case cl_config c of Some path \<Rightarrow> load path | None \<Rightarrow> Inr default_app) of
        Inl e \<Rightarrow> Fails (''config load failed: '' @ e)
      | Inr config0 \<Rightarrow>
          (let config = overridden c config0 in
           case validate config of
             Ok _ \<Rightarrow>
               (case cl_mcp_stdio_proxy c of
                  Some url \<Rightarrow> Run_Proxy url
                | None \<Rightarrow> Run_Server config (case video_codec_from_str (cl_video_codec c) of Ok v \<Rightarrow> v | _ \<Rightarrow> H264))
           | Err errors \<Rightarrow> Fails (show_nat (length errors) @ '' config validation error(s)'')
           | Panic \<Rightarrow> Fails []))"

subsection \<open>Launching\<close>

record startup_world =
  sw_paths :: project_paths
  sw_supervisor :: "instance_config \<Rightarrow> (vscreen_error, supervisor) outcome"
  sw_bind :: "string \<Rightarrow> string + unit"
  sw_serve :: "app_state \<Rightarrow> string + app_state"

definition initial_state :: "cli \<Rightarrow> app_config \<Rightarrow> app_state" where
  "initial_state c config =
     (app_state_new config)\<lparr>as_single_agent_mode := cl_mcp_single_agent c,
       as_rtsp_port := (if cl_no_rtsp c then 0 else cl_rtsp_port c), as_vision_url := cl_vision_url c\<rparr>"

definition dev_instance :: "cli \<Rightarrow> video_codec \<Rightarrow> string \<Rightarrow> dev_env \<Rightarrow> instance_config" where
  "dev_instance c codec cdp_endpoint env =
     \<lparr>ic_instance_id = ''dev'', ic_cdp_endpoint = cdp_endpoint, ic_pulse_source = monitor_source env,
      ic_display = Some (CHR '':'' # show_nat (cl_dev_display c)), ic_video = default_video\<lparr>vc_codec := codec\<rparr>,
      ic_audio = default_audio,
      ic_rtp_output = Some \<lparr>ro_address = ''127.0.0.1'', ro_port = 5004, ro_multicast = False\<rparr>\<rparr>"

text \<open>The instance of the development environment. An error drops the environment.\<close>

definition add_dev_instance ::
  "startup_world \<Rightarrow> cli \<Rightarrow> video_codec \<Rightarrow> dev_env \<Rightarrow> app_state \<Rightarrow> string + app_state" where
  "add_dev_instance w c codec env st =
     (case dv_cdp_endpoint env of
        None \<Rightarrow> Inl ''CDP endpoint not available''
      | Some endpoint \<Rightarrow>
          (let config = dev_instance c codec endpoint env in
           case registry_create config (max_instances (app_limits (as_config st))) (as_registry st) of
             (r, Inl e) \<Rightarrow> Inl (''failed to create dev instance: '' @ show_vscreen_error e)
           | (r, Inr _) \<Rightarrow>
               Inr (case sw_supervisor w config of
                      Ok sv \<Rightarrow> set_supervisor ''dev'' sv (st\<lparr>as_registry := send_state ''dev'' Running r\<rparr>)
                    | _ \<Rightarrow> st\<lparr>as_registry := r\<rparr>)))"

definition with_dev ::
  "startup_world \<Rightarrow> cli \<Rightarrow> video_codec \<Rightarrow> app_state \<Rightarrow> (string + app_state \<times> dev_env option) script" where
  "with_dev w c codec st =
     (if \<not> cl_dev c then finish (Inr (st, None))
      else
        follow (dev_start (cl_dev_display c) (cl_dev_cdp_port c) (cl_synthesis c)) (\<lambda>r.
        case r of
          Inl e \<Rightarrow> finish (Inl (''dev environment start failed: '' @ e))
        | Inr env \<Rightarrow>
            (case add_dev_instance w c codec env st of
               Inl e \<Rightarrow> follow (dev_stop env) (\<lambda>_. finish (Inl e))
             | Inr st' \<Rightarrow> finish (Inr (st', Some env)))))"

definition with_synthesis :: "startup_world \<Rightarrow> cli \<Rightarrow> app_state \<Rightarrow> (app_state \<times> synthesis_env option) script" where
  "with_synthesis w c st =
     (if \<not> cl_synthesis c then finish (st, None)
      else
        follow (synthesis_start (sw_paths w) (cl_synthesis_host c) (cl_synthesis_port c)) (\<lambda>r.
        finish (case r of
            Inr env \<Rightarrow> (st\<lparr>as_synthesis_url := Some (se_base_url env)\<rparr>, Some env)
          | Inl _ \<Rightarrow> (st, None))))"

text \<open>The servers that run, each with the state it was given.\<close>

record launched =
  la_mcp_sse :: "(string \<times> app_state) option"
  la_mcp_stdio :: "app_state option"
  la_rtsp :: "(u16 \<times> app_state) option"
  la_router :: app_state

definition serve_all :: "cli \<Rightarrow> app_state \<Rightarrow> launched" where
  "serve_all c st =
     \<lparr>la_mcp_sse = map_option (\<lambda>addr. (addr, st)) (cl_mcp_sse c),
      la_mcp_stdio = (if cl_mcp_stdio c then Some st else None),
      la_rtsp = (if cl_no_rtsp c then None else Some (cl_rtsp_port c, st)),
      la_router = (if cl_no_rtsp c then st else st\<lparr>as_rtsp_manager := Some new_rtsp_manager\<rparr>)\<rparr>"

subsection \<open>The whole run\<close>

text \<open>The HTTP server runs until the signal to end; then its supervisors are stopped.\<close>

definition serve_http :: "startup_world \<Rightarrow> app_config \<Rightarrow> launched \<Rightarrow> string + supervisor list" where
  "serve_http w config l =
     (if sc_tls (app_server config) \<noteq> None then
        Inl ''TLS configured but the 'tls' feature is not enabled. Rebuild with: cargo build --features tls''
      else
        (case sw_bind w (sc_listen (app_server config)) of
           Inl e \<Rightarrow> Inl (''failed to bind '' @ sc_listen (app_server config) @ '': '' @ e)
         | Inr _ \<Rightarrow>
             (case sw_serve w (la_router l) of
                Inl e \<Rightarrow> Inl (''server error: '' @ e)
              | Inr st \<Rightarrow> Inr (map (supervisor_stop \<circ> snd) (as_supervisors st)))))"

definition drop_synthesis :: "synthesis_env option \<Rightarrow> unit script" where
  "drop_synthesis env = when_some env (\<lambda>e. follow (synthesis_stop e) (\<lambda>_. finish ()))"

definition drop_dev :: "dev_env option \<Rightarrow> unit script" where
  "drop_dev env = when_some env (\<lambda>e. follow (dev_stop e) (\<lambda>_. finish ()))"

definition run_vscreen ::
  "startup_world \<Rightarrow> cli \<Rightarrow> app_config \<Rightarrow> video_codec \<Rightarrow> (string + launched \<times> supervisor list) script" where
  "run_vscreen w c config codec =
     follow (with_dev w c codec (initial_state c config)) (\<lambda>r.
     case r of
       Inl e \<Rightarrow> finish (Inl e)
     | Inr (st, dev) \<Rightarrow>
         follow (with_synthesis w c st) (\<lambda>(st', synthesis).
         let l = serve_all c st'; ended = serve_http w config l in
         follow (drop_synthesis synthesis) (\<lambda>_.
         follow (drop_dev dev) (\<lambda>_.
         case ended of
           Inl e \<Rightarrow> finish (Inl e)
         | Inr svs \<Rightarrow> follow (pause_for 500) (\<lambda>_. finish (Inr (l, svs)))))))"

section \<open>Properties\<close>

text \<open>A configuration is served only if it is valid, and the address of the command line wins.\<close>

theorem only_valid_served:
  assumes "main_program load c = Run_Server config codec"
  shows "validate config = Ok () \<and> (\<forall>l. cl_listen c = Some l \<longrightarrow> sc_listen (app_server config) = l) \<and>
    cl_mcp_stdio_proxy c = None"
  using assms
  by (auto simp: main_program_def Let_def overridden_def split: sum.splits outcome.splits option.splits)

lemma cli_defaults_served: "main_program load cli_defaults = Run_Server default_app H264"
proof -
  have "video_codec_from_str ''h264'' = Ok H264" using video_codec_round_trip [of H264] by simp
  moreover have "overridden cli_defaults default_app = default_app"
    by (simp add: overridden_def cli_defaults_def default_app_def default_logging_def)
  moreover have "validate default_app = Ok ()"
    by (simp add: validate_def default_app_def default_server_def default_limits_def default_defaults_def default_video_def)
  ultimately show ?thesis by (simp add: main_program_def cli_defaults_def)
qed

theorem only_valid_served_witness:
  "validate default_app = Ok () \<and> cl_mcp_stdio_proxy cli_defaults = None"
  using only_valid_served [OF cli_defaults_served [of "\<lambda>p. Inl p"]] by blast

subsection \<open>MCP servers and RTSP\<close>

lemma rtsp_unset:
  "with_dev w c codec (initial_state c config) h os = Some (Inr (st, dev), os') \<Longrightarrow> as_rtsp_manager st = None"
  by (auto simp: with_dev_def follow_def finish_def initial_state_def app_state_new_def add_dev_instance_def
      set_supervisor_def Let_def split: if_splits option.splits sum.splits prod.splits outcome.splits)

lemma synthesis_keeps_rtsp:
  "with_synthesis w c st h os = Some ((st', env), os') \<Longrightarrow> as_rtsp_manager st' = as_rtsp_manager st"
  by (auto simp: with_synthesis_def follow_def finish_def split: if_splits option.splits sum.splits)

text \<open>The MCP servers are given their state before the RTSP server is: whatever the arguments, their tools for streams
  answer that it is not running, while the HTTP server next to them knows it.\<close>

theorem mcp_without_rtsp:
  assumes "run_vscreen w c config codec h os = Some (Inr (l, svs), os')"
    and "la_mcp_sse l = Some (addr, st) \<or> la_mcp_stdio l = Some st"
  shows "vscreen_audio_streams env i st = Err (Internal_Error ''RTSP server not running'') \<and>
    (as_rtsp_manager (la_router l) = None \<longleftrightarrow> cl_no_rtsp c)"
proof -
  obtain st0 dev os0 st1 sy os1 where d: "with_dev w c codec (initial_state c config) h os = Some (Inr (st0, dev), os0)"
      and y: "with_synthesis w c st0 h os0 = Some ((st1, sy), os1)" and l: "l = serve_all c st1"
    using assms(1)
    by (auto simp: run_vscreen_def follow_def finish_def Let_def split: option.splits sum.splits prod.splits)
  have none: "as_rtsp_manager st1 = None" using rtsp_unset [OF d] synthesis_keeps_rtsp [OF y] by simp
  have "st = st1" using assms(2) l by (auto simp: serve_all_def split: if_splits)
  then show ?thesis
    using none l by (simp add: vscreen_audio_streams_def rtsp_manager_of_def ok_or_def serve_all_def)
qed

text \<open>An HTTP server that answers nothing and is told to end at once.\<close>

definition idle_world :: startup_world where
  "idle_world =
     \<lparr>sw_paths = \<lparr>pp_exe_dir = None, pp_cwd = None, pp_canonical = (\<lambda>p. None)\<rparr>,
      sw_supervisor = (\<lambda>c. Err (InvalidState [])), sw_bind = (\<lambda>a. Inr ()), sw_serve = Inr\<rparr>"

theorem mcp_without_rtsp_witness:
  "\<exists>l svs os st. run_vscreen idle_world (cli_defaults\<lparr>cl_mcp_stdio := True\<rparr>) default_app H264 bare_host [] = Some (Inr (l, svs), os) \<and>
     la_mcp_stdio l = Some st \<and> vscreen_audio_streams example_mcp ''dev'' st = Err (Internal_Error ''RTSP server not running'') \<and>
     as_rtsp_manager (la_router l) \<noteq> None"
proof -
  let ?c = "cli_defaults\<lparr>cl_mcp_stdio := True\<rparr>"
  let ?l = "serve_all ?c (initial_state ?c default_app)"
  have "sc_tls (app_server default_app) = None" by (simp add: default_app_def default_server_def)
  then have run: "run_vscreen idle_world ?c default_app H264 bare_host [] = Some (Inr (?l, []), [Thread_Sleep 500])"
    by (simp add: run_vscreen_def with_dev_def with_synthesis_def drop_synthesis_def drop_dev_def when_some_def
      serve_http_def idle_world_def serve_all_def initial_state_def app_state_new_def cli_defaults_def script_defs Let_def)
  have "la_mcp_stdio ?l = Some (initial_state ?c default_app)" by (simp add: serve_all_def)
  then show ?thesis
    using mcp_without_rtsp [OF run, of "[]" "initial_state ?c default_app" example_mcp "''dev''"] run
    by (auto simp: cli_defaults_def)
qed

subsection \<open>Nothing is left running\<close>

definition told :: "nat \<Rightarrow> host_op set \<Rightarrow> bool" where
  "told pid X \<longleftrightarrow> term_signal pid \<in> X \<or> Output ''kill'' [''-TERM'', show_nat pid] \<in> X \<or> Kill_Child pid \<in> X"

lemma told_Un [simp]: "told p (X \<union> Y) \<longleftrightarrow> told p X \<or> told p Y"
  unfolding told_def by blast

definition dev_kept :: "string + app_state \<times> dev_env option \<Rightarrow> nat set \<Rightarrow> host_op set \<Rightarrow> bool" where
  "dev_kept r S X \<longleftrightarrow>
     (case r of Inl e \<Rightarrow> \<forall>p \<in> S. told p X | Inr (st, env) \<Rightarrow> \<forall>p \<in> S. \<exists>e. env = Some e \<and> p \<in> held e)"

lemma yields_dev_stop:
  assumes "passes h"
  shows "yields h (dev_stop e) (\<lambda>u S X. S = {} \<and> (\<forall>p \<in> held e. told p X))"
  using does_dev_stop [OF assms, of e] unfolding yields_def does_def told_def
  by (metis image_eqI started_none list.set(1) subsetD)

lemma yields_dev_start:
  assumes "passes h"
  shows "yields h (dev_start d port ic) (\<lambda>r S X. case r of Inl err \<Rightarrow> \<forall>p \<in> S. told p X | Inr e \<Rightarrow> S = held e)"
  unfolding yields_def
proof
  fix os
  obtain r xs where r: "dev_start d port ic h os = Some (r, os @ xs)"
    "case r of Inl err \<Rightarrow> term_signal ` set (started h os xs) \<subseteq> set xs | Inr e \<Rightarrow> held e = set (started h os xs)"
    using does_accounts [OF assms, of d port ic] unfolding accounts_def Un_empty_left by blast
  show "\<exists>r xs. dev_start d port ic h os = Some (r, os @ xs) \<and>
      (case r of Inl err \<Rightarrow> \<forall>p \<in> set (started h os xs). told p (set xs) | Inr e \<Rightarrow> set (started h os xs) = held e)"
    using r by - (rule exI [of _ r], rule exI [of _ xs], auto simp: told_def split: sum.splits)
qed

lemma yields_with_dev:
  assumes "passes h"
  shows "yields h (with_dev w c codec st) dev_kept"
proof (cases "cl_dev c")
  case False
  then show ?thesis by (simp add: with_dev_def yields_finish dev_kept_def)
next
  case True
  have "yields h (case r of
      Inl e \<Rightarrow> finish (Inl (''dev environment start failed: '' @ e))
    | Inr env \<Rightarrow>
        (case add_dev_instance w c codec env st of
           Inl e \<Rightarrow> follow (dev_stop env) (\<lambda>_. finish (Inl e))
         | Inr st' \<Rightarrow> finish (Inr (st', Some env))))
    (\<lambda>b S' X'. \<forall>S X. (case r of Inl err \<Rightarrow> \<forall>p \<in> S. told p X | Inr e \<Rightarrow> S = held e) \<longrightarrow> dev_kept b (S \<union> S') (X \<union> X'))" for r
  proof (cases r)
    case (Inr env)
    show ?thesis
    proof (cases "add_dev_instance w c codec env st")
      case (Inl e)
      have "yields h (follow (dev_stop env) (\<lambda>_. finish (Inl e)))
          (\<lambda>b S' X'. \<forall>S X. S = held env \<longrightarrow> dev_kept b (S \<union> S') (X \<union> X'))"
        by (rule yields_follow [OF yields_dev_stop [OF assms]])
          (auto intro!: yields_finish simp: dev_kept_def)
      then show ?thesis using Inl Inr by simp
    qed (simp add: Inr yields_finish dev_kept_def)
  qed (auto intro!: yields_finish simp: dev_kept_def)
  note step = this
  show ?thesis
    using True yields_follow [OF yields_dev_start [OF assms] step]
    by (simp only: with_dev_def not_True_eq_False if_False)
qed

lemma yields_with_synthesis:
  "yields h (with_synthesis w c st) (\<lambda>(st', env) S X. \<forall>p \<in> S. told p X \<or> (\<exists>e. env = Some e \<and> se_child e = Some p))"
proof (cases "cl_synthesis c")
  case True
  then show ?thesis
    by (simp add: with_synthesis_def)
      (rule yields_follow [OF synthesis_start_accounts], auto intro!: yields_finish simp: synthesis_kept_def told_def split: sum.splits)
qed (simp add: with_synthesis_def yields_finish)

lemma yields_drop_synthesis:
  assumes "children_are h ch" and "wf (below ch)"
  shows "yields h (drop_synthesis env) (\<lambda>u S X. S = {} \<and> (\<forall>e p. env = Some e \<and> se_child e = Some p \<longrightarrow> told p X))"
proof (cases "\<exists>e p. env = Some e \<and> se_child e = Some p")
  case True
  then obtain e p where e: "env = Some e" "se_child e = Some p" by blast
  show ?thesis
    unfolding yields_def
  proof
    fix os
    obtain tree ps rest where s: "synthesis_stop e h os = Some (e\<lparr>se_child := None\<rparr>,
        os @ ps @ map (\<lambda>p. Output ''kill'' [''-TERM'', show_nat p]) tree @ [Thread_Sleep 500] @
          map (\<lambda>p. Output ''kill'' [''-9'', show_nat p]) tree @ rest)"
      "set tree = {q. (q, p) \<in> (below ch)\<^sup>*}" "\<forall>x \<in> set ps. \<exists>q. x = pgrep_children q" "list_all not_spawn rest"
      using tree_children_told [OF assms e(2), of os] by blast
    let ?xs = "ps @ map (\<lambda>p. Output ''kill'' [''-TERM'', show_nat p]) tree @ [Thread_Sleep 500] @
          map (\<lambda>p. Output ''kill'' [''-9'', show_nat p]) tree @ rest"
    have "list_all not_spawn ?xs" using s(3,4) by (auto simp: list_all_iff pgrep_children_def)
    then have "started h os ?xs = []" by (rule started_none)
    moreover have "told p (set ?xs)" using s(2) by (auto simp: told_def)
    ultimately show "\<exists>a xs. drop_synthesis env h os = Some (a, os @ xs) \<and>
        set (started h os xs) = {} \<and> (\<forall>e p. env = Some e \<and> se_child e = Some p \<longrightarrow> told p (set xs))"
      using s(1) e
      by - (rule exI [of _ "()"], rule exI [of _ ?xs], simp add: drop_synthesis_def when_some_def follow_def finish_def)
  qed
next
  case False
  then have "drop_synthesis env = finish () \<or> drop_synthesis env = follow (finish undefined) (\<lambda>_. finish ())"
    by (cases env) (auto simp: drop_synthesis_def when_some_def synthesis_stop_def follow_def finish_def)
  then show ?thesis using False by (auto simp: yields_def follow_def finish_def)
qed



end
