(* ===== verification/Mcp_Input.thy ===== *)
theory Mcp_Input
  imports Mcp_Base
begin

section \<open>The input tools of the MCP server\<close>

text \<open>
  \<open>mcp/interaction.rs\<close> of \<open>crates/vscreen-server\<close> up to \<open>vscreen_scroll_to_element\<close> with the click
  helpers: clicks at points, on elements, in batches and to navigate, typing, keys, the wheel,
  drags, hovering and form fields.
\<close>

subsection \<open>Clicks at a point\<close>

definition mouse_json :: "string \<Rightarrow> rat \<Rightarrow> rat \<Rightarrow> (string \<times> json) list \<Rightarrow> json" where
  "mouse_json ty x y extra =
     JObj ([(''type'', JStr ty), (''x'', JFloat x), (''y'', JFloat y), (''modifiers'', JInt 0)] @ extra)"

definition press_json :: "string \<Rightarrow> rat \<Rightarrow> rat \<Rightarrow> string \<Rightarrow> u32 \<Rightarrow> int \<Rightarrow> json" where
  "press_json ty x y button buttons count =
     mouse_json ty x y [(''button'', JStr button), (''buttons'', word_json buttons), (''clickCount'', JInt count)]"

text \<open>The move, the press and the release; the mask is computed before the first is sent.\<close>

definition mcp_click :: "rat \<Rightarrow> rat \<Rightarrow> string \<Rightarrow> u32 \<Rightarrow> (mcp_error, unit) prog" where
  "mcp_click x y button bits =
     foreach mcp_mouse
       [mouse_json ''mouseMoved'' x y [], press_json ''mousePressed'' x y button bits 1,
        press_json ''mouseReleased'' x y button 0 1]"

definition mcp_button_name :: "u8 \<Rightarrow> string" where
  "mcp_button_name b = (if b = 1 then ''middle'' else if b = 2 then ''right'' else ''left'')"

definition button_click :: "mcp_env \<Rightarrow> rat \<Rightarrow> rat \<Rightarrow> u8 option \<Rightarrow> (mcp_error, unit) prog" where
  "button_click env x y button =
     (let b = (case button of Some b \<Rightarrow> b | None \<Rightarrow> 0) in
      seq (lift (shl_ovf (me_checks env) 1 b)) (\<lambda>bits. mcp_click x y (mcp_button_name b) bits))"

definition show_point :: "browser \<Rightarrow> rat \<Rightarrow> rat \<Rightarrow> string" where
  "show_point br x y = ''('' @ br_show_f64 br x @ '', '' @ br_show_f64 br y @ '')''"

definition show_rounded :: "mcp_env \<Rightarrow> rat \<Rightarrow> rat \<Rightarrow> string" where
  "show_rounded env x y = ''('' @ me_show_rounded env x @ '', '' @ me_show_rounded env y @ '')''"

definition click_helper_single ::
  "mcp_env \<Rightarrow> rat \<Rightarrow> rat \<Rightarrow> u8 option \<Rightarrow> u64 option \<Rightarrow> supervisor \<Rightarrow> (mcp_error, string \<times> supervisor) prog" where
  "click_helper_single env x y button wait sv = (\<lambda>br.
     seq (translate x y) (\<lambda>(vx, vy).
     seq (button_click env vx vy button) (\<lambda>_.
     seq (record_action env ''click'' (show_point br x y) (''Clicked at '' @ show_point br x y) sv) (\<lambda>sv'.
     seq (after_wait wait) (\<lambda>note.
     seq (vision_suffix env sv') (\<lambda>seen.
     ret (''Clicked at page '' @ show_point br x y @ '', viewport '' @ show_rounded env vx vy @ note @ seen, sv')))))) br)"

definition double_click :: "rat \<Rightarrow> rat \<Rightarrow> (mcp_error, unit) prog" where
  "double_click x y =
     foreach (\<lambda>count.
       foreach (\<lambda>(ty, buttons). mcp_mouse (press_json ty x y ''left'' buttons count))
         [(''mousePressed'', 1), (''mouseReleased'', 0)]) [1, 2]"

definition click_helper_double ::
  "mcp_env \<Rightarrow> rat \<Rightarrow> rat \<Rightarrow> supervisor \<Rightarrow> (mcp_error, string \<times> supervisor) prog" where
  "click_helper_double env x y sv = (\<lambda>br.
     seq (translate x y) (\<lambda>(vx, vy).
     seq (double_click vx vy) (\<lambda>_.
     seq (record_action env ''double_click'' (show_point br x y) (''Double-clicked at '' @ show_point br x y) sv) (\<lambda>sv'.
     ret (''Double-clicked at page '' @ show_point br x y @ '', viewport '' @ show_rounded env vx vy, sv')))) br)"

text \<open>\<open>clicked\<close> counts the points done.\<close>

fun batch_clicks :: "u64 \<Rightarrow> (rat \<times> rat) list \<Rightarrow> (mcp_error, unit) prog" where
  "batch_clicks delay [] = ret ()"
| "batch_clicks delay ((x, y) # ps) =
     seq (translate x y) (\<lambda>(vx, vy).
     seq (mcp_click vx vy ''left'' 1) (\<lambda>_.
     seq (if 0 < delay \<and> ps \<noteq> [] then sleep (unat delay) else ret ()) (\<lambda>_.
     batch_clicks delay ps)))"

definition click_helper_batch ::
  "mcp_env \<Rightarrow> (rat \<times> rat) list \<Rightarrow> u64 \<Rightarrow> supervisor \<Rightarrow> (mcp_error, string \<times> supervisor) prog" where
  "click_helper_batch env points delay sv =
     (let clicked = show_nat (length points) in
      seq (batch_clicks delay points) (\<lambda>_.
      seq (record_action env ''batch_click'' (clicked @ '' points'') (''Batch-clicked '' @ clicked @ '' points'') sv) (\<lambda>sv'.
      ret (''Clicked '' @ clicked @ '' points with '' @ show_word delay @ ''ms delay between each.'', sv'))))"

subsection \<open>Clicks on an element\<close>

definition text_match_js :: "string \<Rightarrow> bool \<Rightarrow> string" where
  "text_match_js t exact =
     (if exact then ''(el.innerText || '' @ [CHR 0x27, CHR 0x27] @ '').trim() === '' @ t
      else ''(el.innerText || '' @ [CHR 0x27, CHR 0x27] @ '').toLowerCase().includes('' @ t @ ''.toLowerCase())'')"

definition find_expr_js :: "browser \<Rightarrow> string option \<Rightarrow> string option \<Rightarrow> bool \<Rightarrow> string" where
  "find_expr_js br sel txt exact =
     (case sel of
        Some s \<Rightarrow>
          ''Array.from(document.querySelectorAll('' @ br_json_string br s @ ''))'' @
          (case txt of
             None \<Rightarrow> []
           | Some t \<Rightarrow> ''.filter(el => '' @ text_match_js (br_json_string br t) exact @ '')'')
      | None \<Rightarrow>
          (let match_fn = text_match_js (br_json_string br (case txt of Some t \<Rightarrow> t | None \<Rightarrow> [])) exact in
           (join_lines
        [''(function() {'',
         ''    const results = [];'',
         ''    const walker = document.createTreeWalker(document.body, NodeFilter.SHOW_ELEMENT);'',
         ''    let el;'',
         ''    while (el = walker.nextNode()) {'',
         ''        if ('']) @ match_fn @ (join_lines
        ['') {'',
         ''            const r = el.getBoundingClientRect();'',
         ''            if (r.width > 0 && r.height > 0) results.push(el);'',
         ''        }'',
         ''    }'',
         ''    results.sort((a, b) => {'',
         ''        const ra = a.getBoundingClientRect();'',
         ''        const rb = b.getBoundingClientRect();'',
         ''        return (ra.width * ra.height) - (rb.width * rb.height);'',
         ''    });'',
         ''    return results;'',
         ''})()''])))"

definition build_find_js :: "browser \<Rightarrow> string option \<Rightarrow> string option \<Rightarrow> bool \<Rightarrow> nat \<Rightarrow> string" where
  "build_find_js br sel txt exact index =
     (let find_expr = find_expr_js br sel txt exact; idx = show_nat index in
      (join_lines
        [''JSON.stringify((function() {'',
         ''    const all = '']) @ find_expr @ (join_lines
        [''.filter(el => {'',
         ''        const r = el.getBoundingClientRect();'',
         ''        return r.width > 0 && r.height > 0;'',
         ''    });'',
         ''    if (all.length === 0) return {found: 0};'',
         ''    const idx = '']) @ idx @ (join_lines
        ['';'',
         ''    if (idx >= all.length) return {found: all.length, error: 'index out of range'};'',
         ''    const target = all[idx];'',
         ''    target.scrollIntoView({behavior: 'instant', block: 'center', inline: 'nearest'});'',
         ''    const r = target.getBoundingClientRect();'',
         ''    return {'',
         ''        found: all.length,'',
         ''        tag: target.tagName.toLowerCase(),'',
         ''        text: (target.innerText || target.value || target.getAttribute('aria-label') || '' @ [CHR 0x27, CHR 0x27] @ '').substring(0, 200).trim(),'',
         ''        href: target.href || target.closest('a')?.href || undefined,'',
         ''        page_x: Math.round(r.left + r.width/2 + window.scrollX),'',
         ''        page_y: Math.round(r.top + r.height/2 + window.scrollY),'',
         ''        width: Math.round(r.width),'',
         ''        height: Math.round(r.height),'',
         ''    };'',
         ''})())'']))"

text \<open>What the loop does when an attempt finds nothing usable: the end of the call, or \<open>None\<close> to try
  again. \<open>retries\<close> is the number of retries.\<close>

definition give_up ::
  "bool \<Rightarrow> u32 \<Rightarrow> u64 \<Rightarrow> u32 \<Rightarrow> int \<Rightarrow> json \<Rightarrow> (mcp_error, (json \<times> u32) + string) outcome option" where
  "give_up checks retries delay tries found info =
     (if retries \<le> tries then
        (if found = 0 then
           Some (and_then
             (if 0 < retries then
                and_then (add_ovf checks tries 1) (\<lambda>n.
                and_then (mul_ovf checks (ucast tries) delay) (\<lambda>ms.
                Ok ('' (tried '' @ show_word n @ '' times over '' @ show_word ms @ ''ms)'')))
              else Ok []) (\<lambda>tried.
             Ok (Inr (''No matching elements found'' @ tried @ ''.''))))
         else
           (case str_member ''error'' info of
              Some err \<Rightarrow>
                Some (Err (Invalid_Params (err @ '' (found '' @ show_nat (nat found) @ '' elements)'')))
            | None \<Rightarrow> None))
      else None)"

partial_function (option) find_element ::
  "bool \<Rightarrow> string \<Rightarrow> u32 \<Rightarrow> u64 \<Rightarrow> u32 \<Rightarrow> browser \<Rightarrow> browser_event list
     \<Rightarrow> ((mcp_error, (json \<times> u32) + string) outcome \<times> browser_event list) option" where
  "find_element checks js retries delay tries br es =
     (case mcp_js js br es of
        (Err e, es1) \<Rightarrow> Some (Err e, es1)
      | (Panic, es1) \<Rightarrow> Some (Panic, es1)
      | (Ok result, es1) \<Rightarrow>
          (let info = parse_or_null br (text_or ''{}'' result);
               found = field_or 0 as_u64 ''found'' info
           in if 0 < found \<and> jget ''error'' info = None then Some (Ok (Inl (info, tries)), es1)
              else
                (case give_up checks retries delay tries found info of
                   Some r \<Rightarrow> Some (r, es1)
                 | None \<Rightarrow>
                     (case add_ovf checks tries 1 of
                        Ok n \<Rightarrow> find_element checks js retries delay n br (es1 @ [Sleep (unat delay)])
                      | Err () \<Rightarrow> Some (Panic, es1)
                      | Panic \<Rightarrow> Some (Panic, es1)))))"

definition click_found ::
  "mcp_env \<Rightarrow> nat \<Rightarrow> u8 option \<Rightarrow> u64 option \<Rightarrow> json \<Rightarrow> u32 \<Rightarrow> supervisor \<Rightarrow> (mcp_error, string \<times> supervisor) prog" where
  "click_found env index button wait info tries sv = (\<lambda>br.
     let cx = field_or 0 as_f64 ''page_x'' info; cy = field_or 0 as_f64 ''page_y'' info;
         tag = field_or ''?'' as_str ''tag'' info; txt = field_or [] as_str ''text'' info;
         found = field_or 1 as_u64 ''found'' info
     in seq (translate cx cy) (\<lambda>(vx, vy).
        seq (button_click env vx vy button) (\<lambda>_.
        seq (record_action env ''click_element'' (tag @ '': '' @ txt)
          (''Clicked <'' @ tag @ ''> at '' @ show_point br cx cy) sv) (\<lambda>sv'.
        seq (after_wait wait) (\<lambda>note.
        seq (vision_suffix env sv') (\<lambda>seen.
        ret (''Clicked <'' @ tag @ ''> \"'' @ txt @ ''\" at page '' @ show_point br cx cy @ '', viewport '' @
          show_rounded env vx vy @ ''. '' @ show_nat (index + 1) @ ''/'' @ show_nat (nat found) @ '' matches.'' @
          (if 0 < tries then '' (found after '' @ show_word tries @ '' retries)'' else []) @ note @ seen, sv')))))) br)"

definition click_helper_element ::
  "mcp_env \<Rightarrow> string option \<Rightarrow> string option \<Rightarrow> bool \<Rightarrow> nat \<Rightarrow> u8 option \<Rightarrow> u64 option \<Rightarrow> u32 \<Rightarrow> u64
     \<Rightarrow> supervisor \<Rightarrow> (string \<times> supervisor) run" where
  "click_helper_element env sel txt exact index button wait retries delay sv = (\<lambda>br.
     and_run (find_element (me_checks env) (build_find_js br sel txt exact index) retries delay 0) (\<lambda>r.
     case r of
       Inr msg \<Rightarrow> returns (ret (msg, sv))
     | Inl (info, tries) \<Rightarrow> returns (click_found env index button wait info tries sv)) br)"

subsection \<open>Clicks that navigate\<close>

definition find_link_js :: "browser \<Rightarrow> string option \<Rightarrow> string option \<Rightarrow> string" where
  "find_link_js br sel txt =
     (let find_expr =
        (case sel of
           Some s \<Rightarrow> ''document.querySelector('' @ br_json_string br s @ '')''
         | None \<Rightarrow>
             (let t_json = br_json_string br (case txt of Some t \<Rightarrow> t | None \<Rightarrow> []) in
              (join_lines
        [''(function() {'',
         ''    const searchText = '']) @ t_json @ (join_lines
        [''.toLowerCase();'',
         ''    const walker = document.createTreeWalker(document.body, NodeFilter.SHOW_ELEMENT);'',
         ''    let best = null;'',
         ''    let bestArea = Infinity;'',
         ''    let el;'',
         ''    while (el = walker.nextNode()) {'',
         ''        const t = (el.innerText || '' @ [CHR 0x27, CHR 0x27] @ '').toLowerCase();'',
         ''        if (!t.includes(searchText)) continue;'',
         ''        const r = el.getBoundingClientRect();'',
         ''        if (r.width <= 0 || r.height <= 0) continue;'',
         ''        const area = r.width * r.height;'',
         ''        if (area < bestArea) {'',
         ''            best = el;'',
         ''            bestArea = area;'',
         ''        }'',
         ''    }'',
         ''    return best;'',
         ''})()''])))
      in (join_lines
        [''JSON.stringify((function() {'',
         ''    const el = '']) @ find_expr @ (join_lines
        ['';'',
         ''    if (!el) return {error: 'Element not found'};'',
         ''    el.scrollIntoView({behavior: 'instant', block: 'center', inline: 'nearest'});'',
         ''    const r = el.getBoundingClientRect();'',
         ''    const link = el.closest('a') || el.querySelector('a');'',
         ''    return {'',
         ''        tag: el.tagName.toLowerCase(),'',
         ''        text: (el.innerText || '' @ [CHR 0x27, CHR 0x27] @ '').substring(0, 200).trim(),'',
         ''        page_x: Math.round(r.left + r.width/2 + window.scrollX),'',
         ''        page_y: Math.round(r.top + r.height/2 + window.scrollY),'',
         ''        href: el.href || (link ? link.href : null),'',
         ''    };'',
         ''})())'']))"

text \<open>Whether the address changed before the deadline; it is asked for every 200 ms.\<close>

partial_function (option) await_navigation ::
  "(browser_event list \<Rightarrow> nat) \<Rightarrow> nat \<Rightarrow> string \<Rightarrow> browser \<Rightarrow> browser_event list
     \<Rightarrow> ((mcp_error, bool) outcome \<times> browser_event list) option" where
  "await_navigation clock deadline before br es =
     (if clock es < deadline then
        (case sup_evaluate_js ''location.href'' br (es @ [Sleep 200]) of
           (Ok url, es1) \<Rightarrow>
             (if as_str url \<noteq> None \<and> as_str url \<noteq> Some before then Some (Ok True, es1)
              else await_navigation clock deadline before br es1)
         | (Err _, es1) \<Rightarrow> await_navigation clock deadline before br es1
         | (Panic, es1) \<Rightarrow> Some (Panic, es1))
      else Some (Ok False, es))"

definition follow_link :: "bool \<Rightarrow> bool \<Rightarrow> string option \<Rightarrow> string \<Rightarrow> (mcp_error, bool) prog" where
  "follow_link fallback navigated href before = (\<lambda>br.
     (case href of
        Some link \<Rightarrow>
          if \<not> navigated \<and> fallback \<and> link \<noteq> [] \<and> link \<noteq> before then
            seq (attempt (sup_evaluate_js (''window.location.href = '' @ br_json_string br link))) (\<lambda>_.
            seq (sleep 500) (\<lambda>_. ret True))
          else ret navigated
      | None \<Rightarrow> ret navigated) br)"

definition navigate_report ::
  "mcp_env \<Rightarrow> u64 \<Rightarrow> json \<Rightarrow> bool \<Rightarrow> supervisor \<Rightarrow> (mcp_error, string \<times> supervisor) prog" where
  "navigate_report env timeout info navigated sv = (\<lambda>br.
     seq (mcp_js page_js) (\<lambda>page_info.
     let page = parse_or_null br (text_or ''{}'' page_info);
         url = field_or ''?'' as_str ''url'' page; title = field_or ''?'' as_str ''title'' page;
         tag = field_or ''?'' as_str ''tag'' info; txt = field_or [] as_str ''text'' info;
         clicked = ''Clicked <'' @ tag @ ''> \"'' @ txt @ ''\"''; place = ''URL: '' @ url @ LF # ''Title: '' @ title
     in seq (record_action env ''click_and_navigate'' txt (''Navigated to '' @ url) sv) (\<lambda>sv'.
        seq (vision_suffix env sv') (\<lambda>seen.
        ret
          (if navigated then
             clicked @ '' '' @ [CHR 0xE2, CHR 0x80, CHR 0x94] @ '' navigation detected.'' @ LF # place @ seen
           else
             clicked @ '' but URL did not change after '' @ show_word timeout @ ''ms.'' @ LF # place @ LF #
             ''Hint: the page may use client-side rendering without URL changes, or the click missed the target.'' @ seen,
           sv')))) br)"

definition click_helper_navigate ::
  "mcp_env \<Rightarrow> string option \<Rightarrow> string option \<Rightarrow> u64 \<Rightarrow> bool \<Rightarrow> supervisor \<Rightarrow> (string \<times> supervisor) run" where
  "click_helper_navigate env sel txt timeout fallback sv = (\<lambda>br.
     and_run (returns (mcp_js ''location.href'')) (\<lambda>v.
     let before = text_or [] v in
     and_run (returns (mcp_js (find_link_js br sel txt))) (\<lambda>result.
     let info = parse_or_null br (text_or ''{}'' result) in
     case str_member ''error'' info of
       Some err \<Rightarrow> returns (ret (''Navigation failed: '' @ err, sv))
     | None \<Rightarrow>
         and_run (returns (translate (field_or 0 as_f64 ''page_x'' info) (field_or 0 as_f64 ''page_y'' info))) (\<lambda>(vx, vy).
         and_run (returns (mcp_click vx vy ''left'' 1)) (\<lambda>_.
         and_run (\<lambda>br es. await_navigation (me_clock env) (me_clock env es + unat timeout) before br es) (\<lambda>changed.
         and_run (returns (follow_link fallback changed (str_member ''href'' info) before)) (\<lambda>navigated.
         returns (navigate_report env timeout info navigated sv))))))) br)"

subsection \<open>Keys, wheel, drag and hover\<close>

definition mcp_type :: "mcp_env \<Rightarrow> string \<Rightarrow> supervisor \<Rightarrow> (mcp_error, string \<times> supervisor) prog" where
  "mcp_type env txt sv =
     (let len = show_nat (length txt) in
      seq (mcp_input env (Paste txt)) (\<lambda>_.
      seq (record_action env ''type'' (take_chars 30 txt) (''Typed '' @ len @ '' chars'') sv) (\<lambda>sv'.
      ret (''Typed '' @ len @ '' characters'', sv'))))"

record key_press_params =
  kq_key :: string
  kq_ctrl :: bool
  kq_shift :: bool
  kq_alt :: bool
  kq_meta :: bool

definition key_modifiers :: "key_press_params \<Rightarrow> u8" where
  "key_modifiers p =
     or (or (or (if kq_alt p then 1 else 0) (if kq_ctrl p then 2 else 0)) (if kq_meta p then 4 else 0))
       (if kq_shift p then 8 else 0)"

definition mcp_key_press :: "mcp_env \<Rightarrow> key_press_params \<Rightarrow> supervisor \<Rightarrow> (mcp_error, string \<times> supervisor) prog" where
  "mcp_key_press env p sv =
     (let key = kq_key p in
      seq (mcp_input env (KeyDown key key (key_modifiers p))) (\<lambda>_.
      seq (mcp_input env (KeyUp key key (key_modifiers p))) (\<lambda>_.
      seq (record_action env ''key_press'' key (''Pressed '' @ key) sv) (\<lambda>sv'.
      ret (''Pressed key: '' @ key, sv')))))"

fun join_plus :: "string list \<Rightarrow> string" where
  "join_plus [] = []"
| "join_plus [k] = k"
| "join_plus (k # ks) = k @ ''+'' @ join_plus ks"

definition combo_keys :: "mcp_env \<Rightarrow> string list \<Rightarrow> (mcp_error, unit) prog" where
  "combo_keys env keys =
     seq (foreach (\<lambda>key. mcp_input env (KeyDown key key 0)) keys) (\<lambda>_.
     foreach (\<lambda>key. mcp_input env (KeyUp key key 0)) (rev keys))"

definition mcp_key_combo :: "mcp_env \<Rightarrow> string list \<Rightarrow> supervisor \<Rightarrow> (mcp_error, string \<times> supervisor) prog" where
  "mcp_key_combo env keys sv =
     seq (combo_keys env keys) (\<lambda>_.
     seq (record_action env ''key_combo'' (join_plus keys) (''Pressed '' @ join_plus keys) sv) (\<lambda>sv'.
     ret (''Pressed key combo: '' @ join_plus keys, sv')))"

definition mcp_scroll ::
  "mcp_env \<Rightarrow> rat \<Rightarrow> rat \<Rightarrow> rat \<Rightarrow> rat \<Rightarrow> supervisor \<Rightarrow> (mcp_error, string \<times> supervisor) prog" where
  "mcp_scroll env x y dx dy sv = (\<lambda>br.
     seq (translate x y) (\<lambda>(vx, vy).
     seq (mcp_input env (Wheel vx vy dx dy 0)) (\<lambda>_.
     seq (record_action env ''scroll'' (show_point br x y @ '' dy='' @ br_show_f64 br dy)
       (''Scrolled at '' @ show_point br x y) sv) (\<lambda>sv'.
     ret (''Scrolled at page '' @ show_point br x y @ '', viewport '' @ show_rounded env vx vy @ '' by '' @
       show_point br dx dy, sv')))) br)"

record mcp_drag_params =
  md_from_x :: rat
  md_from_y :: rat
  md_to_x :: rat
  md_to_y :: rat
  md_steps :: "u32 option"
  md_duration_ms :: "u64 option"

definition mcp_drag_moves :: "rat \<Rightarrow> rat \<Rightarrow> rat \<Rightarrow> rat \<Rightarrow> nat \<Rightarrow> nat \<Rightarrow> (mcp_error, unit) prog" where
  "mcp_drag_moves fx fy tx ty steps delay =
     foreach (\<lambda>i.
       let t = of_nat i / of_nat steps in
       seq (mcp_mouse (mouse_json ''mouseMoved'' (fx + (tx - fx) * t) (fy + (ty - fy) * t)
         [(''button'', JStr ''left''), (''buttons'', JInt 1)])) (\<lambda>_. sleep delay)) [1..<Suc steps]"

definition mcp_drag :: "mcp_env \<Rightarrow> mcp_drag_params \<Rightarrow> supervisor \<Rightarrow> (mcp_error, string \<times> supervisor) prog" where
  "mcp_drag env p sv = (\<lambda>br.
     seq (translate (md_from_x p) (md_from_y p)) (\<lambda>(fx, fy).
     let tx = md_to_x p; ty = md_to_y p - (md_from_y p - fy);
         steps = unat (max (case md_steps p of Some n \<Rightarrow> n | None \<Rightarrow> 10) 1);
         delay = unat (case md_duration_ms p of Some d \<Rightarrow> d | None \<Rightarrow> 300) div steps
     in seq (mcp_mouse (mouse_json ''mouseMoved'' fx fy [])) (\<lambda>_.
        seq (mcp_mouse (press_json ''mousePressed'' fx fy ''left'' 1 1)) (\<lambda>_.
        seq (mcp_drag_moves fx fy tx ty steps delay) (\<lambda>_.
        seq (mcp_mouse (press_json ''mouseReleased'' tx ty ''left'' 0 1)) (\<lambda>_.
        seq (record_action env ''drag''
          (''('' @ br_show_f64 br (md_from_x p) @ '','' @ br_show_f64 br (md_from_y p) @ '') -> ('' @
           br_show_f64 br (md_to_x p) @ '','' @ br_show_f64 br (md_to_y p) @ '')'') ''Dragged'' sv) (\<lambda>sv'.
        ret (''Dragged from page '' @ show_point br (md_from_x p) (md_from_y p) @ '' to '' @
          show_point br (md_to_x p) (md_to_y p), sv'))))))) br)"

definition mcp_hover :: "mcp_env \<Rightarrow> rat \<Rightarrow> rat \<Rightarrow> supervisor \<Rightarrow> (mcp_error, string \<times> supervisor) prog" where
  "mcp_hover env x y sv = (\<lambda>br.
     seq (translate x y) (\<lambda>(vx, vy).
     seq (mcp_input env (MouseMove vx vy 0 0)) (\<lambda>_.
     seq (record_action env ''hover'' (show_point br x y) (''Hovered at '' @ show_point br x y) sv) (\<lambda>sv'.
     ret (''Hovered at '' @ show_point br x y, sv')))) br)"

definition mcp_cursor :: "mcp_env \<Rightarrow> supervisor \<Rightarrow> (mcp_error, string \<times> supervisor) prog" where
  "mcp_cursor env sv =
     (case unpack_cursor (sv_cursor sv) of
        (x, y) \<Rightarrow> ret (me_json env (JObj [(''x'', JInt (sint x)), (''y'', JInt (sint y))]), sv))"

subsection \<open>Form fields\<close>

definition clear_field_js :: "browser \<Rightarrow> string \<Rightarrow> string" where
  "clear_field_js br selector =
     (let sel_json = br_json_string br selector in
      (join_lines
        [''(function() {'',
         ''    const el = document.querySelector('']) @ sel_json @ (join_lines
        ['');'',
         ''    if (!el) return JSON.stringify({error: 'Element not found: ' + '']) @ sel_json @ (join_lines
        [''});'',
         ''    el.focus();'',
         ''    if (el.isContentEditable) {'',
         ''        el.textContent = '' @ [CHR 0x27, CHR 0x27] @ '';'',
         ''    } else {'',
         ''        el.value = '' @ [CHR 0x27, CHR 0x27] @ '';'',
         ''    }'',
         ''    el.dispatchEvent(new Event('input', {bubbles: true}));'',
         ''    el.dispatchEvent(new Event('change', {bubbles: true}));'',
         ''    return JSON.stringify({ok: true, tag: el.tagName.toLowerCase()});'',
         ''})()'']))"

definition field_events_js :: "browser \<Rightarrow> string \<Rightarrow> string" where
  "field_events_js br selector =
     (let sel_json = br_json_string br selector in
      (join_lines
        [''(function() {'',
         ''    const el = document.querySelector('']) @ sel_json @ (join_lines
        ['');'',
         ''    if (el) {'',
         ''        el.dispatchEvent(new Event('input', {bubbles: true}));'',
         ''        el.dispatchEvent(new Event('change', {bubbles: true}));'',
         ''    }'',
         ''})()'']))"

definition mcp_fill :: "mcp_env \<Rightarrow> string \<Rightarrow> string \<Rightarrow> supervisor \<Rightarrow> (mcp_error, string \<times> supervisor) prog" where
  "mcp_fill env selector value sv = (\<lambda>br.
     seq (mcp_js (clear_field_js br selector)) (\<lambda>r.
     let info = parse_or_null br (text_or ''{}'' r); tag = field_or ''?'' as_str ''tag'' info in
     case str_member ''error'' info of
       Some err \<Rightarrow> lift (Err (Invalid_Params err))
     | None \<Rightarrow>
         seq (mcp_command ''Input.insertText'' (JObj [(''text'', JStr value)])) (\<lambda>_.
         seq (attempt (sup_evaluate_js (field_events_js br selector))) (\<lambda>_.
         seq (record_action env ''fill'' selector (''Filled <'' @ tag @ ''> with \"'' @ value @ ''\"'') sv) (\<lambda>sv'.
         seq (vision_suffix env sv') (\<lambda>seen.
         ret (''Filled <'' @ tag @ ''> ('' @ selector @ '') with \"'' @ value @ ''\".'' @ seen, sv')))))) br)"

definition json_opt :: "browser \<Rightarrow> string option \<Rightarrow> string" where
  "json_opt br v = (case v of None \<Rightarrow> ''null'' | Some s \<Rightarrow> br_json_string br s)"

definition select_js :: "browser \<Rightarrow> string \<Rightarrow> string option \<Rightarrow> string option \<Rightarrow> string" where
  "select_js br selector value label =
     (let sel_json = br_json_string br selector; val_json = json_opt br value; label_json = json_opt br label in
      (join_lines
        [''(function() {'',
         ''    const sel = document.querySelector('']) @ sel_json @ (join_lines
        ['');'',
         ''    if (!sel) return JSON.stringify({error: 'Select element not found: ' + '']) @ sel_json @ (join_lines
        [''});'',
         ''    if (sel.tagName.toLowerCase() !== 'select') return JSON.stringify({error: 'Element is not a <select>: ' + sel.tagName});'',
         ''    const byValue = '']) @ val_json @ (join_lines
        ['';'',
         ''    const byLabel = '']) @ label_json @ (join_lines
        ['';'',
         ''    let found = false;'',
         ''    for (let i = 0; i < sel.options.length; i++) {'',
         ''        const opt = sel.options[i];'',
         ''        if ((byValue !== null && opt.value === byValue) || (byLabel !== null && opt.text.trim() === byLabel)) {'',
         ''            sel.selectedIndex = i;'',
         ''            found = true;'',
         ''            sel.dispatchEvent(new Event('change', {bubbles: true}));'',
         ''            sel.dispatchEvent(new Event('input', {bubbles: true}));'',
         ''            return JSON.stringify({ok: true, selectedIndex: i, value: opt.value, text: opt.text.trim()});'',
         ''        }'',
         ''    }'',
         ''    const options = Array.from(sel.options).map(o => ({value: o.value, text: o.text.trim()}));'',
         ''    return JSON.stringify({error: 'Option not found', available: options});'',
         ''})()'']))"

definition mcp_select_option ::
  "mcp_env \<Rightarrow> string \<Rightarrow> string option \<Rightarrow> string option \<Rightarrow> supervisor \<Rightarrow> (mcp_error, string \<times> supervisor) prog" where
  "mcp_select_option env selector value label sv = (\<lambda>br.
     (if value = None \<and> label = None then
        lift (Err (Invalid_Params (''must provide '' @ quoted ''value'' @ '' or '' @ quoted ''label'')))
      else
        seq (mcp_js (select_js br selector value label)) (\<lambda>r.
        let info = parse_or_null br (text_or ''{}'' r) in
        case str_member ''error'' info of
          Some err \<Rightarrow> lift (Err (Invalid_Params (err @ '': '' @ me_pretty env info)))
        | None \<Rightarrow>
            (let txt = field_or [] as_str ''text'' info; chosen = field_or [] as_str ''value'' info in
             seq (record_action env ''select_option'' selector
               (''Selected \"'' @ txt @ ''\" (value='' @ chosen @ '')'') sv) (\<lambda>sv'.
             seq (vision_suffix env sv') (\<lambda>seen.
             ret (''Selected option \"'' @ txt @ ''\" (value=\"'' @ chosen @ ''\") in '' @ selector @ ''.'' @ seen, sv')))))) br)"

definition scroll_element_js :: "browser \<Rightarrow> string \<Rightarrow> string \<Rightarrow> string" where
  "scroll_element_js br selector block =
     (let sel_json = br_json_string br selector; block_json = br_json_string br block in
      (join_lines
        [''(function() {'',
         ''    const el = document.querySelector('']) @ sel_json @ (join_lines
        ['');'',
         ''    if (!el) return JSON.stringify({error: 'Element not found: ' + '']) @ sel_json @ (join_lines
        [''});'',
         ''    el.scrollIntoView({behavior: 'instant', block: '']) @ block_json @ (join_lines
        ['', inline: 'nearest'});'',
         ''    const r = el.getBoundingClientRect();'',
         ''    return JSON.stringify({'',
         ''        tag: el.tagName.toLowerCase(),'',
         ''        text: (el.innerText || el.value || '' @ [CHR 0x27, CHR 0x27] @ '').substring(0, 100).trim(),'',
         ''        x: Math.round(r.left), y: Math.round(r.top),'',
         ''        width: Math.round(r.width), height: Math.round(r.height),'',
         ''        page_x: Math.round(r.left + window.scrollX),'',
         ''        page_y: Math.round(r.top + window.scrollY),'',
         ''        center_x: Math.round(r.left + r.width/2 + window.scrollX),'',
         ''        center_y: Math.round(r.top + r.height/2 + window.scrollY),'',
         ''    });'',
         ''})()'']))"

definition mcp_scroll_to_element ::
  "mcp_env \<Rightarrow> string \<Rightarrow> string option \<Rightarrow> supervisor \<Rightarrow> (mcp_error, string \<times> supervisor) prog" where
  "mcp_scroll_to_element env selector block sv = (\<lambda>br.
     seq (mcp_js (scroll_element_js br selector (case block of Some b \<Rightarrow> b | None \<Rightarrow> ''center''))) (\<lambda>r.
     let info = parse_or_null br (text_or ''{}'' r) in
     case str_member ''error'' info of
       Some err \<Rightarrow> lift (Err (Invalid_Params err))
     | None \<Rightarrow> ret (''Scrolled element into view. Position:'' @ LF # me_pretty env info, sv)) br)"

subsection \<open>The tools\<close>

record click_params =
  cl_mode :: string
  cl_x :: "rat option"
  cl_y :: "rat option"
  cl_button :: "u8 option"
  cl_wait_after_ms :: "u64 option"
  cl_selector :: "string option"
  cl_text :: "string option"
  cl_text_exact :: bool
  cl_index :: "nat option"
  cl_retries :: "u32 option"
  cl_retry_delay_ms :: "u64 option"
  cl_timeout_ms :: "u64 option"
  cl_fallback_to_link :: bool
  cl_points :: "(rat \<times> rat) list option"
  cl_delay_between_ms :: "u64 option"

text \<open>\<open>vscreen_click\<close>: the error of wrong parameters, or the helper to run.\<close>

definition click_body :: "mcp_env \<Rightarrow> click_params \<Rightarrow> mcp_error + (supervisor \<Rightarrow> (string \<times> supervisor) run)" where
  "click_body env p =
     (let missing = (\<lambda>what. Inl (Invalid_Params (''mode=\"'' @ cl_mode p @ ''\" requires '' @ what)));
          no_target = (cl_selector p = None \<and> cl_text p = None)
      in if cl_mode p = ''single'' then
           (case (cl_x p, cl_y p) of
              (None, _) \<Rightarrow> missing ''x''
            | (_, None) \<Rightarrow> missing ''y''
            | (Some x, Some y) \<Rightarrow>
                Inr (\<lambda>sv. returns (click_helper_single env x y (cl_button p) (cl_wait_after_ms p) sv)))
         else if cl_mode p = ''double'' then
           (case (cl_x p, cl_y p) of
              (None, _) \<Rightarrow> missing ''x''
            | (_, None) \<Rightarrow> missing ''y''
            | (Some x, Some y) \<Rightarrow> Inr (\<lambda>sv. returns (click_helper_double env x y sv)))
         else if cl_mode p = ''element'' then
           (if no_target then missing ''selector or text (or both)''
            else Inr (click_helper_element env (cl_selector p) (cl_text p) (cl_text_exact p)
              (or_default 0 (cl_index p)) (cl_button p) (cl_wait_after_ms p) (or_default 0 (cl_retries p))
              (or_default 500 (cl_retry_delay_ms p))))
         else if cl_mode p = ''navigate'' then
           (if no_target then missing ''selector or text (or both)''
            else Inr (click_helper_navigate env (cl_selector p) (cl_text p) (or_default 5000 (cl_timeout_ms p))
              (cl_fallback_to_link p)))
         else if cl_mode p = ''batch'' then
           (case cl_points p of
              None \<Rightarrow> missing ''points''
            | Some ps \<Rightarrow>
                if ps = [] then missing ''non-empty points array''
                else Inr (\<lambda>sv. returns (click_helper_batch env ps (or_default 50 (cl_delay_between_ms p)) sv)))
         else Inl (Invalid_Params (''invalid mode \"'' @ cl_mode p @
           ''\": use single, double, element, navigate, or batch'')))"

datatype input_tool =
    Click click_params
  | TypeText string
  | KeyPress key_press_params
  | KeyCombo "string list"
  | ScrollWheel rat rat rat rat
  | Drag mcp_drag_params
  | Hover rat rat
  | GetCursor
  | Fill string string
  | SelectOption string "string option" "string option"
  | ScrollToElement string "string option"

fun tool_lock :: "input_tool \<Rightarrow> lock_type" where
  "tool_lock GetCursor = Observer"
| "tool_lock (ScrollToElement _ _) = Observer"
| "tool_lock _ = Exclusive"

fun tool_body :: "mcp_env \<Rightarrow> input_tool \<Rightarrow> mcp_error + (supervisor \<Rightarrow> (string \<times> supervisor) run)" where
  "tool_body env (Click p) = click_body env p"
| "tool_body env (TypeText t) = Inr (\<lambda>sv. returns (mcp_type env t sv))"
| "tool_body env (KeyPress p) = Inr (\<lambda>sv. returns (mcp_key_press env p sv))"
| "tool_body env (KeyCombo ks) = Inr (\<lambda>sv. returns (mcp_key_combo env ks sv))"
| "tool_body env (ScrollWheel x y dx dy) = Inr (\<lambda>sv. returns (mcp_scroll env x y dx dy sv))"
| "tool_body env (Drag p) = Inr (\<lambda>sv. returns (mcp_drag env p sv))"
| "tool_body env (Hover x y) = Inr (\<lambda>sv. returns (mcp_hover env x y sv))"
| "tool_body env GetCursor = Inr (\<lambda>sv. returns (mcp_cursor env sv))"
| "tool_body env (Fill s v) = Inr (\<lambda>sv. returns (mcp_fill env s v sv))"
| "tool_body env (SelectOption s v l) = Inr (\<lambda>sv. returns (mcp_select_option env s v l sv))"
| "tool_body env (ScrollToElement s b) = Inr (\<lambda>sv. returns (mcp_scroll_to_element env s b sv))"

definition tool_refusal :: "input_tool \<Rightarrow> mcp_error option" where
  "tool_refusal t =
     (if t = KeyCombo [] then Some (Invalid_Params ''keys array must not be empty'') else None)"

definition call_input_tool ::
  "mcp_env \<Rightarrow> instance_id \<Rightarrow> input_tool \<Rightarrow> app_state \<Rightarrow> browser \<Rightarrow> browser_event list
     \<Rightarrow> (app_state \<times> (mcp_error, string) outcome \<times> browser_event list) option" where
  "call_input_tool env i t st br es =
     (case tool_body env t of
        Inl e \<Rightarrow> Some (st, Err e, es)
      | Inr body \<Rightarrow> run_tool env (tool_lock t) i (tool_refusal t) body st br es)"

subsection \<open>The lock and the browser\<close>

interpretation input_tools: tool_family call_input_tool tool_lock
  by unfold_locales (auto simp: call_input_tool_def split: sum.splits)

lemma example_mcp_state_simps:
  "as_lock_manager example_mcp_state = new_manager" "\<not> as_single_agent_mode example_mcp_state"
  "get_supervisor ''dev'' (example_mcp_state\<lparr>as_lock_manager := m\<rparr>) = Some (supervisor_new example_config [])"
  by (simp_all add: example_mcp_state_def app_state_new_def get_supervisor_def tab_get_def)

lemma example_typing:
  "\<exists>st' r es'. call_input_tool example_mcp ''dev'' (TypeText ''hi'') example_mcp_state (quiet_browser JNull) [] =
     Some (st', r, es') \<and> acts es' \<noteq> []"
proof -
  let ?run = "call_input_tool example_mcp ''dev'' (TypeText ''hi'') example_mcp_state (quiet_browser JNull) []"
  have "snd (require_lock False 0 7 8 ''dev'' 1 Exclusive new_manager) = Inr ()"
    by (simp add: require_lock_def check_access_def check_access_with_token_def auto_acquire_def
        acquire_auto_def acquire_inner_def acquire_defs entry_or_new_def)
  then obtain m where m: "require_lock False 0 7 8 ''dev'' 1 Exclusive new_manager = (m, Inr ())"
    by (metis prod.collapse)
  let ?br = "quiet_browser JNull"
  have typed: "mcp_input example_mcp (Paste ''hi'') ?br [] =
      (Ok (), [Command ''Input.insertText'' (Some (JObj [(''text'', JStr ''hi'')]))])"
    by (simp add: mcp_input_def dispatch_api_input_def cdp_dispatch_input_def seq_def lift_def command_def
      with_err_def cdp_request_new_def next_message_id_def quiet_browser_def)
  have "mcp_type example_mcp ''hi'' (supervisor_new example_config []) ?br [] = (Ok (msg, sv'), es')"
    if "msg = ''Typed '' @ show_nat (length ''hi'') @ '' characters''"
      "sv' = log_action example_mcp ''type'' (take_chars 30 ''hi'') (''Typed '' @ show_nat (length ''hi'') @ '' chars'') [] None
        (supervisor_new example_config [])"
      "es' = [Command ''Input.insertText'' (Some (JObj [(''text'', JStr ''hi'')])), eval_event ''location.href'',
        shot_event ''jpeg'' (Some 40)]" for msg sv' es'
    unfolding that mcp_type_def Let_def seq_def typed by (simp del: length_Cons add: quiet_record_action)
  then obtain msg sv' es' where run: "mcp_type example_mcp ''hi'' (supervisor_new example_config []) ?br [] = (Ok (msg, sv'), es')"
      "acts es' \<noteq> []" by (simp add: acts_def)
  obtain st' r where c: "?run = Some (st', r, es')"
    using m run(1) by (simp add: call_input_tool_def run_tool_def returns_def tool_refusal_def example_mcp_state_simps example_mcp_def)
  then show ?thesis using run(2) by blast
qed

text \<open>An input tool acts under its lock. With several agents, if a tool call has done anything in
  the browser or changed the instance's histories, then its session has the access it needs
  when it is done; a tool that may change the page leaves no other session any access; the
  other instances, the registry and the leases that other sessions acquired explicitly are as
  they were, whether the call succeeds or not.\<close>

theorem input_tools_locked:
  assumes "lm_reachable (as_lock_manager st)" and "\<not> as_single_agent_mode st"
    and "call_input_tool env i t st br es = Some (st', r, es')"
  shows "((acts es' \<noteq> acts es \<or> get_supervisor i st' \<noteq> get_supervisor i st) \<longrightarrow>
      check_access i (me_session env) (tool_lock t) (as_lock_manager st') = Inr () \<and>
      (tool_lock t = Exclusive \<longrightarrow>
        (\<forall>sid lt. sid \<noteq> me_session env \<longrightarrow> check_access i sid lt (as_lock_manager st') \<noteq> Inr ()))) \<and>
    (j \<noteq> i \<longrightarrow> get_supervisor j st' = get_supervisor j st) \<and> as_registry st' = as_registry st \<and>
    filter (\<lambda>l. li_session_id l \<noteq> me_session env \<and> \<not> li_auto_acquired l) (leases_on j (as_lock_manager st')) =
      filter (\<lambda>l. li_session_id l \<noteq> me_session env \<and> \<not> li_auto_acquired l) (leases_on j (as_lock_manager st))"
  by (rule input_tools.acts_under_lock [OF assms])

lemma input_tools_locked_witness:
  "\<exists>st' r es'. call_input_tool example_mcp ''dev'' (TypeText ''hi'') example_mcp_state (quiet_browser JNull) [] =
       Some (st', r, es') \<and> acts es' \<noteq> [] \<and> check_access ''dev'' 1 Exclusive (as_lock_manager st') = Inr () \<and>
     check_access ''dev'' 2 Observer (as_lock_manager st') \<noteq> Inr ()"
proof -
  obtain st' r es' where c: "call_input_tool example_mcp ''dev'' (TypeText ''hi'') example_mcp_state (quiet_browser JNull) [] =
      Some (st', r, es')" "acts es' \<noteq> []"
    using example_typing by blast
  have "lm_reachable (as_lock_manager example_mcp_state)" by (simp add: example_mcp_state_simps reach_new)
  from input_tools_locked [OF this example_mcp_state_simps(2) c(1), of "''dev''"] c show ?thesis
    by (auto simp: example_mcp_def acts_def [of "[]"])
qed

subsection \<open>Loops end\<close>

text \<open>What a page answers names an error by a text.\<close>

definition errors_are_texts :: "browser \<Rightarrow> bool" where
  "errors_are_texts br = (\<forall>s j e. parse_json br s = Ok j \<and> jget ''error'' j = Some e \<longrightarrow> as_str e \<noteq> None)"

lemma as_u64_nonneg: "as_u64 j = Some n \<Longrightarrow> 0 \<le> n"
  by (cases j) (auto split: if_splits)

lemma give_up_last:
  assumes "\<not> (0 < found \<and> jget ''error'' info = None)" and "0 \<le> found" and "retries \<le> tries"
    and "\<forall>e. jget ''error'' info = Some e \<longrightarrow> as_str e \<noteq> None"
  shows "give_up checks retries delay tries found info \<noteq> None"
  using assms by (auto simp: give_up_def str_member_def split: option.splits)

lemma find_element_ends:
  assumes "errors_are_texts br"
  shows "\<exists>r xs. find_element checks js retries delay tries br es = Some (r, es @ xs) \<and>
    evaluations xs \<le> Suc (unat retries - unat tries)"
proof (induction "unat retries - unat tries" arbitrary: tries es rule: less_induct)
  case less
  obtain r where r: "mcp_js js br es = (r, es @ [eval_event js])" "r \<noteq> Panic" by (rule mcp_js_run)
  show ?case
  proof (cases r)
    case (Err e)
    then show ?thesis using r by (simp add: find_element.simps [of checks js retries delay tries])
  next
    case (Ok result)
    define info where "info = parse_or_null br (text_or ''{}'' result)"
    define found where "found = field_or 0 as_u64 ''found'' info"
    have found: "0 \<le> found"
      unfolding found_def field_or_def by (auto split: option.split simp: bind_eq_Some_conv as_u64_nonneg)
    have texts: "\<forall>e. jget ''error'' info = Some e \<longrightarrow> as_str e \<noteq> None"
      using assms unfolding info_def parse_or_null_def errors_are_texts_def by (auto split: outcome.splits)
    have step: "find_element checks js retries delay tries br es =
      (if 0 < found \<and> jget ''error'' info = None then Some (Ok (Inl (info, tries)), es @ [eval_event js])
       else
         (case give_up checks retries delay tries found info of
            Some q \<Rightarrow> Some (q, es @ [eval_event js])
          | None \<Rightarrow>
              (case add_ovf checks tries 1 of
                 Ok n \<Rightarrow> find_element checks js retries delay n br ((es @ [eval_event js]) @ [Sleep (unat delay)])
               | Err () \<Rightarrow> Some (Panic, es @ [eval_event js])
               | Panic \<Rightarrow> Some (Panic, es @ [eval_event js]))))"
      using r Ok by (simp add: find_element.simps [of checks js retries delay tries] Let_def info_def found_def)
    show ?thesis
    proof (cases "(0 < found \<and> jget ''error'' info = None) \<or> give_up checks retries delay tries found info \<noteq> None")
      case True
      then show ?thesis unfolding step by (auto split: option.split)
    next
      case False
      then have lt: "tries < retries" using give_up_last [OF _ found _ texts] by (meson not_le)
      then have n: "unat (tries + 1) = Suc (unat tries)" "unat tries < unat retries"
        using unsigned_less [of retries, where ?'a = nat] unat_add_lem [of tries 1] by (simp_all add: word_less_nat_alt)
      then have "(add_ovf checks tries 1 :: (unit, u32) outcome) = Ok (tries + 1)"
        using unsigned_less [of retries, where ?'a = nat] by (intro add_ovf_fits) simp
      moreover have closer: "unat retries - unat (tries + 1) < unat retries - unat tries" using n by simp
      moreover obtain q xs where "find_element checks js retries delay (tries + 1) br
          ((es @ [eval_event js]) @ [Sleep (unat delay)]) = Some (q, ((es @ [eval_event js]) @ [Sleep (unat delay)]) @ xs)"
          "evaluations xs \<le> Suc (unat retries - unat (tries + 1))"
        using less [OF closer, of "(es @ [eval_event js]) @ [Sleep (unat delay)]"] by blast
      ultimately show ?thesis using False n
        by (intro exI [of _ q] exI [of _ "eval_event js # Sleep (unat delay) # xs"]) (auto simp: step)
    qed
  qed (use r in simp)
qed



subsection \<open>Keys and drags\<close>

abbreviation key_event :: "key_params \<Rightarrow> browser_event" where
  "key_event p \<equiv> Command ''Input.dispatchKeyEvent'' (Some (key_params_json p))"

definition key_up_params :: "string \<Rightarrow> key_params" where
  "key_up_params key =
     \<lparr>kp_type = ''keyUp'', kp_key = Some key, kp_code = Some key, kp_text = None,
      kp_modifiers = to_cdp_modifiers 0, kp_windows_virtual_key_code = key_to_vk key\<rparr>"

lemma sends_dispatch:
  assumes "input_to_cdp (me_checks env) ev 0 = (Ok (req, n) :: (cdp_error, cdp_request \<times> u64) outcome)"
  shows "sends (\<lambda>e. internal (Cdp e)) (mcp_input env ev) [Command (cq_method req) (cq_params req)]"
proof -
  have "cdp_dispatch_input (me_checks env) ev = command (cq_method req) (cq_params req)"
    using assms by (simp add: cdp_dispatch_input_def lift_def seq_def fun_eq_iff)
  moreover have "sends Cdp (with_err Cdp (command (cq_method req) (cq_params req)))
      [Command (cq_method req) (cq_params req)]" by simp
  ultimately show ?thesis
    unfolding mcp_input_def dispatch_api_input_def by (metis sends_with_err)
qed

text \<open>A key combination presses the keys in order and releases them in reverse, and stops at the
  first event the browser refuses, which leaves the keys pressed so far held. No event carries
  a modifier: in Control and a, the a is sent as a plain a with its text.\<close>

theorem key_combo_events:
  "sends (\<lambda>e. internal (Cdp e)) (combo_keys env keys)
     (map (\<lambda>k. key_event (key_down_params k k 0)) keys @ map (\<lambda>k. key_event (key_up_params k)) (rev keys)) \<and>
   kp_modifiers (key_down_params ''a'' ''a'' 0) = to_cdp_modifiers 0 \<and>
   kp_text (key_down_params ''a'' ''a'' 0) = Some ''a''"
proof -
  have down: "sends (\<lambda>e. internal (Cdp e)) (mcp_input env (KeyDown k k 0)) [key_event (key_down_params k k 0)]" for k
    using sends_dispatch [of env "KeyDown k k 0"]
    by (simp add: key_request_def cdp_request_new_def next_message_id_def)
  have up: "sends (\<lambda>e. internal (Cdp e)) (mcp_input env (KeyUp k k 0)) [key_event (key_up_params k)]" for k
    using sends_dispatch [of env "KeyUp k k 0"]
    by (simp add: key_request_def cdp_request_new_def next_message_id_def key_up_params_def)
  have one: "map f ks = concat (map (\<lambda>k. [f k]) ks)" for f :: "string \<Rightarrow> browser_event" and ks by simp
  have "sends (\<lambda>e. internal (Cdp e)) (combo_keys env keys)
     (map (\<lambda>k. key_event (key_down_params k k 0)) keys @ map (\<lambda>k. key_event (key_up_params k)) (rev keys))"
    unfolding combo_keys_def one by (intro sends_seq sends_foreach down up)
  then show ?thesis by (simp add: key_down_params_def)
qed

lemma seq_OkE:
  assumes "seq m f br es = (Ok b, es')"
  obtains a es1 where "m br es = (Ok a, es1)" "f a br es1 = (Ok b, es')"
  using assms by (auto simp: seq_def split: prod.splits outcome.splits)

text \<open>A drag ends at the horizontal page coordinate asked for, taken as a coordinate of the viewport,
  while its start and its vertical end are moved by the scroll offset.\<close>

lemma drag_end_not_translated:
  assumes "translate (md_from_x p) (md_from_y p) br es = (Ok (fx, fy), es1)"
    and "mcp_drag env p sv br es = (Ok res, es')"
  shows "Command ''Input.dispatchMouseEvent'' (Some (press_json ''mouseReleased'' (md_to_x p)
    (md_to_y p - (md_from_y p - fy)) ''left'' 0 1)) \<in> set es'"
proof -
  let ?release = "mcp_mouse (press_json ''mouseReleased'' (md_to_x p) (md_to_y p - (md_from_y p - fy)) ''left'' 0 1)"
  obtain es2 es3 sv' args where r: "?release br es2 = (Ok (), es3)"
    and rec: "record_action env ''drag'' args ''Dragged'' sv br es3 = (Ok sv', es')"
    using assms unfolding mcp_drag_def Let_def
    by (auto elim!: seq_OkE)
  have "Command ''Input.dispatchMouseEvent'' (Some (press_json ''mouseReleased'' (md_to_x p)
      (md_to_y p - (md_from_y p - fy)) ''left'' 0 1)) \<in> set es3"
    using r by (auto simp: mcp_mouse_def mcp_command_def send_cdp_command_def with_err_def command_def)
  moreover have "emits (\<lambda>_. True) (record_action env ''drag'' args ''Dragged'' sv)"
    unfolding record_action_def Let_def sup_evaluate_js_def cdp_evaluate_js_def sup_capture_screenshot_def
      cdp_capture_screenshot_def
    by (intro emits_intros) (simp_all add: emits_def screenshot_data_def split: option.split)
  then obtain xs where "es' = es3 @ xs" using rec unfolding emits_def by (metis snd_conv)
  ultimately show ?thesis by simp
qed

text \<open>The index kept with an action is the screenshot's place in the history when it was taken. In a full
  history the next screenshot moves it by one, so that the index of the earlier action names the
  later screenshot.\<close>

lemma screenshot_index_moves:
  assumes "sy_max_entries (sv_screenshots sv) = Suc n" and "length (sy_entries (sv_screenshots sv)) = Suc n"
  shows "sy_entries (sv_screenshots (push_screenshot env d2 u2 l2 (push_screenshot env d1 u1 l1 sv))) ! n =
      last (sy_entries (sv_screenshots (push_screenshot env d2 u2 l2 (push_screenshot env d1 u1 l1 sv)))) \<and>
    length (sy_entries (sv_screenshots (push_screenshot env d1 u1 l1 sv))) - 1 = n"
  using assms by (simp add: push_screenshot_def screenshot_push_def push_bounded_def nth_append)


end
