(* ===== verification/Mcp_Navigation.thy ===== *)
theory Mcp_Navigation
  imports Mcp_Base
begin

section \<open>Navigating and waiting\<close>

text \<open>
  \<open>mcp/navigation.rs\<close> of \<open>crates/vscreen-server\<close>: the tools \<open>vscreen_navigate\<close> and
  \<open>vscreen_wait\<close>. Every wait but the one for a duration is a loop that asks the page, gives up
  at a deadline and pauses; the source writes it out for each condition, here it is \<open>poll\<close>
  with the question as a parameter.
\<close>

subsection \<open>Polling\<close>

partial_function (option) poll ::
  "(browser_event list \<Rightarrow> nat) \<Rightarrow> nat \<Rightarrow> nat \<Rightarrow> (mcp_error, 'r option) prog \<Rightarrow> 'r \<Rightarrow> browser \<Rightarrow> browser_event list
     \<Rightarrow> ((mcp_error, 'r) outcome \<times> browser_event list) option" where
  "poll clock deadline interval probe late br es =
     (case probe br es of
        (Ok (Some r), es1) \<Rightarrow> Some (Ok r, es1)
      | (Ok None, es1) \<Rightarrow>
          (if deadline \<le> clock es1 then Some (Ok late, es1)
           else poll clock deadline interval probe late br (es1 @ [Sleep interval]))
      | (Err e, es1) \<Rightarrow> Some (Err e, es1)
      | (Panic, es1) \<Rightarrow> Some (Panic, es1))"

text \<open>A loop that starts now and has \<open>timeout\<close> milliseconds.\<close>

definition poll_for :: "mcp_env \<Rightarrow> nat \<Rightarrow> nat \<Rightarrow> (mcp_error, 'r option) prog \<Rightarrow> 'r \<Rightarrow> 'r run" where
  "poll_for env timeout interval probe late = (\<lambda>br es.
     poll (me_clock env) (me_clock env es + timeout) interval probe late br es)"

definition ready_probe :: "string list \<Rightarrow> (mcp_error, unit option) prog" where
  "ready_probe states =
     seq (attempt (sup_evaluate_js ''document.readyState'')) (\<lambda>r.
     ret (case r of Ok v \<Rightarrow> if text_or [] v \<in> set states then Some () else None | _ \<Rightarrow> None))"

definition true_probe :: "string \<Rightarrow> 'r \<Rightarrow> (mcp_error, 'r option) prog" where
  "true_probe js found =
     seq (mcp_js js) (\<lambda>v. ret (if as_bool v = Some True then Some found else None))"

subsection \<open>Navigating\<close>

definition await_ready :: "mcp_env \<Rightarrow> string \<Rightarrow> unit run" where
  "await_ready env wait_until =
     (if wait_until = ''none'' then returns (ret ())
      else if wait_until = ''domcontentloaded'' then
        poll_for env 15000 100 (ready_probe [''interactive'', ''complete'']) ()
      else if wait_until = ''networkidle'' then
        and_run (poll_for env 15000 100 (ready_probe [''complete'']) ()) (\<lambda>_. returns (sleep 500))
      else poll_for env 15000 100 (ready_probe [''complete'']) ())"

definition goto_report :: "mcp_env \<Rightarrow> string \<Rightarrow> supervisor \<Rightarrow> (mcp_error, string \<times> supervisor) prog" where
  "goto_report env url sv =
     seq (attempt enable_console_capture) (\<lambda>_.
     seq (attempt get_page_info) (\<lambda>r.
     let page = (case r of Ok info \<Rightarrow> info | _ \<Rightarrow> JNull) in
     seq (record_action env ''navigate'' url (''Navigated to '' @ url) sv) (\<lambda>sv'.
     ret (''Navigated to '' @ field_or url as_str ''url'' page @ LF # ''Title: '' @ field_or [] as_str ''title'' page, sv'))))"

definition nav_helper_goto ::
  "mcp_env \<Rightarrow> string \<Rightarrow> string option \<Rightarrow> supervisor \<Rightarrow> (string \<times> supervisor) run" where
  "nav_helper_goto env url wait_until sv =
     and_run (returns (with_err internal (sup_navigate url))) (\<lambda>_.
     and_run (await_ready env (or_default ''load'' wait_until)) (\<lambda>_.
     returns (goto_report env url sv)))"

definition nav_helper_back :: "supervisor \<Rightarrow> (mcp_error, string \<times> supervisor) prog" where
  "nav_helper_back sv =
     seq (mcp_js ''history.back()'') (\<lambda>_.
     seq (sleep 100) (\<lambda>_. ret (''Navigated back in history.'', sv)))"

definition nav_helper_forward :: "supervisor \<Rightarrow> (mcp_error, string \<times> supervisor) prog" where
  "nav_helper_forward sv =
     seq (mcp_js ''history.forward()'') (\<lambda>_.
     seq (sleep 100) (\<lambda>_. ret (''Navigated forward in history.'', sv)))"

definition nav_helper_reload :: "supervisor \<Rightarrow> (mcp_error, string \<times> supervisor) prog" where
  "nav_helper_reload sv =
     seq (mcp_command ''Page.reload'' (JObj [(''ignoreCache'', JBool False)])) (\<lambda>_.
     ret (''Page reload initiated.'', sv))"

record navigate_params =
  np_action :: string
  np_url :: "string option"
  np_wait_until :: "string option"

definition navigate_body ::
  "mcp_env \<Rightarrow> navigate_params \<Rightarrow> mcp_error + (supervisor \<Rightarrow> (string \<times> supervisor) run)" where
  "navigate_body env p =
     (if np_action p = ''back'' then Inr (\<lambda>sv. returns (nav_helper_back sv))
      else if np_action p = ''forward'' then Inr (\<lambda>sv. returns (nav_helper_forward sv))
      else if np_action p = ''reload'' then Inr (\<lambda>sv. returns (nav_helper_reload sv))
      else
        (case np_url p of
           None \<Rightarrow> Inl (Invalid_Params (''url is required for action='' @ quoted ''goto''))
         | Some url \<Rightarrow> Inr (nav_helper_goto env url (np_wait_until p))))"

definition vscreen_navigate ::
  "mcp_env \<Rightarrow> instance_id \<Rightarrow> navigate_params \<Rightarrow> app_state \<Rightarrow> browser \<Rightarrow> browser_event list
     \<Rightarrow> (app_state \<times> (mcp_error, string) outcome \<times> browser_event list) option" where
  "vscreen_navigate env i p st br es =
     (case navigate_body env p of
        Inl e \<Rightarrow> Some (st, Err e, es)
      | Inr body \<Rightarrow> run_tool env Exclusive i None body st br es)"

subsection \<open>Waiting\<close>

definition timed_out :: "u64 \<Rightarrow> string" where
  "timed_out timeout = ''Timed out after '' @ show_word timeout @ ''ms''"

definition wait_helper_idle :: "mcp_env \<Rightarrow> u64 \<Rightarrow> string run" where
  "wait_helper_idle env timeout =
     poll_for env (unat timeout) 200
       (seq (mcp_js ''document.readyState'') (\<lambda>v.
        ret (if as_str v = Some ''complete'' then Some ''Page is idle (readyState=complete)'' else None)))
       (timed_out timeout @ '' (readyState not complete)'')"

definition wait_helper_text :: "mcp_env \<Rightarrow> string \<Rightarrow> u64 \<Rightarrow> u64 \<Rightarrow> string run" where
  "wait_helper_text env txt timeout interval = (\<lambda>br.
     poll_for env (unat timeout) (unat interval)
       (true_probe (''document.body.innerText.includes('' @ br_json_string br txt @ '')'')
         (''Text '' @ quoted txt @ '' found on page.''))
       (timed_out timeout @ '' waiting for text '' @ quoted txt @ ''.'') br)"

definition selector_js :: "browser \<Rightarrow> string \<Rightarrow> bool \<Rightarrow> string" where
  "selector_js br selector visible =
     (let sel = br_json_string br selector in
      if visible then
        ''(function() { const el = document.querySelector('' @ sel @ ''); if (!el) return false; const r = el.getBoundingClientRect(); return r.width > 0 && r.height > 0 && window.getComputedStyle(el).visibility !== 'hidden'; })()''
      else ''!!document.querySelector('' @ sel @ '')'')"

definition wait_helper_selector :: "mcp_env \<Rightarrow> string \<Rightarrow> bool \<Rightarrow> u64 \<Rightarrow> u64 \<Rightarrow> string run" where
  "wait_helper_selector env selector visible timeout interval = (\<lambda>br.
     poll_for env (unat timeout) (unat interval)
       (true_probe (selector_js br selector visible) (''Selector '' @ quoted selector @ '' found on page.''))
       (timed_out timeout @ '' waiting for selector '' @ quoted selector @ ''.'') br)"

definition wait_helper_url :: "mcp_env \<Rightarrow> string \<Rightarrow> u64 \<Rightarrow> string run" where
  "wait_helper_url env part timeout =
     poll_for env (unat timeout) 250
       (seq (mcp_js ''location.href'') (\<lambda>v.
        ret (case as_str v of
               Some url \<Rightarrow>
                 if str_contains part url then Some (''URL now contains '' @ quoted part @ '': '' @ url) else None
             | None \<Rightarrow> None)))
       (timed_out timeout @ '' waiting for URL to contain '' @ quoted part @ ''.'')"

definition net_monitor_js :: string where
  "net_monitor_js = (join_lines
        [''(function() {'',
         ''    if (!window.__vscreen_net_mon) {'',
         ''        window.__vscreen_net_mon = { pending: 0, lastActivity: Date.now() };'',
         ''        const orig_fetch = window.fetch;'',
         ''        window.fetch = function() {'',
         ''            window.__vscreen_net_mon.pending++;'',
         ''            window.__vscreen_net_mon.lastActivity = Date.now();'',
         ''            return orig_fetch.apply(this, arguments).finally(() => {'',
         ''                window.__vscreen_net_mon.pending--;'',
         ''                window.__vscreen_net_mon.lastActivity = Date.now();'',
         ''            });'',
         ''        };'',
         ''        const orig_open = XMLHttpRequest.prototype.open;'',
         ''        const orig_send = XMLHttpRequest.prototype.send;'',
         ''        XMLHttpRequest.prototype.open = function() { return orig_open.apply(this, arguments); };'',
         ''        XMLHttpRequest.prototype.send = function() {'',
         ''            window.__vscreen_net_mon.pending++;'',
         ''            window.__vscreen_net_mon.lastActivity = Date.now();'',
         ''            this.addEventListener('loadend', () => {'',
         ''                window.__vscreen_net_mon.pending--;'',
         ''                window.__vscreen_net_mon.lastActivity = Date.now();'',
         ''            });'',
         ''            return orig_send.apply(this, arguments);'',
         ''        };'',
         ''    }'',
         ''    return 'ok';'',
         ''})()''])"

definition network_probe :: "u64 \<Rightarrow> (mcp_error, string option) prog" where
  "network_probe idle = (\<lambda>br.
     seq (mcp_js ''JSON.stringify(window.__vscreen_net_mon || {pending:0,lastActivity:0})'') (\<lambda>result.
     case parse_json br (text_or ''{}'' result) of
       Ok info \<Rightarrow>
         seq (mcp_js ''Date.now()'') (\<lambda>now.
         ret (if field_or 0 as_i64 ''pending'' info = 0 \<and>
                of_nat (unat idle) \<le> or_default 0 (as_f64 now) - field_or 0 as_f64 ''lastActivity'' info
              then Some (''Network idle for '' @ show_word idle @ ''ms (0 pending requests).'') else None))
     | _ \<Rightarrow> ret None) br)"

definition wait_helper_network :: "mcp_env \<Rightarrow> u64 \<Rightarrow> u64 \<Rightarrow> string run" where
  "wait_helper_network env idle timeout = (\<lambda>br es.
     and_run (returns (mcp_js net_monitor_js)) (\<lambda>_. \<lambda>br es'.
       poll (me_clock env) (me_clock env es + unat timeout) 200 (network_probe idle)
         (timed_out timeout @ '' waiting for network idle.'') br es') br es)"

record wait_params =
  wp_condition :: string
  wp_duration_ms :: "u64 option"
  wp_text :: "string option"
  wp_selector :: "string option"
  wp_visible :: bool
  wp_url_contains :: "string option"
  wp_timeout_ms :: "u64 option"
  wp_interval_ms :: "u64 option"
  wp_idle_ms :: "u64 option"

datatype wait_kind = No_Lock nat string | Ask "string run"

text \<open>\<open>vscreen_wait\<close> up to the lock: an error, a pause with its answer, or a loop for an instance.\<close>

definition wait_body :: "mcp_env \<Rightarrow> instance_id option \<Rightarrow> wait_params \<Rightarrow> mcp_error + wait_kind" where
  "wait_body env i p =
     (let c = wp_condition p;
          missing = (\<lambda>what. Inl (Invalid_Params (what @ '' required for condition='' @ quoted c)));
          timeout = or_default 10000 (wp_timeout_ms p); interval = or_default 250 (wp_interval_ms p)
      in if c \<in> {''idle'', ''text'', ''selector'', ''url'', ''network''} \<and> i = None then missing ''instance_id''
         else if c = ''idle'' then Inr (Ask (wait_helper_idle env (or_default 5000 (wp_timeout_ms p))))
         else if c = ''text'' then
           (case wp_text p of
              None \<Rightarrow> missing ''text''
            | Some t \<Rightarrow> Inr (Ask (wait_helper_text env t timeout interval)))
         else if c = ''selector'' then
           (case wp_selector p of
              None \<Rightarrow> missing ''selector''
            | Some s \<Rightarrow> Inr (Ask (wait_helper_selector env s (wp_visible p) timeout interval)))
         else if c = ''url'' then
           (case wp_url_contains p of
              None \<Rightarrow> missing ''url_contains''
            | Some u \<Rightarrow> Inr (Ask (wait_helper_url env u timeout)))
         else if c = ''network'' then
           Inr (Ask (wait_helper_network env (or_default 500 (wp_idle_ms p)) timeout))
         else
           (let ms = or_default 1000 (wp_duration_ms p) in
            Inr (No_Lock (unat ms) (''Waited '' @ show_word ms @ ''ms''))))"

definition vscreen_wait ::
  "mcp_env \<Rightarrow> instance_id option \<Rightarrow> wait_params \<Rightarrow> app_state \<Rightarrow> browser \<Rightarrow> browser_event list
     \<Rightarrow> (app_state \<times> (mcp_error, string) outcome \<times> browser_event list) option" where
  "vscreen_wait env i p st br es =
     (case wait_body env i p of
        Inl e \<Rightarrow> Some (st, Err e, es)
      | Inr (No_Lock ms msg) \<Rightarrow> Some (st, Ok msg, es @ [Sleep ms])
      | Inr (Ask loop) \<Rightarrow>
          run_tool env Observer (or_default [] i) None
            (\<lambda>sv. and_run loop (\<lambda>msg. returns (ret (msg, sv)))) st br es)"

subsection \<open>Locks\<close>

interpretation navigate_tool: tool_family vscreen_navigate "\<lambda>_. Exclusive"
  by unfold_locales (auto simp: vscreen_navigate_def split: sum.splits)

interpretation wait_tool: tool_family "\<lambda>env i. vscreen_wait env (Some i)" "\<lambda>_. Observer"
  by unfold_locales (auto simp: vscreen_wait_def acts_def split: sum.splits wait_kind.splits)

subsection \<open>Every wait ends\<close>

lemma clock_append:
  fixes clock :: "browser_event list \<Rightarrow> nat"
  assumes "\<forall>es e. clock es \<le> clock (es @ [e])"
  shows "clock es \<le> clock (es @ xs)"
proof (induction xs rule: rev_induct)
  case (snoc x xs)
  have "clock (es @ xs) \<le> clock ((es @ xs) @ [x])" using assms by blast
  with snoc show ?case by simp
qed simp

lemma rounds_left:
  fixes a b d n :: nat
  assumes "a < d" and "a + n \<le> b" and "0 < n"
  shows "Suc ((d - b + (n - 1)) div n) \<le> (d - a + (n - 1)) div n"
proof (cases "d \<le> b")
  case True
  have "n \<le> d - a + (n - 1)" using assms(1,3) by simp
  then have "n div n \<le> (d - a + (n - 1)) div n" by (rule div_le_mono)
  then show ?thesis using True assms(3) by simp
next
  case False
  then have "(d - b + (n - 1)) + n \<le> d - a + (n - 1)" using assms(2) by simp
  then have "((d - b + (n - 1)) + n) div n \<le> (d - a + (n - 1)) div n" by (rule div_le_mono)
  moreover have "((d - b + (n - 1)) + n) div n = Suc ((d - b + (n - 1)) div n)"
    using assms(3) by (subst div_add_self2) simp_all
  ultimately show ?thesis by (simp only:)
qed

definition asks :: "nat \<Rightarrow> browser \<Rightarrow> (mcp_error, 'a) prog \<Rightarrow> bool" where
  "asks k br m \<longleftrightarrow> (\<forall>es. \<exists>r xs. m br es = (r, es @ xs) \<and> r \<noteq> Panic \<and> evaluations xs \<le> k)"

lemma poll_ends:
  assumes mono: "\<forall>es e. clock es \<le> clock (es @ [e])" and sleeps: "\<forall>es n. clock es + n \<le> clock (es @ [Sleep n])"
    and n: "0 < n" and probe: "asks k br probe"
  shows "\<exists>r xs. poll clock d n probe late br es = Some (r, es @ xs) \<and> r \<noteq> Panic \<and>
    evaluations xs \<le> k * Suc ((d - clock es + (n - 1)) div n)"
proof (induction "d - clock es" arbitrary: es rule: less_induct)
  case less
  obtain r xs where p: "probe br es = (r, es @ xs)" "r \<noteq> Panic" "evaluations xs \<le> k"
    using probe unfolding asks_def by blast
  have c: "clock es \<le> clock (es @ xs)" by (rule clock_append [OF mono])
  show ?case
  proof (cases "r = Ok None \<and> clock (es @ xs) < d")
    case True
    let ?es = "(es @ xs) @ [Sleep n]"
    have s: "clock es + n \<le> clock ?es" using sleeps c by (meson add_le_mono1 le_trans)
    then have "d - clock ?es < d - clock es" using True c n by (intro diff_less_mono2) linarith+
    from less [OF this] obtain q ys where q: "poll clock d n probe late br ?es = Some (q, ?es @ ys)" "q \<noteq> Panic"
        "evaluations ys \<le> k * Suc ((d - clock ?es + (n - 1)) div n)"
      by blast
    have "Suc ((d - clock ?es + (n - 1)) div n) \<le> (d - clock es + (n - 1)) div n"
      using rounds_left [OF _ s n] True c by simp
    then have "k * Suc ((d - clock ?es + (n - 1)) div n) \<le> k * ((d - clock es + (n - 1)) div n)" by (rule mult_le_mono2)
    then have "evaluations (xs @ Sleep n # ys) \<le> k * Suc ((d - clock es + (n - 1)) div n)"
      using p(3) q(3) by simp
    moreover have "poll clock d n probe late br es = Some (q, es @ xs @ Sleep n # ys)"
      using p True q(1) by (simp add: poll.simps [of clock d n probe late br es])
    ultimately show ?thesis using q(2) by blast
  next
    case False
    have "k \<le> k * Suc ((d - clock es + (n - 1)) div n)" by simp
    then have "evaluations xs \<le> k * Suc ((d - clock es + (n - 1)) div n)" using p(3) by linarith
    with False p show ?thesis
      by (cases r) (auto simp: poll.simps [of clock d n probe late br es] not_less split: option.splits)
  qed
qed

text \<open>A loop returns what its last question gave, and gives up only at the deadline.\<close>

lemma poll_result:
  fixes late :: 'a
  assumes "poll clock d n probe late br es = Some (r, es')"
  obtains es1 where "snd (probe br es1) = es'"
    "case fst (probe br es1) of
       Ok (Some a) \<Rightarrow> r = Ok a
     | Ok None \<Rightarrow> r = Ok late \<and> d \<le> clock es'
     | Err e \<Rightarrow> r = Err e
     | Panic \<Rightarrow> r = Panic"
proof -
  define P where "P = (\<lambda>(clock :: browser_event list \<Rightarrow> nat) d (probe :: (mcp_error, 'a option) prog) late br y. \<exists>es1. snd (probe br es1) = snd y \<and>
     (case fst (probe br es1) of
        Ok (Some a) \<Rightarrow> fst y = Ok a
      | Ok None \<Rightarrow> fst y = Ok late \<and> d \<le> clock (snd y)
      | Err e \<Rightarrow> fst y = Err e
      | Panic \<Rightarrow> fst y = Panic))"
  have "P clock d probe late br (r, es')"
  proof (rule poll.raw_induct [of "\<lambda>clock d n probe late br es y. P clock d probe late br y", OF _ assms])
    fix rec clock d n probe late br es y
    assume IH: "\<And>clock d n probe late br es y. rec clock d n probe late br es = Some y \<Longrightarrow> P clock d probe late br y"
      and step: "(case probe br es of
        (Ok (Some r), es1) \<Rightarrow> Some (Ok r, es1)
      | (Ok None, es1) \<Rightarrow>
          (if d \<le> clock es1 then Some (Ok late, es1)
           else rec clock d n probe late br (es1 @ [Sleep n]))
      | (Err e, es1) \<Rightarrow> Some (Err e, es1)
      | (Panic, es1) \<Rightarrow> Some (Panic, es1)) = Some y"
    show "P clock d probe late br y"
    proof (cases "fst (probe br es) = Ok None \<and> \<not> d \<le> clock (snd (probe br es))")
      case True
      then show ?thesis using step IH by (auto split: prod.splits)
    next
      case False
      then show ?thesis using step unfolding P_def
        by (intro exI [of _ es]) (auto split: prod.splits outcome.splits option.splits if_splits)
    qed
  qed
  then have "\<exists>es1. snd (probe br es1) = es' \<and>
     (case fst (probe br es1) of
        Ok (Some a) \<Rightarrow> r = Ok a
      | Ok None \<Rightarrow> r = Ok late \<and> d \<le> clock es'
      | Err e \<Rightarrow> r = Err e
      | Panic \<Rightarrow> r = Panic)"
    unfolding P_def fst_conv snd_conv .
  then show thesis using that by blast
qed

lemma asks_js:
  assumes "\<And>v. \<exists>q. \<forall>es. f v br es = (Ok q, es)"
  shows "asks 1 br (seq (mcp_js x) f)"
  unfolding asks_def
proof
  fix es
  obtain r where r: "mcp_js x br es = (r, es @ [eval_event x])" "r \<noteq> Panic" by (rule mcp_js_run)
  show "\<exists>r xs. seq (mcp_js x) f br es = (r, es @ xs) \<and> r \<noteq> Panic \<and> evaluations xs \<le> 1"
  proof (cases r)
    case (Ok v)
    obtain q where "f v br (es @ [eval_event x]) = (Ok q, es @ [eval_event x])" using assms by blast
    then show ?thesis using r Ok by auto
  qed (use r in auto)
qed

lemma asks_ready: "asks 1 br (ready_probe states)"
  unfolding asks_def
proof
  fix es
  obtain r where "sup_evaluate_js ''document.readyState'' br es = (r, es @ [eval_event ''document.readyState''])"
      "r \<noteq> Panic" by (rule sup_evaluate_run)
  then show "\<exists>r xs. ready_probe states br es = (r, es @ xs) \<and> r \<noteq> Panic \<and> evaluations xs \<le> 1"
    by (cases r) (auto simp: ready_probe_def attempt_def seq_def ret_def)
qed

lemma asks_mono: "asks k br m \<Longrightarrow> k \<le> l \<Longrightarrow> asks l br m"
  unfolding asks_def by (meson le_trans)

lemma asks_network: "asks 2 br (network_probe idle)"
  unfolding asks_def
proof
  fix es
  let ?x = "''JSON.stringify(window.__vscreen_net_mon || {pending:0,lastActivity:0})''"
  obtain r where r: "mcp_js ?x br es = (r, es @ [eval_event ?x])" "r \<noteq> Panic" by (rule mcp_js_run)
  obtain r' where r': "mcp_js ''Date.now()'' br (es @ [eval_event ?x]) =
      (r', (es @ [eval_event ?x]) @ [eval_event ''Date.now()''])" "r' \<noteq> Panic" by (rule mcp_js_run)
  show "\<exists>r xs. network_probe idle br es = (r, es @ xs) \<and> r \<noteq> Panic \<and> evaluations xs \<le> 2"
    using r r' unfolding network_probe_def
    by (cases r; cases r') (auto simp: seq_def ret_def split: outcome.split)
qed

lemma poll_for_ends:
  assumes "\<forall>es e. me_clock env es \<le> me_clock env (es @ [e])"
    and "\<forall>es n. me_clock env es + n \<le> me_clock env (es @ [Sleep n])"
    and "0 < n" and "asks k br probe"
  shows "\<exists>r xs. poll_for env t n probe late br es = Some (r, es @ xs) \<and> r \<noteq> Panic \<and>
    evaluations xs \<le> k * Suc ((t + (n - 1)) div n)"
  using poll_ends [OF assms, of "me_clock env es + t" late es] by (simp add: poll_for_def)

text \<open>The pause between two questions, and the time a wait has.\<close>

definition wait_pause :: "wait_params \<Rightarrow> nat" where
  "wait_pause p =
     (if wp_condition p \<in> {''text'', ''selector''} then unat (or_default 250 (wp_interval_ms p))
      else if wp_condition p = ''url'' then 250 else 200)"

definition wait_time :: "wait_params \<Rightarrow> nat" where
  "wait_time p = unat (or_default (if wp_condition p = ''idle'' then 5000 else 10000) (wp_timeout_ms p))"

lemma network_wait_ends:
  assumes "\<forall>es e. me_clock env es \<le> me_clock env (es @ [e])"
    and "\<forall>es n. me_clock env es + n \<le> me_clock env (es @ [Sleep n])"
  shows "\<exists>r xs. wait_helper_network env idle timeout br es = Some (r, es @ xs) \<and> r \<noteq> Panic \<and>
    evaluations xs \<le> 2 * Suc ((unat timeout + 199) div 200) + 1"
proof -
  obtain r where r: "mcp_js net_monitor_js br es = (r, es @ [eval_event net_monitor_js])" "r \<noteq> Panic" by (rule mcp_js_run)
  let ?es = "es @ [eval_event net_monitor_js]" and ?d = "me_clock env es + unat timeout"
  obtain q xs where q: "poll (me_clock env) ?d 200 (network_probe idle) (timed_out timeout @ '' waiting for network idle.'') br ?es =
        Some (q, ?es @ xs)" "q \<noteq> Panic" "evaluations xs \<le> 2 * Suc ((?d - me_clock env ?es + (200 - 1)) div 200)"
    using poll_ends [OF assms _ asks_network [of br idle], where n = 200 and d = ?d and es = ?es
        and late = "timed_out timeout @ '' waiting for network idle.''"] by auto
  have "me_clock env es \<le> me_clock env ?es" using assms(1) by blast
  then have "?d - me_clock env ?es + (200 - 1) \<le> unat timeout + 199" by simp
  then have "(?d - me_clock env ?es + (200 - 1)) div 200 \<le> (unat timeout + 199) div 200" by (rule div_le_mono)
  then have "evaluations xs \<le> 2 * Suc ((unat timeout + 199) div 200)" using q(3) by (meson Suc_le_mono le_trans mult_le_mono2)
  then show ?thesis using r q(1,2)
    by (cases r) (auto simp: wait_helper_network_def and_run_def returns_def)
qed

lemma wait_body_cases:
  assumes "wait_body env i p = Inr (Ask loop)"
  obtains (idle) "wp_condition p = ''idle''" "loop = wait_helper_idle env (or_default 5000 (wp_timeout_ms p))"
    | (words) t where "wp_condition p = ''text''"
        "loop = wait_helper_text env t (or_default 10000 (wp_timeout_ms p)) (or_default 250 (wp_interval_ms p))"
    | (selector) x where "wp_condition p = ''selector''"
        "loop = wait_helper_selector env x (wp_visible p) (or_default 10000 (wp_timeout_ms p)) (or_default 250 (wp_interval_ms p))"
    | (url) u where "wp_condition p = ''url''" "loop = wait_helper_url env u (or_default 10000 (wp_timeout_ms p))"
    | (network) "wp_condition p = ''network''"
        "loop = wait_helper_network env (or_default 500 (wp_idle_ms p)) (or_default 10000 (wp_timeout_ms p))"
proof -
  consider (a) "wp_condition p = ''idle''" | (b) "wp_condition p = ''text''" | (c) "wp_condition p = ''selector''"
    | (d) "wp_condition p = ''url''" | (e) "wp_condition p = ''network''"
    | (f) "wp_condition p \<notin> {''idle'', ''text'', ''selector'', ''url'', ''network''}" by blast
  then show thesis
  proof cases
    case a
    then show thesis using assms idle by (cases i) (simp_all add: wait_body_def)
  next
    case b
    then show thesis using assms words by (cases i; cases "wp_text p") (auto simp: wait_body_def)
  next
    case c
    then show thesis using assms selector by (cases i; cases "wp_selector p") (auto simp: wait_body_def)
  next
    case d
    then show thesis using assms url by (cases i; cases "wp_url_contains p") (auto simp: wait_body_def)
  next
    case e
    then show thesis using assms network by (cases i) (simp_all add: wait_body_def)
  next
    case f
    then show thesis using assms by (simp add: wait_body_def Let_def)
  qed
qed

text \<open>C36: Every wait ends. For each condition the loop returns, without a panic, after at most the
  number of questions its time allows at its pause (the network condition asks twice a turn and
  once before), if the clock does not run backwards, a pause takes as long as it was asked to,
  and the caller has not set the pause to zero; and a navigation waits for its page without
  failing, with at most 151 questions.\<close>

theorem waits_end:
  assumes "\<forall>es e. me_clock env es \<le> me_clock env (es @ [e])"
    and "\<forall>es n. me_clock env es + n \<le> me_clock env (es @ [Sleep n])"
    and "wp_interval_ms p \<noteq> Some 0"
    and "wait_body env i p = Inr (Ask loop)"
  shows "(\<exists>r xs. loop br es = Some (r, es @ xs) \<and> r \<noteq> Panic \<and>
      evaluations xs \<le> 2 * Suc ((wait_time p + (wait_pause p - 1)) div wait_pause p) + 1) \<and>
    (\<exists>xs. await_ready env w br es = Some (Ok (), es @ xs) \<and> evaluations xs \<le> 151)"
proof
  note poll1 = poll_for_ends [OF assms(1,2), where k = 1, unfolded mult_1]
  have pos: "0 < unat (or_default 250 (wp_interval_ms p))"
    using assms(3) by (cases "wp_interval_ms p") (simp_all add: unat_gt_0)
  have js: "asks 1 br (seq (mcp_js x) (\<lambda>v. ret (f v)))" for x and f :: "json \<Rightarrow> string option"
    by (rule asks_js) (simp add: ret_def)
  have one: "\<exists>r xs. loop br es = Some (r, es @ xs) \<and> r \<noteq> Panic \<and> evaluations xs \<le> 2 * Suc m + 1"
    if "\<exists>r xs. loop br es = Some (r, es @ xs) \<and> r \<noteq> Panic \<and> evaluations xs \<le> Suc m" for m
  proof -
    from that obtain r xs where "loop br es = Some (r, es @ xs)" "r \<noteq> Panic" "evaluations xs \<le> Suc m" by blast
    moreover from this have "evaluations xs \<le> 2 * Suc m + 1" by simp
    ultimately show ?thesis by blast
  qed
  have asked: "asks 1 br (true_probe x a)" for x and a :: string unfolding true_probe_def by (rule js)
  from assms(4) show "\<exists>r xs. loop br es = Some (r, es @ xs) \<and> r \<noteq> Panic \<and>
      evaluations xs \<le> 2 * Suc ((wait_time p + (wait_pause p - 1)) div wait_pause p) + 1"
  proof (cases rule: wait_body_cases)
    case idle
    show ?thesis by (rule one, simp add: idle wait_helper_idle_def wait_pause_def wait_time_def, rule poll1 [where n = 200, OF _ js, simplified])
  next
    case (words t)
    show ?thesis by (rule one, simp add: words wait_helper_text_def wait_pause_def wait_time_def, rule poll1 [OF pos asked, simplified])
  next
    case (selector x)
    show ?thesis by (rule one, simp add: selector wait_helper_selector_def wait_pause_def wait_time_def, rule poll1 [OF pos asked, simplified])
  next
    case (url u)
    show ?thesis by (rule one, simp add: url wait_helper_url_def wait_pause_def wait_time_def, rule poll1 [where n = 250, OF _ js, simplified])
  next
    case network
    show ?thesis
      using network_wait_ends [OF assms(1,2), of "or_default 500 (wp_idle_ms p)" "or_default 10000 (wp_timeout_ms p)" br es]
      by (simp add: network wait_pause_def wait_time_def)
  qed
next
  have ok: "\<exists>xs. poll_for env 15000 100 (ready_probe states) () br es = Some (Ok (), es @ xs) \<and> evaluations xs \<le> 151" for states
  proof -
    obtain r xs where p: "poll_for env 15000 100 (ready_probe states) () br es = Some (r, es @ xs)" "evaluations xs \<le> 151"
      using poll_for_ends [OF assms(1,2) _ asks_ready [of br states], where n = 100 and t = 15000 and late = "()" and es = es] by auto
    obtain es1 where "case fst (ready_probe states br es1) of
         Ok (Some a) \<Rightarrow> r = Ok a
       | Ok None \<Rightarrow> r = Ok () \<and> me_clock env es + 15000 \<le> me_clock env (es @ xs)
       | Err e \<Rightarrow> r = Err e
       | Panic \<Rightarrow> r = Panic"
      using p(1) unfolding poll_for_def by (rule poll_result)
    moreover have "\<exists>q. fst (ready_probe states br es1) = Ok q"
      by (rule sup_evaluate_run [of "''document.readyState''" br es1])
        (auto simp: ready_probe_def attempt_def seq_def ret_def split: outcome.splits)
    ultimately show ?thesis using p by (auto split: option.splits)
  qed
  obtain xs ys where p: "poll_for env 15000 100 (ready_probe [''complete'']) () br es = Some (Ok (), es @ xs)"
      "poll_for env 15000 100 (ready_probe [''interactive'', ''complete'']) () br es = Some (Ok (), es @ ys)"
      "evaluations xs \<le> 151" "evaluations ys \<le> 151"
    using ok by meson
  consider "w = ''none''" | "w = ''domcontentloaded''" | "w = ''networkidle''"
    | "w \<notin> {''none'', ''domcontentloaded'', ''networkidle''}" by blast
  then show "\<exists>xs. await_ready env w br es = Some (Ok (), es @ xs) \<and> evaluations xs \<le> 151"
  proof cases
    case 1
    then show ?thesis by (intro exI [of _ "[]"]) (simp add: await_ready_def returns_def ret_def)
  next
    case 2
    then show ?thesis using p by (intro exI [of _ ys]) (simp add: await_ready_def)
  next
    case 3
    then show ?thesis using p
      by (intro exI [of _ "xs @ [Sleep 500]"]) (simp add: await_ready_def and_run_def returns_def sleep_def)
  next
    case 4
    then show ?thesis using p by (intro exI [of _ xs]) (simp add: await_ready_def)
  qed
qed

text \<open>A clock that only pauses move.\<close>

lemma waits_end_witness:
  "\<exists>loop r es'. wait_body (example_mcp\<lparr>me_clock := slept\<rparr>) (Some ''dev'')
       \<lparr>wp_condition = ''text'', wp_duration_ms = None, wp_text = Some ''ok'', wp_selector = None, wp_visible = False,
        wp_url_contains = None, wp_timeout_ms = Some 1000, wp_interval_ms = None, wp_idle_ms = None\<rparr> = Inr (Ask loop) \<and>
     loop (quiet_browser JNull) [] = Some (r, es') \<and> evaluations es' \<le> 11"
proof -
  let ?env = "example_mcp\<lparr>me_clock := slept\<rparr>"
  let ?p = "\<lparr>wp_condition = ''text'', wp_duration_ms = None, wp_text = Some ''ok'', wp_selector = None, wp_visible = False,
        wp_url_contains = None, wp_timeout_ms = Some 1000, wp_interval_ms = None, wp_idle_ms = None\<rparr>"
  have clock: "\<forall>es e. me_clock ?env es \<le> me_clock ?env (es @ [e])" "\<forall>es n. me_clock ?env es + n \<le> me_clock ?env (es @ [Sleep n])"
    by simp_all
  have body: "wait_body ?env (Some ''dev'') ?p = Inr (Ask (wait_helper_text ?env ''ok'' 1000 250))"
    by (simp add: wait_body_def Let_def)
  have bounds: "wait_time ?p = 1000" "wait_pause ?p = 250" by (simp_all add: wait_time_def wait_pause_def)
  have "wp_interval_ms ?p \<noteq> Some 0" by simp
  from waits_end [OF clock this body, of "quiet_browser JNull" "[]" "''load''"]
  obtain r xs where "wait_helper_text ?env ''ok'' 1000 250 (quiet_browser JNull) [] = Some (r, xs)" "evaluations xs \<le> 11"
    unfolding bounds by auto
  with body show ?thesis by blast
qed

text \<open>What a wait for a text answers. It reports the text exactly if the page said true to its last
  question, and a time-out only if the page did not and the time asked for has passed since the
  wait began.\<close>

theorem text_wait_answers:
  assumes "wait_helper_text env txt timeout interval br es = Some (Ok msg, es')"
  shows "\<exists>es1 v. mcp_js (''document.body.innerText.includes('' @ br_json_string br txt @ '')'') br es1 = (Ok v, es') \<and>
    (as_bool v = Some True \<and> msg = ''Text '' @ quoted txt @ '' found on page.'' \<or>
     as_bool v \<noteq> Some True \<and> msg = timed_out timeout @ '' waiting for text '' @ quoted txt @ ''.'' \<and>
       me_clock env es + unat timeout \<le> me_clock env es')"
proof -
  let ?js = "''document.body.innerText.includes('' @ br_json_string br txt @ '')''"
  let ?found = "''Text '' @ quoted txt @ '' found on page.''"
  from assms obtain es1 where e: "snd (true_probe ?js ?found br es1) = es'"
    "case fst (true_probe ?js ?found br es1) of
       Ok (Some a) \<Rightarrow> Ok msg = (Ok a :: (mcp_error, string) outcome)
     | Ok None \<Rightarrow> Ok msg = (Ok (timed_out timeout @ '' waiting for text '' @ quoted txt @ ''.'') :: (mcp_error, string) outcome) \<and>
         me_clock env es + unat timeout \<le> me_clock env es'
     | Err e \<Rightarrow> Ok msg = Err e
     | Panic \<Rightarrow> Ok msg = (Panic :: (mcp_error, string) outcome)"
    unfolding wait_helper_text_def poll_for_def by (rule poll_result)
  obtain r where r: "mcp_js ?js br es1 = (r, es1 @ [eval_event ?js])" "r \<noteq> Panic" by (rule mcp_js_run)
  show ?thesis
  proof (cases r)
    case (Ok v)
    then have "true_probe ?js ?found br es1 = (Ok (if as_bool v = Some True then Some ?found else None), es1 @ [eval_event ?js])"
      using r unfolding true_probe_def by (simp add: ret_def)
    then show ?thesis using e r Ok by (intro exI [of _ es1] exI [of _ v]) (auto split: if_splits)
  next
    case (Err x)
    then have "true_probe ?js ?found br es1 = (Err x, es1 @ [eval_event ?js])"
      using r unfolding true_probe_def by simp
    then show ?thesis using e by simp
  qed (use r in simp)
qed

lemma quiet_js: "mcp_js x (quiet_browser JNull) es = (Ok JNull, es @ [eval_event x])"
  by (simp add: mcp_js_def sup_evaluate_js_def cdp_evaluate_js_def seq_def call_and_wait_def
    quiet_browser_def evaluation_result_def eval_event_def with_err_def)

lemma text_wait_answers_witness:
  "\<exists>msg es'. wait_helper_text example_mcp ''ok'' 0 250 (quiet_browser JNull) [] = Some (Ok msg, es') \<and>
     msg = timed_out 0 @ '' waiting for text '' @ quoted ''ok'' @ ''.''"
proof -
  obtain msg es' where run: "wait_helper_text example_mcp ''ok'' 0 250 (quiet_browser JNull) [] = Some (Ok msg, es')"
    by (simp add: wait_helper_text_def poll_for_def poll.simps true_probe_def seq_def quiet_js ret_def example_mcp_def)
  from text_wait_answers [OF run] run show ?thesis by (auto simp: quiet_js)
qed


end
