(* ===== verification/Mcp_Session.thy ===== *)
theory Mcp_Session
  imports Mcp_Base
begin

section \<open>Histories, logs and storage for the tools\<close>

text \<open>
  \<open>mcp/session.rs\<close> of \<open>crates/vscreen-server\<close>: the tools that read and clear the screenshot history,
  the action log and the console buffer of an instance, and those that read and write cookies
  and web storage. \<open>session_body\<close> is a tool up to the lock check: an error of its parameters, or
  what it does with the supervisor.
\<close>

subsection \<open>Serialized entries\<close>

definition nat_json :: "nat \<Rightarrow> json" where
  "nat_json n = JInt (int n)"

definition meta_json :: "screenshot_entry_meta \<Rightarrow> json" where
  "meta_json m =
     JObj [(''index'', nat_json (st_index m)), (''timestamp_ms'', word_json (st_timestamp_ms m)),
           (''url'', JStr (st_url m)), (''action_label'', JStr (st_action_label m)),
           (''scroll_y'', JFloat (st_scroll_y m)), (''full_page'', JBool (st_full_page m))]"

definition action_json :: "action_entry \<Rightarrow> json" where
  "action_json e =
     JObj [(''id'', word_json (ae_id e)), (''timestamp_ms'', word_json (ae_timestamp_ms e)),
           (''tool_name'', JStr (ae_tool_name e)), (''params_summary'', JStr (ae_params_summary e)),
           (''result_summary'', JStr (ae_result_summary e)), (''url_before'', JStr (ae_url_before e)),
           (''url_after'', JStr (ae_url_after e)),
           (''screenshot_index'', case ae_screenshot_index e of None \<Rightarrow> JNull | Some i \<Rightarrow> nat_json i)]"

definition console_json :: "console_entry \<Rightarrow> json" where
  "console_json e =
     JObj [(''timestamp_ms'', word_json (co_timestamp_ms e)), (''level'', JStr (co_level e)),
           (''text'', JStr (co_text e))]"

subsection \<open>Screenshot history\<close>

record history_params =
  hq_action :: string
  hq_index :: "nat option"
  hq_from :: "nat option"
  hq_count :: "nat option"

text \<open>A screenshot with its index: the description and the image.\<close>

definition entry_content :: "mcp_env \<Rightarrow> nat \<Rightarrow> screenshot_entry \<Rightarrow> content list" where
  "entry_content env i e =
     [Says (me_json env (JObj [(''index'', nat_json i), (''timestamp_ms'', word_json (se_timestamp_ms e)),
        (''url'', JStr (se_url e)), (''action_label'', JStr (se_action_label e))])),
      Image (me_base64 env (se_data e)) ''image/jpeg'']"

definition history_list_tool :: "mcp_env \<Rightarrow> supervisor \<Rightarrow> (mcp_error, content list \<times> supervisor) prog" where
  "history_list_tool env sv =
     ret ([Says (me_pretty env (JArr (map meta_json (screenshot_list (sv_screenshots sv)))))], sv)"

definition history_get_tool :: "mcp_env \<Rightarrow> nat \<Rightarrow> supervisor \<Rightarrow> (mcp_error, content list \<times> supervisor) prog" where
  "history_get_tool env i sv =
     (case screenshot_get i (sv_screenshots sv) of
        None \<Rightarrow> lift (Err (Invalid_Params (''no screenshot at index '' @ show_nat i)))
      | Some e \<Rightarrow> ret (entry_content env i e, sv))"

definition history_range_tool ::
  "mcp_env \<Rightarrow> nat \<Rightarrow> nat \<Rightarrow> supervisor \<Rightarrow> (mcp_error, content list \<times> supervisor) prog" where
  "history_range_tool env start count sv =
     (let entries = screenshot_get_range start count (sv_screenshots sv) in
      ret (if entries = [] then [Says ''No screenshots in the requested range.'']
           else concat (map (\<lambda>(i, e). entry_content env (start + i) e) (enumerate 0 entries)), sv))"

definition history_clear_tool :: "supervisor \<Rightarrow> (mcp_error, content list \<times> supervisor) prog" where
  "history_clear_tool sv =
     ret ([Says ''Screenshot history cleared.''], sv\<lparr>sv_screenshots := screenshot_clear (sv_screenshots sv)\<rparr>)"

definition vscreen_history ::
  "mcp_env \<Rightarrow> history_params \<Rightarrow> mcp_error + (supervisor \<Rightarrow> (content list \<times> supervisor) run)" where
  "vscreen_history env p =
     (let missing = (\<lambda>what. Inl (Invalid_Params (''action='' @ quoted (hq_action p) @ '' requires '' @ quoted what)))
      in if hq_action p = ''list'' then Inr (\<lambda>sv. returns (history_list_tool env sv))
         else if hq_action p = ''get'' then
           (case hq_index p of
              None \<Rightarrow> missing ''index''
            | Some i \<Rightarrow> Inr (\<lambda>sv. returns (history_get_tool env i sv)))
         else if hq_action p = ''range'' then
           (case (hq_from p, hq_count p) of
              (None, _) \<Rightarrow> missing ''from''
            | (_, None) \<Rightarrow> missing ''count''
            | (Some start, Some count) \<Rightarrow> Inr (\<lambda>sv. returns (history_range_tool env start count sv)))
         else if hq_action p = ''clear'' then Inr (\<lambda>sv. returns (history_clear_tool sv))
         else Inl (Invalid_Params (''unknown action '' @ quoted (hq_action p) @ ''; use '' @ quoted ''list'' @ '', '' @
           quoted ''get'' @ '', '' @ quoted ''range'' @ '', or '' @ quoted ''clear'')))"

subsection \<open>Logs\<close>

definition vscreen_session_log ::
  "mcp_env \<Rightarrow> nat option \<Rightarrow> supervisor \<Rightarrow> (mcp_error, content list \<times> supervisor) prog" where
  "vscreen_session_log env last_n sv =
     (let entries = (case last_n of
        Some n \<Rightarrow> action_last_n n (sv_actions sv)
      | None \<Rightarrow> al_entries (sv_actions sv))
      in ret ([Says (me_pretty env (JArr (map action_json entries)))], sv))"

definition vscreen_session_summary :: "supervisor \<Rightarrow> (mcp_error, content list \<times> supervisor) prog" where
  "vscreen_session_summary sv = ret ([Says (action_summary (sv_actions sv))], sv)"

text \<open>Errors of the two preparing calls are ignored.\<close>

definition vscreen_console_log ::
  "mcp_env \<Rightarrow> string option \<Rightarrow> supervisor \<Rightarrow> (mcp_error, content list \<times> supervisor) prog" where
  "vscreen_console_log env level sv =
     seq (attempt enable_console_capture) (\<lambda>_.
     seq (attempt (sync_console_messages (me_time_ms env) sv)) (\<lambda>r.
     let sv' = (case r of Ok s \<Rightarrow> s | _ \<Rightarrow> sv);
         entries = (case level of
             Some l \<Rightarrow> filter_by_level l (sv_console sv')
           | None \<Rightarrow> cb_entries (sv_console sv'))
     in ret ([Says (me_pretty env (JArr (map console_json entries)))], sv')))"

definition vscreen_console_clear :: "supervisor \<Rightarrow> (mcp_error, content list \<times> supervisor) prog" where
  "vscreen_console_clear sv =
     ret ([Says ''Console buffer cleared.''], sv\<lparr>sv_console := console_clear (sv_console sv)\<rparr>)"

subsection \<open>Cookies and web storage\<close>

record storage_params =
  sp_type :: string
  sp_action :: string
  sp_key :: "string option"
  sp_value :: "string option"
  sp_name :: "string option"
  sp_domain :: "string option"
  sp_path :: "string option"

definition get_cookies :: "mcp_env \<Rightarrow> supervisor \<Rightarrow> (mcp_error, content list \<times> supervisor) prog" where
  "get_cookies env sv =
     seq (with_err internal (send_cdp_command_and_wait ''Network.getCookies'' None)) (\<lambda>result.
     ret ([Says (me_pretty env result)], sv))"

definition set_cookie ::
  "string \<Rightarrow> string \<Rightarrow> string option \<Rightarrow> string option \<Rightarrow> supervisor \<Rightarrow> (mcp_error, content list \<times> supervisor) prog" where
  "set_cookie name value domain path sv =
     (let cookie = JObj [(''name'', JStr name), (''value'', JStr value)];
          add_path = (\<lambda>c. case path of Some p \<Rightarrow> jset ''path'' (JStr p) c | None \<Rightarrow> c);
          send = (\<lambda>c.
            seq (mcp_command ''Network.setCookie'' (add_path c)) (\<lambda>_.
            ret ([Says (''Cookie '' @ quoted name @ '' set.'')], sv)))
      in case domain of
           Some d \<Rightarrow> send (jset ''domain'' (JStr d) cookie)
         | None \<Rightarrow> seq (with_err internal current_url) (\<lambda>url. send (jset ''url'' (JStr url) cookie)))"

definition storage_name :: "string \<Rightarrow> string" where
  "storage_name ty = (if ty = ''session'' then ''sessionStorage'' else ''localStorage'')"

definition get_item :: "mcp_env \<Rightarrow> string \<Rightarrow> string \<Rightarrow> supervisor \<Rightarrow> (mcp_error, content list \<times> supervisor) prog" where
  "get_item env ty key sv = (\<lambda>br.
     seq (mcp_js (storage_name ty @ ''.getItem('' @ br_json_string br key @ '')'')) (\<lambda>result.
     ret ([Says (me_pretty env result)], sv)) br)"

definition set_item :: "string \<Rightarrow> string \<Rightarrow> string \<Rightarrow> supervisor \<Rightarrow> (mcp_error, content list \<times> supervisor) prog" where
  "set_item ty key value sv = (\<lambda>br.
     seq (mcp_js (storage_name ty @ ''.setItem('' @ br_json_string br key @ '', '' @ br_json_string br value @ '')'')) (\<lambda>_.
     ret ([Says (''Stored '' @ quoted key @ ''='' @ quoted value @ '' in '' @ storage_name ty @ ''.'')], sv)) br)"

definition vscreen_storage ::
  "mcp_env \<Rightarrow> storage_params \<Rightarrow> mcp_error + (supervisor \<Rightarrow> (content list \<times> supervisor) run)" where
  "vscreen_storage env p =
     (let web = sp_type p = ''local'' \<or> sp_type p = ''session'';
          missing = (\<lambda>ty what. Inl (Invalid_Params
            (''type='' @ ty @ '' action='' @ quoted (sp_action p) @ '' requires '' @ quoted what)));
          web_type = quoted ''local'' @ ''/'' @ quoted ''session''
      in if sp_type p = ''cookie'' \<and> sp_action p = ''get'' then Inr (\<lambda>sv. returns (get_cookies env sv))
         else if sp_type p = ''cookie'' \<and> sp_action p = ''set'' then
           (case (sp_name p, sp_value p) of
              (None, _) \<Rightarrow> missing (quoted ''cookie'') ''name''
            | (_, None) \<Rightarrow> missing (quoted ''cookie'') ''value''
            | (Some n, Some v) \<Rightarrow> Inr (\<lambda>sv. returns (set_cookie n v (sp_domain p) (sp_path p) sv)))
         else if web \<and> sp_action p = ''get'' then
           (case sp_key p of
              None \<Rightarrow> missing web_type ''key''
            | Some k \<Rightarrow> Inr (\<lambda>sv. returns (get_item env (sp_type p) k sv)))
         else if web \<and> sp_action p = ''set'' then
           (case (sp_key p, sp_value p) of
              (None, _) \<Rightarrow> missing web_type ''key''
            | (_, None) \<Rightarrow> missing web_type ''value''
            | (Some k, Some v) \<Rightarrow> Inr (\<lambda>sv. returns (set_item (sp_type p) k v sv)))
         else Inl (Invalid_Params (''invalid type/action: type must be '' @ quoted ''cookie'' @ '', '' @ quoted ''local'' @
           '', or '' @ quoted ''session'' @ ''; action must be '' @ quoted ''get'' @ '' or '' @ quoted ''set'')))"

subsection \<open>The tools\<close>

datatype session_tool =
    Use_History history_params
  | Read_Log "nat option"
  | Read_Summary
  | Read_Console "string option"
  | Clear_Console
  | Use_Storage storage_params

fun session_lock :: "session_tool \<Rightarrow> lock_type" where
  "session_lock (Use_History p) = (if hq_action p = ''clear'' then Exclusive else Observer)"
| "session_lock Clear_Console = Exclusive"
| "session_lock (Use_Storage p) = (if sp_action p = ''set'' then Exclusive else Observer)"
| "session_lock _ = Observer"

fun session_body ::
  "mcp_env \<Rightarrow> session_tool \<Rightarrow> mcp_error + (supervisor \<Rightarrow> (content list \<times> supervisor) run)" where
  "session_body env (Use_History p) = vscreen_history env p"
| "session_body env (Read_Log n) = Inr (\<lambda>sv. returns (vscreen_session_log env n sv))"
| "session_body env Read_Summary = Inr (\<lambda>sv. returns (vscreen_session_summary sv))"
| "session_body env (Read_Console l) = Inr (\<lambda>sv. returns (vscreen_console_log env l sv))"
| "session_body env Clear_Console = Inr (\<lambda>sv. returns (vscreen_console_clear sv))"
| "session_body env (Use_Storage p) = vscreen_storage env p"

definition call_session_tool ::
  "mcp_env \<Rightarrow> instance_id \<Rightarrow> session_tool \<Rightarrow> app_state \<Rightarrow> browser \<Rightarrow> browser_event list
     \<Rightarrow> (app_state \<times> (mcp_error, content list) outcome \<times> browser_event list) option" where
  "call_session_tool env i t st br es =
     (case session_body env t of
        Inl e \<Rightarrow> Some (st, Err e, es)
      | Inr body \<Rightarrow> run_tool env (session_lock t) i None body st br es)"

interpretation session_tools: tool_family call_session_tool session_lock
  by unfold_locales (auto simp: call_session_tool_def split: sum.splits)

subsection \<open>Ranges of the history\<close>

text \<open>The content a result of one of the history tools holds, if it has one.\<close>

definition content_of :: "('e, content list \<times> supervisor) outcome \<times> 'x \<Rightarrow> content list" where
  "content_of r = (case fst r of Ok (c, _) \<Rightarrow> c | _ \<Rightarrow> [])"

lemma range_entries:
  "screenshot_get_range start count h =
     map (\<lambda>i. sy_entries h ! i) [start..<min (start + count) (length (sy_entries h))]"
  by (rule nth_equalityI) (auto simp: screenshot_get_range_def)

text \<open>Asking for a range of the history is asking for each of its screenshots. The content of a
  range is the contents of \<open>get\<close> for its indices, one after the other, as many as the history
  has; a range that holds none is answered with a text, as \<open>get\<close> refuses each of its indices;
  and neither changes the histories or touches the browser.\<close>

theorem range_is_gets:
  "history_range_tool env start count sv br es =
     (Ok (if count = 0 \<or> length (sy_entries (sv_screenshots sv)) \<le> start
          then [Says ''No screenshots in the requested range.'']
          else concat (map (\<lambda>i. content_of (history_get_tool env i sv br es))
            [start..<min (start + count) (length (sy_entries (sv_screenshots sv)))]), sv), es) \<and>
   (history_get_tool env i sv br es =
     (if i < length (sy_entries (sv_screenshots sv))
      then (Ok (entry_content env i (sy_entries (sv_screenshots sv) ! i), sv), es)
      else (Err (Invalid_Params (''no screenshot at index '' @ show_nat i)), es)))"
proof
  let ?h = "sv_screenshots sv"
  let ?is = "[start..<min (start + count) (length (sy_entries ?h))]"
  have get: "content_of (history_get_tool env i sv br es) = entry_content env i (sy_entries ?h ! i)"
    if "i \<in> set ?is" for i
    using that by (simp add: history_get_tool_def screenshot_get_def content_of_def ret_def)
  have "enumerate 0 (screenshot_get_range start count ?h) = map (\<lambda>i. (i - start, sy_entries ?h ! i)) ?is"
    unfolding range_entries by (rule nth_equalityI) (auto simp: nth_enumerate_eq less_diff_conv add.commute)
  then have "concat (map (\<lambda>(i, e). entry_content env (start + i) e) (enumerate 0 (screenshot_get_range start count ?h))) =
      concat (map (\<lambda>i. content_of (history_get_tool env i sv br es)) ?is)"
    using get by (auto simp: comp_def intro!: arg_cong [where f = concat])
  moreover have "screenshot_get_range start count ?h = [] \<longleftrightarrow> count = 0 \<or> length (sy_entries ?h) \<le> start"
    by (auto simp: screenshot_get_range_def)
  ultimately show "history_range_tool env start count sv br es =
     (Ok (if count = 0 \<or> length (sy_entries ?h) \<le> start then [Says ''No screenshots in the requested range.'']
          else concat (map (\<lambda>i. content_of (history_get_tool env i sv br es)) ?is), sv), es)"
    by (simp add: history_range_tool_def Let_def ret_def)
qed (simp add: history_get_tool_def screenshot_get_def ret_def lift_def)

end
