(* ===== verification/Mcp_Observation.thy ===== *)
theory Mcp_Observation
  imports Mcp_Frames Vision
begin

section \<open>Tools that look at a page\<close>

text \<open>
  \<open>mcp/observation.rs\<close> of \<open>crates/vscreen-server\<close>: screenshots, the search for elements, the text
  and the frames of a page, and the description of elements without a label by the vision
  service. \<open>observe_body\<close> is a tool up to the lock check, as in \<open>Mcp_Session\<close>.
\<close>

subsection \<open>Cutting texts\<close>

text \<open>\<open>&s[..n]\<close>, and \<open>s.truncate(n)\<close> on a longer text: a cut inside a character panics.\<close>

definition cut :: "nat \<Rightarrow> string \<Rightarrow> ('e, string) outcome" where
  "cut n s = (if is_char_boundary s n then Ok (take n s) else Panic)"

definition shorten :: "nat \<Rightarrow> string \<Rightarrow> string \<Rightarrow> ('e, string) outcome" where
  "shorten n rest s = (if n < length s then and_then (cut n s) (\<lambda>p. Ok (p @ rest)) else Ok s)"

text \<open>\<open>serde_json::from_str\<close> for a vector of values.\<close>

definition parse_list :: "browser \<Rightarrow> string \<Rightarrow> json list option" where
  "parse_list br s = (case parse_json br s of Ok (JArr xs) \<Rightarrow> Some xs | _ \<Rightarrow> None)"

definition json_list :: "browser \<Rightarrow> string \<Rightarrow> json list" where
  "json_list br s = or_default [] (parse_list br s)"

subsection \<open>Screenshots\<close>

record screenshot_param =
  xp_format :: string
  xp_quality :: "u32 option"
  xp_full_page :: bool
  xp_clip :: "(rat \<times> rat \<times> rat \<times> rat) option"
  xp_annotate :: bool
  xp_annotate_selector :: "string option"
  xp_sequence_count :: "u32 option"
  xp_sequence_interval_ms :: "u64 option"

definition mime_type :: "string \<Rightarrow> string" where
  "mime_type format =
     (if format = ''jpeg'' then ''image/jpeg'' else if format = ''webp'' then ''image/webp'' else ''image/png'')"

definition do_screenshot_sequence ::
  "mcp_env \<Rightarrow> u32 \<Rightarrow> u64 \<Rightarrow> string \<Rightarrow> u32 option \<Rightarrow> (mcp_error, content list) prog" where
  "do_screenshot_sequence env count interval format quality =
     seq (with_err internal (capture_screenshot_sequence count interval format quality)) (\<lambda>images.
     ret (map (\<lambda>img. Image (me_base64 env img) (mime_type format)) images))"

definition annotate_js :: "string \<Rightarrow> string" where
  "annotate_js sel = (join_lines
        [''(function() {'',
         ''    const els = Array.from(document.querySelectorAll('']) @ sel @ (join_lines
        ['')).slice(0, 40);'',
         ''    const results = [];'',
         ''    const container = document.createElement('div');'',
         ''    container.id = '__vscreen_annotation_overlay__';'',
         ''    container.style.cssText = 'pointer-events:none;position:fixed;top:0;left:0;width:100%;height:100%;z-index:2147483647;';'',
         ''    let idx = 0;'',
         ''    els.forEach(el => {'',
         ''        const r = el.getBoundingClientRect();'',
         ''        if (r.width <= 0 || r.height <= 0) return;'',
         ''        idx++;'',
         ''        const box = document.createElement('div');'',
         ''        box.style.cssText = 'position:fixed;border:2px solid rgba(255,0,0,0.8);pointer-events:none;box-sizing:border-box;'' @ [CHR 0x27],
         ''            + 'left:' + r.left + 'px;top:' + r.top + 'px;width:' + r.width + 'px;height:' + r.height + 'px;';'',
         ''        const lbl = document.createElement('div');'',
         ''        lbl.style.cssText = 'position:absolute;top:-18px;left:-1px;background:rgba(255,0,0,0.9);color:white;'' @ [CHR 0x27],
         ''            + 'font:bold 12px monospace;padding:1px 4px;line-height:16px;white-space:nowrap;';'',
         ''        lbl.textContent = String(idx);'',
         ''        box.appendChild(lbl);'',
         ''        container.appendChild(box);'',
         ''        const ariaLbl = el.getAttribute('aria-label') || '' @ [CHR 0x27, CHR 0x27] @ '';'',
         ''        const elRole = el.getAttribute('role') || '' @ [CHR 0x27, CHR 0x27] @ '';'',
         ''        results.push({'',
         ''            index: idx,'',
         ''            tag: el.tagName.toLowerCase(),'',
         ''            text: (el.innerText || el.value || el.placeholder || ariaLbl || '' @ [CHR 0x27, CHR 0x27] @ '').substring(0, 100).trim(),'',
         ''            ariaLabel: ariaLbl || undefined,'',
         ''            role: elRole || undefined,'',
         ''            x: Math.round(r.left),'',
         ''            y: Math.round(r.top),'',
         ''            width: Math.round(r.width),'',
         ''            height: Math.round(r.height),'',
         ''            page_x: Math.round(r.left + window.scrollX),'',
         ''            page_y: Math.round(r.top + window.scrollY),'',
         ''        });'',
         ''    });'',
         ''    document.body.appendChild(container);'',
         ''    return JSON.stringify(results);'',
         ''})()''])"

definition remove_overlay_js :: string where
  "remove_overlay_js = ''(function(){const o=document.getElementById('__vscreen_annotation_overlay__');if(o)o.remove();})()''"

definition do_screenshot_annotated :: "mcp_env \<Rightarrow> string option \<Rightarrow> (mcp_error, content list) prog" where
  "do_screenshot_annotated env selector = (\<lambda>br.
     seq (mcp_js (annotate_js (br_json_string br (or_default
       ''a, button, input, select, textarea, [role='button'], [onclick], [tabindex]'' selector)))) (\<lambda>elements.
     let legend = (case as_str elements of Some s \<Rightarrow> s | None \<Rightarrow> me_json env elements) in
     seq (with_err internal (sup_capture_screenshot ''png'' None)) (\<lambda>shot.
     seq (attempt (sup_evaluate_js remove_overlay_js)) (\<lambda>_.
     ret [Says (''Annotated screenshot with '' @ show_nat (length (json_list br legend)) @
            '' interactive elements. Red bounding boxes with numbered labels are overlaid on the page. Use the legend below to identify elements by number and get their clickable coordinates (page_x, page_y).''),
          Image (me_base64 env shot) ''image/png'',
          Says (''Element legend:'' @ LF # legend)]))) br)"

definition vscreen_screenshot :: "mcp_env \<Rightarrow> screenshot_param \<Rightarrow> (mcp_error, content list) prog" where
  "vscreen_screenshot env p =
     (case (xp_sequence_count p, xp_sequence_interval_ms p) of
        (Some count, Some interval) \<Rightarrow> do_screenshot_sequence env count interval (xp_format p) (xp_quality p)
      | _ \<Rightarrow>
          if xp_annotate p then do_screenshot_annotated env (xp_annotate_selector p)
          else
            seq (with_err internal
                  (if xp_full_page p then sup_capture_full_page (xp_format p) (xp_quality p)
                   else
                     (case xp_clip p of
                        Some clip \<Rightarrow> sup_capture_clip (xp_format p) (xp_quality p) (Some clip)
                      | None \<Rightarrow> sup_capture_screenshot (xp_format p) (xp_quality p)))) (\<lambda>data.
            ret [Image (me_base64 env data) (mime_type (xp_format p))]))"

subsection \<open>Finding elements\<close>

record find_params =
  fq_by :: string
  fq_selector :: "string option"
  fq_text :: "string option"
  fq_exact :: bool
  fq_include_iframes :: bool
  fq_placeholder :: "string option"
  fq_aria_label :: "string option"
  fq_label :: "string option"
  fq_role :: "string option"
  fq_name :: "string option"
  fq_input_type :: "string option"

text \<open>The results of the main frame with those of its child frames, if they were asked for.\<close>

definition with_frames ::
  "mcp_env \<Rightarrow> bool \<Rightarrow> (json \<Rightarrow> (mcp_error, json list) prog) \<Rightarrow> string \<Rightarrow> (mcp_error, content list) prog" where
  "with_frames env iframes search main =
     (if \<not> iframes then ret [Says main]
      else (\<lambda>br.
        seq (attempt sup_get_frame_tree) (\<lambda>t.
        case t of
          Ok tree \<Rightarrow>
            seq (search tree) (\<lambda>more.
            ret [Says (if more = [] then main else me_json env (JArr (json_list br main @ more)))])
        | _ \<Rightarrow> ret [Says main]) br))"

definition main_text :: "mcp_env \<Rightarrow> json \<Rightarrow> string" where
  "main_text env r = (case as_str r of Some s \<Rightarrow> s | None \<Rightarrow> me_pretty env r)"

definition find_elements_js :: "string \<Rightarrow> string" where
  "find_elements_js sel = ''JSON.stringify(Array.from(document.querySelectorAll('' @ sel @ (join_lines
        ['')).slice(0, 50).map(el => {'',
         ''    const r = el.getBoundingClientRect();'',
         ''    const vis = r.width > 0 && r.height > 0 && window.getComputedStyle(el).visibility !== 'hidden';'',
         ''    let occluded = false;'',
         ''    if (vis) {'',
         ''        const cx = r.left + r.width / 2;'',
         ''        const cy = r.top + r.height / 2;'',
         ''        const top = document.elementFromPoint(cx, cy);'',
         ''        if (top && top !== el && !el.contains(top) && !top.contains(el)) {'',
         ''            occluded = true;'',
         ''        }'',
         ''    }'',
         ''    return {'',
         ''        tag: el.tagName.toLowerCase(),'',
         ''        text: (el.innerText || el.textContent || '' @ [CHR 0x27, CHR 0x27] @ '').substring(0, 200).trim(),'',
         ''        x: Math.round(r.left + r.width / 2 + window.scrollX),'',
         ''        y: Math.round(r.top + r.height / 2 + window.scrollY),'',
         ''        width: Math.round(r.width),'',
         ''        height: Math.round(r.height),'',
         ''        visible: vis,'',
         ''        occluded: occluded,'',
         ''        id: el.id || undefined,'',
         ''        className: el.className || undefined,'',
         ''        href: el.href || undefined,'',
         ''        type: el.type || undefined,'',
         ''        value: el.value || undefined,'',
         ''        placeholder: el.placeholder || undefined,'',
         ''        ariaLabel: el.getAttribute('aria-label') || undefined,'',
         ''        role: el.getAttribute('role') || undefined,'',
         ''        title: el.getAttribute('title') || undefined,'',
         ''        tabIndex: el.tabIndex >= 0 ? el.tabIndex : undefined,'',
         ''        svgContent: (() => { const st = el.querySelector('svg title, svg desc'); return st ? st.textContent.trim() : undefined; })(),'',
         ''    };'',
         ''}))''])"

definition do_find_elements :: "mcp_env \<Rightarrow> string \<Rightarrow> bool \<Rightarrow> (mcp_error, content list) prog" where
  "do_find_elements env selector iframes = (\<lambda>br.
     let sel = br_json_string br selector in
     seq (mcp_js (find_elements_js sel)) (\<lambda>r.
     with_frames env iframes (\<lambda>tree. find_elements_in_frames tree sel) (main_text env r)) br)"

definition find_text_js :: "string \<Rightarrow> bool \<Rightarrow> string" where
  "find_text_js search exact = (let match_fn = frame_match_js search exact in
     (join_lines
        [''JSON.stringify((function() {'',
         ''    const search = '']) @ search @ (join_lines
        ['';'',
         ''    const results = [];'',
         ''    const walker = document.createTreeWalker(document.body, NodeFilter.SHOW_ELEMENT);'',
         ''    let el;'',
         ''    while ((el = walker.nextNode()) && results.length < 30) {'',
         ''        if ('']) @ match_fn @ (join_lines
        ['') {'',
         ''            const r = el.getBoundingClientRect();'',
         ''            if (r.width > 0 && r.height > 0) {'',
         ''                results.push({'',
         ''                    tag: el.tagName.toLowerCase(),'',
         ''                    text: (el.innerText || '' @ [CHR 0x27, CHR 0x27] @ '').substring(0, 200).trim(),'',
         ''                    x: Math.round(r.left + r.width / 2 + window.scrollX),'',
         ''                    y: Math.round(r.top + r.height / 2 + window.scrollY),'',
         ''                    width: Math.round(r.width),'',
         ''                    height: Math.round(r.height),'',
         ''                    id: el.id || undefined,'',
         ''                    className: el.className || undefined,'',
         ''                });'',
         ''            }'',
         ''        }'',
         ''    }'',
         ''    return results;'',
         ''})())'']))"

definition do_find_by_text :: "mcp_env \<Rightarrow> string \<Rightarrow> bool \<Rightarrow> bool \<Rightarrow> (mcp_error, content list) prog" where
  "do_find_by_text env txt exact iframes = (\<lambda>br.
     let search = br_json_string br txt in
     seq (mcp_js (find_text_js search exact)) (\<lambda>r.
     with_frames env iframes (\<lambda>tree. find_text_in_frames tree search exact) (main_text env r)) br)"

text \<open>The conditions, one for each parameter that is given.\<close>

definition input_filters :: "browser \<Rightarrow> find_params \<Rightarrow> string list" where
  "input_filters br p =
     (let given = (\<lambda>f q. case f of None \<Rightarrow> [] | Some x \<Rightarrow> [q (br_json_string br x)]) in
      given (fq_placeholder p) (\<lambda>v. ''(el.placeholder || '' @ [CHR 0x27, CHR 0x27] @ '').toLowerCase().includes('' @ v @ ''.toLowerCase())'') @
      given (fq_aria_label p) (\<lambda>v. ''(el.getAttribute('aria-label') || '' @ [CHR 0x27, CHR 0x27] @ '').toLowerCase().includes('' @ v @ ''.toLowerCase())'') @
      given (fq_role p) (\<lambda>v. ''(el.getAttribute('role') || '' @ [CHR 0x27, CHR 0x27] @ '').toLowerCase() === '' @ v @ ''.toLowerCase()'') @
      given (fq_name p) (\<lambda>v. ''el.name === '' @ v) @
      given (fq_input_type p) (\<lambda>v. ''(el.type || 'text').toLowerCase() === '' @ v @ ''.toLowerCase()''))"

definition label_filter :: "browser \<Rightarrow> find_params \<Rightarrow> string" where
  "label_filter br p =
     (case fq_label p of
        None \<Rightarrow> []
      | Some l \<Rightarrow> (let v = br_json_string br l in
          (join_lines
        [''|| (function() {'',
         ''                    if (el.id) {'',
         ''                        const lbl = document.querySelector('label[for=\"' + el.id + '\"]');'',
         ''                        if (lbl && (lbl.innerText || '' @ [CHR 0x27, CHR 0x27] @ '').toLowerCase().includes('']) @ v @ (join_lines
        [''.toLowerCase())) return true;'',
         ''                    }'',
         ''                    const parent = el.closest('label');'',
         ''                    if (parent && (parent.innerText || '' @ [CHR 0x27, CHR 0x27] @ '').toLowerCase().includes('']) @ v @ (join_lines
        [''.toLowerCase())) return true;'',
         ''                    return false;'',
         ''                })()''])))"

fun join_with :: "string \<Rightarrow> string list \<Rightarrow> string" where
  "join_with sep [] = []"
| "join_with sep [x] = x"
| "join_with sep (x # xs) = x @ sep @ join_with sep xs"

definition filter_expr :: "browser \<Rightarrow> find_params \<Rightarrow> string" where
  "filter_expr br p =
     (let fs = input_filters br p in
      ''('' @ (if fs = [] then ''false'' else join_with '' || '' fs) @ '' '' @ label_filter br p @ '')'')"

definition find_input_js :: "string \<Rightarrow> string" where
  "find_input_js cond = (join_lines
        [''JSON.stringify((function() {'',
         ''    const inputs = document.querySelectorAll('input, textarea, select, [contenteditable=\"true\"], [role=\"textbox\"], [role=\"searchbox\"], [role=\"combobox\"]');'',
         ''    const results = [];'',
         ''    for (const el of inputs) {'',
         ''        const r = el.getBoundingClientRect();'',
         ''        if (r.width <= 0 || r.height <= 0) continue;'',
         ''        if (!('']) @ cond @ (join_lines
        ['')) continue;'',
         ''        const id = el.id ? '#' + el.id : '' @ [CHR 0x27, CHR 0x27] @ '';'',
         ''        const name = el.name ? '[name=\"' + el.name + '\"]' : '' @ [CHR 0x27, CHR 0x27] @ '';'',
         ''        const tag = el.tagName.toLowerCase();'',
         ''        const type_attr = el.type ? '[type=\"' + el.type + '\"]' : '' @ [CHR 0x27, CHR 0x27] @ '';'',
         ''        const selector = id || (tag + name + type_attr) || tag;'',
         ''        results.push({'',
         ''            tag: tag,'',
         ''            selector: selector,'',
         ''            type: el.type || null,'',
         ''            placeholder: el.placeholder || null,'',
         ''            aria_label: el.getAttribute('aria-label') || null,'',
         ''            role: el.getAttribute('role') || null,'',
         ''            name: el.name || null,'',
         ''            value: (el.value || el.textContent || '' @ [CHR 0x27, CHR 0x27] @ '').substring(0, 200),'',
         ''            page_x: Math.round(r.left + r.width/2 + window.scrollX),'',
         ''            page_y: Math.round(r.top + r.height/2 + window.scrollY),'',
         ''            width: Math.round(r.width),'',
         ''            height: Math.round(r.height),'',
         ''        });'',
         ''        if (results.length >= 20) break;'',
         ''    }'',
         ''    return results;'',
         ''})())''])"

definition do_find_input :: "mcp_env \<Rightarrow> find_params \<Rightarrow> (mcp_error, content list) prog" where
  "do_find_input env p = (\<lambda>br.
     seq (mcp_js (find_input_js (filter_expr br p))) (\<lambda>r.
     let elements = json_list br (text_or ''[]'' r) in
     ret [Says (if elements = [] then
         ''No matching input elements found. Try broader search criteria, or use vscreen_find(by='selector', selector='...') instead.''
       else ''Found '' @ show_nat (length elements) @ '' input(s):'' @ LF # me_pretty env (JArr elements) @ LF # LF #
         ''Tip: use vscreen_fill(selector, value) to type into a match.'')]) br)"

definition find_body :: "mcp_env \<Rightarrow> find_params \<Rightarrow> mcp_error + (mcp_error, content list) prog" where
  "find_body env p =
     (let how = to_lowercase (fq_by p) in
      if how = ''selector'' then
        (case fq_selector p of
           None \<Rightarrow> Inl (Invalid_Params ''by='selector' requires selector parameter'')
         | Some s \<Rightarrow> Inr (do_find_elements env s (fq_include_iframes p)))
      else if how = ''text'' then
        (case fq_text p of
           None \<Rightarrow> Inl (Invalid_Params ''by='text' requires text parameter'')
         | Some t \<Rightarrow> Inr (do_find_by_text env t (fq_exact p) (fq_include_iframes p)))
      else if how = ''input'' then
        (if list_all (\<lambda>f. f p = None) [fq_placeholder, fq_aria_label, fq_label, fq_role, fq_name, fq_input_type]
         then Inl (Invalid_Params
           ''by='input' requires at least one of: placeholder, aria_label, label, role, name, input_type'')
         else Inr (do_find_input env p))
      else Inl (Invalid_Params (''by must be 'selector', 'text', or 'input', got '' @ [CHR 0x27] @ how @ [CHR 0x27])))"

subsection \<open>Text, accessibility, frames, scripts\<close>

definition vscreen_extract_text :: "string option \<Rightarrow> (mcp_error, content list) prog" where
  "vscreen_extract_text selector = (\<lambda>br.
     seq (mcp_js (case selector of
         None \<Rightarrow> ''document.body.innerText''
       | Some s \<Rightarrow> (let sel_json = br_json_string br s in
           ''(function() { const el = document.querySelector('' @ sel_json @ ''); return el ? el.innerText : 'Element not found: ' + '' @ sel_json @ ''; })()''))) (\<lambda>r.
     ret [Says (text_or [] r)]) br)"

definition accessibility_js :: "u32 \<Rightarrow> string" where
  "accessibility_js depth = (let max_depth = show_word depth in
     (join_lines
        [''(function() {'',
         ''    function walkTree(node, depth) {'',
         ''        if (depth > '']) @ max_depth @ (join_lines
        ['') return null;'',
         ''        const role = node.role || '' @ [CHR 0x27, CHR 0x27] @ '';'',
         ''        const name = node.name || '' @ [CHR 0x27, CHR 0x27] @ '';'',
         ''        if (!role && !name && (!node.children || node.children.length === 0)) return null;'',
         ''        const result = { role: role, name: name };'',
         ''        if (node.value) result.value = node.value;'',
         ''        if (node.description) result.description = node.description;'',
         ''        if (node.disabled) result.disabled = true;'',
         ''        if (node.focused) result.focused = true;'',
         ''        if (node.children && node.children.length > 0) {'',
         ''            result.children = node.children.map(c => walkTree(c, depth + 1)).filter(Boolean);'',
         ''            if (result.children.length === 0) delete result.children;'',
         ''        }'',
         ''        return result;'',
         ''    }'',
         ''    return 'accessibility_via_cdp';'',
         ''})()'']))"

definition vscreen_accessibility_tree :: "mcp_env \<Rightarrow> u32 option \<Rightarrow> (mcp_error, content list) prog" where
  "vscreen_accessibility_tree env depth =
     (let max_depth = or_default 5 depth in
      seq (attempt (send_cdp_command_and_wait ''Accessibility.getFullAXTree''
        (Some (JObj [(''depth'', word_json max_depth)])))) (\<lambda>r.
      case r of
        Ok response \<Rightarrow>
          (let t = me_pretty env response in
           seq (lift (shorten 50000 (''...'' @ LF # ''(truncated, '' @ show_nat (length t) @ '' bytes total)'') t)) (\<lambda>s.
           ret [Says s]))
      | _ \<Rightarrow>
          seq (mcp_js (accessibility_js max_depth)) (\<lambda>v. ret [Says (me_pretty env v)])))"

definition vscreen_get_page_info :: "mcp_env \<Rightarrow> (mcp_error, content list) prog" where
  "vscreen_get_page_info env = seq (with_err internal get_page_info) (\<lambda>info. ret [Says (me_pretty env info)])"

definition iframe_rects_js :: string where
  "iframe_rects_js = (join_lines
        [''JSON.stringify(Array.from(document.querySelectorAll('iframe')).map(f => {'',
         ''    const r = f.getBoundingClientRect();'',
         ''    return {'',
         ''        src: f.src || '' @ [CHR 0x27, CHR 0x27] @ '','',
         ''        name: f.name || '' @ [CHR 0x27, CHR 0x27] @ '','',
         ''        title: f.title || '' @ [CHR 0x27, CHR 0x27] @ '','',
         ''        id: f.id || '' @ [CHR 0x27, CHR 0x27] @ '','',
         ''        x: Math.round(r.left + window.scrollX),'',
         ''        y: Math.round(r.top + window.scrollY),'',
         ''        width: Math.round(r.width),'',
         ''        height: Math.round(r.height),'',
         ''        visible: r.width > 0 && r.height > 0 && r.top > -9000,'',
         ''    };'',
         ''}))''])"

definition vscreen_list_frames :: "mcp_env \<Rightarrow> (mcp_error, content list) prog" where
  "vscreen_list_frames env =
     seq (with_err internal sup_get_frame_tree) (\<lambda>tree.
     seq (mcp_js iframe_rects_js) (\<lambda>rects.
     seq (lift (shorten 8000 (LF # ''... (truncated)'')
       (''Frame tree:'' @ LF # me_pretty env tree @ LF # LF # ''Iframe bounding rects:'' @ LF # text_or ''[]'' rects))) (\<lambda>s.
     ret [Says s])))"

definition vscreen_execute_js :: "mcp_env \<Rightarrow> string \<Rightarrow> (mcp_error, content list) prog" where
  "vscreen_execute_js env expression = seq (mcp_js expression) (\<lambda>v. ret [Says (me_pretty env v)])"

subsection \<open>Describing elements\<close>

definition describe_js :: "string \<Rightarrow> string" where
  "describe_js sel = ''JSON.stringify(Array.from(document.querySelectorAll('' @ sel @ (join_lines
        ['')).slice(0, 50).map(el => {'',
         ''    const r = el.getBoundingClientRect();'',
         ''    const vis = r.width > 0 && r.height > 0 && window.getComputedStyle(el).visibility !== 'hidden';'',
         ''    if (!vis) return null;'',
         ''    const svgTitle = el.querySelector('svg title, svg desc');'',
         ''    return {'',
         ''        tag: el.tagName.toLowerCase(),'',
         ''        text: (el.innerText || el.textContent || '' @ [CHR 0x27, CHR 0x27] @ '').substring(0, 200).trim(),'',
         ''        ariaLabel: el.getAttribute('aria-label') || '' @ [CHR 0x27, CHR 0x27] @ '','',
         ''        title: el.getAttribute('title') || '' @ [CHR 0x27, CHR 0x27] @ '','',
         ''        placeholder: el.placeholder || '' @ [CHR 0x27, CHR 0x27] @ '','',
         ''        svgDesc: svgTitle ? svgTitle.textContent.trim() : '' @ [CHR 0x27, CHR 0x27] @ '','',
         ''        role: el.getAttribute('role') || '' @ [CHR 0x27, CHR 0x27] @ '','',
         ''        vx: r.left,'',
         ''        vy: r.top,'',
         ''        vw: r.width,'',
         ''        vh: r.height,'',
         ''        x: Math.round(r.left + window.scrollX),'',
         ''        y: Math.round(r.top + window.scrollY),'',
         ''        width: Math.round(r.width),'',
         ''        height: Math.round(r.height),'',
         ''    };'',
         ''}).filter(Boolean))''])"

definition describe_prompt :: string where
  "describe_prompt = (join_lines
        [''You are looking at a cropped screenshot of a single UI element (button, icon, or control). What is this element? What icon does it show? What would clicking it likely do?'',
         '''',
         ''Return ONLY a JSON object:'',
         ''{\"icon\": \"<what the icon depicts>\", \"action\": \"<likely action when clicked>\", \"label\": \"<suggested accessible label>\"}''])"

definition crop_padding :: rat where
  "crop_padding = 8"

definition max_vision_calls :: nat where
  "max_vision_calls = 10"

definition text_of :: "string \<Rightarrow> json \<Rightarrow> string" where
  "text_of k el = field_or [] as_str k el"

text \<open>\<open>el.get(k)\<close> as a value; what is missing is null.\<close>

definition copied :: "string list \<Rightarrow> json \<Rightarrow> (string \<times> json) list" where
  "copied ks el = map (\<lambda>k. (k, or_default JNull (jget k el))) ks"

definition has_label :: "json \<Rightarrow> bool" where
  "has_label el \<longleftrightarrow> list_ex (\<lambda>k. text_of k el \<noteq> []) [''text'', ''ariaLabel'', ''title'', ''placeholder'', ''svgDesc'']"

definition labeled_entry :: "json \<Rightarrow> json" where
  "labeled_entry el =
     JObj (copied [''tag'', ''role'', ''x'', ''y'', ''width'', ''height''] el @
       [(''text'', JStr (text_of ''text'' el)), (''ariaLabel'', JStr (text_of ''ariaLabel'' el)),
        (''title'', JStr (text_of ''title'' el))] @
       (if text_of ''svgDesc'' el = [] then [] else [(''svgDesc'', JStr (text_of ''svgDesc'' el))]))"

definition element_clip :: "json \<Rightarrow> rat \<times> rat \<times> rat \<times> rat" where
  "element_clip el =
     (max 0 (field_or 0 as_f64 ''vx'' el - crop_padding), max 0 (field_or 0 as_f64 ''vy'' el - crop_padding),
      field_or 0 as_f64 ''vw'' el + crop_padding * 2, field_or 0 as_f64 ''vh'' el + crop_padding * 2)"

text \<open>What the answer of the vision service adds to an entry.\<close>

definition vision_members :: "browser \<Rightarrow> string + string \<Rightarrow> (string \<times> json) list" where
  "vision_members br answer =
     (case answer of
        Inl e \<Rightarrow> [(''ai_error'', JStr e)]
      | Inr t \<Rightarrow>
          (case extract_json t of
             None \<Rightarrow> [(''ai_description'', JStr t)]
           | Some s \<Rightarrow>
               (case parse_json br s of
                  Ok parsed \<Rightarrow>
                    map (\<lambda>(k, from). (k, or_default JNull (jget from parsed)))
                      [(''ai_icon'', ''icon''), (''ai_action'', ''action''), (''ai_label'', ''label'')]
                | _ \<Rightarrow> [])))"

definition vision_entry :: "browser \<Rightarrow> json \<Rightarrow> string + string \<Rightarrow> json" where
  "vision_entry br el answer =
     JObj (copied [''tag'', ''role'', ''x'', ''y'', ''width'', ''height''] el @
       concat (map (\<lambda>k. if text_of k el = [] then [] else [(k, JStr (text_of k el))]) [''text'', ''ariaLabel'', ''svgDesc'']) @
       vision_members br answer)"

definition crop_failed_entry :: "json \<Rightarrow> json" where
  "crop_failed_entry el =
     JObj (copied [''tag'', ''role'', ''x'', ''y'', ''width'', ''height''] el @ [(''ai_error'', JStr ''screenshot crop failed'')])"

text \<open>The loop over the elements; \<open>n\<close> is the number of questions asked so far.\<close>

fun describe_loop :: "vision_client \<Rightarrow> bool \<Rightarrow> nat \<Rightarrow> json list \<Rightarrow> (mcp_error, json list) prog" where
  "describe_loop v labeled n [] = ret []"
| "describe_loop v labeled n (el # els) =
     (if has_label el \<and> \<not> labeled then
        seq (describe_loop v labeled n els) (\<lambda>out. ret (labeled_entry el # out))
      else if n < max_vision_calls then
        seq (attempt (sup_capture_clip ''jpeg'' (Some 80) (Some (element_clip el)))) (\<lambda>r.
        case r of
          Ok crop \<Rightarrow> (\<lambda>br es.
            seq (describe_loop v labeled (Suc n) els) (\<lambda>out.
            ret (vision_entry br el (vi_analyze v es crop describe_prompt) # out)) br es)
        | _ \<Rightarrow>
            seq (describe_loop v labeled n els) (\<lambda>out. ret (crop_failed_entry el # out)))
      else describe_loop v labeled n els)"

definition vscreen_describe_elements ::
  "mcp_env \<Rightarrow> string option \<Rightarrow> bool \<Rightarrow> (mcp_error, content list) prog" where
  "vscreen_describe_elements env selector labeled = (\<lambda>br es.
     case me_vision env of
       None \<Rightarrow> (Err (Internal_Error ''Vision LLM not configured (--vision-url required)''), es)
     | Some v \<Rightarrow>
         if \<not> vi_available v es then (Err (Internal_Error ''Vision LLM is not reachable''), es)
         else
           seq (mcp_js (describe_js (br_json_string br (or_default
             ''button, [role='button'], a, input, select'' selector)))) (\<lambda>r.
           let elements = (case r of JStr s \<Rightarrow> json_list br s | JArr xs \<Rightarrow> xs | _ \<Rightarrow> []) in
           seq (describe_loop v labeled 0 elements) (\<lambda>out.
           ret [Says (me_pretty env (JArr out))])) br es)"

subsection \<open>The tools\<close>

datatype observation_tool =
    Take_Screenshot screenshot_param
  | Find find_params
  | Extract_Text "string option"
  | Accessibility_Tree "u32 option"
  | Describe_Elements "string option" bool
  | Page_Info
  | List_Frames
  | Execute_Js string

fun observation_lock :: "observation_tool \<Rightarrow> lock_type" where
  "observation_lock (Execute_Js _) = Exclusive"
| "observation_lock _ = Observer"

text \<open>None of these tools touches the histories.\<close>

fun observe_prog :: "mcp_env \<Rightarrow> observation_tool \<Rightarrow> mcp_error + (mcp_error, content list) prog" where
  "observe_prog env (Take_Screenshot p) = Inr (vscreen_screenshot env p)"
| "observe_prog env (Find p) = find_body env p"
| "observe_prog env (Extract_Text s) = Inr (vscreen_extract_text s)"
| "observe_prog env (Accessibility_Tree d) = Inr (vscreen_accessibility_tree env d)"
| "observe_prog env (Describe_Elements s l) = Inr (vscreen_describe_elements env s l)"
| "observe_prog env Page_Info = Inr (vscreen_get_page_info env)"
| "observe_prog env List_Frames = Inr (vscreen_list_frames env)"
| "observe_prog env (Execute_Js x) = Inr (vscreen_execute_js env x)"

definition with_sv :: "(mcp_error, 'a) prog \<Rightarrow> supervisor \<Rightarrow> ('a \<times> supervisor) run" where
  "with_sv m sv = returns (seq m (\<lambda>a. ret (a, sv)))"

definition call_observation_tool ::
  "mcp_env \<Rightarrow> instance_id \<Rightarrow> observation_tool \<Rightarrow> app_state \<Rightarrow> browser \<Rightarrow> browser_event list
     \<Rightarrow> (app_state \<times> (mcp_error, content list) outcome \<times> browser_event list) option" where
  "call_observation_tool env i t st br es =
     (case observe_prog env t of
        Inl e \<Rightarrow> Some (st, Err e, es)
      | Inr m \<Rightarrow> run_tool env (observation_lock t) i None (with_sv m) st br es)"

interpretation observation_tools: tool_family call_observation_tool observation_lock
  by unfold_locales (auto simp: call_observation_tool_def split: sum.splits)

subsection \<open>The overlay of an annotated screenshot\<close>

lemma annotated_trace:
  assumes "do_screenshot_annotated env sel br es = (r, es')"
  defines "script \<equiv> eval_event (annotate_js (br_json_string br (or_default
       ''a, button, input, select, textarea, [role='button'], [onclick], [tabindex]'' sel)))"
  shows "case r of
      Ok _ \<Rightarrow> es' = es @ [script, shot_event ''png'' None, eval_event remove_overlay_js]
    | _ \<Rightarrow> es' = es @ [script] \<or> es' = es @ [script, shot_event ''png'' None]"
proof -
  let ?js = "annotate_js (br_json_string br (or_default
       ''a, button, input, select, textarea, [role='button'], [onclick], [tabindex]'' sel))"
  obtain a where a: "mcp_js ?js br es = (a, es @ [script])" "a \<noteq> Panic"
    unfolding script_def by (rule mcp_js_run)
  obtain s where s: "sup_capture_screenshot ''png'' None br (es @ [script]) =
      (s, (es @ [script]) @ [shot_event ''png'' None])"
    by (rule capture_screenshot_run)
  obtain q where q: "sup_evaluate_js remove_overlay_js br ((es @ [script]) @ [shot_event ''png'' None]) =
      (q, ((es @ [script]) @ [shot_event ''png'' None]) @ [eval_event remove_overlay_js])" "q \<noteq> Panic"
    by (rule sup_evaluate_run)
  show ?thesis
    using assms(1) a s q
    by (cases a; cases s; cases q)
      (auto simp: do_screenshot_annotated_def seq_def ret_def Let_def attempt_def with_err_def)
qed

lemma annotate_not_remove:
  "eval_event (annotate_js x) \<noteq> eval_event remove_overlay_js"
  "eval_event remove_overlay_js \<noteq> eval_event (annotate_js x)"
  "shot_event f q \<noteq> eval_event y" "eval_event y \<noteq> shot_event f q"
  by (simp_all add: eval_event_def shot_event_def annotate_js_def remove_overlay_js_def join_lines.simps)

text \<open>C35: When the screenshot cannot be taken once the boxes and numbers were put on the page, the script
  that takes them away is never run, and the overlay stays. It is run, and last, exactly when the
  annotated screenshot succeeds.\<close>

theorem overlay_removed:
  assumes "do_screenshot_annotated env sel br es = (r, es @ xs)"
  shows "(eval_event remove_overlay_js \<in> set xs \<longleftrightarrow> (\<exists>c. r = Ok c)) \<and>
    (\<forall>c. r = Ok c \<longrightarrow> last xs = eval_event remove_overlay_js \<and> length xs = 3)"
  using annotated_trace [OF assms]
  by (cases r) (auto simp: annotate_not_remove)

text \<open>A browser whose screenshots carry no data.\<close>

lemma overlay_removed_witness:
  "\<exists>e xs. do_screenshot_annotated example_mcp None (quiet_browser JNull) [] = (Err e, [] @ xs) \<and>
     eval_event remove_overlay_js \<notin> set xs"
proof -
  let ?br = "quiet_browser JNull"
  have js: "mcp_js x ?br es = (Ok JNull, es @ [eval_event x])" for x es
    by (simp add: mcp_js_def sup_evaluate_js_def cdp_evaluate_js_def seq_def call_and_wait_def
      quiet_browser_def evaluation_result_def eval_event_def with_err_def)
  have shot: "\<exists>e es'. sup_capture_screenshot ''png'' None ?br es = (Err e, es')" for es
    by (simp add: sup_capture_screenshot_def cdp_capture_screenshot_def seq_def call_and_wait_def
      quiet_browser_def screenshot_data_def with_err_def)
  have stops: "\<exists>e es'. seq (with_err internal (sup_capture_screenshot ''png'' None)) f ?br es = (Err e, es')"
    for f :: "bytes \<Rightarrow> (mcp_error, content list) prog" and es
    using shot [of es] by (auto simp: seq_def with_err_def)
  have "\<exists>e es'. do_screenshot_annotated example_mcp None ?br [] = (Err e, es')"
    by (simp add: stops do_screenshot_annotated_def seq_Ok [where br = ?br and m = "mcp_js x" for x, OF js] Let_def)
  then obtain e es' where r: "do_screenshot_annotated example_mcp None ?br [] = (Err e, [] @ es')"
    by auto
  show ?thesis using overlay_removed [OF r] r by blast
qed

subsection \<open>How many elements are described\<close>

text \<open>The elements the vision service is asked about: those without a label, or all of them.\<close>

definition asked_about :: "bool \<Rightarrow> json \<Rightarrow> bool" where
  "asked_about labeled el \<longleftrightarrow> labeled \<or> \<not> has_label el"

text \<open>Of the elements the vision service is to be asked about, at most ten are reported when every
  crop can be taken; the others are left out of the result without a word, while each labelled
  element has its entry.\<close>

theorem ten_described:
  assumes "\<And>el es. \<exists>b es1. sup_capture_clip ''jpeg'' (Some 80) (Some (element_clip el)) br es = (Ok b, es1)"
  shows "\<exists>out es'. describe_loop v labeled n els br es = (Ok out, es') \<and>
    length out = length (filter (\<lambda>el. \<not> asked_about labeled el) els) +
      min (max_vision_calls - n) (length (filter (asked_about labeled) els))"
proof (induction els arbitrary: n es)
  case (Cons el els)
  consider (labelled) "has_label el \<and> \<not> labeled" "\<not> asked_about labeled el"
    | (asked) "asked_about labeled el" "\<not> (has_label el \<and> \<not> labeled)" "n < max_vision_calls"
    | (dropped) "asked_about labeled el" "\<not> (has_label el \<and> \<not> labeled)" "\<not> n < max_vision_calls"
    by (auto simp: asked_about_def)
  then show ?case
  proof cases
    case labelled
    obtain out es' where "describe_loop v labeled n els br es = (Ok out, es')"
        "length out = length (filter (\<lambda>el. \<not> asked_about labeled el) els) +
          min (max_vision_calls - n) (length (filter (asked_about labeled) els))"
      using Cons.IH by blast
    then show ?thesis using labelled by simp
  next
    case asked
    obtain b es1 where b: "sup_capture_clip ''jpeg'' (Some 80) (Some (element_clip el)) br es = (Ok b, es1)"
      using assms by blast
    obtain out es' where "describe_loop v labeled (Suc n) els br es1 = (Ok out, es')"
        "length out = length (filter (\<lambda>el. \<not> asked_about labeled el) els) +
          min (max_vision_calls - Suc n) (length (filter (asked_about labeled) els))"
      using Cons.IH by blast
    moreover have "min (max_vision_calls - n) (Suc k) = Suc (min (max_vision_calls - Suc n) k)" for k
      using asked(3) by simp
    ultimately show ?thesis using asked b by (auto simp: attempt_def)
  next
    case dropped
    obtain out es' where "describe_loop v labeled n els br es = (Ok out, es')"
        "length out = length (filter (\<lambda>el. \<not> asked_about labeled el) els) +
          min (max_vision_calls - n) (length (filter (asked_about labeled) els))"
      using Cons.IH by blast
    then show ?thesis using dropped by auto
  qed
qed simp

text \<open>Twelve buttons without a label, seen through a browser that takes every crop.\<close>

lemma ten_described_witness:
  "\<forall>v. \<exists>out es'. describe_loop v False 0 (replicate 12 (JObj [])) (quiet_browser (JObj [(''data'', JStr [])])) [] =
     (Ok out, es') \<and> length out = 10"
proof
  fix v
  have "\<exists>b es1. sup_capture_clip ''jpeg'' (Some 80) (Some (element_clip el)) (quiet_browser (JObj [(''data'', JStr [])])) es =
      (Ok b, es1)" for el es
    by (simp add: sup_capture_clip_def cdp_capture_screenshot_clip_def cdp_capture_screenshot_clip_scaled_def Let_def
      seq_def call_and_wait_def quiet_browser_def screenshot_data_def with_err_def split: prod.split)
  from ten_described [OF this, of v False 0 "replicate 12 (JObj [])" "[]"]
  show "\<exists>out es'. describe_loop v False 0 (replicate 12 (JObj [])) (quiet_browser (JObj [(''data'', JStr [])])) [] =
     (Ok out, es') \<and> length out = 10"
    by (simp add: asked_about_def has_label_def text_of_def field_or_def max_vision_calls_def filter_replicate)
qed


end
