(* ===== verification/Mcp_Workflow.thy ===== *)
theory Mcp_Workflow
  imports Mcp_Observation Mcp_Navigation Mcp_Session
begin

section \<open>Workflow tools\<close>

text \<open>
  \<open>mcp/workflow.rs\<close> of \<open>crates/vscreen-server\<close>: going to a page and looking at it in one call,
  looking at the page that is there, and extracting data with the scripts of
  \<open>scraper_table.js\<close>, \<open>scraper_kv.js\<close> and \<open>scraper_stats.js\<close>.
\<close>

subsection \<open>Browsing\<close>

record browse_params =
  bp_url :: string
  bp_wait_for :: "string option"
  bp_extract_text :: "bool option"
  bp_full_page :: "bool option"
  bp_dismiss_dialogs :: "bool option"

definition cookie_js :: string where
  "cookie_js = (join_lines
        [''(function(){'',
         ''  const selectors = ['',
         ''    '[class*=\"cookie\"] button', '[class*=\"consent\"] button','',
         ''    '[id*=\"cookie\"] button', '[id*=\"consent\"] button','',
         ''    '.cookie-banner button', '#cookie-banner button','',
         ''    'button[data-testid*=\"accept\"]', 'button[data-testid*=\"agree\"]'' @ [CHR 0x27],
         ''  ];'',
         ''  for(const sel of selectors) {'',
         ''    const btn = document.querySelector(sel);'',
         ''    if(btn && btn.offsetHeight > 0) { btn.click(); return 'dismissed'; }'',
         ''  }'',
         ''  return 'none';'',
         ''})()''])"

text \<open>Steps 1 to 3.\<close>

definition browse_start :: "browse_params \<Rightarrow> (mcp_error, unit) prog" where
  "browse_start p =
     seq (with_err (\<lambda>e. Internal_Error (show_vscreen_error e @ ''. Hint: Use vscreen_navigate(action=\"goto\", instance_id=\"...\", url=\"...\") for direct navigation with custom wait_until options.''))
       (send_cdp_command ''Page.navigate''
         (Some (JObj [(''url'', JStr (bp_url p)), (''transitionType'', JStr ''typed'')])))) (\<lambda>_.
     seq (sleep 1500) (\<lambda>_.
     if bp_dismiss_dialogs p \<noteq> Some False
     then seq (attempt (sup_evaluate_js cookie_js)) (\<lambda>_. sleep 500)
     else ret ()))"

text \<open>Step 4: what the page is asked while it is waited for.\<close>

definition is_selector :: "string \<Rightarrow> bool" where
  "is_selector s \<longleftrightarrow> CHR ''['' \<in> set s \<or> CHR ''('' \<in> set s \<or> starts_with ''#'' s \<or> starts_with ''.'' s"

definition browse_check_js :: "browser \<Rightarrow> string \<Rightarrow> string" where
  "browse_check_js br wait_for =
     (let search = br_json_string br wait_for in
      if is_selector wait_for then ''!!document.querySelector('' @ search @ '')''
      else ''document.body?.innerText?.includes('' @ search @ '') || false'')"

definition browse_wait :: "mcp_env \<Rightarrow> browse_params \<Rightarrow> unit run" where
  "browse_wait env p =
     (case bp_wait_for p of
        None \<Rightarrow> returns (ret ())
      | Some w \<Rightarrow> (\<lambda>br. poll_for env 10000 250
          (seq (attempt (sup_evaluate_js (browse_check_js br w))) (\<lambda>r.
           ret (case r of Ok v \<Rightarrow> if as_bool v = Some True then Some () else None | _ \<Rightarrow> None))) () br))"

text \<open>Steps 5 to 10, most of which both tools share.\<close>

definition page_screenshot :: "bool option \<Rightarrow> (mcp_error, bytes) prog" where
  "page_screenshot full_page =
     with_err internal
       (if full_page = Some True then sup_capture_full_page ''png'' None else sup_capture_screenshot ''png'' None)"

definition url_and_title :: "(mcp_error, string \<times> string) prog" where
  "url_and_title =
     seq (with_err internal get_page_info) (\<lambda>info.
     ret (field_or [] as_str ''url'' info, field_or [] as_str ''title'' info))"

definition text_preview :: "browse_params \<Rightarrow> (mcp_error, string option) prog" where
  "text_preview p =
     (if bp_extract_text p = Some True then
        seq (attempt (sup_evaluate_js (''document.body?.innerText?.substring(0, 5000) || '' @ [CHR 0x27, CHR 0x27]))) (\<lambda>r.
        seq (lift (shorten 2000 ''...'' (case r of Ok v \<Rightarrow> text_or [] v | _ \<Rightarrow> []))) (\<lambda>t. ret (Some t)))
      else ret None)"

definition count_of :: "string \<Rightarrow> (mcp_error, u32) prog" where
  "count_of js =
     seq (attempt (sup_evaluate_js js)) (\<lambda>r.
     ret (case r of Ok v \<Rightarrow> of_int (or_default 0 (as_u64 v)) | _ \<Rightarrow> 0))"

definition browse_report :: "mcp_env \<Rightarrow> browse_params \<Rightarrow> supervisor \<Rightarrow> (mcp_error, content list \<times> supervisor) prog" where
  "browse_report env p sv =
     seq (page_screenshot (bp_full_page p)) (\<lambda>shot.
     seq url_and_title (\<lambda>(url, title).
     seq (text_preview p) (\<lambda>preview.
     seq (count_of ''document.querySelectorAll('a[href]').length'') (\<lambda>links.
     seq (count_of ''document.querySelectorAll('form').length'') (\<lambda>forms.
     seq (record_action env ''vscreen_browse'' (bp_url p) (''url='' @ url @ '', title='' @ title) sv) (\<lambda>sv'.
     ret ([Image (me_base64 env shot) ''image/png'',
           Says (me_pretty env (JObj
             ([(''url'', JStr url), (''title'', JStr title), (''links_count'', word_json links),
               (''forms_count'', word_json forms)] @
              opt_member ''text_preview'' (map_option JStr preview))))], sv')))))))"

definition vscreen_browse :: "mcp_env \<Rightarrow> browse_params \<Rightarrow> supervisor \<Rightarrow> (content list \<times> supervisor) run" where
  "vscreen_browse env p sv =
     and_run (returns (browse_start p)) (\<lambda>_.
     and_run (browse_wait env p) (\<lambda>_.
     returns (browse_report env p sv)))"

subsection \<open>Observing\<close>

record observe_params =
  op_full_page :: "bool option"
  op_include_text :: "bool option"
  op_include_elements :: "bool option"

definition excerpt_js :: string where
  "excerpt_js = ''document.body?.innerText?.substring(0, 3000) || '' @ [CHR 0x27, CHR 0x27]"

definition text_excerpt :: "observe_params \<Rightarrow> (mcp_error, string option) prog" where
  "text_excerpt p =
     (if op_include_text p \<noteq> Some False then
        seq (attempt (sup_evaluate_js excerpt_js)) (\<lambda>r.
        case (case r of Ok v \<Rightarrow> as_str v | _ \<Rightarrow> None) of
          None \<Rightarrow> ret None
        | Some s \<Rightarrow> seq (lift (shorten 1500 ''...'' s)) (\<lambda>t. ret (Some t)))
      else ret None)"

definition summary_js :: string where
  "summary_js = (join_lines
        [''JSON.stringify((function(){'',
         ''  const els = document.querySelectorAll('a, button, input, select, textarea, [role=\"button\"]');'',
         ''  const summary = { links: 0, buttons: 0, inputs: 0 };'',
         ''  els.forEach(el => {'',
         ''    const tag = (el.tagName || '' @ [CHR 0x27, CHR 0x27] @ '').toLowerCase();'',
         ''    const role = (el.getAttribute('role') || '' @ [CHR 0x27, CHR 0x27] @ '').toLowerCase();'',
         ''    if (tag === 'a' || role === 'link') summary.links++;'',
         ''    else if (tag === 'button' || role === 'button') summary.buttons++;'',
         ''    else if (['input','select','textarea'].includes(tag)) summary.inputs++;'',
         ''  });'',
         ''  return summary;'',
         ''})())''])"

definition element_summary :: "observe_params \<Rightarrow> (mcp_error, string option) prog" where
  "element_summary p =
     (if op_include_elements p = Some True then
        seq (attempt (sup_evaluate_js summary_js)) (\<lambda>r. ret (case r of Ok v \<Rightarrow> as_str v | _ \<Rightarrow> None))
      else ret None)"

definition vscreen_observe :: "mcp_env \<Rightarrow> observe_params \<Rightarrow> supervisor \<Rightarrow> (mcp_error, content list \<times> supervisor) prog" where
  "vscreen_observe env p sv =
     seq (page_screenshot (op_full_page p)) (\<lambda>shot.
     seq url_and_title (\<lambda>(url, title).
     seq (text_excerpt p) (\<lambda>excerpt.
     seq (element_summary p) (\<lambda>elements.
     seq (record_action env ''vscreen_observe'' [] (''url='' @ url @ '', title='' @ title) sv) (\<lambda>sv'.
     ret ([Image (me_base64 env shot) ''image/png'',
           Says (''URL: '' @ url @ LF # ''Title: '' @ title @ [LF] @
             (case excerpt of None \<Rightarrow> [] | Some t \<Rightarrow> LF # ''Text excerpt:'' @ LF # t @ [LF]) @
             (case elements of None \<Rightarrow> [] | Some e \<Rightarrow> LF # ''Elements: '' @ e @ [LF]))], sv'))))))"

subsection \<open>Extracting\<close>

definition scraper_table_js :: string where
  "scraper_table_js = (join_lines
        [''(function() {'',
         ''    const tables = document.querySelectorAll('table');'',
         ''    const results = [];'',
         ''    '',
         ''    for (const table of Array.from(tables).slice(0, 10)) {'',
         ''        const headers = Array.from(table.querySelectorAll('thead th, thead td, tr:first-child th'))'',
         ''            .map(th => th.textContent.trim());'',
         ''        '',
         ''        // If no thead, try first row'',
         ''        if (headers.length === 0) {'',
         ''            const firstRow = table.querySelector('tr');'',
         ''            if (firstRow) {'',
         ''                Array.from(firstRow.querySelectorAll('th, td')).forEach(cell => {'',
         ''                    headers.push(cell.textContent.trim());'',
         ''                });'',
         ''            }'',
         ''        }'',
         ''        '',
         ''        const rows = [];'',
         ''        const bodyRows = table.querySelectorAll('tbody tr, tr');'',
         ''        const startIdx = headers.length > 0 ? (table.querySelector('thead') ? 0 : 1) : 0;'',
         ''        '',
         ''        Array.from(bodyRows).slice(startIdx, startIdx + 200).forEach(tr => {'',
         ''            const cells = Array.from(tr.querySelectorAll('td, th')).map(td => {'',
         ''                const link = td.querySelector('a[href]');'',
         ''                const val = td.textContent.trim();'',
         ''                return link ? { text: val, href: link.href } : val;'',
         ''            });'',
         ''            if (cells.length > 0 && cells.some(c => typeof c === 'string' ? c.length > 0 : c.text.length > 0)) {'',
         ''                rows.push(cells);'',
         ''            }'',
         ''        });'',
         ''        '',
         ''        if (rows.length > 0) {'',
         ''            results.push({'',
         ''                columns: headers,'',
         ''                rows: rows,'',
         ''                row_count: rows.length,'',
         ''                caption: table.querySelector('caption')?.textContent?.trim() || null'',
         ''            });'',
         ''        }'',
         ''    }'',
         ''    '',
         ''    return JSON.stringify(results);'',
         ''})()'',
         ''''])"

definition scraper_kv_js :: string where
  "scraper_kv_js = (join_lines
        [''(function() {'',
         ''    const pairs = [];'',
         ''    '',
         ''    // Strategy 1: <dl> definition lists'',
         ''    document.querySelectorAll('dl').forEach(dl => {'',
         ''        const dts = dl.querySelectorAll('dt');'',
         ''        dts.forEach(dt => {'',
         ''            const dd = dt.nextElementSibling;'',
         ''            if (dd && dd.tagName === 'DD') {'',
         ''                const link = dd.querySelector('a[href]');'',
         ''                pairs.push({'',
         ''                    key: dt.textContent.trim(),'',
         ''                    value: dd.textContent.trim(),'',
         ''                    url: link ? link.href : null'',
         ''                });'',
         ''            }'',
         ''        });'',
         ''    });'',
         ''    '',
         ''    // Strategy 2: Label-value patterns (th/td pairs in 2-column tables)'',
         ''    document.querySelectorAll('table').forEach(table => {'',
         ''        const rows = table.querySelectorAll('tr');'',
         ''        rows.forEach(tr => {'',
         ''            const cells = tr.querySelectorAll('th, td');'',
         ''            if (cells.length === 2) {'',
         ''                const key = cells[0].textContent.trim();'',
         ''                const val = cells[1].textContent.trim();'',
         ''                if (key && val && key.length < 100) {'',
         ''                    const link = cells[1].querySelector('a[href]');'',
         ''                    pairs.push({ key, value: val, url: link ? link.href : null });'',
         ''                }'',
         ''            }'',
         ''        });'',
         ''    });'',
         ''    '',
         ''    // Strategy 3: Labeled spans/divs (class containing \"label\", \"key\", \"name\" + sibling \"value\")'',
         ''    document.querySelectorAll('[class*=\"label\"], [class*=\"key\"], [class*=\"name\"]').forEach(el => {'',
         ''        const sibling = el.nextElementSibling;'',
         ''        if (sibling) {'',
         ''            const key = el.textContent.trim();'',
         ''            const val = sibling.textContent.trim();'',
         ''            if (key && val && key.length < 80 && val.length < 500) {'',
         ''                pairs.push({ key, value: val, url: null });'',
         ''            }'',
         ''        }'',
         ''    });'',
         ''    '',
         ''    // Deduplicate by key'',
         ''    const seen = new Set();'',
         ''    const unique = pairs.filter(p => {'',
         ''        if (seen.has(p.key)) return false;'',
         ''        seen.add(p.key);'',
         ''        return true;'',
         ''    });'',
         ''    '',
         ''    return JSON.stringify(unique.slice(0, 100));'',
         ''})()'',
         ''''])"

definition scraper_stats_js :: string where
  "scraper_stats_js = (join_lines
        [''(function() {'',
         ''    const stats = [];'',
         ''    '',
         ''    // Strategy 1: Elements with prominent numbers + labels'',
         ''    const numPattern = /^['' @ [CHR 0x5C] @ ''$'' @ [CHR 0xE2, CHR 0x82, CHR 0xAC, CHR 0xC2, CHR 0xA3, CHR 0xC2, CHR 0xA5] @ '']?'' @ [CHR 0x5C] @ ''s*['' @ [CHR 0x5C] @ ''d,.]+[%KMBTkmbt]?'' @ [CHR 0x5C] @ ''s*$/;'',
         ''    '',
         ''    // Look for stat-card patterns (div with a large number + label)'',
         ''    document.querySelectorAll('[class*=\"stat\"], [class*=\"metric\"], [class*=\"kpi\"], [class*=\"summary\"], [class*=\"highlight\"], [class*=\"hero\"]').forEach(el => {'',
         ''        const texts = Array.from(el.querySelectorAll('*')).map(e => ({'',
         ''            text: e.textContent.trim(),'',
         ''            tag: e.tagName.toLowerCase(),'',
         ''            fontSize: parseFloat(window.getComputedStyle(e).fontSize || '16')'',
         ''        })).filter(t => t.text.length > 0 && t.text.length < 50);'',
         ''        '',
         ''        // Find the number (largest font or matches number pattern)'',
         ''        const numEl = texts.find(t => numPattern.test(t.text)) || texts.find(t => t.fontSize > 24);'',
         ''        const labelEl = texts.find(t => t !== numEl && !numPattern.test(t.text) && t.text.length < 60);'',
         ''        '',
         ''        if (numEl) {'',
         ''            stats.push({'',
         ''                label: labelEl ? labelEl.text : null,'',
         ''                value: numEl.text,'',
         ''                unit: null,'',
         ''                trend: null'',
         ''            });'',
         ''        }'',
         ''    });'',
         ''    '',
         ''    // Strategy 2: Standalone large numbers with adjacent labels'',
         ''    document.querySelectorAll('h1, h2, h3, [class*=\"count\"], [class*=\"number\"], [class*=\"amount\"], [class*=\"price\"]').forEach(el => {'',
         ''        const text = el.textContent.trim();'',
         ''        if (numPattern.test(text) && text.length < 30) {'',
         ''            const parent = el.parentElement;'',
         ''            const siblings = parent ? Array.from(parent.children).filter(c => c !== el) : [];'',
         ''            const label = siblings.find(s => !numPattern.test(s.textContent.trim()) && s.textContent.trim().length < 60);'',
         ''            stats.push({'',
         ''                label: label ? label.textContent.trim() : null,'',
         ''                value: text,'',
         ''                unit: null,'',
         ''                trend: null'',
         ''            });'',
         ''        }'',
         ''    });'',
         ''    '',
         ''    // Deduplicate'',
         ''    const seen = new Set();'',
         ''    const unique = stats.filter(s => {'',
         ''        const key = s.value + (s.label || '' @ [CHR 0x27, CHR 0x27] @ '');'',
         ''        if (seen.has(key)) return false;'',
         ''        seen.add(key);'',
         ''        return true;'',
         ''    });'',
         ''    '',
         ''    return JSON.stringify(unique.slice(0, 50));'',
         ''})()'',
         ''''])"

text \<open>\<open>s.replace(from, to)\<close>; \<open>n\<close> bytes of a replaced part are still to be skipped.\<close>

fun replace_skip :: "nat \<Rightarrow> string \<Rightarrow> string \<Rightarrow> string \<Rightarrow> string" where
  "replace_skip n old new [] = []"
| "replace_skip (Suc n) old new (c # s) = replace_skip n old new s"
| "replace_skip 0 old new (c # s) =
     (if starts_with old (c # s) then new @ replace_skip (length old - 1) old new s
      else c # replace_skip 0 old new s)"

definition extract_scope :: "browser \<Rightarrow> string option \<Rightarrow> string" where
  "extract_scope br selector =
     (case selector of
        None \<Rightarrow> ''document.body''
      | Some s \<Rightarrow> ''document.querySelector('' @ br_json_string br s @ '') || document.body'')"

definition scoped_table_js :: "string \<Rightarrow> string" where
  "scoped_table_js scope =
     replace_skip 0 ''const tables = document.querySelectorAll('table')''
       (''const root = '' @ scope @ ''; const tables = (root || document.body).querySelectorAll('table')'')
       scraper_table_js"

definition articles_in_js :: "string \<Rightarrow> string" where
  "articles_in_js scope = (join_lines
        [''(function(){'',
         ''  const root = '']) @ scope @ (join_lines
        ['';'',
         ''  const articles = [];'',
         ''  (root || document.body).querySelectorAll('article, [class*=\"card\"], [class*=\"article\"]').forEach(el => {'',
         ''    const a = el.querySelector('a[href]');'',
         ''    const img = el.querySelector('img');'',
         ''    const title = el.querySelector('h1,h2,h3,h4')?.textContent?.trim();'',
         ''    if(title && a) articles.push({'',
         ''      title, url: a.href,'',
         ''      image: img?.src || null,'',
         ''      description: el.querySelector('p')?.textContent?.trim()?.substring(0,200) || null'',
         ''    });'',
         ''  });'',
         ''  return JSON.stringify(articles.slice(0, 20));'',
         ''})()''])"

definition articles_js :: string where
  "articles_js = (join_lines
        [''(function(){'',
         ''  const articles = [];'',
         ''  document.querySelectorAll('article, [class*=\"card\"], [class*=\"article\"]').forEach(el => {'',
         ''    const a = el.querySelector('a[href]');'',
         ''    const img = el.querySelector('img');'',
         ''    const title = el.querySelector('h1,h2,h3,h4')?.textContent?.trim();'',
         ''    if(title && a) articles.push({'',
         ''      title, url: a.href,'',
         ''      image: img?.src || null,'',
         ''      description: el.querySelector('p')?.textContent?.trim()?.substring(0,200) || null'',
         ''    });'',
         ''  });'',
         ''  return JSON.stringify(articles.slice(0, 20));'',
         ''})()''])"

definition links_js :: string where
  "links_js = (join_lines
        [''(function(){'',
         ''  return JSON.stringify(Array.from(document.querySelectorAll('a[href]')).map(a => ({'',
         ''    text: a.textContent.trim().substring(0,100),'',
         ''    href: a.href'',
         ''  })).filter(l => l.text && l.href).slice(0,100));'',
         ''})()''])"

definition pick_section_component :: "nat \<Rightarrow> string" where
  "pick_section_component n = (if n \<le> 3 then ''hero'' else if n \<le> 12 then ''card-grid'' else ''content-list'')"

text \<open>\<open>.sum()\<close> of \<open>usize\<close> numbers.\<close>

definition row_total :: "bool \<Rightarrow> json list \<Rightarrow> ('e, nat) outcome" where
  "row_total checks tables =
     (let n = sum_list (map (\<lambda>t. nat (field_or 0 as_u64 ''row_count'' t)) tables) in
      if n < 2 ^ 64 then Ok n else if checks then Panic else Ok (n mod 2 ^ 64))"

text \<open>The mode used, the data, the number of items and the component suggested.\<close>

type_synonym extracted = "string \<times> json \<times> nat \<times> string"

definition article_items :: "json list \<Rightarrow> string \<Rightarrow> extracted" where
  "article_items arr suggestion = (''articles'', JArr arr, length arr, suggestion)"

definition scraped :: "string \<Rightarrow> (mcp_error, json list) prog" where
  "scraped js = (\<lambda>br. seq (mcp_js js) (\<lambda>r. ret (json_list br (text_or ''[]'' r))) br)"

text \<open>In automatic mode an error of the page counts as nothing found.\<close>

definition try_scrape :: "string \<Rightarrow> (mcp_error, json list) prog" where
  "try_scrape js = (\<lambda>br.
     seq (attempt (sup_evaluate_js js)) (\<lambda>r.
     ret (case r of Ok v \<Rightarrow> json_list br (text_or ''[]'' v) | _ \<Rightarrow> [])) br)"

definition link_items :: "(mcp_error, extracted) prog" where
  "link_items = seq (scraped links_js) (\<lambda>arr. ret (''links'', JArr arr, length arr, ''link-list''))"

definition extract_auto :: "bool \<Rightarrow> string \<Rightarrow> (mcp_error, extracted) prog" where
  "extract_auto checks scope =
     seq (try_scrape articles_js) (\<lambda>arr.
     if arr \<noteq> [] then ret (article_items arr (pick_section_component (length arr)))
     else
       seq (try_scrape (scoped_table_js scope)) (\<lambda>arr.
       seq (lift (row_total checks arr)) (\<lambda>rows.
       if 0 < rows then ret (''table'', JArr arr, rows, ''table'')
       else
         seq (try_scrape scraper_kv_js) (\<lambda>arr.
         if arr \<noteq> [] then ret (''kv'', JArr arr, length arr, ''key-value-list'')
         else
           seq (try_scrape scraper_stats_js) (\<lambda>arr.
           if arr \<noteq> [] then ret (''stats'', JArr arr, length arr, ''stats-row'')
           else link_items)))))"

definition extract_data :: "bool \<Rightarrow> string \<Rightarrow> string option \<Rightarrow> (mcp_error, extracted) prog" where
  "extract_data checks how selector = (\<lambda>br.
     (let mode = to_lowercase how; scope = extract_scope br selector in
      if mode = ''articles'' then
        seq (scraped (articles_in_js scope)) (\<lambda>arr.
        ret (article_items arr (if 0 < length arr then pick_section_component (length arr) else ''none'')))
      else if mode = ''table'' then
        seq (scraped (scoped_table_js scope)) (\<lambda>arr.
        seq (lift (row_total checks arr)) (\<lambda>rows. ret (''table'', JArr arr, rows, ''table'')))
      else if mode = ''kv'' \<or> mode = ''key_value'' then
        seq (scraped scraper_kv_js) (\<lambda>arr. ret (''kv'', JArr arr, length arr, ''key-value-list''))
      else if mode = ''stats'' then
        seq (scraped scraper_stats_js) (\<lambda>arr. ret (''stats'', JArr arr, length arr, ''stats-row''))
      else if mode = ''links'' then link_items
      else if mode = ''text'' then
        seq (mcp_js (let scope_js = scope in ''(function(){ const root = '' @ scope_js @ ''; return (root || document.body)?.innerText || '' @ [CHR 0x27, CHR 0x27] @ ''; })()'')) (\<lambda>r.
        let s = text_or [] r in ret (''text'', JStr s, length s, ''text''))
      else if mode = ''auto'' then extract_auto checks scope
      else lift (Err (Invalid_Params (''invalid mode '' @ [CHR 0x27] @ how @ [CHR 0x27] @
        '': must be 'articles', 'table', 'kv', 'stats', 'links', 'text', or 'auto'' @ [CHR 0x27])))) br)"

definition finish_extract :: "mcp_env \<Rightarrow> extracted \<Rightarrow> supervisor \<Rightarrow> (mcp_error, content list \<times> supervisor) prog" where
  "finish_extract env e sv =
     (case e of (mode, data, items, suggestion) \<Rightarrow>
      seq (record_action env ''vscreen_extract'' mode (''mode='' @ mode @ '', items='' @ show_nat items) sv) (\<lambda>sv'.
      ret ([Says (me_pretty env (JObj
        ([(''mode_used'', JStr mode), (''data'', data), (''item_count'', nat_json items),
          (''component_suggestion'', JStr suggestion)] @
         (if items = 0 then [(''hint'', JStr ''Try vscreen_execute_js for custom extraction, or vscreen_extract_text for raw text content.'')] else []))))], sv')))"

definition vscreen_extract ::
  "mcp_env \<Rightarrow> string \<Rightarrow> string option \<Rightarrow> supervisor \<Rightarrow> (mcp_error, content list \<times> supervisor) prog" where
  "vscreen_extract env mode selector sv = seq (extract_data (me_checks env) mode selector) (\<lambda>e. finish_extract env e sv)"

subsection \<open>The tools\<close>

datatype workflow_tool =
    Browse browse_params
  | Observe observe_params
  | Extract string "string option"

fun workflow_lock :: "workflow_tool \<Rightarrow> lock_type" where
  "workflow_lock (Browse _) = Exclusive"
| "workflow_lock _ = Observer"

fun workflow_body :: "mcp_env \<Rightarrow> workflow_tool \<Rightarrow> supervisor \<Rightarrow> (content list \<times> supervisor) run" where
  "workflow_body env (Browse p) = vscreen_browse env p"
| "workflow_body env (Observe p) = (\<lambda>sv. returns (vscreen_observe env p sv))"
| "workflow_body env (Extract m s) = (\<lambda>sv. returns (vscreen_extract env m s sv))"

definition call_workflow_tool ::
  "mcp_env \<Rightarrow> instance_id \<Rightarrow> workflow_tool \<Rightarrow> app_state \<Rightarrow> browser \<Rightarrow> browser_event list
     \<Rightarrow> (app_state \<times> (mcp_error, content list) outcome \<times> browser_event list) option" where
  "call_workflow_tool env i t = run_tool env (workflow_lock t) i None (workflow_body env t)"

interpretation workflow_tools: tool_family call_workflow_tool workflow_lock
  by unfold_locales (auto simp: call_workflow_tool_def)

subsection \<open>Automatic extraction\<close>

text \<open>The sources in the order they are tried.\<close>

definition source_order :: "string list" where
  "source_order = [''articles'', ''table'', ''kv'', ''stats'', ''links'']"

lemma try_scrape_run:
  obtains xs where "try_scrape js br es = (Ok xs, es @ [eval_event js])"
proof -
  obtain r where "sup_evaluate_js js br es = (r, es @ [eval_event js])" "r \<noteq> Panic" by (rule sup_evaluate_run)
  then show thesis using that by (cases r) (auto simp: try_scrape_def seq_def attempt_def ret_def)
qed

lemma link_items_run:
  obtains (found) xs where "link_items br es = (Ok (''links'', JArr xs, length xs, ''link-list''), es @ [eval_event links_js])"
    | (failed) e where "link_items br es = (Err e, es @ [eval_event links_js])"
proof -
  obtain r where r: "mcp_js links_js br es = (r, es @ [eval_event links_js])" "r \<noteq> Panic" by (rule mcp_js_run)
  show thesis
  proof (cases r)
    case (Ok v)
    then show thesis using r by (intro found [of "json_list br (text_or ''[]'' v)"])
      (simp add: link_items_def scraped_def seq_def ret_def)
  next
    case (Err e)
    then show thesis using r by (intro failed [of e]) (simp add: link_items_def scraped_def seq_def ret_def)
  qed (use r in simp)
qed


text \<open>The selector that is to restrict an extraction restricts articles, tables and text. Key and value
  pairs, statistics and links are always taken from the whole page: with a selector each of these
  modes runs exactly the program it runs without one.\<close>

theorem selector_ignored:
  assumes "to_lowercase how \<in> {''kv'', ''key_value'', ''stats'', ''links''}"
  shows "vscreen_extract env how selector sv = vscreen_extract env how None sv"
proof -
  have "extract_data checks how selector br es = extract_data checks how None br es" for checks br es
    using assms by (auto simp: extract_data_def Let_def)
  then have "extract_data checks how selector = extract_data checks how None" for checks by blast
  then show ?thesis by (simp add: vscreen_extract_def)
qed

lemma selector_ignored_witness:
  "vscreen_extract example_mcp ''links'' (Some ''#main'') (supervisor_new example_config []) =
     vscreen_extract example_mcp ''links'' None (supervisor_new example_config [])"
  using selector_ignored [of "''links''"] by (simp add: to_lowercase_def ascii_lower_def byte_in_def)

subsection \<open>Excerpts\<close>

text \<open>Looking at a page panics when the text it is to give an excerpt of is longer than 1500 bytes and
  the 1500th byte is inside a character: the report is lost, nothing is recorded.\<close>

theorem observe_panics:
  assumes "page_screenshot (op_full_page p) br es = (Ok shot, es1)" and "url_and_title br es1 = (Ok info, es2)"
    and "op_include_text p \<noteq> Some False" and "sup_evaluate_js excerpt_js br es2 = (Ok (JStr s), es3)"
    and "1500 < length s" and "is_cont (s ! 1500)"
  shows "vscreen_observe env p sv br es = (Panic, es3)"
proof -
  have "text_excerpt p br es2 = (Panic, es3)"
    using assms(3-6) by (simp add: text_excerpt_def attempt_def seq_def shorten_def cut_def is_char_boundary_def lift_def)
  then show ?thesis using assms(1,2) by (cases info) (simp add: vscreen_observe_def)
qed

text \<open>1499 letters and a character of three bytes.\<close>

definition euro_text :: string where
  "euro_text = replicate 1499 CHR ''a'' @ [CHR 0xE2, CHR 0x82, CHR 0xAC]"

lemma observe_panics_witness:
  "\<exists>es. vscreen_observe example_mcp \<lparr>op_full_page = None, op_include_text = None, op_include_elements = None\<rparr>
     (supervisor_new example_config [])
     (quiet_browser (JObj [(''data'', JStr []), (''result'', JObj [(''value'', JStr euro_text)])])) [] = (Panic, es)"
proof -
  let ?br = "quiet_browser (JObj [(''data'', JStr []), (''result'', JObj [(''value'', JStr euro_text)])])"
  have js: "sup_evaluate_js x ?br es = (Ok (JStr euro_text), es @ [eval_event x])" for x es
    by (simp add: sup_evaluate_js_def cdp_evaluate_js_def seq_def call_and_wait_def
      quiet_browser_def evaluation_result_def eval_event_def with_err_def lift_def)
  have shot: "\<exists>b es'. page_screenshot None ?br es = (Ok b, es')" for es
    by (simp add: page_screenshot_def sup_capture_screenshot_def cdp_capture_screenshot_def seq_def call_and_wait_def
      quiet_browser_def screenshot_data_def with_err_def lift_def)
  have info: "\<exists>i es'. url_and_title ?br es = (Ok i, es')" for es
    by (simp add: url_and_title_def get_page_info_def seq_def js with_err_def ret_def)
  obtain b es1 where s: "page_screenshot None ?br [] = (Ok b, es1)" using shot by blast
  obtain i es2 where i: "url_and_title ?br es1 = (Ok i, es2)" using info by blast
  have len: "1500 < length euro_text" and cont: "is_cont (euro_text ! 1500)"
    by (simp_all add: euro_text_def nth_append byte_in_def)
  show ?thesis
    using observe_panics [of "\<lparr>op_full_page = None, op_include_text = None, op_include_elements = None\<rparr>" ?br,
        unfolded observe_params.simps, OF s i _ js len cont] by blast
qed

subsection \<open>Waiting\<close>

text \<open>Going to a page waits for at most ten seconds: the wait after it ends and asks the page at most 41
  times, whatever it answers, and it never panics.\<close>

theorem browse_wait_ends:
  assumes "\<forall>es e. me_clock env es \<le> me_clock env (es @ [e])"
    and "\<forall>es n. me_clock env es + n \<le> me_clock env (es @ [Sleep n])"
  shows "\<exists>r xs. browse_wait env p br es = Some (r, es @ xs) \<and> r \<noteq> Panic \<and> evaluations xs \<le> 41"
proof (cases "bp_wait_for p")
  case None
  then show ?thesis by (simp add: browse_wait_def returns_def ret_def)
next
  case (Some w)
  let ?js = "browse_check_js br w"
  have "asks 1 br (seq (attempt (sup_evaluate_js ?js)) (\<lambda>r.
      ret (case r of Ok v \<Rightarrow> if as_bool v = Some True then Some () else None | _ \<Rightarrow> None)) :: (mcp_error, unit option) prog)"
    unfolding asks_def
  proof
    fix es
    obtain r where "sup_evaluate_js ?js br es = (r, es @ [eval_event ?js])" "r \<noteq> Panic" by (rule sup_evaluate_run)
    then show "\<exists>r xs. seq (attempt (sup_evaluate_js ?js)) (\<lambda>r.
        ret (case r of Ok v \<Rightarrow> if as_bool v = Some True then Some () else None | _ \<Rightarrow> None)) br es =
          (r :: (mcp_error, unit option) outcome, es @ xs) \<and> r \<noteq> Panic \<and> evaluations xs \<le> 1"
      by (cases r) (auto simp: attempt_def seq_def ret_def)
  qed
  from poll_for_ends [OF assms _ this, of 250 10000 "()" es] show ?thesis
    using Some by (simp add: browse_wait_def)
qed

lemma browse_wait_ends_witness:
  "\<exists>r xs. browse_wait (example_mcp\<lparr>me_clock := slept\<rparr>)
     \<lparr>bp_url = ''https://a.org'', bp_wait_for = Some ''#done'', bp_extract_text = None, bp_full_page = None,
       bp_dismiss_dialogs = None\<rparr> (quiet_browser JNull) [] = Some (r, [] @ xs) \<and> r \<noteq> Panic \<and> evaluations xs \<le> 41"
  by (rule browse_wait_ends) (simp_all)


end
