(* ===== verification/Mcp_Interact.thy ===== *)
theory Mcp_Interact
  imports Mcp_Workflow Mcp_Input
begin

section \<open>Dialogs, advertisements and interaction in one call\<close>

text \<open>
  Of \<open>crates/vscreen-server\<close>: \<open>vscreen_dismiss_dialogs\<close> and \<open>vscreen_dismiss_ads\<close> of
  \<open>mcp/interaction.rs\<close>, \<open>vscreen_interact\<close> and \<open>vscreen_solve_challenge\<close> of
  \<open>mcp/workflow_interact.rs\<close>. Each of them needs the exclusive lock.
\<close>

subsection \<open>Clicks\<close>

definition cdp_click :: "rat \<Rightarrow> rat \<Rightarrow> (mcp_error, unit) prog" where
  "cdp_click x y = seq (translate x y) (\<lambda>(vx, vy). mcp_click vx vy ''left'' 1)"

text \<open>What a script reports as a JSON text: the value, whether something was found, and where.\<close>

definition reported :: "string \<Rightarrow> (mcp_error, json) prog" where
  "reported js = (\<lambda>br. seq (mcp_js js) (\<lambda>r. ret (parse_or_null br (text_or ''{}'' r))) br)"

definition is_found :: "json \<Rightarrow> bool" where
  "is_found info = field_or False as_bool ''found'' info"

definition place :: "json \<Rightarrow> rat \<times> rat" where
  "place info = (field_or 0 as_f64 ''x'' info, field_or 0 as_f64 ''y'' info)"

subsection \<open>Asking the vision service\<close>

text \<open>The answer read as \<open>analyze\<close> reads it, which looks at nothing but the text.\<close>

definition page_answer :: "browser \<Rightarrow> string \<Rightarrow> vision_response" where
  "page_answer br t =
     parse_response \<lparr>ve_parse = (\<lambda>s. case parse_json br s of Ok j \<Rightarrow> Some j | _ \<Rightarrow> None),
       ve_get = (\<lambda>_. False), ve_post = (\<lambda>_ _. Inl []), ve_elapsed = (\<lambda>_. 0)\<rparr> t"

text \<open>Nothing, if there is no service, if it fails, or if it finds nothing.\<close>

definition look_for :: "mcp_env \<Rightarrow> supervisor \<Rightarrow> string \<Rightarrow> (mcp_error, vision_response option) prog" where
  "look_for env sv prompt = (\<lambda>br es.
     case me_vision env of
       None \<Rightarrow> (Ok None, es)
     | Some v \<Rightarrow>
         if \<not> vi_available v es then (Ok None, es)
         else
           (case capture_vision_screenshot sv br es of
              (Ok shot, es1) \<Rightarrow>
                (case vi_analyze v es1 shot prompt of
                   Inl _ \<Rightarrow> (Ok None, es1)
                 | Inr t \<Rightarrow> (let a = page_answer br t in (Ok (if vr_found a then Some a else None), es1)))
            | (Err _, es1) \<Rightarrow> (Ok None, es1)
            | (Panic, es1) \<Rightarrow> (Panic, es1)))"

text \<open>The screenshot has half the size of the page.\<close>

definition target_place :: "click_target \<Rightarrow> rat \<times> rat" where
  "target_place t = (ck_x t * 2, ck_y t * 2)"

subsection \<open>Dialogs\<close>

definition find_dialog_js :: string where
  "find_dialog_js = (join_lines
        [''(function() {'',
         ''    function elCoords(el, extra) {'',
         ''        const r = el.getBoundingClientRect();'',
         ''        return Object.assign({found: true,'',
         ''            x: Math.round(r.left + r.width / 2 + window.scrollX),'',
         ''            y: Math.round(r.top + r.height / 2 + window.scrollY),'',
         ''            text: (el.innerText || el.value || '' @ [CHR 0x27, CHR 0x27] @ '').trim().substring(0, 100)}, extra);'',
         ''    }'',
         '''',
         ''    // --- Tier 1: Known consent framework selectors (high confidence) ---'',
         ''    const selectors = ['',
         ''        '#onetrust-accept-btn-handler','',
         ''        '#CybotCookiebotDialogBodyLevelButtonLevelOptinAllowAll','',
         ''        '.cookie-consent-accept-all','',
         ''        '[data-testid=\"cookie-policy-manage-dialog-btn-accept-all\"]','',
         ''        '.cc-accept-all','',
         ''        '#accept-all-cookies','',
         ''        '.js-accept-cookies','',
         ''        '#gdpr-cookie-accept','',
         ''        '.cookie-banner-accept','',
         ''        '#cookie-accept','',
         ''        '.fc-cta-consent','',
         ''        '#didomi-notice-agree-button','',
         ''        '.qc-cmp2-summary-buttons button:first-child','',
         ''        '#truste-consent-button','',
         ''        '.cookie-notice-accept-button','',
         ''        '#sp-cc-accept','',
         ''        '.evidon-banner-acceptbutton','',
         ''        '#ez-accept-all','',
         ''        '.cmpboxbtnyes','',
         ''        '[data-gdpr-consent=\"accept\"]','',
         ''        '[data-cookie-consent=\"accept\"]','',
         ''    ];'',
         ''    for (const sel of selectors) {'',
         ''        const el = document.querySelector(sel);'',
         ''        if (el && el.offsetWidth > 0 && el.offsetHeight > 0) {'',
         ''            return JSON.stringify(elCoords(el, {method: 'selector', selector: sel}));'',
         ''        }'',
         ''    }'',
         '''',
         ''    // --- Tier 2: Structural overlay detection ---'',
         ''    const consentExact = ['ok', 'close', 'dismiss', 'continue', 'agree', 'consent'];'',
         ''    const consentContains = ['',
         ''        'accept all', 'accept cookies', 'i accept', 'allow all','',
         ''        'accept & close', 'got it', 'i agree', 'accept and continue','',
         ''        'akzeptieren', 'tout accepter', 'aceptar todo', 'accetta tutti','',
         ''    ];'',
         ''    function isConsentText(t) {'',
         ''        const tl = t.toLowerCase();'',
         ''        for (const p of consentExact) { if (tl === p) return p; }'',
         ''        for (const p of consentContains) { if (tl.includes(p)) return p; }'',
         ''        return null;'',
         ''    }'',
         ''    const allEls = document.querySelectorAll('*');'',
         ''    for (const container of allEls) {'',
         ''        const style = getComputedStyle(container);'',
         ''        const pos = style.position;'',
         ''        if (pos !== 'fixed' && pos !== 'sticky') continue;'',
         ''        const rect = container.getBoundingClientRect();'',
         ''        if (rect.width < 200 || rect.height < 40) continue;'',
         ''        const zIndex = parseInt(style.zIndex) || 0;'',
         ''        const coversWidth = rect.width >= window.innerWidth * 0.5;'',
         ''        const hasHighZ = zIndex >= 100;'',
         ''        const hasBg = style.backgroundColor !== 'rgba(0, 0, 0, 0)' && style.backgroundColor !== 'transparent';'',
         ''        if (!coversWidth && !hasHighZ && !hasBg) continue;'',
         ''        const buttons = container.querySelectorAll('button, [role=\"button\"], input[type=\"submit\"]');'',
         ''        for (const btn of buttons) {'',
         ''            if (btn.offsetWidth <= 0 || btn.offsetHeight <= 0) continue;'',
         ''            const t = (btn.innerText || btn.value || '' @ [CHR 0x27, CHR 0x27] @ '').trim();'',
         ''            if (t.length > 40) continue;'',
         ''            const matched = isConsentText(t);'',
         ''            if (matched) {'',
         ''                return JSON.stringify(elCoords(btn, {method: 'structural_overlay', pattern: matched, container_z: zIndex}));'',
         ''            }'',
         ''        }'',
         ''    }'',
         '''',
         ''    return JSON.stringify({found: false});'',
         ''})()''])"

definition dismiss_dialog_prompt :: string where
  "dismiss_dialog_prompt = (join_lines
        [''You are analyzing a browser screenshot. Is there a cookie consent, privacy, or GDPR dialog overlay visible on this page?'',
         '''',
         ''If YES: Return a JSON object with the center coordinates of the \"Accept All\", \"Accept\", \"I Agree\", or similar consent button:'',
         ''{\"found\": true, \"x\": <number>, \"y\": <number>, \"description\": \"<button text>\"}'',
         '''',
         ''If NO consent/cookie dialog is visible: Return:'',
         ''{\"found\": false}'',
         '''',
         ''IMPORTANT: Only identify actual consent/cookie/privacy overlays. Do NOT identify navigation menus, video players, ads, or other page elements. The coordinates should be the CENTER of the button in pixels from the top-left of the screenshot.''])"

definition dismiss_found :: "mcp_env \<Rightarrow> json \<Rightarrow> supervisor \<Rightarrow> (mcp_error, string \<times> supervisor) prog" where
  "dismiss_found env info sv = (\<lambda>br.
     (let meth = field_or ''?'' as_str ''method'' info; txt = field_or [] as_str ''text'' info; (x, y) = place info in
      seq (cdp_click x y) (\<lambda>_.
      seq (record_action env ''dismiss_dialog'' txt (''Dismissed dialog via '' @ meth) sv) (\<lambda>sv'.
      ret (''Dismissed dialog: \"'' @ txt @ ''\" (matched via '' @ meth @ '', clicked at '' @ br_show_f64 br x @ '','' @
        br_show_f64 br y @ '').'', sv')))) br)"

definition dismiss_seen :: "mcp_env \<Rightarrow> click_target \<Rightarrow> supervisor \<Rightarrow> (mcp_error, string \<times> supervisor) prog" where
  "dismiss_seen env t sv = (\<lambda>br.
     (let (x, y) = target_place t; desc = or_default ''consent button'' (ck_description t) in
      seq (cdp_click x y) (\<lambda>_.
      seq (record_action env ''dismiss_dialog'' desc ''Dismissed dialog via vision LLM'' sv) (\<lambda>sv'.
      ret (''Dismissed dialog: \"'' @ desc @ ''\" (matched via vision LLM at '' @ show_point br x y @ '').'', sv')))) br)"

definition vscreen_dismiss_dialogs :: "mcp_env \<Rightarrow> supervisor \<Rightarrow> (mcp_error, string \<times> supervisor) prog" where
  "vscreen_dismiss_dialogs env sv =
     seq (reported find_dialog_js) (\<lambda>info.
     if is_found info then dismiss_found env info sv
     else
       seq (look_for env sv dismiss_dialog_prompt) (\<lambda>a.
       case a of
         None \<Rightarrow> ret (''No consent/cookie dialog found to dismiss.'', sv)
       | Some a \<Rightarrow>
           (case vr_click_target a of
              Some t \<Rightarrow> dismiss_seen env t sv
            | None \<Rightarrow> ret (''Vision LLM detected a dialog but could not determine button coordinates. Details: '' @
                take_chars 200 (vr_text a), sv))))"

subsection \<open>Advertisements\<close>

definition find_ad_js :: string where
  "find_ad_js = (join_lines
        [''(function() {'',
         ''    // YouTube skip button selectors (various versions)'',
         ''    const skipSelectors = ['',
         ''        '.ytp-skip-ad-button','',
         ''        '.ytp-ad-skip-button','',
         ''        '.ytp-ad-skip-button-modern','',
         ''        'button.ytp-ad-skip-button','',
         ''        '.videoAdUiSkipButton','',
         ''        '[id^=\"skip-button\"]','',
         ''    ];'',
         ''    for (const sel of skipSelectors) {'',
         ''        const el = document.querySelector(sel);'',
         ''        if (el && el.offsetWidth > 0 && el.offsetHeight > 0) {'',
         ''            const r = el.getBoundingClientRect();'',
         ''            return JSON.stringify({found: true, type: 'skip_button', selector: sel,'',
         ''                text: (el.innerText || '' @ [CHR 0x27, CHR 0x27] @ '').trim(),'',
         ''                x: Math.round(r.left + r.width / 2 + window.scrollX),'',
         ''                y: Math.round(r.top + r.height / 2 + window.scrollY)});'',
         ''        }'',
         ''    }'',
         ''    // Ad-specific close/overlay buttons'',
         ''    const adCloseSelectors = ['',
         ''        '.ytp-ad-overlay-close-button','',
         ''        '.ad-close-button','',
         ''        '.close-ad','',
         ''        '[aria-label=\"Close ad\"]','',
         ''    ];'',
         ''    for (const sel of adCloseSelectors) {'',
         ''        const el = document.querySelector(sel);'',
         ''        if (el && el.offsetWidth > 0 && el.offsetHeight > 0) {'',
         ''            const r = el.getBoundingClientRect();'',
         ''            return JSON.stringify({found: true, type: 'close_overlay', selector: sel,'',
         ''                text: (el.innerText || '' @ [CHR 0x27, CHR 0x27] @ '').trim(),'',
         ''                x: Math.round(r.left + r.width / 2 + window.scrollX),'',
         ''                y: Math.round(r.top + r.height / 2 + window.scrollY)});'',
         ''        }'',
         ''    }'',
         ''    // Detect if ad is playing but skip not yet available'',
         ''    const adPlaying = document.querySelector('.ad-showing, .ytp-ad-player-overlay, [class*=\"ad-interrupting\"]');'',
         ''    if (adPlaying) {'',
         ''        return JSON.stringify({found: false, ad_detected: true, message: 'Ad playing but skip button not yet available'});'',
         ''    }'',
         ''    return JSON.stringify({found: false, ad_detected: false});'',
         ''})()''])"

definition dismiss_ad_prompt :: string where
  "dismiss_ad_prompt = (join_lines
        [''You are analyzing a browser screenshot of a video player page. Is there a video advertisement playing with a \"Skip\" or \"Skip Ad\" button visible?'',
         '''',
         ''If YES: Return a JSON object with the center coordinates of the skip button:'',
         ''{\"found\": true, \"x\": <number>, \"y\": <number>, \"description\": \"Skip Ad button\"}'',
         '''',
         ''If NO skip button is visible but an ad appears to be playing (e.g. countdown timer visible):'',
         ''{\"found\": false, \"description\": \"Ad playing but skip not yet available\"}'',
         '''',
         ''If NO ad is playing:'',
         ''{\"found\": false}'',
         '''',
         ''IMPORTANT: Only identify actual ad skip buttons inside the video player area. Do NOT identify \"Skip navigation\" links or other non-ad elements.''])"

text \<open>The loop ends with the last report: with one that found a button, or the one at the deadline.\<close>

definition ad_probe :: "mcp_env \<Rightarrow> nat \<Rightarrow> (mcp_error, json option) prog" where
  "ad_probe env deadline =
     seq (reported find_ad_js) (\<lambda>info. \<lambda>br es.
     (Ok (if is_found info \<or> deadline \<le> me_clock env es then Some info else None), es))"

definition await_ad :: "mcp_env \<Rightarrow> u64 \<Rightarrow> json run" where
  "await_ad env timeout = (\<lambda>br es.
     let deadline = me_clock env es + unat timeout in
     poll (me_clock env) deadline 500 (ad_probe env deadline) JNull br es)"

definition dismiss_ad_found :: "mcp_env \<Rightarrow> json \<Rightarrow> supervisor \<Rightarrow> (mcp_error, string \<times> supervisor) prog" where
  "dismiss_ad_found env info sv = (\<lambda>br.
     (let ty = field_or ''?'' as_str ''type'' info; txt = field_or [] as_str ''text'' info; (x, y) = place info in
      seq (cdp_click x y) (\<lambda>_.
      seq (record_action env ''dismiss_ad'' txt (''Dismissed ad via '' @ ty) sv) (\<lambda>sv'.
      ret (''Ad dismissed via '' @ ty @ '': \"'' @ txt @ ''\" (clicked at '' @ br_show_f64 br x @ '','' @
        br_show_f64 br y @ '')'', sv')))) br)"

definition dismiss_ad_late :: "mcp_env \<Rightarrow> u64 \<Rightarrow> json \<Rightarrow> supervisor \<Rightarrow> (mcp_error, string \<times> supervisor) prog" where
  "dismiss_ad_late env timeout info sv = (\<lambda>br.
     (if \<not> field_or False as_bool ''ad_detected'' info
      then ret (''No video ad overlay detected on the current page.'', sv)
      else
        seq (look_for env sv dismiss_ad_prompt) (\<lambda>a.
        case Option.bind a vr_click_target of
          Some t \<Rightarrow>
            (let (x, y) = target_place t; desc = or_default ''skip button'' (ck_description t) in
             seq (cdp_click x y) (\<lambda>_.
             seq (record_action env ''dismiss_ad'' desc ''Dismissed ad via vision LLM'' sv) (\<lambda>sv'.
             ret (''Ad dismissed via vision LLM: \"'' @ desc @ ''\" at '' @ show_point br x y, sv'))))
        | None \<Rightarrow> ret (''Timed out after '' @ show_word timeout @ ''ms. '' @
            field_or ''Ad detected but could not dismiss'' as_str ''message'' info @
            ''. The ad may need to play through.'', sv))) br)"

definition vscreen_dismiss_ads :: "mcp_env \<Rightarrow> u64 option \<Rightarrow> supervisor \<Rightarrow> (string \<times> supervisor) run" where
  "vscreen_dismiss_ads env timeout_ms sv =
     (let timeout = or_default 15000 timeout_ms in
      and_run (await_ad env timeout) (\<lambda>info.
      returns (if is_found info then dismiss_ad_found env info sv else dismiss_ad_late env timeout info sv)))"

subsection \<open>Interaction: the target\<close>

record interact_params =
  ip_action :: string
  ip_target :: "string option"
  ip_target_type :: "string option"
  ip_value :: "string option"
  ip_x :: "rat option"
  ip_y :: "rat option"

definition target_type :: "interact_params \<Rightarrow> string" where
  "target_type p = or_default ''text'' (ip_target_type p)"

definition need :: "string \<Rightarrow> 'a option \<Rightarrow> (mcp_error, 'a) prog" where
  "need message v = lift (case v of Some a \<Rightarrow> Ok a | None \<Rightarrow> Err (Invalid_Params message))"

definition target_js :: "string \<Rightarrow> string" where
  "target_js sel_json = (join_lines
        [''(function(){'',
         ''    const el = document.querySelector('']) @ sel_json @ (join_lines
        ['');'',
         ''    if (!el) return JSON.stringify({found: false});'',
         ''    el.scrollIntoView({behavior: 'instant', block: 'center', inline: 'nearest'});'',
         ''    const r = el.getBoundingClientRect();'',
         ''    return JSON.stringify({found: true, x: r.left + r.width/2 + window.scrollX, y: r.top + r.height/2 + window.scrollY});'',
         ''})()''])"

text \<open>\<open>target.replace('\\', "\\\\").replace('"', "\\\"")\<close>\<close>

definition escape_target :: "string \<Rightarrow> string" where
  "escape_target t =
     replace_skip 0 [CHR 0x22] [CHR 0x5C, CHR 0x22] (replace_skip 0 [CHR 0x5C] [CHR 0x5C, CHR 0x5C] t)"

definition text_target_js :: "string \<Rightarrow> string" where
  "text_target_js escaped = (join_lines
        [''(function(){'',
         ''  const search = \"'']) @ escaped @ (join_lines
        [''\";'',
         ''  const walker = document.createTreeWalker(document.body, NodeFilter.SHOW_TEXT);'',
         ''  while(walker.nextNode()) {'',
         ''    if(walker.currentNode.textContent.includes(search)) {'',
         ''      const el = walker.currentNode.parentElement;'',
         ''      if (!el) continue;'',
         ''      const r = el.getBoundingClientRect();'',
         ''      if (r.width > 0 && r.height > 0) {'',
         ''        el.scrollIntoView({behavior: 'instant', block: 'center', inline: 'nearest'});'',
         ''        const r2 = el.getBoundingClientRect();'',
         ''        return JSON.stringify({x: r2.left + r2.width/2 + window.scrollX, y: r2.top + r2.height/2 + window.scrollY, found: true});'',
         ''      }'',
         ''    }'',
         ''  }'',
         ''  return JSON.stringify({found: false});'',
         ''})()''])"

definition located :: "string \<Rightarrow> (mcp_error, (rat \<times> rat) \<times> bool) prog" where
  "located js = seq (reported js) (\<lambda>info. ret (place info, is_found info))"

definition resolve_target :: "interact_params \<Rightarrow> (mcp_error, (rat \<times> rat) \<times> bool) prog" where
  "resolve_target p = (\<lambda>br.
     (if target_type p = ''coordinates'' then
        seq (need ''target_type=coordinates requires x and y'' (ip_x p)) (\<lambda>x.
        seq (need ''target_type=coordinates requires x and y'' (ip_y p)) (\<lambda>y.
        ret ((x, y), True)))
      else if target_type p = ''selector'' then
        seq (need ''target_type=selector requires target'' (ip_target p)) (\<lambda>t.
        located (target_js (br_json_string br t)))
      else
        seq (need ''target required for text/selector targeting'' (ip_target p)) (\<lambda>t.
        located (text_target_js (escape_target t)))) br)"

subsection \<open>Interaction: the action\<close>

definition select_option_js :: "string \<Rightarrow> string \<Rightarrow> string" where
  "select_option_js sel_json val_json = (join_lines
        [''(function() {'',
         ''    const sel = document.querySelector('']) @ sel_json @ (join_lines
        ['');'',
         ''    if (!sel) return JSON.stringify({error: 'Select not found'});'',
         ''    if (sel.tagName.toLowerCase() !== 'select') return JSON.stringify({error: 'Not a select element'});'',
         ''    for (let i = 0; i < sel.options.length; i++) {'',
         ''        if (sel.options[i].value === '']) @ val_json @ '' || sel.options[i].text.trim() === '' @ val_json @ (join_lines
        ['') {'',
         ''            sel.selectedIndex = i;'',
         ''            sel.dispatchEvent(new Event('change', {bubbles: true}));'',
         ''            sel.dispatchEvent(new Event('input', {bubbles: true}));'',
         ''            return JSON.stringify({ok: true});'',
         ''        }'',
         ''    }'',
         ''    return JSON.stringify({error: 'Option not found'});'',
         ''})()''])"

definition scroll_selector_js :: "string \<Rightarrow> string" where
  "scroll_selector_js sel_json = (join_lines
        [''(function() {'',
         ''    const el = document.querySelector('']) @ sel_json @ (join_lines
        ['');'',
         ''    if (!el) return JSON.stringify({error: 'Element not found'});'',
         ''    el.scrollIntoView({behavior: 'instant', block: 'center', inline: 'nearest'});'',
         ''    return JSON.stringify({ok: true});'',
         ''})()''])"

definition scroll_text_js :: "string \<Rightarrow> string" where
  "scroll_text_js escaped = (join_lines
        [''(function() {'',
         ''    const search = \"'']) @ escaped @ (join_lines
        [''\";'',
         ''    const walker = document.createTreeWalker(document.body, NodeFilter.SHOW_TEXT);'',
         ''    while(walker.nextNode()) {'',
         ''        if(walker.currentNode.textContent.includes(search)) {'',
         ''            const el = walker.currentNode.parentElement;'',
         ''            if (el && el.getBoundingClientRect().width > 0) {'',
         ''                el.scrollIntoView({behavior: 'instant', block: 'center', inline: 'nearest'});'',
         ''                return JSON.stringify({ok: true});'',
         ''            }'',
         ''        }'',
         ''    }'',
         ''    return JSON.stringify({error: 'Element not found'});'',
         ''})()''])"

text \<open>A script whose report may be an error.\<close>

definition checked_js :: "string \<Rightarrow> (mcp_error, unit) prog" where
  "checked_js js =
     seq (reported js) (\<lambda>info.
     lift (case str_member ''error'' info of Some e \<Rightarrow> Err (Invalid_Params e) | None \<Rightarrow> Ok ()))"

definition perform :: "interact_params \<Rightarrow> string \<Rightarrow> rat \<times> rat \<Rightarrow> (mcp_error, unit) prog" where
  "perform p action pos = (\<lambda>br.
     (case pos of (x, y) \<Rightarrow>
      if action = ''click'' then cdp_click x y
      else if action = ''type'' then
        seq (need ''action=type requires value'' (ip_value p)) (\<lambda>v.
        seq (cdp_click x y) (\<lambda>_.
        seq (sleep 100) (\<lambda>_.
        mcp_command ''Input.insertText'' (JObj [(''text'', JStr v)]))))
      else if action = ''select'' then
        seq (need ''action=select requires value'' (ip_value p)) (\<lambda>v.
        seq (need ''action=select requires target (selector)'' (ip_target p)) (\<lambda>t.
        checked_js (select_option_js (br_json_string br t) (br_json_string br v))))
      else if action = ''hover'' then
        seq (translate x y) (\<lambda>(vx, vy). mcp_mouse (mouse_json ''mouseMoved'' vx vy []))
      else if action = ''scroll'' then
        seq (need ''action=scroll requires target'' (ip_target p)) (\<lambda>t.
        checked_js (if target_type p = ''selector'' then scroll_selector_js (br_json_string br t)
          else scroll_text_js (escape_target t)))
      else lift (Err (Invalid_Params (''invalid action '' @ [CHR 0x27] @ action @ [CHR 0x27] @
        '': must be click, type, select, hover, or scroll'')))) br)"

definition not_found_report :: "mcp_env \<Rightarrow> string \<Rightarrow> content" where
  "not_found_report env action =
     Says (me_json env (JObj
       [(''success'', JBool False), (''action_performed'', JStr action), (''target_found'', JBool False),
        (''message'', JStr ''Target element not found''),
        (''hint'', JStr ''Try vscreen_find(by=\"text\", text=\"...\") or vscreen_find(by=\"selector\", selector=\"...\") to search for elements, then use vscreen_click with coordinates.'')]))"

definition interact_report ::
  "mcp_env \<Rightarrow> interact_params \<Rightarrow> string \<Rightarrow> bool \<Rightarrow> string \<Rightarrow> supervisor \<Rightarrow> (mcp_error, content list \<times> supervisor) prog" where
  "interact_report env p action found url_before sv =
     seq (sleep 500) (\<lambda>_.
     seq (with_err internal (sup_capture_screenshot ''png'' None)) (\<lambda>shot.
     seq url_and_title (\<lambda>(url, title).
     seq (record_action env ''interact''
       (action @ '' '' @ (case ip_target p of None \<Rightarrow> ''None'' | Some t \<Rightarrow> ''Some('' @ me_debug env t @ '')''))
       (action @ '' performed'') sv) (\<lambda>sv'.
     ret ([Image (me_base64 env shot) ''image/png'',
           Says (me_pretty env (JObj
             [(''success'', JBool True), (''action_performed'', JStr action), (''target_found'', JBool found),
              (''page_changed'', JBool (url \<noteq> url_before)), (''url'', JStr url), (''title'', JStr title)]))], sv')))))"

definition vscreen_interact :: "mcp_env \<Rightarrow> interact_params \<Rightarrow> supervisor \<Rightarrow> (mcp_error, content list \<times> supervisor) prog" where
  "vscreen_interact env p sv =
     (let action = to_lowercase (ip_action p) in
      seq (resolve_target p) (\<lambda>(pos, found).
      if \<not> found \<and> action \<noteq> ''scroll'' then ret ([not_found_report env action], sv)
      else
        seq (with_err internal current_url) (\<lambda>before.
        seq (perform p action pos) (\<lambda>_.
        interact_report env p action found before sv))))"

subsection \<open>Challenges\<close>

definition consent_js :: string where
  "consent_js = (join_lines
        [''(function() {'',
         ''    const selectors = ['',
         ''        '[class*=\"cookie\"] button', '[class*=\"consent\"] button','',
         ''        '[id*=\"cookie\"] button', '[id*=\"consent\"] button','',
         ''        '.cookie-banner button', '#cookie-banner button','',
         ''        'button[data-testid*=\"accept\"]', 'button[data-testid*=\"agree\"]','',
         ''        '#onetrust-accept-btn-handler', '.cc-accept-all', '#accept-all-cookies'' @ [CHR 0x27],
         ''    ];'',
         ''    for(const sel of selectors) {'',
         ''        const btn = document.querySelector(sel);'',
         ''        if(btn && btn.offsetHeight > 0) {'',
         ''            const r = btn.getBoundingClientRect();'',
         ''            return JSON.stringify({found: true, x: r.left + r.width/2 + window.scrollX, y: r.top + r.height/2 + window.scrollY});'',
         ''        }'',
         ''    }'',
         ''    return JSON.stringify({found: false});'',
         ''})()''])"

definition auto_consent_js :: string where
  "auto_consent_js = (join_lines
        [''(function() {'',
         ''    const selectors = ['',
         ''        '[class*=\"cookie\"] button', '[class*=\"consent\"] button','',
         ''        '[id*=\"cookie\"] button', '[id*=\"consent\"] button','',
         ''        '#onetrust-accept-btn-handler', '.cc-accept-all'' @ [CHR 0x27],
         ''    ];'',
         ''    for(const sel of selectors) {'',
         ''        const btn = document.querySelector(sel);'',
         ''        if(btn && btn.offsetHeight > 0) {'',
         ''            const r = btn.getBoundingClientRect();'',
         ''            return JSON.stringify({found: true, x: r.left + r.width/2 + window.scrollX, y: r.top + r.height/2 + window.scrollY});'',
         ''        }'',
         ''    }'',
         ''    return JSON.stringify({found: false});'',
         ''})()''])"

definition dismiss_consent ::
  "mcp_env \<Rightarrow> string \<Rightarrow> string \<Rightarrow> string \<Rightarrow> supervisor \<Rightarrow> (mcp_error, string \<times> supervisor) prog" where
  "dismiss_consent env js dismissed missing sv =
     seq (reported js) (\<lambda>info.
     if is_found info then
       seq (case place info of (x, y) \<Rightarrow> cdp_click x y) (\<lambda>_.
       seq (record_action env ''solve_challenge'' ''cookie_consent'' ''Dismissed consent dialog'' sv) (\<lambda>sv'.
       ret (dismissed, sv')))
     else ret (missing, sv))"

text \<open>The three questions are sent in this order; their answers are awaited together.\<close>

definition detected :: "string \<Rightarrow> (mcp_error, bool) prog" where
  "detected js =
     seq (attempt (sup_evaluate_js js)) (\<lambda>r. ret (case r of Ok v \<Rightarrow> or_default False (as_bool v) | _ \<Rightarrow> False))"

definition solve_auto :: "mcp_env \<Rightarrow> instance_id \<Rightarrow> supervisor \<Rightarrow> (mcp_error, string \<times> supervisor) prog" where
  "solve_auto env i sv =
     seq (detected (''!!document.querySelector('iframe[src*=\"recaptcha\"]')'')) (\<lambda>recaptcha.
     seq (detected (''!!(document.querySelector('[class*=\"cookie\"] button, [class*=\"consent\"] button, [id*=\"cookie\"] button, [id*=\"consent\"] button'))'')) (\<lambda>consent.
     seq (detected (''!!(document.querySelector('.ytp-ad-skip-button, .ytp-skip-ad-button, [class*=\"ad-overlay\"]'))'')) (\<lambda>ad.
     if recaptcha then ret (''Detected: reCAPTCHA. Use vscreen_solve_captcha(instance_id: \"'' @ i @
       ''\") to solve. Requires vision LLM (--vision-url).'', sv)
     else if consent then dismiss_consent env auto_consent_js ''Detected: cookie consent. Dismissed.''
       ''Detected: cookie consent overlay but could not find dismiss button. Try vscreen_dismiss_dialogs.'' sv
     else if ad then ret (''Detected: ad overlay. Use vscreen_dismiss_ads(instance_id: \"'' @ i @
       ''\") to wait for and click skip button.'', sv)
     else ret (''No blocker detected (reCAPTCHA, cookie consent, or ad overlay).'', sv))))"

definition vscreen_solve_challenge ::
  "mcp_env \<Rightarrow> instance_id \<Rightarrow> string option \<Rightarrow> supervisor \<Rightarrow> (mcp_error, string \<times> supervisor) prog" where
  "vscreen_solve_challenge env i challenge sv =
     (let kind = to_lowercase (or_default ''auto'' challenge) in
      if kind = ''captcha'' then ret (''reCAPTCHA detected or requested. Use vscreen_solve_captcha(instance_id: \"'' @ i @
        ''\") to solve the reCAPTCHA. Requires vision LLM (--vision-url).'', sv)
      else if kind = ''cookie_consent'' then dismiss_consent env consent_js
        ''Cookie consent dialog detected and dismissed.'' ''No cookie consent dialog found.'' sv
      else if kind = ''ad'' then ret (''Ad overlay mode. Use vscreen_dismiss_ads(instance_id: \"'' @ i @
        ''\") to wait for and click skip buttons, or vscreen_click(mode=\"element\", text=\"Skip\") to click skip by text.'', sv)
      else solve_auto env i sv)"

subsection \<open>The tools\<close>

datatype interact_tool =
    Dismiss_Dialogs
  | Dismiss_Ads "u64 option"
  | Interact interact_params
  | Solve_Challenge "string option"

text \<open>A message is a result of one text.\<close>

definition said :: "(mcp_error, string \<times> supervisor) prog \<Rightarrow> (mcp_error, content list \<times> supervisor) prog" where
  "said m = seq m (\<lambda>(s, sv). ret ([Says s], sv))"

fun interact_body :: "mcp_env \<Rightarrow> instance_id \<Rightarrow> interact_tool \<Rightarrow> supervisor \<Rightarrow> (content list \<times> supervisor) run" where
  "interact_body env i Dismiss_Dialogs = (\<lambda>sv. returns (said (vscreen_dismiss_dialogs env sv)))"
| "interact_body env i (Dismiss_Ads t) =
     (\<lambda>sv. and_run (vscreen_dismiss_ads env t sv) (\<lambda>(s, sv'). returns (ret ([Says s], sv'))))"
| "interact_body env i (Interact p) = (\<lambda>sv. returns (vscreen_interact env p sv))"
| "interact_body env i (Solve_Challenge c) = (\<lambda>sv. returns (said (vscreen_solve_challenge env i c sv)))"

definition call_interact_tool ::
  "mcp_env \<Rightarrow> instance_id \<Rightarrow> interact_tool \<Rightarrow> app_state \<Rightarrow> browser \<Rightarrow> browser_event list
     \<Rightarrow> (app_state \<times> (mcp_error, content list) outcome \<times> browser_event list) option" where
  "call_interact_tool env i t = run_tool env Exclusive i None (interact_body env i t)"

interpretation interact_tools: tool_family call_interact_tool "\<lambda>_. Exclusive"
  by unfold_locales (auto simp: call_interact_tool_def)

subsection \<open>Quoting a target\<close>

text \<open>Reading a string literal of JavaScript behind its opening quote \<open>q\<close>: the string and what follows
  the literal. A line break in it is a syntax error; of the escapes, those of a backslash, a quote,
  a line feed and a carriage return are read.\<close>

definition unescaped :: "char \<Rightarrow> char option" where
  "unescaped d =
     (if d \<in> {CHR 0x22, CHR 0x27, CHR 0x5C} then Some d
      else if d = CHR ''n'' then Some LF else if d = CHR ''r'' then Some CR else None)"

fun js_string :: "char \<Rightarrow> string \<Rightarrow> (string \<times> string) option" where
  "js_string q [] = None"
| "js_string q (c # s) =
     (if c = q then Some ([], s)
      else if c = LF \<or> c = CR then None
      else if c = CHR 0x5C then
        (case s of
           [] \<Rightarrow> None
         | d # s' \<Rightarrow> Option.bind (unescaped d) (\<lambda>e. map_option (map_prod (Cons e) id) (js_string q s')))
      else map_option (map_prod (Cons c) id) (js_string q s))"

lemma replace_char: "replace_skip 0 [c] new s = concat (map (\<lambda>x. if x = c then new else [x]) s)"
  by (induction s) (auto simp: starts_with_def)

lemma escape_target_simps [simp]:
  "escape_target [] = []"
  "escape_target (c # t) =
     (if c = CHR 0x5C then [CHR 0x5C, CHR 0x5C] else if c = CHR 0x22 then [CHR 0x5C, CHR 0x22] else [c]) @ escape_target t"
  by (simp_all add: escape_target_def replace_char del: replace_skip.simps)

text \<open>C32: The text to look for is quoted correctly in the scripts of \<open>vscreen_interact\<close>: the page reads
  exactly that text back, whatever follows, and quotes and backslashes in it cannot end the
  literal. A text with a line break is the exception: the script with it is no JavaScript.\<close>

theorem target_quoted:
  "js_string (CHR 0x22) (escape_target t @ CHR 0x22 # rest) = (if LF \<in> set t \<or> CR \<in> set t then None else Some (t, rest))"
  by (induction t) (auto simp: unescaped_def)

subsection \<open>Where a choice is made\<close>

text \<open>An option is selected in the element that the target names as a selector, however the target
  was given: where it was found plays no part.\<close>

lemma select_takes_selector:
  "perform p ''select'' pos = perform (p\<lparr>ip_target_type := tt\<rparr>) ''select'' pos'"
  by (auto simp: perform_def split: prod.split)

subsection \<open>Waiting for an advertisement\<close>

lemma reported_run:
  obtains (reports) info where "reported js br es = (Ok info, es @ [eval_event js])"
    | (fails) e where "reported js br es = (Err e, es @ [eval_event js])"
proof -
  obtain r where "mcp_js js br es = (r, es @ [eval_event js])" "r \<noteq> Panic" by (rule mcp_js_run)
  then show thesis using that by (cases r) (auto simp: reported_def seq_def ret_def)
qed

lemma asks_ad: "asks 1 br (ad_probe env d)"
  unfolding asks_def
proof
  fix es
  show "\<exists>r xs. ad_probe env d br es = (r, es @ xs) \<and> r \<noteq> Panic \<and> evaluations xs \<le> 1"
    by (cases rule: reported_run [of find_ad_js br es]) (auto simp: ad_probe_def)
qed

text \<open>The wait for a button that skips an advertisement ends, after at most one question for each half
  second of the time it has and one more, and never panics; the report it ends with names a button,
  or was made when the time was over.\<close>

theorem await_ad_ends:
  assumes "\<forall>es e. me_clock env es \<le> me_clock env (es @ [e])"
    and "\<forall>es n. me_clock env es + n \<le> me_clock env (es @ [Sleep n])"
  shows "\<exists>r xs. await_ad env timeout br es = Some (r, es @ xs) \<and> evaluations xs \<le> Suc ((unat timeout + 499) div 500) \<and>
    (case r of
       Ok info \<Rightarrow> is_found info \<or> me_clock env es + unat timeout \<le> me_clock env (es @ xs)
     | Err _ \<Rightarrow> True
     | Panic \<Rightarrow> False)"
proof -
  let ?d = "me_clock env es + unat timeout"
  obtain r xs where p: "poll (me_clock env) ?d 500 (ad_probe env ?d) JNull br es = Some (r, es @ xs)" "r \<noteq> Panic"
      "evaluations xs \<le> Suc ((unat timeout + 499) div 500)"
    using poll_ends [where n = 500 and d = ?d and late = JNull and es = es, OF assms _ asks_ad [of br env ?d]] by auto
  obtain es1 where s: "snd (ad_probe env ?d br es1) = es @ xs"
      "case fst (ad_probe env ?d br es1) of
         Ok (Some a) \<Rightarrow> r = Ok a
       | Ok None \<Rightarrow> r = Ok JNull \<and> ?d \<le> me_clock env (es @ xs)
       | Err e \<Rightarrow> r = Err e
       | Panic \<Rightarrow> r = Panic"
    using p(1) by (rule poll_result)
  then have "case r of Ok info \<Rightarrow> is_found info \<or> ?d \<le> me_clock env (es @ xs) | Err _ \<Rightarrow> True | Panic \<Rightarrow> False"
    by (cases rule: reported_run [of find_ad_js br es1]) (auto simp: ad_probe_def split: if_splits)
  then show ?thesis using p by (auto simp: await_ad_def Let_def)
qed

lemma await_ad_ends_witness:
  "\<exists>r xs. await_ad (example_mcp\<lparr>me_clock := slept\<rparr>) 1200 (quiet_browser JNull) [] = Some (r, [] @ xs) \<and>
     evaluations xs \<le> 4"
  using await_ad_ends [of "example_mcp\<lparr>me_clock := slept\<rparr>" 1200 "quiet_browser JNull" "[]"]
  by auto


end
