(* ===== verification/Mcp_Histories.thy ===== *)
theory Mcp_Histories
  imports Mcp_Input Mcp_Navigation Mcp_Session Mcp_Interact
begin

section \<open>Histories under the tools\<close>

text \<open>
  The histories of an instance keep the bounds they are created with, whatever tool is called: 20
  screenshots, 100 actions, 200 console messages. Each tool's body is followed to the supervisor
  it returns.
\<close>

subsection \<open>The bounds\<close>

definition histories_ok :: "supervisor \<Rightarrow> bool" where
  "histories_ok sv \<longleftrightarrow>
     sy_max_entries (sv_screenshots sv) = 20 \<and> length (sy_entries (sv_screenshots sv)) \<le> 20 \<and>
     al_max_entries (sv_actions sv) = 100 \<and> length (al_entries (sv_actions sv)) \<le> 100 \<and>
     cb_max_entries (sv_console sv) = 200 \<and> length (cb_entries (sv_console sv)) \<le> 200"

lemma length_push_bounded: "0 < n \<Longrightarrow> length xs \<le> n \<Longrightarrow> length (push_bounded n x xs) \<le> n"
  by (auto simp: push_bounded_def)

lemma histories_ok_log [simp]:
  "histories_ok sv \<Longrightarrow> histories_ok (log_action env tool params result url index sv)"
  by (auto simp: histories_ok_def log_action_def action_record_def intro!: length_push_bounded)

lemma histories_ok_shot [simp]: "histories_ok sv \<Longrightarrow> histories_ok (push_screenshot env data url label sv)"
  by (auto simp: histories_ok_def push_screenshot_def screenshot_push_def intro!: length_push_bounded)

lemma histories_ok_clear [simp]:
  "histories_ok sv \<Longrightarrow> histories_ok (sv\<lparr>sv_screenshots := screenshot_clear (sv_screenshots sv)\<rparr>)"
  "histories_ok sv \<Longrightarrow> histories_ok (sv\<lparr>sv_console := console_clear (sv_console sv)\<rparr>)"
  by (simp_all add: histories_ok_def screenshot_clear_def console_clear_def)

lemma histories_ok_console [simp]:
  "histories_ok sv \<Longrightarrow> histories_ok (sv\<lparr>sv_console := fold (\<lambda>j. console_push (f j)) es (sv_console sv)\<rparr>)"
proof (induction es arbitrary: sv)
  case (Cons e es)
  have "histories_ok (sv\<lparr>sv_console := console_push (f e) (sv_console sv)\<rparr>)"
    using Cons.prems by (auto simp: histories_ok_def console_push_def intro!: length_push_bounded)
  from Cons.IH [OF this] show ?case by simp
qed simp

lemma histories_ok_new [simp]: "histories_ok (supervisor_new config tasks)"
  by (simp add: histories_ok_def supervisor_new_def screenshot_history_new_def action_log_new_def console_buffer_new_def)

subsection \<open>Results of programs\<close>

lemma seq_Ok_iff: "seq m f br es = (Ok b, es') \<longleftrightarrow> (\<exists>a es1. m br es = (Ok a, es1) \<and> f a br es1 = (Ok b, es'))"
  by (auto simp: seq_def split: prod.split outcome.split)

lemma ret_Ok_iff: "ret a br es = (Ok b, es') \<longleftrightarrow> b = a \<and> es' = es"
  by (auto simp: ret_def)

lemma lift_Err [simp]: "lift (Err e) br es \<noteq> (Ok b, es')"
  by (simp add: lift_def)

lemma and_run_Ok_iff:
  "and_run m f br es = Some (Ok b, es') \<longleftrightarrow> (\<exists>a es1. m br es = Some (Ok a, es1) \<and> f a br es1 = Some (Ok b, es'))"
  by (auto simp: and_run_def split: option.split prod.split outcome.split)

lemma returns_Some_iff: "returns m br es = Some r \<longleftrightarrow> m br es = r"
  by (simp add: returns_def)

lemmas results = seq_Ok_iff ret_Ok_iff and_run_Ok_iff returns_Some_iff Let_def

lemma record_action_ok:
  assumes "record_action env tool params result sv br es = (Ok sv', es')" and "histories_ok sv"
  shows "histories_ok sv'"
proof -
  obtain shot :: "(vscreen_error, bytes) outcome" and url where "sv' = (case shot of
      Ok data \<Rightarrow>
        (let sv1 = push_screenshot env data url (tool @ ''('' @ params @ '')'') sv
         in log_action env tool params result url (Some (length (sy_entries (sv_screenshots sv1)) - 1)) sv1)
    | _ \<Rightarrow> log_action env tool params result url None sv)"
    using assms(1) unfolding record_action_def Let_def seq_Ok_iff ret_Ok_iff by blast
  then show ?thesis using assms(2) by (simp add: Let_def split: outcome.split)
qed

lemma sync_console_ok:
  assumes "attempt (sync_console_messages now sv) br es = (Ok q, es')" and "histories_ok sv"
  shows "histories_ok (case q of Ok s \<Rightarrow> s | _ \<Rightarrow> sv)"
proof (cases q)
  case (Ok sv')
  then have "sync_console_messages now sv br es = (Ok sv', es')"
    using assms(1) by (auto simp: attempt_def split: prod.splits outcome.splits)
  then obtain r where "sv' = (case as_str r of None \<Rightarrow> sv
      | Some t \<Rightarrow> (case parse_json br t of
          Ok (JArr js) \<Rightarrow> sv\<lparr>sv_console := fold (\<lambda>j. console_push (console_entry_of now j)) js (sv_console sv)\<rparr>
        | _ \<Rightarrow> sv))"
    unfolding sync_console_messages_def seq_Ok_iff ret_Ok_iff by blast
  then show ?thesis using assms(2) Ok by (simp split: option.split outcome.split json.split)
qed (simp_all add: assms(2))

subsection \<open>The tools\<close>

definition keeps_histories :: "mcp_error + (supervisor \<Rightarrow> ('a \<times> supervisor) run) \<Rightarrow> bool" where
  "keeps_histories b \<longleftrightarrow>
     (\<forall>body sv br es msg sv' es'. b = Inr body \<and> body sv br es = Some (Ok (msg, sv'), es') \<and> histories_ok sv \<longrightarrow>
       histories_ok sv')"

lemma keeps_historiesI:
  "(\<And>body sv br es msg sv' es'. b = Inr body \<Longrightarrow> body sv br es = Some (Ok (msg, sv'), es') \<Longrightarrow> histories_ok sv \<Longrightarrow>
     histories_ok sv') \<Longrightarrow> keeps_histories b"
  by (auto simp: keeps_histories_def)

lemma keeps_Inl [simp]: "keeps_histories (Inl e)"
  by (simp add: keeps_histories_def)

lemma keeps_returns:
  "(\<And>sv br es msg sv' es'. m sv br es = (Ok (msg, sv'), es') \<Longrightarrow> histories_ok sv \<Longrightarrow> histories_ok sv') \<Longrightarrow>
     keeps_histories (Inr (\<lambda>sv. returns (m sv)))"
  by (auto simp: keeps_histories_def returns_def)

lemma keeps_run:
  "(\<And>sv br es msg sv' es'. body sv br es = Some (Ok (msg, sv'), es') \<Longrightarrow> histories_ok sv \<Longrightarrow> histories_ok sv') \<Longrightarrow>
     keeps_histories (Inr body)"
  by (auto simp: keeps_histories_def)

lemma clicks_keep:
  "keeps_histories (Inr (\<lambda>sv. returns (click_helper_single env x y button wait sv)))"
  "keeps_histories (Inr (\<lambda>sv. returns (click_helper_double env x y sv)))"
  "keeps_histories (Inr (\<lambda>sv. returns (click_helper_batch env ps d sv)))"
  by (rule keeps_returns, auto simp: click_helper_single_def click_helper_double_def click_helper_batch_def results
      dest: record_action_ok)+

lemma click_found_ok:
  "click_found env index button wait info tries sv br es = (Ok (msg, sv'), es') \<Longrightarrow> histories_ok sv \<Longrightarrow> histories_ok sv'"
  by (auto simp: click_found_def results dest: record_action_ok)

lemma click_element_keeps: "keeps_histories (Inr (click_helper_element env sel txt exact index button wait retries delay))"
proof (rule keeps_run)
  fix sv br es msg sv' es'
  assume "click_helper_element env sel txt exact index button wait retries delay sv br es = Some (Ok (msg, sv'), es')"
    and ok: "histories_ok sv"
  then obtain r es1 where "(case r of Inr msg \<Rightarrow> returns (ret (msg, sv))
      | Inl (info, tries) \<Rightarrow> returns (click_found env index button wait info tries sv)) br es1 = Some (Ok (msg, sv'), es')"
    unfolding click_helper_element_def and_run_Ok_iff by blast
  then show "histories_ok sv'"
    using ok by (cases r) (auto simp: returns_Some_iff ret_Ok_iff dest: click_found_ok)
qed

lemma navigate_report_ok:
  "navigate_report env timeout info navigated sv br es = (Ok (msg, sv'), es') \<Longrightarrow> histories_ok sv \<Longrightarrow> histories_ok sv'"
  by (auto simp: navigate_report_def results dest: record_action_ok)

lemma click_navigate_keeps: "keeps_histories (Inr (click_helper_navigate env sel txt timeout fallback))"
  by (rule keeps_run)
    (auto simp: click_helper_navigate_def results split: option.splits dest: navigate_report_ok)

lemma click_body_keeps: "keeps_histories (click_body env p)"
  by (auto simp: click_body_def Let_def clicks_keep click_element_keeps click_navigate_keeps split: option.split)

lemma keys_keep:
  "keeps_histories (Inr (\<lambda>sv. returns (mcp_type env t sv)))"
  "keeps_histories (Inr (\<lambda>sv. returns (mcp_key_press env q sv)))"
  "keeps_histories (Inr (\<lambda>sv. returns (mcp_key_combo env ks sv)))"
  "keeps_histories (Inr (\<lambda>sv. returns (mcp_scroll env x y dx dy sv)))"
  "keeps_histories (Inr (\<lambda>sv. returns (mcp_drag env p sv)))"
  "keeps_histories (Inr (\<lambda>sv. returns (mcp_hover env x y sv)))"
  "keeps_histories (Inr (\<lambda>sv. returns (mcp_cursor env sv)))"
  by (rule keeps_returns, auto simp: mcp_type_def mcp_key_press_def mcp_key_combo_def mcp_scroll_def mcp_drag_def
      mcp_hover_def mcp_cursor_def results split: prod.splits dest: record_action_ok)+

lemma fields_keep:
  "keeps_histories (Inr (\<lambda>sv. returns (mcp_fill env s v sv)))"
  "keeps_histories (Inr (\<lambda>sv. returns (mcp_select_option env s w l sv)))"
  "keeps_histories (Inr (\<lambda>sv. returns (mcp_scroll_to_element env s b sv)))"
  by (rule keeps_returns, auto simp: mcp_fill_def mcp_select_option_def mcp_scroll_to_element_def results
      split: option.splits if_splits dest: record_action_ok)+

lemma input_tools_keep: "keeps_histories (tool_body env t)"
  by (cases t) (simp_all add: click_body_keeps keys_keep fields_keep)

lemma navigate_keeps: "keeps_histories (navigate_body env p)"
proof -
  have "keeps_histories (Inr (nav_helper_goto env url w))" for url w
    by (rule keeps_run) (auto simp: nav_helper_goto_def goto_report_def results dest: record_action_ok)
  moreover have "keeps_histories (Inr (\<lambda>sv. returns (nav_helper_back sv)))"
      "keeps_histories (Inr (\<lambda>sv. returns (nav_helper_forward sv)))"
      "keeps_histories (Inr (\<lambda>sv. returns (nav_helper_reload sv)))"
    by (rule keeps_returns, auto simp: nav_helper_back_def nav_helper_forward_def nav_helper_reload_def results)+
  ultimately show ?thesis by (auto simp: navigate_body_def split: option.split)
qed

lemma history_tools_keep:
  "keeps_histories (Inr (\<lambda>sv. returns (history_list_tool env sv)))"
  "keeps_histories (Inr (\<lambda>sv. returns (history_get_tool env n sv)))"
  "keeps_histories (Inr (\<lambda>sv. returns (history_range_tool env a c sv)))"
  "keeps_histories (Inr (\<lambda>sv. returns (history_clear_tool sv)))"
  by (rule keeps_returns, auto simp: history_list_tool_def history_get_tool_def history_range_tool_def
      history_clear_tool_def results split: option.splits)+

lemma logs_keep:
  "keeps_histories (Inr (\<lambda>sv. returns (vscreen_session_log env n sv)))"
  "keeps_histories (Inr (\<lambda>sv. returns (vscreen_session_summary sv)))"
  "keeps_histories (Inr (\<lambda>sv. returns (vscreen_console_clear sv)))"
  by (rule keeps_returns, auto simp: vscreen_session_log_def vscreen_session_summary_def vscreen_console_clear_def
      results)+

lemma console_log_keeps: "keeps_histories (Inr (\<lambda>sv. returns (vscreen_console_log env l sv)))"
  by (rule keeps_returns) (auto simp: vscreen_console_log_def results dest: sync_console_ok)

lemma storage_keeps: "keeps_histories (vscreen_storage env p)"
proof -
  have "keeps_histories (Inr (\<lambda>sv. returns (get_cookies env sv)))"
      "keeps_histories (Inr (\<lambda>sv. returns (set_cookie n v d q sv)))"
      "keeps_histories (Inr (\<lambda>sv. returns (get_item env ty k sv)))"
      "keeps_histories (Inr (\<lambda>sv. returns (set_item ty k v sv)))" for n v d q ty k
    by (rule keeps_returns, auto simp: get_cookies_def set_cookie_def get_item_def set_item_def results
        split: option.splits)+
  then show ?thesis by (auto simp: vscreen_storage_def Let_def split: option.split)
qed

lemma session_tools_keep: "keeps_histories (session_body env t)"
  by (cases t) (auto simp: vscreen_history_def Let_def history_tools_keep logs_keep console_log_keeps storage_keeps
      split: option.split)

lemma observation_keeps: "keeps_histories (Inr (with_sv m))"
  by (rule keeps_run) (auto simp: with_sv_def results)

lemma browse_keeps: "keeps_histories (Inr (vscreen_browse env p))"
  by (rule keeps_run) (auto simp: vscreen_browse_def browse_report_def results split: prod.splits dest: record_action_ok)

lemma observe_keeps: "keeps_histories (Inr (\<lambda>sv. returns (vscreen_observe env p sv)))"
  by (rule keeps_returns) (auto simp: vscreen_observe_def results split: prod.splits dest: record_action_ok)

lemma extract_keeps: "keeps_histories (Inr (\<lambda>sv. returns (vscreen_extract env mode selector sv)))"
  by (rule keeps_returns) (auto simp: vscreen_extract_def finish_extract_def results split: prod.splits dest: record_action_ok)

lemma workflow_tools_keep: "keeps_histories (Inr (workflow_body env t))"
  by (cases t) (simp_all add: browse_keeps observe_keeps extract_keeps)

lemma dismissals_ok:
  "dismiss_found env info sv br es = (Ok (msg, sv'), es') \<Longrightarrow> histories_ok sv \<Longrightarrow> histories_ok sv'"
  "dismiss_seen env t sv br es = (Ok (msg, sv'), es') \<Longrightarrow> histories_ok sv \<Longrightarrow> histories_ok sv'"
  "dismiss_ad_found env info sv br es = (Ok (msg, sv'), es') \<Longrightarrow> histories_ok sv \<Longrightarrow> histories_ok sv'"
  "dismiss_ad_late env timeout info sv br es = (Ok (msg, sv'), es') \<Longrightarrow> histories_ok sv \<Longrightarrow> histories_ok sv'"
  "dismiss_consent env js d m sv br es = (Ok (msg, sv'), es') \<Longrightarrow> histories_ok sv \<Longrightarrow> histories_ok sv'"
  by (auto simp: dismiss_found_def dismiss_seen_def dismiss_ad_found_def dismiss_ad_late_def dismiss_consent_def results
      case_prod_unfold split: if_splits option.splits dest: record_action_ok)

lemma dialogs_ok:
  "vscreen_dismiss_dialogs env sv br es = (Ok (msg, sv'), es') \<Longrightarrow> histories_ok sv \<Longrightarrow> histories_ok sv'"
  by (auto simp: vscreen_dismiss_dialogs_def results split: if_splits option.splits dest: dismissals_ok)

lemma interact_ok:
  "vscreen_interact env p sv br es = (Ok (msg, sv'), es') \<Longrightarrow> histories_ok sv \<Longrightarrow> histories_ok sv'"
  by (auto simp: vscreen_interact_def interact_report_def results split: prod.splits if_splits dest: record_action_ok)

lemma challenge_ok:
  "vscreen_solve_challenge env i c sv br es = (Ok (msg, sv'), es') \<Longrightarrow> histories_ok sv \<Longrightarrow> histories_ok sv'"
  by (auto simp: vscreen_solve_challenge_def solve_auto_def results split: if_splits dest: dismissals_ok)

lemma interact_tools_keep: "keeps_histories (Inr (interact_body env i t))"
proof (cases t)
  case (Dismiss_Ads u)
  show ?thesis unfolding Dismiss_Ads interact_body.simps
    by (rule keeps_run) (auto simp: vscreen_dismiss_ads_def results split: if_splits dest: dismissals_ok)
qed (simp_all, (rule keeps_returns, auto simp: said_def results dest: dialogs_ok interact_ok challenge_ok)+)

end
