(* ===== verification/Mcp_Synthesis.thy ===== *)
theory Mcp_Synthesis
  imports Mcp_Interact
begin

section \<open>Pages of the synthesis server\<close>

text \<open>
  \<open>vscreen_synthesis_manage\<close> of \<open>mcp/synthesis.rs\<close> and \<open>vscreen_synthesize\<close> of
  \<open>mcp/workflow_interact.rs\<close> (\<open>crates/vscreen-server\<close>). The synthesis server is another process:
  \<open>se_send log r\<close> is its answer to the request \<open>r\<close> after the requests \<open>log\<close>, an error of the
  connection or a status and a text. A tool is a \<open>call\<close>, which works on the application's state, the
  browser's events and the requests sent.
\<close>

subsection \<open>Requests\<close>

record web_request =
  wq_method :: string
  wq_url :: string
  wq_body :: "json option"

record web_answer =
  wa_success :: bool
  wa_status :: string
  wa_text :: string

record synth_env =
  se_url :: "string option"
  se_send :: "web_request list \<Rightarrow> web_request \<Rightarrow> string + web_answer"
  se_scraper :: string
  se_alphanumeric :: "string \<Rightarrow> bool"

type_synonym world = "browser_event list \<times> web_request list"

type_synonym 'a call = "app_state \<Rightarrow> browser \<Rightarrow> world \<Rightarrow> (app_state \<times> (mcp_error, 'a) outcome \<times> world) option"

definition give :: "'a \<Rightarrow> 'a call" where
  "give a = (\<lambda>st br w. Some (st, Ok a, w))"

definition fail :: "mcp_error \<Rightarrow> 'a call" where
  "fail e = (\<lambda>st br w. Some (st, Err e, w))"

definition and_call :: "'a call \<Rightarrow> ('a \<Rightarrow> 'b call) \<Rightarrow> 'b call" where
  "and_call m f = (\<lambda>st br w.
     case m st br w of
       None \<Rightarrow> None
     | Some (st', Ok a, w') \<Rightarrow> f a st' br w'
     | Some (st', Err e, w') \<Rightarrow> Some (st', Err e, w')
     | Some (st', Panic, w') \<Rightarrow> Some (st', Panic, w'))"

definition browse :: "'a run \<Rightarrow> 'a call" where
  "browse m = (\<lambda>st br (es, log).
     case m br es of None \<Rightarrow> None | Some (r, es') \<Rightarrow> Some (st, r, (es', log)))"

definition request :: "synth_env \<Rightarrow> string \<Rightarrow> string \<Rightarrow> string \<Rightarrow> json option \<Rightarrow> web_answer call" where
  "request sy failed meth url body = (\<lambda>st br (es, log).
     let r = \<lparr>wq_method = meth, wq_url = url, wq_body = body\<rparr> in
     Some (st, (case se_send sy log r of Inl e \<Rightarrow> Err (Internal_Error (failed @ '': '' @ e)) | Inr a \<Rightarrow> Ok a), (es, log @ [r])))"

text \<open>An answer that is no success is an error with the text of the answer.\<close>

definition succeed :: "string \<Rightarrow> web_answer \<Rightarrow> string call" where
  "succeed what a =
     (if wa_success a then give (wa_text a)
      else fail (Internal_Error (what @ '' failed ('' @ wa_status a @ ''): '' @ wa_text a)))"

definition require :: "string \<Rightarrow> 'a option \<Rightarrow> 'a call" where
  "require message v = (case v of Some a \<Rightarrow> give a | None \<Rightarrow> fail (Invalid_Params message))"

definition synthesis_base_url :: "synth_env \<Rightarrow> string call" where
  "synthesis_base_url sy = require ''synthesis server not running. Start vscreen with --synthesis to enable.'' (se_url sy)"

subsection \<open>Instances\<close>

definition exclusively :: "mcp_env \<Rightarrow> instance_id \<Rightarrow> unit call" where
  "exclusively env i = (\<lambda>st br w.
     let (lm, access) = require_exclusive (as_single_agent_mode st) (me_now env) (fst (me_tokens env))
           (snd (me_tokens env)) i (me_session env) (as_lock_manager st)
     in Some (st\<lparr>as_lock_manager := lm\<rparr>,
          case access of Inl e \<Rightarrow> Err (lock_error_to_mcp env i e) | Inr _ \<Rightarrow> Ok (), w))"

definition has_supervisor :: "instance_id \<Rightarrow> bool call" where
  "has_supervisor i = (\<lambda>st br w. Some (st, Ok (get_supervisor i st \<noteq> None), w))"

definition need_supervisor :: "instance_id \<Rightarrow> unit call" where
  "need_supervisor i =
     and_call (has_supervisor i) (\<lambda>b. if b then give () else fail (Invalid_Params (''no supervisor for instance: '' @ i)))"

text \<open>Whether the page was loaded in time.\<close>

definition await_complete :: "mcp_env \<Rightarrow> nat \<Rightarrow> bool run" where
  "await_complete env timeout =
     poll_for env timeout 100 (seq (ready_probe [''complete'']) (\<lambda>r. ret (map_option (\<lambda>_. True) r))) False"

definition page_title :: "(mcp_error, string) prog" where
  "page_title = seq (attempt get_page_info) (\<lambda>r. ret (case r of Ok info \<Rightarrow> field_or [] as_str ''title'' info | _ \<Rightarrow> []))"

text \<open>The warning of the browser about the certificate is clicked away; whether there was one.\<close>

definition pass_warning :: "(mcp_error, bool) prog" where
  "pass_warning =
     seq page_title (\<lambda>t.
     if str_contains ''Privacy error'' t \<or> str_contains ''not private'' t then
       seq (attempt (sup_evaluate_js ''document.querySelector('#details-button')?.click()'')) (\<lambda>_.
       seq (sleep 200) (\<lambda>_.
       seq (attempt (sup_evaluate_js ''document.querySelector('#proceed-link')?.click()'')) (\<lambda>_.
       seq (sleep 2000) (\<lambda>_. ret True))))
     else ret False)"

text \<open>A page is shown: what fails on the way is ignored.\<close>

definition show_page :: "mcp_env \<Rightarrow> string \<Rightarrow> unit run" where
  "show_page env url =
     and_run (returns (attempt (sup_navigate url))) (\<lambda>_.
     and_run (await_complete env 10000) (\<lambda>_.
     and_run (returns pass_warning) (\<lambda>_. returns (ret ()))))"

subsection \<open>Managing pages\<close>

record manage_params =
  mp_action :: string
  mp_title :: "string option"
  mp_subtitle :: "string option"
  mp_theme :: "string option"
  mp_layout :: "string option"
  mp_sections :: "json option"
  mp_navigate_instance :: "instance_id option"
  mp_page_id :: "string option"
  mp_section_id :: "string option"
  mp_data :: "json option"
  mp_instance_id :: "instance_id option"
  mp_page_slug :: "string option"

definition str_or_null :: "string option \<Rightarrow> json" where
  "str_or_null s = (case s of None \<Rightarrow> JNull | Some s \<Rightarrow> JStr s)"

definition page_body :: "string \<Rightarrow> string option \<Rightarrow> string option \<Rightarrow> string option \<Rightarrow> json option \<Rightarrow> json" where
  "page_body title subtitle theme layout sections =
     JObj [(''title'', JStr title), (''subtitle'', str_or_null subtitle), (''theme'', JStr (or_default ''dark'' theme)),
       (''layout'', JStr (or_default ''grid'' layout)), (''sections'', or_default JNull sections)]"

text \<open>The answer to the creation: the page's id and the text.\<close>

definition create_page :: "synth_env \<Rightarrow> string \<Rightarrow> string \<Rightarrow> string \<Rightarrow> string \<Rightarrow> json \<Rightarrow> (string \<times> string) call" where
  "create_page sy base failed what invalid body =
     and_call (request sy failed ''POST'' (base @ ''/api/pages'') (Some body)) (\<lambda>a.
     and_call (succeed what a) (\<lambda>txt. \<lambda>st br w.
     Some (st, (case parse_json br txt of
         Ok page \<Rightarrow> Ok (field_or ''unknown'' as_str ''id'' page, txt)
       | Err e \<Rightarrow> Err (Internal_Error (invalid @ '': '' @ e))
       | Panic \<Rightarrow> Panic), w)))"

definition navigated :: "instance_id \<Rightarrow> string \<Rightarrow> string" where
  "navigated i url = LF # ''Navigated instance '' @ [CHR 0x27] @ i @ ''' to '' @ url"

definition create_and_show :: "mcp_env \<Rightarrow> instance_id option \<Rightarrow> string \<Rightarrow> string call" where
  "create_and_show env i url =
     (case i of
        None \<Rightarrow> give []
      | Some i \<Rightarrow>
          and_call (exclusively env i) (\<lambda>_.
          and_call (has_supervisor i) (\<lambda>b.
          if b then and_call (browse (show_page env url)) (\<lambda>_. give (navigated i url)) else give [])))"

definition synthesis_manage_create :: "mcp_env \<Rightarrow> synth_env \<Rightarrow> manage_params \<Rightarrow> string call" where
  "synthesis_manage_create env sy p =
     and_call (require ''action=create requires title'' (mp_title p)) (\<lambda>title.
     and_call (synthesis_base_url sy) (\<lambda>base.
     and_call (create_page sy base ''synthesis request failed'' ''synthesis create'' ''invalid JSON response''
       (page_body title (mp_subtitle p) (mp_theme p) (mp_layout p) (mp_sections p))) (\<lambda>(pid, txt).
     let url = base @ ''/page/'' @ pid in
     and_call (create_and_show env (mp_navigate_instance p) url) (\<lambda>nav.
     give (''Created synthesis page '' @ [CHR 0x27] @ title @ [CHR 0x27] @ ''.'' @ LF # ''ID: '' @ pid @ LF # ''URL: '' @ url @ nav @
       LF # LF # ''Page data:'' @ LF # txt)))))"

definition synthesis_manage_push :: "synth_env \<Rightarrow> manage_params \<Rightarrow> string call" where
  "synthesis_manage_push sy p =
     and_call (require ''action=push requires page_id'' (mp_page_id p)) (\<lambda>pid.
     and_call (require ''action=push requires section_id'' (mp_section_id p)) (\<lambda>sid.
     and_call (require ''action=push requires data'' (mp_data p)) (\<lambda>data.
     and_call (synthesis_base_url sy) (\<lambda>base.
     and_call (request sy ''synthesis request failed'' ''POST'' (base @ ''/api/pages/'' @ pid @ ''/push'')
       (Some (JObj [(''section_id'', JStr sid), (''data'', data)]))) (\<lambda>a.
     and_call (succeed ''synthesis push'' a) (\<lambda>txt.
     give (''Pushed data to section '' @ [CHR 0x27] @ sid @ ''' of page '' @ [CHR 0x27] @ pid @ [CHR 0x27] @ ''.'' @ LF # LF #
       ''Section data:'' @ LF # txt)))))))"

definition update_body :: "manage_params \<Rightarrow> json" where
  "update_body p =
     JObj (opt_member ''title'' (map_option JStr (mp_title p)) @ opt_member ''subtitle'' (map_option JStr (mp_subtitle p)) @
       opt_member ''theme'' (map_option JStr (mp_theme p)) @ opt_member ''layout'' (map_option JStr (mp_layout p)) @
       opt_member ''sections'' (mp_sections p))"

definition synthesis_manage_update :: "synth_env \<Rightarrow> manage_params \<Rightarrow> string call" where
  "synthesis_manage_update sy p =
     and_call (require ''action=update requires page_id'' (mp_page_id p)) (\<lambda>pid.
     and_call (synthesis_base_url sy) (\<lambda>base.
     and_call (request sy ''synthesis request failed'' ''PUT'' (base @ ''/api/pages/'' @ pid) (Some (update_body p))) (\<lambda>a.
     and_call (succeed ''synthesis update'' a) (\<lambda>txt.
     give (''Updated page '' @ [CHR 0x27] @ pid @ [CHR 0x27] @ ''.'' @ LF # LF # txt)))))"

definition synthesis_manage_delete :: "synth_env \<Rightarrow> manage_params \<Rightarrow> string call" where
  "synthesis_manage_delete sy p =
     and_call (require ''action=delete requires page_id'' (mp_page_id p)) (\<lambda>pid.
     and_call (synthesis_base_url sy) (\<lambda>base.
     and_call (request sy ''synthesis request failed'' ''DELETE'' (base @ ''/api/pages/'' @ pid) None) (\<lambda>a.
     and_call (succeed ''synthesis delete'' a) (\<lambda>_.
     give (''Deleted page '' @ [CHR 0x27] @ pid @ [CHR 0x27] @ ''.'')))))"

text \<open>The status of the answer is not looked at.\<close>

definition synthesis_manage_list :: "synth_env \<Rightarrow> string call" where
  "synthesis_manage_list sy =
     and_call (synthesis_base_url sy) (\<lambda>base.
     and_call (request sy ''synthesis request failed'' ''GET'' (base @ ''/api/pages'') None) (\<lambda>a.
     give (''Synthesis pages:'' @ LF # wa_text a)))"

definition synthesis_manage_save :: "synth_env \<Rightarrow> manage_params \<Rightarrow> string call" where
  "synthesis_manage_save sy p =
     and_call (require ''action=save requires page_id'' (mp_page_id p)) (\<lambda>pid.
     and_call (synthesis_base_url sy) (\<lambda>base.
     and_call (request sy ''synthesis request failed'' ''POST'' (base @ ''/api/pages/'' @ pid @ ''/save'') None) (\<lambda>a.
     and_call (succeed ''save'' a) (\<lambda>_.
     give (''Saved page '' @ [CHR 0x27] @ pid @ ''' to disk.'')))))"

text \<open>The second wait, of eight seconds, is there when a warning was clicked away.\<close>

definition synthesis_manage_navigate :: "mcp_env \<Rightarrow> synth_env \<Rightarrow> manage_params \<Rightarrow> string call" where
  "synthesis_manage_navigate env sy p =
     and_call (require ''action=navigate requires instance_id'' (mp_instance_id p)) (\<lambda>i.
     and_call (require ''action=navigate requires page_slug'' (mp_page_slug p)) (\<lambda>slug.
     and_call (synthesis_base_url sy) (\<lambda>base.
     let url = base @ ''/page/'' @ slug in
     and_call (exclusively env i) (\<lambda>_.
     and_call (need_supervisor i) (\<lambda>_.
     and_call (browse (returns (with_err internal (sup_navigate url)))) (\<lambda>_.
     and_call (browse (await_complete env 10000)) (\<lambda>first.
     and_call (browse (returns pass_warning)) (\<lambda>warned.
     and_call (if warned then browse (await_complete env 8000) else give first) (\<lambda>loaded.
     and_call (browse (returns page_title)) (\<lambda>title.
     give (''Navigated to synthesis page: '' @ url @ LF # ''Title: '' @ title @ LF # ''Status: '' @
       (if loaded then ''fully loaded'' else ''WARNING: page did not fully load within 10s timeout''))))))))))))"

definition vscreen_synthesis_manage :: "mcp_env \<Rightarrow> synth_env \<Rightarrow> manage_params \<Rightarrow> string call" where
  "vscreen_synthesis_manage env sy p =
     (let action = to_lowercase (mp_action p) in
      if action = ''create'' then synthesis_manage_create env sy p
      else if action = ''update'' then synthesis_manage_update sy p
      else if action = ''delete'' then synthesis_manage_delete sy p
      else if action = ''list'' then synthesis_manage_list sy
      else if action = ''push'' then synthesis_manage_push sy p
      else if action = ''save'' then synthesis_manage_save sy p
      else if action = ''navigate'' then synthesis_manage_navigate env sy p
      else fail (Invalid_Params (''invalid action '' @ [CHR 0x27] @ action @
        [CHR 0x27] @ ''; expected: create, update, delete, list, push, save, navigate'')))"

subsection \<open>The workflow tool\<close>

record synthesize_params =
  zp_action :: string
  zp_instance_id :: "instance_id option"
  zp_title :: "string option"
  zp_subtitle :: "string option"
  zp_theme :: "string option"
  zp_has_urls :: bool
  zp_sections :: "json option"
  zp_layout :: "string option"

text \<open>Here a lock that is held by another is no error, and nothing is waited for.\<close>

definition try_call :: "'a call \<Rightarrow> bool call" where
  "try_call m = (\<lambda>st br w.
     case m st br w of
       None \<Rightarrow> None
     | Some (st', r, w') \<Rightarrow> Some (st', case r of Ok _ \<Rightarrow> Ok True | Err _ \<Rightarrow> Ok False | Panic \<Rightarrow> Panic, w'))"

definition create_and_open :: "mcp_env \<Rightarrow> instance_id option \<Rightarrow> string \<Rightarrow> string call" where
  "create_and_open env i url =
     (case i of
        None \<Rightarrow> give []
      | Some i \<Rightarrow>
          and_call (try_call (exclusively env i)) (\<lambda>locked.
          if \<not> locked then give []
          else
            and_call (has_supervisor i) (\<lambda>b.
            if b then
              and_call (browse (returns (seq (attempt (sup_navigate url)) (\<lambda>_. sleep 1000)))) (\<lambda>_. give (navigated i url))
            else give [])))"

definition vscreen_synthesize :: "mcp_env \<Rightarrow> synth_env \<Rightarrow> synthesize_params \<Rightarrow> string call" where
  "vscreen_synthesize env sy p =
     (let action = to_lowercase (zp_action p) in
      if action = ''list'' then synthesis_manage_list sy
      else if action = ''create'' then
        and_call (require ''action=create requires title'' (zp_title p)) (\<lambda>title.
        and_call (synthesis_base_url sy) (\<lambda>base.
        and_call (create_page sy base ''synthesis request failed'' ''synthesis create'' ''invalid JSON response''
          (page_body title (zp_subtitle p) (zp_theme p) (zp_layout p) (zp_sections p))) (\<lambda>(pid, txt).
        let url = base @ ''/page/'' @ pid in
        and_call (create_and_open env (zp_instance_id p) url) (\<lambda>nav.
        give (''Created synthesis page '' @ [CHR 0x27] @ title @ [CHR 0x27] @ ''.'' @ LF # ''page_id: '' @ pid @ LF # ''url: '' @ url @ nav)))))
      else if action = ''scrape_and_create'' then
        (if \<not> zp_has_urls p \<or> zp_title p = None \<or> zp_instance_id p = None
         then fail (Invalid_Params ''action=scrape_and_create requires urls, title, and instance_id'')
         else give ''Use vscreen_synthesis_scrape_and_create directly for scrape+create workflows - it handles progressive rendering and parallel scraping.'')
      else fail (Invalid_Params (''invalid action '' @ [CHR 0x27] @ action @
        [CHR 0x27] @ '': must be list, create, or scrape_and_create'')))"

subsection \<open>A page that nobody hears of\<close>

definition creation :: "string \<Rightarrow> manage_params \<Rightarrow> string \<Rightarrow> web_request" where
  "creation base p title =
     \<lparr>wq_method = ''POST'', wq_url = base @ ''/api/pages'',
      wq_body = Some (page_body title (mp_subtitle p) (mp_theme p) (mp_layout p) (mp_sections p))\<rparr>"

definition as_synthesize :: "manage_params \<Rightarrow> synthesize_params" where
  "as_synthesize p =
     \<lparr>zp_action = ''create'', zp_instance_id = mp_navigate_instance p, zp_title = mp_title p, zp_subtitle = mp_subtitle p,
      zp_theme = mp_theme p, zp_has_urls = False, zp_sections = mp_sections p, zp_layout = mp_layout p\<rparr>"

text \<open>C34: When a page is to be shown on an instance another agent has locked, the page is created and the
  tool that manages pages then fails with the lock error, which does not name the page: the agent
  does not learn that it exists. The workflow tool, asked for the same, sends the same request and
  reports the page it created.\<close>

theorem created_but_refused:
  assumes "mp_title p = Some title" and "se_url sy = Some base" and "mp_navigate_instance p = Some i"
    and "se_send sy rqs (creation base p title) = Inr a" and "wa_success a" and "parse_json br (wa_text a) = Ok page"
    and "snd (require_exclusive (as_single_agent_mode st) (me_now env) (fst (me_tokens env)) (snd (me_tokens env)) i
      (me_session env) (as_lock_manager st)) = Inl e"
  shows "(\<exists>st'. synthesis_manage_create env sy p st br (es, rqs) =
      Some (st', Err (lock_error_to_mcp env i e), (es, rqs @ [creation base p title]))) \<and>
    (\<exists>st' msg. vscreen_synthesize env sy (as_synthesize p) st br (es, rqs) =
      Some (st', Ok msg, (es, rqs @ [creation base p title])))"
proof -
  obtain lm where l: "require_exclusive (as_single_agent_mode st) (me_now env) (fst (me_tokens env)) (snd (me_tokens env)) i
      (me_session env) (as_lock_manager st) = (lm, Inl e)"
    using assms(7) by (metis prod.collapse)
  define body where "body = page_body title (mp_subtitle p) (mp_theme p) (mp_layout p) (mp_sections p)"
  have c: "create_page sy base failed what invalid body st br (es, rqs) =
      Some (st, Ok (field_or ''unknown'' as_str ''id'' page, wa_text a), (es, rqs @ [creation base p title]))"
    for failed what invalid
    using assms(4-6) by (simp add: create_page_def and_call_def request_def succeed_def give_def creation_def body_def)
  have x: "exclusively env i st br w = Some (st\<lparr>as_lock_manager := lm\<rparr>, Err (lock_error_to_mcp env i e), w)" for w
    by (simp add: exclusively_def l)
  have lower: "to_lowercase ''create'' = ''create''" by (simp add: to_lowercase_def ascii_lower_def byte_in_def)
  have "synthesis_manage_create env sy p st br (es, rqs) =
      Some (st\<lparr>as_lock_manager := lm\<rparr>, Err (lock_error_to_mcp env i e), (es, rqs @ [creation base p title]))"
    using c x assms(1-3)
    by (simp add: synthesis_manage_create_def and_call_def require_def give_def synthesis_base_url_def
      create_and_show_def body_def Let_def)
  moreover have "\<exists>msg. vscreen_synthesize env sy (as_synthesize p) st br (es, rqs) =
      Some (st\<lparr>as_lock_manager := lm\<rparr>, Ok msg, (es, rqs @ [creation base p title]))"
    using c x assms(1-3)
    by (simp add: vscreen_synthesize_def and_call_def require_def give_def synthesis_base_url_def lower
      create_and_open_def try_call_def as_synthesize_def body_def Let_def)
  ultimately show ?thesis by blast
qed

text \<open>Agent 2 holds the instance; the server answers with a page.\<close>

definition taken_state :: app_state where
  "taken_state = example_mcp_state\<lparr>as_lock_manager := \<lparr>locks = [(''dev'', new_state\<lparr>exclusive := Some
     (fresh_info 0 9 2 None Exclusive 5 False)\<rparr>)], active_sessions = {}\<rparr>\<rparr>"

definition page_params :: manage_params where
  "page_params = \<lparr>mp_action = ''create'', mp_title = Some ''News'', mp_subtitle = None, mp_theme = None, mp_layout = None,
     mp_sections = None, mp_navigate_instance = Some ''dev'', mp_page_id = None, mp_section_id = None, mp_data = None,
     mp_instance_id = None, mp_page_slug = None\<rparr>"

definition example_synth :: synth_env where
  "example_synth = \<lparr>se_url = Some ''http://s'', se_send = (\<lambda>_ _. Inr \<lparr>wa_success = True, wa_status = [], wa_text = []\<rparr>),
     se_scraper = [], se_alphanumeric = (\<lambda>_. False)\<rparr>"

lemma created_but_refused_witness:
  "\<exists>st' e rq. synthesis_manage_create example_mcp example_synth page_params taken_state
      ((quiet_browser JNull)\<lparr>parse_json := (\<lambda>_. Ok JNull)\<rparr>) ([], []) = Some (st', Err e, ([], [rq])) \<and> wq_method rq = ''POST''"
proof -
  have "snd (require_exclusive (as_single_agent_mode taken_state) (me_now example_mcp) (fst (me_tokens example_mcp))
      (snd (me_tokens example_mcp)) ''dev'' (me_session example_mcp) (as_lock_manager taken_state)) =
      Inl (InstanceLocked 2 None 5)"
    by (simp add: require_exclusive_def require_lock_def require_lock_reclaim_def is_auto_acquired_def taken_state_def
      example_mcp_def example_mcp_state_def app_state_new_def check_access_def check_access_with_token_def new_state_def
      fresh_info_def tab_get_def locked_by_def expiry_def lease_nanos_def)
  from created_but_refused [of page_params "''News''" example_synth "''http://s''" "''dev''" "[]" _
      "(quiet_browser JNull)\<lparr>parse_json := (\<lambda>_. Ok JNull)\<rparr>" JNull taken_state example_mcp, OF _ _ _ _ _ _ this, of _ "[]"]
  show ?thesis by (force simp: page_params_def example_synth_def creation_def)
qed

end
