(* ===== verification/Mcp_Scrape.thy ===== *)
theory Mcp_Scrape
  imports Mcp_Synthesis
begin

section \<open>Scraping for pages\<close>

text \<open>
  \<open>vscreen_synthesis_scrape\<close> and \<open>vscreen_synthesis_scrape_and_create\<close> of \<open>mcp/synthesis.rs\<close>
  (\<open>crates/vscreen-server\<close>). The script \<open>scraper.js\<close> is a parameter, \<open>se_scraper\<close>. Several pages
  are scraped by tasks that run at the same time, each in a tab with a connection of its own:
  \<open>te_browser i\<close> is the browser as the \<open>i\<close>-th tab sees it, whose events are not those of the
  instance, and \<open>te_seen i\<close> the requests that reach the synthesis server before the task's own.
\<close>

subsection \<open>The script\<close>

record url_entry =
  ue_url :: string
  ue_limit :: "nat option"
  ue_source_label :: "string option"

definition escape_source :: "string \<Rightarrow> string" where
  "escape_source s =
     replace_skip 0 [CR] [CHR 0x5C, CHR ''r''] (replace_skip 0 [LF] [CHR 0x5C, CHR ''n'']
       (replace_skip 0 [CHR 0x27] [CHR 0x5C, CHR 0x27] (replace_skip 0 [CHR 0x5C] [CHR 0x5C, CHR 0x5C] s)))"

definition scraper_js :: "synth_env \<Rightarrow> nat option \<Rightarrow> string option \<Rightarrow> string" where
  "scraper_js sy limit label =
     replace_skip 0 ''__TIMEOUT_BUDGET_MS__'' ''12000''
       (replace_skip 0 ''__SOURCE__'' (escape_source (or_default [] label))
         (replace_skip 0 ''__LIMIT__'' (show_nat (or_default 8 limit)) (se_scraper sy)))"

text \<open>The articles and their quality in what the script returns.\<close>

definition articles_of :: "browser \<Rightarrow> json \<Rightarrow> json \<times> json" where
  "articles_of br r =
     (let parsed = (case parse_json br (text_or ''{}'' r) of
          Ok j \<Rightarrow> j | _ \<Rightarrow> JObj [(''articles'', JArr []), (''quality'', JObj [])])
      in (or_default (JArr []) (jget ''articles'' parsed), or_default JNull (jget ''quality'' parsed)))"

definition count_in :: "string \<Rightarrow> json \<Rightarrow> u64" where
  "count_in k quality = of_int (field_or 0 as_u64 k quality)"

definition article_count :: "json \<Rightarrow> nat" where
  "article_count articles = (case as_array articles of Some xs \<Rightarrow> length xs | None \<Rightarrow> 0)"

text \<open>Scrolled down, so that the page loads what it shows late, and up again.\<close>

definition scroll_through :: "('e, unit) prog" where
  "scroll_through =
     seq (attempt (sup_evaluate_js ''window.scrollTo(0, window.innerHeight * 3); void(0)'')) (\<lambda>_.
     seq (sleep 800) (\<lambda>_.
     seq (attempt (sup_evaluate_js ''window.scrollTo(0, 0); void(0)'')) (\<lambda>_. sleep 400)))"

subsection \<open>One page\<close>

definition image_note :: "json \<Rightarrow> string" where
  "image_note quality =
     (let images = count_in ''withImages'' quality; unique = count_in ''uniqueImages'' quality in
      show_word images @ ''/'' @ show_word (count_in ''returned'' quality) @ '' with images'' @
      (if unique < images then '' ('' @ show_word unique @ '' unique)'' else []))"

definition synthesis_scrape_single ::
  "mcp_env \<Rightarrow> synth_env \<Rightarrow> instance_id \<Rightarrow> string option \<Rightarrow> nat option \<Rightarrow> string option \<Rightarrow> string call" where
  "synthesis_scrape_single env sy i url limit label =
     and_call (require ''mode=single requires url'' url) (\<lambda>url.
     and_call (exclusively env i) (\<lambda>_.
     and_call (need_supervisor i) (\<lambda>_.
     and_call (browse (returns (with_err internal (sup_navigate url)))) (\<lambda>_.
     and_call (browse (await_complete env 12000)) (\<lambda>_.
     and_call (browse (returns scroll_through)) (\<lambda>_.
     and_call (browse (returns (with_err (\<lambda>e. Internal_Error (''scrape JS failed: '' @ show_vscreen_error e))
       (sup_evaluate_js_async (scraper_js sy limit label))))) (\<lambda>r.
     and_call (browse (returns page_title)) (\<lambda>title. \<lambda>st br.
     let (articles, quality) = articles_of br r; found = count_in ''found'' quality; returned = count_in ''returned'' quality in
     give (''Scraped '' @ show_word returned @ '' articles from '' @ url @
       (if returned < found then '' (found '' @ show_word found @ '', limited to '' @ show_word returned @ '')'' else []) @
       LF # ''Page title: '' @ title @ LF # ''Quality: '' @ image_note quality @ '', '' @
       show_word (count_in ''withDescriptions'' quality) @ ''/'' @ show_word returned @ '' with descriptions'' @
       LF # LF # ''Articles:'' @ LF # me_pretty env articles) st br))))))))"

subsection \<open>Several pages\<close>

datatype push_status = Pushed | Push_Failed string

record scrape_result =
  sr_url :: string
  sr_page_title :: string
  sr_articles :: json
  sr_quality :: json
  sr_push_status :: "push_status option"

datatype scrape_outcome =
    Scraped scrape_result
  | Scrape_Failed string string
  | Scrape_Panic string

record tab_env =
  te_dial :: "string \<Rightarrow> (cdp_error, unit) outcome"
  te_client :: cdp_client
  te_browser :: "nat \<Rightarrow> browser"
  te_seen :: "nat \<Rightarrow> web_request list"
  te_join_error :: string

definition close_tabs :: "ephemeral_tab list \<Rightarrow> ('e, unit) prog" where
  "close_tabs = foreach (\<lambda>tab. seq (attempt (close_ephemeral_tab tab)) (\<lambda>_. ret ()))"

text \<open>When a tab cannot be opened, those that were are closed.\<close>

fun open_tabs :: "tab_env \<Rightarrow> ephemeral_tab list \<Rightarrow> url_entry list \<Rightarrow> (mcp_error, ephemeral_tab list) prog" where
  "open_tabs te tabs [] = ret tabs"
| "open_tabs te tabs (u # us) =
     seq (attempt (create_ephemeral_tab (te_dial te) (te_client te) ''about:blank'')) (\<lambda>r.
     case r of
       Ok tab \<Rightarrow> open_tabs te (tabs @ [tab]) us
     | Err e \<Rightarrow>
         seq (close_tabs tabs) (\<lambda>_.
         lift (Err (Internal_Error (''failed to create tab for '' @ ue_url u @ '': '' @ show_vscreen_error e))))
     | Panic \<Rightarrow> lift Panic)"

text \<open>What a task does in its tab: the page's title, the articles and their quality.\<close>

definition scrape_page :: "mcp_env \<Rightarrow> synth_env \<Rightarrow> url_entry \<Rightarrow> (string \<times> json \<times> json) run" where
  "scrape_page env sy u =
     and_run (returns (with_err (\<lambda>e. Internal_Error (''navigate failed: '' @ show_cdp_error e))
       (command ''Page.navigate'' (Some (JObj [(''url'', JStr (ue_url u))]))))) (\<lambda>_.
     and_run (poll_for env 12000 200 (ready_probe [''complete'']) ()) (\<lambda>_.
     returns (\<lambda>br.
       seq scroll_through (\<lambda>_.
       seq (with_err (\<lambda>e. Internal_Error (''scrape failed: '' @ show_cdp_error e))
         (cdp_evaluate_js_async (scraper_js sy (ue_limit u) (ue_source_label u)))) (\<lambda>r.
       seq (attempt (cdp_evaluate_js ''document.title'')) (\<lambda>t.
       ret (case t of Ok v \<Rightarrow> text_or [] v | _ \<Rightarrow> [], articles_of br r)))) br)))"

text \<open>Where articles are pushed: the server, the page, and the section.\<close>

type_synonym push_target = "string \<times> string \<times> string"

definition push_articles :: "synth_env \<Rightarrow> web_request list \<Rightarrow> push_target option \<Rightarrow> json \<Rightarrow> push_status option \<times> web_request list" where
  "push_articles sy seen target articles =
     (case target of
        None \<Rightarrow> (None, [])
      | Some (base, pid, sid) \<Rightarrow>
          if article_count articles = 0 then (Some Pushed, [])
          else
            (let r = \<lparr>wq_method = ''POST'', wq_url = base @ ''/api/pages/'' @ pid @ ''/push'',
                   wq_body = Some (JObj [(''section_id'', JStr sid), (''data'', articles)])\<rparr> in
             (Some (case se_send sy seen r of
                Inr a \<Rightarrow> if wa_success a then Pushed else Push_Failed (wa_status a @ '': '' @ wa_text a)
              | Inl e \<Rightarrow> Push_Failed e), [r])))"

fun mcp_message :: "mcp_error \<Rightarrow> string" where
  "mcp_message (Invalid_Params s) = s"
| "mcp_message (Internal_Error s) = s"
| "mcp_message (Invalid_Request s) = s"

text \<open>The tasks from the \<open>i\<close>-th on, \<open>panics\<close> of which have panicked so far: their outcomes and what they push.\<close>

fun scrape_tasks ::
  "mcp_env \<Rightarrow> synth_env \<Rightarrow> tab_env \<Rightarrow> nat \<Rightarrow> nat \<Rightarrow> (url_entry \<times> push_target option) list
     \<Rightarrow> (scrape_outcome list \<times> web_request list) option" where
  "scrape_tasks env sy te i panics [] = Some ([], [])"
| "scrape_tasks env sy te i panics ((u, target) # us) =
     (case scrape_page env sy u (te_browser te i) [] of
        None \<Rightarrow> None
      | Some (r, _) \<Rightarrow>
          (let (out, pushes, panics') = (case r of
               Ok (title, articles, quality) \<Rightarrow>
                 (let (status, reqs) = push_articles sy (te_seen te i) target articles in
                  (Scraped \<lparr>sr_url = ue_url u, sr_page_title = title, sr_articles = articles, sr_quality = quality,
                     sr_push_status = status\<rparr>, reqs, panics))
             | Err e \<Rightarrow> (Scrape_Failed (ue_url u) (mcp_message e), [], panics)
             | Panic \<Rightarrow> (Scrape_Panic (''task panic #'' @ show_nat panics @ '': '' @ te_join_error te), [], Suc panics)) in
           map_option (\<lambda>(outs, reqs). (out # outs, pushes @ reqs)) (scrape_tasks env sy te (Suc i) panics' us)))"

text \<open>The requests of the tasks are listed task by task; they are sent in any order.\<close>

definition run_parallel_scrape ::
  "mcp_env \<Rightarrow> synth_env \<Rightarrow> tab_env \<Rightarrow> (url_entry \<times> push_target option) list \<Rightarrow> scrape_outcome list call" where
  "run_parallel_scrape env sy te us =
     and_call (browse (returns (open_tabs te [] (map fst us)))) (\<lambda>tabs. \<lambda>st br (es, log).
     case scrape_tasks env sy te 0 0 us of
       None \<Rightarrow> None
     | Some (outs, pushes) \<Rightarrow>
         and_call (browse (returns (close_tabs tabs))) (\<lambda>_. give outs) st br (es, log @ pushes))"

fun sum_ovf :: "bool \<Rightarrow> u64 \<Rightarrow> u64 list \<Rightarrow> ('e, u64) outcome" where
  "sum_ovf checks a [] = Ok a"
| "sum_ovf checks a (x # xs) = and_then (add_ovf checks a x) (\<lambda>a'. sum_ovf checks a' xs)"

fun quality_of :: "scrape_outcome \<Rightarrow> json option" where
  "quality_of (Scraped r) = Some (sr_quality r)"
| "quality_of _ = None"

definition total_of :: "bool \<Rightarrow> string \<Rightarrow> scrape_outcome list \<Rightarrow> ('e, u64) outcome" where
  "total_of checks k outs = sum_ovf checks 0 (map (count_in k) (List.map_filter quality_of outs))"

definition check_urls :: "url_entry list \<Rightarrow> unit call" where
  "check_urls us =
     (if us = [] then fail (Invalid_Params ''urls array must not be empty'')
      else if 8 < length us then fail (Invalid_Params ''maximum 8 URLs per batch'')
      else give ())"

text \<open>The results by URL; of two results for one URL the later stays.\<close>

fun result_entry :: "scrape_outcome \<Rightarrow> string \<times> json" where
  "result_entry (Scraped r) =
     (sr_url r, JObj [(''page_title'', JStr (sr_page_title r)), (''articles'', sr_articles r), (''quality'', sr_quality r)])"
| "result_entry (Scrape_Failed url e) = (url, JObj [(''error'', JStr e)])"
| "result_entry (Scrape_Panic msg) = (msg, JObj [(''error'', JStr msg)])"

definition results_map :: "scrape_outcome list \<Rightarrow> json" where
  "results_map outs = fold (\<lambda>out m. case result_entry out of (k, v) \<Rightarrow> jset k v m) outs (JObj [])"

definition of_outcome :: "(mcp_error, 'a) outcome \<Rightarrow> 'a call" where
  "of_outcome r = (\<lambda>st br w. Some (st, r, w))"

definition synthesis_scrape_batch ::
  "mcp_env \<Rightarrow> synth_env \<Rightarrow> tab_env \<Rightarrow> instance_id \<Rightarrow> url_entry list option \<Rightarrow> string call" where
  "synthesis_scrape_batch env sy te i urls =
     and_call (require ''mode=batch requires urls'' urls) (\<lambda>us.
     and_call (check_urls us) (\<lambda>_.
     and_call (exclusively env i) (\<lambda>_.
     and_call (need_supervisor i) (\<lambda>_.
     and_call (run_parallel_scrape env sy te (map (\<lambda>u. (u, None)) us)) (\<lambda>outs.
     let total = (\<lambda>k. of_outcome (total_of (me_checks env) k outs)) in
     and_call (total ''returned'') (\<lambda>articles.
     and_call (total ''withImages'') (\<lambda>images.
     and_call (total ''withDescriptions'') (\<lambda>descs.
     give (me_pretty env (JObj [(''results'', results_map outs),
       (''summary'', JStr (''Scraped '' @ show_word articles @ '' articles from '' @
          show_nat (length (List.map_filter quality_of outs)) @ '' sites, '' @ show_word images @ '' with images, '' @
          show_word descs @ '' with descriptions''))]))))))))))"

record scrape_params =
  ap_mode :: string
  ap_instance_id :: instance_id
  ap_url :: "string option"
  ap_limit :: "nat option"
  ap_source_label :: "string option"
  ap_urls :: "url_entry list option"

definition vscreen_synthesis_scrape :: "mcp_env \<Rightarrow> synth_env \<Rightarrow> tab_env \<Rightarrow> scrape_params \<Rightarrow> string call" where
  "vscreen_synthesis_scrape env sy te p =
     (let mode = to_lowercase (ap_mode p) in
      if mode = ''single'' then
        synthesis_scrape_single env sy (ap_instance_id p) (ap_url p) (ap_limit p) (ap_source_label p)
      else if mode = ''batch'' then synthesis_scrape_batch env sy te (ap_instance_id p) (ap_urls p)
      else fail (Invalid_Params (''invalid mode '' @ [CHR 0x27] @ mode @ [CHR 0x27] @ ''; expected: single, batch'')))"

subsection \<open>A page of scraped articles\<close>

text \<open>The characters of a string, as lists of bytes.\<close>

function str_chars :: "string \<Rightarrow> string list" where
  "str_chars [] = []"
| "str_chars (c # s) = (c # takeWhile is_cont s) # str_chars (dropWhile is_cont s)"
  by pat_completeness auto
termination by (relation "measure length") (auto simp: less_Suc_eq_le length_dropWhile_le)

definition is_alphanumeric :: "synth_env \<Rightarrow> string \<Rightarrow> bool" where
  "is_alphanumeric sy ch =
     (case ch of
        [c] \<Rightarrow> byte_in 48 57 c \<or> byte_in 65 90 c \<or> byte_in 97 122 c
      | _ \<Rightarrow> se_alphanumeric sy ch)"

definition trim_dashes :: "string \<Rightarrow> string" where
  "trim_dashes s = rev (dropWhile ((=) CHR ''-'') (rev (dropWhile ((=) CHR ''-'') s)))"

definition section_id :: "synth_env \<Rightarrow> nat \<Rightarrow> url_entry \<Rightarrow> string" where
  "section_id sy i u =
     (let slug = trim_dashes (concat (map (\<lambda>ch. if is_alphanumeric sy ch then ch else ''-'')
            (str_chars (to_lowercase (or_default ''source'' (ue_source_label u))))))
      in if slug = [] then ''source-'' @ show_nat i else slug)"

definition section_ids :: "synth_env \<Rightarrow> url_entry list \<Rightarrow> string list" where
  "section_ids sy us = map (\<lambda>(i, u). section_id sy i u) (enumerate 0 us)"

definition section_json :: "string \<Rightarrow> string \<Rightarrow> url_entry \<Rightarrow> json \<Rightarrow> json" where
  "section_json sid component u data =
     JObj [(''id'', JStr sid), (''component'', JStr component),
       (''title'', JStr (or_default ''Source'' (ue_source_label u))), (''data'', data)]"

record create_params =
  qp_instance_id :: instance_id
  qp_title :: string
  qp_subtitle :: "string option"
  qp_theme :: "string option"
  qp_layout :: "string option"
  qp_urls :: "url_entry list"
  qp_component :: "string option"
  qp_navigate :: "bool option"

fun push_note :: "push_status option \<Rightarrow> string" where
  "push_note (Some Pushed) = '', pushed OK''"
| "push_note (Some (Push_Failed e)) = '', push FAILED: '' @ e"
| "push_note None = []"

abbreviation dash :: string where "dash \<equiv> [CHR 0xE2, CHR 0x80, CHR 0x94]"

text \<open>The line of the report and the section of the page for an outcome.\<close>

fun final_entry :: "string option \<Rightarrow> string \<Rightarrow> url_entry \<Rightarrow> scrape_outcome \<Rightarrow> string \<times> json" where
  "final_entry component sid u (Scraped r) =
     (''  '' @ sid @ '': '' @ show_word (count_in ''returned'' (sr_quality r)) @ '' articles, '' @
        show_word (count_in ''withImages'' (sr_quality r)) @ '' with images, '' @
        show_word (count_in ''withDescriptions'' (sr_quality r)) @ '' with descriptions'' @ push_note (sr_push_status r) @
        '' ('' @ sr_url r @ '')'',
      section_json sid (or_default (pick_section_component (article_count (sr_articles r))) component) u (sr_articles r))"
| "final_entry component sid u (Scrape_Failed url e) =
     (''  '' @ sid @ '': FAILED '' @ dash @ '' '' @ e @ '' ('' @ url @ '')'', section_json sid ''card-grid'' u (JArr []))"
| "final_entry component sid u (Scrape_Panic msg) =
     (''  '' @ sid @ '': PANIC '' @ dash @ '' '' @ msg, section_json sid ''card-grid'' u (JArr []))"

definition reload_page :: "mcp_env \<Rightarrow> unit run" where
  "reload_page env =
     and_run (returns (attempt (sup_evaluate_js ''location.reload()''))) (\<lambda>_.
     and_run (await_complete env 5000) (\<lambda>_. returns (ret ())))"

definition vscreen_synthesis_scrape_and_create ::
  "mcp_env \<Rightarrow> synth_env \<Rightarrow> tab_env \<Rightarrow> create_params \<Rightarrow> string call" where
  "vscreen_synthesis_scrape_and_create env sy te p =
     (let us = qp_urls p; ids = section_ids sy us; show = or_default True (qp_navigate p) in
      and_call (exclusively env (qp_instance_id p)) (\<lambda>_.
      and_call (need_supervisor (qp_instance_id p)) (\<lambda>_.
      and_call (synthesis_base_url sy) (\<lambda>base.
      and_call (check_urls us) (\<lambda>_.
      and_call (create_page sy base ''create page failed'' ''create page'' ''invalid page JSON''
        (page_body (qp_title p) (qp_subtitle p) (qp_theme p) (qp_layout p)
          (Some (JArr (map (\<lambda>(sid, u). section_json sid (or_default ''card-grid'' (qp_component p)) u (JArr []))
             (zip ids us)))))) (\<lambda>(pid, _).
      let url = base @ ''/page/'' @ pid in
      and_call (if show then browse (show_page env url) else give ()) (\<lambda>_.
      and_call (run_parallel_scrape env sy te (map (\<lambda>(sid, u). (u, Some (base, pid, sid))) (zip ids us))) (\<lambda>outs.
      and_call (of_outcome (total_of (me_checks env) ''returned'' outs)) (\<lambda>total.
      let final = map (\<lambda>((sid, u), out). final_entry (qp_component p) sid u out) (zip (zip ids us) outs) in
      and_call (try_call (request sy [] ''PUT'' (base @ ''/api/pages/'' @ pid)
        (Some (JObj [(''sections'', JArr (map snd final))])))) (\<lambda>_.
      and_call (if show then browse (reload_page env) else give ()) (\<lambda>_.
      give (''Created page '' @ [CHR 0x27] @ qp_title p @ ''' with '' @ show_word total @ '' total articles across '' @
        show_nat (length us) @ '' sources.'' @ LF # (if show then ''Navigated to: '' else ''URL: '') @ url @
        LF # ''Page ID: '' @ pid @ LF # LF # ''Per-source results:'' @ LF # join_with [LF] (map fst final)))))))))))))"

subsection \<open>The label in the script\<close>

lemma escape_source_simps [simp]:
  "escape_source [] = []"
  "escape_source (c # t) =
     (if c = CHR 0x5C then [CHR 0x5C, CHR 0x5C] else if c = CHR 0x27 then [CHR 0x5C, CHR 0x27]
      else if c = LF then [CHR 0x5C, CHR ''n''] else if c = CR then [CHR 0x5C, CHR ''r''] else [c]) @ escape_source t"
  by (simp_all add: escape_source_def replace_char del: replace_skip.simps)

text \<open>The label of a source is quoted correctly in the scraper, whatever it is.\<close>

lemma source_quoted: "js_string (CHR 0x27) (escape_source t @ CHR 0x27 # rest) = Some (t, rest)"
  by (induction t) (auto simp: unescaped_def)

subsection \<open>Sections\<close>

text \<open>All sources without a label share one section.\<close>

lemma unlabelled_share_section: "section_id sy i (u\<lparr>ue_source_label := None\<rparr>) = ''source''"
  by (simp add: section_id_def to_lowercase_def ascii_lower_def byte_in_def is_alphanumeric_def trim_dashes_def)

subsection \<open>Tabs\<close>

definition close_event :: "ephemeral_tab \<Rightarrow> browser_event" where
  "close_event tab = Call ''Target.closeTarget'' (Some (JObj [(''targetId'', JStr (et_target_id tab))]))"

definition creations :: "browser_event list \<Rightarrow> nat" where
  "creations es = length (filter (\<lambda>e. case e of Call m _ \<Rightarrow> m = ''Target.createTarget'' | _ \<Rightarrow> False) es)"

lemma creations_simps [simp]:
  "creations [] = 0" "creations (xs @ ys) = creations xs + creations ys"
  "creations (Call ''Target.createTarget'' p # es) = Suc (creations es)" "creations (close_event t # es) = creations es"
  by (simp_all add: creations_def close_event_def)

lemma close_tab_run:
  obtains r where "close_ephemeral_tab tab br es = (r, es @ [close_event tab])" "r \<noteq> Panic"
proof -
  obtain r where c: "call_and_wait ''Target.closeTarget'' (Some (JObj [(''targetId'', JStr (et_target_id tab))])) br es =
      (r, es @ [close_event tab])" "r \<noteq> Panic"
    unfolding close_event_def by (rule call_cases)
  show thesis
  proof (cases r)
    case (Ok m)
    then show thesis using c by (intro that [of "Ok ()"]) (simp_all add: close_ephemeral_tab_def cdp_close_target_def)
  next
    case (Err e)
    then show thesis using c by (intro that [of "Err (Cdp e)"]) (simp_all add: close_ephemeral_tab_def cdp_close_target_def)
  qed (use c in simp)
qed

lemma close_tabs_run: "close_tabs tabs br es = (Ok (), es @ map close_event tabs)"
proof (induction tabs arbitrary: es)
  case (Cons tab tabs)
  obtain r where "close_ephemeral_tab tab br es = (r, es @ [close_event tab])" "r \<noteq> Panic" by (rule close_tab_run)
  then show ?case using Cons.IH by (cases r) (simp_all add: close_tabs_def seq_def attempt_def ret_def)
qed (simp add: close_tabs_def)

lemma create_tab_run:
  obtains r where "create_ephemeral_tab dial c url br es =
    (r, es @ [Call ''Target.createTarget'' (Some (JObj [(''url'', JStr url)]))])"
proof -
  let ?e = "Call ''Target.createTarget'' (Some (JObj [(''url'', JStr url)]))"
  have "snd (create_ephemeral_tab dial c url br es) = es @ [?e]"
    by (simp add: create_ephemeral_tab_def cdp_create_target_def seq_def with_err_def ret_def lift_def Let_def
      call_and_wait_def split: outcome.split prod.split sum.split)
  then show thesis using that by (metis prod.collapse)
qed

text \<open>A creation for each tab, and for one that fails.\<close>

lemma open_tabs_run:
  assumes "\<And>u. te_dial te u \<noteq> Panic"
  shows "\<exists>r xs. open_tabs te tabs us br es = (r, es @ xs) \<and>
    (case r of
       Ok tabs' \<Rightarrow> length tabs' = length tabs + length us \<and> creations xs = length us \<and> (\<forall>t. close_event t \<notin> set xs)
     | Err e \<Rightarrow> (\<exists>ys opened. xs = ys @ map close_event (tabs @ opened) \<and> creations ys = Suc (length opened) \<and>
         length opened < length us \<and> (\<forall>t. close_event t \<notin> set ys))
     | Panic \<Rightarrow> False)"
proof (induction us arbitrary: tabs es)
  case (Cons u us)
  let ?e = "Call ''Target.createTarget'' (Some (JObj [(''url'', JStr ''about:blank'')]))"
  obtain r where r: "create_ephemeral_tab (te_dial te) (te_client te) ''about:blank'' br es = (r, es @ [?e])"
    by (rule create_tab_run)
  have map_Panic: "map_err f x = Panic \<longleftrightarrow> x = Panic" for f :: "cdp_error \<Rightarrow> vscreen_error" and x :: "(cdp_error, unit) outcome"
    by (cases x) simp_all
  have "r \<noteq> Panic"
    using r assms by (auto simp: map_Panic create_ephemeral_tab_def cdp_create_target_def seq_def with_err_def ret_def lift_def
      Let_def ok_or_def call_and_wait_def split: outcome.splits prod.splits option.splits sum.splits)
  show ?case
  proof (cases r)
    case (Ok tab)
    obtain q xs where "open_tabs te (tabs @ [tab]) us br (es @ [?e]) = (q, (es @ [?e]) @ xs)" and
        q: "case q of
       Ok tabs' \<Rightarrow> length tabs' = length (tabs @ [tab]) + length us \<and> creations xs = length us \<and> (\<forall>t. close_event t \<notin> set xs)
     | Err e \<Rightarrow> (\<exists>ys opened. xs = ys @ map close_event ((tabs @ [tab]) @ opened) \<and> creations ys = Suc (length opened) \<and>
         length opened < length us \<and> (\<forall>t. close_event t \<notin> set ys))
     | Panic \<Rightarrow> False"
      using Cons.IH by blast
    then have run: "open_tabs te tabs (u # us) br es = (q, es @ (?e # xs))"
      using r Ok by (simp add: attempt_def)
    show ?thesis
    proof (cases q)
      case (Ok tabs')
      then show ?thesis using run q by (auto simp: close_event_def)
    next
      case (Err e)
      then obtain ys opened where "xs = ys @ map close_event ((tabs @ [tab]) @ opened)" "creations ys = Suc (length opened)"
          "length opened < length us" "\<forall>t. close_event t \<notin> set ys"
        using q by auto
      then show ?thesis using run Err
        by (auto intro!: exI [of _ "?e # ys"] exI [of _ "tab # opened"] simp: close_event_def)
    qed (use q in simp)
  next
    case (Err e)
    then have "open_tabs te tabs (u # us) br es =
        (Err (Internal_Error (''failed to create tab for '' @ ue_url u @ '': '' @ show_vscreen_error e)),
         es @ ([?e] @ map close_event tabs))"
      using r Err by (simp add: attempt_def seq_def lift_def close_tabs_run)
    then show ?thesis by (auto intro!: exI [of _ "[?e]"] simp: close_event_def)
  qed (use \<open>r \<noteq> Panic\<close> in simp)
qed (simp add: ret_def)


text \<open>Two pages, the second of which gets no tab: the targets are numbered, and only the first can be
  connected to.\<close>

definition one_tab :: "cdp_client \<Rightarrow> tab_env" where
  "one_tab c = \<lparr>te_dial = (\<lambda>url. if url = endpoint_for_target ''0'' c then Ok () else Err ConnectionLost), te_client = c,
     te_browser = (\<lambda>_. quiet_browser JNull), te_seen = (\<lambda>_. []), te_join_error = []\<rparr>"

definition numbering_browser :: browser where
  "numbering_browser = (quiet_browser JNull)\<lparr>br_answer := (\<lambda>es _. Inr \<lparr>cm_id = Some 1, cm_method = None,
     cm_result = Some (JObj [(''targetId'', JStr (show_nat (length es)))]), cm_error = None, cm_params = None\<rparr>)\<rparr>"


end
