(* ===== verification/System.thy ===== *)
theory System
  imports Rtsp_Effects Http_Server Mcp_Core Mcp_Histories Mcp_Scrape
begin

section \<open>The whole server\<close>

text \<open>
  The components that share \<open>AppState\<close>, put together: HTTP requests, tool calls of agents, the
  RTSP server, the life of agents' sessions and the tasks that reap leases and streams. A step is
  one request, one tool call or one call on a manager; \<open>system_reachable\<close> holds of the states the
  server can get to from its start. The tools are joined as \<open>tool_router\<close> joins them.
\<close>

subsection \<open>All tools\<close>

datatype mcp_tool =
    Input_Tool input_tool
  | Navigate_Tool navigate_params
  | Wait_Tool wait_params
  | Session_Tool session_tool
  | Observation_Tool observation_tool
  | Workflow_Tool workflow_tool
  | Interact_Tool interact_tool

fun mcp_lock :: "mcp_tool \<Rightarrow> lock_type" where
  "mcp_lock (Input_Tool t) = tool_lock t"
| "mcp_lock (Navigate_Tool _) = Exclusive"
| "mcp_lock (Wait_Tool _) = Observer"
| "mcp_lock (Session_Tool t) = session_lock t"
| "mcp_lock (Observation_Tool t) = observation_lock t"
| "mcp_lock (Workflow_Tool t) = workflow_lock t"
| "mcp_lock (Interact_Tool _) = Exclusive"

text \<open>A message is a result of one text.\<close>

fun says :: "('e, string) outcome \<Rightarrow> ('e, content list) outcome" where
  "says (Ok s) = Ok [Says s]"
| "says (Err e) = Err e"
| "says Panic = Panic"

definition says_of ::
  "(app_state \<times> (mcp_error, string) outcome \<times> browser_event list) option
     \<Rightarrow> (app_state \<times> (mcp_error, content list) outcome \<times> browser_event list) option" where
  "says_of = map_option (\<lambda>(st, r, es). (st, says r, es))"

fun call_mcp_tool ::
  "mcp_env \<Rightarrow> instance_id \<Rightarrow> mcp_tool \<Rightarrow> app_state \<Rightarrow> browser \<Rightarrow> browser_event list
     \<Rightarrow> (app_state \<times> (mcp_error, content list) outcome \<times> browser_event list) option" where
  "call_mcp_tool env i (Input_Tool t) st br es = says_of (call_input_tool env i t st br es)"
| "call_mcp_tool env i (Navigate_Tool p) st br es = says_of (vscreen_navigate env i p st br es)"
| "call_mcp_tool env i (Wait_Tool p) st br es = says_of (vscreen_wait env (Some i) p st br es)"
| "call_mcp_tool env i (Session_Tool t) st br es = call_session_tool env i t st br es"
| "call_mcp_tool env i (Observation_Tool t) st br es = call_observation_tool env i t st br es"
| "call_mcp_tool env i (Workflow_Tool t) st br es = call_workflow_tool env i t st br es"
| "call_mcp_tool env i (Interact_Tool t) st br es = call_interact_tool env i t st br es"

definition say_body :: "(supervisor \<Rightarrow> (string \<times> supervisor) run) \<Rightarrow> supervisor \<Rightarrow> (content list \<times> supervisor) run" where
  "say_body body sv = and_run (body sv) (\<lambda>(s, sv'). returns (ret ([Says s], sv')))"

lemma says_of_run_tool:
  "says_of (run_tool env lt i refuse body st br es) = run_tool env lt i refuse (say_body body) st br es"
  by (auto simp: says_of_def run_tool_def say_body_def and_run_def returns_def ret_def Let_def
      split: option.splits prod.splits sum.splits outcome.splits)

lemma says_of_Some: "says_of m = Some (st', r, es') \<longleftrightarrow> (\<exists>q. m = Some (st', q, es') \<and> r = says q)"
  by (auto simp: says_of_def)

lemma said_behind_lock:
  assumes "m = Some (st', q, es') \<Longrightarrow> st' = st \<and> acts es' = acts es \<or>
      (\<exists>refuse body. run_tool env lt i refuse body st br es = Some (st', q, es'))"
    and "says_of m = Some (st', r, es')" and "r = says q" and "m = Some (st', q, es')"
  shows "st' = st \<and> acts es' = acts es \<or>
    (\<exists>refuse body. run_tool env lt i refuse body st br es = Some (st', r, es'))"
  using assms(1) [OF assms(4)]
proof
  assume "\<exists>refuse body. run_tool env lt i refuse body st br es = Some (st', q, es')"
  then obtain refuse body where "run_tool env lt i refuse body st br es = Some (st', q, es')" by blast
  then have "run_tool env lt i refuse (say_body body) st br es = Some (st', r, es')"
    unfolding says_of_run_tool [symmetric] by (simp add: says_of_def assms(3))
  then show ?thesis by blast
qed simp

interpretation all_tools: tool_family call_mcp_tool mcp_lock
proof
  fix env i t st br es st' r es'
  assume call: "call_mcp_tool env i t st br es = Some (st', r, es')"
  show "st' = st \<and> acts es' = acts es \<or>
      (\<exists>refuse body. run_tool env (mcp_lock t) i refuse body st br es = Some (st', r, es'))"
  proof (cases t)
    case (Input_Tool x)
    with call have c: "says_of (call_input_tool env i x st br es) = Some (st', r, es')" by simp
    then obtain q where q: "call_input_tool env i x st br es = Some (st', q, es')" "r = says q"
      unfolding says_of_Some by blast
    show ?thesis unfolding Input_Tool mcp_lock.simps
      by (rule said_behind_lock [OF input_tools.behind_lock c q(2,1)])
  next
    case (Navigate_Tool x)
    with call have c: "says_of (vscreen_navigate env i x st br es) = Some (st', r, es')" by simp
    then obtain q where q: "vscreen_navigate env i x st br es = Some (st', q, es')" "r = says q"
      unfolding says_of_Some by blast
    show ?thesis unfolding Navigate_Tool mcp_lock.simps
      by (rule said_behind_lock [OF navigate_tool.behind_lock c q(2,1)])
  next
    case (Wait_Tool x)
    with call have c: "says_of (vscreen_wait env (Some i) x st br es) = Some (st', r, es')" by simp
    then obtain q where q: "vscreen_wait env (Some i) x st br es = Some (st', q, es')" "r = says q"
      unfolding says_of_Some by blast
    show ?thesis unfolding Wait_Tool mcp_lock.simps
      by (rule said_behind_lock [OF wait_tool.behind_lock c q(2,1)])
  next
    case (Session_Tool x)
    with call have c: "call_session_tool env i x st br es = Some (st', r, es')" by simp
    show ?thesis unfolding Session_Tool mcp_lock.simps by (rule session_tools.behind_lock [OF c])
  next
    case (Observation_Tool x)
    with call have c: "call_observation_tool env i x st br es = Some (st', r, es')" by simp
    show ?thesis unfolding Observation_Tool mcp_lock.simps by (rule observation_tools.behind_lock [OF c])
  next
    case (Workflow_Tool x)
    with call have c: "call_workflow_tool env i x st br es = Some (st', r, es')" by simp
    show ?thesis unfolding Workflow_Tool mcp_lock.simps by (rule workflow_tools.behind_lock [OF c])
  next
    case (Interact_Tool x)
    with call have c: "call_interact_tool env i x st br es = Some (st', r, es')" by simp
    show ?thesis unfolding Interact_Tool mcp_lock.simps by (rule interact_tools.behind_lock [OF c])
  qed
qed

subsection \<open>Steps\<close>

inductive system_step :: "app_state \<Rightarrow> app_state \<Rightarrow> bool" where
  system_http: "serve env metrics enc meta r st br es = (Ok (st', resp), es') \<Longrightarrow> system_step st st'"
| system_tool: "call_mcp_tool menv i t st br es = Some (st', res, es') \<Longrightarrow> system_step st st'"
| system_manage: "vscreen_synthesis_manage menv sy mp st br w = Some (st', res', w') \<Longrightarrow> system_step st st'"
| system_synthesize: "vscreen_synthesize menv sy zp st br w = Some (st', res', w') \<Longrightarrow> system_step st st'"
| system_scrape: "vscreen_synthesis_scrape menv sy te ap st br w = Some (st', res', w') \<Longrightarrow> system_step st st'"
| system_scrape_and_create:
    "vscreen_synthesis_scrape_and_create menv sy te qp st br w = Some (st', res', w') \<Longrightarrow> system_step st st'"
| system_stream_tool: "vscreen_rtsp_teardown menv i sid st = (st', res) \<Longrightarrow> system_step st st'"
| system_connect: "system_step st (fst (mcp_server_new sid st))"
| system_disconnect: "system_step st (mcp_server_drop server st)"
| system_locks: "lm_step (as_lock_manager st) m \<Longrightarrow> system_step st (st\<lparr>as_lock_manager := m\<rparr>)"
| system_start: "system_step st (set_supervisor i (supervisor_new config tasks) st)"
| system_relay: "get_supervisor i st = Some sv \<Longrightarrow> relay_input checks ev sv br es = (Ok sv', es') \<Longrightarrow>
    system_step st (set_supervisor i sv' st)"
| system_state: "system_step st (st\<lparr>as_registry := send_state i is (as_registry st)\<rparr>)"
| system_keyframe: "system_step st (lookup_request_keyframe i st)"
| system_listen: "as_rtsp_manager st = None \<Longrightarrow>
    system_step st (st\<lparr>as_rtsp_manager := Some (manager_with_timeout t)\<rparr>)"
| system_rtsp: "as_rtsp_manager st = Some m \<Longrightarrow> rtsp_step m m' \<Longrightarrow>
    system_step st (st\<lparr>as_rtsp_manager := Some m'\<rparr>)"

inductive system_reachable :: "app_config \<Rightarrow> app_state \<Rightarrow> bool" for config where
  system_new: "system_reachable config (app_state_new config)"
| system_next: "system_reachable config st \<Longrightarrow> system_step st st' \<Longrightarrow> system_reachable config st'"

subsection \<open>The invariant\<close>

definition limit :: "app_state \<Rightarrow> nat" where
  "limit st = unat (max_instances (app_limits (as_config st)))"

definition system_inv :: "app_state \<Rightarrow> bool" where
  "system_inv st \<longleftrightarrow>
     lm_reachable (as_lock_manager st) \<and> registry_inv (as_registry st) \<and> registry_len (as_registry st) \<le> limit st \<and>
     tab_all (\<lambda>_ sv. histories_ok sv) (as_supervisors st) \<and>
     (case as_rtsp_manager st of None \<Rightarrow> True | Some m \<Rightarrow> rtsp_inv m)"

lemma system_inv_new: "system_inv (app_state_new config)" "as_config (app_state_new config) = config"
  by (simp_all add: system_inv_def app_state_new_def reach_new registry_inv_def registry_len_def tab_keys_def)

lemma system_inv_locks: "system_inv st \<Longrightarrow> lm_reachable m \<Longrightarrow> system_inv (st\<lparr>as_lock_manager := m\<rparr>)"
  by (simp add: system_inv_def limit_def)

lemma system_inv_supervisor: "system_inv st \<Longrightarrow> histories_ok sv \<Longrightarrow> system_inv (set_supervisor i sv st)"
  by (auto simp: system_inv_def limit_def set_supervisor_def)

lemma system_inv_histories: "system_inv st \<Longrightarrow> get_supervisor i st = Some sv \<Longrightarrow> histories_ok sv"
  by (auto simp: system_inv_def get_supervisor_def dest: tab_all_get)

lemma system_inv_rtsp: "system_inv st \<Longrightarrow> rtsp_inv m \<Longrightarrow> system_inv (st\<lparr>as_rtsp_manager := Some m\<rparr>)"
  by (simp add: system_inv_def limit_def)

lemma system_inv_registry:
  "system_inv st \<Longrightarrow> registry_inv r \<Longrightarrow> registry_len r \<le> limit st \<Longrightarrow> system_inv (st\<lparr>as_registry := r\<rparr>)"
  by (simp add: system_inv_def limit_def)

subsection \<open>Requests keep it\<close>

lemma create_keeps:
  assumes "system_inv st"
  shows "system_inv (fst (create_instance b st))"
proof -
  let ?c = "config_of_request b"
  let ?cap = "max_instances (app_limits (as_config st))"
  have "registry_inv r' \<and> registry_len r' \<le> limit st"
    if "registry_create ?c ?cap (as_registry st) = (r', x)" for r' x
  proof (cases "create_check ?cap ?c (as_registry st)")
    case (Inl e)
    then show ?thesis using that assms by (simp add: registry_create_def system_inv_def)
  next
    case (Inr u)
    then have ok: "create_check ?cap ?c (as_registry st) = Inr ()" by simp
    have r: "r' = fst (create_insert ?c (as_registry st))" using that ok by (simp add: registry_create_def)
    have inv: "registry_inv (as_registry st)" "tab_invar (as_registry st)"
      using assms by (simp_all add: system_inv_def registry_inv_def)
    have "registry_len r' \<le> Suc (registry_len (as_registry st))"
      unfolding r by (rule registry_len_steps(1) [OF inv(2)])
    then show ?thesis
      using create_check_ok [OF ok] registry_inv_insert [OF inv(1)] by (simp add: r limit_def)
  qed
  then show ?thesis using assms
    by (auto simp: create_instance_def Let_def system_inv_registry split: prod.split sum.split)
qed

lemma supervisor_removed: "system_inv st \<Longrightarrow> system_inv (fst (remove_supervisor i st))"
  by (auto simp: remove_supervisor_def system_inv_def limit_def split: option.split)

lemma delete_keeps:
  assumes "system_inv st"
  shows "system_inv (fst (delete_instance i st))"
proof -
  have "system_inv (st\<lparr>as_registry := fst (registry_remove i (as_registry st))\<rparr>)"
    using assms registry_inv_remove registry_len_steps(2) [of i "as_registry st"]
    by (intro system_inv_registry) (auto simp: system_inv_def)
  then show ?thesis using assms supervisor_removed
    by (auto simp: delete_instance_def split: prod.split sum.split)
qed

lemma state_handler_keeps:
  assumes "system_inv st"
  shows "system_inv (fst (state_handler env i sv op st))"
proof -
  have "system_inv (with_supervisor i history_clear st)" "system_inv (with_supervisor i console_clear_sv st)"
    using assms system_inv_histories [OF assms]
    by (auto simp: with_supervisor_def get_supervisor_def history_clear_def console_clear_sv_def
        intro!: system_inv_supervisor split: option.split)
  moreover have "system_inv (fst (audio_stream_teardown sid st))" for sid
  proof (cases "as_rtsp_manager st")
    case (Some m)
    then have "rtsp_inv (fst (remove_session sid m))" using assms by (auto simp: system_inv_def intro: rtsp_inv_remove)
    then show ?thesis using Some assms
      by (auto simp: audio_stream_teardown_def system_inv_rtsp split: prod.split option.split)
  qed (simp add: audio_stream_teardown_def assms)
  ultimately show ?thesis using assms by (cases op) simp_all
qed

lemma api_keeps:
  assumes "handle_api env metrics r st br es = (Ok (st', resp), es')" and "system_inv st"
  shows "system_inv st'"
proof (cases r)
  case (OnState i op)
  then show ?thesis using assms state_handler_keeps [OF assms(2)]
    by (auto simp: ret_def split: sum.splits) (metis fst_conv)
qed (use assms create_keeps [OF assms(2)] delete_keeps [OF assms(2)] in
    \<open>auto simp: ret_def seq_Ok_iff split: sum.splits\<close>, (metis fst_conv)+)

subsection \<open>Tool calls keep it\<close>

lemma require_lock_reachable:
  assumes "lm_reachable m"
  shows "lm_reachable (fst (require_lock single now tok1 tok2 i sid required m))"
proof -
  have r: "lm_reachable (fst (require_lock_reclaim now tok2 i sid required m'))" if "lm_reachable m'" for m'
    using that auto_acquire_reachable [OF reachable_reclaim [OF that], of now tok2 i sid required]
    by (auto simp: require_lock_reclaim_def case_prod_unfold Let_def split: sum.split)
  show ?thesis
    using assms r auto_acquire_reachable [OF assms, of now tok1 i sid required]
    by (auto simp: require_lock_def case_prod_unfold Let_def split: sum.split lock_error.split)
qed

lemma run_tool_keeps:
  assumes "run_tool env required i refuse body st br es = Some (st', r, es')"
    and "keeps_histories (Inr body)" and "system_inv st"
  shows "system_inv st'"
proof -
  obtain lm a where l: "require_lock (as_single_agent_mode st) (me_now env) (fst (me_tokens env))
      (snd (me_tokens env)) i (me_session env) required (as_lock_manager st) = (lm, a)" by fastforce
  let ?st = "st\<lparr>as_lock_manager := lm\<rparr>"
  have "lm_reachable lm"
    using require_lock_reachable [of "as_lock_manager st"] assms(3) l by (metis fst_conv system_inv_def)
  then have inv: "system_inv ?st" by (rule system_inv_locks [OF assms(3)])
  have "st' = ?st \<or> (\<exists>sv sv' msg es1. get_supervisor i ?st = Some sv \<and> body sv br es = Some (Ok (msg, sv'), es1) \<and>
      st' = set_supervisor i sv' ?st)"
    using assms(1) by (auto simp: run_tool_def l Let_def split: sum.splits option.splits prod.splits outcome.splits)
  then show ?thesis
    using inv system_inv_histories [OF inv, of i] system_inv_supervisor [OF inv] assms(2)
    unfolding keeps_histories_def by metis
qed

lemma wait_body_keeps: "keeps_histories (Inr (\<lambda>sv. and_run loop (\<lambda>msg. returns (ret (msg, sv)))))"
  by (rule keeps_run) (auto simp: results)

lemma tool_keeps:
  assumes "call_mcp_tool env i t st br es = Some (st', r, es')" and "system_inv st"
  shows "system_inv st'"
proof (cases t)
  case (Input_Tool x)
  with assms(1) obtain q where "call_input_tool env i x st br es = Some (st', q, es')" by (auto simp: says_of_Some)
  then show ?thesis
    using run_tool_keeps [OF _ _ assms(2)] input_tools_keep [of env x] assms(2)
    by (auto simp: call_input_tool_def split: sum.splits)
next
  case (Navigate_Tool p)
  with assms(1) obtain q where "vscreen_navigate env i p st br es = Some (st', q, es')" by (auto simp: says_of_Some)
  then show ?thesis
    using run_tool_keeps [OF _ _ assms(2)] navigate_keeps [of env p] assms(2)
    by (auto simp: vscreen_navigate_def split: sum.splits)
next
  case (Wait_Tool p)
  with assms(1) obtain q where "vscreen_wait env (Some i) p st br es = Some (st', q, es')" by (auto simp: says_of_Some)
  then show ?thesis
    using run_tool_keeps [OF _ wait_body_keeps assms(2)] assms(2)
    by (auto simp: vscreen_wait_def split: sum.splits wait_kind.splits)
next
  case (Session_Tool x)
  with assms(1) have "call_session_tool env i x st br es = Some (st', r, es')" by simp
  then show ?thesis
    using run_tool_keeps [OF _ _ assms(2)] session_tools_keep [of env x] assms(2)
    by (auto simp: call_session_tool_def split: sum.splits)
next
  case (Observation_Tool x)
  with assms(1) have "call_observation_tool env i x st br es = Some (st', r, es')" by simp
  then show ?thesis
    using run_tool_keeps [OF _ observation_keeps assms(2)] assms(2)
    by (auto simp: call_observation_tool_def split: sum.splits)
next
  case (Workflow_Tool x)
  with assms(1) have "call_workflow_tool env i x st br es = Some (st', r, es')" by simp
  then show ?thesis
    using run_tool_keeps [OF _ workflow_tools_keep assms(2)] by (simp add: call_workflow_tool_def)
next
  case (Interact_Tool x)
  with assms(1) have "call_interact_tool env i x st br es = Some (st', r, es')" by simp
  then show ?thesis
    using run_tool_keeps [OF _ interact_tools_keep assms(2)] by (simp add: call_interact_tool_def)
qed

lemma stream_tool_keeps:
  assumes "system_inv st" and "vscreen_rtsp_teardown env i sid st = (st', r)"
  shows "system_inv st'"
proof (cases "as_rtsp_manager st")
  case (Some m)
  have "rtsp_inv (fst (remove_session sid m))" using assms(1) Some by (auto simp: system_inv_def intro: rtsp_inv_remove)
  then show ?thesis using Some assms
    by (cases "remove_session sid m") (auto simp: vscreen_rtsp_teardown_def system_inv_rtsp split: option.splits)
qed (use assms in \<open>simp add: vscreen_rtsp_teardown_def\<close>)

subsection \<open>Calls keep it\<close>

text \<open>The tools for synthesis pages change nothing of the state but locks.\<close>

definition locks_only :: "'a call \<Rightarrow> bool" where
  "locks_only m \<longleftrightarrow>
     (\<forall>st br w st' r w'. m st br w = Some (st', r, w') \<longrightarrow>
       (\<exists>lm. st' = st\<lparr>as_lock_manager := lm\<rparr> \<and> (lm_reachable (as_lock_manager st) \<longrightarrow> lm_reachable lm)))"

named_theorems locks_intros

lemma locks_onlyI:
  "(\<And>st br w st' r w'. m st br w = Some (st', r, w') \<Longrightarrow> st' = st) \<Longrightarrow> locks_only m"
  unfolding locks_only_def
proof (intro allI impI)
  fix st br w st' r w'
  assume "\<And>st br w st' r w'. m st br w = Some (st', r, w') \<Longrightarrow> st' = st" "m st br w = Some (st', r, w')"
  then have "st' = st" by blast
  then show "\<exists>lm. st' = st\<lparr>as_lock_manager := lm\<rparr> \<and> (lm_reachable (as_lock_manager st) \<longrightarrow> lm_reachable lm)"
    by (intro exI [of _ "as_lock_manager st"]) simp
qed

lemma locks_basic [locks_intros]:
  "locks_only (give a)" "locks_only (fail e)" "locks_only (browse m)" "locks_only (request sy failed meth url body)"
  "locks_only (require message v)" "locks_only (succeed what answer)" "locks_only (has_supervisor i)" "locks_only (of_outcome q)"
  "locks_only (synthesis_base_url sy)" "locks_only (check_urls us)"
  by (rule locks_onlyI, auto simp: give_def fail_def browse_def request_def require_def succeed_def has_supervisor_def
      of_outcome_def synthesis_base_url_def check_urls_def Let_def split: option.splits prod.splits if_splits)+

lemma locks_and_call [locks_intros]:
  assumes "locks_only m" and "\<And>a. locks_only (f a)"
  shows "locks_only (and_call m f)"
  unfolding locks_only_def
proof (intro allI impI)
  fix st br w st' r w'
  assume c: "and_call m f st br w = Some (st', r, w')"
  then obtain st1 q w1 where m: "m st br w = Some (st1, q, w1)" by (auto simp: and_call_def split: option.splits)
  then obtain lm where lm: "st1 = st\<lparr>as_lock_manager := lm\<rparr>" "lm_reachable (as_lock_manager st) \<longrightarrow> lm_reachable lm"
    using assms(1) unfolding locks_only_def by blast
  show "\<exists>lm. st' = st\<lparr>as_lock_manager := lm\<rparr> \<and> (lm_reachable (as_lock_manager st) \<longrightarrow> lm_reachable lm)"
  proof (cases q)
    case (Ok a)
    then have "f a st1 br w1 = Some (st', r, w')" using c m by (simp add: and_call_def)
    then obtain lm' where "st' = st1\<lparr>as_lock_manager := lm'\<rparr>" "lm_reachable (as_lock_manager st1) \<longrightarrow> lm_reachable lm'"
      using assms(2) unfolding locks_only_def by blast
    then show ?thesis using lm by auto
  qed (use c m lm in \<open>auto simp: and_call_def\<close>)
qed

lemma locks_exclusively [locks_intros]: "locks_only (exclusively env i)"
  unfolding locks_only_def
proof (intro allI impI)
  fix st br w st' r w'
  assume c: "exclusively env i st br w = Some (st', r, w')"
  let ?q = "require_lock (as_single_agent_mode st) (me_now env) (fst (me_tokens env)) (snd (me_tokens env)) i
      (me_session env) Exclusive (as_lock_manager st)"
  have "st' = st\<lparr>as_lock_manager := fst ?q\<rparr>"
    using c by (simp add: exclusively_def require_exclusive_def Let_def split: prod.splits)
  then show "\<exists>lm. st' = st\<lparr>as_lock_manager := lm\<rparr> \<and> (lm_reachable (as_lock_manager st) \<longrightarrow> lm_reachable lm)"
    using require_lock_reachable by blast
qed

lemma locks_try [locks_intros]: "locks_only m \<Longrightarrow> locks_only (try_call m)"
  unfolding locks_only_def by (fastforce simp: try_call_def split: option.splits)

lemma locks_option [locks_intros]:
  "locks_only n \<Longrightarrow> (\<And>a. locks_only (m a)) \<Longrightarrow> locks_only (case v of None \<Rightarrow> n | Some a \<Rightarrow> m a)"
  by (cases v) simp_all

lemma locks_if [locks_intros]: "locks_only m \<Longrightarrow> locks_only n \<Longrightarrow> locks_only (if b then m else n)"
  by simp

lemma locks_prod [locks_intros]: "(\<And>a b. locks_only (m a b)) \<Longrightarrow> locks_only (case v of (a, b) \<Rightarrow> m a b)"
  by (cases v) simp

lemma locks_create_page [locks_intros]: "locks_only (create_page sy base failed what invalid body)"
  unfolding create_page_def by (intro locks_intros locks_onlyI) auto

lemma locks_supervisor [locks_intros]: "locks_only (need_supervisor i)"
  unfolding need_supervisor_def by (intro locks_intros)

lemma locks_scraping [locks_intros]: "locks_only (run_parallel_scrape env sy te us)"
proof -
  have "locks_only (\<lambda>st br (es, log). case scrape_tasks env sy te 0 0 us of
      None \<Rightarrow> None
    | Some (outs, pushes) \<Rightarrow> and_call (browse (returns (close_tabs tabs))) (\<lambda>_. give outs) st br (es, log @ pushes))" for tabs
    by (rule locks_onlyI) (auto simp: and_call_def browse_def returns_def give_def close_tabs_run split: option.splits prod.splits)
  then show ?thesis unfolding run_parallel_scrape_def by (intro locks_intros)
qed

lemma locks_single [locks_intros]: "locks_only (synthesis_scrape_single env sy i url n label)"
  unfolding synthesis_scrape_single_def
  by (intro locks_intros locks_onlyI) (auto simp: Let_def give_def split: prod.splits)

lemma synthesis_locks_only:
  "locks_only (vscreen_synthesis_manage env sy mp)" "locks_only (vscreen_synthesize env sy zp)"
  "locks_only (vscreen_synthesis_scrape env sy te ap)" "locks_only (vscreen_synthesis_scrape_and_create env sy te qp)"
  unfolding vscreen_synthesis_manage_def vscreen_synthesize_def vscreen_synthesis_scrape_def
    vscreen_synthesis_scrape_and_create_def synthesis_manage_create_def synthesis_manage_update_def synthesis_manage_delete_def
    synthesis_manage_list_def synthesis_manage_push_def synthesis_manage_save_def synthesis_manage_navigate_def
    create_and_show_def create_and_open_def synthesis_scrape_batch_def Let_def
  by (intro locks_intros)+

lemma call_keeps:
  assumes "locks_only m" and "m st br w = Some (st', r, w')" and "system_inv st"
  shows "system_inv st' \<and> as_config st' = as_config st"
proof -
  obtain lm where "st' = st\<lparr>as_lock_manager := lm\<rparr>" "lm_reachable (as_lock_manager st) \<longrightarrow> lm_reachable lm"
    using assms(1,2) unfolding locks_only_def by blast
  then show ?thesis using assms(3) system_inv_locks by (auto simp: system_inv_def)
qed

lemmas synthesis_keeps = synthesis_locks_only [THEN call_keeps]

subsection \<open>Every step keeps it\<close>

lemma relay_keeps:
  assumes "relay_input checks ev sv br es = (Ok sv', es')" and "histories_ok sv"
  shows "histories_ok sv'"
proof -
  have "sv_screenshots sv' = sv_screenshots sv \<and> sv_actions sv' = sv_actions sv \<and> sv_console sv' = sv_console sv"
    using assms(1)
    by (auto simp: relay_input_def results try_send_hint_def split: input_event.splits)
  then show ?thesis using assms(2) by (simp add: histories_ok_def)
qed

lemma keyframe_keeps: "system_inv st \<Longrightarrow> system_inv (lookup_request_keyframe i st)"
  using system_inv_histories [of st i]
  by (auto simp: lookup_request_keyframe_def with_supervisor_def get_supervisor_def request_keyframe_sv_def
      histories_ok_def intro!: system_inv_supervisor split: option.split)

lemma step_keeps: "system_step st st' \<Longrightarrow> system_inv st \<Longrightarrow> system_inv st'"
proof (induction rule: system_step.induct)
  case (system_http env metrics enc meta r st br es st' resp es')
  then show ?case using api_keeps by (auto simp: serve_def ret_def split: if_splits)
next
  case (system_tool menv i t st br es st' res es')
  then show ?case using tool_keeps by blast
next
  case system_manage
  then show ?case using synthesis_keeps(1) by blast
next
  case system_synthesize
  then show ?case using synthesis_keeps(2) by blast
next
  case system_scrape
  then show ?case using synthesis_keeps(3) by blast
next
  case system_scrape_and_create
  then show ?case using synthesis_keeps(4) by blast
next
  case (system_stream_tool menv i sid st st' res)
  then show ?case using stream_tool_keeps by blast
next
  case (system_connect st sid)
  then show ?case using reach_step [OF _ step_register]
    by (auto simp: mcp_server_new_def mcp_server_with_session_id_def system_inv_def limit_def)
next
  case (system_disconnect st server)
  then show ?case using reach_step [OF _ step_unregister]
    by (auto simp: mcp_server_drop_def session_guard_drop_def system_inv_def limit_def)
next
  case (system_locks st m)
  then show ?case using reach_step by (auto simp: system_inv_def limit_def)
next
  case (system_start st i config tasks)
  then show ?case by (simp add: system_inv_supervisor)
next
  case (system_relay i st sv checks ev br es sv' es')
  then show ?case using relay_keeps system_inv_histories system_inv_supervisor by blast
next
  case (system_state st i s)
  then have "tab_invar (as_registry st)" by (simp add: system_inv_def registry_inv_def)
  with system_state show ?case
    using registry_inv_send registry_len_steps(3) by (intro system_inv_registry) (auto simp: system_inv_def)
next
  case (system_keyframe st i)
  then show ?case by (rule keyframe_keeps)
next
  case (system_listen st t)
  then show ?case by (simp add: system_inv_rtsp rtsp_inv_new)
next
  case (system_rtsp st m m')
  then show ?case using rtsp_inv_step by (intro system_inv_rtsp) (auto simp: system_inv_def)
qed

lemma create_config [simp]: "as_config (fst (create_instance b st)) = as_config st"
  by (auto simp: create_instance_def Let_def split: prod.split sum.split)

lemma delete_config [simp]: "as_config (fst (delete_instance i st)) = as_config st"
  by (auto simp: delete_instance_def remove_supervisor_def split: prod.split sum.split option.split)

lemma with_supervisor_config [simp]: "as_config (with_supervisor i f st) = as_config st"
  by (auto simp: with_supervisor_def set_supervisor_def split: option.split)

lemma state_handler_config [simp]: "as_config (fst (state_handler env i sv op st)) = as_config st"
  by (cases op) (auto simp: audio_stream_teardown_def split: option.split prod.split)

lemma api_config: "handle_api env metrics r st br es = (Ok (st', resp), es') \<Longrightarrow> as_config st' = as_config st"
  by (cases r)
    (auto simp: ret_def seq_Ok_iff split: sum.splits dest!: arg_cong [where f = "\<lambda>x. as_config (fst x)"])

lemma run_tool_config: "run_tool env lt i refuse body st br es = Some (st', r, es') \<Longrightarrow> as_config st' = as_config st"
  by (auto simp: run_tool_def set_supervisor_def Let_def split: option.splits prod.splits sum.splits outcome.splits)

lemma tool_config: "call_mcp_tool env i t st br es = Some (st', r, es') \<Longrightarrow> as_config st' = as_config st"
  using all_tools.behind_lock [of env i t st br es st' r es'] run_tool_config by blast

lemma call_config: "locks_only m \<Longrightarrow> m st br w = Some (st', r, w') \<Longrightarrow> as_config st' = as_config st"
  unfolding locks_only_def by (metis app_state.select_convs app_state.surjective app_state.update_convs)

lemma core_config [simp]:
  "as_config (fst (mcp_server_new sid st)) = as_config st" "as_config (mcp_server_drop server st) = as_config st"
  by (simp_all add: mcp_server_new_def mcp_server_with_session_id_def mcp_server_drop_def)

lemma stream_tool_config: "vscreen_rtsp_teardown env i sid st = (st', r) \<Longrightarrow> as_config st' = as_config st"
  by (auto simp: vscreen_rtsp_teardown_def split: option.splits prod.splits)

lemma step_config: "system_step st st' \<Longrightarrow> as_config st' = as_config st"
  by (induction rule: system_step.induct)
    (auto dest!: synthesis_locks_only [THEN call_config] simp: serve_def ret_def set_supervisor_def lookup_request_keyframe_def
      dest: api_config tool_config stream_tool_config split: if_splits)

lemma system_inv_reachable: "system_reachable config st \<Longrightarrow> system_inv st \<and> as_config st = config"
  by (induction rule: system_reachable.induct)
    (auto simp: system_inv_new dest: step_config intro: step_keeps)

subsection \<open>Properties of the whole server\<close>



text \<open>C27: The server's tables are well formed in every such state: each instance is filed under its
  own, URL-safe identifier, the histories of a running instance hold at most 20 screenshots, 100
  actions and 200 console messages, and the configuration is the one the server was started with.\<close>

theorem system_well_formed:
  assumes "system_reachable config st"
  shows "as_config st = config \<and>
    (tab_get i (as_registry st) = Some e \<longrightarrow> is_url_safe i \<and> ic_instance_id (ie_config e) = i) \<and>
    (get_supervisor i st = Some sv \<longrightarrow>
      length (sy_entries (sv_screenshots sv)) \<le> 20 \<and> length (al_entries (sv_actions sv)) \<le> 100 \<and>
      length (cb_entries (sv_console sv)) \<le> 200)"
proof -
  have inv: "system_inv st" and config: "as_config st = config"
    using system_inv_reachable [OF assms] by simp_all
  have "histories_ok sv" if "get_supervisor i st = Some sv" by (rule system_inv_histories [OF inv that])
  then show ?thesis using inv config
    by (auto simp: system_inv_def registry_inv_def histories_ok_def dest: tab_all_get)
qed

lemma example_mcp_state_reachable: "system_reachable default_app example_mcp_state"
proof -
  have "example_mcp_state = set_supervisor ''dev'' (supervisor_new example_config []) (app_state_new default_app)"
    by (simp add: example_mcp_state_def set_supervisor_def app_state_new_def tab_insert_def)
  then show ?thesis using system_next [OF system_new system_start] by metis
qed

lemma system_well_formed_witness:
  "\<exists>sv. get_supervisor ''dev'' example_mcp_state = Some sv \<and> length (al_entries (sv_actions sv)) \<le> 100"
proof -
  have "get_supervisor ''dev'' example_mcp_state = Some (supervisor_new example_config [])"
    by (simp add: example_mcp_state_def get_supervisor_def tab_get_def)
  with system_well_formed [OF example_mcp_state_reachable, of "''dev''"] show ?thesis by blast
qed



lemma lock_manager_frame [simp]:
  "get_supervisor i (st\<lparr>as_lock_manager := m\<rparr>) = get_supervisor i st"
  "require_supervisor (st\<lparr>as_lock_manager := m\<rparr>) i = require_supervisor st i"
  "authorized (st\<lparr>as_lock_manager := m\<rparr>) p q = authorized st p q"
  "with_supervisor i f (st\<lparr>as_lock_manager := m\<rparr>) = (with_supervisor i f st)\<lparr>as_lock_manager := m\<rparr>"
  by (simp_all add: get_supervisor_def require_supervisor_def authorized_def with_supervisor_def set_supervisor_def
      split: option.split)

lemma create_frame:
  "create_instance b (st\<lparr>as_lock_manager := m\<rparr>) =
     (case create_instance b st of (st', resp) \<Rightarrow> (st'\<lparr>as_lock_manager := m\<rparr>, resp))"
  by (simp add: create_instance_def Let_def split: prod.split sum.split)

lemma delete_frame:
  "delete_instance i (st\<lparr>as_lock_manager := m\<rparr>) =
     (case delete_instance i st of (st', resp) \<Rightarrow> (st'\<lparr>as_lock_manager := m\<rparr>, resp))"
  by (simp add: delete_instance_def remove_supervisor_def split: prod.split sum.split option.split)

lemma state_frame:
  "state_handler env i sv op (st\<lparr>as_lock_manager := m\<rparr>) =
     (case state_handler env i sv op st of (st', resp) \<Rightarrow> (st'\<lparr>as_lock_manager := m\<rparr>, resp))"
  by (cases op)
    (simp_all add: audio_streams_def audio_stream_info_def audio_stream_teardown_def audio_health_def Let_def
      split: prod.split option.split)

lemma json_frame: "instance_json env (st\<lparr>as_lock_manager := m\<rparr>) = instance_json env st"
  by (intro ext) (simp add: instance_json_def)

lemma read_frame:
  "server_health (st\<lparr>as_lock_manager := m\<rparr>) = server_health st"
  "list_instances env (st\<lparr>as_lock_manager := m\<rparr>) = list_instances env st"
  "instance_health env i (st\<lparr>as_lock_manager := m\<rparr>) = instance_health env i st"
  "patch_video_config i b (st\<lparr>as_lock_manager := m\<rparr>) = patch_video_config i b st"
  "instance_sdp i (st\<lparr>as_lock_manager := m\<rparr>) = instance_sdp i st"
  "rtsp_all_sessions env (st\<lparr>as_lock_manager := m\<rparr>) = rtsp_all_sessions env st"
  "rtsp_health (st\<lparr>as_lock_manager := m\<rparr>) = rtsp_health st"
  by (simp_all add: server_health_def list_instances_def instance_health_def patch_video_config_def instance_sdp_def
      rtsp_all_sessions_def rtsp_health_def json_frame cong: sum.case_cong)

text \<open>C28: The HTTP API does not know the locks. What a request does and answers is the same whatever
  leases there are, and it changes none: an exclusive lease keeps other agents out, but nobody
  who holds the token of the API.\<close>

theorem http_ignores_locks:
  "serve env metrics enc meta r (st\<lparr>as_lock_manager := m\<rparr>) br es =
     (case serve env metrics enc meta r st br es of
        (Ok (st', resp), es') \<Rightarrow> (Ok (st'\<lparr>as_lock_manager := m\<rparr>, resp), es')
      | (Err e, es') \<Rightarrow> (Err e, es')
      | (Panic, es') \<Rightarrow> (Panic, es'))"
proof (cases "authorized st (path_of enc r) meta")
  case True
  show ?thesis
  proof (cases r)
    case (OnBrowser i op)
    then show ?thesis using True
      by (auto simp: serve_def ret_def seq_def split: sum.split prod.split outcome.split)
  next
    case (OnState i op)
    then show ?thesis using True by (simp add: serve_def ret_def state_frame split: sum.split prod.split)
  qed (use True in \<open>simp_all add: serve_def ret_def create_frame delete_frame read_frame split: prod.split\<close>)
qed (simp add: serve_def ret_def)

end
